(* ===== verification/Prelude.thy ===== *)
theory Prelude
  imports Main "HOL-Library.Signed_Division"
begin

text \<open>
  The shared base of the development: Go's 64-bit integers, the error values of
  \<^verbatim>\<open>gerror\<close>, and the effect type every stateful operation is written in
  (a function from the state to an error or a value, and the new state), with two small
  calculi over it: the success inversion rules of the collection \<open>ok_simps\<close> and the
  invariant rules of the collection \<open>pres\<close>.
\<close>

named_theorems ok_simps \<open>what a successful run of an effect means\<close>
named_theorems pres \<open>an effect preserves a predicate of the state\<close>
named_theorems frame \<open>what an operation leaves unchanged\<close>
named_theorems reads \<open>an effect only reads the store\<close>
named_theorems run \<open>evaluation of an operation on a concrete state\<close>

section \<open>Go int64\<close>

text \<open>A Go \<^verbatim>\<open>int64\<close> is an \<open>int\<close> kept in range by \<open>i64\<close>, which wraps as two's
  complement addition and multiplication do.  Division truncates towards zero.\<close>

definition i64 :: "int \<Rightarrow> int" where
  "i64 x = signed_take_bit 63 x"

definition is_i64 :: "int \<Rightarrow> bool" where
  "is_i64 x \<longleftrightarrow> - (2 ^ 63) \<le> x \<and> x < 2 ^ 63"

definition go_div :: "int \<Rightarrow> int \<Rightarrow> int" where
  "go_div a b = i64 (a sdiv b)"

lemma i64_id: "is_i64 x \<Longrightarrow> i64 x = x"
  by (simp add: i64_def is_i64_def signed_take_bit_int_eq_self)

lemma is_i64_i64 [simp]: "is_i64 (i64 x)"
  using signed_take_bit_int_greater_eq_minus_exp [of 63 x] signed_take_bit_int_less_exp [of 63 x]
  by (simp add: i64_def is_i64_def)

lemma i64_i64 [simp]: "i64 (i64 x) = i64 x"
  by (simp add: i64_id)

lemma i64_0 [simp]: "i64 0 = 0"
  by (simp add: i64_id is_i64_def)

lemma i64_add_left [simp]: "i64 (i64 a + b) = i64 (a + b)"
  unfolding i64_def using signed_take_bit_add [of 63 "signed_take_bit 63 a" b]
  by (simp add: signed_take_bit_add)

lemma i64_add_right [simp]: "i64 (a + i64 b) = i64 (a + b)"
  using i64_add_left [of b a] by (simp add: add.commute)

lemma i64_cong_add: "i64 a = i64 a' \<Longrightarrow> i64 (a + b) = i64 (a' + b)"
  by (metis i64_add_left)

lemma i64_diff_right [simp]: "i64 (a - i64 b) = i64 (a - b)"
  unfolding i64_def using signed_take_bit_diff [of 63 a "signed_take_bit 63 b"]
  by (simp add: signed_take_bit_diff)

lemma i64_cancel: "i64 (a + b) = i64 (a + c) \<longleftrightarrow> i64 b = i64 c"
  using i64_cong_add [of "a + b" "a + c" "- a"] i64_cong_add [of b c a] by (auto simp: add.commute)

text \<open>Truncating division agrees with \<open>div\<close> on the non-negative values prices and
  token counts have.\<close>

lemma sdiv_nonneg: "0 \<le> a \<Longrightarrow> 0 < b \<Longrightarrow> a sdiv b = a div (b::int)"
  by (simp add: signed_divide_int_def sgn_if)

lemma go_div_nonneg:
  assumes "0 \<le> a" "0 < b" "is_i64 a" shows "go_div a b = a div b"
proof -
  have "0 \<le> a div b" using assms by (simp add: pos_imp_zdiv_nonneg_iff)
  moreover have "a div b \<le> a" using assms by (metis div_by_1 int_one_le_iff_zero_less zdiv_mono2 zero_less_one)
  ultimately have "is_i64 (a div b)" using assms by (simp add: is_i64_def)
  then show ?thesis using assms by (simp add: go_div_def sdiv_nonneg i64_id)
qed

section \<open>Errors\<close>

text \<open>\<^verbatim>\<open>gerror.New\<close>, \<^verbatim>\<open>gerror.Newf\<close> (format and arguments) and
  \<^verbatim>\<open>gerror.Wrap\<close>; \<open>ErrDB\<close> is an error the database driver reports with its text, \<open>ErrNoRows\<close> is
  \<^verbatim>\<open>sql.ErrNoRows\<close>, \<open>ErrUnique\<close> a violated UNIQUE constraint, \<open>ErrNet\<close> an error that
  implements \<^verbatim>\<open>net.Error\<close>, \<open>ErrURL\<close> a \<^verbatim>\<open>*url.Error\<close>, \<open>ErrExt\<close> any other error
  returned by code outside the repository.  \<open>ErrRelay\<close> is \<^verbatim>\<open>*constant.RelayError\<close>
  (\<^verbatim>\<open>internal/relay/constant/errors.go\<close>): status code, message, type and cause.
  \<open>ErrReturn\<close> is \<^verbatim>\<open>*override.ReturnError\<close>: message, status code, code, type, skip-retry.\<close>

datatype fmt_arg = AStr string | AInt int

datatype go_err =
    ErrNew string
  | ErrNewf string "fmt_arg list"
  | ErrWrap go_err string
  | ErrDB string
  | ErrNoRows
  | ErrUnique
  | ErrNet string
  | ErrURL string
  | ErrExt string
  | ErrRelay int string string "go_err option"
  | ErrReturn string int string string bool

text \<open>Decimal text of an integer (\<^verbatim>\<open>%d\<close>, \<^verbatim>\<open>strconv\<close>) and the message of an
  error, \<^verbatim>\<open>err.Error()\<close>.\<close>

fun show_nat :: "nat \<Rightarrow> string" where
  "show_nat n = (if n < 10 then [char_of (48 + n)] else show_nat (n div 10) @ [char_of (48 + n mod 10)])"

declare show_nat.simps [simp del]

definition show_int :: "int \<Rightarrow> string" where
  "show_int i = (if i < 0 then CHR ''-'' # show_nat (nat (- i)) else show_nat (nat i))"

fun show_arg :: "fmt_arg \<Rightarrow> string" where
  "show_arg (AStr s) = s"
| "show_arg (AInt i) = show_int i"

fun sprintf :: "string \<Rightarrow> fmt_arg list \<Rightarrow> string" where
  "sprintf (c # v # f) (a # args) =
     (if c = CHR ''%'' \<and> v \<in> set ''dsv'' then show_arg a @ sprintf f args
      else c # sprintf (v # f) (a # args))"
| "sprintf f args = f"

fun err_text :: "go_err \<Rightarrow> string" where
  "err_text (ErrNew m) = m"
| "err_text (ErrNewf f args) = sprintf f args"
| "err_text (ErrWrap e m) = m @ '': '' @ err_text e"
| "err_text (ErrDB m) = m"
| "err_text ErrNoRows = ''sql: no rows in result set''"
| "err_text ErrUnique = ''duplicate key value violates unique constraint''"
| "err_text (ErrNet m) = m"
| "err_text (ErrURL m) = m"
| "err_text (ErrExt m) = m"
| "err_text (ErrReturn m sc c ty sr) = (if m = [] then ''request blocked by param override'' else m)"
| "err_text (ErrRelay sc m ty c) = (case c of None \<Rightarrow> m | Some e \<Rightarrow> m @ '': '' @ err_text e)"

section \<open>Effects\<close>

type_synonym ('s, 'a) eff = "'s \<Rightarrow> (go_err + 'a) \<times> 's"

definition returnE :: "'a \<Rightarrow> ('s, 'a) eff" where
  "returnE a = (\<lambda>s. (Inr a, s))"

definition throwE :: "go_err \<Rightarrow> ('s, 'a) eff" where
  "throwE e = (\<lambda>s. (Inl e, s))"

definition bindE :: "('s, 'a) eff \<Rightarrow> ('a \<Rightarrow> ('s, 'b) eff) \<Rightarrow> ('s, 'b) eff" where
  "bindE m f = (\<lambda>s. case m s of (Inl e, s') \<Rightarrow> (Inl e, s') | (Inr a, s') \<Rightarrow> f a s')"

text \<open>\<open>tryE m\<close> is a call whose error the caller inspects itself (\<^verbatim>\<open>x, err := m()\<close>).\<close>

definition tryE :: "('s, 'a) eff \<Rightarrow> ('s, go_err + 'a) eff" where
  "tryE m = (\<lambda>s. case m s of (r, s') \<Rightarrow> (Inr r, s'))"

text \<open>\<open>wrapE msg m\<close> is \<^verbatim>\<open>if err != nil { return gerror.Wrap(err, msg) }\<close>.\<close>

definition wrapE :: "string \<Rightarrow> ('s, 'a) eff \<Rightarrow> ('s, 'a) eff" where
  "wrapE msg m = (\<lambda>s. case m s of (Inl e, s') \<Rightarrow> (Inl (ErrWrap e msg), s') | (Inr a, s') \<Rightarrow> (Inr a, s'))"

definition getsE :: "('s \<Rightarrow> 'a) \<Rightarrow> ('s, 'a) eff" where
  "getsE f = (\<lambda>s. (Inr (f s), s))"

definition liftE :: "go_err + 'a \<Rightarrow> ('s, 'a) eff" where
  "liftE r = (\<lambda>s. (r, s))"

text \<open>A \<^verbatim>\<open>for range\<close> loop that stops at the first error and collects its results.\<close>

fun mapE :: "('a \<Rightarrow> ('s, 'b) eff) \<Rightarrow> 'a list \<Rightarrow> ('s, 'b list) eff" where
  "mapE f [] = returnE []"
| "mapE f (x # xs) = bindE (f x) (\<lambda>y. bindE (mapE f xs) (\<lambda>ys. returnE (y # ys)))"

subsection \<open>Successful runs\<close>

lemma returnE_ok [ok_simps]: "returnE a s = (Inr b, s') \<longleftrightarrow> b = a \<and> s' = s"
  by (auto simp: returnE_def)

lemma throwE_ok [ok_simps]: "\<not> (throwE e s = (Inr b, s'))"
  by (simp add: throwE_def)

lemma bindE_ok [ok_simps]:
  "bindE m f s = (Inr b, s') \<longleftrightarrow> (\<exists>a s1. m s = (Inr a, s1) \<and> f a s1 = (Inr b, s'))"
  by (auto simp: bindE_def split: prod.splits sum.splits)

lemma wrapE_ok [ok_simps]: "wrapE msg m s = (Inr a, s') \<longleftrightarrow> m s = (Inr a, s')"
  by (auto simp: wrapE_def split: prod.splits sum.splits)

lemma tryE_ok [ok_simps]: "tryE m s = (Inr r, s') \<longleftrightarrow> m s = (r, s')"
  by (auto simp: tryE_def split: prod.splits)

lemma getsE_ok [ok_simps]: "getsE f s = (Inr a, s') \<longleftrightarrow> a = f s \<and> s' = s"
  by (auto simp: getsE_def)

lemma liftE_ok [ok_simps]: "liftE r s = (Inr a, s') \<longleftrightarrow> r = Inr a \<and> s' = s"
  by (auto simp: liftE_def)

lemmas eff_defs = returnE_def throwE_def bindE_def tryE_def wrapE_def getsE_def liftE_def

text \<open>Evaluation on a concrete state: the rules fire only on an effect that has its state, so
  the continuations of a program are not rewritten before their turn.\<close>

lemma bindE_run [run]:
  "bindE m f s = (case m s of (Inl e, s') \<Rightarrow> (Inl e, s') | (Inr a, s') \<Rightarrow> f a s')"
  by (simp add: bindE_def)

lemma tryE_run [run]: "tryE m s = (case m s of (r, s') \<Rightarrow> (Inr r, s'))"
  by (simp add: tryE_def)

lemma returnE_run [run]: "returnE a s = (Inr a, s)"
  by (simp add: returnE_def)

lemma throwE_run [run]: "throwE e s = (Inl e, s)"
  by (simp add: throwE_def)

lemma getsE_run [run]: "getsE f s = (Inr (f s), s)"
  by (simp add: getsE_def)

lemma liftE_run [run]: "liftE r s = (r, s)"
  by (simp add: liftE_def)

lemma wrapE_run [run]:
  "wrapE msg m s = (case m s of (Inl e, s') \<Rightarrow> (Inl (ErrWrap e msg), s') | (Inr a, s') \<Rightarrow> (Inr a, s'))"
  by (simp add: wrapE_def)

lemma i64_small [run]: "- 9223372036854775808 \<le> x \<Longrightarrow> x < 9223372036854775808 \<Longrightarrow> i64 x = x"
  by (simp add: i64_id is_i64_def)

declare Let_def [run]

lemma bindE_assoc: "bindE (bindE m f) g = bindE m (\<lambda>a. bindE (f a) g)"
  by (rule ext) (simp add: bindE_def split: prod.splits sum.splits)

lemma bindE_returnE [simp]: "bindE (returnE a) f = f a"
  by (rule ext) (simp add: bindE_def returnE_def)

subsection \<open>Preserved predicates\<close>

definition preserves :: "('s \<Rightarrow> bool) \<Rightarrow> ('s, 'a) eff \<Rightarrow> bool" where
  "preserves I m \<longleftrightarrow> (\<forall>s. I s \<longrightarrow> I (snd (m s)))"

lemma preservesD: "preserves I m \<Longrightarrow> I s \<Longrightarrow> I (snd (m s))"
  by (simp add: preserves_def)

lemma preserves_run: "preserves I m \<Longrightarrow> I s \<Longrightarrow> m s = (r, s') \<Longrightarrow> I s'"
  by (metis preserves_def snd_conv)

text \<open>An observation \<open>T\<close> of the state that an effect does not change.\<close>

lemma preserves_eq: "preserves (\<lambda>t. T t = T s) m \<Longrightarrow> m s = (r, s') \<Longrightarrow> T s' = T s"
  by (drule preserves_run [where I = "\<lambda>t. T t = T s"]) (rule refl)

lemma preserves_returnE [pres]: "preserves I (returnE a)"
  by (simp add: preserves_def returnE_def)

lemma preserves_throwE [pres]: "preserves I (throwE e)"
  by (simp add: preserves_def throwE_def)

lemma preserves_getsE [pres]: "preserves I (getsE f)"
  by (simp add: preserves_def getsE_def)

lemma preserves_liftE [pres]: "preserves I (liftE r)"
  by (simp add: preserves_def liftE_def)

lemma preserves_bindE [pres]:
  "preserves I m \<Longrightarrow> (\<And>a. preserves I (f a)) \<Longrightarrow> preserves I (bindE m f)"
  by (fastforce simp: preserves_def bindE_def split: prod.splits sum.splits dest: spec)

lemma preserves_tryE [pres]: "preserves I m \<Longrightarrow> preserves I (tryE m)"
  by (fastforce simp: preserves_def tryE_def split: prod.splits)

lemma preserves_wrapE [pres]: "preserves I m \<Longrightarrow> preserves I (wrapE msg m)"
  by (fastforce simp: preserves_def wrapE_def split: prod.splits sum.splits)

lemma preserves_if [pres]:
  "(b \<Longrightarrow> preserves I m) \<Longrightarrow> (\<not> b \<Longrightarrow> preserves I n) \<Longrightarrow> preserves I (if b then m else n)"
  by simp

lemma preserves_case_option [pres]:
  "preserves I m \<Longrightarrow> (\<And>x. preserves I (f x)) \<Longrightarrow> preserves I (case a of None \<Rightarrow> m | Some x \<Rightarrow> f x)"
  by (simp split: option.split)

lemma preserves_case_sum [pres]:
  "(\<And>x. preserves I (f x)) \<Longrightarrow> (\<And>x. preserves I (g x)) \<Longrightarrow>
   preserves I (case a of Inl x \<Rightarrow> f x | Inr x \<Rightarrow> g x)"
  by (simp split: sum.split)

lemma preserves_case_prod [pres]:
  "(\<And>x y. preserves I (f x y)) \<Longrightarrow> preserves I (case a of (x, y) \<Rightarrow> f x y)"
  by (simp split: prod.split)

lemma preserves_let [pres]: "(\<And>x. preserves I (f x)) \<Longrightarrow> preserves I (let x = a in f x)"
  by simp

lemma preserves_mapE [pres]: "(\<And>x. preserves I (f x)) \<Longrightarrow> preserves I (mapE f xs)"
  by (induction xs) (auto intro!: pres)

subsection \<open>Predicates kept by successful runs\<close>

text \<open>Inside a transaction only the runs that succeed matter, since the others are rolled
  back: \<open>keeps I m\<close> asks nothing of a run that returns an error.\<close>

named_theorems keep \<open>a successful run of an effect keeps a predicate\<close>

definition keeps :: "('s \<Rightarrow> bool) \<Rightarrow> ('s, 'a) eff \<Rightarrow> bool" where
  "keeps I m \<longleftrightarrow> (\<forall>s a s'. I s \<longrightarrow> m s = (Inr a, s') \<longrightarrow> I s')"

lemma keepsD: "keeps I m \<Longrightarrow> I s \<Longrightarrow> m s = (Inr a, s') \<Longrightarrow> I s'"
  by (auto simp: keeps_def)

lemma preserves_keeps [keep]: "preserves I m \<Longrightarrow> keeps I m"
  unfolding keeps_def using preserves_run by metis

lemma keeps_bindE [keep]: "keeps I m \<Longrightarrow> (\<And>a. keeps I (f a)) \<Longrightarrow> keeps I (bindE m f)"
  unfolding keeps_def bindE_ok by blast

lemma keeps_returnE [keep]: "keeps I (returnE a)"
  unfolding keeps_def returnE_ok by blast

lemma keeps_throwE [keep]: "keeps I (throwE e)"
  by (simp add: keeps_def throwE_def)

lemma keeps_wrapE [keep]: "keeps I m \<Longrightarrow> keeps I (wrapE msg m)"
  unfolding keeps_def wrapE_ok by blast

lemma keeps_if [keep]: "(b \<Longrightarrow> keeps I m) \<Longrightarrow> (\<not> b \<Longrightarrow> keeps I n) \<Longrightarrow> keeps I (if b then m else n)"
  by simp

lemma keeps_case_option [keep]:
  "keeps I m \<Longrightarrow> (\<And>x. keeps I (f x)) \<Longrightarrow> keeps I (case a of None \<Rightarrow> m | Some x \<Rightarrow> f x)"
  by (simp split: option.split)

lemma keeps_case_prod [keep]:
  "(\<And>x y. keeps I (f x y)) \<Longrightarrow> keeps I (case a of (x, y) \<Rightarrow> f x y)"
  by (simp split: prod.split)

lemma keeps_mapE [keep]: "(\<And>x. keeps I (f x)) \<Longrightarrow> keeps I (mapE f xs)"
  by (induction xs) (auto intro!: keeps_bindE keeps_returnE)

section \<open>Lists\<close>

lemma map_filter_append: "List.map_filter f (xs @ ys) = List.map_filter f xs @ List.map_filter f ys"
  by (simp add: List.map_filter_def)

end
