(* ===== verification/GoStrings.thy ===== *)
theory GoStrings
  imports Prelude "HOL-Library.Sublist"
begin

text \<open>
  The part of Go's \<^verbatim>\<open>strings\<close> package the code uses, over byte strings (a Go string is a
  sequence of bytes, \<open>char\<close> is a byte).  ToLower and TrimSpace are the ASCII case of theirs.
\<close>

definition HasPrefix :: "string \<Rightarrow> string \<Rightarrow> bool" where
  "HasPrefix s p \<longleftrightarrow> take (length p) s = p"

definition HasSuffix :: "string \<Rightarrow> string \<Rightarrow> bool" where
  "HasSuffix s p \<longleftrightarrow> length p \<le> length s \<and> drop (length s - length p) s = p"

definition TrimPrefix :: "string \<Rightarrow> string \<Rightarrow> string" where
  "TrimPrefix s p = (if HasPrefix s p then drop (length p) s else s)"

definition TrimSuffix :: "string \<Rightarrow> string \<Rightarrow> string" where
  "TrimSuffix s p = (if HasSuffix s p then take (length s - length p) s else s)"

text \<open>\<^verbatim>\<open>strings.Index\<close>, \<open>None\<close> for -1.\<close>

fun Index :: "string \<Rightarrow> string \<Rightarrow> nat option" where
  "Index [] p = (if p = [] then Some 0 else None)"
| "Index (c # s) p = (if HasPrefix (c # s) p then Some 0 else map_option Suc (Index s p))"

definition Contains :: "string \<Rightarrow> string \<Rightarrow> bool" where
  "Contains s p \<longleftrightarrow> Index s p \<noteq> None"

definition ToLowerC :: "char \<Rightarrow> char" where
  "ToLowerC c = (let n = (of_char c :: nat) in if 65 \<le> n \<and> n \<le> 90 then char_of (n + 32) else c)"

definition ToLower :: "string \<Rightarrow> string" where
  "ToLower s = map ToLowerC s"

definition ToUpperC :: "char \<Rightarrow> char" where
  "ToUpperC c = (let n = (of_char c :: nat) in if 97 \<le> n \<and> n \<le> 122 then char_of (n - 32) else c)"

definition ToUpper :: "string \<Rightarrow> string" where
  "ToUpper s = map ToUpperC s"

definition is_space :: "char \<Rightarrow> bool" where
  "is_space c \<longleftrightarrow> (let n = (of_char c :: nat) in n = 32 \<or> (9 \<le> n \<and> n \<le> 13))"

definition TrimSpace :: "string \<Rightarrow> string" where
  "TrimSpace s = rev (dropWhile is_space (rev (dropWhile is_space s)))"

definition TrimRight :: "string \<Rightarrow> string \<Rightarrow> string" where
  "TrimRight s cset = rev (dropWhile (\<lambda>c. c \<in> set cset) (rev s))"

fun Join :: "string list \<Rightarrow> string \<Rightarrow> string" where
  "Join [] sep = []"
| "Join [x] sep = x"
| "Join (x # y # xs) sep = x @ sep @ Join (y # xs) sep"

text \<open>Splitting at a one-byte separator.\<close>

fun SplitByte :: "char \<Rightarrow> string \<Rightarrow> string list" where
  "SplitByte b [] = [[]]"
| "SplitByte b (c # s) =
     (if c = b then [] # SplitByte b s
      else (case SplitByte b s of w # ws \<Rightarrow> (c # w) # ws | [] \<Rightarrow> [[c]]))"

text \<open>Package encoding/hex.  Decoding accepts both cases and fails on an odd length or another byte.\<close>

definition hex_digit :: "nat \<Rightarrow> char" where
  "hex_digit n = (if n < 10 then char_of (48 + n) else char_of (87 + n))"

definition hex_encode :: "string \<Rightarrow> string" where
  "hex_encode bs = concat (map (\<lambda>c. [hex_digit (of_char c div 16), hex_digit (of_char c mod 16)]) bs)"

definition hex_value :: "char \<Rightarrow> nat option" where
  "hex_value c = (let n = of_char c in
     if 48 \<le> n \<and> n \<le> 57 then Some (n - 48) else if 97 \<le> n \<and> n \<le> 102 then Some (n - 87)
     else if 65 \<le> n \<and> n \<le> 70 then Some (n - 55) else None)"

fun hex_decode :: "string \<Rightarrow> string option" where
  "hex_decode [] = Some []"
| "hex_decode [c] = None"
| "hex_decode (c # d # s) = (case (hex_value c, hex_value d, hex_decode s) of
     (Some a, Some b, Some r) \<Rightarrow> Some (char_of (16 * a + b) # r) | _ \<Rightarrow> None)"

declare HasPrefix_def [run] HasSuffix_def [run] TrimPrefix_def [run] TrimSuffix_def [run]
  Contains_def [run]

section \<open>Lemmas\<close>

lemma HasPrefix_iff: "HasPrefix s p \<longleftrightarrow> (\<exists>t. s = p @ t)"
  unfolding HasPrefix_def by (metis append_eq_conv_conj append_take_drop_id)

lemma HasPrefix_prefix: "HasPrefix s p \<longleftrightarrow> prefix p s"
  by (auto simp: HasPrefix_iff prefix_def)

lemma HasSuffix_iff: "HasSuffix s p \<longleftrightarrow> (\<exists>t. s = t @ p)"
  unfolding HasSuffix_def by (metis append_eq_conv_conj append_take_drop_id diff_add_inverse2 le_add2 length_append)

lemma HasSuffix_suffix: "HasSuffix s p \<longleftrightarrow> suffix p s"
  by (auto simp: HasSuffix_iff suffix_def)

lemma HasSuffix_append [simp]: "HasSuffix (t @ p) p"
  by (auto simp: HasSuffix_iff)

lemma HasPrefix_append [simp]: "HasPrefix (p @ t) p"
  by (auto simp: HasPrefix_iff)

lemma Index_Some: "Index s p = Some i \<Longrightarrow> HasPrefix (drop i s) p \<and> i \<le> length s"
  by (induction s arbitrary: i) (auto simp: HasPrefix_iff split: if_splits)

lemma Index_first: "Index s p = Some i \<Longrightarrow> j < i \<Longrightarrow> \<not> HasPrefix (drop j s) p"
proof (induction s arbitrary: i j)
  case (Cons c s)
  then show ?case by (cases j) (auto split: if_splits)
qed (auto split: if_splits)

lemma Index_None: "Index s p = None \<longleftrightarrow> (\<forall>i \<le> length s. \<not> HasPrefix (drop i s) p)"
proof (induction s)
  case Nil
  then show ?case by (auto simp: HasPrefix_def)
next
  case (Cons c s)
  show ?case
  proof
    assume "Index (c # s) p = None"
    then have "\<not> HasPrefix (c # s) p" "\<forall>i \<le> length s. \<not> HasPrefix (drop i s) p"
      using Cons by (auto split: if_splits)
    then show "\<forall>i \<le> length (c # s). \<not> HasPrefix (drop i (c # s)) p"
      by (auto simp: drop_Cons' )
  next
    assume *: "\<forall>i \<le> length (c # s). \<not> HasPrefix (drop i (c # s)) p"
    have "\<not> HasPrefix (c # s) p" using * by force
    moreover have "\<forall>i \<le> length s. \<not> HasPrefix (drop i s) p"
      using * by (metis Suc_le_mono drop_Suc_Cons length_Cons)
    ultimately show "Index (c # s) p = None" using Cons by simp
  qed
qed

text \<open>\<^verbatim>\<open>strings.Contains\<close> decides whether the pattern occurs.\<close>

lemma Contains_iff: "Contains s p \<longleftrightarrow> (\<exists>a b. s = a @ p @ b)"
proof
  assume "Contains s p"
  then obtain i where "Index s p = Some i" by (auto simp: Contains_def)
  then obtain b where "drop i s = p @ b" using Index_Some HasPrefix_iff by blast
  then show "\<exists>a b. s = a @ p @ b" by (metis append_take_drop_id)
next
  assume "\<exists>a b. s = a @ p @ b"
  then obtain a b where s: "s = a @ p @ b" by blast
  then have "HasPrefix (drop (length a) s) p" "length a \<le> length s" by (auto simp: HasPrefix_iff)
  then show "Contains s p" using Index_None by (auto simp: Contains_def)
qed

lemma SplitByte_Cons: "\<exists>w ws. SplitByte b s = w # ws"
  by (induction s) (auto split: list.splits)

lemma Join_split: "Join (SplitByte b s) [b] = s"
proof (induction s)
  case Nil
  then show ?case by simp
next
  case (Cons c s)
  obtain w ws where w: "SplitByte b s = w # ws" using SplitByte_Cons by blast
  then show ?case using Cons by (cases ws) auto
qed

lemma SplitByte_parts: "x \<in> set (SplitByte b s) \<Longrightarrow> b \<notin> set x"
  by (induction s arbitrary: x) (fastforce split: list.splits if_splits)+

lemma hex_value_digit: "n < 16 \<Longrightarrow> hex_value (hex_digit n) = Some n"
  by (auto simp: hex_value_def hex_digit_def Let_def)

text \<open>Decoding is the inverse of encoding.\<close>

lemma hex_roundtrip: "hex_decode (hex_encode s) = Some s"
proof (induction s)
  case Nil
  then show ?case by (simp add: hex_encode_def)
next
  case (Cons c s)
  have "(of_char c :: nat) < 256" by (rule nat_of_char_less_256)
  then have "hex_value (hex_digit (of_char c div 16)) = Some (of_char c div 16)"
    "hex_value (hex_digit (of_char c mod 16)) = Some (of_char c mod 16)"
    by (simp_all add: hex_value_digit less_mult_imp_div_less)
  then show ?case using Cons by (simp add: hex_encode_def)
qed

end
