(* ===== verification/RelayConst.thy ===== *)
theory RelayConst
  imports GoStrings
begin

text \<open>
  The constants of the relay, \<^verbatim>\<open>internal/relay/constant\<close>: relay modes and the mapping
  from request paths to them, provider types, task platforms and actions, the relay error and
  its classification.
\<close>

section \<open>Relay modes (relay_mode.go)\<close>

datatype RelayMode =
    RelayModeUnknown
  | RelayModeChatCompletions
  | RelayModeCompletions
  | RelayModeEmbeddings
  | RelayModeImagesGenerations
  | RelayModeAudioSpeech
  | RelayModeAudioTranscription
  | RelayModeRerank
  | RelayModeResponses
  | RelayModeRealtime
  | RelayModeClaudeMessages
  | RelayModeGeminiChat
  | RelayModeAudioTranslation
  | RelayModeVideoGenerations
  | RelayModeVideoFetch
  | RelayModeSunoSubmit
  | RelayModeSunoFetch
  | RelayModeModerations
  | RelayModeImagesEdits
  | RelayModeMjSubmit
  | RelayModeMjFetch
  | RelayModeMjImage
  | RelayModeResponsesCompact

definition mj_mode :: "string \<Rightarrow> RelayMode option" where
  "mj_mode path =
     (if HasPrefix path ''/mj/'' then
        if HasPrefix path ''/mj/submit/'' then Some RelayModeMjSubmit
        else if HasPrefix path ''/mj/task/'' \<and> HasSuffix path ''/fetch'' then Some RelayModeMjFetch
        else if HasPrefix path ''/mj/image/'' then Some RelayModeMjImage
        else None
      else None)"

definition suno_mode :: "string \<Rightarrow> RelayMode option" where
  "suno_mode path =
     (if HasPrefix path ''/suno/'' then
        if HasPrefix path ''/suno/submit/'' then Some RelayModeSunoSubmit
        else if path = ''/suno/fetch'' \<or> HasPrefix path ''/suno/fetch/'' then Some RelayModeSunoFetch
        else None
      else None)"

definition strip_query :: "string \<Rightarrow> string" where
  "strip_query path = (case Index path ''?'' of Some idx \<Rightarrow> take idx path | None \<Rightarrow> path)"

definition suffix_mode :: "string \<Rightarrow> RelayMode" where
  "suffix_mode path =
     (if HasSuffix path ''/chat/completions'' then RelayModeChatCompletions
      else if HasSuffix path ''/completions'' then RelayModeCompletions
      else if HasSuffix path ''/embeddings'' then RelayModeEmbeddings
      else if HasSuffix path ''/images/edits'' then RelayModeImagesEdits
      else if HasSuffix path ''/images/generations'' then RelayModeImagesGenerations
      else if HasSuffix path ''/audio/speech'' then RelayModeAudioSpeech
      else if HasSuffix path ''/audio/transcriptions'' then RelayModeAudioTranscription
      else if HasSuffix path ''/audio/translations'' then RelayModeAudioTranslation
      else if HasSuffix path ''/rerank'' then RelayModeRerank
      else if HasPrefix path ''/responses/compact'' then RelayModeResponsesCompact
      else if HasSuffix path ''/responses'' then RelayModeResponses
      else if HasSuffix path ''/realtime'' then RelayModeRealtime
      else if HasSuffix path ''/messages'' then RelayModeClaudeMessages
      else if HasSuffix path '':generateContent'' \<or> HasSuffix path '':streamGenerateContent''
        then RelayModeGeminiChat
      else if HasSuffix path ''/video/generations'' then RelayModeVideoGenerations
      else if Contains path ''/video/generations/'' then RelayModeVideoFetch
      else if HasSuffix path ''/moderations'' then RelayModeModerations
      else RelayModeUnknown)"

definition Path2RelayMode :: "string \<Rightarrow> RelayMode" where
  "Path2RelayMode path0 =
     (let path = TrimPrefix (TrimPrefix path0 ''/v1beta'') ''/v1''
      in case mj_mode path of Some m \<Rightarrow> m
         | None \<Rightarrow> (case suno_mode path of Some m \<Rightarrow> m
         | None \<Rightarrow> suffix_mode (strip_query path)))"

fun RelayMode_String :: "RelayMode \<Rightarrow> string" where
  "RelayMode_String RelayModeChatCompletions = ''chat_completions''"
| "RelayMode_String RelayModeCompletions = ''completions''"
| "RelayMode_String RelayModeEmbeddings = ''embeddings''"
| "RelayMode_String RelayModeImagesGenerations = ''images_generations''"
| "RelayMode_String RelayModeAudioSpeech = ''audio_speech''"
| "RelayMode_String RelayModeAudioTranscription = ''audio_transcriptions''"
| "RelayMode_String RelayModeAudioTranslation = ''audio_translations''"
| "RelayMode_String RelayModeRerank = ''rerank''"
| "RelayMode_String RelayModeResponses = ''responses''"
| "RelayMode_String RelayModeResponsesCompact = ''responses_compact''"
| "RelayMode_String RelayModeRealtime = ''realtime''"
| "RelayMode_String RelayModeClaudeMessages = ''claude_messages''"
| "RelayMode_String RelayModeGeminiChat = ''gemini_generate_content''"
| "RelayMode_String RelayModeVideoGenerations = ''video_generations''"
| "RelayMode_String RelayModeVideoFetch = ''video_fetch''"
| "RelayMode_String RelayModeSunoSubmit = ''suno_submit''"
| "RelayMode_String RelayModeSunoFetch = ''suno_fetch''"
| "RelayMode_String RelayModeModerations = ''moderations''"
| "RelayMode_String RelayModeImagesEdits = ''images_edits''"
| "RelayMode_String RelayModeMjSubmit = ''mj_submit''"
| "RelayMode_String RelayModeMjFetch = ''mj_fetch''"
| "RelayMode_String RelayModeMjImage = ''mj_image''"
| "RelayMode_String RelayModeUnknown = ''unknown''"

section \<open>Relay formats (relay_format.go)\<close>

definition RelayFormatOpenAI :: string where "RelayFormatOpenAI = ''openai''"
definition RelayFormatClaude :: string where "RelayFormatClaude = ''claude''"
definition RelayFormatGemini :: string where "RelayFormatGemini = ''gemini''"
definition RelayFormatResponses :: string where "RelayFormatResponses = ''responses''"

lemmas relay_format_consts [run] = RelayFormatOpenAI_def RelayFormatClaude_def RelayFormatGemini_def
  RelayFormatResponses_def

section \<open>Provider types (provider.go)\<close>

datatype ProviderType =
    ProviderOpenAI | ProviderClaude | ProviderGemini | ProviderAli | ProviderTencent
  | ProviderZhipu | ProviderDeepSeek | ProviderMoonshot | ProviderVolcengine | ProviderAWS
  | ProviderAzure | ProviderVertex | ProviderMistral | ProviderXAI | ProviderAI360
  | ProviderLingyi | ProviderBaiduV2 | ProviderCloudflare | ProviderOllama
  | ProviderSiliconFlow | ProviderXunfei | ProviderOpenRouter | ProviderXInference
  | ProviderMiniMax | ProviderSubmodel | ProviderCoze | ProviderDify | ProviderJimeng
  | ProviderCodex | ProviderSora | ProviderKling | ProviderSuno | ProviderMidjourney
  | ProviderOther int

text \<open>The number of a type; \<open>ProviderOther\<close> stands for any number without a constant.\<close>

fun provider_code :: "ProviderType \<Rightarrow> int" where
  "provider_code ProviderOpenAI = 1"
| "provider_code ProviderClaude = 2"
| "provider_code ProviderGemini = 3"
| "provider_code ProviderAli = 4"
| "provider_code ProviderTencent = 6"
| "provider_code ProviderZhipu = 7"
| "provider_code ProviderDeepSeek = 8"
| "provider_code ProviderMoonshot = 9"
| "provider_code ProviderVolcengine = 10"
| "provider_code ProviderAWS = 11"
| "provider_code ProviderAzure = 12"
| "provider_code ProviderVertex = 13"
| "provider_code ProviderMistral = 15"
| "provider_code ProviderXAI = 16"
| "provider_code ProviderAI360 = 17"
| "provider_code ProviderLingyi = 18"
| "provider_code ProviderBaiduV2 = 19"
| "provider_code ProviderCloudflare = 20"
| "provider_code ProviderOllama = 22"
| "provider_code ProviderSiliconFlow = 25"
| "provider_code ProviderXunfei = 26"
| "provider_code ProviderOpenRouter = 27"
| "provider_code ProviderXInference = 28"
| "provider_code ProviderMiniMax = 29"
| "provider_code ProviderSubmodel = 30"
| "provider_code ProviderCoze = 32"
| "provider_code ProviderDify = 33"
| "provider_code ProviderJimeng = 34"
| "provider_code ProviderCodex = 35"
| "provider_code ProviderSora = 37"
| "provider_code ProviderKling = 38"
| "provider_code ProviderSuno = 39"
| "provider_code ProviderMidjourney = 40"
| "provider_code (ProviderOther n) = n"

fun ProviderType_String :: "ProviderType \<Rightarrow> string" where
  "ProviderType_String ProviderOpenAI = ''OpenAI''"
| "ProviderType_String ProviderClaude = ''Claude''"
| "ProviderType_String ProviderGemini = ''Gemini''"
| "ProviderType_String ProviderAli = ''Ali''"
| "ProviderType_String ProviderTencent = ''Tencent''"
| "ProviderType_String ProviderZhipu = ''Zhipu''"
| "ProviderType_String ProviderDeepSeek = ''DeepSeek''"
| "ProviderType_String ProviderMoonshot = ''Moonshot''"
| "ProviderType_String ProviderVolcengine = ''Volcengine''"
| "ProviderType_String ProviderAWS = ''AWS Bedrock''"
| "ProviderType_String ProviderAzure = ''Azure OpenAI''"
| "ProviderType_String ProviderVertex = ''Vertex AI''"
| "ProviderType_String ProviderMistral = ''Mistral''"
| "ProviderType_String ProviderXAI = ''xAI''"
| "ProviderType_String ProviderAI360 = ''360''"
| "ProviderType_String ProviderLingyi = ''Lingyi''"
| "ProviderType_String ProviderBaiduV2 = ''Baidu V2''"
| "ProviderType_String ProviderCloudflare = ''Cloudflare''"
| "ProviderType_String ProviderOllama = ''Ollama''"
| "ProviderType_String ProviderSiliconFlow = ''SiliconFlow''"
| "ProviderType_String ProviderXunfei = ''Xunfei''"
| "ProviderType_String ProviderOpenRouter = ''OpenRouter''"
| "ProviderType_String ProviderXInference = ''XInference''"
| "ProviderType_String ProviderMiniMax = ''MiniMax''"
| "ProviderType_String ProviderSubmodel = ''Submodel''"
| "ProviderType_String ProviderCoze = ''Coze''"
| "ProviderType_String ProviderDify = ''Dify''"
| "ProviderType_String ProviderJimeng = ''Jimeng''"
| "ProviderType_String ProviderCodex = ''Codex''"
| "ProviderType_String ProviderSora = ''Sora''"
| "ProviderType_String ProviderKling = ''Kling''"
| "ProviderType_String ProviderSuno = ''Suno''"
| "ProviderType_String ProviderMidjourney = ''Midjourney''"
| "ProviderType_String (ProviderOther n) = ''Unknown''"

section \<open>Tasks (task.go)\<close>

text \<open>Platforms, actions and states are strings in the code; the status type is kept a string
  because it is read from upstream answers.\<close>

definition TaskPlatformSora :: string where "TaskPlatformSora = ''sora''"
definition TaskPlatformKling :: string where "TaskPlatformKling = ''kling''"
definition TaskPlatformSuno :: string where "TaskPlatformSuno = ''suno''"
definition TaskPlatformMidjourney :: string where "TaskPlatformMidjourney = ''midjourney''"
definition TaskPlatformVolcengine :: string where "TaskPlatformVolcengine = ''volcengine''"
definition TaskPlatformAli :: string where "TaskPlatformAli = ''ali''"

definition MjActions :: "string list" where
  "MjActions = [''imagine'', ''describe'', ''blend'', ''upscale'', ''variation'', ''reroll'',
     ''inpaint'', ''modal'', ''zoom'', ''custom_zoom'', ''shorten'', ''high_variation'',
     ''low_variation'', ''pan'', ''swap_face'', ''upload'', ''video'', ''edits'']"

definition TaskStatusSuccess :: string where "TaskStatusSuccess = ''SUCCESS''"
definition TaskStatusFailure :: string where "TaskStatusFailure = ''FAILURE''"

definition IsTerminal :: "string \<Rightarrow> bool" where
  "IsTerminal s \<longleftrightarrow> s = TaskStatusSuccess \<or> s = TaskStatusFailure"

fun ProviderTypeToTaskPlatform :: "ProviderType \<Rightarrow> string option" where
  "ProviderTypeToTaskPlatform ProviderSora = Some TaskPlatformSora"
| "ProviderTypeToTaskPlatform ProviderKling = Some TaskPlatformKling"
| "ProviderTypeToTaskPlatform ProviderSuno = Some TaskPlatformSuno"
| "ProviderTypeToTaskPlatform ProviderMidjourney = Some TaskPlatformMidjourney"
| "ProviderTypeToTaskPlatform ProviderVolcengine = Some TaskPlatformVolcengine"
| "ProviderTypeToTaskPlatform ProviderAli = Some TaskPlatformAli"
| "ProviderTypeToTaskPlatform _ = None"

fun RelayModeToTaskAction :: "RelayMode \<Rightarrow> string option" where
  "RelayModeToTaskAction RelayModeVideoGenerations = Some ''generate''"
| "RelayModeToTaskAction RelayModeSunoSubmit = Some ''music''"
| "RelayModeToTaskAction RelayModeMjSubmit = Some ''imagine''"
| "RelayModeToTaskAction _ = None"

section \<open>The relay error (errors.go)\<close>

definition NewUpstreamError :: "int \<Rightarrow> string \<Rightarrow> go_err option \<Rightarrow> go_err" where
  "NewUpstreamError sc m c = ErrRelay sc m ''upstream_error'' c"

definition NewChannelError :: "string \<Rightarrow> go_err option \<Rightarrow> go_err" where
  "NewChannelError m c = ErrRelay 503 m ''channel_error'' c"

definition NewAuthError :: "string \<Rightarrow> go_err" where
  "NewAuthError m = ErrRelay 401 m ''auth_error'' None"

definition NewRequestError :: "string \<Rightarrow> go_err option \<Rightarrow> go_err" where
  "NewRequestError m c = ErrRelay 400 m ''request_error'' c"

definition NewQuotaError :: "string \<Rightarrow> go_err option \<Rightarrow> go_err" where
  "NewQuotaError m c = ErrRelay 402 m ''insufficient_quota'' c"

definition NewRateLimitError :: "string \<Rightarrow> go_err" where
  "NewRateLimitError m = ErrRelay 429 m ''rate_limit_error'' None"

definition NewModelGoneError :: "string \<Rightarrow> string \<Rightarrow> go_err" where
  "NewModelGoneError modelName sunsetDate = ErrRelay 410
     (''model '' @ [CHR 0x27] @ modelName @ [CHR 0x27] @ '' has been sunset since '' @ sunsetDate) ''model_gone'' None"

text \<open>\<^verbatim>\<open>errors.As(err, &relayErr)\<close>: the first relay error of the chain, with its status
  code and type.\<close>

fun as_relay :: "go_err \<Rightarrow> (int \<times> string) option" where
  "as_relay (ErrRelay sc m ty c) = Some (sc, ty)"
| "as_relay (ErrWrap e m) = as_relay e"
| "as_relay _ = None"

definition retryable_status :: "int \<Rightarrow> bool" where
  "retryable_status sc \<longleftrightarrow> sc \<in> {429, 500, 502, 503, 504}"

definition relay_IsRetryable :: "go_err option \<Rightarrow> bool" where
  "relay_IsRetryable err = (case err of None \<Rightarrow> False
     | Some e \<Rightarrow> (case as_relay e of Some (sc, ty) \<Rightarrow> retryable_status sc | None \<Rightarrow> False))"

section \<open>Error categories (error_category.go)\<close>

datatype ErrorCategory =
    ErrorCategoryRateLimit
  | ErrorCategoryAuthError
  | ErrorCategoryTimeout
  | ErrorCategoryUpstreamError
  | ErrorCategoryServerError
  | ErrorCategoryNetworkError
  | ErrorCategoryUnknown

definition classifyByType :: "string \<Rightarrow> ErrorCategory" where
  "classifyByType ty =
     (if ty = ''rate_limit_error'' then ErrorCategoryRateLimit
      else if ty = ''auth_error'' then ErrorCategoryAuthError
      else if ty = ''insufficient_quota'' then ErrorCategoryUpstreamError
      else if ty = ''model_gone'' then ErrorCategoryUpstreamError
      else if ty = ''channel_error'' then ErrorCategoryServerError
      else if ty = ''upstream_error'' then ErrorCategoryUpstreamError
      else if ty = ''request_error'' then ErrorCategoryUpstreamError
      else ErrorCategoryUnknown)"

definition classifyRelayError :: "int \<Rightarrow> string \<Rightarrow> ErrorCategory" where
  "classifyRelayError sc ty =
     (if sc = 429 then ErrorCategoryRateLimit
      else if sc = 401 \<or> sc = 403 then ErrorCategoryAuthError
      else if sc = 504 then ErrorCategoryTimeout
      else if sc = 500 \<or> sc = 502 \<or> sc = 503 then ErrorCategoryServerError
      else if sc = 400 \<or> sc = 422 then ErrorCategoryUpstreamError
      else classifyByType ty)"

definition classifyRawError :: "go_err \<Rightarrow> ErrorCategory" where
  "classifyRawError err =
     (let msg = err_text err in
      if Contains msg ''deadline exceeded'' \<or> Contains msg ''context deadline'' then ErrorCategoryTimeout
      else if Contains msg ''connection refused'' \<or> Contains msg ''connection reset'' \<or>
          Contains msg ''DNS'' \<or> Contains msg ''no such host'' \<or>
          Contains msg ''TLS handshake'' \<or> Contains msg ''certificate'' then ErrorCategoryNetworkError
      else if Contains msg ''timeout'' \<or> Contains msg ''i/o timeout'' then ErrorCategoryTimeout
      else ErrorCategoryUnknown)"

definition ClassifyError :: "go_err option \<Rightarrow> ErrorCategory" where
  "ClassifyError err = (case err of None \<Rightarrow> ErrorCategoryUnknown
     | Some e \<Rightarrow> (case as_relay e of Some (sc, ty) \<Rightarrow> classifyRelayError sc ty
        | None \<Rightarrow> classifyRawError e))"

section \<open>Lemmas\<close>

lemma HasPrefix_query:
  assumes "c \<notin> set pre"
  shows "HasPrefix (p @ c # q) pre = HasPrefix p pre"
proof
  assume "HasPrefix (p @ c # q) pre"
  then obtain t where t: "p @ c # q = pre @ t" by (auto simp: HasPrefix_iff)
  show "HasPrefix p pre"
  proof (cases "length pre \<le> length p")
    case True
    then show ?thesis using t unfolding HasPrefix_def by (metis append_eq_append_conv_if)
  next
    case False
    have "c = (pre @ t) ! length p" using t [symmetric] by simp
    also have "\<dots> = pre ! length p" using False by (simp add: nth_append)
    finally have "c \<in> set pre" using False by simp
    then show ?thesis using assms by simp
  qed
next
  assume "HasPrefix p pre"
  then show "HasPrefix (p @ c # q) pre" by (auto simp: HasPrefix_iff)
qed

lemma TrimPrefix_query: "c \<notin> set pre \<Longrightarrow> TrimPrefix (p @ c # q) pre = TrimPrefix p pre @ c # q"
  by (auto simp: TrimPrefix_def HasPrefix_query) (simp add: HasPrefix_iff, auto)

lemma Index_single: "Index (p @ c # q) [c] = (if c \<in> set p then Index p [c] else Some (length p))"
  by (induction p) (auto simp: HasPrefix_def)

lemma Index_absent: "c \<notin> set p \<Longrightarrow> Index p [c] = None"
  by (induction p) (auto simp: HasPrefix_def)

lemma set_TrimPrefix: "set (TrimPrefix p pre) \<subseteq> set p"
  by (simp add: TrimPrefix_def set_drop_subset)

text \<open>Relay errors are made by these constructors only, possibly wrapped on the way up.\<close>

inductive relay_made :: "go_err \<Rightarrow> bool" where
  "relay_made (NewUpstreamError sc m c)"
| "relay_made (NewChannelError m c)"
| "relay_made (NewAuthError m)"
| "relay_made (NewRequestError m c)"
| "relay_made (NewQuotaError m c)"
| "relay_made (NewRateLimitError m)"
| "relay_made (NewModelGoneError n d)"
| "relay_made e \<Longrightarrow> relay_made (ErrWrap e m)"

lemmas relay_error_defs = NewUpstreamError_def NewChannelError_def NewAuthError_def NewRequestError_def
  NewQuotaError_def NewRateLimitError_def NewModelGoneError_def

lemma relay_made_as:
  "relay_made e \<Longrightarrow> \<exists>sc ty. as_relay e = Some (sc, ty) \<and> (retryable_status sc \<longleftrightarrow>
    classifyRelayError sc ty \<in> {ErrorCategoryRateLimit, ErrorCategoryTimeout, ErrorCategoryServerError})"
  by (induction rule: relay_made.induct)
    (auto simp: relay_error_defs retryable_status_def classifyRelayError_def classifyByType_def)

section \<open>Properties\<close>

text \<open>Outside the Midjourney and Suno routes a query string does not influence the
  relay mode of a path.\<close>

theorem Path2RelayMode_ignores_query:
  assumes "CHR ''?'' \<notin> set p"
    and "\<not> HasPrefix (TrimPrefix (TrimPrefix p ''/v1beta'') ''/v1'') ''/mj/''"
    and "\<not> HasPrefix (TrimPrefix (TrimPrefix p ''/v1beta'') ''/v1'') ''/suno/''"
  shows "Path2RelayMode (p @ ''?'' @ q) = Path2RelayMode p"
proof -
  let ?p = "TrimPrefix (TrimPrefix p ''/v1beta'') ''/v1''"
  have strip: "TrimPrefix (TrimPrefix (p @ ''?'' @ q) ''/v1beta'') ''/v1'' = ?p @ CHR ''?'' # q"
    by (simp add: TrimPrefix_query)
  have none: "mj_mode (?p @ CHR ''?'' # q) = None" "suno_mode (?p @ CHR ''?'' # q) = None"
    "mj_mode ?p = None" "suno_mode ?p = None"
    using assms(2,3) HasPrefix_query [of "CHR ''?''" "''/mj/''" ?p q] HasPrefix_query [of "CHR ''?''" "''/suno/''" ?p q]
    by (simp_all add: mj_mode_def suno_mode_def)
  have nq: "CHR ''?'' \<notin> set ?p"
    using assms(1) set_TrimPrefix by (metis subset_code(1))
  then have "Index ?p ''?'' = None" by (rule Index_absent)
  then have "strip_query ?p = ?p" by (simp add: strip_query_def)
  moreover have "strip_query (?p @ CHR ''?'' # q) = ?p"
    using nq by (simp add: strip_query_def Index_single)
  ultimately show ?thesis using none strip by (simp add: Path2RelayMode_def)
qed

theorem Path2RelayMode_ignores_query_witness:
  "Path2RelayMode (''/v1/chat/completions'' @ ''?'' @ ''a=b'') = RelayModeChatCompletions"
  using Path2RelayMode_ignores_query [of "''/v1/chat/completions''" "''a=b''"]
  by (simp add: Path2RelayMode_def mj_mode_def suno_mode_def strip_query_def suffix_mode_def
      TrimPrefix_def HasPrefix_def HasSuffix_def)

text \<open>On those routes it does: the suffix and equality tests see the query string.\<close>

lemma Path2RelayMode_mj_query:
  "Path2RelayMode ''/mj/task/7/fetch'' = RelayModeMjFetch"
  "Path2RelayMode ''/mj/task/7/fetch?x=1'' = RelayModeUnknown"
  "Path2RelayMode ''/suno/fetch?ids=1'' = RelayModeUnknown"
  by (simp_all add: Path2RelayMode_def mj_mode_def suno_mode_def strip_query_def suffix_mode_def
      TrimPrefix_def HasPrefix_def HasSuffix_def Contains_def)

text \<open>The retry decision and the error category agree on every error the relay
  makes, however often it has been wrapped: it is retried if and only if it is classified as a
  rate limit, a timeout or a server error.\<close>

theorem retry_iff_transient:
  assumes "relay_made e"
  shows "relay_IsRetryable (Some e) \<longleftrightarrow>
    ClassifyError (Some e) \<in> {ErrorCategoryRateLimit, ErrorCategoryTimeout, ErrorCategoryServerError}"
  using relay_made_as [OF assms] by (auto simp: relay_IsRetryable_def ClassifyError_def)

theorem retry_iff_transient_witness:
  "relay_IsRetryable (Some (ErrWrap (NewUpstreamError 502 ''bad gateway'' None) ''upstream request failed''))"
  using retry_iff_transient [OF relay_made.intros(8) [OF relay_made.intros(1)],
      of 502 "''bad gateway''" None "''upstream request failed''"]
  by (simp add: ClassifyError_def NewUpstreamError_def classifyRelayError_def)

end
