(* ===== verification/RelayCommon.thy ===== *)
theory RelayCommon
  imports RelayConst
begin

text \<open>
  Shared pieces of the relay, \<^verbatim>\<open>internal/relay/common\<close> and
  \<^verbatim>\<open>internal/relay/helper\<close>: the translation of finish reasons
  (reasonmap.go), token usage (usage.go, normalize.go), the status of a stream
  (stream_status.go, stream_result.go), model name suffixes (thinking.go, StripModelSuffix of
  handler.go) and one line of a server-sent event stream (stream.go).
\<close>

section \<open>Finish reasons (reasonmap.go)\<close>

definition OpenAIFinishReasonToClaude :: "string \<Rightarrow> string" where
  "OpenAIFinishReasonToClaude reason =
     (if reason = ''stop'' then ''end_turn''
      else if reason = ''length'' then ''max_tokens''
      else if reason = ''tool_calls'' then ''tool_use''
      else if reason = ''content_filter'' then ''refusal''
      else if reason \<noteq> [] then reason else ''end_turn'')"

definition ClaudeStopReasonToOpenAI :: "string \<Rightarrow> string" where
  "ClaudeStopReasonToOpenAI reason =
     (if reason \<in> {''end_turn'', ''stop_sequence'', ''pause_turn''} then ''stop''
      else if reason = ''max_tokens'' then ''length''
      else if reason = ''tool_use'' then ''tool_calls''
      else if reason = ''refusal'' then ''content_filter''
      else reason)"

text \<open>The reasons both Gemini translations read as a filtered answer.\<close>

definition GeminiFiltered :: "string set" where
  "GeminiFiltered = {''SAFETY'', ''RECITATION'', ''OTHER'', ''BLOCKLIST'', ''PROHIBITED'', ''SPII'',
     ''LANGUAGE'', ''IMAGE_SAFETY'', ''IMAGE_PROHIBITED_CONTENT'', ''IMAGE_OTHER'',
     ''NO_IMAGE'', ''IMAGE_RECITATION''}"

definition GeminiToolReasons :: "string set" where
  "GeminiToolReasons = {''MALFORMED_FUNCTION_CALL'', ''UNEXPECTED_TOOL_CALL'', ''TOO_MANY_TOOL_CALLS''}"

definition GeminiFinishReasonToOpenAI :: "string \<Rightarrow> string" where
  "GeminiFinishReasonToOpenAI reason =
     (if reason \<in> {''STOP'', ''FINISH_REASON_UNSPECIFIED''} then ''stop''
      else if reason = ''MAX_TOKENS'' then ''length''
      else if reason \<in> GeminiFiltered then ''content_filter''
      else if reason \<in> GeminiToolReasons then ''tool_calls''
      else if reason = ''TOOL_CALLS'' then ''tool_calls''
      else if reason \<in> {''MISSING_THOUGHT_SIGNATURE'', ''MALFORMED_RESPONSE''} then ''stop''
      else reason)"

definition OpenAIFinishReasonToGemini :: "string \<Rightarrow> string" where
  "OpenAIFinishReasonToGemini reason =
     (if reason = ''stop'' then ''STOP''
      else if reason = ''length'' then ''MAX_TOKENS''
      else if reason = ''content_filter'' then ''SAFETY''
      else if reason = ''tool_calls'' then ''STOP''
      else reason)"

definition ClaudeStopReasonToGemini :: "string \<Rightarrow> string" where
  "ClaudeStopReasonToGemini reason =
     (if reason \<in> {''end_turn'', ''stop_sequence'', ''pause_turn''} then ''STOP''
      else if reason = ''max_tokens'' then ''MAX_TOKENS''
      else if reason = ''tool_use'' then ''STOP''
      else if reason = ''refusal'' then ''SAFETY''
      else reason)"

definition GeminiFinishReasonToClaude :: "string \<Rightarrow> string" where
  "GeminiFinishReasonToClaude reason =
     (if reason \<in> {''STOP'', ''FINISH_REASON_UNSPECIFIED'', ''MISSING_THOUGHT_SIGNATURE'', ''MALFORMED_RESPONSE''}
        then ''end_turn''
      else if reason = ''MAX_TOKENS'' then ''max_tokens''
      else if reason \<in> GeminiFiltered then ''refusal''
      else if reason \<in> GeminiToolReasons then ''tool_use''
      else reason)"

lemmas reason_defs = OpenAIFinishReasonToClaude_def ClaudeStopReasonToOpenAI_def
  GeminiFinishReasonToOpenAI_def OpenAIFinishReasonToGemini_def ClaudeStopReasonToGemini_def
  GeminiFinishReasonToClaude_def GeminiFiltered_def GeminiToolReasons_def

section \<open>Token usage (usage.go, normalize.go)\<close>

record TokenDetails =
  td_CachedTokens :: int
  td_CachedCreationTokens :: int
  td_CachedCreation5mTokens :: int
  td_CachedCreation1hTokens :: int
  td_AudioTokens :: int
  td_TextTokens :: int
  td_ImageTokens :: int
  td_ReasoningTokens :: int
  td_AcceptedPredictionTokens :: int
  td_RejectedPredictionTokens :: int

record Usage =
  us_PromptTokens :: int
  us_CompletionTokens :: int
  us_TotalTokens :: int
  us_CacheCreationTokens :: int
  us_PromptTokensDetails :: "TokenDetails option"
  us_CompletionTokenDetails :: "TokenDetails option"
  us_CacheIncludedInPrompt :: bool

definition zero_Usage :: Usage where
  "zero_Usage = \<lparr>us_PromptTokens = 0, us_CompletionTokens = 0, us_TotalTokens = 0,
     us_CacheCreationTokens = 0, us_PromptTokensDetails = None, us_CompletionTokenDetails = None,
     us_CacheIncludedInPrompt = False\<rparr>"

definition NormalizeUsage :: "Usage option \<Rightarrow> Usage" where
  "NormalizeUsage u0 =
     (let u = (case u0 of None \<Rightarrow> zero_Usage | Some u \<Rightarrow> u)
      in if us_TotalTokens u = 0 then u\<lparr>us_TotalTokens := i64 (us_PromptTokens u + us_CompletionTokens u)\<rparr> else u)"

section \<open>The status of a stream (stream_status.go, stream_result.go)\<close>

datatype StreamEndReason =
    EndNone
  | StreamEndReasonDone
  | StreamEndReasonTimeout
  | StreamEndReasonClientGone
  | StreamEndReasonError
  | StreamEndReasonPanic
  | StreamEndReasonHandlerStop
  | StreamEndReasonPingFail
  | StreamEndReasonScannerErr
  | StreamEndReasonEOF

fun end_reason_text :: "StreamEndReason \<Rightarrow> string" where
  "end_reason_text EndNone = []"
| "end_reason_text StreamEndReasonDone = ''done''"
| "end_reason_text StreamEndReasonTimeout = ''timeout''"
| "end_reason_text StreamEndReasonClientGone = ''client_gone''"
| "end_reason_text StreamEndReasonError = ''error''"
| "end_reason_text StreamEndReasonPanic = ''panic''"
| "end_reason_text StreamEndReasonHandlerStop = ''handler_stop''"
| "end_reason_text StreamEndReasonPingFail = ''ping_fail''"
| "end_reason_text StreamEndReasonScannerErr = ''scanner_err''"
| "end_reason_text StreamEndReasonEOF = ''eof''"

definition maxStreamErrors :: nat where "maxStreamErrors = 20"

record StreamStatus =
  ss_endOnce :: bool
  ss_reason :: StreamEndReason
  ss_err :: "go_err option"
  ss_errors :: "string list"
  ss_errCount :: int

definition NewStreamStatus :: StreamStatus where
  "NewStreamStatus = \<lparr>ss_endOnce = False, ss_reason = EndNone, ss_err = None, ss_errors = [], ss_errCount = 0\<rparr>"

definition SetEndReason :: "StreamEndReason \<Rightarrow> go_err option \<Rightarrow> StreamStatus \<Rightarrow> StreamStatus" where
  "SetEndReason reason err s =
     (if ss_endOnce s then s else s\<lparr>ss_endOnce := True, ss_reason := reason, ss_err := err\<rparr>)"

definition RecordError :: "string \<Rightarrow> StreamStatus \<Rightarrow> StreamStatus" where
  "RecordError msg s =
     (let s1 = s\<lparr>ss_errCount := i64 (ss_errCount s + 1)\<rparr>
      in if length (ss_errors s) < maxStreamErrors then s1\<lparr>ss_errors := ss_errors s @ [msg]\<rparr> else s1)"

definition IsPartialStreamEnd :: "StreamStatus \<Rightarrow> bool" where
  "IsPartialStreamEnd s \<longleftrightarrow> ss_reason s = StreamEndReasonClientGone \<or> ss_reason s = StreamEndReasonScannerErr \<or>
     ss_reason s = StreamEndReasonTimeout \<or> ss_reason s = StreamEndReasonPingFail"

definition IsNormalEnd :: "StreamStatus \<Rightarrow> bool" where
  "IsNormalEnd s \<longleftrightarrow> ss_reason s = StreamEndReasonDone \<or> ss_reason s = StreamEndReasonHandlerStop \<or>
     ss_reason s = EndNone"

definition HasErrors :: "StreamStatus \<Rightarrow> bool" where
  "HasErrors s \<longleftrightarrow> ss_reason s = StreamEndReasonError \<or> ss_reason s = StreamEndReasonPanic \<or> ss_errCount s > 0"

definition stream_Summary :: "StreamStatus \<Rightarrow> string" where
  "stream_Summary s = (case ss_err s of
     Some e \<Rightarrow> end_reason_text (ss_reason s) @ '': '' @ err_text e
   | None \<Rightarrow> end_reason_text (ss_reason s))"

text \<open>\<^verbatim>\<open>StreamResult\<close> wraps the status of the stream (a pointer that may be nil)
  with a stop flag.\<close>

record StreamResult =
  sr2_status :: "StreamStatus option"
  sr2_stopped :: bool

definition NewStreamResult :: "StreamStatus option \<Rightarrow> StreamResult" where
  "NewStreamResult st = \<lparr>sr2_status = st, sr2_stopped = False\<rparr>"

definition sr_Error :: "go_err \<Rightarrow> StreamResult \<Rightarrow> StreamResult" where
  "sr_Error e r = r\<lparr>sr2_status := map_option (RecordError (''handler error: '' @ err_text e)) (sr2_status r)\<rparr>"

definition sr_Stop :: "go_err option \<Rightarrow> StreamResult \<Rightarrow> StreamResult" where
  "sr_Stop e r = r\<lparr>sr2_stopped := True,
     sr2_status := map_option (SetEndReason StreamEndReasonHandlerStop e) (sr2_status r)\<rparr>"

definition sr_Done :: "StreamResult \<Rightarrow> StreamResult" where
  "sr_Done r = r\<lparr>sr2_stopped := True,
     sr2_status := map_option (SetEndReason StreamEndReasonDone None) (sr2_status r)\<rparr>"

definition sr_reset :: "StreamResult \<Rightarrow> StreamResult" where
  "sr_reset r = r\<lparr>sr2_stopped := False\<rparr>"

section \<open>Model name suffixes (thinking.go, handler.go)\<close>

record ThinkingInfo =
  ti_BaseModel :: string
  ti_IsThinking :: bool
  ti_EffortLevel :: string
  ti_IsNoThinking :: bool

definition effortSuffixes :: "(string \<times> string) list" where
  "effortSuffixes = [(''-minimal'', ''minimal''), (''-medium'', ''medium''), (''-xhigh'', ''xhigh''),
     (''-high'', ''high''), (''-low'', ''low''), (''-max'', ''max'')]"

definition cut_suffix :: "string \<Rightarrow> string \<Rightarrow> string" where
  "cut_suffix m suf = take (length m - length suf) m"

definition ParseThinkingSuffix :: "string \<Rightarrow> ThinkingInfo" where
  "ParseThinkingSuffix modelName =
     (let info = \<lparr>ti_BaseModel = [], ti_IsThinking = False, ti_EffortLevel = [], ti_IsNoThinking = False\<rparr> in
      if HasSuffix modelName ''-thinking'' then
        info\<lparr>ti_IsThinking := True, ti_BaseModel := cut_suffix modelName ''-thinking''\<rparr>
      else if HasSuffix modelName ''-nothinking'' then
        info\<lparr>ti_IsNoThinking := True, ti_BaseModel := cut_suffix modelName ''-nothinking''\<rparr>
      else if HasSuffix modelName ''-none'' then
        info\<lparr>ti_IsNoThinking := True, ti_BaseModel := cut_suffix modelName ''-none''\<rparr>
      else (case find (\<lambda>s. HasSuffix modelName (fst s)) effortSuffixes of
          Some s \<Rightarrow> info\<lparr>ti_EffortLevel := snd s, ti_BaseModel := cut_suffix modelName (fst s)\<rparr>
        | None \<Rightarrow> info\<lparr>ti_BaseModel := modelName\<rparr>))"

definition knownSuffixes :: "string list" where
  "knownSuffixes = [''-thinking'', ''-nothinking'', ''-high'', ''-medium'', ''-low'', ''-xhigh'', ''-minimal'', ''-max'']"

definition StripModelSuffix :: "string \<Rightarrow> string" where
  "StripModelSuffix model = (case find (HasSuffix model) knownSuffixes of
     Some suf \<Rightarrow> cut_suffix model suf | None \<Rightarrow> model)"

section \<open>Server-sent events (stream.go)\<close>

definition WriteSSEData :: "string \<Rightarrow> string" where
  "WriteSSEData d = ''data: '' @ d @ [char_of (10::nat), char_of (10::nat)]"

definition WriteSSEEvent :: "string \<Rightarrow> string \<Rightarrow> string" where
  "WriteSSEEvent ev d = ''event: '' @ ev @ [char_of (10::nat)] @ ''data: '' @ d @ [char_of (10::nat), char_of (10::nat)]"

definition WriteSSEPing :: string where
  "WriteSSEPing = '': PING'' @ [char_of (10::nat), char_of (10::nat)]"

definition ExtractSSEData :: "string \<Rightarrow> string option" where
  "ExtractSSEData line =
     (if \<not> HasPrefix line ''data:'' then None
      else let data0 = drop 5 line;
               data1 = (case data0 of c # cs \<Rightarrow> if c = CHR '' '' then cs else data0 | [] \<Rightarrow> data0)
           in Some (TrimSpace data1))"

section \<open>Lemmas\<close>

text \<open>Any sequence of writers of the status, in the order their calls took effect.\<close>

datatype status_op = OpEnd StreamEndReason "go_err option" | OpError string

fun status_apply :: "status_op \<Rightarrow> StreamStatus \<Rightarrow> StreamStatus" where
  "status_apply (OpEnd r e) = SetEndReason r e"
| "status_apply (OpError m) = RecordError m"

fun first_end :: "status_op list \<Rightarrow> (StreamEndReason \<times> go_err option) option" where
  "first_end [] = None"
| "first_end (OpEnd r e # ops) = Some (r, e)"
| "first_end (OpError m # ops) = first_end ops"

fun error_msgs :: "status_op list \<Rightarrow> string list" where
  "error_msgs [] = []"
| "error_msgs (OpEnd r e # ops) = error_msgs ops"
| "error_msgs (OpError m # ops) = m # error_msgs ops"

lemma fold_ended:
  "ss_endOnce s \<Longrightarrow> ss_reason (fold status_apply ops s) = ss_reason s \<and> ss_err (fold status_apply ops s) = ss_err s"
proof (induction ops arbitrary: s)
  case (Cons x ops)
  then show ?case by (cases x) (auto simp: SetEndReason_def RecordError_def Let_def)
qed simp

lemma fold_first_end:
  "\<not> ss_endOnce s \<Longrightarrow>
    (ss_reason (fold status_apply ops s), ss_err (fold status_apply ops s)) =
      (case first_end ops of Some re \<Rightarrow> re | None \<Rightarrow> (ss_reason s, ss_err s))"
proof (induction ops arbitrary: s)
  case (Cons x ops)
  then show ?case
    by (cases x) (auto simp: SetEndReason_def RecordError_def Let_def fold_ended split: option.split)
qed simp

lemma fold_errors:
  "0 \<le> ss_errCount s \<Longrightarrow> ss_errCount s + int (length (error_msgs ops)) < 2 ^ 63 \<Longrightarrow> length (ss_errors s) \<le> maxStreamErrors \<Longrightarrow>
    ss_errCount (fold status_apply ops s) = ss_errCount s + int (length (error_msgs ops)) \<and>
    ss_errors (fold status_apply ops s) = take maxStreamErrors (ss_errors s @ error_msgs ops)"
proof (induction ops arbitrary: s)
  case (Cons x ops)
  show ?case
  proof (cases x)
    case (OpEnd r e)
    then show ?thesis using Cons by (simp add: SetEndReason_def)
  next
    case (OpError m)
    have "i64 (ss_errCount s + 1) = ss_errCount s + 1"
      using Cons.prems OpError by (simp add: i64_id is_i64_def)
    then show ?thesis
      using Cons.IH [of "RecordError m s"] Cons.prems OpError
      by (auto simp: RecordError_def Let_def take_Cons' Suc_diff_Suc)
  qed
qed simp

lemma NewStreamStatus_simps [simp]:
  "\<not> ss_endOnce NewStreamStatus" "ss_reason NewStreamStatus = EndNone" "ss_err NewStreamStatus = None"
  "ss_errors NewStreamStatus = []" "ss_errCount NewStreamStatus = 0"
  by (simp_all add: NewStreamStatus_def)

text \<open>At most one of several unrelated suffixes matches.\<close>

lemma HasSuffix_unique:
  "HasSuffix m a \<Longrightarrow> HasSuffix m b \<Longrightarrow> \<not> HasSuffix a b \<Longrightarrow> \<not> HasSuffix b a \<Longrightarrow> False"
  by (meson HasSuffix_suffix suffix_same_cases)

lemma HasSuffix_code: "HasSuffix s p \<longleftrightarrow> length p \<le> length s \<and> drop (length s - length p) s = p"
  by (rule HasSuffix_def)

definition all_suffixes :: "string list" where
  "all_suffixes = [''-thinking'', ''-nothinking'', ''-none'', ''-minimal'', ''-medium'', ''-xhigh'', ''-high'', ''-low'', ''-max'']"

lemma all_suffixes_unrelated_code: "\<forall>a \<in> set all_suffixes. \<forall>b \<in> set all_suffixes. a \<noteq> b \<longrightarrow> \<not> HasSuffix a b"
  by code_simp

lemma all_suffixes_unrelated:
  "a \<in> set all_suffixes \<Longrightarrow> b \<in> set all_suffixes \<Longrightarrow> a \<noteq> b \<Longrightarrow> \<not> HasSuffix a b"
  using all_suffixes_unrelated_code by blast

lemma only_suffix:
  "HasSuffix m a \<Longrightarrow> a \<in> set all_suffixes \<Longrightarrow> b \<in> set all_suffixes \<Longrightarrow> HasSuffix m b \<longleftrightarrow> b = a"
  using HasSuffix_unique all_suffixes_unrelated by metis

lemma find_unique: "x \<in> set xs \<Longrightarrow> P x \<Longrightarrow> (\<And>y. y \<in> set xs \<Longrightarrow> P y \<Longrightarrow> y = x) \<Longrightarrow> find P xs = Some x"
proof (cases "find P xs")
  case None
  then show "x \<in> set xs \<Longrightarrow> P x \<Longrightarrow> find P xs = Some x" by (auto simp: find_None_iff)
next
  case (Some y)
  then have "y \<in> set xs \<and> P y" by (auto simp: find_Some_iff)
  then show "(\<And>y. y \<in> set xs \<Longrightarrow> P y \<Longrightarrow> y = x) \<Longrightarrow> find P xs = Some x" using Some by simp
qed

lemma cut_suffix_append [simp]: "cut_suffix (b @ suf) suf = b"
  by (simp add: cut_suffix_def)

lemma StripModelSuffix_hit:
  assumes "suf \<in> set knownSuffixes"
  shows "StripModelSuffix (b @ suf) = b"
proof -
  have sub: "set knownSuffixes \<subseteq> set all_suffixes" by (auto simp: knownSuffixes_def all_suffixes_def)
  have "find (HasSuffix (b @ suf)) knownSuffixes = Some suf"
  proof (rule find_unique [OF assms])
    show "y = suf" if "y \<in> set knownSuffixes" "HasSuffix (b @ suf) y" for y
      using only_suffix [of "b @ suf" suf y] assms sub that by auto
  qed simp
  then show ?thesis by (simp add: StripModelSuffix_def)
qed

lemma StripModelSuffix_miss:
  "\<forall>suf \<in> set knownSuffixes. \<not> HasSuffix m suf \<Longrightarrow> StripModelSuffix m = m"
  by (simp add: StripModelSuffix_def) (metis (mono_tags) find_None_iff option.simps(4))

lemma effort_find:
  assumes "(suf, l) \<in> set effortSuffixes"
  shows "find (\<lambda>s. HasSuffix (b @ suf) (fst s)) effortSuffixes = Some (suf, l)"
proof (rule find_unique)
  have sub: "fst ` set effortSuffixes \<subseteq> set all_suffixes" by (auto simp: effortSuffixes_def all_suffixes_def)
  fix y assume y: "y \<in> set effortSuffixes" "HasSuffix (b @ suf) (fst y)"
  then have "fst y = suf" using only_suffix [of "b @ suf" suf "fst y"] assms sub by force
  then show "y = (suf, l)" using y(1) assms by (auto simp: effortSuffixes_def)
qed (use assms in auto)

lemma Parse_effort:
  assumes "(suf, l) \<in> set effortSuffixes"
  shows "ParseThinkingSuffix (b @ suf) = \<lparr>ti_BaseModel = b, ti_IsThinking = False, ti_EffortLevel = l, ti_IsNoThinking = False\<rparr>"
proof -
  have mem: "suf \<in> set all_suffixes" "suf \<notin> {''-thinking'', ''-nothinking'', ''-none''}"
    using assms by (auto simp: effortSuffixes_def all_suffixes_def)
  have no: "\<not> HasSuffix (b @ suf) ''-thinking''" "\<not> HasSuffix (b @ suf) ''-nothinking''" "\<not> HasSuffix (b @ suf) ''-none''"
    using only_suffix [of "b @ suf" suf "''-thinking''"] only_suffix [of "b @ suf" suf "''-nothinking''"]
      only_suffix [of "b @ suf" suf "''-none''"] mem by (auto simp: all_suffixes_def)
  show ?thesis using no effort_find [OF assms, of b] by (simp add: ParseThinkingSuffix_def Let_def)
qed

lemma Parse_nothinking:
  "ParseThinkingSuffix (b @ ''-nothinking'') =
    \<lparr>ti_BaseModel = b, ti_IsThinking = False, ti_EffortLevel = [], ti_IsNoThinking = True\<rparr>"
proof -
  have "\<not> HasSuffix (b @ ''-nothinking'') ''-thinking''"
    using only_suffix [of "b @ ''-nothinking''" "''-nothinking''" "''-thinking''"] by (simp add: all_suffixes_def)
  then show ?thesis by (simp add: ParseThinkingSuffix_def Let_def)
qed

lemma Parse_thinking:
  "ParseThinkingSuffix (b @ ''-thinking'') =
    \<lparr>ti_BaseModel = b, ti_IsThinking = True, ti_EffortLevel = [], ti_IsNoThinking = False\<rparr>"
  by (simp add: ParseThinkingSuffix_def Let_def)

lemma Parse_plain:
  assumes "\<forall>suf \<in> set all_suffixes. \<not> HasSuffix m suf"
  shows "ParseThinkingSuffix m = \<lparr>ti_BaseModel = m, ti_IsThinking = False, ti_EffortLevel = [], ti_IsNoThinking = False\<rparr>"
proof -
  have "find (\<lambda>s. HasSuffix m (fst s)) effortSuffixes = None"
    using assms by (auto simp: find_None_iff effortSuffixes_def all_suffixes_def)
  then show ?thesis using assms by (simp add: ParseThinkingSuffix_def Let_def all_suffixes_def)
qed

lemma known_cases: "\<forall>suf \<in> set knownSuffixes.
    suf = ''-thinking'' \<or> suf = ''-nothinking'' \<or> suf \<in> fst ` set effortSuffixes"
  by code_simp

section \<open>Properties\<close>

text \<open>The six translations of finish reasons form a commuting triangle: going from
  Gemini to Claude, or from Claude to Gemini, directly or by way of OpenAI gives the same
  reason (for every Gemini reason but TOOL_CALLS and the empty one, and every Claude reason
  that is not an OpenAI name), and an OpenAI reason survives the round trip through Claude.\<close>

theorem finish_reasons_commute:
  "(\<forall>r. r \<notin> {[], ''TOOL_CALLS'', ''stop'', ''length'', ''tool_calls'', ''content_filter''} \<longrightarrow>
      GeminiFinishReasonToClaude r = OpenAIFinishReasonToClaude (GeminiFinishReasonToOpenAI r)) \<and>
   (\<forall>r. r \<notin> {''stop'', ''length'', ''tool_calls'', ''content_filter''} \<longrightarrow>
      ClaudeStopReasonToGemini r = OpenAIFinishReasonToGemini (ClaudeStopReasonToOpenAI r)) \<and>
   (\<forall>r \<in> {''stop'', ''length'', ''tool_calls'', ''content_filter''}.
      ClaudeStopReasonToOpenAI (OpenAIFinishReasonToClaude r) = r)"
  by (simp add: reason_defs)

theorem finish_reasons_commute_witness:
  "GeminiFinishReasonToClaude ''SPII'' = ''refusal'' \<and>
   OpenAIFinishReasonToClaude (GeminiFinishReasonToOpenAI ''SPII'') = ''refusal''"
proof -
  have "GeminiFinishReasonToClaude ''SPII'' = OpenAIFinishReasonToClaude (GeminiFinishReasonToOpenAI ''SPII'')"
    using finish_reasons_commute by simp
  moreover have "GeminiFinishReasonToClaude ''SPII'' = ''refusal''" by (simp add: reason_defs)
  ultimately show ?thesis by simp
qed

text \<open>TOOL_CALLS is translated for OpenAI clients and passed through to Claude clients.\<close>

lemma gemini_tool_calls_diverges:
  "OpenAIFinishReasonToClaude (GeminiFinishReasonToOpenAI ''TOOL_CALLS'') = ''tool_use''"
  "GeminiFinishReasonToClaude ''TOOL_CALLS'' = ''TOOL_CALLS''"
  by (simp_all add: reason_defs)

text \<open>The status of a stream is written once: after any sequence of concurrent
  writers, in whatever order they take effect, the end reason and its error are those of the
  first SetEndReason; every soft error is counted and the first twenty are kept, in order.\<close>

theorem stream_status_first_writer_wins:
  assumes "int (length (error_msgs ops)) < 2 ^ 63"
  shows "(ss_reason (fold status_apply ops NewStreamStatus), ss_err (fold status_apply ops NewStreamStatus)) =
      (case first_end ops of Some re \<Rightarrow> re | None \<Rightarrow> (EndNone, None)) \<and>
    ss_errCount (fold status_apply ops NewStreamStatus) = int (length (error_msgs ops)) \<and>
    ss_errors (fold status_apply ops NewStreamStatus) = take 20 (error_msgs ops)"
  using fold_first_end [of NewStreamStatus ops] fold_errors [of NewStreamStatus ops] assms
  by (simp add: maxStreamErrors_def split: option.split)

theorem stream_status_first_writer_wins_witness:
  "ss_reason (fold status_apply [OpError ''a'', OpEnd StreamEndReasonDone None, OpEnd StreamEndReasonTimeout None] NewStreamStatus)
    = StreamEndReasonDone"
  using stream_status_first_writer_wins [of "[OpError ''a'', OpEnd StreamEndReasonDone None, OpEnd StreamEndReasonTimeout None]"]
  by simp

text \<open>The two parsers of model name suffixes agree: for every model name that does
  not end in -none, StripModelSuffix of the handler returns the base model of
  ParseThinkingSuffix, and the parser recognises each documented suffix for what it is.\<close>

theorem model_suffix_parsers_agree:
  "(\<not> HasSuffix m ''-none'' \<longrightarrow> StripModelSuffix m = ti_BaseModel (ParseThinkingSuffix m)) \<and>
   ParseThinkingSuffix (b @ ''-thinking'') =
     \<lparr>ti_BaseModel = b, ti_IsThinking = True, ti_EffortLevel = [], ti_IsNoThinking = False\<rparr> \<and>
   ParseThinkingSuffix (b @ ''-nothinking'') =
     \<lparr>ti_BaseModel = b, ti_IsThinking = False, ti_EffortLevel = [], ti_IsNoThinking = True\<rparr> \<and>
   (\<forall>(suf, l) \<in> set effortSuffixes. ParseThinkingSuffix (b @ suf) =
     \<lparr>ti_BaseModel = b, ti_IsThinking = False, ti_EffortLevel = l, ti_IsNoThinking = False\<rparr>)"
proof (intro conjI impI)
  assume none: "\<not> HasSuffix m ''-none''"
  show "StripModelSuffix m = ti_BaseModel (ParseThinkingSuffix m)"
  proof (cases "\<exists>suf \<in> set knownSuffixes. HasSuffix m suf")
    case False
    then have "\<forall>suf \<in> set all_suffixes. \<not> HasSuffix m suf"
      using none by (auto simp: knownSuffixes_def all_suffixes_def)
    then show ?thesis using False StripModelSuffix_miss Parse_plain by simp
  next
    case True
    then obtain suf c where suf: "suf \<in> set knownSuffixes" "m = c @ suf" by (auto simp: HasSuffix_iff)
    then consider "suf = ''-thinking''" | "suf = ''-nothinking''" | l where "(suf, l) \<in> set effortSuffixes"
      using known_cases by fastforce
    then have "ti_BaseModel (ParseThinkingSuffix m) = c"
      using suf(2) by cases (simp_all add: Parse_thinking Parse_nothinking Parse_effort)
    then show ?thesis using suf StripModelSuffix_hit by simp
  qed
next
  show "\<forall>(suf, l) \<in> set effortSuffixes. ParseThinkingSuffix (b @ suf) =
     \<lparr>ti_BaseModel = b, ti_IsThinking = False, ti_EffortLevel = l, ti_IsNoThinking = False\<rparr>"
    using Parse_effort by blast
qed (rule Parse_thinking, rule Parse_nothinking)

theorem model_suffix_parsers_agree_witness:
  "StripModelSuffix ''claude-3.5-sonnet-thinking'' = ti_BaseModel (ParseThinkingSuffix ''claude-3.5-sonnet-thinking'')"
  using model_suffix_parsers_agree [of "''claude-3.5-sonnet-thinking''"] by (simp add: HasSuffix_def)

text \<open>Reading back an event that was written: the data line of WriteSSEData, with or
  without the optional space, gives the data without surrounding white space, and a comment or
  event line gives none.\<close>

theorem sse_roundtrip:
  "ExtractSSEData (''data: '' @ d) = Some (TrimSpace d) \<and>
   (d = [] \<or> hd d \<noteq> CHR '' '' \<longrightarrow> ExtractSSEData (''data:'' @ d) = Some (TrimSpace d)) \<and>
   (d \<noteq> [] \<and> \<not> is_space (hd d) \<and> \<not> is_space (last d) \<longrightarrow>
      (\<exists>line rest. WriteSSEData d = line @ char_of (10::nat) # rest \<and> ExtractSSEData line = Some d)) \<and>
   ExtractSSEData ('': PING'') = None \<and> ExtractSSEData (''event: '' @ d) = None"
proof (intro conjI impI)
  show 1: "ExtractSSEData (''data: '' @ d) = Some (TrimSpace d)"
    by (simp add: ExtractSSEData_def HasPrefix_def)
  show "ExtractSSEData (''data:'' @ d) = Some (TrimSpace d)" if "d = [] \<or> hd d \<noteq> CHR '' ''"
    using that by (cases d) (simp_all add: ExtractSSEData_def HasPrefix_def)
  show "\<exists>line rest. WriteSSEData d = line @ char_of (10::nat) # rest \<and> ExtractSSEData line = Some d"
    if "d \<noteq> [] \<and> \<not> is_space (hd d) \<and> \<not> is_space (last d)"
  proof -
    have "dropWhile is_space d = d" using that by (cases d) auto
    moreover have "dropWhile is_space (rev d) = rev d" using that by (cases "rev d") (auto simp: last_conv_nth hd_rev)
    ultimately have "TrimSpace d = d" by (simp add: TrimSpace_def)
    then have "WriteSSEData d = (''data: '' @ d) @ char_of (10::nat) # [char_of (10::nat)]"
      "ExtractSSEData (''data: '' @ d) = Some d" using 1 by (simp_all add: WriteSSEData_def)
    then show ?thesis by blast
  qed
qed (simp_all add: ExtractSSEData_def HasPrefix_def)

theorem sse_roundtrip_witness:
  "\<exists>line rest. WriteSSEData ''{}'' = line @ char_of (10::nat) # rest \<and> ExtractSSEData line = Some ''{}''"
  using sse_roundtrip [of "''{}''"] by (simp add: is_space_def)

end
