(* ===== verification/Store.thy ===== *)
theory Store
  imports Prelude
begin

text \<open>
  The relational store behind \<^verbatim>\<open>g.DB()\<close>: a table is the list of its rows in the
  record of the component that owns it, and every statement is an effect.  The base record
  \<open>store\<close> holds what is not a table:

  \<^item> \<open>script\<close>, the outcome of the statements to come: a \<open>Some msg\<close> makes the next statement
    fail with a driver error of that text, so a theorem over every store covers every pattern of failures;
  \<^item> \<open>seqs\<close>, the last id each table's BIGSERIAL sequence has issued;
  \<^item> \<open>norows\<close>, whether the ORM's \<^verbatim>\<open>Scan\<close> into a struct reports
    \<^verbatim>\<open>sql.ErrNoRows\<close> for an empty result or leaves the zero struct (the code is
    written for both);
  \<^item> \<open>clock\<close>, what \<^verbatim>\<open>time.Now()\<close> and NOW() read.

  An operation runs without statements of other sessions in between; what concurrency can do
  to the version check of the accounts table is stated in the theory Ledger, over the two
  halves of that operation.
\<close>

record store =
  script :: "string option list"
  seqs :: "string \<Rightarrow> int"
  norows :: bool
  clock :: int

fun next_fault :: "string option list \<Rightarrow> string option" where
  "next_fault [] = None"
| "next_fault (b # bs) = b"

definition db_call :: "('z store_scheme, 'a) eff \<Rightarrow> ('z store_scheme, 'a) eff" where
  "db_call m = (\<lambda>s. let s1 = s\<lparr>script := tl (script s)\<rparr>
                     in case next_fault (script s) of Some msg \<Rightarrow> (Inl (ErrDB msg), s1) | None \<Rightarrow> m s1)"

section \<open>Statements\<close>

text \<open>SELECT ... WHERE: the rows of the table that satisfy the condition, in table order.\<close>

definition db_select :: "('z store_scheme \<Rightarrow> 'r list) \<Rightarrow> ('r \<Rightarrow> bool) \<Rightarrow> ('z store_scheme, 'r list) eff" where
  "db_select tbl wh = db_call (\<lambda>s. (Inr (filter wh (tbl s)), s))"

text \<open>\<^verbatim>\<open>Scan(&row)\<close>: \<open>None\<close> stands for the zero struct (its ID is 0).\<close>

definition db_scan :: "('z store_scheme \<Rightarrow> 'r list) \<Rightarrow> ('r \<Rightarrow> bool) \<Rightarrow> ('z store_scheme, 'r option) eff" where
  "db_scan tbl wh = db_call (\<lambda>s. case find wh (tbl s) of
       Some r \<Rightarrow> (Inr (Some r), s)
     | None \<Rightarrow> if norows s then (Inl ErrNoRows, s) else (Inr None, s))"

text \<open>\<^verbatim>\<open>err != nil && err != sql.ErrNoRows\<close>: an empty result is not an error.\<close>

definition unlessNoRows :: "('z, 'r option) eff \<Rightarrow> ('z, 'r option) eff" where
  "unlessNoRows m = (\<lambda>s. case m s of (Inl ErrNoRows, s') \<Rightarrow> (Inr None, s') | rs \<Rightarrow> rs)"

text \<open>\<^verbatim>\<open>One()\<close>: the first row or an empty record, never ErrNoRows.\<close>

definition db_one :: "('z store_scheme \<Rightarrow> 'r list) \<Rightarrow> ('r \<Rightarrow> bool) \<Rightarrow> ('z store_scheme, 'r option) eff" where
  "db_one tbl wh = db_call (\<lambda>s. (Inr (find wh (tbl s)), s))"

definition db_count :: "('z store_scheme \<Rightarrow> 'r list) \<Rightarrow> ('r \<Rightarrow> bool) \<Rightarrow> ('z store_scheme, int) eff" where
  "db_count tbl wh = db_call (\<lambda>s. (Inr (int (length (filter wh (tbl s)))), s))"

text \<open>INSERT: the sequence of the table issues the id (also when the row is then refused),
  the row is added unless it clashes with a UNIQUE constraint.\<close>

definition db_insert ::
  "string \<Rightarrow> ('z store_scheme \<Rightarrow> 'r list) \<Rightarrow> (('r list \<Rightarrow> 'r list) \<Rightarrow> 'z store_scheme \<Rightarrow> 'z store_scheme) \<Rightarrow>
   ('r \<Rightarrow> 'r \<Rightarrow> bool) \<Rightarrow> (int \<Rightarrow> int \<Rightarrow> 'r) \<Rightarrow> ('z store_scheme, int) eff" where
  "db_insert t tbl upd clash mk = db_call (\<lambda>s.
     let i = seqs s t + 1; r = mk (clock s) i; s1 = s\<lparr>seqs := (seqs s)(t := i)\<rparr>
     in if \<exists>x \<in> set (tbl s). clash x r then (Inl ErrUnique, s1)
        else (Inr i, upd (\<lambda>rs. rs @ [r]) s1))"

text \<open>UPDATE ... WHERE and DELETE ... WHERE report the number of affected rows.\<close>

definition db_update ::
  "('z store_scheme \<Rightarrow> 'r list) \<Rightarrow> (('r list \<Rightarrow> 'r list) \<Rightarrow> 'z store_scheme \<Rightarrow> 'z store_scheme) \<Rightarrow>
   ('r \<Rightarrow> bool) \<Rightarrow> ('r \<Rightarrow> 'r) \<Rightarrow> ('z store_scheme, int) eff" where
  "db_update tbl upd wh f = db_call (\<lambda>s.
     (Inr (int (length (filter wh (tbl s)))), upd (map (\<lambda>r. if wh r then f r else r)) s))"

definition db_delete ::
  "('z store_scheme \<Rightarrow> 'r list) \<Rightarrow> (('r list \<Rightarrow> 'r list) \<Rightarrow> 'z store_scheme \<Rightarrow> 'z store_scheme) \<Rightarrow>
   ('r \<Rightarrow> bool) \<Rightarrow> ('z store_scheme, int) eff" where
  "db_delete tbl upd wh = db_call (\<lambda>s.
     (Inr (int (length (filter wh (tbl s)))), upd (filter (\<lambda>r. \<not> wh r)) s))"

text \<open>ORDER BY key DESC, and LIMIT n OFFSET m; the page arithmetic is that of the list
  operations (\<^verbatim>\<open>offset := (page - 1) * pageSize\<close>).\<close>

definition order_desc :: "('r \<Rightarrow> 'k :: linorder) \<Rightarrow> 'r list \<Rightarrow> 'r list" where
  "order_desc k rs = rev (sort_key k rs)"

definition limit_offset :: "int \<Rightarrow> int \<Rightarrow> 'r list \<Rightarrow> 'r list" where
  "limit_offset n off rs = take (nat n) (drop (nat off) rs)"

text \<open>LIKE: \<^verbatim>\<open>%\<close> matches any text, \<^verbatim>\<open>_\<close> any character, a
  backslash (byte 92) quotes the character after it.\<close>

fun sql_like :: "string \<Rightarrow> string \<Rightarrow> bool" where
  "sql_like [] s = (s = [])"
| "sql_like (p # ps) s =
     (if p = CHR ''%'' then sql_like ps s \<or> (case s of [] \<Rightarrow> False | c # cs \<Rightarrow> sql_like (p # ps) cs)
      else if p = CHR ''_'' then (case s of [] \<Rightarrow> False | c # cs \<Rightarrow> sql_like ps cs)
      else if p = char_of (92::nat) \<and> ps \<noteq> []
        then (case s of [] \<Rightarrow> False | c # cs \<Rightarrow> c = hd ps \<and> sql_like (tl ps) cs)
      else (case s of [] \<Rightarrow> False | c # cs \<Rightarrow> c = p \<and> sql_like ps cs))"

declare sql_like.simps [simp del]

definition page_or :: "int \<Rightarrow> int \<Rightarrow> int" where
  "page_or def p = (if p \<le> 0 then def else p)"

section \<open>Transactions\<close>

text \<open>A rollback restores the tables; the outcomes already consumed stay consumed and a
  sequence never goes back.\<close>

definition rollback :: "'z store_scheme \<Rightarrow> 'z store_scheme \<Rightarrow> 'z store_scheme" where
  "rollback s s' = s\<lparr>script := script s', seqs := (\<lambda>t. max (seqs s t) (seqs s' t))\<rparr>"

text \<open>\<^verbatim>\<open>g.DB().Transaction(ctx, f)\<close>: BEGIN, the body, COMMIT; a body that returns an
  error, or a COMMIT that fails, rolls back.\<close>

definition transact :: "('z store_scheme, 'a) eff \<Rightarrow> ('z store_scheme, 'a) eff" where
  "transact m = (\<lambda>s. case db_call (returnE ()) s of
       (Inl e, s1) \<Rightarrow> (Inl e, rollback s s1)
     | (Inr _, s1) \<Rightarrow> (case m s1 of
         (Inl e, s2) \<Rightarrow> (Inl e, rollback s s2)
       | (Inr a, s2) \<Rightarrow> (case db_call (returnE ()) s2 of
           (Inl e, s3) \<Rightarrow> (Inl e, rollback s s3)
         | (Inr _, s3) \<Rightarrow> (Inr a, s3))))"

section \<open>Successful statements\<close>

lemma db_call_ok [ok_simps]:
  "db_call m s = (Inr a, s') \<longleftrightarrow> next_fault (script s) = None \<and> m (s\<lparr>script := tl (script s)\<rparr>) = (Inr a, s')"
  by (simp add: db_call_def Let_def split: option.split)

lemma db_select_ok [ok_simps]:
  "db_select tbl wh s = (Inr rs, s') \<longleftrightarrow> next_fault (script s) = None \<and>
     s' = s\<lparr>script := tl (script s)\<rparr> \<and> rs = filter wh (tbl s')"
  by (auto simp: db_select_def ok_simps)

lemma db_one_ok [ok_simps]:
  "db_one tbl wh s = (Inr r, s') \<longleftrightarrow> next_fault (script s) = None \<and>
     s' = s\<lparr>script := tl (script s)\<rparr> \<and> r = find wh (tbl s')"
  by (auto simp: db_one_def ok_simps)

lemma db_count_ok [ok_simps]:
  "db_count tbl wh s = (Inr n, s') \<longleftrightarrow> next_fault (script s) = None \<and>
     s' = s\<lparr>script := tl (script s)\<rparr> \<and> n = int (length (filter wh (tbl s')))"
  by (auto simp: db_count_def ok_simps)

lemma db_scan_ok [ok_simps]:
  "db_scan tbl wh s = (Inr r, s') \<longleftrightarrow> next_fault (script s) = None \<and>
     s' = s\<lparr>script := tl (script s)\<rparr> \<and> r = find wh (tbl s') \<and> (r = None \<longrightarrow> \<not> norows s)"
  by (auto simp: db_scan_def ok_simps split: option.splits if_splits)

lemma unlessNoRows_scan_ok [ok_simps]:
  "unlessNoRows (db_scan tbl wh) s = (Inr r, s') \<longleftrightarrow> next_fault (script s) = None \<and>
     s' = s\<lparr>script := tl (script s)\<rparr> \<and> r = find wh (tbl s')"
  by (auto simp: unlessNoRows_def db_scan_def db_call_def Let_def
      split: option.splits if_splits prod.splits sum.splits go_err.splits)

lemma db_update_ok [ok_simps]:
  "db_update tbl upd wh f s = (Inr n, s') \<longleftrightarrow> next_fault (script s) = None \<and>
     s' = upd (map (\<lambda>r. if wh r then f r else r)) (s\<lparr>script := tl (script s)\<rparr>) \<and>
     n = int (length (filter wh (tbl (s\<lparr>script := tl (script s)\<rparr>))))"
  by (auto simp: db_update_def ok_simps)

lemma db_delete_ok [ok_simps]:
  "db_delete tbl upd wh s = (Inr n, s') \<longleftrightarrow> next_fault (script s) = None \<and>
     s' = upd (filter (\<lambda>r. \<not> wh r)) (s\<lparr>script := tl (script s)\<rparr>) \<and>
     n = int (length (filter wh (tbl (s\<lparr>script := tl (script s)\<rparr>))))"
  by (auto simp: db_delete_def ok_simps)

lemma db_insert_ok [ok_simps]:
  "db_insert t tbl upd clash mk s = (Inr i, s') \<longleftrightarrow> next_fault (script s) = None \<and>
     i = seqs s t + 1 \<and>
     (let s1 = s\<lparr>script := tl (script s)\<rparr>; r = mk (clock s) i
      in \<not> (\<exists>x \<in> set (tbl s1). clash x r) \<and>
         s' = upd (\<lambda>rs. rs @ [r]) (s1\<lparr>seqs := (seqs s)(t := i)\<rparr>))"
  by (auto simp: db_insert_def ok_simps Let_def)

lemma transact_ok [ok_simps]:
  "transact m s = (Inr a, s') \<longleftrightarrow> next_fault (script s) = None \<and>
     (\<exists>s2. m (s\<lparr>script := tl (script s)\<rparr>) = (Inr a, s2) \<and> next_fault (script s2) = None \<and>
           s' = s2\<lparr>script := tl (script s2)\<rparr>)"
  by (auto simp: transact_def db_call_def returnE_def Let_def split: prod.splits sum.splits option.splits)

text \<open>A read, whatever its outcome, consumes one scripted outcome and nothing else.\<close>

lemma db_select_read: "db_select tbl wh s = (r, s') \<Longrightarrow> s' = s\<lparr>script := tl (script s)\<rparr>"
  by (auto simp: db_select_def db_call_def Let_def split: option.splits)

lemma db_one_read: "db_one tbl wh s = (r, s') \<Longrightarrow> s' = s\<lparr>script := tl (script s)\<rparr>"
  by (auto simp: db_one_def db_call_def Let_def split: option.splits)

lemma db_count_read: "db_count tbl wh s = (r, s') \<Longrightarrow> s' = s\<lparr>script := tl (script s)\<rparr>"
  by (auto simp: db_count_def db_call_def Let_def split: option.splits)

lemma db_scan_read: "db_scan tbl wh s = (r, s') \<Longrightarrow> s' = s\<lparr>script := tl (script s)\<rparr>"
  by (auto simp: db_scan_def db_call_def Let_def split: option.splits if_splits)

lemma unlessNoRows_state: "snd (unlessNoRows m s) = snd (m s)"
  by (auto simp: unlessNoRows_def split: prod.splits sum.splits go_err.splits)

text \<open>A failed transaction leaves every table as it was.\<close>

lemma transact_error: "transact m s = (Inl e, s') \<Longrightarrow> \<exists>s2. s' = rollback s s2"
  by (auto simp: transact_def split: prod.splits sum.splits)

text \<open>Evaluation on a concrete database.\<close>

lemma unlessNoRows_run [run]:
  "unlessNoRows m s = (case m s of (Inl ErrNoRows, s') \<Rightarrow> (Inr None, s') | rs \<Rightarrow> rs)"
  by (simp add: unlessNoRows_def)

lemma db_call_run [run]:
  "db_call m s = (case next_fault (script s) of
     Some msg \<Rightarrow> (Inl (ErrDB msg), s\<lparr>script := tl (script s)\<rparr>) | None \<Rightarrow> m (s\<lparr>script := tl (script s)\<rparr>))"
  by (simp add: db_call_def Let_def)

lemma transact_run [run]:
  "transact m s = (case db_call (returnE ()) s of
       (Inl e, s1) \<Rightarrow> (Inl e, rollback s s1)
     | (Inr _, s1) \<Rightarrow> (case m s1 of
         (Inl e, s2) \<Rightarrow> (Inl e, rollback s s2)
       | (Inr a, s2) \<Rightarrow> (case db_call (returnE ()) s2 of
           (Inl e, s3) \<Rightarrow> (Inl e, rollback s s3)
         | (Inr _, s3) \<Rightarrow> (Inr a, s3))))"
  by (simp add: transact_def)

declare db_select_def [run] db_scan_def [run] db_one_def [run] db_count_def [run] db_insert_def [run]
  db_update_def [run] db_delete_def [run] rollback_def [run] order_desc_def [run] limit_offset_def [run]
  page_or_def [run]

section \<open>Predicates that survive any statement\<close>

text \<open>\<open>stable I\<close>: the predicate does not look at the outcomes to come and does not mind a
  sequence that has advanced.  Every table invariant is of this kind.\<close>

definition stable :: "('z store_scheme \<Rightarrow> bool) \<Rightarrow> bool" where
  "stable I \<longleftrightarrow> (\<forall>s f g. I s \<longrightarrow> (\<forall>t. seqs s t \<le> g t) \<longrightarrow> I (s\<lparr>script := f, seqs := g\<rparr>))"

lemma stableI:
  "(\<And>s f g. I s \<Longrightarrow> (\<And>t. seqs s t \<le> g t) \<Longrightarrow> I (s\<lparr>script := f, seqs := g\<rparr>)) \<Longrightarrow> stable I"
  by (simp add: stable_def)

lemma stable_script: "stable I \<Longrightarrow> I s \<Longrightarrow> I (s\<lparr>script := f\<rparr>)"
  unfolding stable_def by (metis order_refl store.surjective store.update_convs(1,2))

lemma stable_seqs: "stable I \<Longrightarrow> I s \<Longrightarrow> (\<And>t. seqs s t \<le> g t) \<Longrightarrow> I (s\<lparr>seqs := g\<rparr>)"
  unfolding stable_def by (metis store.surjective store.update_convs(1,2))

lemma stable_rollback: "stable I \<Longrightarrow> I s \<Longrightarrow> I (rollback s s')"
  by (simp add: stable_def rollback_def)

lemma stable_conj: "stable P \<Longrightarrow> stable Q \<Longrightarrow> stable (\<lambda>s. P s \<and> Q s)"
  by (simp add: stable_def)

lemma preserves_db_call [pres]: "stable I \<Longrightarrow> preserves I m \<Longrightarrow> preserves I (db_call m)"
  by (simp add: preserves_def db_call_def Let_def stable_script split: option.split)

lemma preserves_pure: "(\<And>s. snd (m s) = s) \<Longrightarrow> preserves I m"
  by (simp add: preserves_def)

lemma preserves_db_select [pres]: "stable I \<Longrightarrow> preserves I (db_select tbl wh)"
  unfolding db_select_def by (intro pres preserves_pure) simp_all

lemma preserves_db_one [pres]: "stable I \<Longrightarrow> preserves I (db_one tbl wh)"
  unfolding db_one_def by (intro pres preserves_pure) simp_all

lemma preserves_db_count [pres]: "stable I \<Longrightarrow> preserves I (db_count tbl wh)"
  unfolding db_count_def by (intro pres preserves_pure) simp_all

lemma preserves_db_scan [pres]: "stable I \<Longrightarrow> preserves I (db_scan tbl wh)"
  unfolding db_scan_def by (intro preserves_db_call preserves_pure) (auto split: option.splits)

lemma preserves_unlessNoRows [pres]: "preserves I m \<Longrightarrow> preserves I (unlessNoRows m)"
  by (fastforce simp: preserves_def unlessNoRows_def split: prod.splits sum.splits go_err.splits)

lemma preserves_db_update [pres]:
  "stable I \<Longrightarrow> (\<And>s. I s \<Longrightarrow> I (upd (map (\<lambda>r. if wh r then f r else r)) s)) \<Longrightarrow>
   preserves I (db_update tbl upd wh f)"
  unfolding db_update_def by (intro preserves_db_call) (auto simp: preserves_def)

lemma preserves_db_delete [pres]:
  "stable I \<Longrightarrow> (\<And>s. I s \<Longrightarrow> I (upd (filter (\<lambda>r. \<not> wh r)) s)) \<Longrightarrow>
   preserves I (db_delete tbl upd wh)"
  unfolding db_delete_def by (intro preserves_db_call) (auto simp: preserves_def)

lemma preserves_db_insert [pres]:
  assumes "stable I"
    and "\<And>s. I s \<Longrightarrow> \<not> (\<exists>x \<in> set (tbl s). clash x (mk (clock s) (seqs s t + 1))) \<Longrightarrow>
      I (upd (\<lambda>rs. rs @ [mk (clock s) (seqs s t + 1)]) (s\<lparr>seqs := (seqs s)(t := seqs s t + 1)\<rparr>))"
  shows "preserves I (db_insert t tbl upd clash mk)"
  unfolding db_insert_def
proof (intro preserves_db_call assms(1))
  show "preserves I (\<lambda>s. let i = seqs s t + 1; r = mk (clock s) i; s1 = s\<lparr>seqs := (seqs s)(t := i)\<rparr>
     in if \<exists>x \<in> set (tbl s). clash x r then (Inl ErrUnique, s1) else (Inr i, upd (\<lambda>rs. rs @ [r]) s1))"
    using assms by (auto simp: preserves_def Let_def stable_seqs)
qed

lemma preserves_transact [pres]:
  assumes "stable I" and "keeps I m"
  shows "preserves I (transact m)"
proof -
  have "I s' " if I: "I s" and run: "transact m s = (r, s')" for s r s'
  proof (cases r)
    case (Inl e)
    then show ?thesis using run transact_error I stable_rollback [OF assms(1)] by metis
  next
    case (Inr a)
    then obtain s2 where "m (s\<lparr>script := tl (script s)\<rparr>) = (Inr a, s2)"
        and s': "s' = s2\<lparr>script := tl (script s2)\<rparr>"
      using run by (auto simp: ok_simps)
    then have "I s2" using I assms keepsD stable_script by metis
    then show ?thesis using assms(1) s' stable_script by metis
  qed
  then show ?thesis by (auto simp: preserves_def) (metis prod.collapse)
qed

text \<open>\<open>untouched P upd\<close>: a predicate the updates of a table cannot change.\<close>

definition untouched :: "('s \<Rightarrow> bool) \<Rightarrow> (('r list \<Rightarrow> 'r list) \<Rightarrow> 's \<Rightarrow> 's) \<Rightarrow> bool" where
  "untouched P upd \<longleftrightarrow> (\<forall>f s. P (upd f s) = P s)"

lemma preserves_db_insert_frame:
  "stable I \<Longrightarrow> untouched I upd \<Longrightarrow> preserves I (db_insert t tbl upd clash mk)"
  by (intro preserves_db_insert) (auto simp: untouched_def stable_seqs)

lemma preserves_db_update_frame:
  "stable I \<Longrightarrow> untouched I upd \<Longrightarrow> preserves I (db_update tbl upd wh f)"
  by (intro preserves_db_update) (auto simp: untouched_def)

lemma preserves_db_delete_frame:
  "stable I \<Longrightarrow> untouched I upd \<Longrightarrow> preserves I (db_delete tbl upd wh)"
  by (intro preserves_db_delete) (auto simp: untouched_def)

section \<open>Reading\<close>

text \<open>\<open>reads_only m\<close>: whatever its outcome, the effect consumes scripted outcomes and changes
  nothing else.\<close>

definition reads_only :: "('z store_scheme, 'a) eff \<Rightarrow> bool" where
  "reads_only m \<longleftrightarrow> (\<forall>s. \<exists>f. snd (m s) = s\<lparr>script := f\<rparr>)"

lemma reads_onlyD: "reads_only m \<Longrightarrow> m s = (r, s') \<Longrightarrow> \<exists>f. s' = s\<lparr>script := f\<rparr>"
  unfolding reads_only_def by (metis snd_conv)

lemma reads_onlyI: "(\<And>s r s'. m s = (r, s') \<Longrightarrow> \<exists>f. s' = s\<lparr>script := f\<rparr>) \<Longrightarrow> reads_only m"
  unfolding reads_only_def by (metis prod.collapse)

lemma reads_only_pure: "(\<And>s. snd (m s) = s) \<Longrightarrow> reads_only m"
  unfolding reads_only_def by (metis store.surjective store.update_convs(1))

lemma reads_only_returnE [reads]: "reads_only (returnE a)"
  by (rule reads_only_pure) (simp add: returnE_def)

lemma reads_only_throwE [reads]: "reads_only (throwE a)"
  by (rule reads_only_pure) (simp add: throwE_def)

lemma reads_only_getsE [reads]: "reads_only (getsE f)"
  by (rule reads_only_pure) (simp add: getsE_def)

lemma reads_only_liftE [reads]: "reads_only (liftE f)"
  by (rule reads_only_pure) (simp add: liftE_def)

lemma script_script: "s\<lparr>script := f\<rparr>\<lparr>script := g\<rparr> = s\<lparr>script := g\<rparr>"
  by simp

lemma reads_only_bindE [reads]:
  assumes "reads_only m" and "\<And>a. reads_only (k a)" shows "reads_only (bindE m k)"
proof (rule reads_onlyI)
  fix s r s' assume run: "bindE m k s = (r, s')"
  obtain r1 s1 where 1: "m s = (r1, s1)" by (cases "m s")
  obtain f where f: "s1 = s\<lparr>script := f\<rparr>" using reads_onlyD [OF assms(1) 1] by blast
  show "\<exists>f. s' = s\<lparr>script := f\<rparr>"
  proof (cases r1)
    case Inl then show ?thesis using run 1 f by (auto simp: bindE_def)
  next
    case (Inr a)
    then have "k a s1 = (r, s')" using run 1 by (simp add: bindE_def)
    then obtain g where "s' = s1\<lparr>script := g\<rparr>" using reads_onlyD [OF assms(2)] by blast
    then show ?thesis using f script_script by metis
  qed
qed

lemma reads_only_tryE [reads]: "reads_only m \<Longrightarrow> reads_only (tryE m)"
  unfolding reads_only_def by (simp add: tryE_def split: prod.split) (metis snd_conv)

lemma reads_only_wrapE [reads]: "reads_only m \<Longrightarrow> reads_only (wrapE msg m)"
  unfolding reads_only_def by (simp add: wrapE_def split: prod.split sum.split) (metis snd_conv)

lemma reads_only_if [reads]:
  "(b \<Longrightarrow> reads_only m) \<Longrightarrow> (\<not> b \<Longrightarrow> reads_only n) \<Longrightarrow> reads_only (if b then m else n)"
  by simp

lemma reads_only_case_option [reads]:
  "reads_only m \<Longrightarrow> (\<And>x. reads_only (f x)) \<Longrightarrow> reads_only (case a of None \<Rightarrow> m | Some x \<Rightarrow> f x)"
  by (simp split: option.split)

lemma reads_only_case_sum [reads]:
  "(\<And>x. reads_only (f x)) \<Longrightarrow> (\<And>x. reads_only (g x)) \<Longrightarrow>
   reads_only (case a of Inl x \<Rightarrow> f x | Inr x \<Rightarrow> g x)"
  by (simp split: sum.split)

lemma reads_only_case_prod [reads]:
  "(\<And>x y. reads_only (f x y)) \<Longrightarrow> reads_only (case a of (x, y) \<Rightarrow> f x y)"
  by (simp split: prod.split)

lemma reads_only_mapE [reads]: "(\<And>x. reads_only (f x)) \<Longrightarrow> reads_only (mapE f xs)"
  by (induction xs) (auto intro!: reads)

lemma reads_only_db_select [reads]: "reads_only (db_select tbl wh)"
  using db_select_read by (intro reads_onlyI) blast

lemma reads_only_db_one [reads]: "reads_only (db_one tbl wh)"
  using db_one_read by (intro reads_onlyI) blast

lemma reads_only_db_count [reads]: "reads_only (db_count tbl wh)"
  using db_count_read by (intro reads_onlyI) blast

lemma reads_only_db_scan [reads]: "reads_only (db_scan tbl wh)"
  using db_scan_read by (intro reads_onlyI) blast

lemma reads_only_unlessNoRows [reads]: "reads_only m \<Longrightarrow> reads_only (unlessNoRows m)"
  by (simp add: reads_only_def unlessNoRows_state)

lemma reads_only_pres: "stable I \<Longrightarrow> reads_only m \<Longrightarrow> preserves I m"
  unfolding preserves_def reads_only_def by (metis stable_script)

text \<open>A failed transaction, or a rollback, in terms of the state before it.\<close>

lemma rollback_eq:
  "\<exists>f g. rollback s s2 = s\<lparr>script := f, seqs := g\<rparr> \<and> (\<forall>t. seqs s t \<le> g t)"
  unfolding rollback_def by (metis max.cobounded1)

lemma transact_error_eq:
  "transact m s = (Inl e, s') \<Longrightarrow> \<exists>f g. s' = s\<lparr>script := f, seqs := g\<rparr> \<and> (\<forall>t. seqs s t \<le> g t)"
  using transact_error rollback_eq by metis

lemma db_insert_error_eq:
  "db_insert t tbl upd clash mk s = (Inl e, s') \<Longrightarrow>
    \<exists>f g. s' = s\<lparr>script := f, seqs := g\<rparr> \<and> (\<forall>t. seqs s t \<le> g t)"
  by (cases "next_fault (script s)")
    (force simp: db_insert_def db_call_def Let_def split: if_splits)+

lemma stable_seq_ge: "stable (\<lambda>s. x \<le> seqs s k)"
  by (rule stableI) (auto intro: order_trans)

section \<open>A database without faults\<close>

lemma script_nil [simp]: "script s = [] \<Longrightarrow> s\<lparr>script := []\<rparr> = s"
  by (cases s) simp

lemma db_call_healthy [simp]: "script s = [] \<Longrightarrow> db_call m s = m s"
  by (simp add: db_call_def)

text \<open>\<open>calm s\<close>: no fault is to come.  Every statement keeps it so; the rules are the collection
  \<open>calms\<close>.\<close>

named_theorems calms \<open>an effect brings no fault\<close>

definition calm :: "'z store_scheme \<Rightarrow> bool" where
  "calm s \<longleftrightarrow> script s = []"

lemma calm_db_call [calms]: "preserves calm m \<Longrightarrow> preserves calm (db_call m)"
  by (simp add: preserves_def calm_def db_call_def)

lemma calm_select [calms]: "preserves calm (db_select tbl wh)"
  unfolding db_select_def by (intro calms preserves_pure) simp

lemma calm_one [calms]: "preserves calm (db_one tbl wh)"
  unfolding db_one_def by (intro calms preserves_pure) simp

lemma calm_count [calms]: "preserves calm (db_count tbl wh)"
  unfolding db_count_def by (intro calms preserves_pure) simp

lemma calm_scan [calms]: "preserves calm (db_scan tbl wh)"
  unfolding db_scan_def by (intro calms preserves_pure) (auto split: option.splits)

lemma calm_unlessNoRows [calms]: "preserves calm m \<Longrightarrow> preserves calm (unlessNoRows m)"
  by (simp add: preserves_def unlessNoRows_state)

lemma calm_insert [calms]: "untouched calm upd \<Longrightarrow> preserves calm (db_insert t tbl upd clash mk)"
  unfolding db_insert_def
  by (intro calms) (simp add: preserves_def Let_def untouched_def, simp add: calm_def)

lemma calm_update [calms]: "untouched calm upd \<Longrightarrow> preserves calm (db_update tbl upd wh f)"
  unfolding db_update_def by (intro calms) (simp add: preserves_def untouched_def)

lemma calm_delete [calms]: "untouched calm upd \<Longrightarrow> preserves calm (db_delete tbl upd wh)"
  unfolding db_delete_def by (intro calms) (simp add: preserves_def untouched_def)

lemma calm_rollback: "calm s2 \<Longrightarrow> calm (rollback s s2)"
  by (simp add: calm_def rollback_def)

lemma transact_calm:
  "calm s \<Longrightarrow> preserves calm m \<Longrightarrow> transact m s = (case m s of
     (Inl e, s2) \<Rightarrow> (Inl e, rollback s s2) | (Inr a, s2) \<Rightarrow> (Inr a, s2))"
proof -
  assume s: "calm s" and m: "preserves calm m"
  obtain r s2 where 2: "m s = (r, s2)" by (cases "m s")
  have "script s = []" "script s2 = []" using s preserves_run [OF m s 2] by (simp_all add: calm_def)
  then show ?thesis using 2 by (simp add: transact_def returnE_def split: sum.split)
qed

lemma calm_transact [calms]:
  assumes "preserves calm m" shows "preserves calm (transact m)"
  unfolding preserves_def
proof (intro allI impI)
  fix s :: "'a store_scheme" assume s: "calm s"
  obtain r s2 where 2: "m s = (r, s2)" by (cases "m s")
  have "calm s2" using preserves_run [OF assms s 2] .
  then show "calm (snd (transact m s))"
    using transact_calm [OF s assms] 2 by (simp add: calm_rollback split: sum.split)
qed

lemmas calm_combinators [calms] = preserves_returnE preserves_throwE preserves_getsE preserves_liftE
  preserves_bindE preserves_tryE preserves_wrapE preserves_if preserves_case_option preserves_case_sum
  preserves_case_prod preserves_let preserves_mapE

lemma calm_healthy: "calm s \<Longrightarrow> db_call m s = m s"
  by (simp add: calm_def)

end
