(* ===== verification/SysConfig.thy ===== *)
theory SysConfig
  imports Store
begin

text \<open>
  Tunable parameters, \<^verbatim>\<open>internal/logic/systemconfig/config.go\<close>, over the table
  system_configs (key is the primary key), and the reader of
  \<^verbatim>\<open>internal/relay/scheduler/retry.go\<close>.
\<close>

record config_row =
  cfg_key :: string
  cfg_value :: string

record config_db = store +
  system_configs :: "config_row list"

definition cfg_clash :: "config_row \<Rightarrow> config_row \<Rightarrow> bool" where
  "cfg_clash x r \<longleftrightarrow> cfg_key x = cfg_key r"

section \<open>strconv.ParseInt\<close>

text \<open>Base 10, 64 bits: an optional sign, at least one digit, and the value in range.\<close>

definition is_digit :: "char \<Rightarrow> bool" where
  "is_digit c \<longleftrightarrow> 48 \<le> (of_char c :: nat) \<and> (of_char c :: nat) \<le> 57"

definition digit_val :: "char \<Rightarrow> int" where
  "digit_val c = int (of_char c) - 48"

fun parse_digits :: "int \<Rightarrow> string \<Rightarrow> int option" where
  "parse_digits n [] = Some n"
| "parse_digits n (c # cs) = (if is_digit c then parse_digits (10 * n + digit_val c) cs else None)"

definition parse_uint :: "string \<Rightarrow> int option" where
  "parse_uint cs = (if cs = [] then None else parse_digits 0 cs)"

definition ParseInt :: "string \<Rightarrow> int option" where
  "ParseInt s =
     (case (case s of c # cs \<Rightarrow> if c = CHR ''-'' then map_option uminus (parse_uint cs)
                       else if c = CHR ''+'' then parse_uint cs else parse_uint s
            | [] \<Rightarrow> None) of
        None \<Rightarrow> None | Some n \<Rightarrow> if is_i64 n then Some n else None)"

section \<open>Operations\<close>

text \<open>\<^verbatim>\<open>Value("value")\<close>: the value of the key, the empty string when there is no row.\<close>

definition config_value :: "string \<Rightarrow> ('z config_db_scheme, string) eff" where
  "config_value key = bindE (db_one system_configs (\<lambda>r. cfg_key r = key))
     (\<lambda>r. returnE (case r of None \<Rightarrow> [] | Some row \<Rightarrow> cfg_value row))"

definition GetInt :: "string \<Rightarrow> int \<Rightarrow> ('z config_db_scheme, int) eff" where
  "GetInt key defaultVal =
     bindE (tryE (config_value key)) (\<lambda>r. case r of
       Inl err \<Rightarrow> returnE defaultVal
     | Inr s \<Rightarrow> (if s = [] then returnE defaultVal
        else case ParseInt s of None \<Rightarrow> returnE defaultVal | Some n \<Rightarrow> returnE n))"

text \<open>\<^verbatim>\<open>EnsureConfigs\<close> ranges over a Go map; the list is the order of that iteration.  The
  error of the Count is ignored by the code, and the count is then 0.\<close>

definition ensure_config :: "string \<times> string \<Rightarrow> ('z config_db_scheme, unit) eff" where
  "ensure_config kv = (case kv of (key, value) \<Rightarrow>
     bindE (wrapE (''upsert system_config '' @ key)
       (db_update system_configs system_configs_update (\<lambda>r. cfg_key r = key) (\<lambda>r. r\<lparr>cfg_value := value\<rparr>)))
     (\<lambda>_. bindE (tryE (db_count system_configs (\<lambda>r. cfg_key r = key)))
     (\<lambda>r. let rows = (case r of Inl _ \<Rightarrow> 0 | Inr n \<Rightarrow> n) in
       if rows = 0 then
         bindE (wrapE (''insert system_config '' @ key)
           (db_insert ''system_configs'' system_configs system_configs_update cfg_clash
             (\<lambda>now i. \<lparr>cfg_key = key, cfg_value = value\<rparr>)))
         (\<lambda>_. returnE ())
       else returnE ())))"

definition EnsureConfigs :: "(string \<times> string) list \<Rightarrow> ('z config_db_scheme, unit) eff" where
  "EnsureConfigs configs = bindE (mapE ensure_config configs) (\<lambda>_. returnE ())"

definition DefaultMaxRetries :: int where "DefaultMaxRetries = 3"

text \<open>\<^verbatim>\<open>val.Int()\<close> of the configured text is the ORM's conversion, the parameter
  \<open>toInt\<close>; \<^verbatim>\<open>val == nil\<close> is a missing row.\<close>

definition GetMaxRetries :: "(string \<Rightarrow> int) \<Rightarrow> ('z config_db_scheme, int) eff" where
  "GetMaxRetries toInt =
     bindE (tryE (db_one system_configs (\<lambda>r. cfg_key r = ''gateway.max_retries''))) (\<lambda>r. case r of
       Inl err \<Rightarrow> returnE DefaultMaxRetries
     | Inr None \<Rightarrow> returnE DefaultMaxRetries
     | Inr (Some row) \<Rightarrow> (let n = toInt (cfg_value row) in
         if n \<le> 0 then returnE DefaultMaxRetries else returnE n))"

declare config_value_def [run] GetInt_def [run] ensure_config_def [run] EnsureConfigs_def [run]
  GetMaxRetries_def [run] cfg_clash_def [run] ParseInt_def [run] parse_uint_def [run] is_digit_def [run]
  digit_val_def [run] is_i64_def [run]

section \<open>Lemmas\<close>

text \<open>Reading never fails and changes no table.\<close>

lemma GetInt_total: "\<exists>n s'. GetInt k d s = (Inr n, s') \<and> (\<exists>f. s' = s\<lparr>script := f\<rparr>)"
proof -
  obtain r f where "config_value k s = (r, s\<lparr>script := f\<rparr>)"
    by (cases "next_fault (script s)") (auto simp: config_value_def db_one_def db_call_def eff_defs Let_def)
  then show ?thesis
    by (auto simp: GetInt_def eff_defs split: sum.splits option.splits)
qed

lemma GetInt_pres [pres]: "stable I \<Longrightarrow> preserves I (GetInt k d)"
  unfolding GetInt_def config_value_def by (intro pres)

lemma GetInt_ok: "GetInt k d s = (Inr n, s') \<Longrightarrow> \<exists>f. s' = s\<lparr>script := f\<rparr>"
  using GetInt_total [of k d s] by auto

lemma GetInt_reads [reads]: "reads_only (GetInt k d)"
  unfolding GetInt_def config_value_def by (intro reads)

lemma GetInt_value:
  "GetInt k d s = (Inr n, s') \<Longrightarrow> n = d \<or> (\<exists>row \<in> set (system_configs s). cfg_key row = k \<and> ParseInt (cfg_value row) = Some n)"
  by (cases "next_fault (script s)")
    (auto simp: GetInt_def config_value_def db_one_def db_call_def eff_defs Let_def find_Some_iff
      split: option.splits if_splits)

lemma GetMaxRetries_pres [pres]: "stable I \<Longrightarrow> preserves I (GetMaxRetries toInt)"
  unfolding GetMaxRetries_def Let_def
  by (intro pres) (auto simp: preserves_def returnE_def split: option.splits)

definition config_of :: "'z config_db_scheme \<Rightarrow> string \<Rightarrow> string option" where
  "config_of s k = map_option cfg_value (find (\<lambda>r. cfg_key r = k) (system_configs s))"

text \<open>The rows after the UPDATE of a key, as an abstract operation on the table.\<close>

definition set_value :: "string \<Rightarrow> string \<Rightarrow> config_row list \<Rightarrow> config_row list" where
  "set_value k v = map (\<lambda>r. if cfg_key r = k then r\<lparr>cfg_value := v\<rparr> else r)"

definition get_value :: "string \<Rightarrow> config_row list \<Rightarrow> string option" where
  "get_value k rs = map_option cfg_value (find (\<lambda>r. cfg_key r = k) rs)"

definition has_key :: "string \<Rightarrow> config_row list \<Rightarrow> bool" where
  "has_key k rs \<longleftrightarrow> (\<exists>r \<in> set rs. cfg_key r = k)"

lemma get_value_simps [simp]:
  "get_value k [] = None"
  "get_value k (r # rs) = (if cfg_key r = k then Some (cfg_value r) else get_value k rs)"
  by (simp_all add: get_value_def)

lemma set_value_simps [simp]:
  "set_value k v [] = []"
  "set_value k v (r # rs) = (if cfg_key r = k then r\<lparr>cfg_value := v\<rparr> else r) # set_value k v rs"
  by (simp_all add: set_value_def)

lemma has_key_simps [simp]:
  "has_key k [] = False"
  "has_key k (r # rs) = (cfg_key r = k \<or> has_key k rs)"
  by (simp_all add: has_key_def)

lemma get_set_value:
  "get_value k (set_value key v rs) = (if k = key \<and> has_key key rs then Some v else get_value k rs)"
  by (induction rs) auto

lemma get_append:
  "get_value k (rs @ [r]) = (case get_value k rs of
     None \<Rightarrow> if cfg_key r = k then Some (cfg_value r) else None | Some x \<Rightarrow> Some x)"
  by (induction rs) auto

lemma has_key_set [simp]: "has_key k (set_value key v rs) = has_key k rs"
  by (induction rs) auto

lemma get_value_none: "get_value k rs = None \<longleftrightarrow> \<not> has_key k rs"
  by (induction rs) auto

lemma count_has_key: "filter (\<lambda>r. cfg_key r = k) rs = [] \<longleftrightarrow> \<not> has_key k rs"
  by (auto simp: filter_empty_conv has_key_def)

lemma config_of_get: "config_of s k = get_value k (system_configs s)"
  by (simp add: config_of_def get_value_def)

lemma ensure_config_table:
  assumes "ensure_config (key, v) s = (Inr u, s')"
  shows "has_key key (system_configs s) \<and> system_configs s' = set_value key v (system_configs s) \<or>
    \<not> has_key key (system_configs s) \<and>
      system_configs s' = set_value key v (system_configs s) @ [\<lparr>cfg_key = key, cfg_value = v\<rparr>]"
proof -
  let ?ins = "db_insert ''system_configs'' system_configs system_configs_update cfg_clash
    (\<lambda>now i. \<lparr>cfg_key = key, cfg_value = v\<rparr>)"
  obtain n s1 r s2 where 1: "db_update system_configs system_configs_update (\<lambda>r. cfg_key r = key)
      (\<lambda>r. r\<lparr>cfg_value := v\<rparr>) s = (Inr n, s1)"
    and 2: "db_count system_configs (\<lambda>r. cfg_key r = key) s1 = (r, s2)"
    and 3: "(if (case r of Inl _ \<Rightarrow> 0 | Inr n \<Rightarrow> n) = 0
      then bindE (wrapE (''insert system_config '' @ key) ?ins) (\<lambda>_. returnE ()) else returnE ()) s2 = (Inr u, s')"
    using assms unfolding ensure_config_def Let_def by (auto simp only: prod.case bindE_ok wrapE_ok tryE_ok)
  have s1: "system_configs s1 = set_value key v (system_configs s)"
    using 1 by (auto simp: ok_simps set_value_def)
  have s2: "system_configs s2 = set_value key v (system_configs s)" using db_count_read [OF 2] s1 by simp
  show ?thesis
  proof (cases "(case r of Inl _ \<Rightarrow> 0 | Inr n \<Rightarrow> n) = 0")
    case True
    with 3 obtain i where "?ins s2 = (Inr i, s')"
      by (auto simp only: simp_thms if_True bindE_ok wrapE_ok returnE_ok)
    then have "system_configs s' = system_configs s2 @ [\<lparr>cfg_key = key, cfg_value = v\<rparr>]"
      and "\<not> has_key key (system_configs s2)"
      unfolding db_insert_ok by (simp_all add: Let_def cfg_clash_def has_key_def)
    then show ?thesis using s2 by simp
  next
    case False
    then obtain m where r: "r = Inr m" "m \<noteq> 0" by (cases r) auto
    then have "has_key key (system_configs s2)"
      using 2 count_has_key [of key "system_configs s2"] by (auto simp: db_count_ok)
    moreover have "s' = s2" using 3 False by (simp add: ok_simps)
    ultimately show ?thesis using s2 by simp
  qed
qed

lemma ensure_config_ok:
  assumes "ensure_config (key, v) s = (Inr u, s')"
  shows "config_of s' = (config_of s)(key := Some v)"
proof (rule ext)
  fix k
  show "config_of s' k = ((config_of s)(key := Some v)) k"
    using ensure_config_table [OF assms] get_value_none [of key "system_configs s"]
    by (auto simp: config_of_get get_set_value get_append split: option.split)
qed

lemma ensure_configs_ok:
  "mapE ensure_config kvs s = (Inr us, s') \<Longrightarrow> config_of s' = config_of s ++ map_of (rev kvs)"
proof (induction kvs arbitrary: s us)
  case Nil
  then show ?case by (simp add: ok_simps)
next
  case (Cons kv kvs)
  obtain k v where kv: "kv = (k, v)" by force
  obtain u s1 vs where "ensure_config (k, v) s = (Inr u, s1)" and "mapE ensure_config kvs s1 = (Inr vs, s')"
    using Cons.prems kv by (auto simp: ok_simps)
  then have "config_of s1 = (config_of s)(k \<mapsto> v)" and "config_of s' = config_of s1 ++ map_of (rev kvs)"
    using ensure_config_ok Cons.IH by blast+
  then show ?case using kv by (simp add: map_add_upd_left [symmetric] map_add_def fun_eq_iff split: option.split)
qed

text \<open>A successful EnsureConfigs leaves every given key at the given value and every
  other key alone: a key that was configured before is overwritten, although the comment of
  the function promises to insert only keys that do not exist.\<close>

theorem EnsureConfigs_overwrites:
  assumes "EnsureConfigs kvs s = (Inr u, s')" and "distinct (map fst kvs)"
  shows "(\<forall>(k, v) \<in> set kvs. config_of s' k = Some v) \<and>
    (\<forall>k. k \<notin> fst ` set kvs \<longrightarrow> config_of s' k = config_of s k)"
proof -
  obtain us where "mapE ensure_config kvs s = (Inr us, s')"
    using assms(1) by (auto simp: EnsureConfigs_def ok_simps)
  then have c: "config_of s' = config_of s ++ map_of (rev kvs)" by (rule ensure_configs_ok)
  have "distinct (map fst (rev kvs))" using assms(2) by (simp add: rev_map [symmetric])
  from map_of_eq_Some_iff [OF this] have "\<forall>(k, v) \<in> set kvs. config_of s' k = Some v"
    by (auto simp: c map_add_Some_iff)
  moreover have "\<forall>k. k \<notin> fst ` set kvs \<longrightarrow> config_of s' k = config_of s k"
    by (simp add: c map_add_def map_of_eq_None_iff [THEN iffD2])
  ultimately show ?thesis by blast
qed

definition demo_configs :: config_db where
  "demo_configs = \<lparr>script = [], seqs = (\<lambda>_. 0), norows = False, clock = 0,
     system_configs = [\<lparr>cfg_key = ''gateway.max_retries'', cfg_value = ''9''\<rparr>]\<rparr>"

lemma demo_configs_run: "\<exists>s'. EnsureConfigs [(''gateway.max_retries'', ''3'')] demo_configs = (Inr (), s')"
  by (simp add: run demo_configs_def)

theorem EnsureConfigs_overwrites_witness:
  "config_of demo_configs ''gateway.max_retries'' = Some ''9'' \<and>
   (\<exists>s'. EnsureConfigs [(''gateway.max_retries'', ''3'')] demo_configs = (Inr (), s') \<and>
     config_of s' ''gateway.max_retries'' = Some ''3'')"
proof -
  obtain s' where "EnsureConfigs [(''gateway.max_retries'', ''3'')] demo_configs = (Inr (), s')"
    using demo_configs_run by blast
  moreover from EnsureConfigs_overwrites [OF this]
  have "config_of s' ''gateway.max_retries'' = Some ''3''" by simp
  ultimately show ?thesis by (auto simp: demo_configs_def config_of_def)
qed

end
