(* ===== verification/Json.thy ===== *)
theory Json
  imports Prelude
begin

text \<open>
  JSON as \<^verbatim>\<open>encoding/json\<close> sees it.  A byte slice or a text column that holds a JSON
  document is represented by its value: an integer literal is \<open>JNum\<close>, any other number literal
  \<open>JFloat\<close> with its text, and \<open>JTime\<close> is the text a \<^verbatim>\<open>time.Time\<close> marshals to.  A
  decoding target is a function that answers \<open>None\<close> where Unmarshal reports a type error; as in
  Go, null leaves a target at its zero value and the last of several equal keys wins.  Keys are
  compared exactly (Go also accepts other cases of a struct's field names).
\<close>

datatype json =
    JNull
  | JBool bool
  | JNum int
  | JFloat string
  | JStr string
  | JTime int
  | JArr "json list"
  | JObj "(string \<times> json) list"

type_synonym raw = "json option"

section \<open>Decoding\<close>

definition jlookup :: "string \<Rightarrow> (string \<times> 'a) list \<Rightarrow> 'a option" where
  "jlookup k kvs = map_of (rev kvs) k"

fun dec_string :: "json \<Rightarrow> string option" where
  "dec_string (JStr s) = Some s"
| "dec_string JNull = Some []"
| "dec_string _ = None"

fun dec_int :: "json \<Rightarrow> int option" where
  "dec_int (JNum n) = (if is_i64 n then Some n else None)"
| "dec_int JNull = Some 0"
| "dec_int _ = None"

fun dec_bool :: "json \<Rightarrow> bool option" where
  "dec_bool (JBool b) = Some b"
| "dec_bool JNull = Some False"
| "dec_bool _ = None"

fun dec_time :: "json \<Rightarrow> int option" where
  "dec_time (JTime t) = Some t"
| "dec_time JNull = Some 0"
| "dec_time _ = None"

text \<open>\<^verbatim>\<open>map[string]json.RawMessage\<close> and \<^verbatim>\<open>[]json.RawMessage\<close>; nil is the empty
  list.\<close>

fun dec_object :: "json \<Rightarrow> (string \<times> json) list option" where
  "dec_object (JObj kvs) = Some kvs"
| "dec_object JNull = Some []"
| "dec_object _ = None"

fun dec_array :: "json \<Rightarrow> json list option" where
  "dec_array (JArr xs) = Some xs"
| "dec_array JNull = Some []"
| "dec_array _ = None"

fun dec_all :: "('a \<Rightarrow> 'b option) \<Rightarrow> 'a list \<Rightarrow> 'b list option" where
  "dec_all f [] = Some []"
| "dec_all f (x # xs) = (case f x of None \<Rightarrow> None | Some y \<Rightarrow> map_option ((#) y) (dec_all f xs))"

definition dec_map :: "(json \<Rightarrow> 'a option) \<Rightarrow> json \<Rightarrow> (string \<times> 'a) list option" where
  "dec_map f j = (case dec_object j of None \<Rightarrow> None
     | Some kvs \<Rightarrow> dec_all (\<lambda>(k, v). map_option (Pair k) (f v)) kvs)"

text \<open>A field of a struct: absent means the zero value.\<close>

definition dec_field :: "string \<Rightarrow> (json \<Rightarrow> 'a option) \<Rightarrow> 'a \<Rightarrow> (string \<times> json) list \<Rightarrow> 'a option" where
  "dec_field k f zero kvs = (case jlookup k kvs of None \<Rightarrow> Some zero | Some v \<Rightarrow> f v)"

text \<open>A pointer field: null and absent are nil.\<close>

definition dec_ptr :: "(json \<Rightarrow> 'a option) \<Rightarrow> json \<Rightarrow> 'a option option" where
  "dec_ptr f j = (if j = JNull then Some None else map_option Some (f j))"

section \<open>Encoding\<close>

text \<open>A field with \<^verbatim>\<open>omitempty\<close>.\<close>

definition omit_if :: "bool \<Rightarrow> string \<Rightarrow> json \<Rightarrow> (string \<times> json) list" where
  "omit_if c k v = (if c then [] else [(k, v)])"

lemma jlookup_append: "jlookup k (xs @ ys) = (case jlookup k ys of None \<Rightarrow> jlookup k xs | Some v \<Rightarrow> Some v)"
  by (simp add: jlookup_def map_add_def split: option.split)

lemma jlookup_Nil [simp]: "jlookup k [] = None"
  by (simp add: jlookup_def)

lemma jlookup_Cons: "jlookup k ((q, v) # kvs) = (case jlookup k kvs of None \<Rightarrow> if q = k then Some v else None | Some w \<Rightarrow> Some w)"
  using jlookup_append [of k "[(q, v)]" kvs] by (simp add: jlookup_def split: option.split)

lemma jlookup_omit: "jlookup k (omit_if c q v) = (if \<not> c \<and> q = k then Some v else None)"
  by (simp add: omit_if_def jlookup_Cons)

lemmas jlookup_simps = jlookup_append jlookup_Cons jlookup_omit

lemma dec_field_Cons:
  "dec_field k f z ((q, v) # kvs) = (if jlookup k kvs = None \<and> q = k then f v else dec_field k f z kvs)"
  by (simp add: dec_field_def jlookup_Cons split: option.split)

lemma dec_field_omit:
  "dec_field k f z (omit_if c q v @ kvs) =
    (if \<not> c \<and> jlookup k kvs = None \<and> q = k then f v else dec_field k f z kvs)"
  by (simp add: dec_field_def jlookup_simps split: option.split)

lemma dec_field_Nil [simp]: "dec_field k f z [] = Some z"
  by (simp add: dec_field_def)

text \<open>A document given by its fields, each with whether it is written: with distinct keys a field
  is read back as it was written.\<close>

definition doc :: "(bool \<times> string \<times> json) list \<Rightarrow> (string \<times> json) list" where
  "doc l = map snd (filter fst l)"

fun field_of :: "string \<Rightarrow> (bool \<times> string \<times> json) list \<Rightarrow> json option" where
  "field_of k [] = None"
| "field_of k ((p, q, v) # l) = (if q = k then (if p then Some v else None) else field_of k l)"

lemma jlookup_doc_absent: "k \<notin> (\<lambda>x. fst (snd x)) ` set l \<Longrightarrow> jlookup k (doc l) = None"
  by (induction l) (auto simp: doc_def jlookup_Cons)

lemma jlookup_doc: "distinct (map (\<lambda>x. fst (snd x)) l) \<Longrightarrow> jlookup k (doc l) = field_of k l"
proof (induction l)
  case Nil
  then show ?case by (simp add: doc_def)
next
  case (Cons x l)
  obtain p q v where x: "x = (p, q, v)" by (cases x)
  have split: "jlookup k (doc (x # l)) = (case jlookup k (doc l) of None \<Rightarrow> if p \<and> q = k then Some v else None | Some w \<Rightarrow> Some w)"
    by (simp add: doc_def x jlookup_Cons split: option.split)
  show ?case
  proof (cases "q = k")
    case True
    then have "jlookup k (doc l) = None" using Cons.prems x by (intro jlookup_doc_absent) simp
    then show ?thesis using split x True by simp
  next
    case False
    then show ?thesis using split x Cons by (simp split: option.split)
  qed
qed

lemma dec_field_doc:
  "distinct (map (\<lambda>x. fst (snd x)) l) \<Longrightarrow>
    dec_field k f z (doc l) = (case field_of k l of None \<Rightarrow> Some z | Some v \<Rightarrow> f v)"
  by (simp add: dec_field_def jlookup_doc)

lemma doc_simps: "doc [] = []" "doc ((True, k, v) # l) = (k, v) # doc l" "doc ((\<not> c, k, v) # l) = omit_if c k v @ doc l"
  by (simp_all add: doc_def omit_if_def)

declare jlookup_def [run] dec_field_def [run] dec_map_def [run] omit_if_def [run] dec_ptr_def [run]

lemma dec_all_length: "dec_all f xs = Some ys \<Longrightarrow> length ys = length xs"
  by (induction xs arbitrary: ys) (auto split: option.splits)

end
