(* ===== verification/Scheduler.thy ===== *)
theory Scheduler
  imports RelayConst SysConfig Json "HOL-Library.Multiset"
begin

text \<open>
  Choosing a channel: \<^verbatim>\<open>internal/relay/scheduler\<close> (scheduler.go, affinity.go,
  retry.go) over the candidates of \<^verbatim>\<open>internal/relay/common/candidate.go\<close>.
  \<^verbatim>\<open>sort.Slice\<close>, which is not stable, and \<^verbatim>\<open>rand.IntN\<close> are
  parameters: any sorting permutation and any number in range.
\<close>

record ChannelCandidate =
  cc_ChannelID :: int
  cc_ChannelName :: string
  cc_BaseURL :: string
  cc_Priority :: int
  cc_Weight :: int
  cc_HealthScore :: int
  cc_ModelKeyID :: int
  cc_KeyModelID :: int
  cc_UpstreamModelName :: string
  cc_IsModelMapped :: bool
  cc_ApiKey :: string
  cc_ProviderUserID :: int
  cc_ModelSpecID :: int
  cc_ProtocolKey :: string
  cc_ProtocolsJSON :: raw
  cc_ChannelType :: int
  cc_ProviderShareBps :: int
  cc_CacheHitPricePer1K :: int
  cc_CacheMissPricePer1K :: int
  cc_OutputPricePer1K :: int

section \<open>Select\<close>

text \<open>The groups of equal priority of a sorted list, in order (the loop of groupByPriority:
  current priority, current group, groups so far).\<close>

fun group_loop :: "int \<Rightarrow> ChannelCandidate list \<Rightarrow> ChannelCandidate list list \<Rightarrow> ChannelCandidate list \<Rightarrow>
    ChannelCandidate list list" where
  "group_loop curPrio curGroup groups [] = groups @ [curGroup]"
| "group_loop curPrio curGroup groups (c # cs) =
     (if cc_Priority c = curPrio then group_loop curPrio (curGroup @ [c]) groups cs
      else group_loop (cc_Priority c) [c] (groups @ [curGroup]) cs)"

definition groupByPriority ::
  "(ChannelCandidate list \<Rightarrow> ChannelCandidate list) \<Rightarrow> ChannelCandidate list \<Rightarrow> ChannelCandidate list list" where
  "groupByPriority srt candidates =
     (case srt candidates of [] \<Rightarrow> [] | c # cs \<Rightarrow> group_loop (cc_Priority c) [c] [] cs)"

text \<open>The weight of a candidate, degraded by its health; Go's \<^verbatim>\<open>/=\<close> on a positive int.\<close>

definition eff_weight :: "ChannelCandidate \<Rightarrow> int" where
  "eff_weight c =
     (let w = (if cc_Weight c \<le> 0 then 1 else cc_Weight c)
      in if cc_HealthScore c < 80 then (if cc_HealthScore c \<ge> 50 then w div 2 else w div 4) else w)"

fun weighted_pick :: "int \<Rightarrow> int \<Rightarrow> ChannelCandidate list \<Rightarrow> ChannelCandidate option" where
  "weighted_pick r cum [] = None"
| "weighted_pick r cum (c # cs) =
     (let cum' = i64 (cum + eff_weight c) in if r < cum' then Some c else weighted_pick r cum' cs)"

definition weight_total :: "ChannelCandidate list \<Rightarrow> int" where
  "weight_total cs = foldl (\<lambda>t c. i64 (t + eff_weight c)) 0 cs"

definition weightedRandomSelect :: "(int \<Rightarrow> int) \<Rightarrow> ChannelCandidate list \<Rightarrow> ChannelCandidate" where
  "weightedRandomSelect rnd candidates =
     (if weight_total candidates \<le> 0 then hd candidates
      else (case weighted_pick (rnd (weight_total candidates)) 0 candidates of
         Some c \<Rightarrow> c | None \<Rightarrow> last candidates))"

definition Select ::
  "(ChannelCandidate list \<Rightarrow> ChannelCandidate list) \<Rightarrow> (int \<Rightarrow> int) \<Rightarrow> ChannelCandidate list \<Rightarrow>
   ChannelCandidate option" where
  "Select srt rnd candidates =
     (if candidates = [] then None else
      let healthy0 = filter (\<lambda>c. cc_HealthScore c \<ge> 20) candidates;
          healthy = (if healthy0 = [] then candidates else healthy0);
          highest = last (groupByPriority srt healthy)
      in if length highest = 1 then Some (hd highest) else Some (weightedRandomSelect rnd highest))"

section \<open>Affinity\<close>

text \<open>The store of affinity.go: times are in seconds, and every operation reads the clock.\<close>

definition AffinityTTL :: int where "AffinityTTL = 1800"

record affinityEntry =
  af_ChannelID :: int
  af_HitCount :: int
  af_ExpiresAt :: int

type_synonym AffinityStore = "int \<times> string \<Rightarrow> affinityEntry option"

definition NewAffinityStore :: AffinityStore where
  "NewAffinityStore = (\<lambda>_. None)"

definition affinity_Get :: "int \<Rightarrow> int \<Rightarrow> string \<Rightarrow> AffinityStore \<Rightarrow> int option" where
  "affinity_Get now userID modelName s =
     (case s (userID, modelName) of None \<Rightarrow> None
      | Some entry \<Rightarrow> if now > af_ExpiresAt entry then None else Some (af_ChannelID entry))"

definition affinity_Set :: "int \<Rightarrow> int \<Rightarrow> string \<Rightarrow> int \<Rightarrow> AffinityStore \<Rightarrow> AffinityStore" where
  "affinity_Set now userID modelName channelID s =
     (case s (userID, modelName) of
        Some existing \<Rightarrow>
          (let expiry0 = now + AffinityTTL;
               expiry = (if af_ExpiresAt existing > expiry0 then af_ExpiresAt existing else expiry0)
           in s((userID, modelName) \<mapsto> existing\<lparr>af_ChannelID := channelID,
                  af_HitCount := af_HitCount existing + 1, af_ExpiresAt := expiry\<rparr>))
      | None \<Rightarrow> s((userID, modelName) \<mapsto>
          \<lparr>af_ChannelID = channelID, af_HitCount = 1, af_ExpiresAt = now + AffinityTTL\<rparr>))"

definition affinity_Delete :: "int \<Rightarrow> string \<Rightarrow> AffinityStore \<Rightarrow> AffinityStore" where
  "affinity_Delete userID modelName s = s((userID, modelName) := None)"

definition affinity_DeleteByChannel :: "int \<Rightarrow> AffinityStore \<Rightarrow> AffinityStore" where
  "affinity_DeleteByChannel channelID s = (\<lambda>k. case s k of
     Some entry \<Rightarrow> if af_ChannelID entry = channelID then None else Some entry | None \<Rightarrow> None)"

definition affinity_Size :: "AffinityStore \<Rightarrow> nat" where
  "affinity_Size s = card (dom s)"

section \<open>Retry\<close>

definition net_IsRetryable :: "go_err option \<Rightarrow> bool" where
  "net_IsRetryable err = (case err of None \<Rightarrow> False
     | Some e \<Rightarrow>
        (let msg = ToLower (err_text e) in
         (case e of ErrNet m \<Rightarrow> True | ErrURL m \<Rightarrow> True | _ \<Rightarrow> False) \<or>
         Contains msg ''no such host'' \<or> Contains msg ''connection refused'' \<or>
         Contains msg ''connection reset'' \<or> Contains msg ''broken pipe'' \<or>
         Contains msg ''timeout'' \<or> Contains msg ''tls handshake''))"

definition ShouldRetry :: "go_err option \<Rightarrow> int \<Rightarrow> int \<Rightarrow> bool" where
  "ShouldRetry err retryCount maxRetries =
     (if retryCount \<ge> maxRetries then False else net_IsRetryable err)"

declare groupByPriority_def [run] eff_weight_def [run] weight_total_def [run]
  weightedRandomSelect_def [run] Select_def [run] affinity_Get_def [run] affinity_Set_def [run]
  affinity_Delete_def [run] AffinityTTL_def [run] NewAffinityStore_def [run]
  net_IsRetryable_def [run] ShouldRetry_def [run]

section \<open>Grouping\<close>

lemma group_loop_last:
  assumes "sorted (map cc_Priority (curGroup @ cs))" and "\<forall>c \<in> set curGroup. cc_Priority c = p"
    and "curGroup \<noteq> []"
  shows "last (group_loop p curGroup groups cs) =
    filter (\<lambda>c. cc_Priority c = cc_Priority (last (curGroup @ cs))) (curGroup @ cs)"
  using assms
proof (induction cs arbitrary: p curGroup groups)
  case Nil
  then have "cc_Priority (last curGroup) = p" using last_in_set by blast
  with Nil show ?case by (simp add: filter_True)
next
  case (Cons c cs)
  show ?case
  proof (cases "cc_Priority c = p")
    case True
    then show ?thesis using Cons.IH [of "curGroup @ [c]" p groups] Cons.prems by simp
  next
    case False
    have lt: "\<forall>x \<in> set curGroup. cc_Priority x < cc_Priority c"
      using Cons.prems False by (auto simp: sorted_append order_le_neq_trans)
    have le: "cc_Priority c \<le> cc_Priority (last (c # cs))"
      using Cons.prems(1) last_in_set [of cs] by (auto simp: sorted_append)
    then have "filter (\<lambda>x. cc_Priority x = cc_Priority (last (c # cs))) curGroup = []"
      using lt by (auto simp: filter_empty_conv)
    moreover have "last (group_loop (cc_Priority c) [c] (groups @ [curGroup]) cs) =
        filter (\<lambda>x. cc_Priority x = cc_Priority (last ([c] @ cs))) ([c] @ cs)"
      using Cons.prems(1) by (intro Cons.IH) (auto simp: sorted_append)
    ultimately show ?thesis using False by simp
  qed
qed

lemma sorted_last_max: "sorted (map k ys) \<Longrightarrow> x \<in> set ys \<Longrightarrow> k x \<le> k (last ys)"
  by (induction ys) (auto split: if_splits)

text \<open>What \<^verbatim>\<open>sort.Slice\<close> promises: a sorted permutation.\<close>

locale unstable_sort =
  fixes srt :: "'c list \<Rightarrow> 'c list" and key :: "'c \<Rightarrow> int"
  assumes srt_perm: "mset (srt xs) = mset xs"
    and srt_sorted: "sorted (map key (srt xs))"
begin

lemma srt_set: "set (srt xs) = set xs"
  using srt_perm mset_eq_setD by blast

lemma srt_Nil: "srt xs = [] \<longleftrightarrow> xs = []"
  by (metis srt_perm mset_zero_iff)

lemma srt_last_max: "x \<in> set xs \<Longrightarrow> key x \<le> key (last (srt xs))"
  using sorted_last_max [OF srt_sorted] srt_set by metis

lemma srt_filter_max: "mset (filter P (srt xs)) = mset (filter P xs)"
  by (metis mset_filter srt_perm)

end

interpretation sk: unstable_sort "sort_key cc_Priority" cc_Priority
  by unfold_locales simp_all

section \<open>The weighted draw\<close>

lemma eff_weight_nonneg: "0 \<le> eff_weight c"
  by (simp add: eff_weight_def Let_def pos_imp_zdiv_nonneg_iff)

definition weights :: "ChannelCandidate list \<Rightarrow> int" where
  "weights cs = sum_list (map eff_weight cs)"

lemma weights_simps [simp]: "weights [] = 0" "weights (c # cs) = eff_weight c + weights cs"
  "weights (xs @ ys) = weights xs + weights ys"
  by (simp_all add: weights_def)

lemma weights_nonneg: "0 \<le> weights cs"
  using eff_weight_nonneg by (induction cs) (auto simp: add_nonneg_nonneg)

lemma weight_total_eq:
  assumes "weights cs < 2 ^ 63"
  shows "weight_total cs = weights cs"
proof -
  have "foldl (\<lambda>t c. i64 (t + eff_weight c)) k cs = k + weights cs"
    if "0 \<le> k" "k + weights cs < 2 ^ 63" for k
    using that
  proof (induction cs arbitrary: k)
    case (Cons c cs)
    have "0 \<le> k + eff_weight c" using Cons.prems eff_weight_nonneg [of c] by simp
    moreover have "k + eff_weight c < 2 ^ 63" using Cons.prems weights_nonneg [of cs] by simp
    ultimately have "i64 (k + eff_weight c) = k + eff_weight c" by (simp add: i64_id is_i64_def)
    then show ?case using Cons \<open>0 \<le> k + eff_weight c\<close> by (simp add: add.assoc)
  qed simp
  from this [of 0] show ?thesis using assms by (simp add: weight_total_def)
qed

text \<open>The draw \<open>r\<close> falls on the candidate at position \<open>i\<close> exactly when it lies in the
  candidate's share of the line.\<close>

lemma weighted_pick_hits:
  assumes "0 \<le> cum" and "cum + weights (xs @ c # ys) < 2 ^ 63"
    and "cum + weights xs \<le> r" and "r < cum + weights xs + eff_weight c"
  shows "weighted_pick r cum (xs @ c # ys) = Some c"
  using assms
proof (induction xs arbitrary: cum)
  case Nil
  then have "cum + eff_weight c < 2 ^ 63" using weights_nonneg [of ys] by simp
  moreover have "0 \<le> cum + eff_weight c" using Nil(1) eff_weight_nonneg [of c] by simp
  ultimately have "i64 (cum + eff_weight c) = cum + eff_weight c" by (simp add: i64_id is_i64_def)
  then show ?case using Nil by (simp add: Let_def)
next
  case (Cons x xs)
  have lt: "cum + eff_weight x < 2 ^ 63"
    using Cons.prems weights_nonneg [of xs] weights_nonneg [of ys] eff_weight_nonneg [of c] by simp
  have ge: "0 \<le> cum + eff_weight x" using Cons.prems(1) eff_weight_nonneg [of x] by simp
  have "i64 (cum + eff_weight x) = cum + eff_weight x" using lt ge by (simp add: i64_id is_i64_def)
  moreover have "\<not> r < cum + eff_weight x" using Cons.prems(3) weights_nonneg [of xs] by simp
  ultimately show ?case using Cons.IH [OF ge] Cons.prems by (simp add: Let_def add.assoc)
qed

lemma weights_split:
  assumes "0 \<le> r" and "r < weights cs"
  obtains xs c ys where "cs = xs @ c # ys" "weights xs \<le> r" "r < weights xs + eff_weight c"
  using assms
proof (induction cs arbitrary: r thesis)
  case (Cons c cs)
  show ?case
  proof (cases "r < eff_weight c")
    case True
    then show ?thesis using Cons.prems(1) [of "[]" c cs] Cons.prems(2) by simp
  next
    case False
    then obtain xs d ys where "cs = xs @ d # ys" "weights xs \<le> r - eff_weight c" "r - eff_weight c < weights xs + eff_weight d"
      using Cons.IH [of "r - eff_weight c"] Cons.prems(3) by auto
    then show ?thesis using Cons.prems(1) [of "c # xs" d ys] by simp
  qed
qed simp

lemma weightedRandomSelect_mem:
  assumes "cs \<noteq> []"
  shows "weightedRandomSelect rnd cs \<in> set cs"
proof -
  have "weighted_pick r cum xs = Some c \<Longrightarrow> c \<in> set xs" for r cum xs c
    by (induction xs arbitrary: cum) (auto simp: Let_def split: if_splits)
  then show ?thesis using assms by (auto simp: weightedRandomSelect_def split: option.split)
qed

lemma groupByPriority_last:
  assumes "unstable_sort srt cc_Priority" and "cs \<noteq> []"
  shows "last (groupByPriority srt cs) =
    filter (\<lambda>c. cc_Priority c = cc_Priority (last (srt cs))) (srt cs)"
proof -
  obtain x xs where x: "srt cs = x # xs"
    using assms unstable_sort.srt_Nil [OF assms(1)] by (cases "srt cs") auto
  have "sorted (map cc_Priority ([x] @ xs))" using unstable_sort.srt_sorted [OF assms(1), of cs] x by simp
  from group_loop_last [OF this] show ?thesis by (simp add: groupByPriority_def x)
qed

lemma Select_chooses:
  assumes "unstable_sort srt cc_Priority" and "cs \<noteq> []"
  shows "\<exists>c \<in> set cs. Select srt rnd cs = Some c \<and>
    ((\<exists>d \<in> set cs. cc_HealthScore d \<ge> 20) \<longrightarrow> cc_HealthScore c \<ge> 20) \<and>
    (\<forall>d \<in> set cs. cc_HealthScore d \<ge> 20 \<or> \<not> (\<exists>e \<in> set cs. cc_HealthScore e \<ge> 20) \<longrightarrow>
       cc_Priority d \<le> cc_Priority c)"
proof -
  define h where "h = filter (\<lambda>c. cc_HealthScore c \<ge> 20) cs"
  define hs where "hs = (if h = [] then cs else h)"
  define top where "top = last (groupByPriority srt hs)"
  have hs: "hs \<noteq> []" using assms(2) by (simp add: hs_def)
  have top: "top = filter (\<lambda>c. cc_Priority c = cc_Priority (last (srt hs))) (srt hs)"
    unfolding top_def by (rule groupByPriority_last [OF assms(1) hs])
  have ne: "srt hs \<noteq> []" using hs unstable_sort.srt_Nil [OF assms(1)] by blast
  then have "last (srt hs) \<in> set top" by (simp add: top)
  then have tne: "top \<noteq> []" by auto
  define c where "c = (if length top = 1 then hd top else weightedRandomSelect rnd top)"
  have ct: "c \<in> set top" using tne weightedRandomSelect_mem [OF tne] by (simp add: c_def)
  have sel: "Select srt rnd cs = Some c"
    using assms(2) by (simp add: Select_def Let_def c_def top_def hs_def h_def)
  have chs: "c \<in> set hs" using ct unstable_sort.srt_set [OF assms(1)] by (simp add: top)
  have max: "cc_Priority d \<le> cc_Priority c" if "d \<in> set hs" for d
    using unstable_sort.srt_last_max [OF assms(1) that] ct by (simp add: top)
  have hset: "set h = {x \<in> set cs. cc_HealthScore x \<ge> 20}" by (simp add: h_def)
  show ?thesis
  proof (cases "h = []")
    case True
    then have "hs = cs" "\<not> (\<exists>e \<in> set cs. cc_HealthScore e \<ge> 20)" using hset by (auto simp: hs_def)
    then show ?thesis using sel chs max by blast
  next
    case False
    then have "set hs = {x \<in> set cs. cc_HealthScore x \<ge> 20}" using hset by (simp add: hs_def)
    then show ?thesis using sel chs max by blast
  qed
qed

lemma Select_mem: "unstable_sort srt cc_Priority \<Longrightarrow> Select srt rnd cs = Some c \<Longrightarrow> c \<in> set cs"
  using Select_chooses [of srt cs rnd] by (cases "cs = []") (auto simp: Select_def)

section \<open>Properties\<close>

text \<open>Property C7.  Select returns nothing only for no candidates; otherwise it returns one of
  them, a healthy one (health at least 20) if there is any, and among those it chooses from,
  one of the highest priority.\<close>

theorem Select_best:
  assumes "unstable_sort srt cc_Priority" and "cs \<noteq> []"
  shows "\<exists>c \<in> set cs. Select srt rnd cs = Some c \<and>
    ((\<exists>d \<in> set cs. cc_HealthScore d \<ge> 20) \<longrightarrow> cc_HealthScore c \<ge> 20) \<and>
    (\<forall>d \<in> set cs. cc_HealthScore d \<ge> 20 \<or> \<not> (\<exists>e \<in> set cs. cc_HealthScore e \<ge> 20) \<longrightarrow>
       cc_Priority d \<le> cc_Priority c)"
  using assms by (rule Select_chooses)

definition demo_cand :: "int \<Rightarrow> int \<Rightarrow> int \<Rightarrow> int \<Rightarrow> ChannelCandidate" where
  "demo_cand i p w h = \<lparr>cc_ChannelID = i, cc_ChannelName = [], cc_BaseURL = [], cc_Priority = p, cc_Weight = w,
     cc_HealthScore = h, cc_ModelKeyID = i, cc_KeyModelID = i, cc_UpstreamModelName = [],
     cc_IsModelMapped = False, cc_ApiKey = [], cc_ProviderUserID = 6, cc_ModelSpecID = 1,
     cc_ProtocolKey = ''openai-compatible'', cc_ProtocolsJSON = None, cc_ChannelType = 1,
     cc_ProviderShareBps = 7000, cc_CacheHitPricePer1K = 100, cc_CacheMissPricePer1K = 500,
     cc_OutputPricePer1K = 2000\<rparr>"

theorem Select_best_witness:
  "\<exists>c. Select (sort_key cc_Priority) (\<lambda>n. 0) [demo_cand 1 5 1 10, demo_cand 2 3 1 100] = Some c \<and>
     cc_HealthScore c \<ge> 20"
  using Select_best [OF sk.unstable_sort_axioms, of "[demo_cand 1 5 1 10, demo_cand 2 3 1 100]" "\<lambda>n. 0"]
  by (auto simp: demo_cand_def)

text \<open>The weighted draw is proportional: of the \<open>weight_total\<close> equally likely
  numbers, exactly \<open>eff_weight c\<close> consecutive ones select the candidate at a given position, and
  these shares cover them all.\<close>

theorem weightedRandomSelect_proportional:
  assumes "weights (xs @ c # ys) < 2 ^ 63" and "0 < weights (xs @ c # ys)"
  shows "weight_total (xs @ c # ys) = weights (xs @ c # ys) \<and>
    (\<forall>r \<in> {weights xs ..< weights xs + eff_weight c}.
       weightedRandomSelect (\<lambda>n. r) (xs @ c # ys) = c)"
proof (intro conjI ballI)
  show t: "weight_total (xs @ c # ys) = weights (xs @ c # ys)" by (rule weight_total_eq [OF assms(1)])
  fix r assume r: "r \<in> {weights xs ..< weights xs + eff_weight c}"
  have "weighted_pick r 0 (xs @ c # ys) = Some c"
    by (rule weighted_pick_hits) (use r assms(1) in auto)
  then show "weightedRandomSelect (\<lambda>n. r) (xs @ c # ys) = c"
    unfolding weightedRandomSelect_def t using assms(2) by simp
qed

theorem weightedRandomSelect_proportional_witness:
  "weightedRandomSelect (\<lambda>n. 4) [demo_cand 1 0 3 100, demo_cand 2 0 6 60] = demo_cand 2 0 6 60"
proof -
  have "(4::int) \<in> {weights [demo_cand 1 0 3 100] ..< weights [demo_cand 1 0 3 100] + eff_weight (demo_cand 2 0 6 60)}"
    by (simp add: demo_cand_def eff_weight_def)
  moreover have "weights ([demo_cand 1 0 3 100] @ demo_cand 2 0 6 60 # []) = 6"
    by (simp add: demo_cand_def eff_weight_def)
  ultimately show ?thesis
    using weightedRandomSelect_proportional [of "[demo_cand 1 0 3 100]" "demo_cand 2 0 6 60" "[]"] by simp
qed

text \<open>A degraded candidate of small weight has weight zero and is never drawn beside others.\<close>

lemma eff_weight_vanishes: "cc_Weight c \<le> 1 \<Longrightarrow> cc_HealthScore c < 80 \<Longrightarrow> eff_weight c = 0"
  by (auto simp: eff_weight_def Let_def)

section \<open>Affinity as a store with expiry\<close>

text \<open>What the relay relies on: after \<open>set\<close> the channel is found until it expires, after
  \<open>del\<close> it is not, and other keys are not affected.\<close>

locale stickiness =
  fixes get :: "int \<Rightarrow> int \<Rightarrow> string \<Rightarrow> 's \<Rightarrow> int option"
    and set :: "int \<Rightarrow> int \<Rightarrow> string \<Rightarrow> int \<Rightarrow> 's \<Rightarrow> 's"
    and del :: "int \<Rightarrow> string \<Rightarrow> 's \<Rightarrow> 's"
    and ttl :: int
  assumes get_set: "now \<le> t \<Longrightarrow> t \<le> now + ttl \<Longrightarrow> get t u m (set now u m c s) = Some c"
    and get_set_other: "(u', m') \<noteq> (u, m) \<Longrightarrow> get t u' m' (set now u m c s) = get t u' m' s"
    and get_del: "get t u m (del u m s) = None"
    and get_del_other: "(u', m') \<noteq> (u, m) \<Longrightarrow> get t u' m' (del u m s) = get t u' m' s"
begin

lemma last_set_wins:
  "now \<le> t \<Longrightarrow> t \<le> now + ttl \<Longrightarrow> get t u m (set now u m c (set now' u m c' s)) = Some c"
  by (rule get_set)

lemma set_after_del:
  "now \<le> t \<Longrightarrow> t \<le> now + ttl \<Longrightarrow> get t u m (set now u m c (del u m s)) = Some c"
  by (rule get_set)

end

interpretation aff: stickiness affinity_Get affinity_Set affinity_Delete AffinityTTL
proof unfold_locales
  fix now t u m c s
  assume "now \<le> t" "t \<le> now + AffinityTTL"
  then show "affinity_Get t u m (affinity_Set now u m c s) = Some c"
    by (auto simp: affinity_Get_def affinity_Set_def Let_def split: option.split)
qed (auto simp: affinity_Get_def affinity_Set_def affinity_Delete_def Let_def split: option.split)

text \<open>Affinity: a channel that was set is found for the user and model for 30
  minutes whatever happened to other users and models in between, a refresh never shortens its
  life, and deleting a channel removes exactly its entries.\<close>

theorem affinity_sticks:
  assumes "now \<le> t" and "t \<le> now + 1800" and "(u', m') \<noteq> (u, m)"
  shows "affinity_Get t u m (affinity_Set now' u' m' c' (affinity_Set now u m c s)) = Some c \<and>
    affinity_Get t u m (affinity_Delete u' m' (affinity_Set now u m c s)) = Some c \<and>
    affinity_Get t u m (affinity_DeleteByChannel d (affinity_Set now u m c s)) =
      (if d = c then None else Some c) \<and>
    (case (s (u, m), affinity_Set now u m c s (u, m)) of
       (Some old, Some new) \<Rightarrow> af_ExpiresAt old \<le> af_ExpiresAt new | (_, new) \<Rightarrow> new \<noteq> None)"
proof (intro conjI)
  have g: "affinity_Get t u m (affinity_Set now u m c s) = Some c"
    using aff.get_set [of now t u m c s] assms by (simp add: AffinityTTL_def)
  have ne: "(u, m) \<noteq> (u', m')" using assms(3) by blast
  show "affinity_Get t u m (affinity_Set now' u' m' c' (affinity_Set now u m c s)) = Some c"
    using g aff.get_set_other [OF ne] by simp
  show "affinity_Get t u m (affinity_Delete u' m' (affinity_Set now u m c s)) = Some c"
    using g aff.get_del_other [OF ne] by simp
  show "affinity_Get t u m (affinity_DeleteByChannel d (affinity_Set now u m c s)) =
      (if d = c then None else Some c)"
    using g by (auto simp: affinity_Get_def affinity_DeleteByChannel_def split: option.splits if_splits)
  show "case (s (u, m), affinity_Set now u m c s (u, m)) of
       (Some old, Some new) \<Rightarrow> af_ExpiresAt old \<le> af_ExpiresAt new | (_, new) \<Rightarrow> new \<noteq> None"
    by (auto simp: affinity_Set_def Let_def split: option.split)
qed

theorem affinity_sticks_witness:
  "affinity_Get 1800 5 ''gpt-4o'' (affinity_Set 3 6 ''gpt-4o'' 8 (affinity_Set 0 5 ''gpt-4o'' 7 NewAffinityStore)) = Some 7"
  using affinity_sticks [of 0 1800 6 "''gpt-4o''" 5 "''gpt-4o''" 3 8 7 NewAffinityStore] by simp

text \<open>Retries are bounded: no failed call is repeated once the attempt number has
  reached the limit, and an error without a network cause is never repeated.\<close>

theorem ShouldRetry_bounded:
  "ShouldRetry err attempt limit \<Longrightarrow> attempt < limit \<and> (\<exists>e. err = Some e \<and>
     ((\<exists>m. e = ErrNet m \<or> e = ErrURL m) \<or>
      (\<exists>p \<in> {''no such host'', ''connection refused'', ''connection reset'', ''broken pipe'',
        ''timeout'', ''tls handshake''}. \<exists>a b. ToLower (err_text e) = a @ p @ b)))"
  by (auto simp: ShouldRetry_def net_IsRetryable_def Let_def Contains_iff split: if_splits option.splits go_err.splits)

theorem ShouldRetry_bounded_witness:
  "ShouldRetry (Some (ErrNet ''x'')) 2 3 \<and> (2::int) < 3"
proof -
  have "ShouldRetry (Some (ErrNet ''x'')) 2 3" by (simp add: ShouldRetry_def net_IsRetryable_def Let_def)
  then show ?thesis using ShouldRetry_bounded [of "Some (ErrNet ''x'')" 2 3] by blast
qed

end
