(* ===== verification/RelayData.thy ===== *)
theory RelayData
  imports RelayCommon Json
begin

text \<open>
  What a request carries through the relay, \<^verbatim>\<open>internal/relay/common/relay_info.go\<close>: the
  settings of a channel, the channel picked and the request itself.  The context, the socket
  connections and the tenant are left out (nothing in the model reads them).  A nil header map is
  \<open>None\<close>.
\<close>

type_synonym headers = "(string \<times> string) list"
type_synonym http_header = "(string \<times> string list) list"

record ChannelSettings =
  cs_TimeoutSeconds :: int
  cs_RetryCount :: int
  cs_ParamOverride :: "(string \<times> json) list"
  cs_HeaderOverride :: "(string \<times> json) list"
  cs_ChatCompletionsViaResponses :: bool
  cs_PassThroughBodyEnabled :: bool
  cs_SystemPrompt :: string
  cs_SystemPromptOverride :: bool
  cs_StatusCodeMapping :: string
  cs_AllowServiceTier :: bool
  cs_AllowInferenceGeo :: bool
  cs_AllowSpeed :: bool
  cs_DisableStore :: bool
  cs_AllowSafetyIdentifier :: bool
  cs_UseProxy :: bool

text \<open>The zero value of the struct.\<close>

definition zero_settings :: ChannelSettings where
  "zero_settings = \<lparr>cs_TimeoutSeconds = 0, cs_RetryCount = 0, cs_ParamOverride = [], cs_HeaderOverride = [],
     cs_ChatCompletionsViaResponses = False, cs_PassThroughBodyEnabled = False, cs_SystemPrompt = [],
     cs_SystemPromptOverride = False, cs_StatusCodeMapping = [], cs_AllowServiceTier = False,
     cs_AllowInferenceGeo = False, cs_AllowSpeed = False, cs_DisableStore = False,
     cs_AllowSafetyIdentifier = False, cs_UseProxy = False\<rparr>"

record ChannelMeta =
  cm_ChannelID :: int
  cm_ChannelType :: int
  cm_ChannelName :: string
  cm_BaseURL :: string
  cm_ApiKey :: string
  cm_UpstreamModelName :: string
  cm_IsModelMapped :: bool
  cm_Settings :: ChannelSettings

record RelayInfo =
  ri_UserID :: int
  ri_ApiKeyID :: int
  ri_ProjectID :: int
  ri_RequestID :: string
  ri_RelayMode :: RelayMode
  ri_IsStream :: bool
  ri_OriginModelName :: string
  ri_RequestURLPath :: string
  ri_RequestHeaders :: "http_header option"
  ri_StartTime :: int
  ri_ChannelMeta :: ChannelMeta
  ri_RetryIndex :: int
  ri_LastError :: "go_err option"
  ri_StreamStatus :: StreamStatus
  ri_FirstResponseTime :: "int option"
  ri_InboundFormat :: string
  ri_ClientFormat :: string
  ri_RuntimeHeadersOverride :: "headers option"
  ri_UseResponsesAPI :: bool
  ri_ThinkingEnabled :: bool
  ri_ThinkingDisabled :: bool
  ri_ReasoningEffort :: string
  ri_BaseModelName :: string
  ri_ResponseText :: string

definition GetOriginalClientFormat :: "RelayInfo \<Rightarrow> string" where
  "GetOriginalClientFormat info =
     (if ri_ClientFormat info \<noteq> [] then ri_ClientFormat info else ri_InboundFormat info)"

definition SetFirstResponseTime :: "int \<Rightarrow> RelayInfo \<Rightarrow> RelayInfo" where
  "SetFirstResponseTime now info =
     (if ri_FirstResponseTime info = None then info\<lparr>ri_FirstResponseTime := Some now\<rparr> else info)"

end
