(* ===== verification/Override.thy ===== *)
theory Override
  imports Complex_Main RelayData "HOL-Library.AList" "HOL-Library.Char_ord"
    "HOL-Library.List_Lexorder" "HOL-Library.Log_Nat"
begin

text \<open>
  Rewriting of a request before it goes upstream: \<^verbatim>\<open>internal/relay/override\<close>
  (override.go, operations.go, header.go).  A Go map is an association list with distinct keys whose
  order stands for the order one \<^verbatim>\<open>range\<close> walks it; the packages gjson and sjson, regexp,
  and the text of a fractional number are parameters (\<open>ov_lib\<close>).  Rules come decoded from JSON, so a
  number among them is a float64.
\<close>

section \<open>Values\<close>

text \<open>A value of the context: a decoded JSON value, a Go int or a header map.\<close>

datatype cval = CAny json | CInt int | CHdr headers

type_synonym octx = "(string \<times> cval) list"

record regex =
  re_MatchString :: "string \<Rightarrow> bool"
  re_ReplaceAllString :: "string \<Rightarrow> string \<Rightarrow> string"

text \<open>\<open>gj_Get\<close> answers \<open>None\<close> where \<^verbatim>\<open>Exists()\<close> is false; \<open>lib_order\<close> is the order in
  which \<^verbatim>\<open>range ctx\<close> visits the context.\<close>

record 'd ov_lib =
  gj_Get :: "'d \<Rightarrow> string \<Rightarrow> json option"
  sj_SetRaw :: "'d \<Rightarrow> string \<Rightarrow> json \<Rightarrow> go_err + 'd"
  sj_Set :: "'d \<Rightarrow> string \<Rightarrow> string \<Rightarrow> go_err + 'd"
  sj_Delete :: "'d \<Rightarrow> string \<Rightarrow> go_err + 'd"
  re_Compile :: "string \<Rightarrow> go_err + regex"
  fmt_float :: "json \<Rightarrow> string"
  lib_order :: "octx \<Rightarrow> octx"

text \<open>\<^verbatim>\<open>fmt.Sprintf("%v", v)\<close>.  A float64 is printed by \<open>%g\<close> with the fewest digits: from
  seven digits on in exponent form.  Maps are printed in the order of their keys.\<close>

definition fmt_float_int :: "int \<Rightarrow> string" where
  "fmt_float_int n = (let d = show_nat (nat \<bar>n\<bar>); sg = (if n < 0 then ''-'' else []) in
     if length d \<le> 6 then sg @ d
     else (let m = rev (dropWhile (\<lambda>c. c = CHR ''0'') (rev d)); e = length d - 1;
               es = (if e < 10 then ''0'' else []) @ show_nat e in
           sg @ [hd m] @ (if tl m = [] then [] else CHR ''.'' # tl m) @ ''e+'' @ es))"

definition fmt_map :: "(string \<times> string) list \<Rightarrow> string" where
  "fmt_map kvs = ''map['' @ Join (map (\<lambda>k. k @ '':'' @ the (jlookup k kvs)) (sort (remdups (map fst kvs)))) '' '' @ '']''"

fun fmt_v :: "(json \<Rightarrow> string) \<Rightarrow> json \<Rightarrow> string" where
  "fmt_v fx JNull = ''<nil>''"
| "fmt_v fx (JBool b) = (if b then ''true'' else ''false'')"
| "fmt_v fx (JNum n) = (if \<bar>n\<bar> \<le> 2 ^ 53 then fmt_float_int n else fx (JNum n))"
| "fmt_v fx (JFloat t) = fx (JFloat t)"
| "fmt_v fx (JStr s) = s"
| "fmt_v fx (JTime t) = fx (JTime t)"
| "fmt_v fx (JArr xs) = ''['' @ Join (map (fmt_v fx) xs) '' '' @ '']''"
| "fmt_v fx (JObj kvs) = fmt_map (map (\<lambda>(k, v). (k, fmt_v fx v)) kvs)"

fun fmt_c :: "(json \<Rightarrow> string) \<Rightarrow> cval \<Rightarrow> string" where
  "fmt_c fx (CAny j) = fmt_v fx j"
| "fmt_c fx (CInt i) = show_int i"
| "fmt_c fx (CHdr h) = fmt_map h"

definition toString :: "(json \<Rightarrow> string) \<Rightarrow> json \<Rightarrow> string" where
  "toString fx v = (if v = JNull then [] else fmt_v fx v)"

definition toString_c :: "(json \<Rightarrow> string) \<Rightarrow> cval \<Rightarrow> string" where
  "toString_c fx v = (if v = CAny JNull then [] else fmt_c fx v)"

definition toBool :: "json \<Rightarrow> bool" where
  "toBool v = (case v of JBool b \<Rightarrow> b | _ \<Rightarrow> False)"

text \<open>\<^verbatim>\<open>m[k]\<close> on a decoded object: nil when absent.\<close>

definition jget :: "string \<Rightarrow> (string \<times> json) list \<Rightarrow> json" where
  "jget k kvs = (case jlookup k kvs of None \<Rightarrow> JNull | Some v \<Rightarrow> v)"

section \<open>Strings\<close>

definition indexOfStr :: "string \<Rightarrow> string \<Rightarrow> nat option" where
  "indexOfStr s sub = (if length s < length sub then None
     else find (\<lambda>i. take (length sub) (drop i s) = sub) [0..<Suc (length s - length sub)])"

definition containsStrImpl :: "string \<Rightarrow> string \<Rightarrow> bool" where
  "containsStrImpl s sub = (length sub \<le> length s
     \<and> list_ex (\<lambda>i. take (length sub) (drop i s) = sub) [0..<Suc (length s - length sub)])"

definition containsStr :: "string \<Rightarrow> string \<Rightarrow> bool" where
  "containsStr s sub = (length sub \<le> length s \<and> (sub = [] \<or> containsStrImpl s sub))"

text \<open>The loop of replaceAllStr does not end when \<open>old\<close> is empty: \<open>None\<close>.\<close>

partial_function (option) replaceAllLoop :: "string \<Rightarrow> string \<Rightarrow> string \<Rightarrow> string \<Rightarrow> string option" where
  "replaceAllLoop result s old new = (case indexOfStr s old of
     None \<Rightarrow> Some (result @ s)
   | Some idx \<Rightarrow> replaceAllLoop (result @ take idx s @ new) (drop (idx + length old) s) old new)"

definition replaceAllStr :: "string \<Rightarrow> string \<Rightarrow> string \<Rightarrow> string option" where
  "replaceAllStr s old new = replaceAllLoop [] s old new"

definition is_digit :: "char \<Rightarrow> bool" where
  "is_digit c \<longleftrightarrow> CHR ''0'' \<le> c \<and> c \<le> CHR ''9''"

definition digit :: "char \<Rightarrow> nat" where
  "digit c = of_char c - 48"

text \<open>A float64 is the rational it stands for; \<open>fl64\<close> rounds a non-negative rational to 53
  significant bits, ties to even (the exponent is not bounded).\<close>

definition round_even :: "rat \<Rightarrow> int" where
  "round_even x = (let n = \<lfloor>x\<rfloor>; r = x - of_int n in
     if r < 1 / 2 then n else if 1 / 2 < r then n + 1 else if even n then n else n + 1)"

definition fl64 :: "rat \<Rightarrow> rat" where
  "fl64 x = (if x = 0 then 0 else
     (let (n, d) = quotient_of x; e = int (floorlog 2 (nat n)) - int (floorlog 2 (nat d)) - 53;
          e' = (if 2 ^ 53 \<le> x / 2 powi e then e + 1 else e) in
      of_int (round_even (x / 2 powi e')) * 2 powi e'))"

fun parse_frac :: "rat \<Rightarrow> rat \<Rightarrow> string \<Rightarrow> rat option" where
  "parse_frac f dec [] = Some f"
| "parse_frac f dec (c # cs) =
     (if is_digit c then parse_frac (fl64 (f + fl64 (of_nat (digit c) / dec))) (fl64 (dec * 10)) cs
      else None)"

fun parse_loop :: "string \<Rightarrow> rat \<Rightarrow> nat \<Rightarrow> string \<Rightarrow> rat option" where
  "parse_loop s f n [] = Some f"
| "parse_loop s f n (c # cs) =
     (if is_digit c then parse_loop s (fl64 (fl64 (f * 10) + of_nat (digit c))) (n + 1) cs
      else if c = CHR ''.'' \<and> 0 < n
        then parse_frac f 1 (drop (case indexOfStr s ''.'' of None \<Rightarrow> 0 | Some i \<Rightarrow> i + 1) s)
      else None)"

definition parseFloat :: "string \<Rightarrow> rat option" where
  "parseFloat s = parse_loop s 0 0 s"

definition compareNumeric :: "string \<Rightarrow> string \<Rightarrow> int" where
  "compareNumeric a b = (case (parseFloat a, parseFloat b) of
     (Some af, Some bf) \<Rightarrow> if af < bf then -1 else if af > bf then 1 else 0
   | _ \<Rightarrow> if a < b then -1 else if a > b then 1 else 0)"

fun parse_int_loop :: "int \<Rightarrow> string \<Rightarrow> int option" where
  "parse_int_loop n [] = Some n"
| "parse_int_loop n (c # cs) = (if is_digit c then parse_int_loop (i64 (n * 10 + int (digit c))) cs else None)"

definition parseIntDefault :: "string \<Rightarrow> int \<Rightarrow> int" where
  "parseIntDefault s d = (if s = [] then d else (case parse_int_loop 0 s of None \<Rightarrow> d | Some n \<Rightarrow> n))"


section \<open>Headers\<close>

text \<open>The number of bytes of the first rune of a string, as \<^verbatim>\<open>range\<close> decodes it: one for a
  byte that starts no well-formed UTF-8 sequence.\<close>

definition utf8_width :: "string \<Rightarrow> nat" where
  "utf8_width s =
     (let b = (\<lambda>i. if i < length s then of_char (s ! i) else (0::nat));
          cont = (\<lambda>i. 128 \<le> b i \<and> b i \<le> 191) in
      if b 0 < 194 then 1
      else if b 0 \<le> 223 then (if cont 1 then 2 else 1)
      else if b 0 \<le> 239 then
        (if cont 1 \<and> cont 2 \<and> (b 0 = 224 \<longrightarrow> 160 \<le> b 1) \<and> (b 0 = 237 \<longrightarrow> b 1 \<le> 159) then 3 else 1)
      else if b 0 \<le> 244 then
        (if cont 1 \<and> cont 2 \<and> cont 3 \<and> (b 0 = 240 \<longrightarrow> 144 \<le> b 1) \<and> (b 0 = 244 \<longrightarrow> b 1 \<le> 143) then 4 else 1)
      else 1)"

lemma utf8_width_pos: "0 < utf8_width s"
  by (simp add: utf8_width_def Let_def)

text \<open>The loop writes only at the start of a rune; the other bytes stay zero.\<close>

function toLowerStr :: "string \<Rightarrow> string" where
  "toLowerStr [] = []"
| "toLowerStr (c # s) = (let w = utf8_width (c # s) in
     ToLowerC c # replicate (w - 1) (char_of (0::nat)) @ toLowerStr (drop w (c # s)))"
  by pat_completeness auto
termination
  by (relation "measure length") (use utf8_width_pos in auto)

definition unsafe_headers :: "string list" where
  "unsafe_headers = [''connection'', ''keep-alive'', ''proxy-authenticate'', ''proxy-authorization'',
     ''te'', ''trailer'', ''transfer-encoding'', ''upgrade'', ''cookie'', ''host'', ''content-length'',
     ''accept-encoding'', ''authorization'', ''x-api-key'', ''x-goog-api-key'']"

definition isUnsafeHeader :: "string \<Rightarrow> bool" where
  "isUnsafeHeader key \<longleftrightarrow> toLowerStr key \<in> set unsafe_headers"

text \<open>\<^verbatim>\<open>http.CanonicalHeaderKey\<close>, by which \<^verbatim>\<open>Values\<close> and \<^verbatim>\<open>Set\<close>
  find a header.\<close>

definition token_char :: "char \<Rightarrow> bool" where
  "token_char c \<longleftrightarrow> is_digit c \<or> (CHR ''a'' \<le> c \<and> c \<le> CHR ''z'') \<or> (CHR ''A'' \<le> c \<and> c \<le> CHR ''Z'')
     \<or> c \<in> set ''!#$%&*+-.^_|~'' \<or> of_char c \<in> {39::nat, 96}"

fun canon :: "bool \<Rightarrow> string \<Rightarrow> string" where
  "canon up [] = []"
| "canon up (c # s) = (if up then ToUpperC c else ToLowerC c) # canon (c = CHR ''-'') s"

definition CanonicalHeaderKey :: "string \<Rightarrow> string" where
  "CanonicalHeaderKey k = (if list_all token_char k then canon True k else k)"

definition header_Values :: "http_header option \<Rightarrow> string \<Rightarrow> string list" where
  "header_Values h k = (case h of None \<Rightarrow> [] | Some hs \<Rightarrow>
     (case map_of hs (CanonicalHeaderKey k) of None \<Rightarrow> [] | Some vs \<Rightarrow> vs))"

definition header_Set :: "http_header \<Rightarrow> string \<Rightarrow> string \<Rightarrow> http_header" where
  "header_Set h k v = AList.update (CanonicalHeaderKey k) [v] h"

text \<open>\<open>BuildOverrideContext\<close> keeps the first non-empty value of every request header.\<close>

definition first_values :: "http_header \<Rightarrow> headers" where
  "first_values hs = concat (map (\<lambda>(k, vs). case find (\<lambda>v. v \<noteq> []) vs of None \<Rightarrow> [] | Some v \<Rightarrow> [(k, v)]) hs)"

definition BuildOverrideContext :: "RelayInfo \<Rightarrow> octx" where
  "BuildOverrideContext info =
     [(''model'', CAny (JStr (ri_OriginModelName info))),
      (''original_model'', CAny (JStr (ri_OriginModelName info))),
      (''upstream_model'', CAny (JStr (cm_UpstreamModelName (ri_ChannelMeta info)))),
      (''request_path'', CAny (JStr (ri_RequestURLPath info))),
      (''is_retry'', CAny (JBool (0 < ri_RetryIndex info))),
      (''retry_index'', CInt (ri_RetryIndex info))]
     @ (case ri_RequestHeaders info of None \<Rightarrow> [] | Some hs \<Rightarrow> [(''request_headers'', CHdr (first_values hs))])
     @ (case ri_RuntimeHeadersOverride info of None \<Rightarrow> [] | Some h \<Rightarrow> [(''header_override'', CHdr h)])"

definition getRuntimeHeaders :: "octx \<Rightarrow> headers" where
  "getRuntimeHeaders ctx = (case map_of ctx ''header_override'' of Some (CHdr h) \<Rightarrow> h | _ \<Rightarrow> [])"

text \<open>The map is shared with the context: a change of it is a change of the context.\<close>

definition putRuntimeHeaders :: "headers \<Rightarrow> octx \<Rightarrow> octx" where
  "putRuntimeHeaders h ctx = AList.update ''header_override'' (CHdr h) ctx"

definition opSetHeader :: "(json \<Rightarrow> string) \<Rightarrow> string \<Rightarrow> json \<Rightarrow> octx \<Rightarrow> octx" where
  "opSetHeader fx key v ctx = putRuntimeHeaders (AList.update key (fmt_v fx v) (getRuntimeHeaders ctx)) ctx"

definition opDeleteHeader :: "string \<Rightarrow> octx \<Rightarrow> octx" where
  "opDeleteHeader key ctx = putRuntimeHeaders (AList.delete key (getRuntimeHeaders ctx)) ctx"

definition opCopyHeader :: "string \<Rightarrow> string \<Rightarrow> octx \<Rightarrow> octx" where
  "opCopyHeader from to ctx = (let h = getRuntimeHeaders ctx in
     putRuntimeHeaders (case map_of h from of None \<Rightarrow> h | Some v \<Rightarrow> AList.update to v h) ctx)"

definition opMoveHeader :: "string \<Rightarrow> string \<Rightarrow> octx \<Rightarrow> octx" where
  "opMoveHeader from to ctx = (let h = getRuntimeHeaders ctx in
     putRuntimeHeaders (case map_of h from of None \<Rightarrow> h
       | Some v \<Rightarrow> AList.delete from (AList.update to v h)) ctx)"

definition opPassHeaders :: "octx \<Rightarrow> octx" where
  "opPassHeaders ctx = (let h = getRuntimeHeaders ctx in
     putRuntimeHeaders (case map_of ctx ''request_headers'' of
         Some (CHdr rh) \<Rightarrow> fold (\<lambda>(k, v) h. if isUnsafeHeader k then h else AList.update k v h) rh h
       | _ \<Rightarrow> h) ctx)"

section \<open>Rules\<close>

record Condition =
  co_Path :: string
  co_Mode :: string
  co_Value :: json
  co_Invert :: bool
  co_PassMissingKey :: bool

record Operation =
  op_Path :: string
  op_Mode :: string
  op_Value :: json
  op_KeepOrigin :: bool
  op_From :: string
  op_To :: string
  op_Conditions :: "Condition list"
  op_Logic :: string

fun parse_condition :: "(json \<Rightarrow> string) \<Rightarrow> json \<Rightarrow> Condition list" where
  "parse_condition fx (JObj cm) =
     [\<lparr>co_Path = toString fx (jget ''path'' cm), co_Mode = toString fx (jget ''mode'' cm),
       co_Value = jget ''value'' cm, co_Invert = toBool (jget ''invert'' cm),
       co_PassMissingKey = toBool (jget ''pass_missing_key'' cm)\<rparr>]"
| "parse_condition fx _ = []"

fun parse_operation :: "(json \<Rightarrow> string) \<Rightarrow> json \<Rightarrow> Operation list" where
  "parse_operation fx (JObj m) =
     (let op = \<lparr>op_Path = toString fx (jget ''path'' m), op_Mode = toString fx (jget ''mode'' m),
            op_Value = jget ''value'' m, op_KeepOrigin = toBool (jget ''keep_origin'' m),
            op_From = toString fx (jget ''from'' m), op_To = toString fx (jget ''to'' m),
            op_Conditions = (case jget ''conditions'' m of JArr cs \<Rightarrow> concat (map (parse_condition fx) cs) | _ \<Rightarrow> []),
            op_Logic = toString fx (jget ''logic'' m)\<rparr> in
      if op_Mode op \<noteq> [] then [op] else [])"
| "parse_operation fx _ = []"

definition tryParseOperations :: "(json \<Rightarrow> string) \<Rightarrow> (string \<times> json) list \<Rightarrow> Operation list option" where
  "tryParseOperations fx paramOverride = (case jlookup ''operations'' paramOverride of
     Some (JArr arr) \<Rightarrow> (let operations = concat (map (parse_operation fx) arr) in
       if operations = [] then None else Some operations)
   | _ \<Rightarrow> None)"

text \<open>A placeholder is never empty, so its replacement always returns
  (\<open>replaceAllStr_returns\<close>).\<close>

definition resolveContextPath :: "'d ov_lib \<Rightarrow> octx \<Rightarrow> string \<Rightarrow> string" where
  "resolveContextPath L ctx path = (if path = [] \<or> length path < 3 then path
     else fold (\<lambda>(k, v) result. let placeholder = ''{'' @ k @ ''}'' in
            if containsStr result placeholder then the (replaceAllStr result placeholder (fmt_c (fmt_float L) v))
            else result) (lib_order L ctx) path)"

definition evaluateCondition :: "(json \<Rightarrow> string) \<Rightarrow> cval \<Rightarrow> string \<Rightarrow> json \<Rightarrow> bool" where
  "evaluateCondition fx target mode expected =
     (let md = (if mode = [] then ''full'' else mode);
          t = fmt_c fx target; e = fmt_v fx expected in
      if md = ''full'' then t = e
      else if md = ''prefix'' then length e \<le> length t \<and> take (length e) t = e
      else if md = ''suffix'' then (if length t < length e then False else drop (length t - length e) t = e)
      else if md = ''contains'' then containsStr t e
      else if md = ''gt'' then compareNumeric t e > 0
      else if md = ''gte'' then compareNumeric t e \<ge> 0
      else if md = ''lt'' then compareNumeric t e < 0
      else if md = ''lte'' then compareNumeric t e \<le> 0
      else t = e)"

definition condition_target :: "'d ov_lib \<Rightarrow> 'd \<Rightarrow> octx \<Rightarrow> string \<Rightarrow> cval option" where
  "condition_target L data ctx condPath =
     (let ask_body = map_option CAny (gj_Get L data condPath) in
      case map_of ctx condPath of None \<Rightarrow> ask_body
      | Some v \<Rightarrow> if toString_c (fmt_float L) v \<noteq> [] then Some v else ask_body)"

fun checkLoop :: "'d ov_lib \<Rightarrow> 'd \<Rightarrow> octx \<Rightarrow> bool \<Rightarrow> Condition list \<Rightarrow> bool" where
  "checkLoop L data ctx isAnd [] = isAnd"
| "checkLoop L data ctx isAnd (cond # conds) =
     (case condition_target L data ctx (resolveContextPath L ctx (co_Path cond)) of
        None \<Rightarrow> if co_PassMissingKey cond then checkLoop L data ctx isAnd conds
          else if isAnd then False else checkLoop L data ctx isAnd conds
      | Some target \<Rightarrow>
          (let m = evaluateCondition (fmt_float L) target (co_Mode cond) (co_Value cond);
               matched = (if co_Invert cond then \<not> m else m) in
           if isAnd \<and> \<not> matched then False
           else if \<not> isAnd \<and> matched then True
           else checkLoop L data ctx isAnd conds))"

definition checkConditions :: "'d ov_lib \<Rightarrow> 'd \<Rightarrow> octx \<Rightarrow> Condition list \<Rightarrow> string \<Rightarrow> bool" where
  "checkConditions L data ctx conditions logic =
     (if conditions = [] then True else checkLoop L data ctx (logic = ''AND'') conditions)"


section \<open>Operations on the body\<close>

text \<open>\<^verbatim>\<open>Result.Str\<close>: empty unless the value is a string.\<close>

definition gj_Str :: "json \<Rightarrow> string" where
  "gj_Str j = (case j of JStr s \<Rightarrow> s | _ \<Rightarrow> [])"

definition is_JStr :: "json \<Rightarrow> bool" where
  "is_JStr j = (case j of JStr s \<Rightarrow> True | _ \<Rightarrow> False)"

text \<open>An error of sjson that the operation drops.\<close>

definition or_data :: "'d \<Rightarrow> go_err + 'd \<Rightarrow> go_err + 'd" where
  "or_data data r = (case r of Inl e \<Rightarrow> Inr data | Inr d \<Rightarrow> Inr d)"

definition opSet :: "'d ov_lib \<Rightarrow> 'd \<Rightarrow> string \<Rightarrow> json \<Rightarrow> bool \<Rightarrow> go_err + 'd" where
  "opSet L data path v keepOrigin =
     (if keepOrigin \<and> gj_Get L data path \<noteq> None then Inr data
      else or_data data (sj_SetRaw L data path v))"

definition opDelete :: "'d ov_lib \<Rightarrow> 'd \<Rightarrow> string \<Rightarrow> go_err + 'd" where
  "opDelete L data path = or_data data (sj_Delete L data path)"

definition opMove :: "'d ov_lib \<Rightarrow> 'd \<Rightarrow> string \<Rightarrow> string \<Rightarrow> go_err + 'd" where
  "opMove L data from to = (case gj_Get L data from of
     None \<Rightarrow> Inr data
   | Some val \<Rightarrow> (case sj_Delete L data from of
       Inl e \<Rightarrow> Inr data
     | Inr result \<Rightarrow> or_data data (sj_SetRaw L result to val)))"

definition opCopy :: "'d ov_lib \<Rightarrow> 'd \<Rightarrow> string \<Rightarrow> string \<Rightarrow> go_err + 'd" where
  "opCopy L data from to = (case gj_Get L data from of
     None \<Rightarrow> Inr data
   | Some val \<Rightarrow> or_data data (sj_SetRaw L data to val))"

definition opAppend :: "'d ov_lib \<Rightarrow> 'd \<Rightarrow> string \<Rightarrow> json \<Rightarrow> bool \<Rightarrow> go_err + 'd" where
  "opAppend L data path v keepOrigin =
     (if keepOrigin \<and> gj_Get L data path \<noteq> None then Inr data
      else (case gj_Get L data path of
        None \<Rightarrow> opSet L data path v False
      | Some (JStr s) \<Rightarrow> sj_Set L data path (s @ fmt_v (fmt_float L) v)
      | Some (JArr arr) \<Rightarrow> sj_SetRaw L data path (JArr (arr @ [v]))
      | Some (JObj kvs) \<Rightarrow> Inr data
      | Some (JNum n) \<Rightarrow> Inr data
      | Some (JFloat t) \<Rightarrow> Inr data
      | Some existing \<Rightarrow> sj_SetRaw L data path (JArr [existing, v])))"

definition opPrepend :: "'d ov_lib \<Rightarrow> 'd \<Rightarrow> string \<Rightarrow> json \<Rightarrow> bool \<Rightarrow> go_err + 'd" where
  "opPrepend L data path v keepOrigin =
     (if keepOrigin \<and> gj_Get L data path \<noteq> None then Inr data
      else (case gj_Get L data path of
        None \<Rightarrow> opSet L data path v False
      | Some (JStr s) \<Rightarrow> sj_Set L data path (fmt_v (fmt_float L) v @ s)
      | Some (JArr arr) \<Rightarrow> sj_SetRaw L data path (JArr ([v] @ arr))
      | Some (JObj kvs) \<Rightarrow> Inr data
      | Some existing \<Rightarrow> sj_SetRaw L data path (JArr [v, existing])))"

definition opReplace :: "'d ov_lib \<Rightarrow> 'd \<Rightarrow> string \<Rightarrow> json \<Rightarrow> go_err + 'd" where
  "opReplace L data path v = (case v of
     JObj m \<Rightarrow> (let oldStr = toString (fmt_float L) (jget ''old'' m);
                    newStr = toString (fmt_float L) (jget ''new'' m) in
       if oldStr = [] then Inr data
       else (case gj_Get L data path of None \<Rightarrow> Inr data
         | Some target \<Rightarrow> sj_Set L data path (the (replaceAllStr (gj_Str target) oldStr newStr))))
   | _ \<Rightarrow> Inr data)"

text \<open>The message does not quote the pattern as \<^verbatim>\<open>%q\<close> does.\<close>

definition opRegexReplace :: "'d ov_lib \<Rightarrow> 'd \<Rightarrow> string \<Rightarrow> json \<Rightarrow> go_err + 'd" where
  "opRegexReplace L data path v = (case v of
     JObj m \<Rightarrow> (let pattern = toString (fmt_float L) (jget ''pattern'' m);
                    replacement = toString (fmt_float L) (jget ''replacement'' m) in
       if pattern = [] then Inr data
       else (case re_Compile L pattern of
         Inl e \<Rightarrow> Inl (ErrWrap e (sprintf ''invalid regex pattern %s'' [AStr pattern]))
       | Inr re \<Rightarrow> (case gj_Get L data path of None \<Rightarrow> Inr data
           | Some target \<Rightarrow> sj_Set L data path (re_ReplaceAllString re (gj_Str target) replacement))))
   | _ \<Rightarrow> Inr data)"

text \<open>The operations that rewrite a string and leave any other value alone.\<close>

definition opToLower :: "'d ov_lib \<Rightarrow> 'd \<Rightarrow> string \<Rightarrow> go_err + 'd" where
  "opToLower L data path = (case gj_Get L data path of None \<Rightarrow> Inr data
     | Some target \<Rightarrow> if is_JStr target then sj_Set L data path (ToLower (gj_Str target)) else Inr data)"

definition opToUpper :: "'d ov_lib \<Rightarrow> 'd \<Rightarrow> string \<Rightarrow> go_err + 'd" where
  "opToUpper L data path = (case gj_Get L data path of None \<Rightarrow> Inr data
     | Some target \<Rightarrow> if is_JStr target then sj_Set L data path (ToUpper (gj_Str target)) else Inr data)"

definition opTrimPrefix :: "'d ov_lib \<Rightarrow> 'd \<Rightarrow> string \<Rightarrow> json \<Rightarrow> go_err + 'd" where
  "opTrimPrefix L data path v = (case gj_Get L data path of None \<Rightarrow> Inr data
     | Some target \<Rightarrow> if \<not> is_JStr target then Inr data
         else sj_Set L data path (TrimPrefix (gj_Str target) (fmt_v (fmt_float L) v)))"

definition opTrimSuffix :: "'d ov_lib \<Rightarrow> 'd \<Rightarrow> string \<Rightarrow> json \<Rightarrow> go_err + 'd" where
  "opTrimSuffix L data path v = (case gj_Get L data path of None \<Rightarrow> Inr data
     | Some target \<Rightarrow> if \<not> is_JStr target then Inr data
         else sj_Set L data path (TrimSuffix (gj_Str target) (fmt_v (fmt_float L) v)))"

definition opEnsurePrefix :: "'d ov_lib \<Rightarrow> 'd \<Rightarrow> string \<Rightarrow> json \<Rightarrow> go_err + 'd" where
  "opEnsurePrefix L data path v = (case gj_Get L data path of None \<Rightarrow> Inr data
     | Some target \<Rightarrow> if \<not> is_JStr target then Inr data
         else (let pre = fmt_v (fmt_float L) v; result = gj_Str target in
           sj_Set L data path (if \<not> HasPrefix result pre then pre @ result else result)))"

definition opEnsureSuffix :: "'d ov_lib \<Rightarrow> 'd \<Rightarrow> string \<Rightarrow> json \<Rightarrow> go_err + 'd" where
  "opEnsureSuffix L data path v = (case gj_Get L data path of None \<Rightarrow> Inr data
     | Some target \<Rightarrow> if \<not> is_JStr target then Inr data
         else (let suf = fmt_v (fmt_float L) v; result = gj_Str target in
           sj_Set L data path (if \<not> HasSuffix result suf then result @ suf else result)))"

definition opTrimSpace :: "'d ov_lib \<Rightarrow> 'd \<Rightarrow> string \<Rightarrow> go_err + 'd" where
  "opTrimSpace L data path = (case gj_Get L data path of None \<Rightarrow> Inr data
     | Some target \<Rightarrow> if \<not> is_JStr target then Inr data
         else sj_Set L data path (TrimSpace (gj_Str target)))"

definition opReturnError :: "(json \<Rightarrow> string) \<Rightarrow> json \<Rightarrow> go_err" where
  "opReturnError fx v = (case v of
     JObj m \<Rightarrow> ErrReturn (toString fx (jget ''message'' m))
       (parseIntDefault (toString fx (jget ''status_code'' m)) 400) (toString fx (jget ''code'' m))
       (toString fx (jget ''type'' m)) (toBool (jget ''skip_retry'' m))
   | _ \<Rightarrow> ErrReturn ''request blocked'' 400 [] [] False)"

text \<open>\<^verbatim>\<open>errors.As\<close> on the chain of wrapped errors.\<close>

fun AsReturnError :: "go_err \<Rightarrow> go_err option" where
  "AsReturnError (ErrReturn m sc c ty sr) = Some (ErrReturn m sc c ty sr)"
| "AsReturnError (ErrWrap e m) = AsReturnError e"
| "AsReturnError (ErrRelay sc m ty (Some e)) = AsReturnError e"
| "AsReturnError _ = None"

section \<open>Applying the rules\<close>

definition modifyE :: "('s \<Rightarrow> 's) \<Rightarrow> ('s, unit) eff" where
  "modifyE f = (\<lambda>s. (Inr (), f s))"

definition applySingleOperation :: "'d ov_lib \<Rightarrow> 'd \<Rightarrow> Operation \<Rightarrow> (octx, 'd) eff" where
  "applySingleOperation L data op =
     bindE (getsE (\<lambda>ctx. ctx)) (\<lambda>ctx.
     let path = resolveContextPath L ctx (op_Path op);
         from = resolveContextPath L ctx (op_From op);
         to = resolveContextPath L ctx (op_To op);
         md = op_Mode op; v = op_Value op; keep_o = op_KeepOrigin op;
         header_op = (\<lambda>f. bindE (modifyE f) (\<lambda>_. returnE data)) in
     if md = ''set'' then liftE (opSet L data path v keep_o)
     else if md = ''delete'' then liftE (opDelete L data path)
     else if md = ''move'' then liftE (opMove L data from to)
     else if md = ''copy'' then liftE (opCopy L data from to)
     else if md = ''append'' then liftE (opAppend L data path v keep_o)
     else if md = ''prepend'' then liftE (opPrepend L data path v keep_o)
     else if md = ''replace'' then liftE (opReplace L data path v)
     else if md = ''regex_replace'' then liftE (opRegexReplace L data path v)
     else if md = ''to_lower'' then liftE (opToLower L data path)
     else if md = ''to_upper'' then liftE (opToUpper L data path)
     else if md = ''trim_prefix'' then liftE (opTrimPrefix L data path v)
     else if md = ''trim_suffix'' then liftE (opTrimSuffix L data path v)
     else if md = ''ensure_prefix'' then liftE (opEnsurePrefix L data path v)
     else if md = ''ensure_suffix'' then liftE (opEnsureSuffix L data path v)
     else if md = ''trim_space'' then liftE (opTrimSpace L data path)
     else if md = ''return_error'' then throwE (opReturnError (fmt_float L) v)
     else if md = ''set_header'' then header_op (opSetHeader (fmt_float L) (op_Path op) v)
     else if md = ''delete_header'' then header_op (opDeleteHeader (op_Path op))
     else if md = ''copy_header'' then header_op (opCopyHeader (op_From op) (op_To op))
     else if md = ''move_header'' then header_op (opMoveHeader (op_From op) (op_To op))
     else if md = ''pass_headers'' then header_op opPassHeaders
     else throwE (ErrNewf ''unknown override mode: %s'' [AStr md]))"

fun applyOperations :: "'d ov_lib \<Rightarrow> 'd \<Rightarrow> Operation list \<Rightarrow> (octx, 'd) eff" where
  "applyOperations L data [] = returnE data"
| "applyOperations L data (op # ops) =
     bindE (getsE (\<lambda>ctx. checkConditions L data ctx (op_Conditions op) (op_Logic op))) (\<lambda>go.
     if \<not> go then applyOperations L data ops
     else bindE (applySingleOperation L data op) (\<lambda>result. applyOperations L result ops))"

definition applyLegacy :: "'d ov_lib \<Rightarrow> 'd \<Rightarrow> (string \<times> json) list \<Rightarrow> 'd" where
  "applyLegacy L data paramOverride =
     fold (\<lambda>(path, v) data. case sj_SetRaw L data path v of Inl e \<Rightarrow> data | Inr result \<Rightarrow> result)
       (filter (\<lambda>(k, v). k \<noteq> ''operations'') paramOverride) data"

text \<open>The rules are a list of operations or, in the old form, fields to set.\<close>

definition run_rules :: "'d ov_lib \<Rightarrow> 'd \<Rightarrow> (string \<times> json) list \<Rightarrow> (octx, 'd) eff" where
  "run_rules L body paramOverride = (case tryParseOperations (fmt_float L) paramOverride of
     Some operations \<Rightarrow> applyOperations L body operations
   | None \<Rightarrow> returnE (applyLegacy L body paramOverride))"

text \<open>When the request already carries runtime headers the context shares their map, so they keep
  what the rules did even when a later rule fails.\<close>

definition ApplyParamOverride :: "'d ov_lib \<Rightarrow> 'd \<Rightarrow> (RelayInfo, 'd) eff" where
  "ApplyParamOverride L body info =
     (let paramOverride = cs_ParamOverride (cm_Settings (ri_ChannelMeta info)) in
      if paramOverride = [] then (Inr body, info)
      else
        let (r, ctx') = run_rules L body paramOverride (BuildOverrideContext info);
            h = getRuntimeHeaders ctx' in
        (r, if ri_RuntimeHeadersOverride info \<noteq> None then info\<lparr>ri_RuntimeHeadersOverride := Some h\<rparr>
            else (case r of Inl e \<Rightarrow> info
              | Inr d \<Rightarrow> if h \<noteq> [] then info\<lparr>ri_RuntimeHeadersOverride := Some h\<rparr> else info)))"

section \<open>Header rules\<close>

text \<open>The values passed through from the client: the first one of each header \<open>p\<close> accepts, unless
  it is empty.\<close>

definition pass_through :: "(string \<Rightarrow> bool) \<Rightarrow> http_header option \<Rightarrow> headers \<Rightarrow> headers" where
  "pass_through p rh result = (case rh of None \<Rightarrow> result
     | Some hs \<Rightarrow> fold (\<lambda>(h, vals) result.
         if isUnsafeHeader h then result
         else if p h \<and> vals \<noteq> [] \<and> hd vals \<noteq> [] then AList.update h (hd vals) result
         else result) hs result)"

text \<open>\<^verbatim>\<open>{client_header:xxx}\<close> is replaced from the left until none is left.  A header value
  that contains the placeholder makes the loop run forever: \<open>None\<close>.\<close>

partial_function (option) client_headers_loop :: "http_header option \<Rightarrow> string \<Rightarrow> string option" where
  "client_headers_loop rh result = (case Index result ''{client_header:'' of
     None \<Rightarrow> Some result
   | Some start \<Rightarrow> (case Index (drop start result) ''}'' of
       None \<Rightarrow> Some result
     | Some e \<Rightarrow>
         client_headers_loop rh (take start result
           @ (case header_Values rh (take (e - 15) (drop (start + 15) result)) of [] \<Rightarrow> [] | v # vs \<Rightarrow> v)
           @ drop (e + start + 1) result)))"

definition resolveHeaderPlaceholder :: "RelayInfo \<Rightarrow> string \<Rightarrow> string option" where
  "resolveHeaderPlaceholder info template =
     client_headers_loop (ri_RequestHeaders info)
       (the (replaceAllStr template ''{api_key}'' (cm_ApiKey (ri_ChannelMeta info))))"

definition header_rule :: "'d ov_lib \<Rightarrow> RelayInfo \<Rightarrow> string \<Rightarrow> json \<Rightarrow> headers \<Rightarrow> headers option" where
  "header_rule L info key v result =
     (let strVal = toString (fmt_float L) v in
      if key = ''*'' then Some (pass_through (\<lambda>h. True) (ri_RequestHeaders info) result)
      else if HasPrefix key ''re:'' \<or> HasPrefix key ''regex:'' then
        (let pattern = (if HasPrefix key ''regex:'' then drop 6 key else drop 3 key) in
         case re_Compile L pattern of
           Inl e \<Rightarrow> Some result
         | Inr re \<Rightarrow> Some (pass_through (re_MatchString re) (ri_RequestHeaders info) result))
      else (case resolveHeaderPlaceholder info strVal of
           None \<Rightarrow> None
         | Some resolved \<Rightarrow> Some (AList.update key resolved result)))"

fun header_rules :: "'d ov_lib \<Rightarrow> RelayInfo \<Rightarrow> (string \<times> json) list \<Rightarrow> headers \<Rightarrow> headers option" where
  "header_rules L info [] result = Some result"
| "header_rules L info ((key, v) # rules) result =
     (case header_rule L info key v result of None \<Rightarrow> None | Some r \<Rightarrow> header_rules L info rules r)"

text \<open>The outer \<open>None\<close> is a call that does not return, the inner one the nil map.\<close>

definition ApplyHeaderOverride :: "'d ov_lib \<Rightarrow> RelayInfo \<Rightarrow> headers option option" where
  "ApplyHeaderOverride L info =
     (let headerOverride = cs_HeaderOverride (cm_Settings (ri_ChannelMeta info)) in
      if headerOverride = [] \<and> ri_RuntimeHeadersOverride info = None then Some None
      else (case header_rules L info headerOverride [] of
          None \<Rightarrow> None
        | Some result \<Rightarrow> Some (Some (case ri_RuntimeHeadersOverride info of None \<Rightarrow> result
            | Some rt \<Rightarrow> fold (\<lambda>(k, v) r. AList.update k v r) rt result))))"

definition MergeHeaderOverrides :: "http_header \<Rightarrow> headers \<Rightarrow> http_header" where
  "MergeHeaderOverrides header overrides = fold (\<lambda>(k, v) h. header_Set h k v) overrides header"

end
