(* ===== verification/OverrideClaims.thy ===== *)
theory OverrideClaims
  imports Override
begin

text \<open>
  What the rewriting of requests guarantees: placeholders are always resolved, conditions mean what
  they say, an unsafe header of the client is passed on only where a rule names it.
\<close>

section \<open>The string helpers against package strings\<close>

lemma find_upt:
  "find P [i..<n] = None \<Longrightarrow> i \<le> j \<Longrightarrow> j < n \<Longrightarrow> \<not> P j"
  by (simp add: find_None_iff)

lemma find_upt_Some:
  "find P [0..<n] = Some i \<Longrightarrow> i < n \<and> P i \<and> (\<forall>j < i. \<not> P j)"
  by (fastforce simp: find_Some_iff)

lemma HasPrefix_len: "HasPrefix (drop i s) p \<Longrightarrow> i \<le> length s \<Longrightarrow> i + length p \<le> length s"
  by (auto simp: HasPrefix_iff) (metis add_le_cancel_left append_take_drop_id le_add1 length_append length_take min.absorb2)

text \<open>The hand-written search is \<^verbatim>\<open>strings.Index\<close>.\<close>

lemma Index_unique:
  assumes "i \<le> length s" "HasPrefix (drop i s) p" "\<And>j. j < i \<Longrightarrow> \<not> HasPrefix (drop j s) p"
  shows "Index s p = Some i"
proof (cases "Index s p")
  case None
  then show ?thesis using assms Index_None by blast
next
  case (Some k)
  then have "HasPrefix (drop k s) p" "\<And>j. j < k \<Longrightarrow> \<not> HasPrefix (drop j s) p"
    using Index_Some Index_first by blast+
  then have "k = i" using assms by (metis nat_neq_iff)
  then show ?thesis using Some by simp
qed

lemma indexOfStr_Index: "indexOfStr s sub = Index s sub"
proof (cases "indexOfStr s sub")
  case None
  have "\<not> HasPrefix (drop i s) sub" if "i \<le> length s" for i
  proof
    assume h: "HasPrefix (drop i s) sub"
    then have l: "i + length sub \<le> length s" using HasPrefix_len that by blast
    then have n: "find (\<lambda>i. take (length sub) (drop i s) = sub) [0..<Suc (length s - length sub)] = None"
      using None by (simp add: indexOfStr_def del: upt_Suc split: if_splits)
    have "\<not> take (length sub) (drop i s) = sub" using find_upt [OF n, of i] l by simp
    then show False using h by (simp add: HasPrefix_def)
  qed
  then show ?thesis using None Index_None by metis
next
  case (Some i)
  then have l: "length sub \<le> length s" and f: "find (\<lambda>i. take (length sub) (drop i s) = sub) [0..<Suc (length s - length sub)] = Some i"
    by (auto simp: indexOfStr_def simp del: upt_Suc split: if_splits)
  note i = find_upt_Some [OF f]
  have "Index s sub = Some i"
    by (rule Index_unique) (use i l in \<open>auto simp: HasPrefix_def\<close>)
  then show ?thesis using Some by simp
qed

lemma containsStr_Contains: "containsStr s sub = Contains s sub"
proof -
  have *: "list_ex P xs \<longleftrightarrow> find P xs \<noteq> None" for P and xs :: "nat list"
    by (auto simp: find_None_iff list_ex_iff)
  have "sub = [] \<Longrightarrow> Index s sub \<noteq> None"
    by (cases s) (auto simp: HasPrefix_def)
  then show ?thesis unfolding Contains_def indexOfStr_Index [symmetric]
    by (auto simp: containsStr_def containsStrImpl_def indexOfStr_def * simp del: upt_Suc)
qed

section \<open>Replacing all occurrences\<close>

lemma Index_Nil [simp]: "Index s [] = Some 0"
  by (cases s) (simp_all add: HasPrefix_def)

lemma replaceAllLoop_Some:
  assumes "replaceAllLoop r s old new = Some y" shows "old \<noteq> []"
  by (rule replaceAllLoop.raw_induct [where P = "\<lambda>r s old new y. old \<noteq> []", OF _ assms])
    (auto simp: indexOfStr_Index split: option.splits)

lemma replaceAllLoop_empty: "replaceAllLoop r s [] new = None"
  using replaceAllLoop_Some [of r s "[]" new] by (cases "replaceAllLoop r s [] new") auto

text \<open>The pieces of \<open>s\<close> between the leftmost disjoint occurrences of \<open>p\<close>.\<close>

definition pieces :: "string \<Rightarrow> string list \<Rightarrow> bool" where
  "pieces p ps \<longleftrightarrow> ps \<noteq> [] \<and> (\<forall>x \<in> set (butlast ps). Index (x @ p) p = Some (length x)) \<and> \<not> Contains (last ps) p"

lemma Join_Cons: "ps \<noteq> [] \<Longrightarrow> Join (x # ps) sep = x @ sep @ Join ps sep"
  by (cases ps) auto

lemma Index_take:
  assumes "Index s p = Some i" shows "Index (take i s @ p) p = Some i"
proof (rule Index_unique)
  note h = Index_Some [OF assms]
  then have l: "i + length p \<le> length s" using HasPrefix_len by blast
  have t: "take i s @ p = take (i + length p) s"
    using h by (simp add: HasPrefix_def take_add)
  show "i \<le> length (take i s @ p)" using l by simp
  show "HasPrefix (drop i (take i s @ p)) p" using l by (simp add: HasPrefix_def)
  fix j assume "j < i"
  then have "\<not> HasPrefix (drop j s) p" using Index_first assms by blast
  then show "\<not> HasPrefix (drop j (take i s @ p)) p"
    unfolding t using l \<open>j < i\<close> by (auto simp: HasPrefix_def drop_take min_def split: if_splits)
qed

lemma replaceAllLoop_pieces:
  assumes "old \<noteq> []"
  shows "\<exists>ps. pieces old ps \<and> s = Join ps old \<and> replaceAllLoop r s old new = Some (r @ Join ps new)"
proof (induction "length s" arbitrary: s r rule: less_induct)
  case less
  show ?case
  proof (cases "Index s old")
    case None
    then show ?thesis
      by (intro exI [of _ "[s]"])
        (simp add: pieces_def Contains_def indexOfStr_Index replaceAllLoop.simps)
  next
    case (Some i)
    note h = Index_Some [OF Some]
    then have l: "i + length old \<le> length s" using HasPrefix_len by blast
    let ?s = "drop (i + length old) s" and ?r = "r @ take i s @ new"
    have "length ?s < length s" using l assms by (cases old) auto
    from less(1) [OF this, of ?r] obtain ps where ps: "pieces old ps" "?s = Join ps old"
      "replaceAllLoop ?r ?s old new = Some (?r @ Join ps new)" by blast
    have i: "i = length (take i s)" using l by simp
    have "pieces old (take i s # ps)"
      using ps(1) Index_take [OF Some] i by (auto simp: pieces_def)
    moreover have "s = take i s @ old @ ?s"
    proof -
      have "drop i s = old @ drop (length old) (drop i s)"
        using h by (metis HasPrefix_def append_take_drop_id)
      then show ?thesis by (metis add.commute append_take_drop_id drop_drop)
    qed
    then have "s = Join (take i s # ps) old" using ps(1,2) by (simp add: Join_Cons pieces_def)
    moreover have "replaceAllLoop r s old new = replaceAllLoop ?r ?s old new"
      by (subst replaceAllLoop.simps) (simp add: indexOfStr_Index Some)
    then have "replaceAllLoop r s old new = Some (r @ Join (take i s # ps) new)"
      using ps(1,3) by (simp add: Join_Cons pieces_def)
    ultimately show ?thesis by blast
  qed
qed

text \<open>Property C17.  Replacing all occurrences ends exactly when the pattern is not empty; then the text is
  cut at the leftmost disjoint occurrences of the pattern and joined again with the new text.\<close>

theorem replaceAllStr_returns:
  "if old = [] then replaceAllStr s old new = None
   else \<exists>ps. pieces old ps \<and> s = Join ps old \<and> replaceAllStr s old new = Some (Join ps new)"
  using replaceAllLoop_empty replaceAllLoop_pieces [of old s "[]" new] by (simp add: replaceAllStr_def)


lemma placeholder_resolves: "replaceAllStr r (''{'' @ k @ ''}'') v \<noteq> None"
  using replaceAllLoop_pieces [of "''{'' @ k @ ''}''" r "[]" v] by (auto simp: replaceAllStr_def)

section \<open>Conditions\<close>

text \<open>What one condition says of a body: nothing when its key is missing, else whether it holds.\<close>

definition verdict :: "'d ov_lib \<Rightarrow> 'd \<Rightarrow> octx \<Rightarrow> Condition \<Rightarrow> bool option" where
  "verdict L data ctx c = map_option (\<lambda>target.
     evaluateCondition (fmt_float L) target (co_Mode c) (co_Value c) \<noteq> co_Invert c)
     (condition_target L data ctx (resolveContextPath L ctx (co_Path c)))"

lemma checkLoop_verdict:
  "checkLoop L data ctx isAnd (c # cs) = (case verdict L data ctx c of
     None \<Rightarrow> (co_PassMissingKey c \<or> \<not> isAnd) \<and> checkLoop L data ctx isAnd cs
   | Some b \<Rightarrow> if isAnd then b \<and> checkLoop L data ctx isAnd cs else b \<or> checkLoop L data ctx isAnd cs)"
  by (auto simp: verdict_def Let_def split: option.split)

lemma checkLoop_and:
  "checkLoop L data ctx True cs \<longleftrightarrow>
    (\<forall>c \<in> set cs. case verdict L data ctx c of None \<Rightarrow> co_PassMissingKey c | Some b \<Rightarrow> b)"
  by (induction cs) (auto simp: checkLoop_verdict simp del: checkLoop.simps(2) split: option.split)

lemma checkLoop_or:
  "checkLoop L data ctx False cs \<longleftrightarrow> (\<exists>c \<in> set cs. verdict L data ctx c = Some True)"
  by (induction cs) (auto simp: checkLoop_verdict simp del: checkLoop.simps(2) split: option.split)

text \<open>Conditions joined by AND hold when each is true or its key is missing and it says
  that a missing key passes; otherwise one of them must be true of a key that is there, so
  pass_missing_key has no effect and conditions whose keys are all missing fail.  No condition at
  all always holds.\<close>

theorem checkConditions_meaning:
  "checkConditions L data ctx cs logic \<longleftrightarrow>
     cs = [] \<or>
     (if logic = ''AND''
      then \<forall>c \<in> set cs. (case verdict L data ctx c of None \<Rightarrow> co_PassMissingKey c | Some b \<Rightarrow> b)
      else \<exists>c \<in> set cs. verdict L data ctx c = Some True)"
  by (cases "cs = []") (simp_all add: checkConditions_def checkLoop_and checkLoop_or)

section \<open>Numbers\<close>

definition decimal :: "string \<Rightarrow> nat" where
  "decimal s = foldl (\<lambda>n c. 10 * n + digit c) 0 s"

text \<open>Integers below 2 to the 53 are exact.\<close>

lemma round_even_int [simp]: "round_even (of_int z) = z"
  by (simp add: round_even_def Let_def)

lemma fl64_nat:
  assumes "n < 2 ^ 53" shows "fl64 (of_nat n) = of_nat n"
proof (cases "n = 0")
  case False
  define k where "k = floorlog 2 n"
  have b: "2 ^ (k - 1) \<le> n" "n < 2 ^ k" using floorlog_bounds [of n 2] False by (auto simp: k_def)
  have k: "0 < k" using False floorlog_eq_zero_iff [of 2 n] by (auto simp: k_def intro: gr0I)
  have k53: "k \<le> 53"
  proof (rule ccontr)
    assume "\<not> k \<le> 53"
    then have "(2::nat) ^ 53 \<le> 2 ^ (k - 1)" by (intro power_increasing) auto
    then show False using b assms by simp
  qed
  have q: "quotient_of (of_nat n) = (int n, 1)"
    using quotient_of_rat_of_int [of "int n"] by simp
  have lift: "of_nat n / 2 powi (int k - int c) = (of_nat (n * 2 ^ (c - k)) :: rat)" if "k \<le> c" for c
  proof -
    have "int k - int c = - int (c - k)" using that by simp
    then show ?thesis by (simp only: power_int_minus power_int_of_nat) (simp add: field_simps)
  qed
  have "2 ^ 53 = 2 ^ (k - 1) * (2::nat) ^ (54 - k)" using k k53 by (simp flip: power_add)
  also have "\<dots> \<le> n * 2 ^ (54 - k)" using b(1) by simp
  finally have "(of_nat (2 ^ 53) :: rat) \<le> of_nat (n * 2 ^ (54 - k))" unfolding of_nat_le_iff .
  then have big: "(2::rat) ^ 53 \<le> of_nat n / 2 powi (int k - 54)" using lift [of 54] k53 by simp
  have one: "floorlog 2 (Suc 0) = 1" by (simp add: floorlog_def)
  have "fl64 (of_nat n) = of_int (round_even (of_nat n / 2 powi (int k - 53))) * 2 powi (int k - 53)"
    using False big by (simp add: fl64_def q k_def [symmetric] Let_def one)
  also have "\<dots> = of_nat (n * 2 ^ (53 - k)) * 2 powi (int k - 53)"
    using lift [of 53] k53 round_even_int [of "int (n * 2 ^ (53 - k))"] by simp
  also have "\<dots> = of_nat n" using lift [of 53] k53 by (simp add: field_simps)
  finally show ?thesis .
qed (simp add: fl64_def)


lemma foldl_decimal_ge: "m \<le> foldl (\<lambda>n c. 10 * n + digit c) m cs"
proof (induction cs arbitrary: m)
  case (Cons c cs)
  have "m \<le> 10 * m + digit c" by simp
  then show ?case using Cons [of "10 * m + digit c"] by (simp only: foldl_Cons)
qed simp

lemma parse_loop_digits:
  "list_all is_digit cs \<Longrightarrow> foldl (\<lambda>n c. 10 * n + digit c) m cs < 2 ^ 53 \<Longrightarrow>
   parse_loop s (of_nat m) n cs = Some (of_nat (foldl (\<lambda>n c. 10 * n + digit c) m cs))"
proof (induction cs arbitrary: m n)
  case (Cons c cs)
  let ?m = "10 * m + digit c"
  have "?m < 2 ^ 53" using Cons.prems(2) foldl_decimal_ge [of ?m cs] by (simp only: foldl_Cons)
  then have "fl64 (of_nat (10 * m)) = of_nat (10 * m)" "fl64 (of_nat ?m) = of_nat ?m"
    by (intro fl64_nat; simp)+
  then have "fl64 (fl64 (of_nat m * 10) + of_nat (digit c)) = of_nat ?m"
    by (simp add: mult.commute)
  then show ?case using Cons.prems Cons.IH [of ?m "n + 1"] by simp
qed simp

text \<open>Two numbers written with digits only and below 2 to the 53 are compared by their
  values, however many leading zeros they have.\<close>

theorem compareNumeric_digits:
  assumes "list_all is_digit a" "list_all is_digit b" "decimal a < 2 ^ 53" "decimal b < 2 ^ 53"
  shows "compareNumeric a b = sgn (int (decimal a) - int (decimal b))"
proof -
  have "parseFloat a = Some (of_nat (decimal a))" "parseFloat b = Some (of_nat (decimal b))"
    using assms parse_loop_digits [of a 0 a 0] parse_loop_digits [of b 0 b 0]
    by (simp_all add: parseFloat_def decimal_def)
  then show ?thesis by (simp add: compareNumeric_def sgn_if)
qed

theorem compareNumeric_digits_witness:
  "compareNumeric ''090'' ''1234'' = -1"
  using compareNumeric_digits [of "''090''" "''1234''"]
  by (simp add: decimal_def is_digit_def digit_def)

text \<open>The first digit after the point counts as units: 1.5 is read as 6 and so exceeds 2.\<close>

lemma fl64_small: "fl64 (numeral k) = numeral k" if "(numeral k :: nat) < 2 ^ 53"
  using fl64_nat [OF that] by simp

lemma fl64_01: "fl64 0 = 0" "fl64 1 = 1"
  using fl64_nat [of 1] by (simp_all add: fl64_def)

lemma fraction_misread: "parseFloat ''1.5'' = Some 6"
  by (simp add: parseFloat_def is_digit_def digit_def fl64_01 fl64_small indexOfStr_Index HasPrefix_def)

lemma fraction_compares_wrong: "compareNumeric ''1.5'' ''2'' = 1"
proof -
  have "parseFloat ''2'' = Some 2"
    by (simp add: parseFloat_def is_digit_def digit_def fl64_01 fl64_small)
  then show ?thesis by (simp add: compareNumeric_def fraction_misread)
qed


section \<open>Unsafe headers\<close>

text \<open>On header names the loop over runes agrees with ToLower.\<close>

lemma toLowerStr_ascii: "\<forall>c \<in> set s. of_char c < (128::nat) \<Longrightarrow> toLowerStr s = ToLower s"
proof (induction s rule: toLowerStr.induct)
  case (2 c s)
  have w: "utf8_width (c # s) = 1" using 2(2) by (auto simp: utf8_width_def Let_def)
  show ?case using 2 by (simp add: w ToLower_def)
qed (simp add: ToLower_def)

lemma ToLowerC_big: "(128::nat) \<le> of_char c \<Longrightarrow> ToLowerC c = c"
  by (simp add: ToLowerC_def Let_def)

lemma toLowerStr_big: "c \<in> set s \<Longrightarrow> (128::nat) \<le> of_char c \<Longrightarrow> \<exists>d \<in> set (toLowerStr s). (128::nat) \<le> of_char d"
proof (induction s rule: toLowerStr.induct)
  case (2 b s)
  show ?case
  proof (cases "(128::nat) \<le> of_char b")
    case True
    then show ?thesis by (simp add: ToLowerC_big Let_def)
  next
    case False
    then have "utf8_width (b # s) = 1" by (simp add: utf8_width_def Let_def)
    then show ?thesis using 2 False by (auto simp: Let_def)
  qed
qed simp

lemma unsafe_ascii: "h \<in> set unsafe_headers \<Longrightarrow> c \<in> set h \<Longrightarrow> of_char c < (128::nat)"
  by (auto simp: unsafe_headers_def)

lemma isUnsafeHeader_ToLower: "isUnsafeHeader k \<longleftrightarrow> ToLower k \<in> set unsafe_headers"
proof (cases "\<forall>c \<in> set k. of_char c < (128::nat)")
  case True
  then show ?thesis by (simp add: isUnsafeHeader_def toLowerStr_ascii)
next
  case False
  then obtain c where c: "c \<in> set k" "(128::nat) \<le> of_char c" by force
  have "c \<in> set (ToLower k)" using c ToLowerC_big [OF c(2)] by (force simp: ToLower_def)
  then show ?thesis using toLowerStr_big [OF c] c(2) unsafe_ascii
    unfolding isUnsafeHeader_def by (meson leD)
qed

text \<open>A rule names a header it sets.\<close>

definition names_header :: "string \<Rightarrow> Operation \<Rightarrow> bool" where
  "names_header k op \<longleftrightarrow> (op_Mode op = ''set_header'' \<and> op_Path op = k)
     \<or> (op_Mode op \<in> {''copy_header'', ''move_header''} \<and> op_To op = k)"

definition lacks :: "string \<Rightarrow> octx \<Rightarrow> bool" where
  "lacks k ctx \<longleftrightarrow> map_of (getRuntimeHeaders ctx) k = None"

lemma getRuntimeHeaders_put [simp]: "getRuntimeHeaders (putRuntimeHeaders h ctx) = h"
  by (simp add: getRuntimeHeaders_def putRuntimeHeaders_def update_conv')

lemma fold_update_safe:
  "map_of h k = None \<Longrightarrow> isUnsafeHeader k \<Longrightarrow>
   map_of (fold (\<lambda>(q, v) h. if isUnsafeHeader q then h else AList.update q v h) rh h) k = None"
proof (induction rh arbitrary: h)
  case (Cons x rh)
  obtain q v where x: "x = (q, v)" by (cases x)
  have "map_of (if isUnsafeHeader q then h else AList.update q v h) k = None"
    using Cons.prems by (auto simp: update_conv')
  then show ?case using Cons.IH Cons.prems(2) by (simp add: x)
qed simp

lemma preserves_modifyE [pres]: "(\<And>s. I s \<Longrightarrow> I (f s)) \<Longrightarrow> preserves I (modifyE f)"
  by (simp add: preserves_def modifyE_def)

lemma header_ops_lack:
  assumes "lacks k ctx"
  shows "q \<noteq> k \<Longrightarrow> lacks k (opSetHeader fx q v ctx)"
    and "lacks k (opDeleteHeader q ctx)"
    and "to \<noteq> k \<Longrightarrow> lacks k (opCopyHeader from to ctx)"
    and "to \<noteq> k \<Longrightarrow> lacks k (opMoveHeader from to ctx)"
    and "isUnsafeHeader k \<Longrightarrow> lacks k (opPassHeaders ctx)"
  using assms
  by (auto simp: lacks_def opSetHeader_def opDeleteHeader_def opCopyHeader_def opMoveHeader_def
      opPassHeaders_def update_conv' delete_conv' fold_update_safe Let_def
      split: option.split cval.split)

lemma applySingleOperation_lacks:
  assumes "isUnsafeHeader k" "\<not> names_header k op"
  shows "preserves (lacks k) (applySingleOperation L data op)"
proof -
  have n: "op_Mode op = ''set_header'' \<Longrightarrow> op_Path op \<noteq> k" "op_Mode op = ''copy_header'' \<Longrightarrow> op_To op \<noteq> k"
    "op_Mode op = ''move_header'' \<Longrightarrow> op_To op \<noteq> k"
    using assms(2) by (auto simp: names_header_def)
  show ?thesis unfolding applySingleOperation_def Let_def
    by (intro pres) (simp_all add: header_ops_lack n assms(1))
qed

lemma applyOperations_lacks:
  assumes "isUnsafeHeader k"
  shows "\<forall>op \<in> set ops. \<not> names_header k op \<Longrightarrow> preserves (lacks k) (applyOperations L data ops)"
proof (induction ops arbitrary: data)
  case (Cons op ops)
  show ?case using Cons by (auto intro!: pres applySingleOperation_lacks assms)
qed (simp add: pres)


text \<open>The same for the whole of ApplyParamOverride and ApplyHeaderOverride.\<close>

definition runtime_lacks :: "string \<Rightarrow> RelayInfo \<Rightarrow> bool" where
  "runtime_lacks k info \<longleftrightarrow> (case ri_RuntimeHeadersOverride info of None \<Rightarrow> True | Some h \<Rightarrow> map_of h k = None)"

lemma BuildOverrideContext_lacks: "runtime_lacks k info \<Longrightarrow> lacks k (BuildOverrideContext info)"
  by (auto simp: lacks_def runtime_lacks_def getRuntimeHeaders_def BuildOverrideContext_def split: option.splits)

definition rules_of :: "'d ov_lib \<Rightarrow> RelayInfo \<Rightarrow> Operation list" where
  "rules_of L info = (case tryParseOperations (fmt_float L) (cs_ParamOverride (cm_Settings (ri_ChannelMeta info))) of
     None \<Rightarrow> [] | Some ops \<Rightarrow> ops)"

lemma ApplyParamOverride_cases:
  assumes "run_rules L body (cs_ParamOverride (cm_Settings (ri_ChannelMeta info))) (BuildOverrideContext info) = (r, ctx')"
  shows "snd (ApplyParamOverride L body info) = info
    \<or> snd (ApplyParamOverride L body info) = info\<lparr>ri_RuntimeHeadersOverride := Some (getRuntimeHeaders ctx')\<rparr>"
  by (cases r) (simp_all add: ApplyParamOverride_def Let_def assms)

lemma ApplyParamOverride_meta: "ri_ChannelMeta (snd (ApplyParamOverride L body info)) = ri_ChannelMeta info"
  using ApplyParamOverride_cases [OF surjective_pairing, of L body info] by fastforce

lemma run_rules_lacks:
  assumes "isUnsafeHeader k" "\<forall>op \<in> set (rules_of L info). \<not> names_header k op"
  shows "preserves (lacks k) (run_rules L body (cs_ParamOverride (cm_Settings (ri_ChannelMeta info))))"
  using assms by (auto simp: run_rules_def rules_of_def pres applyOperations_lacks split: option.split)

lemma ApplyParamOverride_lacks:
  assumes "isUnsafeHeader k" "\<forall>op \<in> set (rules_of L info). \<not> names_header k op" "runtime_lacks k info"
  shows "runtime_lacks k (snd (ApplyParamOverride L body info))"
proof -
  obtain r ctx' where rc: "run_rules L body (cs_ParamOverride (cm_Settings (ri_ChannelMeta info)))
      (BuildOverrideContext info) = (r, ctx')" by fastforce
  have "lacks k ctx'"
    by (rule preserves_run [OF run_rules_lacks [OF assms(1,2)] BuildOverrideContext_lacks [OF assms(3)] rc])
  then show ?thesis using ApplyParamOverride_cases [OF rc] assms(3) by (auto simp: runtime_lacks_def lacks_def)
qed

lemma pass_through_lacks:
  assumes "isUnsafeHeader k" "map_of r k = None"
  shows "map_of (pass_through p rh r) k = None"
proof (cases rh)
  case (Some hs)
  have "map_of (fold (\<lambda>(h, vals) result. if isUnsafeHeader h then result
         else if p h \<and> vals \<noteq> [] \<and> hd vals \<noteq> [] then AList.update h (hd vals) result
         else result) hs r) k = None" using assms(2)
  proof (induction hs arbitrary: r)
    case (Cons x hs)
    obtain h vals where x: "x = (h, vals)" by (cases x)
    have "map_of (if isUnsafeHeader h then r
         else if p h \<and> vals \<noteq> [] \<and> hd vals \<noteq> [] then AList.update h (hd vals) r else r) k = None"
      using Cons.prems assms(1) by (auto simp: update_conv')
    then show ?case using Cons.IH by (simp add: x)
  qed simp
  then show ?thesis by (simp add: pass_through_def Some)
qed (simp add: pass_through_def assms)

lemma header_rule_lacks:
  assumes "isUnsafeHeader k" "q \<noteq> k" "map_of r k = None" "header_rule L info q v r = Some r'"
  shows "map_of r' k = None"
  using assms pass_through_lacks [OF assms(1,3)]
  by (auto simp: header_rule_def Let_def update_conv' split: if_splits sum.splits option.splits)

lemma header_rules_lacks:
  "isUnsafeHeader k \<Longrightarrow> k \<notin> fst ` set rules \<Longrightarrow> map_of r k = None \<Longrightarrow> header_rules L info rules r = Some r'
    \<Longrightarrow> map_of r' k = None"
proof (induction rules arbitrary: r)
  case (Cons x rules)
  obtain q v where x: "x = (q, v)" by (cases x)
  from Cons.prems(4) obtain r1 where r1: "header_rule L info q v r = Some r1" "header_rules L info rules r1 = Some r'"
    by (auto simp: x split: option.splits)
  have "q \<noteq> k" "k \<notin> fst ` set rules" using Cons.prems(2) by (auto simp: x)
  then have "map_of r1 k = None" using header_rule_lacks [OF Cons.prems(1) _ Cons.prems(3) r1(1)] by blast
  from Cons.IH [OF Cons.prems(1) \<open>k \<notin> fst ` set rules\<close> this r1(2)] show ?case .
qed simp

lemma fold_update_notin:
  "map_of xs k = None \<Longrightarrow> map_of (fold (\<lambda>(q, v) r. AList.update q v r) xs r) k = map_of r k"
  by (induction xs arbitrary: r) (auto simp: update_conv' split: if_splits)

definition with_runtime :: "headers option \<Rightarrow> headers \<Rightarrow> headers" where
  "with_runtime rt r = (case rt of None \<Rightarrow> r | Some h \<Rightarrow> fold (\<lambda>(k, v) r. AList.update k v r) h r)"

lemma ApplyHeaderOverride_Some:
  "ApplyHeaderOverride L i = Some (Some result) \<Longrightarrow>
   \<exists>r. header_rules L i (cs_HeaderOverride (cm_Settings (ri_ChannelMeta i))) [] = Some r
     \<and> result = with_runtime (ri_RuntimeHeadersOverride i) r"
  unfolding ApplyHeaderOverride_def Let_def with_runtime_def
  by (cases "header_rules L i (cs_HeaderOverride (cm_Settings (ri_ChannelMeta i))) []") (simp_all split: if_splits)

text \<open>Property C18.  An unsafe header of the client (a credential, a cookie, a hop-by-hop header) is never
  among the headers the rules add to the upstream request, unless a rule names it: not through the
  wildcard, not through a regular expression, not through pass_headers, whatever the rules do to the
  body before.\<close>

theorem unsafe_headers_need_a_rule:
  assumes "isUnsafeHeader k"
    and "\<forall>op \<in> set (rules_of L info). \<not> names_header k op"
    and "k \<notin> fst ` set (cs_HeaderOverride (cm_Settings (ri_ChannelMeta info)))"
    and "ri_RuntimeHeadersOverride info = None"
    and "ApplyHeaderOverride L (snd (ApplyParamOverride L body info)) = Some (Some result)"
  shows "k \<notin> fst ` set result"
proof -
  let ?i = "snd (ApplyParamOverride L body info)"
  have rl: "runtime_lacks k ?i" using assms by (intro ApplyParamOverride_lacks) (auto simp: runtime_lacks_def)
  obtain r where r: "header_rules L ?i (cs_HeaderOverride (cm_Settings (ri_ChannelMeta info))) [] = Some r"
    and res: "result = with_runtime (ri_RuntimeHeadersOverride ?i) r"
    using ApplyHeaderOverride_Some [OF assms(5)] unfolding ApplyParamOverride_meta by blast
  have "map_of r k = None" using header_rules_lacks [OF assms(1,3) _ r] by simp
  then have "map_of result k = None" 
    using rl by (cases "ri_RuntimeHeadersOverride ?i") (simp_all add: res with_runtime_def runtime_lacks_def fold_update_notin)
  then show ?thesis by (metis map_of_eq_None_iff)
qed


section \<open>Errors\<close>

definition body_modes :: "string list" where
  "body_modes = [''append'', ''prepend'', ''replace'', ''regex_replace'', ''to_lower'', ''to_upper'', ''trim_prefix'',
     ''trim_suffix'', ''ensure_prefix'', ''ensure_suffix'', ''trim_space'']"

definition other_modes :: "string list" where
  "other_modes = [''set'', ''delete'', ''move'', ''copy'', ''return_error'', ''set_header'', ''delete_header'',
     ''copy_header'', ''move_header'', ''pass_headers'']"

text \<open>Why a rule may fail: it says so, its mode is not known, its pattern is not a regular expression,
  or sjson refuses what one of the modes that build a new value writes.\<close>

definition rule_error :: "'d ov_lib \<Rightarrow> Operation \<Rightarrow> go_err \<Rightarrow> bool" where
  "rule_error L op e \<longleftrightarrow>
     (op_Mode op = ''return_error'' \<and> e = opReturnError (fmt_float L) (op_Value op))
   \<or> (op_Mode op \<notin> set (body_modes @ other_modes) \<and> e = ErrNewf ''unknown override mode: %s'' [AStr (op_Mode op)])
   \<or> (op_Mode op = ''regex_replace'' \<and> (\<exists>p e' msg. re_Compile L p = Inl e' \<and> e = ErrWrap e' msg))
   \<or> (op_Mode op \<in> set body_modes \<and> (\<exists>d p. (\<exists>s. sj_Set L d p s = Inl e) \<or> (\<exists>v. sj_SetRaw L d p v = Inl e)))"

lemma or_data_Inr [simp]: "or_data d r \<noteq> Inl e"
  by (simp add: or_data_def split: sum.split)

lemma quiet_modes [simp]: "opSet L d p v k \<noteq> Inl e" "opDelete L d p \<noteq> Inl e" "opMove L d p q \<noteq> Inl e" "opCopy L d p q \<noteq> Inl e"
  by (simp_all add: opSet_def opDelete_def opMove_def opCopy_def split: option.split sum.split)

lemma build_errors:
  "opAppend L d p v k = Inl e \<Longrightarrow> \<exists>d p. (\<exists>s. sj_Set L d p s = Inl e) \<or> (\<exists>v. sj_SetRaw L d p v = Inl e)"
  "opPrepend L d p v k = Inl e \<Longrightarrow> \<exists>d p. (\<exists>s. sj_Set L d p s = Inl e) \<or> (\<exists>v. sj_SetRaw L d p v = Inl e)"
  unfolding opAppend_def opPrepend_def
  by (cases "gj_Get L d p"; cases "the (gj_Get L d p)"; force split: if_splits)+

lemma string_errors:
  "opReplace L d p v = Inl e \<Longrightarrow> \<exists>d p s. sj_Set L d p s = Inl e"
  "opToLower L d p = Inl e \<Longrightarrow> \<exists>d p s. sj_Set L d p s = Inl e"
  "opToUpper L d p = Inl e \<Longrightarrow> \<exists>d p s. sj_Set L d p s = Inl e"
  "opTrimPrefix L d p v = Inl e \<Longrightarrow> \<exists>d p s. sj_Set L d p s = Inl e"
  "opTrimSuffix L d p v = Inl e \<Longrightarrow> \<exists>d p s. sj_Set L d p s = Inl e"
  "opEnsurePrefix L d p v = Inl e \<Longrightarrow> \<exists>d p s. sj_Set L d p s = Inl e"
  "opEnsureSuffix L d p v = Inl e \<Longrightarrow> \<exists>d p s. sj_Set L d p s = Inl e"
  "opTrimSpace L d p = Inl e \<Longrightarrow> \<exists>d p s. sj_Set L d p s = Inl e"
  unfolding opReplace_def opToLower_def opToUpper_def opTrimPrefix_def opTrimSuffix_def opEnsurePrefix_def
    opEnsureSuffix_def opTrimSpace_def Let_def
  by (fastforce split: json.splits option.splits if_splits)+

lemma regex_errors:
  "opRegexReplace L d p v = Inl e \<Longrightarrow>
    (\<exists>q e' msg. re_Compile L q = Inl e' \<and> e = ErrWrap e' msg) \<or> (\<exists>d p s. sj_Set L d p s = Inl e)"
  unfolding opRegexReplace_def Let_def by (fastforce split: json.splits option.splits if_splits sum.splits)

lemma applySingleOperation_error:
  assumes "applySingleOperation L data op ctx = (Inl e, ctx')" shows "rule_error L op e"
proof -
  have set_err: "rule_error L op e" if "\<exists>d p s. sj_Set L d p s = Inl e" "op_Mode op \<in> set body_modes"
    using that by (auto simp: rule_error_def)
  have build: "rule_error L op e" if "\<exists>d p. (\<exists>s. sj_Set L d p s = Inl e) \<or> (\<exists>v. sj_SetRaw L d p v = Inl e)"
    "op_Mode op \<in> set body_modes"
    using that by (auto simp: rule_error_def)
  have re: "rule_error L op e" if "(\<exists>q e' msg. re_Compile L q = Inl e' \<and> e = ErrWrap e' msg) \<or> (\<exists>d p s. sj_Set L d p s = Inl e)"
    "op_Mode op = ''regex_replace''"
    using that by (auto simp: rule_error_def body_modes_def)
  note errs = set_err [OF string_errors(1)] set_err [OF string_errors(2)] set_err [OF string_errors(3)]
    set_err [OF string_errors(4)] set_err [OF string_errors(5)] set_err [OF string_errors(6)]
    set_err [OF string_errors(7)] set_err [OF string_errors(8)]
    build [OF build_errors(1)] build [OF build_errors(2)] re [OF regex_errors]
  show ?thesis using assms unfolding applySingleOperation_def Let_def
    by (auto simp: liftE_def throwE_def bindE_def getsE_def modifyE_def returnE_def body_modes_def
        dest: errs simp: rule_error_def [of L op e] other_modes_def split: if_splits)
qed


lemma applyOperations_error:
  "applyOperations L data ops ctx = (Inl e, ctx') \<Longrightarrow> \<exists>op \<in> set ops. rule_error L op e"
proof (induction ops arbitrary: data ctx)
  case Nil
  then show ?case by (simp add: returnE_def)
next
  case (Cons op ops)
  show ?case
  proof (cases "checkConditions L data ctx (op_Conditions op) (op_Logic op)")
    case False
    then show ?thesis using Cons by (auto simp: bindE_def getsE_def)
  next
    case True
    then have "(case applySingleOperation L data op ctx of (Inl e, s) \<Rightarrow> (Inl e, s) | (Inr a, s) \<Rightarrow> applyOperations L a ops s)
      = (Inl e, ctx')" using Cons.prems by (simp add: bindE_def getsE_def)
    then show ?thesis using applySingleOperation_error Cons.IH
      by (fastforce split: prod.splits sum.splits)
  qed
qed

lemma applySingleOperation_return:
  "op_Mode op = ''return_error'' \<Longrightarrow>
   applySingleOperation L data op ctx = (Inl (opReturnError (fmt_float L) (op_Value op)), ctx)"
  by (simp add: applySingleOperation_def Let_def run)

lemma applyOperations_blocked:
  assumes "op \<in> set ops" "op_Mode op = ''return_error''" "op_Conditions op = []"
  shows "\<exists>e ctx'. applyOperations L data ops ctx = (Inl e, ctx')"
  using assms(1)
proof (induction ops arbitrary: data ctx)
  case (Cons o1 ops)
  show ?case
  proof (cases "o1 = op")
    case True
    then show ?thesis using assms by (simp add: run checkConditions_def applySingleOperation_return)
  next
    case False
    then have "op \<in> set ops" using Cons.prems by auto
    note IH = Cons.IH [OF this]
    show ?thesis
      using IH by (cases "applySingleOperation L data o1 ctx"; cases "fst (applySingleOperation L data o1 ctx)")
        (auto simp: run split: if_splits)
  qed
qed simp

lemma ApplyParamOverride_fst:
  "fst (ApplyParamOverride L body info) =
    (let po = cs_ParamOverride (cm_Settings (ri_ChannelMeta info)) in
     if po = [] then Inr body else fst (run_rules L body po (BuildOverrideContext info)))"
  by (simp add: ApplyParamOverride_def Let_def split: prod.split)

lemma run_rules_fst:
  "fst (run_rules L body po ctx) = (case tryParseOperations (fmt_float L) po of
     Some ops \<Rightarrow> fst (applyOperations L body ops ctx) | None \<Rightarrow> Inr (applyLegacy L body po))"
  by (simp add: run_rules_def returnE_def split: option.split)

text \<open>Rewriting fails only for a reason one of the rules gives; a rule return_error without
  conditions always makes it fail, whatever stands before it; and a failed rewriting leaves the
  request as it was unless the request already carried runtime headers.\<close>

theorem ApplyParamOverride_errors:
  "(fst (ApplyParamOverride L body info) = Inl e \<longrightarrow> (\<exists>op \<in> set (rules_of L info). rule_error L op e))
   \<and> (op \<in> set (rules_of L info) \<and> op_Mode op = ''return_error'' \<and> op_Conditions op = []
      \<longrightarrow> (\<exists>e. fst (ApplyParamOverride L body info) = Inl e))
   \<and> (fst (ApplyParamOverride L body info) = Inl e \<and> ri_RuntimeHeadersOverride info = None
      \<longrightarrow> snd (ApplyParamOverride L body info) = info)"
proof (intro conjI impI; (elim conjE)?)
  let ?po = "cs_ParamOverride (cm_Settings (ri_ChannelMeta info))"
  show "\<exists>op \<in> set (rules_of L info). rule_error L op e" if f: "fst (ApplyParamOverride L body info) = Inl e"
  proof -
    obtain ops where ops: "tryParseOperations (fmt_float L) ?po = Some ops"
      "fst (applyOperations L body ops (BuildOverrideContext info)) = Inl e"
      using f by (cases "tryParseOperations (fmt_float L) ?po"; cases "?po = []")
        (auto simp: ApplyParamOverride_fst run_rules_fst)
    then show ?thesis using applyOperations_error [of L body ops _ e] by (force simp: rules_of_def prod_eq_iff)
  qed
  show "\<exists>e. fst (ApplyParamOverride L body info) = Inl e"
    if o: "op \<in> set (rules_of L info)" "op_Mode op = ''return_error''" "op_Conditions op = []"
  proof -
    obtain ops where ops: "tryParseOperations (fmt_float L) ?po = Some ops" "op \<in> set ops"
      using o(1) by (cases "tryParseOperations (fmt_float L) ?po") (auto simp: rules_of_def)
    then have "?po \<noteq> []" by (auto simp: tryParseOperations_def)
    moreover obtain e c where "applyOperations L body ops (BuildOverrideContext info) = (Inl e, c)"
      using applyOperations_blocked [OF ops(2) o(2,3), of L body "BuildOverrideContext info"] by blast
    ultimately show ?thesis using ops by (simp add: ApplyParamOverride_fst run_rules_fst)
  qed
  show "snd (ApplyParamOverride L body info) = info"
    if "fst (ApplyParamOverride L body info) = Inl e" "ri_RuntimeHeadersOverride info = None"
    using that by (auto simp: ApplyParamOverride_def Let_def split: prod.splits if_splits)
qed

section \<open>Witnesses\<close>

text \<open>A library over objects without nesting: a path is a key.\<close>

fun obj_fields :: "json \<Rightarrow> (string \<times> json) list" where
  "obj_fields (JObj kvs) = kvs"
| "obj_fields _ = []"

definition flat_lib :: "json ov_lib" where
  "flat_lib = \<lparr>gj_Get = (\<lambda>d p. jlookup p (obj_fields d)),
     sj_SetRaw = (\<lambda>d p v. if p = [] then Inl (ErrExt ''path cannot be empty'') else Inr (JObj (AList.update p v (obj_fields d)))),
     sj_Set = (\<lambda>d p s. if p = [] then Inl (ErrExt ''path cannot be empty'') else Inr (JObj (AList.update p (JStr s) (obj_fields d)))),
     sj_Delete = (\<lambda>d p. if p = [] then Inl (ErrExt ''path cannot be empty'') else Inr (JObj (AList.delete p (obj_fields d)))),
     re_Compile = (\<lambda>p. Inr \<lparr>re_MatchString = (\<lambda>s. Contains s p), re_ReplaceAllString = (\<lambda>s r. s)\<rparr>),
     fmt_float = (\<lambda>j. ''0.5''), lib_order = (\<lambda>ctx. ctx)\<rparr>"

definition demo_info :: "(string \<times> json) list \<Rightarrow> (string \<times> json) list \<Rightarrow> RelayInfo" where
  "demo_info po ho =
     \<lparr>ri_UserID = 1, ri_ApiKeyID = 1, ri_ProjectID = 0, ri_RequestID = ''r'', ri_RelayMode = RelayModeChatCompletions,
      ri_IsStream = False, ri_OriginModelName = ''m'', ri_RequestURLPath = ''/v1'',
      ri_RequestHeaders = Some [(''Cookie'', [''c'']), (''X-A'', [''a''])], ri_StartTime = 0,
      ri_ChannelMeta = \<lparr>cm_ChannelID = 1, cm_ChannelType = 1, cm_ChannelName = ''n'', cm_BaseURL = ''u'', cm_ApiKey = ''k'',
        cm_UpstreamModelName = ''um'', cm_IsModelMapped = True,
        cm_Settings = zero_settings\<lparr>cs_ParamOverride := po, cs_HeaderOverride := ho\<rparr>\<rparr>,
      ri_RetryIndex = 0, ri_LastError = None, ri_StreamStatus = NewStreamStatus, ri_FirstResponseTime = None,
      ri_InboundFormat = ''openai'', ri_ClientFormat = ''openai'', ri_RuntimeHeadersOverride = None,
      ri_UseResponsesAPI = False, ri_ThinkingEnabled = False, ri_ThinkingDisabled = False, ri_ReasoningEffort = [],
      ri_BaseModelName = [], ri_ResponseText = []\<rparr>"

definition pass_rules :: "(string \<times> json) list" where
  "pass_rules = [(''operations'', JArr [JObj [(''mode'', JStr ''pass_headers'')]])]"

lemma demo_simps [simp]:
  "cs_ParamOverride (cm_Settings (ri_ChannelMeta (demo_info po ho))) = po"
  "cs_HeaderOverride (cm_Settings (ri_ChannelMeta (demo_info po ho))) = ho"
  "ri_RuntimeHeadersOverride (demo_info po ho) = None"
  by (simp_all add: demo_info_def)

lemma unsafe_eval: "isUnsafeHeader ''Cookie''" "\<not> isUnsafeHeader ''X-A''"
  unfolding isUnsafeHeader_ToLower unsafe_headers_def by code_simp+

lemma pass_rules_parse:
  "tryParseOperations fx pass_rules = Some [\<lparr>op_Path = [], op_Mode = ''pass_headers'', op_Value = JNull,
     op_KeepOrigin = False, op_From = [], op_To = [], op_Conditions = [], op_Logic = []\<rparr>]"
  by (simp add: tryParseOperations_def pass_rules_def jget_def toString_def toBool_def jlookup_def)

lemma pass_rules_runtime:
  "snd (ApplyParamOverride flat_lib (JObj []) (demo_info pass_rules ho))
    = (demo_info pass_rules ho)\<lparr>ri_RuntimeHeadersOverride := Some [(''X-A'', ''a'')]\<rparr>"
  by (simp add: ApplyParamOverride_def Let_def run_rules_def pass_rules_parse)
   (simp add: run checkConditions_def applySingleOperation_def resolveContextPath_def modifyE_def
      BuildOverrideContext_def demo_info_def opPassHeaders_def getRuntimeHeaders_def putRuntimeHeaders_def
      first_values_def unsafe_eval pass_rules_def)

lemma pass_rules_run:
  "ApplyHeaderOverride flat_lib (snd (ApplyParamOverride flat_lib (JObj []) (demo_info pass_rules [(''*'', JNull)])))
    = Some (Some [(''X-A'', ''a'')])"
  unfolding pass_rules_runtime
  by (simp add: ApplyHeaderOverride_def Let_def header_rule_def pass_through_def demo_info_def unsafe_eval)

theorem unsafe_headers_need_a_rule_witness: "''Cookie'' \<notin> fst ` set [(''X-A'', ''a'')]"
  by (rule unsafe_headers_need_a_rule [OF unsafe_eval(1) _ _ _ pass_rules_run])
    (simp_all add: rules_of_def pass_rules_parse names_header_def)

definition block_rules :: "(string \<times> json) list" where
  "block_rules = [(''operations'', JArr [JObj [(''mode'', JStr ''return_error''), (''value'', JNull)]])]"

lemma block_rules_parse:
  "tryParseOperations fx block_rules = Some [\<lparr>op_Path = [], op_Mode = ''return_error'', op_Value = JNull,
     op_KeepOrigin = False, op_From = [], op_To = [], op_Conditions = [], op_Logic = []\<rparr>]"
  by (simp add: tryParseOperations_def block_rules_def jget_def toString_def toBool_def jlookup_def)

theorem ApplyParamOverride_errors_witness:
  "\<exists>e. fst (ApplyParamOverride flat_lib (JObj []) (demo_info block_rules [])) = Inl e
     \<and> (\<exists>op \<in> set (rules_of flat_lib (demo_info block_rules [])). rule_error flat_lib op e)
     \<and> snd (ApplyParamOverride flat_lib (JObj []) (demo_info block_rules [])) = demo_info block_rules []"
proof -
  let ?i = "demo_info block_rules []" and ?op = "hd (rules_of flat_lib (demo_info block_rules []))"
  have op: "?op \<in> set (rules_of flat_lib ?i)" "op_Mode ?op = ''return_error''" "op_Conditions ?op = []"
    by (simp_all add: rules_of_def block_rules_parse)
  then obtain e where e: "fst (ApplyParamOverride flat_lib (JObj []) ?i) = Inl e"
    using ApplyParamOverride_errors [of flat_lib "JObj []" ?i _ ?op] by blast
  then show ?thesis using ApplyParamOverride_errors [of flat_lib "JObj []" ?i e ?op] by auto
qed


definition missing_key :: Condition where
  "missing_key = \<lparr>co_Path = ''nokey'', co_Mode = ''full'', co_Value = JStr ''a'', co_Invert = False, co_PassMissingKey = True\<rparr>"

lemma missing_key_verdict: "verdict flat_lib (JObj []) [] missing_key = None"
  by (simp add: verdict_def missing_key_def condition_target_def flat_lib_def resolveContextPath_def)

theorem checkConditions_meaning_witness:
  "checkConditions flat_lib (JObj []) [] [missing_key] ''AND''
   \<and> \<not> checkConditions flat_lib (JObj []) [] [missing_key] ''OR''"
  unfolding checkConditions_meaning by (simp add: missing_key_verdict) (simp add: missing_key_def)

end
