(* ===== verification/Ledger.thy ===== *)
theory Ledger
  imports SysConfig
begin

text \<open>
  The double-entry journal, \<^verbatim>\<open>internal/logic/settlement/ledger.go\<close>, over the tables
  accounts, transactions and transaction_entries of \<^verbatim>\<open>migrations/0003_billing.sql\<close>.
  Balances are in micro-credits.  The main invariant \<open>ledger_inv\<close> says that the balance of
  every account is the sum of the deltas journalled for it.
\<close>

section \<open>Tables\<close>

record account =
  acc_id :: int
  acc_owner_type :: string
  acc_owner_id :: int
  acc_asset :: string
  acc_balance_micro :: int
  acc_version :: int
  acc_created_at :: int

record transaction =
  tx_id :: int
  tx_type :: string
  tx_ref_type :: string
  tx_ref_id :: int
  tx_created_at :: int

record entry =
  ent_id :: int
  ent_tx_id :: int
  ent_account_id :: int
  ent_delta_micro :: int
  ent_balance_after_micro :: int

record ledger_db = config_db +
  accounts :: "account list"
  transactions :: "transaction list"
  transaction_entries :: "entry list"

text \<open>The answers of the ledger to its callers (\<^verbatim>\<open>dto.TransactionEntryInfo\<close>,
  \<^verbatim>\<open>dto.TransactionInfo\<close>); \<open>None\<close> is a timestamp the code leaves at its zero value.\<close>

record entry_info =
  ei_ID :: int
  ei_AccountID :: int
  ei_DeltaMicro :: int
  ei_BalanceAfterMicro :: int

record tx_info =
  ti_ID :: int
  ti_TxType :: string
  ti_RefType :: string
  ti_RefID :: int
  ti_Entries :: "entry_info list"
  ti_CreatedAt :: "int option"

text \<open>UNIQUE (owner_type, owner_id, asset).\<close>

definition acc_key :: "account \<Rightarrow> string \<times> int \<times> string" where
  "acc_key a = (acc_owner_type a, acc_owner_id a, acc_asset a)"

definition acc_clash :: "account \<Rightarrow> account \<Rightarrow> bool" where
  "acc_clash x r \<longleftrightarrow> acc_key x = acc_key r"

definition no_clash :: "'r \<Rightarrow> 'r \<Rightarrow> bool" where
  "no_clash x r \<longleftrightarrow> False"

definition new_account :: "string \<Rightarrow> int \<Rightarrow> string \<Rightarrow> int \<Rightarrow> int \<Rightarrow> account" where
  "new_account ot oi as now i = \<lparr>acc_id = i, acc_owner_type = ot, acc_owner_id = oi,
     acc_asset = as, acc_balance_micro = 0, acc_version = 0, acc_created_at = now\<rparr>"

section \<open>Constants and entries\<close>

definition ownerTypeUser :: string where "ownerTypeUser = ''user''"
definition ownerTypePlatform :: string where "ownerTypePlatform = ''platform''"
definition assetCredits :: string where "assetCredits = ''credits''"
definition assetPoints :: string where "assetPoints = ''points''"
definition txTypeSettle :: string where "txTypeSettle = ''settle''"
definition txTypeRecharge :: string where "txTypeRecharge = ''recharge''"

lemmas ledger_consts = ownerTypeUser_def ownerTypePlatform_def assetCredits_def assetPoints_def
  txTypeSettle_def txTypeRecharge_def

record entryDelta =
  ed_OwnerType :: string
  ed_OwnerID :: int
  ed_Asset :: string
  ed_Delta :: int

section \<open>Operations\<close>

definition scan_account :: "string \<Rightarrow> int \<Rightarrow> string \<Rightarrow> ('z ledger_db_scheme, account option) eff" where
  "scan_account ot oi as = db_scan accounts
     (\<lambda>a. acc_owner_type a = ot \<and> acc_owner_id a = oi \<and> acc_asset a = as)"

definition insert_account :: "string \<Rightarrow> int \<Rightarrow> string \<Rightarrow> ('z ledger_db_scheme, int) eff" where
  "insert_account ot oi as =
     db_insert ''accounts'' accounts accounts_update acc_clash (new_account ot oi as)"

definition insert_transaction :: "string \<Rightarrow> string \<Rightarrow> int \<Rightarrow> ('z ledger_db_scheme, int) eff" where
  "insert_transaction ty rt ri =
     db_insert ''transactions'' transactions transactions_update no_clash
       (\<lambda>now i. \<lparr>tx_id = i, tx_type = ty, tx_ref_type = rt, tx_ref_id = ri, tx_created_at = now\<rparr>)"

text \<open>The conditional UPDATE of the optimistic lock and the journal row: the second half of
  the loop body of \<^verbatim>\<open>postLedger\<close>, and of CreditAccount and DebitAccount in
  \<^verbatim>\<open>billing.go\<close>, where the same statements are written out.  \<open>acc\<close> is the row
  read earlier.\<close>

definition apply_delta :: "string \<Rightarrow> string \<Rightarrow> int \<Rightarrow> account \<Rightarrow> int \<Rightarrow> int \<Rightarrow> ('z ledger_db_scheme, entry_info) eff" where
  "apply_delta msgU msgE txID acc delta newBalance =
     bindE (wrapE msgU
       (db_update accounts accounts_update
          (\<lambda>a. acc_id a = acc_id acc \<and> acc_version a = acc_version acc)
          (\<lambda>a. a\<lparr>acc_balance_micro := newBalance, acc_version := acc_version a + 1\<rparr>)))
     (\<lambda>affected. if affected = 0 then throwE (ErrNew ''account version conflict, retry'') else
     bindE (wrapE msgE
       (db_insert ''transaction_entries'' transaction_entries transaction_entries_update no_clash
          (\<lambda>now i. \<lparr>ent_id = i, ent_tx_id = txID, ent_account_id = acc_id acc,
                    ent_delta_micro = delta, ent_balance_after_micro = newBalance\<rparr>)))
     (\<lambda>entryID. returnE \<lparr>ei_ID = entryID, ei_AccountID = acc_id acc, ei_DeltaMicro = delta,
                          ei_BalanceAfterMicro = newBalance\<rparr>))"

text \<open>The first half: read the account of the entry, or create it.\<close>

definition entry_account :: "entryDelta \<Rightarrow> ('z ledger_db_scheme, account) eff" where
  "entry_account e =
     bindE (wrapE ''query account failed''
       (unlessNoRows (scan_account (ed_OwnerType e) (ed_OwnerID e) (ed_Asset e))))
     (\<lambda>r. case r of Some acc \<Rightarrow> returnE acc
      | None \<Rightarrow>
        bindE (wrapE ''create account failed''
          (insert_account (ed_OwnerType e) (ed_OwnerID e) (ed_Asset e)))
        (\<lambda>accID. bindE (getsE clock) (\<lambda>now.
          returnE (new_account (ed_OwnerType e) (ed_OwnerID e) (ed_Asset e) now accID))))"

definition post_entry :: "int \<Rightarrow> entryDelta \<Rightarrow> ('z ledger_db_scheme, entry_info) eff" where
  "post_entry txID e =
     bindE (entry_account e)
     (\<lambda>acc. apply_delta ''update account balance failed'' ''insert transaction entry failed''
              txID acc (ed_Delta e) (i64 (acc_balance_micro acc + ed_Delta e)))"

text \<open>\<^verbatim>\<open>var creditsSum int64; for \<dots> creditsSum += e.Delta\<close>.\<close>

definition creditsSum :: "entryDelta list \<Rightarrow> int" where
  "creditsSum es = foldl (\<lambda>sum e. if ed_Asset e = assetCredits then i64 (sum + ed_Delta e) else sum) 0 es"

definition postLedger ::
  "string \<Rightarrow> string \<Rightarrow> int \<Rightarrow> entryDelta list \<Rightarrow> ('z ledger_db_scheme, int \<times> entry_info list) eff" where
  "postLedger txType refType refID es =
     (if es = [] then throwE (ErrNew ''postLedger: at least one entry required'')
      else if txType \<noteq> txTypeRecharge \<and> creditsSum es \<noteq> 0
      then throwE (ErrNewf ''credits imbalance: sum=%d, expected 0'' [AInt (creditsSum es)])
      else
        bindE (wrapE ''insert transaction failed'' (insert_transaction txType refType refID))
        (\<lambda>txID. bindE (mapE (post_entry txID) es)
        (\<lambda>infos. returnE (txID, infos))))"

lemma post_entry_run [run]:
  "post_entry txID e s = bindE (entry_account e)
     (\<lambda>acc. apply_delta ''update account balance failed'' ''insert transaction entry failed''
              txID acc (ed_Delta e) (i64 (acc_balance_micro acc + ed_Delta e))) s"
  by (simp add: post_entry_def)

declare acc_key_def [run] acc_clash_def [run] no_clash_def [run] new_account_def [run] ledger_consts [run]
  scan_account_def [run] insert_account_def [run] insert_transaction_def [run] apply_delta_def [run]
  entry_account_def [run] creditsSum_def [run] postLedger_def [run]

section \<open>The journal invariant\<close>

definition entries_of :: "int \<Rightarrow> entry list \<Rightarrow> entry list" where
  "entries_of i es = filter (\<lambda>e. ent_account_id e = i) es"

definition journal_sum :: "int \<Rightarrow> entry list \<Rightarrow> int" where
  "journal_sum i es = sum_list (map ent_delta_micro (entries_of i es))"

text \<open>Ids are distinct and were issued by the sequence, the owner key is unique, entries
  refer to issued account ids, and a balance is the int64 sum of its entries.\<close>

definition ledger_inv :: "'z ledger_db_scheme \<Rightarrow> bool" where
  "ledger_inv s \<longleftrightarrow>
     distinct (map acc_id (accounts s)) \<and>
     (\<forall>a \<in> set (accounts s). acc_id a \<le> seqs s ''accounts'') \<and>
     distinct (map acc_key (accounts s)) \<and>
     (\<forall>e \<in> set (transaction_entries s). ent_account_id e \<le> seqs s ''accounts'') \<and>
     (\<forall>a \<in> set (accounts s). acc_balance_micro a = i64 (journal_sum (acc_id a) (transaction_entries s)))"

text \<open>All balances of an asset together.\<close>

definition total_asset :: "string \<Rightarrow> account list \<Rightarrow> int" where
  "total_asset as accs = sum_list (map acc_balance_micro (filter (\<lambda>a. acc_asset a = as) accs))"

definition asset_delta :: "string \<Rightarrow> entryDelta list \<Rightarrow> int" where
  "asset_delta as es = sum_list (map ed_Delta (filter (\<lambda>e. ed_Asset e = as) es))"

lemma total_asset_append [simp]: "total_asset as (xs @ ys) = total_asset as xs + total_asset as ys"
  by (simp add: total_asset_def)

lemma journal_sum_append [simp]: "journal_sum i (xs @ ys) = journal_sum i xs + journal_sum i ys"
  by (simp add: journal_sum_def entries_of_def)

lemma journal_sum_single [simp]:
  "journal_sum i [e] = (if ent_account_id e = i then ent_delta_micro e else 0)"
  by (simp add: journal_sum_def entries_of_def)

lemma journal_sum_none: "\<forall>e \<in> set es. ent_account_id e \<noteq> i \<Longrightarrow> journal_sum i es = 0"
  by (simp add: journal_sum_def entries_of_def filter_False)

lemma ledger_inv_stable: "stable ledger_inv"
proof (rule stableI)
  fix s :: "'z ledger_db_scheme" and f g
  assume "ledger_inv s" and "\<And>t. seqs s t \<le> g t"
  then show "ledger_inv (s\<lparr>script := f, seqs := g\<rparr>)"
    unfolding ledger_inv_def by simp (meson order_trans)
qed

lemma creditsSum_fold:
  "foldl (\<lambda>sum e. if ed_Asset e = assetCredits then i64 (sum + ed_Delta e) else sum) (i64 k) es
    = i64 (k + asset_delta assetCredits es)"
  by (induction es arbitrary: k) (simp_all add: asset_delta_def add.assoc)

lemma creditsSum_eq: "creditsSum es = i64 (asset_delta assetCredits es)"
  using creditsSum_fold [of 0 es] by (simp add: creditsSum_def)

section \<open>Preservation, statement by statement\<close>

lemma map_if_key: "(\<And>r. k (f r) = k r) \<Longrightarrow> map k (map (\<lambda>r. if P r then f r else r) xs) = map k xs"
  by (induction xs) auto

lemma insert_account_inv [pres]: "preserves ledger_inv (insert_account ot oi as)"
  unfolding insert_account_def
proof (intro preserves_db_insert ledger_inv_stable)
  fix s :: "'z ledger_db_scheme"
  let ?i = "seqs s ''accounts'' + 1"
  let ?r = "new_account ot oi as (clock s) ?i"
  assume inv: "ledger_inv s" and new: "\<not> (\<exists>x \<in> set (accounts s). acc_clash x ?r)"
  have "journal_sum ?i (transaction_entries s) = 0"
    using inv by (intro journal_sum_none) (force simp: ledger_inv_def)
  then show "ledger_inv (accounts_update (\<lambda>rs. rs @ [?r]) (s\<lparr>seqs := (seqs s)(''accounts'' := ?i)\<rparr>))"
    using inv new by (force simp: ledger_inv_def acc_clash_def new_account_def)
qed

lemma insert_transaction_inv [pres]: "preserves ledger_inv (insert_transaction ty rt ri)"
  unfolding insert_transaction_def
  by (intro preserves_db_insert ledger_inv_stable) (auto simp: ledger_inv_def)

lemma scan_account_pres [pres]: "stable I \<Longrightarrow> preserves I (scan_account ot oi as)"
  unfolding scan_account_def by (intro pres)

text \<open>Predicates that none of the three tables can change are preserved as well.\<close>

definition off_ledger :: "('z ledger_db_scheme \<Rightarrow> bool) \<Rightarrow> bool" where
  "off_ledger P \<longleftrightarrow> stable P \<and> untouched P accounts_update \<and> untouched P transactions_update \<and>
     untouched P transaction_entries_update"

lemma apply_delta_frame [pres]: "off_ledger P \<Longrightarrow> preserves P (apply_delta m1 m2 t acc d nb)"
  unfolding apply_delta_def off_ledger_def
  by (intro pres preserves_db_update_frame preserves_db_insert_frame) auto

lemma entry_account_frame [pres]: "off_ledger P \<Longrightarrow> preserves P (entry_account e)"
  unfolding entry_account_def insert_account_def off_ledger_def
  by (intro pres preserves_db_insert_frame) auto

lemma postLedger_frame [pres]: "off_ledger P \<Longrightarrow> preserves P (postLedger ty rt ri es)"
  unfolding postLedger_def post_entry_def insert_transaction_def
  by (intro pres preserves_db_insert_frame) (auto simp: off_ledger_def)

section \<open>What a posting does\<close>

text \<open>The abstract ledger: a balance for every (owner type, owner, asset).\<close>

type_synonym books = "string \<times> int \<times> string \<Rightarrow> int"

definition books_of :: "'z ledger_db_scheme \<Rightarrow> books" where
  "books_of s k = (case find (\<lambda>a. acc_key a = k) (accounts s) of None \<Rightarrow> 0 | Some a \<Rightarrow> acc_balance_micro a)"

definition ed_key :: "entryDelta \<Rightarrow> string \<times> int \<times> string" where
  "ed_key e = (ed_OwnerType e, ed_OwnerID e, ed_Asset e)"

definition book_entry :: "entryDelta \<Rightarrow> books \<Rightarrow> books" where
  "book_entry e m = m(ed_key e := i64 (m (ed_key e) + ed_Delta e))"

lemma find_distinct:
  "distinct (map k xs) \<Longrightarrow> a \<in> set xs \<Longrightarrow> find (\<lambda>x. k x = k a) xs = Some a"
  by (induction xs) force+

lemma find_None_set: "find P xs = None \<longleftrightarrow> (\<forall>x \<in> set xs. \<not> P x)"
  by (induction xs) auto

lemma find_Some_set: "find P xs = Some a \<Longrightarrow> a \<in> set xs \<and> P a"
  by (induction xs) (auto split: if_splits)

lemma find_map: "find P (map f xs) = map_option f (find (\<lambda>x. P (f x)) xs)"
  by (induction xs) auto

lemma find_append: "find P (xs @ ys) = (case find P xs of None \<Rightarrow> find P ys | Some a \<Rightarrow> Some a)"
  by (induction xs) auto

lemma books_of_member: "ledger_inv s \<Longrightarrow> a \<in> set (accounts s) \<Longrightarrow> books_of s (acc_key a) = acc_balance_micro a"
  by (simp add: books_of_def ledger_inv_def find_distinct)

lemma scan_account_key:
  "(\<lambda>a. acc_owner_type a = ot \<and> acc_owner_id a = oi \<and> acc_asset a = as) = (\<lambda>a. acc_key a = (ot, oi, as))"
  by (auto simp: acc_key_def)

text \<open>The table after the conditional UPDATE succeeded.\<close>

definition bump :: "int \<Rightarrow> int \<Rightarrow> account list \<Rightarrow> account list" where
  "bump i nb = map (\<lambda>a. if acc_id a = i
     then a\<lparr>acc_balance_micro := nb, acc_version := acc_version a + 1\<rparr> else a)"

lemma bump_key [simp]: "map acc_key (bump i nb accs) = map acc_key accs"
  unfolding bump_def by (rule map_if_key) (simp add: acc_key_def)

lemma bump_id [simp]: "map acc_id (bump i nb accs) = map acc_id accs"
  unfolding bump_def by (rule map_if_key) simp

lemma distinct_map_eq: "distinct (map k xs) \<Longrightarrow> x \<in> set xs \<Longrightarrow> y \<in> set xs \<Longrightarrow> k x = k y \<Longrightarrow> x = y"
  by (simp add: distinct_map inj_on_def)

lemma apply_delta_ok:
  assumes ids: "distinct (map acc_id (accounts s))" and mem: "acc \<in> set (accounts s)"
    and run: "apply_delta m1 m2 t acc d nb s = (Inr info, s')"
  shows "accounts s' = bump (acc_id acc) nb (accounts s)"
    and "\<exists>i. info = \<lparr>ei_ID = i, ei_AccountID = acc_id acc, ei_DeltaMicro = d, ei_BalanceAfterMicro = nb\<rparr> \<and>
      transaction_entries s' = transaction_entries s @ [\<lparr>ent_id = i, ent_tx_id = t,
        ent_account_id = acc_id acc, ent_delta_micro = d, ent_balance_after_micro = nb\<rparr>]"
    and "transactions s' = transactions s" and "seqs s' ''accounts'' = seqs s ''accounts''"
proof -
  have same: "a \<in> set (accounts s) \<Longrightarrow> (acc_id a = acc_id acc \<and> acc_version a = acc_version acc) =
      (acc_id a = acc_id acc)" for a
    using distinct_map_eq [OF ids _ mem] by auto
  have eq: "map (\<lambda>a. if acc_id a = acc_id acc \<and> acc_version a = acc_version acc
      then a\<lparr>acc_balance_micro := nb, acc_version := acc_version a + 1\<rparr> else a) (accounts s)
      = bump (acc_id acc) nb (accounts s)"
    unfolding bump_def using same by (intro map_cong refl) auto
  show "accounts s' = bump (acc_id acc) nb (accounts s)"
    and "\<exists>i. info = \<lparr>ei_ID = i, ei_AccountID = acc_id acc, ei_DeltaMicro = d, ei_BalanceAfterMicro = nb\<rparr> \<and>
      transaction_entries s' = transaction_entries s @ [\<lparr>ent_id = i, ent_tx_id = t,
        ent_account_id = acc_id acc, ent_delta_micro = d, ent_balance_after_micro = nb\<rparr>]"
    and "transactions s' = transactions s" and "seqs s' ''accounts'' = seqs s ''accounts''"
    using run eq by (auto simp: apply_delta_def ok_simps Let_def split: if_splits)
qed

lemma books_bump:
  assumes "ledger_inv s" and "acc \<in> set (accounts s)" and "accounts s' = bump (acc_id acc) nb (accounts s)"
  shows "books_of s' = (books_of s)(acc_key acc := nb)"
proof (rule ext)
  fix k
  let ?f = "\<lambda>a. if acc_id a = acc_id acc then a\<lparr>acc_balance_micro := nb, acc_version := acc_version a + 1\<rparr> else a"
  have key: "acc_key (?f a) = acc_key a" for a by (simp add: acc_key_def)
  have acc: "find (\<lambda>a. acc_key a = acc_key acc) (accounts s) = Some acc"
    using assms by (simp add: find_distinct ledger_inv_def)
  have new: "find (\<lambda>a. acc_key a = k) (accounts s') = map_option ?f (find (\<lambda>a. acc_key a = k) (accounts s))"
    by (simp add: assms(3) bump_def find_map key)
  show "books_of s' k = ((books_of s)(acc_key acc := nb)) k"
  proof (cases "k = acc_key acc")
    case True
    then show ?thesis using acc new by (simp add: books_of_def)
  next
    case False
    have "acc_id a \<noteq> acc_id acc" if "find (\<lambda>a. acc_key a = k) (accounts s) = Some a" for a
      using find_Some_set [OF that] False assms distinct_map_eq [of acc_id "accounts s" a acc]
      by (auto simp: ledger_inv_def)
    then show ?thesis using new False by (auto simp: books_of_def split: option.split)
  qed
qed

lemma total_bump:
  assumes "distinct (map acc_id accs)" and "acc \<in> set accs"
  shows "total_asset as (bump (acc_id acc) nb accs) =
    total_asset as accs + (if acc_asset acc = as then nb - acc_balance_micro acc else 0)"
  using assms
proof (induction accs)
  case Nil then show ?case by simp
next
  case (Cons a accs)
  show ?case
  proof (cases "a = acc")
    case True
    have "bump (acc_id acc) nb accs = accs"
      unfolding bump_def using Cons.prems True by (intro map_idI) (metis distinct.simps(2) image_eqI list.map(2) list.set_map)
    then show ?thesis using True by (simp add: bump_def total_asset_def)
  next
    case False
    with Cons.prems have "acc \<in> set accs" "acc_id a \<noteq> acc_id acc" by force+
    then show ?thesis using Cons by (simp add: bump_def total_asset_def)
  qed
qed

lemma entry_account_ok:
  assumes inv: "ledger_inv s" and run: "entry_account e s = (Inr acc, s')"
  shows "ledger_inv s'" and "acc \<in> set (accounts s')" and "acc_key acc = ed_key e"
    and "books_of s' = books_of s" and "total_asset as (accounts s') = total_asset as (accounts s)"
    and "transaction_entries s' = transaction_entries s" and "transactions s' = transactions s"
proof -
  have p: "preserves ledger_inv (entry_account e :: ('z ledger_db_scheme, account) eff)"
    unfolding entry_account_def by (intro pres ledger_inv_stable)
  then show "ledger_inv s'" using inv run preserves_run by metis
  let ?k = "(ed_OwnerType e, ed_OwnerID e, ed_Asset e)"
  consider (found) "find (\<lambda>a. acc_key a = ?k) (accounts s) = Some acc" "accounts s' = accounts s"
      "transaction_entries s' = transaction_entries s" "transactions s' = transactions s"
    | (created) i now where "find (\<lambda>a. acc_key a = ?k) (accounts s) = None"
      "acc = new_account (ed_OwnerType e) (ed_OwnerID e) (ed_Asset e) now i"
      "accounts s' = accounts s @ [acc]"
      "transaction_entries s' = transaction_entries s" "transactions s' = transactions s"
    using run
    by (auto simp: entry_account_def scan_account_def insert_account_def ok_simps Let_def
        scan_account_key split: option.splits)
  then have "acc \<in> set (accounts s') \<and> acc_key acc = ed_key e \<and> books_of s' = books_of s \<and>
    total_asset as (accounts s') = total_asset as (accounts s) \<and>
    transaction_entries s' = transaction_entries s \<and> transactions s' = transactions s"
  proof cases
    case found
    then show ?thesis using find_Some_set [OF found(1)] by (auto simp: ed_key_def books_of_def fun_eq_iff)
  next
    case created
    have "books_of s' k = books_of s k" for k
      using created by (cases "k = ?k")
        (auto simp: books_of_def find_append acc_key_def new_account_def split: option.split)
    then have "books_of s' = books_of s" by (rule ext)
    then show ?thesis
      using created by (auto simp: ed_key_def acc_key_def new_account_def total_asset_def)
  qed
  then show "acc \<in> set (accounts s')" and "acc_key acc = ed_key e"
    and "books_of s' = books_of s" and "total_asset as (accounts s') = total_asset as (accounts s)"
    and "transaction_entries s' = transaction_entries s" and "transactions s' = transactions s"
    by blast+
qed

text \<open>What one or several posted entries do to a state.\<close>

definition posted :: "int \<Rightarrow> entryDelta list \<Rightarrow> entry_info list \<Rightarrow> 'z ledger_db_scheme \<Rightarrow> 'z ledger_db_scheme \<Rightarrow> bool" where
  "posted t es infos s s' \<longleftrightarrow>
     ledger_inv s' \<and>
     books_of s' = fold book_entry es (books_of s) \<and>
     (\<forall>as. i64 (total_asset as (accounts s')) = i64 (total_asset as (accounts s) + asset_delta as es)) \<and>
     transactions s' = transactions s \<and>
     (\<exists>news. transaction_entries s' = transaction_entries s @ news \<and>
        map ent_delta_micro news = map ed_Delta es \<and> (\<forall>n \<in> set news. ent_tx_id n = t) \<and>
        infos = map (\<lambda>n. \<lparr>ei_ID = ent_id n, ei_AccountID = ent_account_id n,
          ei_DeltaMicro = ent_delta_micro n, ei_BalanceAfterMicro = ent_balance_after_micro n\<rparr>) news)"

lemma inv_bump:
  assumes inv: "ledger_inv s" and mem: "acc \<in> set (accounts s)"
    and acc': "accounts s' = bump (acc_id acc) (i64 (acc_balance_micro acc + d)) (accounts s)"
    and ent': "transaction_entries s' = transaction_entries s @ [n]"
    and n: "ent_account_id n = acc_id acc" "ent_delta_micro n = d"
    and seq': "seqs s' ''accounts'' = seqs s ''accounts''"
  shows "ledger_inv s'"
proof -
  have bal: "acc_balance_micro acc = i64 (journal_sum (acc_id acc) (transaction_entries s))"
    using inv mem by (simp add: ledger_inv_def)
  have "acc_balance_micro a = i64 (journal_sum (acc_id a) (transaction_entries s'))"
    if mem': "a \<in> set (accounts s')" for a
  proof -
    obtain b where b: "a = (if acc_id b = acc_id acc then b\<lparr>acc_balance_micro := i64 (acc_balance_micro acc + d),
         acc_version := acc_version b + 1\<rparr> else b)" "b \<in> set (accounts s)"
      using mem' unfolding acc' bump_def set_map image_iff by blast
    then show ?thesis using inv bal n by (auto simp: ent' ledger_inv_def)
  qed
  moreover have "\<forall>a \<in> set (accounts s'). acc_id a \<le> seqs s' ''accounts''"
    using inv by (auto simp: acc' bump_def ledger_inv_def seq')
  ultimately show ?thesis
    using inv mem n by (auto simp: ledger_inv_def acc' ent' seq')
qed

lemma post_entry_posted:
  assumes inv: "ledger_inv s" and run: "post_entry t e s = (Inr info, s')"
  shows "posted t [e] [info] s s'"
proof -
  obtain acc s1 where r1: "entry_account e s = (Inr acc, s1)"
    and r2: "apply_delta ''update account balance failed'' ''insert transaction entry failed'' t acc
        (ed_Delta e) (i64 (acc_balance_micro acc + ed_Delta e)) s1 = (Inr info, s')"
    using run by (auto simp: post_entry_def ok_simps)
  note e1 = entry_account_ok [OF inv r1]
  have ids: "distinct (map acc_id (accounts s1))" using e1(1) by (simp add: ledger_inv_def)
  note e2 = apply_delta_ok [OF ids e1(2) r2]
  obtain i where i: "info = \<lparr>ei_ID = i, ei_AccountID = acc_id acc, ei_DeltaMicro = ed_Delta e,
        ei_BalanceAfterMicro = i64 (acc_balance_micro acc + ed_Delta e)\<rparr>"
    "transaction_entries s' = transaction_entries s1 @ [\<lparr>ent_id = i, ent_tx_id = t, ent_account_id = acc_id acc,
        ent_delta_micro = ed_Delta e, ent_balance_after_micro = i64 (acc_balance_micro acc + ed_Delta e)\<rparr>]"
    using e2(2) by auto
  have inv': "ledger_inv s'"
    by (rule inv_bump [OF e1(1) e1(2) e2(1) i(2)]) (simp_all add: e2(4))
  have bal: "acc_balance_micro acc = books_of s (ed_key e)"
    using books_of_member [OF e1(1) e1(2)] e1(3,4) by simp
  have books: "books_of s' = book_entry e (books_of s)"
    using books_bump [OF e1(1) e1(2) e2(1)] bal e1(3,4) by (simp add: book_entry_def)
  have "i64 (total_asset as (accounts s')) = i64 (total_asset as (accounts s) + asset_delta as [e])" for as
  proof -
    have "acc_asset acc = ed_Asset e" using e1(3) by (simp add: acc_key_def ed_key_def)
    then have "total_asset as (accounts s') = total_asset as (accounts s) +
        (if ed_Asset e = as then i64 (acc_balance_micro acc + ed_Delta e) - acc_balance_micro acc else 0)"
      using total_bump [OF ids e1(2)] e1(5) by (simp add: e2(1))
    moreover have "i64 (x + (i64 (b + d) - b)) = i64 (x + d)" for x b d
      using i64_add_right [of "x - b" "b + d"] by (simp add: algebra_simps)
    ultimately show ?thesis by (simp add: asset_delta_def)
  qed
  then show ?thesis
    using inv' books i e1(6,7) e2(3) by (simp add: posted_def)
qed

lemma fold_book_append: "fold book_entry (xs @ ys) m = fold book_entry ys (fold book_entry xs m)"
  by simp

lemma posted_Cons:
  assumes "posted t [e] [i] s s1" and "posted t es js s1 s'"
  shows "posted t (e # es) (i # js) s s'"
proof -
  obtain n ns where "transaction_entries s1 = transaction_entries s @ n"
    "transaction_entries s' = transaction_entries s1 @ ns"
    using assms by (auto simp: posted_def)
  moreover have "i64 (total_asset as (accounts s')) = i64 (total_asset as (accounts s) + asset_delta as (e # es))" for as
  proof -
    have "i64 (total_asset as (accounts s')) = i64 (total_asset as (accounts s1) + asset_delta as es)"
      using assms(2) by (simp add: posted_def)
    also have "\<dots> = i64 (total_asset as (accounts s) + asset_delta as [e] + asset_delta as es)"
      using assms(1) by (intro i64_cong_add) (simp add: posted_def)
    also have "\<dots> = i64 (total_asset as (accounts s) + asset_delta as (e # es))"
      by (simp add: asset_delta_def add.assoc)
    finally show ?thesis .
  qed
  ultimately show ?thesis
    using assms unfolding posted_def by (auto simp: append_eq_append_conv2)
qed

lemma post_entries_posted:
  "ledger_inv s \<Longrightarrow> mapE (post_entry t) es s = (Inr infos, s') \<Longrightarrow> posted t es infos s s'"
proof (induction es arbitrary: s infos)
  case Nil
  then show ?case by (simp add: posted_def ok_simps asset_delta_def)
next
  case (Cons e es)
  then obtain i s1 js where "post_entry t e s = (Inr i, s1)"
    and rest: "mapE (post_entry t) es s1 = (Inr js, s')" "infos = i # js"
    by (auto simp: ok_simps)
  then have p: "posted t [e] [i] s s1" using Cons.prems(1) post_entry_posted by blast
  then have "ledger_inv s1" by (simp add: posted_def)
  then show ?case using Cons.IH rest p posted_Cons by blast
qed

lemma insert_transaction_ok:
  assumes "insert_transaction ty rt ri s = (Inr t, s')"
  shows "t = seqs s ''transactions'' + 1" and "accounts s' = accounts s"
    and "transaction_entries s' = transaction_entries s"
    and "transactions s' = transactions s @
      [\<lparr>tx_id = t, tx_type = ty, tx_ref_type = rt, tx_ref_id = ri, tx_created_at = clock s\<rparr>]"
  using assms by (auto simp: insert_transaction_def ok_simps Let_def)

lemma postLedger_ok:
  assumes inv: "ledger_inv s" and run: "postLedger ty rt ri es s = (Inr (t, infos), s')"
  shows "es \<noteq> []" and "ty = txTypeRecharge \<or> i64 (asset_delta assetCredits es) = 0"
    and "\<exists>s1. posted t es infos s1 s' \<and> accounts s1 = accounts s \<and>
        transaction_entries s1 = transaction_entries s \<and>
        transactions s1 = transactions s @
          [\<lparr>tx_id = t, tx_type = ty, tx_ref_type = rt, tx_ref_id = ri, tx_created_at = clock s\<rparr>]"
proof -
  have ne: "es \<noteq> []" and bal: "ty = txTypeRecharge \<or> creditsSum es = 0"
    using run by (auto simp: postLedger_def ok_simps split: if_splits)
  then show "es \<noteq> []" and "ty = txTypeRecharge \<or> i64 (asset_delta assetCredits es) = 0"
    by (auto simp: creditsSum_eq)
  obtain s1 where t: "insert_transaction ty rt ri s = (Inr t, s1)"
    and es: "mapE (post_entry t) es s1 = (Inr infos, s')"
    using run by (auto simp: postLedger_def ok_simps split: if_splits)
  have "ledger_inv s1" using insert_transaction_inv inv t preserves_run by metis
  then have "posted t es infos s1 s'" using es post_entries_posted by blast
  then show "\<exists>s1. posted t es infos s1 s' \<and> accounts s1 = accounts s \<and>
        transaction_entries s1 = transaction_entries s \<and>
        transactions s1 = transactions s @
          [\<lparr>tx_id = t, tx_type = ty, tx_ref_type = rt, tx_ref_id = ri, tx_created_at = clock s\<rparr>]"
    using insert_transaction_ok [OF t] by blast
qed

lemma books_of_cong: "accounts s = accounts s' \<Longrightarrow> books_of s = books_of s'"
  by (simp add: books_of_def fun_eq_iff)

lemma postLedger_inv [keep]: "keeps ledger_inv (postLedger ty rt ri es)"
  unfolding keeps_def using postLedger_ok(3) by (metis posted_def surj_pair)

lemma apply_delta_inv:
  assumes inv: "ledger_inv s" and mem: "acc \<in> set (accounts s)"
    and run: "apply_delta m1 m2 t acc d (i64 (acc_balance_micro acc + d)) s = (Inr info, s')"
  shows "ledger_inv s'"
proof -
  have ids: "distinct (map acc_id (accounts s))" using inv by (simp add: ledger_inv_def)
  note e = apply_delta_ok [OF ids mem run]
  then show ?thesis using inv_bump [OF inv mem e(1)] by fastforce
qed

end
