(* ===== verification/Settlement.thy ===== *)
theory Settlement
  imports Ledger
begin

text \<open>
  Settlement records and their posting, \<^verbatim>\<open>internal/logic/settlement/settlement.go\<close>,
  over settlement_records (UNIQUE (ref_type, ref_id), \<^verbatim>\<open>migrations/0005\<close> and
  \<^verbatim>\<open>0008\<close>) and api_keys (\<^verbatim>\<open>migrations/0001\<close>).  A record moves from
  pending to settled or failed; settling posts the journal and marks the record in one
  database transaction.
\<close>

section \<open>Tables\<close>

record settlementRecord =
  sr_ID :: int
  sr_ProductType :: string
  sr_RefType :: string
  sr_RefID :: int
  sr_ConsumerUserID :: int
  sr_ProviderUserID :: int
  sr_CostCredits :: int
  sr_ProviderRevenueCredits :: int
  sr_CommissionCredits :: int
  sr_PointsToConsumer :: int
  sr_PointsToProvider :: int
  sr_TransactionID :: int
  sr_Status :: string
  sr_ErrorMessage :: string
  sr_CreatedAt :: int
  sr_SettledAt :: "int option"
  sr_SettleAt :: "int option"

record api_key =
  ak_id :: int
  ak_user_id :: int
  ak_key :: string
  ak_name :: string
  ak_status :: int
  ak_disabled_reason :: string
  ak_model_limits :: string
  ak_model_limits_enabled :: bool
  ak_quota_credits :: "int option"
  ak_remain_quota :: int
  ak_used_quota :: int
  ak_unlimited_quota :: bool
  ak_expire_time :: "int option"
  ak_deleted_at :: "int option"
  ak_created_at :: int
  ak_updated_at :: int

record settle_db = ledger_db +
  settlement_records :: "settlementRecord list"
  api_keys :: "api_key list"

definition sr_clash :: "settlementRecord \<Rightarrow> settlementRecord \<Rightarrow> bool" where
  "sr_clash x r \<longleftrightarrow> sr_RefType x = sr_RefType r \<and> sr_RefID x = sr_RefID r"

record SettlementRecordInfo =
  si_ID :: int
  si_ProductType :: string
  si_RefType :: string
  si_RefID :: int
  si_ConsumerUserID :: int
  si_ProviderUserID :: int
  si_CostCredits :: int
  si_ProviderRevenueCredits :: int
  si_CommissionCredits :: int
  si_PointsToConsumer :: int
  si_PointsToProvider :: int
  si_TransactionID :: int
  si_Status :: string
  si_ErrorMessage :: string
  si_CreatedAt :: int
  si_SettledAt :: "int option"

definition sr_toDTO :: "settlementRecord \<Rightarrow> SettlementRecordInfo" where
  "sr_toDTO r = \<lparr>si_ID = sr_ID r, si_ProductType = sr_ProductType r, si_RefType = sr_RefType r,
     si_RefID = sr_RefID r, si_ConsumerUserID = sr_ConsumerUserID r, si_ProviderUserID = sr_ProviderUserID r,
     si_CostCredits = sr_CostCredits r, si_ProviderRevenueCredits = sr_ProviderRevenueCredits r,
     si_CommissionCredits = sr_CommissionCredits r, si_PointsToConsumer = sr_PointsToConsumer r,
     si_PointsToProvider = sr_PointsToProvider r, si_TransactionID = sr_TransactionID r,
     si_Status = sr_Status r, si_ErrorMessage = sr_ErrorMessage r, si_CreatedAt = sr_CreatedAt r,
     si_SettledAt = sr_SettledAt r\<rparr>"

record SettlementSubmitIn =
  sub_ProductType :: string
  sub_RefType :: string
  sub_RefID :: int
  sub_ConsumerUserID :: int
  sub_ProviderUserID :: int
  sub_CostCredits :: int
  sub_ProviderRevenueCredits :: int
  sub_CommissionCredits :: int
  sub_PointsToConsumer :: int
  sub_PointsToProvider :: int

record RechargeSettlementIn =
  rsi_UserID :: int
  rsi_RefType :: string
  rsi_RefID :: int
  rsi_RechargeCredits :: int

section \<open>Reading\<close>

definition getRecord :: "int \<Rightarrow> ('z settle_db_scheme, settlementRecord) eff" where
  "getRecord rid =
     bindE (wrapE ''query settlement record failed''
       (unlessNoRows (db_scan settlement_records (\<lambda>r. sr_ID r = rid))))
     (\<lambda>r. case r of None \<Rightarrow> throwE (ErrNew ''settlement record not found'') | Some rec \<Rightarrow> returnE rec)"

definition getRecordByRef :: "string \<Rightarrow> int \<Rightarrow> ('z settle_db_scheme, settlementRecord option) eff" where
  "getRecordByRef refType refID =
     wrapE ''query settlement record by ref failed''
       (unlessNoRows (db_scan settlement_records (\<lambda>r. sr_RefType r = refType \<and> sr_RefID r = refID)))"

definition entry_to_info :: "entry \<Rightarrow> entry_info" where
  "entry_to_info n = \<lparr>ei_ID = ent_id n, ei_AccountID = ent_account_id n,
     ei_DeltaMicro = ent_delta_micro n, ei_BalanceAfterMicro = ent_balance_after_micro n\<rparr>"

definition getTransaction :: "int \<Rightarrow> ('z settle_db_scheme, tx_info) eff" where
  "getTransaction txID =
     bindE (wrapE ''query transaction failed'' (db_scan transactions (\<lambda>t. tx_id t = txID)))
     (\<lambda>r. case r of None \<Rightarrow> throwE (ErrNew ''transaction not found'')
      | Some tx \<Rightarrow>
        bindE (wrapE ''query transaction entries failed''
          (db_select transaction_entries (\<lambda>e. ent_tx_id e = txID)))
        (\<lambda>es. returnE \<lparr>ti_ID = tx_id tx, ti_TxType = tx_type tx, ti_RefType = tx_ref_type tx,
           ti_RefID = tx_ref_id tx, ti_Entries = map entry_to_info (sort_key ent_id es),
           ti_CreatedAt = Some (tx_created_at tx)\<rparr>))"

section \<open>Submit and settle\<close>

definition submitted :: "SettlementSubmitIn \<Rightarrow> int \<Rightarrow> int \<Rightarrow> settlementRecord" where
  "submitted inp now i = \<lparr>sr_ID = i, sr_ProductType = sub_ProductType inp, sr_RefType = sub_RefType inp,
     sr_RefID = sub_RefID inp, sr_ConsumerUserID = sub_ConsumerUserID inp,
     sr_ProviderUserID = sub_ProviderUserID inp, sr_CostCredits = sub_CostCredits inp,
     sr_ProviderRevenueCredits = sub_ProviderRevenueCredits inp,
     sr_CommissionCredits = sub_CommissionCredits inp, sr_PointsToConsumer = sub_PointsToConsumer inp,
     sr_PointsToProvider = sub_PointsToProvider inp, sr_TransactionID = 0, sr_Status = ''pending'',
     sr_ErrorMessage = [], sr_CreatedAt = now, sr_SettledAt = None, sr_SettleAt = None\<rparr>"

definition Submit :: "SettlementSubmitIn \<Rightarrow> ('z settle_db_scheme, SettlementRecordInfo) eff" where
  "Submit inp =
     bindE (tryE (db_insert ''settlement_records'' settlement_records settlement_records_update sr_clash
       (submitted inp)))
     (\<lambda>result. case result of
        Inl err \<Rightarrow>
          bindE (wrapE ''idempotent lookup failed'' (getRecordByRef (sub_RefType inp) (sub_RefID inp)))
          (\<lambda>existing. case existing of
             Some rec \<Rightarrow> returnE (sr_toDTO rec)
           | None \<Rightarrow> throwE (ErrWrap err ''insert settlement record failed''))
      | Inr rid \<Rightarrow> bindE (getRecord rid) (\<lambda>rec. returnE (sr_toDTO rec)))"

text \<open>The entries of a settlement: the consumer pays the cost, the provider and the platform
  receive revenue and commission; reward points are issued one-sidedly when not zero.\<close>

definition settle_entries :: "settlementRecord \<Rightarrow> int \<Rightarrow> int \<Rightarrow> entryDelta list" where
  "settle_entries rec pointsToConsumer pointsToProvider =
     [\<lparr>ed_OwnerType = ownerTypeUser, ed_OwnerID = sr_ConsumerUserID rec, ed_Asset = assetCredits,
       ed_Delta = i64 (- sr_CostCredits rec)\<rparr>,
      \<lparr>ed_OwnerType = ownerTypeUser, ed_OwnerID = sr_ProviderUserID rec, ed_Asset = assetCredits,
       ed_Delta = sr_ProviderRevenueCredits rec\<rparr>,
      \<lparr>ed_OwnerType = ownerTypePlatform, ed_OwnerID = 0, ed_Asset = assetCredits,
       ed_Delta = sr_CommissionCredits rec\<rparr>]
     @ (if pointsToConsumer \<noteq> 0 then
          [\<lparr>ed_OwnerType = ownerTypeUser, ed_OwnerID = sr_ConsumerUserID rec, ed_Asset = assetPoints,
            ed_Delta = pointsToConsumer\<rparr>] else [])
     @ (if pointsToProvider \<noteq> 0 then
          [\<lparr>ed_OwnerType = ownerTypeUser, ed_OwnerID = sr_ProviderUserID rec, ed_Asset = assetPoints,
            ed_Delta = pointsToProvider\<rparr>] else [])"

definition mark_settled :: "int \<Rightarrow> int \<Rightarrow> int \<Rightarrow> int \<Rightarrow> int \<Rightarrow> ('z settle_db_scheme, int) eff" where
  "mark_settled rid now txID pc pp =
     db_update settlement_records settlement_records_update (\<lambda>r. sr_ID r = rid)
       (\<lambda>r. r\<lparr>sr_Status := ''settled'', sr_SettledAt := Some now, sr_TransactionID := txID,
               sr_PointsToConsumer := pc, sr_PointsToProvider := pp\<rparr>)"

definition settle_tx :: "settlementRecord \<Rightarrow> int \<Rightarrow> int \<Rightarrow> ('z settle_db_scheme, tx_info) eff" where
  "settle_tx rec pc pp =
     transact
       (bindE (postLedger txTypeSettle ''settlement_record'' (sr_ID rec) (settle_entries rec pc pp))
        (\<lambda>(txID, txEntries). bindE (getsE clock) (\<lambda>now.
         bindE (wrapE ''update settlement record settled failed'' (mark_settled (sr_ID rec) now txID pc pp))
         (\<lambda>_. returnE \<lparr>ti_ID = txID, ti_TxType = txTypeSettle, ti_RefType = ''settlement_record'',
                        ti_RefID = sr_ID rec, ti_Entries = txEntries, ti_CreatedAt = None\<rparr>))))"

text \<open>Settle reads the record and tests its status outside the transaction; \<open>settle_read\<close> is what
  follows with the record read, so that another session can be put in between.\<close>

definition settle_read :: "settlementRecord \<Rightarrow> ('z settle_db_scheme, tx_info) eff" where
  "settle_read rec =
     (if sr_Status rec = ''settled'' then getTransaction (sr_TransactionID rec) else
     bindE (GetInt ''billing.points_per_credit_consumer'' 1) (\<lambda>ppcc.
     bindE (GetInt ''billing.points_per_credit_provider'' 1) (\<lambda>ppcp.
     let pc = i64 (sr_CostCredits rec * ppcc);
         pp = i64 (sr_ProviderRevenueCredits rec * ppcp) in
     bindE (tryE (settle_tx rec pc pp)) (\<lambda>r. case r of
       Inl err \<Rightarrow>
         bindE (tryE (db_update settlement_records settlement_records_update (\<lambda>x. sr_ID x = sr_ID rec)
           (\<lambda>x. x\<lparr>sr_Status := ''failed'', sr_ErrorMessage := err_text err\<rparr>)))
         (\<lambda>_. throwE err)
     | Inr txInfo \<Rightarrow> returnE txInfo))))"

definition Settle :: "int \<Rightarrow> ('z settle_db_scheme, tx_info) eff" where
  "Settle recordID = bindE (getRecord recordID) settle_read"

definition SubmitAndSettle :: "SettlementSubmitIn \<Rightarrow> ('z settle_db_scheme, tx_info) eff" where
  "SubmitAndSettle inp = bindE (Submit inp) (\<lambda>rec. Settle (si_ID rec))"

section \<open>Recharge\<close>

definition recharge_record :: "RechargeSettlementIn \<Rightarrow> int \<Rightarrow> int \<Rightarrow> settlementRecord" where
  "recharge_record inp now i = \<lparr>sr_ID = i, sr_ProductType = ''recharge'', sr_RefType = rsi_RefType inp,
     sr_RefID = rsi_RefID inp, sr_ConsumerUserID = rsi_UserID inp, sr_ProviderUserID = 0,
     sr_CostCredits = 0, sr_ProviderRevenueCredits = 0, sr_CommissionCredits = 0,
     sr_PointsToConsumer = 0, sr_PointsToProvider = 0, sr_TransactionID = 0, sr_Status = ''settled'',
     sr_ErrorMessage = [], sr_CreatedAt = now, sr_SettledAt = Some now, sr_SettleAt = None\<rparr>"

definition recharge_entries :: "RechargeSettlementIn \<Rightarrow> entryDelta list" where
  "recharge_entries inp = [\<lparr>ed_OwnerType = ownerTypeUser, ed_OwnerID = rsi_UserID inp,
     ed_Asset = assetCredits, ed_Delta = rsi_RechargeCredits inp\<rparr>]"

definition recharge_tx :: "RechargeSettlementIn \<Rightarrow> ('z settle_db_scheme, tx_info) eff" where
  "recharge_tx inp =
     transact
       (bindE (tryE (db_insert ''settlement_records'' settlement_records settlement_records_update sr_clash
          (recharge_record inp)))
        (\<lambda>recResult. case recResult of
          Inl insertErr \<Rightarrow>
            bindE (wrapE ''idempotent lookup after insert conflict failed''
              (getRecordByRef (rsi_RefType inp) (rsi_RefID inp)))
            (\<lambda>existing. case existing of
               Some rec \<Rightarrow> if sr_TransactionID rec \<noteq> 0 then getTransaction (sr_TransactionID rec)
                 else throwE (ErrWrap insertErr ''insert recharge settlement record failed'')
             | None \<Rightarrow> throwE (ErrWrap insertErr ''insert recharge settlement record failed''))
        | Inr recID \<Rightarrow>
            bindE (postLedger txTypeRecharge ''settlement_record'' recID (recharge_entries inp))
            (\<lambda>(txID, txEntries).
             bindE (wrapE ''link transaction to recharge failed''
               (db_update settlement_records settlement_records_update (\<lambda>r. sr_ID r = recID)
                 (\<lambda>r. r\<lparr>sr_TransactionID := txID\<rparr>)))
             (\<lambda>_. returnE \<lparr>ti_ID = txID, ti_TxType = txTypeRecharge, ti_RefType = ''settlement_record'',
                            ti_RefID = recID, ti_Entries = txEntries, ti_CreatedAt = None\<rparr>))))"

definition CreateRecharge :: "RechargeSettlementIn \<Rightarrow> ('z settle_db_scheme, tx_info) eff" where
  "CreateRecharge inp =
     bindE (getRecordByRef (rsi_RefType inp) (rsi_RefID inp)) (\<lambda>existing. case existing of
       Some rec \<Rightarrow> if sr_TransactionID rec \<noteq> 0 then getTransaction (sr_TransactionID rec)
         else throwE (ErrNew ''existing recharge record has no transaction'')
     | None \<Rightarrow> recharge_tx inp)"

section \<open>Keys disabled for overdraft\<close>

definition RestoreOverdraftKeys :: "int \<Rightarrow> ('z settle_db_scheme, unit) eff" where
  "RestoreOverdraftKeys userID =
     bindE (wrapE ''query credits account failed'' (scan_account ownerTypeUser userID assetCredits))
     (\<lambda>acc. if (case acc of None \<Rightarrow> 0 | Some a \<Rightarrow> acc_balance_micro a) < 0 then returnE () else
      bindE (getsE clock) (\<lambda>now.
      bindE (wrapE ''restore overdraft keys failed''
        (db_update api_keys api_keys_update
           (\<lambda>k. ak_user_id k = userID \<and> ak_status k = 0 \<and> ak_disabled_reason k = ''overdraft'' \<and>
                ak_deleted_at k = None)
           (\<lambda>k. k\<lparr>ak_status := 1, ak_disabled_reason := [], ak_updated_at := now\<rparr>)))
      (\<lambda>_. returnE ())))"

section \<open>Listings\<close>

definition settlement_matches :: "string \<Rightarrow> string \<Rightarrow> settlementRecord \<Rightarrow> bool" where
  "settlement_matches status productType r \<longleftrightarrow>
     (status \<noteq> [] \<longrightarrow> sr_Status r = status) \<and> (productType \<noteq> [] \<longrightarrow> sr_ProductType r = productType)"

definition ListSettlements ::
  "string \<Rightarrow> string \<Rightarrow> int \<Rightarrow> int \<Rightarrow> ('z settle_db_scheme, SettlementRecordInfo list \<times> int) eff" where
  "ListSettlements status productType page0 pageSize0 =
     (let page = page_or 1 page0; pageSize = page_or 20 pageSize0;
          wh = settlement_matches status productType in
      bindE (wrapE ''count settlement records failed'' (db_count settlement_records wh)) (\<lambda>total.
      let offset = (page - 1) * pageSize in
      bindE (wrapE ''query settlement records failed'' (db_select settlement_records wh)) (\<lambda>recs.
      returnE (map sr_toDTO (limit_offset pageSize offset (order_desc sr_ID recs)), total))))"

record ProviderSettlementStats =
  ps_TotalRevenueCredits :: int
  ps_TotalCommissionCredits :: int
  ps_TotalSettlements :: int
  ps_PendingRevenueCredits :: int
  ps_PendingCount :: int
  ps_RecentSettlements :: "SettlementRecordInfo list"

definition GetProviderStats :: "int \<Rightarrow> ('z settle_db_scheme, ProviderSettlementStats) eff" where
  "GetProviderStats providerUserID =
     bindE (wrapE ''aggregate provider settlement failed''
       (db_select settlement_records (\<lambda>r. sr_ProviderUserID r = providerUserID \<and> sr_Status r = ''settled'')))
     (\<lambda>agg.
     bindE (wrapE ''aggregate provider pending settlement failed''
       (db_select settlement_records (\<lambda>r. sr_ProviderUserID r = providerUserID \<and> sr_Status r = ''pending'')))
     (\<lambda>pending.
     bindE (wrapE ''query recent provider settlements failed''
       (db_select settlement_records (\<lambda>r. sr_ProviderUserID r = providerUserID)))
     (\<lambda>recs. returnE
       \<lparr>ps_TotalRevenueCredits = sum_list (map sr_ProviderRevenueCredits agg),
        ps_TotalCommissionCredits = sum_list (map sr_CommissionCredits agg),
        ps_TotalSettlements = int (length agg),
        ps_PendingRevenueCredits = sum_list (map sr_ProviderRevenueCredits pending),
        ps_PendingCount = int (length pending),
        ps_RecentSettlements = map sr_toDTO (limit_offset 5 0 (order_desc sr_ID recs))\<rparr>)))"

declare sr_clash_def [run] sr_toDTO_def [run] getRecord_def [run] getRecordByRef_def [run]
  entry_to_info_def [run] getTransaction_def [run] submitted_def [run] Submit_def [run]
  settle_entries_def [run] mark_settled_def [run] settle_tx_def [run] settle_read_def [run] Settle_def [run]
  SubmitAndSettle_def [run] recharge_record_def [run] recharge_entries_def [run] recharge_tx_def [run]
  CreateRecharge_def [run] RestoreOverdraftKeys_def [run] settlement_matches_def [run]
  ListSettlements_def [run] GetProviderStats_def [run]

end
