(* ===== verification/SettlementFacts.thy ===== *)
theory SettlementFacts
  imports Settlement
begin

text \<open>
  What settling, submitting and recharging do: the journal invariant is kept by every run,
  a failed run leaves the books alone, a successful one posts exactly the entries of the
  record, and neither operation posts a second time.  The interface the settlement code
  relies on is the locale \<open>journal\<close>: a posting operation that keeps an invariant of the
  state; it is interpreted by \<open>postLedger\<close> and \<open>ledger_inv\<close>.
\<close>

section \<open>The journal as an interface\<close>

locale journal =
  fixes post :: "string \<Rightarrow> string \<Rightarrow> int \<Rightarrow> 'e list \<Rightarrow> ('z store_scheme, 'i) eff"
    and inv :: "'z store_scheme \<Rightarrow> bool"
  assumes inv_stable: "stable inv"
    and post_keeps: "keeps inv (post ty rt ri es)"
begin

text \<open>A transaction that posts and then only touches other tables preserves the invariant,
  whatever statements fail.\<close>

lemma transact_post:
  assumes "\<And>r. preserves inv (rest r)"
  shows "preserves inv (transact (bindE (post ty rt ri es) rest))"
  by (intro preserves_transact inv_stable keeps_bindE post_keeps preserves_keeps assms)

lemma keeps_post_then:
  assumes "\<And>r. preserves inv (rest r)"
  shows "keeps inv (bindE (post ty rt ri es) rest)"
  by (intro keeps_bindE post_keeps preserves_keeps assms)

end

interpretation led: journal postLedger ledger_inv
  by unfold_locales (rule ledger_inv_stable, rule postLedger_inv)

section \<open>Frames\<close>

lemma ledger_inv_settlements [frame]: "untouched ledger_inv settlement_records_update"
  by (simp add: untouched_def ledger_inv_def)

lemma ledger_inv_keys [frame]: "untouched ledger_inv api_keys_update"
  by (simp add: untouched_def ledger_inv_def)

lemma stable_eq: "(\<And>s f g. T (s\<lparr>script := f, seqs := g\<rparr>) = T s) \<Longrightarrow> stable (\<lambda>s. T s = x)"
  by (simp add: stable_def)

text \<open>The three tables of the books.\<close>

definition ledger_tables :: "'z ledger_db_scheme \<Rightarrow> account list \<times> transaction list \<times> entry list" where
  "ledger_tables s = (accounts s, transactions s, transaction_entries s)"

lemma ledger_tables_stable: "stable (\<lambda>s. ledger_tables s = x)"
  by (rule stable_eq) (simp add: ledger_tables_def)

lemma ledger_tables_settlements [frame]: "untouched (\<lambda>s. ledger_tables s = x) settlement_records_update"
  by (simp add: untouched_def ledger_tables_def)

lemma ledger_tables_keys [frame]: "untouched (\<lambda>s. ledger_tables s = x) api_keys_update"
  by (simp add: untouched_def ledger_tables_def)

lemma ledger_tables_rollback [simp]: "ledger_tables (rollback s s') = ledger_tables s"
  by (simp add: ledger_tables_def rollback_def)

lemma settlement_records_rollback [simp]: "settlement_records (rollback s s') = settlement_records s"
  by (simp add: rollback_def)

text \<open>Reading.\<close>

lemma getRecord_pres [pres]: "stable I \<Longrightarrow> preserves I (getRecord i)"
  unfolding getRecord_def by (intro pres)

lemma getRecordByRef_pres [pres]: "stable I \<Longrightarrow> preserves I (getRecordByRef a b)"
  unfolding getRecordByRef_def by (intro pres)

lemma getTransaction_pres [pres]: "stable I \<Longrightarrow> preserves I (getTransaction t)"
  unfolding getTransaction_def by (intro pres)

lemma getRecord_reads [reads]: "reads_only (getRecord i)"
  unfolding getRecord_def by (intro reads)

lemma getRecordByRef_reads [reads]: "reads_only (getRecordByRef a b)"
  unfolding getRecordByRef_def by (intro reads)

lemma getTransaction_reads [reads]: "reads_only (getTransaction t)"
  unfolding getTransaction_def by (intro reads)

lemma getTransaction_id: "getTransaction t s = (Inr info, s') \<Longrightarrow> ti_ID info = t"
  by (auto simp: getTransaction_def ok_simps find_Some_iff split: option.splits)

lemma getRecord_ok:
  "getRecord i s = (Inr rec, s') \<Longrightarrow>
    find (\<lambda>r. sr_ID r = i) (settlement_records s) = Some rec \<and> s' = s\<lparr>script := tl (script s)\<rparr>"
  by (auto simp: getRecord_def ok_simps split: option.splits)

lemma getRecordByRef_ok:
  "getRecordByRef a b s = (Inr r, s') \<Longrightarrow>
    r = find (\<lambda>x. sr_RefType x = a \<and> sr_RefID x = b) (settlement_records s) \<and> s' = s\<lparr>script := tl (script s)\<rparr>"
  by (auto simp: getRecordByRef_def ok_simps)

lemma off_ledger_settlements: "off_ledger (\<lambda>s. settlement_records s = x)"
  by (simp add: off_ledger_def untouched_def stable_def)

lemma off_ledger_keys: "off_ledger (\<lambda>s. api_keys s = x)"
  by (simp add: off_ledger_def untouched_def stable_def)

section \<open>The journal invariant\<close>

lemma settle_tx_inv [pres]: "preserves ledger_inv (settle_tx rec pc pp)"
  unfolding settle_tx_def mark_settled_def
  by (intro led.transact_post pres preserves_db_update_frame frame ledger_inv_stable)

lemma Settle_inv [pres]: "preserves ledger_inv (Settle i)"
  unfolding Settle_def settle_read_def Let_def
  by (intro pres preserves_db_update_frame frame ledger_inv_stable)

lemma Submit_pres [pres]:
  "stable I \<Longrightarrow> untouched I settlement_records_update \<Longrightarrow> preserves I (Submit inp)"
  unfolding Submit_def by (intro pres preserves_db_insert_frame)

lemma SubmitAndSettle_inv [pres]: "preserves ledger_inv (SubmitAndSettle inp)"
  unfolding SubmitAndSettle_def by (intro pres frame ledger_inv_stable)

lemma recharge_tx_inv [pres]: "preserves ledger_inv (recharge_tx inp)"
proof -
  have ins: "preserves ledger_inv (db_insert ''settlement_records'' settlement_records settlement_records_update
      sr_clash (recharge_record inp))"
    by (intro preserves_db_insert_frame frame ledger_inv_stable)
  have post: "keeps ledger_inv
      (bindE (postLedger txTypeRecharge ''settlement_record'' recID (recharge_entries inp))
       (\<lambda>(txID, txEntries).
             bindE (wrapE ''link transaction to recharge failed''
               (db_update settlement_records settlement_records_update (\<lambda>r. sr_ID r = recID)
                 (\<lambda>r. r\<lparr>sr_TransactionID := txID\<rparr>)))
             (\<lambda>_. returnE \<lparr>ti_ID = txID, ti_TxType = txTypeRecharge, ti_RefType = ''settlement_record'',
                            ti_RefID = recID, ti_Entries = txEntries, ti_CreatedAt = None\<rparr>)))" for recID
    by (intro led.keeps_post_then pres preserves_db_update_frame frame ledger_inv_stable)
  show ?thesis
    unfolding recharge_tx_def
  proof (intro preserves_transact ledger_inv_stable keeps_bindE preserves_keeps [OF preserves_tryE [OF ins]])
    fix r
    show "keeps ledger_inv (case r of
          Inl insertErr \<Rightarrow>
            bindE (wrapE ''idempotent lookup after insert conflict failed''
              (getRecordByRef (rsi_RefType inp) (rsi_RefID inp)))
            (\<lambda>existing. case existing of
               None \<Rightarrow> throwE (ErrWrap insertErr ''insert recharge settlement record failed'')
             | Some rec \<Rightarrow> if sr_TransactionID rec \<noteq> 0 then getTransaction (sr_TransactionID rec)
                 else throwE (ErrWrap insertErr ''insert recharge settlement record failed''))
        | Inr recID \<Rightarrow> bindE (postLedger txTypeRecharge ''settlement_record'' recID (recharge_entries inp))
            (\<lambda>(txID, txEntries).
             bindE (wrapE ''link transaction to recharge failed''
               (db_update settlement_records settlement_records_update (\<lambda>r. sr_ID r = recID)
                 (\<lambda>r. r\<lparr>sr_TransactionID := txID\<rparr>)))
             (\<lambda>_. returnE \<lparr>ti_ID = txID, ti_TxType = txTypeRecharge, ti_RefType = ''settlement_record'',
                            ti_RefID = recID, ti_Entries = txEntries, ti_CreatedAt = None\<rparr>)))"
    proof (cases r)
      case Inl
      show ?thesis unfolding Inl sum.case by (intro preserves_keeps pres ledger_inv_stable)
    next
      case Inr
      show ?thesis unfolding Inr sum.case by (rule post)
    qed
  qed
qed

lemma CreateRecharge_inv [pres]: "preserves ledger_inv (CreateRecharge inp)"
  unfolding CreateRecharge_def by (intro pres ledger_inv_stable)

lemma RestoreOverdraftKeys_pres [pres]:
  "stable I \<Longrightarrow> untouched I api_keys_update \<Longrightarrow> preserves I (RestoreOverdraftKeys u)"
  unfolding RestoreOverdraftKeys_def by (intro pres preserves_db_update_frame)

section \<open>Settle\<close>

text \<open>The mark a failed settlement leaves, and the values a points setting can be read as.\<close>

definition mark_failed :: "go_err \<Rightarrow> settlementRecord \<Rightarrow> settlementRecord" where
  "mark_failed e r = r\<lparr>sr_Status := ''failed'', sr_ErrorMessage := err_text e\<rparr>"

definition points_setting :: "'z settle_db_scheme \<Rightarrow> string \<Rightarrow> int \<Rightarrow> bool" where
  "points_setting s k n \<longleftrightarrow> n = 1 \<or>
     (\<exists>row \<in> set (system_configs s). cfg_key row = k \<and> ParseInt (cfg_value row) = Some n)"

lemma settle_tx_error_tables: "settle_tx rec pc pp s = (Inl e, s') \<Longrightarrow> ledger_tables s' = ledger_tables s"
  unfolding settle_tx_def by (drule transact_error) auto

lemma GetInt_ledger: "GetInt k d s = (Inr n, s') \<Longrightarrow> ledger_tables s' = ledger_tables s"
  by (drule GetInt_ok) (auto simp: ledger_tables_def)

lemma settle_tx_ok:
  assumes run: "settle_tx rec pc pp s = (Inr info, s')"
  obtains s1 txID es now where
    "postLedger txTypeSettle ''settlement_record'' (sr_ID rec) (settle_entries rec pc pp)
       (s\<lparr>script := tl (script s)\<rparr>) = (Inr (txID, es), s1)"
    and "ledger_tables s' = ledger_tables s1" and "seqs s' = seqs s1"
    and "settlement_records s' = map (\<lambda>r. if sr_ID r = sr_ID rec then
       r\<lparr>sr_Status := ''settled'', sr_SettledAt := Some now, sr_TransactionID := txID,
         sr_PointsToConsumer := pc, sr_PointsToProvider := pp\<rparr> else r) (settlement_records s)"
    and "info = \<lparr>ti_ID = txID, ti_TxType = txTypeSettle, ti_RefType = ''settlement_record'',
                 ti_RefID = sr_ID rec, ti_Entries = es, ti_CreatedAt = None\<rparr>"
proof -
  obtain s1 txID es where p: "postLedger txTypeSettle ''settlement_record'' (sr_ID rec) (settle_entries rec pc pp)
       (s\<lparr>script := tl (script s)\<rparr>) = (Inr (txID, es), s1)"
    and r: "ledger_tables s' = ledger_tables s1"  "seqs s' = seqs s1"
      "settlement_records s' = map (\<lambda>r. if sr_ID r = sr_ID rec then
       r\<lparr>sr_Status := ''settled'', sr_SettledAt := Some (clock s1), sr_TransactionID := txID,
         sr_PointsToConsumer := pc, sr_PointsToProvider := pp\<rparr> else r) (settlement_records s1)"
      "info = \<lparr>ti_ID = txID, ti_TxType = txTypeSettle, ti_RefType = ''settlement_record'',
                 ti_RefID = sr_ID rec, ti_Entries = es, ti_CreatedAt = None\<rparr>"
    using run by (auto simp: settle_tx_def mark_settled_def ok_simps ledger_tables_def)
  have "settlement_records s1 = settlement_records s"
    by (rule preserves_run [OF postLedger_frame [OF off_ledger_settlements] _ p]) simp
  then show ?thesis using that [OF p r(1,2) _ r(4), of "clock s1"] r(3) by simp
qed

text \<open>The ways through Settle.\<close>

lemma Settle_cases:
  assumes run: "Settle i s = (r, s')"
  obtains (stopped) f where "s' = s\<lparr>script := f\<rparr>"
      "\<forall>info. r = Inr info \<longrightarrow> (\<exists>rec. find (\<lambda>x. sr_ID x = i) (settlement_records s) = Some rec \<and>
         sr_Status rec = ''settled'' \<and> ti_ID info = sr_TransactionID rec)"
  | (posted) rec n1 n2 f info where "find (\<lambda>x. sr_ID x = i) (settlement_records s) = Some rec"
      "sr_Status rec \<noteq> ''settled''"
      "settle_tx rec (i64 (sr_CostCredits rec * n1)) (i64 (sr_ProviderRevenueCredits rec * n2))
         (s\<lparr>script := f\<rparr>) = (Inr info, s')"
      "r = Inr info" "points_setting s ''billing.points_per_credit_consumer'' n1"
      "points_setting s ''billing.points_per_credit_provider'' n2"
  | (failed) rec e f g F where "find (\<lambda>x. sr_ID x = i) (settlement_records s) = Some rec"
      "sr_Status rec \<noteq> ''settled''" "r = Inl e" "\<forall>t. seqs s t \<le> g t"
      "F = (\<lambda>x. x) \<or> F = (\<lambda>x. if sr_ID x = sr_ID rec then mark_failed e x else x)"
      "s' = s\<lparr>script := f, seqs := g, settlement_records := map F (settlement_records s)\<rparr>"
proof -
  obtain r1 s1 where g: "getRecord i s = (r1, s1)" by (cases "getRecord i s")
  obtain f1 where f1: "s1 = s\<lparr>script := f1\<rparr>" using reads_onlyD [OF getRecord_reads g] by blast
  show ?thesis
  proof (cases r1)
    case (Inl e1)
    then show ?thesis using run g f1 stopped by (auto simp: Settle_def settle_read_def bindE_def)
  next
    case (Inr rec)
    have fnd: "find (\<lambda>r. sr_ID r = i) (settlement_records s) = Some rec"
      using getRecord_ok g Inr by blast
    show ?thesis
    proof (cases "sr_Status rec = ''settled''")
      case True
      then have t: "getTransaction (sr_TransactionID rec) s1 = (r, s')"
        using run g Inr by (simp add: Settle_def settle_read_def bindE_def)
      obtain f2 where "s' = s1\<lparr>script := f2\<rparr>" using reads_onlyD [OF getTransaction_reads t] by blast
      then show ?thesis
        using stopped [of f2] f1 fnd True getTransaction_id [of "sr_TransactionID rec" s1 _ s'] t by auto
    next
      case False
      obtain n1 f2 where n1: "GetInt ''billing.points_per_credit_consumer'' 1 s1 = (Inr n1, s\<lparr>script := f2\<rparr>)"
        using GetInt_total [of _ _ s1] f1 by fastforce
      obtain n2 f3 where n2: "GetInt ''billing.points_per_credit_provider'' 1 (s\<lparr>script := f2\<rparr>)
          = (Inr n2, s\<lparr>script := f3\<rparr>)"
        using GetInt_total [of _ _ "s\<lparr>script := f2\<rparr>"] by fastforce
      have set1: "points_setting s ''billing.points_per_credit_consumer'' n1"
        and set2: "points_setting s ''billing.points_per_credit_provider'' n2"
        using GetInt_value [OF n1] GetInt_value [OF n2] f1 by (auto simp: points_setting_def)
      let ?tx = "settle_tx rec (i64 (sr_CostCredits rec * n1)) (i64 (sr_ProviderRevenueCredits rec * n2))"
      let ?upd = "\<lambda>err. db_update settlement_records settlement_records_update (\<lambda>x. sr_ID x = sr_ID rec) (mark_failed err)"
      obtain r2 s2 where tx: "?tx (s\<lparr>script := f3\<rparr>) = (r2, s2)" by (cases "?tx (s\<lparr>script := f3\<rparr>)")
      show ?thesis
      proof (cases r2)
        case (Inr info)
        then show ?thesis
          using posted [OF fnd False _ _ set1 set2, of f3 info] run g \<open>r1 = Inr rec\<close> False n1 n2 tx
          by (simp add: Settle_def settle_read_def Let_def bindE_def tryE_def returnE_def)
      next
        case (Inl err)
        obtain r3 s3 where mark: "?upd err s2 = (r3, s3)" by (cases "?upd err s2")
        have fin: "r = Inl err" "s' = s3"
          using run g \<open>r1 = Inr rec\<close> False n1 n2 tx Inl mark
          by (simp_all add: Settle_def settle_read_def Let_def bindE_def tryE_def throwE_def mark_failed_def [abs_def])
        obtain f4 g where s2: "s2 = s\<lparr>script := f4, seqs := g\<rparr>" "\<forall>t. seqs s t \<le> g t"
          using transact_error_eq [of _ "s\<lparr>script := f3\<rparr>"] tx Inl unfolding settle_tx_def by force
        show ?thesis
        proof (cases "next_fault (script s2)")
          case None
          then have "s' = s\<lparr>script := tl f4, seqs := g, settlement_records :=
              map (\<lambda>x. if sr_ID x = sr_ID rec then mark_failed err x else x) (settlement_records s)\<rparr>"
            using mark fin s2 by (auto simp: db_update_def db_call_def Let_def)
          then show ?thesis using failed [OF fnd False fin(1) s2(2)] by blast
        next
          case Some
          then have "s' = s\<lparr>script := tl f4, seqs := g, settlement_records := map (\<lambda>x. x) (settlement_records s)\<rparr>"
            using mark fin s2 by (auto simp: db_update_def db_call_def Let_def)
          then show ?thesis using failed [OF fnd False fin(1) s2(2)] by blast
        qed
      qed
    qed
  qed
qed

section \<open>CreateRecharge\<close>

definition link_tx :: "int \<Rightarrow> settlementRecord \<Rightarrow> settlementRecord" where
  "link_tx t r = r\<lparr>sr_TransactionID := t\<rparr>"

lemma recharge_tx_ok:
  assumes run: "recharge_tx inp s = (Inr info, s')"
  obtains (existing) f g rec where "s' = s\<lparr>script := f, seqs := g\<rparr>" "\<forall>t. seqs s t \<le> g t"
      "find (\<lambda>x. sr_RefType x = rsi_RefType inp \<and> sr_RefID x = rsi_RefID inp) (settlement_records s) = Some rec"
      "ti_ID info = sr_TransactionID rec"
  | (posted) s1 s2 t es i f where "i = seqs s ''settlement_records'' + 1"
      "\<forall>x \<in> set (settlement_records s). \<not> (sr_RefType x = rsi_RefType inp \<and> sr_RefID x = rsi_RefID inp)"
      "s1 = s\<lparr>script := f, seqs := (seqs s)(''settlement_records'' := i),
         settlement_records := settlement_records s @ [recharge_record inp (clock s) i]\<rparr>"
      "postLedger txTypeRecharge ''settlement_record'' i (recharge_entries inp) s1 = (Inr (t, es), s2)"
      "ledger_tables s' = ledger_tables s2" "seqs s' = seqs s2"
      "settlement_records s' = map (\<lambda>r. if sr_ID r = i then link_tx t r else r) (settlement_records s1)"
      "ti_ID info = t" "ti_Entries info = es"
proof -
  let ?ins = "db_insert ''settlement_records'' settlement_records settlement_records_update sr_clash (recharge_record inp)"
  let ?s0 = "s\<lparr>script := tl (script s)\<rparr>"
  obtain r0 sa where ins: "?ins ?s0 = (r0, sa)" by (cases "?ins ?s0")
  show ?thesis
  proof (cases r0)
    case (Inl e)
    obtain fa ga where sa: "sa = s\<lparr>script := fa, seqs := ga\<rparr>" "\<forall>t. seqs s t \<le> ga t"
      using db_insert_error_eq [of _ _ _ _ _ ?s0] ins Inl by force
    obtain rec sb sc where rf: "getRecordByRef (rsi_RefType inp) (rsi_RefID inp) sa = (Inr (Some rec), sb)"
      and gt: "getTransaction (sr_TransactionID rec) sb = (Inr info, sc)" and s': "s' = sc\<lparr>script := tl (script sc)\<rparr>"
      using run ins Inl by (auto simp: recharge_tx_def ok_simps split: option.split_asm if_split_asm)
    obtain fc where "sc = sb\<lparr>script := fc\<rparr>" using reads_onlyD [OF getTransaction_reads gt] by blast
    then show ?thesis
      using getRecordByRef_ok [OF rf] getTransaction_id [OF gt] sa s'
      by (intro existing [of ga "tl fc" rec]) auto
  next
    case (Inr i)
    let ?s1 = "s\<lparr>script := tl (tl (script s)), seqs := (seqs s)(''settlement_records'' := i),
         settlement_records := settlement_records s @ [recharge_record inp (clock s) i]\<rparr>"
    have i: "i = seqs s ''settlement_records'' + 1" and sa: "sa = ?s1"
      and new: "\<forall>x \<in> set (settlement_records s). \<not> (sr_RefType x = rsi_RefType inp \<and> sr_RefID x = rsi_RefID inp)"
      using ins Inr by (auto simp: ok_simps Let_def sr_clash_def recharge_record_def)
    obtain t es s2 where p: "postLedger txTypeRecharge ''settlement_record'' i (recharge_entries inp) ?s1 = (Inr (t, es), s2)"
      and l: "ledger_tables s' = ledger_tables s2" "seqs s' = seqs s2"
      and r: "settlement_records s' = map (\<lambda>r. if sr_ID r = i then link_tx t r else r) (settlement_records s2)"
      and info: "ti_ID info = t" "ti_Entries info = es"
      using run ins Inr unfolding sa by (auto simp: recharge_tx_def ok_simps ledger_tables_def link_tx_def)
    have "settlement_records s2 = settlement_records ?s1"
      by (rule preserves_run [OF postLedger_frame [OF off_ledger_settlements] refl p])
    with r have "settlement_records s' = map (\<lambda>r. if sr_ID r = i then link_tx t r else r) (settlement_records ?s1)"
      by simp
    then show ?thesis by (rule posted [OF i new refl p l _ info])
  qed
qed

text \<open>The ways through CreateRecharge.\<close>

lemma CreateRecharge_cases:
  assumes run: "CreateRecharge inp s = (r, s')"
  obtains (kept) f g where "s' = s\<lparr>script := f, seqs := g\<rparr>" "\<forall>t. seqs s t \<le> g t"
      "\<forall>info. r = Inr info \<longrightarrow> (\<exists>rec. find (\<lambda>x. sr_RefType x = rsi_RefType inp \<and> sr_RefID x = rsi_RefID inp)
          (settlement_records s) = Some rec \<and> ti_ID info = sr_TransactionID rec)"
  | (posted) s1 s2 t es i f info where "r = Inr info" "i = seqs s ''settlement_records'' + 1"
      "\<forall>x \<in> set (settlement_records s). \<not> (sr_RefType x = rsi_RefType inp \<and> sr_RefID x = rsi_RefID inp)"
      "s1 = s\<lparr>script := f, seqs := (seqs s)(''settlement_records'' := i),
         settlement_records := settlement_records s @ [recharge_record inp (clock s) i]\<rparr>"
      "postLedger txTypeRecharge ''settlement_record'' i (recharge_entries inp) s1 = (Inr (t, es), s2)"
      "ledger_tables s' = ledger_tables s2" "seqs s' = seqs s2"
      "settlement_records s' = map (\<lambda>r. if sr_ID r = i then link_tx t r else r) (settlement_records s1)"
      "ti_ID info = t" "ti_Entries info = es"
proof -
  obtain r0 sa where rf: "getRecordByRef (rsi_RefType inp) (rsi_RefID inp) s = (r0, sa)"
    by (cases "getRecordByRef (rsi_RefType inp) (rsi_RefID inp) s")
  obtain fa where sa: "sa = s\<lparr>script := fa\<rparr>" using reads_onlyD [OF getRecordByRef_reads rf] by blast
  consider (err) e where "r0 = Inl e" | (none) "r0 = Inr None" | (some) rec where "r0 = Inr (Some rec)"
    by (metis sum.exhaust option.exhaust)
  then show ?thesis
  proof cases
    case err
    then show ?thesis using run rf sa by (intro kept [of "seqs s" fa]) (auto simp: CreateRecharge_def bindE_def)
  next
    case (some rec)
    have "find (\<lambda>x. sr_RefType x = rsi_RefType inp \<and> sr_RefID x = rsi_RefID inp) (settlement_records s) = Some rec"
      using getRecordByRef_ok rf some by fastforce
    moreover have fin: "(if sr_TransactionID rec \<noteq> 0 then getTransaction (sr_TransactionID rec)
         else throwE (ErrNew ''existing recharge record has no transaction'')) sa = (r, s')" (is "?m sa = _")
      using run rf some by (simp add: CreateRecharge_def bindE_def)
    moreover have "reads_only ?m" by (intro reads)
    then obtain f where "s' = sa\<lparr>script := f\<rparr>" using reads_onlyD [of ?m sa r s'] fin by blast
    ultimately show ?thesis using sa
      by (intro kept [of "seqs s" f]) (auto simp: throwE_def dest: getTransaction_id split: if_splits)
  next
    case none
    then have tx: "recharge_tx inp sa = (r, s')" using run rf by (simp add: CreateRecharge_def bindE_def)
    show ?thesis
    proof (cases r)
      case (Inl e)
      then have "transact (bindE (tryE (db_insert ''settlement_records'' settlement_records settlement_records_update sr_clash
          (recharge_record inp)))
        (\<lambda>recResult. case recResult of
          Inl insertErr \<Rightarrow>
            bindE (wrapE ''idempotent lookup after insert conflict failed''
              (getRecordByRef (rsi_RefType inp) (rsi_RefID inp)))
            (\<lambda>existing. case existing of
               Some rec \<Rightarrow> if sr_TransactionID rec \<noteq> 0 then getTransaction (sr_TransactionID rec)
                 else throwE (ErrWrap insertErr ''insert recharge settlement record failed'')
             | None \<Rightarrow> throwE (ErrWrap insertErr ''insert recharge settlement record failed''))
        | Inr recID \<Rightarrow>
            bindE (postLedger txTypeRecharge ''settlement_record'' recID (recharge_entries inp))
            (\<lambda>(txID, txEntries).
             bindE (wrapE ''link transaction to recharge failed''
               (db_update settlement_records settlement_records_update (\<lambda>r. sr_ID r = recID)
                 (\<lambda>r. r\<lparr>sr_TransactionID := txID\<rparr>)))
             (\<lambda>_. returnE \<lparr>ti_ID = txID, ti_TxType = txTypeRecharge, ti_RefType = ''settlement_record'',
                            ti_RefID = recID, ti_Entries = txEntries, ti_CreatedAt = None\<rparr>)))) sa = (Inl e, s')"
        using tx by (simp add: recharge_tx_def)
      from transact_error_eq [OF this] show ?thesis using sa Inl kept by force
    next
      case (Inr info)
      show ?thesis
      proof (cases rule: recharge_tx_ok [OF tx [unfolded Inr]])
        case (1 f g rec)
        then show ?thesis using sa Inr by (intro kept [of g f]) auto
      next
        case (2 s1 s2 t es i f)
        then show ?thesis using sa Inr by (intro posted [where info = info and i = i and f = f and t = t and es = es and ?s2.0 = s2]) auto
      qed
    qed
  qed
qed

end
