(* ===== verification/SettlementProps.thy ===== *)
theory SettlementProps
  imports SettlementFacts "HOL-Library.Sublist"
begin

text \<open>
  Exactly-once settlement.  The invariant \<open>settle_inv\<close> joins the journal invariant with the
  bijection between the settled records that name a transaction and the postings of the journal;
  every operation of \<^verbatim>\<open>settlement.go\<close> preserves it under every pattern of failing
  statements, and so does every other operation of the gateway (GatewayBooks).  The
  life of a record is the step relation \<open>rec_step\<close>, in which settled is terminal.
\<close>

section \<open>Records and their transactions\<close>

definition sr_ref :: "settlementRecord \<Rightarrow> string \<times> int" where
  "sr_ref r = (sr_RefType r, sr_RefID r)"

text \<open>Only the settlement service journals transactions of these two types.\<close>

definition posting :: "transaction \<Rightarrow> bool" where
  "posting t \<longleftrightarrow> tx_type t = ''settle'' \<or> tx_type t = ''recharge''"

definition of_record :: "transaction \<Rightarrow> settlementRecord \<Rightarrow> bool" where
  "of_record t r \<longleftrightarrow> tx_ref_type t = ''settlement_record'' \<and> tx_ref_id t = sr_ID r \<and>
     tx_id t = sr_TransactionID r \<and> sr_Status r = ''settled''"

text \<open>A settled record that names a transaction has it in the journal, and every posting is the one its
  record names.  The records that name none are those not settled and those the payout job has paid,
  which come from the queue and have a date of settlement.\<close>

definition named :: "settlementRecord \<Rightarrow> bool" where
  "named r \<longleftrightarrow> (if sr_Status r = ''settled'' then sr_TransactionID r \<noteq> 0 \<or> sr_SettleAt r \<noteq> None
     else sr_TransactionID r = 0)"

definition once :: "settlementRecord list \<Rightarrow> transaction list \<Rightarrow> bool" where
  "once recs txs \<longleftrightarrow>
     distinct (map sr_ID recs) \<and> distinct (map sr_ref recs) \<and> distinct (map tx_id txs) \<and>
     (\<forall>r \<in> set recs. sr_Status r = ''settled'' \<longrightarrow> sr_TransactionID r \<noteq> 0 \<longrightarrow>
        (\<exists>t \<in> set txs. posting t \<and> of_record t r)) \<and>
     (\<forall>t \<in> set txs. posting t \<longrightarrow> (\<exists>r \<in> set recs. of_record t r)) \<and>
     (\<forall>r \<in> set recs. named r)"

definition issued :: "(string \<Rightarrow> int) \<Rightarrow> settlementRecord list \<Rightarrow> transaction list \<Rightarrow> bool" where
  "issued sq recs txs \<longleftrightarrow> 0 \<le> sq ''transactions'' \<and>
     (\<forall>r \<in> set recs. sr_ID r \<le> sq ''settlement_records'') \<and>
     (\<forall>t \<in> set txs. 0 < tx_id t \<and> tx_id t \<le> sq ''transactions'')"

definition settle_inv :: "'z settle_db_scheme \<Rightarrow> bool" where
  "settle_inv s \<longleftrightarrow> ledger_inv s \<and> once (settlement_records s) (transactions s) \<and>
     issued (seqs s) (settlement_records s) (transactions s)"

lemma once_add_record:
  assumes "once recs txs" "sr_ID r \<notin> sr_ID ` set recs" "sr_ref r \<notin> sr_ref ` set recs"
    "sr_Status r \<noteq> ''settled''" "sr_TransactionID r = 0"
  shows "once (recs @ [r]) txs"
  using assms by (auto simp: once_def named_def)

text \<open>A transaction of another type is no posting.\<close>

lemma once_add_tx:
  assumes "once recs txs" "tx_id t \<notin> tx_id ` set txs" "\<not> posting t"
  shows "once recs (txs @ [t])"
  using assms by (auto simp: once_def)

text \<open>The transaction of a settled record is unique.\<close>

lemma once_only:
  assumes o: "once recs txs" and r: "r \<in> set recs" and t: "t \<in> set txs" "posting t" "tx_ref_id t = sr_ID r"
  shows "of_record t r"
proof -
  have "\<exists>x \<in> set recs. of_record t x" and d: "distinct (map sr_ID recs)"
    using o t(1,2) unfolding once_def by blast+
  then obtain x where x: "x \<in> set recs" "of_record t x" by blast
  have "x = r" by (rule distinct_map_eq [OF d x(1) r]) (use x(2) t(3) in \<open>simp add: of_record_def\<close>)
  then show ?thesis using x(2) by simp
qed

lemma once_unique_tx:
  assumes o: "once recs txs" and r: "r \<in> set recs" "sr_Status r = ''settled''" "sr_TransactionID r \<noteq> 0"
  shows "\<exists>!t. t \<in> set txs \<and> posting t \<and> tx_ref_id t = sr_ID r"
proof -
  have d: "distinct (map tx_id txs)" and ex: "\<exists>t \<in> set txs. posting t \<and> of_record t r"
    using o r unfolding once_def by blast+
  obtain t where t: "t \<in> set txs" "posting t" "of_record t r" using ex by blast
  have "u = t" if "u \<in> set txs" "posting u" "tx_ref_id u = sr_ID r" for u
  proof (rule distinct_map_eq [OF d that(1) t(1)])
    show "tx_id u = tx_id t" using once_only [OF o r(1) that] t(3) by (simp add: of_record_def)
  qed
  moreover have "tx_ref_id t = sr_ID r" using t(3) by (simp add: of_record_def)
  ultimately show ?thesis using t(1,2) by blast
qed

text \<open>A record is updated in place; \<open>f\<close> keeps its id and its reference.\<close>

lemma replace_by_id:
  assumes "distinct (map k xs)" and "r \<in> set xs"
  shows "map (\<lambda>x. if k x = k r then f x else x) xs = map (\<lambda>x. if x = r then f r else x) xs"
    and "set (map (\<lambda>x. if x = r then f r else x) xs) = insert (f r) (set xs - {r})"
  using assms distinct_map_eq [OF assms(1) _ assms(2)] by (auto intro!: map_cong)

lemma map_replace: "g (f r) = g r \<Longrightarrow> map g (map (\<lambda>x. if x = r then f r else x) xs) = map g xs"
  by (induction xs) auto

text \<open>The transactions of other records stay theirs when an unsettled record is replaced.\<close>

lemma once_others:
  assumes "once recs txs" and "r \<in> set recs" and "sr_Status r \<noteq> ''settled''"
  shows "\<forall>u \<in> set txs. posting u \<longrightarrow> (\<exists>y \<in> set recs - {r}. of_record u y)"
  using assms by (auto simp: once_def of_record_def)

text \<open>Records and transactions after the record \<open>r\<close> was replaced by \<open>f r\<close> and \<open>ts\<close> was journalled.\<close>

lemma once_replace:
  assumes o: "once recs txs" and r: "r \<in> set recs"
    and f: "sr_ID (f r) = sr_ID r" "sr_ref (f r) = sr_ref r" "named (f r)"
    and ids: "distinct (map tx_id (txs @ ts))"
    and fr: "sr_Status (f r) = ''settled'' \<Longrightarrow> sr_TransactionID (f r) \<noteq> 0 \<Longrightarrow>
      \<exists>t \<in> set (txs @ ts). posting t \<and> of_record t (f r)"
    and ts: "\<forall>t \<in> set (txs @ ts). posting t \<longrightarrow> of_record t (f r) \<or> (\<exists>y \<in> set recs - {r}. of_record t y)"
  shows "once (map (\<lambda>x. if sr_ID x = sr_ID r then f x else x) recs) (txs @ ts)"
proof -
  have "distinct (map sr_ID recs)" using o by (simp add: once_def)
  note rep = replace_by_id [OF this r, of f]
  have old: "\<exists>t \<in> set (txs @ ts). posting t \<and> of_record t x"
    if "x \<in> set recs" "sr_Status x = ''settled''" "sr_TransactionID x \<noteq> 0" for x
    using o that by (auto simp: once_def)
  have nm: "\<forall>x \<in> set recs. named x" using o by (simp add: once_def)
  show ?thesis
    unfolding once_def rep(1) rep(2) map_replace [of sr_ID f r, OF f(1)] map_replace [of sr_ref f r, OF f(2)]
  proof (intro conjI)
    show "\<forall>x \<in> insert (f r) (set recs - {r}). sr_Status x = ''settled'' \<longrightarrow> sr_TransactionID x \<noteq> 0 \<longrightarrow>
        (\<exists>t \<in> set (txs @ ts). posting t \<and> of_record t x)"
      using old fr by blast
    show "\<forall>t \<in> set (txs @ ts). posting t \<longrightarrow> (\<exists>x \<in> insert (f r) (set recs - {r}). of_record t x)"
      using ts by blast
    show "\<forall>x \<in> insert (f r) (set recs - {r}). named x" using nm f(3) by blast
  qed (use o ids in \<open>auto simp: once_def\<close>)
qed

lemma once_settle:
  assumes o: "once recs txs" and r: "r \<in> set recs" "sr_Status r \<noteq> ''settled''"
    and f: "sr_ID (f r) = sr_ID r" "sr_ref (f r) = sr_ref r" "sr_Status (f r) = ''settled''"
      "sr_TransactionID (f r) = tx_id t"
    and t: "tx_id t \<notin> tx_id ` set txs" "posting t" "tx_ref_type t = ''settlement_record''" "tx_ref_id t = sr_ID r"
      "tx_id t \<noteq> 0"
  shows "once (map (\<lambda>x. if sr_ID x = sr_ID r then f x else x) recs) (txs @ [t])"
proof -
  have tr: "of_record t (f r)" using f t by (simp add: of_record_def)
  show ?thesis
  proof (rule once_replace [where f = f and r = r, OF o r(1) f(1,2)])
    show "named (f r)" using f t(5) by (simp add: named_def)
    show "distinct (map tx_id (txs @ [t]))" using o t(1) by (simp add: once_def)
    show "\<exists>u \<in> set (txs @ [t]). posting u \<and> of_record u (f r)" using tr t(2) by simp
    show "\<forall>u \<in> set (txs @ [t]). posting u \<longrightarrow> of_record u (f r) \<or> (\<exists>y \<in> set recs - {r}. of_record u y)"
      using once_others [OF o r] tr by auto
  qed
qed

lemma once_fail:
  assumes o: "once recs txs" and r: "r \<in> set recs" "sr_Status r \<noteq> ''settled''"
    and f: "sr_ID (f r) = sr_ID r" "sr_ref (f r) = sr_ref r" "sr_Status (f r) \<noteq> ''settled''"
      "sr_TransactionID (f r) = sr_TransactionID r"
  shows "once (map (\<lambda>x. if sr_ID x = sr_ID r then f x else x) recs) txs"
proof -
  have "named r" using o r by (simp add: once_def)
  then have n: "named (f r)" using f r(2) by (simp add: named_def)
  have d: "distinct (map tx_id (txs @ []))" using o by (simp add: once_def)
  show ?thesis
    using once_replace [where f = f and r = r and ts = "[]", OF o r(1) f(1,2) n d] once_others [OF o r] f(3) by simp
qed

text \<open>A record of the queue that is paid is marked settled and names no transaction; were it settled
  before, nothing changes.\<close>

lemma once_paid:
  assumes o: "once recs txs" and r: "r \<in> set recs" "sr_SettleAt r \<noteq> None"
    and f: "sr_ID (f r) = sr_ID r" "sr_ref (f r) = sr_ref r" "sr_Status (f r) = ''settled''"
      "sr_TransactionID (f r) = sr_TransactionID r" "sr_SettleAt (f r) = sr_SettleAt r"
  shows "once (map (\<lambda>x. if sr_ID x = sr_ID r then f x else x) recs) txs"
proof (cases "sr_Status r = ''settled''")
  case True
  have same: "of_record t (f r) \<longleftrightarrow> of_record t r" for t using f True by (simp add: of_record_def)
  have n: "named (f r)" using r(2) f by (simp add: named_def)
  have d: "distinct (map tx_id (txs @ []))" using o by (simp add: once_def)
  have "\<forall>t \<in> set txs. posting t \<longrightarrow> of_record t r \<or> (\<exists>y \<in> set recs - {r}. of_record t y)"
    using o by (auto simp: once_def)
  moreover have "\<exists>t \<in> set txs. posting t \<and> of_record t r" if "sr_TransactionID r \<noteq> 0"
    using o r(1) True that by (simp add: once_def)
  ultimately show ?thesis
    using once_replace [where f = f and r = r and ts = "[]", OF o r(1) f(1,2) n d] f(4) by (simp add: same)
next
  case False
  have z: "sr_TransactionID r = 0" using o r(1) False by (auto simp: once_def named_def)
  have n: "named (f r)" using r(2) f by (simp add: named_def)
  have d: "distinct (map tx_id (txs @ []))" using o by (simp add: once_def)
  show ?thesis
    using once_replace [where f = f and r = r and ts = "[]", OF o r(1) f(1,2) n d] once_others [OF o r(1) False] f(4) z by simp
qed

text \<open>A recharge adds a record that is settled from the start, with its transaction.\<close>

lemma once_recharge:
  assumes "once recs txs" "sr_ID r \<notin> sr_ID ` set recs" "sr_ref r \<notin> sr_ref ` set recs"
    "tx_id t \<notin> tx_id ` set txs" "posting t" "of_record t r" "tx_id t \<noteq> 0"
  shows "once (recs @ [r]) (txs @ [t])"
  using assms by (auto simp: once_def named_def of_record_def)

lemma settle_inv_stable: "stable settle_inv"
proof (rule stableI)
  fix s :: "'z settle_db_scheme" and f g
  assume s: "settle_inv s" and le: "\<And>t. seqs s t \<le> g t"
  then have "ledger_inv (s\<lparr>script := f, seqs := g\<rparr>)"
    using ledger_inv_stable unfolding stable_def settle_inv_def by blast
  moreover have "issued g (settlement_records s) (transactions s)"
    using s le unfolding settle_inv_def issued_def by (meson order_trans)
  ultimately show "settle_inv (s\<lparr>script := f, seqs := g\<rparr>)"
    using s by (simp add: settle_inv_def)
qed

lemma settle_inv_keys [frame]: "untouched settle_inv api_keys_update"
  by (simp add: settle_inv_def untouched_def ledger_inv_def)

text \<open>The part of the invariant that does not look at balances, for what other operations do to the
  tables.\<close>

definition record_inv :: "'z settle_db_scheme \<Rightarrow> bool" where
  "record_inv s \<longleftrightarrow> once (settlement_records s) (transactions s) \<and>
     issued (seqs s) (settlement_records s) (transactions s)"

lemma settle_inv_split: "settle_inv = (\<lambda>s. ledger_inv s \<and> record_inv s)"
  by (simp add: fun_eq_iff settle_inv_def record_inv_def)

lemma preserves_both: "preserves P m \<Longrightarrow> preserves Q m \<Longrightarrow> preserves (\<lambda>s. P s \<and> Q s) m"
  by (simp add: preserves_def)

lemma record_inv_stable: "stable record_inv"
proof (rule stableI)
  fix s :: "'z settle_db_scheme" and f g
  assume s: "record_inv s" and le: "\<And>t. seqs s t \<le> g t"
  then have "issued g (settlement_records s) (transactions s)"
    unfolding record_inv_def issued_def by (meson order_trans)
  then show "record_inv (s\<lparr>script := f, seqs := g\<rparr>)" using s by (simp add: record_inv_def)
qed

lemma record_inv_frame [frame]:
  "untouched record_inv accounts_update" "untouched record_inv transaction_entries_update"
  "untouched record_inv api_keys_update"
  by (simp_all add: untouched_def record_inv_def)

lemma insert_transaction_record_inv:
  assumes "ty \<noteq> ''settle''" "ty \<noteq> ''recharge''"
  shows "preserves record_inv (insert_transaction ty rt ri)"
  unfolding insert_transaction_def
proof (intro preserves_db_insert record_inv_stable)
  fix s :: "'z settle_db_scheme"
  let ?i = "seqs s ''transactions'' + 1"
  let ?t = "\<lparr>tx_id = ?i, tx_type = ty, tx_ref_type = rt, tx_ref_id = ri, tx_created_at = clock s\<rparr>"
  assume inv: "record_inv s"
  have fresh: "tx_id ?t \<notin> tx_id ` set (transactions s)" using inv by (force simp: record_inv_def issued_def)
  have "once (settlement_records s) (transactions s @ [?t])"
    using inv assms fresh by (intro once_add_tx) (auto simp: record_inv_def posting_def)
  then show "record_inv (transactions_update (\<lambda>rs. rs @ [?t]) (s\<lparr>seqs := (seqs s)(''transactions'' := ?i)\<rparr>))"
    using inv by (auto simp: record_inv_def issued_def)
qed

section \<open>Every operation keeps the invariant\<close>

text \<open>The journal side of a posting: one transaction with a fresh id, and the sequences.\<close>

lemma post_entry_frame: "off_ledger P \<Longrightarrow> preserves P (post_entry t e)"
  unfolding post_entry_def by (intro pres)

lemma off_ledger_seq: "off_ledger (\<lambda>s. x \<le> seqs s k)"
  by (simp add: off_ledger_def untouched_def stable_seq_ge)

lemma postLedger_tables:
  assumes inv: "ledger_inv s" and run: "postLedger ty rt ri es s = (Inr (t, infos), s')"
  shows "ledger_inv s'" and "t = seqs s ''transactions'' + 1" and "t \<le> seqs s' ''transactions''"
    and "seqs s ''settlement_records'' \<le> seqs s' ''settlement_records''"
    and "transactions s' = transactions s @
      [\<lparr>tx_id = t, tx_type = ty, tx_ref_type = rt, tx_ref_id = ri, tx_created_at = clock s\<rparr>]"
proof -
  show "ledger_inv s'" using keepsD [OF postLedger_inv inv run] .
  show "transactions s' = transactions s @
      [\<lparr>tx_id = t, tx_type = ty, tx_ref_type = rt, tx_ref_id = ri, tx_created_at = clock s\<rparr>]"
    using postLedger_ok(3) [OF inv run] by (auto simp: posted_def)
  obtain s1 where 1: "insert_transaction ty rt ri s = (Inr t, s1)"
    and 2: "mapE (post_entry t) es s1 = (Inr infos, s')"
    using run by (auto simp: postLedger_def ok_simps split: if_splits)
  show "t = seqs s ''transactions'' + 1" by (rule insert_transaction_ok [OF 1])
  have "t \<le> seqs s1 ''transactions''"
    using 1 by (auto simp: insert_transaction_def ok_simps Let_def)
  then show "t \<le> seqs s' ''transactions''"
    by (rule preserves_run [OF preserves_mapE [OF post_entry_frame [OF off_ledger_seq]] _ 2])
  show "seqs s ''settlement_records'' \<le> seqs s' ''settlement_records''"
    by (rule preserves_run [OF postLedger_frame [OF off_ledger_seq] order_refl run])
qed

lemma settle_invD:
  "settle_inv s \<Longrightarrow> ledger_inv s"
  "settle_inv s \<Longrightarrow> once (settlement_records s) (transactions s)"
  "settle_inv s \<Longrightarrow> issued (seqs s) (settlement_records s) (transactions s)"
  by (simp_all add: settle_inv_def)

lemma ledger_inv_tables: "ledger_inv s \<Longrightarrow> ledger_tables s' = ledger_tables s \<Longrightarrow>
    seqs s ''accounts'' \<le> seqs s' ''accounts'' \<Longrightarrow> ledger_inv s'"
  by (force simp: ledger_inv_def ledger_tables_def)

lemma insert_submitted_inv:
  "preserves settle_inv (db_insert ''settlement_records'' settlement_records settlement_records_update
     sr_clash (submitted inp))"
proof (intro preserves_db_insert settle_inv_stable)
  fix s :: "'z settle_db_scheme"
  let ?i = "seqs s ''settlement_records'' + 1"
  let ?r = "submitted inp (clock s) ?i"
  assume inv: "settle_inv s" and new: "\<not> (\<exists>x \<in> set (settlement_records s). sr_clash x ?r)"
  note i = settle_invD [OF inv]
  have "once (settlement_records s @ [?r]) (transactions s)"
    using i(2,3) new
    by (intro once_add_record) (auto simp: issued_def sr_clash_def sr_ref_def submitted_def)
  moreover have "ledger_inv (s\<lparr>seqs := (seqs s)(''settlement_records'' := ?i)\<rparr>)"
    by (rule stable_seqs [OF ledger_inv_stable i(1)]) simp
  ultimately show "settle_inv (settlement_records_update (\<lambda>rs. rs @ [?r])
      (s\<lparr>seqs := (seqs s)(''settlement_records'' := ?i)\<rparr>))"
    using i(3) by (auto simp: settle_inv_def issued_def submitted_def ledger_inv_def)
qed

lemma Submit_settle_inv: "preserves settle_inv (Submit inp)"
  unfolding Submit_def
  by (intro pres insert_submitted_inv settle_inv_stable)

lemma settle_tx_settle_inv:
  assumes inv: "settle_inv s" and rec: "rec \<in> set (settlement_records s)" "sr_Status rec \<noteq> ''settled''"
    and run: "settle_tx rec pc pp s = (Inr info, s')"
  shows "settle_inv s'"
proof -
  obtain s1 t es now where p: "postLedger txTypeSettle ''settlement_record'' (sr_ID rec) (settle_entries rec pc pp)
       (s\<lparr>script := tl (script s)\<rparr>) = (Inr (t, es), s1)"
    and l: "ledger_tables s' = ledger_tables s1" and q: "seqs s' = seqs s1"
    and r: "settlement_records s' = map (\<lambda>r. if sr_ID r = sr_ID rec then
       r\<lparr>sr_Status := ''settled'', sr_SettledAt := Some now, sr_TransactionID := t,
         sr_PointsToConsumer := pc, sr_PointsToProvider := pp\<rparr> else r) (settlement_records s)"
    by (rule settle_tx_ok [OF run])
  have inv0: "ledger_inv (s\<lparr>script := tl (script s)\<rparr>)"
    by (rule stable_script [OF ledger_inv_stable settle_invD(1) [OF inv]])
  note b = postLedger_tables [OF inv0 p]
  have tx: "transactions s' = transactions s @ [\<lparr>tx_id = t, tx_type = txTypeSettle,
      tx_ref_type = ''settlement_record'', tx_ref_id = sr_ID rec, tx_created_at = clock s\<rparr>]"
    using b(5) l by (simp add: ledger_tables_def)
  have lt: "seqs s ''transactions'' < t" "t \<le> seqs s' ''transactions''"
    "seqs s ''settlement_records'' \<le> seqs s' ''settlement_records''"
    using b q by auto
  note iss = settle_invD(3) [OF inv]
  have "once (settlement_records s') (transactions s')"
    unfolding r tx
    by (rule once_settle [OF settle_invD(2) [OF inv] rec])
      (use iss lt in \<open>auto simp: sr_ref_def issued_def posting_def ledger_consts\<close>)
  moreover have "issued (seqs s') (settlement_records s') (transactions s')"
    using iss lt unfolding r tx issued_def by (auto intro: order_trans)
  moreover have "ledger_inv s'"
    using ledger_inv_tables [OF b(1) l] q by simp
  ultimately show ?thesis by (simp add: settle_inv_def)
qed

lemma mark_failed_simps [simp]:
  "sr_ID (mark_failed e r) = sr_ID r" "sr_ref (mark_failed e r) = sr_ref r"
  "sr_Status (mark_failed e r) = ''failed''" "sr_TransactionID (mark_failed e r) = sr_TransactionID r"
  by (simp_all add: mark_failed_def sr_ref_def)

lemma failed_settle_inv:
  assumes inv: "settle_inv s" and rec: "rec \<in> set (settlement_records s)" "sr_Status rec \<noteq> ''settled''"
    and le: "\<forall>t. seqs s t \<le> g t"
    and F: "F = (\<lambda>x. x) \<or> F = (\<lambda>x. if sr_ID x = sr_ID rec then mark_failed e x else x)"
  shows "settle_inv (s\<lparr>script := f, seqs := g, settlement_records := map F (settlement_records s)\<rparr>)"
proof -
  have s1: "settle_inv (s\<lparr>script := f, seqs := g\<rparr>)"
    using settle_inv_stable inv le by (auto simp: stable_def)
  have "once (map F (settlement_records s)) (transactions s)"
    using F once_fail [OF settle_invD(2) [OF inv] rec, of "mark_failed e"] settle_invD(2) [OF inv] by auto
  moreover have "issued g (map F (settlement_records s)) (transactions s)"
    using settle_invD(3) [OF s1] F by (auto simp: issued_def)
  ultimately show ?thesis
    using settle_invD(1) [OF s1] by (simp add: settle_inv_def ledger_inv_def)
qed

lemma Settle_settle_inv: "preserves settle_inv (Settle i)"
proof -
  have "settle_inv s'" if inv: "settle_inv s" and run: "Settle i s = (r, s')" for s r s'
  proof (cases rule: Settle_cases [OF run])
    case (1 f)
    then show ?thesis using inv settle_inv_stable stable_script by blast
  next
    case (2 rec n1 n2 f info)
    have "settle_inv (s\<lparr>script := f\<rparr>)" using inv settle_inv_stable stable_script by blast
    then show ?thesis using settle_tx_settle_inv [OF _ _ 2(2) 2(3)] find_Some_set [OF 2(1)] by simp
  next
    case (3 rec e f g F)
    show ?thesis unfolding 3(6)
      using find_Some_set [OF 3(1)] by (intro failed_settle_inv [OF inv _ 3(2) 3(4) 3(5)]) simp
  qed
  then show ?thesis unfolding preserves_def by (metis prod.collapse)
qed

text \<open>A new record has an id and a reference no other record has.\<close>

lemma map_last_only:
  "\<forall>x \<in> set xs. k x \<noteq> k y \<Longrightarrow> map (\<lambda>x. if k x = k y then f x else x) (xs @ [y]) = xs @ [f y]"
  by (auto intro: map_idI)

lemma recharge_posted_inv:
  assumes inv: "settle_inv s" and i: "i = seqs s ''settlement_records'' + 1"
    and new: "\<forall>x \<in> set (settlement_records s). \<not> (sr_RefType x = rsi_RefType inp \<and> sr_RefID x = rsi_RefID inp)"
    and s1: "s1 = s\<lparr>script := f, seqs := (seqs s)(''settlement_records'' := i),
         settlement_records := settlement_records s @ [recharge_record inp (clock s) i]\<rparr>"
    and p: "postLedger txTypeRecharge ''settlement_record'' i (recharge_entries inp) s1 = (Inr (t, es), s2)"
    and l: "ledger_tables s' = ledger_tables s2" and q: "seqs s' = seqs s2"
    and r: "settlement_records s' = map (\<lambda>r. if sr_ID r = i then link_tx t r else r) (settlement_records s1)"
  shows "settle_inv s'"
    and "settlement_records s' = settlement_records s @ [link_tx t (recharge_record inp (clock s) i)]"
proof -
  let ?r = "recharge_record inp (clock s) i"
  note iss = settle_invD(3) [OF inv]
  have le: "\<forall>t. seqs s t \<le> ((seqs s)(''settlement_records'' := i)) t" using i by simp
  then have "ledger_inv (s\<lparr>script := f, seqs := (seqs s)(''settlement_records'' := i)\<rparr>)"
    using ledger_inv_stable settle_invD(1) [OF inv] by (auto simp: stable_def)
  then have inv1: "ledger_inv s1" unfolding s1 by (simp add: ledger_inv_def)
  note b = postLedger_tables [OF inv1 p]
  have tx: "transactions s' = transactions s @ [\<lparr>tx_id = t, tx_type = txTypeRecharge,
      tx_ref_type = ''settlement_record'', tx_ref_id = i, tx_created_at = clock s\<rparr>]"
    using b(5) l by (simp add: ledger_tables_def s1)
  have id: "sr_ID ?r = i" by (simp add: recharge_record_def)
  have fresh: "\<forall>x \<in> set (settlement_records s). sr_ID x \<noteq> sr_ID ?r"
    using iss i by (auto simp: issued_def recharge_record_def)
  show r': "settlement_records s' = settlement_records s @ [link_tx t ?r]"
    using map_last_only [OF fresh, of "link_tx t"] by (simp add: r s1 id)
  have lt: "seqs s ''transactions'' < t" "t \<le> seqs s' ''transactions''" "i \<le> seqs s' ''settlement_records''"
    using b(2,3,4) q by (simp_all add: s1)
  have "once (settlement_records s') (transactions s')"
    unfolding r' tx
    by (rule once_recharge [OF settle_invD(2) [OF inv]])
      (use iss lt fresh new in \<open>auto simp: sr_ref_def issued_def of_record_def posting_def ledger_consts
          link_tx_def recharge_record_def\<close>)
  moreover have "issued (seqs s') (settlement_records s') (transactions s')"
    using iss lt i unfolding r' tx issued_def
    by (auto simp: link_tx_def recharge_record_def intro: order_trans)
  moreover have "ledger_inv s'"
    using ledger_inv_tables [OF b(1) l] q by simp
  ultimately show "settle_inv s'" by (simp add: settle_inv_def)
qed

lemma CreateRecharge_settle_inv: "preserves settle_inv (CreateRecharge inp)"
proof -
  have "settle_inv s'" if inv: "settle_inv s" and run: "CreateRecharge inp s = (r, s')" for s r s'
  proof (cases rule: CreateRecharge_cases [OF run])
    case (1 f g)
    then show ?thesis using inv settle_inv_stable by (auto simp: stable_def)
  next
    case (2 s1 s2 t es i f info)
    show ?thesis by (rule recharge_posted_inv(1) [OF inv 2(2,3,4,5,6,7,8)])
  qed
  then show ?thesis unfolding preserves_def by (metis prod.collapse)
qed

lemma SubmitAndSettle_settle_inv: "preserves settle_inv (SubmitAndSettle inp)"
  unfolding SubmitAndSettle_def by (intro pres Submit_settle_inv Settle_settle_inv)

lemma RestoreOverdraftKeys_settle_inv: "preserves settle_inv (RestoreOverdraftKeys u)"
  by (intro pres settle_inv_stable settle_inv_keys)

section \<open>Reachable databases\<close>

text \<open>The states the settlement service can bring a new database to; \<open>env\<close> is what happens
  between its operations: time passes, settings and keys are edited, statements start to fail.\<close>

definition empty_db :: "int \<Rightarrow> bool \<Rightarrow> settle_db" where
  "empty_db now nr = \<lparr>script = [], seqs = (\<lambda>_. 0), norows = nr, clock = now, system_configs = [],
     accounts = [], transactions = [], transaction_entries = [], settlement_records = [], api_keys = []\<rparr>"

inductive settle_reach :: "settle_db \<Rightarrow> bool" where
  init: "settle_reach (empty_db now nr)"
| env: "settle_reach s \<Longrightarrow> settle_reach (s\<lparr>script := f, clock := now, system_configs := cs, api_keys := ks\<rparr>)"
| submit: "settle_reach s \<Longrightarrow> settle_reach (snd (Submit inp s))"
| settle: "settle_reach s \<Longrightarrow> settle_reach (snd (Settle i s))"
| both: "settle_reach s \<Longrightarrow> settle_reach (snd (SubmitAndSettle inp s))"
| recharge: "settle_reach s \<Longrightarrow> settle_reach (snd (CreateRecharge rin s))"
| restore: "settle_reach s \<Longrightarrow> settle_reach (snd (RestoreOverdraftKeys u s))"

lemma settle_inv_empty: "settle_inv (empty_db now nr)"
  by (simp add: empty_db_def settle_inv_def ledger_inv_def once_def issued_def)

lemma settle_inv_env:
  "settle_inv s \<Longrightarrow> settle_inv (s\<lparr>script := f, clock := now, system_configs := cs, api_keys := ks\<rparr>)"
  by (simp add: settle_inv_def ledger_inv_def)

lemma reach_inv: "settle_reach s \<Longrightarrow> settle_inv s"
proof (induction rule: settle_reach.induct)
  case init
  show ?case by (rule settle_inv_empty)
next
  case env
  then show ?case by (intro settle_inv_env)
qed (auto intro: preservesD [OF Submit_settle_inv] preservesD [OF Settle_settle_inv]
      preservesD [OF SubmitAndSettle_settle_inv] preservesD [OF CreateRecharge_settle_inv]
      preservesD [OF RestoreOverdraftKeys_settle_inv])

section \<open>What one settlement does\<close>

text \<open>\<open>settles rec n1 n2 t now s s'\<close>: from \<open>s\<close> to \<open>s'\<close> the record was settled by transaction
  \<open>t\<close> with the points rates \<open>n1\<close> and \<open>n2\<close>.\<close>

definition settles ::
  "settlementRecord \<Rightarrow> int \<Rightarrow> int \<Rightarrow> int \<Rightarrow> int \<Rightarrow> 'z settle_db_scheme \<Rightarrow> 'z settle_db_scheme \<Rightarrow> bool" where
  "settles rec n1 n2 t now s s' \<longleftrightarrow>
     (let pc = i64 (sr_CostCredits rec * n1); pp = i64 (sr_ProviderRevenueCredits rec * n2);
          es = settle_entries rec pc pp
      in books_of s' = fold book_entry es (books_of s) \<and>
         i64 (asset_delta assetCredits es) = 0 \<and>
         (\<forall>as. i64 (total_asset as (accounts s')) = i64 (total_asset as (accounts s) + asset_delta as es)) \<and>
         transactions s' = transactions s @ [\<lparr>tx_id = t, tx_type = txTypeSettle,
           tx_ref_type = ''settlement_record'', tx_ref_id = sr_ID rec, tx_created_at = clock s\<rparr>] \<and>
         (\<exists>news. transaction_entries s' = transaction_entries s @ news \<and>
            map ent_delta_micro news = map ed_Delta es \<and> (\<forall>n \<in> set news. ent_tx_id n = t)) \<and>
         settlement_records s' = map (\<lambda>r. if sr_ID r = sr_ID rec then
           r\<lparr>sr_Status := ''settled'', sr_SettledAt := Some now, sr_TransactionID := t,
             sr_PointsToConsumer := pc, sr_PointsToProvider := pp\<rparr> else r) (settlement_records s))"

lemma settle_tx_settles:
  assumes inv: "ledger_inv s"
    and run: "settle_tx rec (i64 (sr_CostCredits rec * n1)) (i64 (sr_ProviderRevenueCredits rec * n2)) s = (Inr info, s')"
  shows "\<exists>now. settles rec n1 n2 (ti_ID info) now s s'"
proof -
  let ?pc = "i64 (sr_CostCredits rec * n1)" and ?pp = "i64 (sr_ProviderRevenueCredits rec * n2)"
  let ?s0 = "s\<lparr>script := tl (script s)\<rparr>"
  obtain s1 t es now where p: "postLedger txTypeSettle ''settlement_record'' (sr_ID rec) (settle_entries rec ?pc ?pp)
       ?s0 = (Inr (t, es), s1)"
    and l: "ledger_tables s' = ledger_tables s1"
    and r: "settlement_records s' = map (\<lambda>r. if sr_ID r = sr_ID rec then
       r\<lparr>sr_Status := ''settled'', sr_SettledAt := Some now, sr_TransactionID := t,
         sr_PointsToConsumer := ?pc, sr_PointsToProvider := ?pp\<rparr> else r) (settlement_records s)"
    and info: "info = \<lparr>ti_ID = t, ti_TxType = txTypeSettle, ti_RefType = ''settlement_record'',
                 ti_RefID = sr_ID rec, ti_Entries = es, ti_CreatedAt = None\<rparr>"
    by (rule settle_tx_ok [OF run])
  have inv0: "ledger_inv ?s0" by (rule stable_script [OF ledger_inv_stable inv])
  note ok = postLedger_ok [OF inv0 p]
  obtain s2 where pd: "posted t (settle_entries rec ?pc ?pp) es s2 s1" and s2: "accounts s2 = accounts s"
    "transaction_entries s2 = transaction_entries s"
    "transactions s2 = transactions s @ [\<lparr>tx_id = t, tx_type = txTypeSettle,
           tx_ref_type = ''settlement_record'', tx_ref_id = sr_ID rec, tx_created_at = clock s\<rparr>]"
    using ok(3) by auto
  have l': "accounts s' = accounts s1" "transactions s' = transactions s1"
    "transaction_entries s' = transaction_entries s1" using l by (simp_all add: ledger_tables_def)
  have zero: "i64 (asset_delta assetCredits (settle_entries rec ?pc ?pp)) = 0"
    using ok(2) by (simp add: ledger_consts)
  have "settles rec n1 n2 t now s s'"
    unfolding settles_def Let_def
  proof (intro conjI zero)
    show "books_of s' = fold book_entry (settle_entries rec ?pc ?pp) (books_of s)"
      using pd books_of_cong [OF l'(1)] books_of_cong [OF s2(1)] by (simp add: posted_def)
  qed (use pd l' s2 r in \<open>auto simp: posted_def\<close>)
  then show ?thesis using info by auto
qed

lemma books_tables: "ledger_tables s' = ledger_tables s \<Longrightarrow> books_of s' = books_of s"
  by (rule books_of_cong) (simp add: ledger_tables_def)

text \<open>Settle on an unsettled record, when it succeeds.\<close>

lemma Settle_settles:
  assumes inv: "ledger_inv s" and run: "Settle i s = (Inr info, s')"
    and rec: "find (\<lambda>x. sr_ID x = i) (settlement_records s) = Some rec" "sr_Status rec \<noteq> ''settled''"
  shows "\<exists>n1 n2 now. points_setting s ''billing.points_per_credit_consumer'' n1 \<and>
    points_setting s ''billing.points_per_credit_provider'' n2 \<and> settles rec n1 n2 (ti_ID info) now s s'"
proof (cases rule: Settle_cases [OF run])
  case (1 f)
  then show ?thesis using rec by simp
next
  case (2 rec' n1 n2 f info')
  have eq: "rec' = rec" "info' = info" using 2 rec by simp_all
  have "ledger_inv (s\<lparr>script := f\<rparr>)" by (rule stable_script [OF ledger_inv_stable inv])
  from settle_tx_settles [OF this] 2(3) have "\<exists>now. settles rec n1 n2 (ti_ID info) now (s\<lparr>script := f\<rparr>) s'"
    by (simp add: eq)
  then show ?thesis using 2(5,6) by (auto simp: settles_def books_of_def [abs_def])
next
  case 3
  then show ?thesis by simp
qed

section \<open>The journal only grows\<close>

definition grown :: "entry list \<Rightarrow> transaction list \<Rightarrow> 'z settle_db_scheme \<Rightarrow> bool" where
  "grown es ts s \<longleftrightarrow> prefix es (transaction_entries s) \<and> prefix ts (transactions s)"

lemma grown_stable: "stable (grown es ts)"
  by (simp add: stable_def grown_def)

lemma grown_frame [frame]:
  "untouched (grown es ts) settlement_records_update" "untouched (grown es ts) api_keys_update"
  "untouched (grown es ts) accounts_update"
  by (simp_all add: untouched_def grown_def)

lemma grown_insert_account: "preserves (grown es ts) (insert_account ot oi as)"
  unfolding insert_account_def by (intro preserves_db_insert_frame grown_stable frame)

lemma grown_postLedger: "preserves (grown es ts) (postLedger ty rt ri ds)"
  unfolding postLedger_def post_entry_def entry_account_def apply_delta_def insert_transaction_def
  by (intro pres preserves_db_insert preserves_db_update_frame grown_insert_account grown_stable frame)
    (auto simp: grown_def prefix_def)

interpretation grow: journal postLedger "grown es ts"
  by unfold_locales (rule grown_stable, rule preserves_keeps [OF grown_postLedger])

lemma Settle_grown: "preserves (grown es ts) (Settle i)"
  unfolding Settle_def settle_read_def settle_tx_def mark_settled_def Let_def
  by (intro pres grow.transact_post preserves_db_update_frame frame grown_stable)

lemma Submit_grown: "preserves (grown es ts) (Submit inp)"
  by (intro Submit_pres grown_stable frame)

lemma CreateRecharge_grown: "preserves (grown es ts) (CreateRecharge inp)"
proof -
  have "grown es ts s'" if inv: "grown es ts s" and run: "CreateRecharge inp s = (r, s')" for s r s'
  proof (cases rule: CreateRecharge_cases [OF run])
    case (1 f g)
    then show ?thesis using inv by (simp add: grown_def)
  next
    case (2 s1 s2 t es' i f info)
    have "grown es ts s1" using inv 2(4) by (simp add: grown_def)
    then have "grown es ts s2" by (rule preserves_run [OF grown_postLedger _ 2(5)])
    then show ?thesis using 2(6) by (simp add: grown_def ledger_tables_def)
  qed
  then show ?thesis unfolding preserves_def by (metis prod.collapse)
qed

section \<open>The life of a record\<close>

text \<open>pending to settled or failed, failed to settled or failed again; settled is final.\<close>

inductive rec_step :: "settlementRecord \<Rightarrow> settlementRecord \<Rightarrow> bool" where
  same: "rec_step r r"
| settle: "sr_Status r \<noteq> ''settled'' \<Longrightarrow> rec_step r
    (r\<lparr>sr_Status := ''settled'', sr_SettledAt := Some now, sr_TransactionID := t,
       sr_PointsToConsumer := pc, sr_PointsToProvider := pp\<rparr>)"
| fail: "sr_Status r \<noteq> ''settled'' \<Longrightarrow> rec_step r (mark_failed e r)"

inductive_cases rec_stepE: "rec_step r r'"

lemma rec_step_settled: "rec_step r r' \<Longrightarrow> sr_Status r = ''settled'' \<Longrightarrow> r' = r"
  by (erule rec_stepE) simp_all

lemma rec_steps_settled: "rec_step\<^sup>*\<^sup>* r r' \<Longrightarrow> sr_Status r = ''settled'' \<Longrightarrow> r' = r"
  by (induction rule: rtranclp_induct) (use rec_step_settled in auto)

text \<open>What never changes: the parties, the amounts and the reference.\<close>

definition sr_terms :: "settlementRecord \<Rightarrow> (string \<times> int) \<times> int \<times> int \<times> int \<times> int \<times> int" where
  "sr_terms r = (sr_ref r, sr_ConsumerUserID r, sr_ProviderUserID r, sr_CostCredits r,
     sr_ProviderRevenueCredits r, sr_CommissionCredits r)"

lemma rec_step_terms: "rec_step r r' \<Longrightarrow> sr_terms r' = sr_terms r \<and> sr_ID r' = sr_ID r"
  by (erule rec_stepE) (auto simp: sr_terms_def sr_ref_def mark_failed_def)

lemma list_all2_map_self: "(\<And>x. x \<in> set xs \<Longrightarrow> P x (f x)) \<Longrightarrow> list_all2 P xs (map f xs)"
  by (induction xs) auto

lemma Settle_rec_steps:
  assumes inv: "settle_inv s" and run: "Settle i s = (r, s')"
  shows "list_all2 rec_step (settlement_records s) (settlement_records s')"
proof -
  have ids: "distinct (map sr_ID (settlement_records s))" using inv by (simp add: settle_inv_def once_def)
  have only: "x = rec" if "find (\<lambda>x. sr_ID x = i) (settlement_records s) = Some rec" "x \<in> set (settlement_records s)"
    "sr_ID x = sr_ID rec" for x rec
    using distinct_map_eq [OF ids that(2)] find_Some_set [OF that(1)] that(3) by auto
  show ?thesis
  proof (cases rule: Settle_cases [OF run])
    case (1 f)
    then show ?thesis by (auto intro: list_all2_refl rec_step.same)
  next
    case (2 rec n1 n2 f info)
    obtain s1 txID es now where "settlement_records s' = map (\<lambda>r. if sr_ID r = sr_ID rec then
       r\<lparr>sr_Status := ''settled'', sr_SettledAt := Some now, sr_TransactionID := txID,
         sr_PointsToConsumer := i64 (sr_CostCredits rec * n1),
         sr_PointsToProvider := i64 (sr_ProviderRevenueCredits rec * n2)\<rparr> else r) (settlement_records s)"
      by (rule settle_tx_ok [OF 2(3)]) auto
    moreover have "sr_Status x \<noteq> ''settled''" if "x \<in> set (settlement_records s)" "sr_ID x = sr_ID rec" for x
      using only [OF 2(1) that] 2(2) by simp
    ultimately show ?thesis by (auto intro!: list_all2_map_self rec_step.same rec_step.settle)
  next
    case (3 rec e f g F)
    moreover have "sr_Status x \<noteq> ''settled''" if "x \<in> set (settlement_records s)" "sr_ID x = sr_ID rec" for x
      using only [OF 3(1) that] 3(2) by simp
    ultimately show ?thesis by (auto intro!: list_all2_map_self rec_step.same rec_step.fail)
  qed
qed

section \<open>Finding what was recorded\<close>

lemma CreateRecharge_found:
  assumes inv: "settle_inv s" and run: "CreateRecharge inp s = (Inr info, s')"
  shows "\<exists>rec. find (\<lambda>x. sr_RefType x = rsi_RefType inp \<and> sr_RefID x = rsi_RefID inp) (settlement_records s')
    = Some rec \<and> ti_ID info = sr_TransactionID rec"
proof (cases rule: CreateRecharge_cases [OF run])
  case (1 f g)
  then show ?thesis by simp
next
  case (2 s1 s2 t es i f info')
  have "settlement_records s' = settlement_records s @ [link_tx t (recharge_record inp (clock s) i)]"
    by (rule recharge_posted_inv(2) [OF inv 2(2,3,4,5,6,7,8)])
  moreover have "find (\<lambda>x. sr_RefType x = rsi_RefType inp \<and> sr_RefID x = rsi_RefID inp) (settlement_records s) = None"
    using 2(3) by (simp add: find_None_set)
  ultimately show ?thesis
    using 2(1,9) by (simp add: find_append link_tx_def recharge_record_def)
qed

lemma CreateRecharge_again:
  assumes run: "CreateRecharge inp s = (r, s')"
    and rec: "find (\<lambda>x. sr_RefType x = rsi_RefType inp \<and> sr_RefID x = rsi_RefID inp) (settlement_records s) = Some rec"
  shows "ledger_tables s' = ledger_tables s \<and> settlement_records s' = settlement_records s \<and>
    (\<forall>info. r = Inr info \<longrightarrow> ti_ID info = sr_TransactionID rec)"
proof (cases rule: CreateRecharge_cases [OF run])
  case (1 f g)
  then show ?thesis using rec by (auto simp: ledger_tables_def)
next
  case 2
  then show ?thesis using find_Some_set [OF rec] by auto
qed

lemma CreateRecharge_credits:
  assumes inv: "settle_inv s" and run: "CreateRecharge inp s = (Inr info, s')"
    and new: "find (\<lambda>x. sr_RefType x = rsi_RefType inp \<and> sr_RefID x = rsi_RefID inp) (settlement_records s) = None"
  shows "books_of s' = book_entry \<lparr>ed_OwnerType = ownerTypeUser, ed_OwnerID = rsi_UserID inp,
     ed_Asset = assetCredits, ed_Delta = rsi_RechargeCredits inp\<rparr> (books_of s)"
proof (cases rule: CreateRecharge_cases [OF run])
  case (1 f g)
  then show ?thesis using new by simp
next
  case (2 s1 s2 t es i f info')
  have "ledger_inv (s\<lparr>script := f, seqs := (seqs s)(''settlement_records'' := i)\<rparr>)"
    using ledger_inv_stable settle_invD(1) [OF inv] 2(2) by (auto simp: stable_def)
  then have inv1: "ledger_inv s1" unfolding 2(4) by (simp add: ledger_inv_def)
  obtain s0 where "posted t (recharge_entries inp) es s0 s2" "accounts s0 = accounts s1"
    using postLedger_ok(3) [OF inv1 2(5)] by blast
  moreover have "accounts s' = accounts s2" using 2(6) by (simp add: ledger_tables_def)
  ultimately show ?thesis
    using books_of_cong [of s' s2] books_of_cong [of s0 s1] books_of_cong [of s1 s]
    by (simp add: posted_def recharge_entries_def 2(4))
qed

lemma Submit_cases:
  assumes run: "Submit inp s = (r, s')"
  obtains (inserted) i f where
      "\<forall>x \<in> set (settlement_records s). \<not> (sr_RefType x = sub_RefType inp \<and> sr_RefID x = sub_RefID inp)"
      "i = seqs s ''settlement_records'' + 1"
      "s' = s\<lparr>script := f, seqs := (seqs s)(''settlement_records'' := i),
         settlement_records := settlement_records s @ [submitted inp (clock s) i]\<rparr>"
      "\<forall>out. r = Inr out \<longrightarrow> (\<exists>rec. find (\<lambda>x. sr_ID x = i) (settlement_records s') = Some rec \<and> out = sr_toDTO rec)"
  | (kept) f g where "s' = s\<lparr>script := f, seqs := g\<rparr>" "\<forall>t. seqs s t \<le> g t"
      "\<forall>out. r = Inr out \<longrightarrow> (\<exists>rec. find (\<lambda>x. sr_RefType x = sub_RefType inp \<and> sr_RefID x = sub_RefID inp)
         (settlement_records s) = Some rec \<and> out = sr_toDTO rec)"
proof -
  let ?ins = "db_insert ''settlement_records'' settlement_records settlement_records_update sr_clash (submitted inp)"
  obtain r0 sa where ins: "?ins s = (r0, sa)" by (cases "?ins s")
  show ?thesis
  proof (cases r0)
    case (Inl err)
    obtain fa ga where sa: "sa = s\<lparr>script := fa, seqs := ga\<rparr>" "\<forall>t. seqs s t \<le> ga t"
      using db_insert_error_eq ins Inl by blast
    let ?m = "bindE (wrapE ''idempotent lookup failed'' (getRecordByRef (sub_RefType inp) (sub_RefID inp)))
          (\<lambda>existing. case existing of
             Some rec \<Rightarrow> returnE (sr_toDTO rec)
           | None \<Rightarrow> throwE (ErrWrap err ''insert settlement record failed''))"
    have m: "?m sa = (r, s')" using run ins Inl by (simp add: Submit_def bindE_def tryE_def)
    have "reads_only ?m" by (intro reads)
    then obtain f where "s' = sa\<lparr>script := f\<rparr>" using reads_onlyD [of ?m sa r s'] m by blast
    moreover have "\<forall>out. r = Inr out \<longrightarrow> (\<exists>rec. find (\<lambda>x. sr_RefType x = sub_RefType inp \<and> sr_RefID x = sub_RefID inp)
         (settlement_records s) = Some rec \<and> out = sr_toDTO rec)"
      using m sa by (auto simp: ok_simps split: option.split_asm dest!: getRecordByRef_ok) (metis)
    ultimately show ?thesis using sa by (intro kept [of ga f]) simp_all
  next
    case (Inr i)
    let ?m = "bindE (getRecord i) (\<lambda>rec. returnE (sr_toDTO rec))"
    have m: "?m sa = (r, s')" using run ins Inr by (simp add: Submit_def bindE_def tryE_def)
    have "reads_only ?m" by (intro reads)
    then obtain f where f: "s' = sa\<lparr>script := f\<rparr>" using reads_onlyD [of ?m sa r s'] m by blast
    have i: "i = seqs s ''settlement_records'' + 1"
      and sa: "sa = s\<lparr>script := tl (script s), seqs := (seqs s)(''settlement_records'' := i),
         settlement_records := settlement_records s @ [submitted inp (clock s) i]\<rparr>"
      and new: "\<forall>x \<in> set (settlement_records s). \<not> (sr_RefType x = sub_RefType inp \<and> sr_RefID x = sub_RefID inp)"
      using ins Inr by (auto simp: ok_simps Let_def sr_clash_def submitted_def)
    have "\<forall>out. r = Inr out \<longrightarrow> (\<exists>rec. find (\<lambda>x. sr_ID x = i) (settlement_records s') = Some rec \<and> out = sr_toDTO rec)"
      using m f by (auto simp: ok_simps dest!: getRecord_ok)
    then show ?thesis using f sa by (intro inserted [where i = i and f = f, OF new i]) simp_all
  qed
qed

end
