(* ===== verification/SettlementClaims.thy ===== *)
theory SettlementClaims
  imports SettlementProps
begin

text \<open>
  The properties of the settlement service, over the invariant and the case analyses of
  SettlementProps.  The witnesses run the operations on the small database \<open>demo_db\<close>: user 5
  has been recharged 1000 micro-credits (record 1, transaction 1) and record 2, a call that
  costs 100, waits to be settled.
\<close>

definition demo_pending :: settlementRecord where
  "demo_pending = \<lparr>sr_ID = 2, sr_ProductType = ''llm'', sr_RefType = ''request'', sr_RefID = 3,
     sr_ConsumerUserID = 5, sr_ProviderUserID = 6, sr_CostCredits = 100, sr_ProviderRevenueCredits = 70,
     sr_CommissionCredits = 30, sr_PointsToConsumer = 0, sr_PointsToProvider = 0, sr_TransactionID = 0,
     sr_Status = ''pending'', sr_ErrorMessage = [], sr_CreatedAt = 8, sr_SettledAt = None, sr_SettleAt = None\<rparr>"

definition demo_recharge :: settlementRecord where
  "demo_recharge = \<lparr>sr_ID = 1, sr_ProductType = ''recharge'', sr_RefType = ''payment_order'', sr_RefID = 9,
     sr_ConsumerUserID = 5, sr_ProviderUserID = 0, sr_CostCredits = 0, sr_ProviderRevenueCredits = 0,
     sr_CommissionCredits = 0, sr_PointsToConsumer = 0, sr_PointsToProvider = 0, sr_TransactionID = 1,
     sr_Status = ''settled'', sr_ErrorMessage = [], sr_CreatedAt = 7, sr_SettledAt = Some 7, sr_SettleAt = None\<rparr>"

definition demo_db :: settle_db where
  "demo_db = \<lparr>script = [], seqs = (\<lambda>_. 2), norows = True, clock = 9,
     system_configs = [\<lparr>cfg_key = ''billing.points_per_credit_consumer'', cfg_value = ''2''\<rparr>],
     accounts = [\<lparr>acc_id = 1, acc_owner_type = ''user'', acc_owner_id = 5, acc_asset = ''credits'',
        acc_balance_micro = 1000, acc_version = 1, acc_created_at = 7\<rparr>],
     transactions = [\<lparr>tx_id = 1, tx_type = ''recharge'', tx_ref_type = ''settlement_record'',
        tx_ref_id = 1, tx_created_at = 7\<rparr>],
     transaction_entries = [\<lparr>ent_id = 1, ent_tx_id = 1, ent_account_id = 1, ent_delta_micro = 1000,
        ent_balance_after_micro = 1000\<rparr>],
     settlement_records = [demo_recharge, demo_pending], api_keys = []\<rparr>"

lemmas demo_defs = demo_db_def demo_pending_def demo_recharge_def

lemma demo_inv: "settle_inv demo_db"
  by (simp add: demo_defs settle_inv_def ledger_inv_def once_def issued_def acc_key_def journal_sum_def
      entries_of_def of_record_def posting_def named_def sr_ref_def i64_id is_i64_def)

lemma demo_settle: "\<exists>info s'. Settle 2 demo_db = (Inr info, s') \<and> script s' = []"
  by (simp add: run demo_defs)

lemma demo_find: "find (\<lambda>x. sr_ID x = 2) (settlement_records demo_db) = Some demo_pending"
  "sr_Status demo_pending \<noteq> ''settled''"
  by (simp_all add: demo_defs)

section \<open>Reachable databases of the service\<close>

definition demo_run :: settle_db where
  "demo_run = snd (CreateRecharge \<lparr>rsi_UserID = 5, rsi_RefType = ''payment_order'', rsi_RefID = 9,
     rsi_RechargeCredits = 1000\<rparr> (empty_db 7 True))"

lemma demo_run_reach: "settle_reach demo_run"
  unfolding demo_run_def by (intro settle_reach.intros)

text \<open>Every account a reachable database holds is the only one of its owner and
  asset, and its balance is the 64-bit sum of the entries journalled for it.\<close>

theorem balance_is_journal:
  assumes "settle_reach s" and "a \<in> set (accounts s)"
  shows "(acc_balance_micro a = i64 (journal_sum (acc_id a) (transaction_entries s))) \<and>
    (\<forall>b \<in> set (accounts s). acc_key b = acc_key a \<longrightarrow> b = a)"
proof (rule conjI)
  have inv: "ledger_inv s" using reach_inv [OF assms(1)] by (rule settle_invD)
  then show "acc_balance_micro a = i64 (journal_sum (acc_id a) (transaction_entries s))"
    using assms(2) by (simp add: ledger_inv_def)
  show "\<forall>b \<in> set (accounts s). acc_key b = acc_key a \<longrightarrow> b = a"
    using inv distinct_map_eq [of acc_key "accounts s" _ a] assms(2) by (auto simp: ledger_inv_def)
qed

lemma demo_run_accounts: "map acc_id (accounts demo_run) = [1]"
  by (simp add: demo_run_def empty_db_def run)

theorem balance_is_journal_witness:
  "\<exists>a. a \<in> set (accounts demo_run) \<and>
     acc_balance_micro a = i64 (journal_sum (acc_id a) (transaction_entries demo_run))"
proof -
  obtain a where "a \<in> set (accounts demo_run)" using demo_run_accounts by (cases "accounts demo_run") auto
  then show ?thesis using balance_is_journal [OF demo_run_reach] by blast
qed

text \<open>Every operation of the settlement service keeps the invariant that ties
  balances to entries and settled records to their transactions, under every pattern of
  failing statements.\<close>

theorem settlement_keeps_invariant:
  "preserves settle_inv (Submit inp) \<and> preserves settle_inv (Settle i) \<and>
   preserves settle_inv (SubmitAndSettle inp) \<and> preserves settle_inv (CreateRecharge rin) \<and>
   preserves settle_inv (RestoreOverdraftKeys u)"
  by (intro conjI Submit_settle_inv Settle_settle_inv SubmitAndSettle_settle_inv
      CreateRecharge_settle_inv RestoreOverdraftKeys_settle_inv)

section \<open>Settle\<close>

text \<open>What a settlement owes every account, from the terms of the record: the consumer pays the cost in
  credits, the provider and the platform are paid revenue and commission, and \<open>pc\<close> and \<open>pp\<close> points go
  to consumer and provider.  One who is both gets the sum.\<close>

definition due :: "settlementRecord \<Rightarrow> int \<Rightarrow> int \<Rightarrow> string \<times> int \<times> string \<Rightarrow> int" where
  "due rec pc pp k =
     (if k = (''user'', sr_ConsumerUserID rec, ''credits'') then - sr_CostCredits rec else 0) +
     (if k = (''user'', sr_ProviderUserID rec, ''credits'') then sr_ProviderRevenueCredits rec else 0) +
     (if k = (''platform'', 0, ''credits'') then sr_CommissionCredits rec else 0) +
     (if k = (''user'', sr_ConsumerUserID rec, ''points'') then pc else 0) +
     (if k = (''user'', sr_ProviderUserID rec, ''points'') then pp else 0)"

lemma fold_books:
  "i64 (m k) = m k \<Longrightarrow> fold book_entry es m k = i64 (m k + sum_list (map ed_Delta (filter (\<lambda>e. ed_key e = k) es)))"
proof (induction es arbitrary: m)
  case (Cons e es)
  have "i64 (book_entry e m k) = book_entry e m k" using Cons.prems by (simp add: book_entry_def)
  then show ?case using Cons.IH [of "book_entry e m"] by (simp add: book_entry_def add.assoc)
qed simp

lemma i64_balance: "ledger_inv s \<Longrightarrow> i64 (books_of s k) = books_of s k"
  by (auto simp: books_of_def ledger_inv_def split: option.split dest!: find_Some_set)

lemma settle_entries_due:
  "i64 (b + sum_list (map ed_Delta (filter (\<lambda>e. ed_key e = k) (settle_entries rec pc pp)))) = i64 (b + due rec pc pp k)"
proof -
  have neg: "i64 (x + (i64 (- c) + y)) = i64 (x + (y - c))" for x c y
    using i64_add_right [of "x + y" "- c"] by (simp add: algebra_simps)
  have neg2: "i64 (x + (y + i64 (- c))) = i64 (x + y - c)" for x c y
    using i64_add_right [of "x + y" "- c"] by (simp add: algebra_simps)
  show ?thesis
    by (auto simp: settle_entries_def due_def ed_key_def ledger_consts neg neg2 algebra_simps)
qed

lemma settles_due:
  assumes "ledger_inv s" "settles rec n1 n2 t now s s'"
  shows "books_of s' k = i64 (books_of s k +
    due rec (i64 (sr_CostCredits rec * n1)) (i64 (sr_ProviderRevenueCredits rec * n2)) k)"
  using assms(2) fold_books [of "books_of s" k, OF i64_balance [OF assms(1)]] settle_entries_due [of "books_of s k" k rec]
  by (simp add: settles_def Let_def)

text \<open>Property C3.  When Settle succeeds on a record that is not settled yet, the consumer's
  credits fall by the cost, the provider's and the platform's grow by revenue and commission, points
  are issued to consumer and provider at the configured rates (1 where the setting is missing,
  unreadable or its query fails) and no other balance moves; one transaction for the record is
  journalled, with one entry per leg, and exactly that record is marked settled with it.\<close>

theorem Settle_posts:
  assumes "settle_inv s" and "Settle i s = (Inr info, s')"
    and "find (\<lambda>x. sr_ID x = i) (settlement_records s) = Some rec" and "sr_Status rec \<noteq> ''settled''"
  shows "\<exists>n1 n2 now news. points_setting s ''billing.points_per_credit_consumer'' n1 \<and>
    points_setting s ''billing.points_per_credit_provider'' n2 \<and>
    (let cost = sr_CostCredits rec; revenue = sr_ProviderRevenueCredits rec;
         pc = i64 (cost * n1); pp = i64 (revenue * n2) in
     (\<forall>k. books_of s' k = i64 (books_of s k + due rec pc pp k)) \<and>
     transactions s' = transactions s @ [\<lparr>tx_id = ti_ID info, tx_type = ''settle'',
       tx_ref_type = ''settlement_record'', tx_ref_id = i, tx_created_at = clock s\<rparr>] \<and>
     transaction_entries s' = transaction_entries s @ news \<and> (\<forall>n \<in> set news. ent_tx_id n = ti_ID info) \<and>
     map ent_delta_micro news = [i64 (- cost), revenue, sr_CommissionCredits rec] @
       filter (\<lambda>n. n \<noteq> 0) [pc, pp] \<and>
     settlement_records s' = map (\<lambda>r. if sr_ID r = i then r\<lparr>sr_Status := ''settled'', sr_SettledAt := Some now,
       sr_TransactionID := ti_ID info, sr_PointsToConsumer := pc, sr_PointsToProvider := pp\<rparr> else r)
       (settlement_records s))"
proof -
  obtain n1 n2 now where n: "points_setting s ''billing.points_per_credit_consumer'' n1"
    "points_setting s ''billing.points_per_credit_provider'' n2" and st: "settles rec n1 n2 (ti_ID info) now s s'"
    using Settle_settles [OF settle_invD(1) [OF assms(1)] assms(2-4)] by blast
  let ?pc = "i64 (sr_CostCredits rec * n1)" and ?pp = "i64 (sr_ProviderRevenueCredits rec * n2)"
  have id: "sr_ID rec = i" using find_Some_set [OF assms(3)] by simp
  have b: "books_of s' k = i64 (books_of s k + due rec ?pc ?pp k)" for k
    by (rule settles_due [OF settle_invD(1) [OF assms(1)] st])
  obtain news where "transaction_entries s' = transaction_entries s @ news" "\<forall>n \<in> set news. ent_tx_id n = ti_ID info"
    "map ent_delta_micro news = map ed_Delta (settle_entries rec ?pc ?pp)"
    using st by (auto simp: settles_def Let_def)
  then show ?thesis
    using n st b id by (intro exI [of _ n1] exI [of _ n2] exI [of _ now] exI [of _ news])
      (simp add: settles_def Let_def settle_entries_def ledger_consts)
qed

theorem Settle_posts_witness:
  "\<exists>info s'. Settle 2 demo_db = (Inr info, s') \<and> books_of s' (''user'', 5, ''credits'') = 900 \<and>
     books_of s' (''user'', 6, ''credits'') = 70 \<and> books_of s' (''platform'', 0, ''credits'') = 30"
proof -
  obtain info s' where r: "Settle 2 demo_db = (Inr info, s')" using demo_settle by blast
  have d: "due demo_pending x y (''user'', 5, ''credits'') = - 100" "due demo_pending x y (''user'', 6, ''credits'') = 70"
    "due demo_pending x y (''platform'', 0, ''credits'') = 30" for x y
    by (simp_all add: due_def demo_pending_def)
  have b: "books_of demo_db (''user'', 5, ''credits'') = 1000" "books_of demo_db (''user'', 6, ''credits'') = 0"
    "books_of demo_db (''platform'', 0, ''credits'') = 0"
    by (simp_all add: books_of_def demo_db_def acc_key_def)
  from Settle_posts [OF demo_inv r demo_find] have
    "\<exists>x y. \<forall>k. books_of s' k = i64 (books_of demo_db k + due demo_pending x y k)"
    unfolding Let_def by blast
  then show ?thesis using r d b by (auto simp: i64_id is_i64_def)
qed

text \<open>What a session does with a record it has read as not settled, whatever has become of the record
  since.\<close>

lemma settle_read_runs:
  assumes inv: "ledger_inv s" and st: "sr_Status rec \<noteq> ''settled''" and run: "settle_read rec s = (r, s')"
  shows "(\<forall>info. r = Inr info \<longrightarrow> ti_ID info = seqs s ''transactions'' + 1 \<and>
      (\<exists>n1 n2 now. settles rec n1 n2 (ti_ID info) now s s')) \<and>
    (\<forall>e. r = Inl e \<longrightarrow> ledger_tables s' = ledger_tables s \<and> (settlement_records s' = settlement_records s \<or>
      settlement_records s' = map (\<lambda>x. if sr_ID x = sr_ID rec then mark_failed e x else x) (settlement_records s)))"
proof -
  obtain n1 f1 where 1: "GetInt ''billing.points_per_credit_consumer'' 1 s = (Inr n1, s\<lparr>script := f1\<rparr>)"
    using GetInt_total [of _ _ s] by fastforce
  obtain n2 f2 where 2: "GetInt ''billing.points_per_credit_provider'' 1 (s\<lparr>script := f1\<rparr>) = (Inr n2, s\<lparr>script := f2\<rparr>)"
    using GetInt_total [of _ _ "s\<lparr>script := f1\<rparr>"] by fastforce
  let ?tx = "settle_tx rec (i64 (sr_CostCredits rec * n1)) (i64 (sr_ProviderRevenueCredits rec * n2))"
  let ?upd = "\<lambda>err. db_update settlement_records settlement_records_update (\<lambda>x. sr_ID x = sr_ID rec) (mark_failed err)"
  obtain r2 s2 where tx: "?tx (s\<lparr>script := f2\<rparr>) = (r2, s2)" by (cases "?tx (s\<lparr>script := f2\<rparr>)")
  have inv2: "ledger_inv (s\<lparr>script := f2\<rparr>)" by (rule stable_script [OF ledger_inv_stable inv])
  show ?thesis
  proof (cases r2)
    case (Inr info)
    have fin: "r = Inr info" "s' = s2"
      using run st 1 2 tx Inr by (simp_all add: settle_read_def Let_def bindE_def tryE_def returnE_def)
    obtain now where "settles rec n1 n2 (ti_ID info) now (s\<lparr>script := f2\<rparr>) s2"
      using settle_tx_settles [OF inv2] tx Inr by blast
    then have "settles rec n1 n2 (ti_ID info) now s s2" by (simp add: settles_def books_of_def [abs_def])
    moreover have "ti_ID info = seqs s ''transactions'' + 1"
    proof (rule settle_tx_ok [OF tx [unfolded Inr]])
      fix u t es now
      let ?s = "(s\<lparr>script := f2\<rparr>)\<lparr>script := tl (script (s\<lparr>script := f2\<rparr>))\<rparr>"
      let ?pc = "i64 (sr_CostCredits rec * n1)" and ?pp = "i64 (sr_ProviderRevenueCredits rec * n2)"
      assume p: "postLedger txTypeSettle ''settlement_record'' (sr_ID rec) (settle_entries rec ?pc ?pp) ?s = (Inr (t, es), u)"
        and info: "info = \<lparr>ti_ID = t, ti_TxType = txTypeSettle, ti_RefType = ''settlement_record'',
                 ti_RefID = sr_ID rec, ti_Entries = es, ti_CreatedAt = None\<rparr>"
      have "ledger_inv ?s" by (rule stable_script [OF ledger_inv_stable inv2])
      from postLedger_tables(2) [OF this p] info show ?thesis by simp
    qed
    ultimately show ?thesis using fin by auto
  next
    case (Inl err)
    obtain r3 s3 where mark: "?upd err s2 = (r3, s3)" by (cases "?upd err s2")
    have fin: "r = Inl err" "s' = s3"
      using run st 1 2 tx Inl mark
      by (simp_all add: settle_read_def Let_def bindE_def tryE_def throwE_def mark_failed_def [abs_def])
    obtain f3 g where s2: "s2 = s\<lparr>script := f3, seqs := g\<rparr>"
      using transact_error_eq [of _ "s\<lparr>script := f2\<rparr>"] tx Inl unfolding settle_tx_def by force
    have "s3 = s2\<lparr>script := tl (script s2)\<rparr> \<or> s3 = s2\<lparr>script := tl (script s2), settlement_records :=
        map (\<lambda>x. if sr_ID x = sr_ID rec then mark_failed err x else x) (settlement_records s2)\<rparr>"
      using mark by (cases "next_fault (script s2)") (auto simp: db_update_def db_call_def Let_def)
    then show ?thesis using fin s2 by (auto simp: ledger_tables_def)
  qed
qed

text \<open>Property C35.  Two sessions that settle one record at the same time settle it twice: one reads
  the record as not settled, another settles it, and then the first goes on.  When it succeeds the
  journal holds two postings of the record and every balance has moved twice; when it fails, nothing more
  is posted, but the settled record may be marked failed.\<close>

theorem settle_race_posts_twice:
  assumes "settle_inv s" and "getRecord i s = (Inr rec, s0)" and "sr_Status rec \<noteq> ''settled''"
    and "Settle i s0 = (Inr info1, s1)" and "settle_read rec s1 = (r, s2)"
  shows "case r of
      Inr info2 \<Rightarrow> ti_ID info2 \<noteq> ti_ID info1 \<and>
        {ti_ID info1, ti_ID info2} \<subseteq> tx_id ` {t \<in> set (transactions s2). tx_type t = ''settle'' \<and>
           tx_ref_type t = ''settlement_record'' \<and> tx_ref_id t = i} \<and>
        (\<exists>pc1 pp1 pc2 pp2. \<forall>k. books_of s2 k = i64 (books_of s k + due rec pc1 pp1 k + due rec pc2 pp2 k))
    | Inl e \<Rightarrow> transactions s2 = transactions s1 \<and> accounts s2 = accounts s1 \<and>
        (settlement_records s2 = settlement_records s1 \<or>
         settlement_records s2 = map (\<lambda>x. if sr_ID x = i then x\<lparr>sr_Status := ''failed'', sr_ErrorMessage := err_text e\<rparr> else x)
           (settlement_records s1))"
proof -
  obtain f where s0: "s0 = s\<lparr>script := f\<rparr>" using reads_onlyD [OF getRecord_reads assms(2)] by blast
  have fnd: "find (\<lambda>x. sr_ID x = i) (settlement_records s) = Some rec" using getRecord_ok [OF assms(2)] by simp
  have id: "sr_ID rec = i" using find_Some_set [OF fnd] by simp
  have inv0: "settle_inv s0" unfolding s0 by (rule stable_script [OF settle_inv_stable assms(1)])
  have inv1: "settle_inv s1" by (rule preserves_run [OF Settle_settle_inv inv0 assms(4)])
  have l1: "ledger_inv s1" by (rule settle_invD(1) [OF inv1])
  have b0: "books_of s0 = books_of s" unfolding s0 by (rule books_of_cong) simp
  have fnd0: "find (\<lambda>x. sr_ID x = i) (settlement_records s0) = Some rec" using fnd by (simp add: s0)
  obtain n1 n2 now1 where st1: "settles rec n1 n2 (ti_ID info1) now1 s0 s1"
    using Settle_settles [OF settle_invD(1) [OF inv0] assms(4) fnd0 assms(3)] by blast
  let ?pc1 = "i64 (sr_CostCredits rec * n1)" and ?pp1 = "i64 (sr_ProviderRevenueCredits rec * n2)"
  have b1: "books_of s1 k = i64 (books_of s k + due rec ?pc1 ?pp1 k)" for k
    using settles_due [OF settle_invD(1) [OF inv0] st1] b0 by simp
  have t1: "transactions s1 = transactions s0 @ [\<lparr>tx_id = ti_ID info1, tx_type = ''settle'',
       tx_ref_type = ''settlement_record'', tx_ref_id = i, tx_created_at = clock s0\<rparr>]"
    using st1 id by (simp add: settles_def Let_def ledger_consts)
  have old: "ti_ID info1 \<le> seqs s1 ''transactions''" using settle_invD(3) [OF inv1] t1 by (simp add: issued_def)
  note r = settle_read_runs [OF l1 assms(3,5)]
  show ?thesis
  proof (cases r)
    case (Inl e)
    then show ?thesis using r id by (auto simp: ledger_tables_def mark_failed_def)
  next
    case (Inr info2)
    obtain n1 n2 now where st: "settles rec n1 n2 (ti_ID info2) now s1 s2" using r Inr by blast
    let ?pc = "i64 (sr_CostCredits rec * n1)" and ?pp = "i64 (sr_ProviderRevenueCredits rec * n2)"
    have "books_of s2 k = i64 (books_of s1 k + due rec ?pc ?pp k)" for k by (rule settles_due [OF l1 st])
    then have b2: "\<forall>k. books_of s2 k = i64 (books_of s k + due rec ?pc1 ?pp1 k + due rec ?pc ?pp k)" using b1 by simp
    have t2: "transactions s2 = transactions s1 @ [\<lparr>tx_id = ti_ID info2, tx_type = ''settle'',
       tx_ref_type = ''settlement_record'', tx_ref_id = i, tx_created_at = clock s1\<rparr>]"
      using st id by (simp add: settles_def Let_def ledger_consts)
    have ne: "ti_ID info2 \<noteq> ti_ID info1" using r Inr old by simp
    let ?S = "{t \<in> set (transactions s2). tx_type t = ''settle'' \<and>
           tx_ref_type t = ''settlement_record'' \<and> tx_ref_id t = i}"
    have "last (transactions s1) \<in> ?S" "last (transactions s2) \<in> ?S" by (simp_all add: t1 t2)
    then have "tx_id (last (transactions s1)) \<in> tx_id ` ?S" "tx_id (last (transactions s2)) \<in> tx_id ` ?S" by blast+
    then have "{ti_ID info1, ti_ID info2} \<subseteq> tx_id ` ?S" by (simp add: t1 t2)
    moreover have "\<exists>pc1 pp1 pc2 pp2. \<forall>k. books_of s2 k = i64 (books_of s k + due rec pc1 pp1 k + due rec pc2 pp2 k)"
      using b2 by blast
    ultimately show ?thesis using Inr ne by simp
  qed
qed

lemma demo_race: "\<exists>info1 s1 info2 s2. getRecord 2 demo_db = (Inr demo_pending, demo_db) \<and>
    Settle 2 demo_db = (Inr info1, s1) \<and> settle_read demo_pending s1 = (Inr info2, s2)"
  by (simp add: run demo_defs)

theorem settle_race_posts_twice_witness:
  "\<exists>info1 s1 info2 s2. Settle 2 demo_db = (Inr info1, s1) \<and> settle_read demo_pending s1 = (Inr info2, s2) \<and>
     books_of s2 (''user'', 5, ''credits'') = 800"
proof -
  obtain info1 s1 info2 s2 where r: "getRecord 2 demo_db = (Inr demo_pending, demo_db)" "Settle 2 demo_db = (Inr info1, s1)"
    "settle_read demo_pending s1 = (Inr info2, s2)" using demo_race by blast
  have d: "due demo_pending x y (''user'', 5, ''credits'') = - 100" for x y
    by (simp add: due_def demo_pending_def)
  have b: "books_of demo_db (''user'', 5, ''credits'') = 1000" by (simp add: books_of_def demo_db_def acc_key_def)
  have "\<exists>x y z w. \<forall>k. books_of s2 k = i64 (books_of demo_db k + due demo_pending x y k + due demo_pending z w k)"
    using settle_race_posts_twice [OF demo_inv r(1) demo_find(2) r(2,3)] by simp
  then have "books_of s2 (''user'', 5, ''credits'') = 800" using d b by (auto simp: i64_id is_i64_def)
  then show ?thesis using r(2,3) by blast
qed

text \<open>When Settle fails, at whatever statement, nothing is journalled and no
  balance moves; at most the status and the error text of that one record change.\<close>

theorem Settle_failure_atomic:
  assumes "Settle i s = (Inl e, s')"
  shows "(accounts s' = accounts s \<and> transactions s' = transactions s \<and>
    transaction_entries s' = transaction_entries s) \<and>
    (settlement_records s' = settlement_records s \<or>
      settlement_records s' = map (\<lambda>r. if sr_ID r = i
        then r\<lparr>sr_Status := ''failed'', sr_ErrorMessage := err_text e\<rparr> else r) (settlement_records s))"
proof -
  have "(accounts s' = accounts s \<and> transactions s' = transactions s \<and>
      transaction_entries s' = transaction_entries s) \<and>
     (settlement_records s' = settlement_records s \<or>
      settlement_records s' = map (\<lambda>r. if sr_ID r = i
        then r\<lparr>sr_Status := ''failed'', sr_ErrorMessage := err_text e\<rparr> else r) (settlement_records s))"
  proof (cases rule: Settle_cases [OF assms])
    case (3 rec e' f g F)
    have "sr_ID rec = i" using find_Some_set [OF 3(1)] by simp
    then show ?thesis using 3 by (auto simp: mark_failed_def)
  qed auto
  then show ?thesis by blast
qed

text \<open>The seventh statement, the update of the provider's balance, fails.\<close>

definition demo_faulty :: settle_db where
  "demo_faulty = demo_db\<lparr>script := replicate 9 None @ [Some ''connection lost'']\<rparr>"

lemma demo_faulty_fails: "\<exists>e s'. Settle 2 demo_faulty = (Inl e, s')"
  by (simp add: demo_faulty_def demo_defs run numeral_eq_Suc)

theorem Settle_failure_atomic_witness:
  "\<exists>e s'. Settle 2 demo_faulty = (Inl e, s') \<and> accounts s' = accounts demo_faulty"
  using demo_faulty_fails Settle_failure_atomic by blast

text \<open>Settling a record again, with any statements failing, posts nothing and
  changes no record; when it answers, it answers with the transaction of the first time.\<close>

theorem Settle_idempotent:
  assumes "settle_inv s" and "Settle i s = (Inr info, s1)" and "Settle i (s1\<lparr>script := f\<rparr>) = (r, s2)"
  shows "(accounts s2 = accounts s1 \<and> transactions s2 = transactions s1 \<and>
    transaction_entries s2 = transaction_entries s1 \<and> settlement_records s2 = settlement_records s1) \<and>
    (\<forall>info2. r = Inr info2 \<longrightarrow> ti_ID info2 = ti_ID info)"
proof -
  obtain rec where rec: "find (\<lambda>x. sr_ID x = i) (settlement_records s1) = Some rec"
    "sr_Status rec = ''settled''" "sr_TransactionID rec = ti_ID info"
  proof (cases rule: Settle_cases [OF assms(2)])
    case (1 f)
    then show ?thesis using that by auto
  next
    case (2 rec n1 n2 f info')
    have id: "sr_ID rec = i" using find_Some_set [OF 2(1)] by simp
    obtain s0 t es now where r: "settlement_records s1 = map (\<lambda>r. if sr_ID r = sr_ID rec then
       r\<lparr>sr_Status := ''settled'', sr_SettledAt := Some now, sr_TransactionID := t,
         sr_PointsToConsumer := i64 (sr_CostCredits rec * n1),
         sr_PointsToProvider := i64 (sr_ProviderRevenueCredits rec * n2)\<rparr> else r) (settlement_records s)"
      and t': "info' = \<lparr>ti_ID = t, ti_TxType = txTypeSettle, ti_RefType = ''settlement_record'',
                 ti_RefID = sr_ID rec, ti_Entries = es, ti_CreatedAt = None\<rparr>"
      by (rule settle_tx_ok [OF 2(3)]) auto
    have t: "ti_ID info = t" using t' 2(4) by simp
    have "(\<lambda>x. sr_ID (if sr_ID x = i then x\<lparr>sr_Status := ''settled'', sr_SettledAt := Some now, sr_TransactionID := t,
         sr_PointsToConsumer := i64 (sr_CostCredits rec * n1),
         sr_PointsToProvider := i64 (sr_ProviderRevenueCredits rec * n2)\<rparr> else x) = i) = (\<lambda>x. sr_ID x = i)"
      by auto
    then show ?thesis using 2(1) id t by (intro that) (auto simp: r find_map)
  next
    case 3
    then show ?thesis by simp
  qed
  have "(accounts s2 = accounts s1 \<and> transactions s2 = transactions s1 \<and>
      transaction_entries s2 = transaction_entries s1 \<and> settlement_records s2 = settlement_records s1) \<and>
    (\<forall>info2. r = Inr info2 \<longrightarrow> ti_ID info2 = ti_ID info)"
  proof (cases rule: Settle_cases [OF assms(3)])
    case (1 f')
    have "\<forall>info2. r = Inr info2 \<longrightarrow> ti_ID info2 = ti_ID info"
      using 1(2) rec(1,3) by (metis option.inject settle_db.select_convs(1) settle_db.surjective store.update_convs(1))
    moreover have "accounts s2 = accounts s1 \<and> transactions s2 = transactions s1 \<and>
      transaction_entries s2 = transaction_entries s1 \<and> settlement_records s2 = settlement_records s1"
      unfolding 1(1) by simp
    ultimately show ?thesis by blast
  next
    case 2
    then show ?thesis using rec by simp
  next
    case 3
    then show ?thesis using rec by simp
  qed
  then show ?thesis by blast
qed

lemma demo_settle_twice: "\<exists>info s1 r s2. Settle 2 demo_db = (Inr info, s1) \<and> Settle 2 (s1\<lparr>script := []\<rparr>) = (r, s2)"
  using demo_settle by (metis surj_pair)

theorem Settle_idempotent_witness:
  "\<exists>info s1 r s2. Settle 2 demo_db = (Inr info, s1) \<and> Settle 2 (s1\<lparr>script := []\<rparr>) = (r, s2) \<and>
     accounts s2 = accounts s1"
proof -
  obtain info s1 r s2 where 1: "Settle 2 demo_db = (Inr info, s1)" and 2: "Settle 2 (s1\<lparr>script := []\<rparr>) = (r, s2)"
    using demo_settle_twice by blast
  show ?thesis using 1 2 Settle_idempotent [OF demo_inv 1 2] by blast
qed

text \<open>Whatever Settle does, and whichever statements fail, the sum of all credit
  balances does not change (as 64-bit integers): a settlement only moves credits.\<close>

theorem Settle_conserves_credits:
  assumes "settle_inv s" and "Settle i s = (r, s')"
  shows "i64 (total_asset assetCredits (accounts s')) = i64 (total_asset assetCredits (accounts s))"
proof (cases rule: Settle_cases [OF assms(2)])
  case (2 rec n1 n2 f info)
  have "ledger_inv (s\<lparr>script := f\<rparr>)"
    by (rule stable_script [OF ledger_inv_stable settle_invD(1) [OF assms(1)]])
  then obtain now where "settles rec n1 n2 (ti_ID info) now (s\<lparr>script := f\<rparr>) s'"
    using settle_tx_settles 2(3) by blast
  then obtain es where "i64 (total_asset assetCredits (accounts s')) =
      i64 (total_asset assetCredits (accounts s) + asset_delta assetCredits es)"
    and "i64 (asset_delta assetCredits es) = 0" by (auto simp: settles_def Let_def)
  then show ?thesis
    using i64_add_right [of "total_asset assetCredits (accounts s)" "asset_delta assetCredits es"] by simp
qed simp_all

theorem Settle_conserves_credits_witness:
  "i64 (total_asset assetCredits (accounts (snd (Settle 2 demo_db)))) = 1000"
  using Settle_conserves_credits [OF demo_inv, of 2 "fst (Settle 2 demo_db)" "snd (Settle 2 demo_db)"]
  by (simp add: demo_db_def total_asset_def assetCredits_def i64_id is_i64_def)

text \<open>Property C5.  A record lives by the step relation: pending or failed may become settled
  or failed, settled is final, and the parties, the amounts and the reference never change.
  Settle moves every record by one step and adds or removes none.\<close>

theorem Settle_lifecycle:
  assumes "settle_inv s" and "Settle i s = (r, s')"
  shows "(list_all2 rec_step (settlement_records s) (settlement_records s')) \<and>
    (list_all2 (\<lambda>x x'. sr_terms x' = sr_terms x \<and> sr_ID x' = sr_ID x \<and>
      (sr_Status x = ''settled'' \<longrightarrow> x' = x)) (settlement_records s) (settlement_records s'))"
proof (rule conjI)
  show steps: "list_all2 rec_step (settlement_records s) (settlement_records s')"
    by (rule Settle_rec_steps [OF assms])
  show "list_all2 (\<lambda>x x'. sr_terms x' = sr_terms x \<and> sr_ID x' = sr_ID x \<and>
      (sr_Status x = ''settled'' \<longrightarrow> x' = x)) (settlement_records s) (settlement_records s')"
    by (rule list_all2_mono [OF steps]) (use rec_step_terms rec_step_settled in blast)
qed

theorem Settle_lifecycle_witness:
  "list_all2 rec_step [demo_recharge, demo_pending] (settlement_records (snd (Settle 2 demo_db)))"
  using Settle_lifecycle [OF demo_inv, of 2 "fst (Settle 2 demo_db)" "snd (Settle 2 demo_db)"]
  by (simp add: demo_db_def)

text \<open>The journal is append-only: no operation of the settlement service changes
  or removes an entry or a transaction that has been written.\<close>

theorem journal_append_only:
  "preserves (grown es ts) (Submit inp) \<and> preserves (grown es ts) (Settle i) \<and>
   preserves (grown es ts) (CreateRecharge rin) \<and> preserves (grown es ts) (RestoreOverdraftKeys u)"
  by (intro conjI Submit_grown Settle_grown CreateRecharge_grown RestoreOverdraftKeys_pres
      grown_stable frame)

section \<open>Submit and recharge\<close>

text \<open>Submitting a reference a second time, with any amounts and any statements
  failing, adds and changes no record; when it answers, it answers with the first record.\<close>

theorem Submit_idempotent:
  assumes "settle_inv s" and "Submit inp s = (Inr out, s1)"
    and "sub_RefType inp2 = sub_RefType inp" and "sub_RefID inp2 = sub_RefID inp"
    and "Submit inp2 (s1\<lparr>script := f\<rparr>) = (r, s2)"
  shows "(settlement_records s2 = settlement_records s1) \<and>
    (\<forall>out2. r = Inr out2 \<longrightarrow> out2 = out)"
proof -
  let ?P = "\<lambda>x. sr_RefType x = sub_RefType inp \<and> sr_RefID x = sub_RefID inp"
  obtain rec where rec: "find ?P (settlement_records s1) = Some rec" "out = sr_toDTO rec"
  proof (cases rule: Submit_cases [OF assms(2)])
    case (1 i f)
    let ?r = "submitted inp (clock s) i"
    have "find (\<lambda>x. sr_ID x = i) (settlement_records s) = None"
      using settle_invD(3) [OF assms(1)] 1(2) by (force simp: find_None_set issued_def)
    then have "find (\<lambda>x. sr_ID x = i) (settlement_records s1) = Some ?r"
      by (simp add: 1(3) find_append submitted_def)
    moreover have "find ?P (settlement_records s) = None" using 1(1) by (simp add: find_None_set)
    then have "find ?P (settlement_records s1) = Some ?r" by (simp add: 1(3) find_append submitted_def)
    ultimately show ?thesis using that 1(4) by auto
  next
    case (2 f g)
    then show ?thesis using that by auto
  qed
  have "settlement_records s2 = settlement_records s1 \<and> (\<forall>out2. r = Inr out2 \<longrightarrow> out2 = out)"
  proof (cases rule: Submit_cases [OF assms(5)])
    case (1 i f)
    then show ?thesis using find_Some_set [OF rec(1)] assms(3,4) by auto
  next
    case (2 f g)
    then show ?thesis using rec assms(3,4) by auto
  qed
  then show ?thesis by blast
qed

definition demo_submit :: SettlementSubmitIn where
  "demo_submit = \<lparr>sub_ProductType = ''llm'', sub_RefType = ''request'', sub_RefID = 4, sub_ConsumerUserID = 5,
     sub_ProviderUserID = 6, sub_CostCredits = 10, sub_ProviderRevenueCredits = 7,
     sub_CommissionCredits = 3, sub_PointsToConsumer = 0, sub_PointsToProvider = 0\<rparr>"

lemma demo_submits: "\<exists>out s1 r s2. Submit demo_submit demo_db = (Inr out, s1) \<and>
    Submit demo_submit (s1\<lparr>script := []\<rparr>) = (r, s2)"
  by (simp add: run demo_defs demo_submit_def)

theorem Submit_idempotent_witness:
  "\<exists>out s1 r s2. Submit demo_submit demo_db = (Inr out, s1) \<and>
     Submit demo_submit (s1\<lparr>script := []\<rparr>) = (r, s2) \<and> settlement_records s2 = settlement_records s1"
proof -
  obtain out s1 r s2 where 1: "Submit demo_submit demo_db = (Inr out, s1)"
    and 2: "Submit demo_submit (s1\<lparr>script := []\<rparr>) = (r, s2)"
    using demo_submits by blast
  show ?thesis using 1 2 Submit_idempotent [OF demo_inv 1 refl refl 2] by blast
qed

text \<open>A recharge credits its user exactly once per reference: the first call that
  succeeds adds the amount to the user's credits and to nothing else, and every later call
  for the same reference, whatever its amount and whichever statements fail, leaves the books
  and the records as they are and can only answer with the first transaction.\<close>

theorem CreateRecharge_exactly_once:
  assumes "settle_inv s" and "CreateRecharge inp s = (Inr info, s1)"
    and "rsi_RefType inp2 = rsi_RefType inp" and "rsi_RefID inp2 = rsi_RefID inp"
    and "CreateRecharge inp2 (s1\<lparr>script := f\<rparr>) = (r, s2)"
  shows "((\<forall>x \<in> set (settlement_records s). sr_ref x \<noteq> (rsi_RefType inp, rsi_RefID inp)) \<longrightarrow>
      books_of s1 = (books_of s)((ownerTypeUser, rsi_UserID inp, assetCredits) :=
        i64 (books_of s (ownerTypeUser, rsi_UserID inp, assetCredits) + rsi_RechargeCredits inp))) \<and>
    (accounts s2 = accounts s1 \<and> transactions s2 = transactions s1 \<and>
      transaction_entries s2 = transaction_entries s1 \<and> settlement_records s2 = settlement_records s1) \<and>
    (\<forall>info2. r = Inr info2 \<longrightarrow> ti_ID info2 = ti_ID info)"
proof -
  let ?P = "\<lambda>x. sr_RefType x = rsi_RefType inp \<and> sr_RefID x = rsi_RefID inp"
  have new: "(\<forall>x \<in> set (settlement_records s). sr_ref x \<noteq> (rsi_RefType inp, rsi_RefID inp)) \<longrightarrow>
      books_of s1 = (books_of s)((ownerTypeUser, rsi_UserID inp, assetCredits) :=
        i64 (books_of s (ownerTypeUser, rsi_UserID inp, assetCredits) + rsi_RechargeCredits inp))"
  proof
    assume "\<forall>x \<in> set (settlement_records s). sr_ref x \<noteq> (rsi_RefType inp, rsi_RefID inp)"
    then have "find ?P (settlement_records s) = None" by (auto simp: find_None_set sr_ref_def)
    from CreateRecharge_credits [OF assms(1,2) this]
    show "books_of s1 = (books_of s)((ownerTypeUser, rsi_UserID inp, assetCredits) :=
        i64 (books_of s (ownerTypeUser, rsi_UserID inp, assetCredits) + rsi_RechargeCredits inp))"
      by (simp add: book_entry_def ed_key_def)
  qed
  obtain rec where rec: "find ?P (settlement_records s1) = Some rec" "ti_ID info = sr_TransactionID rec"
    using CreateRecharge_found [OF assms(1,2)] by blast
  have "ledger_tables s2 = ledger_tables s1 \<and> settlement_records s2 = settlement_records s1 \<and>
      (\<forall>info2. r = Inr info2 \<longrightarrow> ti_ID info2 = ti_ID info)"
    using CreateRecharge_again [OF assms(5), of rec] rec assms(3,4) by (simp add: ledger_tables_def)
  then show ?thesis using new unfolding ledger_tables_def prod.inject by blast
qed

definition demo_recharge_in :: RechargeSettlementIn where
  "demo_recharge_in = \<lparr>rsi_UserID = 5, rsi_RefType = ''payment_order'', rsi_RefID = 10, rsi_RechargeCredits = 50\<rparr>"

lemma demo_recharges: "\<exists>info s1 r s2. CreateRecharge demo_recharge_in demo_db = (Inr info, s1) \<and>
    CreateRecharge demo_recharge_in (s1\<lparr>script := []\<rparr>) = (r, s2)"
  by (simp add: run demo_defs demo_recharge_in_def)

theorem CreateRecharge_exactly_once_witness:
  "\<exists>info s1 r s2. CreateRecharge demo_recharge_in demo_db = (Inr info, s1) \<and>
     CreateRecharge demo_recharge_in (s1\<lparr>script := []\<rparr>) = (r, s2) \<and> accounts s2 = accounts s1"
proof -
  obtain info s1 r s2 where 1: "CreateRecharge demo_recharge_in demo_db = (Inr info, s1)"
    and 2: "CreateRecharge demo_recharge_in (s1\<lparr>script := []\<rparr>) = (r, s2)"
    using demo_recharges by blast
  show ?thesis using 1 2 CreateRecharge_exactly_once [OF demo_inv 1 refl refl 2] by blast
qed

section \<open>The optimistic lock of the accounts\<close>

text \<open>An account row that has moved on since it was read is not written.\<close>

lemma apply_delta_stale:
  assumes "\<forall>a \<in> set (accounts s). acc_id a = acc_id acc \<longrightarrow> acc_version a \<noteq> acc_version acc"
    and "apply_delta m1 m2 t acc d nb s = (r, s')"
  shows "isl r \<and> ledger_tables s' = ledger_tables s"
proof -
  have none: "filter (\<lambda>a. acc_id a = acc_id acc \<and> acc_version a = acc_version acc) (accounts s) = []"
    using assms(1) by (auto simp: filter_empty_conv)
  have same: "map (\<lambda>a. if acc_id a = acc_id acc \<and> acc_version a = acc_version acc
      then a\<lparr>acc_balance_micro := nb, acc_version := acc_version a + 1\<rparr> else a) (accounts s) = accounts s"
    using assms(1) by (intro map_idI) auto
  show ?thesis
    using assms(2) none same
    by (cases "next_fault (script s)")
      (auto simp: apply_delta_def bindE_def wrapE_def throwE_def db_update_def db_call_def Let_def ledger_tables_def)
qed

text \<open>Property C4.  Two sessions that have read the same version of an account cannot both post
  to it: once the first has written, the second is refused ("account version conflict") and
  changes no balance and no journal row, so no update is lost.\<close>

theorem no_lost_update:
  assumes "distinct (map acc_id (accounts s))" and "acc \<in> set (accounts s)"
    and "apply_delta m1 m2 t1 acc d1 nb1 s = (Inr e1, s1)"
    and "apply_delta m3 m4 t2 acc d2 nb2 (s1\<lparr>script := f\<rparr>) = (r, s2)"
  shows "isl r \<and> accounts s2 = accounts s1 \<and> transactions s2 = transactions s1 \<and>
    transaction_entries s2 = transaction_entries s1"
proof -
  have b: "accounts s1 = bump (acc_id acc) nb1 (accounts s)"
    by (rule apply_delta_ok [OF assms(1-3)])
  have "acc_version a \<noteq> acc_version acc" if a: "a \<in> set (accounts s1)" "acc_id a = acc_id acc" for a
  proof -
    obtain x where "x \<in> set (accounts s)" "acc_id x = acc_id acc" "acc_version a = acc_version x + 1"
      using a unfolding b bump_def by (auto split: if_splits)
    moreover from this have "x = acc" using distinct_map_eq [OF assms(1) _ assms(2)] by blast
    ultimately show ?thesis by simp
  qed
  then show ?thesis using apply_delta_stale [OF _ assms(4)] by (simp add: ledger_tables_def)
qed

definition demo_acc :: account where
  "demo_acc = \<lparr>acc_id = 1, acc_owner_type = ''user'', acc_owner_id = 5, acc_asset = ''credits'',
        acc_balance_micro = 1000, acc_version = 1, acc_created_at = 7\<rparr>"

lemma demo_deltas: "\<exists>e1 s1 r s2. apply_delta [] [] 3 demo_acc 5 1005 demo_db = (Inr e1, s1) \<and>
    apply_delta [] [] 4 demo_acc 7 1007 (s1\<lparr>script := []\<rparr>) = (r, s2)"
  by (simp add: run demo_defs demo_acc_def)

theorem no_lost_update_witness:
  "\<exists>e1 s1 r s2. apply_delta [] [] 3 demo_acc 5 1005 demo_db = (Inr e1, s1) \<and>
     apply_delta [] [] 4 demo_acc 7 1007 (s1\<lparr>script := []\<rparr>) = (r, s2) \<and> isl r"
proof -
  obtain e1 s1 r s2 where 1: "apply_delta [] [] 3 demo_acc 5 1005 demo_db = (Inr e1, s1)"
    and 2: "apply_delta [] [] 4 demo_acc 7 1007 (s1\<lparr>script := []\<rparr>) = (r, s2)"
    using demo_deltas by blast
  have "distinct (map acc_id (accounts demo_db))" "demo_acc \<in> set (accounts demo_db)"
    by (simp_all add: demo_db_def demo_acc_def)
  then show ?thesis using 1 2 no_lost_update [OF _ _ 1 2] by blast
qed

text \<open>Property C2.  A posting refines the abstract books: when postLedger succeeds, the balances
  are those obtained by booking its entries one after the other, one journal row per entry is
  appended under one new transaction, and a posting that is not a recharge moved credits
  without creating any.\<close>

theorem postLedger_refines_books:
  assumes "ledger_inv s" and "postLedger ty rt ri es s = (Inr (t, infos), s')"
  shows "(books_of s' = fold book_entry es (books_of s)) \<and>
    (transactions s' = transactions s @
      [\<lparr>tx_id = t, tx_type = ty, tx_ref_type = rt, tx_ref_id = ri, tx_created_at = clock s\<rparr>]) \<and>
    (\<exists>news. transaction_entries s' = transaction_entries s @ news \<and>
      map ent_delta_micro news = map ed_Delta es \<and> (\<forall>n \<in> set news. ent_tx_id n = t) \<and>
      infos = map (\<lambda>n. \<lparr>ei_ID = ent_id n, ei_AccountID = ent_account_id n,
          ei_DeltaMicro = ent_delta_micro n, ei_BalanceAfterMicro = ent_balance_after_micro n\<rparr>) news) \<and>
    (ty \<noteq> txTypeRecharge \<longrightarrow>
      i64 (total_asset assetCredits (accounts s')) = i64 (total_asset assetCredits (accounts s)))"
proof (intro conjI)
  obtain s1 where p: "posted t es infos s1 s'" and s1: "accounts s1 = accounts s"
    "transaction_entries s1 = transaction_entries s"
    "transactions s1 = transactions s @
      [\<lparr>tx_id = t, tx_type = ty, tx_ref_type = rt, tx_ref_id = ri, tx_created_at = clock s\<rparr>]"
    using postLedger_ok(3) [OF assms] by blast
  show "books_of s' = fold book_entry es (books_of s)"
    using p books_of_cong [OF s1(1)] by (simp add: posted_def)
  show "transactions s' = transactions s @
      [\<lparr>tx_id = t, tx_type = ty, tx_ref_type = rt, tx_ref_id = ri, tx_created_at = clock s\<rparr>]"
    using p s1(3) by (simp add: posted_def)
  show "\<exists>news. transaction_entries s' = transaction_entries s @ news \<and>
      map ent_delta_micro news = map ed_Delta es \<and> (\<forall>n \<in> set news. ent_tx_id n = t) \<and>
      infos = map (\<lambda>n. \<lparr>ei_ID = ent_id n, ei_AccountID = ent_account_id n,
          ei_DeltaMicro = ent_delta_micro n, ei_BalanceAfterMicro = ent_balance_after_micro n\<rparr>) news"
    using p s1(2) by (simp add: posted_def)
  show "ty \<noteq> txTypeRecharge \<longrightarrow>
      i64 (total_asset assetCredits (accounts s')) = i64 (total_asset assetCredits (accounts s))"
  proof
    assume "ty \<noteq> txTypeRecharge"
    then have "i64 (asset_delta assetCredits es) = 0" using postLedger_ok(2) [OF assms] by simp
    then show "i64 (total_asset assetCredits (accounts s')) = i64 (total_asset assetCredits (accounts s))"
      using p s1(1) i64_add_right [of "total_asset assetCredits (accounts s)" "asset_delta assetCredits es"]
      by (simp add: posted_def)
  qed
qed

definition demo_entries :: "entryDelta list" where
  "demo_entries = settle_entries demo_pending 0 7"

lemma demo_posts: "\<exists>t infos s'. postLedger ''settle'' ''settlement_record'' 2 demo_entries demo_db = (Inr (t, infos), s')"
  by (simp add: run demo_defs demo_entries_def)

theorem postLedger_refines_books_witness:
  "\<exists>t infos s'. postLedger ''settle'' ''settlement_record'' 2 demo_entries demo_db = (Inr (t, infos), s') \<and>
     books_of s' = fold book_entry demo_entries (books_of demo_db)"
  using demo_posts postLedger_refines_books [OF settle_invD(1) [OF demo_inv]] by blast

section \<open>Overdraft\<close>

text \<open>Restoring keys touches api_keys only; when it succeeds and the user's credit
  balance (0 when the account is missing) is not negative, exactly that user's live keys that
  are disabled for overdraft are enabled again, and with a negative balance none is.\<close>

theorem RestoreOverdraftKeys_exact:
  assumes "RestoreOverdraftKeys u s = (Inr r, s')"
  shows "(ledger_tables s' = ledger_tables s \<and> settlement_records s' = settlement_records s) \<and>
    (api_keys s' = (if books_of s (ownerTypeUser, u, assetCredits) < 0 then api_keys s
      else map (\<lambda>k. if ak_user_id k = u \<and> ak_status k = 0 \<and> ak_disabled_reason k = ''overdraft'' \<and>
          ak_deleted_at k = None
        then k\<lparr>ak_status := 1, ak_disabled_reason := [], ak_updated_at := clock s\<rparr> else k) (api_keys s)))"
proof (rule conjI)
  obtain acc s1 where scan: "scan_account ownerTypeUser u assetCredits s = (Inr acc, s1)"
    and rest: "(if (case acc of None \<Rightarrow> 0 | Some a \<Rightarrow> acc_balance_micro a) < 0 then returnE () else
      bindE (getsE clock) (\<lambda>now.
      bindE (wrapE ''restore overdraft keys failed''
        (db_update api_keys api_keys_update
           (\<lambda>k. ak_user_id k = u \<and> ak_status k = 0 \<and> ak_disabled_reason k = ''overdraft'' \<and>
                ak_deleted_at k = None)
           (\<lambda>k. k\<lparr>ak_status := 1, ak_disabled_reason := [], ak_updated_at := now\<rparr>)))
      (\<lambda>_. returnE ()))) s1 = (Inr r, s')"
    using assms by (auto simp only: RestoreOverdraftKeys_def bindE_ok wrapE_ok)
  have acc: "(case acc of None \<Rightarrow> 0 | Some a \<Rightarrow> acc_balance_micro a) = books_of s (ownerTypeUser, u, assetCredits)"
    and s1: "s1 = s\<lparr>script := tl (script s)\<rparr>"
    using scan by (auto simp: scan_account_def db_scan_ok scan_account_key books_of_def)
  show "ledger_tables s' = ledger_tables s \<and> settlement_records s' = settlement_records s"
    using rest unfolding acc s1 by (auto simp: ok_simps ledger_tables_def split: if_splits)
  show "api_keys s' = (if books_of s (ownerTypeUser, u, assetCredits) < 0 then api_keys s
      else map (\<lambda>k. if ak_user_id k = u \<and> ak_status k = 0 \<and> ak_disabled_reason k = ''overdraft'' \<and>
          ak_deleted_at k = None
        then k\<lparr>ak_status := 1, ak_disabled_reason := [], ak_updated_at := clock s\<rparr> else k) (api_keys s))"
    using rest unfolding acc s1 by (auto simp: ok_simps split: if_splits)
qed

lemma demo_restore: "\<exists>s'. RestoreOverdraftKeys 5 demo_db = (Inr (), s')"
  by (simp add: run demo_defs)

theorem RestoreOverdraftKeys_exact_witness:
  "\<exists>s'. RestoreOverdraftKeys 5 demo_db = (Inr (), s') \<and> ledger_tables s' = ledger_tables demo_db"
  using demo_restore RestoreOverdraftKeys_exact by blast

text \<open>A user without a credits account: the ORM's ErrNoRows is returned as an error.\<close>

lemma RestoreOverdraftKeys_no_account:
  "norows s \<Longrightarrow> script s = [] \<Longrightarrow> \<forall>a \<in> set (accounts s). acc_key a \<noteq> (ownerTypeUser, u, assetCredits) \<Longrightarrow>
    fst (RestoreOverdraftKeys u s) = Inl (ErrWrap ErrNoRows ''query credits account failed'')"
  by (simp add: RestoreOverdraftKeys_def bindE_def wrapE_def scan_account_def scan_account_key db_scan_def
      find_None_set [THEN iffD2])

section \<open>Listing\<close>

text \<open>The pages of the settlement listing partition it: on a working database the
  first \<open>k\<close> pages of size \<open>n\<close>, one after the other, are the first \<open>k * n\<close> matching records in
  descending id order, and every page reports the number of all matching records.\<close>

theorem ListSettlements_pages:
  assumes "script s = []" and "0 < n"
  shows "(concat (map (\<lambda>p. case ListSettlements st pt (int p) (int n) s of (Inr (rs, cnt), s') \<Rightarrow> rs | _ \<Rightarrow> [])
      [1..<Suc k]) =
    take (k * n) (map sr_toDTO (order_desc sr_ID (filter (settlement_matches st pt) (settlement_records s))))) \<and>
    (\<exists>rs s'. ListSettlements st pt page sz s =
      (Inr (rs, int (length (filter (settlement_matches st pt) (settlement_records s)))), s'))"
proof (rule conjI)
  let ?all = "order_desc sr_ID (filter (settlement_matches st pt) (settlement_records s))"
  have run: "ListSettlements st pt page sz s = (Inr (map sr_toDTO (limit_offset (page_or 20 sz)
      ((page_or 1 page - 1) * page_or 20 sz) ?all),
      int (length (filter (settlement_matches st pt) (settlement_records s)))), s)" for page sz
    using assms(1) by (simp add: ListSettlements_def eff_defs db_count_def db_select_def Let_def)
  show "\<exists>rs s'. ListSettlements st pt page sz s =
      (Inr (rs, int (length (filter (settlement_matches st pt) (settlement_records s)))), s')"
    by (simp add: run)
  have "(\<lambda>p. case ListSettlements st pt (int p) (int n) s of (Inr (rs, cnt), s') \<Rightarrow> rs | _ \<Rightarrow> []) p =
      map sr_toDTO (take n (drop ((p - 1) * n) ?all))" if "p \<in> set [1..<Suc k]" for p
  proof -
    have "1 \<le> p" using that unfolding set_upt by simp
    then obtain q where q: "p = Suc q" by (cases p) auto
    have "nat ((int p - 1) * int n) = nat (int (q * n))" by (simp add: q)
    then have "nat ((int p - 1) * int n) = (p - 1) * n" by (simp only: nat_int q diff_Suc_1)
    then show ?thesis using that assms(2) by (simp add: run page_or_def limit_offset_def)
  qed
  then have "map (\<lambda>p. case ListSettlements st pt (int p) (int n) s of (Inr (rs, cnt), s') \<Rightarrow> rs | _ \<Rightarrow> []) [1..<Suc k]
      = map (\<lambda>p. map sr_toDTO (take n (drop ((p - 1) * n) ?all))) [1..<Suc k]"
    by (rule map_cong [OF refl])
  moreover have "concat (map (\<lambda>p. map sr_toDTO (take n (drop ((p - 1) * n) xs))) [1..<Suc k]) =
      map sr_toDTO (take (k * n) xs)" for xs k
  proof (induction k)
    case (Suc k)
    have "take (Suc k * n) xs = take (k * n) xs @ take n (drop (k * n) xs)"
      by (simp only: mult_Suc add.commute [of n] take_add)
    then show ?case using Suc by simp
  qed simp
  ultimately show "concat (map (\<lambda>p. case ListSettlements st pt (int p) (int n) s of (Inr (rs, cnt), s') \<Rightarrow> rs | _ \<Rightarrow> [])
      [1..<Suc k]) =
    take (k * n) (map sr_toDTO (order_desc sr_ID (filter (settlement_matches st pt) (settlement_records s))))"
    by (simp only: take_map)
qed

theorem ListSettlements_pages_witness:
  "concat (map (\<lambda>p. case ListSettlements [] [] (int p) (int 1) demo_db of (Inr (rs, cnt), s') \<Rightarrow> rs | _ \<Rightarrow> [])
      [1..<Suc 2]) =
    take (2 * 1) (map sr_toDTO (order_desc sr_ID (filter (settlement_matches [] []) (settlement_records demo_db))))"
  by (rule ListSettlements_pages [THEN conjunct1]) (simp_all add: demo_db_def)

end
