(* ===== verification/Billing.thy ===== *)
theory Billing
  imports SettlementProps
begin

text \<open>
  The billing service, \<^verbatim>\<open>internal/logic/billing/billing.go\<close>: accounts, one-sided
  credits and debits, recharges by way of the settlement service, and the listings.  The
  statements that read or create the account of an owner and the conditional update with its
  journal row are those of the ledger (\<open>entry_account\<close>, \<open>apply_delta\<close>), written out again in
  the code.
\<close>

record AccountInfo =
  ai_ID :: int
  ai_OwnerType :: string
  ai_OwnerID :: int
  ai_Asset :: string
  ai_BalanceMicro :: int
  ai_CreatedAt :: int

definition acc_toDTO :: "account \<Rightarrow> AccountInfo" where
  "acc_toDTO a = \<lparr>ai_ID = acc_id a, ai_OwnerType = acc_owner_type a, ai_OwnerID = acc_owner_id a,
     ai_Asset = acc_asset a, ai_BalanceMicro = acc_balance_micro a, ai_CreatedAt = acc_created_at a\<rparr>"

text \<open>\<^verbatim>\<open>dto.CreditAccountIn\<close> and \<^verbatim>\<open>dto.DebitAccountIn\<close> have the same fields.\<close>

record CreditAccountIn =
  ca_Asset :: string
  ca_AmountMicro :: int
  ca_OwnerType :: string
  ca_OwnerID :: int
  ca_RefType :: string
  ca_RefID :: int

section \<open>Accounts\<close>

definition queryAccount :: "string \<Rightarrow> int \<Rightarrow> string \<Rightarrow> ('z settle_db_scheme, account option) eff" where
  "queryAccount ownerType ownerID asset =
     wrapE ''query account failed'' (unlessNoRows (scan_account ownerType ownerID asset))"

definition EnsureAccount :: "string \<Rightarrow> int \<Rightarrow> string \<Rightarrow> ('z settle_db_scheme, AccountInfo) eff" where
  "EnsureAccount ownerType ownerID asset =
     bindE (queryAccount ownerType ownerID asset) (\<lambda>acc. case acc of
       Some a \<Rightarrow> returnE (acc_toDTO a)
     | None \<Rightarrow>
        bindE (wrapE ''create account failed'' (insert_account ownerType ownerID asset)) (\<lambda>_.
        bindE (queryAccount ownerType ownerID asset) (\<lambda>acc2. case acc2 of
          None \<Rightarrow> throwE (ErrNew ''failed to retrieve created account'')
        | Some a \<Rightarrow> returnE (acc_toDTO a))))"

definition GetBalance :: "string \<Rightarrow> int \<Rightarrow> string \<Rightarrow> ('z settle_db_scheme, AccountInfo) eff" where
  "GetBalance ownerType ownerID asset = EnsureAccount ownerType ownerID asset"

section \<open>Credit and debit\<close>

definition owner_entry :: "CreditAccountIn \<Rightarrow> int \<Rightarrow> entryDelta" where
  "owner_entry inp d = \<lparr>ed_OwnerType = ca_OwnerType inp, ed_OwnerID = ca_OwnerID inp,
     ed_Asset = ca_Asset inp, ed_Delta = d\<rparr>"

definition one_sided :: "string \<Rightarrow> CreditAccountIn \<Rightarrow> account \<Rightarrow> int \<Rightarrow> ('z settle_db_scheme, tx_info) eff" where
  "one_sided ty inp acc delta =
     bindE (wrapE ''create transaction failed'' (insert_transaction ty (ca_RefType inp) (ca_RefID inp))) (\<lambda>txID.
     bindE (apply_delta ''update account failed'' ''create transaction entry failed'' txID acc delta
              (i64 (acc_balance_micro acc + delta))) (\<lambda>info.
     returnE \<lparr>ti_ID = txID, ti_TxType = ty, ti_RefType = ca_RefType inp, ti_RefID = ca_RefID inp,
              ti_Entries = [info], ti_CreatedAt = None\<rparr>))"

definition CreditAccount :: "CreditAccountIn \<Rightarrow> ('z settle_db_scheme, tx_info) eff" where
  "CreditAccount inp =
     transact (bindE (entry_account (owner_entry inp (ca_AmountMicro inp))) (\<lambda>acc.
       one_sided ''credit'' inp acc (ca_AmountMicro inp)))"

definition DebitAccount :: "CreditAccountIn \<Rightarrow> ('z settle_db_scheme, tx_info) eff" where
  "DebitAccount inp =
     transact (bindE (entry_account (owner_entry inp (i64 (- ca_AmountMicro inp)))) (\<lambda>acc.
       if acc_balance_micro acc < ca_AmountMicro inp then throwE (ErrNew ''insufficient balance'')
       else one_sided ''debit'' inp acc (i64 (- ca_AmountMicro inp))))"

definition RechargeCredits :: "int \<Rightarrow> int \<Rightarrow> string \<Rightarrow> int \<Rightarrow> ('z settle_db_scheme, tx_info) eff" where
  "RechargeCredits userID amountCredits refType refID =
     (if amountCredits \<le> 0 then throwE (ErrNew ''amount_credits must be positive'') else
      bindE (wrapE ''recharge settlement failed'' (CreateRecharge \<lparr>rsi_UserID = userID,
        rsi_RefType = refType, rsi_RefID = refID, rsi_RechargeCredits = amountCredits\<rparr>)) (\<lambda>tx.
      bindE (tryE (RestoreOverdraftKeys userID)) (\<lambda>_. returnE tx)))"

section \<open>Listings\<close>

definition txs_with_entries :: "transaction list \<Rightarrow> entry list \<Rightarrow> tx_info list" where
  "txs_with_entries txs es = map (\<lambda>t. \<lparr>ti_ID = tx_id t, ti_TxType = tx_type t, ti_RefType = tx_ref_type t,
     ti_RefID = tx_ref_id t,
     ti_Entries = map entry_to_info (filter (\<lambda>e. ent_tx_id e = tx_id t) (sort_key ent_id es)),
     ti_CreatedAt = Some (tx_created_at t)\<rparr>) txs"

definition ListTransactions ::
  "string \<Rightarrow> int \<Rightarrow> int \<Rightarrow> int \<Rightarrow> ('z settle_db_scheme, tx_info list \<times> int) eff" where
  "ListTransactions ownerType ownerID page pageSize =
     bindE (wrapE ''query accounts failed''
       (db_select accounts (\<lambda>a. acc_owner_type a = ownerType \<and> acc_owner_id a = ownerID))) (\<lambda>accs.
     if accs = [] then returnE ([], 0) else
     let ids = map acc_id accs;
         mine = (\<lambda>es t. \<exists>e \<in> set es. ent_tx_id e = tx_id t \<and> ent_account_id e \<in> set ids) in
     bindE (wrapE ''count transactions failed''
       (db_call (\<lambda>s. (Inr (int (length (filter (mine (transaction_entries s)) (transactions s)))), s)))) (\<lambda>cnt.
     if cnt = 0 then returnE ([], 0) else
     bindE (wrapE ''query transactions failed''
       (db_call (\<lambda>s. (Inr (limit_offset pageSize ((page - 1) * pageSize)
          (order_desc tx_id (filter (mine (transaction_entries s)) (transactions s)))), s)))) (\<lambda>txs.
     bindE (wrapE ''query entries failed''
       (db_select transaction_entries (\<lambda>e. ent_tx_id e \<in> set (map tx_id txs)))) (\<lambda>es.
     returnE (txs_with_entries txs es, cnt)))))"

definition ListAllAccounts :: "string \<Rightarrow> string \<Rightarrow> int \<Rightarrow> int \<Rightarrow> ('z settle_db_scheme, AccountInfo list \<times> int) eff" where
  "ListAllAccounts ownerType asset page0 pageSize0 =
     (let page = page_or 1 page0; pageSize = page_or 20 pageSize0;
          wh = (\<lambda>a. (ownerType \<noteq> [] \<longrightarrow> acc_owner_type a = ownerType) \<and> (asset \<noteq> [] \<longrightarrow> acc_asset a = asset)) in
      bindE (wrapE ''count accounts failed'' (db_count accounts wh)) (\<lambda>cnt.
      bindE (wrapE ''query accounts failed'' (db_select accounts wh)) (\<lambda>accs.
      returnE (map acc_toDTO (limit_offset pageSize ((page - 1) * pageSize) (order_desc acc_id accs)), cnt))))"

definition ListAllTransactions :: "int \<Rightarrow> int \<Rightarrow> ('z settle_db_scheme, tx_info list \<times> int) eff" where
  "ListAllTransactions page0 pageSize0 =
     (let page = page_or 1 page0; pageSize = page_or 20 pageSize0 in
      bindE (wrapE ''count transactions failed'' (db_count transactions (\<lambda>_. True))) (\<lambda>cnt.
      bindE (wrapE ''query transactions failed'' (db_select transactions (\<lambda>_. True))) (\<lambda>all.
      let txs = limit_offset pageSize ((page - 1) * pageSize) (order_desc tx_id all) in
      if txs = [] then returnE ([], cnt) else
      bindE (wrapE ''query entries failed''
        (db_select transaction_entries (\<lambda>e. ent_tx_id e \<in> set (map tx_id txs)))) (\<lambda>es.
      returnE (txs_with_entries txs es, cnt)))))"

declare acc_toDTO_def [run] queryAccount_def [run] EnsureAccount_def [run] GetBalance_def [run]
  owner_entry_def [run] one_sided_def [run] CreditAccount_def [run] DebitAccount_def [run]
  RechargeCredits_def [run] txs_with_entries_def [run] ListTransactions_def [run]
  ListAllAccounts_def [run] ListAllTransactions_def [run]

section \<open>Lemmas\<close>

text \<open>Opening an account, a credit and a debit are no postings of the settlement service.\<close>

lemma billing_record_inv:
  "preserves record_inv (EnsureAccount ot oi as)" "preserves record_inv (CreditAccount inp)"
  "preserves record_inv (DebitAccount inp)"
  unfolding EnsureAccount_def queryAccount_def CreditAccount_def DebitAccount_def one_sided_def entry_account_def
    insert_account_def apply_delta_def
  by (intro pres preserves_keeps record_inv_stable insert_transaction_record_inv preserves_db_insert_frame
      preserves_db_update_frame frame; simp)+

lemma queryAccount_reads [reads]: "reads_only (queryAccount ot oi as)"
  unfolding queryAccount_def scan_account_def by (intro reads)

lemma EnsureAccount_inv [pres]: "preserves ledger_inv (EnsureAccount ot oi as)"
  unfolding EnsureAccount_def
  by (intro pres reads_only_pres [OF ledger_inv_stable] queryAccount_reads)

text \<open>A one-sided posting, from the account row on.\<close>

lemma one_sided_ok:
  assumes inv: "ledger_inv s" and acc: "acc \<in> set (accounts s)" "acc_key acc = ed_key e"
    and run: "one_sided ty inp acc (ed_Delta e) s = (Inr info, s')"
  shows "ledger_inv s'" and "books_of s' = book_entry e (books_of s)"
    and "ti_ID info = seqs s ''transactions'' + 1"
    and "transactions s' = transactions s @ [\<lparr>tx_id = ti_ID info, tx_type = ty, tx_ref_type = ca_RefType inp,
       tx_ref_id = ca_RefID inp, tx_created_at = clock s\<rparr>]"
    and "\<exists>i. transaction_entries s' = transaction_entries s @ [\<lparr>ent_id = i, ent_tx_id = ti_ID info,
       ent_account_id = acc_id acc, ent_delta_micro = ed_Delta e,
       ent_balance_after_micro = i64 (acc_balance_micro acc + ed_Delta e)\<rparr>]"
proof -
  obtain t s1 i where 1: "insert_transaction ty (ca_RefType inp) (ca_RefID inp) s = (Inr t, s1)"
    and 2: "apply_delta ''update account failed'' ''create transaction entry failed'' t acc (ed_Delta e)
              (i64 (acc_balance_micro acc + ed_Delta e)) s1 = (Inr i, s')"
    and info: "ti_ID info = t"
    using run by (auto simp: one_sided_def ok_simps)
  note tx = insert_transaction_ok [OF 1]
  have inv1: "ledger_inv s1" using preserves_run [OF insert_transaction_inv inv 1] .
  have acc1: "acc \<in> set (accounts s1)" using acc(1) tx(2) by simp
  have ids: "distinct (map acc_id (accounts s1))" using inv1 by (simp add: ledger_inv_def)
  note ap = apply_delta_ok [OF ids acc1 2]
  show "ledger_inv s'" by (rule apply_delta_inv [OF inv1 acc1 2])
  have "acc_balance_micro acc = books_of s (ed_key e)"
    using books_of_member [OF inv acc(1)] acc(2) by simp
  then show "books_of s' = book_entry e (books_of s)"
    using books_bump [OF inv1 acc1 ap(1)] books_of_cong [OF tx(2)] acc(2) by (simp add: book_entry_def)
  show "ti_ID info = seqs s ''transactions'' + 1" using tx(1) info by simp
  show "transactions s' = transactions s @ [\<lparr>tx_id = ti_ID info, tx_type = ty, tx_ref_type = ca_RefType inp,
       tx_ref_id = ca_RefID inp, tx_created_at = clock s\<rparr>]"
    using ap(3) tx(4) info by simp
  show "\<exists>i. transaction_entries s' = transaction_entries s @ [\<lparr>ent_id = i, ent_tx_id = ti_ID info,
       ent_account_id = acc_id acc, ent_delta_micro = ed_Delta e,
       ent_balance_after_micro = i64 (acc_balance_micro acc + ed_Delta e)\<rparr>]"
    using ap(2) tx(3) info by auto
qed

lemma books_of_script [simp]: "books_of (s\<lparr>script := f\<rparr>) = books_of s"
  by (rule books_of_cong) simp

text \<open>What a successful credit or debit did.\<close>

definition moved :: "string \<Rightarrow> CreditAccountIn \<Rightarrow> int \<Rightarrow> tx_info \<Rightarrow> 'z settle_db_scheme \<Rightarrow> 'z settle_db_scheme \<Rightarrow> bool" where
  "moved ty inp d info s s' \<longleftrightarrow>
     books_of s' = book_entry (owner_entry inp d) (books_of s) \<and>
     transactions s' = transactions s @ [\<lparr>tx_id = ti_ID info, tx_type = ty, tx_ref_type = ca_RefType inp,
       tx_ref_id = ca_RefID inp, tx_created_at = clock s\<rparr>] \<and>
     (\<exists>n. transaction_entries s' = transaction_entries s @ [n] \<and> ent_tx_id n = ti_ID info \<and>
       ent_delta_micro n = d \<and> ent_balance_after_micro n = books_of s' (ed_key (owner_entry inp d)))"

lemma owner_post_ok:
  assumes inv: "ledger_inv s" and acc: "entry_account (owner_entry inp d) s = (Inr acc, s1)"
    and run: "one_sided ty inp acc d s1 = (Inr info, s')"
  shows "ledger_inv s'" and "moved ty inp d info s s'"
    and "acc_balance_micro acc = books_of s (ed_key (owner_entry inp d))"
proof -
  let ?e = "owner_entry inp d"
  have run': "one_sided ty inp acc (ed_Delta ?e) s1 = (Inr info, s')"
    using run by (simp add: owner_entry_def)
  note e = entry_account_ok [OF inv acc]
  note o1 = one_sided_ok [OF e(1) e(2) e(3) run']
  show "ledger_inv s'" by (rule o1(1))
  show bal: "acc_balance_micro acc = books_of s (ed_key ?e)"
    using books_of_member [OF e(1) e(2)] e(3,4) by simp
  have books: "books_of s' = book_entry ?e (books_of s)" using o1(2) e(4) by simp
  have clk: "clock s1 = clock s"
    by (rule preserves_eq [where T = clock and m = "entry_account ?e" and s = s, OF _ acc])
      (intro pres, simp add: off_ledger_def untouched_def stable_def)
  obtain i where i: "transaction_entries s' = transaction_entries s1 @ [\<lparr>ent_id = i, ent_tx_id = ti_ID info,
       ent_account_id = acc_id acc, ent_delta_micro = ed_Delta ?e,
       ent_balance_after_micro = i64 (acc_balance_micro acc + ed_Delta ?e)\<rparr>]"
    using o1(5) by blast
  have "books_of s' (ed_key ?e) = i64 (acc_balance_micro acc + ed_Delta ?e)"
    by (simp add: books book_entry_def bal)
  then show "moved ty inp d info s s'"
    using books o1(4) i e(6,7) clk by (simp add: moved_def owner_entry_def)
qed

lemma moved_script: "moved ty inp d info (s\<lparr>script := f\<rparr>) (s'\<lparr>script := g\<rparr>) = moved ty inp d info s s'"
  by (simp add: moved_def)

lemma CreditAccount_ok:
  assumes inv: "ledger_inv s" and run: "CreditAccount inp s = (Inr info, s')"
  shows "ledger_inv s' \<and> moved ''credit'' inp (ca_AmountMicro inp) info s s'"
proof -
  obtain s2 where m: "bindE (entry_account (owner_entry inp (ca_AmountMicro inp))) (\<lambda>acc.
       one_sided ''credit'' inp acc (ca_AmountMicro inp)) (s\<lparr>script := tl (script s)\<rparr>) = (Inr info, s2)"
    and s': "s' = s2\<lparr>script := tl (script s2)\<rparr>"
    using run unfolding CreditAccount_def transact_ok by blast
  obtain acc s1 where a: "entry_account (owner_entry inp (ca_AmountMicro inp)) (s\<lparr>script := tl (script s)\<rparr>) = (Inr acc, s1)"
    and o1: "one_sided ''credit'' inp acc (ca_AmountMicro inp) s1 = (Inr info, s2)"
    using m unfolding bindE_ok by blast
  have inv0: "ledger_inv (s\<lparr>script := tl (script s)\<rparr>)" by (rule stable_script [OF ledger_inv_stable inv])
  note r = owner_post_ok [OF inv0 a o1]
  have "ledger_inv s'" unfolding s' by (rule stable_script [OF ledger_inv_stable r(1)])
  moreover have "moved ''credit'' inp (ca_AmountMicro inp) info s s'"
    using r(2) unfolding s' by (metis moved_script script_script)
  ultimately show ?thesis by blast
qed

lemma DebitAccount_ok:
  assumes inv: "ledger_inv s" and run: "DebitAccount inp s = (Inr info, s')"
  shows "ledger_inv s' \<and> moved ''debit'' inp (i64 (- ca_AmountMicro inp)) info s s' \<and>
    ca_AmountMicro inp \<le> books_of s (ca_OwnerType inp, ca_OwnerID inp, ca_Asset inp)"
proof -
  let ?d = "i64 (- ca_AmountMicro inp)" and ?s0 = "s\<lparr>script := tl (script s)\<rparr>"
  obtain s2 where m: "bindE (entry_account (owner_entry inp ?d)) (\<lambda>acc.
       if acc_balance_micro acc < ca_AmountMicro inp then throwE (ErrNew ''insufficient balance'')
       else one_sided ''debit'' inp acc ?d) ?s0 = (Inr info, s2)"
    and s': "s' = s2\<lparr>script := tl (script s2)\<rparr>"
    using run unfolding DebitAccount_def transact_ok by blast
  obtain acc s1 where a: "entry_account (owner_entry inp ?d) ?s0 = (Inr acc, s1)"
    and o1: "one_sided ''debit'' inp acc ?d s1 = (Inr info, s2)" and le: "\<not> acc_balance_micro acc < ca_AmountMicro inp"
    using m unfolding bindE_ok by (auto simp: throwE_ok split: if_splits)
  have inv0: "ledger_inv ?s0" by (rule stable_script [OF ledger_inv_stable inv])
  note r = owner_post_ok [OF inv0 a o1]
  have "ledger_inv s'" unfolding s' by (rule stable_script [OF ledger_inv_stable r(1)])
  moreover have "moved ''debit'' inp ?d info s s'"
    using r(2) unfolding s' by (metis moved_script script_script)
  moreover have "ca_AmountMicro inp \<le> books_of s (ca_OwnerType inp, ca_OwnerID inp, ca_Asset inp)"
    using r(3) le by (simp add: ed_key_def owner_entry_def)
  ultimately show ?thesis by blast
qed

text \<open>A credit or debit that fails changes no table.\<close>

lemma CreditAccount_error_tables: "CreditAccount inp s = (Inl e, s') \<Longrightarrow> \<exists>f g. s' = s\<lparr>script := f, seqs := g\<rparr>"
  unfolding CreditAccount_def by (drule transact_error_eq) blast

lemma DebitAccount_error_tables: "DebitAccount inp s = (Inl e, s') \<Longrightarrow> \<exists>f g. s' = s\<lparr>script := f, seqs := g\<rparr>"
  unfolding DebitAccount_def by (drule transact_error_eq) blast

lemma one_sided_frame [pres]: "off_ledger P \<Longrightarrow> preserves P (one_sided ty inp acc d)"
  unfolding one_sided_def insert_transaction_def
  by (intro pres preserves_db_insert_frame) (auto simp: off_ledger_def)

lemma CreditAccount_frame: "off_ledger P \<Longrightarrow> preserves P (CreditAccount inp)"
  unfolding CreditAccount_def by (intro pres preserves_keeps) (simp_all add: off_ledger_def)

lemma DebitAccount_frame: "off_ledger P \<Longrightarrow> preserves P (DebitAccount inp)"
  unfolding DebitAccount_def by (intro pres preserves_keeps) (simp_all add: off_ledger_def)

text \<open>Both keep the invariants.\<close>

lemma preserves_transact_ok:
  assumes "\<And>s s' a. I s \<Longrightarrow> transact m s = (Inr a, s') \<Longrightarrow> I s'" and "stable I"
  shows "preserves I (transact m)"
  unfolding preserves_def
proof (intro allI impI)
  fix s assume "I s"
  then show "I (snd (transact m s))"
    using assms(1) [of s] assms(2) transact_error_eq [of m s]
    by (cases "transact m s"; cases "fst (transact m s)") (auto simp: stable_def)
qed

lemma CreditAccount_inv: "preserves ledger_inv (CreditAccount ca)"
proof -
  have "ledger_inv s'" if "ledger_inv s" "CreditAccount ca s = (Inr info, s')" for s s' info
    using CreditAccount_ok [OF that] by blast
  then show ?thesis unfolding CreditAccount_def by (rule preserves_transact_ok [OF _ ledger_inv_stable])
qed

lemma DebitAccount_inv: "preserves ledger_inv (DebitAccount ca)"
proof -
  have "ledger_inv s'" if "ledger_inv s" "DebitAccount ca s = (Inr info, s')" for s s' info
    using DebitAccount_ok [OF that] by blast
  then show ?thesis unfolding DebitAccount_def by (rule preserves_transact_ok [OF _ ledger_inv_stable])
qed

lemma billing_settle_inv:
  "preserves settle_inv (EnsureAccount ot oi as)" "preserves settle_inv (CreditAccount inp)"
  "preserves settle_inv (DebitAccount inp)"
  unfolding settle_inv_split
  by (intro preserves_both EnsureAccount_inv CreditAccount_inv DebitAccount_inv billing_record_inv)+

end
