(* ===== verification/LlmTables.thy ===== *)
theory LlmTables
  imports Settlement Json
begin

text \<open>
  The tables of the gateway: channels, model specifications, model keys and their bindings to
  models, prices, usage records and chat logs (\<^verbatim>\<open>migrations/0004\<close>,
  \<^verbatim>\<open>0008\<close>-\<^verbatim>\<open>0013\<close>), with the row structs of
  \<^verbatim>\<open>internal/logic/llm\<close>.  The settlement queue of the relay (a Redis list of task
  documents) is kept beside them.  A JSONB column is \<open>raw\<close>; \<open>None\<close> is the empty text.
\<close>

record channelRow =
  ch_ID :: int
  ch_Code :: string
  ch_Name :: string
  ch_Description :: string
  ch_ProtocolsJson :: raw
  ch_Status :: string
  ch_SourceType :: string
  ch_CreatedByUserID :: int
  ch_ReviewedByUserID :: int
  ch_ReviewedAt :: "int option"
  ch_ReviewNote :: string
  ch_Priority :: int
  ch_Weight :: int
  ch_CreatedAt :: int
  ch_UpdatedAt :: int

record modelSpecRow =
  ms_ID :: int
  ms_DeveloperName :: string
  ms_ModelName :: string
  ms_ModelCode :: string
  ms_DisplayName :: string
  ms_ModelFamily :: string
  ms_Description :: string
  ms_CapabilitiesJson :: raw
  ms_ContextWindow :: int
  ms_MaxInputTokens :: int
  ms_MaxOutputTokens :: int
  ms_SupportsStream :: bool
  ms_SupportsTools :: bool
  ms_SupportsVision :: bool
  ms_SupportsJsonMode :: bool
  ms_SupportsReasoning :: bool
  ms_SupportsLogprobs :: bool
  ms_SupportedParamsJson :: raw
  ms_DefaultParamsJson :: raw
  ms_ParamLimitsJson :: raw
  ms_SourceType :: string
  ms_CreatedByUserID :: int
  ms_Status :: string
  ms_ReviewedByUserID :: int
  ms_ReviewedAt :: "int option"
  ms_ReviewNote :: string
  ms_CreatedAt :: int
  ms_UpdatedAt :: int

record modelKeyRow =
  mk_ID :: int
  mk_ProviderUserID :: int
  mk_ChannelID :: int
  mk_Name :: string
  mk_KeyEncrypted :: string
  mk_KeyMasked :: string
  mk_QuotaLimitCredits :: int
  mk_QuotaUsedCredits :: int
  mk_Status :: string
  mk_LastTestAt :: "int option"
  mk_LastTestStatus :: string
  mk_LastTestError :: string
  mk_TestAttempts :: int
  mk_CreatedAt :: int
  mk_UpdatedAt :: int

record keyModelRow =
  km_ID :: int
  km_ModelKeyID :: int
  km_ModelSpecID :: int
  km_UpstreamModelName :: string
  km_QuotaLimitCredits :: int
  km_QuotaUsedCredits :: int
  km_ProviderShareBps :: int
  km_CacheHitPricePer1K :: int
  km_CacheMissPricePer1K :: int
  km_OutputPricePer1K :: int
  km_Status :: string
  km_TestAttempts :: int
  km_LastTestAt :: "int option"
  km_LastTestStatus :: string
  km_LastTestError :: string
  km_NextTestAt :: "int option"
  km_ConsecutiveFailures :: int
  km_LastErrorCode :: string
  km_LastErrorMessage :: string
  km_CreatedAt :: int
  km_UpdatedAt :: int

record modelPriceRow =
  mp_ID :: int
  mp_ModelSpecID :: int
  mp_Capability :: string
  mp_CacheHitPricePer1K :: int
  mp_CacheMissPricePer1K :: int
  mp_OutputPricePer1K :: int
  mp_Status :: string

record usageRecord =
  ur_ID :: int
  ur_ConsumerUserID :: int
  ur_VirtualKeyID :: int
  ur_ModelSpecID :: int
  ur_ModelKeyID :: int
  ur_KeyModelID :: int
  ur_ProviderUserID :: int
  ur_ChannelID :: int
  ur_RequestID :: string
  ur_Capability :: string
  ur_IsStream :: bool
  ur_InputTokens :: int
  ur_CacheHitTokens :: int
  ur_CacheMissTokens :: int
  ur_OutputTokens :: int
  ur_TotalTokens :: int
  ur_CostCredits :: int
  ur_ProviderRevenueCredits :: int
  ur_CommissionCredits :: int
  ur_LatencyMs :: int
  ur_Status :: string
  ur_ErrorCode :: string
  ur_ErrorMessage :: string
  ur_CreatedAt :: int

record chatLog =
  cl_ID :: int
  cl_UserID :: int
  cl_ApiKeyID :: int
  cl_ModelSpecID :: int
  cl_RequestID :: string
  cl_Capability :: string
  cl_IsStream :: bool
  cl_RequestBody :: json
  cl_ResponseBody :: json
  cl_PromptTokens :: int
  cl_CompletionTokens :: int
  cl_TotalTokens :: int
  cl_CostCredits :: int
  cl_CreatedAt :: int

record providerSetting =
  pv_UserID :: int
  pv_ShareBps :: int

record llm_db = settle_db +
  llm_channels :: "channelRow list"
  llm_model_specs :: "modelSpecRow list"
  llm_model_keys :: "modelKeyRow list"
  llm_model_key_models :: "keyModelRow list"
  llm_model_prices :: "modelPriceRow list"
  llm_usage_records :: "usageRecord list"
  llm_chat_logs :: "chatLog list"
  provider_settings :: "providerSetting list"
  settlement_queue :: "json list"

text \<open>UNIQUE (code), UNIQUE (model_code) and UNIQUE (developer_name, model_name),
  UNIQUE (model_key_id, model_spec_id, upstream_model_name), UNIQUE (user_id).\<close>

definition ch_clash :: "channelRow \<Rightarrow> channelRow \<Rightarrow> bool" where
  "ch_clash x r \<longleftrightarrow> ch_Code x = ch_Code r"

definition ms_clash :: "modelSpecRow \<Rightarrow> modelSpecRow \<Rightarrow> bool" where
  "ms_clash x r \<longleftrightarrow> ms_ModelCode x = ms_ModelCode r \<or>
     (ms_DeveloperName x = ms_DeveloperName r \<and> ms_ModelName x = ms_ModelName r)"

definition km_clash :: "keyModelRow \<Rightarrow> keyModelRow \<Rightarrow> bool" where
  "km_clash x r \<longleftrightarrow> km_ModelKeyID x = km_ModelKeyID r \<and> km_ModelSpecID x = km_ModelSpecID r \<and>
     km_UpstreamModelName x = km_UpstreamModelName r"

definition pv_clash :: "providerSetting \<Rightarrow> providerSetting \<Rightarrow> bool" where
  "pv_clash x r \<longleftrightarrow> pv_UserID x = pv_UserID r"

definition no_clash :: "'r \<Rightarrow> 'r \<Rightarrow> bool" where
  "no_clash x r \<longleftrightarrow> False"

declare ch_clash_def [run] ms_clash_def [run] km_clash_def [run] pv_clash_def [run] no_clash_def [run]

end
