(* ===== verification/Formats.thy ===== *)
theory Formats
  imports RelayCommon Json
begin

text \<open>
  What the gateway reads from a request body and a channel's protocol table:
  \<^verbatim>\<open>internal/relay/helper/detect_format.go\<close>, ExtractUsage of
  \<^verbatim>\<open>normalize.go\<close>, the conversions of \<^verbatim>\<open>common/usage.go\<close>, and extractModel and
  detectInboundFormat of \<^verbatim>\<open>handler/handler.go\<close>.
\<close>

section \<open>The format of a request (detect_format.go)\<close>

definition has :: "string \<Rightarrow> (string \<times> json) list \<Rightarrow> bool" where
  "has k obj \<longleftrightarrow> jlookup k obj \<noteq> None"

text \<open>The first message of a decodable, non-empty list of messages makes the request Claude's
  when there is a system field or its content is a non-empty array.\<close>

definition claude_messages :: "(string \<times> json) list \<Rightarrow> json \<Rightarrow> bool" where
  "claude_messages obj messagesRaw =
     (case dec_array messagesRaw of None \<Rightarrow> False
      | Some ms \<Rightarrow> (case dec_all dec_object ms of None \<Rightarrow> False
         | Some [] \<Rightarrow> False
         | Some (firstMsg # _) \<Rightarrow>
             if has ''system'' obj then True
             else (case jlookup ''content'' firstMsg of None \<Rightarrow> False
                | Some contentRaw \<Rightarrow> (case dec_string contentRaw of Some _ \<Rightarrow> False
                    | None \<Rightarrow> (case dec_array contentRaw of Some (_ # _) \<Rightarrow> True | _ \<Rightarrow> False)))))"

definition DetectInboundFormat :: "raw \<Rightarrow> string" where
  "DetectInboundFormat body =
     (case body of None \<Rightarrow> RelayFormatOpenAI
      | Some j \<Rightarrow> (case dec_object j of None \<Rightarrow> RelayFormatOpenAI
         | Some obj \<Rightarrow>
             if has ''contents'' obj then RelayFormatGemini
             else if has ''input'' obj \<and> \<not> has ''messages'' obj then RelayFormatResponses
             else if has ''anthropic_version'' obj then RelayFormatClaude
             else (case jlookup ''messages'' obj of None \<Rightarrow> RelayFormatOpenAI
                | Some messagesRaw \<Rightarrow>
                    if claude_messages obj messagesRaw then RelayFormatClaude else RelayFormatOpenAI)))"

definition DetectFormatFromPath :: "string \<Rightarrow> string option" where
  "DetectFormatFromPath path =
     (if path = ''/v1/messages'' then Some RelayFormatClaude
      else if path \<in> {''/v1/chat/completions'', ''/v1/completions'', ''/v1/embeddings''} then Some RelayFormatOpenAI
      else if path \<in> {''/v1/responses'', ''/v1/responses/compact''} then Some RelayFormatResponses
      else None)"

definition detectInboundFormat :: "raw \<Rightarrow> string \<Rightarrow> string" where
  "detectInboundFormat body path =
     (case DetectFormatFromPath path of Some f \<Rightarrow> f | None \<Rightarrow> DetectInboundFormat body)"

section \<open>The protocols of a channel\<close>

type_synonym protocols = "(string \<times> (string \<times> string) list) list"

definition ParseProtocolsJSON :: "raw \<Rightarrow> protocols" where
  "ParseProtocolsJSON r = (case r of None \<Rightarrow> [] | Some j \<Rightarrow>
     (case dec_map (dec_map dec_string) j of None \<Rightarrow> [] | Some m \<Rightarrow> m))"

definition base_url :: "(string \<times> string) list \<Rightarrow> string" where
  "base_url entry = (case jlookup ''base_url'' entry of None \<Rightarrow> [] | Some u \<Rightarrow> u)"

definition preferred_protocol :: "string \<Rightarrow> string" where
  "preferred_protocol inboundFormat =
     (if inboundFormat = RelayFormatOpenAI then ''openai-compatible''
      else if inboundFormat = RelayFormatClaude then ''anthropic-compatible''
      else if inboundFormat = RelayFormatGemini then ''gemini-compatible''
      else if inboundFormat = RelayFormatResponses then ''openai-compatible''
      else [])"

text \<open>\<open>pick\<close> is the key a range over the Go map yields first.\<close>

definition BestProtocolMatch :: "(string list \<Rightarrow> string) \<Rightarrow> protocols \<Rightarrow> string \<Rightarrow> string \<times> string" where
  "BestProtocolMatch pick protocolsJSON inboundFormat =
     (if protocolsJSON = [] then ([], [])
      else let preferredKey = preferred_protocol inboundFormat in
        case (if preferredKey \<noteq> [] then jlookup preferredKey protocolsJSON else None) of
          Some entry \<Rightarrow> (preferredKey, base_url entry)
        | None \<Rightarrow> (let key = pick (map fst protocolsJSON) in
            (key, case jlookup key protocolsJSON of None \<Rightarrow> [] | Some entry \<Rightarrow> base_url entry)))"

section \<open>The model of a request\<close>

definition model_field :: "(string \<times> json) list \<Rightarrow> string option" where
  "model_field obj = (case jlookup ''model'' obj of None \<Rightarrow> None
     | Some v \<Rightarrow> (case dec_string v of Some m \<Rightarrow> if m \<noteq> [] then Some m else None | None \<Rightarrow> None))"

definition extractModel :: "raw \<Rightarrow> go_err + string" where
  "extractModel body =
     (case Option.bind body dec_object of
        None \<Rightarrow> Inl (ErrNew ''invalid request body'')
      | Some obj \<Rightarrow> (case model_field obj of Some m \<Rightarrow> Inr m
         | None \<Rightarrow>
             (case jlookup ''anthropic_version'' obj of
                Some v \<Rightarrow> (case dec_string v of
                    Some m \<Rightarrow> (if m \<noteq> [] then (case model_field obj of Some model \<Rightarrow> Inr model
                        | None \<Rightarrow> Inl (ErrNew ''model is required in request body''))
                      else Inl (ErrNew ''model is required in request body''))
                  | None \<Rightarrow> Inl (ErrNew ''model is required in request body''))
              | None \<Rightarrow> Inl (ErrNew ''model is required in request body''))))"

section \<open>Usage documents\<close>

definition details_to_json :: "TokenDetails \<Rightarrow> json" where
  "details_to_json d = JObj (
     omit_if (td_CachedTokens d = 0) ''cached_tokens'' (JNum (td_CachedTokens d)) @
     omit_if (td_CachedCreationTokens d = 0) ''cached_creation_tokens'' (JNum (td_CachedCreationTokens d)) @
     omit_if (td_CachedCreation5mTokens d = 0) ''cached_creation_5m_tokens'' (JNum (td_CachedCreation5mTokens d)) @
     omit_if (td_CachedCreation1hTokens d = 0) ''cached_creation_1h_tokens'' (JNum (td_CachedCreation1hTokens d)) @
     omit_if (td_AudioTokens d = 0) ''audio_tokens'' (JNum (td_AudioTokens d)) @
     omit_if (td_TextTokens d = 0) ''text_tokens'' (JNum (td_TextTokens d)) @
     omit_if (td_ImageTokens d = 0) ''image_tokens'' (JNum (td_ImageTokens d)) @
     omit_if (td_ReasoningTokens d = 0) ''reasoning_tokens'' (JNum (td_ReasoningTokens d)) @
     omit_if (td_AcceptedPredictionTokens d = 0) ''accepted_prediction_tokens'' (JNum (td_AcceptedPredictionTokens d)) @
     omit_if (td_RejectedPredictionTokens d = 0) ''rejected_prediction_tokens'' (JNum (td_RejectedPredictionTokens d)))"

fun bind2 :: "'a option \<Rightarrow> ('a \<Rightarrow> 'b option) \<Rightarrow> 'b option" where
  "bind2 None f = None"
| "bind2 (Some a) f = f a"

definition details_of_json :: "json \<Rightarrow> TokenDetails option" where
  "details_of_json j = bind2 (dec_object j) (\<lambda>o'.
     bind2 (dec_field ''cached_tokens'' dec_int 0 o') (\<lambda>a.
     bind2 (dec_field ''cached_creation_tokens'' dec_int 0 o') (\<lambda>b.
     bind2 (dec_field ''cached_creation_5m_tokens'' dec_int 0 o') (\<lambda>c.
     bind2 (dec_field ''cached_creation_1h_tokens'' dec_int 0 o') (\<lambda>d.
     bind2 (dec_field ''audio_tokens'' dec_int 0 o') (\<lambda>e.
     bind2 (dec_field ''text_tokens'' dec_int 0 o') (\<lambda>f.
     bind2 (dec_field ''image_tokens'' dec_int 0 o') (\<lambda>g.
     bind2 (dec_field ''reasoning_tokens'' dec_int 0 o') (\<lambda>h.
     bind2 (dec_field ''accepted_prediction_tokens'' dec_int 0 o') (\<lambda>i.
     bind2 (dec_field ''rejected_prediction_tokens'' dec_int 0 o') (\<lambda>k.
     Some \<lparr>td_CachedTokens = a, td_CachedCreationTokens = b, td_CachedCreation5mTokens = c,
       td_CachedCreation1hTokens = d, td_AudioTokens = e, td_TextTokens = f, td_ImageTokens = g,
       td_ReasoningTokens = h, td_AcceptedPredictionTokens = i, td_RejectedPredictionTokens = k\<rparr>)))))))))))"

definition opt_json :: "('a \<Rightarrow> json) \<Rightarrow> 'a option \<Rightarrow> json" where
  "opt_json f x = (case x of None \<Rightarrow> JNull | Some v \<Rightarrow> f v)"

text \<open>CacheIncludedInPrompt is tagged \<^verbatim>\<open>json:"-"\<close>: it is not written and not read.\<close>

definition usage_to_json :: "Usage \<Rightarrow> json" where
  "usage_to_json u = JObj (
     [(''prompt_tokens'', JNum (us_PromptTokens u)), (''completion_tokens'', JNum (us_CompletionTokens u)),
      (''total_tokens'', JNum (us_TotalTokens u))] @
     omit_if (us_CacheCreationTokens u = 0) ''cache_creation_tokens'' (JNum (us_CacheCreationTokens u)) @
     omit_if (us_PromptTokensDetails u = None) ''prompt_tokens_details'' (opt_json details_to_json (us_PromptTokensDetails u)) @
     omit_if (us_CompletionTokenDetails u = None) ''completion_token_details'' (opt_json details_to_json (us_CompletionTokenDetails u)))"

definition usage_of_json :: "json \<Rightarrow> Usage option" where
  "usage_of_json j = bind2 (dec_object j) (\<lambda>o'.
     bind2 (dec_field ''prompt_tokens'' dec_int 0 o') (\<lambda>a.
     bind2 (dec_field ''completion_tokens'' dec_int 0 o') (\<lambda>b.
     bind2 (dec_field ''total_tokens'' dec_int 0 o') (\<lambda>c.
     bind2 (dec_field ''cache_creation_tokens'' dec_int 0 o') (\<lambda>d.
     bind2 (dec_field ''prompt_tokens_details'' (dec_ptr details_of_json) None o') (\<lambda>e.
     bind2 (dec_field ''completion_token_details'' (dec_ptr details_of_json) None o') (\<lambda>f.
     Some \<lparr>us_PromptTokens = a, us_CompletionTokens = b, us_TotalTokens = c, us_CacheCreationTokens = d,
       us_PromptTokensDetails = e, us_CompletionTokenDetails = f, us_CacheIncludedInPrompt = False\<rparr>)))))))"

text \<open>The usage object of an answer (\<^verbatim>\<open>dto.UsageWithDetails\<close>) names its details field
  completion_tokens_details, and has no cache creation counter.  The two TokenDetails structs
  have the same fields, so the conversions between them (DtoTokenDetailsToCommon,
  CommonTokenDetailsToDto) are the identity on the record.\<close>

record UsageWithDetails =
  uw_PromptTokens :: int
  uw_CompletionTokens :: int
  uw_TotalTokens :: int
  uw_PromptTokensDetails :: "TokenDetails option"
  uw_CompletionTokenDetails :: "TokenDetails option"

definition usage_details_of_json :: "json \<Rightarrow> UsageWithDetails option" where
  "usage_details_of_json j = bind2 (dec_object j) (\<lambda>o'.
     bind2 (dec_field ''prompt_tokens'' dec_int 0 o') (\<lambda>a.
     bind2 (dec_field ''completion_tokens'' dec_int 0 o') (\<lambda>b.
     bind2 (dec_field ''total_tokens'' dec_int 0 o') (\<lambda>c.
     bind2 (dec_field ''prompt_tokens_details'' (dec_ptr details_of_json) None o') (\<lambda>e.
     bind2 (dec_field ''completion_tokens_details'' (dec_ptr details_of_json) None o') (\<lambda>f.
     Some \<lparr>uw_PromptTokens = a, uw_CompletionTokens = b, uw_TotalTokens = c,
       uw_PromptTokensDetails = e, uw_CompletionTokenDetails = f\<rparr>))))))"

definition zero_details :: TokenDetails where
  "zero_details = \<lparr>td_CachedTokens = 0, td_CachedCreationTokens = 0, td_CachedCreation5mTokens = 0,
     td_CachedCreation1hTokens = 0, td_AudioTokens = 0, td_TextTokens = 0, td_ImageTokens = 0,
     td_ReasoningTokens = 0, td_AcceptedPredictionTokens = 0, td_RejectedPredictionTokens = 0\<rparr>"

text \<open>ExtractUsage: the usage object of an answer, with the root-level cache counter DeepSeek
  sends.\<close>

definition ExtractUsage :: "raw \<Rightarrow> UsageWithDetails option" where
  "ExtractUsage body =
     bind2 (bind2 body dec_object) (\<lambda>o'.
     bind2 (jlookup ''usage'' o') (\<lambda>rawUsage.
     bind2 (usage_details_of_json rawUsage) (\<lambda>usage.
       if uw_PromptTokens usage = 0 \<and> uw_CompletionTokens usage = 0 then None
       else (case dec_object rawUsage of None \<Rightarrow> Some usage
         | Some m \<Rightarrow> (case bind2 (jlookup ''prompt_cache_hit_tokens'' m) dec_int of
              None \<Rightarrow> Some usage
            | Some hit \<Rightarrow>
                if hit > 0 then
                  let d = (case uw_PromptTokensDetails usage of Some d \<Rightarrow> d | None \<Rightarrow> zero_details)
                  in Some (usage\<lparr>uw_PromptTokensDetails :=
                       Some (if td_CachedTokens d = 0 then d\<lparr>td_CachedTokens := hit\<rparr> else d)\<rparr>)
                else Some usage)))))"

declare has_def [run] claude_messages_def [run] DetectInboundFormat_def [run] DetectFormatFromPath_def [run]
  detectInboundFormat_def [run] ParseProtocolsJSON_def [run] base_url_def [run] preferred_protocol_def [run]
  BestProtocolMatch_def [run] model_field_def [run] extractModel_def [run] opt_json_def [run]
  ExtractUsage_def [run] zero_details_def [run]

section \<open>Lemmas\<close>

lemma extractModel_iff:
  "extractModel body = Inr m \<longleftrightarrow> (\<exists>obj. Option.bind body dec_object = Some obj \<and> model_field obj = Some m)"
  by (auto simp: extractModel_def split: option.splits)

text \<open>All counters of a usage document are Go ints.\<close>

definition details_ok :: "TokenDetails \<Rightarrow> bool" where
  "details_ok d \<longleftrightarrow> (\<forall>x \<in> {td_CachedTokens d, td_CachedCreationTokens d, td_CachedCreation5mTokens d,
     td_CachedCreation1hTokens d, td_AudioTokens d, td_TextTokens d, td_ImageTokens d, td_ReasoningTokens d,
     td_AcceptedPredictionTokens d, td_RejectedPredictionTokens d}. is_i64 x)"

definition usage_ok :: "Usage \<Rightarrow> bool" where
  "usage_ok u \<longleftrightarrow> is_i64 (us_PromptTokens u) \<and> is_i64 (us_CompletionTokens u) \<and> is_i64 (us_TotalTokens u) \<and>
     is_i64 (us_CacheCreationTokens u) \<and> pred_option details_ok (us_PromptTokensDetails u) \<and>
     pred_option details_ok (us_CompletionTokenDetails u)"

lemma dec_field_int_omit:
  "jlookup k kvs = None \<Longrightarrow> is_i64 n \<Longrightarrow> dec_field k dec_int 0 (omit_if (n = 0) k (JNum n) @ kvs) = Some n"
  by (simp add: dec_field_omit) (simp add: dec_field_def)

lemma dec_field_omit_other: "q \<noteq> k \<Longrightarrow> dec_field k f z (omit_if c q v @ kvs) = dec_field k f z kvs"
  by (simp add: dec_field_omit)

lemma dec_field_last_omit: "dec_field k f z (omit_if c q v) = (if \<not> c \<and> q = k then f v else Some z)"
  using dec_field_omit [of k f z c q v "[]"] by simp

lemma details_roundtrip: "details_ok d \<Longrightarrow> details_of_json (details_to_json d) = Some d"
  unfolding details_ok_def details_of_json_def details_to_json_def
  by (simp add: dec_field_int_omit dec_field_omit_other dec_field_last_omit jlookup_simps)

lemma details_not_null [simp]: "details_to_json d \<noteq> JNull"
  by (simp add: details_to_json_def)

lemma usage_not_null [simp]: "usage_to_json u \<noteq> JNull"
  by (simp add: usage_to_json_def)

lemma usage_roundtrip: "usage_ok u \<Longrightarrow> usage_of_json (usage_to_json u) = Some (u\<lparr>us_CacheIncludedInPrompt := False\<rparr>)"
  unfolding usage_ok_def usage_of_json_def usage_to_json_def
  by (cases "us_PromptTokensDetails u"; cases "us_CompletionTokenDetails u")
    (auto simp: dec_field_int_omit dec_field_omit dec_field_Cons dec_field_last_omit jlookup_simps
      dec_ptr_def opt_json_def details_roundtrip)

end
