(* ===== verification/Queue.thy ===== *)
theory Queue
  imports Billing LlmTables Formats
begin

text \<open>
  The settlement queue and its workers, \<^verbatim>\<open>internal/relay/handler/queue.go\<close> and
  \<^verbatim>\<open>queue_redis.go\<close>, with updateQuotaSync of \<^verbatim>\<open>handler.go\<close>.  A task is
  pushed on a Redis list as a JSON document; a worker pops it, records the usage and a pending
  settlement in one transaction, debits the consumer and keeps a chat log.  A Redis command is
  one of the statements whose outcome the store's script decides.  Log lines are left out.
\<close>

definition maxSettlementRetries :: int where "maxSettlementRetries = 3"

definition DefaultSettlementCycleDays :: int where "DefaultSettlementCycleDays = 7"

record SettlementTask =
  stt_UserID :: int
  stt_ApiKeyID :: int
  stt_ModelKeyID :: int
  stt_KeyModelID :: int
  stt_ProviderUserID :: int
  stt_ChannelID :: int
  stt_ModelSpecID :: int
  stt_RequestID :: string
  stt_Capability :: string
  stt_IsStream :: bool
  stt_Usage :: "Usage option"
  stt_Cost :: int
  stt_ProviderShareBps :: int
  stt_StartTime :: int
  stt_RetryCount :: int
  stt_RequestBody :: raw
  stt_ResponseBody :: raw
  stt_ResponseText :: string
  stt_ModelName :: string
  stt_OutputPricePer1K :: int
  stt_CacheHitPricePer1K :: int
  stt_CacheMissPricePer1K :: int

section \<open>The document of a task\<close>

definition task_to_json :: "SettlementTask \<Rightarrow> json" where
  "task_to_json t = JObj (
     [(''user_id'', JNum (stt_UserID t)), (''api_key_id'', JNum (stt_ApiKeyID t)),
      (''model_key_id'', JNum (stt_ModelKeyID t)), (''key_model_id'', JNum (stt_KeyModelID t)),
      (''provider_user_id'', JNum (stt_ProviderUserID t)), (''channel_id'', JNum (stt_ChannelID t)),
      (''model_spec_id'', JNum (stt_ModelSpecID t)), (''request_id'', JStr (stt_RequestID t)),
      (''capability'', JStr (stt_Capability t)), (''is_stream'', JBool (stt_IsStream t)),
      (''usage'', opt_json usage_to_json (stt_Usage t)), (''cost'', JNum (stt_Cost t)),
      (''provider_share_bps'', JNum (stt_ProviderShareBps t)), (''start_time'', JTime (stt_StartTime t)),
      (''retry_count'', JNum (stt_RetryCount t))] @
     omit_if (stt_RequestBody t = None) ''request_body'' (opt_json (\<lambda>j. j) (stt_RequestBody t)) @
     omit_if (stt_ResponseBody t = None) ''response_body'' (opt_json (\<lambda>j. j) (stt_ResponseBody t)) @
     omit_if (stt_ResponseText t = []) ''response_text'' (JStr (stt_ResponseText t)) @
     omit_if (stt_ModelName t = []) ''model_name'' (JStr (stt_ModelName t)) @
     omit_if (stt_OutputPricePer1K t = 0) ''output_price_per_1k'' (JNum (stt_OutputPricePer1K t)) @
     omit_if (stt_CacheHitPricePer1K t = 0) ''cache_hit_price_per_1k'' (JNum (stt_CacheHitPricePer1K t)) @
     omit_if (stt_CacheMissPricePer1K t = 0) ''cache_miss_price_per_1k'' (JNum (stt_CacheMissPricePer1K t)))"

definition dec_raw :: "json \<Rightarrow> raw option" where
  "dec_raw j = Some (Some j)"

definition task_of_json :: "json \<Rightarrow> SettlementTask option" where
  "task_of_json j = bind2 (dec_object j) (\<lambda>o'.
     bind2 (dec_field ''user_id'' dec_int 0 o') (\<lambda>f1.
     bind2 (dec_field ''api_key_id'' dec_int 0 o') (\<lambda>f2.
     bind2 (dec_field ''model_key_id'' dec_int 0 o') (\<lambda>f3.
     bind2 (dec_field ''key_model_id'' dec_int 0 o') (\<lambda>f4.
     bind2 (dec_field ''provider_user_id'' dec_int 0 o') (\<lambda>f5.
     bind2 (dec_field ''channel_id'' dec_int 0 o') (\<lambda>f6.
     bind2 (dec_field ''model_spec_id'' dec_int 0 o') (\<lambda>f7.
     bind2 (dec_field ''request_id'' dec_string [] o') (\<lambda>f8.
     bind2 (dec_field ''capability'' dec_string [] o') (\<lambda>f9.
     bind2 (dec_field ''is_stream'' dec_bool False o') (\<lambda>f10.
     bind2 (dec_field ''usage'' (dec_ptr usage_of_json) None o') (\<lambda>f11.
     bind2 (dec_field ''cost'' dec_int 0 o') (\<lambda>f12.
     bind2 (dec_field ''provider_share_bps'' dec_int 0 o') (\<lambda>f13.
     bind2 (dec_field ''start_time'' dec_time 0 o') (\<lambda>f14.
     bind2 (dec_field ''retry_count'' dec_int 0 o') (\<lambda>f15.
     bind2 (dec_field ''request_body'' dec_raw None o') (\<lambda>f16.
     bind2 (dec_field ''response_body'' dec_raw None o') (\<lambda>f17.
     bind2 (dec_field ''response_text'' dec_string [] o') (\<lambda>f18.
     bind2 (dec_field ''model_name'' dec_string [] o') (\<lambda>f19.
     bind2 (dec_field ''output_price_per_1k'' dec_int 0 o') (\<lambda>f20.
     bind2 (dec_field ''cache_hit_price_per_1k'' dec_int 0 o') (\<lambda>f21.
     bind2 (dec_field ''cache_miss_price_per_1k'' dec_int 0 o') (\<lambda>f22.
     Some \<lparr>stt_UserID = f1, stt_ApiKeyID = f2, stt_ModelKeyID = f3, stt_KeyModelID = f4,
       stt_ProviderUserID = f5, stt_ChannelID = f6, stt_ModelSpecID = f7, stt_RequestID = f8,
       stt_Capability = f9, stt_IsStream = f10, stt_Usage = f11, stt_Cost = f12,
       stt_ProviderShareBps = f13, stt_StartTime = f14, stt_RetryCount = f15, stt_RequestBody = f16,
       stt_ResponseBody = f17, stt_ResponseText = f18, stt_ModelName = f19, stt_OutputPricePer1K = f20,
       stt_CacheHitPricePer1K = f21, stt_CacheMissPricePer1K = f22\<rparr>)))))))))))))))))))))))"

section \<open>The Redis queue\<close>

definition redis_Enqueue :: "SettlementTask \<Rightarrow> ('z llm_db_scheme, unit) eff" where
  "redis_Enqueue task = db_call (\<lambda>s.
     (Inr (), s\<lparr>settlement_queue := task_to_json task # settlement_queue s\<rparr>))"

definition redis_Dequeue :: "('z llm_db_scheme, SettlementTask option) eff" where
  "redis_Dequeue = db_call (\<lambda>s.
     if settlement_queue s = [] then (Inr None, s)
     else let s1 = s\<lparr>settlement_queue := butlast (settlement_queue s)\<rparr>
       in case task_of_json (last (settlement_queue s)) of
            None \<Rightarrow> (Inl (ErrExt ''json: cannot unmarshal''), s1)
          | Some task \<Rightarrow> (Inr (Some task), s1))"

text \<open>An error of the queue is logged and the task is lost.\<close>

definition EnqueueSettlement :: "SettlementTask \<Rightarrow> ('z llm_db_scheme, unit) eff" where
  "EnqueueSettlement task = bindE (tryE (redis_Enqueue task)) (\<lambda>_. returnE ())"

section \<open>Paying providers\<close>

definition calcRevenue :: "int \<Rightarrow> int \<Rightarrow> int" where
  "calcRevenue cost providerShareBps =
     (if providerShareBps \<le> 0 then go_div (i64 (cost * 8000)) 10000
      else go_div (i64 (cost * providerShareBps)) 10000)"

definition earnings_credit :: "settlementRecord \<Rightarrow> CreditAccountIn" where
  "earnings_credit row = \<lparr>ca_Asset = ''earnings'', ca_AmountMicro = sr_ProviderRevenueCredits row,
     ca_OwnerType = ''user'', ca_OwnerID = sr_ProviderUserID row, ca_RefType = ''settlement'',
     ca_RefID = sr_ID row\<rparr>"

definition payout :: "settlementRecord \<Rightarrow> ('z settle_db_scheme, bool) eff" where
  "payout row =
     bindE (if sr_ProviderRevenueCredits row > 0
            then bindE (tryE (CreditAccount (earnings_credit row))) (\<lambda>r.
              returnE (case r of Inl _ \<Rightarrow> False | Inr _ \<Rightarrow> True))
            else returnE True) (\<lambda>go_on.
     if \<not> go_on then returnE False
     else bindE (getsE clock) (\<lambda>now.
       bindE (tryE (db_update settlement_records settlement_records_update (\<lambda>r. sr_ID r = sr_ID row)
         (\<lambda>r. r\<lparr>sr_Status := ''settled'', sr_SettledAt := Some now\<rparr>))) (\<lambda>r.
       returnE (case r of Inl _ \<Rightarrow> False | Inr _ \<Rightarrow> True))))"

fun payouts :: "int \<Rightarrow> settlementRecord list \<Rightarrow> ('z settle_db_scheme, int) eff" where
  "payouts settled [] = returnE settled"
| "payouts settled (row # rows) =
     bindE (payout row) (\<lambda>ok. payouts (if ok then settled + 1 else settled) rows)"

definition matured :: "int \<Rightarrow> settlementRecord \<Rightarrow> bool" where
  "matured now r \<longleftrightarrow> sr_Status r = ''pending'' \<and> (case sr_SettleAt r of None \<Rightarrow> False | Some t \<Rightarrow> t \<le> now)"

definition ProcessSettlements :: "('z settle_db_scheme, int) eff" where
  "ProcessSettlements =
     bindE (getsE clock) (\<lambda>now.
     bindE (wrapE ''query pending settlements failed'' (db_select settlement_records (matured now))) (\<lambda>rows.
     payouts 0 rows))"

section \<open>Quotas\<close>

definition within_quota :: "int \<Rightarrow> int \<Rightarrow> int \<Rightarrow> bool" where
  "within_quota limit used cost \<longleftrightarrow> limit = 0 \<or> used + cost \<le> limit"

definition updateQuotaSync :: "int \<Rightarrow> int \<Rightarrow> int \<Rightarrow> ('z llm_db_scheme, unit) eff" where
  "updateQuotaSync modelKeyID keyModelID cost =
     (if cost \<le> 0 then returnE () else
      bindE (tryE (db_update llm_model_keys llm_model_keys_update
        (\<lambda>r. mk_ID r = modelKeyID \<and> within_quota (mk_QuotaLimitCredits r) (mk_QuotaUsedCredits r) cost)
        (\<lambda>r. r\<lparr>mk_QuotaUsedCredits := mk_QuotaUsedCredits r + cost\<rparr>))) (\<lambda>_.
      bindE (tryE (db_update llm_model_key_models llm_model_key_models_update
        (\<lambda>r. km_ID r = keyModelID \<and> within_quota (km_QuotaLimitCredits r) (km_QuotaUsedCredits r) cost)
        (\<lambda>r. r\<lparr>km_QuotaUsedCredits := km_QuotaUsedCredits r + cost\<rparr>))) (\<lambda>_. returnE ())))"

section \<open>One task\<close>

definition disableOverdraftKeys :: "int \<Rightarrow> ('z settle_db_scheme, unit) eff" where
  "disableOverdraftKeys userID =
     bindE (tryE (db_update api_keys api_keys_update (\<lambda>k. ak_user_id k = userID \<and> ak_status k = 1)
       (\<lambda>k. k\<lparr>ak_status := 0, ak_disabled_reason := ''overdraft''\<rparr>))) (\<lambda>_. returnE ())"

definition requeue :: "SettlementTask \<Rightarrow> ('z llm_db_scheme, unit) eff" where
  "requeue task =
     (if stt_RetryCount task < maxSettlementRetries
      then EnqueueSettlement (task\<lparr>stt_RetryCount := stt_RetryCount task + 1\<rparr>) else returnE ())"

text \<open>Lazy tokenization: \<open>None\<close> when the worker gives the task back or drops it.  The tokenizer
  is a plug-in of the process (\<^verbatim>\<open>globalTokenizer\<close>), possibly unset.\<close>

type_synonym tokenizer = "(string \<Rightarrow> string \<Rightarrow> go_err + int) option"

definition needs_tokens :: "SettlementTask \<Rightarrow> bool" where
  "needs_tokens task \<longleftrightarrow>
     (case stt_Usage task of None \<Rightarrow> True | Some u \<Rightarrow> us_TotalTokens u = 0) \<and> stt_ResponseText task \<noteq> []"

definition tokenized :: "int \<Rightarrow> SettlementTask \<Rightarrow> SettlementTask" where
  "tokenized tokens task = task\<lparr>stt_Usage := Some (zero_Usage\<lparr>us_CompletionTokens := tokens, us_TotalTokens := tokens\<rparr>),
     stt_Cost := go_div (i64 (stt_OutputPricePer1K task * tokens)) 1000\<rparr>"

definition lazy_tokenize :: "tokenizer \<Rightarrow> SettlementTask \<Rightarrow> ('z llm_db_scheme, SettlementTask option) eff" where
  "lazy_tokenize tok task =
     (if needs_tokens task then
        (case tok of
           None \<Rightarrow> bindE (requeue task) (\<lambda>_. returnE None)
         | Some count \<Rightarrow> (case count (stt_ModelName task) (stt_ResponseText task) of
             Inl err \<Rightarrow> bindE (requeue task) (\<lambda>_. returnE None)
           | Inr tokens \<Rightarrow> returnE (Some (tokenized tokens task))))
      else returnE (Some task))"

text \<open>Cache hits and misses as they are recorded.\<close>

definition split_prompt :: "Usage option \<Rightarrow> int \<times> int" where
  "split_prompt usage = (case usage of None \<Rightarrow> (0, 0)
     | Some u \<Rightarrow>
        let hit = (case us_PromptTokensDetails u of None \<Rightarrow> 0 | Some d \<Rightarrow> td_CachedTokens d);
            miss = i64 (us_PromptTokens u - hit)
        in if miss < 0 then (0, us_PromptTokens u) else (hit, miss))"

definition usage_field :: "(Usage \<Rightarrow> int) \<Rightarrow> SettlementTask \<Rightarrow> int" where
  "usage_field f task = (case stt_Usage task of None \<Rightarrow> 0 | Some u \<Rightarrow> f u)"

definition usage_row :: "SettlementTask \<Rightarrow> int \<Rightarrow> int \<Rightarrow> usageRecord" where
  "usage_row task now i =
     (let revenue = calcRevenue (stt_Cost task) (stt_ProviderShareBps task);
          (hit, miss) = split_prompt (stt_Usage task)
      in \<lparr>ur_ID = i, ur_ConsumerUserID = stt_UserID task, ur_VirtualKeyID = stt_ApiKeyID task,
          ur_ModelSpecID = stt_ModelSpecID task, ur_ModelKeyID = stt_ModelKeyID task,
          ur_KeyModelID = stt_KeyModelID task, ur_ProviderUserID = stt_ProviderUserID task,
          ur_ChannelID = stt_ChannelID task, ur_RequestID = stt_RequestID task,
          ur_Capability = stt_Capability task, ur_IsStream = stt_IsStream task,
          ur_InputTokens = usage_field us_PromptTokens task, ur_CacheHitTokens = hit,
          ur_CacheMissTokens = miss, ur_OutputTokens = usage_field us_CompletionTokens task,
          ur_TotalTokens = usage_field us_TotalTokens task, ur_CostCredits = stt_Cost task,
          ur_ProviderRevenueCredits = revenue, ur_CommissionCredits = i64 (stt_Cost task - revenue),
          ur_LatencyMs = 0, ur_Status = ''success'', ur_ErrorCode = [], ur_ErrorMessage = [],
          ur_CreatedAt = now\<rparr>)"

definition pending_settlement :: "SettlementTask \<Rightarrow> int \<Rightarrow> int \<Rightarrow> int \<Rightarrow> settlementRecord" where
  "pending_settlement task usageID now i =
     (let revenue = calcRevenue (stt_Cost task) (stt_ProviderShareBps task)
      in \<lparr>sr_ID = i, sr_ProductType = ''llm'', sr_RefType = ''llm_usage_record'', sr_RefID = usageID,
          sr_ConsumerUserID = stt_UserID task, sr_ProviderUserID = stt_ProviderUserID task,
          sr_CostCredits = stt_Cost task, sr_ProviderRevenueCredits = revenue,
          sr_CommissionCredits = i64 (stt_Cost task - revenue), sr_PointsToConsumer = 0,
          sr_PointsToProvider = 0, sr_TransactionID = 0, sr_Status = ''pending'', sr_ErrorMessage = [],
          sr_CreatedAt = now, sr_SettledAt = None,
          sr_SettleAt = Some (now + DefaultSettlementCycleDays * 86400)\<rparr>)"

definition record_usage :: "SettlementTask \<Rightarrow> ('z llm_db_scheme, int) eff" where
  "record_usage task = transact (
     bindE (wrapE ''insert usage record failed''
       (db_insert ''llm_usage_records'' llm_usage_records llm_usage_records_update no_clash (usage_row task)))
     (\<lambda>usageID.
     bindE (wrapE ''insert settlement record failed''
       (db_insert ''settlement_records'' settlement_records settlement_records_update sr_clash
         (pending_settlement task usageID))) (\<lambda>_. returnE usageID)))"

definition consumer_debit :: "SettlementTask \<Rightarrow> int \<Rightarrow> CreditAccountIn" where
  "consumer_debit task usageID = \<lparr>ca_Asset = ''credits'', ca_AmountMicro = stt_Cost task,
     ca_OwnerType = ''user'', ca_OwnerID = stt_UserID task, ca_RefType = ''llm_usage'', ca_RefID = usageID\<rparr>"

definition chat_row :: "SettlementTask \<Rightarrow> json \<Rightarrow> int \<Rightarrow> int \<Rightarrow> chatLog" where
  "chat_row task request now i =
     \<lparr>cl_ID = i, cl_UserID = stt_UserID task, cl_ApiKeyID = stt_ApiKeyID task,
      cl_ModelSpecID = stt_ModelSpecID task, cl_RequestID = stt_RequestID task,
      cl_Capability = stt_Capability task, cl_IsStream = stt_IsStream task, cl_RequestBody = request,
      cl_ResponseBody = (case stt_ResponseBody task of None \<Rightarrow> JObj [] | Some j \<Rightarrow> j),
      cl_PromptTokens = usage_field us_PromptTokens task,
      cl_CompletionTokens = usage_field us_CompletionTokens task,
      cl_TotalTokens = usage_field us_TotalTokens task, cl_CostCredits = stt_Cost task, cl_CreatedAt = now\<rparr>"

definition charge :: "SettlementTask \<Rightarrow> int \<Rightarrow> ('z llm_db_scheme, unit) eff" where
  "charge task usageID =
     (if stt_Cost task > 0 then
        bindE (tryE (DebitAccount (consumer_debit task usageID))) (\<lambda>r.
        bindE (case r of Inl err \<Rightarrow> disableOverdraftKeys (stt_UserID task) | Inr _ \<Rightarrow> returnE ()) (\<lambda>_.
        if stt_ResponseText task \<noteq> []
        then updateQuotaSync (stt_ModelKeyID task) (stt_KeyModelID task) (stt_Cost task) else returnE ()))
      else returnE ())"

definition save_chat :: "SettlementTask \<Rightarrow> ('z llm_db_scheme, unit) eff" where
  "save_chat task = (case stt_RequestBody task of None \<Rightarrow> returnE ()
     | Some request \<Rightarrow> bindE (tryE (db_insert ''llm_chat_logs'' llm_chat_logs llm_chat_logs_update no_clash
         (chat_row task request))) (\<lambda>_. returnE ()))"

definition processSettlement :: "tokenizer \<Rightarrow> SettlementTask \<Rightarrow> ('z llm_db_scheme, unit) eff" where
  "processSettlement tok task0 =
     bindE (lazy_tokenize tok task0) (\<lambda>r. case r of None \<Rightarrow> returnE ()
     | Some task \<Rightarrow>
        bindE (tryE (record_usage task)) (\<lambda>res. case res of
          Inl err \<Rightarrow> requeue task
        | Inr usageID \<Rightarrow> bindE (charge task usageID) (\<lambda>_. save_chat task)))"

text \<open>One round of the loop of settlementWorker, and a number of rounds.\<close>

definition worker_round :: "tokenizer \<Rightarrow> ('z llm_db_scheme, unit) eff" where
  "worker_round tok =
     bindE (tryE redis_Dequeue) (\<lambda>r. case r of
       Inl err \<Rightarrow> returnE ()
     | Inr None \<Rightarrow> returnE ()
     | Inr (Some task) \<Rightarrow> processSettlement tok task)"

fun worker_rounds :: "tokenizer \<Rightarrow> nat \<Rightarrow> 'z llm_db_scheme \<Rightarrow> 'z llm_db_scheme" where
  "worker_rounds tok 0 s = s"
| "worker_rounds tok (Suc n) s = worker_rounds tok n (snd (worker_round tok s))"

declare maxSettlementRetries_def [run] DefaultSettlementCycleDays_def [run] redis_Enqueue_def [run]
  redis_Dequeue_def [run] EnqueueSettlement_def [run] calcRevenue_def [run] earnings_credit_def [run]
  payout_def [run] matured_def [run] ProcessSettlements_def [run] within_quota_def [run]
  updateQuotaSync_def [run] disableOverdraftKeys_def [run] requeue_def [run] needs_tokens_def [run]
  tokenized_def [run] lazy_tokenize_def [run] split_prompt_def [run] usage_field_def [run]
  usage_row_def [run] pending_settlement_def [run] record_usage_def [run] consumer_debit_def [run]
  chat_row_def [run] charge_def [run] save_chat_def [run] processSettlement_def [run] worker_round_def [run]

end
