(* ===== verification/Handler.thy ===== *)
theory Handler
  imports Queue Scheduler RelayData
begin

text \<open>
  The relay pipeline: \<^verbatim>\<open>internal/relay/handler/handler.go\<close> with the adaptor interface
  and registry (\<^verbatim>\<open>relay/common/adaptor.go\<close>, \<^verbatim>\<open>relay/channel/registry.go\<close>).  A request is checked against the
  balance, a key binding is picked, the request is converted and sent upstream by an adaptor,
  and what the adaptor reports is settled.

  The adaptors are parameters (a record of functions per kind), so the theorems hold for every
  provider and every upstream answer; so are \<^verbatim>\<open>sort.Slice\<close>, \<^verbatim>\<open>rand.IntN\<close>, the
  order of a Go map and the decryption of a key.  A panic inside an adaptor and log lines are
  left out.
\<close>

section \<open>Adaptors\<close>

datatype adaptor_kind =
    AdOpenAI | AdClaude | AdGemini | AdAli | AdDeepSeek | AdZhipu | AdMoonshot | AdMistral | AdXAI
  | AdSiliconFlow | AdCloudflare | AdSubmodel | AdBaiduV2 | AdVolcengine | AdMiniMax | AdOllama
  | AdVertex | AdTencent | AdXunfei | AdCoze | AdDify | AdJimeng | AdCodex | AdAWS

fun getByProviderType :: "ProviderType \<Rightarrow> adaptor_kind option" where
  "getByProviderType ProviderOpenAI = Some AdOpenAI"
| "getByProviderType ProviderClaude = Some AdClaude"
| "getByProviderType ProviderGemini = Some AdGemini"
| "getByProviderType ProviderAli = Some AdAli"
| "getByProviderType ProviderDeepSeek = Some AdDeepSeek"
| "getByProviderType ProviderZhipu = Some AdZhipu"
| "getByProviderType ProviderMoonshot = Some AdMoonshot"
| "getByProviderType ProviderMistral = Some AdMistral"
| "getByProviderType ProviderXAI = Some AdXAI"
| "getByProviderType ProviderSiliconFlow = Some AdSiliconFlow"
| "getByProviderType ProviderCloudflare = Some AdCloudflare"
| "getByProviderType ProviderSubmodel = Some AdSubmodel"
| "getByProviderType ProviderBaiduV2 = Some AdBaiduV2"
| "getByProviderType ProviderVolcengine = Some AdVolcengine"
| "getByProviderType ProviderMiniMax = Some AdMiniMax"
| "getByProviderType ProviderOllama = Some AdOllama"
| "getByProviderType ProviderVertex = Some AdVertex"
| "getByProviderType ProviderTencent = Some AdTencent"
| "getByProviderType ProviderXunfei = Some AdXunfei"
| "getByProviderType ProviderCoze = Some AdCoze"
| "getByProviderType ProviderDify = Some AdDify"
| "getByProviderType ProviderJimeng = Some AdJimeng"
| "getByProviderType ProviderCodex = Some AdCodex"
| "getByProviderType ProviderAWS = Some AdAWS"
| "getByProviderType ProviderAzure = Some AdOpenAI"
| "getByProviderType ProviderAI360 = Some AdOpenAI"
| "getByProviderType ProviderLingyi = Some AdOpenAI"
| "getByProviderType ProviderOpenRouter = Some AdOpenAI"
| "getByProviderType ProviderXInference = Some AdOpenAI"
| "getByProviderType _ = None"

definition getByProtocol :: "string \<Rightarrow> adaptor_kind option" where
  "getByProtocol protocol =
     (if protocol \<in> {''openai-compatible'', ''azure''} then Some AdOpenAI
      else if protocol \<in> {''anthropic-compatible'', ''claude''} then Some AdClaude
      else if protocol \<in> {''gemini-compatible'', ''gemini''} then Some AdGemini
      else if protocol \<in> {''ali'', ''qwen''} then Some AdAli
      else if protocol = ''deepseek'' then Some AdDeepSeek
      else if protocol \<in> {''zhipu'', ''glm''} then Some AdZhipu
      else if protocol = ''moonshot'' then Some AdMoonshot
      else if protocol = ''mistral'' then Some AdMistral
      else if protocol \<in> {''xai'', ''grok''} then Some AdXAI
      else if protocol = ''siliconflow'' then Some AdSiliconFlow
      else if protocol \<in> {''baidu'', ''ernie''} then Some AdBaiduV2
      else if protocol \<in> {''volcengine'', ''ark''} then Some AdVolcengine
      else if protocol = ''minimax'' then Some AdMiniMax
      else if protocol = ''ollama'' then Some AdOllama
      else if protocol \<in> {''tencent'', ''hunyuan''} then Some AdTencent
      else if protocol \<in> {''xunfei'', ''spark''} then Some AdXunfei
      else if protocol = ''cloudflare'' then Some AdCloudflare
      else if protocol = ''vertex'' then Some AdVertex
      else if protocol \<in> {''aws'', ''bedrock''} then Some AdAWS
      else None)"

text \<open>Bytes of a body: a JSON document or any other text (the empty one included).\<close>

datatype payload = Doc json | Text string

text \<open>\<^verbatim>\<open>ConvertRequest\<close> returns a reader; the handler looks whether it is a
  \<^verbatim>\<open>*bytes.Reader\<close>.\<close>

datatype reader = BytesReader payload | OtherReader payload

text \<open>What \<^verbatim>\<open>DoResponse\<close> returns, writes and leaves in \<^verbatim>\<open>info.ResponseText\<close>; code 0
  is a response whose writer was never touched.\<close>

record answer =
  aw_Usage :: "Usage option"
  aw_Err :: "go_err option"
  aw_Code :: int
  aw_Body :: payload
  aw_Headers :: "(string \<times> string) list"
  aw_ResponseText :: string

record 'r adaptor =
  ad_ConvertRequest :: "RelayInfo \<Rightarrow> json \<Rightarrow> go_err + reader"
  ad_DoRequest :: "RelayInfo \<Rightarrow> payload \<Rightarrow> go_err + 'r"
  ad_DoResponse :: "RelayInfo \<Rightarrow> 'r \<Rightarrow> answer"

record 'r relay_env =
  en_srt :: "ChannelCandidate list \<Rightarrow> ChannelCandidate list"
  en_rnd :: "int \<Rightarrow> int"
  en_pick :: "string list \<Rightarrow> string"
  en_toInt :: "string \<Rightarrow> int"
  en_decrypt :: "string \<Rightarrow> go_err + string"
  en_impl :: "adaptor_kind \<Rightarrow> 'r adaptor"

section \<open>Requests and candidates\<close>

record gateway_db = llm_db +
  affinity :: AffinityStore

record RelayRequest =
  rq_UserID :: int
  rq_ApiKeyID :: int
  rq_RequestID :: string
  rq_Path :: string
  rq_RawBody :: raw
  rq_IsStream :: bool
  rq_Capability :: string

record RelayResponse =
  rs_StatusCode :: int
  rs_Body :: payload
  rs_Headers :: "(string \<times> string) list"

record candidateRow =
  cr_KeyModelID :: int
  cr_ModelKeyID :: int
  cr_ModelSpecID :: int
  cr_ChannelID :: int
  cr_ChannelName :: string
  cr_ProviderUserID :: int
  cr_Priority :: int
  cr_Weight :: int
  cr_UpstreamModelName :: string
  cr_KeyEncrypted :: string
  cr_ProtocolsJson :: raw
  cr_ProviderShareBps :: int
  cr_CacheHitPricePer1K :: int
  cr_CacheMissPricePer1K :: int
  cr_OutputPricePer1K :: int
  cr_KMQuotaUsed :: int
  cr_KMQuotaLimit :: int
  cr_MKQuotaUsed :: int
  cr_MKQuotaLimit :: int
  cr_ConsecutiveFails :: int

definition checkBalance :: "int \<Rightarrow> ('z gateway_db_scheme, unit) eff" where
  "checkBalance userID =
     bindE (wrapE ''query balance failed'' (scan_account ''user'' userID ''credits'')) (\<lambda>row.
     if (case row of None \<Rightarrow> 0 | Some a \<Rightarrow> acc_balance_micro a) \<le> 0
     then throwE (ErrNew ''insufficient credits'') else returnE ())"

definition resolveModelSpec :: "string \<Rightarrow> ('z gateway_db_scheme, int \<times> string) eff" where
  "resolveModelSpec modelCode =
     bindE (wrapE ''query model spec failed''
       (db_scan llm_model_specs (\<lambda>r. ms_ModelCode r = modelCode \<and> ms_Status r = ''active''))) (\<lambda>row. case row of
       None \<Rightarrow> throwE (ErrNewf ''model %s not found or inactive'' [AStr modelCode])
     | Some r \<Rightarrow> returnE (ms_ID r, ms_ModelCode r))"

definition candidate :: "keyModelRow \<Rightarrow> modelKeyRow \<Rightarrow> channelRow \<Rightarrow> candidateRow" where
  "candidate km mk ch =
     \<lparr>cr_KeyModelID = km_ID km, cr_ModelKeyID = km_ModelKeyID km, cr_ModelSpecID = km_ModelSpecID km,
      cr_ChannelID = mk_ChannelID mk, cr_ChannelName = ch_Name ch, cr_ProviderUserID = mk_ProviderUserID mk,
      cr_Priority = ch_Priority ch, cr_Weight = ch_Weight ch, cr_UpstreamModelName = km_UpstreamModelName km,
      cr_KeyEncrypted = mk_KeyEncrypted mk, cr_ProtocolsJson = ch_ProtocolsJson ch,
      cr_ProviderShareBps = km_ProviderShareBps km, cr_CacheHitPricePer1K = km_CacheHitPricePer1K km,
      cr_CacheMissPricePer1K = km_CacheMissPricePer1K km, cr_OutputPricePer1K = km_OutputPricePer1K km,
      cr_KMQuotaUsed = km_QuotaUsedCredits km, cr_KMQuotaLimit = km_QuotaLimitCredits km,
      cr_MKQuotaUsed = mk_QuotaUsedCredits mk, cr_MKQuotaLimit = mk_QuotaLimitCredits mk,
      cr_ConsecutiveFails = km_ConsecutiveFailures km\<rparr>"

definition join_candidates :: "int \<Rightarrow> 'z gateway_db_scheme \<Rightarrow> candidateRow list" where
  "join_candidates modelSpecID s =
     [candidate km mk ch. km \<leftarrow> llm_model_key_models s, mk \<leftarrow> llm_model_keys s, ch \<leftarrow> llm_channels s,
        km_ModelKeyID km = mk_ID mk, mk_ChannelID mk = ch_ID ch, km_ModelSpecID km = modelSpecID,
        km_Status km = ''active'', mk_Status mk = ''active'', ch_Status ch = ''active'']"

definition quota_left :: "candidateRow \<Rightarrow> bool" where
  "quota_left r \<longleftrightarrow> \<not> (cr_MKQuotaLimit r > 0 \<and> cr_MKQuotaUsed r \<ge> cr_MKQuotaLimit r) \<and>
     \<not> (cr_KMQuotaLimit r > 0 \<and> cr_KMQuotaUsed r \<ge> cr_KMQuotaLimit r)"

definition loadActiveCandidates :: "int \<Rightarrow> ('z gateway_db_scheme, candidateRow list) eff" where
  "loadActiveCandidates modelSpecID =
     bindE (wrapE ''query candidates failed'' (db_call (getsE (join_candidates modelSpecID)))) (\<lambda>rows.
     returnE (filter (\<lambda>r. quota_left r \<and> cr_ProtocolsJson r \<noteq> None) rows))"

definition healthScore :: "int \<Rightarrow> int" where
  "healthScore consecutiveFails =
     (if consecutiveFails = 0 then 100 else if consecutiveFails = 1 then 80
      else if consecutiveFails = 2 then 60 else if consecutiveFails = 3 then 40
      else if consecutiveFails = 4 then 20 else 10)"

definition channelCandidate :: "(string list \<Rightarrow> string) \<Rightarrow> string \<Rightarrow> candidateRow \<Rightarrow> ChannelCandidate option" where
  "channelCandidate pick inboundFormat r =
     (let protocols = ParseProtocolsJSON (cr_ProtocolsJson r) in
      if protocols = [] then None
      else let (protocolKey, baseURL) = BestProtocolMatch pick protocols inboundFormat in
      if protocolKey = [] then None
      else Some \<lparr>cc_ChannelID = cr_ChannelID r, cc_ChannelName = cr_ChannelName r, cc_BaseURL = baseURL,
        cc_Priority = cr_Priority r, cc_Weight = cr_Weight r, cc_HealthScore = healthScore (cr_ConsecutiveFails r),
        cc_ModelKeyID = cr_ModelKeyID r, cc_KeyModelID = cr_KeyModelID r,
        cc_UpstreamModelName = cr_UpstreamModelName r, cc_IsModelMapped = (cr_UpstreamModelName r \<noteq> []),
        cc_ApiKey = cr_KeyEncrypted r, cc_ProviderUserID = cr_ProviderUserID r,
        cc_ModelSpecID = cr_ModelSpecID r, cc_ProtocolKey = protocolKey, cc_ProtocolsJSON = cr_ProtocolsJson r,
        cc_ChannelType = 0, cc_ProviderShareBps = cr_ProviderShareBps r,
        cc_CacheHitPricePer1K = cr_CacheHitPricePer1K r, cc_CacheMissPricePer1K = cr_CacheMissPricePer1K r,
        cc_OutputPricePer1K = cr_OutputPricePer1K r\<rparr>)"

definition buildChannelCandidates ::
  "(string list \<Rightarrow> string) \<Rightarrow> candidateRow list \<Rightarrow> string \<Rightarrow> ChannelCandidate list" where
  "buildChannelCandidates pick rows inboundFormat = List.map_filter (channelCandidate pick inboundFormat) rows"

text \<open>The affinity channel is preferred when it is among the candidates.\<close>

definition prefer_channel :: "int option \<Rightarrow> ChannelCandidate list \<Rightarrow> ChannelCandidate list" where
  "prefer_channel hit cs = (case hit of None \<Rightarrow> cs
     | Some ch \<Rightarrow> (let preferred = filter (\<lambda>c. cc_ChannelID c = ch) cs in if preferred \<noteq> [] then preferred else cs))"

section \<open>Cost and settlement\<close>

definition price :: "int \<Rightarrow> int \<Rightarrow> int" where
  "price per1K tokens = (if per1K > 0 \<and> tokens > 0 then go_div (i64 (per1K * tokens)) 1000 else 0)"

definition computeCost :: "Usage option \<Rightarrow> ChannelCandidate option \<Rightarrow> int" where
  "computeCost usage picked = (case (usage, picked) of
     (Some u, Some c) \<Rightarrow>
       (if cc_CacheHitPricePer1K c = 0 \<and> cc_CacheMissPricePer1K c = 0 \<and> cc_OutputPricePer1K c = 0 then 0
        else
          let promptTokens = us_PromptTokens u;
              hit = (case us_PromptTokensDetails u of None \<Rightarrow> 0
                | Some d \<Rightarrow> if td_CachedTokens d > 0 then td_CachedTokens d else 0);
              miss = i64 (promptTokens - hit);
              (cacheHitTokens, cacheMissTokens) = (if miss < 0 then (0, promptTokens) else (hit, miss));
              outputTokens = us_CompletionTokens u
          in i64 (i64 (price (cc_CacheHitPricePer1K c) cacheHitTokens + price (cc_CacheMissPricePer1K c) cacheMissTokens)
               + price (cc_OutputPricePer1K c) outputTokens))
   | _ \<Rightarrow> 0)"

text \<open>The task of an answer.  A response body that is no JSON document makes
  \<^verbatim>\<open>json.Marshal(task)\<close> fail, so nothing is pushed and the error is logged.\<close>

definition settlement_task ::
  "RelayRequest \<Rightarrow> ChannelCandidate \<Rightarrow> Usage option \<Rightarrow> raw \<Rightarrow> string \<Rightarrow> SettlementTask" where
  "settlement_task req picked usage respBody responseText =
     (let hasUsage = (case usage of None \<Rightarrow> False | Some u \<Rightarrow> us_TotalTokens u > 0);
          task = \<lparr>stt_UserID = rq_UserID req, stt_ApiKeyID = rq_ApiKeyID req, stt_ModelKeyID = cc_ModelKeyID picked,
            stt_KeyModelID = cc_KeyModelID picked, stt_ProviderUserID = cc_ProviderUserID picked,
            stt_ChannelID = cc_ChannelID picked, stt_ModelSpecID = cc_ModelSpecID picked,
            stt_RequestID = rq_RequestID req, stt_Capability = rq_Capability req, stt_IsStream = rq_IsStream req,
            stt_Usage = usage, stt_Cost = 0, stt_ProviderShareBps = cc_ProviderShareBps picked, stt_StartTime = 0,
            stt_RetryCount = 0, stt_RequestBody = rq_RawBody req, stt_ResponseBody = respBody,
            stt_ResponseText = [], stt_ModelName = [], stt_OutputPricePer1K = 0, stt_CacheHitPricePer1K = 0,
            stt_CacheMissPricePer1K = 0\<rparr>
      in if hasUsage then task\<lparr>stt_Cost := computeCost usage (Some picked)\<rparr>
         else task\<lparr>stt_ResponseText := responseText, stt_OutputPricePer1K := cc_OutputPricePer1K picked,
            stt_CacheHitPricePer1K := cc_CacheHitPricePer1K picked,
            stt_CacheMissPricePer1K := cc_CacheMissPricePer1K picked,
            stt_ModelName := (case rq_RawBody req of Some (JObj o') \<Rightarrow>
                (case model_field o' of Some m \<Rightarrow> m | None \<Rightarrow> []) | _ \<Rightarrow> [])\<rparr>)"

definition enqueueSettlement ::
  "RelayRequest \<Rightarrow> ChannelCandidate \<Rightarrow> Usage option \<Rightarrow> payload \<Rightarrow> string \<Rightarrow> ('z llm_db_scheme, int) eff" where
  "enqueueSettlement req picked usage respBody responseText =
     (let hasUsage = (case usage of None \<Rightarrow> False | Some u \<Rightarrow> us_TotalTokens u > 0);
          hasText = (responseText \<noteq> []);
          task = (\<lambda>body. settlement_task req picked usage body responseText) in
      if \<not> hasUsage \<and> \<not> hasText then returnE 0
      else
        bindE (case respBody of Doc j \<Rightarrow> EnqueueSettlement (task (Some j))
               | Text t \<Rightarrow> if t = [] then EnqueueSettlement (task None) else returnE ()) (\<lambda>_.
        returnE (stt_Cost (task None))))"

section \<open>The pipeline\<close>

text \<open>Steps 1 to 11, which Handle and HandleStream both write out: the picked candidate, the
  resolved model code, the adaptor, its info and the body to send.\<close>

definition relay_info :: "RelayRequest \<Rightarrow> bool \<Rightarrow> string \<Rightarrow> string \<Rightarrow> int \<Rightarrow> ChannelCandidate \<Rightarrow> string \<Rightarrow> RelayInfo" where
  "relay_info req stream resolvedCode inboundFormat now picked apiKey =
     \<lparr>ri_UserID = rq_UserID req, ri_ApiKeyID = rq_ApiKeyID req, ri_ProjectID = 0,
      ri_RequestID = rq_RequestID req,
      ri_RelayMode = RelayModeChatCompletions, ri_IsStream = stream, ri_OriginModelName = resolvedCode,
      ri_RequestURLPath = rq_Path req, ri_RequestHeaders = None, ri_StartTime = now,
      ri_ChannelMeta = \<lparr>cm_ChannelID = cc_ChannelID picked, cm_ChannelType = 0, cm_ChannelName = cc_ChannelName picked,
        cm_BaseURL = cc_BaseURL picked, cm_ApiKey = apiKey, cm_UpstreamModelName = cc_UpstreamModelName picked,
        cm_IsModelMapped = (cc_UpstreamModelName picked \<noteq> []), cm_Settings = zero_settings\<rparr>,
      ri_RetryIndex = 0, ri_LastError = None, ri_StreamStatus = NewStreamStatus, ri_FirstResponseTime = None,
      ri_InboundFormat = inboundFormat, ri_ClientFormat = inboundFormat,
      ri_RuntimeHeadersOverride = None, ri_UseResponsesAPI = False, ri_ThinkingEnabled = False,
      ri_ThinkingDisabled = False, ri_ReasoningEffort = [], ri_BaseModelName = [], ri_ResponseText = []\<rparr>"

record 'r prepared =
  pr_Picked :: ChannelCandidate
  pr_Code :: string
  pr_Adaptor :: "'r adaptor"
  pr_Info :: RelayInfo
  pr_Body :: payload

definition pick_candidate ::
  "'r relay_env \<Rightarrow> RelayRequest \<Rightarrow> string \<Rightarrow> ('z gateway_db_scheme, string \<times> ChannelCandidate) eff" where
  "pick_candidate env req modelCode =
     (let inboundFormat = detectInboundFormat (rq_RawBody req) (rq_Path req) in
      bindE (checkBalance (rq_UserID req)) (\<lambda>_.
      bindE (resolveModelSpec modelCode) (\<lambda>(specID, resolvedCode).
      bindE (loadActiveCandidates specID) (\<lambda>dbCandidates.
      if dbCandidates = [] then throwE (ErrNewf ''no available key for model %s'' [AStr resolvedCode])
      else
        let chanCandidates = buildChannelCandidates (en_pick env) dbCandidates inboundFormat in
        bindE (getsE (\<lambda>s. affinity_Get (clock s) (rq_UserID req) resolvedCode (affinity s))) (\<lambda>hit.
        case Select (en_srt env) (en_rnd env) (prefer_channel hit chanCandidates) of
          None \<Rightarrow> throwE (ErrNew ''no channel available after scheduling'')
        | Some picked \<Rightarrow> returnE (resolvedCode, picked))))))"

definition prepare :: "'r relay_env \<Rightarrow> RelayRequest \<Rightarrow> bool \<Rightarrow> ('z gateway_db_scheme, 'r prepared) eff" where
  "prepare env req stream =
     bindE (liftE (extractModel (rq_RawBody req))) (\<lambda>modelCode.
     let inboundFormat = detectInboundFormat (rq_RawBody req) (rq_Path req) in
     bindE (pick_candidate env req modelCode) (\<lambda>(resolvedCode, picked).
     if cc_ProtocolKey picked = []
     then throwE (ErrNewf ''channel %d (%s) has no supported protocol'' [AInt (cc_ChannelID picked), AStr (cc_ChannelName picked)])
     else case getByProtocol (cc_ProtocolKey picked) of
       None \<Rightarrow> throwE (ErrNewf ''no adaptor registered for protocol %q'' [AStr (cc_ProtocolKey picked)])
     | Some kind \<Rightarrow>
        bindE (wrapE (sprintf ''decrypt key failed for model_key_id=%d'' [AInt (cc_ModelKeyID picked)])
          (liftE (en_decrypt env (cc_ApiKey picked)))) (\<lambda>apiKey.
        bindE (getsE clock) (\<lambda>now.
        let info = relay_info req stream resolvedCode inboundFormat now picked apiKey;
            adp = en_impl env kind;
            raw = (case rq_RawBody req of Some j \<Rightarrow> j | None \<Rightarrow> JNull) in
        bindE (wrapE ''convert request failed'' (liftE (ad_ConvertRequest adp info raw))) (\<lambda>convertedBody.
        returnE \<lparr>pr_Picked = picked, pr_Code = resolvedCode, pr_Adaptor = adp, pr_Info = info,
          pr_Body = (case convertedBody of BytesReader b \<Rightarrow> b | OtherReader b \<Rightarrow> Doc raw)\<rparr>)))))"

definition set_affinity :: "int \<Rightarrow> string \<Rightarrow> int \<Rightarrow> ('z gateway_db_scheme, unit) eff" where
  "set_affinity user model channel =
     (\<lambda>s. (Inr (), s\<lparr>affinity := affinity_Set (clock s) user model channel (affinity s)\<rparr>))"

definition drop_affinity :: "int \<Rightarrow> string \<Rightarrow> ('z gateway_db_scheme, unit) eff" where
  "drop_affinity user model = (\<lambda>s. (Inr (), s\<lparr>affinity := affinity_Delete user model (affinity s)\<rparr>))"

text \<open>The retry loop up to the first response: \<open>n\<close> is the number of iterations left.  The
  result is \<^verbatim>\<open>lastErr\<close> and the response, if the loop did not run out.\<close>

fun send_loop ::
  "'r prepared \<Rightarrow> int \<Rightarrow> int \<Rightarrow> nat \<Rightarrow> int \<Rightarrow> go_err option \<Rightarrow>
   ('z gateway_db_scheme, go_err option \<times> (RelayInfo \<times> 'r) option) eff" where
  "send_loop p user maxRetries 0 attempt lastErr = returnE (lastErr, None)"
| "send_loop p user maxRetries (Suc n) attempt lastErr =
     (let info = (pr_Info p)\<lparr>ri_RetryIndex := attempt\<rparr> in
      case ad_DoRequest (pr_Adaptor p) info (pr_Body p) of
        Inl err \<Rightarrow>
          if ShouldRetry (Some err) attempt maxRetries
          then bindE (drop_affinity user (pr_Code p)) (\<lambda>_. send_loop p user maxRetries n (attempt + 1) (Some err))
          else throwE (ErrWrap err ''upstream request failed'')
      | Inr resp \<Rightarrow> bindE (getsE clock) (\<lambda>now. returnE (lastErr, Some (SetFirstResponseTime now info, resp))))"

definition send :: "'r relay_env \<Rightarrow> RelayRequest \<Rightarrow> 'r prepared \<Rightarrow>
    ('z gateway_db_scheme, go_err option \<times> (RelayInfo \<times> 'r) option) eff" where
  "send env req p = bindE (GetMaxRetries (en_toInt env)) (\<lambda>maxRetries.
     send_loop p (rq_UserID req) maxRetries (nat (maxRetries + 1)) 0 None)"

definition charge_quota :: "ChannelCandidate \<Rightarrow> int \<Rightarrow> ('z llm_db_scheme, unit) eff" where
  "charge_quota picked cost =
     (if cost > 0 then updateQuotaSync (cc_ModelKeyID picked) (cc_KeyModelID picked) cost else returnE ())"

text \<open>A non-streamed answer: a status that was never written counts as 200.  The result is what
  Handle returns, \<open>None\<close> standing for \<^verbatim>\<open>(nil, nil)\<close>.\<close>

definition finish :: "RelayRequest \<Rightarrow> 'r prepared \<Rightarrow> RelayInfo \<Rightarrow> 'r \<Rightarrow>
    ('z gateway_db_scheme, RelayResponse option) eff" where
  "finish req p info resp =
     (let a = ad_DoResponse (pr_Adaptor p) info resp;
          statusCode = (if aw_Code a = 0 then 200 else aw_Code a);
          billed = (statusCode = 200 \<and> (case aw_Usage a of None \<Rightarrow> False | Some u \<Rightarrow> us_TotalTokens u > 0)) in
      bindE (if billed then enqueueSettlement req (pr_Picked p) (aw_Usage a) (aw_Body a) [] else returnE 0) (\<lambda>cost.
      bindE (charge_quota (pr_Picked p) cost) (\<lambda>_.
      bindE (set_affinity (rq_UserID req) (pr_Code p) (cc_ChannelID (pr_Picked p))) (\<lambda>_.
      case aw_Err a of
        Some doRespErr \<Rightarrow> if aw_Body a = Text [] then throwE doRespErr
          else returnE (Some \<lparr>rs_StatusCode = statusCode, rs_Body = aw_Body a, rs_Headers = aw_Headers a\<rparr>)
      | None \<Rightarrow> returnE (Some \<lparr>rs_StatusCode = statusCode, rs_Body = aw_Body a, rs_Headers = aw_Headers a\<rparr>)))))"

text \<open>\<^verbatim>\<open>return nil, lastErr\<close>.\<close>

definition give_up :: "go_err option \<Rightarrow> ('s, 'a option) eff" where
  "give_up lastErr = (case lastErr of None \<Rightarrow> returnE None | Some e \<Rightarrow> throwE e)"

definition Handle :: "'r relay_env \<Rightarrow> RelayRequest \<Rightarrow> ('z gateway_db_scheme, RelayResponse option) eff" where
  "Handle env req =
     bindE (prepare env req (rq_IsStream req)) (\<lambda>p.
     bindE (send env req p) (\<lambda>(lastErr, r). case r of
       None \<Rightarrow> give_up lastErr
     | Some (info, resp) \<Rightarrow> if rq_IsStream req then give_up lastErr else finish req p info resp))"

text \<open>A streamed answer is written to the client by the adaptor; only its error and the
  settlement matter here.\<close>

definition finish_stream :: "RelayRequest \<Rightarrow> 'r prepared \<Rightarrow> RelayInfo \<Rightarrow> 'r \<Rightarrow> ('z gateway_db_scheme, unit) eff" where
  "finish_stream req p info resp =
     (let a = ad_DoResponse (pr_Adaptor p) info resp;
          respBody = (if aw_ResponseText a \<noteq> []
            then Doc (JObj [(''content'', JStr (aw_ResponseText a)), (''is_stream'', JBool True)]) else Text []) in
      bindE (set_affinity (rq_UserID req) (pr_Code p) (cc_ChannelID (pr_Picked p))) (\<lambda>_.
      bindE (enqueueSettlement req (pr_Picked p) (aw_Usage a) respBody (aw_ResponseText a)) (\<lambda>cost.
      bindE (charge_quota (pr_Picked p) cost) (\<lambda>_.
      case aw_Err a of None \<Rightarrow> returnE () | Some e \<Rightarrow> throwE (ErrWrap e ''stream response failed'')))))"

definition HandleStream :: "'r relay_env \<Rightarrow> RelayRequest \<Rightarrow> ('z gateway_db_scheme, unit) eff" where
  "HandleStream env req =
     bindE (prepare env req True) (\<lambda>p.
     bindE (send env req p) (\<lambda>(lastErr, r). case r of
       None \<Rightarrow> (case lastErr of None \<Rightarrow> returnE () | Some e \<Rightarrow> throwE e)
     | Some (info, resp) \<Rightarrow> finish_stream req p info resp))"

declare getByProtocol_def [run] GetOriginalClientFormat_def [run] SetFirstResponseTime_def [run]
  checkBalance_def [run] resolveModelSpec_def [run] candidate_def [run] join_candidates_def [run]
  quota_left_def [run] loadActiveCandidates_def [run] healthScore_def [run] channelCandidate_def [run]
  buildChannelCandidates_def [run] prefer_channel_def [run] price_def [run] computeCost_def [run]
  settlement_task_def [run] enqueueSettlement_def [run] relay_info_def [run] pick_candidate_def [run]
  prepare_def [run] set_affinity_def [run] drop_affinity_def [run] send_def [run] charge_quota_def [run]
  finish_def [run] give_up_def [run] Handle_def [run] finish_stream_def [run] HandleStream_def [run]

end
