(* ===== verification/LlmAdmin.thy ===== *)
theory LlmAdmin
  imports LlmTables GoStrings "HOL-Library.AList" "HOL-Library.Char_ord" "HOL-Library.List_Lexorder"
begin

text \<open>
  Administration of the gateway, \<^verbatim>\<open>internal/logic/llm\<close>: channels (channel.go), model
  specifications (model.go), the keys of providers and their bindings to models (key.go).  AES-GCM,
  the random nonce and the HTTP call of a test are parameters.  A JSONB column that refuses a text
  is one of the scripted faults.
\<close>

section \<open>Keys at rest\<close>

text \<open>An AEAD cipher as crypto/cipher gives it for a key.\<close>

record aead =
  gcm_NonceSize :: nat
  gcm_Seal :: "string \<Rightarrow> string \<Rightarrow> string"
  gcm_Open :: "string \<Rightarrow> string \<Rightarrow> go_err + string"

text \<open>The configuration value and the environment variable; \<^verbatim>\<open>aes.NewCipher\<close> refuses keys of a
  wrong length.  \<^verbatim>\<open>cipher.NewGCM\<close> does not fail on AES.\<close>

record key_env =
  ke_Config :: string
  ke_Env :: string
  ke_NewGCM :: "string \<Rightarrow> go_err + aead"
  ke_Nonce :: "go_err + string"

definition getEncryptionKey :: "key_env \<Rightarrow> go_err + string" where
  "getEncryptionKey E = (let key = (if ke_Config E = [] then ke_Env E else ke_Config E) in
     if key = [] then Inl (ErrNew ''MODEL_KEY_ENCRYPTION_KEY not set'') else Inr key)"

definition open_cipher :: "key_env \<Rightarrow> go_err + aead" where
  "open_cipher E = (case getEncryptionKey E of Inl e \<Rightarrow> Inl e
     | Inr hexKey \<Rightarrow> (case hex_decode hexKey of
         None \<Rightarrow> Inl (ErrWrap (ErrExt ''encoding/hex: invalid byte'') ''invalid MODEL_KEY_ENCRYPTION_KEY hex'')
       | Some key \<Rightarrow> (case ke_NewGCM E key of
           Inl e \<Rightarrow> Inl (ErrWrap e ''create AES cipher failed'') | Inr gcm \<Rightarrow> Inr gcm)))"

definition encryptKey :: "key_env \<Rightarrow> string \<Rightarrow> go_err + string" where
  "encryptKey E plaintext = (case open_cipher E of Inl e \<Rightarrow> Inl e
     | Inr gcm \<Rightarrow> (case ke_Nonce E of
         Inl e \<Rightarrow> Inl (ErrWrap e ''generate nonce failed'')
       | Inr nonce \<Rightarrow> Inr (hex_encode (nonce @ gcm_Seal gcm nonce plaintext))))"

definition DecryptKey :: "key_env \<Rightarrow> string \<Rightarrow> go_err + string" where
  "DecryptKey E ciphertextHex = (case open_cipher E of Inl e \<Rightarrow> Inl e
     | Inr gcm \<Rightarrow> (case hex_decode ciphertextHex of
         None \<Rightarrow> Inl (ErrWrap (ErrExt ''encoding/hex: invalid byte'') ''invalid ciphertext hex'')
       | Some ciphertext \<Rightarrow>
           if length ciphertext < gcm_NonceSize gcm then Inl (ErrNew ''ciphertext too short'')
           else (case gcm_Open gcm (take (gcm_NonceSize gcm) ciphertext) (drop (gcm_NonceSize gcm) ciphertext) of
             Inl e \<Rightarrow> Inl (ErrWrap e ''decrypt failed'') | Inr plaintext \<Rightarrow> Inr plaintext)))"

definition maskKey :: "string \<Rightarrow> string" where
  "maskKey key = (if length key \<le> 4 then ''****'' else ''****'' @ drop (length key - 4) key)"

section \<open>Channels\<close>

record ProtocolEntry =
  pe_Protocol :: string
  pe_BaseURL :: string

definition AllowedProtocolKeys :: "string list" where
  "AllowedProtocolKeys = [''openai-compatible'', ''anthropic-compatible'', ''gemini-compatible'', ''azure-openai'']"

record LLMChannelInfo =
  chi_ID :: int
  chi_Code :: string
  chi_Name :: string
  chi_Description :: string
  chi_ProtocolsJson :: raw
  chi_Status :: string
  chi_SourceType :: string
  chi_Priority :: int
  chi_Weight :: int
  chi_CreatedByUserID :: int
  chi_ReviewedByUserID :: int
  chi_ReviewedAt :: "int option"
  chi_ReviewNote :: string
  chi_CreatedAt :: int
  chi_UpdatedAt :: int

record LLMCreateChannelIn =
  cci_Code :: string
  cci_Name :: string
  cci_Description :: string
  cci_Protocols :: "ProtocolEntry list"
  cci_SourceType :: string
  cci_CreatedByUserID :: int

record LLMListChannelsIn =
  lci_Status :: string
  lci_SourceType :: string
  lci_CreatedByUserID :: int
  lci_ProviderUserID :: int
  lci_Page :: int
  lci_Size :: int

text \<open>The same struct serves channels and model specifications.\<close>

record LLMReviewIn =
  rvi_ID :: int
  rvi_Status :: string
  rvi_ReviewNote :: string
  rvi_ReviewerID :: int

text \<open>Priority and weight stay at their zero values.\<close>

definition ch_toDTO :: "channelRow \<Rightarrow> LLMChannelInfo" where
  "ch_toDTO r = \<lparr>chi_ID = ch_ID r, chi_Code = ch_Code r, chi_Name = ch_Name r, chi_Description = ch_Description r,
     chi_ProtocolsJson = ch_ProtocolsJson r, chi_Status = ch_Status r, chi_SourceType = ch_SourceType r,
     chi_Priority = 0, chi_Weight = 0, chi_CreatedByUserID = ch_CreatedByUserID r,
     chi_ReviewedByUserID = ch_ReviewedByUserID r, chi_ReviewedAt = ch_ReviewedAt r,
     chi_ReviewNote = ch_ReviewNote r, chi_CreatedAt = ch_CreatedAt r, chi_UpdatedAt = ch_UpdatedAt r\<rparr>"

fun protocol_entries :: "ProtocolEntry list \<Rightarrow> (string \<times> json) list \<Rightarrow> go_err + (string \<times> json) list" where
  "protocol_entries [] obj = Inr obj"
| "protocol_entries (e # es) obj =
     (if pe_Protocol e \<notin> set AllowedProtocolKeys
      then Inl (ErrNewf ''unknown protocol: %s (allowed: %v)'' [AStr (pe_Protocol e),
        AStr (''['' @ Join AllowedProtocolKeys '' '' @ '']'')])
      else if pe_BaseURL e = [] then Inl (ErrNewf ''base_url is required for protocol: %s'' [AStr (pe_Protocol e)])
      else protocol_entries es (AList.update (pe_Protocol e) (JObj [(''base_url'', JStr (pe_BaseURL e))]) obj))"

text \<open>Marshal writes the keys of a map in order.\<close>

definition protocolsToJSON :: "ProtocolEntry list \<Rightarrow> go_err + json" where
  "protocolsToJSON entries =
     (if entries = [] then Inl (ErrNew ''at least one protocol entry is required'')
      else case protocol_entries entries [] of Inl e \<Rightarrow> Inl e
        | Inr obj \<Rightarrow> Inr (JObj (sort_key fst obj)))"

definition new_channel :: "LLMCreateChannelIn \<Rightarrow> json \<Rightarrow> int \<Rightarrow> int \<Rightarrow> channelRow" where
  "new_channel inp protocols now i =
     (let sourceType = (if cci_SourceType inp = [] then ''admin'' else cci_SourceType inp) in
      \<lparr>ch_ID = i, ch_Code = cci_Code inp, ch_Name = cci_Name inp, ch_Description = cci_Description inp,
       ch_ProtocolsJson = Some protocols,
       ch_Status = (if sourceType = ''provider'' then ''pending'' else ''active''),
       ch_SourceType = sourceType, ch_CreatedByUserID = cci_CreatedByUserID inp, ch_ReviewedByUserID = 0,
       ch_ReviewedAt = None, ch_ReviewNote = [], ch_Priority = 0, ch_Weight = 100, ch_CreatedAt = now,
       ch_UpdatedAt = now\<rparr>)"

text \<open>A row the code reads back and then uses through its zero value when there is none.\<close>

definition scan_dto :: "string \<Rightarrow> ('z store_scheme \<Rightarrow> 'r list) \<Rightarrow> ('r \<Rightarrow> bool) \<Rightarrow> 'd \<Rightarrow> ('r \<Rightarrow> 'd) \<Rightarrow> ('z store_scheme, 'd) eff" where
  "scan_dto msg tbl wh zero dto = bindE (wrapE msg (db_scan tbl wh)) (\<lambda>r.
     returnE (case r of None \<Rightarrow> zero | Some x \<Rightarrow> dto x))"

definition zero_channel :: channelRow where
  "zero_channel = \<lparr>ch_ID = 0, ch_Code = [], ch_Name = [], ch_Description = [], ch_ProtocolsJson = None,
     ch_Status = [], ch_SourceType = [], ch_CreatedByUserID = 0, ch_ReviewedByUserID = 0, ch_ReviewedAt = None,
     ch_ReviewNote = [], ch_Priority = 0, ch_Weight = 0, ch_CreatedAt = 0, ch_UpdatedAt = 0\<rparr>"

definition CreateChannel :: "LLMCreateChannelIn \<Rightarrow> ('z llm_db_scheme, LLMChannelInfo) eff" where
  "CreateChannel inp =
     bindE (liftE (protocolsToJSON (cci_Protocols inp))) (\<lambda>protocolsJSON.
     bindE (wrapE ''insert channel failed''
       (db_insert ''llm_channels'' llm_channels llm_channels_update ch_clash (new_channel inp protocolsJSON))) (\<lambda>i.
     scan_dto ''query created channel failed'' llm_channels (\<lambda>r. ch_ID r = i) (ch_toDTO zero_channel) ch_toDTO))"

text \<open>Count and one page, newest first.\<close>

definition list_page ::
  "string \<Rightarrow> string \<Rightarrow> ('z store_scheme \<Rightarrow> 'r list) \<Rightarrow> ('r \<Rightarrow> int) \<Rightarrow> ('r \<Rightarrow> bool) \<Rightarrow> ('r \<Rightarrow> 'd) \<Rightarrow> int \<Rightarrow> int
    \<Rightarrow> ('z store_scheme, 'd list \<times> int) eff" where
  "list_page msg1 msg2 tbl key wh dto page0 size0 =
     (let page = page_or 1 page0; size = page_or 20 size0 in
      bindE (wrapE msg1 (db_count tbl wh)) (\<lambda>tot.
      bindE (wrapE msg2 (db_select tbl wh)) (\<lambda>rows.
      returnE (map dto (limit_offset size ((page - 1) * size) (order_desc key rows)), tot))))"

definition ListChannels :: "LLMListChannelsIn \<Rightarrow> ('z llm_db_scheme, LLMChannelInfo list \<times> int) eff" where
  "ListChannels inp =
     list_page ''count channels failed'' ''query channels failed'' llm_channels ch_ID
       (\<lambda>r. (lci_Status inp \<noteq> [] \<longrightarrow> ch_Status r = lci_Status inp)
          \<and> (lci_SourceType inp \<noteq> [] \<longrightarrow> ch_SourceType r = lci_SourceType inp)
          \<and> (lci_CreatedByUserID inp \<noteq> 0 \<longrightarrow> ch_CreatedByUserID r = lci_CreatedByUserID inp)
          \<and> (lci_ProviderUserID inp \<noteq> 0 \<longrightarrow> ch_SourceType r = ''admin'' \<or> ch_CreatedByUserID r = lci_ProviderUserID inp))
       ch_toDTO (lci_Page inp) (lci_Size inp)"

definition ReviewChannel :: "LLMReviewIn \<Rightarrow> ('z llm_db_scheme, unit) eff" where
  "ReviewChannel inp =
     bindE (wrapE ''query channel failed'' (db_scan llm_channels (\<lambda>r. ch_ID r = rvi_ID inp))) (\<lambda>row.
     case row of None \<Rightarrow> throwE (ErrNew ''channel not found'')
     | Some r \<Rightarrow>
        if ch_ID r = 0 then throwE (ErrNew ''channel not found'')
        else if ch_Status r \<noteq> ''pending''
        then throwE (ErrNewf ''channel status is %s, only pending channels can be reviewed'' [AStr (ch_Status r)])
        else bindE (getsE clock) (\<lambda>now.
          bindE (wrapE ''update channel review failed''
            (db_update llm_channels llm_channels_update (\<lambda>r. ch_ID r = rvi_ID inp)
              (\<lambda>r. r\<lparr>ch_Status := rvi_Status inp, ch_ReviewedByUserID := rvi_ReviewerID inp,
                     ch_ReviewedAt := Some now, ch_ReviewNote := rvi_ReviewNote inp\<rparr>))) (\<lambda>_.
          returnE ())))"

definition DeleteChannel :: "int \<Rightarrow> ('z llm_db_scheme, unit) eff" where
  "DeleteChannel i =
     bindE (wrapE ''delete channel failed'' (db_delete llm_channels llm_channels_update (\<lambda>r. ch_ID r = i))) (\<lambda>affected.
     if affected = 0 then throwE (ErrNew ''channel not found'') else returnE ())"

section \<open>Model specifications\<close>

record LLMModelSpecInfo =
  msi_ID :: int
  msi_DeveloperName :: string
  msi_ModelName :: string
  msi_ModelCode :: string
  msi_DisplayName :: string
  msi_ModelFamily :: string
  msi_Description :: string
  msi_CapabilitiesJson :: raw
  msi_ContextWindow :: int
  msi_MaxInputTokens :: int
  msi_MaxOutputTokens :: int
  msi_SupportsStream :: bool
  msi_SupportsTools :: bool
  msi_SupportsVision :: bool
  msi_SupportsJsonMode :: bool
  msi_SupportsReasoning :: bool
  msi_SupportsLogprobs :: bool
  msi_SupportedParamsJson :: raw
  msi_DefaultParamsJson :: raw
  msi_ParamLimitsJson :: raw
  msi_SourceType :: string
  msi_CreatedByUserID :: int
  msi_Status :: string
  msi_CreatedAt :: int
  msi_UpdatedAt :: int

record LLMCreateModelSpecIn =
  cmi_DeveloperName :: string
  cmi_ModelName :: string
  cmi_ModelCode :: string
  cmi_DisplayName :: string
  cmi_ModelFamily :: string
  cmi_Description :: string
  cmi_CapabilitiesJson :: raw
  cmi_ContextWindow :: int
  cmi_MaxInputTokens :: int
  cmi_MaxOutputTokens :: int
  cmi_SupportsStream :: bool
  cmi_SupportsTools :: bool
  cmi_SupportsVision :: bool
  cmi_SupportsJsonMode :: bool
  cmi_SupportsReasoning :: bool
  cmi_SupportsLogprobs :: bool
  cmi_SupportedParamsJson :: raw
  cmi_DefaultParamsJson :: raw
  cmi_ParamLimitsJson :: raw
  cmi_SourceType :: string
  cmi_CreatedByUserID :: int

definition ms_toDTO :: "modelSpecRow \<Rightarrow> LLMModelSpecInfo" where
  "ms_toDTO r = \<lparr>msi_ID = ms_ID r, msi_DeveloperName = ms_DeveloperName r, msi_ModelName = ms_ModelName r,
     msi_ModelCode = ms_ModelCode r, msi_DisplayName = ms_DisplayName r, msi_ModelFamily = ms_ModelFamily r,
     msi_Description = ms_Description r, msi_CapabilitiesJson = ms_CapabilitiesJson r,
     msi_ContextWindow = ms_ContextWindow r, msi_MaxInputTokens = ms_MaxInputTokens r,
     msi_MaxOutputTokens = ms_MaxOutputTokens r, msi_SupportsStream = ms_SupportsStream r,
     msi_SupportsTools = ms_SupportsTools r, msi_SupportsVision = ms_SupportsVision r,
     msi_SupportsJsonMode = ms_SupportsJsonMode r, msi_SupportsReasoning = ms_SupportsReasoning r,
     msi_SupportsLogprobs = ms_SupportsLogprobs r, msi_SupportedParamsJson = ms_SupportedParamsJson r,
     msi_DefaultParamsJson = ms_DefaultParamsJson r, msi_ParamLimitsJson = ms_ParamLimitsJson r,
     msi_SourceType = ms_SourceType r, msi_CreatedByUserID = ms_CreatedByUserID r, msi_Status = ms_Status r,
     msi_CreatedAt = ms_CreatedAt r, msi_UpdatedAt = ms_UpdatedAt r\<rparr>"

definition new_spec :: "LLMCreateModelSpecIn \<Rightarrow> int \<Rightarrow> int \<Rightarrow> modelSpecRow" where
  "new_spec inp now i =
     (let modelCode = (if cmi_ModelCode inp = [] then ToLower (cmi_DeveloperName inp @ ''/'' @ cmi_ModelName inp)
                       else cmi_ModelCode inp) in
      \<lparr>ms_ID = i, ms_DeveloperName = cmi_DeveloperName inp, ms_ModelName = cmi_ModelName inp, ms_ModelCode = modelCode,
       ms_DisplayName = cmi_DisplayName inp, ms_ModelFamily = cmi_ModelFamily inp, ms_Description = cmi_Description inp,
       ms_CapabilitiesJson = cmi_CapabilitiesJson inp, ms_ContextWindow = cmi_ContextWindow inp,
       ms_MaxInputTokens = cmi_MaxInputTokens inp, ms_MaxOutputTokens = cmi_MaxOutputTokens inp,
       ms_SupportsStream = cmi_SupportsStream inp, ms_SupportsTools = cmi_SupportsTools inp,
       ms_SupportsVision = cmi_SupportsVision inp, ms_SupportsJsonMode = cmi_SupportsJsonMode inp,
       ms_SupportsReasoning = cmi_SupportsReasoning inp, ms_SupportsLogprobs = cmi_SupportsLogprobs inp,
       ms_SupportedParamsJson = cmi_SupportedParamsJson inp, ms_DefaultParamsJson = cmi_DefaultParamsJson inp,
       ms_ParamLimitsJson = cmi_ParamLimitsJson inp, ms_SourceType = cmi_SourceType inp,
       ms_CreatedByUserID = cmi_CreatedByUserID inp, ms_Status = ''pending'', ms_ReviewedByUserID = 0,
       ms_ReviewedAt = None, ms_ReviewNote = [], ms_CreatedAt = now, ms_UpdatedAt = now\<rparr>)"

definition zero_spec :: modelSpecRow where
  "zero_spec = \<lparr>ms_ID = 0, ms_DeveloperName = [], ms_ModelName = [], ms_ModelCode = [], ms_DisplayName = [],
     ms_ModelFamily = [], ms_Description = [], ms_CapabilitiesJson = None, ms_ContextWindow = 0, ms_MaxInputTokens = 0,
     ms_MaxOutputTokens = 0, ms_SupportsStream = False, ms_SupportsTools = False, ms_SupportsVision = False,
     ms_SupportsJsonMode = False, ms_SupportsReasoning = False, ms_SupportsLogprobs = False,
     ms_SupportedParamsJson = None, ms_DefaultParamsJson = None, ms_ParamLimitsJson = None, ms_SourceType = [],
     ms_CreatedByUserID = 0, ms_Status = [], ms_ReviewedByUserID = 0, ms_ReviewedAt = None, ms_ReviewNote = [],
     ms_CreatedAt = 0, ms_UpdatedAt = 0\<rparr>"

definition valid_array :: "raw \<Rightarrow> bool" where
  "valid_array r = (case r of None \<Rightarrow> False | Some j \<Rightarrow> dec_array j \<noteq> None)"

definition CreateModelSpec :: "LLMCreateModelSpecIn \<Rightarrow> ('z llm_db_scheme, LLMModelSpecInfo) eff" where
  "CreateModelSpec inp =
     (if \<not> valid_array (cmi_CapabilitiesJson inp)
      then throwE (ErrWrap (ErrExt ''json'') ''capabilities_json is not a valid JSON array'')
      else bindE (wrapE ''insert model spec failed''
        (db_insert ''llm_model_specs'' llm_model_specs llm_model_specs_update ms_clash (new_spec inp))) (\<lambda>i.
      scan_dto ''query created model spec failed'' llm_model_specs (\<lambda>r. ms_ID r = i) (ms_toDTO zero_spec) ms_toDTO))"

definition ListModelSpecs :: "LLMListChannelsIn \<Rightarrow> ('z llm_db_scheme, LLMModelSpecInfo list \<times> int) eff" where
  "ListModelSpecs inp =
     list_page ''count model specs failed'' ''query model specs failed'' llm_model_specs ms_ID
       (\<lambda>r. (lci_Status inp \<noteq> [] \<longrightarrow> ms_Status r = lci_Status inp)
          \<and> (lci_SourceType inp \<noteq> [] \<longrightarrow> ms_SourceType r = lci_SourceType inp)
          \<and> (lci_CreatedByUserID inp \<noteq> 0 \<longrightarrow> ms_CreatedByUserID r = lci_CreatedByUserID inp)
          \<and> (lci_ProviderUserID inp \<noteq> 0 \<longrightarrow> ms_SourceType r = ''admin'' \<or> ms_CreatedByUserID r = lci_ProviderUserID inp))
       ms_toDTO (lci_Page inp) (lci_Size inp)"

definition ReviewModelSpec :: "LLMReviewIn \<Rightarrow> ('z llm_db_scheme, unit) eff" where
  "ReviewModelSpec inp =
     bindE (wrapE ''query model spec failed'' (db_scan llm_model_specs (\<lambda>r. ms_ID r = rvi_ID inp))) (\<lambda>row.
     case row of None \<Rightarrow> throwE (ErrNew ''model spec not found'')
     | Some r \<Rightarrow>
        if ms_ID r = 0 then throwE (ErrNew ''model spec not found'')
        else if ms_Status r \<noteq> ''pending''
        then throwE (ErrNewf ''model spec status is %s, only pending specs can be reviewed'' [AStr (ms_Status r)])
        else bindE (getsE clock) (\<lambda>now.
          bindE (wrapE ''update model spec review failed''
            (db_update llm_model_specs llm_model_specs_update (\<lambda>r. ms_ID r = rvi_ID inp)
              (\<lambda>r. r\<lparr>ms_Status := rvi_Status inp, ms_ReviewedByUserID := rvi_ReviewerID inp,
                     ms_ReviewedAt := Some now, ms_ReviewNote := rvi_ReviewNote inp\<rparr>))) (\<lambda>_.
          returnE ())))"

definition DeleteModelSpec :: "int \<Rightarrow> ('z llm_db_scheme, unit) eff" where
  "DeleteModelSpec i =
     bindE (wrapE ''delete model spec failed'' (db_delete llm_model_specs llm_model_specs_update (\<lambda>r. ms_ID r = i))) (\<lambda>affected.
     if affected = 0 then throwE (ErrNew ''model spec not found'') else returnE ())"


section \<open>Model keys\<close>

record LLMCreateKeyModelBinding =
  ckb_ModelSpecID :: int
  ckb_UpstreamModelName :: string
  ckb_CacheHitPricePer1K :: int
  ckb_CacheMissPricePer1K :: int
  ckb_OutputPricePer1K :: int

record LLMCreateModelKeyIn =
  cki_ChannelID :: int
  cki_Name :: string
  cki_Key :: string
  cki_ModelBindings :: "LLMCreateKeyModelBinding list"

record LLMModelKeyInfo =
  mki_ID :: int
  mki_ProviderUserID :: int
  mki_ChannelID :: int
  mki_Name :: string
  mki_KeyMasked :: string
  mki_QuotaUsedCredits :: int
  mki_Status :: string
  mki_LastTestAt :: "int option"
  mki_LastTestStatus :: string
  mki_LastTestError :: string
  mki_TestAttempts :: int
  mki_CreatedAt :: int
  mki_UpdatedAt :: int

record LLMListModelKeysIn =
  lmk_ProviderUserID :: int
  lmk_IsAdmin :: bool
  lmk_Status :: string
  lmk_Page :: int
  lmk_Size :: int

record LLMBindKeyModelIn =
  bki_ModelKeyID :: int
  bki_ModelSpecID :: int
  bki_UpstreamModelName :: string
  bki_CacheHitPricePer1K :: int
  bki_CacheMissPricePer1K :: int
  bki_OutputPricePer1K :: int

record LLMKeyModelInfo =
  kmi_ID :: int
  kmi_ModelKeyID :: int
  kmi_ModelSpecID :: int
  kmi_UpstreamModelName :: string
  kmi_QuotaUsedCredits :: int
  kmi_Status :: string
  kmi_CacheHitPricePer1K :: int
  kmi_CacheMissPricePer1K :: int
  kmi_OutputPricePer1K :: int
  kmi_ConsecutiveFailures :: int
  kmi_LastErrorCode :: string
  kmi_LastErrorMessage :: string
  kmi_CreatedAt :: int
  kmi_UpdatedAt :: int

record LLMListKeyModelsIn =
  lkm_ProviderUserID :: int
  lkm_IsAdmin :: bool
  lkm_ModelKeyID :: int
  lkm_ModelSpecID :: int
  lkm_Status :: string
  lkm_Page :: int
  lkm_Size :: int

definition mk_toDTO :: "modelKeyRow \<Rightarrow> LLMModelKeyInfo" where
  "mk_toDTO r = \<lparr>mki_ID = mk_ID r, mki_ProviderUserID = mk_ProviderUserID r, mki_ChannelID = mk_ChannelID r,
     mki_Name = mk_Name r, mki_KeyMasked = mk_KeyMasked r, mki_QuotaUsedCredits = mk_QuotaUsedCredits r,
     mki_Status = mk_Status r, mki_LastTestAt = mk_LastTestAt r, mki_LastTestStatus = mk_LastTestStatus r,
     mki_LastTestError = mk_LastTestError r, mki_TestAttempts = mk_TestAttempts r, mki_CreatedAt = mk_CreatedAt r,
     mki_UpdatedAt = mk_UpdatedAt r\<rparr>"

definition km_toDTO :: "keyModelRow \<Rightarrow> LLMKeyModelInfo" where
  "km_toDTO r = \<lparr>kmi_ID = km_ID r, kmi_ModelKeyID = km_ModelKeyID r, kmi_ModelSpecID = km_ModelSpecID r,
     kmi_UpstreamModelName = km_UpstreamModelName r, kmi_QuotaUsedCredits = km_QuotaUsedCredits r,
     kmi_Status = km_Status r, kmi_CacheHitPricePer1K = km_CacheHitPricePer1K r,
     kmi_CacheMissPricePer1K = km_CacheMissPricePer1K r, kmi_OutputPricePer1K = km_OutputPricePer1K r,
     kmi_ConsecutiveFailures = km_ConsecutiveFailures r, kmi_LastErrorCode = km_LastErrorCode r,
     kmi_LastErrorMessage = km_LastErrorMessage r, kmi_CreatedAt = km_CreatedAt r, kmi_UpdatedAt = km_UpdatedAt r\<rparr>"

definition zero_key :: modelKeyRow where
  "zero_key = \<lparr>mk_ID = 0, mk_ProviderUserID = 0, mk_ChannelID = 0, mk_Name = [], mk_KeyEncrypted = [], mk_KeyMasked = [],
     mk_QuotaLimitCredits = 0, mk_QuotaUsedCredits = 0, mk_Status = [], mk_LastTestAt = None, mk_LastTestStatus = [],
     mk_LastTestError = [], mk_TestAttempts = 0, mk_CreatedAt = 0, mk_UpdatedAt = 0\<rparr>"

definition new_key :: "int \<Rightarrow> LLMCreateModelKeyIn \<Rightarrow> string \<Rightarrow> int \<Rightarrow> int \<Rightarrow> modelKeyRow" where
  "new_key providerUserID inp encrypted now i =
     \<lparr>mk_ID = i, mk_ProviderUserID = providerUserID, mk_ChannelID = cki_ChannelID inp, mk_Name = cki_Name inp,
      mk_KeyEncrypted = encrypted, mk_KeyMasked = maskKey (cki_Key inp), mk_QuotaLimitCredits = 0,
      mk_QuotaUsedCredits = 0, mk_Status = ''pending'', mk_LastTestAt = None, mk_LastTestStatus = [],
      mk_LastTestError = [], mk_TestAttempts = 0, mk_CreatedAt = now, mk_UpdatedAt = now\<rparr>"

text \<open>A binding waits for the review of its model or, once the model is active, for a test.\<close>

definition new_binding :: "int \<Rightarrow> int \<Rightarrow> string \<Rightarrow> int \<Rightarrow> string \<Rightarrow> int \<Rightarrow> int \<Rightarrow> int \<Rightarrow> int \<Rightarrow> int \<Rightarrow> keyModelRow" where
  "new_binding keyID specID upstream share spec_status hit miss outp now i =
     \<lparr>km_ID = i, km_ModelKeyID = keyID, km_ModelSpecID = specID, km_UpstreamModelName = upstream,
      km_QuotaLimitCredits = 0, km_QuotaUsedCredits = 0, km_ProviderShareBps = share,
      km_CacheHitPricePer1K = hit, km_CacheMissPricePer1K = miss, km_OutputPricePer1K = outp,
      km_Status = (if spec_status = ''active'' then ''pending_test'' else ''pending_model_review''),
      km_TestAttempts = 0, km_LastTestAt = None, km_LastTestStatus = [], km_LastTestError = [],
      km_NextTestAt = None, km_ConsecutiveFailures = 0, km_LastErrorCode = [], km_LastErrorMessage = [],
      km_CreatedAt = now, km_UpdatedAt = now\<rparr>"

definition query_share :: "int \<Rightarrow> ('z llm_db_scheme, int) eff" where
  "query_share userID = bindE (wrapE ''query provider settings failed''
     (db_scan provider_settings (\<lambda>r. pv_UserID r = userID))) (\<lambda>r.
     returnE (case r of None \<Rightarrow> 0 | Some x \<Rightarrow> pv_ShareBps x))"

definition getProviderShareBpsTx :: "int \<Rightarrow> ('z llm_db_scheme, int) eff" where
  "getProviderShareBpsTx userID = query_share userID"

definition GetProviderShareBps :: "int \<Rightarrow> ('z llm_db_scheme, int) eff" where
  "GetProviderShareBps userID = bindE (query_share userID) (\<lambda>share. returnE (if share = 0 then 7000 else share))"

definition SetProviderShareBps :: "int \<Rightarrow> int \<Rightarrow> ('z llm_db_scheme, unit) eff" where
  "SetProviderShareBps userID shareBps =
     bindE (tryE (db_insert ''provider_settings'' provider_settings provider_settings_update pv_clash
       (\<lambda>now i. \<lparr>pv_UserID = userID, pv_ShareBps = shareBps\<rparr>))) (\<lambda>r.
     case r of Inr i \<Rightarrow> returnE ()
     | Inl e \<Rightarrow> bindE (wrapE ''set provider share_bps failed''
         (db_update provider_settings provider_settings_update (\<lambda>r. pv_UserID r = userID)
           (\<lambda>r. r\<lparr>pv_ShareBps := shareBps\<rparr>))) (\<lambda>_. returnE ()))"

definition bind_model :: "int \<Rightarrow> int \<Rightarrow> LLMCreateKeyModelBinding \<Rightarrow> ('z llm_db_scheme, int) eff" where
  "bind_model keyID share b =
     bindE (wrapE ''query model spec failed'' (db_scan llm_model_specs (\<lambda>r. ms_ID r = ckb_ModelSpecID b))) (\<lambda>ms.
     if (case ms of None \<Rightarrow> True | Some r \<Rightarrow> ms_ID r = 0)
     then throwE (ErrNewf ''model spec %d not found'' [AInt (ckb_ModelSpecID b)])
     else wrapE ''insert key model binding failed''
       (db_insert ''llm_model_key_models'' llm_model_key_models llm_model_key_models_update km_clash
         (new_binding keyID (ckb_ModelSpecID b) (ckb_UpstreamModelName b) share (ms_Status (the ms))
           (ckb_CacheHitPricePer1K b) (ckb_CacheMissPricePer1K b) (ckb_OutputPricePer1K b))))"

text \<open>What runs in the transaction.\<close>

definition create_key_tx :: "int \<Rightarrow> LLMCreateModelKeyIn \<Rightarrow> string \<Rightarrow> ('z llm_db_scheme, LLMModelKeyInfo) eff" where
  "create_key_tx providerUserID inp encrypted =
     bindE (wrapE ''insert model key failed''
       (db_insert ''llm_model_keys'' llm_model_keys llm_model_keys_update no_clash
         (new_key providerUserID inp encrypted))) (\<lambda>keyID.
     bindE (tryE (getProviderShareBpsTx providerUserID)) (\<lambda>share.
     let defaultShareBps = (case share of Inl e \<Rightarrow> 7000 | Inr n \<Rightarrow> if n = 0 then 7000 else n) in
     bindE (mapE (bind_model keyID defaultShareBps) (cki_ModelBindings inp)) (\<lambda>_.
     scan_dto ''query created model key failed'' llm_model_keys (\<lambda>r. mk_ID r = keyID) (mk_toDTO zero_key) mk_toDTO)))"

definition CreateModelKey :: "key_env \<Rightarrow> int \<Rightarrow> LLMCreateModelKeyIn \<Rightarrow> ('z llm_db_scheme, LLMModelKeyInfo) eff" where
  "CreateModelKey E providerUserID inp =
     bindE (wrapE ''query channel failed'' (db_scan llm_channels (\<lambda>r. ch_ID r = cki_ChannelID inp))) (\<lambda>ch.
     if (case ch of None \<Rightarrow> True | Some r \<Rightarrow> ch_ID r = 0) then throwE (ErrNew ''channel not found'')
     else if ch_Status (the ch) \<noteq> ''active'' then throwE (ErrNew ''channel is not active'')
     else bindE (liftE (encryptKey E (cki_Key inp))) (\<lambda>encrypted.
       transact (create_key_tx providerUserID inp encrypted)))"

definition ListModelKeys :: "LLMListModelKeysIn \<Rightarrow> ('z llm_db_scheme, LLMModelKeyInfo list \<times> int) eff" where
  "ListModelKeys inp =
     list_page ''count model keys failed'' ''query model keys failed'' llm_model_keys mk_ID
       (\<lambda>r. (\<not> lmk_IsAdmin inp \<longrightarrow> mk_ProviderUserID r = lmk_ProviderUserID inp)
          \<and> (lmk_Status inp \<noteq> [] \<longrightarrow> mk_Status r = lmk_Status inp))
       mk_toDTO (lmk_Page inp) (lmk_Size inp)"

definition DisableModelKey :: "int \<Rightarrow> int \<Rightarrow> bool \<Rightarrow> ('z llm_db_scheme, unit) eff" where
  "DisableModelKey providerUserID keyID isAdmin =
     bindE (wrapE ''query model key failed'' (db_scan llm_model_keys (\<lambda>r. mk_ID r = keyID))) (\<lambda>row.
     case row of None \<Rightarrow> throwE (ErrNew ''model key not found'')
     | Some r \<Rightarrow>
        if mk_ID r = 0 then throwE (ErrNew ''model key not found'')
        else if \<not> isAdmin \<and> mk_ProviderUserID r \<noteq> providerUserID
        then throwE (ErrNew ''not authorized to disable this key'')
        else bindE (wrapE ''disable model key failed''
          (db_update llm_model_keys llm_model_keys_update (\<lambda>r. mk_ID r = keyID) (\<lambda>r. r\<lparr>mk_Status := ''disabled''\<rparr>)))
          (\<lambda>_. returnE ()))"

definition zero_binding :: keyModelRow where
  "zero_binding = (new_binding 0 0 [] 0 [] 0 0 0 0 0)\<lparr>km_Status := []\<rparr>"

definition BindKeyModel :: "int \<Rightarrow> LLMBindKeyModelIn \<Rightarrow> ('z llm_db_scheme, LLMKeyModelInfo) eff" where
  "BindKeyModel providerUserID inp =
     bindE (wrapE ''query model key failed'' (db_scan llm_model_keys (\<lambda>r. mk_ID r = bki_ModelKeyID inp))) (\<lambda>mk.
     case mk of None \<Rightarrow> throwE (ErrNew ''model key not found'')
     | Some k \<Rightarrow>
        if mk_ID k = 0 then throwE (ErrNew ''model key not found'')
        else if mk_Status k \<noteq> ''active'' \<and> mk_Status k \<noteq> ''pending'' then throwE (ErrNew ''model key is not active'')
        else if mk_ProviderUserID k \<noteq> providerUserID then throwE (ErrNew ''not authorized to bind models to this key'')
        else bindE (wrapE ''query model spec failed'' (db_scan llm_model_specs (\<lambda>r. ms_ID r = bki_ModelSpecID inp))) (\<lambda>ms.
          if (case ms of None \<Rightarrow> True | Some r \<Rightarrow> ms_ID r = 0) then throwE (ErrNew ''model spec not found'')
          else bindE (tryE (GetProviderShareBps providerUserID)) (\<lambda>share.
            let defaultShareBps = (case share of Inl e \<Rightarrow> 0 | Inr n \<Rightarrow> n) in
            bindE (wrapE ''insert key model binding failed''
              (db_insert ''llm_model_key_models'' llm_model_key_models llm_model_key_models_update km_clash
                (new_binding (bki_ModelKeyID inp) (bki_ModelSpecID inp) (bki_UpstreamModelName inp) defaultShareBps
                  (ms_Status (the ms)) (bki_CacheHitPricePer1K inp) (bki_CacheMissPricePer1K inp)
                  (bki_OutputPricePer1K inp)))) (\<lambda>i.
            scan_dto ''query created key model binding failed'' llm_model_key_models (\<lambda>r. km_ID r = i)
              (km_toDTO zero_binding) km_toDTO))))"

text \<open>A provider sees the bindings of its own keys (an inner join).\<close>

definition ListKeyModels :: "LLMListKeyModelsIn \<Rightarrow> ('z llm_db_scheme, LLMKeyModelInfo list \<times> int) eff" where
  "ListKeyModels inp =
     bindE (getsE llm_model_keys) (\<lambda>keys.
     list_page ''count key model bindings failed'' ''query key model bindings failed'' llm_model_key_models km_ID
       (\<lambda>r. (lkm_ModelKeyID inp \<noteq> 0 \<longrightarrow> km_ModelKeyID r = lkm_ModelKeyID inp)
          \<and> (lkm_ModelSpecID inp \<noteq> 0 \<longrightarrow> km_ModelSpecID r = lkm_ModelSpecID inp)
          \<and> (lkm_Status inp \<noteq> [] \<longrightarrow> km_Status r = lkm_Status inp)
          \<and> (\<not> lkm_IsAdmin inp \<longrightarrow> list_ex (\<lambda>k. mk_ID k = km_ModelKeyID r \<and> mk_ProviderUserID k = lkm_ProviderUserID inp) keys))
       km_toDTO (lkm_Page inp) (lkm_Size inp))"

section \<open>Upstream calls\<close>

text \<open>The outcome of \<^verbatim>\<open>client.Do\<close> on a POST of a body with an Authorization header: where it
  failed, or the status, the body and the content type of the answer.\<close>

datatype http_result = BuildErr go_err | CallErr go_err | ReadErr go_err | Answer int string string

type_synonym http = "string \<Rightarrow> string \<Rightarrow> raw \<Rightarrow> http_result"

definition proxyOpenAICompatible ::
  "http \<Rightarrow> string \<Rightarrow> string \<Rightarrow> string \<Rightarrow> raw \<Rightarrow> go_err + (int \<times> string \<times> (string \<times> string) list)" where
  "proxyOpenAICompatible up baseURL apiKey path body =
     (case up (TrimRight baseURL ''/'' @ path) (''Bearer '' @ apiKey) body of
        BuildErr e \<Rightarrow> Inl (ErrWrap e ''build upstream request failed'')
      | CallErr e \<Rightarrow> Inl (ErrWrap e ''upstream call failed'')
      | ReadErr e \<Rightarrow> Inl (ErrWrap e ''read upstream response failed'')
      | Answer status respBody ct \<Rightarrow> Inr (status, respBody, if ct = [] then [] else [(''Content-Type'', ct)]))"

definition supportedProtocols :: "string list" where
  "supportedProtocols = [''openai-compatible'', ''anthropic-compatible'', ''gemini-compatible'', ''azure-openai'']"

text \<open>\<^verbatim>\<open>struct{BaseURL string}\<close>: \<open>None\<close> where Unmarshal fails or the URL is empty.\<close>

definition entry_url :: "json \<Rightarrow> string option" where
  "entry_url j = (case dec_object j of None \<Rightarrow> None | Some kvs \<Rightarrow>
     (case dec_field ''base_url'' dec_string [] kvs of None \<Rightarrow> None | Some u \<Rightarrow> if u = [] then None else Some u))"

text \<open>\<open>pick\<close> is the entry \<^verbatim>\<open>range\<close> visits first.\<close>

definition extractBaseURL :: "((string \<times> json) list \<Rightarrow> string \<times> json) \<Rightarrow> raw \<Rightarrow> go_err + string" where
  "extractBaseURL pick protocolsJson = (case protocolsJson of
     None \<Rightarrow> Inl (ErrNew ''channel protocols_json is empty'')
   | Some j \<Rightarrow> (case dec_object j of
       None \<Rightarrow> Inl (ErrWrap (ErrExt ''json'') ''channel protocols_json is not a JSON object'')
     | Some obj \<Rightarrow>
         (let known = List.map_filter (\<lambda>p. case jlookup p obj of None \<Rightarrow> None | Some v \<Rightarrow> entry_url v) supportedProtocols;
              top = (case jlookup ''base_url'' obj of None \<Rightarrow> None
                | Some v \<Rightarrow> (case dec_string v of None \<Rightarrow> None | Some u \<Rightarrow> if u = [] then None else Some u));
              first_entry = (if obj = [] then None else entry_url (snd (pick obj))) in
          case known of u # us \<Rightarrow> Inr u
          | [] \<Rightarrow> (case top of Some u \<Rightarrow> Inr u
             | None \<Rightarrow> (case first_entry of Some u \<Rightarrow> Inr u
                 | None \<Rightarrow> Inl (ErrNew ''channel base_url not configured''))))))"

definition TriggerKeyModelTest ::
  "key_env \<Rightarrow> http \<Rightarrow> ((string \<times> json) list \<Rightarrow> string \<times> json) \<Rightarrow> int \<Rightarrow> ('z llm_db_scheme, unit) eff" where
  "TriggerKeyModelTest E up pick keyModelID =
     bindE (wrapE ''query key model binding failed'' (db_scan llm_model_key_models (\<lambda>r. km_ID r = keyModelID))) (\<lambda>km.
     if (case km of None \<Rightarrow> True | Some r \<Rightarrow> km_ID r = 0) then throwE (ErrNew ''key model binding not found'')
     else bindE (wrapE ''query model key failed'' (db_scan llm_model_keys (\<lambda>r. mk_ID r = km_ModelKeyID (the km)))) (\<lambda>mk.
     if (case mk of None \<Rightarrow> True | Some r \<Rightarrow> mk_ID r = 0) then throwE (ErrNew ''model key not found'')
     else bindE (wrapE ''decrypt upstream key failed'' (liftE (DecryptKey E (mk_KeyEncrypted (the mk))))) (\<lambda>upstreamKey.
     bindE (wrapE ''query channel failed'' (db_scan llm_channels (\<lambda>r. ch_ID r = mk_ChannelID (the mk)))) (\<lambda>ch.
     if (case ch of None \<Rightarrow> True | Some r \<Rightarrow> ch_ID r = 0) then throwE (ErrNew ''channel not found'')
     else bindE (wrapE ''extract base URL failed'' (liftE (extractBaseURL pick (ch_ProtocolsJson (the ch))))) (\<lambda>baseURL.
     bindE (getsE clock) (\<lambda>now.
     let r = proxyOpenAICompatible up baseURL upstreamKey ''/v1/models'' None;
         ok = (case r of Inl e \<Rightarrow> False | Inr (status, body, h) \<Rightarrow> 200 \<le> status \<and> status < 300);
         errMsg = (case r of Inl e \<Rightarrow> err_text e | Inr (status, body, h) \<Rightarrow> take 500 body) in
     if ok
     then bindE (tryE (db_update llm_model_key_models llm_model_key_models_update (\<lambda>r. km_ID r = keyModelID)
       (\<lambda>r. r\<lparr>km_LastTestStatus := ''success'', km_ConsecutiveFailures := 0,
              km_TestAttempts := i64 (km_TestAttempts r + 1), km_LastTestAt := Some now\<rparr>))) (\<lambda>_. returnE ())
     else bindE (tryE (db_update llm_model_key_models llm_model_key_models_update (\<lambda>r. km_ID r = keyModelID)
       (\<lambda>r. r\<lparr>km_LastTestStatus := ''failed'', km_LastTestError := errMsg,
              km_ConsecutiveFailures := i64 (km_ConsecutiveFailures r + 1),
              km_TestAttempts := i64 (km_TestAttempts r + 1), km_LastTestAt := Some now\<rparr>))) (\<lambda>_.
       throwE (ErrNewf ''test failed: %s'' [AStr errMsg]))))))))"

end
