(* ===== verification/Identity.thy ===== *)
theory Identity
  imports Handler LlmAdmin
begin

text \<open>
  Users, sessions and API keys: \<^verbatim>\<open>internal/logic/identity\<close> (user.go, apikey.go, jwt.go) over the
  tables of migrations 0001 and 0008.  bcrypt, the JWT library, random bytes and digits and the
  nanoseconds of the clock are parameters.  The columns group_name, allow_ips and routing_config of
  api_keys, which no code reads or writes, are left out of its row.
\<close>

section \<open>Tables\<close>

record userRow =
  us_ID :: int
  us_Username :: string
  us_Password :: string
  us_Email :: string
  us_Phone :: string
  us_DisplayName :: string
  us_Avatar :: string
  us_Source :: string
  us_Role :: int
  us_Status :: int
  us_GroupName :: string
  us_KYCStatus :: string
  us_Remark :: string
  us_TenantID :: int
  us_CreatedAt :: int
  us_UpdatedAt :: int

record emailVerification =
  ev_ID :: int
  ev_Email :: string
  ev_Code :: string
  ev_Purpose :: string
  ev_ExpiresAt :: int
  ev_UsedAt :: "int option"
  ev_CreatedAt :: int

record ProviderApplicationInfo =
  pa_ID :: int
  pa_UserID :: int
  pa_Company :: string
  pa_Contact :: string
  pa_Email :: string
  pa_Website :: string
  pa_Bio :: string
  pa_ModelName :: string
  pa_ModelFamily :: string
  pa_APIEndpoint :: string
  pa_Documentation :: string
  pa_Status :: string
  pa_ReviewNote :: string
  pa_ReviewedAt :: "int option"
  pa_CreatedAt :: int

record identity_db = gateway_db +
  users :: "userRow list"
  email_verifications :: "emailVerification list"
  provider_applications :: "ProviderApplicationInfo list"

text \<open>UNIQUE (username), UNIQUE (email) where it is not empty, UNIQUE (key).\<close>

definition us_clash :: "userRow \<Rightarrow> userRow \<Rightarrow> bool" where
  "us_clash x r \<longleftrightarrow> us_Username x = us_Username r \<or> (us_Email r \<noteq> [] \<and> us_Email x = us_Email r)"

definition ak_clash :: "api_key \<Rightarrow> api_key \<Rightarrow> bool" where
  "ak_clash x r \<longleftrightarrow> ak_key x = ak_key r"

declare us_clash_def [run] ak_clash_def [run]

section \<open>Interfaces\<close>

definition RoleUser :: int where "RoleUser = 0"
definition RoleProvider :: int where "RoleProvider = 1"

record RegisterIn =
  rgi_Email :: string
  rgi_Password :: string

record VerifyEmailIn =
  vei_Email :: string
  vei_Code :: string

record LoginIn =
  lgi_Email :: string
  lgi_Password :: string

record UserInfo =
  ui_ID :: int
  ui_Username :: string
  ui_Email :: string
  ui_DisplayName :: string
  ui_Avatar :: string
  ui_Role :: int
  ui_Status :: int
  ui_KYCStatus :: string
  ui_CreatedAt :: int

record LoginOut =
  lgo_Token :: string
  lgo_User :: UserInfo

record TokenClaims =
  tc_UserID :: int
  tc_Username :: string
  tc_Role :: int

record CreateApiKeyIn =
  cai_Name :: string
  cai_QuotaCredits :: "int option"
  cai_UnlimitedQuota :: bool

record ApiKeyOut =
  ako_ID :: int
  ako_Key :: string
  ako_Name :: string
  ako_Status :: int
  ako_CreatedAt :: int

text \<open>ModelLimits and AllowIPs, which nothing fills, are left out.\<close>

record ApiKeyInfo =
  aki_ID :: int
  aki_UserID :: int
  aki_Name :: string
  aki_Status :: int
  aki_QuotaCredits :: "int option"
  aki_RemainQuota :: int
  aki_UsedQuota :: int
  aki_UnlimitedQuota :: bool
  aki_ExpireAt :: "int option"
  aki_CreatedAt :: int

record CreateUserIn =
  cui_Email :: string
  cui_Password :: string
  cui_Role :: int

record ProviderApplicationIn =
  pai_Company :: string
  pai_Contact :: string
  pai_Email :: string
  pai_Website :: string
  pai_Bio :: string
  pai_ModelName :: string
  pai_ModelFamily :: string
  pai_APIEndpoint :: string
  pai_Documentation :: string

record ReviewProviderApplicationIn =
  rpi_Status :: string
  rpi_ShareBps :: int
  rpi_ReviewNote :: string

section \<open>Tokens\<close>

text \<open>The claims as they are signed; times in seconds.\<close>

record jwtClaims =
  jc_UserID :: int
  jc_Username :: string
  jc_Role :: int
  jc_ExpiresAt :: int
  jc_IssuedAt :: int

text \<open>What the service gets from its libraries and its configuration.  \<open>jwt_Parse\<close> is
  \<^verbatim>\<open>ParseWithClaims\<close> with a key function that returns the secret: whether the token is
  valid, and its claims if they have this type.\<close>

record identity_env =
  bc_Hash :: "string \<Rightarrow> go_err + string"
  bc_Compare :: "string \<Rightarrow> string \<Rightarrow> bool"
  jwt_Sign :: "string \<Rightarrow> jwtClaims \<Rightarrow> go_err + string"
  jwt_Parse :: "string \<Rightarrow> string \<Rightarrow> int \<Rightarrow> go_err + (bool \<times> jwtClaims option)"
  cfg_Secret :: string
  cfg_ExpireHours :: int
  rnd_Digit :: "nat \<Rightarrow> go_err + nat"
  rnd_Bytes :: string
  clk_Nano :: int

definition generateJWT :: "identity_env \<Rightarrow> string \<Rightarrow> int \<Rightarrow> TokenClaims \<Rightarrow> int \<Rightarrow> go_err + string" where
  "generateJWT E secret expireHours c now = jwt_Sign E secret \<lparr>jc_UserID = tc_UserID c, jc_Username = tc_Username c,
     jc_Role = tc_Role c, jc_ExpiresAt = now + expireHours * 3600, jc_IssuedAt = now\<rparr>"

text \<open>\<open>Inr None\<close>: no claims and no error.\<close>

definition parseJWT :: "identity_env \<Rightarrow> string \<Rightarrow> string \<Rightarrow> int \<Rightarrow> go_err + TokenClaims option" where
  "parseJWT E secret tokenStr now = (case jwt_Parse E secret tokenStr now of
     Inl e \<Rightarrow> Inl e
   | Inr (valid, claims) \<Rightarrow>
       if \<not> valid then Inr None
       else (case claims of None \<Rightarrow> Inl (ErrExt ''signature is invalid'')
         | Some c \<Rightarrow> Inr (Some \<lparr>tc_UserID = jc_UserID c, tc_Username = jc_Username c, tc_Role = jc_Role c\<rparr>)))"

fun generateCodeLoop :: "(nat \<Rightarrow> go_err + nat) \<Rightarrow> nat \<Rightarrow> nat \<Rightarrow> go_err + string" where
  "generateCodeLoop rnd i 0 = Inr []"
| "generateCodeLoop rnd i (Suc n) = (case rnd i of Inl e \<Rightarrow> Inl e
     | Inr d \<Rightarrow> (case generateCodeLoop rnd (i + 1) n of Inl e \<Rightarrow> Inl e | Inr cs \<Rightarrow> Inr (char_of (48 + d) # cs)))"

definition generateCode :: "identity_env \<Rightarrow> nat \<Rightarrow> go_err + string" where
  "generateCode E n = generateCodeLoop (rnd_Digit E) 0 n"

section \<open>Registration and login\<close>

definition new_user :: "string \<Rightarrow> string \<Rightarrow> string \<Rightarrow> string \<Rightarrow> int \<Rightarrow> int \<Rightarrow> int \<Rightarrow> int \<Rightarrow> userRow" where
  "new_user username email hash source status role now i =
     \<lparr>us_ID = i, us_Username = username, us_Password = hash, us_Email = email, us_Phone = [], us_DisplayName = [],
      us_Avatar = [], us_Source = source, us_Role = role, us_Status = status, us_GroupName = ''default'',
      us_KYCStatus = ''none'', us_Remark = [], us_TenantID = 0, us_CreatedAt = now, us_UpdatedAt = now\<rparr>"

text \<open>A name that is taken gets a suffix from the clock.\<close>

definition username_of :: "identity_env \<Rightarrow> string \<Rightarrow> int \<Rightarrow> string" where
  "username_of E email existCount =
     (let username = hd (SplitByte (CHR ''@'') email) in
      if existCount > 0 then sprintf ''%s_%d'' [AStr username, AInt (clk_Nano E mod 100000)] else username)"

definition registered_message :: string where
  "registered_message = ''verification code sent to email''"

definition Register :: "identity_env \<Rightarrow> RegisterIn \<Rightarrow> ('z identity_db_scheme, string) eff" where
  "Register E inp =
     (let email = ToLower (TrimSpace (rgi_Email inp)) in
      bindE (wrapE ''check email failed'' (db_count users (\<lambda>u. us_Email u = email))) (\<lambda>count.
      if count > 0 then throwE (ErrNew ''email already registered'')
      else
      bindE (wrapE ''hash password failed'' (liftE (bc_Hash E (rgi_Password inp)))) (\<lambda>hash.
      bindE (wrapE ''check username failed''
        (db_count users (\<lambda>u. us_Username u = hd (SplitByte (CHR ''@'') email)))) (\<lambda>existCount.
      bindE (wrapE ''create user failed'' (db_insert ''users'' users users_update us_clash
        (new_user (username_of E email existCount) email hash ''email'' 0 RoleUser))) (\<lambda>_.
      bindE (wrapE ''generate code failed'' (liftE (generateCode E 6))) (\<lambda>code.
      bindE (wrapE ''store verification code failed'' (db_insert ''email_verifications'' email_verifications
        email_verifications_update no_clash
        (\<lambda>now i. \<lparr>ev_ID = i, ev_Email = email, ev_Code = code, ev_Purpose = ''register'',
           ev_ExpiresAt = now + 600, ev_UsedAt = None, ev_CreatedAt = now\<rparr>))) (\<lambda>_.
      returnE registered_message)))))))"

text \<open>ORDER BY id DESC LIMIT 1.\<close>

definition latest_code :: "string \<Rightarrow> ('z identity_db_scheme, emailVerification option) eff" where
  "latest_code email =
     bindE (getsE clock) (\<lambda>now.
     bindE (wrapE ''query verification code failed'' (db_select email_verifications
       (\<lambda>r. ev_Email r = email \<and> ev_Purpose r = ''register'' \<and> ev_UsedAt r = None \<and> now \<le> ev_ExpiresAt r))) (\<lambda>rows.
     returnE (case order_desc ev_ID rows of [] \<Rightarrow> None | r # rs \<Rightarrow> Some r)))"

definition use_code :: "string \<Rightarrow> emailVerification \<Rightarrow> ('z identity_db_scheme, string) eff" where
  "use_code email r =
     bindE (getsE clock) (\<lambda>now.
     bindE (wrapE ''mark code used failed'' (db_update email_verifications email_verifications_update
       (\<lambda>x. ev_ID x = ev_ID r) (\<lambda>x. x\<lparr>ev_UsedAt := Some now\<rparr>))) (\<lambda>_.
     bindE (wrapE ''activate user failed'' (db_update users users_update
       (\<lambda>u. us_Email u = email) (\<lambda>u. u\<lparr>us_Status := 1, us_UpdatedAt := now\<rparr>))) (\<lambda>_.
     returnE ''email verified successfully'')))"

definition VerifyEmail :: "VerifyEmailIn \<Rightarrow> ('z identity_db_scheme, string) eff" where
  "VerifyEmail inp =
     (let email = ToLower (TrimSpace (vei_Email inp)) in
      bindE (latest_code email) (\<lambda>rec.
      case rec of None \<Rightarrow> throwE (ErrNew ''verification code not found or expired'')
      | Some r \<Rightarrow>
         if ev_Code r \<noteq> vei_Code inp then throwE (ErrNew ''invalid verification code'')
         else use_code email r))"

definition us_toDTO :: "userRow \<Rightarrow> UserInfo" where
  "us_toDTO u = \<lparr>ui_ID = us_ID u, ui_Username = us_Username u, ui_Email = us_Email u, ui_DisplayName = us_DisplayName u,
     ui_Avatar = us_Avatar u, ui_Role = us_Role u, ui_Status = us_Status u, ui_KYCStatus = us_KYCStatus u,
     ui_CreatedAt = us_CreatedAt u\<rparr>"

text \<open>The message holds a dash, three bytes in UTF-8.\<close>

definition not_activated :: string where
  "not_activated = ''account not activated '' @ [char_of (226::nat), char_of (128::nat), char_of (148::nat)]
     @ '' please verify your email first''"

definition Login :: "identity_env \<Rightarrow> LoginIn \<Rightarrow> ('z identity_db_scheme, LoginOut) eff" where
  "Login E inp =
     (let email = ToLower (TrimSpace (lgi_Email inp)) in
      bindE (wrapE ''query user failed'' (db_one users (\<lambda>u. us_Email u = email))) (\<lambda>rec.
      case rec of None \<Rightarrow> throwE (ErrNew ''invalid email or password'')
      | Some u \<Rightarrow>
         if us_Status u \<noteq> 1 then throwE (ErrNew not_activated)
         else if \<not> bc_Compare E (us_Password u) (lgi_Password inp) then throwE (ErrNew ''invalid email or password'')
         else bindE (getsE clock) (\<lambda>now.
           bindE (wrapE ''generate token failed'' (liftE (generateJWT E (cfg_Secret E) (cfg_ExpireHours E)
             \<lparr>tc_UserID = us_ID u, tc_Username = us_Username u, tc_Role = us_Role u\<rparr> now))) (\<lambda>token.
           returnE \<lparr>lgo_Token = token, lgo_User = us_toDTO u\<rparr>))))"

definition GetUser :: "int \<Rightarrow> ('z identity_db_scheme, UserInfo) eff" where
  "GetUser userID =
     bindE (wrapE ''query user failed'' (db_one users (\<lambda>u. us_ID u = userID))) (\<lambda>rec.
     case rec of None \<Rightarrow> throwE (ErrNew ''user not found'') | Some u \<Rightarrow> returnE (us_toDTO u))"

definition ValidateToken :: "identity_env \<Rightarrow> string \<Rightarrow> ('z identity_db_scheme, TokenClaims option) eff" where
  "ValidateToken E token = bindE (getsE clock) (\<lambda>now. liftE (parseJWT E (cfg_Secret E) token now))"

section \<open>Administration of users\<close>

text \<open>\<^verbatim>\<open>WhereOrLike\<close> adds an OR to the conditions so far, which AND binds closer.\<close>

definition user_matches :: "int option \<Rightarrow> int option \<Rightarrow> string \<Rightarrow> userRow \<Rightarrow> bool" where
  "user_matches status role keyword u =
     (let base = (case status of None \<Rightarrow> True | Some st \<Rightarrow> us_Status u = st) \<and>
                 (case role of None \<Rightarrow> True | Some ro \<Rightarrow> us_Role u = ro) in
      if keyword = [] then base
      else base \<and> sql_like (''%'' @ keyword @ ''%'') (us_Email u) \<or> sql_like (''%'' @ keyword @ ''%'') (us_Username u))"

definition ListUsers :: "int \<Rightarrow> int \<Rightarrow> int option \<Rightarrow> int option \<Rightarrow> string \<Rightarrow> ('z identity_db_scheme, UserInfo list \<times> int) eff" where
  "ListUsers page pageSize status role keyword =
     list_page ''count users failed'' ''query users failed'' users us_ID (user_matches status role keyword)
       us_toDTO page pageSize"

definition CreateUser :: "identity_env \<Rightarrow> CreateUserIn \<Rightarrow> ('z identity_db_scheme, UserInfo) eff" where
  "CreateUser E inp =
     (let email = ToLower (TrimSpace (cui_Email inp)) in
      bindE (wrapE ''check email failed'' (db_count users (\<lambda>u. us_Email u = email))) (\<lambda>count.
      if count > 0 then throwE (ErrNew ''email already registered'')
      else
      bindE (wrapE ''hash password failed'' (liftE (bc_Hash E (cui_Password inp)))) (\<lambda>hash.
      bindE (tryE (db_count users (\<lambda>u. us_Username u = hd (SplitByte (CHR ''@'') email)))) (\<lambda>existCount.
      bindE (wrapE ''create user failed'' (db_insert ''users'' users users_update us_clash
        (new_user (username_of E email (case existCount of Inl e \<Rightarrow> 0 | Inr n \<Rightarrow> n)) email hash ''admin'' 1 (cui_Role inp))))
        (\<lambda>i. GetUser i)))))"

definition UpdateUserStatus :: "int \<Rightarrow> int \<Rightarrow> ('z identity_db_scheme, unit) eff" where
  "UpdateUserStatus userID status =
     bindE (getsE clock) (\<lambda>now.
     bindE (wrapE ''update user status failed'' (db_update users users_update (\<lambda>u. us_ID u = userID)
       (\<lambda>u. u\<lparr>us_Status := status, us_UpdatedAt := now\<rparr>))) (\<lambda>affected.
     if affected = 0 then throwE (ErrNew ''user not found'') else returnE ()))"

definition UpdateUserRole :: "int \<Rightarrow> int \<Rightarrow> ('z identity_db_scheme, unit) eff" where
  "UpdateUserRole userID role =
     bindE (getsE clock) (\<lambda>now.
     bindE (wrapE ''update user role failed'' (db_update users users_update (\<lambda>u. us_ID u = userID)
       (\<lambda>u. u\<lparr>us_Role := role, us_UpdatedAt := now\<rparr>))) (\<lambda>affected.
     if affected = 0 then throwE (ErrNew ''user not found'') else returnE ()))"

section \<open>Provider applications\<close>

definition new_application :: "int \<Rightarrow> ProviderApplicationIn \<Rightarrow> int \<Rightarrow> int \<Rightarrow> ProviderApplicationInfo" where
  "new_application userID inp now i = \<lparr>pa_ID = i, pa_UserID = userID, pa_Company = pai_Company inp,
     pa_Contact = pai_Contact inp, pa_Email = pai_Email inp, pa_Website = pai_Website inp, pa_Bio = pai_Bio inp,
     pa_ModelName = pai_ModelName inp, pa_ModelFamily = pai_ModelFamily inp, pa_APIEndpoint = pai_APIEndpoint inp,
     pa_Documentation = pai_Documentation inp, pa_Status = ''pending'', pa_ReviewNote = [], pa_ReviewedAt = None,
     pa_CreatedAt = now\<rparr>"

definition ApplyProvider :: "int \<Rightarrow> ProviderApplicationIn \<Rightarrow> ('z identity_db_scheme, unit) eff" where
  "ApplyProvider userID inp =
     (if userID = 0 then throwE (ErrNew ''authentication required'')
      else bindE (wrapE ''submit provider application failed'' (db_insert ''provider_applications''
        provider_applications provider_applications_update no_clash (new_application userID inp))) (\<lambda>_. returnE ()))"

definition ListProviderApplications ::
  "int \<Rightarrow> int \<Rightarrow> string \<Rightarrow> ('z identity_db_scheme, ProviderApplicationInfo list \<times> int) eff" where
  "ListProviderApplications page pageSize status =
     list_page ''count provider applications failed'' ''query provider applications failed'' provider_applications pa_ID
       (\<lambda>r. status \<noteq> [] \<longrightarrow> pa_Status r = status) (\<lambda>r. r) page pageSize"

definition ReviewProviderApplication :: "int \<Rightarrow> ReviewProviderApplicationIn \<Rightarrow> ('z identity_db_scheme, unit) eff" where
  "ReviewProviderApplication appID inp =
     bindE (wrapE ''query application failed'' (db_scan provider_applications (\<lambda>r. pa_ID r = appID))) (\<lambda>row.
     case row of None \<Rightarrow> throwE (ErrNew ''application not found'')
     | Some app \<Rightarrow>
        if pa_ID app = 0 then throwE (ErrNew ''application not found'')
        else if pa_Status app \<noteq> ''pending'' then throwE (ErrNewf ''application already %s'' [AStr (pa_Status app)])
        else bindE (getsE clock) (\<lambda>now.
          bindE (wrapE ''update application status failed'' (db_update provider_applications provider_applications_update
            (\<lambda>r. pa_ID r = appID) (\<lambda>r. r\<lparr>pa_Status := rpi_Status inp, pa_ReviewNote := rpi_ReviewNote inp,
               pa_ReviewedAt := Some now\<rparr>))) (\<lambda>_.
          if rpi_Status inp = ''approved''
          then bindE (wrapE ''set provider role failed'' (UpdateUserRole (pa_UserID app) 1)) (\<lambda>_.
            if rpi_ShareBps inp > 0
            then bindE (wrapE ''set provider share failed'' (SetProviderShareBps (pa_UserID app) (rpi_ShareBps inp)))
              (\<lambda>_. returnE ())
            else returnE ())
          else returnE ())))"

section \<open>API keys\<close>

definition generateAPIKeySuffix :: "identity_env \<Rightarrow> string" where
  "generateAPIKeySuffix E = hex_encode (rnd_Bytes E)"

definition new_api_key :: "int \<Rightarrow> string \<Rightarrow> CreateApiKeyIn \<Rightarrow> int \<Rightarrow> int \<Rightarrow> api_key" where
  "new_api_key userID key inp now i = \<lparr>ak_id = i, ak_user_id = userID, ak_key = key, ak_name = cai_Name inp,
     ak_status = 1, ak_disabled_reason = [], ak_model_limits = [], ak_model_limits_enabled = False,
     ak_quota_credits = cai_QuotaCredits inp,
     ak_remain_quota = (case cai_QuotaCredits inp of None \<Rightarrow> 0 | Some q \<Rightarrow> q), ak_used_quota = 0,
     ak_unlimited_quota = cai_UnlimitedQuota inp, ak_expire_time = None, ak_deleted_at = None,
     ak_created_at = now, ak_updated_at = now\<rparr>"

definition CreateApiKey :: "identity_env \<Rightarrow> int \<Rightarrow> CreateApiKeyIn \<Rightarrow> ('z settle_db_scheme, ApiKeyOut) eff" where
  "CreateApiKey E userID inp =
     (let key = ''sk-'' @ generateAPIKeySuffix E in
      bindE (wrapE ''create api key failed'' (db_insert ''api_keys'' api_keys api_keys_update ak_clash
        (new_api_key userID key inp))) (\<lambda>i.
      bindE (getsE clock) (\<lambda>now.
      returnE \<lparr>ako_ID = i, ako_Key = key, ako_Name = cai_Name inp, ako_Status = 1, ako_CreatedAt = now\<rparr>)))"

definition ak_toDTO :: "api_key \<Rightarrow> ApiKeyInfo" where
  "ak_toDTO r = \<lparr>aki_ID = ak_id r, aki_UserID = ak_user_id r, aki_Name = ak_name r, aki_Status = ak_status r,
     aki_QuotaCredits = ak_quota_credits r, aki_RemainQuota = ak_remain_quota r, aki_UsedQuota = ak_used_quota r,
     aki_UnlimitedQuota = ak_unlimited_quota r, aki_ExpireAt = ak_expire_time r, aki_CreatedAt = ak_created_at r\<rparr>"

definition ListApiKeys :: "int \<Rightarrow> ('z settle_db_scheme, ApiKeyInfo list) eff" where
  "ListApiKeys userID =
     bindE (wrapE ''list api keys failed'' (db_select api_keys (\<lambda>r. ak_user_id r = userID \<and> ak_deleted_at r = None))) (\<lambda>rows.
     returnE (map ak_toDTO (order_desc ak_id rows)))"

definition DeleteApiKey :: "int \<Rightarrow> int \<Rightarrow> ('z settle_db_scheme, unit) eff" where
  "DeleteApiKey userID keyID =
     bindE (getsE clock) (\<lambda>now.
     bindE (wrapE ''delete api key failed'' (db_update api_keys api_keys_update
       (\<lambda>r. ak_id r = keyID \<and> ak_user_id r = userID \<and> ak_deleted_at r = None)
       (\<lambda>r. r\<lparr>ak_deleted_at := Some now, ak_updated_at := now\<rparr>))) (\<lambda>_. returnE ()))"

text \<open>Quota, expiry and creation are not reported here.\<close>

definition ValidateApiKey :: "string \<Rightarrow> ('z settle_db_scheme, ApiKeyInfo) eff" where
  "ValidateApiKey key =
     (if length key < 4 \<or> take 3 key \<noteq> ''sk-'' then throwE (ErrNew ''invalid api key format'')
      else
      bindE (wrapE ''query api key failed''
        (db_one api_keys (\<lambda>r. ak_key r = key \<and> ak_status r = 1 \<and> ak_deleted_at r = None))) (\<lambda>rec.
      case rec of None \<Rightarrow> throwE (ErrNew ''api key not found or revoked'')
      | Some r \<Rightarrow> bindE (getsE clock) (\<lambda>now.
          if (case ak_expire_time r of None \<Rightarrow> False | Some t \<Rightarrow> t < now) then throwE (ErrNew ''api key expired'')
          else returnE ((ak_toDTO r)\<lparr>aki_QuotaCredits := None, aki_ExpireAt := None, aki_CreatedAt := 0\<rparr>))))"

end
