(* ===== verification/LlmRuntime.thy ===== *)
theory LlmRuntime
  imports LlmAdmin
begin

text \<open>
  The proxy of the LLM service, \<^verbatim>\<open>internal/logic/llm/runtime.go\<close> and
  \<^verbatim>\<open>openai.go\<close>: the list of models an API key may see, the choice of a key at random, one call
  of an OpenAI-compatible upstream and its immediate settlement.  (The relay of the theory Handler is
  the newer path; the controllers still take the list of models from here.)  \<open>parse\<close> stands for
  \<^verbatim>\<open>json.Unmarshal\<close> on the bytes of an answer, \<open>rnd\<close> for \<^verbatim>\<open>rand.Intn\<close>.
\<close>

section \<open>Requests and answers\<close>

record normalizedUsage =
  nu_InputTokens :: int
  nu_CacheHitTokens :: int
  nu_CacheMissTokens :: int
  nu_OutputTokens :: int
  nu_TotalTokens :: int

definition squote :: "string \<Rightarrow> string" where
  "squote s = [CHR 0x27] @ s @ [CHR 0x27]"

definition extractRequestedModel :: "raw \<Rightarrow> go_err + string" where
  "extractRequestedModel body = (case body of
     None \<Rightarrow> Inl (ErrWrap (ErrExt ''json'') ''parse request body failed'')
   | Some j \<Rightarrow> (case dec_object j of
       None \<Rightarrow> Inl (ErrWrap (ErrExt ''json'') ''parse request body failed'')
     | Some m \<Rightarrow> (case jlookup ''model'' m of
         None \<Rightarrow> Inl (ErrNew (''missing '' @ squote ''model'' @ '' field in request''))
       | Some v \<Rightarrow> (case dec_string v of
           None \<Rightarrow> Inl (ErrWrap (ErrExt ''json'') (squote ''model'' @ '' field is not a string''))
         | Some model \<Rightarrow> if model = [] then Inl (ErrNew (squote ''model'' @ '' field is empty'')) else Inr model))))"

text \<open>A body that is the JSON null decodes to a nil map, and the assignment to it panics; the model
  gives it an error (extractRequestedModel has rejected such a body before).\<close>

definition replaceRequestModel :: "raw \<Rightarrow> string \<Rightarrow> go_err + json" where
  "replaceRequestModel body upstreamModel = (case body of
     Some (JObj m) \<Rightarrow> Inr (JObj (sort_key fst (AList.update ''model'' (JStr upstreamModel)
        (map (\<lambda>k. (k, the (jlookup k m))) (remdups (map fst m))))))
   | _ \<Rightarrow> Inl (ErrWrap (ErrExt ''json'') ''parse request body failed''))"

text \<open>A field that cannot be decoded keeps its zero value, and so does a struct that is not an
  object.\<close>

definition lenient_int :: "string \<Rightarrow> (string \<times> json) list \<Rightarrow> int" where
  "lenient_int k kvs = (case dec_field k dec_int 0 kvs of None \<Rightarrow> 0 | Some n \<Rightarrow> n)"

definition lenient_object :: "string \<Rightarrow> (string \<times> json) list \<Rightarrow> (string \<times> json) list" where
  "lenient_object k kvs = (case dec_field k dec_object [] kvs of None \<Rightarrow> [] | Some o' \<Rightarrow> o')"

definition normalizeOpenAIUsage :: "raw \<Rightarrow> normalizedUsage" where
  "normalizeOpenAIUsage body =
     (let top = (case body of None \<Rightarrow> [] | Some j \<Rightarrow> (case dec_object j of None \<Rightarrow> [] | Some kvs \<Rightarrow> kvs));
          u = lenient_object ''usage'' top;
          input = lenient_int ''prompt_tokens'' u;
          output = lenient_int ''completion_tokens'' u;
          tot = lenient_int ''total_tokens'' u;
          hit = lenient_int ''prompt_cache_hit_tokens'' u;
          miss = lenient_int ''prompt_cache_miss_tokens'' u;
          cached = lenient_int ''cached_tokens'' (lenient_object ''prompt_tokens_details'' u);
          (h, m) = (if hit > 0 \<or> miss > 0 then (hit, miss)
                    else if cached > 0 then (cached, max 0 (i64 (input - cached)))
                    else (0, input)) in
      \<lparr>nu_InputTokens = input, nu_CacheHitTokens = h, nu_CacheMissTokens = m, nu_OutputTokens = output,
       nu_TotalTokens = (if tot = 0 then i64 (input + output) else tot)\<rparr>)"

section \<open>Candidates\<close>

record llmCandidate =
  lc_KeyModelID :: int
  lc_ModelKeyID :: int
  lc_ChannelID :: int
  lc_ProviderUserID :: int
  lc_UpstreamModelName :: string
  lc_KeyEncrypted :: string
  lc_ProtocolsJson :: raw
  lc_ProviderShareBps :: int
  lc_KMQuotaUsed :: int
  lc_KMQuotaLimit :: int
  lc_MKQuotaUsed :: int
  lc_MKQuotaLimit :: int

definition llm_candidate :: "keyModelRow \<Rightarrow> modelKeyRow \<Rightarrow> channelRow \<Rightarrow> llmCandidate" where
  "llm_candidate km mk ch = \<lparr>lc_KeyModelID = km_ID km, lc_ModelKeyID = km_ModelKeyID km, lc_ChannelID = mk_ChannelID mk,
     lc_ProviderUserID = mk_ProviderUserID mk, lc_UpstreamModelName = km_UpstreamModelName km,
     lc_KeyEncrypted = mk_KeyEncrypted mk, lc_ProtocolsJson = ch_ProtocolsJson ch,
     lc_ProviderShareBps = km_ProviderShareBps km, lc_KMQuotaUsed = km_QuotaUsedCredits km,
     lc_KMQuotaLimit = km_QuotaLimitCredits km, lc_MKQuotaUsed = mk_QuotaUsedCredits mk,
     lc_MKQuotaLimit = mk_QuotaLimitCredits mk\<rparr>"

definition llm_join :: "int \<Rightarrow> 'z llm_db_scheme \<Rightarrow> llmCandidate list" where
  "llm_join modelSpecID s =
     [llm_candidate km mk ch. km \<leftarrow> llm_model_key_models s, mk \<leftarrow> llm_model_keys s, ch \<leftarrow> llm_channels s,
        km_ModelKeyID km = mk_ID mk, mk_ChannelID mk = ch_ID ch, km_ModelSpecID km = modelSpecID,
        km_Status km = ''active'', mk_Status mk = ''active'', ch_Status ch = ''active'']"

definition loadCandidates :: "int \<Rightarrow> ('z llm_db_scheme, llmCandidate list) eff" where
  "loadCandidates modelSpecID =
     bindE (wrapE ''query candidates failed'' (db_call (getsE (llm_join modelSpecID)))) (\<lambda>rows.
     returnE (filter (\<lambda>r. \<not> (lc_MKQuotaLimit r > 0 \<and> lc_MKQuotaUsed r \<ge> lc_MKQuotaLimit r)
        \<and> \<not> (lc_KMQuotaLimit r > 0 \<and> lc_KMQuotaUsed r \<ge> lc_KMQuotaLimit r)) rows))"

record OpenAIModelInfo =
  omi_ID :: string
  omi_Object :: string
  omi_Created :: int
  omi_OwnedBy :: string

text \<open>The codes an API key is limited to; \<open>None\<close> when it is not limited.\<close>

definition allowed_codes :: "api_key option \<Rightarrow> string list option" where
  "allowed_codes key = (case key of None \<Rightarrow> None
     | Some k \<Rightarrow> if ak_id k \<noteq> 0 \<and> ak_model_limits_enabled k \<and> ak_model_limits k \<noteq> []
         then Some (filter (\<lambda>c. c \<noteq> []) (map TrimSpace (SplitByte (CHR '','') (ak_model_limits k)))) else None)"

fun visible_models :: "string list option \<Rightarrow> modelSpecRow list \<Rightarrow> ('z llm_db_scheme, OpenAIModelInfo list) eff" where
  "visible_models allowed [] = returnE []"
| "visible_models allowed (spec # specs) =
     (if (case allowed of None \<Rightarrow> False | Some codes \<Rightarrow> ms_ModelCode spec \<notin> set codes) then visible_models allowed specs
      else bindE (loadCandidates (ms_ID spec)) (\<lambda>candidates.
        if candidates = [] then visible_models allowed specs
        else bindE (visible_models allowed specs) (\<lambda>rest.
          returnE (\<lparr>omi_ID = ms_ModelCode spec, omi_Object = ''model'', omi_Created = ms_CreatedAt spec,
                    omi_OwnedBy = ms_DeveloperName spec\<rparr> # rest))))"

definition ListAvailableModels :: "int \<Rightarrow> ('z llm_db_scheme, OpenAIModelInfo list) eff" where
  "ListAvailableModels apiKeyID =
     bindE (wrapE ''query api key failed'' (db_scan api_keys (\<lambda>k. ak_id k = apiKeyID))) (\<lambda>key.
     bindE (wrapE ''query model specs failed'' (db_select llm_model_specs (\<lambda>r. ms_Status r = ''active''))) (\<lambda>specs.
     visible_models (allowed_codes key) specs))"

record scheduledKeyModel =
  sk_ModelSpecID :: int
  sk_ModelCode :: string
  sk_ModelKeyID :: int
  sk_KeyModelID :: int
  sk_ProviderUserID :: int
  sk_ChannelID :: int
  sk_UpstreamModelName :: string
  sk_KeyEncrypted :: string
  sk_ProtocolsJson :: raw
  sk_ProviderShareBps :: int

definition pickRandomKeyModel :: "(nat \<Rightarrow> nat) \<Rightarrow> string \<Rightarrow> ('z llm_db_scheme, scheduledKeyModel) eff" where
  "pickRandomKeyModel rnd modelCode =
     bindE (wrapE ''query model spec failed''
       (db_scan llm_model_specs (\<lambda>r. ms_ModelCode r = modelCode \<and> ms_Status r = ''active''))) (\<lambda>row.
     case row of None \<Rightarrow> throwE (ErrNewf ''model %s not found or inactive'' [AStr modelCode])
     | Some spec \<Rightarrow>
        if ms_ID spec = 0 then throwE (ErrNewf ''model %s not found or inactive'' [AStr modelCode])
        else bindE (loadCandidates (ms_ID spec)) (\<lambda>candidates.
          if candidates = [] then throwE (ErrNewf ''no available key for model %s'' [AStr modelCode])
          else let pick = candidates ! rnd (length candidates) in
            returnE \<lparr>sk_ModelSpecID = ms_ID spec, sk_ModelCode = ms_ModelCode spec, sk_ModelKeyID = lc_ModelKeyID pick,
              sk_KeyModelID = lc_KeyModelID pick, sk_ProviderUserID = lc_ProviderUserID pick,
              sk_ChannelID = lc_ChannelID pick, sk_UpstreamModelName = lc_UpstreamModelName pick,
              sk_KeyEncrypted = lc_KeyEncrypted pick, sk_ProtocolsJson = lc_ProtocolsJson pick,
              sk_ProviderShareBps = lc_ProviderShareBps pick\<rparr>))"

section \<open>The proxy\<close>

definition truncate_str :: "string \<Rightarrow> nat \<Rightarrow> string" where
  "truncate_str s n = (if length s \<le> n then s else take n s)"

definition http2errCode :: "int \<Rightarrow> string" where
  "http2errCode status =
     (if status = 401 \<or> status = 403 then ''upstream_auth''
      else if status = 404 then ''upstream_not_found''
      else if status = 429 then ''upstream_rate_limit''
      else if status \<ge> 500 then ''upstream_5xx''
      else if status \<ge> 400 then ''upstream_4xx''
      else ''upstream_error'')"

record OpenAIProxyRequest =
  opr_UserID :: int
  opr_ApiKeyID :: int
  opr_RequestID :: string
  opr_RawBody :: raw
  opr_IsStream :: bool

record OpenAIProxyResponse =
  ops_StatusCode :: int
  ops_Body :: string
  ops_Headers :: "(string \<times> string) list"

text \<open>What the call depends on outside the repository.\<close>

record proxy_env =
  px_keys :: key_env
  px_http :: http
  px_parse :: "string \<Rightarrow> raw"
  px_pick :: "(string \<times> json) list \<Rightarrow> string \<times> json"
  px_rnd :: "nat \<Rightarrow> nat"
  px_latency :: int

definition usage_base :: "OpenAIProxyRequest \<Rightarrow> scheduledKeyModel \<Rightarrow> string \<Rightarrow> int \<Rightarrow> int \<Rightarrow> int \<Rightarrow> usageRecord" where
  "usage_base inp sk capability latency now i =
     \<lparr>ur_ID = i, ur_ConsumerUserID = opr_UserID inp, ur_VirtualKeyID = opr_ApiKeyID inp,
      ur_ModelSpecID = sk_ModelSpecID sk, ur_ModelKeyID = sk_ModelKeyID sk, ur_KeyModelID = sk_KeyModelID sk,
      ur_ProviderUserID = sk_ProviderUserID sk, ur_ChannelID = sk_ChannelID sk, ur_RequestID = opr_RequestID inp,
      ur_Capability = capability, ur_IsStream = opr_IsStream inp, ur_InputTokens = 0, ur_CacheHitTokens = 0,
      ur_CacheMissTokens = 0, ur_OutputTokens = 0, ur_TotalTokens = 0, ur_CostCredits = 0,
      ur_ProviderRevenueCredits = 0, ur_CommissionCredits = 0, ur_LatencyMs = latency, ur_Status = [],
      ur_ErrorCode = [], ur_ErrorMessage = [], ur_CreatedAt = now\<rparr>"

definition failed_usage :: "OpenAIProxyRequest \<Rightarrow> scheduledKeyModel \<Rightarrow> string \<Rightarrow> int \<Rightarrow> string \<Rightarrow> string \<Rightarrow> int \<Rightarrow> int \<Rightarrow> usageRecord" where
  "failed_usage inp sk capability latency code msg now i =
     (usage_base inp sk capability latency now i)\<lparr>ur_Status := ''failed'', ur_ErrorCode := code, ur_ErrorMessage := msg\<rparr>"

text \<open>Cost, provider revenue and commission.\<close>

definition proxy_cost :: "modelPriceRow option \<Rightarrow> normalizedUsage \<Rightarrow> int \<Rightarrow> int \<times> int \<times> int" where
  "proxy_cost price u share = (case price of None \<Rightarrow> (0, 0, 0)
     | Some p \<Rightarrow>
        if mp_CacheHitPricePer1K p = 0 \<and> mp_CacheMissPricePer1K p = 0 \<and> mp_OutputPricePer1K p = 0 then (0, 0, 0)
        else
          let cost = i64 (i64 (go_div (i64 (mp_CacheHitPricePer1K p * nu_CacheHitTokens u)) 1000
                + go_div (i64 (mp_CacheMissPricePer1K p * nu_CacheMissTokens u)) 1000)
                + go_div (i64 (mp_OutputPricePer1K p * nu_OutputTokens u)) 1000);
              revenue = go_div (i64 (cost * share)) 10000 in
          (cost, revenue, i64 (cost - revenue)))"

definition success_usage ::
  "OpenAIProxyRequest \<Rightarrow> scheduledKeyModel \<Rightarrow> string \<Rightarrow> int \<Rightarrow> normalizedUsage \<Rightarrow> int \<times> int \<times> int \<Rightarrow> int \<Rightarrow> int \<Rightarrow> usageRecord" where
  "success_usage inp sk capability latency u crc now i =
     (usage_base inp sk capability latency now i)\<lparr>ur_InputTokens := nu_InputTokens u,
        ur_CacheHitTokens := nu_CacheHitTokens u, ur_CacheMissTokens := nu_CacheMissTokens u,
        ur_OutputTokens := nu_OutputTokens u, ur_TotalTokens := nu_TotalTokens u,
        ur_CostCredits := fst crc, ur_ProviderRevenueCredits := fst (snd crc),
        ur_CommissionCredits := snd (snd crc), ur_Status := ''success''\<rparr>"

definition proxy_submission :: "OpenAIProxyRequest \<Rightarrow> scheduledKeyModel \<Rightarrow> int \<Rightarrow> int \<times> int \<times> int \<Rightarrow> SettlementSubmitIn" where
  "proxy_submission inp sk usageID crc =
     \<lparr>sub_ProductType = ''llm'', sub_RefType = ''llm_usage_record'', sub_RefID = usageID,
      sub_ConsumerUserID = opr_UserID inp, sub_ProviderUserID = sk_ProviderUserID sk,
      sub_CostCredits = fst crc, sub_ProviderRevenueCredits = fst (snd crc), sub_CommissionCredits = snd (snd crc),
      sub_PointsToConsumer = 0, sub_PointsToProvider = 0\<rparr>"

definition bump_quotas :: "scheduledKeyModel \<Rightarrow> int \<Rightarrow> ('z llm_db_scheme, unit) eff" where
  "bump_quotas sk cost =
     (if cost > 0 then
        bindE (tryE (db_update llm_model_keys llm_model_keys_update (\<lambda>r. mk_ID r = sk_ModelKeyID sk)
          (\<lambda>r. r\<lparr>mk_QuotaUsedCredits := mk_QuotaUsedCredits r + cost\<rparr>))) (\<lambda>_.
        bindE (tryE (db_update llm_model_key_models llm_model_key_models_update (\<lambda>r. km_ID r = sk_KeyModelID sk)
          (\<lambda>r. r\<lparr>km_QuotaUsedCredits := km_QuotaUsedCredits r + cost\<rparr>))) (\<lambda>_. returnE ()))
      else returnE ())"

definition overdraft_check :: "int \<Rightarrow> ('z llm_db_scheme, unit) eff" where
  "overdraft_check userID =
     bindE (tryE (scan_account ''user'' userID ''credits'')) (\<lambda>post.
     case post of Inl e \<Rightarrow> returnE ()
     | Inr row \<Rightarrow>
        if (case row of None \<Rightarrow> 0 | Some a \<Rightarrow> acc_balance_micro a) < 0
        then bindE (getsE clock) (\<lambda>now.
          bindE (tryE (db_update api_keys api_keys_update
            (\<lambda>k. ak_user_id k = userID \<and> ak_status k = 1 \<and> ak_deleted_at k = None)
            (\<lambda>k. k\<lparr>ak_status := 0, ak_disabled_reason := ''overdraft'', ak_updated_at := now\<rparr>))) (\<lambda>_. returnE ()))
        else returnE ())"

text \<open>Steps 9 to 14: a call that succeeded upstream.\<close>

definition settle_call ::
  "proxy_env \<Rightarrow> OpenAIProxyRequest \<Rightarrow> scheduledKeyModel \<Rightarrow> string \<Rightarrow> string \<Rightarrow> ('z llm_db_scheme, unit) eff" where
  "settle_call X inp sk capability respBody =
     (let u = normalizeOpenAIUsage (px_parse X respBody) in
      bindE (wrapE ''query model price failed''
        (db_scan llm_model_prices (\<lambda>p. mp_ModelSpecID p = sk_ModelSpecID sk \<and> mp_Capability p = capability
           \<and> mp_Status p = ''active''))) (\<lambda>price.
      let crc = proxy_cost price u (sk_ProviderShareBps sk) in
      bindE (wrapE ''insert usage record failed''
        (db_insert ''llm_usage_records'' llm_usage_records llm_usage_records_update no_clash
          (success_usage inp sk capability (px_latency X) u crc))) (\<lambda>usageID.
      bindE (tryE (SubmitAndSettle (proxy_submission inp sk usageID crc))) (\<lambda>settled.
      bindE (case settled of Inr tx \<Rightarrow> returnE ()
         | Inl e \<Rightarrow> bindE (tryE (db_update llm_usage_records llm_usage_records_update (\<lambda>r. ur_ID r = usageID)
             (\<lambda>r. r\<lparr>ur_Status := ''settlement_pending'', ur_ErrorCode := ''settlement_failed'',
                    ur_ErrorMessage := truncate_str (err_text (ErrWrap e ''submit_and_settle'')) 1024\<rparr>)))
             (\<lambda>_. returnE ())) (\<lambda>_.
      bindE (bump_quotas sk (fst crc)) (\<lambda>_.
      case settled of Inr tx \<Rightarrow> overdraft_check (opr_UserID inp) | Inl e \<Rightarrow> returnE ()))))))"

definition proxyOpenAI ::
  "proxy_env \<Rightarrow> OpenAIProxyRequest \<Rightarrow> string \<Rightarrow> string \<Rightarrow> ('z llm_db_scheme, OpenAIProxyResponse) eff" where
  "proxyOpenAI X inp path capability =
     bindE (wrapE ''query consumer balance failed'' (scan_account ''user'' (opr_UserID inp) ''credits'')) (\<lambda>row.
     if (case row of None \<Rightarrow> 0 | Some a \<Rightarrow> acc_balance_micro a) \<le> 0 then throwE (ErrNew ''insufficient credits'')
     else
     bindE (liftE (extractRequestedModel (opr_RawBody inp))) (\<lambda>modelCode.
     bindE (pickRandomKeyModel (px_rnd X) modelCode) (\<lambda>sk.
     bindE (wrapE (sprintf ''decrypt key failed for model_key_id=%d'' [AInt (sk_ModelKeyID sk)])
       (liftE (DecryptKey (px_keys X) (sk_KeyEncrypted sk)))) (\<lambda>apiKey.
     bindE (wrapE (sprintf ''channel_id=%d base_url lookup'' [AInt (sk_ChannelID sk)])
       (liftE (extractBaseURL (px_pick X) (sk_ProtocolsJson sk)))) (\<lambda>baseURL.
     bindE (liftE (replaceRequestModel (opr_RawBody inp) (sk_UpstreamModelName sk))) (\<lambda>newBody.
     let log_failure = (\<lambda>code msg. bindE (tryE (db_insert ''llm_usage_records'' llm_usage_records
           llm_usage_records_update no_clash (failed_usage inp sk capability (px_latency X) code msg)))
           (\<lambda>_. returnE ())) in
     case proxyOpenAICompatible (px_http X) baseURL apiKey path (Some newBody) of
       Inl callErr \<Rightarrow> bindE (log_failure ''upstream_error'' (err_text callErr)) (\<lambda>_. throwE callErr)
     | Inr (status, respBody, headers) \<Rightarrow>
        let resp = \<lparr>ops_StatusCode = status, ops_Body = respBody, ops_Headers = headers\<rparr> in
        if status \<ge> 400
        then bindE (log_failure (http2errCode status) (truncate_str respBody 1024)) (\<lambda>_. returnE resp)
        else bindE (settle_call X inp sk capability respBody) (\<lambda>_. returnE resp)))))))"

definition ProxyChatCompletions :: "proxy_env \<Rightarrow> OpenAIProxyRequest \<Rightarrow> ('z llm_db_scheme, OpenAIProxyResponse) eff" where
  "ProxyChatCompletions X inp = proxyOpenAI X inp ''/v1/chat/completions'' ''chat''"

definition ProxyCompletions :: "proxy_env \<Rightarrow> OpenAIProxyRequest \<Rightarrow> ('z llm_db_scheme, OpenAIProxyResponse) eff" where
  "ProxyCompletions X inp = proxyOpenAI X inp ''/v1/completions'' ''completion''"

definition ProxyEmbeddings :: "proxy_env \<Rightarrow> OpenAIProxyRequest \<Rightarrow> ('z llm_db_scheme, OpenAIProxyResponse) eff" where
  "ProxyEmbeddings X inp = proxyOpenAI X inp ''/v1/embeddings'' ''embedding''"

end
