(* ===== verification/Access.thy ===== *)
theory Access
  imports Identity LlmRuntime
begin

text \<open>
  The doors of the server: \<^verbatim>\<open>internal/middleware\<close> and the handlers of the gateway
  (\<^verbatim>\<open>controller/gateway\<close>).  ghttp's routing, its decoding of parameters and the identifiers it
  makes up are parameters.  A handler is an effect whose value is the answer; it never fails.
\<close>

section \<open>Answers\<close>

text \<open>\<^verbatim>\<open>WriteJson\<close>, \<^verbatim>\<open>WriteStatusExit\<close> with a message, a streamed body, nothing at all.\<close>

datatype 'b answer = Json 'b | Exit int string | Streamed | Silent

text \<open>\<^verbatim>\<open>Recover\<close> answers a panic.\<close>

definition recovered :: "'b answer" where
  "recovered = Exit 500 ''internal server error''"

definition answer :: "int \<Rightarrow> ('s, 'b) eff \<Rightarrow> ('s, 'b answer) eff" where
  "answer status m = bindE (tryE m) (\<lambda>r. returnE (case r of Inl e \<Rightarrow> Exit status (err_text e) | Inr x \<Rightarrow> Json x))"

text \<open>Parse errors come before the service is called.\<close>

definition with_input :: "go_err + 'i \<Rightarrow> ('i \<Rightarrow> ('s, 'b answer) eff) \<Rightarrow> ('s, 'b answer) eff" where
  "with_input parsed h = (case parsed of
     Inl e \<Rightarrow> returnE (Exit 400 (''invalid params: '' @ err_text e)) | Inr x \<Rightarrow> h x)"

section \<open>Middleware\<close>

text \<open>The bearer token of a request; \<open>Inl\<close> when the header is missing or of another kind.\<close>

definition bearer :: "string \<Rightarrow> unit + string" where
  "bearer auth = (if auth = [] \<or> \<not> HasPrefix auth ''Bearer '' then Inl () else Inr (TrimPrefix auth ''Bearer ''))"

definition JWTAuth ::
  "identity_env \<Rightarrow> string \<Rightarrow> (TokenClaims \<Rightarrow> ('z identity_db_scheme, 'b answer) eff) \<Rightarrow> ('z identity_db_scheme, 'b answer) eff" where
  "JWTAuth E auth next' = (case bearer auth of
     Inl u \<Rightarrow> returnE (Exit 401 ''missing authorization header'')
   | Inr token \<Rightarrow>
       if token = [] then returnE Silent
       else bindE (tryE (ValidateToken E token)) (\<lambda>r. case r of
         Inl e \<Rightarrow> returnE (Exit 401 ''invalid or expired token'')
       | Inr None \<Rightarrow> returnE recovered
       | Inr (Some claims) \<Rightarrow> next' claims))"

definition APIKeyAuth ::
  "string \<Rightarrow> (int \<Rightarrow> int \<Rightarrow> ('z settle_db_scheme, 'b answer) eff) \<Rightarrow> ('z settle_db_scheme, 'b answer) eff" where
  "APIKeyAuth auth next' = (case bearer auth of
     Inl u \<Rightarrow> returnE (Exit 401 ''missing api key'')
   | Inr key \<Rightarrow>
       if key = [] then returnE Silent
       else bindE (tryE (ValidateApiKey key)) (\<lambda>r. case r of
         Inl e \<Rightarrow> returnE (Exit 401 (err_text e))
       | Inr info \<Rightarrow> next' (aki_UserID info) (aki_ID info)))"

text \<open>The token of the configuration, or of the environment; without one nobody gets in.\<close>

definition AdminTokenAuth :: "string \<Rightarrow> string \<Rightarrow> string \<Rightarrow> ('s, 'b answer) eff \<Rightarrow> ('s, 'b answer) eff" where
  "AdminTokenAuth cfg_token env_token auth next' =
     (let token = TrimPrefix auth ''Bearer '';
          expected = (if cfg_token = [] then env_token else cfg_token) in
      if expected = [] \<or> token \<noteq> expected then returnE (Exit 401 ''unauthorized'') else next')"

definition RequestID :: "string \<Rightarrow> string \<Rightarrow> string" where
  "RequestID header fresh = (if header = [] then fresh else header)"

section \<open>The gateway's handlers\<close>

text \<open>Decoding a \<^verbatim>\<open>bool\<close>: a null leaves it false.\<close>

definition detectStream :: "raw \<Rightarrow> bool" where
  "detectStream body = (case body of None \<Rightarrow> False
     | Some j \<Rightarrow> (case dec_object j of None \<Rightarrow> False
         | Some m \<Rightarrow> (case jlookup ''stream'' m of None \<Rightarrow> False | Some v \<Rightarrow> v = JBool True)))"

definition relay_request :: "int \<Rightarrow> int \<Rightarrow> string \<Rightarrow> string \<Rightarrow> raw \<Rightarrow> string \<Rightarrow> RelayRequest" where
  "relay_request userID apiKeyID requestID path body capability =
     \<lparr>rq_UserID = userID, rq_ApiKeyID = apiKeyID, rq_RequestID = requestID, rq_Path = path, rq_RawBody = body,
      rq_IsStream = detectStream body, rq_Capability = capability\<rparr>"

text \<open>\<open>read\<close> is what reading the body gave.  A nil response is dereferenced.\<close>

definition relayProxy ::
  "'r relay_env \<Rightarrow> int \<Rightarrow> int \<Rightarrow> string \<Rightarrow> string \<Rightarrow> go_err + raw \<Rightarrow> string \<Rightarrow> ('z gateway_db_scheme, RelayResponse answer) eff" where
  "relayProxy env userID apiKeyID requestID path read' capability = (case read' of
     Inl e \<Rightarrow> returnE (Exit 400 ''invalid request body'')
   | Inr body \<Rightarrow>
       let req = relay_request userID apiKeyID requestID path body capability in
       if detectStream body
       then bindE (tryE (HandleStream env req)) (\<lambda>r. returnE (case r of Inl e \<Rightarrow> Exit 500 (err_text e) | Inr x \<Rightarrow> Streamed))
       else bindE (tryE (Handle env req)) (\<lambda>r. returnE (case r of
          Inl e \<Rightarrow> Exit 500 (err_text e) | Inr None \<Rightarrow> recovered | Inr (Some res) \<Rightarrow> Json res)))"

definition RelayChatCompletions where
  "RelayChatCompletions env userID apiKeyID requestID path read' = relayProxy env userID apiKeyID requestID path read' ''chat''"

definition RelayCompletions where
  "RelayCompletions env userID apiKeyID requestID path read' = relayProxy env userID apiKeyID requestID path read' ''completion''"

definition RelayEmbeddings where
  "RelayEmbeddings env userID apiKeyID requestID path read' = relayProxy env userID apiKeyID requestID path read' ''embedding''"

definition gateway_Models :: "int \<Rightarrow> ('z llm_db_scheme, OpenAIModelInfo list answer) eff" where
  "gateway_Models apiKeyID = answer 500 (ListAvailableModels apiKeyID)"

text \<open>The routes of the gateway's server.\<close>

datatype gateway_answer = Relayed "RelayResponse answer" | Listed "OpenAIModelInfo list answer"

definition gateway_route ::
  "'r relay_env \<Rightarrow> string \<Rightarrow> string \<Rightarrow> string \<Rightarrow> go_err + raw \<Rightarrow> int \<Rightarrow> int \<Rightarrow> ('z gateway_db_scheme, gateway_answer answer) eff" where
  "gateway_route env verb path requestID read' userID apiKeyID =
     (let relay = (\<lambda>h. bindE h (\<lambda>a. returnE (Json (Relayed a)))) in
      if (verb, path) = (''GET'', ''/v1/models'') then bindE (gateway_Models apiKeyID) (\<lambda>a. returnE (Json (Listed a)))
      else if (verb, path) = (''POST'', ''/v1/chat/completions'') then relay (RelayChatCompletions env userID apiKeyID requestID path read')
      else if (verb, path) = (''POST'', ''/v1/completions'') then relay (RelayCompletions env userID apiKeyID requestID path read')
      else if (verb, path) = (''POST'', ''/v1/embeddings'') then relay (RelayEmbeddings env userID apiKeyID requestID path read')
      else if (verb, path) = (''POST'', ''/v1/messages'') then relay (RelayChatCompletions env userID apiKeyID requestID path read')
      else returnE (Exit 404 ''Not Found''))"

definition gateway_server ::
  "'r relay_env \<Rightarrow> string \<Rightarrow> string \<Rightarrow> string \<Rightarrow> string \<Rightarrow> go_err + raw \<Rightarrow> ('z gateway_db_scheme, gateway_answer answer) eff" where
  "gateway_server env auth verb path requestID read' = APIKeyAuth auth (gateway_route env verb path requestID read')"

end
