(* ===== verification/Backoffice.thy ===== *)
theory Backoffice
  imports Identity "HOL-Library.Product_Lexorder"
begin

text \<open>
  Three small services over tables of their own: the wallet
  (\<^verbatim>\<open>internal/logic/wallet/wallet.go\<close>, \<^verbatim>\<open>migrations/0002\<close>), invoices
  (\<^verbatim>\<open>internal/logic/invoice/invoice.go\<close>, \<^verbatim>\<open>migrations/0006\<close>) and the
  list of developers (\<^verbatim>\<open>internal/logic/developer/developer.go\<close>,
  \<^verbatim>\<open>migrations/0015\<close>).
\<close>

section \<open>Wallet\<close>

record DepositAddress =
  da_ID :: int
  da_UserID :: int
  da_Chain :: string
  da_Address :: string
  da_HdPath :: string
  da_CreatedAt :: int

record ChainDeposit =
  cd_ID :: int
  cd_UserID :: int
  cd_Chain :: string
  cd_TxHash :: string
  cd_FromAddr :: string
  cd_ToAddr :: string
  cd_AmountNative :: string
  cd_AmountUsdAtTime :: int
  cd_Status :: string
  cd_ObservedAt :: int

record WithdrawRequest =
  wd_ID :: int
  wd_UserID :: int
  wd_Chain :: string
  wd_ToAddress :: string
  wd_AmountBalance :: int
  wd_Fee :: int
  wd_Status :: string
  wd_CreatedAt :: int

record invoiceRow =
  iv_ID :: int
  iv_UserID :: int
  iv_AmountCredits :: int
  iv_RefType :: string
  iv_RefID :: int
  iv_InvoiceNumber :: string
  iv_Status :: string
  iv_Notes :: string
  iv_IssuedAt :: "int option"
  iv_CreatedAt :: int

record developerRow =
  dv_ID :: int
  dv_Name :: string
  dv_Description :: string
  dv_Website :: string
  dv_LogoURL :: string
  dv_SortOrder :: int
  dv_Status :: int
  dv_CreatedAt :: int
  dv_UpdatedAt :: int

record office_db = identity_db +
  deposit_addresses :: "DepositAddress list"
  chain_deposits :: "ChainDeposit list"
  withdraw_requests :: "WithdrawRequest list"
  invoices :: "invoiceRow list"
  developers :: "developerRow list"

definition da_clash :: "DepositAddress \<Rightarrow> DepositAddress \<Rightarrow> bool" where
  "da_clash x r \<longleftrightarrow> (da_UserID x = da_UserID r \<and> da_Chain x = da_Chain r) \<or>
     (da_Chain x = da_Chain r \<and> da_Address x = da_Address r)"

text \<open>\<open>sha256\<close> is the hash of crypto/sha256, \<open>nanos\<close> the clock in nanoseconds and \<open>rnd\<close> the
  text of \<^verbatim>\<open>grand.S(8)\<close>.\<close>

definition CreateDepositAddress ::
  "(string \<Rightarrow> string) \<Rightarrow> int \<Rightarrow> string \<Rightarrow> int \<Rightarrow> string \<Rightarrow> ('z office_db_scheme, DepositAddress) eff" where
  "CreateDepositAddress sha256 nanos rnd userID chain =
     bindE (wrapE ''check existing address''
       (db_count deposit_addresses (\<lambda>r. da_UserID r = userID \<and> da_Chain r = chain))) (\<lambda>n.
     if n > 0 then throwE (ErrNewf ''deposit address already exists for chain %s'' [AStr chain])
     else
       let raw = show_int userID @ chain @ show_int nanos @ rnd;
           address = ''0x'' @ hex_encode (take 20 (sha256 raw));
           hdPath = ''m/44'' @ [CHR 0x27] @ ''/60'' @ [CHR 0x27] @ ''/0'' @ [CHR 0x27] @ ''/0/'' @ show_int userID in
       bindE (wrapE ''insert deposit address''
         (db_insert ''deposit_addresses'' deposit_addresses deposit_addresses_update da_clash (\<lambda>now i.
           \<lparr>da_ID = i, da_UserID = userID, da_Chain = chain, da_Address = address, da_HdPath = hdPath,
            da_CreatedAt = now\<rparr>))) (\<lambda>i.
       bindE (wrapE ''read back deposit address'' (db_one deposit_addresses (\<lambda>r. da_ID r = i))) (\<lambda>row.
       case row of None \<Rightarrow> throwE (ErrNew ''deposit address not found after insert'')
       | Some r \<Rightarrow> returnE r)))"

definition ListDepositAddresses :: "int \<Rightarrow> ('z office_db_scheme, DepositAddress list) eff" where
  "ListDepositAddresses userID =
     bindE (db_select deposit_addresses (\<lambda>r. da_UserID r = userID)) (\<lambda>rows. returnE (order_desc da_ID rows))"

definition ListDeposits :: "int \<Rightarrow> ('z office_db_scheme, ChainDeposit list) eff" where
  "ListDeposits userID =
     bindE (db_select chain_deposits (\<lambda>r. cd_UserID r = userID)) (\<lambda>rows. returnE (order_desc cd_ObservedAt rows))"

definition CreateWithdraw :: "int \<Rightarrow> string \<Rightarrow> string \<Rightarrow> int \<Rightarrow> ('z office_db_scheme, WithdrawRequest) eff" where
  "CreateWithdraw userID chain toAddress amount =
     bindE (wrapE ''insert withdraw request''
       (db_insert ''withdraw_requests'' withdraw_requests withdraw_requests_update (\<lambda>_ _. False) (\<lambda>now i.
         \<lparr>wd_ID = i, wd_UserID = userID, wd_Chain = chain, wd_ToAddress = toAddress,
          wd_AmountBalance = amount, wd_Fee = 0, wd_Status = ''pending'', wd_CreatedAt = now\<rparr>))) (\<lambda>i.
     bindE (wrapE ''read back withdraw request'' (db_one withdraw_requests (\<lambda>r. wd_ID r = i))) (\<lambda>row.
     case row of None \<Rightarrow> throwE (ErrNew ''withdraw request not found after insert'')
     | Some r \<Rightarrow> returnE r))"

definition ListWithdrawals :: "int \<Rightarrow> ('z office_db_scheme, WithdrawRequest list) eff" where
  "ListWithdrawals userID =
     bindE (db_select withdraw_requests (\<lambda>r. wd_UserID r = userID)) (\<lambda>rows. returnE (order_desc wd_CreatedAt rows))"

section \<open>Invoices\<close>

text \<open>\<^verbatim>\<open>dto.InvoiceInfo\<close> has the fields of the row.\<close>

definition iv_List :: "string \<Rightarrow> int \<Rightarrow> int \<Rightarrow> ('z office_db_scheme, invoiceRow list \<times> int) eff" where
  "iv_List status page0 pageSize0 =
     (let page = page_or 1 page0; pageSize = page_or 20 pageSize0;
          wh = (\<lambda>r. status \<noteq> [] \<longrightarrow> iv_Status r = status) in
      bindE (wrapE ''count invoices failed'' (db_count invoices wh)) (\<lambda>cnt.
      bindE (wrapE ''query invoices failed'' (db_select invoices wh)) (\<lambda>rows.
      returnE (limit_offset pageSize ((page - 1) * pageSize) (order_desc iv_ID rows), cnt))))"

definition iv_Get :: "int \<Rightarrow> ('z office_db_scheme, invoiceRow) eff" where
  "iv_Get i =
     bindE (wrapE ''query invoice failed'' (db_scan invoices (\<lambda>r. iv_ID r = i))) (\<lambda>row. case row of
       None \<Rightarrow> throwE (ErrNew ''invoice not found'') | Some r \<Rightarrow> returnE r)"

definition go_rem :: "int \<Rightarrow> int \<Rightarrow> int" where
  "go_rem a b = a - go_div a b * b"

record CreateInvoiceIn =
  ci_UserID :: int
  ci_AmountCredits :: int
  ci_RefType :: string
  ci_RefID :: int
  ci_Notes :: string

definition iv_Create :: "CreateInvoiceIn \<Rightarrow> ('z office_db_scheme, invoiceRow) eff" where
  "iv_Create inp =
     bindE (getsE clock) (\<lambda>unix.
     let number = ''INV-'' @ show_int unix @ ''-'' @ show_int (go_rem (ci_UserID inp) 100000) in
     bindE (wrapE ''create invoice failed''
       (db_insert ''invoices'' invoices invoices_update (\<lambda>_ _. False) (\<lambda>now i.
         \<lparr>iv_ID = i, iv_UserID = ci_UserID inp, iv_AmountCredits = ci_AmountCredits inp,
          iv_RefType = ci_RefType inp, iv_RefID = ci_RefID inp, iv_InvoiceNumber = number,
          iv_Status = ''pending'', iv_Notes = ci_Notes inp, iv_IssuedAt = None, iv_CreatedAt = now\<rparr>))) (\<lambda>i.
     iv_Get i))"

definition set_invoice :: "string \<Rightarrow> string \<Rightarrow> int \<Rightarrow> invoiceRow \<Rightarrow> invoiceRow" where
  "set_invoice status notes now r =
     (let r1 = r\<lparr>iv_Status := status\<rparr>;
          r2 = (if status = ''issued'' then r1\<lparr>iv_IssuedAt := Some now\<rparr> else r1)
      in if notes \<noteq> [] then r2\<lparr>iv_Notes := notes\<rparr> else r2)"

definition iv_UpdateStatus :: "int \<Rightarrow> string \<Rightarrow> string \<Rightarrow> ('z office_db_scheme, unit) eff" where
  "iv_UpdateStatus i status notes =
     bindE (getsE clock) (\<lambda>now.
     bindE (wrapE ''update invoice failed''
       (db_update invoices invoices_update (\<lambda>r. iv_ID r = i) (set_invoice status notes now))) (\<lambda>affected.
     if affected = 0 then throwE (ErrNew ''invoice not found'') else returnE ()))"

section \<open>Developers\<close>

record DeveloperInfo =
  di_ID :: int
  di_Name :: string
  di_Description :: string
  di_Website :: string
  di_LogoURL :: string
  di_SortOrder :: int
  di_Status :: int

definition dv_toDTO :: "developerRow \<Rightarrow> DeveloperInfo" where
  "dv_toDTO r = \<lparr>di_ID = dv_ID r, di_Name = dv_Name r, di_Description = dv_Description r,
     di_Website = dv_Website r, di_LogoURL = dv_LogoURL r, di_SortOrder = dv_SortOrder r,
     di_Status = dv_Status r\<rparr>"

definition ListActive :: "('z office_db_scheme, DeveloperInfo list) eff" where
  "ListActive =
     bindE (db_select developers (\<lambda>r. dv_Status r = 1)) (\<lambda>rows.
     returnE (map dv_toDTO (sort_key (\<lambda>r. (dv_SortOrder r, dv_Name r)) rows)))"

declare da_clash_def [run] CreateDepositAddress_def [run] ListDepositAddresses_def [run]
  CreateWithdraw_def [run] iv_List_def [run] iv_Get_def [run] iv_Create_def [run] set_invoice_def [run]
  iv_UpdateStatus_def [run] dv_toDTO_def [run] ListActive_def [run]

section \<open>Lemmas\<close>

text \<open>Nobody ever has two addresses on a chain, nor do two users share one: the check before the
  insert is not needed for it.\<close>

definition addresses_unique :: "DepositAddress list \<Rightarrow> bool" where
  "addresses_unique xs \<longleftrightarrow> distinct (map (\<lambda>r. (da_UserID r, da_Chain r)) xs) \<and>
     distinct (map (\<lambda>r. (da_Chain r, da_Address r)) xs)"

lemma CreateDepositAddress_unique:
  "preserves (\<lambda>s. addresses_unique (deposit_addresses s)) (CreateDepositAddress h n rnd u c)"
proof -
  have st: "stable (\<lambda>s. addresses_unique (deposit_addresses s))" by (simp add: stable_def)
  have ins: "preserves (\<lambda>s. addresses_unique (deposit_addresses s))
      (db_insert ''deposit_addresses'' deposit_addresses deposit_addresses_update da_clash mk)" for mk
    by (rule preserves_db_insert [OF st]) (auto simp: addresses_unique_def da_clash_def)
  show ?thesis unfolding CreateDepositAddress_def Let_def by (intro pres st ins)
qed

text \<open>An issue date is set when an invoice is issued and never removed.\<close>

lemma iv_UpdateStatus_issued:
  "preserves (\<lambda>s. \<forall>r \<in> set (invoices s). iv_Status r = ''issued'' \<longrightarrow> iv_IssuedAt r \<noteq> None) (iv_UpdateStatus i st nt)"
  unfolding iv_UpdateStatus_def by (intro pres) (auto simp: stable_def set_invoice_def Let_def)

end
