(* ===== verification/Payment.thy ===== *)
theory Payment
  imports Billing GoStrings
begin

text \<open>
  Recharge orders, \<^verbatim>\<open>internal/logic/payment/payment.go\<close> over payment_channels and
  payment_orders (\<^verbatim>\<open>migrations/0007\<close>).  An order moves from pending to paid to
  credited when the payment provider notifies the platform.

  The SDK of the payment providers (github.com/go-pay/gopay) is outside the repository: what
  it answers is an argument of the operations that call it.  \<^verbatim>\<open>amount_fiat\<close> is kept as the
  pair of the numerator and the denominator of the code's floating-point division.
\<close>

record payChannel =
  pc_ID :: int
  pc_Channel :: string
  pc_Name :: string
  pc_AppID :: string
  pc_PrivateKey :: string
  pc_PublicKey :: string
  pc_APIKey :: string
  pc_CertSN :: string
  pc_NotifyURL :: string
  pc_IsProd :: int
  pc_Status :: int
  pc_ConfigJSON :: string
  pc_CreatedAt :: int

record orderRow =
  or_ID :: int
  or_OrderNo :: string
  or_UserID :: int
  or_Channel :: string
  or_AmountCredits :: int
  or_AmountFiat :: "int \<times> int"
  or_Currency :: string
  or_TradeNo :: string
  or_Status :: string
  or_NotifyRaw :: string
  or_PaidAt :: "int option"
  or_CreditedAt :: "int option"
  or_CreatedAt :: int

record pay_db = settle_db +
  payment_channels :: "payChannel list"
  payment_orders :: "orderRow list"

definition or_clash :: "orderRow \<Rightarrow> orderRow \<Rightarrow> bool" where
  "or_clash x r \<longleftrightarrow> or_OrderNo x = or_OrderNo r"

record PaymentOrderInfo =
  poi_ID :: int
  poi_OrderNo :: string
  poi_UserID :: int
  poi_Channel :: string
  poi_AmountCredits :: int
  poi_AmountFiat :: "int \<times> int"
  poi_Currency :: string
  poi_TradeNo :: string
  poi_Status :: string
  poi_PaidAt :: "int option"
  poi_CreditedAt :: "int option"
  poi_CreatedAt :: int

definition or_toDTO :: "orderRow \<Rightarrow> PaymentOrderInfo" where
  "or_toDTO r = \<lparr>poi_ID = or_ID r, poi_OrderNo = or_OrderNo r, poi_UserID = or_UserID r,
     poi_Channel = or_Channel r, poi_AmountCredits = or_AmountCredits r, poi_AmountFiat = or_AmountFiat r,
     poi_Currency = or_Currency r, poi_TradeNo = or_TradeNo r, poi_Status = or_Status r,
     poi_PaidAt = or_PaidAt r, poi_CreditedAt = or_CreditedAt r, poi_CreatedAt = or_CreatedAt r\<rparr>"

section \<open>Creating an order\<close>

definition getChannel :: "string \<Rightarrow> ('z pay_db_scheme, payChannel) eff" where
  "getChannel channel =
     bindE (wrapE ''query channel failed''
       (db_scan payment_channels (\<lambda>r. pc_Channel r = channel \<and> pc_Status r = 1))) (\<lambda>row. case row of
       None \<Rightarrow> throwE (ErrNewf ''channel %s not found or disabled'' [AStr channel])
     | Some r \<Rightarrow> returnE r)"

text \<open>\<^verbatim>\<open>%04d\<close> and the order number; slicing a channel name of fewer than two bytes
  panics.  \<open>nano\<close> is the nanosecond part of the clock.\<close>

definition pad4 :: "string \<Rightarrow> string" where
  "pad4 s = replicate (4 - length s) (CHR ''0'') @ s"

definition genOrderNo :: "int \<Rightarrow> string \<Rightarrow> ('z pay_db_scheme, string) eff" where
  "genOrderNo nano channel =
     (if length channel < 2 then throwE (ErrExt ''panic: slice bounds out of range'')
      else bindE (getsE clock) (\<lambda>now.
        returnE (''PAY'' @ take 2 channel @ show_int now @ pad4 (show_int (nano mod 10000)))))"

definition pending_order :: "string \<Rightarrow> int \<Rightarrow> string \<Rightarrow> int \<Rightarrow> int \<Rightarrow> int \<Rightarrow> int \<Rightarrow> orderRow" where
  "pending_order orderNo userID channel credits rate now i =
     \<lparr>or_ID = i, or_OrderNo = orderNo, or_UserID = userID, or_Channel = channel,
      or_AmountCredits = credits, or_AmountFiat = (credits, rate), or_Currency = ''CNY'', or_TradeNo = [],
      or_Status = ''pending'', or_NotifyRaw = [], or_PaidAt = None, or_CreditedAt = None, or_CreatedAt = now\<rparr>"

text \<open>The orders of the two payment SDKs, each answering a URL or an error.\<close>

record gateways =
  createAlipayOrder :: "payChannel \<Rightarrow> string \<Rightarrow> int \<Rightarrow> int \<times> int \<Rightarrow> go_err + string"
  createWechatOrder :: "payChannel \<Rightarrow> string \<Rightarrow> int \<Rightarrow> int \<times> int \<Rightarrow> go_err + string"

definition pay_CreateRecharge ::
  "gateways \<Rightarrow> int \<Rightarrow> int \<Rightarrow> string \<Rightarrow> int \<Rightarrow> ('z pay_db_scheme, string \<times> string) eff" where
  "pay_CreateRecharge gw nano userID channel credits =
     bindE (getChannel channel) (\<lambda>ch.
     bindE (genOrderNo nano channel) (\<lambda>orderNo.
     bindE (GetInt ''billing.credits_per_cny'' 10) (\<lambda>rate.
     bindE (wrapE ''create order failed''
       (db_insert ''payment_orders'' payment_orders payment_orders_update or_clash
         (pending_order orderNo userID channel credits rate))) (\<lambda>_.
     bindE (if channel = ''alipay'' then liftE (createAlipayOrder gw ch orderNo credits (credits, rate))
            else if channel = ''wechat'' then liftE (createWechatOrder gw ch orderNo credits (credits, rate))
            else throwE (ErrNewf ''unsupported channel: %s'' [AStr channel])) (\<lambda>payURL.
     returnE (orderNo, payURL))))))"

section \<open>Notifications\<close>

definition order_paid :: "string \<Rightarrow> string \<Rightarrow> int \<Rightarrow> orderRow \<Rightarrow> orderRow" where
  "order_paid tradeNo notifyRaw now r = r\<lparr>or_Status := ''paid'', or_TradeNo := tradeNo,
     or_NotifyRaw := notifyRaw, or_PaidAt := Some now\<rparr>"

definition order_credited :: "int \<Rightarrow> orderRow \<Rightarrow> orderRow" where
  "order_credited now r = r\<lparr>or_Status := ''credited'', or_CreditedAt := Some now\<rparr>"

definition pay_ref :: "string \<Rightarrow> string" where
  "pay_ref channel = ''payment:'' @ channel"

definition confirmOrder :: "string \<Rightarrow> string \<Rightarrow> string \<Rightarrow> string \<Rightarrow> ('z pay_db_scheme, unit) eff" where
  "confirmOrder orderNo tradeNo channel notifyRaw =
     bindE (wrapE ''query order failed'' (db_scan payment_orders (\<lambda>r. or_OrderNo r = orderNo)))
     (\<lambda>row0. case row0 of
        None \<Rightarrow> throwE (ErrNewf ''order %s not found'' [AStr orderNo])
      | Some row \<Rightarrow>
        if or_Status row \<noteq> ''pending'' then returnE ()
        else
          bindE (getsE clock) (\<lambda>now.
          bindE (wrapE ''update order paid failed''
            (db_update payment_orders payment_orders_update (\<lambda>r. or_ID r = or_ID row)
              (order_paid tradeNo notifyRaw now))) (\<lambda>_.
          bindE (wrapE ''credit account failed''
            (RechargeCredits (or_UserID row) (or_AmountCredits row) (pay_ref channel) (or_ID row))) (\<lambda>_.
          bindE (getsE clock) (\<lambda>now2.
          bindE (wrapE ''update order credited failed''
            (db_update payment_orders payment_orders_update (\<lambda>r. or_ID r = or_ID row)
              (order_credited now2))) (\<lambda>_.
          returnE ()))))))"

text \<open>The error of \<^verbatim>\<open>NewClient\<close> is dropped; \<^verbatim>\<open>AutoVerifySign\<close> then panics on the
  nil client, and Recover answers.\<close>

definition nil_client :: go_err where
  "nil_client = ErrExt ''panic: invalid memory address or nil pointer dereference''"

definition need_client :: "go_err + unit \<Rightarrow> ('s, unit) eff" where
  "need_client made = (case made of Inl e \<Rightarrow> throwE nil_client | Inr u \<Rightarrow> returnE ())"

text \<open>A parsed Alipay notification, whether the SDK makes a client for the channel, and whether the
  signature is the one of the account's key: the code configures \<^verbatim>\<open>AutoVerifySign\<close> on a
  client it then drops, so the signature is not looked at.\<close>

record alipay_notify =
  an_OutTradeNo :: string
  an_TradeNo :: string
  an_TradeStatus :: string
  an_Body :: string
  an_Signed :: bool
  an_Client :: "payChannel \<Rightarrow> go_err + unit"

definition handleAlipayNotify :: "go_err + alipay_notify \<Rightarrow> ('z pay_db_scheme, unit) eff" where
  "handleAlipayNotify parsed =
     bindE (wrapE ''parse alipay notify failed'' (liftE parsed)) (\<lambda>notify.
     if an_TradeStatus notify \<noteq> ''TRADE_SUCCESS'' then returnE ()
     else bindE (getChannel ''alipay'') (\<lambda>ch.
       bindE (need_client (an_Client notify ch)) (\<lambda>_.
       confirmOrder (an_OutTradeNo notify) (an_TradeNo notify) ''alipay'' (an_Body notify))))"

text \<open>A WeChat notification: its decryption under the API key of the channel, whether the SDK makes a
  client for the channel, and the check of the signature.\<close>

record wechat_result =
  wr_TradeState :: string
  wr_OutTradeNo :: string
  wr_TransactionId :: string

record wechat_notify =
  wn_Decrypt :: "string \<Rightarrow> go_err + wechat_result"
  wn_Client :: "payChannel \<Rightarrow> go_err + unit"
  wn_Verify :: "payChannel \<Rightarrow> go_err + unit"
  wn_Raw :: string

definition handleWechatNotify :: "go_err + wechat_notify \<Rightarrow> ('z pay_db_scheme, unit) eff" where
  "handleWechatNotify parsed =
     bindE (wrapE ''parse wechat notify failed'' (liftE parsed)) (\<lambda>notify.
     bindE (getChannel ''wechat'') (\<lambda>ch.
     bindE (wrapE ''decrypt wechat notify failed'' (liftE (wn_Decrypt notify (pc_APIKey ch)))) (\<lambda>result.
     if wr_TradeState result \<noteq> ''SUCCESS'' then returnE ()
     else
       bindE (need_client (wn_Client notify ch)) (\<lambda>_.
       bindE (wrapE ''wechat sign verify failed'' (liftE (wn_Verify notify ch))) (\<lambda>_.
       confirmOrder (wr_OutTradeNo result) (wr_TransactionId result) ''wechat'' (wn_Raw notify))))))"

definition HandleNotify ::
  "string \<Rightarrow> go_err + alipay_notify \<Rightarrow> go_err + wechat_notify \<Rightarrow> ('z pay_db_scheme, unit) eff" where
  "HandleNotify channel ali wx =
     (if channel = ''alipay'' then handleAlipayNotify ali
      else if channel = ''wechat'' then handleWechatNotify wx
      else throwE (ErrNewf ''unsupported channel: %s'' [AStr channel]))"

section \<open>Listings and channels\<close>

definition list_orders ::
  "(orderRow \<Rightarrow> bool) \<Rightarrow> int \<Rightarrow> int \<Rightarrow> ('z pay_db_scheme, PaymentOrderInfo list \<times> int) eff" where
  "list_orders wh page0 pageSize0 =
     (let page = page_or 1 page0; pageSize = page_or 20 pageSize0 in
      bindE (wrapE ''count orders failed'' (db_count payment_orders wh)) (\<lambda>cnt.
      bindE (wrapE ''query orders failed'' (db_select payment_orders wh)) (\<lambda>rows.
      returnE (map or_toDTO (limit_offset pageSize ((page - 1) * pageSize) (order_desc or_ID rows)), cnt))))"

definition ListAllOrders ::
  "string \<Rightarrow> string \<Rightarrow> string \<Rightarrow> int \<Rightarrow> int \<Rightarrow> ('z pay_db_scheme, PaymentOrderInfo list \<times> int) eff" where
  "ListAllOrders channel status keyword page pageSize =
     list_orders (\<lambda>r. (channel \<noteq> [] \<longrightarrow> or_Channel r = channel) \<and> (status \<noteq> [] \<longrightarrow> or_Status r = status) \<and>
       (keyword \<noteq> [] \<longrightarrow> sql_like (''%'' @ keyword @ ''%'') (or_OrderNo r))) page pageSize"

definition ListOrders :: "int \<Rightarrow> int \<Rightarrow> int \<Rightarrow> ('z pay_db_scheme, PaymentOrderInfo list \<times> int) eff" where
  "ListOrders userID page pageSize = list_orders (\<lambda>r. or_UserID r = userID) page pageSize"

definition GetOrder :: "int \<Rightarrow> string \<Rightarrow> ('z pay_db_scheme, PaymentOrderInfo) eff" where
  "GetOrder userID orderNo =
     bindE (wrapE ''query order failed''
       (db_scan payment_orders (\<lambda>r. or_OrderNo r = orderNo \<and> or_UserID r = userID))) (\<lambda>row. case row of
       None \<Rightarrow> throwE (ErrNew ''order not found'') | Some r \<Rightarrow> returnE (or_toDTO r))"

record PaymentChannelInfo =
  pci_ID :: int
  pci_Channel :: string
  pci_Name :: string
  pci_AppID :: string
  pci_IsProd :: int
  pci_Status :: int
  pci_CreatedAt :: int

definition pc_toDTO :: "payChannel \<Rightarrow> PaymentChannelInfo" where
  "pc_toDTO r = \<lparr>pci_ID = pc_ID r, pci_Channel = pc_Channel r, pci_Name = pc_Name r, pci_AppID = pc_AppID r,
     pci_IsProd = pc_IsProd r, pci_Status = pc_Status r, pci_CreatedAt = pc_CreatedAt r\<rparr>"

definition pay_ListChannels :: "string \<Rightarrow> int \<Rightarrow> int \<Rightarrow> ('z pay_db_scheme, PaymentChannelInfo list \<times> int) eff" where
  "pay_ListChannels channel page0 pageSize0 =
     (let page = page_or 1 page0; pageSize = page_or 20 pageSize0;
          wh = (\<lambda>r. channel \<noteq> [] \<longrightarrow> pc_Channel r = channel) in
      bindE (wrapE ''count channels failed'' (db_count payment_channels wh)) (\<lambda>cnt.
      bindE (wrapE ''query channels failed'' (db_select payment_channels wh)) (\<lambda>rows.
      returnE (map pc_toDTO (limit_offset pageSize ((page - 1) * pageSize) (order_desc pc_ID rows)), cnt))))"

record CreatePaymentChannelIn =
  cpc_Channel :: string
  cpc_Name :: string
  cpc_AppID :: string
  cpc_PrivateKey :: string
  cpc_PublicKey :: string
  cpc_APIKey :: string
  cpc_CertSN :: string
  cpc_NotifyURL :: string
  cpc_IsProd :: int
  cpc_ConfigJSON :: string

definition pay_CreateChannel :: "CreatePaymentChannelIn \<Rightarrow> ('z pay_db_scheme, unit) eff" where
  "pay_CreateChannel inp =
     bindE (wrapE ''create channel failed''
       (db_insert ''payment_channels'' payment_channels payment_channels_update (\<lambda>_ _. False) (\<lambda>now i.
         \<lparr>pc_ID = i, pc_Channel = cpc_Channel inp, pc_Name = cpc_Name inp, pc_AppID = cpc_AppID inp,
          pc_PrivateKey = cpc_PrivateKey inp, pc_PublicKey = cpc_PublicKey inp, pc_APIKey = cpc_APIKey inp,
          pc_CertSN = cpc_CertSN inp, pc_NotifyURL = cpc_NotifyURL inp, pc_IsProd = cpc_IsProd inp,
          pc_Status = 1, pc_ConfigJSON = cpc_ConfigJSON inp, pc_CreatedAt = now\<rparr>))) (\<lambda>_. returnE ())"

record UpdatePaymentChannelIn =
  upc_Status :: "int option"
  upc_Name :: string
  upc_AppID :: string
  upc_PrivateKey :: string
  upc_PublicKey :: string
  upc_APIKey :: string
  upc_CertSN :: string
  upc_NotifyURL :: string
  upc_IsProd :: "int option"
  upc_ConfigJSON :: string

text \<open>An empty string or a nil pointer leaves its column alone.\<close>

definition unless_empty :: "string \<Rightarrow> string \<Rightarrow> string" where
  "unless_empty new old = (if new = [] then old else new)"

definition unless_nil :: "'a option \<Rightarrow> 'a \<Rightarrow> 'a" where
  "unless_nil new old = (case new of None \<Rightarrow> old | Some v \<Rightarrow> v)"

definition pay_UpdateChannel :: "int \<Rightarrow> UpdatePaymentChannelIn \<Rightarrow> ('z pay_db_scheme, unit) eff" where
  "pay_UpdateChannel i inp =
     (if upc_Status inp = None \<and> upc_IsProd inp = None \<and>
         concat [upc_Name inp, upc_AppID inp, upc_PrivateKey inp, upc_PublicKey inp, upc_APIKey inp,
           upc_CertSN inp, upc_NotifyURL inp, upc_ConfigJSON inp] = []
      then throwE (ErrNew ''no fields to update'')
      else bindE (wrapE ''update channel failed''
        (db_update payment_channels payment_channels_update (\<lambda>r. pc_ID r = i) (\<lambda>r.
          r\<lparr>pc_Status := unless_nil (upc_Status inp) (pc_Status r),
            pc_Name := unless_empty (upc_Name inp) (pc_Name r),
            pc_AppID := unless_empty (upc_AppID inp) (pc_AppID r),
            pc_PrivateKey := unless_empty (upc_PrivateKey inp) (pc_PrivateKey r),
            pc_PublicKey := unless_empty (upc_PublicKey inp) (pc_PublicKey r),
            pc_APIKey := unless_empty (upc_APIKey inp) (pc_APIKey r),
            pc_CertSN := unless_empty (upc_CertSN inp) (pc_CertSN r),
            pc_NotifyURL := unless_empty (upc_NotifyURL inp) (pc_NotifyURL r),
            pc_IsProd := unless_nil (upc_IsProd inp) (pc_IsProd r),
            pc_ConfigJSON := unless_empty (upc_ConfigJSON inp) (pc_ConfigJSON r)\<rparr>))) (\<lambda>_. returnE ()))"

declare or_clash_def [run] or_toDTO_def [run] getChannel_def [run] pad4_def [run] genOrderNo_def [run]
  pending_order_def [run] pay_CreateRecharge_def [run] order_paid_def [run] order_credited_def [run]
  pay_ref_def [run] confirmOrder_def [run] handleAlipayNotify_def [run] handleWechatNotify_def [run] need_client_def [run]
  HandleNotify_def [run] list_orders_def [run] ListAllOrders_def [run] ListOrders_def [run]
  GetOrder_def [run] pc_toDTO_def [run] pay_ListChannels_def [run] pay_CreateChannel_def [run]
  unless_empty_def [run] unless_nil_def [run] pay_UpdateChannel_def [run]

end
