(* ===== verification/Api.thy ===== *)
theory Api
  imports Access Backoffice Payment
begin

text \<open>
  The handlers behind the user's and the administrator's servers, \<^verbatim>\<open>internal/controller/api\<close>.
  A handler gets the claims of the session (from JWTAuth), the parameters of the request and, where it
  parses a body, what ghttp's \<^verbatim>\<open>Parse\<close> made of it.  The rules in the tags of the input structs of
  billing, the wallet and payments are written out; those of the others are part of the parsing.
\<close>

section \<open>Parameters\<close>

text \<open>\<^verbatim>\<open>r.Get(key, default)\<close> and gconv's reading of a text as an integer.\<close>

record params =
  pm_get :: "string \<Rightarrow> string option"
  pm_conv :: "string \<Rightarrow> int"

definition get_int :: "params \<Rightarrow> string \<Rightarrow> int \<Rightarrow> int" where
  "get_int q k d = (case pm_get q k of None \<Rightarrow> d | Some v \<Rightarrow> pm_conv q v)"

definition get_str :: "params \<Rightarrow> string \<Rightarrow> string \<Rightarrow> string" where
  "get_str q k d = (case pm_get q k of None \<Rightarrow> d | Some v \<Rightarrow> v)"

section \<open>Rules\<close>

text \<open>\<^verbatim>\<open>Parse\<close> decodes and then tests the rules of the struct's tags; the error for the
  fields that break one is the library's.\<close>

type_synonym gvalid = "string list \<Rightarrow> go_err"

definition checked :: "gvalid \<Rightarrow> ('i \<Rightarrow> string list) \<Rightarrow> go_err + 'i \<Rightarrow> go_err + 'i" where
  "checked V rules parsed = (case parsed of Inl e \<Rightarrow> Inl e
     | Inr x \<Rightarrow> if rules x = [] then Inr x else Inl (V (rules x)))"

definition required :: "string \<Rightarrow> string \<Rightarrow> string list" where
  "required field v = (if v = [] then [field] else [])"

definition at_least :: "string \<Rightarrow> int \<Rightarrow> int \<Rightarrow> string list" where
  "at_least field n v = (if v < n then [field] else [])"

definition credit_rules :: "CreditAccountIn \<Rightarrow> string list" where
  "credit_rules inp = required ''asset'' (ca_Asset inp) @ at_least ''amount_micro'' 1 (ca_AmountMicro inp)"

section \<open>Identity\<close>

definition api_Register :: "identity_env \<Rightarrow> go_err + RegisterIn \<Rightarrow> ('z identity_db_scheme, string answer) eff" where
  "api_Register E parsed = with_input parsed (\<lambda>inp. answer 400 (Register E inp))"

definition api_VerifyEmail :: "go_err + VerifyEmailIn \<Rightarrow> ('z identity_db_scheme, string answer) eff" where
  "api_VerifyEmail parsed = with_input parsed (\<lambda>inp. answer 400 (VerifyEmail inp))"

definition api_Login :: "identity_env \<Rightarrow> go_err + LoginIn \<Rightarrow> ('z identity_db_scheme, LoginOut answer) eff" where
  "api_Login E parsed = with_input parsed (\<lambda>inp. answer 400 (Login E inp))"

definition api_Me :: "TokenClaims \<Rightarrow> ('z identity_db_scheme, UserInfo answer) eff" where
  "api_Me c = answer 400 (GetUser (tc_UserID c))"

definition api_CreateKey :: "identity_env \<Rightarrow> TokenClaims \<Rightarrow> go_err + CreateApiKeyIn \<Rightarrow> ('z settle_db_scheme, ApiKeyOut answer) eff" where
  "api_CreateKey E c parsed = with_input parsed (\<lambda>inp. answer 400 (CreateApiKey E (tc_UserID c) inp))"

definition api_ListKeys :: "TokenClaims \<Rightarrow> ('z settle_db_scheme, ApiKeyInfo list answer) eff" where
  "api_ListKeys c = answer 400 (ListApiKeys (tc_UserID c))"

definition api_DeleteKey :: "TokenClaims \<Rightarrow> params \<Rightarrow> ('z settle_db_scheme, unit answer) eff" where
  "api_DeleteKey c q =
     (let keyID = get_int q ''id'' 0 in
      if keyID = 0 then returnE (Exit 400 ''invalid key id'') else answer 400 (DeleteApiKey (tc_UserID c) keyID))"

definition api_ApplyProvider :: "TokenClaims \<Rightarrow> go_err + ProviderApplicationIn \<Rightarrow> ('z identity_db_scheme, unit answer) eff" where
  "api_ApplyProvider c parsed = with_input parsed (\<lambda>inp. answer 400 (ApplyProvider (tc_UserID c) inp))"

section \<open>Billing\<close>

definition bill_GetBalance :: "TokenClaims \<Rightarrow> params \<Rightarrow> ('z settle_db_scheme, AccountInfo answer) eff" where
  "bill_GetBalance c q = answer 400 (GetBalance ''user'' (tc_UserID c) (get_str q ''asset'' ''credits''))"

definition bill_ListTransactions :: "TokenClaims \<Rightarrow> params \<Rightarrow> ('z settle_db_scheme, (tx_info list \<times> int \<times> int \<times> int) answer) eff" where
  "bill_ListTransactions c q =
     (let page = get_int q ''page'' 1; pageSize = get_int q ''page_size'' 20 in
      answer 400 (bindE (ListTransactions ''user'' (tc_UserID c) page pageSize) (\<lambda>(txs, cnt).
        returnE (txs, cnt, page, pageSize))))"

text \<open>The owner is the caller, whatever the body says.\<close>

definition bill_CreditAccount :: "gvalid \<Rightarrow> TokenClaims \<Rightarrow> go_err + CreditAccountIn \<Rightarrow> ('z settle_db_scheme, tx_info answer) eff" where
  "bill_CreditAccount V c parsed = with_input (checked V credit_rules parsed) (\<lambda>inp.
     answer 400 (CreditAccount (inp\<lparr>ca_OwnerType := ''user'', ca_OwnerID := tc_UserID c\<rparr>)))"

definition bill_DebitAccount :: "gvalid \<Rightarrow> TokenClaims \<Rightarrow> go_err + CreditAccountIn \<Rightarrow> ('z settle_db_scheme, tx_info answer) eff" where
  "bill_DebitAccount V c parsed = with_input (checked V credit_rules parsed) (\<lambda>inp.
     answer 400 (DebitAccount (inp\<lparr>ca_OwnerType := ''user'', ca_OwnerID := tc_UserID c\<rparr>)))"

definition bill_ProviderSettlementStats :: "TokenClaims \<Rightarrow> ('z settle_db_scheme, ProviderSettlementStats answer) eff" where
  "bill_ProviderSettlementStats c = answer 400 (GetProviderStats (tc_UserID c))"

record RechargeCreditsIn =
  rci_AmountCredits :: int
  rci_RefType :: string
  rci_RefID :: int

definition recharge_rules :: "RechargeCreditsIn \<Rightarrow> string list" where
  "recharge_rules inp = at_least ''amount_credits'' 1 (rci_AmountCredits inp)"

definition bill_Recharge :: "gvalid \<Rightarrow> TokenClaims \<Rightarrow> go_err + RechargeCreditsIn \<Rightarrow> ('z settle_db_scheme, tx_info answer) eff" where
  "bill_Recharge V c parsed = with_input (checked V recharge_rules parsed) (\<lambda>inp.
     let refType = (if rci_RefType inp = [] then ''manual_recharge'' else rci_RefType inp) in
     answer 400 (RechargeCredits (tc_UserID c) (rci_AmountCredits inp) refType (rci_RefID inp)))"

section \<open>Providers\<close>

definition requireProvider :: "TokenClaims \<Rightarrow> (int \<Rightarrow> ('s, 'b answer) eff) \<Rightarrow> ('s, 'b answer) eff" where
  "requireProvider c h =
     (if tc_Role c \<noteq> RoleProvider then returnE (Exit 403 ''provider access required'')
      else if tc_UserID c = 0 then returnE Silent else h (tc_UserID c))"

definition paged :: "int \<Rightarrow> int \<Rightarrow> ('s, 'b list \<times> int) eff \<Rightarrow> ('s, 'b list \<times> int \<times> int \<times> int) eff" where
  "paged page size' m = bindE m (\<lambda>(rows, cnt). returnE (rows, cnt, page, size'))"

definition ProviderListChannels ::
  "TokenClaims \<Rightarrow> go_err + LLMListChannelsIn \<Rightarrow> ('z llm_db_scheme, (LLMChannelInfo list \<times> int \<times> int \<times> int) answer) eff" where
  "ProviderListChannels c parsed = requireProvider c (\<lambda>u. with_input parsed (\<lambda>inp.
     answer 500 (paged (lci_Page inp) (lci_Size inp) (ListChannels (inp\<lparr>lci_ProviderUserID := u\<rparr>)))))"

definition ProviderCreateChannel :: "TokenClaims \<Rightarrow> go_err + LLMCreateChannelIn \<Rightarrow> ('z llm_db_scheme, LLMChannelInfo answer) eff" where
  "ProviderCreateChannel c parsed = requireProvider c (\<lambda>u. with_input parsed (\<lambda>inp.
     answer 400 (CreateChannel (inp\<lparr>cci_SourceType := ''provider'', cci_CreatedByUserID := u\<rparr>))))"

definition ProviderCreateModel :: "TokenClaims \<Rightarrow> go_err + LLMCreateModelSpecIn \<Rightarrow> ('z llm_db_scheme, LLMModelSpecInfo answer) eff" where
  "ProviderCreateModel c parsed = requireProvider c (\<lambda>u. with_input parsed (\<lambda>inp.
     answer 400 (CreateModelSpec (inp\<lparr>cmi_SourceType := ''provider'', cmi_CreatedByUserID := u\<rparr>))))"

definition ProviderListModels ::
  "TokenClaims \<Rightarrow> go_err + LLMListChannelsIn \<Rightarrow> ('z llm_db_scheme, (LLMModelSpecInfo list \<times> int \<times> int \<times> int) answer) eff" where
  "ProviderListModels c parsed = requireProvider c (\<lambda>u. with_input parsed (\<lambda>inp.
     answer 500 (paged (lci_Page inp) (lci_Size inp) (ListModelSpecs (inp\<lparr>lci_ProviderUserID := u\<rparr>)))))"

definition ProviderCreateModelKey ::
  "key_env \<Rightarrow> TokenClaims \<Rightarrow> go_err + LLMCreateModelKeyIn \<Rightarrow> ('z llm_db_scheme, LLMModelKeyInfo answer) eff" where
  "ProviderCreateModelKey K c parsed = requireProvider c (\<lambda>u. with_input parsed (\<lambda>inp.
     answer 400 (CreateModelKey K u inp)))"

definition ProviderListModelKeys ::
  "TokenClaims \<Rightarrow> go_err + LLMListModelKeysIn \<Rightarrow> ('z llm_db_scheme, (LLMModelKeyInfo list \<times> int \<times> int \<times> int) answer) eff" where
  "ProviderListModelKeys c parsed = requireProvider c (\<lambda>u. with_input parsed (\<lambda>inp.
     answer 500 (paged (lmk_Page inp) (lmk_Size inp)
       (ListModelKeys (inp\<lparr>lmk_ProviderUserID := u, lmk_IsAdmin := False\<rparr>)))))"

definition ProviderDisableModelKey :: "TokenClaims \<Rightarrow> params \<Rightarrow> ('z llm_db_scheme, unit answer) eff" where
  "ProviderDisableModelKey c q = requireProvider c (\<lambda>u.
     let keyID = get_int q ''id'' 0 in
     if keyID = 0 then returnE (Exit 400 ''invalid key id'') else answer 400 (DisableModelKey u keyID False))"

definition ProviderBindKeyModel ::
  "TokenClaims \<Rightarrow> params \<Rightarrow> go_err + LLMBindKeyModelIn \<Rightarrow> ('z llm_db_scheme, LLMKeyModelInfo answer) eff" where
  "ProviderBindKeyModel c q parsed = requireProvider c (\<lambda>u. with_input parsed (\<lambda>inp.
     answer 400 (BindKeyModel u (inp\<lparr>bki_ModelKeyID := get_int q ''id'' 0\<rparr>))))"

definition ProviderListKeyModels ::
  "TokenClaims \<Rightarrow> params \<Rightarrow> go_err + LLMListKeyModelsIn \<Rightarrow> ('z llm_db_scheme, (LLMKeyModelInfo list \<times> int \<times> int \<times> int) answer) eff" where
  "ProviderListKeyModels c q parsed = requireProvider c (\<lambda>u. with_input parsed (\<lambda>inp.
     answer 500 (paged (lkm_Page inp) (lkm_Size inp) (ListKeyModels
       (inp\<lparr>lkm_ModelKeyID := get_int q ''id'' 0, lkm_ProviderUserID := u, lkm_IsAdmin := False\<rparr>)))))"

definition ProviderTriggerKeyModelTest ::
  "key_env \<Rightarrow> http \<Rightarrow> ((string \<times> json) list \<Rightarrow> string \<times> json) \<Rightarrow> TokenClaims \<Rightarrow> params \<Rightarrow> ('z llm_db_scheme, unit answer) eff" where
  "ProviderTriggerKeyModelTest K up pick c q = requireProvider c (\<lambda>u.
     let keyModelID = get_int q ''id'' 0 in
     if keyModelID = 0 then returnE (Exit 400 ''invalid key model id'')
     else answer 400 (TriggerKeyModelTest K up pick keyModelID))"

section \<open>Wallet\<close>

definition wal_CreateDepositAddress ::
  "gvalid \<Rightarrow> (string \<Rightarrow> string) \<Rightarrow> int \<Rightarrow> string \<Rightarrow> TokenClaims \<Rightarrow> go_err + string \<Rightarrow> ('z office_db_scheme, DepositAddress answer) eff" where
  "wal_CreateDepositAddress V sha256 nanos rnd c parsed = with_input (checked V (required ''chain'') parsed) (\<lambda>chain.
     answer 400 (CreateDepositAddress sha256 nanos rnd (tc_UserID c) chain))"

definition wal_ListDepositAddresses :: "TokenClaims \<Rightarrow> ('z office_db_scheme, DepositAddress list answer) eff" where
  "wal_ListDepositAddresses c = answer 400 (ListDepositAddresses (tc_UserID c))"

definition wal_ListDeposits :: "TokenClaims \<Rightarrow> ('z office_db_scheme, ChainDeposit list answer) eff" where
  "wal_ListDeposits c = answer 400 (ListDeposits (tc_UserID c))"

record CreateWithdrawIn =
  cwi_Chain :: string
  cwi_ToAddress :: string
  cwi_Amount :: int

definition withdraw_rules :: "CreateWithdrawIn \<Rightarrow> string list" where
  "withdraw_rules inp = required ''chain'' (cwi_Chain inp) @ required ''to_address'' (cwi_ToAddress inp) @
     at_least ''amount_balance'' 1 (cwi_Amount inp)"

definition wal_CreateWithdraw :: "gvalid \<Rightarrow> TokenClaims \<Rightarrow> go_err + CreateWithdrawIn \<Rightarrow> ('z office_db_scheme, WithdrawRequest answer) eff" where
  "wal_CreateWithdraw V c parsed = with_input (checked V withdraw_rules parsed) (\<lambda>inp.
     answer 400 (CreateWithdraw (tc_UserID c) (cwi_Chain inp) (cwi_ToAddress inp) (cwi_Amount inp)))"

definition wal_ListWithdrawals :: "TokenClaims \<Rightarrow> ('z office_db_scheme, WithdrawRequest list answer) eff" where
  "wal_ListWithdrawals c = answer 400 (ListWithdrawals (tc_UserID c))"

end
