(* ===== verification/Catalog.thy ===== *)
theory Catalog
  imports Access Backoffice "HOL-Library.Product_Lexorder" Complex_Main
begin

text \<open>
  The public catalog and the usage pages, \<^verbatim>\<open>internal/controller/api/catalog/catalog.go\<close> and
  \<^verbatim>\<open>usage/usage.go\<close>: the queries these handlers write themselves, as joins and groups over the
  tables.  Names are ordered by their bytes.  \<open>jtext\<close> is the text of a JSONB column.  StatsByModel is
  left out: it selects columns it does not group by, which PostgreSQL refuses.
\<close>

section \<open>Joins\<close>

definition inner_join :: "'a list \<Rightarrow> 'b list \<Rightarrow> ('a \<Rightarrow> 'b \<Rightarrow> bool) \<Rightarrow> ('a \<times> 'b) list" where
  "inner_join xs ys on = [(x, y). x \<leftarrow> xs, y \<leftarrow> ys, on x y]"

definition left_join :: "'a list \<Rightarrow> 'b list \<Rightarrow> ('a \<Rightarrow> 'b \<Rightarrow> bool) \<Rightarrow> ('a \<times> 'b option) list" where
  "left_join xs ys on = concat (map (\<lambda>x.
     (case filter (on x) ys of [] \<Rightarrow> [(x, None)] | z # zs \<Rightarrow> map (\<lambda>y. (x, Some y)) (z # zs))) xs)"

definition present :: "('a \<times> 'b option) list \<Rightarrow> 'b list" where
  "present rows = List.map_filter snd rows"

text \<open>ILIKE.\<close>

definition sql_ilike :: "string \<Rightarrow> string \<Rightarrow> bool" where
  "sql_ilike p s = sql_like (ToLower p) (ToLower s)"

section \<open>Capabilities\<close>

definition Trim :: "string \<Rightarrow> string \<Rightarrow> string" where
  "Trim s cutset = dropWhile (\<lambda>c. c \<in> set cutset) (rev (dropWhile (\<lambda>c. c \<in> set cutset) (rev s)))"

definition capabilities_text :: "string \<Rightarrow> string" where
  "capabilities_text json =
     (let raw = TrimSpace json in
      if length raw > 2 then
        Join (filter (\<lambda>p. p \<noteq> []) (map (\<lambda>p. Trim p [CHR '' '', CHR 0x22]) (SplitByte (CHR '','') (butlast (tl raw))))) '', ''
      else [])"

record publicModel =
  pm_id :: int
  pm_developer_name :: string
  pm_model_name :: string
  pm_model_code :: string
  pm_display_name :: string
  pm_model_family :: string
  pm_description :: string
  pm_capabilities :: string
  pm_context_window :: int
  pm_status :: string
  pm_created_at :: int

definition toPublicMap :: "(raw \<Rightarrow> string) \<Rightarrow> modelSpecRow \<Rightarrow> publicModel" where
  "toPublicMap jtext r = \<lparr>pm_id = ms_ID r, pm_developer_name = ms_DeveloperName r, pm_model_name = ms_ModelName r,
     pm_model_code = ms_ModelCode r, pm_display_name = ms_DisplayName r, pm_model_family = ms_ModelFamily r,
     pm_description = ms_Description r, pm_capabilities = capabilities_text (jtext (ms_CapabilitiesJson r)),
     pm_context_window = ms_ContextWindow r, pm_status = ms_Status r, pm_created_at = ms_CreatedAt r\<rparr>"

section \<open>Models\<close>

text \<open>Code -1 with a message, or code 0 with the data.\<close>

datatype 'b listing = Failed string | Data 'b

definition listing :: "('s, 'b) eff \<Rightarrow> ('s, 'b listing) eff" where
  "listing m = bindE (tryE m) (\<lambda>r. returnE (case r of Inl e \<Rightarrow> Failed (err_text e) | Inr x \<Rightarrow> Data x))"

definition cat_ListModels :: "(raw \<Rightarrow> string) \<Rightarrow> ('z llm_db_scheme, publicModel list listing) eff" where
  "cat_ListModels jtext = listing
     (bindE (db_select llm_model_specs (\<lambda>r. ms_Status r = ''active'')) (\<lambda>rows.
      returnE (map (toPublicMap jtext) (order_desc ms_ID rows))))"

record providerPricingRow =
  pp_ChannelID :: int
  pp_ChannelName :: string
  pp_ChannelCode :: string
  pp_UpstreamModelName :: string
  pp_CacheHitPricePer1K :: int
  pp_CacheMissPricePer1K :: int
  pp_OutputPricePer1K :: int
  pp_KeyStatus :: string
  pp_KmStatus :: string

definition pricing_row :: "(keyModelRow \<times> modelKeyRow) \<times> channelRow \<Rightarrow> providerPricingRow" where
  "pricing_row = (\<lambda>((km, k), c). \<lparr>pp_ChannelID = ch_ID c, pp_ChannelName = ch_Name c, pp_ChannelCode = ch_Code c,
     pp_UpstreamModelName = km_UpstreamModelName km, pp_CacheHitPricePer1K = km_CacheHitPricePer1K km,
     pp_CacheMissPricePer1K = km_CacheMissPricePer1K km, pp_OutputPricePer1K = km_OutputPricePer1K km,
     pp_KeyStatus = mk_Status k, pp_KmStatus = km_Status km\<rparr>)"

text \<open>Active bindings of active keys on active channels.\<close>

definition active_offers :: "'z llm_db_scheme \<Rightarrow> ((keyModelRow \<times> modelKeyRow) \<times> channelRow) list" where
  "active_offers s = filter (\<lambda>((km, k), c). km_Status km = ''active'' \<and> mk_Status k = ''active'' \<and> ch_Status c = ''active'')
     (inner_join (inner_join (llm_model_key_models s) (llm_model_keys s) (\<lambda>km k. km_ModelKeyID km = mk_ID k))
       (llm_channels s) (\<lambda>(km, k) c. mk_ChannelID k = ch_ID c))"

definition GetModelDetail :: "(raw \<Rightarrow> string) \<Rightarrow> string \<Rightarrow> ('z llm_db_scheme, (publicModel \<times> providerPricingRow list) listing) eff" where
  "GetModelDetail jtext code =
     (if code = [] then returnE (Failed ''model code required'')
      else listing
        (bindE (db_scan llm_model_specs (\<lambda>r. ms_ModelCode r = code \<and> ms_Status r = ''active'')) (\<lambda>row.
         if (case row of None \<Rightarrow> True | Some r \<Rightarrow> ms_ID r = 0) then throwE (ErrNew ''model not found'')
         else bindE (db_call (getsE (\<lambda>s. map pricing_row
             (filter (\<lambda>((km, k), c). km_ModelSpecID km = ms_ID (the row)) (active_offers s))))) (\<lambda>providers.
           returnE (toPublicMap jtext (the row), providers)))))"

section \<open>Developers\<close>

record providerSummaryRow =
  sum_ID :: int
  sum_Name :: string
  sum_Description :: string
  sum_Website :: string
  sum_LogoURL :: string
  sum_SortOrder :: int
  sum_ModelCount :: int
  sum_TotalCalls :: int
  sum_TotalTokens :: int
  sum_TotalCredits :: int

text \<open>The rows of the two left joins for one developer.\<close>

definition developer_joins :: "'z office_db_scheme \<Rightarrow> developerRow \<Rightarrow> ((developerRow \<times> modelSpecRow option) \<times> usageRecord option) list" where
  "developer_joins s d =
     left_join (left_join [d] (llm_model_specs s) (\<lambda>d ms. ms_DeveloperName ms = dv_Name d \<and> ms_Status ms = ''active''))
       (llm_usage_records s) (\<lambda>(d, ms) ur. case ms of None \<Rightarrow> False | Some m \<Rightarrow> ur_ModelSpecID ur = ms_ID m)"

definition developer_summary :: "'z office_db_scheme \<Rightarrow> developerRow \<Rightarrow> providerSummaryRow" where
  "developer_summary s d =
     (let rows = developer_joins s d; us = present rows in
      \<lparr>sum_ID = dv_ID d, sum_Name = dv_Name d, sum_Description = dv_Description d, sum_Website = dv_Website d,
       sum_LogoURL = dv_LogoURL d, sum_SortOrder = dv_SortOrder d,
       sum_ModelCount = int (length (remdups (map ms_ID (present (map fst rows))))),
       sum_TotalCalls = int (length us), sum_TotalTokens = sum_list (map ur_TotalTokens us),
       sum_TotalCredits = sum_list (map ur_CostCredits us)\<rparr>)"

text \<open>\<open>rep\<close> is the column reputation_score of migration 0017, which the row of the developers' service
  does not read.\<close>

definition ListProviders :: "(int \<Rightarrow> int) \<Rightarrow> string \<Rightarrow> string \<Rightarrow> ('z office_db_scheme, providerSummaryRow list listing) eff" where
  "ListProviders rep sort' search = listing
     (bindE (db_call (getsE (\<lambda>s. map (developer_summary s) (filter (\<lambda>d. dv_Status d = 1 \<and>
         (search \<noteq> [] \<longrightarrow> sql_ilike (''%'' @ search @ ''%'') (dv_Name d))) (developers s))))) (\<lambda>rows.
      returnE (if sort' = ''calls'' then sort_key (\<lambda>r. (- sum_TotalCalls r, sum_Name r)) rows
        else if sort' = ''reputation'' then sort_key (\<lambda>r. (- rep (sum_ID r), sum_Name r)) rows
        else sort_key (\<lambda>r. (- sum_ModelCount r, sum_Name r)) rows)))"

record modelOut =
  mo_ID :: int
  mo_ModelName :: string
  mo_ModelCode :: string
  mo_DisplayName :: string
  mo_ModelFamily :: string
  mo_ContextWindow :: int
  mo_Capabilities :: string
  mo_input_price_per_1k :: int
  mo_output_price_per_1k :: int
  mo_cache_miss_price_per_1k :: int
  mo_ChannelName :: string

text \<open>The field written as cache_miss_price_per_1k holds the price of a cache hit.\<close>

definition model_out :: "(raw \<Rightarrow> string) \<Rightarrow> modelSpecRow \<times> ((keyModelRow \<times> modelKeyRow) \<times> channelRow) \<Rightarrow> modelOut" where
  "model_out jtext = (\<lambda>(ms, ((km, k), c)). \<lparr>mo_ID = ms_ID ms, mo_ModelName = ms_ModelName ms, mo_ModelCode = ms_ModelCode ms,
     mo_DisplayName = ms_DisplayName ms, mo_ModelFamily = ms_ModelFamily ms, mo_ContextWindow = ms_ContextWindow ms,
     mo_Capabilities = capabilities_text (jtext (ms_CapabilitiesJson ms)),
     mo_input_price_per_1k = km_CacheMissPricePer1K km, mo_output_price_per_1k = km_OutputPricePer1K km,
     mo_cache_miss_price_per_1k = km_CacheHitPricePer1K km, mo_ChannelName = ch_Name c\<rparr>)"

definition developer_stats :: "string \<Rightarrow> 'z llm_db_scheme \<Rightarrow> int \<times> int \<times> int" where
  "developer_stats name s =
     (let rows = left_join (filter (\<lambda>m. ms_DeveloperName m = name \<and> ms_Status m = ''active'') (llm_model_specs s))
            (llm_usage_records s) (\<lambda>m ur. ur_ModelSpecID ur = ms_ID m) in
      (int (length (remdups (map (ms_ID \<circ> fst) rows))), int (length (present rows)),
       sum_list (map ur_TotalTokens (present rows))))"

text \<open>A failing statistics query leaves zeros.\<close>

definition GetProviderModels ::
  "(raw \<Rightarrow> string) \<Rightarrow> string \<Rightarrow> ('z office_db_scheme, (developerRow \<times> (int \<times> int \<times> int) \<times> modelOut list) listing) eff" where
  "GetProviderModels jtext name =
     (if name = [] then returnE (Failed ''provider name required'')
      else bindE (tryE (db_scan developers (\<lambda>d. dv_Name d = name \<and> dv_Status d = 1))) (\<lambda>r.
        case r of Inr (Some dev) \<Rightarrow>
            if dv_ID dev = 0 then returnE (Failed ''provider not found'')
            else bindE (tryE (db_call (getsE (developer_stats name)))) (\<lambda>agg.
              listing (bindE (db_call (getsE (\<lambda>s. order_desc (ms_ID \<circ> fst)
                  (inner_join (filter (\<lambda>m. ms_DeveloperName m = name \<and> ms_Status m = ''active'') (llm_model_specs s))
                    (active_offers s) (\<lambda>m ((km, k), c). km_ModelSpecID km = ms_ID m))))) (\<lambda>rows.
                returnE (dev, (case agg of Inl e \<Rightarrow> (0, 0, 0) | Inr a \<Rightarrow> a), map (model_out jtext) rows))))
        | other \<Rightarrow> returnE (Failed ''provider not found'')))"

section \<open>Suppliers\<close>

record supplierRow =
  su_ID :: int
  su_Username :: string
  su_Email :: string
  su_ModelCount :: int
  su_TotalCalls :: int
  su_TotalTokens :: int
  su_TotalCredits :: int

definition supplier_bindings :: "'z identity_db_scheme \<Rightarrow> userRow \<Rightarrow> ((userRow \<times> modelKeyRow option) \<times> keyModelRow option) list" where
  "supplier_bindings s u =
     left_join (left_join [u] (llm_model_keys s) (\<lambda>u k. mk_ProviderUserID k = us_ID u \<and> mk_Status k = ''active''))
       (llm_model_key_models s) (\<lambda>(u, k) km. case k of None \<Rightarrow> False
          | Some key \<Rightarrow> km_ModelKeyID km = mk_ID key \<and> km_Status km = ''active'')"

text \<open>Every binding row is joined with every usage record of the supplier.\<close>

definition supplier_summary :: "'z identity_db_scheme \<Rightarrow> userRow \<Rightarrow> supplierRow" where
  "supplier_summary s u =
     (let rows = left_join (supplier_bindings s u) (llm_usage_records s) (\<lambda>_ ur. ur_ProviderUserID ur = us_ID u);
          us = present rows in
      \<lparr>su_ID = us_ID u, su_Username = us_Username u, su_Email = us_Email u,
       su_ModelCount = int (length (remdups (map km_ID (present (map fst rows))))),
       su_TotalCalls = int (length us), su_TotalTokens = sum_list (map ur_TotalTokens us),
       su_TotalCredits = sum_list (map ur_CostCredits us)\<rparr>)"

definition ListSuppliers :: "string \<Rightarrow> string \<Rightarrow> ('z identity_db_scheme, supplierRow list listing) eff" where
  "ListSuppliers sort' search = listing
     (bindE (db_call (getsE (\<lambda>s. map (supplier_summary s) (filter (\<lambda>u. us_Role u = 1 \<and>
         (search \<noteq> [] \<longrightarrow> sql_ilike (''%'' @ search @ ''%'') (us_Username u))) (users s))))) (\<lambda>rows.
      returnE (if sort' = ''calls'' then sort_key (\<lambda>r. (- su_TotalCalls r, su_Username r)) rows
        else if sort' = ''credits'' then sort_key (\<lambda>r. (- su_TotalCredits r, su_Username r)) rows
        else sort_key (\<lambda>r. (- su_ModelCount r, su_Username r)) rows)))"

record supplierModel =
  sm_ModelCode :: string
  sm_ModelName :: string
  sm_ChannelName :: string
  sm_input_price_per_1k :: int
  sm_output_price_per_1k :: int
  sm_cache_hit_price_per_1k :: int

text \<open>The field CacheMissPrice is decoded from a column of its tag or of its name, and the query gives it
  under neither, so it keeps its zero.\<close>

definition supplier_model :: "((keyModelRow \<times> modelKeyRow) \<times> channelRow) \<times> modelSpecRow \<Rightarrow> supplierModel" where
  "supplier_model = (\<lambda>(((km, k), c), ms). \<lparr>sm_ModelCode = ms_ModelCode ms, sm_ModelName = ms_ModelName ms,
     sm_ChannelName = ch_Name c, sm_input_price_per_1k = 0,
     sm_output_price_per_1k = km_OutputPricePer1K km, sm_cache_hit_price_per_1k = km_CacheHitPricePer1K km\<rparr>)"

text \<open>Here the usage is joined to its own binding, so nothing is counted twice.\<close>

definition supplier_stats :: "int \<Rightarrow> 'z llm_db_scheme \<Rightarrow> int \<times> int \<times> int \<times> int" where
  "supplier_stats userID s =
     (let rows = left_join (filter (\<lambda>(km, k). mk_ProviderUserID k = userID)
            (inner_join (llm_model_key_models s) (llm_model_keys s) (\<lambda>km k. mk_ID k = km_ModelKeyID km \<and> mk_Status k = ''active'')))
            (llm_usage_records s) (\<lambda>(km, k) ur. ur_KeyModelID ur = km_ID km); us = present rows in
      (int (length (remdups (map (\<lambda>((km, k), ur). km_ID km) rows))), int (length us),
       sum_list (map ur_TotalTokens us), sum_list (map ur_CostCredits us)))"

definition GetSupplierModels ::
  "string \<Rightarrow> ('z identity_db_scheme, (userRow \<times> (int \<times> int \<times> int \<times> int) \<times> supplierModel list) listing) eff" where
  "GetSupplierModels username =
     (if username = [] then returnE (Failed ''username required'')
      else bindE (tryE (db_scan users (\<lambda>u. us_Username u = username \<and> us_Role u = 1))) (\<lambda>r.
        case r of Inr (Some u) \<Rightarrow>
            if us_ID u = 0 then returnE (Failed ''supplier not found'')
            else bindE (tryE (db_call (getsE (supplier_stats (us_ID u))))) (\<lambda>agg.
              listing (bindE (db_call (getsE (\<lambda>s. map supplier_model
                  (inner_join (filter (\<lambda>((km, k), c). mk_ProviderUserID k = us_ID u) (active_offers s))
                    (llm_model_specs s) (\<lambda>((km, k), c) ms. ms_ID ms = km_ModelSpecID km))))) (\<lambda>rows.
                returnE (u, (case agg of Inl e \<Rightarrow> (0, 0, 0, 0) | Inr a \<Rightarrow> a), rows))))
        | other \<Rightarrow> returnE (Failed ''supplier not found'')))"

section \<open>Usage\<close>

record statsRow =
  st_TotalCalls :: int
  st_TotalTokens :: int
  st_TotalCredits :: int
  st_AvgLatencyMs :: rat

definition usage_Stats :: "int \<Rightarrow> ('z llm_db_scheme, statsRow answer) eff" where
  "usage_Stats userID = answer 400
     (bindE (db_select llm_usage_records (\<lambda>r. ur_ConsumerUserID r = userID \<and> ur_Status r = ''success'')) (\<lambda>rows.
      returnE \<lparr>st_TotalCalls = int (length rows), st_TotalTokens = sum_list (map ur_TotalTokens rows),
        st_TotalCredits = sum_list (map ur_CostCredits rows),
        st_AvgLatencyMs = (if rows = [] then 0 else of_int (sum_list (map ur_LatencyMs rows)) / of_nat (length rows))\<rparr>))"

record recordRow =
  rr_ID :: int
  rr_Model :: string
  rr_Tokens :: int
  rr_Credits :: int
  rr_LatencyMs :: int
  rr_CreatedAt :: int

definition record_row :: "usageRecord \<times> modelSpecRow option \<Rightarrow> recordRow" where
  "record_row = (\<lambda>(ur, ms). \<lparr>rr_ID = ur_ID ur, rr_Model = (case ms of None \<Rightarrow> ''unknown'' | Some m \<Rightarrow> ms_ModelCode m),
     rr_Tokens = ur_TotalTokens ur, rr_Credits = ur_CostCredits ur, rr_LatencyMs = ur_LatencyMs ur,
     rr_CreatedAt = ur_CreatedAt ur\<rparr>)"

definition usage_Records :: "int \<Rightarrow> int \<Rightarrow> int \<Rightarrow> ('z llm_db_scheme, recordRow list answer) eff" where
  "usage_Records userID page0 pageSize0 =
     (let page = page_or 1 page0; pageSize = page_or 20 pageSize0 in
      answer 400 (bindE (db_call (getsE (\<lambda>s. limit_offset pageSize ((page - 1) * pageSize)
          (order_desc (ur_ID \<circ> fst) (left_join (filter (\<lambda>r. ur_ConsumerUserID r = userID) (llm_usage_records s))
             (llm_model_specs s) (\<lambda>ur ms. ur_ModelSpecID ur = ms_ID ms)))))) (\<lambda>rows.
        returnE (map record_row rows))))"

end
