(* ===== verification/QueueProps.thy ===== *)
theory QueueProps
  imports Queue
begin

text \<open>
  The queue as an interface, its documents, and the termination of the workers.
\<close>

section \<open>Documents survive the queue\<close>

text \<open>The integer fields of a task are Go ints.\<close>

definition task_ok :: "SettlementTask \<Rightarrow> bool" where
  "task_ok t \<longleftrightarrow> is_i64 (stt_UserID t) \<and> is_i64 (stt_ApiKeyID t) \<and> is_i64 (stt_ModelKeyID t) \<and>
     is_i64 (stt_KeyModelID t) \<and> is_i64 (stt_ProviderUserID t) \<and> is_i64 (stt_ChannelID t) \<and>
     is_i64 (stt_ModelSpecID t) \<and> is_i64 (stt_Cost t) \<and> is_i64 (stt_ProviderShareBps t) \<and>
     is_i64 (stt_RetryCount t) \<and> is_i64 (stt_OutputPricePer1K t) \<and> is_i64 (stt_CacheHitPricePer1K t) \<and>
     is_i64 (stt_CacheMissPricePer1K t) \<and> pred_option usage_ok (stt_Usage t)"

text \<open>What a task is after a trip through the queue: the flag tagged \<^verbatim>\<open>json:"-"\<close> is lost.\<close>

definition requeued :: "SettlementTask \<Rightarrow> SettlementTask" where
  "requeued t = t\<lparr>stt_Usage := map_option (\<lambda>u. u\<lparr>us_CacheIncludedInPrompt := False\<rparr>) (stt_Usage t)\<rparr>"

lemma dec_ptr_usage: "pred_option usage_ok u \<Longrightarrow> dec_ptr usage_of_json (opt_json usage_to_json u) =
    Some (map_option (\<lambda>u. u\<lparr>us_CacheIncludedInPrompt := False\<rparr>) u)"
  by (cases u) (simp_all add: dec_ptr_def opt_json_def usage_roundtrip)

definition task_doc :: "SettlementTask \<Rightarrow> (bool \<times> string \<times> json) list" where
  "task_doc t =
     [(True, ''user_id'', JNum (stt_UserID t)), (True, ''api_key_id'', JNum (stt_ApiKeyID t)),
      (True, ''model_key_id'', JNum (stt_ModelKeyID t)), (True, ''key_model_id'', JNum (stt_KeyModelID t)),
      (True, ''provider_user_id'', JNum (stt_ProviderUserID t)), (True, ''channel_id'', JNum (stt_ChannelID t)),
      (True, ''model_spec_id'', JNum (stt_ModelSpecID t)), (True, ''request_id'', JStr (stt_RequestID t)),
      (True, ''capability'', JStr (stt_Capability t)), (True, ''is_stream'', JBool (stt_IsStream t)),
      (True, ''usage'', opt_json usage_to_json (stt_Usage t)), (True, ''cost'', JNum (stt_Cost t)),
      (True, ''provider_share_bps'', JNum (stt_ProviderShareBps t)), (True, ''start_time'', JTime (stt_StartTime t)),
      (True, ''retry_count'', JNum (stt_RetryCount t)),
      (stt_RequestBody t \<noteq> None, ''request_body'', opt_json (\<lambda>j. j) (stt_RequestBody t)),
      (stt_ResponseBody t \<noteq> None, ''response_body'', opt_json (\<lambda>j. j) (stt_ResponseBody t)),
      (stt_ResponseText t \<noteq> [], ''response_text'', JStr (stt_ResponseText t)),
      (stt_ModelName t \<noteq> [], ''model_name'', JStr (stt_ModelName t)),
      (stt_OutputPricePer1K t \<noteq> 0, ''output_price_per_1k'', JNum (stt_OutputPricePer1K t)),
      (stt_CacheHitPricePer1K t \<noteq> 0, ''cache_hit_price_per_1k'', JNum (stt_CacheHitPricePer1K t)),
      (stt_CacheMissPricePer1K t \<noteq> 0, ''cache_miss_price_per_1k'', JNum (stt_CacheMissPricePer1K t))]"

lemma task_doc_eq: "task_to_json t = JObj (doc (task_doc t))"
  by (simp only: task_to_json_def task_doc_def doc_simps append_Cons append_Nil append_assoc append_Nil2)

lemma task_doc_distinct: "distinct (map (\<lambda>x. fst (snd x)) (task_doc t))"
  by (simp add: task_doc_def)

lemmas task_field = dec_field_doc [OF task_doc_distinct]

lemma task_fields:
  "dec_field ''user_id'' f z (doc (task_doc t)) = f (JNum (stt_UserID t))"
  "dec_field ''api_key_id'' f z (doc (task_doc t)) = f (JNum (stt_ApiKeyID t))"
  "dec_field ''model_key_id'' f z (doc (task_doc t)) = f (JNum (stt_ModelKeyID t))"
  "dec_field ''key_model_id'' f z (doc (task_doc t)) = f (JNum (stt_KeyModelID t))"
  "dec_field ''provider_user_id'' f z (doc (task_doc t)) = f (JNum (stt_ProviderUserID t))"
  "dec_field ''channel_id'' f z (doc (task_doc t)) = f (JNum (stt_ChannelID t))"
  "dec_field ''model_spec_id'' f z (doc (task_doc t)) = f (JNum (stt_ModelSpecID t))"
  "dec_field ''request_id'' g y (doc (task_doc t)) = g (JStr (stt_RequestID t))"
  "dec_field ''capability'' g y (doc (task_doc t)) = g (JStr (stt_Capability t))"
  "dec_field ''is_stream'' h x (doc (task_doc t)) = h (JBool (stt_IsStream t))"
  "dec_field ''usage'' u w (doc (task_doc t)) = u (opt_json usage_to_json (stt_Usage t))"
  "dec_field ''cost'' f z (doc (task_doc t)) = f (JNum (stt_Cost t))"
  "dec_field ''provider_share_bps'' f z (doc (task_doc t)) = f (JNum (stt_ProviderShareBps t))"
  "dec_field ''start_time'' f z (doc (task_doc t)) = f (JTime (stt_StartTime t))"
  "dec_field ''retry_count'' f z (doc (task_doc t)) = f (JNum (stt_RetryCount t))"
  unfolding task_field unfolding task_doc_def by simp_all

lemma task_fields_omit:
  "dec_field ''request_body'' dec_raw None (doc (task_doc t)) = Some (stt_RequestBody t)"
  "dec_field ''response_body'' dec_raw None (doc (task_doc t)) = Some (stt_ResponseBody t)"
  "dec_field ''response_text'' dec_string [] (doc (task_doc t)) = Some (stt_ResponseText t)"
  "dec_field ''model_name'' dec_string [] (doc (task_doc t)) = Some (stt_ModelName t)"
  "is_i64 (stt_OutputPricePer1K t) \<Longrightarrow>
     dec_field ''output_price_per_1k'' dec_int 0 (doc (task_doc t)) = Some (stt_OutputPricePer1K t)"
  "is_i64 (stt_CacheHitPricePer1K t) \<Longrightarrow>
     dec_field ''cache_hit_price_per_1k'' dec_int 0 (doc (task_doc t)) = Some (stt_CacheHitPricePer1K t)"
  "is_i64 (stt_CacheMissPricePer1K t) \<Longrightarrow>
     dec_field ''cache_miss_price_per_1k'' dec_int 0 (doc (task_doc t)) = Some (stt_CacheMissPricePer1K t)"
  unfolding task_field unfolding task_doc_def by (auto simp: dec_raw_def opt_json_def)

lemma task_roundtrip_lemma: "task_ok t \<Longrightarrow> task_of_json (task_to_json t) = Some (requeued t)"
  unfolding task_ok_def task_of_json_def task_doc_eq
  by (simp add: task_fields task_fields_omit dec_ptr_usage requeued_def)

lemma task_retry_count: "task_of_json (task_to_json t) = Some t' \<Longrightarrow> stt_RetryCount t' = stt_RetryCount t"
proof -
  have b: "bind2 m f = Some x \<longleftrightarrow> (\<exists>a. m = Some a \<and> f a = Some x)" for m :: "'x option" and f and x :: 'y
    by (cases m) auto
  assume "task_of_json (task_to_json t) = Some t'"
  then show ?thesis
    by (auto simp: task_of_json_def task_doc_eq b task_fields split: if_splits)
qed

section \<open>The queue as an interface\<close>

text \<open>What the gateway relies on (\<^verbatim>\<open>SettlementQueue\<close>): the queue is first in, first
  out, up to the normal form \<open>norm\<close> a task has after the trip, and an operation that fails
  loses no other task.\<close>

fun deq_n :: "('s, 't option) eff \<Rightarrow> nat \<Rightarrow> ('s, 't list) eff" where
  "deq_n dequeue 0 = returnE []"
| "deq_n dequeue (Suc n) = bindE dequeue (\<lambda>r. case r of None \<Rightarrow> returnE []
     | Some t \<Rightarrow> bindE (deq_n dequeue n) (\<lambda>ts. returnE (t # ts)))"

locale settlement_broker =
  fixes enqueue :: "'t \<Rightarrow> ('s, unit) eff" and dequeue :: "('s, 't option) eff"
    and tasks :: "'s \<Rightarrow> 't list" and valid :: "'t \<Rightarrow> bool" and norm :: "'t \<Rightarrow> 't"
  assumes enq_ok: "valid t \<Longrightarrow> enqueue t s = (Inr (), s') \<Longrightarrow> tasks s' = tasks s @ [norm t]"
    and enq_error: "enqueue t s = (Inl e, s') \<Longrightarrow> tasks s' = tasks s"
    and deq_some: "dequeue s = (Inr (Some t), s') \<Longrightarrow> tasks s = t # tasks s'"
    and deq_none: "dequeue s = (Inr None, s') \<Longrightarrow> tasks s = [] \<and> tasks s' = []"
    and deq_error: "dequeue s = (Inl e, s') \<Longrightarrow> tasks s' = tasks s"
begin

lemma enq_many:
  "\<forall>t \<in> set ts. valid t \<Longrightarrow> mapE enqueue ts s = (Inr us, s') \<Longrightarrow> tasks s' = tasks s @ map norm ts"
proof (induction ts arbitrary: s us)
  case Nil
  then show ?case by (simp add: ok_simps)
next
  case (Cons t ts)
  obtain s1 vs where 1: "enqueue t s = (Inr (), s1)" and 2: "mapE enqueue ts s1 = (Inr vs, s')"
    using Cons.prems(2) by (auto simp: ok_simps)
  have "tasks s1 = tasks s @ [norm t]" using enq_ok 1 Cons.prems(1) by simp
  then show ?case using Cons.IH [OF _ 2] Cons.prems(1) by simp
qed

lemma deq_many: "deq_n dequeue n s = (Inr rs, s') \<Longrightarrow> rs = take n (tasks s) \<and> tasks s' = drop n (tasks s)"
proof (induction n arbitrary: s rs)
  case 0
  then show ?case by (simp add: ok_simps)
next
  case (Suc n)
  obtain r s1 where 1: "dequeue s = (Inr r, s1)"
    and 2: "(case r of None \<Rightarrow> returnE [] | Some t \<Rightarrow> bindE (deq_n dequeue n) (\<lambda>ts. returnE (t # ts))) s1 = (Inr rs, s')"
    using Suc.prems by (auto simp: ok_simps)
  show ?case
  proof (cases r)
    case None
    then show ?thesis using 2 deq_none [of s s1] 1 by (simp add: ok_simps)
  next
    case (Some t)
    then obtain ts where 3: "deq_n dequeue n s1 = (Inr ts, s')" "rs = t # ts" using 2 by (auto simp: ok_simps)
    then show ?thesis using Suc.IH [OF 3(1)] deq_some [of s t s1] 1 Some by simp
  qed
qed

lemma fifo:
  assumes "tasks s = []" and "\<forall>t \<in> set ts. valid t" and "mapE enqueue ts s = (Inr us, s1)"
    and "deq_n dequeue (length ts) s1 = (Inr rs, s2)"
  shows "rs = map norm ts \<and> tasks s2 = []"
  using enq_many [OF assms(2,3)] deq_many [OF assms(4)] assms(1) by simp

end

definition queued_tasks :: "'z llm_db_scheme \<Rightarrow> SettlementTask list" where
  "queued_tasks s = List.map_filter task_of_json (rev (settlement_queue s))"

lemma map_filter_Cons [simp]:
  "List.map_filter f (x # xs) = (case f x of None \<Rightarrow> List.map_filter f xs | Some y \<Rightarrow> y # List.map_filter f xs)"
  by (simp add: List.map_filter_simps)

lemma rev_last: "xs \<noteq> [] \<Longrightarrow> rev xs = last xs # rev (butlast xs)"
  by (metis append_butlast_last_id rev_eq_Cons_iff rev_rev_ident)

interpretation redis: settlement_broker redis_Enqueue redis_Dequeue queued_tasks task_ok requeued
proof unfold_locales
  fix t and s s' :: "'a llm_db_scheme"
  assume "task_ok t" "redis_Enqueue t s = (Inr (), s')"
  then show "queued_tasks s' = queued_tasks s @ [requeued t]"
    by (auto simp: redis_Enqueue_def ok_simps queued_tasks_def map_filter_append task_roundtrip_lemma
        List.map_filter_simps)
next
  fix t e and s s' :: "'a llm_db_scheme"
  assume "redis_Enqueue t s = (Inl e, s')"
  then show "queued_tasks s' = queued_tasks s"
    by (auto simp: redis_Enqueue_def db_call_def Let_def queued_tasks_def split: option.splits)
next
  fix t and s s' :: "'a llm_db_scheme"
  assume "redis_Dequeue s = (Inr (Some t), s')"
  then show "queued_tasks s = t # queued_tasks s'"
    by (auto simp: redis_Dequeue_def ok_simps queued_tasks_def Let_def rev_last split: if_splits option.splits)
next
  fix s s' :: "'a llm_db_scheme"
  assume "redis_Dequeue s = (Inr None, s')"
  then show "queued_tasks s = [] \<and> queued_tasks s' = []"
    by (auto simp: redis_Dequeue_def ok_simps queued_tasks_def Let_def List.map_filter_simps
        split: if_splits option.splits)
next
  fix e and s s' :: "'a llm_db_scheme"
  assume "redis_Dequeue s = (Inl e, s')"
  then show "queued_tasks s' = queued_tasks s"
    by (auto simp: redis_Dequeue_def db_call_def queued_tasks_def Let_def rev_last
        split: if_splits option.splits)
qed

section \<open>The workers finish\<close>

text \<open>How many more times a document can be taken from the queue.\<close>

definition lives :: "json \<Rightarrow> nat" where
  "lives j = (case task_of_json j of None \<Rightarrow> 1 | Some t \<Rightarrow> max 1 (nat (maxSettlementRetries + 1 - stt_RetryCount t)))"

definition queue_lives :: "'z llm_db_scheme \<Rightarrow> nat" where
  "queue_lives s = sum_list (map lives (settlement_queue s))"

lemma lives_pos: "1 \<le> lives j"
  by (simp add: lives_def split: option.split)

lemma lives_retry:
  "lives (task_to_json t) \<le> max 1 (nat (maxSettlementRetries + 1 - stt_RetryCount t))"
  using task_retry_count [of t] by (auto simp: lives_def split: option.split)

lemma queue_frames [frame]:
  "untouched (\<lambda>s. settlement_queue s = q) llm_usage_records_update"
  "untouched (\<lambda>s. settlement_queue s = q) settlement_records_update"
  "untouched (\<lambda>s. settlement_queue s = q) llm_chat_logs_update"
  "untouched (\<lambda>s. settlement_queue s = q) api_keys_update"
  "untouched (\<lambda>s. settlement_queue s = q) llm_model_keys_update"
  "untouched (\<lambda>s. settlement_queue s = q) llm_model_key_models_update"
  by (simp_all add: untouched_def)

lemma queue_stable: "stable (\<lambda>s. settlement_queue s = q)"
  by (simp add: stable_def)

lemma queue_off_ledger: "off_ledger (\<lambda>s. settlement_queue s = q)"
  by (simp add: off_ledger_def untouched_def queue_stable)

lemma record_usage_queue: "preserves (\<lambda>s. settlement_queue s = q) (record_usage task)"
  unfolding record_usage_def
  by (intro pres preserves_keeps preserves_db_insert_frame frame queue_stable)

lemma disableOverdraftKeys_pres [pres]:
  "stable I \<Longrightarrow> untouched I api_keys_update \<Longrightarrow> preserves I (disableOverdraftKeys u)"
  unfolding disableOverdraftKeys_def by (intro pres preserves_db_update_frame)

lemma updateQuotaSync_queue: "preserves (\<lambda>s. settlement_queue s = q) (updateQuotaSync a b c)"
  unfolding updateQuotaSync_def by (intro pres preserves_db_update_frame frame queue_stable)

lemma charge_queue: "preserves (\<lambda>s. settlement_queue s = q) (charge task uid)"
  unfolding charge_def
  by (intro pres DebitAccount_frame queue_off_ledger updateQuotaSync_queue frame queue_stable)

lemma save_chat_queue: "preserves (\<lambda>s. settlement_queue s = q) (save_chat task)"
  unfolding save_chat_def by (intro pres preserves_db_insert_frame frame queue_stable)

lemma requeue_cases:
  assumes "requeue t s = (r, s')"
  obtains (kept) "settlement_queue s' = settlement_queue s"
  | (pushed) "stt_RetryCount t < maxSettlementRetries"
      "settlement_queue s' = task_to_json (t\<lparr>stt_RetryCount := stt_RetryCount t + 1\<rparr>) # settlement_queue s"
  using assms
  by (auto simp: requeue_def EnqueueSettlement_def redis_Enqueue_def bindE_def tryE_def returnE_def db_call_def Let_def
      split: if_splits option.splits)

lemma requeue_lives:
  assumes "requeue t s = (r, s')"
  shows "queue_lives s' < queue_lives s + max 1 (nat (maxSettlementRetries + 1 - stt_RetryCount t))"
  using assms
proof (cases rule: requeue_cases)
  case kept
  then show ?thesis by (simp add: queue_lives_def)
next
  case pushed
  let ?t = "t\<lparr>stt_RetryCount := stt_RetryCount t + 1\<rparr>"
  have "lives (task_to_json ?t) \<le> nat (maxSettlementRetries - stt_RetryCount t)"
    using lives_retry [of ?t] pushed(1) by (simp add: max_def split: if_splits)
  also have "\<dots> < nat (maxSettlementRetries + 1 - stt_RetryCount t)" using pushed(1) by simp
  finally show ?thesis using pushed(2) by (simp add: queue_lives_def)
qed

lemma lazy_cases:
  assumes "lazy_tokenize tok t s = (r, s')"
  obtains (back_off) u where "requeue t s = (u, s')" "\<forall>t'. r \<noteq> Inr (Some t')"
  | (ready) t' where "r = Inr (Some t')" "s' = s" "if needs_tokens t then \<exists>n. t' = tokenized n t else t' = t"
proof (cases "needs_tokens t")
  case False
  then show ?thesis using assms ready by (auto simp: lazy_tokenize_def returnE_def)
next
  case True
  obtain u s1 where u: "requeue t s = (u, s1)" by (cases "requeue t s")
  show ?thesis
  proof (cases "\<exists>f n. tok = Some f \<and> f (stt_ModelName t) (stt_ResponseText t) = Inr n")
    case True
    then obtain f n where "tok = Some f" "f (stt_ModelName t) (stt_ResponseText t) = Inr n" by blast
    then have "r = Inr (Some (tokenized n t))" "s' = s"
      using assms \<open>needs_tokens t\<close> by (auto simp: lazy_tokenize_def returnE_def)
    then show ?thesis using ready \<open>needs_tokens t\<close> by simp blast
  next
    case False
    then have "lazy_tokenize tok t = bindE (requeue t) (\<lambda>_. returnE None)"
      using \<open>needs_tokens t\<close> by (auto simp: lazy_tokenize_def split: option.split sum.split)
    then have "bindE (requeue t) (\<lambda>_. returnE None) s = (r, s')" using assms by metis
    then have "s' = s1" "\<forall>t'. r \<noteq> Inr (Some t')" using u
      by (auto simp: bindE_def returnE_def split: sum.splits)
    then show ?thesis using back_off u by blast
  qed
qed

lemma processSettlement_cases:
  assumes "processSettlement tok t s = (r, s')"
  obtains (back_off) t' u f g where "requeue t' (s\<lparr>script := f, seqs := g\<rparr>) = (u, s')"
      "stt_RetryCount t' = stt_RetryCount t"
  | (settled) t' uid s1 where "if needs_tokens t then \<exists>n. t' = tokenized n t else t' = t" "record_usage t' s = (Inr uid, s1)"
      "bindE (charge t' uid) (\<lambda>_. save_chat t') s1 = (r, s')" "settlement_queue s' = settlement_queue s"
proof -
  obtain r1 s1 where 1: "lazy_tokenize tok t s = (r1, s1)" by (cases "lazy_tokenize tok t s")
  then show ?thesis
  proof (cases rule: lazy_cases)
    case (back_off u)
    then have "s' = s1" using assms 1
      by (auto simp: processSettlement_def bindE_def returnE_def split: sum.splits option.splits)
    moreover have "s = s\<lparr>script := script s, seqs := seqs s\<rparr>" by simp
    ultimately show ?thesis using that(1) back_off by metis
  next
    case (ready t')
    obtain r2 s2 where 2: "record_usage t' s = (r2, s2)" by (cases "record_usage t' s")
    have q2: "settlement_queue s2 = settlement_queue s"
      by (rule preserves_run [OF record_usage_queue refl 2])
    have rc: "stt_RetryCount t' = stt_RetryCount t" using ready(3) by (auto simp: tokenized_def split: if_splits)
    show ?thesis
    proof (cases r2)
      case (Inl e)
      then have "requeue t' s2 = (r, s')" using assms 1 2 ready
        by (simp add: processSettlement_def bindE_def tryE_def)
      moreover obtain f g where "s2 = s\<lparr>script := f, seqs := g\<rparr>"
        using transact_error_eq 2 Inl unfolding record_usage_def by blast
      ultimately show ?thesis using that(1) rc by blast
    next
      case (Inr uid)
      then have run: "bindE (charge t' uid) (\<lambda>_. save_chat t') s2 = (r, s')" using assms 1 2 ready
        by (simp add: processSettlement_def bindE_def tryE_def)
      have "preserves (\<lambda>x. settlement_queue x = settlement_queue s) (bindE (charge t' uid) (\<lambda>_. save_chat t'))"
        by (intro pres charge_queue save_chat_queue)
      from preserves_run [OF this q2 run] show ?thesis using that(2) ready(3) 2 Inr run by blast
    qed
  qed
qed

lemma processSettlement_lives:
  assumes "processSettlement tok t s = (r, s')"
  shows "queue_lives s' < queue_lives s + max 1 (nat (maxSettlementRetries + 1 - stt_RetryCount t))"
  using assms
proof (cases rule: processSettlement_cases)
  case (back_off t' u f g)
  then show ?thesis using requeue_lives [OF back_off(1)] by (simp add: queue_lives_def)
next
  case settled
  then show ?thesis by (simp add: queue_lives_def)
qed

lemma sum_list_butlast: "xs \<noteq> [] \<Longrightarrow> sum_list (map f xs) = sum_list (map f (butlast xs)) + (f (last xs) :: nat)"
  by (induction xs) auto

lemma worker_round_lives:
  assumes "worker_round tok s = (r, s')"
  shows "queue_lives s' \<le> queue_lives s"
    and "settlement_queue s \<noteq> [] \<Longrightarrow> next_fault (script s) = None \<Longrightarrow> queue_lives s' < queue_lives s"
proof -
  let ?s0 = "s\<lparr>script := tl (script s)\<rparr>" and ?q = "settlement_queue s"
  let ?s1 = "?s0\<lparr>settlement_queue := butlast ?q\<rparr>"
  have idle: "queue_lives s' = queue_lives s" if "next_fault (script s) \<noteq> None \<or> ?q = []"
  proof (cases "next_fault (script s)")
    case None
    then have "?q = []" using that by blast
    then have "s' = ?s0" using assms None
      by (simp add: worker_round_def bindE_def tryE_def redis_Dequeue_def db_call_def returnE_def Let_def)
    then show ?thesis by (simp add: queue_lives_def)
  next
    case (Some msg)
    then have "s' = ?s0" using assms
      by (simp add: worker_round_def bindE_def tryE_def redis_Dequeue_def db_call_def returnE_def Let_def)
    then show ?thesis by (simp add: queue_lives_def)
  qed
  have less: "queue_lives s' < queue_lives s" if ne: "?q \<noteq> []" and ok: "next_fault (script s) = None"
  proof (cases "task_of_json (last ?q)")
    case None
    then have "s' = ?s1" using assms ne ok
      by (auto simp: worker_round_def bindE_def tryE_def redis_Dequeue_def db_call_def returnE_def Let_def)
    then show ?thesis using sum_list_butlast [OF ne, of lives] lives_pos [of "last ?q"] by (simp add: queue_lives_def)
  next
    case (Some t)
    then have run: "processSettlement tok t ?s1 = (r, s')" using assms ne ok
      by (simp add: worker_round_def bindE_def tryE_def redis_Dequeue_def db_call_def Let_def)
    have "lives (last ?q) = max 1 (nat (maxSettlementRetries + 1 - stt_RetryCount t))" using Some by (simp add: lives_def)
    then show ?thesis using processSettlement_lives [OF run] sum_list_butlast [OF ne, of lives]
      by (simp add: queue_lives_def)
  qed
  show "queue_lives s' \<le> queue_lives s" using idle less by fastforce
  show "settlement_queue s \<noteq> [] \<Longrightarrow> next_fault (script s) = None \<Longrightarrow> queue_lives s' < queue_lives s" by (rule less)
qed

end
