(* ===== verification/QueueClaims.thy ===== *)
theory QueueClaims
  imports QueueProps
begin

text \<open>
  What the settlement queue and its workers guarantee.
\<close>

section \<open>First in, first out\<close>

text \<open>Tasks that are pushed on an empty queue and taken from it again come out in
  the order they went in, each exactly as it was but for the flag that is not part of the
  document: no field of a task is lost or changed by the JSON document it travels in.\<close>

theorem settlement_queue_fifo:
  fixes s :: "'z llm_db_scheme"
  assumes "settlement_queue s = []" and "\<forall>t \<in> set ts. task_ok t"
    and "mapE redis_Enqueue ts s = (Inr us, s1)"
    and "deq_n redis_Dequeue (length ts) s1 = (Inr rs, s2)"
  shows "rs = map (\<lambda>t. t\<lparr>stt_Usage := map_option (\<lambda>u. u\<lparr>us_CacheIncludedInPrompt := False\<rparr>) (stt_Usage t)\<rparr>) ts \<and>
    queued_tasks s2 = []"
proof -
  have "queued_tasks s = []" using assms(1) by (simp add: queued_tasks_def List.map_filter_simps)
  from redis.fifo [OF this assms(2,3,4)] show ?thesis by (simp add: requeued_def [abs_def])
qed

definition demo_task :: SettlementTask where
  "demo_task = \<lparr>stt_UserID = 5, stt_ApiKeyID = 1, stt_ModelKeyID = 2, stt_KeyModelID = 3, stt_ProviderUserID = 6,
     stt_ChannelID = 1, stt_ModelSpecID = 1, stt_RequestID = ''r1'', stt_Capability = ''chat'',
     stt_IsStream = False, stt_Usage = Some (zero_Usage\<lparr>us_PromptTokens := 100, us_CompletionTokens := 50,
       us_TotalTokens := 150\<rparr>), stt_Cost = 120, stt_ProviderShareBps = 7000, stt_StartTime = 0,
     stt_RetryCount = 0, stt_RequestBody = Some (JObj []), stt_ResponseBody = None, stt_ResponseText = [],
     stt_ModelName = [], stt_OutputPricePer1K = 0, stt_CacheHitPricePer1K = 0, stt_CacheMissPricePer1K = 0\<rparr>"

definition demo_llm :: "json list \<Rightarrow> llm_db" where
  "demo_llm q = \<lparr>script = [], seqs = (\<lambda>_. 10), norows = False, clock = 9, system_configs = [],
     accounts = [\<lparr>acc_id = 1, acc_owner_type = ''user'', acc_owner_id = 5, acc_asset = ''credits'',
        acc_balance_micro = 1000, acc_version = 1, acc_created_at = 7\<rparr>],
     transactions = [\<lparr>tx_id = 1, tx_type = ''recharge'', tx_ref_type = ''manual'', tx_ref_id = 1, tx_created_at = 7\<rparr>],
     transaction_entries = [\<lparr>ent_id = 1, ent_tx_id = 1, ent_account_id = 1, ent_delta_micro = 1000,
        ent_balance_after_micro = 1000\<rparr>],
     settlement_records = [], api_keys = [], llm_channels = [], llm_model_specs = [], llm_model_keys = [],
     llm_model_key_models = [], llm_model_prices = [], llm_usage_records = [], llm_chat_logs = [],
     provider_settings = [], settlement_queue = q\<rparr>"

lemma demo_task_ok: "task_ok demo_task"
  by (simp add: task_ok_def demo_task_def usage_ok_def zero_Usage_def is_i64_def)

theorem settlement_queue_fifo_witness:
  "\<exists>us s1 rs s2. mapE redis_Enqueue [demo_task, demo_task\<lparr>stt_UserID := 6\<rparr>] (demo_llm []) = (Inr us, s1) \<and>
     deq_n redis_Dequeue 2 s1 = (Inr rs, s2) \<and> map stt_UserID rs = [5, 6]"
proof -
  let ?ts = "[demo_task, demo_task\<lparr>stt_UserID := 6\<rparr>]"
  have ok: "\<forall>t \<in> set ?ts. task_ok t" using demo_task_ok by (simp add: task_ok_def is_i64_def)
  obtain us s1 where 1: "mapE redis_Enqueue ?ts (demo_llm []) = (Inr us, s1)"
    "settlement_queue s1 = rev (map task_to_json ?ts)" "script s1 = []"
    by (simp add: run demo_llm_def)
  have "\<exists>rs s2. deq_n redis_Dequeue 2 s1 = (Inr rs, s2)"
    using 1 task_roundtrip_lemma ok by (simp add: run numeral_2_eq_2)
  moreover have two: "length ?ts = 2" by simp
  ultimately obtain rs s2 where 2: "deq_n redis_Dequeue (length ?ts) s1 = (Inr rs, s2)" by metis
  have "settlement_queue (demo_llm []) = []" by (simp add: demo_llm_def)
  from settlement_queue_fifo [OF this ok 1(1) 2] have "map stt_UserID rs = [5, 6]" by (simp add: demo_task_def)
  then show ?thesis using 1 2 two by metis
qed

section \<open>The workers finish\<close>

lemma calm_ledger [calms]:
  "preserves calm (entry_account e)" "preserves calm (apply_delta m1 m2 t a d nb)"
  "preserves calm (one_sided ty inp acc d)"
  unfolding entry_account_def apply_delta_def one_sided_def insert_transaction_def insert_account_def scan_account_def
  by (intro calms; simp add: untouched_def calm_def)+

lemma calm_billing [calms]: "preserves calm (DebitAccount inp)" "preserves calm (CreditAccount inp)"
  unfolding DebitAccount_def CreditAccount_def by (intro calms)+

lemma calm_worker: "preserves calm (worker_round tok)"
  unfolding worker_round_def processSettlement_def lazy_tokenize_def requeue_def EnqueueSettlement_def
    redis_Enqueue_def redis_Dequeue_def record_usage_def charge_def save_chat_def disableOverdraftKeys_def
    updateQuotaSync_def
  by (intro calms)
    (auto simp: untouched_def calm_def preserves_def Let_def split: option.splits)

text \<open>How many documents \<open>n\<close> rounds take from the queue.\<close>

fun taken :: "tokenizer \<Rightarrow> nat \<Rightarrow> 'z llm_db_scheme \<Rightarrow> nat" where
  "taken tok 0 s = 0"
| "taken tok (Suc n) s = (if settlement_queue s \<noteq> [] \<and> next_fault (script s) = None then 1 else 0) +
     taken tok n (snd (worker_round tok s))"

text \<open>Property C11.  Workers terminate: whatever fails, the rounds of a worker take no more
  documents from the queue than the queue has lives, at most four for each task that was
  enqueued, and when nothing fails that many rounds leave the queue empty.\<close>

theorem workers_drain_the_queue:
  "taken tok n s + queue_lives (worker_rounds tok n s) \<le> queue_lives s \<and>
   (calm s \<longrightarrow> settlement_queue (worker_rounds tok (queue_lives s) s) = []) \<and>
   (0 \<le> stt_RetryCount t \<longrightarrow> lives (task_to_json t) \<le> 4)"
proof (intro conjI impI)
  show "taken tok n s + queue_lives (worker_rounds tok n s) \<le> queue_lives s" for n
  proof (induction n arbitrary: s)
    case (Suc n)
    obtain r s' where 1: "worker_round tok s = (r, s')" by (cases "worker_round tok s")
    note l = worker_round_lives [OF 1]
    show ?case using Suc [of s'] l 1 by (cases "settlement_queue s \<noteq> [] \<and> next_fault (script s) = None") auto
  qed simp
  have empty: "settlement_queue s = []" if "queue_lives s = 0" for s :: "'a llm_db_scheme"
    using that lives_pos by (cases "settlement_queue s") (auto simp: queue_lives_def, metis lives_pos not_one_le_zero)
  have "settlement_queue (worker_rounds tok n s) = []" if "calm s" "queue_lives s \<le> n" for n
    using that
  proof (induction n arbitrary: s)
    case 0
    then show ?case using empty by simp
  next
    case (Suc n)
    obtain r s' where 1: "worker_round tok s = (r, s')" by (cases "worker_round tok s")
    have c: "calm s'" by (rule preserves_run [OF calm_worker Suc.prems(1) 1])
    note l = worker_round_lives [OF 1]
    have "queue_lives s' \<le> n"
    proof (cases "settlement_queue s = []")
      case True
      then have "queue_lives s = 0" by (simp add: queue_lives_def)
      then show ?thesis using l(1) by linarith
    next
      case False
      then show ?thesis using l(2) Suc.prems by (simp add: calm_def)
    qed
    then show ?case using Suc.IH c 1 by simp
  qed
  then show "calm s \<Longrightarrow> settlement_queue (worker_rounds tok (queue_lives s) s) = []" by simp
  show "0 \<le> stt_RetryCount t \<Longrightarrow> lives (task_to_json t) \<le> 4"
    using lives_retry [of t] by (simp add: maxSettlementRetries_def)
qed

theorem workers_drain_the_queue_witness:
  "settlement_queue (worker_rounds None (queue_lives (demo_llm [JNull, task_to_json demo_task]))
     (demo_llm [JNull, task_to_json demo_task])) = []"
proof -
  have "calm (demo_llm q)" for q by (simp add: calm_def demo_llm_def)
  then show ?thesis using workers_drain_the_queue by blast
qed

end
