(* ===== verification/QueueBooks.thy ===== *)
theory QueueBooks
  imports QueueClaims
begin

text \<open>
  What the workers and the payout do to the books: usage records and pending settlements go
  together, a consumer is debited at most once for a task, and a payout pays before it marks.
\<close>

section \<open>Usage records and settlements\<close>

definition llm_records :: "settlementRecord list \<Rightarrow> settlementRecord list" where
  "llm_records = filter (\<lambda>r. sr_ProductType r = ''llm'')"

definition usage_terms :: "usageRecord \<Rightarrow> int \<times> int \<times> int \<times> int \<times> int \<times> int" where
  "usage_terms u = (ur_ID u, ur_ConsumerUserID u, ur_ProviderUserID u, ur_CostCredits u,
     ur_ProviderRevenueCredits u, ur_CommissionCredits u)"

definition record_terms :: "settlementRecord \<Rightarrow> int \<times> int \<times> int \<times> int \<times> int \<times> int" where
  "record_terms r = (sr_RefID r, sr_ConsumerUserID r, sr_ProviderUserID r, sr_CostCredits r,
     sr_ProviderRevenueCredits r, sr_CommissionCredits r)"

text \<open>One settlement record per usage record, in the same order and on the same terms; usage ids
  are distinct; revenue and commission make up the cost.\<close>

definition usage_inv :: "'z llm_db_scheme \<Rightarrow> bool" where
  "usage_inv s \<longleftrightarrow>
     map record_terms (llm_records (settlement_records s)) = map usage_terms (llm_usage_records s) \<and>
     distinct (map ur_ID (llm_usage_records s)) \<and>
     (\<forall>u \<in> set (llm_usage_records s). ur_ID u \<le> seqs s ''llm_usage_records'' \<and>
        i64 (ur_ProviderRevenueCredits u + ur_CommissionCredits u) = i64 (ur_CostCredits u))"

lemma usage_inv_stable: "stable usage_inv"
  by (rule stableI) (auto simp: usage_inv_def intro: order_trans)

lemma usage_inv_frames [frame]:
  "untouched usage_inv accounts_update" "untouched usage_inv transactions_update"
  "untouched usage_inv transaction_entries_update" "untouched usage_inv api_keys_update"
  "untouched usage_inv llm_chat_logs_update" "untouched usage_inv llm_model_keys_update"
  "untouched usage_inv llm_model_key_models_update"
  by (simp_all add: untouched_def usage_inv_def)

lemma usage_inv_ledger: "off_ledger usage_inv"
  by (simp add: off_ledger_def usage_inv_stable frame)

lemma record_usage_ok:
  assumes "record_usage t s = (Inr uid, s')"
  shows "uid = seqs s ''llm_usage_records'' + 1"
    and "s' = s\<lparr>script := script s',
       seqs := (seqs s)(''llm_usage_records'' := uid, ''settlement_records'' := seqs s ''settlement_records'' + 1),
       llm_usage_records := llm_usage_records s @ [usage_row t (clock s) uid],
       settlement_records := settlement_records s @
         [pending_settlement t uid (clock s) (seqs s ''settlement_records'' + 1)]\<rparr>"
  using assms by (auto simp: record_usage_def ok_simps Let_def)

lemma usage_row_terms:
  "record_terms (pending_settlement t i now j) = usage_terms (usage_row t now i)"
  "ur_ID (usage_row t now i) = i" "sr_ProductType (pending_settlement t i now j) = ''llm''"
  "i64 (ur_ProviderRevenueCredits (usage_row t now i) + ur_CommissionCredits (usage_row t now i)) =
     i64 (ur_CostCredits (usage_row t now i))"
  by (simp_all add: usage_row_def pending_settlement_def usage_terms_def record_terms_def Let_def
      split: prod.split)

lemma record_usage_inv: "preserves usage_inv (record_usage t)"
  unfolding preserves_def
proof (intro allI impI)
  fix s :: "'a llm_db_scheme" assume inv: "usage_inv s"
  obtain r s' where run: "record_usage t s = (r, s')" by (cases "record_usage t s")
  show "usage_inv (snd (record_usage t s))"
  proof (cases r)
    case (Inl e)
    then obtain f g where "s' = s\<lparr>script := f, seqs := g\<rparr>" "\<forall>k. seqs s k \<le> g k"
      using run transact_error_eq unfolding record_usage_def by blast
    then have "usage_inv s'" using inv usage_inv_stable unfolding stable_def by blast
    then show ?thesis using run by simp
  next
    case (Inr uid)
    note ok = record_usage_ok [OF run [unfolded Inr]]
    have "uid \<notin> ur_ID ` set (llm_usage_records s)" using inv ok(1) by (force simp: usage_inv_def)
    then have "usage_inv s'" using inv ok(1)
      by (subst ok(2)) (auto simp: usage_inv_def llm_records_def usage_row_terms)
    then show ?thesis using run by simp
  qed
qed

lemma usage_inv_worker: "preserves usage_inv (worker_round tok)"
  unfolding worker_round_def processSettlement_def lazy_tokenize_def requeue_def EnqueueSettlement_def
    redis_Enqueue_def redis_Dequeue_def charge_def save_chat_def disableOverdraftKeys_def updateQuotaSync_def
  by (intro pres record_usage_inv usage_inv_stable DebitAccount_frame usage_inv_ledger preserves_db_insert_frame
      preserves_db_update_frame frame)
    (auto simp: preserves_def Let_def usage_inv_def split: option.splits)

lemma filter_map_same: "(\<And>x. p (f x) = p x) \<Longrightarrow> (\<And>x. t (f x) = t x) \<Longrightarrow>
    map t (filter p (map f xs)) = map t (filter p xs)"
  by (induction xs) auto

lemma usage_inv_payouts: "preserves usage_inv (payouts n rows)"
proof -
  have upd: "usage_inv (settlement_records_update (map (\<lambda>r. if wh r
      then r\<lparr>sr_Status := st, sr_SettledAt := at\<rparr> else r)) s)" if "usage_inv s" for wh st at and s :: "'z llm_db_scheme"
    using that filter_map_same [where p = "\<lambda>r. sr_ProductType r = ''llm''" and t = record_terms and
        f = "\<lambda>r. if wh r then r\<lparr>sr_Status := st, sr_SettledAt := at\<rparr> else r" and xs = "settlement_records s"]
    by (simp add: usage_inv_def llm_records_def record_terms_def)
  show ?thesis
  proof (induction rows arbitrary: n)
    case (Cons row rows)
    show ?case unfolding payouts.simps payout_def
      by (intro pres Cons usage_inv_stable CreditAccount_frame usage_inv_ledger upd)
  qed (simp add: pres)
qed

text \<open>Property C12.  The usage table and the settlement table tell the same story: whatever
  fails, a round of a worker and a payout of matured settlements keep exactly one settlement
  record of product llm per usage record, in order, with the same consumer, provider, cost,
  revenue and commission; no usage id occurs twice, and revenue and commission add up to the
  cost (as int64).\<close>

theorem usage_matches_settlements:
  fixes tok :: tokenizer
  shows "preserves (usage_inv :: 'z llm_db_scheme \<Rightarrow> bool) (worker_round tok) \<and>
    preserves (usage_inv :: 'z llm_db_scheme \<Rightarrow> bool) ProcessSettlements"
proof
  show "preserves (usage_inv :: 'z llm_db_scheme \<Rightarrow> bool) (worker_round tok)" by (rule usage_inv_worker)
  show "preserves (usage_inv :: 'z llm_db_scheme \<Rightarrow> bool) ProcessSettlements"
    unfolding ProcessSettlements_def by (intro pres usage_inv_stable usage_inv_payouts)
qed

section \<open>Charging a task\<close>

lemma requeue_keeps: "preserves (\<lambda>s. (llm_usage_records s, settlement_records s, ledger_tables s) = x) (requeue t)"
  unfolding requeue_def EnqueueSettlement_def redis_Enqueue_def
  by (intro pres) (auto simp: stable_def preserves_def ledger_tables_def)

lemma save_chat_keeps: "preserves (\<lambda>s. (llm_usage_records s, settlement_records s, ledger_tables s, clock s) = x) (save_chat t)"
  unfolding save_chat_def
  by (intro pres preserves_db_insert_frame) (auto simp: stable_def untouched_def ledger_tables_def)

lemma charge_keeps: "preserves (\<lambda>s. (llm_usage_records s, settlement_records s) = x) (charge t uid)"
  unfolding charge_def disableOverdraftKeys_def updateQuotaSync_def
  by (intro pres preserves_db_update_frame DebitAccount_frame)
    (auto simp: stable_def untouched_def off_ledger_def)

lemma quota_keeps_ledger: "preserves (\<lambda>s. ledger_tables s = x) (updateQuotaSync a b c)"
  unfolding updateQuotaSync_def
  by (intro pres preserves_db_update_frame ledger_tables_stable) (auto simp: untouched_def ledger_tables_def)

lemma disable_keeps_ledger: "preserves (\<lambda>s. ledger_tables s = x) (disableOverdraftKeys u)"
  by (intro pres ledger_tables_stable frame)

lemma books_of_tables: "ledger_tables s' = ledger_tables s \<Longrightarrow> books_of s' = books_of s"
  by (rule books_of_cong) (simp add: ledger_tables_def)

text \<open>The debit of a charge happens or not; the rest of the charge moves no money.\<close>

lemma charge_cases:
  fixes s :: "'z llm_db_scheme"
  assumes "ledger_inv s" and "charge t uid s = (r, s')"
  obtains (free) "ledger_tables s' = ledger_tables s"
  | (debited) "0 < stt_Cost t" "stt_Cost t \<le> books_of s (''user'', stt_UserID t, ''credits'')"
      "books_of s' = book_entry (owner_entry (consumer_debit t uid) (i64 (- stt_Cost t))) (books_of s)"
proof (cases "stt_Cost t > 0")
  case False
  then show ?thesis using assms free by (simp add: charge_def returnE_def)
next
  case True
  obtain d s1 where 1: "DebitAccount (consumer_debit t uid) s = (d, s1)" by (cases "DebitAccount (consumer_debit t uid) s")
  define rest :: "('z llm_db_scheme, unit) eff" where "rest = bindE (case d of Inl err \<Rightarrow> disableOverdraftKeys (stt_UserID t) | Inr _ \<Rightarrow> returnE ()) (\<lambda>_.
        if stt_ResponseText t \<noteq> []
        then updateQuotaSync (stt_ModelKeyID t) (stt_KeyModelID t) (stt_Cost t) else returnE ())"
  have run: "rest s1 = (r, s')" using assms(2) True 1 by (simp add: charge_def rest_def bindE_def tryE_def)
  have "preserves (\<lambda>x. ledger_tables x = ledger_tables s1) rest"
    unfolding rest_def by (intro pres quota_keeps_ledger disable_keeps_ledger)
  from preserves_run [OF this refl run] have l: "ledger_tables s' = ledger_tables s1" .
  show ?thesis
  proof (cases d)
    case (Inl e)
    then obtain f g where "s1 = s\<lparr>script := f, seqs := g\<rparr>" using DebitAccount_error_tables 1 by blast
    then have "ledger_tables s1 = ledger_tables s" by (simp add: ledger_tables_def)
    then show ?thesis using free l by simp
  next
    case (Inr info)
    note D = DebitAccount_ok [OF assms(1), of "consumer_debit t uid" info s1]
    have m: "moved ''debit'' (consumer_debit t uid) (i64 (- stt_Cost t)) info s s1"
      "stt_Cost t \<le> books_of s (''user'', stt_UserID t, ''credits'')"
      using D 1 Inr by (simp_all add: consumer_debit_def)
    have "books_of s' = books_of s1" using l by (rule books_of_tables)
    then show ?thesis using debited True m by (simp add: moved_def)
  qed
qed

text \<open>Property C13.  Processing a task either leaves no trace in the usage table, the settlements
  and the ledger (the task was put back or dropped), or records exactly one usage row, with one
  pending settlement referring to it that is due seven days later, and does not put the task
  back; then the consumer's credits account is debited by exactly the recorded cost, which it
  covers, or not at all.\<close>

theorem task_charged_at_most_once:
  assumes "ledger_inv s" and "processSettlement tok t s = (r, s')"
  shows "(llm_usage_records s' = llm_usage_records s \<and> settlement_records s' = settlement_records s \<and>
      ledger_tables s' = ledger_tables s) \<or>
    (\<exists>t' uid i. (if needs_tokens t then \<exists>n. t' = tokenized n t else t' = t) \<and>
      llm_usage_records s' = llm_usage_records s @ [usage_row t' (clock s) uid] \<and>
      settlement_records s' = settlement_records s @ [pending_settlement t' uid (clock s) i] \<and>
      settlement_queue s' = settlement_queue s \<and>
      (ledger_tables s' = ledger_tables s \<or>
       0 < stt_Cost t' \<and> stt_Cost t' \<le> books_of s (''user'', stt_UserID t, ''credits'') \<and>
       books_of s' = book_entry (owner_entry (consumer_debit t' uid) (i64 (- stt_Cost t'))) (books_of s)))"
  using assms(2)
proof (cases rule: processSettlement_cases)
  case (back_off t' u f g)
  from preserves_run [OF requeue_keeps refl back_off(1)] show ?thesis by (simp add: ledger_tables_def)
next
  case (settled t' uid s1)
  have ok: "s1 = s\<lparr>script := script s1,
       seqs := (seqs s)(''llm_usage_records'' := uid, ''settlement_records'' := seqs s ''settlement_records'' + 1),
       llm_usage_records := llm_usage_records s @ [usage_row t' (clock s) uid],
       settlement_records := settlement_records s @
         [pending_settlement t' uid (clock s) (seqs s ''settlement_records'' + 1)]\<rparr>"
    by (rule record_usage_ok(2) [OF settled(2)])
  have t1: "llm_usage_records s1 = llm_usage_records s @ [usage_row t' (clock s) uid]"
    "settlement_records s1 = settlement_records s @ [pending_settlement t' uid (clock s) (seqs s ''settlement_records'' + 1)]"
    "ledger_tables s1 = ledger_tables s" by (subst ok, simp add: ledger_tables_def)+
  have inv1: "ledger_inv s1"
    by (rule ledger_inv_tables [OF assms(1) t1(3)]) (subst ok, simp)
  obtain c s2 where c: "charge t' uid s1 = (c, s2)" by (cases "charge t' uid s1")
  have u: "stt_UserID t' = stt_UserID t" using settled(1) by (auto simp: tokenized_def split: if_splits)
  have kept: "ledger_tables s' = ledger_tables s2 \<and> llm_usage_records s' = llm_usage_records s1 \<and>
      settlement_records s' = settlement_records s1"
  proof (cases c)
    case (Inl e)
    then have "s' = s2" using settled(3) c by (simp add: bindE_def)
    then show ?thesis using preserves_run [OF charge_keeps refl c] by simp
  next
    case (Inr v)
    then have "save_chat t' s2 = (r, s')" using settled(3) c by (simp add: bindE_def)
    from preserves_run [OF save_chat_keeps refl this] preserves_run [OF charge_keeps refl c]
    show ?thesis by simp
  qed
  have books: "books_of s' = books_of s2" "books_of s1 = books_of s"
    using kept t1(3) by (auto intro: books_of_tables)
  have "ledger_tables s2 = ledger_tables s1 \<or>
       0 < stt_Cost t' \<and> stt_Cost t' \<le> books_of s1 (''user'', stt_UserID t', ''credits'') \<and>
       books_of s2 = book_entry (owner_entry (consumer_debit t' uid) (i64 (- stt_Cost t'))) (books_of s1)"
    using charge_cases [OF inv1 c] by blast
  then have money: "ledger_tables s' = ledger_tables s \<or>
       0 < stt_Cost t' \<and> stt_Cost t' \<le> books_of s (''user'', stt_UserID t, ''credits'') \<and>
       books_of s' = book_entry (owner_entry (consumer_debit t' uid) (i64 (- stt_Cost t'))) (books_of s)"
    unfolding books u kept [THEN conjunct1] t1(3) .
  have rows: "llm_usage_records s' = llm_usage_records s @ [usage_row t' (clock s) uid]"
    "settlement_records s' = settlement_records s @ [pending_settlement t' uid (clock s) (seqs s ''settlement_records'' + 1)]"
    using kept t1(1,2) by simp_all
  show ?thesis
    by (intro disjI2 exI [of _ t'] exI [of _ uid] exI [of _ "seqs s ''settlement_records'' + 1"] conjI
        settled(1) rows settled(4) money)
qed

theorem task_charged_at_most_once_witness:
  "\<exists>r s' uid. processSettlement None demo_task (demo_llm []) = (r, s') \<and>
     llm_usage_records s' = [usage_row demo_task 9 uid]"
proof -
  obtain r s' where r: "processSettlement None demo_task (demo_llm []) = (r, s')"
    by (cases "processSettlement None demo_task (demo_llm [])")
  have inv: "ledger_inv (demo_llm [])"
    by (simp add: ledger_inv_def demo_llm_def acc_key_def journal_sum_def entries_of_def i64_small)
  have "llm_usage_records (snd (processSettlement None demo_task (demo_llm []))) \<noteq> []"
    by (simp add: run demo_task_def demo_llm_def zero_Usage_def)
  then have one: "llm_usage_records s' \<noteq> []" using r by simp
  have z: "llm_usage_records (demo_llm []) = []" "clock (demo_llm []) = 9" "\<not> needs_tokens demo_task"
    by (simp_all add: demo_llm_def demo_task_def needs_tokens_def zero_Usage_def)
  show ?thesis using task_charged_at_most_once [OF inv r] one z r by auto
qed

section \<open>Paying providers\<close>

lemma scan_calm: "calm s \<Longrightarrow> unlessNoRows (db_scan tbl wh) s = (Inr (find wh (tbl s)), s)"
  by (cases "find wh (tbl s)") (simp_all add: calm_def unlessNoRows_def db_scan_def)

lemma entry_account_calm:
  assumes "calm s"
  shows "\<exists>acc s1. entry_account e s = (Inr acc, s1) \<and> calm s1 \<and>
    (\<exists>a \<in> set (accounts s1). acc_id a = acc_id acc \<and> acc_version a = acc_version acc)"
proof -
  let ?P = "\<lambda>a. acc_owner_type a = ed_OwnerType e \<and> acc_owner_id a = ed_OwnerID e \<and> acc_asset a = ed_Asset e"
  have sc: "unlessNoRows (scan_account (ed_OwnerType e) (ed_OwnerID e) (ed_Asset e)) s = (Inr (find ?P (accounts s)), s)"
    unfolding scan_account_def by (rule scan_calm [OF assms])
  show ?thesis
  proof (cases "find ?P (accounts s)")
    case (Some a)
    have "a \<in> set (accounts s)" using find_Some_set [OF Some] by simp
    moreover have "entry_account e s = (Inr a, s)"
      using sc Some by (simp add: entry_account_def bindE_def wrapE_def returnE_def)
    ultimately show ?thesis using assms by blast
  next
    case None
    let ?i = "seqs s ''accounts'' + 1"
    let ?a = "new_account (ed_OwnerType e) (ed_OwnerID e) (ed_Asset e) (clock s) ?i"
    let ?s = "accounts_update (\<lambda>rs. rs @ [?a]) (s\<lparr>seqs := (seqs s)(''accounts'' := ?i)\<rparr>)"
    have "\<not> (\<exists>x \<in> set (accounts s). acc_clash x ?a)" using None
      by (auto simp: find_None_set acc_clash_def acc_key_def new_account_def)
    then have "insert_account (ed_OwnerType e) (ed_OwnerID e) (ed_Asset e) s = (Inr ?i, ?s)"
      using assms by (simp add: insert_account_def db_insert_def Let_def calm_def)
    then have "entry_account e s = (Inr ?a, ?s)"
      using sc None by (simp add: entry_account_def bindE_def wrapE_def returnE_def getsE_def)
    moreover have "calm ?s" using assms by (simp add: calm_def)
    ultimately show ?thesis by auto
  qed
qed

lemma one_sided_calm:
  assumes "calm s" and "\<exists>a \<in> set (accounts s). acc_id a = acc_id acc \<and> acc_version a = acc_version acc"
  shows "\<exists>info s'. one_sided ty inp acc d s = (Inr info, s')"
proof -
  have n: "script s = []" using assms by (simp add: calm_def)
  have "filter (\<lambda>a. acc_id a = acc_id acc \<and> acc_version a = acc_version acc) (accounts s) \<noteq> []"
    using assms(2) by (auto simp: filter_empty_conv)
  then show ?thesis using n
    by (simp add: one_sided_def insert_transaction_def apply_delta_def db_insert_def db_update_def bindE_def wrapE_def
        returnE_def Let_def Ledger.no_clash_def)
qed

lemma CreditAccount_calm:
  assumes "calm s"
  shows "\<exists>info s'. CreditAccount inp s = (Inr info, s')"
proof -
  obtain acc s1 where 1: "entry_account (owner_entry inp (ca_AmountMicro inp)) s = (Inr acc, s1)" "calm s1"
    "\<exists>a \<in> set (accounts s1). acc_id a = acc_id acc \<and> acc_version a = acc_version acc"
    using entry_account_calm [OF assms] by blast
  obtain info s2 where 2: "one_sided ''credit'' inp acc (ca_AmountMicro inp) s1 = (Inr info, s2)"
    using one_sided_calm [OF 1(2,3)] by blast
  have "transact (bindE (entry_account (owner_entry inp (ca_AmountMicro inp))) (\<lambda>acc.
       one_sided ''credit'' inp acc (ca_AmountMicro inp))) s = (Inr info, s2)"
    by (subst transact_calm [OF assms]) (intro calms, simp add: bindE_def 1(1) 2)
  then show ?thesis unfolding CreditAccount_def by blast
qed

definition paid :: "settlementRecord \<Rightarrow> books \<Rightarrow> books" where
  "paid row m = (if sr_ProviderRevenueCredits row > 0
     then book_entry (owner_entry (earnings_credit row) (sr_ProviderRevenueCredits row)) m else m)"

definition settled_at :: "int \<Rightarrow> settlementRecord \<Rightarrow> settlementRecord" where
  "settled_at now r = r\<lparr>sr_Status := ''settled'', sr_SettledAt := Some now\<rparr>"

definition pay_first :: "settlementRecord \<Rightarrow> ('z settle_db_scheme, bool) eff" where
  "pay_first row = (if sr_ProviderRevenueCredits row > 0
     then bindE (tryE (CreditAccount (earnings_credit row))) (\<lambda>r. returnE (case r of Inl _ \<Rightarrow> False | Inr _ \<Rightarrow> True))
     else returnE True)"

lemma pay_first_cases:
  fixes s :: "'z settle_db_scheme"
  assumes "ledger_inv s" and "pay_first row s = (r, s1)"
  obtains (paid) "r = Inr True" "books_of s1 = paid row (books_of s)" "ledger_inv s1"
      "settlement_records s1 = settlement_records s" "clock s1 = clock s"
  | (unpaid) f g where "r = Inr False" "s1 = s\<lparr>script := f, seqs := g\<rparr>" "\<not> calm s"
proof (cases "sr_ProviderRevenueCredits row > 0")
  case False
  then show ?thesis using assms that(1) by (auto simp: pay_first_def returnE_def paid_def)
next
  case True
  obtain c s2 where c: "CreditAccount (earnings_credit row) s = (c, s2)" by (cases "CreditAccount (earnings_credit row) s")
  have r: "s1 = s2" "r = Inr (case c of Inl _ \<Rightarrow> False | Inr _ \<Rightarrow> True)"
    using assms(2) True c by (auto simp: pay_first_def bindE_def tryE_def returnE_def)
  show ?thesis
  proof (cases c)
    case (Inl e)
    then obtain f g where "s2 = s\<lparr>script := f, seqs := g\<rparr>" using CreditAccount_error_tables c by blast
    moreover have "\<not> calm s" using CreditAccount_calm [of s "earnings_credit row"] c Inl by auto
    ultimately show ?thesis using that(2) r Inl by simp
  next
    case (Inr info)
    note k = CreditAccount_ok [OF assms(1), of "earnings_credit row" info s2]
    have "preserves (\<lambda>x. (settlement_records x, clock x) = (settlement_records s, clock s)) (CreditAccount (earnings_credit row))"
      by (intro CreditAccount_frame) (simp add: off_ledger_def untouched_def stable_def)
    from preserves_run [OF this refl c] show ?thesis
      using that(1) r Inr True k c by (simp add: moved_def paid_def earnings_credit_def)
  qed
qed

lemma payout_pay_first:
  "payout row = bindE (pay_first row) (\<lambda>go_on. if \<not> go_on then returnE False
     else bindE (getsE clock) (\<lambda>now.
       bindE (tryE (db_update settlement_records settlement_records_update (\<lambda>r. sr_ID r = sr_ID row) (settled_at now)))
         (\<lambda>r. returnE (case r of Inl _ \<Rightarrow> False | Inr _ \<Rightarrow> True))))"
  unfolding payout_def pay_first_def settled_at_def [abs_def] by (rule refl)

text \<open>A payout pays, then marks; it fails before the payment, or between the two.\<close>

lemma payout_cases:
  fixes s :: "'z settle_db_scheme"
  assumes inv: "ledger_inv s" and run: "payout row s = (r, s')"
  obtains (marked) "r = Inr True" "books_of s' = paid row (books_of s)"
      "settlement_records s' = map (\<lambda>x. if sr_ID x = sr_ID row then settled_at (clock s) x else x) (settlement_records s)"
  | (unmarked) "r = Inr False" "books_of s' = paid row (books_of s)" "settlement_records s' = settlement_records s" "\<not> calm s"
  | (unpaid) "r = Inr False" "books_of s' = books_of s" "settlement_records s' = settlement_records s" "\<not> calm s"
proof -
  obtain p s1 where p: "pay_first row s = (p, s1)" by (cases "pay_first row s")
  show ?thesis
    using inv p
  proof (cases rule: pay_first_cases)
    case paid
    define upd :: "('z settle_db_scheme, int) eff" where "upd = db_update settlement_records settlement_records_update
        (\<lambda>x. sr_ID x = sr_ID row) (settled_at (clock s))"
    obtain u s2 where u: "upd s1 = (u, s2)" by (cases "upd s1")
    have r: "r = Inr (case u of Inl _ \<Rightarrow> False | Inr _ \<Rightarrow> True)" "s' = s2"
      using run p paid u by (auto simp: payout_pay_first bindE_def getsE_def tryE_def returnE_def upd_def)
    have pf: "preserves calm (pay_first row :: ('z settle_db_scheme, bool) eff)"
      unfolding pay_first_def by (intro calms)
    have calm: "calm s1" if c: "calm s" by (rule preserves_run [OF pf c p])
    show ?thesis
    proof (cases u)
      case (Inl e)
      then have "s2 = s1\<lparr>script := tl (script s1)\<rparr>" "\<not> calm s1"
        using u by (auto simp: upd_def db_update_def db_call_def Let_def calm_def split: option.splits)
      then show ?thesis using that(2) r Inl paid calm by auto
    next
      case (Inr n)
      then have s2: "s2 = settlement_records_update (map (\<lambda>x. if sr_ID x = sr_ID row then settled_at (clock s) x else x))
          (s1\<lparr>script := tl (script s1)\<rparr>)"
        using u by (simp add: upd_def ok_simps)
      have "books_of s2 = books_of s1" by (rule books_of_cong) (simp add: s2)
      then show ?thesis using that(1) r Inr paid s2 by simp
    qed
  next
    case (unpaid f g)
    then have "r = Inr False" "s' = s1" using run p by (auto simp: payout_pay_first bindE_def returnE_def)
    moreover have "books_of s1 = books_of s" by (rule books_of_cong) (simp add: unpaid)
    ultimately show ?thesis using that(3) unpaid by simp
  qed
qed

lemma payout_inv:
  fixes s :: "'z settle_db_scheme"
  assumes "ledger_inv s" and "payout row s = (r, s')"
  shows "ledger_inv s'" and "calm s \<Longrightarrow> calm s'" and "clock s' = clock s"
proof -
  obtain p s1 where p: "pay_first row s = (p, s1)" by (cases "pay_first row s")
  have i1: "ledger_inv s1"
    using assms(1) p
  proof (cases rule: pay_first_cases)
    case (unpaid f g)
    have sq: "preserves (\<lambda>x. seqs s ''accounts'' \<le> seqs x ''accounts'') (pay_first row :: ('z settle_db_scheme, bool) eff)"
      unfolding pay_first_def by (intro pres CreditAccount_frame off_ledger_seq)
    have "seqs s ''accounts'' \<le> seqs s1 ''accounts''" by (rule preserves_run [OF sq order_refl p])
    then show ?thesis using unpaid assms(1) ledger_inv_tables [of s s1] by (simp add: ledger_tables_def)
  qed
  have mark: "preserves (\<lambda>x. ledger_inv x) (db_update settlement_records settlement_records_update wh f :: ('z settle_db_scheme, int) eff)" for wh f
    by (intro preserves_db_update_frame ledger_inv_stable frame)
  define rest :: "('z settle_db_scheme, bool) eff" where
    "rest = (case p of Inl e \<Rightarrow> throwE e | Inr go_on \<Rightarrow> if \<not> go_on then returnE False
     else bindE (getsE clock) (\<lambda>now.
       bindE (tryE (db_update settlement_records settlement_records_update (\<lambda>r. sr_ID r = sr_ID row) (settled_at now)))
         (\<lambda>r. returnE (case r of Inl _ \<Rightarrow> False | Inr _ \<Rightarrow> True))))"
  have rest: "rest s1 = (r, s')" using assms(2) p
    by (auto simp: payout_pay_first rest_def bindE_def throwE_def split: sum.splits)
  have pr: "preserves (\<lambda>x. ledger_inv x) rest" unfolding rest_def by (intro pres mark)
  show "ledger_inv s'" by (rule preserves_run [OF pr i1 rest])
  have c: "preserves calm (payout row :: ('z settle_db_scheme, bool) eff)"
    unfolding payout_def by (intro calms) (simp add: untouched_def calm_def)
  show "calm s'" if "calm s" by (rule preserves_run [OF c that assms(2)])
  have k: "preserves (\<lambda>x. clock x = clock s) (payout row :: ('z settle_db_scheme, bool) eff)"
    unfolding payout_def by (intro pres CreditAccount_frame) (auto simp: off_ledger_def untouched_def stable_def)
  show "clock s' = clock s" by (rule preserves_run [OF k refl assms(2)])
qed

lemma payouts_calm:
  fixes s :: "'z settle_db_scheme"
  assumes "ledger_inv s" and "calm s"
  shows "\<exists>s'. payouts k rows s = (Inr (k + int (length rows)), s') \<and> ledger_inv s' \<and> calm s' \<and>
    clock s' = clock s \<and> books_of s' = fold paid rows (books_of s) \<and>
    settlement_records s' =
      map (\<lambda>x. if sr_ID x \<in> sr_ID ` set rows then settled_at (clock s) x else x) (settlement_records s)"
  using assms
proof (induction rows arbitrary: k s)
  case Nil
  then show ?case by (simp add: returnE_def)
next
  case (Cons row rows)
  obtain r s1 where p: "payout row s = (r, s1)" by (cases "payout row s")
  have 1: "r = Inr True" "books_of s1 = paid row (books_of s)"
      "settlement_records s1 = map (\<lambda>x. if sr_ID x = sr_ID row then settled_at (clock s) x else x) (settlement_records s)"
    using Cons.prems(1) p by (cases rule: payout_cases; use Cons.prems(2) in simp)+
  note inv1 = payout_inv [OF Cons.prems(1) p]
  obtain s' where 2: "payouts (k + 1) rows s1 = (Inr (k + 1 + int (length rows)), s')" "ledger_inv s'" "calm s'"
    "clock s' = clock s1" "books_of s' = fold paid rows (books_of s1)" "settlement_records s' =
      map (\<lambda>x. if sr_ID x \<in> sr_ID ` set rows then settled_at (clock s1) x else x) (settlement_records s1)"
    using Cons.IH [OF inv1(1) inv1(2) [OF Cons.prems(2)]] by blast
  have "payouts k (row # rows) s = (Inr (k + int (length (row # rows))), s')"
    using p 1(1) 2(1) by (simp add: bindE_def add.assoc)
  moreover have "settlement_records s' =
      map (\<lambda>x. if sr_ID x \<in> sr_ID ` set (row # rows) then settled_at (clock s) x else x) (settlement_records s)"
    unfolding 2(6) 1(3) inv1(3) by (auto simp: settled_at_def)
  ultimately show ?case using 2 1(2) inv1(3) by auto
qed

text \<open>Paying out, when no statement fails: every pending record whose settlement date
  has come is settled and its provider's earnings account is credited with the recorded revenue,
  once per record and in order (a record without revenue is settled without a credit); every
  other record and every other balance stays, the count that is returned is the number of those
  records, the ledger invariant holds again, and a second pass right after it pays nobody.\<close>

theorem ProcessSettlements_pays_matured:
  fixes s :: "'z settle_db_scheme"
  assumes "ledger_inv s" and "script s = []" and "distinct (map sr_ID (settlement_records s))"
  shows "\<exists>s'. ProcessSettlements s = (Inr (int (length (filter (matured (clock s)) (settlement_records s)))), s') \<and>
    settlement_records s' = map (\<lambda>x. if matured (clock s) x then settled_at (clock s) x else x) (settlement_records s) \<and>
    books_of s' = fold paid (filter (matured (clock s)) (settlement_records s)) (books_of s) \<and>
    ledger_inv s' \<and> ProcessSettlements s' = (Inr 0, s')"
proof -
  let ?m = "filter (matured (clock s)) (settlement_records s)"
  have c: "calm s" using assms(2) by (simp add: calm_def)
  obtain s' where 1: "payouts 0 ?m s = (Inr (0 + int (length ?m)), s')" "ledger_inv s'" "calm s'"
    "clock s' = clock s" "books_of s' = fold paid ?m (books_of s)" "settlement_records s' =
      map (\<lambda>x. if sr_ID x \<in> sr_ID ` set ?m then settled_at (clock s) x else x) (settlement_records s)"
    using payouts_calm [OF assms(1) c, of 0 ?m] by blast
  have q: "ProcessSettlements t = payouts 0 (filter (matured (clock t)) (settlement_records t)) t" if "calm t" for t :: "'z settle_db_scheme"
    using that by (simp add: ProcessSettlements_def db_select_def bindE_def getsE_def wrapE_def calm_def)
  have "sr_ID x \<in> sr_ID ` set ?m \<longleftrightarrow> matured (clock s) x" if "x \<in> set (settlement_records s)" for x
    using that distinct_map_eq [OF assms(3)] by auto
  then have recs: "settlement_records s' = map (\<lambda>x. if matured (clock s) x then settled_at (clock s) x else x) (settlement_records s)"
    unfolding 1(6) by simp
  have "\<not> matured n (settled_at m x)" for n m x by (simp add: matured_def settled_at_def)
  then have "filter (matured (clock s')) (settlement_records s') = []"
    unfolding recs 1(4) by (auto simp: filter_empty_conv)
  then have "ProcessSettlements s' = (Inr 0, s')" using q [OF 1(3)] by (simp add: returnE_def)
  moreover have "ProcessSettlements s = (Inr (int (length ?m)), s')" using q [OF c] 1(1) by simp
  ultimately show ?thesis using 1(2,5) recs by blast
qed

definition demo_due :: "string option list \<Rightarrow> settle_db" where
  "demo_due sc = \<lparr>script = sc, seqs = (\<lambda>_. 10), norows = False, clock = 900000, system_configs = [],
     accounts = [new_account ''user'' 6 ''earnings'' 7 1], transactions = [], transaction_entries = [],
     settlement_records = [pending_settlement demo_task 3 0 1, pending_settlement demo_task 4 800000 2],
     api_keys = []\<rparr>"

theorem ProcessSettlements_pays_matured_witness:
  "\<exists>s'. ProcessSettlements (demo_due []) = (Inr 1, s') \<and> books_of s' (''user'', 6, ''earnings'') = 84 \<and>
     map sr_Status (settlement_records s') = [''settled'', ''pending'']"
proof -
  have inv: "ledger_inv (demo_due [])"
    by (simp add: ledger_inv_def demo_due_def acc_key_def journal_sum_def entries_of_def new_account_def)
  have ids: "script (demo_due []) = []" "distinct (map sr_ID (settlement_records (demo_due [])))"
    by (simp_all add: demo_due_def pending_settlement_def Let_def)
  have rev: "calcRevenue 120 7000 = 84" by (simp add: calcRevenue_def go_div_def run)
  have m: "filter (matured 900000) (settlement_records (demo_due [])) = [pending_settlement demo_task 3 0 1]"
    by (simp add: demo_due_def matured_def pending_settlement_def Let_def DefaultSettlementCycleDays_def)
  have b: "books_of (demo_due []) (''user'', 6, ''earnings'') = 0"
    by (simp add: books_of_def demo_due_def new_account_def acc_key_def)
  have "fold paid [pending_settlement demo_task 3 0 1] (books_of (demo_due [])) (''user'', 6, ''earnings'') = 84"
    using b by (simp add: paid_def pending_settlement_def Let_def demo_task_def rev earnings_credit_def owner_entry_def
        book_entry_def ed_key_def i64_small)
  moreover have "map sr_Status (map (\<lambda>x. if matured 900000 x then settled_at 900000 x else x)
      (settlement_records (demo_due []))) = [''settled'', ''pending'']"
    by (simp add: demo_due_def matured_def settled_at_def pending_settlement_def Let_def DefaultSettlementCycleDays_def)
  moreover have "clock (demo_due []) = 900000" by (simp add: demo_due_def)
  ultimately show ?thesis using ProcessSettlements_pays_matured [OF inv ids] m by auto
qed

text \<open>The payout is not idempotent under faults: when the statement that marks the record fails, the
  next pass pays the same record again.\<close>

lemma payout_repeated:
  "\<exists>s1 s2. ProcessSettlements (demo_due (replicate 7 None @ [Some ''timeout''])) = (Inr 0, s1) \<and>
     ProcessSettlements s1 = (Inr 1, s2) \<and> books_of s2 (''user'', 6, ''earnings'') = 168"
  by (simp add: run demo_due_def demo_task_def new_account_def eval_nat_numeral books_of_def acc_key_def go_div_def)

end
