(* ===== verification/HandlerClaims.thy ===== *)
theory HandlerClaims
  imports Handler QueueBooks
begin

text \<open>
  What the relay pipeline guarantees, for every adaptor and every upstream answer.
\<close>

section \<open>The cost of a request\<close>

text \<open>Prices and token counts of the size they have: products fit an int64.\<close>

definition priced :: "int \<Rightarrow> bool" where
  "priced p \<longleftrightarrow> 0 \<le> p \<and> p < 2 ^ 30"

lemma price_bounds:
  assumes "priced p" "priced t"
  shows "price p t = p * t div 1000" "0 \<le> price p t" "price p t < 2 ^ 60"
proof -
  have pt: "0 \<le> p * t" "p * t < 2 ^ 60"
    using assms mult_strict_mono [of p "2 ^ 30" t "2 ^ 30"] by (simp_all add: priced_def)
  then have "is_i64 (p * t)" by (simp add: is_i64_def)
  then have "go_div (i64 (p * t)) 1000 = p * t div 1000" using pt by (simp add: i64_id go_div_nonneg)
  then show v: "price p t = p * t div 1000"
    using assms by (auto simp: price_def priced_def)
  show "0 \<le> price p t" using pt v by (simp add: pos_imp_zdiv_nonneg_iff)
  show "price p t < 2 ^ 60" using pt v by simp
qed

lemma three_floors:
  fixes x y z :: int
  assumes "0 \<le> x div 1000" "0 \<le> y div 1000" "0 \<le> z div 1000"
  shows "0 \<le> x div 1000 + y div 1000 + z div 1000 \<and> 1000 * (x div 1000 + y div 1000 + z div 1000) \<le> x + y + z \<and>
    x + y + z < 1000 * (x div 1000 + y div 1000 + z div 1000) + 3000"
proof -
  have f: "1000 * (v div 1000) \<le> v" "v < 1000 * (v div 1000) + 1000" for v :: int
    using pos_mod_bound [of 1000 v] pos_mod_sign [of 1000 v] mult_div_mod_eq [of 1000 v] by linarith+
  have sums: "0 \<le> a + b + c \<and> 1000 * (a + b + c) \<le> x + y + z \<and> x + y + z < 1000 * (a + b + c) + 3000"
    if "1000 * a \<le> x" "x < 1000 * a + 1000" "1000 * b \<le> y" "y < 1000 * b + 1000" "1000 * c \<le> z"
      "z < 1000 * c + 1000" "0 \<le> a" "0 \<le> b" "0 \<le> c" for a b c :: int
    using that by simp
  show ?thesis by (rule sums [OF f f f assms])
qed

definition cached_tokens :: "Usage \<Rightarrow> int" where
  "cached_tokens u = (case us_PromptTokensDetails u of None \<Rightarrow> 0 | Some d \<Rightarrow> td_CachedTokens d)"

text \<open>Property C16.  The cost of a request, in micro-credits, is the price of its cached prompt
  tokens, its other prompt tokens and its output tokens, each per thousand and rounded down: it is
  never negative, never more than the exact price, and less than three micro-credits below it.
  When an upstream reports more cached tokens than prompt tokens, all prompt tokens are priced
  as misses.\<close>

theorem computeCost_exact:
  assumes "priced (us_PromptTokens u)" and "priced (us_CompletionTokens u)" and "priced (cached_tokens u)"
    and "priced (cc_CacheHitPricePer1K c)" and "priced (cc_CacheMissPricePer1K c)" and "priced (cc_OutputPricePer1K c)"
    and "exact = cc_CacheHitPricePer1K c * (if cached_tokens u \<le> us_PromptTokens u then cached_tokens u else 0) +
      cc_CacheMissPricePer1K c * (if cached_tokens u \<le> us_PromptTokens u then us_PromptTokens u - cached_tokens u else us_PromptTokens u) +
      cc_OutputPricePer1K c * us_CompletionTokens u"
  shows "0 \<le> computeCost (Some u) (Some c) \<and> 1000 * computeCost (Some u) (Some c) \<le> exact \<and>
    exact < 1000 * computeCost (Some u) (Some c) + 3000"
proof -
  define hit where "hit = (if cached_tokens u \<le> us_PromptTokens u then cached_tokens u else 0)"
  define miss where "miss = (if cached_tokens u \<le> us_PromptTokens u then us_PromptTokens u - cached_tokens u else us_PromptTokens u)"
  have pr: "priced hit" "priced miss" using assms(1,3) by (auto simp: hit_def miss_def priced_def)
  note h = price_bounds [OF assms(4) pr(1)] and m = price_bounds [OF assms(5) pr(2)]
    and out = price_bounds [OF assms(6,2)]
  have d: "i64 (us_PromptTokens u - cached_tokens u) = us_PromptTokens u - cached_tokens u"
    using assms(1,3) by (intro i64_id) (simp add: priced_def is_i64_def)
  have z: "(case us_PromptTokensDetails u of None \<Rightarrow> 0 | Some d \<Rightarrow> if td_CachedTokens d > 0 then td_CachedTokens d else 0)
      = cached_tokens u"
    using assms(3) by (auto simp: cached_tokens_def priced_def split: option.splits)
  have zero: "price 0 t = 0" for t by (simp add: price_def)
  have split: "(if i64 (us_PromptTokens u - cached_tokens u) < 0 then (0, us_PromptTokens u)
      else (cached_tokens u, i64 (us_PromptTokens u - cached_tokens u))) = (hit, miss)"
    by (simp add: d hit_def miss_def)
  have "computeCost (Some u) (Some c) = i64 (i64 (price (cc_CacheHitPricePer1K c) hit +
      price (cc_CacheMissPricePer1K c) miss) + price (cc_OutputPricePer1K c) (us_CompletionTokens u))"
    unfolding computeCost_def prod.case option.case Let_def z split by (simp add: zero)
  also have "\<dots> = price (cc_CacheHitPricePer1K c) hit + price (cc_CacheMissPricePer1K c) miss +
      price (cc_OutputPricePer1K c) (us_CompletionTokens u)"
    using h(2,3) m(2,3) out(2,3) by (simp add: i64_id is_i64_def)
  finally have cost: "computeCost (Some u) (Some c) = price (cc_CacheHitPricePer1K c) hit +
      price (cc_CacheMissPricePer1K c) miss + price (cc_OutputPricePer1K c) (us_CompletionTokens u)" .
  have ex: "exact = cc_CacheHitPricePer1K c * hit + cc_CacheMissPricePer1K c * miss + cc_OutputPricePer1K c * us_CompletionTokens u"
    unfolding assms(7) hit_def miss_def by simp
  show ?thesis unfolding cost ex h(1) m(1) out(1)
    by (rule three_floors) (use h(1,2) m(1,2) out(1,2) in simp_all)
qed

definition demo_usage :: Usage where
  "demo_usage = zero_Usage\<lparr>us_PromptTokens := 1001, us_CompletionTokens := 10, us_TotalTokens := 1011,
     us_PromptTokensDetails := Some (zero_details\<lparr>td_CachedTokens := 400\<rparr>)\<rparr>"

theorem computeCost_exact_witness:
  "computeCost (Some demo_usage) (Some (demo_cand 1 1 1 100)) = 360 \<and>
   (\<exists>exact. exact = 360500 \<and> 1000 * computeCost (Some demo_usage) (Some (demo_cand 1 1 1 100)) \<le> exact)"
proof -
  have v: "computeCost (Some demo_usage) (Some (demo_cand 1 1 1 100)) = 360"
    by (simp add: run demo_usage_def demo_cand_def zero_Usage_def zero_details_def go_div_def)
  show ?thesis using computeCost_exact [of demo_usage "demo_cand 1 1 1 100" 360500] v
    by (simp add: demo_usage_def demo_cand_def zero_Usage_def zero_details_def cached_tokens_def priced_def)
qed

section \<open>What the pipeline touches\<close>

lemma bindE_cases:
  assumes "bindE m k s = (r, s')"
  obtains (failed) e where "m s = (Inl e, s')" "r = Inl e"
  | (passed) a s1 where "m s = (Inr a, s1)" "k a s1 = (r, s')"
  using assms by (cases "m s"; cases "fst (m s)") (auto simp: bindE_def)

lemma reads_only_db_call [reads]: "reads_only m \<Longrightarrow> reads_only (db_call m)"
  unfolding reads_only_def db_call_def Let_def
  by (auto split: option.split) (metis script_script)

lemma GetMaxRetries_reads [reads]: "reads_only (GetMaxRetries toInt)"
  unfolding GetMaxRetries_def Let_def
  by (intro reads)

lemma checkBalance_reads [reads]: "reads_only (checkBalance u)"
  unfolding checkBalance_def scan_account_def by (intro reads)

lemma pick_candidate_reads [reads]: "reads_only (pick_candidate env req m)"
  unfolding pick_candidate_def resolveModelSpec_def loadActiveCandidates_def Let_def
  by (intro reads)

lemma prepare_reads [reads]: "reads_only (prepare env req b)"
  unfolding prepare_def Let_def by (intro reads)

text \<open>Apart from the store of affinities, sending changes nothing.\<close>

lemma preserves_send_loop:
  assumes "\<And>s g. I s \<Longrightarrow> I (s\<lparr>affinity := g\<rparr>)"
  shows "preserves I (send_loop p u mr n a le)"
proof (induction n arbitrary: a le)
  case (Suc n)
  have "preserves I (drop_affinity u m)" for m
    using assms by (simp add: preserves_def drop_affinity_def)
  then show ?case unfolding send_loop.simps Let_def by (intro pres Suc)
qed (simp add: pres)

lemma preserves_send:
  assumes "stable I" and "\<And>s g. I s \<Longrightarrow> I (s\<lparr>affinity := g\<rparr>)"
  shows "preserves I (send env req p)"
  unfolding send_def by (intro pres preserves_send_loop assms)

lemma preserves_finish:
  assumes "stable I" and "\<And>s g. I s \<Longrightarrow> I (s\<lparr>affinity := g\<rparr>)"
    and "\<And>c u b t. preserves I (enqueueSettlement req c u b t)"
    and "\<And>c n. preserves I (charge_quota c n)"
  shows "preserves I (finish req p info resp)" and "preserves I (finish_stream req p info resp)"
proof -
  have "preserves I (set_affinity u m ch)" for u m ch
    using assms(2) by (simp add: preserves_def set_affinity_def)
  note pr = this assms
  show "preserves I (finish req p info resp)" unfolding finish_def Let_def by (intro pres pr)
  show "preserves I (finish_stream req p info resp)" unfolding finish_stream_def Let_def by (intro pres pr)
qed

lemma preserves_Handle:
  assumes "stable I" and "\<And>s g. I s \<Longrightarrow> I (s\<lparr>affinity := g\<rparr>)"
    and "\<And>c u b t. preserves I (enqueueSettlement req c u b t)"
    and "\<And>c n. preserves I (charge_quota c n)"
  shows "preserves I (Handle env req)" and "preserves I (HandleStream env req)"
proof -
  have pr: "preserves I (prepare env req b)" for b by (rule reads_only_pres [OF assms(1) prepare_reads])
  show "preserves I (Handle env req)" unfolding Handle_def give_up_def
    by (intro pres preserves_send preserves_finish assms pr)
  show "preserves I (HandleStream env req)" unfolding HandleStream_def
    by (intro pres preserves_send preserves_finish assms pr)
qed

lemma enqueueSettlement_pres:
  assumes "stable I" and "\<And>s q. I s \<Longrightarrow> I (s\<lparr>settlement_queue := q\<rparr>)"
  shows "preserves I (enqueueSettlement req c u b t)"
proof -
  have "preserves I (EnqueueSettlement task)" for task
    unfolding EnqueueSettlement_def redis_Enqueue_def
    by (intro pres assms(1)) (simp add: preserves_def assms(2))
  then show ?thesis unfolding enqueueSettlement_def Let_def
    by (cases b) (auto intro!: pres)
qed

lemma charge_quota_pres:
  assumes "stable I" and "untouched I llm_model_keys_update" and "untouched I llm_model_key_models_update"
  shows "preserves I (charge_quota c n)"
  unfolding charge_quota_def updateQuotaSync_def by (intro pres preserves_db_update_frame assms)

section \<open>Quotas\<close>

definition quota_inv :: "'z llm_db_scheme \<Rightarrow> bool" where
  "quota_inv s \<longleftrightarrow>
     (\<forall>k \<in> set (llm_model_keys s). mk_QuotaLimitCredits k = 0 \<or> mk_QuotaUsedCredits k \<le> mk_QuotaLimitCredits k) \<and>
     (\<forall>b \<in> set (llm_model_key_models s). km_QuotaLimitCredits b = 0 \<or> km_QuotaUsedCredits b \<le> km_QuotaLimitCredits b)"

lemma quota_inv_stable: "stable quota_inv"
  by (simp add: stable_def quota_inv_def)

lemma quota_inv_frames [frame]:
  "untouched quota_inv accounts_update" "untouched quota_inv transactions_update"
  "untouched quota_inv transaction_entries_update" "untouched quota_inv api_keys_update"
  "untouched quota_inv llm_chat_logs_update" "untouched quota_inv llm_usage_records_update"
  "untouched quota_inv settlement_records_update"
  by (simp_all add: untouched_def quota_inv_def)

lemma quota_inv_sync: "preserves quota_inv (updateQuotaSync a b c)"
  unfolding updateQuotaSync_def
  by (intro pres quota_inv_stable) (auto simp: quota_inv_def within_quota_def)

lemma quota_inv_charge_quota: "preserves quota_inv (charge_quota c n)"
  unfolding charge_quota_def by (intro pres quota_inv_sync)

lemma quota_inv_record: "preserves quota_inv (record_usage t)"
  unfolding record_usage_def
  by (intro pres preserves_keeps preserves_db_insert_frame frame quota_inv_stable)

text \<open>Property C15.  Quotas hold: whatever the upstreams answer and whatever fails, a request, a
  streamed request and a round of a worker keep the used credits of every model key and of every
  binding with a limit at or below the limit.\<close>

theorem quota_never_exceeded:
  fixes req :: RelayRequest and tok :: tokenizer
  shows "preserves (quota_inv :: 'z gateway_db_scheme \<Rightarrow> bool) (Handle (env :: 'r relay_env) req) \<and>
    preserves (quota_inv :: 'z gateway_db_scheme \<Rightarrow> bool) (HandleStream env req) \<and>
    preserves (quota_inv :: 'z gateway_db_scheme \<Rightarrow> bool) (worker_round tok)"
proof (intro conjI)
  have aff: "quota_inv (s\<lparr>affinity := g\<rparr>)" if "quota_inv s" for s :: "'z gateway_db_scheme" and g
    using that by (simp add: quota_inv_def)
  have enq: "preserves (quota_inv :: 'z gateway_db_scheme \<Rightarrow> bool) (enqueueSettlement req c u b t)" for c u b t
    by (rule enqueueSettlement_pres [OF quota_inv_stable]) (simp add: quota_inv_def)
  show "preserves (quota_inv :: 'z gateway_db_scheme \<Rightarrow> bool) (Handle env req)"
    "preserves (quota_inv :: 'z gateway_db_scheme \<Rightarrow> bool) (HandleStream env req)"
    by (rule preserves_Handle [OF quota_inv_stable aff enq quota_inv_charge_quota]; assumption)+
  have deb: "off_ledger (quota_inv :: 'z gateway_db_scheme \<Rightarrow> bool)"
    by (simp add: off_ledger_def quota_inv_stable frame)
  show "preserves (quota_inv :: 'z gateway_db_scheme \<Rightarrow> bool) (worker_round tok)"
    unfolding worker_round_def processSettlement_def lazy_tokenize_def requeue_def EnqueueSettlement_def
      redis_Enqueue_def redis_Dequeue_def charge_def save_chat_def disableOverdraftKeys_def
    by (intro pres quota_inv_record quota_inv_stable DebitAccount_frame deb preserves_db_insert_frame
        preserves_db_update_frame quota_inv_sync frame)
      (auto simp: preserves_def Let_def quota_inv_def split: option.splits)
qed

section \<open>One request, one task\<close>

lemma enqueue_queue:
  fixes s :: "'z llm_db_scheme"
  assumes "enqueueSettlement req c u b t s = (r, s')"
  shows "settlement_queue s' = settlement_queue s \<or>
    (\<exists>body. settlement_queue s' = task_to_json (settlement_task req c u body t) # settlement_queue s \<and>
       ((\<exists>v. u = Some v \<and> us_TotalTokens v > 0) \<or> t \<noteq> []))"
proof -
  have E: "settlement_queue s1 = settlement_queue s \<or> settlement_queue s1 = task_to_json task # settlement_queue s"
    if "EnqueueSettlement task s = (x, s1)" for task x s1
    using that by (auto simp: EnqueueSettlement_def redis_Enqueue_def bindE_def tryE_def returnE_def db_call_def Let_def
        split: option.splits)
  show ?thesis
  proof (cases "\<not> (case u of None \<Rightarrow> False | Some u \<Rightarrow> us_TotalTokens u > 0) \<and> t = []")
    case True
    then show ?thesis using assms by (simp add: enqueueSettlement_def returnE_def)
  next
    case False
    then have has: "(\<exists>v. u = Some v \<and> us_TotalTokens v > 0) \<or> t \<noteq> []" by (auto split: option.splits)
    define m :: "('z llm_db_scheme, unit) eff" where "m = (case b of Doc j \<Rightarrow> EnqueueSettlement (settlement_task req c u (Some j) t)
               | Text tx \<Rightarrow> if tx = [] then EnqueueSettlement (settlement_task req c u None t) else returnE ())"
    have "enqueueSettlement req c u b t = bindE m (\<lambda>_. returnE (stt_Cost (settlement_task req c u None t)))"
      using False unfolding enqueueSettlement_def Let_def m_def by auto
    then have run: "bindE m (\<lambda>_. returnE (stt_Cost (settlement_task req c u None t))) s = (r, s')"
      using assms by simp
    then obtain x where x: "m s = (x, s')" by (cases rule: bindE_cases) (auto simp: returnE_def)
    have "\<exists>body. settlement_queue s' = settlement_queue s \<or>
        settlement_queue s' = task_to_json (settlement_task req c u body t) # settlement_queue s"
    proof (cases b)
      case (Doc j)
      then show ?thesis using x E unfolding m_def by auto
    next
      case (Text tx)
      then show ?thesis using x E unfolding m_def by (cases "tx = []") (auto simp: returnE_def)
    qed
    then show ?thesis using has by blast
  qed
qed

definition one_task :: "RelayRequest \<Rightarrow> 'z llm_db_scheme \<Rightarrow> 'z llm_db_scheme \<Rightarrow> bool" where
  "one_task req s s' \<longleftrightarrow> settlement_queue s' = settlement_queue s \<or>
     (\<exists>c u body t. settlement_queue s' = task_to_json (settlement_task req c u body t) # settlement_queue s \<and>
        ((\<exists>v. u = Some v \<and> us_TotalTokens v > 0) \<or> t \<noteq> []))"

lemma one_task_same: "settlement_queue s' = settlement_queue s \<Longrightarrow> one_task req s s'"
  by (simp add: one_task_def)

lemma one_task_trans:
  "settlement_queue s1 = settlement_queue s \<Longrightarrow> one_task req s1 s2 \<Longrightarrow> settlement_queue s3 = settlement_queue s2 \<Longrightarrow>
   one_task req s s3"
  unfolding one_task_def by metis

lemma enqueue_one_task: "enqueueSettlement req c u b t s = (r, s') \<Longrightarrow> one_task req s s'"
  unfolding one_task_def using enqueue_queue by blast

lemma quota_queue: "preserves (\<lambda>s. settlement_queue s = q) (charge_quota c n)"
  by (intro charge_quota_pres queue_stable frame)

lemma affinity_queue: "preserves (\<lambda>s. settlement_queue s = q) (set_affinity u m ch)"
  by (simp add: preserves_def set_affinity_def)

lemma finish_one_task:
  fixes s :: "'z gateway_db_scheme"
  assumes "finish req p info resp s = (r, s')"
  shows "one_task req s s'"
proof -
  define a where "a = ad_DoResponse (pr_Adaptor p) info resp"
  define bill :: "('z gateway_db_scheme, int) eff" where
    "bill = (if (if aw_Code a = 0 then 200 else aw_Code a) = 200 \<and> (case aw_Usage a of None \<Rightarrow> False | Some u \<Rightarrow> us_TotalTokens u > 0)
       then enqueueSettlement req (pr_Picked p) (aw_Usage a) (aw_Body a) [] else returnE 0)"
  have "\<exists>k. finish req p info resp = bindE bill k \<and>
      (\<forall>c q. preserves (\<lambda>s :: 'z gateway_db_scheme. settlement_queue s = q) (k c))"
    unfolding finish_def Let_def a_def [symmetric] bill_def [symmetric]
    by (intro exI conjI allI, rule refl) (intro pres quota_queue affinity_queue)
  then obtain k where k: "finish req p info resp = bindE bill k"
    "\<And>c q. preserves (\<lambda>s :: 'z gateway_db_scheme. settlement_queue s = q) (k c)" by blast
  have b: "one_task req s s1" if "bill s = (x, s1)" for x s1
    using that enqueue_one_task by (auto simp: bill_def returnE_def one_task_same split: if_splits)
  from assms [unfolded k(1)] show ?thesis
  proof (cases rule: bindE_cases)
    case (failed e)
    then show ?thesis using b by blast
  next
    case (passed c s1)
    have "settlement_queue s' = settlement_queue s1" by (rule preserves_run [OF k(2) refl passed(2)])
    then show ?thesis using one_task_trans [OF refl b [OF passed(1)]] by blast
  qed
qed

lemma finish_stream_one_task:
  fixes s :: "'z gateway_db_scheme"
  assumes "finish_stream req p info resp s = (r, s')"
  shows "one_task req s s'"
proof -
  define a where "a = ad_DoResponse (pr_Adaptor p) info resp"
  define body where "body = (if aw_ResponseText a \<noteq> []
            then Doc (JObj [(''content'', JStr (aw_ResponseText a)), (''is_stream'', JBool True)]) else Text [])"
  have "\<exists>k. finish_stream req p info resp =
      bindE (set_affinity (rq_UserID req) (pr_Code p) (cc_ChannelID (pr_Picked p)))
        (\<lambda>_. bindE (enqueueSettlement req (pr_Picked p) (aw_Usage a) body (aw_ResponseText a)) k) \<and>
      (\<forall>c q. preserves (\<lambda>s :: 'z gateway_db_scheme. settlement_queue s = q) (k c))"
    unfolding finish_stream_def Let_def a_def [symmetric] body_def [symmetric]
    by (intro exI conjI allI, rule refl) (intro pres quota_queue)
  then obtain k where k: "finish_stream req p info resp =
      bindE (set_affinity (rq_UserID req) (pr_Code p) (cc_ChannelID (pr_Picked p)))
        (\<lambda>_. bindE (enqueueSettlement req (pr_Picked p) (aw_Usage a) body (aw_ResponseText a)) k)"
    "\<And>c q. preserves (\<lambda>s :: 'z gateway_db_scheme. settlement_queue s = q) (k c)" by blast
  from assms [unfolded k(1)] show ?thesis
  proof (cases rule: bindE_cases)
    case (failed e)
    then show ?thesis by (simp add: set_affinity_def)
  next
    case (passed u s1)
    have q1: "settlement_queue s1 = settlement_queue s" by (rule preserves_run [OF affinity_queue refl passed(1)])
    from passed(2) show ?thesis
    proof (cases rule: bindE_cases)
      case (failed e)
      from enqueue_one_task [OF failed(1)] show ?thesis using one_task_trans [OF q1 _ refl] by blast
    next
      case (passed c s2)
      have q2: "settlement_queue s' = settlement_queue s2" by (rule preserves_run [OF k(2) refl passed(2)])
      from one_task_trans [OF q1 enqueue_one_task [OF passed(1)] q2] show ?thesis .
    qed
  qed
qed

lemma send_queue: "preserves (\<lambda>s. settlement_queue s = q) (send env req p)"
  by (rule preserves_send [OF queue_stable]) simp

lemma prepare_queue: "preserves (\<lambda>s. settlement_queue s = q) (prepare env req b)"
  by (rule reads_only_pres [OF queue_stable prepare_reads])

text \<open>Both handlers are a preparation, a loop of attempts, and what is done with the first response.\<close>

lemma pipeline_one_task:
  fixes s :: "'z gateway_db_scheme" and g :: "go_err option \<Rightarrow> 'r prepared \<Rightarrow> RelayInfo \<Rightarrow> 'r \<Rightarrow> ('z gateway_db_scheme, 'a) eff"
  assumes run: "bindE (prepare env req b) (\<lambda>p. bindE (send env req p) (\<lambda>(le, r). case r of
       None \<Rightarrow> (case le of None \<Rightarrow> returnE z | Some e \<Rightarrow> throwE e) | Some (info, resp) \<Rightarrow> g le p info resp)) s = (r, s')"
    and g: "\<And>le p info resp s1 x s2. g le p info resp s1 = (x, s2) \<Longrightarrow> one_task req s1 s2"
  shows "one_task req s s'"
  using run
proof (cases rule: bindE_cases)
  case (failed e)
  then show ?thesis using preserves_run [OF prepare_queue refl failed(1)] by (simp add: one_task_same)
next
  case (passed p s1)
  have q1: "settlement_queue s1 = settlement_queue s" by (rule preserves_run [OF prepare_queue refl passed(1)])
  from passed(2) show ?thesis
  proof (cases rule: bindE_cases)
    case (failed e)
    then show ?thesis using preserves_run [OF send_queue refl failed(1)] q1 by (simp add: one_task_same)
  next
    case (passed lr s2)
    have q2: "settlement_queue s2 = settlement_queue s" using preserves_run [OF send_queue refl passed(1)] q1 by simp
    have "one_task req s2 s'" using passed(2) g
      by (cases lr) (auto simp: returnE_def throwE_def one_task_same split: option.splits prod.splits)
    then show ?thesis using one_task_trans [OF q2 _ refl] by blast
  qed
qed

lemma Handle_one_task: "Handle env req s = (r, s') \<Longrightarrow> one_task req s s'"
  unfolding Handle_def give_up_def
  by (erule pipeline_one_task [where g = "\<lambda>le p info resp. if rq_IsStream req
      then (case le of None \<Rightarrow> returnE None | Some e \<Rightarrow> throwE e) else finish req p info resp"])
    (auto simp: returnE_def throwE_def one_task_same dest: finish_one_task split: if_splits option.splits)

lemma HandleStream_one_task: "HandleStream env req s = (r, s') \<Longrightarrow> one_task req s s'"
  unfolding HandleStream_def
  by (erule pipeline_one_task [where g = "\<lambda>_. finish_stream req"]) (rule finish_stream_one_task)

text \<open>The tables a request must not touch.\<close>

definition money :: "'z llm_db_scheme \<Rightarrow> (account list \<times> transaction list \<times> entry list) \<times> settlementRecord list \<times> usageRecord list" where
  "money s = (ledger_tables s, settlement_records s, llm_usage_records s)"

lemma money_kept:
  fixes x :: "(account list \<times> transaction list \<times> entry list) \<times> settlementRecord list \<times> usageRecord list"
  shows "preserves (\<lambda>s :: 'z gateway_db_scheme. money s = x) (Handle env req)"
    and "preserves (\<lambda>s :: 'z gateway_db_scheme. money s = x) (HandleStream env req)"
proof -
  have st: "stable (\<lambda>s :: 'z gateway_db_scheme. money s = x)" by (simp add: stable_def money_def ledger_tables_def)
  have aff: "money (s\<lparr>affinity := g\<rparr>) = x" if "money s = x" for s :: "'z gateway_db_scheme" and g
    using that by (simp add: money_def ledger_tables_def)
  have enq: "preserves (\<lambda>s :: 'z gateway_db_scheme. money s = x) (enqueueSettlement req c u b t)" for c u b t
    by (rule enqueueSettlement_pres [OF st]) (simp add: money_def ledger_tables_def)
  have quo: "preserves (\<lambda>s :: 'z gateway_db_scheme. money s = x) (charge_quota c n)" for c n
    by (rule charge_quota_pres [OF st]) (simp_all add: untouched_def money_def ledger_tables_def)
  show "preserves (\<lambda>s :: 'z gateway_db_scheme. money s = x) (Handle env req)"
    by (rule preserves_Handle(1) [OF st aff enq quo])
  show "preserves (\<lambda>s :: 'z gateway_db_scheme. money s = x) (HandleStream env req)"
    by (rule preserves_Handle(2) [OF st aff enq quo])
qed

lemma settlement_task_facts:
  "stt_UserID (settlement_task req c u b t) = rq_UserID req"
  "stt_ApiKeyID (settlement_task req c u b t) = rq_ApiKeyID req"
  "stt_RequestID (settlement_task req c u b t) = rq_RequestID req"
  "stt_RetryCount (settlement_task req c u b t) = 0"
  "stt_Usage (settlement_task req c u b t) = u"
  "stt_ModelKeyID (settlement_task req c u b t) = cc_ModelKeyID c"
  "stt_ProviderUserID (settlement_task req c u b t) = cc_ProviderUserID c"
  "\<exists>v. u = Some v \<and> us_TotalTokens v > 0 \<Longrightarrow> stt_Cost (settlement_task req c u b t) = computeCost u (Some c)"
  "\<not> (\<exists>v. u = Some v \<and> us_TotalTokens v > 0) \<Longrightarrow>
     stt_Cost (settlement_task req c u b t) = 0 \<and> stt_ResponseText (settlement_task req c u b t) = t"
  by (auto simp: settlement_task_def Let_def split: option.splits)

lemma relay_one_task:
  fixes s :: "'z gateway_db_scheme"
  assumes "Handle env req s = (r, s') \<or> HandleStream env req s = (r', s')"
  shows "accounts s' = accounts s \<and> transaction_entries s' = transaction_entries s \<and>
    settlement_records s' = settlement_records s \<and> llm_usage_records s' = llm_usage_records s \<and>
    (settlement_queue s' = settlement_queue s \<or>
     (\<exists>task c. settlement_queue s' = task_to_json task # settlement_queue s \<and>
        stt_UserID task = rq_UserID req \<and> stt_ApiKeyID task = rq_ApiKeyID req \<and>
        stt_RequestID task = rq_RequestID req \<and> stt_RetryCount task = 0 \<and>
        stt_ModelKeyID task = cc_ModelKeyID c \<and> stt_ProviderUserID task = cc_ProviderUserID c \<and>
        (stt_Cost task = computeCost (stt_Usage task) (Some c) \<or>
         stt_Cost task = 0 \<and> stt_ResponseText task \<noteq> [])))"
proof -
  have "money s' = money s"
    using assms preserves_run [OF money_kept(1) refl] preserves_run [OF money_kept(2) refl] by blast
  moreover have "one_task req s s'" using assms Handle_one_task HandleStream_one_task by blast
  then consider "settlement_queue s' = settlement_queue s"
    | c u b t where "settlement_queue s' = task_to_json (settlement_task req c u b t) # settlement_queue s"
      "(\<exists>v. u = Some v \<and> us_TotalTokens v > 0) \<or> t \<noteq> []"
    unfolding one_task_def by blast
  then have "settlement_queue s' = settlement_queue s \<or>
     (\<exists>task c. settlement_queue s' = task_to_json task # settlement_queue s \<and>
        stt_UserID task = rq_UserID req \<and> stt_ApiKeyID task = rq_ApiKeyID req \<and>
        stt_RequestID task = rq_RequestID req \<and> stt_RetryCount task = 0 \<and>
        stt_ModelKeyID task = cc_ModelKeyID c \<and> stt_ProviderUserID task = cc_ProviderUserID c \<and>
        (stt_Cost task = computeCost (stt_Usage task) (Some c) \<or>
         stt_Cost task = 0 \<and> stt_ResponseText task \<noteq> []))"
  proof cases
    case 2
    let ?t = "settlement_task req c u b t"
    have "stt_Cost ?t = computeCost (stt_Usage ?t) (Some c) \<or> stt_Cost ?t = 0 \<and> stt_ResponseText ?t \<noteq> []"
    proof (cases "\<exists>v. u = Some v \<and> us_TotalTokens v > 0")
      case True
      then show ?thesis using settlement_task_facts(8) [OF True] by (simp add: settlement_task_facts(5))
    next
      case False
      then have "t \<noteq> []" using 2(2) by blast
      then show ?thesis using settlement_task_facts(9) [OF False, where req = req and c = c and b = b and t = t] by simp
    qed
    then show ?thesis
      by (intro disjI2 exI [of _ ?t] exI [of _ c]) (simp add: 2(1) settlement_task_facts(1-7))
  qed simp
  ultimately show ?thesis by (simp add: money_def ledger_tables_def)
qed

text \<open>Property C14.  A request, streamed or not, moves no money and writes no usage record by
  itself, however often it is retried: it leaves at most one new document in the settlement queue,
  the task of the requesting user and key for the provider of the picked candidate, never retried
  before, whose cost is that of the usage the upstream reported, or which carries the text of the
  answer so that a worker can count its tokens.\<close>

theorem relay_queues_at_most_one_task:
  fixes s :: "'z gateway_db_scheme"
  assumes "Handle env req s = (r, s') \<or> HandleStream env req s = (r', s')"
  shows "accounts s' = accounts s \<and> transaction_entries s' = transaction_entries s \<and>
    settlement_records s' = settlement_records s \<and> llm_usage_records s' = llm_usage_records s \<and>
    (settlement_queue s' = settlement_queue s \<or>
     (\<exists>task c. settlement_queue s' = task_to_json task # settlement_queue s \<and>
        stt_UserID task = rq_UserID req \<and> stt_ApiKeyID task = rq_ApiKeyID req \<and>
        stt_RequestID task = rq_RequestID req \<and> stt_RetryCount task = 0 \<and>
        stt_ModelKeyID task = cc_ModelKeyID c \<and> stt_ProviderUserID task = cc_ProviderUserID c \<and>
        (stt_Cost task = computeCost (stt_Usage task) (Some c) \<or>
         stt_Cost task = 0 \<and> stt_ResponseText task \<noteq> [])))"
  by (rule relay_one_task [OF assms])

definition demo_gw :: "int \<Rightarrow> gateway_db" where
  "demo_gw balance = \<lparr>script = [], seqs = (\<lambda>_. 10), norows = False, clock = 9, system_configs = [],
     accounts = [\<lparr>acc_id = 1, acc_owner_type = ''user'', acc_owner_id = 5, acc_asset = ''credits'',
        acc_balance_micro = balance, acc_version = 1, acc_created_at = 7\<rparr>],
     transactions = [], transaction_entries = [], settlement_records = [], api_keys = [],
     llm_channels = [\<lparr>ch_ID = 1, ch_Code = ''c'', ch_Name = ''c'', ch_Description = [],
        ch_ProtocolsJson = Some (JObj [(''openai-compatible'', JObj [(''base_url'', JStr ''u'')])]),
        ch_Status = ''active'', ch_SourceType = [], ch_CreatedByUserID = 6, ch_ReviewedByUserID = 1,
        ch_ReviewedAt = None, ch_ReviewNote = [], ch_Priority = 1, ch_Weight = 1, ch_CreatedAt = 0, ch_UpdatedAt = 0\<rparr>],
     llm_model_specs = [\<lparr>ms_ID = 1, ms_DeveloperName = [], ms_ModelName = ''m'', ms_ModelCode = ''m'',
        ms_DisplayName = [], ms_ModelFamily = [], ms_Description = [], ms_CapabilitiesJson = None,
        ms_ContextWindow = 0, ms_MaxInputTokens = 0, ms_MaxOutputTokens = 0, ms_SupportsStream = True,
        ms_SupportsTools = True, ms_SupportsVision = True, ms_SupportsJsonMode = True, ms_SupportsReasoning = True,
        ms_SupportsLogprobs = True, ms_SupportedParamsJson = None, ms_DefaultParamsJson = None,
        ms_ParamLimitsJson = None, ms_SourceType = [], ms_CreatedByUserID = 6, ms_Status = ''active'',
        ms_ReviewedByUserID = 1, ms_ReviewedAt = None, ms_ReviewNote = [], ms_CreatedAt = 0, ms_UpdatedAt = 0\<rparr>],
     llm_model_keys = [\<lparr>mk_ID = 2, mk_ProviderUserID = 6, mk_ChannelID = 1, mk_Name = [], mk_KeyEncrypted = ''k'',
        mk_KeyMasked = [], mk_QuotaLimitCredits = 0, mk_QuotaUsedCredits = 0, mk_Status = ''active'',
        mk_LastTestAt = None, mk_LastTestStatus = [], mk_LastTestError = [], mk_TestAttempts = 0,
        mk_CreatedAt = 0, mk_UpdatedAt = 0\<rparr>],
     llm_model_key_models = [\<lparr>km_ID = 3, km_ModelKeyID = 2, km_ModelSpecID = 1, km_UpstreamModelName = ''m'',
        km_QuotaLimitCredits = 0, km_QuotaUsedCredits = 0, km_ProviderShareBps = 7000, km_CacheHitPricePer1K = 100,
        km_CacheMissPricePer1K = 500, km_OutputPricePer1K = 2000, km_Status = ''active'', km_TestAttempts = 0,
        km_LastTestAt = None, km_LastTestStatus = [], km_LastTestError = [], km_NextTestAt = None,
        km_ConsecutiveFailures = 0, km_LastErrorCode = [], km_LastErrorMessage = [], km_CreatedAt = 0,
        km_UpdatedAt = 0\<rparr>],
     llm_model_prices = [], llm_usage_records = [], llm_chat_logs = [], provider_settings = [],
     settlement_queue = [], affinity = NewAffinityStore\<rparr>"

definition demo_env :: "unit relay_env" where
  "demo_env = \<lparr>en_srt = sort_key cc_Priority, en_rnd = (\<lambda>_. 0), en_pick = hd, en_toInt = (\<lambda>_. 3), en_decrypt = Inr,
     en_impl = (\<lambda>_. \<lparr>ad_ConvertRequest = (\<lambda>_ b. Inr (BytesReader (Doc b))), ad_DoRequest = (\<lambda>_ _. Inr ()),
       ad_DoResponse = (\<lambda>_ _. \<lparr>aw_Usage = Some demo_usage, aw_Err = None, aw_Code = 0, aw_Body = Doc (JObj []),
         aw_Headers = [], aw_ResponseText = []\<rparr>)\<rparr>)\<rparr>"

definition demo_req :: RelayRequest where
  "demo_req = \<lparr>rq_UserID = 5, rq_ApiKeyID = 1, rq_RequestID = ''r'', rq_Path = ''/v1/chat/completions'',
     rq_RawBody = Some (JObj [(''model'', JStr ''m'')]), rq_IsStream = False, rq_Capability = ''chat''\<rparr>"

lemmas gw_defs = demo_gw_def demo_env_def demo_req_def demo_usage_def zero_Usage_def zero_details_def

lemma demo_pick:
  "\<exists>c. pick_candidate demo_env demo_req ''m'' (demo_gw 1000) = (Inr (''m'', c), demo_gw 1000) \<and> cc_KeyModelID c = 3"
  by (simp add: run gw_defs map_filter_simps)

lemma demo_handle: "length (settlement_queue (snd (Handle demo_env demo_req (demo_gw 1000)))) = 1"
  by (simp add: run gw_defs map_filter_simps go_div_def eval_nat_numeral DefaultMaxRetries_def)

theorem relay_queues_at_most_one_task_witness:
  "\<exists>r s' task. Handle demo_env demo_req (demo_gw 1000) = (r, s') \<and>
     settlement_queue s' = [task_to_json task] \<and> stt_UserID task = 5"
proof -
  obtain r s' where h: "Handle demo_env demo_req (demo_gw 1000) = (r, s')" "length (settlement_queue s') = 1"
    using demo_handle by (cases "Handle demo_env demo_req (demo_gw 1000)") auto
  have "settlement_queue (demo_gw 1000) = []" "rq_UserID demo_req = 5" by (simp_all add: gw_defs)
  then show ?thesis using relay_queues_at_most_one_task [of demo_env demo_req "demo_gw 1000" r s'] h by auto
qed

section \<open>Who may use which key\<close>

lemma checkBalance_poor:
  fixes s :: "'z gateway_db_scheme"
  assumes "books_of s (''user'', u, ''credits'') \<le> 0"
  shows "\<exists>e f. checkBalance u s = (Inl e, s\<lparr>script := f\<rparr>)"
proof -
  have key: "(\<lambda>a. acc_key a = (''user'', u, ''credits'')) =
      (\<lambda>a. acc_owner_type a = ''user'' \<and> acc_owner_id a = u \<and> acc_asset a = ''credits'')"
    by (simp add: acc_key_def fun_eq_iff)
  show ?thesis using assms
    by (auto simp: books_of_def key checkBalance_def scan_account_def db_scan_def db_call_def bindE_def wrapE_def
        throwE_def Let_def split: option.splits)
qed

lemma pick_candidate_poor:
  fixes s :: "'z gateway_db_scheme"
  assumes "books_of s (''user'', rq_UserID req, ''credits'') \<le> 0"
  shows "\<exists>e f. pick_candidate env req m s = (Inl e, s\<lparr>script := f\<rparr>)"
  using checkBalance_poor [OF assms] by (auto simp: pick_candidate_def Let_def bindE_def)

lemma prepare_poor:
  fixes s :: "'z gateway_db_scheme"
  assumes "books_of s (''user'', rq_UserID req, ''credits'') \<le> 0"
  shows "\<exists>e f. prepare env req b s = (Inl e, s\<lparr>script := f\<rparr>)"
proof (cases "extractModel (rq_RawBody req)")
  case (Inl e)
  then have "prepare env req b s = (Inl e, s\<lparr>script := script s\<rparr>)" by (simp add: prepare_def bindE_def liftE_def)
  then show ?thesis by blast
next
  case (Inr m)
  obtain e f where "pick_candidate env req m s = (Inl e, s\<lparr>script := f\<rparr>)"
    using pick_candidate_poor [OF assms] by blast
  then have "prepare env req b s = (Inl e, s\<lparr>script := f\<rparr>)"
    using Inr by (simp add: prepare_def bindE_def liftE_def Let_def)
  then show ?thesis by blast
qed

lemma relay_poor:
  fixes s :: "'z gateway_db_scheme"
  assumes "books_of s (''user'', rq_UserID req, ''credits'') \<le> 0"
  shows "(\<exists>e f. Handle env req s = (Inl e, s\<lparr>script := f\<rparr>)) \<and>
    (\<exists>e f. HandleStream env req s = (Inl e, s\<lparr>script := f\<rparr>))"
  using prepare_poor [OF assms, of env "rq_IsStream req"] prepare_poor [OF assms, of env True]
  by (auto simp: Handle_def HandleStream_def bindE_def)

text \<open>A user without credits gets nothing: Handle and HandleStream answer with an
  error before anything is sent upstream, and no table, queue or affinity changes.\<close>

theorem relay_needs_credits:
  fixes s :: "'z gateway_db_scheme"
  assumes "books_of s (''user'', rq_UserID req, ''credits'') \<le> 0"
  shows "(\<exists>e f. Handle env req s = (Inl e, s\<lparr>script := f\<rparr>)) \<and>
    (\<exists>e f. HandleStream env req s = (Inl e, s\<lparr>script := f\<rparr>))"
  by (rule relay_poor [OF assms])

theorem relay_needs_credits_witness:
  "\<exists>e f. HandleStream demo_env demo_req (demo_gw 0) = (Inl e, (demo_gw 0)\<lparr>script := f\<rparr>)"
proof -
  have "books_of (demo_gw 0) (''user'', rq_UserID demo_req, ''credits'') \<le> 0"
    by (simp add: gw_defs books_of_def acc_key_def)
  from relay_needs_credits [OF this] show ?thesis by blast
qed

lemma join_script: "join_candidates i (s\<lparr>script := f\<rparr>) = join_candidates i s"
  by (simp add: join_candidates_def)

lemma join_candidates_mem:
  assumes "r \<in> set (join_candidates i s)"
  obtains km mk ch where "km \<in> set (llm_model_key_models s)" "mk \<in> set (llm_model_keys s)"
      "ch \<in> set (llm_channels s)" "r = candidate km mk ch"
      "km_ModelKeyID km = mk_ID mk" "mk_ChannelID mk = ch_ID ch" "km_ModelSpecID km = i"
      "km_Status km = ''active''" "mk_Status mk = ''active''" "ch_Status ch = ''active''"
  using assms by (auto simp: join_candidates_def split: if_splits)

lemma prefer_channel_subset: "set (prefer_channel hit cs) \<subseteq> set cs"
  by (auto simp: prefer_channel_def Let_def split: option.splits if_splits)

lemma map_filter_set: "y \<in> set (List.map_filter f xs) \<Longrightarrow> \<exists>x \<in> set xs. f x = Some y"
  by (induction xs) (auto split: option.splits)

lemma picked_key_source:
  fixes s :: "'z gateway_db_scheme"
  assumes "unstable_sort (en_srt env) cc_Priority"
    and "pick_candidate env req m s = (Inr (code, c), s')"
  shows "0 < books_of s (''user'', rq_UserID req, ''credits'') \<and> code = m \<and> cc_ProtocolKey c \<noteq> [] \<and>
    (\<exists>sp \<in> set (llm_model_specs s). \<exists>km \<in> set (llm_model_key_models s). \<exists>mk \<in> set (llm_model_keys s).
       \<exists>ch \<in> set (llm_channels s).
       ms_ModelCode sp = m \<and> ms_Status sp = ''active'' \<and> km_ModelSpecID km = ms_ID sp \<and>
       km_Status km = ''active'' \<and> mk_Status mk = ''active'' \<and> ch_Status ch = ''active'' \<and>
       km_ModelKeyID km = mk_ID mk \<and> mk_ChannelID mk = ch_ID ch \<and>
       (mk_QuotaLimitCredits mk > 0 \<longrightarrow> mk_QuotaUsedCredits mk < mk_QuotaLimitCredits mk) \<and>
       (km_QuotaLimitCredits km > 0 \<longrightarrow> km_QuotaUsedCredits km < km_QuotaLimitCredits km) \<and>
       cc_KeyModelID c = km_ID km \<and> cc_ModelKeyID c = mk_ID mk \<and> cc_ChannelID c = ch_ID ch \<and>
       cc_ProviderUserID c = mk_ProviderUserID mk \<and> cc_OutputPricePer1K c = km_OutputPricePer1K km \<and>
       cc_ApiKey c = mk_KeyEncrypted mk)"
proof -
  have rich: "0 < books_of s (''user'', rq_UserID req, ''credits'')"
  proof (rule ccontr)
    assume "\<not> ?thesis"
    then have "books_of s (''user'', rq_UserID req, ''credits'') \<le> 0" by simp
    then show False using pick_candidate_poor [of s req env m] assms(2) by auto
  qed
  let ?fmt = "detectInboundFormat (rq_RawBody req) (rq_Path req)"
  obtain s1 s2 spec rows hit s3 where 1: "checkBalance (rq_UserID req) s = (Inr (), s1)"
    and 2: "resolveModelSpec m s1 = (Inr (spec, code), s2)"
    and 3: "loadActiveCandidates spec s2 = (Inr rows, s3)"
    and 4: "Select (en_srt env) (en_rnd env) (prefer_channel hit (buildChannelCandidates (en_pick env) rows ?fmt)) = Some c"
    using assms(2) unfolding pick_candidate_def Let_def
    by (auto simp: ok_simps split: if_splits option.splits)
  have s1: "\<exists>f. s1 = s\<lparr>script := f\<rparr>" using reads_onlyD [OF checkBalance_reads 1] .
  obtain sp where sp: "sp \<in> set (llm_model_specs s)" "ms_ModelCode sp = m" "ms_Status sp = ''active''"
      "spec = ms_ID sp" "code = m" and s2: "\<exists>f. s2 = s\<lparr>script := f\<rparr>"
    using 2 s1 by (auto simp: resolveModelSpec_def ok_simps split: option.splits dest!: find_Some_set)
  have rows: "set rows \<subseteq> {r \<in> set (join_candidates spec s). quota_left r}"
    using 3 s2 by (auto simp: loadActiveCandidates_def ok_simps join_script)
  have "c \<in> set (List.map_filter (channelCandidate (en_pick env) ?fmt) rows)"
    using Select_mem [OF assms(1) 4] prefer_channel_subset unfolding buildChannelCandidates_def by blast
  from map_filter_set [OF this]
  obtain r where r: "r \<in> set rows" "channelCandidate (en_pick env) ?fmt r = Some c" by blast
  then have rj: "r \<in> set (join_candidates spec s)" "quota_left r" using rows by auto
  from join_candidates_mem [OF rj(1)]
  obtain km mk ch where row: "km \<in> set (llm_model_key_models s)" "mk \<in> set (llm_model_keys s)"
      "ch \<in> set (llm_channels s)" "r = candidate km mk ch"
      "km_ModelKeyID km = mk_ID mk" "mk_ChannelID mk = ch_ID ch" "km_ModelSpecID km = spec"
      "km_Status km = ''active''" "mk_Status mk = ''active''" "ch_Status ch = ''active''"
    by metis
  have "cc_ProtocolKey c \<noteq> [] \<and> cc_KeyModelID c = km_ID km \<and> cc_ModelKeyID c = mk_ID mk \<and> cc_ChannelID c = ch_ID ch \<and>
       cc_ProviderUserID c = mk_ProviderUserID mk \<and> cc_OutputPricePer1K c = km_OutputPricePer1K km \<and>
       cc_ApiKey c = mk_KeyEncrypted mk"
    using r(2) row(4,5,6) by (auto simp: channelCandidate_def candidate_def Let_def split: if_splits prod.splits)
  moreover have "(mk_QuotaLimitCredits mk > 0 \<longrightarrow> mk_QuotaUsedCredits mk < mk_QuotaLimitCredits mk) \<and>
       (km_QuotaLimitCredits km > 0 \<longrightarrow> km_QuotaUsedCredits km < km_QuotaLimitCredits km)"
    using rj(2) row(4) by (auto simp: quota_left_def candidate_def)
  ultimately show ?thesis using sp(2-5) row(5-10)
    by (intro conjI rich bexI [OF _ sp(1)] bexI [OF _ row(1)] bexI [OF _ row(2)] bexI [OF _ row(3)]) simp_all
qed

text \<open>The key a request is sent with is one it may use: the user has credits, and the
  picked candidate comes from an active binding of an active model with the requested code, under
  an active key and an active channel that speaks some protocol, neither the key nor the binding
  having used up its quota; it carries the channel, key, provider and prices of that binding.\<close>

theorem picked_key_is_usable:
  fixes s :: "'z gateway_db_scheme"
  assumes "unstable_sort (en_srt env) cc_Priority"
    and "pick_candidate env req m s = (Inr (code, c), s')"
  shows "0 < books_of s (''user'', rq_UserID req, ''credits'') \<and> code = m \<and> cc_ProtocolKey c \<noteq> [] \<and>
    (\<exists>sp \<in> set (llm_model_specs s). \<exists>km \<in> set (llm_model_key_models s). \<exists>mk \<in> set (llm_model_keys s).
       \<exists>ch \<in> set (llm_channels s).
       ms_ModelCode sp = m \<and> ms_Status sp = ''active'' \<and> km_ModelSpecID km = ms_ID sp \<and>
       km_Status km = ''active'' \<and> mk_Status mk = ''active'' \<and> ch_Status ch = ''active'' \<and>
       km_ModelKeyID km = mk_ID mk \<and> mk_ChannelID mk = ch_ID ch \<and>
       (mk_QuotaLimitCredits mk > 0 \<longrightarrow> mk_QuotaUsedCredits mk < mk_QuotaLimitCredits mk) \<and>
       (km_QuotaLimitCredits km > 0 \<longrightarrow> km_QuotaUsedCredits km < km_QuotaLimitCredits km) \<and>
       cc_KeyModelID c = km_ID km \<and> cc_ModelKeyID c = mk_ID mk \<and> cc_ChannelID c = ch_ID ch \<and>
       cc_ProviderUserID c = mk_ProviderUserID mk \<and> cc_OutputPricePer1K c = km_OutputPricePer1K km \<and>
       cc_ApiKey c = mk_KeyEncrypted mk)"
  by (rule picked_key_source [OF assms])

theorem picked_key_is_usable_witness:
  "\<exists>c s'. pick_candidate demo_env demo_req ''m'' (demo_gw 1000) = (Inr (''m'', c), s') \<and> cc_ProtocolKey c \<noteq> []"
proof -
  obtain c where c: "pick_candidate demo_env demo_req ''m'' (demo_gw 1000) = (Inr (''m'', c), demo_gw 1000)"
    using demo_pick by blast
  have "unstable_sort (en_srt demo_env) cc_Priority"
    using sk.unstable_sort_axioms by (simp add: demo_env_def)
  from picked_key_is_usable [OF this c] c show ?thesis by blast
qed

end
