(* ===== verification/PaymentProps.thy ===== *)
theory PaymentProps
  imports Payment
begin

text \<open>
  The life of a recharge order: what one notification does, and the invariant that ties the
  orders to the recharge records of the settlement service.
\<close>

section \<open>Recharges seen from outside\<close>

definition off_settlement :: "('z settle_db_scheme \<Rightarrow> bool) \<Rightarrow> bool" where
  "off_settlement P \<longleftrightarrow> off_ledger P \<and> untouched P settlement_records_update \<and> untouched P api_keys_update"

lemma off_settlementD: "off_settlement P \<Longrightarrow> off_ledger P" "off_settlement P \<Longrightarrow> stable P"
  "off_settlement P \<Longrightarrow> untouched P settlement_records_update" "off_settlement P \<Longrightarrow> untouched P api_keys_update"
  by (simp_all add: off_settlement_def off_ledger_def)

lemma recharge_tx_frame: "off_settlement P \<Longrightarrow> preserves P (recharge_tx inp)"
  unfolding recharge_tx_def
  by (intro pres preserves_keeps preserves_db_insert_frame preserves_db_update_frame) (simp_all add: off_settlementD)

lemma CreateRecharge_frame: "off_settlement P \<Longrightarrow> preserves P (CreateRecharge inp)"
  unfolding CreateRecharge_def by (intro pres recharge_tx_frame) (simp_all add: off_settlementD)

lemma RechargeCredits_frame: "off_settlement P \<Longrightarrow> preserves P (RechargeCredits u n rt ri)"
  unfolding RechargeCredits_def
  by (intro pres CreateRecharge_frame) (simp_all add: off_settlementD)

lemma RechargeCredits_settle_inv: "preserves settle_inv (RechargeCredits u n rt ri)"
  unfolding RechargeCredits_def by (intro pres CreateRecharge_settle_inv RestoreOverdraftKeys_settle_inv)

lemma RestoreOverdraftKeys_records: "RestoreOverdraftKeys u s = (r, s') \<Longrightarrow> settlement_records s' = settlement_records s"
  by (rule preserves_eq [where T = settlement_records and m = "RestoreOverdraftKeys u" and s = s])
    (intro pres, simp_all add: stable_def untouched_def)

text \<open>A recharge adds at most one record, the one of its reference; when it succeeds the
  record is there.\<close>

definition recharged :: "int \<Rightarrow> string \<Rightarrow> int \<Rightarrow> settlementRecord \<Rightarrow> bool" where
  "recharged u rt ri rec \<longleftrightarrow> sr_RefType rec = rt \<and> sr_RefID rec = ri \<and> sr_ConsumerUserID rec = u \<and>
     sr_ProductType rec = ''recharge'' \<and> sr_Status rec = ''settled''"

lemma RechargeCredits_records:
  assumes inv: "settle_inv s" and run: "RechargeCredits u n rt ri s = (r, s')"
  obtains (kept) "settlement_records s' = settlement_records s"
      "\<forall>info. r = Inr info \<longrightarrow> (\<exists>rec \<in> set (settlement_records s). sr_RefType rec = rt \<and> sr_RefID rec = ri)"
  | (added) rec where "settlement_records s' = settlement_records s @ [rec]" "recharged u rt ri rec"
      "\<forall>x \<in> set (settlement_records s). \<not> (sr_RefType x = rt \<and> sr_RefID x = ri)"
proof (cases "n \<le> 0")
  case True
  then show ?thesis using run by (intro kept) (auto simp: RechargeCredits_def throwE_def)
next
  case False
  let ?inp = "\<lparr>rsi_UserID = u, rsi_RefType = rt, rsi_RefID = ri, rsi_RechargeCredits = n\<rparr>"
  obtain r1 s1 where 1: "CreateRecharge ?inp s = (r1, s1)" by (cases "CreateRecharge ?inp s")
  have same: "settlement_records s' = settlement_records s1 \<and> (\<forall>info. r = Inr info \<longrightarrow> (\<exists>i. r1 = Inr i))"
  proof (cases r1)
    case (Inl e)
    then show ?thesis using run 1 False by (auto simp add: RechargeCredits_def bindE_def wrapE_def)
  next
    case (Inr i)
    obtain r2 s2 where 2: "RestoreOverdraftKeys u s1 = (r2, s2)" by (cases "RestoreOverdraftKeys u s1")
    then have "s' = s2" using run 1 False Inr
      by (simp add: RechargeCredits_def bindE_def wrapE_def tryE_def returnE_def)
    then show ?thesis using RestoreOverdraftKeys_records [OF 2] Inr by simp
  qed
  show ?thesis
  proof (cases rule: CreateRecharge_cases [OF 1])
    case (1 f g)
    have "settlement_records s' = settlement_records s" using same 1(1) by simp
    then show ?thesis
      using same 1(3) by (intro kept) (auto simp: find_Some_iff, metis nth_mem)
  next
    case (2 s1' s2 t es i f info)
    have "settlement_records s1 = settlement_records s @ [link_tx t (recharge_record ?inp (clock s) i)]"
      by (rule recharge_posted_inv(2) [OF inv 2(2,3,4,5,6,7,8)])
    moreover have "recharged u rt ri (link_tx t (recharge_record ?inp (clock s) i))"
      by (simp add: link_tx_def recharge_record_def recharged_def)
    ultimately show ?thesis using added same 2(3) by simp
  qed
qed

section \<open>The invariant of the orders\<close>

definition is_pay_ref :: "string \<Rightarrow> bool" where
  "is_pay_ref rt \<longleftrightarrow> HasPrefix rt ''payment:''"

definition pay_rec :: "int \<Rightarrow> settlementRecord \<Rightarrow> bool" where
  "pay_rec i rec \<longleftrightarrow> is_pay_ref (sr_RefType rec) \<and> sr_RefID rec = i"

definition order_recs :: "orderRow list \<Rightarrow> settlementRecord list \<Rightarrow> bool" where
  "order_recs ords recs \<longleftrightarrow>
     (\<forall>rec \<in> set recs. is_pay_ref (sr_RefType rec) \<longrightarrow>
        (\<exists>x \<in> set ords. or_ID x = sr_RefID rec \<and> or_Status x \<noteq> ''pending'' \<and>
           sr_ConsumerUserID rec = or_UserID x \<and> sr_Status rec = ''settled'')) \<and>
     (\<forall>a \<in> set recs. \<forall>b \<in> set recs. is_pay_ref (sr_RefType a) \<longrightarrow> is_pay_ref (sr_RefType b) \<longrightarrow>
        sr_RefID a = sr_RefID b \<longrightarrow> a = b) \<and>
     (\<forall>x \<in> set ords. or_Status x = ''credited'' \<longrightarrow> (\<exists>rec \<in> set recs. pay_rec (or_ID x) rec))"

definition pay_inv :: "'z pay_db_scheme \<Rightarrow> bool" where
  "pay_inv s \<longleftrightarrow> settle_inv s \<and> distinct (map or_ID (payment_orders s)) \<and>
     (\<forall>x \<in> set (payment_orders s). or_ID x \<le> seqs s ''payment_orders'') \<and>
     order_recs (payment_orders s) (settlement_records s)"

lemma settle_inv_orders: "settle_inv (s\<lparr>payment_orders := f\<rparr>) = settle_inv s"
  by (simp add: settle_inv_def ledger_inv_def)

lemma pay_inv_stable: "stable pay_inv"
proof (rule stableI)
  fix s :: "'a pay_db_scheme" and f g
  assume inv: "pay_inv s" and g: "\<And>t. seqs s t \<le> g t"
  have "settle_inv (s\<lparr>script := f, seqs := g\<rparr>)"
    using inv g settle_inv_stable unfolding pay_inv_def stable_def by blast
  then show "pay_inv (s\<lparr>script := f, seqs := g\<rparr>)"
    using inv order_trans [OF _ g] by (auto simp: pay_inv_def)
qed

text \<open>An order is updated in place, by a function that keeps its id and its user.\<close>

definition mark_order :: "int \<Rightarrow> (orderRow \<Rightarrow> orderRow) \<Rightarrow> orderRow list \<Rightarrow> orderRow list" where
  "mark_order i f = map (\<lambda>r. if or_ID r = i then f r else r)"

lemma mark_order_inv:
  assumes inv: "pay_inv s" and f: "\<And>r. or_ID (f r) = or_ID r" "\<And>r. or_UserID (f r) = or_UserID r"
    and st: "\<And>r. or_Status (f r) = st" "st \<noteq> ''pending''"
    and cred: "st = ''credited'' \<Longrightarrow> \<exists>rec \<in> set (settlement_records s). pay_rec i rec"
  shows "pay_inv (s\<lparr>payment_orders := mark_order i f (payment_orders s)\<rparr>)"
proof -
  let ?o = "mark_order i f (payment_orders s)"
  have ids: "map or_ID ?o = map or_ID (payment_orders s)" by (simp add: mark_order_def f)
  have mem: "\<exists>x' \<in> set ?o. or_ID x' = or_ID x \<and> or_UserID x' = or_UserID x \<and> or_Status x' \<noteq> ''pending''"
    if "x \<in> set (payment_orders s)" "or_Status x \<noteq> ''pending''" for x
    using that f st by (intro bexI [of _ "if or_ID x = i then f x else x"]) (auto simp: mark_order_def)
  have recs: "order_recs (payment_orders s) (settlement_records s)" using inv by (simp add: pay_inv_def)
  have cred_back: "\<exists>rec \<in> set (settlement_records s). pay_rec (or_ID x) rec"
    if x: "x \<in> set ?o" "or_Status x = ''credited''" for x
  proof -
    obtain y where y: "y \<in> set (payment_orders s)" "x = (if or_ID y = i then f y else y)"
      using x(1) by (auto simp: mark_order_def)
    show ?thesis
    proof (cases "or_ID y = i")
      case True
      then show ?thesis using y(2) x(2) st(1) [of y] cred f(1) [of y] by simp
    next
      case False
      then show ?thesis using y x(2) recs by (auto simp: order_recs_def)
    qed
  qed
  have "\<exists>x \<in> set ?o. or_ID x = sr_RefID rec \<and> or_Status x \<noteq> ''pending'' \<and>
           sr_ConsumerUserID rec = or_UserID x \<and> sr_Status rec = ''settled''"
    if rec: "rec \<in> set (settlement_records s)" "is_pay_ref (sr_RefType rec)" for rec
  proof -
    obtain x where x: "x \<in> set (payment_orders s)" "or_ID x = sr_RefID rec" "or_Status x \<noteq> ''pending''"
      "sr_ConsumerUserID rec = or_UserID x" "sr_Status rec = ''settled''"
      using recs rec by (auto simp: order_recs_def)
    from mem [OF x(1,3)] show ?thesis using x by auto
  qed
  then have "order_recs ?o (settlement_records s)"
    using recs cred_back unfolding order_recs_def by blast
  moreover have "\<forall>x \<in> set ?o. or_ID x \<le> seqs s ''payment_orders''"
    using inv f(1) by (auto simp: pay_inv_def mark_order_def)
  ultimately show ?thesis using inv ids by (simp add: pay_inv_def settle_inv_orders)
qed

lemma recharge_order_inv:
  assumes inv: "pay_inv s" and x: "x \<in> set (payment_orders s)" "or_Status x \<noteq> ''pending''"
    and none: "\<forall>rec \<in> set (settlement_records s). \<not> pay_rec (or_ID x) rec"
    and run: "RechargeCredits (or_UserID x) n (pay_ref c) (or_ID x) s = (r, s')"
  shows "pay_inv s'" and "payment_orders s' = payment_orders s"
    and "r = Inr info \<Longrightarrow> \<exists>rec \<in> set (settlement_records s'). pay_rec (or_ID x) rec"
proof -
  have si: "settle_inv s" using inv by (simp add: pay_inv_def)
  have si': "settle_inv s'" by (rule preserves_run [OF RechargeCredits_settle_inv si run])
  have ref: "is_pay_ref (pay_ref c)" by (simp add: is_pay_ref_def pay_ref_def HasPrefix_def)
  show same: "payment_orders s' = payment_orders s"
    by (rule preserves_eq [where T = payment_orders, OF RechargeCredits_frame run])
      (simp add: off_settlement_def off_ledger_def untouched_def stable_def)
  have ge: "seqs s ''payment_orders'' \<le> seqs s' ''payment_orders''"
    by (rule preserves_run [where I = "\<lambda>t. seqs s ''payment_orders'' \<le> seqs t ''payment_orders''",
          OF RechargeCredits_frame _ run])
      (auto simp: off_settlement_def off_ledger_def untouched_def intro: stable_seq_ge)
  have rec: "pay_inv s' \<and> (\<forall>info. r = Inr info \<longrightarrow> (\<exists>rec \<in> set (settlement_records s'). pay_rec (or_ID x) rec))"
  proof (cases rule: RechargeCredits_records [OF si run])
    case 1
    then show ?thesis using inv si' same ge none ref
      by (auto simp: pay_inv_def pay_rec_def intro: order_trans)
  next
    case (2 rec)
    have "order_recs (payment_orders s) (settlement_records s @ [rec])"
      using inv none 2(2) x ref unfolding order_recs_def pay_inv_def pay_rec_def recharged_def by auto
    then show ?thesis using inv si' same ge 2 ref
      by (auto simp: pay_inv_def pay_rec_def recharged_def intro: order_trans)
  qed
  show "pay_inv s'" using rec by blast
  show "r = Inr info \<Longrightarrow> \<exists>rec \<in> set (settlement_records s'). pay_rec (or_ID x) rec" using rec by blast
qed

section \<open>One notification\<close>

lemma db_update_error_state:
  "db_update tbl upd wh f s = (Inl e, s') \<Longrightarrow> s' = s\<lparr>script := tl (script s)\<rparr>"
  by (auto simp: db_update_def db_call_def Let_def split: option.splits)

lemma wrapE_error: "wrapE m x s = (Inl e, s') \<Longrightarrow> \<exists>e0. x s = (Inl e0, s')"
  by (auto simp: wrapE_def split: prod.splits sum.splits)

lemma mark_pending_none:
  assumes "pay_inv s" and "x \<in> set (payment_orders s)" "or_Status x = ''pending''"
    and "rec \<in> set (settlement_records s)"
  shows "\<not> pay_rec (or_ID x) rec"
proof
  assume "pay_rec (or_ID x) rec"
  then obtain y where "y \<in> set (payment_orders s)" "or_ID y = or_ID x" "or_Status y \<noteq> ''pending''"
    using assms(1,4) by (auto simp: pay_inv_def order_recs_def pay_rec_def)
  moreover have "distinct (map or_ID (payment_orders s))" using assms(1) by (simp add: pay_inv_def)
  ultimately show False using assms(2,3) by (metis distinct_map inj_onD)
qed

text \<open>A notification of a pending order, up to the point where the recharge returns: the order
  is marked paid first.\<close>

lemma confirmOrder_cases:
  assumes run: "confirmOrder no tn c raw s = (r, s')"
  obtains (untouched) f where "s' = s\<lparr>script := f\<rparr>"
      "r = Inr () \<longrightarrow> (\<exists>x \<in> set (payment_orders s). or_OrderNo x = no \<and> or_Status x \<noteq> ''pending'')"
  | (uncredited) x f e where "x \<in> set (payment_orders s)" "or_OrderNo x = no" "or_Status x = ''pending''"
      "RechargeCredits (or_UserID x) (or_AmountCredits x) (pay_ref c) (or_ID x)
         (s\<lparr>script := f, payment_orders := mark_order (or_ID x) (order_paid tn raw (clock s)) (payment_orders s)\<rparr>)
       = (Inl e, s')" "\<exists>e. r = Inl e"
  | (recharged) x f info s2 g where "x \<in> set (payment_orders s)" "or_OrderNo x = no" "or_Status x = ''pending''"
      "RechargeCredits (or_UserID x) (or_AmountCredits x) (pay_ref c) (or_ID x)
         (s\<lparr>script := f, payment_orders := mark_order (or_ID x) (order_paid tn raw (clock s)) (payment_orders s)\<rparr>)
       = (Inr info, s2)"
      "(\<exists>e. r = Inl e) \<and> s' = s2\<lparr>script := g\<rparr> \<or>
       r = Inr () \<and> s' = s2\<lparr>script := g,
         payment_orders := mark_order (or_ID x) (order_credited (clock s2)) (payment_orders s2)\<rparr>"
proof -
  obtain r0 s0 where 0: "db_scan payment_orders (\<lambda>r. or_OrderNo r = no) s = (r0, s0)"
    by (cases "db_scan payment_orders (\<lambda>r. or_OrderNo r = no) s")
  have s0: "s0 = s\<lparr>script := tl (script s)\<rparr>" using db_scan_read [OF 0] .
  show ?thesis
  proof (cases "\<exists>x. r0 = Inr (Some x) \<and> or_Status x = ''pending''")
    case False
    have "s' = s0" using run 0 False
      by (auto simp: confirmOrder_def bindE_def wrapE_def throwE_def returnE_def
          split: sum.splits option.splits if_splits)
    moreover have "\<exists>x \<in> set (payment_orders s). or_OrderNo x = no \<and> or_Status x \<noteq> ''pending''" if ok: "r = Inr ()"
    proof -
      obtain x where x: "r0 = Inr (Some x)" using run 0 ok
        by (auto simp: confirmOrder_def bindE_def wrapE_def throwE_def split: sum.splits option.splits)
      then have "find (\<lambda>r. or_OrderNo r = no) (payment_orders s) = Some x"
        using 0 by (auto simp: ok_simps)
      then show ?thesis using find_Some_set [of _ _ x] False x by blast
    qed
    ultimately show ?thesis using untouched s0 by blast
  next
    case True
    then obtain x where x: "r0 = Inr (Some x)" "or_Status x = ''pending''" by blast
    then have mem: "x \<in> set (payment_orders s)" "or_OrderNo x = no"
      using 0 find_Some_set [of "\<lambda>r. or_OrderNo r = no" "payment_orders s" x] by (auto simp: ok_simps)
    let ?up = "\<lambda>f. db_update payment_orders payment_orders_update (\<lambda>r. or_ID r = or_ID x) f"
    obtain r1 s1 where 1: "?up (order_paid tn raw (clock s)) s0 = (r1, s1)"
      by (cases "?up (order_paid tn raw (clock s)) s0")
    show ?thesis
    proof (cases r1)
      case (Inl e)
      have "s1 = s0\<lparr>script := tl (script s0)\<rparr>" using db_update_error_state 1 Inl by blast
      moreover have "s' = s1" "r \<noteq> Inr ()" using run 0 1 x Inl s0
        by (auto simp: confirmOrder_def bindE_def wrapE_def getsE_def)
      ultimately show ?thesis using untouched s0 by (metis script_script)
    next
      case (Inr n)
      let ?rc = "RechargeCredits (or_UserID x) (or_AmountCredits x) (pay_ref c) (or_ID x)"
      let ?s1 = "s\<lparr>script := tl (script s0), payment_orders :=
          mark_order (or_ID x) (order_paid tn raw (clock s)) (payment_orders s)\<rparr>"
      have s1: "s1 = ?s1" using 1 Inr s0 by (auto simp: ok_simps mark_order_def)
      obtain r2 s2 where 2: "?rc ?s1 = (r2, s2)" by (cases "?rc ?s1")
      show ?thesis
      proof (cases r2)
        case (Inl e)
        have "s' = s2" "\<exists>e. r = Inl e" using run 0 1 2 x Inl \<open>r1 = Inr n\<close> s0 s1
          by (auto simp: confirmOrder_def bindE_def wrapE_def getsE_def)
        then show ?thesis using uncredited mem x(2) 2 Inl by blast
      next
        case (Inr info)
        obtain r3 s3 where 3: "?up (order_credited (clock s2)) s2 = (r3, s3)"
          by (cases "?up (order_credited (clock s2)) s2")
        have r: "s' = s3" "(\<exists>e. r = Inl e) \<longleftrightarrow> (\<exists>e. r3 = Inl e)" using run 0 1 2 3 x Inr \<open>r1 = Inr n\<close> s0 s1
          by (auto simp: confirmOrder_def bindE_def wrapE_def getsE_def returnE_def split: sum.splits)
        have "(\<exists>e. r = Inl e) \<and> s' = s2\<lparr>script := tl (script s2)\<rparr> \<or> r = Inr () \<and> s' = s2\<lparr>script := tl (script s2),
            payment_orders := mark_order (or_ID x) (order_credited (clock s2)) (payment_orders s2)\<rparr>"
        proof (cases r3)
          case (Inl e)
          then show ?thesis using r db_update_error_state 3 by blast
        next
          case (Inr m)
          then have "s3 = s2\<lparr>script := tl (script s2),
            payment_orders := mark_order (or_ID x) (order_credited (clock s2)) (payment_orders s2)\<rparr>"
            using 3 by (simp add: ok_simps mark_order_def)
          then show ?thesis using r Inr by (cases r) auto
        qed
        then show ?thesis using recharged mem x(2) 2 Inr by blast
      qed
    qed
  qed
qed

lemma pay_inv_script: "pay_inv s \<Longrightarrow> pay_inv (s\<lparr>script := f\<rparr>)"
  by (rule stable_script [OF pay_inv_stable])

lemma order_paid_inv:
  assumes "pay_inv s"
  shows "pay_inv (s\<lparr>script := f, payment_orders := mark_order i (order_paid tn raw now) (payment_orders s)\<rparr>)"
  using mark_order_inv [OF pay_inv_script [OF assms, of f], of "order_paid tn raw now" "''paid''" i]
  by (simp add: order_paid_def)

lemma order_paid_member:
  "x \<in> set xs \<Longrightarrow> order_paid tn raw now x \<in> set (mark_order (or_ID x) (order_paid tn raw now) xs)"
  by (force simp: mark_order_def)

lemma confirmOrder_inv: "preserves pay_inv (confirmOrder no tn c raw)"
proof -
  have "pay_inv s'" if inv: "pay_inv s" and run: "confirmOrder no tn c raw s = (r, s')" for s :: "'a pay_db_scheme" and r s'
  proof -
    have step: "pay_inv s2 \<and> payment_orders s2 = mark_order (or_ID x) (order_paid tn raw (clock s)) (payment_orders s) \<and>
        (\<forall>info. r2 = Inr info \<longrightarrow> (\<exists>rec \<in> set (settlement_records s2). pay_rec (or_ID x) rec))"
      if x: "x \<in> set (payment_orders s)" "or_Status x = ''pending''"
        and rc: "RechargeCredits (or_UserID x) (or_AmountCredits x) (pay_ref c) (or_ID x)
         (s\<lparr>script := f, payment_orders := mark_order (or_ID x) (order_paid tn raw (clock s)) (payment_orders s)\<rparr>)
         = (r2, s2)" for x f r2 s2
    proof -
      let ?s1 = "s\<lparr>script := f, payment_orders := mark_order (or_ID x) (order_paid tn raw (clock s)) (payment_orders s)\<rparr>"
      let ?x = "order_paid tn raw (clock s) x"
      have inv1: "pay_inv ?s1" by (rule order_paid_inv [OF inv])
      have mem: "?x \<in> set (payment_orders ?s1)" using order_paid_member [OF x(1)] by simp
      have st: "or_Status ?x \<noteq> ''pending''" by (simp add: order_paid_def)
      have eqs: "or_ID ?x = or_ID x" "or_UserID ?x = or_UserID x" by (simp_all add: order_paid_def)
      have none: "\<forall>rec \<in> set (settlement_records ?s1). \<not> pay_rec (or_ID ?x) rec"
        using mark_pending_none [OF inv x] eqs by simp
      have rc': "RechargeCredits (or_UserID ?x) (or_AmountCredits x) (pay_ref c) (or_ID ?x) ?s1 = (r2, s2)"
        using rc eqs by simp
      note r = recharge_order_inv [OF inv1 mem st none rc']
      show ?thesis using r(1,2) r(3) eqs by auto
    qed
    show ?thesis
    proof (cases rule: confirmOrder_cases [OF run])
      case (1 f)
      then show ?thesis using inv pay_inv_script by blast
    next
      case (2 x f e)
      then show ?thesis using step by blast
    next
      case (3 x f info s2 g)
      note st = step [OF 3(1,3,4)]
      have "pay_inv (s2\<lparr>script := g, payment_orders := mark_order (or_ID x) (order_credited (clock s2)) (payment_orders s2)\<rparr>)"
        using mark_order_inv [OF pay_inv_script [of s2 g], of "order_credited (clock s2)" "''credited''" "or_ID x"] st
        by (simp add: order_credited_def)
      then show ?thesis using 3(5) st pay_inv_script by metis
    qed
  qed
  then show ?thesis unfolding preserves_def by (metis prod.collapse)
qed

lemma getChannel_reads [reads]: "reads_only (getChannel c)"
  unfolding getChannel_def by (intro reads)

lemma need_client_reads [reads]: "reads_only (need_client c)"
  unfolding need_client_def by (intro reads)

lemma HandleNotify_inv: "preserves pay_inv (HandleNotify c ali wx)"
  unfolding HandleNotify_def handleAlipayNotify_def handleWechatNotify_def need_client_def
  by (intro pres confirmOrder_inv reads_only_pres [OF pay_inv_stable] getChannel_reads)

lemma insert_order_inv:
  "preserves pay_inv (db_insert ''payment_orders'' payment_orders payment_orders_update or_clash
     (pending_order no u c n rate))"
proof (rule preserves_db_insert [OF pay_inv_stable])
  fix s :: "'a pay_db_scheme"
  let ?i = "seqs s ''payment_orders'' + 1"
  let ?g = "(seqs s)(''payment_orders'' := ?i)"
  let ?x = "pending_order no u c n rate (clock s) ?i"
  assume inv: "pay_inv s"
  have base: "pay_inv (s\<lparr>seqs := ?g\<rparr>)" by (rule stable_seqs [OF pay_inv_stable inv]) simp
  show "pay_inv (payment_orders_update (\<lambda>rs. rs @ [?x]) (s\<lparr>seqs := ?g\<rparr>))"
  proof -
    have "order_recs (payment_orders s @ [?x]) (settlement_records s)"
      using inv unfolding pay_inv_def order_recs_def by (auto simp: pending_order_def)
    moreover have "\<forall>x \<in> set (payment_orders s). or_ID x \<noteq> ?i" using inv by (force simp: pay_inv_def)
    ultimately show ?thesis using base inv
      by (auto simp: pay_inv_def pending_order_def settle_inv_def ledger_inv_def)
  qed
qed

end
