(* ===== verification/GatewayClaims.thy ===== *)
theory GatewayClaims
  imports HandlerClaims LlmRuntime PaymentProps QueueBooks
begin

text \<open>
  Administration and traffic together: every operation of the LLM service, a request, a streamed
  request, a worker's round and a payout as the steps of one system, and what the administration
  guarantees over all of its runs.
\<close>

section \<open>What traffic leaves alone\<close>

text \<open>Channels, model specifications and the owner and status of every key.\<close>

definition catalog :: "'z llm_db_scheme \<Rightarrow> channelRow list \<times> modelSpecRow list \<times> (int \<times> int \<times> string) list" where
  "catalog s = (llm_channels s, llm_model_specs s,
     map (\<lambda>k. (mk_ID k, mk_ProviderUserID k, mk_Status k)) (llm_model_keys s))"

lemma catalog_stable: "stable (\<lambda>s. catalog s = c)"
  by (simp add: stable_def catalog_def)

lemma catalog_frames [frame]:
  "untouched (\<lambda>s. catalog s = c) accounts_update" "untouched (\<lambda>s. catalog s = c) transactions_update"
  "untouched (\<lambda>s. catalog s = c) transaction_entries_update" "untouched (\<lambda>s. catalog s = c) api_keys_update"
  "untouched (\<lambda>s. catalog s = c) llm_chat_logs_update" "untouched (\<lambda>s. catalog s = c) llm_usage_records_update"
  "untouched (\<lambda>s. catalog s = c) settlement_records_update" "untouched (\<lambda>s. catalog s = c) llm_model_key_models_update"
  "untouched (\<lambda>s. catalog s = c) provider_settings_update"
  by (simp_all add: untouched_def catalog_def)

lemma catalog_off: "off_ledger (\<lambda>s. catalog s = c)"
  by (simp add: off_ledger_def catalog_stable frame)

lemma catalog_quota:
  "catalog s = c \<Longrightarrow> catalog (llm_model_keys_update (map (\<lambda>r. if wh r then r\<lparr>mk_QuotaUsedCredits := f r\<rparr> else r)) s) = c"
  by (auto simp: catalog_def)

lemma updateQuotaSync_catalog: "preserves (\<lambda>s. catalog s = c) (updateQuotaSync a b n)"
  unfolding updateQuotaSync_def
  by (intro pres catalog_stable preserves_db_update_frame frame catalog_quota)

lemma Handle_catalog:
  "preserves (\<lambda>s. catalog s = c) (Handle env req)" "preserves (\<lambda>s. catalog s = c) (HandleStream env req)"
proof -
  have ch: "preserves (\<lambda>s. catalog s = c) (charge_quota cd n)" for cd n
    unfolding charge_quota_def by (intro pres updateQuotaSync_catalog)
  have enq: "preserves (\<lambda>s. catalog s = c) (enqueueSettlement req cd u b t)" for cd u b t
    by (rule enqueueSettlement_pres [OF catalog_stable]) (simp add: catalog_def)
  have aff: "catalog (s\<lparr>affinity := g\<rparr>) = c" if "catalog s = c" for s :: "'z gateway_db_scheme" and g
    using that by (simp add: catalog_def)
  show "preserves (\<lambda>s. catalog s = c) (Handle env req)" "preserves (\<lambda>s. catalog s = c) (HandleStream env req)"
    by (rule preserves_Handle [OF catalog_stable aff enq ch]; assumption)+
qed

lemma record_usage_catalog: "preserves (\<lambda>s. catalog s = c) (record_usage t)"
  unfolding record_usage_def by (intro pres preserves_keeps preserves_db_insert_frame frame catalog_stable)

lemma worker_round_catalog: "preserves (\<lambda>s. catalog s = c) (worker_round tok)"
  unfolding worker_round_def processSettlement_def lazy_tokenize_def requeue_def EnqueueSettlement_def
    redis_Enqueue_def redis_Dequeue_def charge_def save_chat_def disableOverdraftKeys_def
  by (intro pres record_usage_catalog catalog_stable DebitAccount_frame catalog_off preserves_db_insert_frame
      preserves_db_update_frame updateQuotaSync_catalog frame)
    (auto simp: preserves_def Let_def catalog_def split: option.splits)

lemma SubmitAndSettle_frame: "off_settlement P \<Longrightarrow> preserves P (SubmitAndSettle inp)"
  unfolding SubmitAndSettle_def Submit_def Settle_def settle_read_def settle_tx_def mark_settled_def Let_def
  by (intro pres preserves_keeps preserves_db_insert_frame preserves_db_update_frame) (simp_all add: off_settlementD)

lemma settlement_frames:
  assumes "off_settlement P"
  shows "preserves P (Submit si)" "preserves P (Settle i)" "preserves P (CreateRecharge ri)" "preserves P (RestoreOverdraftKeys u)"
    "preserves P (CreditAccount ca)" "preserves P (DebitAccount ca)"
  unfolding Submit_def Settle_def settle_read_def settle_tx_def mark_settled_def CreateRecharge_def recharge_tx_def RestoreOverdraftKeys_def
    scan_account_def Let_def
  by (intro pres preserves_keeps preserves_db_insert_frame preserves_db_update_frame CreditAccount_frame DebitAccount_frame;
      simp add: assms off_settlementD)+

lemma EnsureAccount_frame: "off_settlement P \<Longrightarrow> preserves P (EnsureAccount ot oi as)"
  unfolding EnsureAccount_def insert_account_def
  by (intro pres preserves_db_insert_frame reads_only_pres [OF _ queryAccount_reads])
    (simp_all add: off_settlement_def off_ledger_def)

lemma catalog_off_settlement: "off_settlement (\<lambda>s. catalog s = c)"
  by (simp add: off_settlement_def catalog_off frame)

lemma ProcessSettlements_catalog: "preserves (\<lambda>s. catalog s = c) ProcessSettlements"
proof -
  have "preserves (\<lambda>s. catalog s = c) (payouts n rs)" for n rs
  proof (induction rs arbitrary: n)
    case (Cons r rs)
    have "preserves (\<lambda>s. catalog s = c) (payout r)"
      unfolding payout_def
      by (intro pres CreditAccount_frame catalog_off preserves_db_update_frame catalog_stable frame)
    then show ?case unfolding payouts.simps Let_def by (intro pres Cons)
  qed (simp add: pres)
  then show ?thesis unfolding ProcessSettlements_def Let_def by (intro pres catalog_stable)
qed

lemma pickRandomKeyModel_reads [reads]: "reads_only (pickRandomKeyModel rnd m)"
  unfolding pickRandomKeyModel_def loadCandidates_def Let_def by (intro reads)

lemma settle_call_catalog: "preserves (\<lambda>s. catalog s = c) (settle_call X inp sk cap body)"
proof -
  have b: "preserves (\<lambda>s. catalog s = c) (bump_quotas sk n)" for n
    unfolding bump_quotas_def
    by (intro pres catalog_stable preserves_db_update_frame frame catalog_quota)
  have od: "preserves (\<lambda>s. catalog s = c) (overdraft_check u)" for u
    unfolding overdraft_check_def scan_account_def by (intro pres catalog_stable preserves_db_update_frame frame)
  show ?thesis unfolding settle_call_def Let_def
    by (intro pres catalog_stable preserves_db_insert_frame preserves_db_update_frame frame b od
        SubmitAndSettle_frame catalog_off_settlement)
qed

lemma proxyOpenAI_catalog: "preserves (\<lambda>s. catalog s = c) (proxyOpenAI X inp path cap)"
  unfolding proxyOpenAI_def Let_def scan_account_def
  by (intro pres catalog_stable preserves_db_insert_frame frame settle_call_catalog
      reads_only_pres [OF catalog_stable pickRandomKeyModel_reads])

lemma bindings_catalog:
  "preserves (\<lambda>s. catalog s = c) (BindKeyModel u bi)" "preserves (\<lambda>s. catalog s = c) (SetProviderShareBps u n)"
  "preserves (\<lambda>s. catalog s = c) (TriggerKeyModelTest E up pick i)"
  unfolding BindKeyModel_def SetProviderShareBps_def TriggerKeyModelTest_def GetProviderShareBps_def query_share_def
    scan_dto_def Let_def
  by (intro pres catalog_stable preserves_db_insert_frame preserves_db_update_frame frame)+


section \<open>The administration\<close>

text \<open>No key is active; every channel of a provider and every model specification that is not pending
  has been reviewed.\<close>

definition dormant :: "'z llm_db_scheme \<Rightarrow> bool" where
  "dormant s \<longleftrightarrow> (\<forall>k \<in> set (llm_model_keys s). mk_Status k \<noteq> ''active'')"

definition reviewed :: "'z llm_db_scheme \<Rightarrow> bool" where
  "reviewed s \<longleftrightarrow>
     (\<forall>c \<in> set (llm_channels s). ch_SourceType c = ''provider'' \<longrightarrow> ch_Status c = ''pending'' \<or> ch_ReviewedAt c \<noteq> None)
   \<and> (\<forall>m \<in> set (llm_model_specs s). ms_Status m = ''pending'' \<or> ms_ReviewedAt m \<noteq> None)"

lemma dormant_catalog: "dormant s \<longleftrightarrow> (\<forall>x \<in> set (snd (snd (catalog s))). snd (snd x) \<noteq> ''active'')"
  by (simp add: dormant_def catalog_def)

lemma reviewed_catalog:
  "reviewed s \<longleftrightarrow>
     (\<forall>c \<in> set (fst (catalog s)). ch_SourceType c = ''provider'' \<longrightarrow> ch_Status c = ''pending'' \<or> ch_ReviewedAt c \<noteq> None)
   \<and> (\<forall>m \<in> set (fst (snd (catalog s))). ms_Status m = ''pending'' \<or> ms_ReviewedAt m \<noteq> None)"
  by (simp add: reviewed_def catalog_def)

lemma dormant_stable: "stable dormant"
  by (simp add: stable_def dormant_def)

lemma reviewed_stable: "stable reviewed"
  by (simp add: stable_def reviewed_def)

lemma dormant_frames [frame]:
  "untouched dormant llm_channels_update" "untouched dormant llm_model_specs_update"
  "untouched dormant llm_model_key_models_update"
  by (simp_all add: untouched_def dormant_def)

lemma reviewed_frames [frame]:
  "untouched reviewed llm_model_keys_update" "untouched reviewed llm_model_key_models_update"
  by (simp_all add: untouched_def reviewed_def)

lemma list_page_reads [reads]: "reads_only (list_page m1 m2 tbl key wh dto p n)"
  unfolding list_page_def Let_def by (intro reads)

lemma scan_dto_reads [reads]: "reads_only (scan_dto m tbl wh z dto)"
  unfolding scan_dto_def by (intro reads)

lemma preserves_scan_dto [pres]: "stable I \<Longrightarrow> preserves I (scan_dto m tbl wh z dto)"
  by (rule reads_only_pres [OF _ scan_dto_reads])

lemma channel_ops_dormant:
  "preserves dormant (CreateChannel ci)" "preserves dormant (ReviewChannel ri)" "preserves dormant (DeleteChannel i)"
  "preserves dormant (CreateModelSpec mi)" "preserves dormant (ReviewModelSpec ri)" "preserves dormant (DeleteModelSpec i)"
  unfolding CreateChannel_def ReviewChannel_def DeleteChannel_def CreateModelSpec_def ReviewModelSpec_def DeleteModelSpec_def
  by (intro pres dormant_stable preserves_db_insert_frame preserves_db_update_frame preserves_db_delete_frame frame)+

lemma channel_ops_reviewed:
  "preserves reviewed (CreateChannel ci)" "preserves reviewed (ReviewChannel ri)" "preserves reviewed (DeleteChannel i)"
  "preserves reviewed (CreateModelSpec mi)" "preserves reviewed (ReviewModelSpec ri)" "preserves reviewed (DeleteModelSpec i)"
  unfolding CreateChannel_def ReviewChannel_def DeleteChannel_def CreateModelSpec_def ReviewModelSpec_def DeleteModelSpec_def
  by (intro pres reviewed_stable;
      auto simp: reviewed_def new_channel_def new_spec_def Let_def)+

lemma bind_model_dormant: "preserves dormant (bind_model k sh b)"
  unfolding bind_model_def by (intro pres dormant_stable preserves_db_insert_frame frame)

lemma key_ops_dormant:
  "preserves dormant (CreateModelKey E u ki)" "preserves dormant (DisableModelKey u i a)"
  unfolding CreateModelKey_def create_key_tx_def DisableModelKey_def getProviderShareBpsTx_def query_share_def Let_def
  by (intro pres preserves_keeps dormant_stable bind_model_dormant; auto simp: dormant_def new_key_def)+

lemma bind_model_reviewed: "preserves reviewed (bind_model k sh b)"
  unfolding bind_model_def by (intro pres reviewed_stable preserves_db_insert_frame frame)

lemma key_ops_reviewed:
  "preserves reviewed (CreateModelKey E u ki)" "preserves reviewed (DisableModelKey u i a)"
  unfolding CreateModelKey_def create_key_tx_def DisableModelKey_def getProviderShareBpsTx_def query_share_def Let_def
  by (intro pres preserves_keeps reviewed_stable bind_model_reviewed preserves_db_insert_frame preserves_db_update_frame frame)+


section \<open>All runs\<close>

text \<open>One step of the system: any operation, with any input and any outcome of what lies outside, or a
  change of the clock or of the statements to fail.\<close>

inductive gw_step :: "gateway_db \<Rightarrow> gateway_db \<Rightarrow> bool" where
  env: "gw_step s (s\<lparr>script := f, clock := t\<rparr>)"
| create_channel: "gw_step s (snd (CreateChannel ci s))"
| review_channel: "gw_step s (snd (ReviewChannel ri s))"
| delete_channel: "gw_step s (snd (DeleteChannel i s))"
| create_spec: "gw_step s (snd (CreateModelSpec mi s))"
| review_spec: "gw_step s (snd (ReviewModelSpec ri s))"
| delete_spec: "gw_step s (snd (DeleteModelSpec i s))"
| create_key: "gw_step s (snd (CreateModelKey E u ki s))"
| disable_key: "gw_step s (snd (DisableModelKey u i adm s))"
| bind_key: "gw_step s (snd (BindKeyModel u bi s))"
| share: "gw_step s (snd (SetProviderShareBps u n s))"
| test_key: "gw_step s (snd (TriggerKeyModelTest E up pick i s))"
| request: "gw_step s (snd (Handle (renv :: string relay_env) req s))"
| stream: "gw_step s (snd (HandleStream (renv :: string relay_env) req s))"
| proxy: "gw_step s (snd (proxyOpenAI X inp path cap s))"
| worker: "gw_step s (snd (worker_round tok s))"
| payout: "gw_step s (snd (ProcessSettlements s))"
| submit: "gw_step s (snd (Submit si s))"
| settle: "gw_step s (snd (Settle i s))"
| recharge: "gw_step s (snd (CreateRecharge rsi s))"
| restore: "gw_step s (snd (RestoreOverdraftKeys u s))"
| credit: "gw_step s (snd (CreditAccount ca s))"
| debit: "gw_step s (snd (DebitAccount ca s))"
| ensure: "gw_step s (snd (EnsureAccount ot oi as s))"
| recharge_credits: "gw_step s (snd (RechargeCredits u n rt rid s))"

inductive gw_run :: "gateway_db \<Rightarrow> gateway_db \<Rightarrow> bool" where
  refl: "gw_run s s"
| step: "gw_run s s' \<Longrightarrow> gw_step s' s'' \<Longrightarrow> gw_run s s''"

lemma preserves_snd: "preserves I m \<Longrightarrow> I s \<Longrightarrow> I (snd (m s))"
  by (simp add: preserves_def)

lemmas catalog_ops = Handle_catalog worker_round_catalog ProcessSettlements_catalog proxyOpenAI_catalog bindings_catalog
  settlement_frames [OF catalog_off_settlement] EnsureAccount_frame [OF catalog_off_settlement]
  RechargeCredits_frame [OF catalog_off_settlement]

lemma preserves_by_catalog:
  assumes "\<And>c. preserves (\<lambda>s. catalog s = c) m" "\<And>s s'. catalog s = catalog s' \<Longrightarrow> I s = I s'"
  shows "preserves I m"
  using assms unfolding preserves_def by metis

lemma dormant_by_catalog: "(\<And>c. preserves (\<lambda>s. catalog s = c) m) \<Longrightarrow> preserves dormant m"
  by (rule preserves_by_catalog) (simp_all add: dormant_catalog)

lemma reviewed_by_catalog: "(\<And>c. preserves (\<lambda>s. catalog s = c) m) \<Longrightarrow> preserves reviewed m"
  by (rule preserves_by_catalog) (simp_all add: reviewed_catalog)

lemmas dormant_ops = channel_ops_dormant key_ops_dormant catalog_ops [THEN dormant_by_catalog]
lemmas reviewed_ops = channel_ops_reviewed key_ops_reviewed catalog_ops [THEN reviewed_by_catalog]

lemma gw_step_dormant: "gw_step s s' \<Longrightarrow> dormant s \<Longrightarrow> dormant s'"
  by (induction rule: gw_step.induct) (simp add: dormant_def, (rule dormant_ops [THEN preserves_snd], assumption)+)

lemma gw_step_reviewed: "gw_step s s' \<Longrightarrow> reviewed s \<Longrightarrow> reviewed s'"
  by (induction rule: gw_step.induct) (simp add: reviewed_def, (rule reviewed_ops [THEN preserves_snd], assumption)+)

lemma gw_run_inv: "gw_run s s' \<Longrightarrow> (dormant s \<longrightarrow> dormant s') \<and> (reviewed s \<longrightarrow> reviewed s')"
  by (induction rule: gw_run.induct) (auto intro: gw_step_dormant gw_step_reviewed)

lemma dormant_candidates:
  assumes "dormant s" shows "join_candidates i s = []" and "llm_join i s = []"
  using assms by (auto simp: join_candidates_def llm_join_def dormant_def)

lemma dormant_load:
  fixes s :: gateway_db
  assumes "dormant s"
  shows "\<exists>r f. loadActiveCandidates i s = (r, s\<lparr>script := f\<rparr>) \<and> (r = Inr [] \<or> (\<exists>e. r = Inl e))"
proof -
  have "dormant (s\<lparr>script := f\<rparr>)" for f using assms by (simp add: dormant_def)
  then show ?thesis
    by (auto simp: loadActiveCandidates_def bindE_run wrapE_run db_call_run getsE_run returnE_run dormant_candidates
        split: option.split)
qed


lemma reads_state:
  assumes "reads_only m" shows "\<exists>f. snd (m s) = s\<lparr>script := f\<rparr>"
  using assms by (auto simp: reads_only_def)

lemma dormant_prepare:
  fixes s :: gateway_db
  assumes "dormant s"
  shows "\<exists>e. fst (prepare env req b s) = Inl e"
proof (rule ccontr)
  assume "\<not> ?thesis"
  then obtain p s' where "prepare env req b s = (Inr p, s')"
    by (cases "prepare env req b s"; cases "fst (prepare env req b s)") auto
  then obtain m c s1 where "pick_candidate env req m s = (Inr c, s1)"
    by (auto simp: prepare_def ok_simps)
  then obtain u s2 sp s3 cs s4 where b: "checkBalance (rq_UserID req) s = (Inr u, s2)"
    and r: "resolveModelSpec m s2 = (Inr sp, s3)" and l: "loadActiveCandidates (fst sp) s3 = (Inr cs, s4)" and ne: "cs \<noteq> []"
    by (auto simp: pick_candidate_def ok_simps Let_def split: if_splits prod.splits)
  have "reads_only (resolveModelSpec m)" unfolding resolveModelSpec_def by (intro reads)
  then have "\<exists>f. s3 = s2\<lparr>script := f\<rparr>" "\<exists>f. s2 = s\<lparr>script := f\<rparr>"
    using reads_state [of "resolveModelSpec m" s2] reads_state [OF checkBalance_reads, of "rq_UserID req" s] b r by auto
  then have "dormant s3" using assms by (auto simp: dormant_def)
  then show False using dormant_load [of s3 "fst sp"] l ne by auto
qed

lemma dormant_requests:
  fixes s :: gateway_db
  assumes "dormant s"
  shows "\<exists>e. fst (Handle env req s) = Inl e" and "\<exists>e. fst (HandleStream env req s) = Inl e"
  using dormant_prepare [OF assms, of env req "rq_IsStream req"] dormant_prepare [OF assms, of env req True]
  by (auto simp: Handle_def HandleStream_def bindE_def split: prod.splits sum.splits)

text \<open>Property C21.  No operation of the server activates a model key: from a database without an active
  key, whatever the administration, the providers and the tests of their bindings do, every request
  and every streamed request fails before it is sent.\<close>

theorem keys_are_never_activated:
  assumes "gw_run s s'" and "dormant s"
  shows "dormant s' \<and> (\<exists>e. fst (Handle (env :: 'r relay_env) req s') = Inl e) \<and>
    (\<exists>e. fst (HandleStream env req s') = Inl e)"
  using gw_run_inv [OF assms(1)] assms(2) dormant_requests by blast


text \<open>Property C20.  Only what was reviewed serves: in every database reached from one where it holds, the
  candidate a request is sent with is of an active model that has been reviewed, on an active channel
  that was added by the administration or has been reviewed.\<close>

theorem only_reviewed_channels_serve:
  assumes "gw_run s s'" "reviewed s" "unstable_sort (en_srt env) cc_Priority"
    and "pick_candidate env req m s' = (Inr (code, c), s'')"
  shows "\<exists>sp \<in> set (llm_model_specs s'). \<exists>ch \<in> set (llm_channels s').
    ms_ModelCode sp = code \<and> ms_Status sp = ''active'' \<and> ms_ReviewedAt sp \<noteq> None \<and>
    ch_ID ch = cc_ChannelID c \<and> ch_Status ch = ''active'' \<and> (ch_SourceType ch = ''provider'' \<longrightarrow> ch_ReviewedAt ch \<noteq> None)"
proof -
  have "reviewed s'" using gw_run_inv [OF assms(1)] assms(2) by blast
  moreover obtain sp ch where "sp \<in> set (llm_model_specs s')" "ch \<in> set (llm_channels s')" "ms_ModelCode sp = code"
    "ms_Status sp = ''active''" "ch_ID ch = cc_ChannelID c" "ch_Status ch = ''active''"
    using picked_key_source [OF assms(3,4)] by metis
  ultimately show ?thesis by (intro bexI [of _ sp] bexI [of _ ch]) (auto simp: reviewed_def)
qed

definition dormant_gw :: gateway_db where
  "dormant_gw = (demo_gw 1000)\<lparr>llm_model_keys := []\<rparr>"

theorem keys_are_never_activated_witness:
  "\<exists>s'. gw_run dormant_gw s' \<and> (\<exists>e. fst (Handle demo_env demo_req s') = Inl e)"
proof -
  let ?s = "snd (SetProviderShareBps 6 100 dormant_gw)"
  have r: "gw_run dormant_gw ?s" by (rule gw_run.step [OF gw_run.refl gw_step.share])
  have "dormant dormant_gw" by (simp add: dormant_def dormant_gw_def)
  from keys_are_never_activated [OF r this] r show ?thesis by blast
qed

definition reviewed_gw :: gateway_db where
  "reviewed_gw = (demo_gw 1000)\<lparr>llm_model_specs := map (\<lambda>m. m\<lparr>ms_ReviewedAt := Some 1\<rparr>) (llm_model_specs (demo_gw 1000))\<rparr>"

lemma reviewed_pick:
  "\<exists>c. pick_candidate demo_env demo_req ''m'' reviewed_gw = (Inr (''m'', c), reviewed_gw) \<and> cc_ChannelID c = 1"
  by (simp add: run gw_defs reviewed_gw_def map_filter_simps)

theorem only_reviewed_channels_serve_witness:
  "\<exists>sp \<in> set (llm_model_specs reviewed_gw). ms_ModelCode sp = ''m'' \<and> ms_ReviewedAt sp \<noteq> None"
proof -
  obtain c where c: "pick_candidate demo_env demo_req ''m'' reviewed_gw = (Inr (''m'', c), reviewed_gw)"
    using reviewed_pick by blast
  have "unstable_sort (en_srt demo_env) cc_Priority"
    using sk.unstable_sort_axioms by (simp add: demo_env_def)
  moreover have "reviewed reviewed_gw" by (simp add: reviewed_def reviewed_gw_def gw_defs)
  ultimately show ?thesis using only_reviewed_channels_serve [OF gw_run.refl _ _ c] by blast
qed

section \<open>Whose keys\<close>

lemma GetProviderShareBps_reads [reads]: "reads_only (GetProviderShareBps u)"
  unfolding GetProviderShareBps_def query_share_def by (intro reads)

lemma BindKeyModel_ok:
  fixes s :: "'z llm_db_scheme"
  assumes "BindKeyModel u bi s = (Inr info, s3)"
  shows "(\<exists>k \<in> set (llm_model_keys s). mk_ID k = bki_ModelKeyID bi \<and> mk_ProviderUserID k = u \<and> mk_Status k \<in> {''active'', ''pending''}) \<and>
      (\<exists>m \<in> set (llm_model_specs s). ms_ID m = bki_ModelSpecID bi) \<and>
      (\<exists>b. llm_model_key_models s3 = llm_model_key_models s @ [b] \<and> km_ModelKeyID b = bki_ModelKeyID bi \<and>
         km_Status b \<in> {''pending_test'', ''pending_model_review''}) \<and>
      llm_model_keys s3 = llm_model_keys s"
proof -
  obtain k m where k: "find (\<lambda>r. mk_ID r = bki_ModelKeyID bi) (llm_model_keys s) = Some k"
    "mk_ProviderUserID k = u" "mk_Status k \<in> {''active'', ''pending''}"
    and m: "find (\<lambda>r. ms_ID r = bki_ModelSpecID bi) (llm_model_specs s) = Some m"
    and rest: "\<exists>f share sY i sZ. tryE (GetProviderShareBps u) (s\<lparr>script := f\<rparr>) = (Inr share, sY) \<and>
      db_insert ''llm_model_key_models'' llm_model_key_models llm_model_key_models_update km_clash
        (new_binding (bki_ModelKeyID bi) (bki_ModelSpecID bi) (bki_UpstreamModelName bi) (case share of Inl e \<Rightarrow> 0 | Inr n \<Rightarrow> n)
          (ms_Status m) (bki_CacheHitPricePer1K bi) (bki_CacheMissPricePer1K bi) (bki_OutputPricePer1K bi)) sY = (Inr i, sZ) \<and>
      (\<exists>f. s3 = sZ\<lparr>script := f\<rparr>)"
    using assms unfolding BindKeyModel_def Let_def
    by (auto simp: bindE_ok wrapE_ok db_scan_ok throwE_ok scan_dto_def returnE_ok split: option.splits if_splits) blast+
  from rest obtain f sh sY i sZ where t: "tryE (GetProviderShareBps u) (s\<lparr>script := f\<rparr>) = (Inr sh, sY)"
    and 2: "db_insert ''llm_model_key_models'' llm_model_key_models llm_model_key_models_update km_clash
        (new_binding (bki_ModelKeyID bi) (bki_ModelSpecID bi) (bki_UpstreamModelName bi) (case sh of Inl e \<Rightarrow> 0 | Inr n \<Rightarrow> n)
          (ms_Status m) (bki_CacheHitPricePer1K bi) (bki_CacheMissPricePer1K bi) (bki_OutputPricePer1K bi)) sY = (Inr i, sZ)"
    and 3: "\<exists>f. s3 = sZ\<lparr>script := f\<rparr>" by blast
  from t have 1: "GetProviderShareBps u (s\<lparr>script := f\<rparr>) = (sh, sY)" by (simp add: tryE_ok)
  have "\<exists>f. sY = s\<lparr>script := f\<rparr>" using reads_onlyD [OF GetProviderShareBps_reads 1] by auto
  then have "(\<exists>b. llm_model_key_models s3 = llm_model_key_models s @ [b] \<and> km_ModelKeyID b = bki_ModelKeyID bi \<and>
      km_Status b \<in> {''pending_test'', ''pending_model_review''}) \<and> llm_model_keys s3 = llm_model_keys s"
    using 2 3 by (auto simp: db_insert_ok Let_def new_binding_def)
  then show ?thesis using find_Some_set [OF k(1)] find_Some_set [OF m] k(2,3) by blast
qed

text \<open>A provider handles its own keys only.  When DisableModelKey succeeds for one who is not
  an administrator, the key is the provider's and exactly its status changes; when BindKeyModel
  succeeds, the key is the provider's, not disabled, the model exists, and one new binding, which is not
  active, is all that is added.  A failed DisableModelKey changes nothing.\<close>

theorem providers_handle_their_own_keys:
  fixes s :: "'z llm_db_scheme"
  shows "(DisableModelKey u i False s = (Inr (), s1) \<longrightarrow>
      (\<exists>k \<in> set (llm_model_keys s). mk_ID k = i \<and> mk_ProviderUserID k = u) \<and>
      llm_model_keys s1 = map (\<lambda>k. if mk_ID k = i then k\<lparr>mk_Status := ''disabled''\<rparr> else k) (llm_model_keys s) \<and>
      llm_model_key_models s1 = llm_model_key_models s)
   \<and> (DisableModelKey u i a s = (Inl e, s2) \<longrightarrow> (\<exists>f. s2 = s\<lparr>script := f\<rparr>))
   \<and> (BindKeyModel u bi s = (Inr info, s3) \<longrightarrow>
      (\<exists>k \<in> set (llm_model_keys s). mk_ID k = bki_ModelKeyID bi \<and> mk_ProviderUserID k = u \<and> mk_Status k \<in> {''active'', ''pending''}) \<and>
      (\<exists>m \<in> set (llm_model_specs s). ms_ID m = bki_ModelSpecID bi) \<and>
      (\<exists>b. llm_model_key_models s3 = llm_model_key_models s @ [b] \<and> km_ModelKeyID b = bki_ModelKeyID bi \<and>
         km_Status b \<in> {''pending_test'', ''pending_model_review''}) \<and>
      llm_model_keys s3 = llm_model_keys s)"
proof (intro conjI impI)
  assume "DisableModelKey u i False s = (Inr (), s1)"
  then show "\<exists>k \<in> set (llm_model_keys s). mk_ID k = i \<and> mk_ProviderUserID k = u"
    "llm_model_keys s1 = map (\<lambda>k. if mk_ID k = i then k\<lparr>mk_Status := ''disabled''\<rparr> else k) (llm_model_keys s)"
    "llm_model_key_models s1 = llm_model_key_models s"
    by (auto simp: DisableModelKey_def ok_simps split: option.splits if_splits dest!: find_Some_set)
next
  assume "DisableModelKey u i a s = (Inl e, s2)"
  then show "\<exists>f. s2 = s\<lparr>script := f\<rparr>"
    by (auto simp: DisableModelKey_def bindE_def wrapE_def db_scan_def db_update_def db_call_def throwE_def returnE_def Let_def
        split: option.splits if_splits prod.splits sum.splits)
next
  assume b: "BindKeyModel u bi s = (Inr info, s3)"
  show "\<exists>k \<in> set (llm_model_keys s). mk_ID k = bki_ModelKeyID bi \<and> mk_ProviderUserID k = u \<and> mk_Status k \<in> {''active'', ''pending''}"
    "\<exists>m \<in> set (llm_model_specs s). ms_ID m = bki_ModelSpecID bi"
    "\<exists>b. llm_model_key_models s3 = llm_model_key_models s @ [b] \<and> km_ModelKeyID b = bki_ModelKeyID bi \<and>
         km_Status b \<in> {''pending_test'', ''pending_model_review''}"
    "llm_model_keys s3 = llm_model_keys s"
    using BindKeyModel_ok [OF b] by blast+
qed

theorem providers_handle_their_own_keys_witness:
  "\<exists>s1. DisableModelKey 6 2 False (demo_gw 0) = (Inr (), s1) \<and> map mk_Status (llm_model_keys s1) = [''disabled'']"
proof -
  have d: "fst (DisableModelKey 6 2 False (demo_gw 0)) = Inr ()"
    by (simp add: run gw_defs DisableModelKey_def)
  then have d': "DisableModelKey 6 2 False (demo_gw 0) = (Inr (), snd (DisableModelKey 6 2 False (demo_gw 0)))"
    by (metis prod.collapse)
  have "llm_model_keys (snd (DisableModelKey 6 2 False (demo_gw 0))) =
      map (\<lambda>k. if mk_ID k = 2 then k\<lparr>mk_Status := ''disabled''\<rparr> else k) (llm_model_keys (demo_gw 0))"
    using providers_handle_their_own_keys d' by blast
  then show ?thesis
    by (intro exI [of _ "snd (DisableModelKey 6 2 False (demo_gw 0))"] conjI d') (simp add: gw_defs)
qed

end
