(* ===== verification/BillingClaims.thy ===== *)
theory BillingClaims
  imports Billing SettlementClaims
begin

text \<open>
  What the billing service guarantees about one-sided postings, over the lemmas of Billing.
\<close>

definition demo_credit :: "int \<Rightarrow> CreditAccountIn" where
  "demo_credit n = \<lparr>ca_Asset = ''credits'', ca_AmountMicro = n, ca_OwnerType = ''user'', ca_OwnerID = 5,
     ca_RefType = ''manual'', ca_RefID = 1\<rparr>"

declare demo_credit_def [run]

text \<open>A successful CreditAccount posts one transaction of type credit with one
  journal row: the balance of the owner's account grows by the amount, the row carries the new
  balance, every other balance stays, and the ledger invariant holds again.  A failed one
  changes no table at all.\<close>

theorem CreditAccount_posts:
  assumes "ledger_inv s" and "CreditAccount inp s = (r, s')"
  shows "case r of
      Inr info \<Rightarrow> ledger_inv s' \<and>
        books_of s' = book_entry (owner_entry inp (ca_AmountMicro inp)) (books_of s) \<and>
        (\<exists>n. transaction_entries s' = transaction_entries s @ [n] \<and> ent_tx_id n = ti_ID info \<and>
           ent_delta_micro n = ca_AmountMicro inp \<and>
           ent_balance_after_micro n = books_of s' (ca_OwnerType inp, ca_OwnerID inp, ca_Asset inp))
    | Inl e \<Rightarrow> accounts s' = accounts s \<and> transactions s' = transactions s \<and>
        transaction_entries s' = transaction_entries s"
proof (cases r)
  case (Inl e)
  then show ?thesis using CreditAccount_error_tables [of inp s e s'] assms(2) by auto
next
  case (Inr info)
  then show ?thesis using CreditAccount_ok [OF assms(1), of inp info s'] assms(2)
    by (auto simp: moved_def owner_entry_def ed_key_def)
qed

theorem CreditAccount_posts_witness:
  "\<exists>info s'. CreditAccount (demo_credit 300) demo_db = (Inr info, s') \<and>
     books_of s' = book_entry (owner_entry (demo_credit 300) 300) (books_of demo_db)"
proof -
  have "\<exists>info s'. CreditAccount (demo_credit 300) demo_db = (Inr info, s')"
    by (simp add: run demo_defs)
  then obtain info s' where r: "CreditAccount (demo_credit 300) demo_db = (Inr info, s')" by blast
  have inv: "ledger_inv demo_db" using demo_inv by (rule settle_invD)
  show ?thesis using CreditAccount_posts [OF inv r] r by (auto simp: demo_credit_def)
qed

text \<open>Property C6.  A debit never overdraws: a successful DebitAccount of a non-negative amount
  finds at least that amount on the account and leaves exactly the difference, which is not
  negative; a failed one changes no table.\<close>

theorem DebitAccount_never_overdraws:
  assumes "ledger_inv s" and "0 \<le> ca_AmountMicro inp" and "is_i64 (ca_AmountMicro inp)"
    and "is_i64 (books_of s (ca_OwnerType inp, ca_OwnerID inp, ca_Asset inp))"
    and "DebitAccount inp s = (r, s')"
  shows "case r of
      Inr info \<Rightarrow> ledger_inv s' \<and>
        ca_AmountMicro inp \<le> books_of s (ca_OwnerType inp, ca_OwnerID inp, ca_Asset inp) \<and>
        books_of s' = (books_of s)((ca_OwnerType inp, ca_OwnerID inp, ca_Asset inp) :=
          books_of s (ca_OwnerType inp, ca_OwnerID inp, ca_Asset inp) - ca_AmountMicro inp) \<and>
        0 \<le> books_of s' (ca_OwnerType inp, ca_OwnerID inp, ca_Asset inp)
    | Inl e \<Rightarrow> accounts s' = accounts s \<and> transactions s' = transactions s \<and>
        transaction_entries s' = transaction_entries s"
proof (cases r)
  case (Inl e)
  then show ?thesis using DebitAccount_error_tables [of inp s e s'] assms(5) by auto
next
  case (Inr info)
  let ?k = "(ca_OwnerType inp, ca_OwnerID inp, ca_Asset inp)"
  have ok: "ledger_inv s'" "moved ''debit'' inp (i64 (- ca_AmountMicro inp)) info s s'"
    "ca_AmountMicro inp \<le> books_of s ?k"
    using DebitAccount_ok [OF assms(1), of inp info s'] assms(5) Inr by auto
  have "i64 (books_of s ?k + i64 (- ca_AmountMicro inp)) = i64 (books_of s ?k - ca_AmountMicro inp)" by simp
  also have "\<dots> = books_of s ?k - ca_AmountMicro inp"
    using assms(2,3,4) ok(3) by (intro i64_id) (simp add: is_i64_def)
  finally have "books_of s' = (books_of s)(?k := books_of s ?k - ca_AmountMicro inp)"
    using ok(2) by (simp add: moved_def book_entry_def owner_entry_def ed_key_def)
  then show ?thesis using ok Inr by simp
qed

theorem DebitAccount_never_overdraws_witness:
  "\<exists>info s'. DebitAccount (demo_credit 300) demo_db = (Inr info, s') \<and>
     books_of s' (''user'', 5, ''credits'') = 700"
proof -
  have "\<exists>info s'. DebitAccount (demo_credit 300) demo_db = (Inr info, s')"
    by (simp add: run demo_defs)
  then obtain info s' where r: "DebitAccount (demo_credit 300) demo_db = (Inr info, s')" by blast
  have inv: "ledger_inv demo_db" using demo_inv by (rule settle_invD)
  have bal: "books_of demo_db (''user'', 5, ''credits'') = 1000"
    by (simp add: books_of_def demo_defs acc_key_def)
  show ?thesis using DebitAccount_never_overdraws [OF inv _ _ _ r] r bal
    by (auto simp: demo_credit_def is_i64_def)
qed

end
