(* ===== verification/GatewayBooks.thy ===== *)
theory GatewayBooks
  imports GatewayClaims BillingClaims
begin

text \<open>
  The books under the whole gateway: traffic, workers, payouts, administration and the settlement
  service in any order, with any statement failing, and the keys of providers at rest.
\<close>

section \<open>The journal and the balances\<close>

lemma ledger_frames [frame]:
  "untouched ledger_inv llm_channels_update" "untouched ledger_inv llm_model_specs_update"
  "untouched ledger_inv llm_model_keys_update" "untouched ledger_inv llm_model_key_models_update"
  "untouched ledger_inv llm_usage_records_update" "untouched ledger_inv llm_chat_logs_update"
  "untouched ledger_inv provider_settings_update"
  by (simp_all add: untouched_def ledger_inv_def)

lemma RestoreOverdraftKeys_inv: "preserves ledger_inv (RestoreOverdraftKeys u)"
  unfolding RestoreOverdraftKeys_def scan_account_def
  by (intro pres ledger_inv_stable preserves_db_update_frame frame)

lemma RechargeCredits_inv: "preserves ledger_inv (RechargeCredits u n rt ri)"
  unfolding RechargeCredits_def by (intro pres RestoreOverdraftKeys_inv)

lemmas settlement_inv = Settle_inv SubmitAndSettle_inv CreateRecharge_inv RestoreOverdraftKeys_inv
  CreditAccount_inv DebitAccount_inv EnsureAccount_inv RechargeCredits_inv

lemma Submit_inv: "preserves ledger_inv (Submit si)"
  unfolding Submit_def Let_def
  by (intro pres ledger_inv_stable preserves_db_insert_frame preserves_db_update_frame frame)

lemma traffic_inv:
  fixes I :: "'z gateway_db_scheme \<Rightarrow> bool"
  defines "I \<equiv> ledger_inv"
  shows "preserves I (Handle env req)" "preserves I (HandleStream env req)"
proof -
  have st: "stable I" unfolding I_def by (rule ledger_inv_stable)
  have ch: "preserves I (charge_quota cd n)" for cd n
    unfolding charge_quota_def updateQuotaSync_def I_def
    by (intro pres ledger_inv_stable preserves_db_update_frame frame)
  have enq: "preserves I (enqueueSettlement req cd u b t)" for cd u b t
    by (rule enqueueSettlement_pres [OF st]) (simp add: I_def ledger_inv_def)
  have aff: "I (s\<lparr>affinity := g\<rparr>)" if "I s" for s and g
    using that by (simp add: I_def ledger_inv_def)
  show "preserves I (Handle env req)" "preserves I (HandleStream env req)"
    by (rule preserves_Handle [OF st aff enq ch]; assumption)+
qed

lemma worker_inv: "preserves ledger_inv (worker_round tok)"
proof -
  have sync: "preserves ledger_inv (updateQuotaSync a b n)" for a b n
    unfolding updateQuotaSync_def by (intro pres ledger_inv_stable preserves_db_update_frame frame)
  show ?thesis
    unfolding worker_round_def processSettlement_def lazy_tokenize_def requeue_def EnqueueSettlement_def
      redis_Enqueue_def redis_Dequeue_def charge_def save_chat_def disableOverdraftKeys_def record_usage_def
    by (intro pres preserves_keeps ledger_inv_stable DebitAccount_inv preserves_db_insert_frame
        preserves_db_update_frame sync frame)
      (auto simp: preserves_def Let_def ledger_inv_def split: option.splits)
qed

lemma payouts_inv: "preserves ledger_inv ProcessSettlements"
proof -
  have "preserves ledger_inv (payouts n rs)" for n rs
  proof (induction rs arbitrary: n)
    case (Cons r rs)
    have "preserves ledger_inv (payout r)"
      unfolding payout_def
      by (intro pres CreditAccount_inv preserves_db_update_frame ledger_inv_stable frame)
    then show ?case unfolding payouts.simps Let_def by (intro pres Cons)
  qed (simp add: pres)
  then show ?thesis unfolding ProcessSettlements_def Let_def by (intro pres ledger_inv_stable)
qed

lemma proxy_inv: "preserves ledger_inv (proxyOpenAI X inp path cap)"
  unfolding proxyOpenAI_def settle_call_def bump_quotas_def overdraft_check_def scan_account_def Let_def
  by (intro pres ledger_inv_stable preserves_db_insert_frame preserves_db_update_frame frame SubmitAndSettle_inv
      reads_only_pres [OF ledger_inv_stable pickRandomKeyModel_reads])

lemma admin_inv:
  "preserves ledger_inv (CreateChannel ci)" "preserves ledger_inv (ReviewChannel ri)" "preserves ledger_inv (DeleteChannel i)"
  "preserves ledger_inv (CreateModelSpec mi)" "preserves ledger_inv (ReviewModelSpec ri)" "preserves ledger_inv (DeleteModelSpec i)"
  "preserves ledger_inv (CreateModelKey E u ki)" "preserves ledger_inv (DisableModelKey u i a)"
  "preserves ledger_inv (BindKeyModel u bi)" "preserves ledger_inv (SetProviderShareBps u n)"
  "preserves ledger_inv (TriggerKeyModelTest E up pick i)"
  unfolding CreateChannel_def ReviewChannel_def DeleteChannel_def CreateModelSpec_def ReviewModelSpec_def DeleteModelSpec_def
    CreateModelKey_def create_key_tx_def DisableModelKey_def BindKeyModel_def SetProviderShareBps_def TriggerKeyModelTest_def
    GetProviderShareBps_def getProviderShareBpsTx_def query_share_def bind_model_def scan_dto_def Let_def
  by (intro pres preserves_keeps ledger_inv_stable preserves_db_insert_frame preserves_db_update_frame preserves_db_delete_frame frame)+

lemmas ledger_ops = settlement_inv Submit_inv traffic_inv worker_inv payouts_inv proxy_inv admin_inv

lemma gw_step_ledger: "gw_step s s' \<Longrightarrow> ledger_inv s \<Longrightarrow> ledger_inv s'"
  by (induction rule: gw_step.induct) (simp add: ledger_inv_def, (rule ledger_ops [THEN preserves_snd], assumption)+)

lemma gw_run_ledger: "gw_run s s' \<Longrightarrow> ledger_inv s \<Longrightarrow> ledger_inv s'"
  by (induction rule: gw_run.induct) (auto intro: gw_step_ledger)

text \<open>Property C19.  The books of the whole gateway: after any run of requests, worker rounds, payouts,
  settlements, recharges and administration, with any statements failing in between, every balance
  is the wrapped sum of the journal entries of its account, and an owner has one account per asset.\<close>

theorem gateway_balance_is_journal:
  assumes "gw_run s s'" and "ledger_inv s" and "a \<in> set (accounts s')"
  shows "acc_balance_micro a = i64 (journal_sum (acc_id a) (transaction_entries s')) \<and>
    (\<forall>b \<in> set (accounts s'). acc_key b = acc_key a \<longrightarrow> b = a)"
proof -
  have inv: "ledger_inv s'" by (rule gw_run_ledger [OF assms(1,2)])
  then show ?thesis
    using assms(3) distinct_map_eq [of acc_key "accounts s'" _ a] by (auto simp: ledger_inv_def)
qed

theorem gateway_balance_is_journal_witness:
  "\<exists>s' a. gw_run (demo_gw 0) s' \<and> a \<in> set (accounts s') \<and> acc_balance_micro a = 700 \<and>
     i64 (journal_sum (acc_id a) (transaction_entries s')) = 700"
proof -
  let ?s = "snd (CreditAccount \<lparr>ca_Asset = ''credits'', ca_AmountMicro = 700, ca_OwnerType = ''user'', ca_OwnerID = 5,
      ca_RefType = ''r'', ca_RefID = 1\<rparr> (demo_gw 0))"
  have r: "gw_run (demo_gw 0) ?s" by (rule gw_run.step [OF gw_run.refl gw_step.credit])
  have "map acc_balance_micro (accounts ?s) = [700]" by (simp add: run gw_defs)
  then obtain a where a: "a \<in> set (accounts ?s)" "acc_balance_micro a = 700" by (cases "accounts ?s") auto
  have "ledger_inv (demo_gw 0)" by (simp add: ledger_inv_def gw_defs journal_sum_def entries_of_def i64_def)
  from gateway_balance_is_journal [OF r this a(1)] a r show ?thesis by force
qed

section \<open>Exactly once\<close>

text \<open>Every operation of the gateway keeps the records and the postings of the journal in step.\<close>

lemma record_frames [frame]:
  "untouched settle_inv llm_channels_update" "untouched settle_inv llm_model_specs_update"
  "untouched settle_inv llm_model_keys_update" "untouched settle_inv llm_model_key_models_update"
  "untouched settle_inv llm_usage_records_update" "untouched settle_inv llm_chat_logs_update"
  "untouched settle_inv provider_settings_update"
  by (simp_all add: untouched_def settle_inv_def ledger_inv_def)

lemmas settlement_once = Settle_settle_inv Submit_settle_inv SubmitAndSettle_settle_inv CreateRecharge_settle_inv
  RestoreOverdraftKeys_settle_inv RechargeCredits_settle_inv billing_settle_inv

lemma traffic_once:
  fixes I :: "'z gateway_db_scheme \<Rightarrow> bool"
  defines "I \<equiv> settle_inv"
  shows "preserves I (Handle env req)" "preserves I (HandleStream env req)"
proof -
  have st: "stable I" unfolding I_def by (rule settle_inv_stable)
  have ch: "preserves I (charge_quota cd n)" for cd n
    unfolding charge_quota_def updateQuotaSync_def I_def
    by (intro pres settle_inv_stable preserves_db_update_frame frame)
  have enq: "preserves I (enqueueSettlement req cd u b t)" for cd u b t
    by (rule enqueueSettlement_pres [OF st]) (simp add: I_def settle_inv_def ledger_inv_def)
  have aff: "I (s\<lparr>affinity := g\<rparr>)" if "I s" for s and g
    using that by (simp add: I_def settle_inv_def ledger_inv_def)
  show "preserves I (Handle env req)" "preserves I (HandleStream env req)"
    by (rule preserves_Handle [OF st aff enq ch]; assumption)+
qed

text \<open>The worker adds a record that waits, with a date of settlement.\<close>

lemma insert_pending_once:
  "preserves settle_inv (db_insert ''settlement_records'' settlement_records settlement_records_update sr_clash
     (pending_settlement task i))"
proof (intro preserves_db_insert settle_inv_stable)
  fix s :: "'z settle_db_scheme"
  let ?i = "seqs s ''settlement_records'' + 1"
  let ?r = "pending_settlement task i (clock s) ?i"
  assume inv: "settle_inv s" and new: "\<not> (\<exists>x \<in> set (settlement_records s). sr_clash x ?r)"
  note iv = settle_invD [OF inv]
  have r: "sr_ID ?r = ?i" "sr_Status ?r = ''pending''" "sr_TransactionID ?r = 0"
    by (simp_all add: pending_settlement_def Let_def)
  have "once (settlement_records s @ [?r]) (transactions s)"
    using iv(2,3) new r by (intro once_add_record) (auto simp: issued_def sr_clash_def sr_ref_def)
  moreover have "ledger_inv (s\<lparr>seqs := (seqs s)(''settlement_records'' := ?i)\<rparr>)"
    by (rule stable_seqs [OF ledger_inv_stable iv(1)]) simp
  ultimately show "settle_inv (settlement_records_update (\<lambda>rs. rs @ [?r])
      (s\<lparr>seqs := (seqs s)(''settlement_records'' := ?i)\<rparr>))"
    using iv(3) r by (auto simp: settle_inv_def issued_def ledger_inv_def)
qed

lemma worker_once: "preserves settle_inv (worker_round tok)"
proof -
  have sync: "preserves settle_inv (updateQuotaSync a b n)" for a b n
    unfolding updateQuotaSync_def by (intro pres settle_inv_stable preserves_db_update_frame frame)
  have keys: "preserves settle_inv (db_update api_keys api_keys_update wh f)" for wh f
    by (intro preserves_db_update_frame settle_inv_stable settle_inv_keys)
  show ?thesis
    unfolding worker_round_def processSettlement_def lazy_tokenize_def requeue_def EnqueueSettlement_def
      redis_Enqueue_def redis_Dequeue_def charge_def save_chat_def disableOverdraftKeys_def record_usage_def
    by (intro pres preserves_keeps settle_inv_stable billing_settle_inv insert_pending_once keys
        preserves_db_insert_frame preserves_db_update_frame sync frame)
      (auto simp: preserves_def Let_def settle_inv_def ledger_inv_def split: option.splits)
qed

text \<open>The payout job: the records it has selected keep their date while it works through them.\<close>

definition dated :: "settlementRecord list \<Rightarrow> 'z settle_db_scheme \<Rightarrow> bool" where
  "dated rows s \<longleftrightarrow> (\<forall>r \<in> set (settlement_records s). sr_ID r \<in> sr_ID ` set rows \<longrightarrow> sr_SettleAt r \<noteq> None)"

lemma dated_stable: "stable (dated rows)"
  by (simp add: stable_def dated_def)

lemma dated_frame: "off_ledger (dated rows)"
  by (simp add: off_ledger_def dated_stable untouched_def dated_def)

lemma payout_once:
  assumes "row \<in> set rows"
  shows "preserves (\<lambda>s. settle_inv s \<and> dated rows s) (payout row)"
proof -
  let ?I = "\<lambda>s. settle_inv s \<and> dated rows s"
  have st: "stable ?I" by (intro stable_conj settle_inv_stable dated_stable)
  have upd: "preserves ?I (db_update settlement_records settlement_records_update (\<lambda>r. sr_ID r = sr_ID row)
         (\<lambda>r. r\<lparr>sr_Status := ''settled'', sr_SettledAt := Some now\<rparr>))" for now
  proof (rule preserves_db_update [OF st])
    fix s
    let ?f = "\<lambda>r. r\<lparr>sr_Status := ''settled'', sr_SettledAt := Some now\<rparr>"
    let ?F = "map (\<lambda>r. if sr_ID r = sr_ID row then ?f r else r)"
    assume s: "?I s"
    have "once (?F (settlement_records s)) (transactions s)"
    proof (cases "\<exists>r \<in> set (settlement_records s). sr_ID r = sr_ID row")
      case True
      then obtain r where r: "r \<in> set (settlement_records s)" "sr_ID r = sr_ID row" by blast
      have "sr_SettleAt r \<noteq> None" using s r assms by (auto simp: dated_def)
      from once_paid [where f = ?f, OF settle_invD(2) [OF conjunct1 [OF s]] r(1) this] show ?thesis
        using r(2) by (simp add: sr_ref_def)
    next
      case False
      then have "?F (settlement_records s) = settlement_records s" by (intro map_idI) auto
      then show ?thesis using settle_invD(2) [OF conjunct1 [OF s]] by simp
    qed
    moreover have "issued (seqs s) (?F (settlement_records s)) (transactions s)"
      using settle_invD(3) [OF conjunct1 [OF s]] by (auto simp: issued_def)
    ultimately show "?I (settlement_records_update ?F s)"
      using s by (auto simp: settle_inv_def ledger_inv_def dated_def)
  qed
  have credit: "preserves ?I (CreditAccount ca)" for ca
    by (intro preserves_both billing_settle_inv CreditAccount_frame dated_frame)
  show ?thesis unfolding payout_def by (intro pres credit upd st)
qed

lemma payouts_once: "preserves settle_inv ProcessSettlements"
proof -
  have loop: "preserves (\<lambda>s. settle_inv s \<and> dated rows s) (payouts n rs)" if "set rs \<subseteq> set rows" for rows n rs
    using that
  proof (induction rs arbitrary: n)
    case (Cons r rs)
    then show ?case unfolding payouts.simps Let_def by (intro pres payout_once) auto
  qed (simp add: pres)
  have "settle_inv s'" if inv: "settle_inv s" and run: "ProcessSettlements s = (r, s')" for s r and s' :: "'a settle_db_scheme"
  proof -
    let ?q = "db_select settlement_records (matured (clock s))"
    have st: "settle_inv (s\<lparr>script := tl (script s)\<rparr>)" by (rule stable_script [OF settle_inv_stable inv])
    obtain r0 s0 where q: "?q s = (r0, s0)" by (cases "?q s")
    then have s0: "s0 = s\<lparr>script := tl (script s)\<rparr>" by (rule db_select_read)
    show ?thesis
    proof (cases r0)
      case Inl
      then show ?thesis using run q st s0 by (simp add: ProcessSettlements_def bindE_def getsE_def wrapE_def)
    next
      case (Inr rows)
      have rows: "rows = filter (matured (clock s)) (settlement_records s)" using q Inr s0 by (simp add: ok_simps)
      have d: "distinct (map sr_ID (settlement_records s))" using settle_invD(2) [OF inv] by (simp add: once_def)
      have "dated rows s0"
        unfolding dated_def s0
      proof (intro ballI impI)
        fix x assume x: "x \<in> set (settlement_records (s\<lparr>script := tl (script s)\<rparr>))" "sr_ID x \<in> sr_ID ` set rows"
        then obtain y where "y \<in> set rows" "sr_ID x = sr_ID y" by blast
        moreover from this have "x = y" using distinct_map_eq [OF d, of x y] x(1) rows by simp
        ultimately show "sr_SettleAt x \<noteq> None" using rows by (auto simp: matured_def split: option.splits)
      qed
      moreover have "payouts 0 rows s0 = (r, s')"
        using run q Inr by (simp add: ProcessSettlements_def bindE_def getsE_def wrapE_def)
      ultimately show ?thesis using preserves_run [OF loop [OF order_refl]] st s0 by blast
    qed
  qed
  then show ?thesis unfolding preserves_def by (metis prod.collapse)
qed

lemma proxy_once: "preserves settle_inv (proxyOpenAI X inp path cap)"
proof -
  have keys: "preserves settle_inv (db_update api_keys api_keys_update wh f)" for wh f
    by (intro preserves_db_update_frame settle_inv_stable settle_inv_keys)
  show ?thesis
    unfolding proxyOpenAI_def settle_call_def bump_quotas_def overdraft_check_def scan_account_def Let_def
    by (intro pres settle_inv_stable preserves_db_insert_frame preserves_db_update_frame keys frame
        SubmitAndSettle_settle_inv reads_only_pres [OF settle_inv_stable pickRandomKeyModel_reads])
qed

lemma admin_once:
  "preserves settle_inv (CreateChannel ci)" "preserves settle_inv (ReviewChannel ri)" "preserves settle_inv (DeleteChannel i)"
  "preserves settle_inv (CreateModelSpec mi)" "preserves settle_inv (ReviewModelSpec ri)" "preserves settle_inv (DeleteModelSpec i)"
  "preserves settle_inv (CreateModelKey E u ki)" "preserves settle_inv (DisableModelKey u i a)"
  "preserves settle_inv (BindKeyModel u bi)" "preserves settle_inv (SetProviderShareBps u n)"
  "preserves settle_inv (TriggerKeyModelTest E up pick i)"
  unfolding CreateChannel_def ReviewChannel_def DeleteChannel_def CreateModelSpec_def ReviewModelSpec_def DeleteModelSpec_def
    CreateModelKey_def create_key_tx_def DisableModelKey_def BindKeyModel_def SetProviderShareBps_def TriggerKeyModelTest_def
    GetProviderShareBps_def getProviderShareBpsTx_def query_share_def bind_model_def scan_dto_def Let_def
  by (intro pres preserves_keeps settle_inv_stable preserves_db_insert_frame preserves_db_update_frame preserves_db_delete_frame frame)+

lemmas once_ops = settlement_once traffic_once worker_once payouts_once proxy_once admin_once

lemma gw_step_once: "gw_step s s' \<Longrightarrow> settle_inv s \<Longrightarrow> settle_inv s'"
  by (induction rule: gw_step.induct)
    (simp add: settle_inv_def ledger_inv_def, (rule once_ops [THEN preserves_snd], assumption)+)

lemma gw_run_once: "gw_run s s' \<Longrightarrow> settle_inv s \<Longrightarrow> settle_inv s'"
  by (induction rule: gw_run.induct) (auto intro: gw_step_once)

text \<open>A database whose books are still empty.\<close>

definition no_books :: "'z settle_db_scheme \<Rightarrow> bool" where
  "no_books s \<longleftrightarrow> accounts s = [] \<and> transactions s = [] \<and> transaction_entries s = [] \<and>
     settlement_records s = [] \<and> 0 \<le> seqs s ''transactions''"

lemma no_books_inv: "no_books s \<Longrightarrow> settle_inv s"
  by (simp add: no_books_def settle_inv_def ledger_inv_def once_def issued_def)

text \<open>Property C1.  Settlements are posted exactly once: in every database the gateway reaches from empty
  books, when its operations (requests, workers, the payout job, settling, recharging, credits and debits
  under any reference, administration) run one after the other and whatever statements fail, the
  journal holds at most one posting for a settlement record.  A record that is not settled has none; a
  settled one has exactly the one it names, or it names none, and then it is a record of the queue that the
  payout job has paid.  No two records are for the same reference.\<close>

theorem settled_exactly_once:
  assumes "gw_run s s'" and "no_books s" and "r \<in> set (settlement_records s')"
  shows "(\<forall>t \<in> set (transactions s'). \<forall>u \<in> set (transactions s').
      tx_type t \<in> {''settle'', ''recharge''} \<and> tx_type u \<in> {''settle'', ''recharge''} \<and>
      tx_ref_id t = sr_ID r \<and> tx_ref_id u = sr_ID r \<longrightarrow> t = u) \<and>
    (sr_Status r \<noteq> ''settled'' \<longrightarrow>
      \<not> (\<exists>t \<in> set (transactions s'). tx_type t \<in> {''settle'', ''recharge''} \<and> tx_ref_id t = sr_ID r)) \<and>
    (sr_Status r = ''settled'' \<longrightarrow>
      (\<exists>t \<in> set (transactions s'). tx_type t \<in> {''settle'', ''recharge''} \<and> tx_ref_type t = ''settlement_record'' \<and>
         tx_ref_id t = sr_ID r \<and> tx_id t = sr_TransactionID r) \<or>
      (sr_TransactionID r = 0 \<and> sr_SettleAt r \<noteq> None \<and>
       \<not> (\<exists>t \<in> set (transactions s'). tx_type t \<in> {''settle'', ''recharge''} \<and> tx_ref_id t = sr_ID r))) \<and>
    (\<forall>r' \<in> set (settlement_records s'). sr_ref r' = sr_ref r \<longrightarrow> r' = r)"
proof -
  have inv: "settle_inv s'" by (rule gw_run_once [OF assms(1) no_books_inv [OF assms(2)]])
  note o = settle_invD(2) [OF inv] and iss = settle_invD(3) [OF inv]
  have its: "of_record t r" if "t \<in> set (transactions s')" "tx_type t \<in> {''settle'', ''recharge''}" "tx_ref_id t = sr_ID r" for t
    using once_only [OF o assms(3) that(1) _ that(3)] that(2) by (auto simp: posting_def)
  have txs: "distinct (map tx_id (transactions s'))" and refs: "distinct (map sr_ref (settlement_records s'))"
    and nm: "named r" using o assms(3) by (simp_all add: once_def)
  have pos: "0 < tx_id t" if "t \<in> set (transactions s')" for t using iss that by (simp add: issued_def)
  have one: "t = u" if "of_record t r" "of_record u r" "t \<in> set (transactions s')" "u \<in> set (transactions s')" for t u
    by (rule distinct_map_eq [OF txs that(3,4)]) (use that(1,2) in \<open>simp add: of_record_def\<close>)
  have its': "\<exists>t \<in> set (transactions s'). tx_type t \<in> {''settle'', ''recharge''} \<and> tx_ref_type t = ''settlement_record'' \<and>
         tx_ref_id t = sr_ID r \<and> tx_id t = sr_TransactionID r"
    if "sr_Status r = ''settled''" "sr_TransactionID r \<noteq> 0"
  proof -
    have "\<exists>t \<in> set (transactions s'). posting t \<and> of_record t r"
      using o assms(3) that unfolding once_def by blast
    then obtain t where "t \<in> set (transactions s')" "posting t" "of_record t r" by blast
    then show ?thesis by (intro bexI [of _ t]) (auto simp: posting_def of_record_def)
  qed
  show ?thesis
  proof (intro conjI)
    show "\<forall>r' \<in> set (settlement_records s'). sr_ref r' = sr_ref r \<longrightarrow> r' = r"
      using distinct_map_eq [OF refs _ assms(3)] by blast
    show "sr_Status r \<noteq> ''settled'' \<longrightarrow>
      \<not> (\<exists>t \<in> set (transactions s'). tx_type t \<in> {''settle'', ''recharge''} \<and> tx_ref_id t = sr_ID r)"
      using its by (auto simp: of_record_def)
    show "sr_Status r = ''settled'' \<longrightarrow>
      (\<exists>t \<in> set (transactions s'). tx_type t \<in> {''settle'', ''recharge''} \<and> tx_ref_type t = ''settlement_record'' \<and>
         tx_ref_id t = sr_ID r \<and> tx_id t = sr_TransactionID r) \<or>
      (sr_TransactionID r = 0 \<and> sr_SettleAt r \<noteq> None \<and>
       \<not> (\<exists>t \<in> set (transactions s'). tx_type t \<in> {''settle'', ''recharge''} \<and> tx_ref_id t = sr_ID r))"
    proof
      assume st: "sr_Status r = ''settled''"
      show "(\<exists>t \<in> set (transactions s'). tx_type t \<in> {''settle'', ''recharge''} \<and> tx_ref_type t = ''settlement_record'' \<and>
         tx_ref_id t = sr_ID r \<and> tx_id t = sr_TransactionID r) \<or>
        (sr_TransactionID r = 0 \<and> sr_SettleAt r \<noteq> None \<and>
         \<not> (\<exists>t \<in> set (transactions s'). tx_type t \<in> {''settle'', ''recharge''} \<and> tx_ref_id t = sr_ID r))"
      proof (cases "sr_TransactionID r = 0")
        case True
        have "\<not> of_record t r" if "t \<in> set (transactions s')" for t
          using pos [OF that] True by (auto simp: of_record_def)
        then show ?thesis using True nm st its by (auto simp: named_def)
      qed (use its' [OF st] in blast)
    qed
  qed (use its one in blast)
qed

definition empty_gw :: gateway_db where
  "empty_gw = (demo_gw 0)\<lparr>accounts := [], transactions := [], transaction_entries := [], settlement_records := []\<rparr>"

theorem settled_exactly_once_witness:
  "\<exists>s' t. gw_run empty_gw s' \<and> map sr_ID (settlement_records s') = [11] \<and> t \<in> set (transactions s') \<and>
     tx_type t = ''settle'' \<and> tx_ref_id t = 11"
proof -
  let ?in = "\<lparr>sub_ProductType = ''llm'', sub_RefType = ''request'', sub_RefID = 3, sub_ConsumerUserID = 5,
    sub_ProviderUserID = 6, sub_CostCredits = 100, sub_ProviderRevenueCredits = 70, sub_CommissionCredits = 30,
    sub_PointsToConsumer = 0, sub_PointsToProvider = 0\<rparr>"
  let ?s1 = "snd (Submit ?in empty_gw)"
  let ?s2 = "snd (Settle 11 ?s1)"
  have r: "gw_run empty_gw ?s2"
    by (rule gw_run.step [OF gw_run.step [OF gw_run.refl gw_step.submit] gw_step.settle])
  have e: "no_books empty_gw" by (simp add: no_books_def empty_gw_def gw_defs)
  have m: "map sr_ID (settlement_records ?s2) = [11]" "map sr_Status (settlement_records ?s2) = [''settled'']"
    "map sr_SettleAt (settlement_records ?s2) = [None]"
    by (simp_all add: run empty_gw_def gw_defs)
  then obtain x where x: "x \<in> set (settlement_records ?s2)" "sr_ID x = 11" "sr_Status x = ''settled''" "sr_SettleAt x = None"
    by (cases "settlement_records ?s2") auto
  from settled_exactly_once [OF r e x(1)] x obtain t where t: "t \<in> set (transactions ?s2)" "tx_type t \<in> {''settle'', ''recharge''}"
    "tx_ref_id t = 11" by auto
  have "map tx_type (transactions ?s2) = [''settle'']" by (simp add: run empty_gw_def gw_defs)
  then have "tx_type t = ''settle''" using t(1) by (cases "transactions ?s2") auto
  then show ?thesis using r m(1) t(1,3) by (intro exI [of _ ?s2] exI [of _ t]) simp
qed

section \<open>Keys at rest\<close>

lemma encrypt_decrypt:
  assumes "encryptKey E p = Inr c"
    and "\<And>g n. open_cipher E = Inr g \<Longrightarrow> ke_Nonce E = Inr n \<Longrightarrow> length n = gcm_NonceSize g \<and> gcm_Open g n (gcm_Seal g n p) = Inr p"
  shows "DecryptKey E c = Inr p"
  using assms by (auto simp: encryptKey_def DecryptKey_def hex_roundtrip split: sum.splits)

lemma bind_model_ok:
  assumes "bind_model k sh b s = (Inr i, s')"
  shows "(\<exists>r. llm_model_key_models s' = llm_model_key_models s @ [r] \<and> km_ModelKeyID r = k \<and>
      km_ModelSpecID r = ckb_ModelSpecID b \<and> km_Status r \<noteq> ''active'') \<and> llm_model_keys s' = llm_model_keys s"
  using assms unfolding bind_model_def
  by (auto simp: bindE_ok wrapE_ok db_scan_ok throwE_ok db_insert_ok Let_def new_binding_def split: option.splits if_splits)

lemma binds_ok:
  "mapE (bind_model k sh) bs s = (Inr is, s') \<Longrightarrow>
    (\<exists>rs. llm_model_key_models s' = llm_model_key_models s @ rs \<and> map km_ModelSpecID rs = map ckb_ModelSpecID bs \<and>
      (\<forall>r \<in> set rs. km_ModelKeyID r = k \<and> km_Status r \<noteq> ''active'')) \<and> llm_model_keys s' = llm_model_keys s"
proof (induction bs arbitrary: s "is")
  case (Cons b bs)
  then obtain i s1 js where 1: "bind_model k sh b s = (Inr i, s1)" and 2: "mapE (bind_model k sh) bs s1 = (Inr js, s')"
    by (auto simp: bindE_ok returnE_ok)
  obtain r where r: "llm_model_key_models s1 = llm_model_key_models s @ [r]" "km_ModelKeyID r = k"
    "km_ModelSpecID r = ckb_ModelSpecID b" "km_Status r \<noteq> ''active''" "llm_model_keys s1 = llm_model_keys s"
    using bind_model_ok [OF 1] by blast
  obtain rs where rs: "llm_model_key_models s' = llm_model_key_models s1 @ rs"
    "map km_ModelSpecID rs = map ckb_ModelSpecID bs" "\<forall>r \<in> set rs. km_ModelKeyID r = k \<and> km_Status r \<noteq> ''active''"
    "llm_model_keys s' = llm_model_keys s1"
    using Cons.IH [OF 2] by blast
  show ?case by (intro conjI exI [of _ "r # rs"]) (use r rs in simp_all)
qed (simp add: returnE_ok)

lemma only_script: "\<exists>f' g. s\<lparr>script := f\<rparr> = s\<lparr>script := f', seqs := g\<rparr>"
proof -
  have "s\<lparr>script := f\<rparr> = s\<lparr>script := f, seqs := seqs s\<rparr>" by (cases s) simp
  then show ?thesis by blast
qed

lemma maskKey_hides: "4 < length k \<Longrightarrow> \<exists>t. maskKey k = ''****'' @ t \<and> length t = 4 \<and> drop (length k - 4) k = t"
  by (auto simp: maskKey_def)

lemma create_key_tx_ok:
  fixes s :: "'z llm_db_scheme"
  assumes "create_key_tx u ki c s = (Inr info, s')"
  shows "\<exists>k rs. llm_model_keys s' = llm_model_keys s @ [k] \<and> k = new_key u ki c (clock s) (mk_ID k) \<and>
     llm_model_key_models s' = llm_model_key_models s @ rs \<and>
     map km_ModelSpecID rs = map ckb_ModelSpecID (cki_ModelBindings ki) \<and>
     (\<forall>b \<in> set rs. km_ModelKeyID b = mk_ID k \<and> km_Status b \<noteq> ''active'')"
proof -
  obtain i s1 q s2 sh "is" s3 where 1: "db_insert ''llm_model_keys'' llm_model_keys llm_model_keys_update no_clash (new_key u ki c) s = (Inr i, s1)"
    and 2: "getProviderShareBpsTx u s1 = (q, s2)" and 3: "mapE (bind_model i sh) (cki_ModelBindings ki) s2 = (Inr is, s3)"
    and 4: "scan_dto ''query created model key failed'' llm_model_keys (\<lambda>r. mk_ID r = i) (mk_toDTO zero_key) mk_toDTO s3 = (Inr info, s')"
    using assms unfolding create_key_tx_def Let_def by (simp only: bindE_ok wrapE_ok tryE_ok) blast
  have r2: "reads_only (getProviderShareBpsTx u :: ('z llm_db_scheme, int) eff)"
    unfolding getProviderShareBpsTx_def query_share_def by (intro reads)
  have "\<exists>f. s2 = s1\<lparr>script := f\<rparr>" using reads_onlyD [OF r2 2] by auto
  moreover have "\<exists>f. s' = s3\<lparr>script := f\<rparr>" using reads_onlyD [OF scan_dto_reads 4] by auto
  moreover obtain rs where "llm_model_key_models s3 = llm_model_key_models s2 @ rs"
    "map km_ModelSpecID rs = map ckb_ModelSpecID (cki_ModelBindings ki)"
    "\<forall>r \<in> set rs. km_ModelKeyID r = i \<and> km_Status r \<noteq> ''active''" "llm_model_keys s3 = llm_model_keys s2"
    using binds_ok [OF 3] by blast
  moreover have "llm_model_keys s1 = llm_model_keys s @ [new_key u ki c (clock s) i]"
    "llm_model_key_models s1 = llm_model_key_models s" "mk_ID (new_key u ki c (clock s) i) = i"
    using 1 by (auto simp: db_insert_ok Let_def new_key_def)
  ultimately show ?thesis by (intro exI [of _ "new_key u ki c (clock s) i"] exI [of _ rs]) auto
qed

text \<open>Property C22.  A provider's key is kept safe: with an AEAD cipher that opens what it sealed, a
  successful CreateModelKey stores one key, of the provider, on an active channel, pending, from which
  the relay recovers exactly the key given; of the key itself the row shows four characters at most;
  the bindings asked for are stored with it, none active.  When it fails no table changes.\<close>

theorem stored_key_is_recovered:
  fixes s :: "'z llm_db_scheme"
  assumes "CreateModelKey E u ki s = (r, s')"
    and "\<And>g n. open_cipher E = Inr g \<Longrightarrow> ke_Nonce E = Inr n \<Longrightarrow>
      length n = gcm_NonceSize g \<and> (\<forall>p. gcm_Open g n (gcm_Seal g n p) = Inr p)"
  shows "case r of
      Inr info \<Rightarrow> (\<exists>k rs. llm_model_keys s' = llm_model_keys s @ [k] \<and> mk_ProviderUserID k = u \<and> mk_Status k = ''pending'' \<and>
         (\<exists>ch \<in> set (llm_channels s). ch_ID ch = mk_ChannelID k \<and> ch_Status ch = ''active'') \<and>
         DecryptKey E (mk_KeyEncrypted k) = Inr (cki_Key ki) \<and>
         (\<exists>t. mk_KeyMasked k = ''****'' @ t \<and> length t \<le> 4) \<and>
         llm_model_key_models s' = llm_model_key_models s @ rs \<and>
         map km_ModelSpecID rs = map ckb_ModelSpecID (cki_ModelBindings ki) \<and>
         (\<forall>b \<in> set rs. km_ModelKeyID b = mk_ID k \<and> km_Status b \<noteq> ''active''))
    | Inl e \<Rightarrow> \<exists>f g. s' = s\<lparr>script := f, seqs := g\<rparr>"
proof (cases r)
  case (Inl e)
  obtain q s1 where q: "wrapE ''query channel failed'' (db_scan llm_channels (\<lambda>r. ch_ID r = cki_ChannelID ki)) s = (q, s1)"
    by fastforce
  have "\<exists>f. s1 = s\<lparr>script := f\<rparr>"
    using reads_state [of "wrapE ''query channel failed'' (db_scan llm_channels (\<lambda>r. ch_ID r = cki_ChannelID ki))" s] q
    by (simp add: reads)
  then show ?thesis using assms(1) Inl unfolding CreateModelKey_def bindE_def [of "wrapE _ _"] q
    by (auto simp: bindE_def throwE_def returnE_def liftE_def Let_def
        split: option.splits if_splits prod.splits sum.splits dest!: transact_error_eq; blast intro: only_script)
next
  case (Inr info)
  obtain ch c sA sB where ch: "find (\<lambda>r. ch_ID r = cki_ChannelID ki) (llm_channels s) = Some ch" "ch_Status ch = ''active''"
    and c: "encryptKey E (cki_Key ki) = Inr c" and sA: "\<exists>f. sA = s\<lparr>script := f\<rparr>" and sB: "\<exists>f. s' = sB\<lparr>script := f\<rparr>"
    and tx: "create_key_tx u ki c sA = (Inr info, sB)"
    using assms(1) Inr unfolding CreateModelKey_def
    by (auto simp: bindE_ok transact_ok wrapE_ok db_scan_ok throwE_ok liftE_ok split: option.splits if_splits) blast+
  have "DecryptKey E c = Inr (cki_Key ki)" using encrypt_decrypt [OF c] assms(2) by blast
  moreover have "\<exists>t. maskKey (cki_Key ki) = ''****'' @ t \<and> length t \<le> 4" by (auto simp: maskKey_def)
  moreover obtain k rs where k: "llm_model_keys sB = llm_model_keys sA @ [k]" "k = new_key u ki c (clock sA) (mk_ID k)"
    "llm_model_key_models sB = llm_model_key_models sA @ rs" "map km_ModelSpecID rs = map ckb_ModelSpecID (cki_ModelBindings ki)"
    "\<forall>b \<in> set rs. km_ModelKeyID b = mk_ID k \<and> km_Status b \<noteq> ''active''"
    using create_key_tx_ok [OF tx] by blast
  moreover have "mk_KeyEncrypted k = c" "mk_ProviderUserID k = u" "mk_Status k = ''pending''"
    "mk_KeyMasked k = maskKey (cki_Key ki)" "mk_ChannelID k = cki_ChannelID ki"
    by (subst k(2), simp add: new_key_def)+
  moreover have "llm_model_keys s' = llm_model_keys s @ [k]" "llm_model_key_models s' = llm_model_key_models s @ rs"
    using k(1,3) sA sB by auto
  ultimately show ?thesis
    using find_Some_set [OF ch(1)] ch(2) unfolding Inr sum.case
    by (intro exI [of _ k] exI [of _ rs]) (simp, blast)
qed

definition demo_keys :: key_env where
  "demo_keys = \<lparr>ke_Config = [], ke_Env = ''00'',
     ke_NewGCM = (\<lambda>_. Inr \<lparr>gcm_NonceSize = 2, gcm_Seal = (\<lambda>n p. rev p), gcm_Open = (\<lambda>n c. Inr (rev c))\<rparr>),
     ke_Nonce = Inr ''nn''\<rparr>"

definition demo_key :: LLMCreateModelKeyIn where
  "demo_key = \<lparr>cki_ChannelID = 1, cki_Name = ''n'', cki_Key = ''sk-123456'', cki_ModelBindings =
     [\<lparr>ckb_ModelSpecID = 1, ckb_UpstreamModelName = ''m'', ckb_CacheHitPricePer1K = 1, ckb_CacheMissPricePer1K = 2,
       ckb_OutputPricePer1K = 3\<rparr>]\<rparr>"

lemma demo_key_created: "\<exists>info. fst (CreateModelKey demo_keys 6 demo_key (demo_gw 0)) = Inr info"
  by (simp add: run gw_defs demo_keys_def demo_key_def CreateModelKey_def create_key_tx_def bind_model_def scan_dto_def
      getProviderShareBpsTx_def query_share_def encryptKey_def open_cipher_def getEncryptionKey_def hex_decode.simps
      hex_value_def new_key_def new_binding_def)

theorem stored_key_is_recovered_witness:
  "\<exists>info s' k rs. CreateModelKey demo_keys 6 demo_key (demo_gw 0) = (Inr info, s') \<and>
     llm_model_keys s' = llm_model_keys (demo_gw 0) @ [k] \<and> DecryptKey demo_keys (mk_KeyEncrypted k) = Inr ''sk-123456''"
proof -
  obtain info s' where c: "CreateModelKey demo_keys 6 demo_key (demo_gw 0) = (Inr info, s')"
    using demo_key_created by (metis prod.collapse)
  have law: "length n = gcm_NonceSize g \<and> (\<forall>p. gcm_Open g n (gcm_Seal g n p) = Inr p)"
    if "open_cipher demo_keys = Inr g" "ke_Nonce demo_keys = Inr n" for g n
    using that by (auto simp: demo_keys_def open_cipher_def split: sum.splits option.splits)
  show ?thesis using stored_key_is_recovered [OF c law] c by (auto simp: demo_key_def)
qed

section \<open>What is offered\<close>

text \<open>Both halves of the gateway see the same candidates.\<close>

definition joined :: "int \<Rightarrow> 'z llm_db_scheme \<Rightarrow> keyModelRow \<Rightarrow> modelKeyRow \<Rightarrow> channelRow \<Rightarrow> bool" where
  "joined i s km mk ch \<longleftrightarrow> km \<in> set (llm_model_key_models s) \<and> mk \<in> set (llm_model_keys s) \<and> ch \<in> set (llm_channels s) \<and>
     km_ModelKeyID km = mk_ID mk \<and> mk_ChannelID mk = ch_ID ch \<and> km_ModelSpecID km = i \<and>
     km_Status km = ''active'' \<and> mk_Status mk = ''active'' \<and> ch_Status ch = ''active''"

lemma join_iff:
  "r \<in> set (join_candidates i s) \<longleftrightarrow> (\<exists>km mk ch. joined i s km mk ch \<and> r = candidate km mk ch)"
  "q \<in> set (llm_join i s) \<longleftrightarrow> (\<exists>km mk ch. joined i s km mk ch \<and> q = llm_candidate km mk ch)"
  unfolding join_candidates_def llm_join_def joined_def by (simp; blast)+

definition lc_quota :: "llmCandidate \<Rightarrow> bool" where
  "lc_quota r \<longleftrightarrow> \<not> (lc_MKQuotaLimit r > 0 \<and> lc_MKQuotaUsed r \<ge> lc_MKQuotaLimit r)
     \<and> \<not> (lc_KMQuotaLimit r > 0 \<and> lc_KMQuotaUsed r \<ge> lc_KMQuotaLimit r)"

lemma same_quota: "lc_quota (llm_candidate km mk ch) = quota_left (candidate km mk ch)"
  by (simp add: lc_quota_def quota_left_def llm_candidate_def candidate_def)

lemma llm_join_has_quota:
  "(\<exists>r \<in> set (llm_join i s). lc_quota r) \<longleftrightarrow> (\<exists>r \<in> set (join_candidates i s). quota_left r)"
  unfolding Bex_def join_iff using same_quota by blast

definition offered :: "string list option \<Rightarrow> 'z gateway_db_scheme \<Rightarrow> modelSpecRow \<Rightarrow> bool" where
  "offered allowed s spec \<longleftrightarrow> (case allowed of None \<Rightarrow> True | Some codes \<Rightarrow> ms_ModelCode spec \<in> set codes) \<and>
     (\<exists>r \<in> set (join_candidates (ms_ID spec) s). quota_left r)"

lemma loadCandidates_calm: "calm s \<Longrightarrow> loadCandidates i s = (Inr (filter lc_quota (llm_join i s)), s)"
  by (simp add: loadCandidates_def bindE_def wrapE_def calm_healthy getsE_def returnE_def lc_quota_def [abs_def])

lemma visible_models_calm:
  fixes s :: gateway_db
  assumes "calm s"
  shows "visible_models allowed specs s = (Inr (map (\<lambda>spec. \<lparr>omi_ID = ms_ModelCode spec, omi_Object = ''model'',
     omi_Created = ms_CreatedAt spec, omi_OwnedBy = ms_DeveloperName spec\<rparr>) (filter (offered allowed s) specs)), s)"
proof (induction specs)
  case (Cons spec specs)
  then show ?case
    using llm_join_has_quota [of "ms_ID spec" s]
    by (auto simp: bindE_def loadCandidates_calm [OF assms] returnE_def offered_def filter_empty_conv split: option.splits)
qed (simp add: returnE_def)

text \<open>What GET /v1/models lists: without faults, exactly the active models that the API key
  allows and for which the relay's own query has a candidate with quota left, in the order of the
  table; in particular a model the relay can pick a channel for is listed for a key without limits.\<close>

theorem listed_models_have_candidates:
  fixes s :: gateway_db
  assumes "calm s" and "find (\<lambda>k. ak_id k = i) (api_keys s) = Some key"
  shows "\<exists>infos. ListAvailableModels i s = (Inr infos, s) \<and>
      map omi_ID infos = map ms_ModelCode (filter (\<lambda>sp. ms_Status sp = ''active'' \<and> offered (allowed_codes (Some key)) s sp) (llm_model_specs s)) \<and>
      (unstable_sort (en_srt env) cc_Priority \<longrightarrow> pick_candidate env req m s = (Inr (code, c), s') \<longrightarrow>
         ak_model_limits_enabled key \<or> code \<in> omi_ID ` set infos)"
proof -
  let ?on = "\<lambda>sp. ms_Status sp = ''active'' \<and> offered (allowed_codes (Some key)) s sp"
  let ?infos = "map (\<lambda>spec. \<lparr>omi_ID = ms_ModelCode spec, omi_Object = ''model'', omi_Created = ms_CreatedAt spec,
     omi_OwnedBy = ms_DeveloperName spec\<rparr>) (filter ?on (llm_model_specs s))"
  have l: "ListAvailableModels i s = (Inr ?infos, s)"
    unfolding ListAvailableModels_def
    by (simp add: bindE_def wrapE_def db_scan_def db_select_def calm_healthy [OF assms(1)] assms(2) getsE_def
        visible_models_calm [OF assms(1)] conj_commute)
  moreover have "ak_model_limits_enabled key \<or> code \<in> omi_ID ` set ?infos"
    if srt: "unstable_sort (en_srt env) cc_Priority" and p: "pick_candidate env req m s = (Inr (code, c), s')"
  proof -
    obtain sp km mk ch where f: "sp \<in> set (llm_model_specs s)" "km \<in> set (llm_model_key_models s)" "mk \<in> set (llm_model_keys s)"
      "ch \<in> set (llm_channels s)" "ms_ModelCode sp = code" "ms_Status sp = ''active''" "km_ModelSpecID km = ms_ID sp"
      "km_Status km = ''active''" "mk_Status mk = ''active''" "ch_Status ch = ''active''" "km_ModelKeyID km = mk_ID mk"
      "mk_ChannelID mk = ch_ID ch" "mk_QuotaLimitCredits mk > 0 \<longrightarrow> mk_QuotaUsedCredits mk < mk_QuotaLimitCredits mk"
      "km_QuotaLimitCredits km > 0 \<longrightarrow> km_QuotaUsedCredits km < km_QuotaLimitCredits km"
      using picked_key_source [OF srt p] by metis
    have "joined (ms_ID sp) s km mk ch" using f by (simp add: joined_def)
    then have "candidate km mk ch \<in> set (join_candidates (ms_ID sp) s)" unfolding join_iff by blast
    moreover have "quota_left (candidate km mk ch)" using f by (auto simp: quota_left_def candidate_def)
    ultimately have in_join: "\<exists>r \<in> set (join_candidates (ms_ID sp) s). quota_left r" by blast
    have "?on sp" if "\<not> ak_model_limits_enabled key"
      using f(6) in_join that by (auto simp: offered_def allowed_codes_def)
    then show ?thesis using f(1,5) by force
  qed
  ultimately show ?thesis by (intro exI [of _ ?infos]) simp
qed

definition demo_api_key :: api_key where
  "demo_api_key = \<lparr>ak_id = 1, ak_user_id = 5, ak_key = ''sk-1'', ak_name = [], ak_status = 1, ak_disabled_reason = [],
     ak_model_limits = [], ak_model_limits_enabled = False, ak_quota_credits = None, ak_remain_quota = 0,
     ak_used_quota = 0, ak_unlimited_quota = True, ak_expire_time = None, ak_deleted_at = None, ak_created_at = 0,
     ak_updated_at = 0\<rparr>"

theorem listed_models_have_candidates_witness:
  "\<exists>infos. ListAvailableModels 1 ((demo_gw 1000)\<lparr>api_keys := [demo_api_key]\<rparr>) =
      (Inr infos, (demo_gw 1000)\<lparr>api_keys := [demo_api_key]\<rparr>) \<and> map omi_ID infos = [''m'']"
proof -
  let ?s = "(demo_gw 1000)\<lparr>api_keys := [demo_api_key]\<rparr>"
  have "calm ?s" "find (\<lambda>k. ak_id k = 1) (api_keys ?s) = Some demo_api_key"
    by (simp_all add: calm_def gw_defs demo_api_key_def)
  from listed_models_have_candidates [OF this] obtain infos where i: "ListAvailableModels 1 ?s = (Inr infos, ?s)"
    "map omi_ID infos = map ms_ModelCode (filter (\<lambda>sp. ms_Status sp = ''active'' \<and>
       offered (allowed_codes (Some demo_api_key)) ?s sp) (llm_model_specs ?s))"
    by blast
  define sp where "sp = hd (llm_model_specs (demo_gw 1000))"
  have "llm_model_specs (demo_gw 1000) = [sp]" "ms_Status sp = ''active''" "ms_ModelCode sp = ''m''" "ms_ID sp = 1"
    by (simp_all add: gw_defs sp_def)
  moreover have "allowed_codes (Some demo_api_key) = None" by (simp add: allowed_codes_def demo_api_key_def)
  moreover have "map quota_left (join_candidates 1 ?s) = [True]"
    by (simp add: gw_defs join_candidates_def quota_left_def candidate_def)
  then have "\<exists>r \<in> set (join_candidates 1 ?s). quota_left r" by (cases "join_candidates 1 ?s") auto
  ultimately have "map omi_ID infos = [''m'']"
    unfolding i(2) by (simp add: offered_def del: map_eq_Cons_conv)
  with i(1) show ?thesis by (intro exI [of _ infos] conjI)
qed

end
