(* ===== verification/PaymentClaims.thy ===== *)
theory PaymentClaims
  imports PaymentProps
begin

text \<open>
  What the payment service guarantees: an order is credited at most once and by the amount
  ordered, whatever notifications arrive and whatever statements fail.
\<close>

definition empty_pay :: "int \<Rightarrow> bool \<Rightarrow> pay_db" where
  "empty_pay now nr = \<lparr>script = [], seqs = (\<lambda>_. 0), norows = nr, clock = now, system_configs = [],
     accounts = [], transactions = [], transaction_entries = [], settlement_records = [], api_keys = [],
     payment_channels = [], payment_orders = []\<rparr>"

text \<open>The databases the service can reach: orders are created, notifications arrive, users and
  administrators recharge, credit and debit accounts under references of their own choice, other than
  those of payments, and in between time passes, settings, keys and channels are edited and statements
  start to fail.  What becomes of an order whose reference a user has taken is \<open>forged_recharge\<close> in
  AccessClaims.\<close>

inductive pay_reach :: "pay_db \<Rightarrow> bool" where
  init: "pay_reach (empty_pay now nr)"
| env: "pay_reach s \<Longrightarrow> pay_reach (s\<lparr>script := f, clock := now, system_configs := cs, api_keys := ks,
     payment_channels := chs\<rparr>)"
| order: "pay_reach s \<Longrightarrow> pay_reach (snd (pay_CreateRecharge gw nano u c n s))"
| notify: "pay_reach s \<Longrightarrow> pay_reach (snd (HandleNotify c ali wx s))"
| recharge: "pay_reach s \<Longrightarrow> \<not> HasPrefix rt ''payment:'' \<Longrightarrow> pay_reach (snd (RechargeCredits u n rt ri s))"
| credit: "pay_reach s \<Longrightarrow> pay_reach (snd (CreditAccount ca s))"
| debit: "pay_reach s \<Longrightarrow> pay_reach (snd (DebitAccount ca s))"

section \<open>The journal of a recharge\<close>

lemma RestoreOverdraftKeys_ledger: "RestoreOverdraftKeys u s = (r, s') \<Longrightarrow> ledger_tables s' = ledger_tables s"
  by (rule preserves_eq [where T = ledger_tables and m = "RestoreOverdraftKeys u" and s = s])
    (intro pres ledger_tables_stable frame)

text \<open>Accounts are never removed and keep their owner.\<close>

definition has_account :: "int \<Rightarrow> string \<times> int \<times> string \<Rightarrow> 'z ledger_db_scheme \<Rightarrow> bool" where
  "has_account i k s \<longleftrightarrow> (\<exists>a \<in> set (accounts s). acc_id a = i \<and> acc_key a = k)"

lemma has_account_stable: "stable (has_account i k)"
  by (simp add: stable_def has_account_def)

lemma has_account_frame [frame]:
  "untouched (has_account i k) settlement_records_update" "untouched (has_account i k) api_keys_update"
  "untouched (has_account i k) transactions_update" "untouched (has_account i k) transaction_entries_update"
  by (simp_all add: untouched_def has_account_def)

lemma has_account_map:
  "(\<And>a. acc_id (f a) = acc_id a \<and> acc_key (f a) = acc_key a) \<Longrightarrow> has_account i k s \<Longrightarrow>
    has_account i k (accounts_update (map (\<lambda>r. if wh r then f r else r)) s)"
  unfolding has_account_def
proof (elim bexE)
  fix a assume f: "\<And>a. acc_id (f a) = acc_id a \<and> acc_key (f a) = acc_key a"
    and a: "a \<in> set (accounts s)" "acc_id a = i \<and> acc_key a = k"
  show "\<exists>a \<in> set (accounts (accounts_update (map (\<lambda>r. if wh r then f r else r)) s)). acc_id a = i \<and> acc_key a = k"
    using f a by (intro bexI [of _ "if wh a then f a else a"]) auto
qed

lemma has_account_posts:
  "preserves (has_account i k) (entry_account e)" "preserves (has_account i k) (apply_delta m1 m2 t acc d nb)"
  unfolding entry_account_def insert_account_def apply_delta_def
  by (intro pres has_account_stable preserves_db_insert_frame frame has_account_map;
      auto simp: has_account_def acc_key_def)+

lemma has_account_ops:
  "preserves (has_account i k) (postLedger ty rt ri es)" "preserves (has_account i k) (CreditAccount ca)"
  "preserves (has_account i k) (DebitAccount ca)"
  unfolding postLedger_def post_entry_def insert_transaction_def CreditAccount_def DebitAccount_def one_sided_def
  by (intro pres preserves_keeps has_account_stable has_account_posts preserves_db_insert_frame frame)+

lemma has_account_recharge: "preserves (has_account i k) (RechargeCredits u n rt ri)"
  unfolding RechargeCredits_def CreateRecharge_def recharge_tx_def RestoreOverdraftKeys_def scan_account_def
  by (intro pres preserves_keeps has_account_stable has_account_ops preserves_db_insert_frame preserves_db_update_frame frame)

text \<open>From \<open>s\<close> to \<open>s'\<close> nothing was journalled, or one transaction with its entries.\<close>

definition one_transaction :: "'z ledger_db_scheme \<Rightarrow> 'z ledger_db_scheme \<Rightarrow> bool" where
  "one_transaction s s' \<longleftrightarrow>
     (transactions s' = transactions s \<and> transaction_entries s' = transaction_entries s) \<or>
     (\<exists>t news. transactions s' = transactions s @ [t] \<and> transaction_entries s' = transaction_entries s @ news \<and>
        (\<forall>n \<in> set news. ent_tx_id n = tx_id t))"

text \<open>Transaction \<open>t\<close> is in the journal and consists of one entry, of \<open>n\<close> micro-credits for user \<open>u\<close>.\<close>

definition paid_to :: "'z ledger_db_scheme \<Rightarrow> int \<Rightarrow> int \<Rightarrow> int \<Rightarrow> bool" where
  "paid_to s t u n \<longleftrightarrow> t \<in> tx_id ` set (transactions s) \<and>
     (\<exists>e. filter (\<lambda>e. ent_tx_id e = t) (transaction_entries s) = [e] \<and> ent_delta_micro e = n \<and>
        has_account (ent_account_id e) (''user'', u, ''credits'') s)"

definition entries_refer :: "'z ledger_db_scheme \<Rightarrow> bool" where
  "entries_refer s \<longleftrightarrow> (\<forall>e \<in> set (transaction_entries s). ent_tx_id e \<in> tx_id ` set (transactions s))"

lemma entries_refer_step: "entries_refer s \<Longrightarrow> one_transaction s s' \<Longrightarrow> entries_refer s'"
  by (auto simp: entries_refer_def one_transaction_def)

lemma paid_to_step:
  assumes "paid_to s t u n" "one_transaction s s'" "distinct (map tx_id (transactions s'))"
    and acc: "\<And>i k. has_account i k s \<Longrightarrow> has_account i k s'"
  shows "paid_to s' t u n"
  using assms(2) unfolding one_transaction_def
proof (elim disjE exE conjE)
  fix x news assume x: "transactions s' = transactions s @ [x]" "transaction_entries s' = transaction_entries s @ news"
    "\<forall>m \<in> set news. ent_tx_id m = tx_id x"
  have "tx_id x \<noteq> t" using assms(1,3) x(1) by (auto simp: paid_to_def)
  then have "filter (\<lambda>e. ent_tx_id e = t) news = []" using x(3) by (auto simp: filter_empty_conv)
  then show ?thesis using assms(1) acc x(1,2) by (auto simp: paid_to_def)
qed (use assms(1) acc in \<open>auto simp: paid_to_def\<close>)

lemma recharge_posted:
  assumes "ledger_inv s" "postLedger txTypeRecharge rt ri (recharge_entries inp) s = (Inr (t, es), s')"
  shows "\<exists>x n. transactions s' = transactions s @ [x] \<and> tx_id x = t \<and> transaction_entries s' = transaction_entries s @ [n] \<and>
    ent_tx_id n = t \<and> ent_delta_micro n = rsi_RechargeCredits inp \<and>
    has_account (ent_account_id n) (''user'', rsi_UserID inp, ''credits'') s'"
proof -
  let ?e = "\<lparr>ed_OwnerType = ownerTypeUser, ed_OwnerID = rsi_UserID inp, ed_Asset = assetCredits,
    ed_Delta = rsi_RechargeCredits inp\<rparr>"
  obtain s1 i where 1: "insert_transaction txTypeRecharge rt ri s = (Inr t, s1)" and p: "post_entry t ?e s1 = (Inr i, s')"
    using assms(2) by (auto simp: postLedger_def recharge_entries_def ok_simps split: if_splits)
  note tx = insert_transaction_ok [OF 1]
  have inv1: "ledger_inv s1" using preserves_run [OF insert_transaction_inv assms(1) 1] .
  obtain acc s2 where a: "entry_account ?e s1 = (Inr acc, s2)"
    and d: "apply_delta ''update account balance failed'' ''insert transaction entry failed'' t acc
        (ed_Delta ?e) (i64 (acc_balance_micro acc + ed_Delta ?e)) s2 = (Inr i, s')"
    using p by (auto simp: post_entry_def ok_simps)
  note e = entry_account_ok [OF inv1 a]
  have ids: "distinct (map acc_id (accounts s2))" using e(1) by (simp add: ledger_inv_def)
  note ap = apply_delta_ok [OF ids e(2) d]
  have "has_account (acc_id acc) (acc_key acc) s2" using e(2) by (auto simp: has_account_def)
  then have "has_account (acc_id acc) (acc_key acc) s'" by (rule preserves_run [OF has_account_posts(2) _ d])
  moreover have "acc_key acc = (''user'', rsi_UserID inp, ''credits'')" using e(3) by (simp add: ed_key_def ledger_consts)
  ultimately show ?thesis using tx(3,4) e(6,7) ap(2,3) by auto
qed

text \<open>A recharge journals nothing, or the transaction of its new record.\<close>

lemma RechargeCredits_journal:
  assumes inv: "settle_inv s" and run: "RechargeCredits u n rt ri s = (r, s')"
  shows "one_transaction s s' \<and> (settlement_records s' = settlement_records s \<or>
    (\<exists>rec. settlement_records s' = settlement_records s @ [rec] \<and> recharged u rt ri rec \<and> paid_to s' (sr_TransactionID rec) u n)
     \<or> \<not> entries_refer s)"
proof (cases "n \<le> 0")
  case True
  then show ?thesis using run by (auto simp: RechargeCredits_def throwE_def one_transaction_def)
next
  case False
  let ?inp = "\<lparr>rsi_UserID = u, rsi_RefType = rt, rsi_RefID = ri, rsi_RechargeCredits = n\<rparr>"
  obtain r1 s1 where 1: "CreateRecharge ?inp s = (r1, s1)" by (cases "CreateRecharge ?inp s")
  have same: "settlement_records s' = settlement_records s1 \<and> ledger_tables s' = ledger_tables s1"
  proof (cases r1)
    case (Inl e)
    then show ?thesis using run 1 False by (auto simp: RechargeCredits_def bindE_def wrapE_def)
  next
    case (Inr i)
    obtain r2 s2 where 2: "RestoreOverdraftKeys u s1 = (r2, s2)" by (cases "RestoreOverdraftKeys u s1")
    then have "s' = s2" using run 1 False Inr
      by (simp add: RechargeCredits_def bindE_def wrapE_def tryE_def returnE_def)
    then show ?thesis using RestoreOverdraftKeys_records [OF 2] RestoreOverdraftKeys_ledger [OF 2] by simp
  qed
  show ?thesis
  proof (cases rule: CreateRecharge_cases [OF 1])
    case (1 f g)
    then show ?thesis using same by (simp add: one_transaction_def ledger_tables_def)
  next
    case (2 s0 s2 t es i f info)
    have "ledger_inv (s\<lparr>script := f, seqs := (seqs s)(''settlement_records'' := i)\<rparr>)"
      using ledger_inv_stable settle_invD(1) [OF inv] 2(2) by (auto simp: stable_def)
    then have inv0: "ledger_inv s0" unfolding 2(4) by (simp add: ledger_inv_def)
    obtain x m where p: "transactions s2 = transactions s0 @ [x]" "tx_id x = t"
      "transaction_entries s2 = transaction_entries s0 @ [m]" "ent_tx_id m = t" "ent_delta_micro m = n"
      "has_account (ent_account_id m) (''user'', u, ''credits'') s2"
      using recharge_posted [OF inv0 2(5)] by auto
    have l: "transactions s' = transactions s @ [x]" "transaction_entries s' = transaction_entries s @ [m]"
      "accounts s' = accounts s2"
      using p(1,3) same 2(6) by (simp_all add: ledger_tables_def 2(4))
    have one: "one_transaction s s'" using l p(2,4) by (auto simp: one_transaction_def)
    have rec: "settlement_records s' = settlement_records s @ [link_tx t (recharge_record ?inp (clock s) i)]"
      using recharge_posted_inv(2) [OF inv 2(2,3,4,5,6,7,8)] same by simp
    moreover have "recharged u rt ri (link_tx t (recharge_record ?inp (clock s) i))"
      by (simp add: link_tx_def recharge_record_def recharged_def)
    moreover have "paid_to s' t u n" if refer: "entries_refer s"
    proof -
      have "settle_inv s'" by (rule preserves_run [OF RechargeCredits_settle_inv inv run])
      then have "distinct (map tx_id (transactions s'))" by (simp add: settle_inv_def once_def)
      then have "t \<notin> tx_id ` set (transactions s)" using l(1) p(2) by auto
      then have "filter (\<lambda>e. ent_tx_id e = t) (transaction_entries s) = []"
        using refer by (auto simp: filter_empty_conv entries_refer_def)
      moreover have "has_account (ent_account_id m) (''user'', u, ''credits'') s'"
        using p(6) l(3) by (simp add: has_account_def)
      ultimately show ?thesis using l(1,2) p(2,4,5) by (simp add: paid_to_def)
    qed
    ultimately show ?thesis using one by (auto simp: link_tx_def)
  qed
qed

section \<open>The invariant\<close>

text \<open>Every recharge under the reference of an order paid its amount to its user.\<close>

definition paid_inv :: "'z pay_db_scheme \<Rightarrow> bool" where
  "paid_inv s \<longleftrightarrow> pay_inv s \<and> entries_refer s \<and>
     (\<forall>rec \<in> set (settlement_records s). is_pay_ref (sr_RefType rec) \<longrightarrow>
        (\<forall>x \<in> set (payment_orders s). or_ID x = sr_RefID rec \<longrightarrow>
          paid_to s (sr_TransactionID rec) (or_UserID x) (or_AmountCredits x)))"

lemma paid_inv_step:
  assumes inv: "paid_inv s" and p: "pay_inv s'" and one: "one_transaction s s'"
    and acc: "\<And>i k. has_account i k s \<Longrightarrow> has_account i k s'"
    and ords: "\<And>x. x \<in> set (payment_orders s') \<Longrightarrow> \<exists>y \<in> set (payment_orders s).
      or_ID y = or_ID x \<and> or_UserID y = or_UserID x \<and> or_AmountCredits y = or_AmountCredits x"
    and recs: "\<And>rec. rec \<in> set (settlement_records s') \<Longrightarrow> is_pay_ref (sr_RefType rec) \<Longrightarrow> rec \<in> set (settlement_records s) \<or>
      (\<forall>x \<in> set (payment_orders s'). or_ID x = sr_RefID rec \<longrightarrow> paid_to s' (sr_TransactionID rec) (or_UserID x) (or_AmountCredits x))"
  shows "paid_inv s'"
proof -
  have d: "distinct (map tx_id (transactions s'))" using p by (simp add: pay_inv_def settle_inv_def once_def)
  have "paid_to s' (sr_TransactionID rec) (or_UserID x) (or_AmountCredits x)"
    if m: "rec \<in> set (settlement_records s)" "is_pay_ref (sr_RefType rec)" "x \<in> set (payment_orders s')" "or_ID x = sr_RefID rec" for rec x
  proof -
    obtain y where y: "y \<in> set (payment_orders s)" "or_ID y = or_ID x" "or_UserID y = or_UserID x"
      "or_AmountCredits y = or_AmountCredits x" using ords [OF m(3)] by blast
    have "paid_to s (sr_TransactionID rec) (or_UserID y) (or_AmountCredits y)"
      using inv m(1,2,4) y(1,2) unfolding paid_inv_def by simp
    then have "paid_to s (sr_TransactionID rec) (or_UserID x) (or_AmountCredits x)" using y(3,4) by simp
    then show ?thesis by (rule paid_to_step [OF _ one d acc])
  qed
  then show ?thesis
    using p entries_refer_step [OF _ one] inv recs unfolding paid_inv_def by blast
qed

text \<open>Steps that touch neither orders nor records.\<close>

lemma paid_inv_quiet:
  assumes "paid_inv s" "pay_inv s'" "one_transaction s s'" "\<And>i k. has_account i k s \<Longrightarrow> has_account i k s'"
    "payment_orders s' = payment_orders s" "settlement_records s' = settlement_records s"
  shows "paid_inv s'"
  using assms(5,6) by (intro paid_inv_step [OF assms(1-4)]) auto

lemma paid_inv_script: "paid_inv s \<Longrightarrow> paid_inv (s\<lparr>script := f\<rparr>)"
  by (rule paid_inv_quiet) (auto simp: paid_inv_def one_transaction_def has_account_def intro: pay_inv_script)

text \<open>A confirmed order.\<close>

lemma paid_inv_mark:
  assumes "paid_inv s" "pay_inv (s\<lparr>script := f, payment_orders := mark_order i g (payment_orders s)\<rparr>)"
    "\<And>r. or_ID (g r) = or_ID r \<and> or_UserID (g r) = or_UserID r \<and> or_AmountCredits (g r) = or_AmountCredits r"
  shows "paid_inv (s\<lparr>script := f, payment_orders := mark_order i g (payment_orders s)\<rparr>)"
  by (rule paid_inv_step [OF assms(1,2)])
    (use assms(3) in \<open>auto simp: one_transaction_def has_account_def mark_order_def split: if_splits\<close>)

lemma paid_inv_recharge:
  assumes inv: "paid_inv s" and p: "pay_inv s'" and run: "RechargeCredits u n rt ri s = (r, s')"
    and o: "is_pay_ref rt \<Longrightarrow> \<forall>x \<in> set (payment_orders s). or_ID x = ri \<longrightarrow> or_UserID x = u \<and> or_AmountCredits x = n"
  shows "paid_inv s'"
proof -
  have si: "settle_inv s" using inv by (simp add: paid_inv_def pay_inv_def)
  have same: "payment_orders s' = payment_orders s"
    by (rule preserves_eq [where T = payment_orders, OF RechargeCredits_frame run])
      (simp add: off_settlement_def off_ledger_def untouched_def stable_def)
  have refer: "entries_refer s" using inv by (simp add: paid_inv_def)
  note j = RechargeCredits_journal [OF si run]
  show ?thesis
  proof (rule paid_inv_step [OF inv p conjunct1 [OF j]])
    show "has_account i k s \<Longrightarrow> has_account i k s'" for i k
      by (rule preserves_run [OF has_account_recharge _ run])
    show "x \<in> set (payment_orders s') \<Longrightarrow> \<exists>y \<in> set (payment_orders s).
      or_ID y = or_ID x \<and> or_UserID y = or_UserID x \<and> or_AmountCredits y = or_AmountCredits x" for x
      using same by auto
    show "rec \<in> set (settlement_records s) \<or>
      (\<forall>x \<in> set (payment_orders s'). or_ID x = sr_RefID rec \<longrightarrow> paid_to s' (sr_TransactionID rec) (or_UserID x) (or_AmountCredits x))"
      if "rec \<in> set (settlement_records s')" "is_pay_ref (sr_RefType rec)" for rec
      using conjunct2 [OF j] that refer o same unfolding recharged_def by auto
  qed
qed

lemma confirmOrder_paid:
  assumes inv: "paid_inv s" and run: "confirmOrder no tn c raw s = (r, s')"
  shows "paid_inv s'"
proof -
  have p: "pay_inv s" using inv by (simp add: paid_inv_def)
  have p': "pay_inv s'" by (rule preserves_run [OF confirmOrder_inv p run])
  have uniq: "distinct (map or_ID (payment_orders s))" using p by (simp add: pay_inv_def)
  have ids: "y = x" if "y \<in> set (payment_orders s)" "x \<in> set (payment_orders s)" "or_ID y = or_ID x" for x y
    using distinct_map_eq [OF uniq that] .
  have step: "paid_inv s2"
    if x: "x \<in> set (payment_orders s)" "or_Status x = ''pending''"
      and rc: "RechargeCredits (or_UserID x) (or_AmountCredits x) (pay_ref c) (or_ID x)
         (s\<lparr>script := f, payment_orders := mark_order (or_ID x) (order_paid tn raw (clock s)) (payment_orders s)\<rparr>)
         = (r2, s2)" for x f r2 s2
  proof -
    let ?s1 = "s\<lparr>script := f, payment_orders := mark_order (or_ID x) (order_paid tn raw (clock s)) (payment_orders s)\<rparr>"
    let ?x = "order_paid tn raw (clock s) x"
    have p1: "pay_inv ?s1" by (rule order_paid_inv [OF p])
    have i1: "paid_inv ?s1" by (rule paid_inv_mark [OF inv p1]) (simp add: order_paid_def)
    have mem: "?x \<in> set (payment_orders ?s1)" using order_paid_member [OF x(1)] by simp
    have st: "or_Status ?x \<noteq> ''pending''" and eqs: "or_ID ?x = or_ID x" "or_UserID ?x = or_UserID x"
      by (simp_all add: order_paid_def)
    have none: "\<forall>rec \<in> set (settlement_records ?s1). \<not> pay_rec (or_ID ?x) rec"
      using mark_pending_none [OF p x] eqs by simp
    have rc': "RechargeCredits (or_UserID ?x) (or_AmountCredits x) (pay_ref c) (or_ID ?x) ?s1 = (r2, s2)"
      using rc eqs by simp
    have p2: "pay_inv s2" by (rule recharge_order_inv(1) [OF p1 mem st none rc'])
    show ?thesis
    proof (rule paid_inv_recharge [OF i1 p2 rc])
      show "\<forall>y \<in> set (payment_orders ?s1). or_ID y = or_ID x \<longrightarrow> or_UserID y = or_UserID x \<and> or_AmountCredits y = or_AmountCredits x"
        using ids [OF _ x(1)] by (fastforce simp: mark_order_def order_paid_def)
    qed
  qed
  show ?thesis
  proof (cases rule: confirmOrder_cases [OF run])
    case (1 f)
    then show ?thesis using paid_inv_script [OF inv] by simp
  next
    case (2 x f e)
    then show ?thesis using step by blast
  next
    case (3 x f info s2 g)
    note st = step [OF 3(1,3,4)]
    show ?thesis using 3(5)
    proof (elim disjE conjE)
      assume "s' = s2\<lparr>script := g\<rparr>"
      then show ?thesis using paid_inv_script [OF st] by simp
    next
      assume s': "s' = s2\<lparr>script := g, payment_orders := mark_order (or_ID x) (order_credited (clock s2)) (payment_orders s2)\<rparr>"
      show ?thesis using p' unfolding s' by (intro paid_inv_mark [OF st]) (simp_all add: order_credited_def)
    qed
  qed
qed

section \<open>Every step keeps it\<close>

lemma paid_inv_stable: "stable paid_inv"
proof (rule stableI)
  fix s :: "'a pay_db_scheme" and f g
  assume s: "paid_inv s" "\<And>t. seqs s t \<le> g t"
  then have "pay_inv (s\<lparr>script := f, seqs := g\<rparr>)" using pay_inv_stable unfolding stable_def paid_inv_def by blast
  then show "paid_inv (s\<lparr>script := f, seqs := g\<rparr>)"
    by (intro paid_inv_quiet [OF s(1)]) (simp_all add: one_transaction_def has_account_def)
qed

lemma HandleNotify_paid: "preserves paid_inv (HandleNotify c ali wx)"
proof -
  have c: "preserves paid_inv (confirmOrder no tn ch raw)" for no tn ch raw
    unfolding preserves_def using confirmOrder_paid by (metis prod.collapse)
  show ?thesis
    unfolding HandleNotify_def handleAlipayNotify_def handleWechatNotify_def need_client_def
    by (intro pres c reads_only_pres [OF paid_inv_stable] getChannel_reads)
qed

text \<open>No record refers to the id of a new order.\<close>

lemma insert_order_paid:
  "preserves paid_inv (db_insert ''payment_orders'' payment_orders payment_orders_update or_clash
     (pending_order no u c n rate))"
proof (rule preserves_db_insert [OF paid_inv_stable])
  fix s :: "'a pay_db_scheme"
  let ?i = "seqs s ''payment_orders'' + 1"
  let ?x = "pending_order no u c n rate (clock s) ?i"
  let ?s' = "payment_orders_update (\<lambda>rs. rs @ [?x]) (s\<lparr>seqs := (seqs s)(''payment_orders'' := ?i)\<rparr>)"
  assume inv: "paid_inv s" and new: "\<not> (\<exists>x \<in> set (payment_orders s). or_clash x ?x)"
  have p: "pay_inv s" using inv by (simp add: paid_inv_def)
  have free: "sr_RefID rec \<noteq> ?i" if rec: "rec \<in> set (settlement_records s)" "is_pay_ref (sr_RefType rec)" for rec
  proof -
    obtain x where "x \<in> set (payment_orders s)" "or_ID x = sr_RefID rec"
      using p rec unfolding pay_inv_def order_recs_def by blast
    then show ?thesis using p by (force simp: pay_inv_def)
  qed
  have "pay_inv ?s'"
  proof -
    have base: "pay_inv (s\<lparr>seqs := (seqs s)(''payment_orders'' := ?i)\<rparr>)"
      by (rule stable_seqs [OF pay_inv_stable p]) simp
    have "order_recs (payment_orders s @ [?x]) (settlement_records s)"
      using p unfolding pay_inv_def order_recs_def by (auto simp: pending_order_def)
    moreover have "\<forall>x \<in> set (payment_orders s). or_ID x \<noteq> ?i" using p by (force simp: pay_inv_def)
    ultimately show ?thesis using base p by (auto simp: pay_inv_def pending_order_def settle_inv_def ledger_inv_def)
  qed
  moreover have "entries_refer ?s'" using inv by (simp add: paid_inv_def entries_refer_def)
  moreover have "paid_to ?s' (sr_TransactionID rec) (or_UserID y) (or_AmountCredits y)"
    if y: "rec \<in> set (settlement_records s)" "is_pay_ref (sr_RefType rec)" "y \<in> set (payment_orders s @ [?x])"
      "or_ID y = sr_RefID rec" for rec y
  proof -
    have "or_ID ?x \<noteq> or_ID y" using free [OF y(1,2)] y(4) by (simp add: pending_order_def)
    then have "y \<in> set (payment_orders s)" using y(3) by auto
    then have "paid_to s (sr_TransactionID rec) (or_UserID y) (or_AmountCredits y)"
      using inv y(1,2,4) unfolding paid_inv_def by simp
    then show ?thesis by (simp add: paid_to_def has_account_def)
  qed
  ultimately show "paid_inv ?s'" unfolding paid_inv_def by simp
qed

lemma genOrderNo_reads [reads]: "reads_only (genOrderNo nano c)"
  unfolding genOrderNo_def by (intro reads)

lemma pay_CreateRecharge_paid: "preserves paid_inv (pay_CreateRecharge gw nano u c n)"
  unfolding pay_CreateRecharge_def
  by (intro pres insert_order_paid reads_only_pres [OF paid_inv_stable] getChannel_reads genOrderNo_reads GetInt_reads)

text \<open>Recharges under other references, credits and debits.\<close>

lemma pay_inv_records:
  assumes "pay_inv s" "settle_inv s'" "payment_orders s' = payment_orders s"
    "seqs s ''payment_orders'' \<le> seqs s' ''payment_orders''"
    "settlement_records s' = settlement_records s \<or>
      (\<exists>rec. settlement_records s' = settlement_records s @ [rec] \<and> \<not> is_pay_ref (sr_RefType rec))"
  shows "pay_inv s'"
  using assms(5)
proof (elim disjE exE conjE)
  fix rec assume rec: "settlement_records s' = settlement_records s @ [rec]" "\<not> is_pay_ref (sr_RefType rec)"
  have "order_recs (payment_orders s) (settlement_records s @ [rec])"
    using assms(1) rec(2) unfolding pay_inv_def order_recs_def by auto
  then show ?thesis using assms rec by (auto simp: pay_inv_def intro: order_trans)
qed (use assms in \<open>auto simp: pay_inv_def intro: order_trans\<close>)

lemma orders_off: "off_settlement (\<lambda>t. (payment_orders t, x \<le> seqs t ''payment_orders'') = (y, True))"
  by (auto simp: off_settlement_def off_ledger_def untouched_def stable_def intro: order_trans)

lemma other_recharge_paid:
  assumes inv: "paid_inv s" and rt: "\<not> HasPrefix rt ''payment:''" and run: "RechargeCredits u n rt ri s = (r, s')"
  shows "paid_inv s'"
proof -
  have p: "pay_inv s" and si: "settle_inv s" using inv by (simp_all add: paid_inv_def pay_inv_def)
  have o: "payment_orders s' = payment_orders s" "seqs s ''payment_orders'' \<le> seqs s' ''payment_orders''"
    using preserves_run [OF RechargeCredits_frame [OF orders_off] _ run, of "seqs s ''payment_orders''" "payment_orders s"]
    by simp_all
  have "settlement_records s' = settlement_records s \<or>
      (\<exists>rec. settlement_records s' = settlement_records s @ [rec] \<and> \<not> is_pay_ref (sr_RefType rec))"
    by (cases rule: RechargeCredits_records [OF si run]) (use rt in \<open>auto simp: recharged_def is_pay_ref_def\<close>)
  then have "pay_inv s'"
    by (rule pay_inv_records [OF p preserves_run [OF RechargeCredits_settle_inv si run] o])
  then show ?thesis using rt by (intro paid_inv_recharge [OF inv _ run]) (simp_all add: is_pay_ref_def)
qed

lemma billing_paid:
  assumes inv: "paid_inv s" and run: "m s = (r, s')"
    and si: "preserves settle_inv m" and acc: "\<And>i k. preserves (has_account i k) m"
    and off: "\<And>P. off_ledger P \<Longrightarrow> preserves P m" and one: "one_transaction s s'"
  shows "paid_inv s'"
proof -
  have p: "pay_inv s" using inv by (simp add: paid_inv_def)
  have "off_ledger (\<lambda>t. (settlement_records t, payment_orders t, x \<le> seqs t ''payment_orders'') = (y, z, True))" for x y z
    by (auto simp: off_ledger_def untouched_def stable_def intro: order_trans)
  from preserves_run [OF off [OF this] _ run, of "seqs s ''payment_orders''" "settlement_records s" "payment_orders s"]
  have o: "settlement_records s' = settlement_records s" "payment_orders s' = payment_orders s"
    "seqs s ''payment_orders'' \<le> seqs s' ''payment_orders''" by simp_all
  have "settle_inv s'" using preserves_run [OF si _ run] p by (simp add: pay_inv_def)
  then have "pay_inv s'" using o by (intro pay_inv_records [OF p]) simp_all
  then show ?thesis by (rule paid_inv_quiet [OF inv _ one preserves_run [OF acc _ run] o(2,1)])
qed

lemma one_transaction_billing:
  assumes "ledger_inv s"
  shows "CreditAccount ca s = (r, s') \<Longrightarrow> one_transaction s s'" "DebitAccount ca s = (r, s') \<Longrightarrow> one_transaction s s'"
proof -
  have moved: "one_transaction s s'" if "moved ty ca d info s s'" for ty d info
    using that by (auto simp: moved_def one_transaction_def)
  have none: "one_transaction s s'" if "\<exists>f g. s' = s\<lparr>script := f, seqs := g\<rparr>"
    using that by (auto simp: one_transaction_def)
  show "one_transaction s s'" if run: "CreditAccount ca s = (r, s')"
  proof (cases r)
    case Inl
    then show ?thesis using none CreditAccount_error_tables run by blast
  next
    case Inr
    then show ?thesis using moved CreditAccount_ok [OF assms] run by blast
  qed
  show "one_transaction s s'" if run: "DebitAccount ca s = (r, s')"
  proof (cases r)
    case Inl
    then show ?thesis using none DebitAccount_error_tables run by blast
  next
    case Inr
    then show ?thesis using moved DebitAccount_ok [OF assms] run by blast
  qed
qed

lemma pay_reach_paid: "pay_reach s \<Longrightarrow> paid_inv s"
proof (induction rule: pay_reach.induct)
  case (init now nr)
  show ?case
    by (simp add: empty_pay_def paid_inv_def entries_refer_def pay_inv_def order_recs_def settle_inv_def
        ledger_inv_def once_def issued_def)
next
  case (env s chs ks cs now f)
  have "pay_inv (s\<lparr>script := f, clock := now, system_configs := cs, api_keys := ks, payment_channels := chs\<rparr>)"
    using env by (simp add: paid_inv_def pay_inv_def settle_inv_def ledger_inv_def)
  then show ?case
    by (intro paid_inv_quiet [OF env.IH]) (simp_all add: one_transaction_def has_account_def)
next
  case (recharge s rt u n ri)
  then show ?case using other_recharge_paid by (metis prod.collapse)
next
  case (credit s ca)
  have l: "ledger_inv s" using credit.IH by (simp add: paid_inv_def pay_inv_def settle_inv_def)
  obtain r s' where run: "CreditAccount ca s = (r, s')" by (cases "CreditAccount ca s")
  show ?case using billing_paid [OF credit.IH run billing_settle_inv(2) has_account_ops(2) CreditAccount_frame
    one_transaction_billing(1) [OF l run]] run by simp
next
  case (debit s ca)
  have l: "ledger_inv s" using debit.IH by (simp add: paid_inv_def pay_inv_def settle_inv_def)
  obtain r s' where run: "DebitAccount ca s = (r, s')" by (cases "DebitAccount ca s")
  show ?case using billing_paid [OF debit.IH run billing_settle_inv(3) has_account_ops(3) DebitAccount_frame
    one_transaction_billing(2) [OF l run]] run by simp
qed (auto intro: preservesD [OF pay_CreateRecharge_paid] preservesD [OF HandleNotify_paid])

lemma pay_reach_inv: "pay_reach s \<Longrightarrow> pay_inv s"
  using pay_reach_paid by (simp add: paid_inv_def)

section \<open>Credited once\<close>

text \<open>Property C8.  In every database the payment service can reach, while users and administrators
  recharge and move money under other references, an order that is credited has exactly one recharge
  record, with one posting in the journal, and that posting consists of one entry, which pays the
  amount of the order to the credits account of the user who ordered.  An order that is pending has no
  recharge record, and no order ever has two.\<close>

theorem order_credited_once:
  assumes "pay_reach s" and "x \<in> set (payment_orders s)"
  shows "(or_Status x = ''credited'' \<longrightarrow>
      (\<exists>rec \<in> set (settlement_records s). pay_rec (or_ID x) rec \<and> sr_ConsumerUserID rec = or_UserID x \<and>
         (\<exists>!t. t \<in> set (transactions s) \<and> posting t \<and> tx_ref_id t = sr_ID rec) \<and>
         (\<exists>t \<in> set (transactions s). posting t \<and> tx_ref_id t = sr_ID rec \<and>
           (\<exists>e. filter (\<lambda>e. ent_tx_id e = tx_id t) (transaction_entries s) = [e] \<and>
             ent_delta_micro e = or_AmountCredits x \<and>
             (\<exists>a \<in> set (accounts s). acc_id a = ent_account_id e \<and> acc_owner_type a = ''user'' \<and>
               acc_owner_id a = or_UserID x \<and> acc_asset a = ''credits''))))) \<and>
    (or_Status x = ''pending'' \<longrightarrow> \<not> (\<exists>rec \<in> set (settlement_records s). pay_rec (or_ID x) rec)) \<and>
    (\<forall>a \<in> set (settlement_records s). \<forall>b \<in> set (settlement_records s).
       pay_rec (or_ID x) a \<longrightarrow> pay_rec (or_ID x) b \<longrightarrow> a = b)"
proof (intro conjI impI)
  have paid: "paid_inv s" by (rule pay_reach_paid [OF assms(1)])
  then have inv: "pay_inv s" by (simp add: paid_inv_def)
  have o: "once (settlement_records s) (transactions s)"
    using inv by (simp add: pay_inv_def settle_inv_def)
  have ids: "y = x" if "y \<in> set (payment_orders s)" "or_ID y = or_ID x" for y
    using inv assms(2) that distinct_map_eq [of or_ID "payment_orders s" y x] by (simp add: pay_inv_def)
  show "\<exists>rec \<in> set (settlement_records s). pay_rec (or_ID x) rec \<and> sr_ConsumerUserID rec = or_UserID x \<and>
         (\<exists>!t. t \<in> set (transactions s) \<and> posting t \<and> tx_ref_id t = sr_ID rec) \<and>
         (\<exists>t \<in> set (transactions s). posting t \<and> tx_ref_id t = sr_ID rec \<and>
           (\<exists>e. filter (\<lambda>e. ent_tx_id e = tx_id t) (transaction_entries s) = [e] \<and>
             ent_delta_micro e = or_AmountCredits x \<and>
             (\<exists>a \<in> set (accounts s). acc_id a = ent_account_id e \<and> acc_owner_type a = ''user'' \<and>
               acc_owner_id a = or_UserID x \<and> acc_asset a = ''credits'')))"
    if cred: "or_Status x = ''credited''"
  proof -
    obtain rec where rec: "rec \<in> set (settlement_records s)" "pay_rec (or_ID x) rec"
      using inv assms(2) cred by (auto simp: pay_inv_def order_recs_def)
    then obtain y where y: "y \<in> set (payment_orders s)" "or_ID y = sr_RefID rec"
      "sr_ConsumerUserID rec = or_UserID y" "sr_Status rec = ''settled''"
      using inv by (auto simp: pay_inv_def order_recs_def pay_rec_def)
    then have yx: "y = x" using ids rec(2) by (simp add: pay_rec_def)
    have to: "paid_to s (sr_TransactionID rec) (or_UserID x) (or_AmountCredits x)"
      using paid rec assms(2) by (auto simp: paid_inv_def pay_rec_def)
    have nz: "sr_TransactionID rec \<noteq> 0"
      using to inv by (auto simp: paid_to_def pay_inv_def settle_inv_def issued_def)
    have "\<exists>t \<in> set (transactions s). posting t \<and> of_record t rec"
      using o rec(1) y(4) nz unfolding once_def by blast
    then obtain t where t: "t \<in> set (transactions s)" "posting t" "tx_ref_id t = sr_ID rec" "tx_id t = sr_TransactionID rec"
      by (auto simp: of_record_def)
    have "\<exists>!t. t \<in> set (transactions s) \<and> posting t \<and> tx_ref_id t = sr_ID rec"
      by (rule once_unique_tx [OF o rec(1) y(4) nz])
    then show ?thesis
      using rec y(3) yx t to by (intro bexI [OF _ rec(1)] conjI bexI [OF _ t(1)])
        (auto simp: paid_to_def has_account_def acc_key_def)
  qed
  show "\<not> (\<exists>rec \<in> set (settlement_records s). pay_rec (or_ID x) rec)" if "or_Status x = ''pending''"
    using mark_pending_none [OF inv assms(2) that] by blast
  show "\<forall>a \<in> set (settlement_records s). \<forall>b \<in> set (settlement_records s).
       pay_rec (or_ID x) a \<longrightarrow> pay_rec (or_ID x) b \<longrightarrow> a = b"
    using inv by (auto simp: pay_inv_def order_recs_def pay_rec_def)
qed

definition demo_channel :: payChannel where
  "demo_channel = \<lparr>pc_ID = 1, pc_Channel = ''alipay'', pc_Name = [], pc_AppID = ''app'', pc_PrivateKey = [],
     pc_PublicKey = [], pc_APIKey = [], pc_CertSN = [], pc_NotifyURL = [], pc_IsProd = 1, pc_Status = 1,
     pc_ConfigJSON = [], pc_CreatedAt = 0\<rparr>"

definition demo_gateways :: gateways where
  "demo_gateways = \<lparr>createAlipayOrder = (\<lambda>ch no n f. Inr ''https://pay''), createWechatOrder = (\<lambda>ch no n f. Inr [])\<rparr>"

definition demo_ordered :: pay_db where
  "demo_ordered = snd (pay_CreateRecharge demo_gateways 42 5 ''alipay'' 1000
     ((empty_pay 7 True)\<lparr>script := [], clock := 7, system_configs := [], api_keys := [],
        payment_channels := [demo_channel]\<rparr>))"

lemma demo_ordered_reach: "pay_reach demo_ordered"
  unfolding demo_ordered_def by (intro pay_reach.intros)

lemma demo_ordered_eq: "demo_ordered = (empty_pay 7 True)\<lparr>payment_channels := [demo_channel],
    seqs := (\<lambda>_. 0)(''payment_orders'' := 1),
    payment_orders := [pending_order ''PAYal70042'' 5 ''alipay'' 1000 10 7 1]\<rparr>"
  by (simp add: demo_ordered_def empty_pay_def run config_value_def GetInt_def show_int_def show_nat.simps
      demo_gateways_def demo_channel_def fun_eq_iff) code_simp

definition demo_notify :: alipay_notify where
  "demo_notify = \<lparr>an_OutTradeNo = ''PAYal70042'', an_TradeNo = ''T1'', an_TradeStatus = ''TRADE_SUCCESS'',
     an_Body = [], an_Signed = False, an_Client = (\<lambda>ch. Inr ())\<rparr>"

definition demo_paid :: pay_db where
  "demo_paid = snd (HandleNotify ''alipay'' (Inr demo_notify) (Inl ErrNoRows) demo_ordered)"

lemma demo_paid_reach: "pay_reach demo_paid"
  unfolding demo_paid_def by (rule pay_reach.notify [OF demo_ordered_reach])

lemma demo_paid_orders: "\<exists>x. payment_orders demo_paid = [x] \<and> or_AmountCredits x = 1000 \<and> or_Status x = ''credited''"
  by (simp add: demo_paid_def demo_ordered_eq empty_pay_def run demo_notify_def demo_channel_def RechargeCredits_def)

theorem order_credited_once_witness:
  "\<exists>t \<in> set (transactions demo_paid). \<exists>e. filter (\<lambda>e. ent_tx_id e = tx_id t) (transaction_entries demo_paid) = [e] \<and>
     ent_delta_micro e = 1000"
proof -
  obtain x where "x \<in> set (payment_orders demo_paid)" "or_AmountCredits x = 1000" "or_Status x = ''credited''"
    using demo_paid_orders by auto
  then show ?thesis using order_credited_once [OF demo_paid_reach, of x] by metis
qed

section \<open>Credited by the amount ordered\<close>

definition credit_entry :: "int \<Rightarrow> int \<Rightarrow> entryDelta" where
  "credit_entry u n = \<lparr>ed_OwnerType = ''user'', ed_OwnerID = u, ed_Asset = ''credits'', ed_Delta = n\<rparr>"

lemma RechargeCredits_books:
  assumes inv: "settle_inv s" and run: "RechargeCredits u n rt ri s = (r, s')"
    and none: "\<forall>rec \<in> set (settlement_records s). \<not> (sr_RefType rec = rt \<and> sr_RefID rec = ri)"
  shows "books_of s' = (case r of Inl e \<Rightarrow> books_of s | Inr info \<Rightarrow> book_entry (credit_entry u n) (books_of s))"
proof (cases "n \<le> 0")
  case True
  then show ?thesis using run by (auto simp: RechargeCredits_def throwE_def)
next
  case False
  let ?inp = "\<lparr>rsi_UserID = u, rsi_RefType = rt, rsi_RefID = ri, rsi_RechargeCredits = n\<rparr>"
  obtain r1 s1 where 1: "CreateRecharge ?inp s = (r1, s1)" by (cases "CreateRecharge ?inp s")
  have new: "find (\<lambda>x. sr_RefType x = rsi_RefType ?inp \<and> sr_RefID x = rsi_RefID ?inp) (settlement_records s) = None"
    using none by (simp add: find_None_iff)
  show ?thesis
  proof (cases r1)
    case (Inl e)
    have "s' = s1" "\<exists>e'. r = Inl e'" using run 1 Inl False by (auto simp: RechargeCredits_def bindE_def wrapE_def)
    moreover have "books_of s1 = books_of s"
    proof (cases rule: CreateRecharge_cases [OF 1])
      case (1 f g)
      then show ?thesis by (intro books_of_cong) simp
    qed (use Inl in simp)
    ultimately show ?thesis by auto
  next
    case (Inr i)
    obtain r2 s2 where 2: "RestoreOverdraftKeys u s1 = (r2, s2)" by (cases "RestoreOverdraftKeys u s1")
    have "s' = s2" "r = Inr i" using run 1 2 False Inr
      by (auto simp: RechargeCredits_def bindE_def wrapE_def tryE_def returnE_def)
    moreover have "books_of s2 = books_of s1"
      by (rule books_tables [OF RestoreOverdraftKeys_ledger [OF 2]])
    moreover have "books_of s1 = book_entry (credit_entry u n) (books_of s)"
      using CreateRecharge_credits [OF inv _ new, of i s1] 1 Inr
      by (simp add: credit_entry_def ownerTypeUser_def assetCredits_def)
    ultimately show ?thesis by simp
  qed
qed

text \<open>Property C9.  A notification moves the books only when it confirms a pending order of that
  number, and then by exactly the amount ordered, to the user who ordered; when it reports
  success the order was already confirmed or has now been credited.  A notification of an order
  that is not pending changes no table, also when the recharge of that order has failed before.\<close>

theorem confirmOrder_effect:
  assumes "pay_inv s" and "confirmOrder no tn c raw s = (r, s')"
  shows "(books_of s' = books_of s \<or>
      (\<exists>x \<in> set (payment_orders s). or_OrderNo x = no \<and> or_Status x = ''pending'' \<and>
         books_of s' = book_entry (credit_entry (or_UserID x) (or_AmountCredits x)) (books_of s))) \<and>
    (r = Inr () \<longrightarrow> (\<exists>x \<in> set (payment_orders s). or_OrderNo x = no \<and>
       (or_Status x = ''pending'' \<longrightarrow> books_of s' =
          book_entry (credit_entry (or_UserID x) (or_AmountCredits x)) (books_of s) \<and>
          (\<exists>y \<in> set (payment_orders s'). or_ID y = or_ID x \<and> or_Status y = ''credited'')))) \<and>
    ((\<forall>x \<in> set (payment_orders s). or_OrderNo x = no \<longrightarrow> or_Status x \<noteq> ''pending'') \<longrightarrow>
       (\<exists>f. s' = s\<lparr>script := f\<rparr>))"
proof -
  have recharge: "books_of s2 = (case r2 of Inl e \<Rightarrow> books_of s
        | Inr info \<Rightarrow> book_entry (credit_entry (or_UserID x) (or_AmountCredits x)) (books_of s)) \<and>
      payment_orders s2 = mark_order (or_ID x) (order_paid tn raw (clock s)) (payment_orders s)"
    if x: "x \<in> set (payment_orders s)" "or_Status x = ''pending''"
      and rc: "RechargeCredits (or_UserID x) (or_AmountCredits x) (pay_ref c) (or_ID x)
         (s\<lparr>script := f, payment_orders := mark_order (or_ID x) (order_paid tn raw (clock s)) (payment_orders s)\<rparr>)
         = (r2, s2)" for x f r2 s2
  proof -
    let ?s1 = "s\<lparr>script := f, payment_orders := mark_order (or_ID x) (order_paid tn raw (clock s)) (payment_orders s)\<rparr>"
    have inv: "settle_inv ?s1" using order_paid_inv [OF assms(1)] by (simp add: pay_inv_def)
    have none: "\<forall>rec \<in> set (settlement_records ?s1). \<not> (sr_RefType rec = pay_ref c \<and> sr_RefID rec = or_ID x)"
      using mark_pending_none [OF assms(1) x] by (auto simp: pay_rec_def is_pay_ref_def pay_ref_def HasPrefix_def)
    have "books_of ?s1 = books_of s" by (rule books_of_cong) simp
    moreover have "payment_orders s2 = payment_orders ?s1"
      by (rule preserves_eq [where T = payment_orders, OF RechargeCredits_frame rc])
        (simp add: off_settlement_def off_ledger_def untouched_def stable_def)
    ultimately show ?thesis using RechargeCredits_books [OF inv rc none] by (cases r2) simp_all
  qed
  show ?thesis
  proof (cases rule: confirmOrder_cases [OF assms(2)])
    case (1 f)
    then show ?thesis using books_of_script by auto
  next
    case (2 x f e)
    note st = recharge [OF 2(1,3,4)]
    then show ?thesis using 2 by auto
  next
    case (3 x f info s2 g)
    note st = recharge [OF 3(1,3,4)]
    have b: "books_of s' = book_entry (credit_entry (or_UserID x) (or_AmountCredits x)) (books_of s)"
      using 3(5) st books_of_cong [of s' s2] by auto
    have "\<exists>y \<in> set (payment_orders s'). or_ID y = or_ID x \<and> or_Status y = ''credited''" if "r = Inr ()"
      using 3(1,5) that st
      by (intro bexI [of _ "order_credited (clock s2) (order_paid tn raw (clock s) x)"])
        (auto simp: mark_order_def order_paid_def order_credited_def)
    then show ?thesis using b 3 by blast
  qed
qed

theorem confirmOrder_effect_witness:
  "\<exists>r s'. confirmOrder ''PAYal70042'' ''T1'' ''alipay'' [] demo_paid = (r, s') \<and> accounts s' = accounts demo_paid"
proof -
  obtain r s' where run: "confirmOrder ''PAYal70042'' ''T1'' ''alipay'' [] demo_paid = (r, s')"
    by (cases "confirmOrder ''PAYal70042'' ''T1'' ''alipay'' [] demo_paid")
  have "\<forall>x \<in> set (payment_orders demo_paid). or_Status x \<noteq> ''pending''" using demo_paid_orders by auto
  then have "\<exists>f. s' = demo_paid\<lparr>script := f\<rparr>"
    using confirmOrder_effect [OF pay_reach_inv [OF demo_paid_reach] run] by blast
  then show ?thesis using run by auto
qed

section \<open>Signatures\<close>

lemma bindE_lift_Inr: "bindE (wrapE m (liftE (Inr a))) f = f a"
  by (simp add: bindE_def wrapE_def liftE_def)

lemma bindE_throwE: "bindE (throwE e) f = throwE e"
  by (simp add: bindE_def throwE_def fun_eq_iff)

text \<open>Property C10.  A WeChat notification changes an order or the books only if its signature
  was verified; an Alipay notification is processed in the same way whether it is signed or
  not.\<close>

theorem wechat_needs_signature_alipay_does_not:
  assumes "HandleNotify ''wechat'' ali (Inr wx) s = (r, s')"
    and "\<forall>ch. \<exists>e. wn_Verify wx ch = Inl e"
  shows "(\<exists>f. s' = s\<lparr>script := f\<rparr>) \<and>
    HandleNotify ''alipay'' (Inr (n\<lparr>an_Signed := False\<rparr>)) wxp = (HandleNotify ''alipay'' (Inr (n\<lparr>an_Signed := True\<rparr>)) wxp
      :: (pay_db, unit) eff)"
proof (rule conjI)
  have v: "wrapE m (liftE (wn_Verify wx ch)) = throwE (ErrWrap (projl (wn_Verify wx ch)) m)" for m ch
  proof -
    obtain e where "wn_Verify wx ch = Inl e" using assms(2) by blast
    then show ?thesis by (simp add: wrapE_def liftE_def throwE_def fun_eq_iff)
  qed
  have "reads_only (handleWechatNotify (Inr wx) :: ('a pay_db_scheme, unit) eff)"
    by (simp add: handleWechatNotify_def bindE_lift_Inr v bindE_throwE cong: if_cong) (intro reads)
  then show "\<exists>f. s' = s\<lparr>script := f\<rparr>"
    using assms(1) reads_onlyD by (simp add: HandleNotify_def)
  show "HandleNotify ''alipay'' (Inr (n\<lparr>an_Signed := False\<rparr>)) wxp = (HandleNotify ''alipay'' (Inr (n\<lparr>an_Signed := True\<rparr>)) wxp
      :: (pay_db, unit) eff)"
    by (simp add: HandleNotify_def handleAlipayNotify_def liftE_def wrapE_def bindE_def fun_eq_iff)
qed

theorem wechat_needs_signature_alipay_does_not_witness:
  "\<exists>r s'. HandleNotify ''wechat'' (Inl ErrNoRows) (Inr \<lparr>wn_Decrypt = (\<lambda>k. Inr \<lparr>wr_TradeState = ''SUCCESS'',
      wr_OutTradeNo = ''PAYal70042'', wr_TransactionId = ''T1''\<rparr>), wn_Client = (\<lambda>ch. Inr ()), wn_Verify = (\<lambda>ch. Inl (ErrExt ''bad sign'')),
      wn_Raw = []\<rparr>) demo_ordered = (r, s') \<and> payment_orders s' = payment_orders demo_ordered"
    (is "\<exists>r s'. ?h demo_ordered = (r, s') \<and> _")
proof -
  obtain r s' where run: "?h demo_ordered = (r, s')" by (cases "?h demo_ordered")
  then show ?thesis using wechat_needs_signature_alipay_does_not
    [OF run, where n = demo_notify and wxp = "Inl ErrNoRows"] by auto
qed

end
