(* ===== verification/AccessClaims.thy ===== *)
theory AccessClaims
  imports Api Catalog GatewayBooks PaymentClaims
begin

text \<open>
  Who gets in, and what they can do there: users, sessions and API keys, the gateway behind an API
  key, and the billing handlers behind a session.
\<close>

section \<open>Sessions\<close>

lemma bearer_header [simp]: "bearer (''Bearer '' @ t) = Inr t"
  by (simp add: bearer_def TrimPrefix_def HasPrefix_def)

lemma bearer_ok: "bearer auth = Inr t \<Longrightarrow> auth = ''Bearer '' @ t"
  by (auto simp: bearer_def TrimPrefix_def HasPrefix_iff HasPrefix_def split: if_splits)

lemma Login_ok:
  assumes "Login E inp s = (Inr out, s')"
  shows "\<exists>u. find (\<lambda>u. us_Email u = ToLower (TrimSpace (lgi_Email inp))) (users s) = Some u \<and> us_Status u = 1 \<and>
    bc_Compare E (us_Password u) (lgi_Password inp) \<and> lgo_User out = us_toDTO u \<and> (\<exists>f. s' = s\<lparr>script := f\<rparr>) \<and>
    jwt_Sign E (cfg_Secret E) \<lparr>jc_UserID = us_ID u, jc_Username = us_Username u, jc_Role = us_Role u,
      jc_ExpiresAt = clock s + cfg_ExpireHours E * 3600, jc_IssuedAt = clock s\<rparr> = Inr (lgo_Token out)"
  using assms unfolding Login_def Let_def
  by (auto simp: ok_simps generateJWT_def split: option.splits if_splits)

text \<open>Property C23.  A session: Login succeeds only for an activated user with the password, changes
  nothing, and its token (with a JWT library that recovers what it signed until it expires) opens every
  protected handler, with the id and the role the user had at login, in every later state before the
  expiry; so neither disabling the user nor changing the role ends it.\<close>

theorem login_session:
  fixes s :: "'z identity_db_scheme"
  assumes "Login E inp s = (Inr out, s')"
    and "\<And>k c t now. jwt_Sign E k c = Inr t \<Longrightarrow> now < jc_ExpiresAt c \<Longrightarrow> t \<noteq> [] \<and> jwt_Parse E k t now = Inr (True, Some c)"
    and "0 < cfg_ExpireHours E"
  shows "\<exists>u \<in> set (users s). us_Email u = ToLower (TrimSpace (lgi_Email inp)) \<and> us_Status u = 1 \<and>
    bc_Compare E (us_Password u) (lgi_Password inp) \<and> (\<exists>f. s' = s\<lparr>script := f\<rparr>) \<and>
    (\<forall>later h. clock later < clock s + cfg_ExpireHours E * 3600 \<longrightarrow>
       JWTAuth E (''Bearer '' @ lgo_Token out) h (later :: 'y identity_db_scheme) =
         h \<lparr>tc_UserID = us_ID u, tc_Username = us_Username u, tc_Role = us_Role u\<rparr> later)"
proof -
  obtain u where u: "find (\<lambda>u. us_Email u = ToLower (TrimSpace (lgi_Email inp))) (users s) = Some u" "us_Status u = 1"
    "bc_Compare E (us_Password u) (lgi_Password inp)" "\<exists>f. s' = s\<lparr>script := f\<rparr>"
    and t: "jwt_Sign E (cfg_Secret E) \<lparr>jc_UserID = us_ID u, jc_Username = us_Username u, jc_Role = us_Role u,
      jc_ExpiresAt = clock s + cfg_ExpireHours E * 3600, jc_IssuedAt = clock s\<rparr> = Inr (lgo_Token out)"
    using Login_ok [OF assms(1)] by blast
  have "JWTAuth E (''Bearer '' @ lgo_Token out) h later =
      h \<lparr>tc_UserID = us_ID u, tc_Username = us_Username u, tc_Role = us_Role u\<rparr> later"
    if later: "clock later < clock s + cfg_ExpireHours E * 3600" for later :: "'y identity_db_scheme" and h
    using assms(2) [OF t, of "clock later"] later
    unfolding JWTAuth_def bearer_header by (simp add: ValidateToken_def parseJWT_def bindE_def tryE_def getsE_def liftE_def)
  then show ?thesis using find_Some_set [OF u(1)] u(2-4) by blast
qed

section \<open>Activation\<close>

lemma order_desc_hd: "order_desc k rs = r # rest \<Longrightarrow> r \<in> set rs \<and> (\<forall>x \<in> set rs. k x \<le> k r)"
proof -
  assume "order_desc k rs = r # rest"
  then have "rev (r # rest) = sort_key k rs" unfolding order_desc_def by (metis rev_rev_ident)
  then have s: "sort_key k rs = rev rest @ [r]" by simp
  then have "set rs = insert r (set rest)" using set_sort [of k rs] by simp
  moreover have "sorted (map k (rev rest @ [r]))" using sorted_sort_key [of k rs] s by simp
  ultimately show ?thesis by (auto simp: sorted_append)
qed

lemma use_code_ok:
  assumes "use_code email c s = (Inr msg, s')"
  shows "email_verifications s' = map (\<lambda>x. if ev_ID x = ev_ID c then x\<lparr>ev_UsedAt := Some (clock s)\<rparr> else x) (email_verifications s)"
    and "users s' = map (\<lambda>u. if us_Email u = email then u\<lparr>us_Status := 1, us_UpdatedAt := clock s\<rparr> else u) (users s)"
  using assms unfolding use_code_def by (auto simp: bindE_ok wrapE_ok getsE_ok returnE_ok db_update_ok)

lemma use_code_failed: "use_code email c s = (Inl e, s') \<Longrightarrow> users s' = users s"
  unfolding use_code_def
  by (auto simp: bindE_def wrapE_def getsE_def returnE_def db_update_def db_call_def Let_def split: option.splits)

lemma latest_code_ok:
  assumes "latest_code email s = (Inr (Some c), s')"
  shows "c \<in> set (email_verifications s)" and "ev_Email c = email \<and> ev_Purpose c = ''register'' \<and> ev_UsedAt c = None \<and> clock s \<le> ev_ExpiresAt c"
    and "\<forall>x \<in> set (email_verifications s). ev_Email x = email \<and> ev_Purpose x = ''register'' \<and> ev_UsedAt x = None \<and>
      clock s \<le> ev_ExpiresAt x \<longrightarrow> ev_ID x \<le> ev_ID c"
proof -
  obtain rest where "order_desc ev_ID (filter (\<lambda>r. ev_Email r = email \<and> ev_Purpose r = ''register'' \<and> ev_UsedAt r = None \<and>
      clock s \<le> ev_ExpiresAt r) (email_verifications s)) = c # rest"
    using assms unfolding latest_code_def bindE_ok getsE_ok wrapE_ok db_select_ok returnE_ok
    by (simp split: list.splits)
  from order_desc_hd [OF this] show "c \<in> set (email_verifications s)"
    "ev_Email c = email \<and> ev_Purpose c = ''register'' \<and> ev_UsedAt c = None \<and> clock s \<le> ev_ExpiresAt c"
    "\<forall>x \<in> set (email_verifications s). ev_Email x = email \<and> ev_Purpose x = ''register'' \<and> ev_UsedAt x = None \<and>
      clock s \<le> ev_ExpiresAt x \<longrightarrow> ev_ID x \<le> ev_ID c"
    by auto
qed

text \<open>Activation: VerifyEmail succeeds only with the latest registration code of that
  address that is neither used nor expired; it marks that code used and activates exactly the users of
  the address.  When it fails no user is touched, but the code may be used up: its two updates are not in
  a transaction.\<close>

theorem activation_needs_the_code:
  fixes s :: "'z identity_db_scheme"
  assumes "VerifyEmail inp s = (r, s')"
  shows "case r of
      Inr msg \<Rightarrow> (\<exists>c \<in> set (email_verifications s). ev_Email c = ToLower (TrimSpace (vei_Email inp)) \<and>
         ev_Purpose c = ''register'' \<and> ev_UsedAt c = None \<and> clock s \<le> ev_ExpiresAt c \<and> ev_Code c = vei_Code inp \<and>
         (\<forall>x \<in> set (email_verifications s). ev_Email x = ev_Email c \<and> ev_Purpose x = ''register'' \<and> ev_UsedAt x = None \<and>
            clock s \<le> ev_ExpiresAt x \<longrightarrow> ev_ID x \<le> ev_ID c) \<and>
         email_verifications s' = map (\<lambda>x. if ev_ID x = ev_ID c then x\<lparr>ev_UsedAt := Some (clock s)\<rparr> else x) (email_verifications s) \<and>
         users s' = map (\<lambda>u. if us_Email u = ev_Email c then u\<lparr>us_Status := 1, us_UpdatedAt := clock s\<rparr> else u) (users s))
    | Inl e \<Rightarrow> users s' = users s"
proof -
  let ?email = "ToLower (TrimSpace (vei_Email inp))"
  let ?ok = "\<lambda>r. ev_Email r = ?email \<and> ev_Purpose r = ''register'' \<and> ev_UsedAt r = None \<and> clock s \<le> ev_ExpiresAt r"
  obtain q s1 where q: "latest_code ?email s = (q, s1)" by fastforce
  have "reads_only (latest_code ?email :: ('z identity_db_scheme, emailVerification option) eff)"
    unfolding latest_code_def by (intro reads)
  from reads_onlyD [OF this q] have s1: "\<exists>f. s1 = s\<lparr>script := f\<rparr>" by auto
  have v: "VerifyEmail inp s = (case q of Inl e \<Rightarrow> (Inl e, s1)
      | Inr None \<Rightarrow> (Inl (ErrNew ''verification code not found or expired''), s1)
      | Inr (Some c) \<Rightarrow> if ev_Code c \<noteq> vei_Code inp then (Inl (ErrNew ''invalid verification code''), s1) else use_code ?email c s1)"
    by (simp add: VerifyEmail_def Let_def bindE_def q throwE_def split: sum.split option.split)
  show ?thesis
  proof (cases r)
    case (Inl e)
    then consider "s' = s1" | c where "use_code ?email c s1 = (Inl e, s')"
      using assms v by (auto split: sum.splits option.splits if_splits)
    then have "users s' = users s1"
    proof cases
      case 2
      then show ?thesis by (rule use_code_failed)
    qed simp
    then show ?thesis using s1 Inl by auto
  next
    case (Inr msg)
    then obtain c where qc: "q = Inr (Some c)" and code: "ev_Code c = vei_Code inp" and u: "use_code ?email c s1 = (Inr msg, s')"
      using assms v by (auto split: sum.splits option.splits if_splits)
    have c: "c \<in> set (email_verifications s)" "?ok c" "\<forall>x \<in> set (email_verifications s). ?ok x \<longrightarrow> ev_ID x \<le> ev_ID c"
      using latest_code_ok [OF q [unfolded qc]] by blast+
    have "clock s1 = clock s" "email_verifications s1 = email_verifications s" "users s1 = users s" using s1 by auto
    with use_code_ok [OF u]
    have "email_verifications s' = map (\<lambda>x. if ev_ID x = ev_ID c then x\<lparr>ev_UsedAt := Some (clock s)\<rparr> else x) (email_verifications s)"
      "users s' = map (\<lambda>u. if us_Email u = ?email then u\<lparr>us_Status := 1, us_UpdatedAt := clock s\<rparr> else u) (users s)"
      by simp_all
    then show ?thesis using c code unfolding Inr sum.case by (intro bexI [of _ c]) auto
  qed
qed

section \<open>Registration\<close>

lemma hd_SplitByte: "hd (SplitByte b s) = takeWhile (\<lambda>c. c \<noteq> b) s"
proof (induction s)
  case (Cons c s)
  then show ?case using SplitByte_Cons [of b s] by auto
qed simp

lemma length_filter_pos: "0 < int (length (filter P xs)) \<longleftrightarrow> (\<exists>x \<in> set xs. P x)"
  by (simp add: filter_empty_conv)

text \<open>The name a registration asks for: the part of the address before the at sign or, when a user
  has this name, that part with a suffix from the clock.\<close>

definition wanted_name :: "identity_env \<Rightarrow> userRow list \<Rightarrow> string \<Rightarrow> string" where
  "wanted_name E us email = (let name = takeWhile (\<lambda>c. c \<noteq> CHR ''@'') email in
     if \<exists>u \<in> set us. us_Username u = name then name @ ''_'' @ show_int (clk_Nano E mod 100000) else name)"

lemma username_of_wanted:
  "username_of E email (int (length (filter (\<lambda>u. us_Username u = hd (SplitByte (CHR ''@'') email)) us))) = wanted_name E us email"
  by (simp add: username_of_def wanted_name_def hd_SplitByte filter_empty_conv Let_def)

text \<open>Property C24.  Registration: with a hash and a code from the libraries and no failing statement, an
  address some user has, whatever his status, is refused as registered and changes nothing.  Otherwise
  the name asked for is the part before the at sign, or that part with a suffix when it is taken; when
  it is free, one user is added, under that name and the normalised address, not activated and without
  a role, and with him the code, which is valid for ten minutes; when even the name with its suffix is
  taken, the registration fails and nobody is added.\<close>

theorem registration:
  fixes s :: "'z identity_db_scheme"
  assumes "calm s" "bc_Hash E (rgi_Password inp) = Inr h" "generateCode E 6 = Inr code"
    and "email = ToLower (TrimSpace (rgi_Email inp))" "Register E inp s = (r, s')"
  shows "if \<exists>u \<in> set (users s). us_Email u = email then r = Inl (ErrNew ''email already registered'') \<and> s' = s
    else if \<exists>u \<in> set (users s). us_Username u = wanted_name E (users s) email
    then r = Inl (ErrWrap ErrUnique ''create user failed'') \<and> users s' = users s \<and> email_verifications s' = email_verifications s
    else r = Inr registered_message \<and>
      (\<exists>u v. users s' = users s @ [u] \<and> us_Username u = wanted_name E (users s) email \<and> us_Email u = email \<and>
         us_Password u = h \<and> us_Status u = 0 \<and> us_Role u = 0 \<and>
         email_verifications s' = email_verifications s @ [v] \<and> ev_Email v = email \<and> ev_Code v = code \<and>
         ev_Purpose v = ''register'' \<and> ev_UsedAt v = None \<and> ev_ExpiresAt v = clock s + 600)"
proof -
  have sc: "script s = []" using assms(1) by (simp add: calm_def)
  have count: "bindE (wrapE m (db_count users P)) f s = f (int (length (filter P (users s)))) s" for m P and f :: "int \<Rightarrow> ('z identity_db_scheme, string) eff"
    by (simp add: bindE_def wrapE_def db_count_def sc)
  show ?thesis
  proof (cases "\<exists>u \<in> set (users s). us_Email u = email")
    case True
    then have "0 < int (length (filter (\<lambda>u. us_Email u = email) (users s)))" by (simp only: length_filter_pos)
    then show ?thesis using True assms(5)
      by (simp add: Register_def Let_def assms(4) [symmetric] count throwE_def)
  next
    case False
    let ?name = "wanted_name E (users s) email"
    let ?row = "new_user ?name email h ''email'' 0 RoleUser (clock s) (seqs s ''users'' + 1)"
    have none: "int (length (filter (\<lambda>u. us_Email u = email) (users s))) = 0"
      using False by (simp add: filter_empty_conv)
    have clash: "(\<exists>x \<in> set (users s). us_clash x ?row) \<longleftrightarrow> (\<exists>u \<in> set (users s). us_Username u = ?name)"
      using False by (auto simp: us_clash_def new_user_def)
    have reg: "Register E inp s = bindE (wrapE ''create user failed'' (db_insert ''users'' users users_update us_clash
        (new_user ?name email h ''email'' 0 RoleUser))) (\<lambda>_.
      bindE (wrapE ''store verification code failed'' (db_insert ''email_verifications'' email_verifications
        email_verifications_update no_clash
        (\<lambda>now i. \<lparr>ev_ID = i, ev_Email = email, ev_Code = code, ev_Purpose = ''register'',
           ev_ExpiresAt = now + 600, ev_UsedAt = None, ev_CreatedAt = now\<rparr>))) (\<lambda>_.
      returnE registered_message)) s"
      unfolding Register_def Let_def assms(2,3) assms(4) [symmetric] bindE_lift_Inr
      by (simp only: count none username_of_wanted less_irrefl if_False)
    show ?thesis
    proof (cases "\<exists>u \<in> set (users s). us_Username u = ?name")
      case True
      then show ?thesis using False assms(5) clash
        by (auto simp: reg bindE_def wrapE_def db_insert_def sc Let_def)
    next
      case free: False
      then show ?thesis using False assms(5) clash
        by (auto simp: reg bindE_def wrapE_def db_insert_def sc Let_def liftE_def returnE_def new_user_def RoleUser_def no_clash_def)
    qed
  qed
qed

section \<open>Keys are unique\<close>

definition unique_keys :: "'z settle_db_scheme \<Rightarrow> bool" where
  "unique_keys s \<longleftrightarrow> distinct (map ak_id (api_keys s)) \<and> (\<forall>k \<in> set (api_keys s). ak_id k \<le> seqs s ''api_keys'') \<and>
     distinct (map ak_key (api_keys s))"

lemma unique_stable: "stable unique_keys"
  by (auto simp: stable_def unique_keys_def intro: order_trans)

lemma map_if_same: "(\<And>r. k (f r) = k r) \<Longrightarrow> map k (map (\<lambda>r. if wh r then f r else r) rs) = map k rs"
  by simp

lemma unique_keys_update:
  assumes "unique_keys s" and "\<And>r. ak_id (f r) = ak_id r \<and> ak_key (f r) = ak_key r"
  shows "unique_keys (api_keys_update (map (\<lambda>r. if wh r then f r else r)) s)"
proof -
  have "map ak_id (map (\<lambda>r. if wh r then f r else r) (api_keys s)) = map ak_id (api_keys s)"
    "map ak_key (map (\<lambda>r. if wh r then f r else r) (api_keys s)) = map ak_key (api_keys s)"
    using assms(2) by (intro map_if_same; simp)+
  moreover have "\<forall>u \<in> set (map (\<lambda>r. if wh r then f r else r) (api_keys s)). ak_id u \<le> seqs s ''api_keys''"
    using assms by (auto simp: unique_keys_def)
  ultimately show ?thesis using assms(1) by (simp add: unique_keys_def del: map_map)
qed

lemma unique_keys_insert:
  assumes "unique_keys s" and "\<not> (\<exists>x \<in> set (api_keys s). ak_clash x r)" and "ak_id r = seqs s ''api_keys'' + 1"
  shows "unique_keys (api_keys_update (\<lambda>rs. rs @ [r]) (s\<lparr>seqs := (seqs s)(''api_keys'' := seqs s ''api_keys'' + 1)\<rparr>))"
  using assms by (force simp: unique_keys_def ak_clash_def)

text \<open>Every operation that writes the table, the overdraft check of the first proxy included.\<close>

lemma keys_unique:
  "preserves unique_keys (CreateApiKey E u ki)" "preserves unique_keys (DeleteApiKey u i)"
  "preserves unique_keys (RestoreOverdraftKeys u)" "preserves unique_keys (disableOverdraftKeys u)"
  "preserves unique_keys (overdraft_check u)"
  unfolding CreateApiKey_def DeleteApiKey_def RestoreOverdraftKeys_def disableOverdraftKeys_def overdraft_check_def
    scan_account_def Let_def
  by (intro pres unique_stable unique_keys_update unique_keys_insert; simp add: new_api_key_def)+

section \<open>API keys\<close>

definition usable :: "int \<Rightarrow> api_key \<Rightarrow> bool" where
  "usable now k \<longleftrightarrow> ak_status k = 1 \<and> ak_deleted_at k = None \<and> (case ak_expire_time k of None \<Rightarrow> True | Some t \<Rightarrow> now \<le> t)"

lemma ValidateApiKey_ok:
  assumes "ValidateApiKey key s = (Inr info, s')"
  shows "\<exists>k \<in> set (api_keys s). ak_key k = key \<and> usable (clock s) k \<and> aki_UserID info = ak_user_id k \<and> aki_ID info = ak_id k
    \<and> (\<exists>f. s' = s\<lparr>script := f\<rparr>)"
proof -
  obtain k where k: "find (\<lambda>r. ak_key r = key \<and> ak_status r = 1 \<and> ak_deleted_at r = None) (api_keys s) = Some k"
    and r: "\<not> (case ak_expire_time k of None \<Rightarrow> False | Some t \<Rightarrow> t < clock s)" "aki_UserID info = ak_user_id k"
      "aki_ID info = ak_id k" "\<exists>f. s' = s\<lparr>script := f\<rparr>"
    using assms unfolding ValidateApiKey_def by (auto simp: ok_simps ak_toDTO_def split: option.splits if_splits)
  show ?thesis using find_Some_set [OF k] r by (intro bexI [of _ k]) (auto simp: usable_def split: option.splits)
qed

lemma ValidateApiKey_state: "\<exists>f. snd (ValidateApiKey key s) = s\<lparr>script := f\<rparr>"
proof -
  have "reads_only (ValidateApiKey key :: ('z settle_db_scheme, ApiKeyInfo) eff)"
    unfolding ValidateApiKey_def by (intro reads)
  then show ?thesis by (auto simp: reads_only_def)
qed

lemma unique_keys_same:
  "unique_keys s \<Longrightarrow> k \<in> set (api_keys s) \<Longrightarrow> k' \<in> set (api_keys s) \<Longrightarrow> ak_key k = ak_key k' \<Longrightarrow> k = k'"
  unfolding unique_keys_def using distinct_map_eq [of ak_key "api_keys s" k k'] by metis

lemma deleted_key_refused:
  assumes u: "unique_keys s" and k: "k \<in> set (api_keys s)" and d: "DeleteApiKey (ak_user_id k) (ak_id k) s = (Inr (), s')"
    and v: "ValidateApiKey (ak_key k) s' = (Inr info, s'')"
  shows False
proof -
  let ?wh = "\<lambda>r. ak_id r = ak_id k \<and> ak_user_id r = ak_user_id k \<and> ak_deleted_at r = None"
  have ks: "api_keys s' = map (\<lambda>r. if ?wh r then r\<lparr>ak_deleted_at := Some (clock s), ak_updated_at := clock s\<rparr> else r) (api_keys s)"
    using d unfolding DeleteApiKey_def by (auto simp: ok_simps)
  obtain k' where k': "k' \<in> set (api_keys s')" "ak_key k' = ak_key k" "usable (clock s') k'"
    using ValidateApiKey_ok [OF v] by blast
  then obtain r where r: "r \<in> set (api_keys s)" "k' = (if ?wh r then r\<lparr>ak_deleted_at := Some (clock s), ak_updated_at := clock s\<rparr> else r)"
    unfolding ks by auto
  then have "ak_key r = ak_key k" using k'(2) by (simp split: if_splits)
  then have "r = k" using unique_keys_same [OF u r(1) k] by simp
  then show False using r(2) k'(3) by (auto simp: usable_def split: if_splits)
qed

lemma created_key_accepted:
  assumes u: "unique_keys s" and c: "CreateApiKey E u' ki s = (Inr out, s')" and "script s' = []" and r: "rnd_Bytes E \<noteq> []"
  shows "\<exists>info. ValidateApiKey (ako_Key out) s' = (Inr info, s') \<and> aki_UserID info = u' \<and> aki_ID info = ako_ID out"
proof -
  define key where "key = ''sk-'' @ generateAPIKeySuffix E"
  obtain i where ks: "api_keys s' = api_keys s @ [new_api_key u' key ki (clock s) i]"
    and new: "\<not> (\<exists>x \<in> set (api_keys s). ak_key x = key)" and o': "ako_Key out = key" "ako_ID out = i"
    using c unfolding CreateApiKey_def Let_def key_def
    by (auto simp: ok_simps ak_clash_def new_api_key_def Let_def)
  have "find (\<lambda>r. ak_key r = key \<and> ak_status r = 1 \<and> ak_deleted_at r = None) (api_keys s) = None"
    using new by (auto simp: find_None_iff)
  then have f: "find (\<lambda>r. ak_key r = key \<and> ak_status r = 1 \<and> ak_deleted_at r = None) (api_keys s') =
      Some (new_api_key u' key ki (clock s) i)"
    unfolding ks by (simp add: find_append new_api_key_def)
  have len: "4 \<le> length key" "take 3 key = ''sk-''"
    using r by (cases "rnd_Bytes E"; simp add: key_def generateAPIKeySuffix_def hex_encode_def)+
  show ?thesis unfolding o' ValidateApiKey_def
    using len f assms(3)
    by (simp add: bindE_def wrapE_def db_one_def db_call_def getsE_def returnE_def new_api_key_def ak_toDTO_def Let_def script_nil)
qed

text \<open>Property C25.  The life of an API key: a key just created is accepted as its owner's; what is
  accepted is a key of the table that is enabled, not deleted and not expired; once its owner has deleted
  it, it is refused; and nobody deletes a key of another user.\<close>

theorem api_key_lifecycle:
  assumes "unique_keys s"
  shows "(CreateApiKey E u ki s = (Inr out, s1) \<longrightarrow> script s1 = [] \<longrightarrow> rnd_Bytes E \<noteq> [] \<longrightarrow>
      (\<exists>info. ValidateApiKey (ako_Key out) s1 = (Inr info, s1) \<and> aki_UserID info = u \<and> aki_ID info = ako_ID out))
   \<and> (ValidateApiKey key s = (Inr info', s2) \<longrightarrow> (\<exists>k \<in> set (api_keys s). ak_key k = key \<and> usable (clock s) k \<and>
      aki_UserID info' = ak_user_id k \<and> aki_ID info' = ak_id k))
   \<and> (\<forall>k \<in> set (api_keys s). DeleteApiKey (ak_user_id k) (ak_id k) s = (Inr (), s3) \<longrightarrow>
      (\<exists>e. fst (ValidateApiKey (ak_key k) s3) = Inl e))
   \<and> (\<forall>k \<in> set (api_keys s). DeleteApiKey u' i s = (r, s4) \<longrightarrow> ak_user_id k \<noteq> u' \<longrightarrow> k \<in> set (api_keys s4))"
proof (intro conjI impI ballI)
  fix k assume k: "k \<in> set (api_keys s)" and d: "DeleteApiKey (ak_user_id k) (ak_id k) s = (Inr (), s3)"
  show "\<exists>e. fst (ValidateApiKey (ak_key k) s3) = Inl e"
    using deleted_key_refused [OF assms k d] by (cases "ValidateApiKey (ak_key k) s3"; cases "fst (ValidateApiKey (ak_key k) s3)") auto
next
  fix k assume "k \<in> set (api_keys s)" "DeleteApiKey u' i s = (r, s4)" "ak_user_id k \<noteq> u'"
  then show "k \<in> set (api_keys s4)" unfolding DeleteApiKey_def
    by (auto simp: bindE_def wrapE_def getsE_def returnE_def db_update_def db_call_def Let_def split: option.splits)
qed (use created_key_accepted [OF assms] ValidateApiKey_ok in blast)+

section \<open>The gateway\<close>

text \<open>What a request may leave behind, on behalf of the owner of a key.\<close>

definition served :: "string \<Rightarrow> api_key \<Rightarrow> 'z gateway_db_scheme \<Rightarrow> 'z gateway_db_scheme \<Rightarrow> bool" where
  "served rid k s s' \<longleftrightarrow> money s' = money s \<and> (settlement_queue s' = settlement_queue s \<or>
     0 < books_of s (''user'', ak_user_id k, ''credits'') \<and>
     (\<exists>task. settlement_queue s' = task_to_json task # settlement_queue s \<and> stt_UserID task = ak_user_id k \<and>
        stt_ApiKeyID task = ak_id k \<and> stt_RequestID task = rid))"

lemma relay_served:
  fixes s :: "'z gateway_db_scheme"
  assumes "Handle env req s = (r, s') \<or> HandleStream env req s = (r', s')"
    and "rq_UserID req = ak_user_id k" "rq_ApiKeyID req = ak_id k" "rq_RequestID req = rid"
  shows "served rid k s s'"
proof (cases "0 < books_of s (''user'', ak_user_id k, ''credits'')")
  case True
  have "money s' = money s"
    using assms(1) preserves_run [OF money_kept(1) HOL.refl] preserves_run [OF money_kept(2) HOL.refl] by blast
  moreover have "settlement_queue s' = settlement_queue s \<or>
     (\<exists>task. settlement_queue s' = task_to_json task # settlement_queue s \<and> stt_UserID task = ak_user_id k \<and>
        stt_ApiKeyID task = ak_id k \<and> stt_RequestID task = rid)"
    using relay_one_task [OF assms(1)] unfolding assms(2-4) by blast
  ultimately show ?thesis unfolding served_def using True by blast
next
  case False
  then have "books_of s (''user'', rq_UserID req, ''credits'') \<le> 0" using assms(2) by simp
  from relay_poor [OF this, of env] have "\<exists>f. s' = s\<lparr>script := f\<rparr>" using assms(1) by auto
  then show ?thesis by (auto simp: served_def money_def ledger_tables_def)
qed

lemma served_script: "served rid k (s\<lparr>script := f\<rparr>) s' \<longleftrightarrow> served rid k s s'"
  by (simp add: served_def money_def ledger_tables_def books_of_def)

lemma served_refl: "served rid k s (s\<lparr>script := f\<rparr>)"
  by (simp add: served_def money_def ledger_tables_def)

lemma relayProxy_served:
  assumes "relayProxy env (ak_user_id k) (ak_id k) rid path rd cap s = (r, s')"
  shows "served rid k s s'"
proof (cases rd)
  case (Inl e)
  then have "s' = s\<lparr>script := script s\<rparr>" using assms by (simp add: relayProxy_def returnE_def)
  then show ?thesis using served_refl by metis
next
  case (Inr body)
  define req where "req = relay_request (ak_user_id k) (ak_id k) rid path body cap"
  have "Handle env req s = (fst (Handle env req s), s') \<or> HandleStream env req s = (fst (HandleStream env req s), s')"
    using assms Inr unfolding relayProxy_def req_def
    by (auto simp: Let_def bindE_def tryE_def returnE_def prod_eq_iff split: if_splits sum.splits prod.splits)
  from relay_served [OF this, of k rid] show ?thesis by (simp add: req_def relay_request_def)
qed

lemma script_only_served: "(\<exists>f. s' = s\<lparr>script := f\<rparr>) \<Longrightarrow> served rid k s s'"
  using served_refl by blast

lemma visible_models_reads [reads]: "reads_only (visible_models allowed specs)"
proof (induction specs)
  case (Cons spec specs)
  have "reads_only (db_call (getsE f))" for f
    by (auto simp: reads_only_def db_call_def getsE_def Let_def split: option.splits)
  then show ?case unfolding visible_models.simps loadCandidates_def by (intro reads Cons.IH)
qed (simp add: reads)

lemma gateway_route_served:
  fixes s :: "'z gateway_db_scheme"
  assumes "gateway_route env verb path rid rd (ak_user_id k) (ak_id k) s = (r, s')"
  shows "served rid k s s'"
proof -
  have models: "reads_only (gateway_Models n :: ('z gateway_db_scheme, OpenAIModelInfo list answer) eff)" for n
    unfolding gateway_Models_def answer_def ListAvailableModels_def Let_def by (intro reads)
  have "served rid k s s'" if "bindE (gateway_Models (ak_id k)) (\<lambda>a. returnE (Json (Listed a))) s = (r, s')"
  proof -
    have "reads_only (bindE (gateway_Models (ak_id k)) (\<lambda>a. returnE (Json (Listed a))) :: ('z gateway_db_scheme, gateway_answer answer) eff)"
      by (intro reads models)
    from script_only_served [OF reads_onlyD [OF this that]] show ?thesis .
  qed
  moreover have "served rid k s s'" if "bindE (relayProxy env (ak_user_id k) (ak_id k) rid path rd cap) (\<lambda>a. returnE (Json (Relayed a))) s = (r, s')" for cap
    using that relayProxy_served by (auto simp: bindE_def returnE_def split: prod.splits sum.splits)
  moreover have "served rid k s s'" if "returnE (Exit 404 ''Not Found'') s = (r, s')"
    using that served_refl [of rid k s "script s"] by (simp add: returnE_def)
  ultimately show ?thesis using assms
    unfolding gateway_route_def Let_def RelayChatCompletions_def RelayCompletions_def RelayEmbeddings_def
    by (simp split: if_splits)
qed

text \<open>Property C26.  The gateway serves the owners of keys: a request changes nothing unless it carries
  a usable key of the table, and then it leaves the books and the usage alone and queues at most one
  settlement, for the owner of that key and only when he has credits.\<close>

theorem gateway_serves_key_owners:
  fixes s :: "'z gateway_db_scheme"
  assumes "gateway_server env auth verb path rid rd s = (r, s')"
  shows "(\<exists>f. s' = s\<lparr>script := f\<rparr>) \<or>
    (\<exists>k \<in> set (api_keys s). auth = ''Bearer '' @ ak_key k \<and> usable (clock s) k \<and> served rid k s s')"
proof (cases "bearer auth")
  case (Inl u)
  then have "s' = s\<lparr>script := script s\<rparr>"
    using assms by (simp add: gateway_server_def APIKeyAuth_def returnE_def)
  then show ?thesis by metis
next
  case (Inr key)
  show ?thesis
  proof (cases "key = []")
    case True
    then have "s' = s\<lparr>script := script s\<rparr>"
      using assms Inr by (simp add: gateway_server_def APIKeyAuth_def returnE_def)
    then show ?thesis by metis
  next
    case False
    obtain v s1 where v: "ValidateApiKey key s = (v, s1)" by fastforce
    obtain f where f: "s1 = s\<lparr>script := f\<rparr>" using ValidateApiKey_state [of key s] v by auto
    show ?thesis
    proof (cases v)
      case (Inl e)
      then have "s' = s1" using assms Inr False v
        by (simp add: gateway_server_def APIKeyAuth_def returnE_def bindE_def tryE_def)
      then show ?thesis using f by blast
    next
      case [simp]: (Inr info)
      obtain k where k: "k \<in> set (api_keys s)" "ak_key k = key" "usable (clock s) k" "aki_UserID info = ak_user_id k" "aki_ID info = ak_id k"
        using ValidateApiKey_ok [of key s info s1] v by auto
      have "gateway_route env verb path rid rd (ak_user_id k) (ak_id k) s1 = (r, s')"
        using assms \<open>bearer auth = Inr key\<close> False v k(4,5)
        by (simp add: gateway_server_def APIKeyAuth_def bindE_def tryE_def)
      from gateway_route_served [OF this] have "served rid k s s'" by (simp add: f served_script)
      then show ?thesis using k bearer_ok [OF \<open>bearer auth = Inr key\<close>] by blast
    qed
  qed
qed

section \<open>Credits for nothing\<close>

text \<open>Property C27. Credits without a payment: the billing handlers behind a session post to the
  caller's own account and to no other, but any session may call them, so when no statement fails every
  user can credit himself any positive amount of any asset that has a name; the rules of the input
  refuse other bodies, which change nothing.\<close>

theorem any_user_can_credit_himself:
  fixes s :: "'z identity_db_scheme"
  assumes "ledger_inv s" and "calm s" and "token \<noteq> []" and "ValidateToken E token s = (Inr (Some c), s)"
  shows "if ca_Asset inp \<noteq> [] \<and> 1 \<le> ca_AmountMicro inp then
      (\<exists>info s'. JWTAuth E (''Bearer '' @ token) (\<lambda>c. bill_CreditAccount V c (Inr inp)) s = (Inr (Json info), s') \<and> ledger_inv s' \<and>
       (let k = (''user'', tc_UserID c, ca_Asset inp) in books_of s' = (books_of s)(k := i64 (books_of s k + ca_AmountMicro inp))))
    else (\<exists>msg. JWTAuth E (''Bearer '' @ token) (\<lambda>c. bill_CreditAccount V c (Inr inp)) s = (Inr (Exit 400 msg), s))"
proof (cases "ca_Asset inp \<noteq> [] \<and> 1 \<le> ca_AmountMicro inp")
  case True
  let ?inp = "inp\<lparr>ca_OwnerType := ''user'', ca_OwnerID := tc_UserID c\<rparr>"
  obtain info s' where c: "CreditAccount ?inp s = (Inr info, s')" using CreditAccount_calm [OF assms(2)] by blast
  have "checked V credit_rules (Inr inp) = Inr inp"
    using True by (simp add: checked_def credit_rules_def required_def at_least_def)
  then have "JWTAuth E (''Bearer '' @ token) (\<lambda>c. bill_CreditAccount V c (Inr inp)) s = (Inr (Json info), s')"
    unfolding JWTAuth_def bearer_header
    by (simp add: assms(3,4) bindE_def tryE_def bill_CreditAccount_def with_input_def answer_def returnE_def c)
  moreover have "ledger_inv s'" "moved ''credit'' ?inp (ca_AmountMicro ?inp) info s s'"
    using CreditAccount_ok [OF assms(1) c] by blast+
  ultimately have "\<exists>info s'. JWTAuth E (''Bearer '' @ token) (\<lambda>c. bill_CreditAccount V c (Inr inp)) s = (Inr (Json info), s') \<and>
      ledger_inv s' \<and> (let k = (''user'', tc_UserID c, ca_Asset inp) in books_of s' = (books_of s)(k := i64 (books_of s k + ca_AmountMicro inp)))"
    by (intro exI conjI) (auto simp: moved_def book_entry_def owner_entry_def ed_key_def Let_def fun_eq_iff)
  then show ?thesis using True by simp
next
  case False
  then have "\<exists>e. checked V credit_rules (Inr inp) = Inl e"
    by (auto simp: checked_def credit_rules_def required_def at_least_def)
  then show ?thesis using False
    unfolding JWTAuth_def bearer_header
    by (auto simp: assms(3,4) bindE_def tryE_def bill_CreditAccount_def with_input_def returnE_def)
qed

text \<open>A recharge whose reference is already on record moves nothing.\<close>

lemma RechargeCredits_again:
  assumes run: "RechargeCredits u n rt ri s = (r, s')"
    and rec: "find (\<lambda>x. sr_RefType x = rt \<and> sr_RefID x = ri) (settlement_records s) = Some rec"
  shows "ledger_tables s' = ledger_tables s"
proof (cases "n \<le> 0")
  case True
  then show ?thesis using run by (auto simp: RechargeCredits_def throwE_def)
next
  case False
  let ?inp = "\<lparr>rsi_UserID = u, rsi_RefType = rt, rsi_RefID = ri, rsi_RechargeCredits = n\<rparr>"
  obtain r1 s1 where 1: "CreateRecharge ?inp s = (r1, s1)" by (cases "CreateRecharge ?inp s")
  have same: "ledger_tables s1 = ledger_tables s" using CreateRecharge_again [OF 1, of rec] rec by simp
  show ?thesis
  proof (cases r1)
    case Inl
    then show ?thesis using run 1 False same by (auto simp: RechargeCredits_def bindE_def wrapE_def)
  next
    case (Inr i)
    obtain r2 s2 where 2: "RestoreOverdraftKeys u s1 = (r2, s2)" by (cases "RestoreOverdraftKeys u s1")
    then have "s' = s2" using run 1 False Inr
      by (simp add: RechargeCredits_def bindE_def wrapE_def tryE_def returnE_def)
    then show ?thesis using RestoreOverdraftKeys_ledger [OF 2] same by simp
  qed
qed

text \<open>A forged recharge: the recharge handler lets every session choose the reference, so
  one who recharges himself under the reference of another user's pending order not only gets the credits
  he asked for; when the payment of that order is confirmed afterwards, the order is marked credited and no
  balance moves.\<close>

theorem forged_recharge:
  fixes s :: "'z pay_db_scheme"
  assumes "pay_inv s" and "x \<in> set (payment_orders s)" "or_Status x = ''pending''"
    and "distinct (map or_OrderNo (payment_orders s))"
    and "rci_RefType inp = ''payment:'' @ ch" "rci_RefID inp = or_ID x"
    and "bill_Recharge V c (Inr inp) s = (Inr (Json info), s1)"
    and "confirmOrder (or_OrderNo x) tn ch raw s1 = (Inr (), s2)"
  shows "books_of s1 = (books_of s)((''user'', tc_UserID c, ''credits'') :=
      i64 (books_of s (''user'', tc_UserID c, ''credits'') + rci_AmountCredits inp)) \<and>
    books_of s2 = books_of s1 \<and>
    (\<exists>y \<in> set (payment_orders s2). or_ID y = or_ID x \<and> or_Status y = ''credited'')"
proof -
  have si: "settle_inv s" using assms(1) by (simp add: pay_inv_def)
  let ?rc = "RechargeCredits (tc_UserID c) (rci_AmountCredits inp) (pay_ref ch) (or_ID x)"
  have rc: "?rc s = (Inr info, s1)"
    using assms(5,6,7)
    by (cases "?rc s"; cases "fst (?rc s)")
      (auto simp: bill_Recharge_def with_input_def checked_def answer_def bindE_def tryE_def returnE_def Let_def pay_ref_def
        split: if_splits)
  have none: "\<forall>rec \<in> set (settlement_records s). \<not> (sr_RefType rec = pay_ref ch \<and> sr_RefID rec = or_ID x)"
    using mark_pending_none [OF assms(1-3)] by (auto simp: pay_rec_def is_pay_ref_def pay_ref_def HasPrefix_def)
  have b1: "books_of s1 = book_entry (credit_entry (tc_UserID c) (rci_AmountCredits inp)) (books_of s)"
    using RechargeCredits_books [OF si rc none] by simp
  have orders: "payment_orders s1 = payment_orders s"
    by (rule preserves_eq [where T = payment_orders, OF RechargeCredits_frame rc])
      (simp add: off_settlement_def off_ledger_def untouched_def stable_def)
  obtain rec where rec: "rec \<in> set (settlement_records s1)" "sr_RefType rec = pay_ref ch" "sr_RefID rec = or_ID x"
    by (cases rule: RechargeCredits_records [OF si rc]) (use none in \<open>auto simp: recharged_def\<close>)
  have one: "y = x" if "y \<in> set (payment_orders s)" "or_OrderNo y = or_OrderNo x" for y
    by (rule distinct_map_eq [OF assms(4) that(1) assms(2) that(2)])
  have done': "books_of s2 = books_of s1 \<and> (\<exists>y \<in> set (payment_orders s2). or_ID y = or_ID x \<and> or_Status y = ''credited'')"
  proof (cases rule: confirmOrder_cases [OF assms(8)])
    case (1 f)
    then show ?thesis using one assms(3) orders by auto
  next
    case (2 y f e)
    then show ?thesis by simp
  next
    case (3 y f info' s3 g)
    have y: "y = x" using one 3(1,2) orders by simp
    let ?s1 = "s1\<lparr>script := f, payment_orders := mark_order (or_ID y) (order_paid tn raw (clock s1)) (payment_orders s1)\<rparr>"
    obtain rec' where "find (\<lambda>z. sr_RefType z = pay_ref ch \<and> sr_RefID z = or_ID y) (settlement_records ?s1) = Some rec'"
      using rec y by (cases "find (\<lambda>z. sr_RefType z = pay_ref ch \<and> sr_RefID z = or_ID y) (settlement_records ?s1)")
        (auto simp: find_None_set)
    from RechargeCredits_again [OF 3(4) this] have l: "ledger_tables s3 = ledger_tables s1" by (simp add: ledger_tables_def)
    have o3: "payment_orders s3 = payment_orders ?s1"
      by (rule preserves_eq [where T = payment_orders, OF RechargeCredits_frame 3(4)])
        (simp add: off_settlement_def off_ledger_def untouched_def stable_def)
    have s2: "s2 = s3\<lparr>script := g, payment_orders := mark_order (or_ID y) (order_credited (clock s3)) (payment_orders s3)\<rparr>"
      using 3(5) by simp
    have "books_of s2 = books_of s1" by (rule books_tables) (use l in \<open>simp add: s2 ledger_tables_def\<close>)
    moreover have "order_credited (clock s3) (order_paid tn raw (clock s1) x) \<in> set (payment_orders s2)"
      using 3(1) by (auto simp: s2 o3 y mark_order_def order_paid_def image_iff intro!: bexI [of _ x])
    ultimately show ?thesis
      by (intro conjI bexI [of _ "order_credited (clock s3) (order_paid tn raw (clock s1) x)"])
        (simp_all add: order_credited_def order_paid_def)
  qed
  then show ?thesis using b1 by (simp add: book_entry_def credit_entry_def ed_key_def)
qed

section \<open>The statistics of the suppliers\<close>

lemma present_left_join:
  assumes "\<And>x y. on x y = P y"
  shows "present (left_join xs ys on) = concat (map (\<lambda>x. filter P ys) xs)"
  by (induction xs) (auto simp: left_join_def present_def assms map_filter_def comp_def split: list.splits)

text \<open>The public statistics of a supplier count every usage record once for every binding
  of his keys, because each binding row is joined with every record: the calls and the credits shown are
  the true ones times the number of bindings.\<close>

theorem supplier_statistics_multiply:
  "let n = int (length (supplier_bindings s u)); us = filter (\<lambda>r. ur_ProviderUserID r = us_ID u) (llm_usage_records s) in
     1 \<le> n \<and> su_TotalCalls (supplier_summary s u) = n * int (length us) \<and>
     su_TotalTokens (supplier_summary s u) = n * sum_list (map ur_TotalTokens us) \<and>
     su_TotalCredits (supplier_summary s u) = n * sum_list (map ur_CostCredits us)"
proof -
  have len: "int (length (concat (map (\<lambda>x. us) xs))) = int (length xs) * int (length us)" for xs :: "'x list" and us :: "usageRecord list"
    by (induction xs) (simp_all add: algebra_simps)
  have sum: "sum_list (map (f :: usageRecord \<Rightarrow> int) (concat (map (\<lambda>x. us) xs))) = int (length xs) * sum_list (map f us)" for f xs us
    by (induction xs) (simp_all add: algebra_simps)
  have "left_join [u] ys on \<noteq> []" for ys :: "modelKeyRow list" and on
    by (simp add: left_join_def split: list.splits)
  then have "supplier_bindings s u \<noteq> []" unfolding supplier_bindings_def
    by (auto simp: left_join_def split: list.splits)
  then have "1 \<le> int (length (supplier_bindings s u))" by (cases "supplier_bindings s u") auto
  then show ?thesis unfolding supplier_summary_def Let_def
    by (simp add: present_left_join len sum)
qed

section \<open>Examples\<close>

text \<open>A server with one user, one code, one key; a JWT library that signs one set of claims.\<close>

definition demo_user :: "int \<Rightarrow> userRow" where
  "demo_user status = new_user ''ann'' ''a@b'' ''pw'' ''email'' status 1 0 5"

definition demo_code :: emailVerification where
  "demo_code = \<lparr>ev_ID = 1, ev_Email = ''a@b'', ev_Code = ''123456'', ev_Purpose = ''register'', ev_ExpiresAt = 50,
     ev_UsedAt = None, ev_CreatedAt = 0\<rparr>"

definition demo_site :: "int \<Rightarrow> identity_db" where
  "demo_site status = gateway_db.extend ((demo_gw 1000)\<lparr>api_keys := [demo_api_key]\<rparr>)
     (identity_db.fields [demo_user status] [demo_code] [])"

definition demo_signed :: jwtClaims where
  "demo_signed = \<lparr>jc_UserID = 5, jc_Username = ''ann'', jc_Role = 1, jc_ExpiresAt = 3609, jc_IssuedAt = 9\<rparr>"

definition demo_identity :: identity_env where
  "demo_identity = \<lparr>bc_Hash = Inr, bc_Compare = (=),
     jwt_Sign = (\<lambda>k c. if c = demo_signed then Inr ''t'' else Inl (ErrExt ''unsupported'')),
     jwt_Parse = (\<lambda>k t now. if t = ''t'' \<and> now < 3609 then Inr (True, Some demo_signed) else Inl (ErrExt ''expired'')),
     cfg_Secret = [], cfg_ExpireHours = 1, rnd_Digit = (\<lambda>_. Inr 0), rnd_Bytes = ''r'', clk_Nano = 0\<rparr>"

lemmas site_defs = demo_site_def demo_user_def demo_code_def demo_signed_def demo_identity_def demo_api_key_def gw_defs
  new_user_def gateway_db.extend_def identity_db.fields_def

lemma demo_addresses:
  "ToLower (TrimSpace ''A@b'') = ''a@b''" "ToLower (TrimSpace '' A@b'') = ''a@b''"
  by code_simp+

theorem login_session_witness:
  "fst (JWTAuth demo_identity ''Bearer t'' (\<lambda>c. returnE (Json (tc_UserID c)))
     ((demo_site 1)\<lparr>users := [], clock := 100\<rparr>)) = Inr (Json 5)"
proof -
  have l: "Login demo_identity \<lparr>lgi_Email = ''A@b'', lgi_Password = ''pw''\<rparr> (demo_site 1) =
      (Inr \<lparr>lgo_Token = ''t'', lgo_User = us_toDTO (demo_user 1)\<rparr>, demo_site 1)"
    by (simp add: site_defs Login_def Let_def run demo_addresses generateJWT_def)
  have j: "t \<noteq> [] \<and> jwt_Parse demo_identity k t now = Inr (True, Some c)"
    if "jwt_Sign demo_identity k c = Inr t" "now < jc_ExpiresAt c" for k c t now
    using that by (auto simp: demo_identity_def demo_signed_def split: if_splits)
  have e: "0 < cfg_ExpireHours demo_identity" by (simp add: demo_identity_def)
  obtain u where u: "u \<in> set (users (demo_site 1))"
    "\<forall>later h. clock later < clock (demo_site 1) + cfg_ExpireHours demo_identity * 3600 \<longrightarrow>
       JWTAuth demo_identity (''Bearer '' @ ''t'') (h :: TokenClaims \<Rightarrow> (identity_db, int answer) eff) later =
         h \<lparr>tc_UserID = us_ID u, tc_Username = us_Username u, tc_Role = us_Role u\<rparr> later"
    using login_session [OF l j e] by (auto simp del: append.simps)
  have "us_ID u = 5" using u(1) by (simp add: site_defs)
  moreover have "clock ((demo_site 1)\<lparr>users := [], clock := 100\<rparr>) < clock (demo_site 1) + cfg_ExpireHours demo_identity * 3600"
    by (simp add: site_defs)
  ultimately show ?thesis
    using u(2) [rule_format, of "(demo_site 1)\<lparr>users := [], clock := 100\<rparr>" "\<lambda>c. returnE (Json (tc_UserID c))"]
    by (simp add: returnE_def)
qed

theorem activation_needs_the_code_witness:
  "\<exists>msg s'. VerifyEmail \<lparr>vei_Email = '' A@b'', vei_Code = ''123456''\<rparr> (demo_site 0) = (Inr msg, s') \<and>
     map us_Status (users s') = [1]"
proof -
  let ?run = "VerifyEmail \<lparr>vei_Email = '' A@b'', vei_Code = ''123456''\<rparr> (demo_site 0)"
  have "\<exists>msg. fst ?run = Inr msg"
    by (simp add: site_defs VerifyEmail_def latest_code_def use_code_def order_desc_def Let_def run demo_addresses)
  then obtain msg s' where r: "?run = (Inr msg, s')" by (metis prod.collapse)
  from activation_needs_the_code [OF r] have "map us_Status (users s') = [1]"
    by (auto simp: site_defs demo_addresses)
  with r show ?thesis by (intro exI conjI)
qed

lemma demo_site_keys: "api_keys (demo_site 1) = [demo_api_key]" "seqs (demo_site 1) = (\<lambda>_. 10)"
  by (simp_all add: site_defs)

theorem api_key_lifecycle_witness:
  "\<exists>e. fst (ValidateApiKey ''sk-1'' (snd (DeleteApiKey 5 1 (demo_site 1)))) = Inl e"
proof -
  have u: "unique_keys (demo_site 1)" by (simp add: unique_keys_def demo_site_keys demo_api_key_def)
  have k: "ak_user_id demo_api_key = 5" "ak_id demo_api_key = 1" "ak_key demo_api_key = ''sk-1''"
    by (simp_all add: demo_api_key_def)
  have "fst (DeleteApiKey 5 1 (demo_site 1)) = Inr ()"
    by (simp add: site_defs DeleteApiKey_def run Let_def)
  then have "DeleteApiKey (ak_user_id demo_api_key) (ak_id demo_api_key) (demo_site 1) = (Inr (), snd (DeleteApiKey 5 1 (demo_site 1)))"
    unfolding k by (metis prod.collapse)
  moreover have "demo_api_key \<in> set (api_keys (demo_site 1))" by (simp add: demo_site_keys)
  ultimately have "\<exists>e. fst (ValidateApiKey (ak_key demo_api_key) (snd (DeleteApiKey 5 1 (demo_site 1)))) = Inl e"
    using api_key_lifecycle [OF u] by blast
  then show ?thesis unfolding k .
qed

theorem gateway_serves_key_owners_witness:
  "let s = (demo_gw 1000)\<lparr>api_keys := [demo_api_key]\<rparr>;
       s' = snd (gateway_server demo_env ''Bearer sk-1'' ''POST'' ''/v1/chat/completions'' ''r'' (Inr (rq_RawBody demo_req)) s)
   in length (settlement_queue s') = 1 \<and> served ''r'' demo_api_key s s'"
proof -
  let ?s = "(demo_gw 1000)\<lparr>api_keys := [demo_api_key]\<rparr>"
  let ?g = "gateway_server demo_env ''Bearer sk-1'' ''POST'' ''/v1/chat/completions'' ''r'' (Inr (rq_RawBody demo_req)) ?s"
  have q: "length (settlement_queue (snd ?g)) = 1"
    by (simp add: run gw_defs demo_api_key_def gateway_server_def APIKeyAuth_def bearer_def HasPrefix_def TrimPrefix_def
        ValidateApiKey_def ak_toDTO_def gateway_route_def RelayChatCompletions_def relayProxy_def relay_request_def
        detectStream_def map_filter_simps go_div_def eval_nat_numeral DefaultMaxRetries_def)
  have "?g = (fst ?g, snd ?g)" by simp
  note g = gateway_serves_key_owners [OF this]
  have "settlement_queue ?s = []" by (simp add: gw_defs)
  then have "\<not> (\<exists>f. snd ?g = ?s\<lparr>script := f\<rparr>)" using q by auto
  then have "served ''r'' demo_api_key ?s (snd ?g)" using g by auto
  then show ?thesis using q by (simp add: Let_def)
qed

definition no_rules :: gvalid where
  "no_rules bad = ErrExt ''validation failed''"

theorem any_user_can_credit_himself_witness:
  "\<exists>info s'. JWTAuth demo_identity ''Bearer t'' (\<lambda>c. bill_CreditAccount no_rules c (Inr (demo_credit 1000000)))
     ((demo_site 1)\<lparr>accounts := []\<rparr>) = (Inr (Json info), s') \<and> books_of s' (''user'', 5, ''credits'') = 1000000"
proof -
  let ?s = "(demo_site 1)\<lparr>accounts := []\<rparr>"
  have v: "ledger_inv ?s" "calm ?s" "ValidateToken demo_identity ''t'' ?s = (Inr (Some \<lparr>tc_UserID = 5, tc_Username = ''ann'', tc_Role = 1\<rparr>), ?s)"
    by (simp_all add: ledger_inv_def calm_def site_defs ValidateToken_def parseJWT_def run)
  have b: "books_of ?s (''user'', 5, ''credits'') = 0" by (simp add: books_of_def)
  from any_user_can_credit_himself [OF v(1,2) _ v(3), of "demo_credit 1000000" no_rules] obtain info s' where
    "JWTAuth demo_identity ''Bearer t'' (\<lambda>c. bill_CreditAccount no_rules c (Inr (demo_credit 1000000))) ?s = (Inr (Json info), s')"
    "books_of s' = (books_of ?s)((''user'', 5, ''credits'') := i64 (0 + 1000000))"
    by (auto simp: Let_def demo_credit_def b)
  then show ?thesis by (intro exI [of _ info] exI [of _ s'] conjI) (simp_all add: i64_def)
qed

text \<open>The name ann is taken.\<close>

theorem registration_witness:
  "\<exists>s' u. Register demo_identity \<lparr>rgi_Email = ''ann@c'', rgi_Password = ''pw''\<rparr> (demo_site 1) = (Inr registered_message, s') \<and>
     u \<in> set (users s') \<and> us_Username u = ''ann_0'' \<and> us_Email u = ''ann@c''"
proof -
  let ?in = "\<lparr>rgi_Email = ''ann@c'', rgi_Password = ''pw''\<rparr>"
  obtain r s' where r: "Register demo_identity ?in (demo_site 1) = (r, s')" by (cases "Register demo_identity ?in (demo_site 1)")
  have c: "calm (demo_site 1)" "bc_Hash demo_identity (rgi_Password ?in) = Inr ''pw''"
    by (simp_all add: calm_def site_defs)
  have g: "generateCode demo_identity 6 = Inr ''000000''"
    unfolding generateCode_def demo_identity_def by code_simp
  have e: "ToLower (TrimSpace ''ann@c'') = ''ann@c''" by code_simp
  have n: "show_int 0 = ''0''" by code_simp
  have u: "map us_Username (users (demo_site 1)) = [''ann'']" "map us_Email (users (demo_site 1)) = [''a@b'']"
    by (simp_all add: site_defs)
  then have us: "\<forall>u \<in> set (users (demo_site 1)). us_Username u = ''ann'' \<and> us_Email u = ''a@b''" by auto
  moreover have "\<exists>u \<in> set (users (demo_site 1)). us_Username u = ''ann''" using u by (cases "users (demo_site 1)") auto
  ultimately have w: "wanted_name demo_identity (users (demo_site 1)) ''ann@c'' = ''ann_0''"
    by (auto simp: wanted_name_def n demo_identity_def)
  have "r = Inr registered_message \<and> (\<exists>u. u \<in> set (users s') \<and> us_Username u = ''ann_0'' \<and> us_Email u = ''ann@c'')"
    using registration [OF c g HOL.refl r] us by (auto simp: e w split: if_splits)
  then show ?thesis using r by blast
qed

lemma demo_forged: "\<exists>info s1 s2. bill_Recharge no_rules \<lparr>tc_UserID = 9, tc_Username = [], tc_Role = 0\<rparr>
      (Inr \<lparr>rci_AmountCredits = 1, rci_RefType = ''payment:alipay'', rci_RefID = 1\<rparr>) demo_ordered = (Inr (Json info), s1) \<and>
    confirmOrder ''PAYal70042'' ''T1'' ''alipay'' [] s1 = (Inr (), s2)"
  by (simp add: demo_ordered_eq empty_pay_def run bill_Recharge_def with_input_def checked_def recharge_rules_def
      at_least_def answer_def RechargeCredits_def)

theorem forged_recharge_witness:
  "\<exists>info s1 s2. bill_Recharge no_rules \<lparr>tc_UserID = 9, tc_Username = [], tc_Role = 0\<rparr>
      (Inr \<lparr>rci_AmountCredits = 1, rci_RefType = ''payment:alipay'', rci_RefID = 1\<rparr>) demo_ordered = (Inr (Json info), s1) \<and>
    confirmOrder ''PAYal70042'' ''T1'' ''alipay'' [] s1 = (Inr (), s2) \<and> books_of s2 = books_of s1"
proof -
  let ?x = "pending_order ''PAYal70042'' 5 ''alipay'' 1000 10 7 1"
  obtain info s1 s2 where r: "bill_Recharge no_rules \<lparr>tc_UserID = 9, tc_Username = [], tc_Role = 0\<rparr>
      (Inr \<lparr>rci_AmountCredits = 1, rci_RefType = ''payment:alipay'', rci_RefID = 1\<rparr>) demo_ordered = (Inr (Json info), s1)"
    "confirmOrder ''PAYal70042'' ''T1'' ''alipay'' [] s1 = (Inr (), s2)" using demo_forged by blast
  have o: "payment_orders demo_ordered = [?x]" by (simp add: demo_ordered_eq)
  have n: "or_OrderNo ?x = ''PAYal70042''" "or_ID ?x = 1" "or_Status ?x = ''pending''" by (simp_all add: pending_order_def)
  have "books_of s2 = books_of s1"
    using forged_recharge [OF pay_reach_inv [OF demo_ordered_reach], of ?x _ "''alipay''", OF _ n(3) _ _ _ r(1)] r(2) o n
    by simp
  then show ?thesis using r by blast
qed

end
