(* ===== verification/AdminApi.thy ===== *)
theory AdminApi
  imports Api
begin

text \<open>
  The administrator's handlers, \<^verbatim>\<open>internal/controller/api/admin\<close>, and the payment handlers of
  users (\<^verbatim>\<open>controller/api/payment/pay.go\<close>), which share the envelope of admin/response.go: HTTP 200
  always, and a code in the document.
\<close>

section \<open>The envelope\<close>

datatype 'b envelope = Ok 'b | OkMsg string | Fail string | Page 'b int int int

definition storeNote :: "string \<Rightarrow> string \<Rightarrow> string" where
  "storeNote refType note = (let n = TrimSpace note in if n = [] then refType else refType @ '': '' @ n)"

definition ok_or_fail :: "('s, 'b) eff \<Rightarrow> ('s, 'b envelope) eff" where
  "ok_or_fail m = bindE (tryE m) (\<lambda>r. returnE (case r of Inl e \<Rightarrow> Fail (err_text e) | Inr x \<Rightarrow> Ok x))"

definition msg_or_fail :: "string \<Rightarrow> ('s, 'a) eff \<Rightarrow> ('s, 'b envelope) eff" where
  "msg_or_fail msg m = bindE (tryE m) (\<lambda>r. returnE (case r of Inl e \<Rightarrow> Fail (err_text e) | Inr x \<Rightarrow> OkMsg msg))"

definition page_or_fail :: "int \<Rightarrow> int \<Rightarrow> ('s, 'b list \<times> int) eff \<Rightarrow> ('s, 'b list envelope) eff" where
  "page_or_fail pageNum pageSize m = bindE (tryE m) (\<lambda>r. returnE (case r of
     Inl e \<Rightarrow> Fail (err_text e) | Inr (rows, cnt) \<Rightarrow> Page rows cnt pageNum pageSize))"

definition parsed_or_fail :: "go_err + 'i \<Rightarrow> ('i \<Rightarrow> ('s, 'b envelope) eff) \<Rightarrow> ('s, 'b envelope) eff" where
  "parsed_or_fail parsed h = (case parsed of
     Inl e \<Rightarrow> returnE (Fail (''invalid params: '' @ err_text e)) | Inr x \<Rightarrow> h x)"

section \<open>Users\<close>

text \<open>\<^verbatim>\<open>r.Get(k)\<close> is nil when the parameter is absent.\<close>

definition opt_int :: "params \<Rightarrow> string \<Rightarrow> int option" where
  "opt_int q k = map_option (pm_conv q) (pm_get q k)"

definition adm_ListUsers :: "params \<Rightarrow> ('z identity_db_scheme, UserInfo list envelope) eff" where
  "adm_ListUsers q =
     (let pageNum = get_int q ''pageNum'' 1; pageSize = get_int q ''pageSize'' 20 in
      page_or_fail pageNum pageSize
        (ListUsers pageNum pageSize (opt_int q ''status'') (opt_int q ''role'') (get_str q ''keyword'' [])))"

definition adm_GetUser :: "params \<Rightarrow> ('z identity_db_scheme, UserInfo envelope) eff" where
  "adm_GetUser q = ok_or_fail (GetUser (get_int q ''id'' 0))"

definition adm_UpdateUserStatus :: "params \<Rightarrow> ('z identity_db_scheme, unit envelope) eff" where
  "adm_UpdateUserStatus q = msg_or_fail ''updated'' (UpdateUserStatus (get_int q ''id'' 0) (get_int q ''status'' 0))"

definition adm_UpdateUserRole :: "params \<Rightarrow> ('z identity_db_scheme, unit envelope) eff" where
  "adm_UpdateUserRole q = msg_or_fail ''updated'' (UpdateUserRole (get_int q ''id'' 0) (get_int q ''role'' 0))"

definition adm_CreateUser :: "identity_env \<Rightarrow> go_err + CreateUserIn \<Rightarrow> ('z identity_db_scheme, UserInfo envelope) eff" where
  "adm_CreateUser E parsed = parsed_or_fail parsed (\<lambda>inp. ok_or_fail (CreateUser E inp))"

definition adm_DeleteUser :: "params \<Rightarrow> ('z identity_db_scheme, unit envelope) eff" where
  "adm_DeleteUser q = msg_or_fail ''deleted'' (UpdateUserStatus (get_int q ''id'' 0) 0)"

definition adm_ListProviderApplications :: "params \<Rightarrow> ('z identity_db_scheme, ProviderApplicationInfo list envelope) eff" where
  "adm_ListProviderApplications q =
     (let pageNum = get_int q ''pageNum'' 1; pageSize = get_int q ''pageSize'' 20 in
      page_or_fail pageNum pageSize (ListProviderApplications pageNum pageSize (get_str q ''status'' [])))"

definition adm_ReviewProviderApplication ::
  "params \<Rightarrow> go_err + ReviewProviderApplicationIn \<Rightarrow> ('z identity_db_scheme, unit envelope) eff" where
  "adm_ReviewProviderApplication q parsed =
     (let appID = get_int q ''id'' 0 in
      if appID = 0 then returnE (Fail ''invalid application id'')
      else parsed_or_fail parsed (\<lambda>inp. msg_or_fail ''reviewed'' (ReviewProviderApplication appID inp)))"

section \<open>Accounts\<close>

definition adm_ListAccounts :: "params \<Rightarrow> ('z settle_db_scheme, AccountInfo list envelope) eff" where
  "adm_ListAccounts q =
     (let pageNum = get_int q ''pageNum'' 1; pageSize = get_int q ''pageSize'' 20 in
      page_or_fail pageNum pageSize (ListAllAccounts (get_str q ''ownerType'' []) (get_str q ''asset'' []) pageNum pageSize))"

definition adm_GetBalance :: "params \<Rightarrow> ('z settle_db_scheme, AccountInfo envelope) eff" where
  "adm_GetBalance q = ok_or_fail (GetBalance ''user'' (get_int q ''userId'' 0) (get_str q ''asset'' ''credits''))"

definition adm_ListTransactions :: "params \<Rightarrow> ('z settle_db_scheme, tx_info list envelope) eff" where
  "adm_ListTransactions q =
     (let pageNum = get_int q ''pageNum'' 1; pageSize = get_int q ''pageSize'' 20 in
      page_or_fail pageNum pageSize (ListAllTransactions pageNum pageSize))"

definition AdminRecharge :: "params \<Rightarrow> ('z settle_db_scheme, tx_info envelope) eff" where
  "AdminRecharge q =
     (let userID = get_int q ''userId'' 0; amountCredits = get_int q ''amountCredits'' 0;
          note = get_str q ''note'' [] in
      if userID = 0 \<or> amountCredits \<le> 0 then returnE (Fail ''userId and positive amountCredits required'')
      else ok_or_fail (RechargeCredits userID amountCredits (storeNote (get_str q ''refType'' ''admin_recharge'') note)
        (get_int q ''refId'' 0)))"

definition adjustment :: "int \<Rightarrow> int \<Rightarrow> string \<Rightarrow> string \<Rightarrow> CreditAccountIn" where
  "adjustment userID amount asset refType = \<lparr>ca_Asset = asset, ca_AmountMicro = amount, ca_OwnerType = ''user'',
     ca_OwnerID = userID, ca_RefType = refType, ca_RefID = 0\<rparr>"

definition AdminAdjustBalance :: "params \<Rightarrow> ('z settle_db_scheme, tx_info envelope) eff" where
  "AdminAdjustBalance q =
     (let userID = get_int q ''userId'' 0; amountMicro = get_int q ''amountMicro'' 0;
          asset = get_str q ''asset'' ''credits''; refType = storeNote ''admin_adjust'' (get_str q ''note'' []) in
      if userID = 0 \<or> amountMicro = 0 then returnE (Fail ''userId and non-zero amountMicro required'')
      else ok_or_fail (if amountMicro > 0 then CreditAccount (adjustment userID amountMicro asset refType)
        else DebitAccount (adjustment userID (i64 (- amountMicro)) asset refType)))"

definition adm_ListSettlements :: "params \<Rightarrow> ('z settle_db_scheme, SettlementRecordInfo list envelope) eff" where
  "adm_ListSettlements q =
     (let pageNum = get_int q ''pageNum'' 1; pageSize = get_int q ''pageSize'' 20 in
      page_or_fail pageNum pageSize
        (ListSettlements (get_str q ''status'' []) (get_str q ''productType'' []) pageNum pageSize))"

section \<open>The gateway's tables\<close>

definition adm_CreateChannel :: "go_err + LLMCreateChannelIn \<Rightarrow> ('z llm_db_scheme, LLMChannelInfo envelope) eff" where
  "adm_CreateChannel parsed = parsed_or_fail parsed (\<lambda>inp. ok_or_fail (CreateChannel inp))"

definition paged_in :: "LLMListChannelsIn \<Rightarrow> LLMListChannelsIn" where
  "paged_in inp = inp\<lparr>lci_Page := page_or 1 (lci_Page inp), lci_Size := page_or 20 (lci_Size inp)\<rparr>"

definition adm_ListChannels :: "go_err + LLMListChannelsIn \<Rightarrow> ('z llm_db_scheme, LLMChannelInfo list envelope) eff" where
  "adm_ListChannels parsed = parsed_or_fail parsed (\<lambda>inp. let i = paged_in inp in
     page_or_fail (lci_Page i) (lci_Size i) (ListChannels i))"

definition adm_ReviewChannel :: "params \<Rightarrow> go_err + LLMReviewIn \<Rightarrow> ('z llm_db_scheme, unit envelope) eff" where
  "adm_ReviewChannel q parsed = parsed_or_fail parsed (\<lambda>inp.
     msg_or_fail ''reviewed'' (ReviewChannel (inp\<lparr>rvi_ID := get_int q ''id'' 0, rvi_ReviewerID := 0\<rparr>)))"

definition adm_DeleteChannel :: "params \<Rightarrow> ('z llm_db_scheme, unit envelope) eff" where
  "adm_DeleteChannel q = msg_or_fail ''deleted'' (DeleteChannel (get_int q ''id'' 0))"

definition adm_CreateModel :: "go_err + LLMCreateModelSpecIn \<Rightarrow> ('z llm_db_scheme, LLMModelSpecInfo envelope) eff" where
  "adm_CreateModel parsed = parsed_or_fail parsed (\<lambda>inp. ok_or_fail (CreateModelSpec (inp\<lparr>cmi_SourceType := ''admin''\<rparr>)))"

definition adm_ListModels :: "go_err + LLMListChannelsIn \<Rightarrow> ('z llm_db_scheme, LLMModelSpecInfo list envelope) eff" where
  "adm_ListModels parsed = parsed_or_fail parsed (\<lambda>inp. let i = paged_in inp in
     page_or_fail (lci_Page i) (lci_Size i) (ListModelSpecs i))"

definition adm_ReviewModel :: "params \<Rightarrow> go_err + LLMReviewIn \<Rightarrow> ('z llm_db_scheme, unit envelope) eff" where
  "adm_ReviewModel q parsed = parsed_or_fail parsed (\<lambda>inp.
     msg_or_fail ''reviewed'' (ReviewModelSpec (inp\<lparr>rvi_ID := get_int q ''id'' 0, rvi_ReviewerID := 0\<rparr>)))"

definition adm_DeleteModel :: "params \<Rightarrow> ('z llm_db_scheme, unit envelope) eff" where
  "adm_DeleteModel q = msg_or_fail ''deleted'' (DeleteModelSpec (get_int q ''id'' 0))"

definition ListAllModelKeys :: "go_err + LLMListModelKeysIn \<Rightarrow> ('z llm_db_scheme, LLMModelKeyInfo list envelope) eff" where
  "ListAllModelKeys parsed = parsed_or_fail parsed (\<lambda>inp.
     let i = inp\<lparr>lmk_Page := page_or 1 (lmk_Page inp), lmk_Size := page_or 20 (lmk_Size inp), lmk_IsAdmin := True\<rparr> in
     page_or_fail (lmk_Page i) (lmk_Size i) (ListModelKeys i))"

definition ListAllKeyModels :: "go_err + LLMListKeyModelsIn \<Rightarrow> ('z llm_db_scheme, LLMKeyModelInfo list envelope) eff" where
  "ListAllKeyModels parsed = parsed_or_fail parsed (\<lambda>inp.
     let i = inp\<lparr>lkm_Page := page_or 1 (lkm_Page inp), lkm_Size := page_or 20 (lkm_Size inp), lkm_IsAdmin := True\<rparr> in
     page_or_fail (lkm_Page i) (lkm_Size i) (ListKeyModels i))"

definition adm_TriggerKeyModelTest ::
  "key_env \<Rightarrow> http \<Rightarrow> ((string \<times> json) list \<Rightarrow> string \<times> json) \<Rightarrow> params \<Rightarrow> ('z llm_db_scheme, unit envelope) eff" where
  "adm_TriggerKeyModelTest K up pick q =
     (let keyModelID = get_int q ''id'' 0 in
      if keyModelID = 0 then returnE (Fail ''invalid key model id'')
      else msg_or_fail ''test triggered'' (TriggerKeyModelTest K up pick keyModelID))"

definition GetProviderSetting :: "params \<Rightarrow> ('z llm_db_scheme, (int \<times> int) envelope) eff" where
  "GetProviderSetting q =
     (let userID = get_int q ''userId'' 0 in
      if userID = 0 then returnE (Fail ''invalid user id'')
      else ok_or_fail (bindE (GetProviderShareBps userID) (\<lambda>share. returnE (userID, share))))"

definition SetProviderSetting :: "params \<Rightarrow> ('z llm_db_scheme, unit envelope) eff" where
  "SetProviderSetting q =
     (let userID = get_int q ''userId'' 0; shareBps = get_int q ''share_bps'' 0 in
      if userID = 0 then returnE (Fail ''invalid user id'')
      else if shareBps \<le> 0 then returnE (Fail ''invalid share_bps'')
      else msg_or_fail ''ok'' (SetProviderShareBps userID shareBps))"

section \<open>Invoices and developers\<close>

definition adm_ListInvoices :: "params \<Rightarrow> ('z office_db_scheme, invoiceRow list envelope) eff" where
  "adm_ListInvoices q =
     (let pageNum = get_int q ''pageNum'' 1; pageSize = get_int q ''pageSize'' 20 in
      page_or_fail pageNum pageSize (iv_List (get_str q ''status'' []) pageNum pageSize))"

definition adm_GetInvoice :: "params \<Rightarrow> ('z office_db_scheme, invoiceRow envelope) eff" where
  "adm_GetInvoice q = ok_or_fail (iv_Get (get_int q ''id'' 0))"

definition adm_CreateInvoice :: "go_err + CreateInvoiceIn \<Rightarrow> ('z office_db_scheme, invoiceRow envelope) eff" where
  "adm_CreateInvoice parsed = parsed_or_fail parsed (\<lambda>inp. ok_or_fail (iv_Create inp))"

record UpdateInvoiceStatusIn =
  uis_Status :: string
  uis_Notes :: string

definition adm_UpdateInvoiceStatus :: "params \<Rightarrow> go_err + UpdateInvoiceStatusIn \<Rightarrow> ('z office_db_scheme, unit envelope) eff" where
  "adm_UpdateInvoiceStatus q parsed = parsed_or_fail parsed (\<lambda>inp.
     msg_or_fail ''updated'' (iv_UpdateStatus (get_int q ''id'' 0) (uis_Status inp) (uis_Notes inp)))"

definition adm_ListDevelopers :: "('z office_db_scheme, DeveloperInfo list envelope) eff" where
  "adm_ListDevelopers = ok_or_fail ListActive"

definition dev_ListDevelopers :: "('z office_db_scheme, DeveloperInfo list envelope) eff" where
  "dev_ListDevelopers = ok_or_fail ListActive"

section \<open>Payments\<close>

record CreateRechargeIn =
  cri_Channel :: string
  cri_AmountCredits :: int

definition order_rules :: "CreateRechargeIn \<Rightarrow> string list" where
  "order_rules inp = (if cri_Channel inp \<in> {''alipay'', ''wechat''} then [] else [''channel'']) @
     at_least ''amount_credits'' 1 (cri_AmountCredits inp)"

definition pay_Recharge ::
  "gvalid \<Rightarrow> gateways \<Rightarrow> int \<Rightarrow> TokenClaims \<Rightarrow> go_err + CreateRechargeIn \<Rightarrow> ('z pay_db_scheme, (string \<times> string) envelope) eff" where
  "pay_Recharge V gw nano c parsed = parsed_or_fail (checked V order_rules parsed) (\<lambda>inp.
     ok_or_fail (pay_CreateRecharge gw nano (tc_UserID c) (cri_Channel inp) (cri_AmountCredits inp)))"

definition pay_ListOrders :: "TokenClaims \<Rightarrow> params \<Rightarrow> ('z pay_db_scheme, PaymentOrderInfo list envelope) eff" where
  "pay_ListOrders c q =
     (let pageNum = get_int q ''pageNum'' 1; pageSize = get_int q ''pageSize'' 20 in
      page_or_fail pageNum pageSize (ListOrders (tc_UserID c) pageNum pageSize))"

definition pay_GetOrder :: "TokenClaims \<Rightarrow> params \<Rightarrow> ('z pay_db_scheme, PaymentOrderInfo envelope) eff" where
  "pay_GetOrder c q = ok_or_fail (GetOrder (tc_UserID c) (get_str q ''orderNo'' []))"

text \<open>Alipay expects the bare word (\<open>Inl\<close>); WeChat a document.  A panic is answered by Recover.\<close>

definition AlipayNotify ::
  "go_err + alipay_notify \<Rightarrow> go_err + wechat_notify \<Rightarrow> ('z pay_db_scheme, (string + unit envelope) answer) eff" where
  "AlipayNotify ali wx = bindE (tryE (HandleNotify ''alipay'' ali wx)) (\<lambda>r.
     returnE (case r of Inl e \<Rightarrow> if e = nil_client then recovered else Json (Inr (Fail (err_text e)))
       | Inr x \<Rightarrow> Json (Inl ''success'')))"

definition wechatSuccessRsp :: "string \<times> string" where
  "wechatSuccessRsp = (''SUCCESS'', ''OK'')"

definition wechatFailRsp :: "string \<times> string" where
  "wechatFailRsp = (''FAIL'', ''sign error'')"

definition WechatNotify ::
  "go_err + alipay_notify \<Rightarrow> go_err + wechat_notify \<Rightarrow> ('z pay_db_scheme, (string \<times> string) answer) eff" where
  "WechatNotify ali wx = bindE (tryE (HandleNotify ''wechat'' ali wx)) (\<lambda>r.
     returnE (case r of Inl e \<Rightarrow> if e = nil_client then recovered else Json wechatFailRsp
       | Inr x \<Rightarrow> Json wechatSuccessRsp))"

definition ListPaymentChannels :: "params \<Rightarrow> ('z pay_db_scheme, PaymentChannelInfo list envelope) eff" where
  "ListPaymentChannels q =
     (let pageNum = get_int q ''pageNum'' 1; pageSize = get_int q ''pageSize'' 20 in
      page_or_fail pageNum pageSize (pay_ListChannels (get_str q ''channel'' []) pageNum pageSize))"

definition CreatePaymentChannel :: "go_err + CreatePaymentChannelIn \<Rightarrow> ('z pay_db_scheme, unit envelope) eff" where
  "CreatePaymentChannel parsed = parsed_or_fail parsed (\<lambda>inp. msg_or_fail ''channel created'' (pay_CreateChannel inp))"

definition UpdatePaymentChannel :: "params \<Rightarrow> go_err + UpdatePaymentChannelIn \<Rightarrow> ('z pay_db_scheme, unit envelope) eff" where
  "UpdatePaymentChannel q parsed =
     (let i = get_int q ''id'' 0 in
      if i = 0 then returnE (Fail ''id required'')
      else parsed_or_fail parsed (\<lambda>inp. msg_or_fail ''channel updated'' (pay_UpdateChannel i inp)))"

definition ListPaymentOrders :: "params \<Rightarrow> ('z pay_db_scheme, PaymentOrderInfo list envelope) eff" where
  "ListPaymentOrders q =
     (let pageNum = get_int q ''pageNum'' 1; pageSize = get_int q ''pageSize'' 20 in
      page_or_fail pageNum pageSize
        (ListAllOrders (get_str q ''channel'' []) (get_str q ''status'' []) (get_str q ''keyword'' []) pageNum pageSize))"

end
