(* ===== verification/ChatTypes.thy ===== *)
theory ChatTypes
  imports RelayData Formats "HOL-Library.Monad_Syntax"
begin

text \<open>
  The documents of the chat protocols (\<^verbatim>\<open>relay/dto\<close>): OpenAI's Chat Completions, Claude's
  Messages, Gemini's generateContent.  A \<^verbatim>\<open>float64\<close> keeps its literal; an \<^verbatim>\<open>any\<close> is the
  decoded value, nil being null.
\<close>

section \<open>Field decoders\<close>

definition dec_any :: "json \<Rightarrow> json option" where
  "dec_any j = Some j"

definition dec_raw :: "json \<Rightarrow> raw option" where
  "dec_raw j = Some (Some j)"

fun dec_float :: "json \<Rightarrow> json option" where
  "dec_float (JNum n) = Some (JNum n)"
| "dec_float (JFloat s) = Some (JFloat s)"
| "dec_float JNull = Some (JNum 0)"
| "dec_float _ = None"

fun dec_uint :: "json \<Rightarrow> int option" where
  "dec_uint (JNum n) = (if 0 \<le> n \<and> n < 2 ^ 64 then Some n else None)"
| "dec_uint JNull = Some 0"
| "dec_uint _ = None"

definition dec_list :: "(json \<Rightarrow> 'a option) \<Rightarrow> json \<Rightarrow> 'a list option" where
  "dec_list f j = Option.bind (dec_array j) (dec_all f)"

text \<open>\<^verbatim>\<open>uint(x)\<close> of an int.\<close>

definition to_uint :: "int \<Rightarrow> int" where
  "to_uint n = n mod 2 ^ 64"

text \<open>What the code asks of values whose text it prints or reads: \<^verbatim>\<open>json.Marshal\<close> to a string,
  \<^verbatim>\<open>json.Unmarshal\<close> from one, \<^verbatim>\<open>%v\<close> of a decoded value, \<^verbatim>\<open>%v\<close> of a pointer to
  a string, which prints its address, and \<^verbatim>\<open>int(x)\<close> of a \<^verbatim>\<open>float64\<close>.\<close>

record conv_env =
  ce_text :: "json \<Rightarrow> string"
  ce_parse :: "string \<Rightarrow> json option"
  ce_show :: "json \<Rightarrow> string"
  ce_addr :: "string \<Rightarrow> string"
  ce_trunc :: "json \<Rightarrow> int"

section \<open>OpenAI\<close>

record ImageURL =
  iu_URL :: string
  iu_Detail :: string

record InputAudio =
  ia_Data :: string
  ia_Format :: string

record FileData =
  fd_FileID :: string
  fd_FileData :: string
  fd_Filename :: string

record ContentPart =
  cp_Type :: string
  cp_Text :: string
  cp_ImageURL :: "ImageURL option"
  cp_InputAudio :: "InputAudio option"
  cp_File :: "FileData option"

record FunctionCall =
  fc_Name :: string
  fc_Arguments :: string

record ToolCall =
  oc_Index :: int
  oc_ID :: string
  oc_Type :: string
  oc_Function :: FunctionCall

record Message =
  om_Role :: string
  om_Content :: json
  om_Refusal :: "string option"
  om_ReasoningContent :: "string option"
  om_Name :: string
  om_ToolCalls :: "ToolCall list"
  om_ToolCallID :: string
  om_Annotations :: "json list"

record FunctionDef =
  fn_Name :: string
  fn_Description :: string
  fn_Parameters :: json
  fn_Strict :: "bool option"

record Tool =
  ot_Type :: string
  ot_Function :: FunctionDef

record StreamOptions =
  so_IncludeUsage :: bool
  so_IncludeObfuscation :: bool

record ResponseFormat =
  rf_Type :: string
  rf_JSONSchema :: json

record ImageConfigDTO =
  ic_AspectRatio :: string
  ic_ImageSize :: string

record GeneralOpenAIRequest =
  gr_Model :: string
  gr_Messages :: "Message list"
  gr_MaxTokens :: "int option"
  gr_MaxCompletionTokens :: "int option"
  gr_Temperature :: raw
  gr_TopP :: raw
  gr_TopK :: "int option"
  gr_N :: "int option"
  gr_Stream :: "bool option"
  gr_StreamOptions :: "StreamOptions option"
  gr_Stop :: json
  gr_PresencePenalty :: raw
  gr_FrequencyPenalty :: raw
  gr_User :: string
  gr_Seed :: "int option"
  gr_Tools :: "Tool list"
  gr_ToolChoice :: json
  gr_ParallelToolCalls :: "bool option"
  gr_ResponseFormat :: "ResponseFormat option"
  gr_LogProbs :: "bool option"
  gr_TopLogProbs :: "int option"
  gr_ReasoningEffort :: string
  gr_LogitBias :: "(string \<times> int) list"
  gr_ServiceTier :: string
  gr_Modalities :: "string list"
  gr_Audio :: raw
  gr_Store :: "bool option"
  gr_WebSearchOptions :: raw
  gr_Prediction :: raw
  gr_Metadata :: raw
  gr_SafetyIdentifier :: string
  gr_Verbosity :: string
  gr_PromptCacheKey :: string
  gr_PromptCacheRetention :: string
  gr_ImageConfig :: "ImageConfigDTO option"

definition zero_Message :: Message where
  "zero_Message = \<lparr>om_Role = [], om_Content = JNull, om_Refusal = None, om_ReasoningContent = None, om_Name = [],
     om_ToolCalls = [], om_ToolCallID = [], om_Annotations = []\<rparr>"

definition zero_part :: ContentPart where
  "zero_part = \<lparr>cp_Type = [], cp_Text = [], cp_ImageURL = None, cp_InputAudio = None, cp_File = None\<rparr>"

definition zero_request :: GeneralOpenAIRequest where
  "zero_request = \<lparr>gr_Model = [], gr_Messages = [], gr_MaxTokens = None, gr_MaxCompletionTokens = None, gr_Temperature = None,
     gr_TopP = None, gr_TopK = None, gr_N = None, gr_Stream = None, gr_StreamOptions = None, gr_Stop = JNull,
     gr_PresencePenalty = None, gr_FrequencyPenalty = None, gr_User = [], gr_Seed = None, gr_Tools = [], gr_ToolChoice = JNull,
     gr_ParallelToolCalls = None, gr_ResponseFormat = None, gr_LogProbs = None, gr_TopLogProbs = None, gr_ReasoningEffort = [],
     gr_LogitBias = [], gr_ServiceTier = [], gr_Modalities = [], gr_Audio = None, gr_Store = None, gr_WebSearchOptions = None,
     gr_Prediction = None, gr_Metadata = None, gr_SafetyIdentifier = [], gr_Verbosity = [], gr_PromptCacheKey = [],
     gr_PromptCacheRetention = [], gr_ImageConfig = None\<rparr>"

section \<open>OpenAI, written\<close>

definition opt :: "('a \<Rightarrow> json) \<Rightarrow> string \<Rightarrow> 'a option \<Rightarrow> bool \<times> string \<times> json" where
  "opt f k a = (a \<noteq> None, k, case a of None \<Rightarrow> JNull | Some x \<Rightarrow> f x)"

definition str :: "string \<Rightarrow> string \<Rightarrow> bool \<times> string \<times> json" where
  "str k v = (v \<noteq> [], k, JStr v)"

definition iff_any :: "string \<Rightarrow> json \<Rightarrow> bool \<times> string \<times> json" where
  "iff_any k v = (v \<noteq> JNull, k, v)"

definition lst :: "('a \<Rightarrow> json) \<Rightarrow> string \<Rightarrow> 'a list \<Rightarrow> bool \<times> string \<times> json" where
  "lst f k xs = (xs \<noteq> [], k, JArr (map f xs))"

definition image_json :: "ImageURL \<Rightarrow> json" where
  "image_json i = JObj (doc [(True, ''url'', JStr (iu_URL i)), str ''detail'' (iu_Detail i)])"

definition audio_json :: "InputAudio \<Rightarrow> json" where
  "audio_json a = JObj (doc [(True, ''data'', JStr (ia_Data a)), (True, ''format'', JStr (ia_Format a))])"

definition file_json :: "FileData \<Rightarrow> json" where
  "file_json f = JObj (doc [str ''file_id'' (fd_FileID f), str ''file_data'' (fd_FileData f), str ''filename'' (fd_Filename f)])"

definition part_json :: "ContentPart \<Rightarrow> json" where
  "part_json p = JObj (doc [(True, ''type'', JStr (cp_Type p)), str ''text'' (cp_Text p), opt image_json ''image_url'' (cp_ImageURL p),
     opt audio_json ''input_audio'' (cp_InputAudio p), opt file_json ''file'' (cp_File p)])"

definition fcall_json :: "FunctionCall \<Rightarrow> json" where
  "fcall_json f = JObj (doc [(True, ''name'', JStr (fc_Name f)), (True, ''arguments'', JStr (fc_Arguments f))])"

definition call_json :: "ToolCall \<Rightarrow> json" where
  "call_json c = JObj (doc [(oc_Index c \<noteq> 0, ''index'', JNum (oc_Index c)), (True, ''id'', JStr (oc_ID c)),
     (True, ''type'', JStr (oc_Type c)), (True, ''function'', fcall_json (oc_Function c))])"

definition message_json :: "Message \<Rightarrow> json" where
  "message_json m = JObj (doc [(True, ''role'', JStr (om_Role m)), (True, ''content'', om_Content m),
     opt JStr ''refusal'' (om_Refusal m), opt JStr ''reasoning_content'' (om_ReasoningContent m), str ''name'' (om_Name m),
     lst call_json ''tool_calls'' (om_ToolCalls m), str ''tool_call_id'' (om_ToolCallID m),
     lst (\<lambda>j. j) ''annotations'' (om_Annotations m)])"

definition fn_json :: "FunctionDef \<Rightarrow> json" where
  "fn_json f = JObj (doc [(True, ''name'', JStr (fn_Name f)), str ''description'' (fn_Description f),
     iff_any ''parameters'' (fn_Parameters f), opt JBool ''strict'' (fn_Strict f)])"

definition tool_json :: "Tool \<Rightarrow> json" where
  "tool_json t = JObj (doc [(True, ''type'', JStr (ot_Type t)), (True, ''function'', fn_json (ot_Function t))])"

definition stream_options_json :: "StreamOptions \<Rightarrow> json" where
  "stream_options_json o' = JObj (doc [(True, ''include_usage'', JBool (so_IncludeUsage o')),
     (so_IncludeObfuscation o', ''include_obfuscation'', JBool (so_IncludeObfuscation o'))])"

definition format_json :: "ResponseFormat \<Rightarrow> json" where
  "format_json f = JObj (doc [(True, ''type'', JStr (rf_Type f)), iff_any ''json_schema'' (rf_JSONSchema f)])"

definition image_config_json :: "ImageConfigDTO \<Rightarrow> json" where
  "image_config_json c = JObj (doc [str ''aspect_ratio'' (ic_AspectRatio c), str ''image_size'' (ic_ImageSize c)])"

definition request_fields :: "GeneralOpenAIRequest \<Rightarrow> (bool \<times> string \<times> json) list" where
  "request_fields r = [(True, ''model'', JStr (gr_Model r)), (True, ''messages'', JArr (map message_json (gr_Messages r))),
     opt JNum ''max_tokens'' (gr_MaxTokens r), opt JNum ''max_completion_tokens'' (gr_MaxCompletionTokens r),
     opt (\<lambda>j. j) ''temperature'' (gr_Temperature r), opt (\<lambda>j. j) ''top_p'' (gr_TopP r), opt JNum ''top_k'' (gr_TopK r),
     opt JNum ''n'' (gr_N r), opt JBool ''stream'' (gr_Stream r), opt stream_options_json ''stream_options'' (gr_StreamOptions r),
     iff_any ''stop'' (gr_Stop r), opt (\<lambda>j. j) ''presence_penalty'' (gr_PresencePenalty r),
     opt (\<lambda>j. j) ''frequency_penalty'' (gr_FrequencyPenalty r), str ''user'' (gr_User r), opt JNum ''seed'' (gr_Seed r),
     lst tool_json ''tools'' (gr_Tools r), iff_any ''tool_choice'' (gr_ToolChoice r),
     opt JBool ''parallel_tool_calls'' (gr_ParallelToolCalls r), opt format_json ''response_format'' (gr_ResponseFormat r),
     opt JBool ''logprobs'' (gr_LogProbs r), opt JNum ''top_logprobs'' (gr_TopLogProbs r),
     str ''reasoning_effort'' (gr_ReasoningEffort r),
     (gr_LogitBias r \<noteq> [], ''logit_bias'', JObj (map (\<lambda>(k, n). (k, JNum n)) (gr_LogitBias r))),
     str ''service_tier'' (gr_ServiceTier r), lst JStr ''modalities'' (gr_Modalities r), opt (\<lambda>j. j) ''audio'' (gr_Audio r),
     opt JBool ''store'' (gr_Store r), opt (\<lambda>j. j) ''web_search_options'' (gr_WebSearchOptions r),
     opt (\<lambda>j. j) ''prediction'' (gr_Prediction r), opt (\<lambda>j. j) ''metadata'' (gr_Metadata r),
     str ''safety_identifier'' (gr_SafetyIdentifier r), str ''verbosity'' (gr_Verbosity r),
     str ''prompt_cache_key'' (gr_PromptCacheKey r), str ''prompt_cache_retention'' (gr_PromptCacheRetention r),
     opt image_config_json ''image_config'' (gr_ImageConfig r)]"

definition request_json :: "GeneralOpenAIRequest \<Rightarrow> json" where
  "request_json r = JObj (doc (request_fields r))"

section \<open>OpenAI, read\<close>

definition dec_StreamOptions :: "json \<Rightarrow> StreamOptions option" where
  "dec_StreamOptions j = do { m \<leftarrow> dec_object j; u \<leftarrow> dec_field ''include_usage'' dec_bool False m;
     b \<leftarrow> dec_field ''include_obfuscation'' dec_bool False m; Some \<lparr>so_IncludeUsage = u, so_IncludeObfuscation = b\<rparr> }"

definition dec_ResponseFormat :: "json \<Rightarrow> ResponseFormat option" where
  "dec_ResponseFormat j = do { m \<leftarrow> dec_object j; t \<leftarrow> dec_field ''type'' dec_string [] m;
     s \<leftarrow> dec_field ''json_schema'' dec_any JNull m; Some \<lparr>rf_Type = t, rf_JSONSchema = s\<rparr> }"

definition dec_ImageConfigDTO :: "json \<Rightarrow> ImageConfigDTO option" where
  "dec_ImageConfigDTO j = do { m \<leftarrow> dec_object j; a \<leftarrow> dec_field ''aspect_ratio'' dec_string [] m;
     s \<leftarrow> dec_field ''image_size'' dec_string [] m; Some \<lparr>ic_AspectRatio = a, ic_ImageSize = s\<rparr> }"

definition dec_FunctionDef :: "json \<Rightarrow> FunctionDef option" where
  "dec_FunctionDef j = do { m \<leftarrow> dec_object j; n \<leftarrow> dec_field ''name'' dec_string [] m;
     d \<leftarrow> dec_field ''description'' dec_string [] m; p \<leftarrow> dec_field ''parameters'' dec_any JNull m;
     b \<leftarrow> dec_field ''strict'' (dec_ptr dec_bool) None m;
     Some \<lparr>fn_Name = n, fn_Description = d, fn_Parameters = p, fn_Strict = b\<rparr> }"

definition dec_Tool :: "json \<Rightarrow> Tool option" where
  "dec_Tool j = do { m \<leftarrow> dec_object j; t \<leftarrow> dec_field ''type'' dec_string [] m;
     f \<leftarrow> dec_field ''function'' dec_FunctionDef \<lparr>fn_Name = [], fn_Description = [], fn_Parameters = JNull, fn_Strict = None\<rparr> m;
     Some \<lparr>ot_Type = t, ot_Function = f\<rparr> }"

text \<open>Arguments that are no string are kept as their text.\<close>

definition FunctionCall_UnmarshalJSON :: "conv_env \<Rightarrow> json \<Rightarrow> FunctionCall option" where
  "FunctionCall_UnmarshalJSON E j = do { m \<leftarrow> dec_object j; n \<leftarrow> dec_field ''name'' dec_string [] m;
     Some \<lparr>fc_Name = n, fc_Arguments = (case jlookup ''arguments'' m of None \<Rightarrow> []
       | Some v \<Rightarrow> (case v of JStr s \<Rightarrow> s | _ \<Rightarrow> ce_text E v))\<rparr> }"

definition dec_ToolCall :: "conv_env \<Rightarrow> json \<Rightarrow> ToolCall option" where
  "dec_ToolCall E j = do { m \<leftarrow> dec_object j; i \<leftarrow> dec_field ''index'' dec_int 0 m; d \<leftarrow> dec_field ''id'' dec_string [] m;
     t \<leftarrow> dec_field ''type'' dec_string [] m;
     f \<leftarrow> dec_field ''function'' (FunctionCall_UnmarshalJSON E) \<lparr>fc_Name = [], fc_Arguments = []\<rparr> m;
     Some \<lparr>oc_Index = i, oc_ID = d, oc_Type = t, oc_Function = f\<rparr> }"

definition dec_Message :: "conv_env \<Rightarrow> json \<Rightarrow> Message option" where
  "dec_Message E j = do { m \<leftarrow> dec_object j; ro \<leftarrow> dec_field ''role'' dec_string [] m; c \<leftarrow> dec_field ''content'' dec_any JNull m;
     rf \<leftarrow> dec_field ''refusal'' (dec_ptr dec_string) None m; rc \<leftarrow> dec_field ''reasoning_content'' (dec_ptr dec_string) None m;
     n \<leftarrow> dec_field ''name'' dec_string [] m; tc \<leftarrow> dec_field ''tool_calls'' (dec_list (dec_ToolCall E)) [] m;
     ti \<leftarrow> dec_field ''tool_call_id'' dec_string [] m; an \<leftarrow> dec_field ''annotations'' dec_array [] m;
     Some \<lparr>om_Role = ro, om_Content = c, om_Refusal = rf, om_ReasoningContent = rc, om_Name = n, om_ToolCalls = tc,
       om_ToolCallID = ti, om_Annotations = an\<rparr> }"

definition dec_request :: "conv_env \<Rightarrow> json \<Rightarrow> GeneralOpenAIRequest option" where
  "dec_request E j = do { m \<leftarrow> dec_object j;
     model \<leftarrow> dec_field ''model'' dec_string [] m; msgs \<leftarrow> dec_field ''messages'' (dec_list (dec_Message E)) [] m;
     mt \<leftarrow> dec_field ''max_tokens'' (dec_ptr dec_int) None m; mct \<leftarrow> dec_field ''max_completion_tokens'' (dec_ptr dec_int) None m;
     te \<leftarrow> dec_field ''temperature'' (dec_ptr dec_float) None m; tp \<leftarrow> dec_field ''top_p'' (dec_ptr dec_float) None m;
     tk \<leftarrow> dec_field ''top_k'' (dec_ptr dec_int) None m; n \<leftarrow> dec_field ''n'' (dec_ptr dec_int) None m;
     st \<leftarrow> dec_field ''stream'' (dec_ptr dec_bool) None m; so \<leftarrow> dec_field ''stream_options'' (dec_ptr dec_StreamOptions) None m;
     sp \<leftarrow> dec_field ''stop'' dec_any JNull m; pp \<leftarrow> dec_field ''presence_penalty'' (dec_ptr dec_float) None m;
     fp \<leftarrow> dec_field ''frequency_penalty'' (dec_ptr dec_float) None m; us \<leftarrow> dec_field ''user'' dec_string [] m;
     sd \<leftarrow> dec_field ''seed'' (dec_ptr dec_int) None m; tls \<leftarrow> dec_field ''tools'' (dec_list dec_Tool) [] m;
     tch \<leftarrow> dec_field ''tool_choice'' dec_any JNull m; ptc \<leftarrow> dec_field ''parallel_tool_calls'' (dec_ptr dec_bool) None m;
     fmt \<leftarrow> dec_field ''response_format'' (dec_ptr dec_ResponseFormat) None m;
     lp \<leftarrow> dec_field ''logprobs'' (dec_ptr dec_bool) None m; tlp \<leftarrow> dec_field ''top_logprobs'' (dec_ptr dec_int) None m;
     re \<leftarrow> dec_field ''reasoning_effort'' dec_string [] m; lb \<leftarrow> dec_field ''logit_bias'' (dec_map dec_int) [] m;
     tier \<leftarrow> dec_field ''service_tier'' dec_string [] m; mo \<leftarrow> dec_field ''modalities'' (dec_list dec_string) [] m;
     au \<leftarrow> dec_field ''audio'' dec_raw None m; sto \<leftarrow> dec_field ''store'' (dec_ptr dec_bool) None m;
     ws \<leftarrow> dec_field ''web_search_options'' dec_raw None m; pr \<leftarrow> dec_field ''prediction'' dec_raw None m;
     md \<leftarrow> dec_field ''metadata'' dec_raw None m; sid \<leftarrow> dec_field ''safety_identifier'' dec_string [] m;
     ve \<leftarrow> dec_field ''verbosity'' dec_string [] m; pk \<leftarrow> dec_field ''prompt_cache_key'' dec_string [] m;
     pcr \<leftarrow> dec_field ''prompt_cache_retention'' dec_string [] m; ic \<leftarrow> dec_field ''image_config'' (dec_ptr dec_ImageConfigDTO) None m;
     Some \<lparr>gr_Model = model, gr_Messages = msgs, gr_MaxTokens = mt, gr_MaxCompletionTokens = mct, gr_Temperature = te,
       gr_TopP = tp, gr_TopK = tk, gr_N = n, gr_Stream = st, gr_StreamOptions = so, gr_Stop = sp, gr_PresencePenalty = pp,
       gr_FrequencyPenalty = fp, gr_User = us, gr_Seed = sd, gr_Tools = tls, gr_ToolChoice = tch, gr_ParallelToolCalls = ptc,
       gr_ResponseFormat = fmt, gr_LogProbs = lp, gr_TopLogProbs = tlp, gr_ReasoningEffort = re, gr_LogitBias = lb,
       gr_ServiceTier = tier, gr_Modalities = mo, gr_Audio = au, gr_Store = sto, gr_WebSearchOptions = ws, gr_Prediction = pr,
       gr_Metadata = md, gr_SafetyIdentifier = sid, gr_Verbosity = ve, gr_PromptCacheKey = pk, gr_PromptCacheRetention = pcr,
       gr_ImageConfig = ic\<rparr> }"

end
