(* ===== verification/GeminiTypes.thy ===== *)
theory GeminiTypes
  imports ChatTypes
begin

text \<open>The documents of Gemini's generateContent (\<^verbatim>\<open>relay/dto/gemini.go\<close>).  The arguments
  of a call are an \<^verbatim>\<open>any\<close> that may hold a nil map, which is not nil: \<open>Some JNull\<close>.\<close>

record GeminiInlineData =
  gi_MimeType :: string
  gi_Data :: string

record GeminiFileData =
  gf_MimeType :: string
  gf_FileURI :: string

record GeminiFunctionCall =
  gfc_ID :: string
  gfc_FunctionName :: string
  gfc_Arguments :: "json option"

record GeminiFunctionResponse =
  gfr_ID :: string
  gfr_Name :: string
  gfr_Response :: json
  gfr_WillContinue :: bool
  gfr_Scheduling :: string

record GeminiExecutableCode =
  gx_Language :: string
  gx_Code :: string

record GeminiCodeExecutionResult =
  ge_Outcome :: string
  ge_Output :: string

record GeminiVideoMetadata =
  gv_StartOffset :: string
  gv_EndOffset :: string

record GeminiPart =
  gp_Text :: string
  gp_InlineData :: "GeminiInlineData option"
  gp_FileData :: "GeminiFileData option"
  gp_FunctionCall :: "GeminiFunctionCall option"
  gp_FunctionResponse :: "GeminiFunctionResponse option"
  gp_Thought :: "bool option"
  gp_ThoughtSignature :: string
  gp_ExecutableCode :: "GeminiExecutableCode option"
  gp_CodeExecutionResult :: "GeminiCodeExecutionResult option"
  gp_VideoMetadata :: "GeminiVideoMetadata option"

record GeminiContent =
  gc_Role :: string
  gc_Parts :: "GeminiPart list"

record GeminiSafetySetting =
  gs_Category :: string
  gs_Threshold :: string

record GeminiThinkingConfig =
  gt_IncludeThoughts :: bool
  gt_ThoughtBudget :: "int option"
  gt_ThinkingLevel :: string

record GeminiImageConfig =
  gic_AspectRatio :: string
  gic_ImageSize :: string

record GeminiGenerationConfig =
  gg_Temperature :: raw
  gg_TopP :: raw
  gg_TopK :: raw
  gg_MaxOutputTokens :: "int option"
  gg_CandidateCount :: "int option"
  gg_StopSequences :: "string list"
  gg_ResponseMimeType :: string
  gg_ResponseSchema :: json
  gg_ResponseJsonSchema :: json
  gg_ResponseModalities :: "string list"
  gg_PresencePenalty :: raw
  gg_FrequencyPenalty :: raw
  gg_Seed :: "int option"
  gg_ResponseLogprobs :: "bool option"
  gg_Logprobs :: "int option"
  gg_ThinkingConfig :: "GeminiThinkingConfig option"
  gg_SpeechConfig :: json
  gg_MediaResolution :: string
  gg_ImageConfig :: "GeminiImageConfig option"

record GeminiChatRequest =
  gq_Contents :: "GeminiContent list"
  gq_SafetySettings :: "GeminiSafetySetting list"
  gq_GenerationConfig :: "GeminiGenerationConfig option"
  gq_Tools :: raw
  gq_ToolConfig :: json
  gq_SystemInstruction :: "GeminiContent option"
  gq_CachedContent :: string
  gq_ServiceTier :: string
  gq_Store :: "bool option"

section \<open>Reading\<close>

text \<open>A struct of two strings.\<close>

definition dec_two :: "string \<Rightarrow> string \<Rightarrow> (string \<Rightarrow> string \<Rightarrow> 'a) \<Rightarrow> json \<Rightarrow> 'a option" where
  "dec_two k1 k2 f j = do { m \<leftarrow> dec_object j; a \<leftarrow> dec_field k1 dec_string [] m; b \<leftarrow> dec_field k2 dec_string [] m; Some (f a b) }"

definition dec_GeminiFunctionCall :: "json \<Rightarrow> GeminiFunctionCall option" where
  "dec_GeminiFunctionCall j = do { m \<leftarrow> dec_object j; i \<leftarrow> dec_field ''id'' dec_string [] m; n \<leftarrow> dec_field ''name'' dec_string [] m;
     a \<leftarrow> dec_field ''args'' (dec_ptr dec_any) None m; Some \<lparr>gfc_ID = i, gfc_FunctionName = n, gfc_Arguments = a\<rparr> }"

definition dec_GeminiFunctionResponse :: "json \<Rightarrow> GeminiFunctionResponse option" where
  "dec_GeminiFunctionResponse j = do { m \<leftarrow> dec_object j; i \<leftarrow> dec_field ''id'' dec_string [] m; n \<leftarrow> dec_field ''name'' dec_string [] m;
     r \<leftarrow> dec_field ''response'' dec_any JNull m; w \<leftarrow> dec_field ''willContinue'' dec_bool False m;
     s \<leftarrow> dec_field ''scheduling'' dec_string [] m;
     Some \<lparr>gfr_ID = i, gfr_Name = n, gfr_Response = r, gfr_WillContinue = w, gfr_Scheduling = s\<rparr> }"

definition dec_GeminiPart :: "json \<Rightarrow> GeminiPart option" where
  "dec_GeminiPart j = do { m \<leftarrow> dec_object j; t \<leftarrow> dec_field ''text'' dec_string [] m;
     i \<leftarrow> dec_field ''inlineData'' (dec_ptr (dec_two ''mimeType'' ''data'' (\<lambda>a b. \<lparr>gi_MimeType = a, gi_Data = b\<rparr>))) None m;
     f \<leftarrow> dec_field ''fileData'' (dec_ptr (dec_two ''mimeType'' ''fileUri'' (\<lambda>a b. \<lparr>gf_MimeType = a, gf_FileURI = b\<rparr>))) None m;
     c \<leftarrow> dec_field ''functionCall'' (dec_ptr dec_GeminiFunctionCall) None m;
     r \<leftarrow> dec_field ''functionResponse'' (dec_ptr dec_GeminiFunctionResponse) None m;
     th \<leftarrow> dec_field ''thought'' (dec_ptr dec_bool) None m; ts \<leftarrow> dec_field ''thoughtSignature'' dec_string [] m;
     x \<leftarrow> dec_field ''executableCode'' (dec_ptr (dec_two ''language'' ''code'' (\<lambda>a b. \<lparr>gx_Language = a, gx_Code = b\<rparr>))) None m;
     e \<leftarrow> dec_field ''codeExecutionResult'' (dec_ptr (dec_two ''outcome'' ''output'' (\<lambda>a b. \<lparr>ge_Outcome = a, ge_Output = b\<rparr>))) None m;
     v \<leftarrow> dec_field ''videoMetadata'' (dec_ptr (dec_two ''startOffset'' ''endOffset'' (\<lambda>a b. \<lparr>gv_StartOffset = a, gv_EndOffset = b\<rparr>))) None m;
     Some \<lparr>gp_Text = t, gp_InlineData = i, gp_FileData = f, gp_FunctionCall = c, gp_FunctionResponse = r, gp_Thought = th,
       gp_ThoughtSignature = ts, gp_ExecutableCode = x, gp_CodeExecutionResult = e, gp_VideoMetadata = v\<rparr> }"

definition dec_GeminiContent :: "json \<Rightarrow> GeminiContent option" where
  "dec_GeminiContent j = do { m \<leftarrow> dec_object j; ro \<leftarrow> dec_field ''role'' dec_string [] m;
     ps \<leftarrow> dec_field ''parts'' (dec_list dec_GeminiPart) [] m; Some \<lparr>gc_Role = ro, gc_Parts = ps\<rparr> }"

definition dec_GeminiThinkingConfig :: "json \<Rightarrow> GeminiThinkingConfig option" where
  "dec_GeminiThinkingConfig j = do { m \<leftarrow> dec_object j; i \<leftarrow> dec_field ''includeThoughts'' dec_bool False m;
     b \<leftarrow> dec_field ''thoughtBudget'' (dec_ptr dec_int) None m; l \<leftarrow> dec_field ''thinkingLevel'' dec_string [] m;
     Some \<lparr>gt_IncludeThoughts = i, gt_ThoughtBudget = b, gt_ThinkingLevel = l\<rparr> }"

definition dec_GeminiGenerationConfig :: "json \<Rightarrow> GeminiGenerationConfig option" where
  "dec_GeminiGenerationConfig j = do { m \<leftarrow> dec_object j; te \<leftarrow> dec_field ''temperature'' (dec_ptr dec_float) None m;
     tp \<leftarrow> dec_field ''topP'' (dec_ptr dec_float) None m; tk \<leftarrow> dec_field ''topK'' (dec_ptr dec_float) None m;
     mo \<leftarrow> dec_field ''maxOutputTokens'' (dec_ptr dec_uint) None m; cc \<leftarrow> dec_field ''candidateCount'' (dec_ptr dec_int) None m;
     ss \<leftarrow> dec_field ''stopSequences'' (dec_list dec_string) [] m; rt \<leftarrow> dec_field ''responseMimeType'' dec_string [] m;
     rs \<leftarrow> dec_field ''responseSchema'' dec_any JNull m; rj \<leftarrow> dec_field ''responseJsonSchema'' dec_any JNull m;
     rm \<leftarrow> dec_field ''responseModalities'' (dec_list dec_string) [] m; pp \<leftarrow> dec_field ''presencePenalty'' (dec_ptr dec_float) None m;
     fp \<leftarrow> dec_field ''frequencyPenalty'' (dec_ptr dec_float) None m; sd \<leftarrow> dec_field ''seed'' (dec_ptr dec_int) None m;
     rl \<leftarrow> dec_field ''responseLogprobs'' (dec_ptr dec_bool) None m; lp \<leftarrow> dec_field ''logprobs'' (dec_ptr dec_int) None m;
     tc \<leftarrow> dec_field ''thinkingConfig'' (dec_ptr dec_GeminiThinkingConfig) None m; sc \<leftarrow> dec_field ''speechConfig'' dec_any JNull m;
     mr \<leftarrow> dec_field ''mediaResolution'' dec_string [] m;
     ic \<leftarrow> dec_field ''imageConfig'' (dec_ptr (dec_two ''aspectRatio'' ''imageSize'' (\<lambda>a b. \<lparr>gic_AspectRatio = a, gic_ImageSize = b\<rparr>))) None m;
     Some \<lparr>gg_Temperature = te, gg_TopP = tp, gg_TopK = tk, gg_MaxOutputTokens = mo, gg_CandidateCount = cc, gg_StopSequences = ss,
       gg_ResponseMimeType = rt, gg_ResponseSchema = rs, gg_ResponseJsonSchema = rj, gg_ResponseModalities = rm,
       gg_PresencePenalty = pp, gg_FrequencyPenalty = fp, gg_Seed = sd, gg_ResponseLogprobs = rl, gg_Logprobs = lp,
       gg_ThinkingConfig = tc, gg_SpeechConfig = sc, gg_MediaResolution = mr, gg_ImageConfig = ic\<rparr> }"

definition dec_GeminiChatRequest :: "json \<Rightarrow> GeminiChatRequest option" where
  "dec_GeminiChatRequest j = do { m \<leftarrow> dec_object j; cs \<leftarrow> dec_field ''contents'' (dec_list dec_GeminiContent) [] m;
     sa \<leftarrow> dec_field ''safetySettings'' (dec_list (dec_two ''category'' ''threshold'' (\<lambda>a b. \<lparr>gs_Category = a, gs_Threshold = b\<rparr>))) [] m;
     gc \<leftarrow> dec_field ''generationConfig'' (dec_ptr dec_GeminiGenerationConfig) None m; tls \<leftarrow> dec_field ''tools'' dec_raw None m;
     tc \<leftarrow> dec_field ''toolConfig'' dec_any JNull m; si \<leftarrow> dec_field ''systemInstruction'' (dec_ptr dec_GeminiContent) None m;
     ca \<leftarrow> dec_field ''cachedContent'' dec_string [] m; ti \<leftarrow> dec_field ''serviceTier'' dec_string [] m;
     st \<leftarrow> dec_field ''store'' (dec_ptr dec_bool) None m;
     Some \<lparr>gq_Contents = cs, gq_SafetySettings = sa, gq_GenerationConfig = gc, gq_Tools = tls, gq_ToolConfig = tc,
       gq_SystemInstruction = si, gq_CachedContent = ca, gq_ServiceTier = ti, gq_Store = st\<rparr> }"

section \<open>Writing\<close>

definition inline_json :: "GeminiInlineData \<Rightarrow> json" where
  "inline_json d = JObj [(''mimeType'', JStr (gi_MimeType d)), (''data'', JStr (gi_Data d))]"

definition gfile_json :: "GeminiFileData \<Rightarrow> json" where
  "gfile_json d = JObj (doc [str ''mimeType'' (gf_MimeType d), str ''fileUri'' (gf_FileURI d)])"

definition gcall_json :: "GeminiFunctionCall \<Rightarrow> json" where
  "gcall_json c = JObj (doc [str ''id'' (gfc_ID c), (True, ''name'', JStr (gfc_FunctionName c)), opt (\<lambda>j. j) ''args'' (gfc_Arguments c)])"

definition gresponse_json :: "GeminiFunctionResponse \<Rightarrow> json" where
  "gresponse_json r = JObj (doc [str ''id'' (gfr_ID r), (True, ''name'', JStr (gfr_Name r)), iff_any ''response'' (gfr_Response r),
     (gfr_WillContinue r, ''willContinue'', JBool (gfr_WillContinue r)), str ''scheduling'' (gfr_Scheduling r)])"

definition gcode_json :: "GeminiExecutableCode \<Rightarrow> json" where
  "gcode_json c = JObj [(''language'', JStr (gx_Language c)), (''code'', JStr (gx_Code c))]"

definition gresult_json :: "GeminiCodeExecutionResult \<Rightarrow> json" where
  "gresult_json c = JObj [(''outcome'', JStr (ge_Outcome c)), (''output'', JStr (ge_Output c))]"

definition gvideo_json :: "GeminiVideoMetadata \<Rightarrow> json" where
  "gvideo_json c = JObj (doc [str ''startOffset'' (gv_StartOffset c), str ''endOffset'' (gv_EndOffset c)])"

definition gpart_json :: "GeminiPart \<Rightarrow> json" where
  "gpart_json p = JObj (doc [str ''text'' (gp_Text p), opt inline_json ''inlineData'' (gp_InlineData p), opt gfile_json ''fileData'' (gp_FileData p),
     opt gcall_json ''functionCall'' (gp_FunctionCall p), opt gresponse_json ''functionResponse'' (gp_FunctionResponse p),
     opt JBool ''thought'' (gp_Thought p), str ''thoughtSignature'' (gp_ThoughtSignature p),
     opt gcode_json ''executableCode'' (gp_ExecutableCode p), opt gresult_json ''codeExecutionResult'' (gp_CodeExecutionResult p),
     opt gvideo_json ''videoMetadata'' (gp_VideoMetadata p)])"

definition gcontent_json :: "GeminiContent \<Rightarrow> json" where
  "gcontent_json c = JObj [(''role'', JStr (gc_Role c)), (''parts'', JArr (map gpart_json (gc_Parts c)))]"

definition gsafety_json :: "GeminiSafetySetting \<Rightarrow> json" where
  "gsafety_json s = JObj [(''category'', JStr (gs_Category s)), (''threshold'', JStr (gs_Threshold s))]"

definition gthinking_json :: "GeminiThinkingConfig \<Rightarrow> json" where
  "gthinking_json t = JObj (doc [(True, ''includeThoughts'', JBool (gt_IncludeThoughts t)), opt JNum ''thoughtBudget'' (gt_ThoughtBudget t),
     str ''thinkingLevel'' (gt_ThinkingLevel t)])"

definition gimage_json :: "GeminiImageConfig \<Rightarrow> json" where
  "gimage_json c = JObj (doc [str ''aspectRatio'' (gic_AspectRatio c), str ''imageSize'' (gic_ImageSize c)])"

definition gconfig_json :: "GeminiGenerationConfig \<Rightarrow> json" where
  "gconfig_json g = JObj (doc [opt (\<lambda>j. j) ''temperature'' (gg_Temperature g), opt (\<lambda>j. j) ''topP'' (gg_TopP g),
     opt (\<lambda>j. j) ''topK'' (gg_TopK g), opt JNum ''maxOutputTokens'' (gg_MaxOutputTokens g), opt JNum ''candidateCount'' (gg_CandidateCount g),
     lst JStr ''stopSequences'' (gg_StopSequences g), str ''responseMimeType'' (gg_ResponseMimeType g),
     iff_any ''responseSchema'' (gg_ResponseSchema g), iff_any ''responseJsonSchema'' (gg_ResponseJsonSchema g),
     lst JStr ''responseModalities'' (gg_ResponseModalities g), opt (\<lambda>j. j) ''presencePenalty'' (gg_PresencePenalty g),
     opt (\<lambda>j. j) ''frequencyPenalty'' (gg_FrequencyPenalty g), opt JNum ''seed'' (gg_Seed g),
     opt JBool ''responseLogprobs'' (gg_ResponseLogprobs g), opt JNum ''logprobs'' (gg_Logprobs g),
     opt gthinking_json ''thinkingConfig'' (gg_ThinkingConfig g), iff_any ''speechConfig'' (gg_SpeechConfig g),
     str ''mediaResolution'' (gg_MediaResolution g), opt gimage_json ''imageConfig'' (gg_ImageConfig g)])"

definition gemini_request_json :: "GeminiChatRequest \<Rightarrow> json" where
  "gemini_request_json r = JObj (doc [(True, ''contents'', JArr (map gcontent_json (gq_Contents r))),
     lst gsafety_json ''safetySettings'' (gq_SafetySettings r), opt gconfig_json ''generationConfig'' (gq_GenerationConfig r),
     opt (\<lambda>j. j) ''tools'' (gq_Tools r), iff_any ''toolConfig'' (gq_ToolConfig r),
     opt gcontent_json ''systemInstruction'' (gq_SystemInstruction r), str ''cachedContent'' (gq_CachedContent r),
     str ''serviceTier'' (gq_ServiceTier r), opt JBool ''store'' (gq_Store r)])"

definition zero_gpart :: GeminiPart where
  "zero_gpart = \<lparr>gp_Text = [], gp_InlineData = None, gp_FileData = None, gp_FunctionCall = None, gp_FunctionResponse = None,
     gp_Thought = None, gp_ThoughtSignature = [], gp_ExecutableCode = None, gp_CodeExecutionResult = None, gp_VideoMetadata = None\<rparr>"

definition zero_gconfig :: GeminiGenerationConfig where
  "zero_gconfig = \<lparr>gg_Temperature = None, gg_TopP = None, gg_TopK = None, gg_MaxOutputTokens = None, gg_CandidateCount = None,
     gg_StopSequences = [], gg_ResponseMimeType = [], gg_ResponseSchema = JNull, gg_ResponseJsonSchema = JNull,
     gg_ResponseModalities = [], gg_PresencePenalty = None, gg_FrequencyPenalty = None, gg_Seed = None, gg_ResponseLogprobs = None,
     gg_Logprobs = None, gg_ThinkingConfig = None, gg_SpeechConfig = JNull, gg_MediaResolution = [], gg_ImageConfig = None\<rparr>"

end
