(* ===== verification/ClaudeTypes.thy ===== *)
theory ClaudeTypes
  imports ChatTypes
begin

text \<open>
  The documents of Claude's Messages protocol (\<^verbatim>\<open>relay/dto/claude.go\<close>).  The content of a
  message is an \<^verbatim>\<open>any\<close> that the converters fill with three types of value: a decoded or plain
  value, a pointer to a string (as the field Text of a block is), a list of blocks.
\<close>

section \<open>Blocks\<close>

record ClaudeSource =
  cs_Type :: string
  cs_MediaType :: string
  cs_Data :: string
  cs_URL :: string

record ClaudeContentBlock =
  cb_Type :: string
  cb_Text :: "string option"
  cb_Thinking :: "string option"
  cb_Signature :: string
  cb_ID :: string
  cb_Name :: string
  cb_Input :: json
  cb_ToolUseID :: string
  cb_Content :: json
  cb_IsError :: "bool option"
  cb_Source :: "ClaudeSource option"
  cb_CacheControl :: "string option"

definition block :: "string \<Rightarrow> ClaudeContentBlock" where
  "block t = \<lparr>cb_Type = t, cb_Text = None, cb_Thinking = None, cb_Signature = [], cb_ID = [], cb_Name = [], cb_Input = JNull,
     cb_ToolUseID = [], cb_Content = JNull, cb_IsError = None, cb_Source = None, cb_CacheControl = None\<rparr>"

definition text_block :: "string \<Rightarrow> ClaudeContentBlock" where
  "text_block t = (block ''text'')\<lparr>cb_Text := Some t\<rparr>"

definition source_json :: "ClaudeSource \<Rightarrow> json" where
  "source_json s = JObj (doc [(True, ''type'', JStr (cs_Type s)), str ''media_type'' (cs_MediaType s), str ''data'' (cs_Data s),
     str ''url'' (cs_URL s)])"

definition cache_json :: "string \<Rightarrow> json" where
  "cache_json t = JObj [(''type'', JStr t)]"

definition block_json :: "ClaudeContentBlock \<Rightarrow> json" where
  "block_json b = JObj (doc [(True, ''type'', JStr (cb_Type b)), opt JStr ''text'' (cb_Text b), opt JStr ''thinking'' (cb_Thinking b),
     str ''signature'' (cb_Signature b), str ''id'' (cb_ID b), str ''name'' (cb_Name b), iff_any ''input'' (cb_Input b),
     str ''tool_use_id'' (cb_ToolUseID b), iff_any ''content'' (cb_Content b), opt JBool ''is_error'' (cb_IsError b),
     opt source_json ''source'' (cb_Source b), opt cache_json ''cache_control'' (cb_CacheControl b)])"

section \<open>Requests\<close>

datatype claude_content = Value json | Pointer string | Blocks "ClaudeContentBlock list"

fun claude_content_json :: "claude_content \<Rightarrow> json" where
  "claude_content_json (Value j) = j"
| "claude_content_json (Pointer s) = JStr s"
| "claude_content_json (Blocks bs) = JArr (map block_json bs)"

record ClaudeMessage =
  cl_Role :: string
  cl_Content :: claude_content

record ClaudeThinking =
  ct_Type :: string
  ct_BudgetTokens :: "int option"

record ClaudeTool =
  ctl_Name :: string
  ctl_Description :: string
  ctl_InputSchema :: json
  ctl_Type :: string
  ctl_CacheControl :: "string option"

record ClaudeRequest =
  cr_Model :: string
  cr_System :: claude_content
  cr_Messages :: "ClaudeMessage list"
  cr_MaxTokens :: "int option"
  cr_StopSequences :: "string list"
  cr_Stream :: "bool option"
  cr_Temperature :: raw
  cr_TopP :: raw
  cr_TopK :: "int option"
  cr_Thinking :: "ClaudeThinking option"
  cr_Tools :: "ClaudeTool list"
  cr_ToolChoice :: json
  cr_Metadata :: json
  cr_ServiceTier :: string
  cr_Container :: json
  cr_McpServers :: json

definition zero_claude :: ClaudeRequest where
  "zero_claude = \<lparr>cr_Model = [], cr_System = Value JNull, cr_Messages = [], cr_MaxTokens = None, cr_StopSequences = [],
     cr_Stream = None, cr_Temperature = None, cr_TopP = None, cr_TopK = None, cr_Thinking = None, cr_Tools = [],
     cr_ToolChoice = JNull, cr_Metadata = JNull, cr_ServiceTier = [], cr_Container = JNull, cr_McpServers = JNull\<rparr>"

definition claude_message_json :: "ClaudeMessage \<Rightarrow> json" where
  "claude_message_json m = JObj [(''role'', JStr (cl_Role m)), (''content'', claude_content_json (cl_Content m))]"

definition thinking_json :: "ClaudeThinking \<Rightarrow> json" where
  "thinking_json t = JObj (doc [(True, ''type'', JStr (ct_Type t)), opt JNum ''budget_tokens'' (ct_BudgetTokens t)])"

definition claude_tool_json :: "ClaudeTool \<Rightarrow> json" where
  "claude_tool_json t = JObj (doc [(True, ''name'', JStr (ctl_Name t)), str ''description'' (ctl_Description t),
     iff_any ''input_schema'' (ctl_InputSchema t), str ''type'' (ctl_Type t), opt cache_json ''cache_control'' (ctl_CacheControl t)])"

definition claude_request_json :: "ClaudeRequest \<Rightarrow> json" where
  "claude_request_json r = JObj (doc [(True, ''model'', JStr (cr_Model r)),
     (cr_System r \<noteq> Value JNull, ''system'', claude_content_json (cr_System r)),
     (True, ''messages'', JArr (map claude_message_json (cr_Messages r))), opt JNum ''max_tokens'' (cr_MaxTokens r),
     lst JStr ''stop_sequences'' (cr_StopSequences r), opt JBool ''stream'' (cr_Stream r),
     opt (\<lambda>j. j) ''temperature'' (cr_Temperature r), opt (\<lambda>j. j) ''top_p'' (cr_TopP r), opt JNum ''top_k'' (cr_TopK r),
     opt thinking_json ''thinking'' (cr_Thinking r), lst claude_tool_json ''tools'' (cr_Tools r),
     iff_any ''tool_choice'' (cr_ToolChoice r), iff_any ''metadata'' (cr_Metadata r), str ''service_tier'' (cr_ServiceTier r),
     iff_any ''container'' (cr_Container r), iff_any ''mcp_servers'' (cr_McpServers r)])"

definition dec_ClaudeMessage :: "json \<Rightarrow> ClaudeMessage option" where
  "dec_ClaudeMessage j = do { m \<leftarrow> dec_object j; ro \<leftarrow> dec_field ''role'' dec_string [] m;
     c \<leftarrow> dec_field ''content'' dec_any JNull m; Some \<lparr>cl_Role = ro, cl_Content = Value c\<rparr> }"

definition dec_ClaudeThinking :: "json \<Rightarrow> ClaudeThinking option" where
  "dec_ClaudeThinking j = do { m \<leftarrow> dec_object j; t \<leftarrow> dec_field ''type'' dec_string [] m;
     b \<leftarrow> dec_field ''budget_tokens'' (dec_ptr dec_int) None m; Some \<lparr>ct_Type = t, ct_BudgetTokens = b\<rparr> }"

definition dec_cache :: "json \<Rightarrow> string option" where
  "dec_cache j = Option.bind (dec_object j) (dec_field ''type'' dec_string [])"

definition dec_ClaudeTool :: "json \<Rightarrow> ClaudeTool option" where
  "dec_ClaudeTool j = do { m \<leftarrow> dec_object j; n \<leftarrow> dec_field ''name'' dec_string [] m; d \<leftarrow> dec_field ''description'' dec_string [] m;
     s \<leftarrow> dec_field ''input_schema'' dec_any JNull m; t \<leftarrow> dec_field ''type'' dec_string [] m;
     c \<leftarrow> dec_field ''cache_control'' (dec_ptr dec_cache) None m;
     Some \<lparr>ctl_Name = n, ctl_Description = d, ctl_InputSchema = s, ctl_Type = t, ctl_CacheControl = c\<rparr> }"

definition dec_ClaudeRequest :: "json \<Rightarrow> ClaudeRequest option" where
  "dec_ClaudeRequest j = do { m \<leftarrow> dec_object j; model \<leftarrow> dec_field ''model'' dec_string [] m;
     sy \<leftarrow> dec_field ''system'' dec_any JNull m; msgs \<leftarrow> dec_field ''messages'' (dec_list dec_ClaudeMessage) [] m;
     mt \<leftarrow> dec_field ''max_tokens'' (dec_ptr dec_uint) None m; ss \<leftarrow> dec_field ''stop_sequences'' (dec_list dec_string) [] m;
     st \<leftarrow> dec_field ''stream'' (dec_ptr dec_bool) None m; te \<leftarrow> dec_field ''temperature'' (dec_ptr dec_float) None m;
     tp \<leftarrow> dec_field ''top_p'' (dec_ptr dec_float) None m; tk \<leftarrow> dec_field ''top_k'' (dec_ptr dec_int) None m;
     th \<leftarrow> dec_field ''thinking'' (dec_ptr dec_ClaudeThinking) None m; tls \<leftarrow> dec_field ''tools'' (dec_list dec_ClaudeTool) [] m;
     tch \<leftarrow> dec_field ''tool_choice'' dec_any JNull m; md \<leftarrow> dec_field ''metadata'' dec_any JNull m;
     tier \<leftarrow> dec_field ''service_tier'' dec_string [] m; co \<leftarrow> dec_field ''container'' dec_any JNull m;
     mcp \<leftarrow> dec_field ''mcp_servers'' dec_any JNull m;
     Some \<lparr>cr_Model = model, cr_System = Value sy, cr_Messages = msgs, cr_MaxTokens = mt, cr_StopSequences = ss, cr_Stream = st,
       cr_Temperature = te, cr_TopP = tp, cr_TopK = tk, cr_Thinking = th, cr_Tools = tls, cr_ToolChoice = tch, cr_Metadata = md,
       cr_ServiceTier = tier, cr_Container = co, cr_McpServers = mcp\<rparr> }"

end
