(* ===== verification/ClaudeConv.thy ===== *)
theory ClaudeConv
  imports ClaudeTypes
begin

text \<open>
  Requests between Claude's Messages and OpenAI's Chat Completions, both ways:
  \<^verbatim>\<open>relay/channel/openai/converter.go\<close> (its first part) and
  \<^verbatim>\<open>relay/channel/claude/converter.go\<close>.
\<close>

section \<open>Maps of decoded values\<close>

text \<open>\<^verbatim>\<open>m[k].(string)\<close>, with the zero value where the assertion fails.\<close>

definition str_at :: "string \<Rightarrow> (string \<times> json) list \<Rightarrow> string option" where
  "str_at k m = (case jlookup k m of Some (JStr s) \<Rightarrow> Some s | _ \<Rightarrow> None)"

definition str_or :: "string \<Rightarrow> (string \<times> json) list \<Rightarrow> string" where
  "str_or k m = (case str_at k m of None \<Rightarrow> [] | Some s \<Rightarrow> s)"

definition obj_at :: "string \<Rightarrow> (string \<times> json) list \<Rightarrow> (string \<times> json) list option" where
  "obj_at k m = (case jlookup k m of Some (JObj o') \<Rightarrow> Some o' | _ \<Rightarrow> None)"

definition items_of :: "json list \<Rightarrow> (string \<times> json) list list" where
  "items_of xs = List.map_filter (\<lambda>j. case j of JObj m \<Rightarrow> Some m | _ \<Rightarrow> None) xs"

definition typed :: "string \<Rightarrow> (string \<times> json) list \<Rightarrow> bool" where
  "typed t m \<longleftrightarrow> jlookup ''type'' m = Some (JStr t)"

definition text_of_item :: "(string \<times> json) list \<Rightarrow> string option" where
  "text_of_item m = (if typed ''text'' m then str_at ''text'' m else None)"

section \<open>From Claude to OpenAI\<close>

definition c2oJoinParts :: "string list \<Rightarrow> string" where
  "c2oJoinParts parts = Join parts ''\<newline>''"

definition extractClaudeSystemText :: "json \<Rightarrow> string" where
  "extractClaudeSystemText system = (case system of
     JStr v \<Rightarrow> v | JArr v \<Rightarrow> c2oJoinParts (List.map_filter text_of_item (items_of v)) | _ \<Rightarrow> [])"

definition user_text :: "json \<Rightarrow> Message" where
  "user_text c = zero_Message\<lparr>om_Role := ''user'', om_Content := c\<rparr>"

definition flush_parts :: "ContentPart list \<Rightarrow> Message list" where
  "flush_parts ps = (case ps of [] \<Rightarrow> []
     | [p] \<Rightarrow> if cp_Type p = ''text'' then [user_text (JStr (cp_Text p))] else [user_text (JArr [part_json p])]
     | _ \<Rightarrow> [user_text (JArr (map part_json ps))])"

definition tool_result_text :: "conv_env \<Rightarrow> (string \<times> json) list \<Rightarrow> string" where
  "tool_result_text E m = (case jlookup ''content'' m of
     Some (JStr c) \<Rightarrow> c | Some (JObj o') \<Rightarrow> ce_text E (JObj o') | _ \<Rightarrow> [])"

definition image_part :: "(string \<times> json) list \<Rightarrow> ContentPart list" where
  "image_part m = (case obj_at ''source'' m of None \<Rightarrow> []
     | Some source \<Rightarrow>
         let mediaType = str_or ''media_type'' source; dat = str_or ''data'' source; url = str_or ''url'' source;
             pic = (\<lambda>u. [zero_part\<lparr>cp_Type := ''image_url'', cp_ImageURL := Some \<lparr>iu_URL = u, iu_Detail = ''auto''\<rparr>\<rparr>]) in
         if dat \<noteq> [] \<and> mediaType \<noteq> [] then pic (''data:'' @ mediaType @ '';base64,'' @ dat)
         else if url \<noteq> [] then pic url else [])"

text \<open>One round of the loop, over the messages so far and the parts held back.\<close>

definition user_item :: "conv_env \<Rightarrow> (string \<times> json) list \<Rightarrow> Message list \<times> ContentPart list \<Rightarrow> Message list \<times> ContentPart list" where
  "user_item E m = (\<lambda>(results, parts).
     if typed ''text'' m then (case str_at ''text'' m of None \<Rightarrow> (results, parts)
       | Some t \<Rightarrow> (results, parts @ [zero_part\<lparr>cp_Type := ''text'', cp_Text := t\<rparr>]))
     else if typed ''tool_result'' m then
       (results @ flush_parts parts @ [zero_Message\<lparr>om_Role := ''tool'', om_Content := JStr (tool_result_text E m),
          om_ToolCallID := str_or ''tool_use_id'' m\<rparr>], [])
     else if typed ''image'' m then (results, parts @ image_part m)
     else (results, parts))"

definition convertClaudeUserMessage :: "conv_env \<Rightarrow> json \<Rightarrow> Message list" where
  "convertClaudeUserMessage E content =
     (let results = (case content of
          JStr v \<Rightarrow> [user_text (JStr v)]
        | JArr v \<Rightarrow> let (rs, ps) = fold (user_item E) (items_of v) ([], []) in rs @ flush_parts ps
        | v \<Rightarrow> [user_text (JStr (ce_show E v))]) in
      if results = [] then [user_text (JStr [])] else results)"

definition thinking_of_item :: "(string \<times> json) list \<Rightarrow> string option" where
  "thinking_of_item m = (if typed ''thinking'' m then
     (case str_at ''thinking'' m of None \<Rightarrow> None | Some t \<Rightarrow> if t = [] then None else Some t) else None)"

definition call_of_item :: "conv_env \<Rightarrow> (string \<times> json) list \<Rightarrow> ToolCall option" where
  "call_of_item E m = (if typed ''tool_use'' m then
     Some \<lparr>oc_Index = 0, oc_ID = str_or ''id'' m, oc_Type = ''function'',
       oc_Function = \<lparr>fc_Name = str_or ''name'' m,
         fc_Arguments = (case jlookup ''input'' m of None \<Rightarrow> ''{}'' | Some input \<Rightarrow> ce_text E input)\<rparr>\<rparr> else None)"

definition convertClaudeAssistantMessage :: "conv_env \<Rightarrow> json \<Rightarrow> Message" where
  "convertClaudeAssistantMessage E content =
     (let result = zero_Message\<lparr>om_Role := ''assistant''\<rparr> in
      case content of
        JStr v \<Rightarrow> result\<lparr>om_Content := JStr v\<rparr>
      | JArr v \<Rightarrow> let items = items_of v; think = List.map_filter thinking_of_item items in
          result\<lparr>om_Content := JStr (c2oJoinParts (List.map_filter text_of_item items)),
            om_ReasoningContent := (if think = [] then None else Some (c2oJoinParts think)),
            om_ToolCalls := List.map_filter (call_of_item E) items\<rparr>
      | v \<Rightarrow> result\<lparr>om_Content := JStr (ce_show E v)\<rparr>)"

definition c2oConvertThinkingToReasoningEffort :: "ClaudeThinking \<Rightarrow> string" where
  "c2oConvertThinkingToReasoningEffort thinking = (case ct_BudgetTokens thinking of None \<Rightarrow> ''medium''
     | Some budget \<Rightarrow> if budget \<le> 2048 then ''low'' else if budget \<le> 16384 then ''medium'' else ''high'')"

definition function_choice :: "string \<Rightarrow> json" where
  "function_choice name = JObj [(''function'', JObj [(''name'', JStr name)]), (''type'', JStr ''function'')]"

definition c2oConvertToolChoice :: "json \<Rightarrow> json" where
  "c2oConvertToolChoice toolChoice = (case toolChoice of
     JObj v \<Rightarrow>
       let tcType = str_or ''type'' v in
       if tcType = ''auto'' then JStr ''auto''
       else if tcType = ''any'' then JStr ''required''
       else if tcType = ''none'' then JStr ''none''
       else if tcType = ''tool'' then
         (let name = str_or ''name'' v in if name \<noteq> [] then function_choice name else JStr ''required'')
       else toolChoice
   | _ \<Rightarrow> toolChoice)"

definition c2o_tool :: "ClaudeTool \<Rightarrow> Tool" where
  "c2o_tool t = \<lparr>ot_Type = ''function'', ot_Function = \<lparr>fn_Name = ctl_Name t, fn_Description = ctl_Description t,
     fn_Parameters = ctl_InputSchema t, fn_Strict = None\<rparr>\<rparr>"

fun plain :: "claude_content \<Rightarrow> json" where
  "plain (Value j) = j"
| "plain c = claude_content_json c"

definition c2o_message :: "conv_env \<Rightarrow> ClaudeMessage \<Rightarrow> Message list" where
  "c2o_message E msg =
     (if cl_Role msg = ''user'' then convertClaudeUserMessage E (plain (cl_Content msg))
      else if cl_Role msg = ''assistant'' then [convertClaudeAssistantMessage E (plain (cl_Content msg))]
      else [])"

definition c2o_system :: "claude_content \<Rightarrow> Message list" where
  "c2o_system sys = (let systemText = extractClaudeSystemText (plain sys) in
     if systemText \<noteq> [] then [zero_Message\<lparr>om_Role := ''system'', om_Content := JStr systemText\<rparr>] else [])"

definition c2o_request :: "conv_env \<Rightarrow> RelayInfo \<Rightarrow> ClaudeRequest \<Rightarrow> GeneralOpenAIRequest" where
  "c2o_request E info req =
     zero_request\<lparr>gr_Model := cm_UpstreamModelName (ri_ChannelMeta info),
       gr_MaxTokens := Some (case cr_MaxTokens req of Some n \<Rightarrow> i64 n | None \<Rightarrow> 4096),
       gr_Temperature := cr_Temperature req, gr_TopP := cr_TopP req, gr_Stream := cr_Stream req,
       gr_ReasoningEffort := (case cr_Thinking req of None \<Rightarrow> []
         | Some t \<Rightarrow> if ct_Type t = ''enabled'' then c2oConvertThinkingToReasoningEffort t else []),
       gr_Stop := (if cr_StopSequences req = [] then JNull else JArr (map JStr (cr_StopSequences req))),
       gr_Tools := map c2o_tool (cr_Tools req),
       gr_ToolChoice := c2oConvertToolChoice (cr_ToolChoice req),
       gr_Messages := c2o_system (cr_System req) @ concat (map (c2o_message E) (cr_Messages req))\<rparr>"

text \<open>\<^verbatim>\<open>json.Unmarshal\<close> into a type, with a wrapped error.\<close>

definition unmarshal :: "string \<Rightarrow> (json \<Rightarrow> 'a option) \<Rightarrow> raw \<Rightarrow> go_err + 'a" where
  "unmarshal msg f body = (case Option.bind body f of None \<Rightarrow> Inl (ErrWrap (ErrExt ''json: cannot unmarshal'') msg) | Some x \<Rightarrow> Inr x)"

definition ConvertClaudeToOpenAI :: "conv_env \<Rightarrow> raw \<Rightarrow> RelayInfo \<Rightarrow> go_err + json" where
  "ConvertClaudeToOpenAI E body info = (case unmarshal ''parse claude request'' dec_ClaudeRequest body of
     Inl e \<Rightarrow> Inl e | Inr req \<Rightarrow> Inr (request_json (c2o_request E info req)))"

section \<open>From OpenAI to Claude\<close>

definition o2cConvertToolChoice :: "json \<Rightarrow> bool option \<Rightarrow> json" where
  "o2cConvertToolChoice toolChoice parallelToolCalls = (case toolChoice of
     JNull \<Rightarrow> if parallelToolCalls = Some False
        then JObj [(''disable_parallel_tool_use'', JBool True), (''type'', JStr ''auto'')] else JNull
   | JStr v \<Rightarrow>
       if v = ''auto'' then JObj [(''type'', JStr ''auto'')]
       else if v = ''none'' then JNull
       else if v = ''required'' then JObj [(''type'', JStr ''any'')] else toolChoice
   | JObj v \<Rightarrow>
       if typed ''function'' v then (case obj_at ''function'' v of None \<Rightarrow> toolChoice
         | Some fn \<Rightarrow> (case str_at ''name'' fn of None \<Rightarrow> toolChoice
             | Some name \<Rightarrow> JObj [(''name'', JStr name), (''type'', JStr ''tool'')]))
       else toolChoice
   | _ \<Rightarrow> toolChoice)"

text \<open>The default branch prints with \<^verbatim>\<open>%v\<close>: for the pointer to a string that the converters
  below return, its address.\<close>

definition o2cContentToBlocks :: "conv_env \<Rightarrow> claude_content \<Rightarrow> ClaudeContentBlock list" where
  "o2cContentToBlocks E content = (case content of
     Value (JStr v) \<Rightarrow> if v = [] then [] else [text_block v]
   | Blocks v \<Rightarrow> v
   | Value JNull \<Rightarrow> []
   | Value v \<Rightarrow> [text_block (ce_show E v)]
   | Pointer p \<Rightarrow> [text_block (ce_addr E p)])"

text \<open>A single text block (a block of type text always has a text here) becomes its pointer.\<close>

definition unwrapped :: "ClaudeContentBlock list \<Rightarrow> claude_content" where
  "unwrapped bs = (case bs of
     [b] \<Rightarrow> (case cb_Text b of Some t \<Rightarrow> if cb_Type b = ''text'' then Pointer t else Blocks [b] | None \<Rightarrow> Blocks [b])
   | _ \<Rightarrow> Blocks bs)"

definition o2cMergeContents :: "conv_env \<Rightarrow> claude_content \<Rightarrow> claude_content \<Rightarrow> claude_content" where
  "o2cMergeContents E existing newContent = unwrapped (o2cContentToBlocks E existing @ o2cContentToBlocks E newContent)"

definition o2cExtractTextContent :: "conv_env \<Rightarrow> json \<Rightarrow> string" where
  "o2cExtractTextContent E content = (case content of
     JStr v \<Rightarrow> v | JArr v \<Rightarrow> c2oJoinParts (List.map_filter text_of_item (items_of v)) | v \<Rightarrow> ce_show E v)"

definition o2cParseDataURL :: "string \<Rightarrow> ClaudeContentBlock option" where
  "o2cParseDataURL dataURL =
     (if length dataURL < 11 then None
      else let rest = drop 5 dataURL; mediaType = takeWhile (\<lambda>c. c \<noteq> CHR '';'') rest;
               after = drop (length mediaType + 1) rest in
        if CHR '';'' \<notin> set rest then None
        else if length after < 7 \<or> take 7 after \<noteq> ''base64,'' then None
        else Some ((block (if mediaType = ''application/pdf'' then ''document'' else ''image''))\<lparr>
          cb_Source := Some \<lparr>cs_Type = ''base64'', cs_MediaType = mediaType, cs_Data = drop 7 after, cs_URL = []\<rparr>\<rparr>))"

definition image_block :: "string \<Rightarrow> ClaudeContentBlock" where
  "image_block url =
     (case (if length url > 5 \<and> take 5 url = ''data:'' then o2cParseDataURL url else None) of
        Some b \<Rightarrow> b
      | None \<Rightarrow> if HasPrefix url ''http://'' \<or> HasPrefix url ''https://''
          then (block ''image'')\<lparr>cb_Source := Some \<lparr>cs_Type = ''url'', cs_MediaType = [], cs_Data = [], cs_URL = url\<rparr>\<rparr>
          else text_block url)"

definition user_block :: "(string \<times> json) list \<Rightarrow> ClaudeContentBlock option" where
  "user_block m =
     (if typed ''text'' m then map_option text_block (str_at ''text'' m)
      else if typed ''image_url'' m then (case obj_at ''image_url'' m of None \<Rightarrow> None
        | Some imageURL \<Rightarrow> map_option image_block (str_at ''url'' imageURL))
      else None)"

definition o2cConvertUserMessage :: "conv_env \<Rightarrow> json \<Rightarrow> claude_content" where
  "o2cConvertUserMessage E content = (case content of
     JStr v \<Rightarrow> if v = [] then Blocks [text_block '' ''] else Value (JStr v)
   | JArr v \<Rightarrow> let blocks = List.map_filter user_block (items_of v) in
       if blocks = [] then Blocks [text_block '' ''] else unwrapped blocks
   | v \<Rightarrow> Value (JStr (ce_show E v)))"

definition tool_use_block :: "conv_env \<Rightarrow> ToolCall \<Rightarrow> ClaudeContentBlock" where
  "tool_use_block E tc = (block ''tool_use'')\<lparr>cb_ID := oc_ID tc, cb_Name := fc_Name (oc_Function tc),
     cb_Input := (case ce_parse E (fc_Arguments (oc_Function tc)) of None \<Rightarrow> JObj [] | Some j \<Rightarrow> j)\<rparr>"

text \<open>The content is read before a nil is replaced, so the text of a nil content is the text
  \<^verbatim>\<open>%v\<close> gives for nil.\<close>

definition o2cConvertAssistantMessage :: "conv_env \<Rightarrow> Message \<Rightarrow> claude_content" where
  "o2cConvertAssistantMessage E msg =
     (let think = (case om_ReasoningContent msg of None \<Rightarrow> []
            | Some t \<Rightarrow> if t = [] then [] else [(block ''thinking'')\<lparr>cb_Thinking := Some t\<rparr>]);
          text = o2cExtractTextContent E (om_Content msg);
          blocks = think @ (if text = [] then [] else [text_block text]) @ map (tool_use_block E) (om_ToolCalls msg) in
      if blocks = [] then Blocks [text_block '' ''] else unwrapped blocks)"

definition o2cConvertReasoningEffort :: "string \<Rightarrow> ClaudeThinking" where
  "o2cConvertReasoningEffort effort = \<lparr>ct_Type = ''enabled'', ct_BudgetTokens = Some
     (if effort = ''low'' then 1024 else if effort = ''medium'' then 8192 else if effort = ''high'' then 32768 else 8192)\<rparr>"

text \<open>One message of the conversation: the messages so far, the role of the last, the system's blocks.\<close>

definition append_turn :: "conv_env \<Rightarrow> string \<Rightarrow> claude_content \<Rightarrow> string \<Rightarrow> ClaudeMessage list \<Rightarrow> ClaudeMessage list" where
  "append_turn E role content lastRole msgs =
     (if lastRole = role \<and> msgs \<noteq> []
      then butlast msgs @ [(last msgs)\<lparr>cl_Content := o2cMergeContents E (cl_Content (last msgs)) content\<rparr>]
      else msgs @ [\<lparr>cl_Role = role, cl_Content = content\<rparr>])"

definition o2c_step :: "conv_env \<Rightarrow> Message \<Rightarrow> ClaudeMessage list \<times> string \<times> ClaudeContentBlock list
    \<Rightarrow> ClaudeMessage list \<times> string \<times> ClaudeContentBlock list" where
  "o2c_step E msg = (\<lambda>(msgs, lastRole, system).
     let content = (if om_Content msg = JNull then JStr [] else om_Content msg) in
     if om_Role msg = ''system'' \<or> om_Role msg = ''developer'' then
       (let text = o2cExtractTextContent E content in
        (msgs, lastRole, if text \<noteq> [] then system @ [text_block text] else system))
     else if om_Role msg = ''user'' then
       (append_turn E ''user'' (o2cConvertUserMessage E content) lastRole msgs, ''user'', system)
     else if om_Role msg = ''assistant'' then
       (append_turn E ''assistant'' (o2cConvertAssistantMessage E msg) lastRole msgs, ''assistant'', system)
     else if om_Role msg = ''tool'' then
       (append_turn E ''user'' (Blocks [(block ''tool_result'')\<lparr>cb_ToolUseID := om_ToolCallID msg,
          cb_Content := JStr (o2cExtractTextContent E content)\<rparr>]) lastRole msgs, ''user'', system)
     else (msgs, lastRole, system))"

definition o2c_turns :: "conv_env \<Rightarrow> Message list \<Rightarrow> ClaudeMessage list \<times> string \<times> ClaudeContentBlock list" where
  "o2c_turns E msgs = fold (o2c_step E) msgs ([], [], [])"

definition user_first :: "ClaudeMessage list \<Rightarrow> ClaudeMessage list" where
  "user_first msgs = (case msgs of [] \<Rightarrow> []
     | m # ms \<Rightarrow> if cl_Role m \<noteq> ''user'' then \<lparr>cl_Role = ''user'', cl_Content = Value (JStr '' '')\<rparr> # m # ms else m # ms)"

definition o2c_stops :: "json \<Rightarrow> string list" where
  "o2c_stops stop = (case stop of
     JArr xs \<Rightarrow> List.map_filter (\<lambda>j. case j of JStr s \<Rightarrow> Some s | _ \<Rightarrow> None) xs | JStr s \<Rightarrow> [s] | _ \<Rightarrow> [])"

definition o2c_max_tokens :: "GeneralOpenAIRequest \<Rightarrow> int" where
  "o2c_max_tokens req =
     (let n = (case gr_MaxTokens req of Some n \<Rightarrow> to_uint n
          | None \<Rightarrow> (case gr_MaxCompletionTokens req of Some n \<Rightarrow> to_uint n | None \<Rightarrow> 4096)) in
      if gr_ReasoningEffort req \<noteq> [] \<and> n < 16384 then 16384 else n)"

definition o2c_tools :: "Tool list \<Rightarrow> ClaudeTool list" where
  "o2c_tools tools = map (\<lambda>t. \<lparr>ctl_Name = fn_Name (ot_Function t), ctl_Description = fn_Description (ot_Function t),
     ctl_InputSchema = fn_Parameters (ot_Function t), ctl_Type = [], ctl_CacheControl = None\<rparr>)
     (filter (\<lambda>t. ot_Type t = ''function'') tools)"

definition o2c_request :: "conv_env \<Rightarrow> RelayInfo \<Rightarrow> GeneralOpenAIRequest \<Rightarrow> ClaudeRequest" where
  "o2c_request E info req =
     (let (msgs, lastRole, system) = o2c_turns E (gr_Messages req) in
      zero_claude\<lparr>cr_Model := cm_UpstreamModelName (ri_ChannelMeta info), cr_MaxTokens := Some (o2c_max_tokens req),
        cr_Temperature := gr_Temperature req, cr_TopP := gr_TopP req, cr_TopK := gr_TopK req,
        cr_StopSequences := o2c_stops (gr_Stop req), cr_Stream := gr_Stream req,
        cr_Thinking := (if gr_ReasoningEffort req \<noteq> [] then Some (o2cConvertReasoningEffort (gr_ReasoningEffort req)) else None),
        cr_Tools := o2c_tools (gr_Tools req),
        cr_ToolChoice := o2cConvertToolChoice (gr_ToolChoice req) (gr_ParallelToolCalls req),
        cr_Messages := user_first msgs,
        cr_System := (if system = [] then Value JNull else unwrapped system)\<rparr>)"

definition ConvertOpenAIToClaude :: "conv_env \<Rightarrow> raw \<Rightarrow> RelayInfo \<Rightarrow> go_err + json" where
  "ConvertOpenAIToClaude E body info = (case unmarshal ''parse openai request'' (dec_request E) body of
     Inl e \<Rightarrow> Inl e | Inr req \<Rightarrow> Inr (claude_request_json (o2c_request E info req)))"

end
