(* ===== verification/GeminiConv.thy ===== *)
theory GeminiConv
  imports GeminiTypes ClaudeConv
begin

text \<open>
  Requests between Gemini's generateContent and OpenAI's Chat Completions, both ways:
  \<^verbatim>\<open>relay/channel/openai/converter.go\<close> (its second part) and
  \<^verbatim>\<open>relay/channel/gemini/converter.go\<close>.
\<close>

section \<open>From Gemini to OpenAI\<close>

record g2o_state =
  g2_texts :: "string list"
  g2_images :: "ContentPart list"
  g2_calls :: "ToolCall list"
  g2_responses :: "Message list"
  g2_counter :: int
  g2_ids :: "string \<rightharpoonup> string"

definition call_id :: "int \<Rightarrow> string" where
  "call_id n = ''call_'' @ show_int n"

definition g2oConvertInlineData :: "GeminiInlineData \<Rightarrow> ContentPart" where
  "g2oConvertInlineData d = zero_part\<lparr>cp_Type := ''image_url'',
     cp_ImageURL := Some \<lparr>iu_URL = ''data:'' @ gi_MimeType d @ '';base64,'' @ gi_Data d, iu_Detail = ''auto''\<rparr>\<rparr>"

definition g2o_part :: "conv_env \<Rightarrow> GeminiPart \<Rightarrow> g2o_state \<Rightarrow> g2o_state" where
  "g2o_part E part st =
     (if gp_Text part \<noteq> [] then st\<lparr>g2_texts := g2_texts st @ [gp_Text part]\<rparr>
      else case gp_InlineData part of Some d \<Rightarrow> st\<lparr>g2_images := g2_images st @ [g2oConvertInlineData d]\<rparr>
      | None \<Rightarrow> (case gp_FunctionCall part of
          Some c \<Rightarrow>
            let i = call_id (g2_counter st) in
            st\<lparr>g2_counter := i64 (g2_counter st + 1), g2_ids := (g2_ids st)(gfc_FunctionName c \<mapsto> i),
               g2_calls := g2_calls st @ [\<lparr>oc_Index = 0, oc_ID = i, oc_Type = ''function'',
                 oc_Function = \<lparr>fc_Name = gfc_FunctionName c,
                   fc_Arguments = (case gfc_Arguments c of None \<Rightarrow> ''{}'' | Some a \<Rightarrow> ce_text E a)\<rparr>\<rparr>]\<rparr>
        | None \<Rightarrow> (case gp_FunctionResponse part of
            None \<Rightarrow> st
          | Some r \<Rightarrow>
              let st' = (case g2_ids st (gfr_Name r) of Some i \<Rightarrow> st
                    | None \<Rightarrow> st\<lparr>g2_counter := i64 (g2_counter st + 1),
                         g2_ids := (g2_ids st)(gfr_Name r \<mapsto> call_id (g2_counter st))\<rparr>);
                  respJSON = (if gfr_Response r = JNull then [] else ce_text E (gfr_Response r)) in
              st'\<lparr>g2_responses := g2_responses st' @ [zero_Message\<lparr>om_Role := ''tool'', om_Content := JStr respJSON,
                 om_ToolCallID := the (g2_ids st' (gfr_Name r))\<rparr>]\<rparr>)))"

definition g2oMapRole :: "string \<Rightarrow> string" where
  "g2oMapRole role = (if role = ''model'' then ''assistant'' else role)"

definition g2o_user :: "g2o_state \<Rightarrow> Message list" where
  "g2o_user st =
     (let texts = g2_texts st; images = g2_images st in
      if length texts = 1 \<and> images = [] \<and> g2_responses st = [] then [user_text (JStr (hd texts))]
      else if images \<noteq> [] then
        [user_text (JArr (map part_json (map (\<lambda>t. zero_part\<lparr>cp_Type := ''text'', cp_Text := t\<rparr>) texts @ images)))]
      else if texts \<noteq> [] then [user_text (JStr (c2oJoinParts texts))] else [])"

definition g2o_assistant :: "g2o_state \<Rightarrow> Message" where
  "g2o_assistant st =
     (let c1 = (if g2_texts st \<noteq> [] then JStr (c2oJoinParts (g2_texts st)) else JNull);
          c2 = (if g2_images st \<noteq> [] then JArr (map part_json (g2_images st)) else c1);
          c3 = (if g2_calls st \<noteq> [] \<and> c2 = JNull then JStr [] else c2) in
      zero_Message\<lparr>om_Role := ''assistant'', om_Content := c3, om_ToolCalls := g2_calls st\<rparr>)"

definition g2oConvertContent :: "conv_env \<Rightarrow> GeminiContent \<Rightarrow> int \<times> (string \<rightharpoonup> string)
    \<Rightarrow> Message list \<times> int \<times> (string \<rightharpoonup> string)" where
  "g2oConvertContent E content = (\<lambda>(counter, ids).
     let st = fold (g2o_part E) (gc_Parts content) \<lparr>g2_texts = [], g2_images = [], g2_calls = [], g2_responses = [],
           g2_counter = counter, g2_ids = ids\<rparr>;
         role = g2oMapRole (gc_Role content);
         results = (if role = ''user'' then g2o_user st else if role = ''assistant'' then [g2o_assistant st] else []) in
     (results @ g2_responses st, g2_counter st, g2_ids st))"

text \<open>Tool messages are held back until the next message of another role, or the end.\<close>

definition g2o_emit :: "Message \<Rightarrow> Message list \<times> Message list \<Rightarrow> Message list \<times> Message list" where
  "g2o_emit m = (\<lambda>(out, pending).
     if om_Role m = ''tool'' then (out, pending @ [m]) else (out @ pending @ [m], []))"

fun g2o_contents :: "conv_env \<Rightarrow> GeminiContent list \<Rightarrow> int \<times> (string \<rightharpoonup> string) \<Rightarrow> Message list \<times> Message list
    \<Rightarrow> Message list \<times> Message list" where
  "g2o_contents E [] ci acc = acc"
| "g2o_contents E (c # cs) ci acc =
     (let (msgs, ci') = g2oConvertContent E c ci in g2o_contents E cs ci' (fold g2o_emit msgs acc))"

definition dec_declaration :: "json \<Rightarrow> Tool option" where
  "dec_declaration j = do { m \<leftarrow> dec_object j; n \<leftarrow> dec_field ''name'' dec_string [] m; d \<leftarrow> dec_field ''description'' dec_string [] m;
     p \<leftarrow> dec_field ''parameters'' dec_any JNull m;
     Some \<lparr>ot_Type = ''function'', ot_Function = \<lparr>fn_Name = n, fn_Description = d, fn_Parameters = p, fn_Strict = None\<rparr>\<rparr> }"

definition dec_declarations :: "json \<Rightarrow> Tool list option" where
  "dec_declarations j = Option.bind (dec_object j) (dec_field ''functionDeclarations'' (dec_list dec_declaration) [])"

definition g2oConvertTools :: "json \<Rightarrow> Tool list" where
  "g2oConvertTools toolsJSON = (case dec_list dec_declarations toolsJSON of None \<Rightarrow> [] | Some ts \<Rightarrow> concat ts)"

definition g2oConvertToolConfig :: "json \<Rightarrow> json" where
  "g2oConvertToolConfig toolConfig = (case toolConfig of
     JObj tcMap \<Rightarrow> (case obj_at ''functionCallingConfig'' tcMap of None \<Rightarrow> JNull
       | Some fcc \<Rightarrow>
           let mode = str_or ''mode'' fcc in
           if mode = ''NONE'' then JStr ''none''
           else if mode = ''AUTO'' then JStr ''auto''
           else if mode = ''ANY'' then
             (case jlookup ''allowedFunctionNames'' fcc of
                Some (JArr [JStr name]) \<Rightarrow> function_choice name | _ \<Rightarrow> JStr ''required'')
           else JStr ''auto'')
   | _ \<Rightarrow> JNull)"

definition g2oConvertThinkingConfig :: "GeminiThinkingConfig \<Rightarrow> string" where
  "g2oConvertThinkingConfig tc = (case gt_ThoughtBudget tc of None \<Rightarrow> ''medium''
     | Some budget \<Rightarrow> if budget \<le> 2048 then ''low'' else if budget \<le> 16384 then ''medium'' else ''high'')"

definition g2o_config :: "conv_env \<Rightarrow> GeminiGenerationConfig \<Rightarrow> GeneralOpenAIRequest \<Rightarrow> GeneralOpenAIRequest" where
  "g2o_config E gc req = req\<lparr>gr_Temperature := gg_Temperature gc, gr_TopP := gg_TopP gc,
     gr_TopK := map_option (ce_trunc E) (gg_TopK gc), gr_MaxTokens := map_option i64 (gg_MaxOutputTokens gc),
     gr_Stop := (if gg_StopSequences gc = [] then JNull else JArr (map JStr (gg_StopSequences gc))),
     gr_Seed := gg_Seed gc,
     gr_ReasoningEffort := (case gg_ThinkingConfig gc of None \<Rightarrow> [] | Some tc \<Rightarrow> g2oConvertThinkingConfig tc),
     gr_ResponseFormat := (if gg_ResponseMimeType gc = [] then None
       else if gg_ResponseSchema gc = JNull then Some \<lparr>rf_Type = ''json_object'', rf_JSONSchema = JNull\<rparr>
       else Some \<lparr>rf_Type = ''json_schema'', rf_JSONSchema = gg_ResponseSchema gc\<rparr>)\<rparr>"

definition g2o_system :: "GeminiContent option \<Rightarrow> Message list" where
  "g2o_system sys = (case sys of None \<Rightarrow> []
     | Some c \<Rightarrow> let textParts = filter (\<lambda>t. t \<noteq> []) (map gp_Text (gc_Parts c)) in
         if textParts = [] then []
         else [zero_Message\<lparr>om_Role := ''system'', om_Content := JStr (c2oJoinParts textParts)\<rparr>])"

definition g2o_request :: "conv_env \<Rightarrow> RelayInfo \<Rightarrow> GeminiChatRequest \<Rightarrow> GeneralOpenAIRequest" where
  "g2o_request E info req =
     (let base = zero_request\<lparr>gr_Model := cm_UpstreamModelName (ri_ChannelMeta info)\<rparr>;
          cfg = (case gq_GenerationConfig req of None \<Rightarrow> base | Some gc \<Rightarrow> g2o_config E gc base);
          (out, pending) = g2o_contents E (gq_Contents req) (0, Map.empty) (g2o_system (gq_SystemInstruction req), []) in
      cfg\<lparr>gr_Tools := (case gq_Tools req of None \<Rightarrow> [] | Some t \<Rightarrow> g2oConvertTools t),
        gr_ToolChoice := (if gq_ToolConfig req = JNull then JNull else g2oConvertToolConfig (gq_ToolConfig req)),
        gr_Messages := out @ pending\<rparr>)"

definition ConvertGeminiToOpenAI :: "conv_env \<Rightarrow> raw \<Rightarrow> RelayInfo \<Rightarrow> go_err + json" where
  "ConvertGeminiToOpenAI E body info = (case unmarshal ''parse gemini request'' dec_GeminiChatRequest body of
     Inl e \<Rightarrow> Inl e | Inr req \<Rightarrow> Inr (request_json (g2o_request E info req)))"

section \<open>Chains\<close>

definition read_reader :: "string \<Rightarrow> go_err + json \<Rightarrow> (raw \<Rightarrow> go_err + json) \<Rightarrow> go_err + json" where
  "read_reader msg r k = (case r of Inl e \<Rightarrow> Inl (ErrWrap e msg) | Inr j \<Rightarrow> k (Some j))"

definition ConvertGeminiToClaude :: "conv_env \<Rightarrow> raw \<Rightarrow> RelayInfo \<Rightarrow> go_err + json" where
  "ConvertGeminiToClaude E body info = read_reader ''gemini to openai conversion failed'' (ConvertGeminiToOpenAI E body info)
     (\<lambda>b. ConvertOpenAIToClaude E b info)"

section \<open>From OpenAI to Gemini\<close>

definition kept_params :: "string list" where
  "kept_params = [''type'', ''description'', ''properties'', ''required'', ''items'', ''anyOf'', ''default'', ''enum'', ''format'',
     ''maxLength'', ''minLength'', ''maximum'', ''minimum'', ''pattern'', ''title'', ''nullable'', ''maxItems'', ''minItems'',
     ''maxProperties'', ''minProperties'', ''example'']"

definition o2gCleanParams :: "json \<Rightarrow> json" where
  "o2gCleanParams params = (case params of JObj m \<Rightarrow> JObj (filter (\<lambda>(k, v). k \<in> set kept_params) m) | _ \<Rightarrow> params)"

definition declaration_json :: "Tool \<Rightarrow> json" where
  "declaration_json t = JObj (doc [(True, ''name'', JStr (fn_Name (ot_Function t))), str ''description'' (fn_Description (ot_Function t)),
     iff_any ''parameters'' (o2gCleanParams (fn_Parameters (ot_Function t)))])"

definition o2gConvertTools :: "Tool list \<Rightarrow> raw" where
  "o2gConvertTools tools = (let decls = map declaration_json (filter (\<lambda>t. ot_Type t = ''function'') tools) in
     if decls = [] then None else Some (JArr [JObj [(''functionDeclarations'', JArr decls)]]))"

definition calling_config :: "string \<Rightarrow> json" where
  "calling_config mode = JObj [(''functionCallingConfig'', JObj [(''mode'', JStr mode)])]"

definition o2gConvertToolChoice :: "json \<Rightarrow> json" where
  "o2gConvertToolChoice toolChoice = (case toolChoice of
     JStr v \<Rightarrow> if v = ''auto'' then calling_config ''AUTO'' else if v = ''none'' then calling_config ''NONE''
       else if v = ''required'' then calling_config ''ANY'' else calling_config ''AUTO''
   | JObj v \<Rightarrow> if typed ''function'' v then
       (let name = (case obj_at ''function'' v of None \<Rightarrow> [] | Some fn \<Rightarrow> str_or ''name'' fn) in
        if name = [] then calling_config ''ANY''
        else JObj [(''functionCallingConfig'', JObj [(''allowedFunctionNames'', JArr [JStr name]), (''mode'', JStr ''ANY'')])])
       else JNull
   | _ \<Rightarrow> JNull)"

definition o2gParseStopSequences :: "json \<Rightarrow> string list" where
  "o2gParseStopSequences stop = (case stop of
     JStr v \<Rightarrow> if v \<noteq> [] then [v] else []
   | JArr v \<Rightarrow> List.map_filter (\<lambda>j. case j of JStr s \<Rightarrow> if s \<noteq> [] then Some s else None | _ \<Rightarrow> None) v
   | _ \<Rightarrow> [])"

definition o2gExtractText :: "json \<Rightarrow> string" where
  "o2gExtractText content = (case content of
     JStr v \<Rightarrow> v | JArr v \<Rightarrow> Join (List.map_filter text_of_item (items_of v)) ''\<newline>'' | _ \<Rightarrow> [])"

definition o2gParseDataURL :: "string \<Rightarrow> (string \<times> string) option" where
  "o2gParseDataURL dataURL =
     (if length dataURL < 11 \<or> take 5 dataURL \<noteq> ''data:'' then None
      else let rest = drop 5 dataURL in case Index rest '';'' of None \<Rightarrow> None
        | Some semiIdx \<Rightarrow> let afterSemi = drop (semiIdx + 1) rest in
            if length afterSemi < 7 \<or> take 7 afterSemi \<noteq> ''base64,'' then None
            else Some (take semiIdx rest, drop 7 afterSemi))"

definition inline_part :: "string \<Rightarrow> string \<Rightarrow> GeminiPart" where
  "inline_part mimeType dat = zero_gpart\<lparr>gp_InlineData := Some \<lparr>gi_MimeType = mimeType, gi_Data = dat\<rparr>\<rparr>"

text \<open>The next image of a Markdown text: what precedes it, its URL, what follows.\<close>

definition next_image :: "string \<Rightarrow> (string \<times> string \<times> string) option" where
  "next_image text = (case Index text ''!['' of None \<Rightarrow> None
     | Some startIdx \<Rightarrow> (case Index (drop startIdx text) ''](data:'' of None \<Rightarrow> None
         | Some b \<Rightarrow> let bracketIdx = b + startIdx in
             (case Index (drop (bracketIdx + 2) text) '')'' of None \<Rightarrow> None
              | Some c \<Rightarrow> let closeIdx = c + bracketIdx + 2 in
                  Some (take startIdx text, take (closeIdx - (bracketIdx + 2)) (drop (bracketIdx + 2) text), drop (closeIdx + 1) text))))"

lemma next_image_shorter: "next_image text = Some (before, url, rest) \<Longrightarrow> length rest < length text"
proof (cases "text = []")
  case True
  assume "next_image text = Some (before, url, rest)"
  moreover have "next_image [] = None" by (simp add: next_image_def)
  ultimately show ?thesis using True by simp
qed (auto simp: next_image_def Let_def split: option.splits)

function markdown_loop :: "string \<Rightarrow> GeminiPart list \<times> string" where
  "markdown_loop text = (case next_image text of None \<Rightarrow> ([], text)
     | Some (before, dataURL, rest) \<Rightarrow>
         let (ps, left) = markdown_loop rest in
         ((if before \<noteq> [] then [zero_gpart\<lparr>gp_Text := before\<rparr>] else []) @
          (case o2gParseDataURL dataURL of None \<Rightarrow> [] | Some (mimeType, dat) \<Rightarrow> [inline_part mimeType dat]) @ ps, left))"
  by pat_completeness auto
termination by (relation "measure length") (auto dest: next_image_shorter)

declare markdown_loop.simps [simp del]

definition o2gParseMarkdownImages :: "string \<Rightarrow> GeminiPart list" where
  "o2gParseMarkdownImages text = (let (parts, left) = markdown_loop text in
     if parts = [] then (if left \<noteq> [] then [zero_gpart\<lparr>gp_Text := left\<rparr>] else [])
     else parts @ (if left \<noteq> [] then [zero_gpart\<lparr>gp_Text := left\<rparr>] else []))"

definition user_gparts :: "(string \<times> json) list \<Rightarrow> GeminiPart list" where
  "user_gparts m =
     (if typed ''text'' m then (case str_at ''text'' m of None \<Rightarrow> [] | Some t \<Rightarrow> if t = [] then [] else o2gParseMarkdownImages t)
      else if typed ''image_url'' m then
        (case Option.bind (Option.bind (obj_at ''image_url'' m) (str_at ''url'')) o2gParseDataURL of None \<Rightarrow> []
         | Some (mimeType, dat) \<Rightarrow> [inline_part mimeType dat])
      else if typed ''input_audio'' m then
        (case obj_at ''input_audio'' m of None \<Rightarrow> []
         | Some audioData \<Rightarrow> (case str_at ''data'' audioData of None \<Rightarrow> []
             | Some dat \<Rightarrow> let fmt = str_or ''format'' audioData in
                 [inline_part (if fmt \<noteq> [] then ''audio/'' @ fmt else ''audio/wav'') dat]))
      else if typed ''file'' m then
        (case obj_at ''file'' m of None \<Rightarrow> []
         | Some fileData \<Rightarrow> (case str_at ''url'' fileData of None \<Rightarrow> []
             | Some url \<Rightarrow> let mt = str_or ''mime_type'' fileData in
                 [zero_gpart\<lparr>gp_FileData := Some \<lparr>gf_MimeType = (if mt \<noteq> [] then mt else ''application/octet-stream''),
                    gf_FileURI = url\<rparr>\<rparr>]))
      else [])"

definition o2gConvertUserParts :: "json \<Rightarrow> GeminiPart list" where
  "o2gConvertUserParts content = (case content of
     JStr v \<Rightarrow> if v = [] then [] else o2gParseMarkdownImages v
   | JArr v \<Rightarrow> concat (map user_gparts (items_of v))
   | _ \<Rightarrow> [])"

text \<open>Arguments that are no JSON object are wrapped; a null leaves a nil map.\<close>

definition call_args :: "conv_env \<Rightarrow> string \<Rightarrow> json" where
  "call_args E args = (if args = [] then JObj [] else case ce_parse E args of
     Some (JObj m) \<Rightarrow> JObj m | Some JNull \<Rightarrow> JNull | _ \<Rightarrow> JObj [(''raw'', JStr args)])"

definition o2gConvertAssistantParts :: "conv_env \<Rightarrow> Message \<Rightarrow> GeminiPart list" where
  "o2gConvertAssistantParts E msg =
     (let text = o2gExtractText (om_Content msg) in
      (if text \<noteq> [] then [zero_gpart\<lparr>gp_Text := text\<rparr>] else []) @
      (case om_ReasoningContent msg of None \<Rightarrow> []
       | Some t \<Rightarrow> if t \<noteq> [] then [zero_gpart\<lparr>gp_Text := t, gp_Thought := Some True\<rparr>] else []) @
      map (\<lambda>tc. zero_gpart\<lparr>gp_FunctionCall := Some \<lparr>gfc_ID = [], gfc_FunctionName = fc_Name (oc_Function tc),
         gfc_Arguments = Some (call_args E (fc_Arguments (oc_Function tc)))\<rparr>\<rparr>) (om_ToolCalls msg))"

definition tool_response :: "conv_env \<Rightarrow> string \<Rightarrow> json" where
  "tool_response E contentStr = (if contentStr = [] then JStr [] else case ce_parse E contentStr of Some p \<Rightarrow> p | None \<Rightarrow> JStr contentStr)"

text \<open>One message: the contents so far, the names of the calls by their ids, the system's parts.\<close>

definition o2g_step :: "conv_env \<Rightarrow> Message \<Rightarrow> GeminiContent list \<times> (string \<rightharpoonup> string) \<times> GeminiPart list
    \<Rightarrow> GeminiContent list \<times> (string \<rightharpoonup> string) \<times> GeminiPart list" where
  "o2g_step E msg = (\<lambda>(contents, ids, system).
     let push = (\<lambda>role parts. if parts = [] then contents else contents @ [\<lparr>gc_Role = role, gc_Parts = parts\<rparr>]) in
     if om_Role msg = ''system'' \<or> om_Role msg = ''developer'' then
       (let text = o2gExtractText (om_Content msg) in
        (contents, ids, if text \<noteq> [] then system @ [zero_gpart\<lparr>gp_Text := text\<rparr>] else system))
     else if om_Role msg = ''user'' then (push ''user'' (o2gConvertUserParts (om_Content msg)), ids, system)
     else if om_Role msg = ''assistant'' then
       (push ''model'' (o2gConvertAssistantParts E msg),
        fold (\<lambda>tc m. m(oc_ID tc \<mapsto> fc_Name (oc_Function tc))) (om_ToolCalls msg) ids, system)
     else if om_Role msg = ''tool'' then
       (let cs = (if contents = [] \<or> gc_Role (last contents) = ''model'' then contents @ [\<lparr>gc_Role = ''user'', gc_Parts = []\<rparr>] else contents);
            name = (if om_Name msg \<noteq> [] then om_Name msg else case ids (om_ToolCallID msg) of None \<Rightarrow> [] | Some n \<Rightarrow> n);
            part = zero_gpart\<lparr>gp_FunctionResponse := Some \<lparr>gfr_ID = [], gfr_Name = name,
              gfr_Response = tool_response E (o2gExtractText (om_Content msg)), gfr_WillContinue = False, gfr_Scheduling = []\<rparr>\<rparr> in
        (butlast cs @ [(last cs)\<lparr>gc_Parts := gc_Parts (last cs) @ [part]\<rparr>], ids, system))
     else (contents, ids, system))"

definition o2gMapSchemaType :: "string \<Rightarrow> string" where
  "o2gMapSchemaType t = (if t = ''string'' then ''STRING'' else if t = ''number'' then ''NUMBER'' else if t = ''integer'' then ''INTEGER''
     else if t = ''boolean'' then ''BOOLEAN'' else if t = ''object'' then ''OBJECT'' else if t = ''array'' then ''ARRAY''
     else if t = ''null'' then ''NULL'' else t)"

fun o2gConvertSchemaMap :: "json \<Rightarrow> json" and schema_fields :: "(string \<times> json) list \<Rightarrow> (string \<times> json) list"
  and schema_props :: "(string \<times> json) list \<Rightarrow> (string \<times> json) list" and schema_items :: "json list \<Rightarrow> json list" where
  "o2gConvertSchemaMap (JObj m) = JObj (schema_fields m)"
| "o2gConvertSchemaMap j = j"
| "schema_fields [] = []"
| "schema_fields ((k, v) # m) =
     (k, if k = ''type'' then (case v of JStr s \<Rightarrow> JStr (o2gMapSchemaType s) | _ \<Rightarrow> v)
         else if k = ''properties'' then (case v of JObj props \<Rightarrow> JObj (schema_props props) | _ \<Rightarrow> v)
         else if k = ''items'' then o2gConvertSchemaMap v
         else if k = ''anyOf'' \<or> k = ''oneOf'' \<or> k = ''allOf'' then (case v of JArr arr \<Rightarrow> JArr (schema_items arr) | _ \<Rightarrow> v)
         else v) # schema_fields m"
| "schema_props [] = []"
| "schema_props ((k, v) # m) = (k, o2gConvertSchemaMap v) # schema_props m"
| "schema_items [] = []"
| "schema_items (v # vs) = o2gConvertSchemaMap v # schema_items vs"

definition o2gConvertResponseSchema :: "json \<Rightarrow> json" where
  "o2gConvertResponseSchema schema = (case schema of
     JObj m \<Rightarrow> (case obj_at ''json_schema'' m of
         Some js \<Rightarrow> (case jlookup ''schema'' js of Some inner \<Rightarrow> o2gConvertSchemaMap inner | None \<Rightarrow> o2gConvertSchemaMap (JObj m))
       | None \<Rightarrow> o2gConvertSchemaMap (JObj m))
   | _ \<Rightarrow> schema)"

definition o2gConvertReasoningEffort :: "string \<Rightarrow> GeminiThinkingConfig" where
  "o2gConvertReasoningEffort effort =
     (let (budget, level) = (if effort = ''low'' then (1024, ''LOW'') else if effort = ''medium'' then (8192, ''MEDIUM'')
          else if effort = ''high'' then (32768, ''HIGH'') else (8192, ''MEDIUM'')) in
      \<lparr>gt_IncludeThoughts = True, gt_ThoughtBudget = Some budget, gt_ThinkingLevel = level\<rparr>)"

definition imageModels :: "string list" where
  "imageModels = [''gemini-2.0-flash-exp-image-generation'', ''gemini-2.0-flash-exp'', ''gemini-3-pro-image-preview'',
     ''gemini-2.5-flash-image'', ''gemini-3.1-flash-image-preview'', ''nano-banana'', ''nano-banana-2-preview'', ''nano-banana-pro-preview'']"

definition isGeminiImageModel :: "string \<Rightarrow> bool" where
  "isGeminiImageModel model \<longleftrightarrow> (\<exists>m \<in> set imageModels. model = m \<or> HasPrefix model (m @ ''-''))"

definition default_safety :: "GeminiSafetySetting list" where
  "default_safety = map (\<lambda>c. \<lparr>gs_Category = c, gs_Threshold = ''BLOCK_ONLY_HIGH''\<rparr>)
     [''HARM_CATEGORY_HARASSMENT'', ''HARM_CATEGORY_HATE_SPEECH'', ''HARM_CATEGORY_SEXUALLY_EXPLICIT'', ''HARM_CATEGORY_DANGEROUS_CONTENT'']"

definition positive :: "int option \<Rightarrow> int option" where
  "positive n = (case n of Some v \<Rightarrow> if v > 0 then Some v else None | None \<Rightarrow> None)"

definition o2g_config :: "RelayInfo \<Rightarrow> GeneralOpenAIRequest \<Rightarrow> GeminiGenerationConfig" where
  "o2g_config info req =
     (let img = isGeminiImageModel (cm_UpstreamModelName (ri_ChannelMeta info)) in
      zero_gconfig\<lparr>gg_Temperature := gr_Temperature req, gg_TopP := gr_TopP req,
        gg_TopK := map_option JNum (positive (gr_TopK req)),
        gg_MaxOutputTokens := positive (case gr_MaxTokens req of Some n \<Rightarrow> Some n | None \<Rightarrow> gr_MaxCompletionTokens req),
        gg_StopSequences := take 5 (o2gParseStopSequences (gr_Stop req)), gg_Seed := gr_Seed req,
        gg_PresencePenalty := gr_PresencePenalty req, gg_FrequencyPenalty := gr_FrequencyPenalty req,
        gg_CandidateCount := positive (gr_N req),
        gg_ResponseLogprobs := (if gr_LogProbs req = Some True then gr_LogProbs req else None),
        gg_Logprobs := positive (gr_TopLogProbs req),
        gg_ThinkingConfig := (if gr_ReasoningEffort req \<noteq> [] then Some (o2gConvertReasoningEffort (gr_ReasoningEffort req)) else None),
        gg_ResponseMimeType := (case gr_ResponseFormat req of None \<Rightarrow> []
          | Some f \<Rightarrow> if rf_Type f \<in> {''json_schema'', ''json_object''} then ''application/json'' else []),
        gg_ResponseSchema := (case gr_ResponseFormat req of None \<Rightarrow> JNull
          | Some f \<Rightarrow> if rf_Type f \<in> {''json_schema'', ''json_object''} then o2gConvertResponseSchema (rf_JSONSchema f) else JNull),
        gg_ResponseModalities := (if img then [''TEXT'', ''IMAGE''] else []),
        gg_ImageConfig := (if img then map_option (\<lambda>c. \<lparr>gic_AspectRatio = ic_AspectRatio c, gic_ImageSize = ic_ImageSize c\<rparr>) (gr_ImageConfig req)
          else None)\<rparr>)"

definition o2g_request :: "conv_env \<Rightarrow> RelayInfo \<Rightarrow> GeneralOpenAIRequest \<Rightarrow> GeminiChatRequest" where
  "o2g_request E info req =
     (let (contents, ids, system) = fold (o2g_step E) (gr_Messages req) ([], Map.empty, []) in
      \<lparr>gq_Contents = contents, gq_SafetySettings = default_safety, gq_GenerationConfig = Some (o2g_config info req),
       gq_Tools = o2gConvertTools (gr_Tools req),
       gq_ToolConfig = (if gr_Tools req = [] then JNull else o2gConvertToolChoice (gr_ToolChoice req)),
       gq_SystemInstruction = (if system = [] then None else Some \<lparr>gc_Role = [], gc_Parts = system\<rparr>),
       gq_CachedContent = [], gq_ServiceTier = gr_ServiceTier req, gq_Store = None\<rparr>)"

definition ConvertOpenAIToGemini :: "conv_env \<Rightarrow> raw \<Rightarrow> RelayInfo \<Rightarrow> go_err + json" where
  "ConvertOpenAIToGemini E body info = (case unmarshal ''parse openai request'' (dec_request E) body of
     Inl e \<Rightarrow> Inl e | Inr req \<Rightarrow> Inr (gemini_request_json (o2g_request E info req)))"

definition ConvertClaudeToGemini :: "conv_env \<Rightarrow> raw \<Rightarrow> RelayInfo \<Rightarrow> go_err + json" where
  "ConvertClaudeToGemini E body info = read_reader ''claude to openai'' (ConvertClaudeToOpenAI E body info)
     (\<lambda>b. ConvertOpenAIToGemini E b info)"

end
