(* ===== verification/ChatRoundtrip.thy ===== *)
theory ChatRoundtrip
  imports ChatTypes
begin

text \<open>
  A request of Chat Completions that is written is read back: every converter that goes through
  OpenAI's format writes the request and reads it again (\<^verbatim>\<open>relay/dto/openai.go\<close>).
\<close>

section \<open>Fields\<close>

definition keys :: "(bool \<times> string \<times> json) list \<Rightarrow> string list" where
  "keys l = map (\<lambda>x. fst (snd x)) l"

lemma keys_simps [simp]: "keys [] = []" "keys (x # l) = fst (snd x) # keys l"
  by (simp_all add: keys_def)

lemma entry_key [simp]: "fst (snd (opt f k a)) = k" "fst (snd (str k v)) = k" "fst (snd (iff_any k j)) = k" "fst (snd (lst g k xs)) = k"
  by (simp_all add: opt_def str_def iff_any_def lst_def)

fun entry_of :: "string \<Rightarrow> (bool \<times> string \<times> json) list \<Rightarrow> (bool \<times> string \<times> json) option" where
  "entry_of k [] = None"
| "entry_of k (x # l) = (if fst (snd x) = k then Some x else entry_of k l)"

lemma field_of_entry: "field_of k l = (case entry_of k l of None \<Rightarrow> None | Some (p, q, v) \<Rightarrow> if p then Some v else None)"
  by (induction l) auto

lemma dec_field_entry:
  "distinct (keys l) \<Longrightarrow> entry_of k l = Some (p, k, v) \<Longrightarrow> dec_field k f z (doc l) = (if p then f v else Some z)"
  by (simp add: dec_field_doc keys_def field_of_entry)

lemma dec_field_plain: "distinct (keys l) \<Longrightarrow> entry_of k l = Some (True, k, v) \<Longrightarrow> dec_field k f z (doc l) = f v"
  by (simp add: dec_field_entry)

lemma dec_field_absent: "distinct (keys l) \<Longrightarrow> entry_of k l = Some (False, k, v) \<Longrightarrow> dec_field k f z (doc l) = Some z"
  using dec_field_entry [of l k False v] by simp

lemma dec_field_opt:
  "distinct (keys l) \<Longrightarrow> entry_of k l = Some (opt g k a) \<Longrightarrow> (\<And>x. a = Some x \<Longrightarrow> g x \<noteq> JNull \<and> f (g x) = Some x) \<Longrightarrow>
     dec_field k (dec_ptr f) None (doc l) = Some a"
  by (cases a) (auto simp: opt_def dec_field_plain dec_field_absent dec_ptr_def)

lemma dec_field_str: "distinct (keys l) \<Longrightarrow> entry_of k l = Some (str k s) \<Longrightarrow> dec_field k dec_string [] (doc l) = Some s"
  by (simp add: str_def dec_field_entry)

lemma dec_field_any: "distinct (keys l) \<Longrightarrow> entry_of k l = Some (iff_any k j) \<Longrightarrow> dec_field k dec_any JNull (doc l) = Some j"
  by (simp add: iff_any_def dec_field_entry dec_any_def)

lemma dec_field_raw: "distinct (keys l) \<Longrightarrow> entry_of k l = Some (opt (\<lambda>j. j) k a) \<Longrightarrow> dec_field k dec_raw None (doc l) = Some a"
  by (cases a) (simp_all add: opt_def dec_field_plain dec_field_absent dec_raw_def)

lemma dec_list_map: "(\<And>x. x \<in> set xs \<Longrightarrow> f (g x) = Some x) \<Longrightarrow> dec_list f (JArr (map g xs)) = Some xs"
  by (induction xs) (auto simp: dec_list_def)

lemma dec_field_lst:
  "distinct (keys l) \<Longrightarrow> entry_of k l = Some (lst g k xs) \<Longrightarrow> (\<And>x. x \<in> set xs \<Longrightarrow> f (g x) = Some x) \<Longrightarrow>
     dec_field k (dec_list f) [] (doc l) = Some xs"
  by (auto simp: lst_def dec_field_entry dec_list_map)

lemmas read = dec_field_plain dec_field_opt dec_field_str dec_field_any dec_field_raw dec_field_lst

section \<open>Parts\<close>

lemma StreamOptions_roundtrip: "dec_StreamOptions (stream_options_json o') = Some o'"
  by (cases o') (auto simp: dec_StreamOptions_def stream_options_json_def dec_field_entry)

lemma ResponseFormat_roundtrip: "dec_ResponseFormat (format_json f) = Some f"
  by (cases f) (simp add: dec_ResponseFormat_def format_json_def read)

lemma ImageConfig_roundtrip: "dec_ImageConfigDTO (image_config_json c) = Some c"
  by (cases c) (simp add: dec_ImageConfigDTO_def image_config_json_def read)

lemma FunctionDef_roundtrip: "dec_FunctionDef (fn_json f) = Some f"
  by (cases f) (simp add: dec_FunctionDef_def fn_json_def read)

lemma Tool_roundtrip: "dec_Tool (tool_json t) = Some t"
  by (cases t) (simp add: dec_Tool_def tool_json_def read FunctionDef_roundtrip)

lemma FunctionCall_roundtrip: "FunctionCall_UnmarshalJSON E (fcall_json f) = Some f"
  by (cases f) (simp add: FunctionCall_UnmarshalJSON_def fcall_json_def doc_def dec_field_def jlookup_Cons)

lemma ToolCall_roundtrip: "is_i64 (oc_Index c) \<Longrightarrow> dec_ToolCall E (call_json c) = Some c"
  by (cases c) (auto simp: dec_ToolCall_def call_json_def dec_field_entry FunctionCall_roundtrip)

definition message_ok :: "Message \<Rightarrow> bool" where
  "message_ok m \<longleftrightarrow> (\<forall>c \<in> set (om_ToolCalls m). is_i64 (oc_Index c))"

lemma dec_field_array:
  "distinct (keys l) \<Longrightarrow> entry_of k l = Some (lst (\<lambda>j. j) k xs) \<Longrightarrow> dec_field k dec_array [] (doc l) = Some xs"
  by (simp add: lst_def dec_field_entry)

lemma Message_roundtrip: "message_ok m \<Longrightarrow> dec_Message E (message_json m) = Some m"
  by (cases m) (simp add: message_ok_def dec_Message_def message_json_def read dec_field_array dec_any_def ToolCall_roundtrip)

section \<open>Requests\<close>

text \<open>Ints are 64 bit wide and a float is a number; nothing else is asked.\<close>

definition request_ok :: "GeneralOpenAIRequest \<Rightarrow> bool" where
  "request_ok r \<longleftrightarrow> (\<forall>m \<in> set (gr_Messages r). message_ok m) \<and>
     (\<forall>n \<in> set_option (gr_MaxTokens r) \<union> set_option (gr_MaxCompletionTokens r) \<union> set_option (gr_TopK r) \<union> set_option (gr_N r) \<union>
        set_option (gr_Seed r) \<union> set_option (gr_TopLogProbs r) \<union> snd ` set (gr_LogitBias r). is_i64 n) \<and>
     (\<forall>j \<in> set_option (gr_Temperature r) \<union> set_option (gr_TopP r) \<union> set_option (gr_PresencePenalty r) \<union>
        set_option (gr_FrequencyPenalty r). dec_float j = Some j)"

lemma request_keys: "distinct (keys (request_fields r))"
  by (simp add: request_fields_def)

lemmas request_read = read [OF request_keys]

lemma dec_map_ints: "(\<And>n. n \<in> snd ` set kns \<Longrightarrow> is_i64 n) \<Longrightarrow> dec_map dec_int (JObj (map (\<lambda>(k, n). (k, JNum n)) kns)) = Some kns"
proof -
  have "(\<And>n. n \<in> snd ` set kns \<Longrightarrow> is_i64 n) \<Longrightarrow>
      dec_all (\<lambda>(k, v). map_option (Pair k) (dec_int v)) (map (\<lambda>(k, n). (k, JNum n)) kns) = Some kns"
    by (induction kns) auto
  then show "(\<And>n. n \<in> snd ` set kns \<Longrightarrow> is_i64 n) \<Longrightarrow> dec_map dec_int (JObj (map (\<lambda>(k, n). (k, JNum n)) kns)) = Some kns"
    by (simp add: dec_map_def)
qed

lemma float_not_null: "dec_float j = Some j \<Longrightarrow> j \<noteq> JNull"
  by auto

lemma request_entries:
  "entry_of ''model'' (request_fields r) = Some (True, ''model'', JStr (gr_Model r))"
  "entry_of ''messages'' (request_fields r) = Some (True, ''messages'', JArr (map message_json (gr_Messages r)))"
  "entry_of ''max_tokens'' (request_fields r) = Some (opt JNum ''max_tokens'' (gr_MaxTokens r))"
  "entry_of ''max_completion_tokens'' (request_fields r) = Some (opt JNum ''max_completion_tokens'' (gr_MaxCompletionTokens r))"
  "entry_of ''temperature'' (request_fields r) = Some (opt (\<lambda>j. j) ''temperature'' (gr_Temperature r))"
  "entry_of ''top_p'' (request_fields r) = Some (opt (\<lambda>j. j) ''top_p'' (gr_TopP r))"
  "entry_of ''top_k'' (request_fields r) = Some (opt JNum ''top_k'' (gr_TopK r))"
  "entry_of ''n'' (request_fields r) = Some (opt JNum ''n'' (gr_N r))"
  "entry_of ''stream'' (request_fields r) = Some (opt JBool ''stream'' (gr_Stream r))"
  "entry_of ''stream_options'' (request_fields r) = Some (opt stream_options_json ''stream_options'' (gr_StreamOptions r))"
  "entry_of ''stop'' (request_fields r) = Some (iff_any ''stop'' (gr_Stop r))"
  "entry_of ''presence_penalty'' (request_fields r) = Some (opt (\<lambda>j. j) ''presence_penalty'' (gr_PresencePenalty r))"
  "entry_of ''frequency_penalty'' (request_fields r) = Some (opt (\<lambda>j. j) ''frequency_penalty'' (gr_FrequencyPenalty r))"
  "entry_of ''user'' (request_fields r) = Some (str ''user'' (gr_User r))"
  "entry_of ''seed'' (request_fields r) = Some (opt JNum ''seed'' (gr_Seed r))"
  "entry_of ''tools'' (request_fields r) = Some (lst tool_json ''tools'' (gr_Tools r))"
  "entry_of ''tool_choice'' (request_fields r) = Some (iff_any ''tool_choice'' (gr_ToolChoice r))"
  "entry_of ''parallel_tool_calls'' (request_fields r) = Some (opt JBool ''parallel_tool_calls'' (gr_ParallelToolCalls r))"
  by (simp_all add: request_fields_def)

lemma request_entries2:
  "entry_of ''response_format'' (request_fields r) = Some (opt format_json ''response_format'' (gr_ResponseFormat r))"
  "entry_of ''logprobs'' (request_fields r) = Some (opt JBool ''logprobs'' (gr_LogProbs r))"
  "entry_of ''top_logprobs'' (request_fields r) = Some (opt JNum ''top_logprobs'' (gr_TopLogProbs r))"
  "entry_of ''reasoning_effort'' (request_fields r) = Some (str ''reasoning_effort'' (gr_ReasoningEffort r))"
  "entry_of ''logit_bias'' (request_fields r) =
    Some (gr_LogitBias r \<noteq> [], ''logit_bias'', JObj (map (\<lambda>(k, n). (k, JNum n)) (gr_LogitBias r)))"
  "entry_of ''service_tier'' (request_fields r) = Some (str ''service_tier'' (gr_ServiceTier r))"
  "entry_of ''modalities'' (request_fields r) = Some (lst JStr ''modalities'' (gr_Modalities r))"
  "entry_of ''audio'' (request_fields r) = Some (opt (\<lambda>j. j) ''audio'' (gr_Audio r))"
  "entry_of ''store'' (request_fields r) = Some (opt JBool ''store'' (gr_Store r))"
  "entry_of ''web_search_options'' (request_fields r) = Some (opt (\<lambda>j. j) ''web_search_options'' (gr_WebSearchOptions r))"
  "entry_of ''prediction'' (request_fields r) = Some (opt (\<lambda>j. j) ''prediction'' (gr_Prediction r))"
  "entry_of ''metadata'' (request_fields r) = Some (opt (\<lambda>j. j) ''metadata'' (gr_Metadata r))"
  "entry_of ''safety_identifier'' (request_fields r) = Some (str ''safety_identifier'' (gr_SafetyIdentifier r))"
  "entry_of ''verbosity'' (request_fields r) = Some (str ''verbosity'' (gr_Verbosity r))"
  "entry_of ''prompt_cache_key'' (request_fields r) = Some (str ''prompt_cache_key'' (gr_PromptCacheKey r))"
  "entry_of ''prompt_cache_retention'' (request_fields r) = Some (str ''prompt_cache_retention'' (gr_PromptCacheRetention r))"
  "entry_of ''image_config'' (request_fields r) = Some (opt image_config_json ''image_config'' (gr_ImageConfig r))"
  by (simp_all add: request_fields_def)

lemma request_roundtrip:
  assumes "request_ok r"
  shows "dec_request E (request_json r) = Some r"
proof -
  have objects: "stream_options_json x \<noteq> JNull" "format_json y \<noteq> JNull" "image_config_json z \<noteq> JNull" for x y z
    by (simp_all add: stream_options_json_def format_json_def image_config_json_def)
  have bias: "dec_field ''logit_bias'' (dec_map dec_int) [] (doc (request_fields r)) = Some (gr_LogitBias r)"
    using dec_field_entry [OF request_keys request_entries2(5), of "dec_map dec_int" "[]"] dec_map_ints [of "gr_LogitBias r"] assms
    by (auto simp: request_ok_def)
  show ?thesis
    using assms
    by (simp add: dec_request_def request_json_def request_read request_entries request_entries2 bias request_ok_def
        float_not_null dec_list_map Message_roundtrip Tool_roundtrip StreamOptions_roundtrip
        ResponseFormat_roundtrip ImageConfig_roundtrip objects)
qed

end
