(* ===== verification/ResponseTypes.thy ===== *)
theory ResponseTypes
  imports ClaudeTypes
begin

text \<open>
  The answers of OpenAI's Chat Completions and of Claude's Messages, whole and streamed
  (\<^verbatim>\<open>relay/dto/openai.go\<close>, \<^verbatim>\<open>claude.go\<close>).
\<close>

section \<open>OpenAI\<close>

record Choice =
  cho_Index :: int
  cho_Message :: Message
  cho_FinishReason :: string
  cho_LogProbs :: json

record ChatCompletionResponse =
  ccr_ID :: string
  ccr_Object :: string
  ccr_Created :: int
  ccr_Model :: string
  ccr_SystemFingerprint :: "string option"
  ccr_Choices :: "Choice list"
  ccr_Usage :: UsageWithDetails
  ccr_ServiceTier :: "string option"

record StreamChoice =
  sch_Index :: int
  sch_Delta :: Message
  sch_FinishReason :: "string option"
  sch_LogProbs :: json

record ChatCompletionStreamResponse =
  csr_ID :: string
  csr_Object :: string
  csr_Created :: int
  csr_Model :: string
  csr_SystemFingerprint :: "string option"
  csr_Choices :: "StreamChoice list"
  csr_Usage :: "UsageWithDetails option"

definition zero_usage :: UsageWithDetails where
  "zero_usage = \<lparr>uw_PromptTokens = 0, uw_CompletionTokens = 0, uw_TotalTokens = 0, uw_PromptTokensDetails = None,
     uw_CompletionTokenDetails = None\<rparr>"

definition dec_Choice :: "conv_env \<Rightarrow> json \<Rightarrow> Choice option" where
  "dec_Choice E j = do { m \<leftarrow> dec_object j; i \<leftarrow> dec_field ''index'' dec_int 0 m;
     msg \<leftarrow> dec_field ''message'' (dec_Message E) zero_Message m; f \<leftarrow> dec_field ''finish_reason'' dec_string [] m;
     l \<leftarrow> dec_field ''logprobs'' dec_any JNull m;
     Some \<lparr>cho_Index = i, cho_Message = msg, cho_FinishReason = f, cho_LogProbs = l\<rparr> }"

definition dec_ChatCompletionResponse :: "conv_env \<Rightarrow> json \<Rightarrow> ChatCompletionResponse option" where
  "dec_ChatCompletionResponse E j = do { m \<leftarrow> dec_object j; i \<leftarrow> dec_field ''id'' dec_string [] m; ob \<leftarrow> dec_field ''object'' dec_string [] m;
     cr \<leftarrow> dec_field ''created'' dec_int 0 m; mo \<leftarrow> dec_field ''model'' dec_string [] m;
     fp \<leftarrow> dec_field ''system_fingerprint'' (dec_ptr dec_string) None m; cs \<leftarrow> dec_field ''choices'' (dec_list (dec_Choice E)) [] m;
     u \<leftarrow> dec_field ''usage'' usage_details_of_json zero_usage m; st \<leftarrow> dec_field ''service_tier'' (dec_ptr dec_string) None m;
     Some \<lparr>ccr_ID = i, ccr_Object = ob, ccr_Created = cr, ccr_Model = mo, ccr_SystemFingerprint = fp, ccr_Choices = cs,
       ccr_Usage = u, ccr_ServiceTier = st\<rparr> }"

definition dec_StreamChoice :: "conv_env \<Rightarrow> json \<Rightarrow> StreamChoice option" where
  "dec_StreamChoice E j = do { m \<leftarrow> dec_object j; i \<leftarrow> dec_field ''index'' dec_int 0 m;
     d \<leftarrow> dec_field ''delta'' (dec_Message E) zero_Message m; f \<leftarrow> dec_field ''finish_reason'' (dec_ptr dec_string) None m;
     l \<leftarrow> dec_field ''logprobs'' dec_any JNull m;
     Some \<lparr>sch_Index = i, sch_Delta = d, sch_FinishReason = f, sch_LogProbs = l\<rparr> }"

definition dec_ChatCompletionStreamResponse :: "conv_env \<Rightarrow> json \<Rightarrow> ChatCompletionStreamResponse option" where
  "dec_ChatCompletionStreamResponse E j = do { m \<leftarrow> dec_object j; i \<leftarrow> dec_field ''id'' dec_string [] m;
     ob \<leftarrow> dec_field ''object'' dec_string [] m; cr \<leftarrow> dec_field ''created'' dec_int 0 m; mo \<leftarrow> dec_field ''model'' dec_string [] m;
     fp \<leftarrow> dec_field ''system_fingerprint'' (dec_ptr dec_string) None m;
     cs \<leftarrow> dec_field ''choices'' (dec_list (dec_StreamChoice E)) [] m;
     u \<leftarrow> dec_field ''usage'' (dec_ptr usage_details_of_json) None m;
     Some \<lparr>csr_ID = i, csr_Object = ob, csr_Created = cr, csr_Model = mo, csr_SystemFingerprint = fp, csr_Choices = cs, csr_Usage = u\<rparr> }"

definition usage_details_json :: "UsageWithDetails \<Rightarrow> json" where
  "usage_details_json u = JObj (doc [(True, ''prompt_tokens'', JNum (uw_PromptTokens u)),
     (True, ''completion_tokens'', JNum (uw_CompletionTokens u)), (True, ''total_tokens'', JNum (uw_TotalTokens u)),
     opt details_to_json ''prompt_tokens_details'' (uw_PromptTokensDetails u),
     opt details_to_json ''completion_tokens_details'' (uw_CompletionTokenDetails u)])"

definition choice_json :: "Choice \<Rightarrow> json" where
  "choice_json c = JObj (doc [(True, ''index'', JNum (cho_Index c)), (True, ''message'', message_json (cho_Message c)),
     (True, ''finish_reason'', JStr (cho_FinishReason c)), iff_any ''logprobs'' (cho_LogProbs c)])"

definition chat_response_json :: "ChatCompletionResponse \<Rightarrow> json" where
  "chat_response_json r = JObj (doc [(True, ''id'', JStr (ccr_ID r)), (True, ''object'', JStr (ccr_Object r)),
     (True, ''created'', JNum (ccr_Created r)), (True, ''model'', JStr (ccr_Model r)),
     opt JStr ''system_fingerprint'' (ccr_SystemFingerprint r), (True, ''choices'', JArr (map choice_json (ccr_Choices r))),
     (True, ''usage'', usage_details_json (ccr_Usage r)), opt JStr ''service_tier'' (ccr_ServiceTier r)])"

definition stream_choice_json :: "StreamChoice \<Rightarrow> json" where
  "stream_choice_json c = JObj (doc [(True, ''index'', JNum (sch_Index c)), (True, ''delta'', message_json (sch_Delta c)),
     (True, ''finish_reason'', opt_json JStr (sch_FinishReason c)), iff_any ''logprobs'' (sch_LogProbs c)])"

definition chunk_json :: "ChatCompletionStreamResponse \<Rightarrow> json" where
  "chunk_json r = JObj (doc [(True, ''id'', JStr (csr_ID r)), (True, ''object'', JStr (csr_Object r)),
     (True, ''created'', JNum (csr_Created r)), (True, ''model'', JStr (csr_Model r)),
     opt JStr ''system_fingerprint'' (csr_SystemFingerprint r), (True, ''choices'', JArr (map stream_choice_json (csr_Choices r))),
     (True, ''usage'', opt_json usage_details_json (csr_Usage r))])"

section \<open>Claude\<close>

record ClaudeCacheUsage =
  ccu_Ephemeral5mInputTokens :: int
  ccu_Ephemeral1hInputTokens :: int

record ClaudeUsage =
  cu_InputTokens :: int
  cu_OutputTokens :: int
  cu_CacheCreationInputTokens :: int
  cu_CacheReadInputTokens :: int
  cu_CacheCreation :: "ClaudeCacheUsage option"
  cu_ServerToolUse :: "int option"
  cu_ServiceTier :: string

record ClaudeDelta =
  cd_Type :: string
  cd_Text :: "string option"
  cd_PartialJSON :: "string option"
  cd_StopReason :: "string option"
  cd_StopSequence :: "string option"
  cd_Thinking :: "string option"
  cd_Signature :: string

record ClaudeMessageInfo =
  cmi_ID :: string
  cmi_Type :: string
  cmi_Role :: string
  cmi_Content :: "ClaudeContentBlock list"
  cmi_Model :: string
  cmi_StopReason :: "string option"
  cmi_StopSequence :: "string option"
  cmi_Usage :: "ClaudeUsage option"

record ClaudeResponse =
  cre_ID :: string
  cre_Type :: string
  cre_Role :: string
  cre_Content :: "ClaudeContentBlock list"
  cre_StopReason :: string
  cre_StopSequence :: "string option"
  cre_Model :: string
  cre_Usage :: "ClaudeUsage option"
  cre_Index :: "int option"
  cre_ContentBlock :: "ClaudeContentBlock option"
  cre_Delta :: "ClaudeDelta option"
  cre_Message :: "ClaudeMessageInfo option"
  cre_Error :: json
  cre_Container :: json

definition zero_cusage :: ClaudeUsage where
  "zero_cusage = \<lparr>cu_InputTokens = 0, cu_OutputTokens = 0, cu_CacheCreationInputTokens = 0, cu_CacheReadInputTokens = 0,
     cu_CacheCreation = None, cu_ServerToolUse = None, cu_ServiceTier = []\<rparr>"

definition zero_delta :: ClaudeDelta where
  "zero_delta = \<lparr>cd_Type = [], cd_Text = None, cd_PartialJSON = None, cd_StopReason = None, cd_StopSequence = None,
     cd_Thinking = None, cd_Signature = []\<rparr>"

definition claude_event :: "string \<Rightarrow> ClaudeResponse" where
  "claude_event t = \<lparr>cre_ID = [], cre_Type = t, cre_Role = [], cre_Content = [], cre_StopReason = [], cre_StopSequence = None,
     cre_Model = [], cre_Usage = None, cre_Index = None, cre_ContentBlock = None, cre_Delta = None, cre_Message = None,
     cre_Error = JNull, cre_Container = JNull\<rparr>"

definition cusage_json :: "ClaudeUsage \<Rightarrow> json" where
  "cusage_json u = JObj (doc [(True, ''input_tokens'', JNum (cu_InputTokens u)), (True, ''output_tokens'', JNum (cu_OutputTokens u)),
     (True, ''cache_creation_input_tokens'', JNum (cu_CacheCreationInputTokens u)),
     (True, ''cache_read_input_tokens'', JNum (cu_CacheReadInputTokens u)),
     opt (\<lambda>c. JObj (doc [(ccu_Ephemeral5mInputTokens c \<noteq> 0, ''ephemeral_5m_input_tokens'', JNum (ccu_Ephemeral5mInputTokens c)),
       (ccu_Ephemeral1hInputTokens c \<noteq> 0, ''ephemeral_1h_input_tokens'', JNum (ccu_Ephemeral1hInputTokens c))]))
       ''cache_creation'' (cu_CacheCreation u),
     opt (\<lambda>n. JObj (doc [(n \<noteq> 0, ''web_search_requests'', JNum n)])) ''server_tool_use'' (cu_ServerToolUse u),
     str ''service_tier'' (cu_ServiceTier u)])"

definition delta_json :: "ClaudeDelta \<Rightarrow> json" where
  "delta_json d = JObj (doc [str ''type'' (cd_Type d), opt JStr ''text'' (cd_Text d), opt JStr ''partial_json'' (cd_PartialJSON d),
     opt JStr ''stop_reason'' (cd_StopReason d), opt JStr ''stop_sequence'' (cd_StopSequence d),
     opt JStr ''thinking'' (cd_Thinking d), str ''signature'' (cd_Signature d)])"

definition message_info_json :: "ClaudeMessageInfo \<Rightarrow> json" where
  "message_info_json m = JObj [(''id'', JStr (cmi_ID m)), (''type'', JStr (cmi_Type m)), (''role'', JStr (cmi_Role m)),
     (''content'', JArr (map block_json (cmi_Content m))), (''model'', JStr (cmi_Model m)),
     (''stop_reason'', opt_json JStr (cmi_StopReason m)), (''stop_sequence'', opt_json JStr (cmi_StopSequence m)),
     (''usage'', opt_json cusage_json (cmi_Usage m))]"

definition claude_response_json :: "ClaudeResponse \<Rightarrow> json" where
  "claude_response_json r = JObj (doc [str ''id'' (cre_ID r), (True, ''type'', JStr (cre_Type r)), str ''role'' (cre_Role r),
     lst block_json ''content'' (cre_Content r), str ''stop_reason'' (cre_StopReason r), opt JStr ''stop_sequence'' (cre_StopSequence r),
     str ''model'' (cre_Model r), opt cusage_json ''usage'' (cre_Usage r), opt JNum ''index'' (cre_Index r),
     opt block_json ''content_block'' (cre_ContentBlock r), opt delta_json ''delta'' (cre_Delta r),
     opt message_info_json ''message'' (cre_Message r), iff_any ''error'' (cre_Error r), iff_any ''container'' (cre_Container r)])"

section \<open>Claude, read\<close>

definition dec_ClaudeSource :: "json \<Rightarrow> ClaudeSource option" where
  "dec_ClaudeSource j = do { m \<leftarrow> dec_object j; t \<leftarrow> dec_field ''type'' dec_string [] m; mt \<leftarrow> dec_field ''media_type'' dec_string [] m;
     d \<leftarrow> dec_field ''data'' dec_string [] m; u \<leftarrow> dec_field ''url'' dec_string [] m;
     Some \<lparr>cs_Type = t, cs_MediaType = mt, cs_Data = d, cs_URL = u\<rparr> }"

definition dec_block :: "json \<Rightarrow> ClaudeContentBlock option" where
  "dec_block j = do { m \<leftarrow> dec_object j; t \<leftarrow> dec_field ''type'' dec_string [] m; tx \<leftarrow> dec_field ''text'' (dec_ptr dec_string) None m;
     th \<leftarrow> dec_field ''thinking'' (dec_ptr dec_string) None m; sg \<leftarrow> dec_field ''signature'' dec_string [] m;
     i \<leftarrow> dec_field ''id'' dec_string [] m; n \<leftarrow> dec_field ''name'' dec_string [] m; inp \<leftarrow> dec_field ''input'' dec_any JNull m;
     tu \<leftarrow> dec_field ''tool_use_id'' dec_string [] m; c \<leftarrow> dec_field ''content'' dec_any JNull m;
     e \<leftarrow> dec_field ''is_error'' (dec_ptr dec_bool) None m; s \<leftarrow> dec_field ''source'' (dec_ptr dec_ClaudeSource) None m;
     cc \<leftarrow> dec_field ''cache_control'' (dec_ptr dec_cache) None m;
     Some \<lparr>cb_Type = t, cb_Text = tx, cb_Thinking = th, cb_Signature = sg, cb_ID = i, cb_Name = n, cb_Input = inp, cb_ToolUseID = tu,
       cb_Content = c, cb_IsError = e, cb_Source = s, cb_CacheControl = cc\<rparr> }"

definition dec_ClaudeUsage :: "json \<Rightarrow> ClaudeUsage option" where
  "dec_ClaudeUsage j = do { m \<leftarrow> dec_object j; i \<leftarrow> dec_field ''input_tokens'' dec_int 0 m; ou \<leftarrow> dec_field ''output_tokens'' dec_int 0 m;
     cc \<leftarrow> dec_field ''cache_creation_input_tokens'' dec_int 0 m; cr \<leftarrow> dec_field ''cache_read_input_tokens'' dec_int 0 m;
     k \<leftarrow> dec_field ''cache_creation'' (dec_ptr (\<lambda>j. do { m \<leftarrow> dec_object j; a \<leftarrow> dec_field ''ephemeral_5m_input_tokens'' dec_int 0 m;
       b \<leftarrow> dec_field ''ephemeral_1h_input_tokens'' dec_int 0 m;
       Some \<lparr>ccu_Ephemeral5mInputTokens = a, ccu_Ephemeral1hInputTokens = b\<rparr> })) None m;
     su \<leftarrow> dec_field ''server_tool_use'' (dec_ptr (\<lambda>j. Option.bind (dec_object j) (dec_field ''web_search_requests'' dec_int 0))) None m;
     t \<leftarrow> dec_field ''service_tier'' dec_string [] m;
     Some \<lparr>cu_InputTokens = i, cu_OutputTokens = ou, cu_CacheCreationInputTokens = cc, cu_CacheReadInputTokens = cr,
       cu_CacheCreation = k, cu_ServerToolUse = su, cu_ServiceTier = t\<rparr> }"

definition dec_ClaudeDelta :: "json \<Rightarrow> ClaudeDelta option" where
  "dec_ClaudeDelta j = do { m \<leftarrow> dec_object j; t \<leftarrow> dec_field ''type'' dec_string [] m; tx \<leftarrow> dec_field ''text'' (dec_ptr dec_string) None m;
     pj \<leftarrow> dec_field ''partial_json'' (dec_ptr dec_string) None m; sr \<leftarrow> dec_field ''stop_reason'' (dec_ptr dec_string) None m;
     ss \<leftarrow> dec_field ''stop_sequence'' (dec_ptr dec_string) None m; th \<leftarrow> dec_field ''thinking'' (dec_ptr dec_string) None m;
     sg \<leftarrow> dec_field ''signature'' dec_string [] m;
     Some \<lparr>cd_Type = t, cd_Text = tx, cd_PartialJSON = pj, cd_StopReason = sr, cd_StopSequence = ss, cd_Thinking = th, cd_Signature = sg\<rparr> }"

definition dec_ClaudeMessageInfo :: "json \<Rightarrow> ClaudeMessageInfo option" where
  "dec_ClaudeMessageInfo j = do { m \<leftarrow> dec_object j; i \<leftarrow> dec_field ''id'' dec_string [] m; t \<leftarrow> dec_field ''type'' dec_string [] m;
     ro \<leftarrow> dec_field ''role'' dec_string [] m; c \<leftarrow> dec_field ''content'' (dec_list dec_block) [] m; mo \<leftarrow> dec_field ''model'' dec_string [] m;
     sr \<leftarrow> dec_field ''stop_reason'' (dec_ptr dec_string) None m; ss \<leftarrow> dec_field ''stop_sequence'' (dec_ptr dec_string) None m;
     u \<leftarrow> dec_field ''usage'' (dec_ptr dec_ClaudeUsage) None m;
     Some \<lparr>cmi_ID = i, cmi_Type = t, cmi_Role = ro, cmi_Content = c, cmi_Model = mo, cmi_StopReason = sr, cmi_StopSequence = ss,
       cmi_Usage = u\<rparr> }"

definition dec_ClaudeResponse :: "json \<Rightarrow> ClaudeResponse option" where
  "dec_ClaudeResponse j = do { m \<leftarrow> dec_object j; i \<leftarrow> dec_field ''id'' dec_string [] m; t \<leftarrow> dec_field ''type'' dec_string [] m;
     ro \<leftarrow> dec_field ''role'' dec_string [] m; c \<leftarrow> dec_field ''content'' (dec_list dec_block) [] m;
     sr \<leftarrow> dec_field ''stop_reason'' dec_string [] m; ss \<leftarrow> dec_field ''stop_sequence'' (dec_ptr dec_string) None m;
     mo \<leftarrow> dec_field ''model'' dec_string [] m; u \<leftarrow> dec_field ''usage'' (dec_ptr dec_ClaudeUsage) None m;
     ix \<leftarrow> dec_field ''index'' (dec_ptr dec_int) None m; cb \<leftarrow> dec_field ''content_block'' (dec_ptr dec_block) None m;
     d \<leftarrow> dec_field ''delta'' (dec_ptr dec_ClaudeDelta) None m; mi \<leftarrow> dec_field ''message'' (dec_ptr dec_ClaudeMessageInfo) None m;
     e \<leftarrow> dec_field ''error'' dec_any JNull m; co \<leftarrow> dec_field ''container'' dec_any JNull m;
     Some \<lparr>cre_ID = i, cre_Type = t, cre_Role = ro, cre_Content = c, cre_StopReason = sr, cre_StopSequence = ss, cre_Model = mo,
       cre_Usage = u, cre_Index = ix, cre_ContentBlock = cb, cre_Delta = d, cre_Message = mi, cre_Error = e, cre_Container = co\<rparr> }"

end
