(* ===== verification/ClaudeStream.thy ===== *)
theory ClaudeStream
  imports ResponseTypes ClaudeConv
begin

text \<open>
  Answers between OpenAI's Chat Completions and Claude's Messages, whole and streamed:
  \<^verbatim>\<open>relay/channel/openai/claude_response.go\<close> (a Claude client of an OpenAI channel) and
  \<^verbatim>\<open>relay/channel/claude/response.go\<close> (an OpenAI client, or a Claude client, of a Claude
  channel).  A body is its text and \<open>ce_parse\<close> reads it.  Of the answer to the client the status and
  the document, or the list of events, are kept.  A line of a stream comes with what the code asks at
  that moment: whether the client is gone, and the time.
\<close>

section \<open>From OpenAI to Claude, whole\<close>

text \<open>The documents written, the usage and the error returned; \<open>None\<close> is a panic.\<close>

type_synonym answered = "(int \<times> json) list \<times> Usage option \<times> go_err option"

definition call_block :: "conv_env \<Rightarrow> ToolCall \<Rightarrow> ClaudeContentBlock" where
  "call_block E tc = (block ''tool_use'')\<lparr>cb_ID := oc_ID tc, cb_Name := fc_Name (oc_Function tc),
     cb_Input := (case ce_parse E (fc_Arguments (oc_Function tc)) of None \<Rightarrow> JObj [] | Some j \<Rightarrow> j)\<rparr>"

definition thinking_block :: "string \<Rightarrow> ClaudeContentBlock" where
  "thinking_block t = (block ''thinking'')\<lparr>cb_Thinking := Some t\<rparr>"

definition answer_blocks :: "conv_env \<Rightarrow> Message \<Rightarrow> ClaudeContentBlock list" where
  "answer_blocks E m =
     (case om_ReasoningContent m of None \<Rightarrow> [] | Some t \<Rightarrow> if t \<noteq> [] then [thinking_block t] else []) @
     (case om_Content m of JStr t \<Rightarrow> if t \<noteq> [] then [text_block t] else [] | _ \<Rightarrow> []) @
     map (call_block E) (om_ToolCalls m)"

text \<open>The cached tokens are read through a pointer that is nil when the upstream gives no details.\<close>

definition openAIToClaudeResponse :: "conv_env \<Rightarrow> ChatCompletionResponse \<Rightarrow> RelayInfo \<Rightarrow> ClaudeResponse option" where
  "openAIToClaudeResponse E r info =
     (case uw_PromptTokensDetails (ccr_Usage r) of None \<Rightarrow> None
      | Some d \<Rightarrow>
          let content = (case ccr_Choices r of [] \<Rightarrow> [] | c # cs \<Rightarrow> answer_blocks E (cho_Message c)) in
          Some ((claude_event ''message'')\<lparr>cre_ID := ''msg_'' @ ri_RequestID info, cre_Role := ''assistant'',
            cre_Content := (if content = [] then [text_block []] else content),
            cre_StopReason := (case ccr_Choices r of [] \<Rightarrow> ''end_turn'' | c # cs \<Rightarrow> OpenAIFinishReasonToClaude (cho_FinishReason c)),
            cre_Model := (if cm_IsModelMapped (ri_ChannelMeta info) then ri_OriginModelName info else ccr_Model r),
            cre_Usage := Some (zero_cusage\<lparr>cu_InputTokens := uw_PromptTokens (ccr_Usage r),
              cu_OutputTokens := uw_CompletionTokens (ccr_Usage r), cu_CacheReadInputTokens := td_CachedTokens d\<rparr>)\<rparr>))"

definition api_error :: "string \<Rightarrow> json" where
  "api_error body = JObj [(''error'', JObj [(''message'', JStr body), (''type'', JStr ''api_error'')]), (''type'', JStr ''error'')]"

definition handleClaudeInboundNonStream ::
  "conv_env \<Rightarrow> int \<Rightarrow> go_err + string \<Rightarrow> RelayInfo \<Rightarrow> answered option" where
  "handleClaudeInboundNonStream E status read' info = (case read' of
     Inl e \<Rightarrow> Some ([], None, Some (ErrWrap e ''read response body failed''))
   | Inr body \<Rightarrow>
       if status \<noteq> 200 then Some ([(status, api_error body)], Some zero_Usage, Some (NewUpstreamError status body None))
       else (case Option.bind (ce_parse E body) (dec_ChatCompletionResponse E) of
         None \<Rightarrow> Some ([], None, Some (ErrWrap (ErrExt ''json: cannot unmarshal'') ''invalid response body''))
       | Some r \<Rightarrow> (case openAIToClaudeResponse E r info of None \<Rightarrow> None
           | Some c \<Rightarrow>
               let u = ccr_Usage r;
                   usage = (if ccr_Choices r = [] then zero_Usage
                     else zero_Usage\<lparr>us_PromptTokens := uw_PromptTokens u, us_CompletionTokens := uw_CompletionTokens u,
                       us_TotalTokens := uw_TotalTokens u, us_PromptTokensDetails := uw_PromptTokensDetails u,
                       us_CompletionTokenDetails := uw_CompletionTokenDetails u\<rparr>) in
               Some ([(200, claude_response_json c)], Some (usage\<lparr>us_CacheIncludedInPrompt := True\<rparr>), None))))"

section \<open>From OpenAI to Claude, streamed\<close>

record claude_stream =
  st_events :: "ClaudeResponse list"
  st_info :: RelayInfo
  st_startSent :: bool
  st_finishReason :: string
  st_contentIndex :: int
  st_inputTokens :: int
  st_outputTokens :: int
  st_blockType :: string

definition emit :: "ClaudeResponse \<Rightarrow> claude_stream \<Rightarrow> claude_stream" where
  "emit ev st = st\<lparr>st_events := st_events st @ [ev]\<rparr>"

definition block_stop :: "int \<Rightarrow> ClaudeResponse" where
  "block_stop i = (claude_event ''content_block_stop'')\<lparr>cre_Index := Some i\<rparr>"

definition block_start :: "int \<Rightarrow> ClaudeContentBlock \<Rightarrow> ClaudeResponse" where
  "block_start i b = (claude_event ''content_block_start'')\<lparr>cre_Index := Some i, cre_ContentBlock := Some b\<rparr>"

definition block_delta :: "int \<Rightarrow> ClaudeDelta \<Rightarrow> ClaudeResponse" where
  "block_delta i d = (claude_event ''content_block_delta'')\<lparr>cre_Index := Some i, cre_Delta := Some d\<rparr>"

definition close_block :: "claude_stream \<Rightarrow> claude_stream" where
  "close_block st = (if st_blockType st = [] then st
     else (emit (block_stop (st_contentIndex st)) st)\<lparr>st_contentIndex := st_contentIndex st + 1\<rparr>)"

definition open_block :: "string \<Rightarrow> ClaudeContentBlock \<Rightarrow> claude_stream \<Rightarrow> claude_stream" where
  "open_block t b st = (emit (block_start (st_contentIndex st) b) st)\<lparr>st_blockType := t\<rparr>"

text \<open>Into a block of type \<open>t\<close>, unless the open one has that type.\<close>

definition switch_block :: "string \<Rightarrow> ClaudeContentBlock \<Rightarrow> claude_stream \<Rightarrow> claude_stream" where
  "switch_block t b st = (if st_blockType st = t then st else open_block t b (close_block st))"

definition text_step :: "json \<Rightarrow> claude_stream \<Rightarrow> claude_stream" where
  "text_step content st = (case content of
     JStr text \<Rightarrow> if text = [] then st
       else (let st1 = switch_block ''text'' (text_block []) st in
         emit (block_delta (st_contentIndex st1) (zero_delta\<lparr>cd_Type := ''text_delta'', cd_Text := Some text\<rparr>)) st1)
   | _ \<Rightarrow> st)"

definition reasoning_step :: "string option \<Rightarrow> claude_stream \<Rightarrow> claude_stream" where
  "reasoning_step r st = (case r of None \<Rightarrow> st
     | Some t \<Rightarrow> if t = [] then st
         else (let st1 = switch_block ''thinking'' (thinking_block []) st in
           emit (block_delta (st_contentIndex st1) (zero_delta\<lparr>cd_Type := ''thinking_delta'', cd_Thinking := Some t\<rparr>)) st1))"

definition call_step :: "ToolCall \<Rightarrow> claude_stream \<Rightarrow> claude_stream" where
  "call_step tc st =
     (let f = oc_Function tc;
          st1 = (if fc_Name f \<noteq> [] then open_block ''tool_use'' ((block ''tool_use'')\<lparr>cb_ID := oc_ID tc, cb_Name := fc_Name f,
                   cb_Input := JObj []\<rparr>) (close_block st) else st) in
      if fc_Arguments f \<noteq> []
      then emit (block_delta (st_contentIndex st1) (zero_delta\<lparr>cd_Type := ''input_json_delta'', cd_PartialJSON := Some (fc_Arguments f)\<rparr>)) st1
      else st1)"

definition choice_step :: "StreamChoice \<Rightarrow> claude_stream \<Rightarrow> claude_stream" where
  "choice_step c st =
     (let d = sch_Delta c;
          st1 = fold call_step (om_ToolCalls d) (reasoning_step (om_ReasoningContent d) (text_step (om_Content d) st)) in
      case sch_FinishReason c of None \<Rightarrow> st1 | Some r \<Rightarrow> st1\<lparr>st_finishReason := r\<rparr>)"

definition start_message :: "claude_stream \<Rightarrow> ClaudeResponse" where
  "start_message st = (let info = st_info st in (claude_event ''message_start'')\<lparr>cre_Message := Some
     \<lparr>cmi_ID = ''msg_'' @ ri_RequestID info, cmi_Type = ''message'', cmi_Role = ''assistant'', cmi_Content = [],
      cmi_Model = (if cm_IsModelMapped (ri_ChannelMeta info) then cm_UpstreamModelName (ri_ChannelMeta info) else ri_OriginModelName info),
      cmi_StopReason = None, cmi_StopSequence = None,
      cmi_Usage = Some (zero_cusage\<lparr>cu_InputTokens := st_inputTokens st\<rparr>)\<rparr>\<rparr>)"

definition chunk_step :: "ChatCompletionStreamResponse \<Rightarrow> claude_stream \<Rightarrow> claude_stream" where
  "chunk_step r st =
     (let st1 = (case csr_Usage r of None \<Rightarrow> st
            | Some u \<Rightarrow> st\<lparr>st_inputTokens := uw_PromptTokens u, st_outputTokens := uw_CompletionTokens u\<rparr>);
          st2 = (if st_startSent st1 then st1 else (emit (start_message st1) st1)\<lparr>st_startSent := True\<rparr>) in
      fold choice_step (csr_Choices r) st2)"

definition end_status :: "StreamEndReason \<Rightarrow> go_err option \<Rightarrow> claude_stream \<Rightarrow> claude_stream" where
  "end_status reason e st = st\<lparr>st_info := (st_info st)\<lparr>ri_StreamStatus := SetEndReason reason e (ri_StreamStatus (st_info st))\<rparr>\<rparr>"

definition done_step :: "claude_stream \<Rightarrow> claude_stream" where
  "done_step st =
     (let st1 = (close_block st)\<lparr>st_blockType := []\<rparr>;
          st2 = emit ((claude_event ''message_delta'')\<lparr>
            cre_Delta := Some (zero_delta\<lparr>cd_StopReason := Some (OpenAIFinishReasonToClaude (st_finishReason st1))\<rparr>),
            cre_Usage := Some (zero_cusage\<lparr>cu_OutputTokens := st_outputTokens st1\<rparr>)\<rparr>) st1 in
      end_status StreamEndReasonDone None (emit (claude_event ''message_stop'') st2))"

text \<open>The data of a line that is not skipped.\<close>

definition line_data :: "string \<Rightarrow> string option" where
  "line_data line = (if line = [] \<or> HasPrefix line ''event:'' \<or> \<not> HasPrefix line ''data:'' then None
     else Some (case ExtractSSEData line of None \<Rightarrow> [] | Some d \<Rightarrow> d))"

definition data_step :: "conv_env \<Rightarrow> int \<Rightarrow> string \<Rightarrow> claude_stream \<Rightarrow> claude_stream" where
  "data_step E now dat st =
     (let st1 = (if dat \<noteq> [] then st\<lparr>st_info := SetFirstResponseTime now (st_info st)\<rparr> else st) in
      case Option.bind (ce_parse E dat) (dec_ChatCompletionStreamResponse E) of None \<Rightarrow> st1 | Some r \<Rightarrow> chunk_step r st1)"

datatype loop_end = ClientGone | Ran

fun stream_loop :: "conv_env \<Rightarrow> (bool \<times> int \<times> string) list \<Rightarrow> claude_stream \<Rightarrow> claude_stream \<times> loop_end" where
  "stream_loop E [] st = (st, Ran)"
| "stream_loop E ((gone, now, line) # lines) st =
     (if gone then (end_status StreamEndReasonClientGone (Some (ErrExt ''context canceled'')) st, ClientGone)
      else case line_data line of None \<Rightarrow> stream_loop E lines st
        | Some dat \<Rightarrow> if dat = ''[DONE]'' then (done_step st, Ran) else stream_loop E lines (data_step E now dat st))"

definition abrupt_end :: "claude_stream \<Rightarrow> claude_stream" where
  "abrupt_end st =
     (let st1 = (if st_blockType st \<noteq> [] then emit (block_stop (st_contentIndex st)) st else st) in
      end_status StreamEndReasonDone None (emit (claude_event ''message_stop'') st1))"

definition new_stream :: "RelayInfo \<Rightarrow> claude_stream" where
  "new_stream info = \<lparr>st_events = [], st_info = info, st_startSent = False, st_finishReason = [], st_contentIndex = 0,
     st_inputTokens = 0, st_outputTokens = 0, st_blockType = []\<rparr>"

definition ErrStreamInterrupted :: go_err where
  "ErrStreamInterrupted = ErrNew ''stream interrupted by client disconnect''"

text \<open>\<open>scan\<close> is the error of the scanner, if it counts.  The usage is filled in only at the end.\<close>

definition handleClaudeInboundStream ::
  "conv_env \<Rightarrow> int \<Rightarrow> string \<Rightarrow> (bool \<times> int \<times> string) list \<Rightarrow> go_err option \<Rightarrow> RelayInfo
    \<Rightarrow> (int \<times> json) list \<times> claude_stream \<times> Usage \<times> go_err option" where
  "handleClaudeInboundStream E status body lines scan info =
     (if status \<noteq> 200 then ([(status, api_error body)], new_stream info, zero_Usage, Some (NewUpstreamError status body None))
      else case stream_loop E lines (new_stream info) of
        (st, ClientGone) \<Rightarrow> ([], st, zero_Usage, Some ErrStreamInterrupted)
      | (st, Ran) \<Rightarrow> (case scan of
          Some e \<Rightarrow> ([], end_status StreamEndReasonError (Some e) st, zero_Usage, Some (ErrWrap e ''stream scanner error''))
        | None \<Rightarrow>
            let st1 = (if ss_reason (ri_StreamStatus (st_info st)) = EndNone then abrupt_end st else st) in
            ([], st1, zero_Usage\<lparr>us_PromptTokens := st_inputTokens st1, us_CompletionTokens := st_outputTokens st1,
               us_TotalTokens := i64 (st_inputTokens st1 + st_outputTokens st1), us_CacheIncludedInPrompt := True\<rparr>, None)))"

section \<open>From Claude to OpenAI, whole\<close>

definition claudeUsageToTokenDetails :: "ClaudeUsage \<Rightarrow> TokenDetails" where
  "claudeUsageToTokenDetails u =
     (let td = zero_details\<lparr>td_CachedTokens := cu_CacheReadInputTokens u, td_CachedCreationTokens := cu_CacheCreationInputTokens u\<rparr> in
      case cu_CacheCreation u of None \<Rightarrow> td
      | Some c \<Rightarrow> td\<lparr>td_CachedCreation5mTokens := ccu_Ephemeral5mInputTokens c,
          td_CachedCreation1hTokens := ccu_Ephemeral1hInputTokens c\<rparr>)"

definition buildUsageFromClaude :: "ClaudeUsage \<Rightarrow> Usage" where
  "buildUsageFromClaude u = zero_Usage\<lparr>us_PromptTokens := cu_InputTokens u, us_CompletionTokens := cu_OutputTokens u,
     us_TotalTokens := i64 (cu_InputTokens u + cu_OutputTokens u), us_CacheCreationTokens := cu_CacheCreationInputTokens u,
     us_PromptTokensDetails := Some (claudeUsageToTokenDetails u)\<rparr>"

definition joinTextPartsResponse :: "string list \<Rightarrow> json" where
  "joinTextPartsResponse parts = (if parts = [] then JNull else JStr (c2oJoinParts parts))"

definition block_call :: "conv_env \<Rightarrow> ClaudeContentBlock \<Rightarrow> ToolCall" where
  "block_call E b = \<lparr>oc_Index = 0, oc_ID = cb_ID b, oc_Type = ''function'',
     oc_Function = \<lparr>fc_Name = cb_Name b, fc_Arguments = ce_text E (cb_Input b)\<rparr>\<rparr>"

definition claude_answer :: "conv_env \<Rightarrow> ClaudeContentBlock list \<Rightarrow> Message" where
  "claude_answer E bs =
     (let think = List.map_filter (\<lambda>b. if cb_Type b = ''thinking'' then cb_Thinking b else None) bs in
      zero_Message\<lparr>om_Role := ''assistant'',
        om_Content := joinTextPartsResponse (List.map_filter (\<lambda>b. if cb_Type b = ''text'' then cb_Text b else None) bs),
        om_ReasoningContent := (if think = [] then None else Some (concat think)),
        om_ToolCalls := map (block_call E) (filter (\<lambda>b. cb_Type b = ''tool_use'') bs)\<rparr>)"

definition claudeToOpenAIResponse :: "conv_env \<Rightarrow> int \<Rightarrow> ClaudeResponse \<Rightarrow> RelayInfo \<Rightarrow> ChatCompletionResponse" where
  "claudeToOpenAIResponse E now r info =
     \<lparr>ccr_ID = cre_ID r, ccr_Object = ''chat.completion'', ccr_Created = now,
      ccr_Model = (if cm_IsModelMapped (ri_ChannelMeta info) then ri_OriginModelName info else cre_Model r),
      ccr_SystemFingerprint = None,
      ccr_Choices = [\<lparr>cho_Index = 0, cho_Message = claude_answer E (cre_Content r),
        cho_FinishReason = ClaudeStopReasonToOpenAI (cre_StopReason r), cho_LogProbs = JNull\<rparr>],
      ccr_Usage = (case cre_Usage r of None \<Rightarrow> zero_usage
        | Some u \<Rightarrow> zero_usage\<lparr>uw_PromptTokens := cu_InputTokens u, uw_CompletionTokens := cu_OutputTokens u,
            uw_TotalTokens := i64 (cu_InputTokens u + cu_OutputTokens u)\<rparr>),
      ccr_ServiceTier = None\<rparr>"

definition read_body :: "int \<Rightarrow> go_err + string \<Rightarrow> go_err + string" where
  "read_body status read' = (case read' of
     Inl e \<Rightarrow> Inl (NewUpstreamError status ''read response body failed'' (Some e))
   | Inr body \<Rightarrow> if status \<noteq> 200 then Inl (NewUpstreamError status body None) else Inr body)"

definition handleNonStreamToOpenAI :: "conv_env \<Rightarrow> int \<Rightarrow> int \<Rightarrow> go_err + string \<Rightarrow> RelayInfo \<Rightarrow> answered" where
  "handleNonStreamToOpenAI E now status read' info = (case read_body status read' of
     Inl e \<Rightarrow> ([], None, Some e)
   | Inr body \<Rightarrow> (case Option.bind (ce_parse E body) dec_ClaudeResponse of
        None \<Rightarrow> ([], None, Some (NewUpstreamError status ''invalid response body'' (Some (ErrExt ''json: cannot unmarshal''))))
      | Some r \<Rightarrow> ([(200, chat_response_json (claudeToOpenAIResponse E now r info))],
          Some (case cre_Usage r of None \<Rightarrow> zero_Usage | Some u \<Rightarrow> buildUsageFromClaude u), None)))"

section \<open>From Claude to OpenAI, streamed\<close>

datatype openai_out = Chunk ChatCompletionStreamResponse | DoneMark

record openai_stream =
  so_out :: "openai_out list"
  so_info :: RelayInfo
  so_usage :: ClaudeUsage
  so_modelName :: string
  so_finishReason :: string
  so_toolCallIdx :: int
  so_roleChunkSent :: bool
  so_text :: string

definition stream_chunk :: "int \<Rightarrow> Message \<Rightarrow> string option \<Rightarrow> UsageWithDetails option \<Rightarrow> openai_stream \<Rightarrow> ChatCompletionStreamResponse" where
  "stream_chunk created delta reason u st = \<lparr>csr_ID = ''chatcmpl-'' @ ri_RequestID (so_info st), csr_Object = ''chat.completion.chunk'',
     csr_Created = created, csr_Model = (if so_modelName st = [] then ri_OriginModelName (so_info st) else so_modelName st),
     csr_SystemFingerprint = None,
     csr_Choices = [\<lparr>sch_Index = 0, sch_Delta = delta, sch_FinishReason = reason, sch_LogProbs = JNull\<rparr>], csr_Usage = u\<rparr>"

definition writeStreamChunk :: "ChatCompletionStreamResponse \<Rightarrow> openai_stream \<Rightarrow> openai_stream" where
  "writeStreamChunk c st = st\<lparr>so_out := so_out st @ [Chunk c]\<rparr>"

definition send_delta :: "int \<Rightarrow> Message \<Rightarrow> openai_stream \<Rightarrow> openai_stream" where
  "send_delta created delta st = writeStreamChunk (stream_chunk created delta None None st) st"

text \<open>What a message_delta adds to the usage.\<close>

definition merge_usage :: "ClaudeUsage \<Rightarrow> ClaudeUsage \<Rightarrow> ClaudeUsage" where
  "merge_usage u e = u\<lparr>cu_InputTokens := (if cu_InputTokens e > 0 then cu_InputTokens e else cu_InputTokens u),
     cu_OutputTokens := cu_OutputTokens e,
     cu_CacheReadInputTokens := (if cu_CacheReadInputTokens e > 0 then cu_CacheReadInputTokens e else cu_CacheReadInputTokens u),
     cu_CacheCreationInputTokens := (if cu_CacheCreationInputTokens e > 0 then cu_CacheCreationInputTokens e else cu_CacheCreationInputTokens u),
     cu_CacheCreation := (if cu_CacheCreation e \<noteq> None then cu_CacheCreation e else cu_CacheCreation u)\<rparr>"

definition final_usage :: "openai_stream \<Rightarrow> UsageWithDetails" where
  "final_usage st =
     (let u = so_usage st; estimated = int (length (so_text st) div 4);
          obj = \<lparr>uw_PromptTokens = cu_InputTokens u, uw_CompletionTokens = cu_OutputTokens u,
            uw_TotalTokens = i64 (cu_InputTokens u + cu_OutputTokens u),
            uw_PromptTokensDetails = Some (claudeUsageToTokenDetails u), uw_CompletionTokenDetails = None\<rparr> in
      if uw_CompletionTokens obj = 0 \<and> estimated > 0
      then obj\<lparr>uw_CompletionTokens := estimated, uw_TotalTokens := i64 (uw_PromptTokens obj + estimated)\<rparr> else obj)"

definition oai_end :: "StreamEndReason \<Rightarrow> go_err option \<Rightarrow> openai_stream \<Rightarrow> openai_stream" where
  "oai_end reason e st = st\<lparr>so_info := (so_info st)\<lparr>ri_StreamStatus := SetEndReason reason e (ri_StreamStatus (so_info st))\<rparr>\<rparr>"

definition finish_stream :: "int \<Rightarrow> openai_stream \<Rightarrow> openai_stream" where
  "finish_stream created st =
     (let reason = (if so_finishReason st = [] then ''stop'' else so_finishReason st);
          st1 = writeStreamChunk (stream_chunk created zero_Message (Some reason) (Some (final_usage st)) st) st in
      oai_end StreamEndReasonDone None (st1\<lparr>so_out := so_out st1 @ [DoneMark]\<rparr>))"

definition delta_event :: "int \<Rightarrow> ClaudeDelta \<Rightarrow> openai_stream \<Rightarrow> openai_stream" where
  "delta_event created d st =
     (if cd_Type d = ''text_delta'' then (case cd_Text d of None \<Rightarrow> st | Some t \<Rightarrow> if t = [] then st
        else send_delta created (zero_Message\<lparr>om_Content := JStr t\<rparr>) (st\<lparr>so_text := so_text st @ t\<rparr>))
      else if cd_Type d = ''thinking_delta'' then (case cd_Thinking d of None \<Rightarrow> st | Some t \<Rightarrow> if t = [] then st
        else send_delta created (zero_Message\<lparr>om_ReasoningContent := Some t\<rparr>) st)
      else if cd_Type d = ''input_json_delta'' then (case cd_PartialJSON d of None \<Rightarrow> st | Some t \<Rightarrow> if t = [] then st
        else send_delta created (zero_Message\<lparr>om_ToolCalls := [\<lparr>oc_Index = so_toolCallIdx st - 1, oc_ID = [], oc_Type = [],
               oc_Function = \<lparr>fc_Name = [], fc_Arguments = t\<rparr>\<rparr>]\<rparr>) st)
      else st)"

definition claude_event_step :: "conv_env \<Rightarrow> int \<Rightarrow> ClaudeResponse \<Rightarrow> openai_stream \<Rightarrow> openai_stream" where
  "claude_event_step E created ev st =
     (if cre_Type ev = ''message_start'' then
        (let st1 = (case cre_Message ev of None \<Rightarrow> st
               | Some m \<Rightarrow> st\<lparr>so_modelName := (if cmi_Model m = [] then ri_OriginModelName (so_info st) else cmi_Model m),
                   so_usage := (case cmi_Usage m of None \<Rightarrow> so_usage st | Some u \<Rightarrow> u)\<rparr>) in
         if so_roleChunkSent st1 then st1
         else (send_delta created (zero_Message\<lparr>om_Role := ''assistant'', om_Content := JStr []\<rparr>) st1)\<lparr>so_roleChunkSent := True\<rparr>)
      else if cre_Type ev = ''content_block_start'' then
        (case cre_ContentBlock ev of None \<Rightarrow> st
         | Some b \<Rightarrow> if cb_Type b = ''tool_use'' then
             (let st1 = send_delta created (zero_Message\<lparr>om_ToolCalls := [\<lparr>oc_Index = 0, oc_ID = cb_ID b, oc_Type = ''function'',
                    oc_Function = \<lparr>fc_Name = cb_Name b, fc_Arguments = []\<rparr>\<rparr>]\<rparr>) st in
              st1\<lparr>so_toolCallIdx := so_toolCallIdx st1 + 1\<rparr>) else st)
      else if cre_Type ev = ''content_block_delta'' then
        (case cre_Delta ev of None \<Rightarrow> st | Some d \<Rightarrow> delta_event created d st)
      else if cre_Type ev = ''error'' then
        oai_end StreamEndReasonError (Some (ErrNew (if cre_Error ev = JNull then ''claude stream error''
           else ''claude stream error: '' @ ce_text E (cre_Error ev)))) st
      else if cre_Type ev = ''message_delta'' then
        (let st1 = (case Option.bind (cre_Delta ev) cd_StopReason of None \<Rightarrow> st
               | Some r \<Rightarrow> st\<lparr>so_finishReason := ClaudeStopReasonToOpenAI r\<rparr>) in
         case cre_Usage ev of None \<Rightarrow> st1 | Some u \<Rightarrow> st1\<lparr>so_usage := merge_usage (so_usage st1) u\<rparr>)
      else if cre_Type ev = ''message_stop'' then finish_stream created st
      else st)"

fun claude_loop :: "conv_env \<Rightarrow> int \<Rightarrow> (bool \<times> int \<times> string) list \<Rightarrow> openai_stream \<Rightarrow> openai_stream \<times> loop_end" where
  "claude_loop E created [] st = (st, Ran)"
| "claude_loop E created ((gone, now, line) # lines) st =
     (if gone then (oai_end StreamEndReasonClientGone (Some (ErrExt ''context canceled'')) st, ClientGone)
      else if line = [] \<or> \<not> HasPrefix line ''data:'' then claude_loop E created lines st
      else
        (let dat = (case ExtractSSEData line of None \<Rightarrow> [] | Some d \<Rightarrow> d);
             st1 = (if dat \<noteq> [] \<and> dat \<noteq> ''[DONE]'' then st\<lparr>so_info := SetFirstResponseTime now (so_info st)\<rparr> else st) in
         claude_loop E created lines (case Option.bind (ce_parse E dat) dec_ClaudeResponse of None \<Rightarrow> st1
           | Some ev \<Rightarrow> claude_event_step E created ev st1)))"

definition new_openai_stream :: "RelayInfo \<Rightarrow> openai_stream" where
  "new_openai_stream info = \<lparr>so_out = [], so_info = info, so_usage = zero_cusage, so_modelName = [], so_finishReason = [],
     so_toolCallIdx = 0, so_roleChunkSent = False, so_text = []\<rparr>"

definition handleStreamToOpenAI ::
  "conv_env \<Rightarrow> int \<Rightarrow> int \<Rightarrow> string \<Rightarrow> (bool \<times> int \<times> string) list \<Rightarrow> go_err option \<Rightarrow> RelayInfo
    \<Rightarrow> openai_stream \<times> Usage option \<times> go_err option" where
  "handleStreamToOpenAI E created status body lines scan info =
     (if status \<noteq> 200 then (new_openai_stream info, None, Some (NewUpstreamError status body None))
      else case claude_loop E created lines (new_openai_stream info) of
        (st, ClientGone) \<Rightarrow> (st, Some (buildUsageFromClaude (so_usage st)), Some ErrStreamInterrupted)
      | (st, Ran) \<Rightarrow> (case scan of
          Some e \<Rightarrow> (oai_end StreamEndReasonError (Some e) st, Some zero_Usage, Some (ErrWrap e ''stream scanner error''))
        | None \<Rightarrow>
            let st1 = (if ss_reason (ri_StreamStatus (so_info st)) = EndNone then finish_stream created st else st) in
            (st1, Some (buildUsageFromClaude (so_usage st1)), None)))"

section \<open>Claude's own answers\<close>

definition model_prefix :: string where
  "model_prefix = ''\"model\":\"''"

lemma Index_le: "Index s p = Some i \<Longrightarrow> i + length p \<le> length s"
  by (induction s arbitrary: i) (auto simp: HasPrefix_def take_all_iff dest: arg_cong [where f = length] split: if_splits)

text \<open>The name is put, with its field name, behind a prefix that is already written.\<close>

function replaceModelName :: "string \<Rightarrow> string \<Rightarrow> string" where
  "replaceModelName modelName body = (case Index body model_prefix of None \<Rightarrow> body
     | Some idx \<Rightarrow>
         let rest = drop (idx + length model_prefix) body in
         take (idx + length model_prefix) body @
         (case Index rest ''\"'' of None \<Rightarrow> rest
          | Some endQuote \<Rightarrow> model_prefix @ modelName @ ''\"'' @ replaceModelName modelName (drop (endQuote + 1) rest)))"
  by pat_completeness auto
termination by (relation "measure (length \<circ> snd)") (auto simp: model_prefix_def dest!: Index_le)

declare replaceModelName.simps [simp del]

definition handleClaudeNativeNonStream ::
  "conv_env \<Rightarrow> int \<Rightarrow> go_err + string \<Rightarrow> RelayInfo \<Rightarrow> (int \<times> string) list \<times> Usage option \<times> go_err option" where
  "handleClaudeNativeNonStream E status read' info = (case read_body status read' of
     Inl e \<Rightarrow> ([], None, Some e)
   | Inr body0 \<Rightarrow>
       let body = (if cm_IsModelMapped (ri_ChannelMeta info) then replaceModelName (ri_OriginModelName info) body0 else body0) in
       ([(status, body)], Some (case Option.bind (Option.bind (ce_parse E body) dec_ClaudeResponse) cre_Usage of
          None \<Rightarrow> zero_Usage | Some u \<Rightarrow> buildUsageFromClaude u), None))"

text \<open>A line of the stream with its newline; the last component says whether writing it works.  At the
  end, the error of the reader unless it is EOF.\<close>

record native_stream =
  ns_written :: string
  ns_info :: RelayInfo
  ns_usage :: ClaudeUsage

definition ns_end :: "StreamEndReason \<Rightarrow> go_err option \<Rightarrow> native_stream \<Rightarrow> native_stream" where
  "ns_end reason e st = st\<lparr>ns_info := (ns_info st)\<lparr>ri_StreamStatus := SetEndReason reason e (ri_StreamStatus (ns_info st))\<rparr>\<rparr>"

definition native_event :: "ClaudeResponse \<Rightarrow> native_stream \<Rightarrow> native_stream" where
  "native_event ev st =
     (if cre_Type ev = ''message_start'' then (case Option.bind (cre_Message ev) cmi_Usage of None \<Rightarrow> st | Some u \<Rightarrow> st\<lparr>ns_usage := u\<rparr>)
      else if cre_Type ev = ''message_delta'' then
        (case cre_Usage ev of None \<Rightarrow> st | Some u \<Rightarrow> st\<lparr>ns_usage := merge_usage (ns_usage st) u\<rparr>)
      else if cre_Type ev = ''error'' then ns_end StreamEndReasonError (Some (ErrNew ''claude upstream stream error'')) st
      else st)"

definition native_line :: "conv_env \<Rightarrow> int \<Rightarrow> string \<Rightarrow> native_stream \<Rightarrow> native_stream \<times> string" where
  "native_line E now line st =
     (if HasPrefix line ''data:'' then
        (let dat = (case ExtractSSEData line of None \<Rightarrow> [] | Some d \<Rightarrow> d);
             st1 = (if dat \<noteq> [] \<and> dat \<noteq> ''[DONE]'' then st\<lparr>ns_info := SetFirstResponseTime now (ns_info st)\<rparr> else st);
             st2 = (case Option.bind (ce_parse E dat) dec_ClaudeResponse of None \<Rightarrow> st1 | Some ev \<Rightarrow> native_event ev st1) in
         (st2, if cm_IsModelMapped (ri_ChannelMeta (ns_info st2))
            then ''data: '' @ replaceModelName (ri_OriginModelName (ns_info st2)) dat @ ''\<newline>'' else line))
      else (st, line))"

fun native_loop :: "conv_env \<Rightarrow> (bool \<times> int \<times> string \<times> bool) list \<Rightarrow> go_err option \<Rightarrow> native_stream \<Rightarrow> native_stream \<times> go_err option" where
  "native_loop E [] rerr st = (case rerr of
     None \<Rightarrow> (ns_end StreamEndReasonDone None st, None)
   | Some e \<Rightarrow> (ns_end StreamEndReasonError (Some e) st, Some (ErrWrap e ''stream read error'')))"
| "native_loop E ((gone, now, line, wok) # lines) rerr st =
     (if gone then (ns_end StreamEndReasonClientGone (Some (ErrExt ''context canceled'')) st, Some ErrStreamInterrupted)
      else let (st1, out) = native_line E now line st in
        if wok then native_loop E lines rerr (st1\<lparr>ns_written := ns_written st1 @ out\<rparr>)
        else (ns_end StreamEndReasonClientGone (Some (ErrNet ''write'')) st1, Some ErrStreamInterrupted))"

definition handleClaudeNativeStream ::
  "conv_env \<Rightarrow> int \<Rightarrow> string \<Rightarrow> (bool \<times> int \<times> string \<times> bool) list \<Rightarrow> go_err option \<Rightarrow> RelayInfo
    \<Rightarrow> native_stream \<times> Usage option \<times> go_err option" where
  "handleClaudeNativeStream E status body lines rerr info =
     (let st0 = \<lparr>ns_written = [], ns_info = info, ns_usage = zero_cusage\<rparr> in
      if status \<noteq> 200 then (st0, None, Some (NewUpstreamError status body None))
      else let (st, e) = native_loop E lines rerr st0 in (st, Some (buildUsageFromClaude (ns_usage st)), e))"

end
