(* ===== verification/StreamClaims.thy ===== *)
theory StreamClaims
  imports ClaudeStream
begin

text \<open>
  What a Claude client sees of a stream of an OpenAI channel.  A machine reads the events and knows
  what the protocol lets come next; it ends in its error state exactly for the streams named in the property.
  The text, the thoughts, the calls and the usage are those of the chunks that were read.
\<close>

section \<open>What is read\<close>

text \<open>The chunks the loop acts upon: up to [DONE] or the moment the client is gone.\<close>

fun chunks_read :: "conv_env \<Rightarrow> (bool \<times> int \<times> string) list \<Rightarrow> ChatCompletionStreamResponse list" where
  "chunks_read E [] = []"
| "chunks_read E ((gone, now, line) # lines) =
     (if gone then [] else case line_data line of None \<Rightarrow> chunks_read E lines
      | Some dat \<Rightarrow> if dat = ''[DONE]'' then []
          else (case Option.bind (ce_parse E dat) (dec_ChatCompletionStreamResponse E) of None \<Rightarrow> chunks_read E lines
            | Some r \<Rightarrow> r # chunks_read E lines))"

fun client_left :: "(bool \<times> int \<times> string) list \<Rightarrow> bool" where
  "client_left [] \<longleftrightarrow> False"
| "client_left ((gone, now, line) # lines) \<longleftrightarrow> gone \<or> line_data line \<noteq> Some ''[DONE]'' \<and> client_left lines"

fun end_marked :: "(bool \<times> int \<times> string) list \<Rightarrow> bool" where
  "end_marked [] \<longleftrightarrow> False"
| "end_marked ((gone, now, line) # lines) \<longleftrightarrow> \<not> gone \<and> (line_data line = Some ''[DONE]'' \<or> end_marked lines)"

datatype piece = Words string | Thought string | Call string string | Arguments string

text \<open>What a chunk holds for the client.\<close>

definition call_pieces :: "ToolCall \<Rightarrow> piece list" where
  "call_pieces tc = (if fc_Name (oc_Function tc) = [] then [] else [Call (oc_ID tc) (fc_Name (oc_Function tc))]) @
     (if fc_Arguments (oc_Function tc) = [] then [] else [Arguments (fc_Arguments (oc_Function tc))])"

definition choice_pieces :: "StreamChoice \<Rightarrow> piece list" where
  "choice_pieces c =
     (case om_Content (sch_Delta c) of JStr t \<Rightarrow> if t = [] then [] else [Words t] | _ \<Rightarrow> []) @
     (case om_ReasoningContent (sch_Delta c) of None \<Rightarrow> [] | Some t \<Rightarrow> if t = [] then [] else [Thought t]) @
     concat (map call_pieces (om_ToolCalls (sch_Delta c)))"

definition chunk_pieces :: "ChatCompletionStreamResponse \<Rightarrow> piece list" where
  "chunk_pieces r = concat (map choice_pieces (csr_Choices r))"

text \<open>Arguments belong to the call before them: they may follow it or other arguments, but neither words nor thoughts.\<close>

fun piece_step :: "piece \<Rightarrow> bool option \<Rightarrow> bool option" where
  "piece_step _ None = None"
| "piece_step (Words t) (Some calling) = Some False"
| "piece_step (Thought t) (Some calling) = Some False"
| "piece_step (Call i n) (Some calling) = Some True"
| "piece_step (Arguments t) (Some calling) = (if calling then Some True else None)"

definition orderly :: "piece list \<Rightarrow> bool" where
  "orderly ps \<longleftrightarrow> fold piece_step ps (Some False) \<noteq> None"

section \<open>The order of events\<close>

datatype phase = Fresh | Between int | Within int string | Closing | Stopped | Broken

text \<open>A delta belongs to the open block and has its type.\<close>

definition delta_fits :: "string \<Rightarrow> ClaudeResponse \<Rightarrow> bool" where
  "delta_fits t ev = (case cre_Delta ev of None \<Rightarrow> False
     | Some d \<Rightarrow> (cd_Type d, t) \<in> {(''text_delta'', ''text''), (''thinking_delta'', ''thinking''), (''input_json_delta'', ''tool_use'')})"

text \<open>The protocol of Claude's Messages: the message starts, blocks numbered from zero come one after the other, each
  with its deltas, then the reason for the end and the end.\<close>

fun follow :: "ClaudeResponse \<Rightarrow> phase \<Rightarrow> phase" where
  "follow ev Fresh = (if cre_Type ev = ''message_start'' \<and> cre_Message ev \<noteq> None then Between 0 else Broken)"
| "follow ev (Between i) =
     (if cre_Type ev = ''content_block_start'' \<and> cre_Index ev = Some i
      then (case cre_ContentBlock ev of None \<Rightarrow> Broken | Some b \<Rightarrow> Within i (cb_Type b))
      else if cre_Type ev = ''message_delta''
      then (case cre_Delta ev of None \<Rightarrow> Broken | Some d \<Rightarrow> if cd_StopReason d = None then Broken else Closing)
      else Broken)"
| "follow ev (Within i t) =
     (if cre_Type ev = ''content_block_delta'' \<and> cre_Index ev = Some i \<and> delta_fits t ev then Within i t
      else if cre_Type ev = ''content_block_stop'' \<and> cre_Index ev = Some i then Between (i + 1) else Broken)"
| "follow ev Closing = (if cre_Type ev = ''message_stop'' then Stopped else Broken)"
| "follow ev Stopped = Broken"
| "follow ev Broken = Broken"

definition phase_of :: "claude_stream \<Rightarrow> phase" where
  "phase_of st = fold follow (st_events st) Fresh"

text \<open>The phase the writer's own variables say it is in, and how that agrees with the pieces read so far.\<close>

definition current :: "claude_stream \<Rightarrow> phase" where
  "current st = (if st_blockType st = [] then Between (st_contentIndex st) else Within (st_contentIndex st) (st_blockType st))"

definition running :: "bool option \<Rightarrow> claude_stream \<Rightarrow> bool" where
  "running m st \<longleftrightarrow> (case m of None \<Rightarrow> phase_of st = Broken
     | Some calling \<Rightarrow> phase_of st = current st \<and> calling = (st_blockType st = ''tool_use''))"

definition in_step :: "bool option \<Rightarrow> claude_stream \<Rightarrow> bool" where
  "in_step m st \<longleftrightarrow> (if st_startSent st then running m st
     else st_events st = [] \<and> st_blockType st = [] \<and> st_contentIndex st = 0 \<and> m = Some False)"

lemma phase_of_emit [simp]: "phase_of (emit ev st) = follow ev (phase_of st)"
  by (simp add: phase_of_def emit_def)

lemma emit_fields [simp]:
  "st_startSent (emit ev st) = st_startSent st" "st_blockType (emit ev st) = st_blockType st"
  "st_contentIndex (emit ev st) = st_contentIndex st" "st_info (emit ev st) = st_info st"
  "st_inputTokens (emit ev st) = st_inputTokens st" "st_outputTokens (emit ev st) = st_outputTokens st"
  "st_finishReason (emit ev st) = st_finishReason st" "st_events (emit ev st) = st_events st @ [ev]"
  by (simp_all add: emit_def)

lemma phase_of_update [simp]:
  "phase_of (st\<lparr>st_blockType := t\<rparr>) = phase_of st" "phase_of (st\<lparr>st_contentIndex := i\<rparr>) = phase_of st"
  "phase_of (st\<lparr>st_startSent := b\<rparr>) = phase_of st" "phase_of (st\<lparr>st_info := x\<rparr>) = phase_of st"
  "phase_of (st\<lparr>st_finishReason := r\<rparr>) = phase_of st"
  "phase_of (st\<lparr>st_inputTokens := m, st_outputTokens := n\<rparr>) = phase_of st"
  by (simp_all add: phase_of_def)

lemma block_types [simp]: "cb_Type (text_block t) = ''text''" "cb_Type (thinking_block t) = ''thinking''" "cb_Type (block t) = t"
  by (simp_all add: text_block_def thinking_block_def block_def)

lemmas event_defs = block_start_def block_stop_def block_delta_def claude_event_def delta_fits_def zero_delta_def
  text_block_def thinking_block_def block_def

lemma fits_delta [simp]: "delta_fits t (block_delta i d) \<longleftrightarrow>
    (cd_Type d, t) \<in> {(''text_delta'', ''text''), (''thinking_delta'', ''thinking''), (''input_json_delta'', ''tool_use'')}"
  by (simp add: delta_fits_def block_delta_def)

lemma running_open:
  "running (Some c) st \<Longrightarrow> t \<noteq> [] \<Longrightarrow> cb_Type b = t \<Longrightarrow> running (Some (t = ''tool_use'')) (open_block t b (close_block st))"
  by (auto simp: running_def open_block_def close_block_def current_def event_defs)

lemma broken_open: "running None st \<Longrightarrow> running None (open_block t b (close_block st))"
  by (simp add: running_def open_block_def close_block_def)

lemma open_block_type [simp]: "st_blockType (open_block t b st) = t"
  by (simp add: open_block_def)

lemma running_switch:
  assumes "running m st" and "t \<noteq> []" and "t \<noteq> ''tool_use''" and "cb_Type b = t"
  shows "running (map_option (\<lambda>_. False) m) (switch_block t b st) \<and> st_blockType (switch_block t b st) = t"
  using assms running_open [of _ st t b] broken_open [of st t b]
  by (cases m) (auto simp: switch_block_def running_def)

lemma running_delta:
  "running (Some c) st \<Longrightarrow> delta_fits (st_blockType st) (block_delta (st_contentIndex st) d) \<Longrightarrow>
     running (Some c) (emit (block_delta (st_contentIndex st) d) st)"
  by (auto simp: running_def current_def event_defs)

lemma broken_emit: "running None st \<Longrightarrow> running None (emit ev st)"
  by (simp add: running_def)

lemma running_text:
  "running m st \<Longrightarrow> running (fold piece_step (case c of JStr t \<Rightarrow> if t = [] then [] else [Words t] | _ \<Rightarrow> []) m) (text_step c st)"
  using running_switch [of m st "''text''" "text_block []"]
  by (cases c; cases m) (auto simp: text_step_def Let_def intro!: running_delta broken_emit)

lemma running_reasoning:
  "running m st \<Longrightarrow> running (fold piece_step (case r of None \<Rightarrow> [] | Some t \<Rightarrow> if t = [] then [] else [Thought t]) m) (reasoning_step r st)"
  using running_switch [of m st "''thinking''" "thinking_block []"]
  by (cases r; cases m) (auto simp: reasoning_step_def Let_def intro!: running_delta broken_emit)

text \<open>Arguments go to the open block, if that is one of a call; otherwise they break the protocol.\<close>

lemma running_arguments:
  assumes "running m st"
  shows "running (piece_step (Arguments a) m)
    (emit (block_delta (st_contentIndex st) (zero_delta\<lparr>cd_Type := ''input_json_delta'', cd_PartialJSON := Some a\<rparr>)) st)"
proof (cases m)
  case None
  then show ?thesis using assms by (simp add: broken_emit)
next
  case (Some calling)
  then show ?thesis
    using assms by (cases calling) (auto simp: running_def current_def event_defs)
qed

lemma running_call: "running m st \<Longrightarrow> running (fold piece_step (call_pieces tc) m) (call_step tc st)"
proof -
  assume m: "running m st"
  define st1 where "st1 = (if fc_Name (oc_Function tc) \<noteq> [] then open_block ''tool_use'' ((block ''tool_use'')\<lparr>cb_ID := oc_ID tc,
      cb_Name := fc_Name (oc_Function tc), cb_Input := JObj []\<rparr>) (close_block st) else st)"
  define m1 where "m1 = fold piece_step (if fc_Name (oc_Function tc) = [] then [] else [Call (oc_ID tc) (fc_Name (oc_Function tc))]) m"
  have "running m1 st1"
    using m running_open [of _ st "''tool_use''"] broken_open [of st "''tool_use''"] by (cases m) (auto simp: m1_def st1_def)
  then show ?thesis
    using running_arguments [of m1 st1 "fc_Arguments (oc_Function tc)"]
    by (simp add: call_step_def call_pieces_def Let_def st1_def [symmetric] m1_def [symmetric])
qed

lemma running_calls: "running m st \<Longrightarrow> running (fold piece_step (concat (map call_pieces tcs)) m) (fold call_step tcs st)"
  by (induction tcs arbitrary: m st) (simp_all add: running_call)

lemma running_keeps [simp]: "running m (st\<lparr>st_finishReason := r\<rparr>) = running m st"
    "running m (st\<lparr>st_inputTokens := i, st_outputTokens := j\<rparr>) = running m st"
    "running m (st\<lparr>st_info := x\<rparr>) = running m st" "running m (st\<lparr>st_startSent := b\<rparr>) = running m st"
  by (cases m; simp add: running_def current_def)+

lemma running_choice: "running m st \<Longrightarrow> running (fold piece_step (choice_pieces c) m) (choice_step c st)"
  by (simp add: choice_step_def Let_def choice_pieces_def running_calls [OF running_reasoning [OF running_text]] split: option.split)

lemma running_choices: "running m st \<Longrightarrow> running (fold piece_step (concat (map choice_pieces cs)) m) (fold choice_step cs st)"
  by (induction cs arbitrary: m st) (simp_all add: running_choice)

lemma start_type [simp]: "cre_Type (start_message st) = ''message_start''" "cre_Message (start_message st) \<noteq> None"
  by (simp_all add: start_message_def Let_def claude_event_def)

lemma phase_no_events: "st_events st = [] \<Longrightarrow> phase_of st = Fresh"
  by (simp add: phase_of_def)

definition message_started :: "claude_stream \<Rightarrow> claude_stream" where
  "message_started st = (if st_startSent st then st else (emit (start_message st) st)\<lparr>st_startSent := True\<rparr>)"

definition usage_noted :: "ChatCompletionStreamResponse \<Rightarrow> claude_stream \<Rightarrow> claude_stream" where
  "usage_noted r st = (case csr_Usage r of None \<Rightarrow> st
     | Some u \<Rightarrow> st\<lparr>st_inputTokens := uw_PromptTokens u, st_outputTokens := uw_CompletionTokens u\<rparr>)"

lemma chunk_step_eq: "chunk_step r st = fold choice_step (csr_Choices r) (message_started (usage_noted r st))"
  by (simp add: chunk_step_def Let_def message_started_def usage_noted_def)

lemma in_step_usage: "in_step m st \<Longrightarrow> in_step m (usage_noted r st)"
  by (cases "csr_Usage r") (simp_all add: usage_noted_def in_step_def)

lemma running_message: "in_step m st \<Longrightarrow> running m (message_started st)"
  by (cases "st_startSent st") (simp_all add: message_started_def in_step_def running_def current_def phase_no_events)

lemma start_sent_block [simp]:
  "st_startSent (open_block t b st) = st_startSent st" "st_startSent (close_block st) = st_startSent st"
  by (simp_all add: open_block_def close_block_def)

lemma start_sent_choices [simp]: "st_startSent (fold choice_step cs st) = st_startSent st"
proof -
  have "st_startSent (fold call_step tcs s) = st_startSent s" for tcs s
    by (induction tcs arbitrary: s) (simp_all add: call_step_def Let_def)
  then have "st_startSent (choice_step c s) = st_startSent s" for c s
    by (simp add: choice_step_def Let_def reasoning_step_def text_step_def switch_block_def split: option.split json.split)
  then show ?thesis by (induction cs arbitrary: st) simp_all
qed

lemma in_step_chunk:
  "in_step m st \<Longrightarrow> in_step (fold piece_step (chunk_pieces r) m) (chunk_step r st) \<and> st_startSent (chunk_step r st)"
  using running_choices [OF running_message [OF in_step_usage], of m st "csr_Choices r" r]
  by (simp add: chunk_step_eq in_step_def chunk_pieces_def message_started_def)

lemma in_step_info [simp]: "in_step m (st\<lparr>st_info := x\<rparr>) = in_step m st"
  by (simp add: in_step_def)

lemma in_step_data:
  assumes "in_step m st"
  shows "case Option.bind (ce_parse E dat) (dec_ChatCompletionStreamResponse E) of
      None \<Rightarrow> in_step m (data_step E now dat st) \<and> st_startSent (data_step E now dat st) = st_startSent st
    | Some r \<Rightarrow> in_step (fold piece_step (chunk_pieces r) m) (data_step E now dat st) \<and> st_startSent (data_step E now dat st)"
  using assms in_step_chunk [of m] by (auto simp: data_step_def Let_def split: option.split)

lemma phase_end_status [simp]: "phase_of (end_status r e st) = phase_of st" "st_startSent (end_status r e st) = st_startSent st"
  by (simp_all add: end_status_def)

lemma phase_in_step: "in_step m st \<Longrightarrow>
    phase_of st = (if \<not> st_startSent st then Fresh else if m = None then Broken else current st) \<and>
    (\<not> st_startSent st \<longrightarrow> st_blockType st = [] \<and> m = Some False)"
  by (cases m; cases "st_startSent st") (simp_all add: in_step_def running_def phase_no_events)

lemma done_stops: "in_step m st \<Longrightarrow> phase_of (done_step st) = (if st_startSent st \<and> m \<noteq> None then Stopped else Broken)"
  by (drule phase_in_step) (auto simp: done_step_def Let_def close_block_def block_stop_def claude_event_def zero_delta_def current_def)

lemma abrupt_breaks: "in_step m st \<Longrightarrow> phase_of (abrupt_end st) = Broken"
  by (drule phase_in_step) (auto simp: abrupt_end_def Let_def block_stop_def claude_event_def current_def)

lemma in_step_phase: "in_step m st \<Longrightarrow> phase_of st \<noteq> Stopped \<and> (phase_of st = Broken \<longleftrightarrow> m = None)"
  by (drule phase_in_step) (auto simp: current_def)

section \<open>The end of the stream\<close>

definition unended :: "RelayInfo \<Rightarrow> bool" where
  "unended info \<longleftrightarrow> \<not> ss_endOnce (ri_StreamStatus info) \<and> ss_reason (ri_StreamStatus info) = EndNone"

lemma block_info [simp]:
  "st_info (open_block t b st) = st_info st" "st_info (close_block st) = st_info st" "st_info (switch_block t b st) = st_info st"
  by (simp_all add: open_block_def close_block_def switch_block_def)

lemma choice_info [simp]: "st_info (choice_step c st) = st_info st"
proof -
  have "st_info (fold call_step tcs s) = st_info s" for tcs s
    by (induction tcs arbitrary: s) (simp_all add: call_step_def Let_def)
  then show ?thesis
    by (simp add: choice_step_def Let_def reasoning_step_def text_step_def split: option.split json.split)
qed

lemma chunk_info [simp]: "st_info (chunk_step r st) = st_info st"
proof -
  have "st_info (fold choice_step cs s) = st_info s" for cs s
    by (induction cs arbitrary: s) simp_all
  then show ?thesis by (simp add: chunk_step_eq message_started_def usage_noted_def split: option.split)
qed

lemma unended_data: "unended (st_info st) \<Longrightarrow> unended (st_info (data_step E now dat st))"
  by (auto simp: data_step_def Let_def unended_def SetFirstResponseTime_def split: option.split)

text \<open>Where the loop leaves off: after [DONE], or in step with no reason for the end noted.\<close>

definition left_off :: "conv_env \<Rightarrow> (bool \<times> int \<times> string) list \<Rightarrow> bool \<Rightarrow> bool option \<Rightarrow> claude_stream \<times> loop_end \<Rightarrow> bool" where
  "left_off E lines begun m = (\<lambda>(st, e).
     let m' = fold piece_step (concat (map chunk_pieces (chunks_read E lines))) m; begun' = (begun \<or> chunks_read E lines \<noteq> []) in
     if end_marked lines
     then e = Ran \<and> phase_of st = (if begun' \<and> m' \<noteq> None then Stopped else Broken) \<and> ss_reason (ri_StreamStatus (st_info st)) \<noteq> EndNone
     else in_step m' st \<and> e = (if client_left lines then ClientGone else Ran) \<and> (e = Ran \<longrightarrow> unended (st_info st)))"

lemma stream_loop_end:
  "in_step m st \<Longrightarrow> unended (st_info st) \<Longrightarrow> left_off E lines (st_startSent st) m (stream_loop E lines st)"
proof (induction lines arbitrary: st m)
  case (Cons l lines)
  obtain gone now line where l: "l = (gone, now, line)" by (cases l)
  have stop: "ss_reason (ri_StreamStatus (st_info (done_step st))) \<noteq> EndNone"
    using Cons.prems by (simp add: done_step_def Let_def end_status_def SetEndReason_def unended_def)
  show ?case
  proof (cases "\<not> gone \<and> line_data line \<noteq> Some ''[DONE]''")
    case False
    then show ?thesis
      using Cons.prems stop done_stops [of m st] by (auto simp: l left_off_def Let_def end_status_def)
  next
    case goes: True
    then have marks: "end_marked (l # lines) = end_marked lines" "client_left (l # lines) = client_left lines"
      by (simp_all add: l)
    show ?thesis
    proof (cases "line_data line")
      case None
      then have same: "chunks_read E (l # lines) = chunks_read E lines" "stream_loop E (l # lines) st = stream_loop E lines st"
        using goes by (simp_all add: l)
      show ?thesis using Cons.IH [OF Cons.prems] unfolding left_off_def marks same .
    next
      case (Some dat)
      define r where "r = Option.bind (ce_parse E dat) (dec_ChatCompletionStreamResponse E)"
      define st1 where "st1 = data_step E now dat st"
      have un: "unended (st_info st1)" using Cons.prems(2) by (simp add: st1_def unended_data)
      have loop: "stream_loop E (l # lines) st = stream_loop E lines st1"
        using goes Some by (simp add: l st1_def)
      have step: "in_step (case r of None \<Rightarrow> m | Some c \<Rightarrow> fold piece_step (chunk_pieces c) m) st1 \<and>
          st_startSent st1 = (st_startSent st \<or> r \<noteq> None)"
        using in_step_data [OF Cons.prems(1), of E now dat] by (cases r) (simp_all add: r_def st1_def)
      have read: "chunks_read E (l # lines) = (case r of None \<Rightarrow> [] | Some c \<Rightarrow> [c]) @ chunks_read E lines"
        using goes Some by (simp add: l r_def split: option.split)
      show ?thesis
        using Cons.IH [OF conjunct1 [OF step] un] step unfolding loop left_off_def read marks
        by (cases r) simp_all
    qed
  qed
qed (simp add: left_off_def)

text \<open>Property C33. The events a Claude client gets follow the protocol of Claude's Messages to its end exactly when the
  stream ends with [DONE], a chunk was read before and the arguments of calls follow the call they belong to.  They
  break it exactly when arguments come elsewhere, when [DONE] is all there is, and when the stream ends without
  [DONE] and without an error: then message_stop is sent with no message_delta before it.\<close>

theorem claude_events_follow_protocol:
  assumes "unended info"
    and "handleClaudeInboundStream E 200 body lines scan info = (answer, st, usage, err)"
  shows "(phase_of st = Stopped \<longleftrightarrow>
      end_marked lines \<and> chunks_read E lines \<noteq> [] \<and> orderly (concat (map chunk_pieces (chunks_read E lines)))) \<and>
    (phase_of st = Broken \<longleftrightarrow> \<not> orderly (concat (map chunk_pieces (chunks_read E lines))) \<or>
      (if end_marked lines then chunks_read E lines = [] else \<not> client_left lines \<and> scan = None))"
proof -
  have new: "in_step (Some False) (new_stream info)" "unended (st_info (new_stream info))" "\<not> st_startSent (new_stream info)"
    using assms(1) by (simp_all add: in_step_def new_stream_def)
  obtain st1 e where l: "stream_loop E lines (new_stream info) = (st1, e)" by fastforce
  define m where "m = fold piece_step (concat (map chunk_pieces (chunks_read E lines))) (Some False)"
  have m: "orderly (concat (map chunk_pieces (chunks_read E lines))) \<longleftrightarrow> m \<noteq> None"
    by (simp add: orderly_def m_def)
  have loop: "left_off E lines False (Some False) (st1, e)" using stream_loop_end [OF new(1,2)] new(3) l by metis
  show ?thesis
  proof (cases "end_marked lines")
    case True
    then have "e = Ran" "phase_of st1 = (if chunks_read E lines \<noteq> [] \<and> m \<noteq> None then Stopped else Broken)"
      "ss_reason (ri_StreamStatus (st_info st1)) \<noteq> EndNone"
      using loop by (simp_all add: left_off_def m_def [symmetric])
    then have "phase_of st = (if chunks_read E lines \<noteq> [] \<and> m \<noteq> None then Stopped else Broken)"
      using assms(2) l by (auto simp: handleClaudeInboundStream_def Let_def split: option.splits)
    then show ?thesis using True m by auto
  next
    case False
    then have "in_step m st1" "e = (if client_left lines then ClientGone else Ran)"
      "e = Ran \<Longrightarrow> ss_reason (ri_StreamStatus (st_info st1)) = EndNone"
      using loop by (simp_all add: left_off_def m_def [symmetric] unended_def)
    then have "phase_of st \<noteq> Stopped" "phase_of st = Broken \<longleftrightarrow> m = None \<or> \<not> client_left lines \<and> scan = None"
      using assms(2) l in_step_phase [of m st1] abrupt_breaks [of m st1]
      by (auto simp: handleClaudeInboundStream_def Let_def split: option.splits if_splits)
    then show ?thesis using False m by simp
  qed
qed

definition sample_info :: RelayInfo where
  "sample_info = \<lparr>ri_UserID = 1, ri_ApiKeyID = 1, ri_ProjectID = 0, ri_RequestID = ''r'', ri_RelayMode = RelayModeChatCompletions,
     ri_IsStream = True, ri_OriginModelName = ''m'', ri_RequestURLPath = ''/v1/messages'', ri_RequestHeaders = None, ri_StartTime = 0,
     ri_ChannelMeta = \<lparr>cm_ChannelID = 1, cm_ChannelType = 1, cm_ChannelName = ''n'', cm_BaseURL = ''u'', cm_ApiKey = ''k'',
       cm_UpstreamModelName = ''um'', cm_IsModelMapped = True, cm_Settings = zero_settings\<rparr>,
     ri_RetryIndex = 0, ri_LastError = None, ri_StreamStatus = NewStreamStatus, ri_FirstResponseTime = None,
     ri_InboundFormat = ''claude'', ri_ClientFormat = ''claude'', ri_RuntimeHeadersOverride = None, ri_UseResponsesAPI = False,
     ri_ThinkingEnabled = False, ri_ThinkingDisabled = False, ri_ReasoningEffort = [], ri_BaseModelName = [], ri_ResponseText = []\<rparr>"

text \<open>A parser that knows two documents: a chunk with the text hi, and nothing else.\<close>

definition sample_env :: conv_env where
  "sample_env = \<lparr>ce_text = (\<lambda>j. ''{}''), ce_parse = (\<lambda>s. if s = ''hi''
       then Some (JObj [(''choices'', JArr [JObj [(''delta'', JObj [(''content'', JStr ''hi'')])]])]) else None),
     ce_show = (\<lambda>j. ''<nil>''), ce_addr = (\<lambda>s. ''0xc000''), ce_trunc = (\<lambda>j. 0)\<rparr>"

definition sample_lines :: "(bool \<times> int \<times> string) list" where
  "sample_lines = [(False, 1, ''data: hi''), (False, 2, []), (False, 3, ''data: hi''), (False, 4, ''data: [DONE]'')]"

theorem claude_events_follow_protocol_witness:
  "let (answer, st, usage, err) = handleClaudeInboundStream sample_env 200 [] sample_lines None sample_info in
     err = None \<and> map cre_Type (st_events st) = [''message_start'', ''content_block_start'', ''content_block_delta'',
       ''content_block_delta'', ''content_block_stop'', ''message_delta'', ''message_stop''] \<and> phase_of st = Stopped"
proof -
  obtain answer st usage err where h: "handleClaudeInboundStream sample_env 200 [] sample_lines None sample_info = (answer, st, usage, err)"
    by (rule prod_cases4)
  have "map cre_Type (st_events (fst (snd (handleClaudeInboundStream sample_env 200 [] sample_lines None sample_info)))) =
      [''message_start'', ''content_block_start'', ''content_block_delta'', ''content_block_delta'', ''content_block_stop'',
       ''message_delta'', ''message_stop'']"
    and "snd (snd (snd (handleClaudeInboundStream sample_env 200 [] sample_lines None sample_info))) = None"
    by code_simp+
  moreover have "end_marked sample_lines \<and> chunks_read sample_env sample_lines \<noteq> [] \<and>
      orderly (concat (map chunk_pieces (chunks_read sample_env sample_lines)))" by code_simp
  moreover have "unended sample_info" by (simp add: unended_def sample_info_def)
  ultimately show ?thesis using h claude_events_follow_protocol [OF _ h] by simp
qed

section \<open>What is relayed\<close>

text \<open>What an event tells the client.\<close>

definition event_pieces :: "ClaudeResponse \<Rightarrow> piece list" where
  "event_pieces ev =
     (case cre_ContentBlock ev of None \<Rightarrow> [] | Some b \<Rightarrow> if cb_Type b = ''tool_use'' then [Call (cb_ID b) (cb_Name b)] else []) @
     (case cre_Delta ev of None \<Rightarrow> []
      | Some d \<Rightarrow> (case cd_Text d of None \<Rightarrow> [] | Some t \<Rightarrow> [Words t]) @ (case cd_Thinking d of None \<Rightarrow> [] | Some t \<Rightarrow> [Thought t]) @
          (case cd_PartialJSON d of None \<Rightarrow> [] | Some t \<Rightarrow> [Arguments t]))"

definition told :: "claude_stream \<Rightarrow> piece list" where
  "told st = concat (map event_pieces (st_events st))"

lemma told_emit [simp]: "told (emit ev st) = told st @ event_pieces ev"
  by (simp add: told_def)

lemma told_update [simp]:
  "told (st\<lparr>st_blockType := t\<rparr>) = told st" "told (st\<lparr>st_contentIndex := i\<rparr>) = told st"
  "told (st\<lparr>st_startSent := b\<rparr>) = told st" "told (st\<lparr>st_info := x\<rparr>) = told st" "told (st\<lparr>st_finishReason := r\<rparr>) = told st"
  "told (st\<lparr>st_inputTokens := m, st_outputTokens := n\<rparr>) = told st"
  by (simp_all add: told_def)

lemma told_events [simp]:
  "event_pieces (block_stop i) = []" "event_pieces (claude_event t) = []" "event_pieces (start_message st) = []"
  "event_pieces (block_start i (text_block [])) = []" "event_pieces (block_start i (thinking_block [])) = []"
  "event_pieces (block_start i ((block ''tool_use'')\<lparr>cb_ID := d, cb_Name := n, cb_Input := j\<rparr>)) = [Call d n]"
  "event_pieces (block_delta i (zero_delta\<lparr>cd_Type := t, cd_Text := Some x\<rparr>)) = [Words x]"
  "event_pieces (block_delta i (zero_delta\<lparr>cd_Type := t, cd_Thinking := Some x\<rparr>)) = [Thought x]"
  "event_pieces (block_delta i (zero_delta\<lparr>cd_Type := t, cd_PartialJSON := Some x\<rparr>)) = [Arguments x]"
  by (simp_all add: event_pieces_def event_defs start_message_def Let_def)

lemma told_close [simp]: "told (close_block st) = told st"
  by (simp add: close_block_def)

lemma told_open [simp]: "told (open_block t b st) = told st @ event_pieces (block_start (st_contentIndex st) b)"
  by (simp add: open_block_def)

lemma told_call: "told (call_step tc st) = told st @ call_pieces tc"
  by (simp add: call_step_def call_pieces_def Let_def)

lemma told_calls: "told (fold call_step tcs st) = told st @ concat (map call_pieces tcs)"
  by (induction tcs arbitrary: st) (simp_all add: told_call)

lemma told_choice: "told (choice_step c st) = told st @ choice_pieces c"
  by (simp add: choice_step_def Let_def choice_pieces_def told_calls reasoning_step_def text_step_def switch_block_def
      split: option.split json.split)

lemma told_chunk: "told (chunk_step r st) = told st @ chunk_pieces r"
proof -
  have "told (fold choice_step cs s) = told s @ concat (map choice_pieces cs)" for cs s
    by (induction cs arbitrary: s) (simp_all add: told_choice)
  then show ?thesis
    by (simp add: chunk_step_eq chunk_pieces_def message_started_def usage_noted_def split: option.split)
qed

text \<open>The usage is that of the last chunk that has one.\<close>

definition last_usage :: "ChatCompletionStreamResponse list \<Rightarrow> int \<times> int \<Rightarrow> int \<times> int" where
  "last_usage rs = fold (\<lambda>r u. case csr_Usage r of None \<Rightarrow> u | Some w \<Rightarrow> (uw_PromptTokens w, uw_CompletionTokens w)) rs"

definition tokens :: "claude_stream \<Rightarrow> int \<times> int" where
  "tokens st = (st_inputTokens st, st_outputTokens st)"

lemma tokens_simps [simp]:
  "tokens (emit ev st) = tokens st" "tokens (st\<lparr>st_blockType := t\<rparr>) = tokens st" "tokens (st\<lparr>st_contentIndex := i\<rparr>) = tokens st"
  "tokens (st\<lparr>st_startSent := b\<rparr>) = tokens st" "tokens (st\<lparr>st_info := x\<rparr>) = tokens st"
  "tokens (st\<lparr>st_finishReason := r\<rparr>) = tokens st"
  "tokens (st\<lparr>st_inputTokens := m, st_outputTokens := n\<rparr>) = (m, n)"
  by (simp_all add: tokens_def)

lemma tokens_block [simp]: "tokens (close_block st) = tokens st" "tokens (open_block t b st) = tokens st"
  by (simp_all add: close_block_def open_block_def)

lemma tokens_choice: "tokens (choice_step c st) = tokens st"
proof -
  have "tokens (fold call_step tcs s) = tokens s" for tcs s
    by (induction tcs arbitrary: s) (simp_all add: call_step_def Let_def)
  then show ?thesis
    by (simp add: choice_step_def Let_def reasoning_step_def text_step_def switch_block_def split: option.split json.split)
qed

lemma tokens_chunk: "tokens (chunk_step r st) =
    (case csr_Usage r of None \<Rightarrow> tokens st | Some w \<Rightarrow> (uw_PromptTokens w, uw_CompletionTokens w))"
proof -
  have "tokens (fold choice_step cs s) = tokens s" for cs s
    by (induction cs arbitrary: s) (simp_all add: tokens_choice)
  then show ?thesis by (simp add: chunk_step_eq message_started_def usage_noted_def split: option.split)
qed

lemma data_step_effect:
  "told (data_step E now dat st) = told st @
    (case Option.bind (ce_parse E dat) (dec_ChatCompletionStreamResponse E) of None \<Rightarrow> [] | Some r \<Rightarrow> chunk_pieces r)"
  "tokens (data_step E now dat st) =
    (case Option.bind (ce_parse E dat) (dec_ChatCompletionStreamResponse E) of None \<Rightarrow> tokens st | Some r \<Rightarrow> last_usage [r] (tokens st))"
  by (simp_all add: data_step_def Let_def told_chunk tokens_chunk last_usage_def split: option.split)

lemma stream_ends [simp]:
  "told (end_status x e st) = told st" "tokens (end_status x e st) = tokens st"
  "told (done_step st) = told st" "tokens (done_step st) = tokens st"
  "told (abrupt_end st) = told st" "tokens (abrupt_end st) = tokens st"
  by (simp_all add: end_status_def done_step_def abrupt_end_def Let_def event_pieces_def claude_event_def zero_delta_def block_stop_def)

lemma stream_loop_effect:
  "told (fst (stream_loop E lines st)) = told st @ concat (map chunk_pieces (chunks_read E lines)) \<and>
   tokens (fst (stream_loop E lines st)) = last_usage (chunks_read E lines) (tokens st) \<and>
   snd (stream_loop E lines st) = (if client_left lines then ClientGone else Ran)"
  by (induction E lines st rule: stream_loop.induct) (auto simp: data_step_effect last_usage_def split: option.split)

text \<open>Property C34. Every piece of text, thought and call in the chunks that were read reaches the Claude client,
  in order and nothing else does; the usage reported is that of the last chunk with one, but nothing at all when
  the client leaves or the scanner fails, however much was sent.\<close>

theorem relayed_stream_is_complete:
  "let (answer, st, usage, err) = handleClaudeInboundStream E 200 body lines scan info;
       (p, c) = last_usage (chunks_read E lines) (0, 0) in
     told st = concat (map chunk_pieces (chunks_read E lines)) \<and>
     (usage, err) = (if client_left lines then (zero_Usage, Some ErrStreamInterrupted)
       else case scan of Some e \<Rightarrow> (zero_Usage, Some (ErrWrap e ''stream scanner error''))
       | None \<Rightarrow> (zero_Usage\<lparr>us_PromptTokens := p, us_CompletionTokens := c, us_TotalTokens := i64 (p + c),
           us_CacheIncludedInPrompt := True\<rparr>, None))"
proof -
  obtain st1 e where l: "stream_loop E lines (new_stream info) = (st1, e)" by fastforce
  obtain p c where u: "last_usage (chunks_read E lines) (0, 0) = (p, c)" by fastforce
  have "told st1 = concat (map chunk_pieces (chunks_read E lines))" and "tokens st1 = (p, c)"
    and "e = (if client_left lines then ClientGone else Ran)"
    using stream_loop_effect [of E lines "new_stream info"] l u by (simp_all add: new_stream_def told_def tokens_def)
  moreover have "st_inputTokens s = fst (tokens s)" "st_outputTokens s = snd (tokens s)" for s
    by (simp_all add: tokens_def)
  ultimately show ?thesis
    using l u by (simp add: handleClaudeInboundStream_def Let_def split: option.split)
qed

section \<open>The name of the model\<close>

lemma Index_here: "Index (pre @ p) p = Some (length pre) \<Longrightarrow> Index (pre @ p @ rest) p = Some (length pre)"
proof (induction pre)
  case Nil
  have "HasPrefix (p @ rest) p" by (simp add: HasPrefix_def)
  then show ?case by (cases "p @ rest") auto
next
  case (Cons c pre)
  have "HasPrefix (c # pre @ p @ rest) p = HasPrefix (c # pre @ p) p"
    using take_append [of "length p" "c # pre @ p" rest] by (simp add: HasPrefix_def)
  then show ?case using Cons by (auto split: if_splits)
qed

lemma Index_char: "c \<notin> set s \<Longrightarrow> Index (s @ c # rest) [c] = Some (length s)"
  by (induction s) (auto simp: HasPrefix_def)

lemma replaceModelName_twice:
  assumes "Index (pre @ model_prefix) model_prefix = Some (length pre)" and "CHR 0x22 \<notin> set old"
    and "Index post model_prefix = None"
  shows "replaceModelName new (pre @ model_prefix @ old @ CHR 0x22 # post) =
    pre @ model_prefix @ model_prefix @ new @ CHR 0x22 # post"
proof -
  define rest where "rest = old @ CHR 0x22 # post"
  have "replaceModelName new post = post"
    using assms(3) by (subst replaceModelName.simps) simp
  moreover have "Index (pre @ model_prefix @ rest) model_prefix = Some (length pre)"
    using assms(1) by (rule Index_here)
  moreover have "Index rest [CHR 0x22] = Some (length old)" and "drop (Suc (length old)) rest = post"
    using assms(2) by (simp_all add: rest_def Index_char)
  ultimately show ?thesis
    by (subst replaceModelName.simps) (simp add: rest_def [symmetric] Let_def)
qed

text \<open>JSON seen character by character.  Outside of its strings a document has white space, numbers, brackets, commas,
  colons and the letters of true, false and null, and nothing else; a parser reads no text with another character there.\<close>

datatype lexed = Outside | Inside | Escaped

fun lex_step :: "char \<Rightarrow> lexed option \<Rightarrow> lexed option" where
  "lex_step c None = None"
| "lex_step c (Some Outside) = (if c = CHR 0x22 then Some Inside
     else if c \<in> set ''{}[],: 0123456789+-.eEtruefalsn'' \<or> c \<in> {CHR 0x09, CHR 0x0A, CHR 0x0D} then Some Outside else None)"
| "lex_step c (Some Inside) = Some (if c = CHR 0x22 then Outside else if c = CHR 0x5C then Escaped else Inside)"
| "lex_step c (Some Escaped) = Some Inside"

definition lexical :: "string \<Rightarrow> bool" where
  "lexical s \<longleftrightarrow> fold lex_step s (Some Outside) \<noteq> None"

lemma lex_broken [simp]: "fold lex_step s None = None"
  by (induction s) simp_all

lemma field_twice_not_lexical: "\<not> lexical (pre @ model_prefix @ model_prefix @ rest)"
proof -
  have "fold lex_step (model_prefix @ model_prefix) q = None" for q
  proof (cases q)
    case (Some l)
    then show ?thesis by (cases l) (simp_all add: model_prefix_def)
  qed simp
  then have "fold lex_step rest (fold lex_step (model_prefix @ model_prefix) (fold lex_step pre (Some Outside))) = None" by simp
  then show ?thesis by (simp add: lexical_def)
qed

text \<open>On a channel that maps its models, the answer of Claude with the usual one "model" field
  reaches a Claude client with the field's name written twice: \<open>"model":""model":"m"\<close>.  Whatever the rest of the answer is,
  that is no JSON, so that no usage is found in it and the request is reported with none.\<close>

theorem mapped_answer_is_broken:
  assumes "Index (pre @ model_prefix) model_prefix = Some (length pre)" and "CHR 0x22 \<notin> set old"
    and "Index post model_prefix = None" and "cm_IsModelMapped (ri_ChannelMeta info)"
    and "\<And>s j. ce_parse E s = Some j \<Longrightarrow> lexical s"
  shows "handleClaudeNativeNonStream E 200 (Inr (pre @ model_prefix @ old @ CHR 0x22 # post)) info =
    ([(200, pre @ model_prefix @ model_prefix @ ri_OriginModelName info @ CHR 0x22 # post)], Some zero_Usage, None)"
proof -
  have "ce_parse E (pre @ model_prefix @ model_prefix @ ri_OriginModelName info @ CHR 0x22 # post) = None"
    using assms(5) field_twice_not_lexical by (cases "ce_parse E (pre @ model_prefix @ model_prefix @ ri_OriginModelName info @ CHR 0x22 # post)") blast+
  then show ?thesis
    using assms(4) replaceModelName_twice [OF assms(1-3)]
    by (simp add: handleClaudeNativeNonStream_def read_body_def Let_def)
qed

text \<open>A parser that reads two answers: what Claude sent, and an empty object.\<close>

definition claude_text :: string where
  "claude_text = ''{'' @ model_prefix @ ''um'' @ CHR 0x22 # ''}''"

definition native_env :: conv_env where
  "native_env = sample_env\<lparr>ce_parse := \<lambda>s. if s = claude_text then Some (JObj [(''model'', JStr ''um'')])
     else if s = ''{}'' then Some (JObj []) else None\<rparr>"

theorem mapped_answer_is_broken_witness:
  "ce_parse native_env claude_text \<noteq> None \<and> handleClaudeNativeNonStream native_env 200 (Inr claude_text) sample_info =
    ([(200, ''{'' @ model_prefix @ model_prefix @ ''m'' @ CHR 0x22 # ''}'')], Some zero_Usage, None)"
proof -
  have "Index (''{'' @ model_prefix) model_prefix = Some (length ''{'')" and "Index ''}'' model_prefix = None"
    by (simp_all add: model_prefix_def HasPrefix_def)
  moreover have "lexical claude_text" and "lexical ''{}''" by code_simp+
  then have "lexical s" if "ce_parse native_env s = Some j" for s j
    using that by (auto simp: native_env_def split: if_splits)
  moreover have "cm_IsModelMapped (ri_ChannelMeta sample_info)" and "ri_OriginModelName sample_info = ''m''"
    by (simp_all add: sample_info_def)
  ultimately show ?thesis
    using mapped_answer_is_broken [of "''{''" "''um''" "''}''" sample_info native_env] by (simp add: claude_text_def native_env_def)
qed

end
