(* ===== verification/ConvClaims.thy ===== *)
theory ConvClaims
  imports GeminiConv ChatRoundtrip StreamClaims
begin

text \<open>
  The conversation a converter hands on.  Claude's Messages want turns that alternate, beginning with
  the user's; a call of a tool and its answer must come through in order, whatever is merged on the way.
\<close>

section \<open>Turns\<close>

definition conversation :: "ClaudeMessage list \<Rightarrow> string \<Rightarrow> bool" where
  "conversation msgs lastRole \<longleftrightarrow>
     (if msgs = [] then lastRole = [] else lastRole = cl_Role (last msgs)) \<and>
     set (map cl_Role msgs) \<subseteq> {''user'', ''assistant''} \<and> successively (\<noteq>) (map cl_Role msgs)"

lemma conversation_append_turn:
  assumes "conversation msgs lastRole" and "role \<in> {''user'', ''assistant''}"
  shows "conversation (append_turn E role content lastRole msgs) role"
proof (cases msgs rule: rev_cases)
  case Nil
  then show ?thesis using assms by (simp add: conversation_def append_turn_def)
next
  case (snoc ms m)
  then show ?thesis
    using assms by (cases "cl_Role m = role") (simp_all add: conversation_def append_turn_def successively_append_iff last_map)
qed

lemma conversation_step:
  assumes "conversation (fst st) (fst (snd st))"
  shows "conversation (fst (o2c_step E m st)) (fst (snd (o2c_step E m st)))"
proof -
  obtain msgs lastRole system where st: "st = (msgs, lastRole, system)" by (rule prod_cases3)
  note turn = conversation_append_turn [of msgs lastRole _ E, OF assms [unfolded st fst_conv snd_conv]]
  show ?thesis
    using assms by (simp add: st o2c_step_def Let_def turn)
qed

lemma conversation_fold:
  "conversation (fst st) (fst (snd st)) \<Longrightarrow>
     conversation (fst (fold (o2c_step E) ms st)) (fst (snd (fold (o2c_step E) ms st)))"
  by (induction ms arbitrary: st) (simp_all add: conversation_step)

lemma alternating_roles:
  assumes "successively (\<noteq>) rs" and "set rs \<subseteq> {a, b}" and "rs \<noteq> [] \<Longrightarrow> hd rs = a" and "a \<noteq> b"
  shows "rs = map (\<lambda>i. if even i then a else b) [0..<length rs]"
proof -
  have "i < length rs \<Longrightarrow> rs ! i = (if even i then a else b)" for i
  proof (induction i)
    case 0
    then show ?case using assms(3) by (cases rs) auto
  next
    case (Suc i)
    then have "rs ! i = (if even i then a else b)" by simp
    moreover have "rs ! i \<noteq> rs ! Suc i" using Suc.prems assms(1) by (simp add: successively_conv_nth)
    moreover have "rs ! Suc i \<in> {a, b}" using Suc.prems assms(2) nth_mem by blast
    ultimately show ?case by (cases "even i") auto
  qed
  then show ?thesis by (intro nth_equalityI) auto
qed

text \<open>Property C31. The messages of a request for Claude alternate between user and assistant and
  begin with the user, whatever the conversation of the OpenAI request looks like.\<close>

theorem claude_turns_alternate:
  "map cl_Role (cr_Messages (o2c_request E info req)) =
     map (\<lambda>i. if even i then ''user'' else ''assistant'') [0..<length (cr_Messages (o2c_request E info req))]"
proof -
  obtain msgs lastRole system where t: "o2c_turns E (gr_Messages req) = (msgs, lastRole, system)" by (rule prod_cases3)
  have conv: "conversation msgs lastRole"
    using t conversation_fold [of "([], [], [])" E "gr_Messages req"] by (simp add: o2c_turns_def conversation_def)
  have roles: "map cl_Role (user_first msgs) =
      map (\<lambda>i. if even i then ''user'' else ''assistant'') [0..<length (map cl_Role (user_first msgs))]"
    using conv by (intro alternating_roles) (cases msgs; auto simp: user_first_def conversation_def successively_Cons)+
  then show ?thesis by (simp add: o2c_request_def t)
qed

section \<open>Calls of tools and their answers\<close>

datatype tool_traffic = Called string string json | Answered string json

text \<open>What a content says: its string, or the texts of its text parts, one under the other.  A content of another kind
  is shown as \<open>other\<close> shows it.\<close>

fun said_by_part :: "json \<Rightarrow> string list" where
  "said_by_part (JObj m) = (case (jlookup ''type'' m, jlookup ''text'' m) of
     (Some (JStr kind), Some (JStr said)) \<Rightarrow> if kind = ''text'' then [said] else [] | _ \<Rightarrow> [])"
| "said_by_part _ = []"

definition lines_joined :: "string list \<Rightarrow> string" where
  "lines_joined ls = drop 1 (concat (map (\<lambda>l. CHR 0x0A # l) ls))"

fun content_says :: "(json \<Rightarrow> string) \<Rightarrow> json \<Rightarrow> string" where
  "content_says other (JStr said) = said"
| "content_says other (JArr parts) = lines_joined (concat (map said_by_part parts))"
| "content_says other c = other c"

lemma lines_joined_Join: "lines_joined ls = Join ls [CHR 0x0A]"
  by (induction ls "[CHR 0x0A]" rule: Join.induct) (simp_all add: lines_joined_def)

lemma said_by_parts: "concat (map said_by_part js) = List.map_filter text_of_item (items_of js)"
proof (induction js)
  case (Cons j js)
  then show ?case
    by (cases j) (auto simp: items_of_def text_of_item_def typed_def str_at_def map_filter_simps split: option.split json.split)
qed (simp add: items_of_def map_filter_simps)

lemma content_says_extracted: "o2cExtractTextContent E c = content_says (ce_show E) c"
  by (cases c) (simp_all add: o2cExtractTextContent_def c2oJoinParts_def lines_joined_Join said_by_parts)

text \<open>What an OpenAI message says of tools: a call with its arguments read as JSON, an empty object where they are none;
  an answer with the text of its content, the empty one where there is no content.\<close>

definition openai_traffic :: "conv_env \<Rightarrow> Message \<Rightarrow> tool_traffic list" where
  "openai_traffic E m =
     (if om_Role m = ''assistant'' then
        map (\<lambda>c. Called (oc_ID c) (fc_Name (oc_Function c))
          (case ce_parse E (fc_Arguments (oc_Function c)) of None \<Rightarrow> JObj [] | Some j \<Rightarrow> j)) (om_ToolCalls m)
      else if om_Role m = ''tool'' then
        [Answered (om_ToolCallID m) (JStr (if om_Content m = JNull then [] else content_says (ce_show E) (om_Content m)))]
      else [])"

definition block_traffic :: "ClaudeContentBlock \<Rightarrow> tool_traffic list" where
  "block_traffic b = (if cb_Type b = ''tool_use'' then [Called (cb_ID b) (cb_Name b) (cb_Input b)]
     else if cb_Type b = ''tool_result'' then [Answered (cb_ToolUseID b) (cb_Content b)] else [])"

fun content_traffic :: "claude_content \<Rightarrow> tool_traffic list" where
  "content_traffic (Blocks bs) = concat (map block_traffic bs)"
| "content_traffic _ = []"

definition claude_traffic :: "ClaudeMessage list \<Rightarrow> tool_traffic list" where
  "claude_traffic msgs = concat (map (\<lambda>m. content_traffic (cl_Content m)) msgs)"

lemma block_traffic_text [simp]: "block_traffic (text_block t) = []"
  by (simp add: block_traffic_def text_block_def block_def)

lemma traffic_of_blocks: "concat (map block_traffic (o2cContentToBlocks E c)) = content_traffic c"
  by (cases c) (auto simp: o2cContentToBlocks_def split: json.split)

lemma traffic_unwrapped [simp]: "content_traffic (unwrapped bs) = concat (map block_traffic bs)"
  by (auto simp: unwrapped_def block_traffic_def split: list.split option.split)

lemma traffic_append_turn:
  "claude_traffic (append_turn E role c lastRole msgs) = claude_traffic msgs @ content_traffic c"
  by (cases msgs rule: rev_cases) (simp_all add: append_turn_def claude_traffic_def o2cMergeContents_def traffic_of_blocks)

lemma user_block_traffic: "user_block m = Some b \<Longrightarrow> block_traffic b = []"
  by (auto simp: user_block_def image_block_def o2cParseDataURL_def block_traffic_def text_block_def block_def Let_def
      split: if_splits option.splits)

lemma concat_map_Nil: "(\<And>x. x \<in> set xs \<Longrightarrow> f x = []) \<Longrightarrow> concat (map f xs) = []"
  by (induction xs) auto

lemma user_content_traffic: "content_traffic (o2cConvertUserMessage E c) = []"
proof -
  have "concat (map block_traffic (List.map_filter user_block xs)) = []" for xs
    by (rule concat_map_Nil) (auto simp: map_filter_def user_block_traffic)
  then show ?thesis by (cases c) (simp_all add: o2cConvertUserMessage_def Let_def)
qed

lemma tool_use_traffic: "concat (map block_traffic (map (tool_use_block E) tcs)) =
    map (\<lambda>c. Called (oc_ID c) (fc_Name (oc_Function c))
      (case ce_parse E (fc_Arguments (oc_Function c)) of None \<Rightarrow> JObj [] | Some j \<Rightarrow> j)) tcs"
  by (induction tcs) (simp_all add: block_traffic_def tool_use_block_def block_def)

lemma assistant_content_traffic:
  "om_Role m = ''assistant'' \<Longrightarrow> content_traffic (o2cConvertAssistantMessage E m) = openai_traffic E m"
proof -
  define think where "think = (case om_ReasoningContent m of None \<Rightarrow> []
    | Some t \<Rightarrow> if t = [] then [] else [(block ''thinking'')\<lparr>cb_Thinking := Some t\<rparr>])"
  define words where "words = (let t = o2cExtractTextContent E (om_Content m) in if t = [] then [] else [text_block t])"
  have "concat (map block_traffic think) = []"
    by (auto simp: think_def block_traffic_def block_def split: option.split)
  moreover have "concat (map block_traffic words) = []" by (simp add: words_def Let_def)
  moreover have "o2cConvertAssistantMessage E m = (let bs = think @ words @ map (tool_use_block E) (om_ToolCalls m) in
      if bs = [] then Blocks [text_block '' ''] else unwrapped bs)"
    by (simp add: o2cConvertAssistantMessage_def think_def words_def Let_def)
  moreover assume "om_Role m = ''assistant''"
  ultimately show ?thesis
    using tool_use_traffic [of E "om_ToolCalls m"] by (auto simp: openai_traffic_def Let_def)
qed

lemma traffic_step: "claude_traffic (fst (o2c_step E m st)) = claude_traffic (fst st) @ openai_traffic E m"
  by (cases st) (auto simp: o2c_step_def Let_def traffic_append_turn user_content_traffic assistant_content_traffic
      openai_traffic_def block_traffic_def block_def content_says_extracted)

lemma traffic_fold: "claude_traffic (fst (fold (o2c_step E) ms st)) = claude_traffic (fst st) @ concat (map (openai_traffic E) ms)"
  by (induction ms arbitrary: st) (simp_all add: traffic_step)

text \<open>Property C32. Every call of a tool and every answer to one reaches Claude with its id, name, input and
  text, in the order of the OpenAI request, and nothing is added.\<close>

theorem tool_traffic_survives:
  "claude_traffic (cr_Messages (o2c_request E info req)) = concat (map (openai_traffic E) (gr_Messages req))"
proof -
  obtain msgs lastRole system where t: "o2c_turns E (gr_Messages req) = (msgs, lastRole, system)" by (rule prod_cases3)
  have "claude_traffic (user_first msgs) = claude_traffic msgs"
    by (cases msgs) (simp_all add: user_first_def claude_traffic_def)
  moreover have "claude_traffic msgs = concat (map (openai_traffic E) (gr_Messages req))"
    using t traffic_fold [of E "gr_Messages req" "([], [], [])"] by (simp add: o2c_turns_def claude_traffic_def)
  ultimately show ?thesis by (simp add: o2c_request_def t)
qed

section \<open>Chains\<close>

lemma bind_SomeD: "Option.bind m f = Some y \<Longrightarrow> \<exists>x. m = Some x \<and> f x = Some y"
  by (cases m) auto

lemma dec_ptr_float: "dec_field k (dec_ptr dec_float) None m = Some (Some x) \<Longrightarrow> dec_float x = Some x"
  by (auto simp: dec_field_def dec_ptr_def split: option.splits if_splits elim!: dec_float.elims)

lemma dec_ptr_int: "dec_field k (dec_ptr dec_int) None m = Some (Some n) \<Longrightarrow> is_i64 n"
  by (auto simp: dec_field_def dec_ptr_def split: option.splits if_splits elim!: dec_int.elims)

lemma dec_ptr_some: "dec_field k (dec_ptr f) None m = Some (Some x) \<Longrightarrow> \<exists>j. f j = Some x"
  by (auto simp: dec_field_def dec_ptr_def split: option.splits if_splits)

lemma claude_floats:
  "dec_ClaudeRequest j = Some req \<Longrightarrow> cr_Temperature req = Some x \<or> cr_TopP req = Some x \<Longrightarrow> dec_float x = Some x"
  unfolding dec_ClaudeRequest_def by (auto dest!: bind_SomeD dest: dec_ptr_float)

lemma message_ok_no_calls [simp]: "om_ToolCalls m = [] \<Longrightarrow> message_ok m"
  by (simp add: message_ok_def)

lemma message_ok_user: "m \<in> set (flush_parts ps) \<Longrightarrow> message_ok m"
  by (cases ps; cases "tl ps") (auto simp: flush_parts_def user_text_def zero_Message_def split: if_splits)

lemma message_ok_items:
  "\<forall>m \<in> set (fst st). message_ok m \<Longrightarrow> \<forall>m \<in> set (fst (fold (user_item E) items st)). message_ok m"
proof (induction items arbitrary: st)
  case (Cons i items)
  have "\<forall>m \<in> set (fst (user_item E i st)). message_ok m"
    using Cons.prems by (cases st) (auto simp: user_item_def message_ok_user zero_Message_def split: option.split)
  then show ?case using Cons.IH by simp
qed simp

lemma message_ok_claude_user: "m \<in> set (convertClaudeUserMessage E c) \<Longrightarrow> message_ok m"
proof (cases c)
  case (JArr v)
  obtain rs ps where r: "fold (user_item E) (items_of v) ([], []) = (rs, ps)" by fastforce
  moreover have "\<forall>m \<in> set rs. message_ok m"
    using message_ok_items [of "([], [])" E "items_of v"] r by simp
  moreover assume "m \<in> set (convertClaudeUserMessage E c)"
  ultimately show ?thesis
    using JArr by (auto simp: convertClaudeUserMessage_def Let_def message_ok_user user_text_def zero_Message_def split: if_splits)
qed (auto simp: convertClaudeUserMessage_def Let_def user_text_def zero_Message_def)

lemma message_ok_claude_assistant: "message_ok (convertClaudeAssistantMessage E c)"
  by (cases c) (auto simp: convertClaudeAssistantMessage_def Let_def message_ok_def zero_Message_def map_filter_def call_of_item_def
      is_i64_def split: if_splits)

lemma is_i64_4096 [simp]: "is_i64 4096"
  by (simp add: is_i64_def)

lemma c2o_request_ok: "dec_ClaudeRequest j = Some req \<Longrightarrow> request_ok (c2o_request E info req)"
  using claude_floats [of j req]
  by (auto simp: request_ok_def c2o_request_def zero_request_def c2o_system_def Let_def c2o_message_def message_ok_claude_user
      message_ok_claude_assistant zero_Message_def split: if_splits option.splits)

lemma gemini_floats:
  "dec_GeminiGenerationConfig j = Some gc \<Longrightarrow> gg_Temperature gc = Some x \<or> gg_TopP gc = Some x \<Longrightarrow> dec_float x = Some x"
  unfolding dec_GeminiGenerationConfig_def by (clarsimp dest!: bind_SomeD, elim disjE; clarsimp, erule dec_ptr_float)

lemma gemini_seed: "dec_GeminiGenerationConfig j = Some gc \<Longrightarrow> gg_Seed gc = Some n \<Longrightarrow> is_i64 n"
  unfolding dec_GeminiGenerationConfig_def by (clarsimp dest!: bind_SomeD, erule dec_ptr_int)

lemma gemini_request_config:
  "dec_GeminiChatRequest j = Some req \<Longrightarrow> gq_GenerationConfig req = Some gc \<Longrightarrow> \<exists>j'. dec_GeminiGenerationConfig j' = Some gc"
  unfolding dec_GeminiChatRequest_def by (clarsimp dest!: bind_SomeD, erule dec_ptr_some)

definition calls_ok :: "g2o_state \<Rightarrow> bool" where
  "calls_ok st \<longleftrightarrow> (\<forall>c \<in> set (g2_calls st). oc_Index c = 0) \<and> (\<forall>m \<in> set (g2_responses st). om_ToolCalls m = [])"

lemma calls_ok_parts: "calls_ok st \<Longrightarrow> calls_ok (fold (g2o_part E) ps st)"
proof (induction ps arbitrary: st)
  case (Cons p ps)
  have "calls_ok (g2o_part E p st)"
    using Cons.prems by (auto simp: calls_ok_def g2o_part_def Let_def zero_Message_def split: option.split)
  then show ?case using Cons.IH by simp
qed simp

lemma message_ok_content: "m \<in> set (fst (g2oConvertContent E c ci)) \<Longrightarrow> message_ok m"
proof -
  obtain n ids where ci: "ci = (n, ids)" by (cases ci)
  define st where "st = fold (g2o_part E) (gc_Parts c) \<lparr>g2_texts = [], g2_images = [], g2_calls = [], g2_responses = [],
    g2_counter = n, g2_ids = ids\<rparr>"
  have "calls_ok st" unfolding st_def by (rule calls_ok_parts) (simp add: calls_ok_def)
  moreover assume "m \<in> set (fst (g2oConvertContent E c ci))"
  ultimately show ?thesis
    by (auto simp: ci g2oConvertContent_def st_def [symmetric] Let_def g2o_user_def g2o_assistant_def user_text_def zero_Message_def
        calls_ok_def message_ok_def is_i64_def split: if_splits)
qed

lemma message_ok_emit:
  "\<forall>m \<in> set (fst acc) \<union> set (snd acc) \<union> set ms. message_ok m \<Longrightarrow>
     \<forall>m \<in> set (fst (fold g2o_emit ms acc)) \<union> set (snd (fold g2o_emit ms acc)). message_ok m"
proof (induction ms arbitrary: acc)
  case (Cons x ms)
  have "\<forall>m \<in> set (fst (g2o_emit x acc)) \<union> set (snd (g2o_emit x acc)) \<union> set ms. message_ok m"
    using Cons.prems by (cases acc) (auto simp: g2o_emit_def)
  then show ?case using Cons.IH [of "g2o_emit x acc"] by simp
qed simp

lemma message_ok_contents:
  "\<forall>m \<in> set (fst acc) \<union> set (snd acc). message_ok m \<Longrightarrow>
     \<forall>m \<in> set (fst (g2o_contents E cs ci acc)) \<union> set (snd (g2o_contents E cs ci acc)). message_ok m"
proof (induction cs arbitrary: ci acc)
  case (Cons c cs)
  obtain msgs ci' where c: "g2oConvertContent E c ci = (msgs, ci')" by (cases "g2oConvertContent E c ci")
  have "\<forall>m \<in> set (fst acc) \<union> set (snd acc) \<union> set msgs. message_ok m"
    using Cons.prems c message_ok_content [of _ E c ci] by auto
  then show ?case using Cons.IH [OF message_ok_emit] c by simp
qed simp

lemma g2o_request_ok:
  assumes "dec_GeminiChatRequest j = Some req" and "\<And>x. is_i64 (ce_trunc E x)"
  shows "request_ok (g2o_request E info req)"
proof -
  obtain out pending where o': "g2o_contents E (gq_Contents req) (0, Map.empty) (g2o_system (gq_SystemInstruction req), []) = (out, pending)"
    by fastforce
  have "\<forall>m \<in> set (g2o_system (gq_SystemInstruction req)). message_ok m"
    by (auto simp: g2o_system_def zero_Message_def Let_def split: option.splits)
  then have "\<forall>m \<in> set out \<union> set pending. message_ok m"
    using message_ok_contents [of "(g2o_system (gq_SystemInstruction req), [])" E "gq_Contents req" "(0, Map.empty)"] by (simp add: o')
  moreover have "dec_float x = Some x" if "gq_GenerationConfig req = Some gc" "gg_Temperature gc = Some x \<or> gg_TopP gc = Some x" for gc x
    using gemini_request_config [OF assms(1) that(1)] gemini_floats that(2) by blast
  moreover have "is_i64 n" if "gq_GenerationConfig req = Some gc" "gg_Seed gc = Some n" for gc n
    using gemini_request_config [OF assms(1) that(1)] gemini_seed that(2) by blast
  ultimately show ?thesis
    using assms(2) by (cases "gq_GenerationConfig req")
      (auto simp: request_ok_def g2o_request_def o' Let_def g2o_config_def zero_request_def)
qed

text \<open>A request that goes through OpenAI's format on its way between Claude and Gemini loses nothing
  by being written and read again: the chain is the composition of its two halves, and its errors are those of
  the first one.\<close>

theorem chains_compose:
  assumes "\<And>x. is_i64 (ce_trunc E x)"
  shows "ConvertClaudeToGemini E body info =
      (case Option.bind body dec_ClaudeRequest of
         None \<Rightarrow> Inl (ErrWrap (ErrWrap (ErrExt ''json: cannot unmarshal'') ''parse claude request'') ''claude to openai'')
       | Some req \<Rightarrow> Inr (gemini_request_json (o2g_request E info (c2o_request E info req)))) \<and>
    ConvertGeminiToClaude E body info =
      (case Option.bind body dec_GeminiChatRequest of
         None \<Rightarrow> Inl (ErrWrap (ErrWrap (ErrExt ''json: cannot unmarshal'') ''parse gemini request'') ''gemini to openai conversion failed'')
       | Some req \<Rightarrow> Inr (claude_request_json (o2c_request E info (g2o_request E info req))))"
proof
  have claude: "dec_request E (request_json (c2o_request E info req)) = Some (c2o_request E info req)"
    if "Option.bind body dec_ClaudeRequest = Some req" for req
    using that bind_SomeD c2o_request_ok request_roundtrip by metis
  then show "ConvertClaudeToGemini E body info = (case Option.bind body dec_ClaudeRequest of
      None \<Rightarrow> Inl (ErrWrap (ErrWrap (ErrExt ''json: cannot unmarshal'') ''parse claude request'') ''claude to openai'')
    | Some req \<Rightarrow> Inr (gemini_request_json (o2g_request E info (c2o_request E info req))))"
    by (simp add: ConvertClaudeToGemini_def ConvertClaudeToOpenAI_def ConvertOpenAIToGemini_def read_reader_def unmarshal_def split: option.split)
next
  have gemini: "dec_request E (request_json (g2o_request E info req)) = Some (g2o_request E info req)"
    if "Option.bind body dec_GeminiChatRequest = Some req" for req
    using that bind_SomeD g2o_request_ok [OF _ assms] request_roundtrip by metis
  then show "ConvertGeminiToClaude E body info = (case Option.bind body dec_GeminiChatRequest of
      None \<Rightarrow> Inl (ErrWrap (ErrWrap (ErrExt ''json: cannot unmarshal'') ''parse gemini request'') ''gemini to openai conversion failed'')
    | Some req \<Rightarrow> Inr (claude_request_json (o2c_request E info (g2o_request E info req))))"
    by (simp add: ConvertGeminiToClaude_def ConvertGeminiToOpenAI_def ConvertOpenAIToClaude_def read_reader_def unmarshal_def split: option.split)
qed

definition sample_body :: json where
  "sample_body = JObj [(''contents'', JArr [JObj [(''role'', JStr ''model''), (''parts'', JArr [JObj [(''text'', JStr ''hi'')]])]]),
     (''messages'', JArr [JObj [(''role'', JStr ''user''), (''content'', JStr ''hi'')]])]"

theorem chains_compose_witness:
  "isl (ConvertClaudeToGemini sample_env None sample_info) \<and> isl (ConvertGeminiToClaude sample_env None sample_info) \<and>
   \<not> isl (ConvertClaudeToGemini sample_env (Some sample_body) sample_info) \<and>
   \<not> isl (ConvertGeminiToClaude sample_env (Some sample_body) sample_info)"
proof -
  have "is_i64 (ce_trunc sample_env x)" for x by (simp add: sample_env_def is_i64_def)
  note chain = chains_compose [OF this]
  have "dec_ClaudeRequest sample_body \<noteq> None" and "dec_GeminiChatRequest sample_body \<noteq> None" by code_simp+
  then show ?thesis using chain [of None sample_info] chain [of "Some sample_body" sample_info] by (auto split: option.splits)
qed

end
