(* ===== verification/GeminiClaims.thy ===== *)
theory GeminiClaims
  imports ConvClaims
begin

text \<open>
  What reaches Gemini of a conversation in OpenAI's format (\<^verbatim>\<open>relay/channel/gemini/converter.go\<close>).
\<close>

section \<open>Tools of a Gemini request\<close>

definition gpart_traffic :: "GeminiPart \<Rightarrow> tool_traffic list" where
  "gpart_traffic p = (case gp_FunctionCall p of None \<Rightarrow> [] | Some c \<Rightarrow> [Called [] (gfc_FunctionName c) (the (gfc_Arguments c))]) @
     (case gp_FunctionResponse p of None \<Rightarrow> [] | Some r \<Rightarrow> [Answered (gfr_Name r) (gfr_Response r)])"

definition gemini_traffic :: "GeminiContent list \<Rightarrow> tool_traffic list" where
  "gemini_traffic cs = concat (map (\<lambda>c. concat (map gpart_traffic (gc_Parts c))) cs)"

text \<open>What the arguments of a call say: an object or a null they are the text of, and otherwise the text itself,
  under \<^verbatim>\<open>raw\<close>; no text is no argument.  What an answer says: the value its text is the JSON of, or its text.\<close>

fun object_or_null :: "json \<Rightarrow> bool" where
  "object_or_null (JObj m) = True"
| "object_or_null JNull = True"
| "object_or_null _ = False"

definition arguments_say :: "(string \<rightharpoonup> json) \<Rightarrow> string \<Rightarrow> json" where
  "arguments_say parse args = (case parse args of
     Some j \<Rightarrow> if args = [] then JObj [] else if object_or_null j then j else JObj [(''raw'', JStr args)]
   | None \<Rightarrow> JObj (if args = [] then [] else [(''raw'', JStr args)]))"

definition answer_says :: "(string \<rightharpoonup> json) \<Rightarrow> string \<Rightarrow> json" where
  "answer_says parse said = (case parse said of Some j \<Rightarrow> if said = [] then JStr said else j | None \<Rightarrow> JStr said)"

lemma arguments_say_args: "call_args E args = arguments_say (ce_parse E) args"
  by (auto simp: call_args_def arguments_say_def split: option.split json.split)

lemma answer_says_response: "tool_response E said = answer_says (ce_parse E) said"
  by (simp add: tool_response_def answer_says_def split: option.split)

lemma content_says_gemini: "o2gExtractText c = content_says (\<lambda>_. []) c"
  by (cases c) (simp_all add: o2gExtractText_def lines_joined_Join said_by_parts)

text \<open>Gemini knows no ids: a call is named, and an answer carries its own name, or else the name the last call
  with its id had.\<close>

fun named_traffic :: "conv_env \<Rightarrow> (string \<rightharpoonup> string) \<Rightarrow> Message list \<Rightarrow> tool_traffic list" where
  "named_traffic E ids [] = []"
| "named_traffic E ids (m # ms) =
     (if om_Role m = ''assistant'' then
        map (\<lambda>c. Called [] (fc_Name (oc_Function c)) (arguments_say (ce_parse E) (fc_Arguments (oc_Function c)))) (om_ToolCalls m) @
        named_traffic E (fold (\<lambda>c ids. ids(oc_ID c \<mapsto> fc_Name (oc_Function c))) (om_ToolCalls m) ids) ms
      else if om_Role m = ''tool'' then
        Answered (if om_Name m \<noteq> [] then om_Name m else case ids (om_ToolCallID m) of None \<Rightarrow> [] | Some n \<Rightarrow> n)
          (answer_says (ce_parse E) (content_says (\<lambda>_. []) (om_Content m))) # named_traffic E ids ms
      else named_traffic E ids ms)"

definition no_tools :: "GeminiPart \<Rightarrow> bool" where
  "no_tools p \<longleftrightarrow> gp_FunctionCall p = None \<and> gp_FunctionResponse p = None"

lemma no_tools_simps [simp]:
  "no_tools (zero_gpart\<lparr>gp_Text := t\<rparr>)" "no_tools (inline_part m d)" "no_tools (zero_gpart\<lparr>gp_FileData := f\<rparr>)"
  "no_tools (zero_gpart\<lparr>gp_Text := t, gp_Thought := x\<rparr>)"
  by (simp_all add: no_tools_def zero_gpart_def inline_part_def)

lemma no_tools_traffic: "\<forall>p \<in> set ps. no_tools p \<Longrightarrow> concat (map gpart_traffic ps) = []"
  by (auto simp: no_tools_def gpart_traffic_def)

lemma markdown_no_tools: "\<forall>p \<in> set (fst (markdown_loop t)). no_tools p"
proof (induction t rule: markdown_loop.induct)
  case IH: (1 t)
  show ?case
  proof (cases "next_image t")
    case None
    then show ?thesis by (subst markdown_loop.simps) simp
  next
    case (Some x)
    obtain before url rest where x: "x = (before, url, rest)" by (rule prod_cases3)
    obtain ps left where r: "markdown_loop rest = (ps, left)" by (cases "markdown_loop rest")
    have "\<forall>p \<in> set ps. no_tools p" using IH.IH [OF Some x [symmetric] HOL.refl] r by simp
    moreover have "markdown_loop t = ((if before \<noteq> [] then [zero_gpart\<lparr>gp_Text := before\<rparr>] else []) @
        (case o2gParseDataURL url of None \<Rightarrow> [] | Some (mimeType, dat) \<Rightarrow> [inline_part mimeType dat]) @ ps, left)"
      by (subst markdown_loop.simps) (simp add: Some x r)
    ultimately show ?thesis by (auto split: option.split)
  qed
qed

lemma parse_no_tools: "p \<in> set (o2gParseMarkdownImages t) \<Longrightarrow> no_tools p"
  using markdown_no_tools [of t]
  by (cases "markdown_loop t") (auto simp: o2gParseMarkdownImages_def split: if_splits)

lemma user_gparts_no_tools: "\<forall>p \<in> set (user_gparts m). no_tools p"
proof -
  have image: "\<forall>p \<in> set (case x of None \<Rightarrow> [] | Some (t, d) \<Rightarrow> [inline_part t d]). no_tools p" for x
    by (cases x) auto
  have audio: "\<forall>p \<in> set (case x of None \<Rightarrow> [] | Some o' \<Rightarrow> (case f o' of None \<Rightarrow> [] | Some d \<Rightarrow> [inline_part (g o' d) d])). no_tools p" for x f g
    by (auto split: option.split)
  have doc: "\<forall>p \<in> set (case x of None \<Rightarrow> [] | Some o' \<Rightarrow> (case f o' of None \<Rightarrow> [] | Some d \<Rightarrow> [zero_gpart\<lparr>gp_FileData := g o' d\<rparr>])). no_tools p" for x f g
    by (auto split: option.split)
  have words: "\<forall>p \<in> set (case x of None \<Rightarrow> [] | Some t \<Rightarrow> if t = [] then [] else o2gParseMarkdownImages t). no_tools p" for x
    by (auto simp: parse_no_tools split: option.split)
  note kinds = image audio doc words
  show ?thesis
    unfolding user_gparts_def Let_def
    by (cases "typed ''text'' m"; cases "typed ''image_url'' m"; cases "typed ''input_audio'' m"; cases "typed ''file'' m";
        simp only: if_True if_False list.set ball_empty)
      (rule kinds)+
qed

lemma user_parts_no_tools: "p \<in> set (o2gConvertUserParts c) \<Longrightarrow> no_tools p"
  using user_gparts_no_tools by (cases c) (auto simp: o2gConvertUserParts_def parse_no_tools split: if_splits)

lemma gemini_traffic_append [simp]: "gemini_traffic (cs @ [c]) = gemini_traffic cs @ concat (map gpart_traffic (gc_Parts c))"
  by (simp add: gemini_traffic_def)

lemma gpart_traffic_simps [simp]:
  "gpart_traffic (zero_gpart\<lparr>gp_FunctionCall := Some c\<rparr>) = [Called [] (gfc_FunctionName c) (the (gfc_Arguments c))]"
  "gpart_traffic (zero_gpart\<lparr>gp_FunctionResponse := Some r\<rparr>) = [Answered (gfr_Name r) (gfr_Response r)]"
  by (simp_all add: gpart_traffic_def zero_gpart_def)

lemma assistant_parts_traffic: "concat (map gpart_traffic (o2gConvertAssistantParts E m)) =
    map (\<lambda>c. Called [] (fc_Name (oc_Function c)) (arguments_say (ce_parse E) (fc_Arguments (oc_Function c)))) (om_ToolCalls m)"
proof -
  have calls: "concat (map gpart_traffic (map (\<lambda>tc. zero_gpart\<lparr>gp_FunctionCall := Some \<lparr>gfc_ID = [], gfc_FunctionName = fc_Name (oc_Function tc),
      gfc_Arguments = Some (arguments_say (ce_parse E) (fc_Arguments (oc_Function tc)))\<rparr>\<rparr>) tcs)) =
    map (\<lambda>c. Called [] (fc_Name (oc_Function c)) (arguments_say (ce_parse E) (fc_Arguments (oc_Function c)))) tcs" for tcs
    by (induction tcs) simp_all
  have "gpart_traffic (zero_gpart\<lparr>gp_Text := t\<rparr>) = []" "gpart_traffic (zero_gpart\<lparr>gp_Text := t, gp_Thought := x\<rparr>) = []" for t x
    by (simp_all add: gpart_traffic_def zero_gpart_def)
  then show ?thesis by (simp add: o2gConvertAssistantParts_def arguments_say_args Let_def calls del: map_map) (auto split: option.split)
qed

lemma system_text_no_traffic: "gemini_traffic [] = []"
  by (simp add: gemini_traffic_def)

lemma gemini_traffic_step:
  "gemini_traffic (fst (o2g_step E m (contents, ids, system))) @
     named_traffic E (fst (snd (o2g_step E m (contents, ids, system)))) ms = gemini_traffic contents @ named_traffic E ids (m # ms)"
proof -
  have user: "concat (map gpart_traffic (o2gConvertUserParts (om_Content m))) = []"
    by (intro no_tools_traffic) (simp add: user_parts_no_tools)
  have answer: "gemini_traffic (butlast cs) @ concat (map gpart_traffic (gc_Parts (last cs))) = gemini_traffic cs" if "cs \<noteq> []" for cs
    using that by (cases cs rule: rev_cases) simp_all
  show ?thesis
  proof (cases "om_Role m = ''tool''")
    case True
    then show ?thesis
      using answer [of contents] by (simp add: o2g_step_def Let_def answer_says_response content_says_gemini)
  next
    case False
    then show ?thesis
      using user assistant_parts_traffic [of E m] by (auto simp: o2g_step_def Let_def)
  qed
qed

lemma gemini_traffic_fold: "gemini_traffic (fst (fold (o2g_step E) ms (contents, ids, system))) = gemini_traffic contents @ named_traffic E ids ms"
proof (induction ms arbitrary: contents ids system)
  case (Cons m ms)
  obtain cs ids' sys' where st: "o2g_step E m (contents, ids, system) = (cs, ids', sys')" by (rule prod_cases3)
  then show ?case using Cons.IH [of cs ids' sys'] gemini_traffic_step [of E m contents ids system ms] by simp
qed simp

text \<open>Property C36. Every call of a tool and every answer reaches Gemini, in order, with its arguments and content; an
  answer is named after the last call with its id.\<close>

theorem gemini_tool_traffic:
  "gemini_traffic (gq_Contents (o2g_request E info req)) = named_traffic E Map.empty (gr_Messages req)"
proof -
  obtain cs ids system where st: "fold (o2g_step E) (gr_Messages req) ([], Map.empty, []) = (cs, ids, system)" by (rule prod_cases3)
  then show ?thesis
    using gemini_traffic_fold [of E "gr_Messages req" "[]" Map.empty "[]"] by (simp add: o2g_request_def gemini_traffic_def)
qed

end
