(* ===== verification/ResponsesConv.thy ===== *)
theory ResponsesConv
  imports GeminiConv
begin

text \<open>
  Requests of the Responses API and of Chat Completions, each turned into the other
  (\<^verbatim>\<open>relay/channel/openai/converter.go\<close>), and the chains that go on to Claude and Gemini.
  The code builds these bodies as maps; a body is the document.  Of the fields no converter reads only
  their types are kept, for they decide whether a body is accepted.
\<close>

section \<open>Fields that are only checked\<close>

definition fields_ok :: "(string \<times> (json \<Rightarrow> bool)) list \<Rightarrow> (string \<times> json) list \<Rightarrow> bool" where
  "fields_ok ps m \<longleftrightarrow> list_all (\<lambda>(k, p). case jlookup k m of None \<Rightarrow> True | Some v \<Rightarrow> p v) ps"

definition reads_as :: "(json \<Rightarrow> 'a option) \<Rightarrow> json \<Rightarrow> bool" where
  "reads_as f j \<longleftrightarrow> f j \<noteq> None"

definition object_of :: "(string \<times> (json \<Rightarrow> bool)) list \<Rightarrow> json \<Rightarrow> bool" where
  "object_of ps j \<longleftrightarrow> (case dec_object j of None \<Rightarrow> False | Some m \<Rightarrow> fields_ok ps m)"

definition array_of :: "(json \<Rightarrow> bool) \<Rightarrow> json \<Rightarrow> bool" where
  "array_of p j \<longleftrightarrow> (case dec_array j of None \<Rightarrow> False | Some xs \<Rightarrow> list_all p xs)"

definition strings :: "string list \<Rightarrow> (string \<times> (json \<Rightarrow> bool)) list" where
  "strings ks = map (\<lambda>k. (k, reads_as dec_string)) ks"

definition ints :: "string list \<Rightarrow> (string \<times> (json \<Rightarrow> bool)) list" where
  "ints ks = map (\<lambda>k. (k, reads_as dec_int)) ks"

definition bools :: "string list \<Rightarrow> (string \<times> (json \<Rightarrow> bool)) list" where
  "bools ks = map (\<lambda>k. (k, reads_as dec_bool)) ks"

definition floats :: "string list \<Rightarrow> (string \<times> (json \<Rightarrow> bool)) list" where
  "floats ks = map (\<lambda>k. (k, reads_as dec_float)) ks"

section \<open>The request\<close>

record Reasoning =
  rz_Effort :: string
  rz_Summary :: string

record OpenAIResponsesRequest =
  oq_Model :: string
  oq_Input :: raw
  oq_Instructions :: raw
  oq_MaxOutputTokens :: "int option"
  oq_Metadata :: raw
  oq_Reasoning :: "Reasoning option"
  oq_Stream :: "bool option"
  oq_Temperature :: raw
  oq_ToolChoice :: raw
  oq_Tools :: raw
  oq_TopP :: raw
  oq_Logprobs :: "int option"
  oq_TopLogProbs :: "int option"
  oq_ServiceTier :: string
  oq_PromptCacheKey :: string

definition dec_Reasoning :: "json \<Rightarrow> Reasoning option" where
  "dec_Reasoning j = do { m \<leftarrow> dec_object j; e \<leftarrow> dec_field ''effort'' dec_string [] m; s \<leftarrow> dec_field ''summary'' dec_string [] m;
     Some \<lparr>rz_Effort = e, rz_Summary = s\<rparr> }"

definition unread_ok :: "(string \<times> json) list \<Rightarrow> bool" where
  "unread_ok m \<longleftrightarrow> fields_ok (strings [''previous_response_id'', ''prompt_cache_retention'', ''safety_identifier''] @
     [(''stream_options'', reads_as dec_StreamOptions), (''max_tool_calls'', reads_as dec_uint)] @ bools [''background'']) m"

definition dec_OpenAIResponsesRequest :: "json \<Rightarrow> OpenAIResponsesRequest option" where
  "dec_OpenAIResponsesRequest j = do { m \<leftarrow> dec_object j; mo \<leftarrow> dec_field ''model'' dec_string [] m;
     inp \<leftarrow> dec_field ''input'' dec_raw None m; ins \<leftarrow> dec_field ''instructions'' dec_raw None m;
     mt \<leftarrow> dec_field ''max_output_tokens'' (dec_ptr dec_uint) None m; md \<leftarrow> dec_field ''metadata'' dec_raw None m;
     re \<leftarrow> dec_field ''reasoning'' (dec_ptr dec_Reasoning) None m; st \<leftarrow> dec_field ''stream'' (dec_ptr dec_bool) None m;
     te \<leftarrow> dec_field ''temperature'' (dec_ptr dec_float) None m; tc \<leftarrow> dec_field ''tool_choice'' dec_raw None m;
     tl \<leftarrow> dec_field ''tools'' dec_raw None m; tp \<leftarrow> dec_field ''top_p'' (dec_ptr dec_float) None m;
     lp \<leftarrow> dec_field ''logprobs'' (dec_ptr dec_int) None m; tlp \<leftarrow> dec_field ''top_logprobs'' (dec_ptr dec_int) None m;
     ti \<leftarrow> dec_field ''service_tier'' dec_string [] m; pk \<leftarrow> dec_field ''prompt_cache_key'' dec_string [] m;
     if unread_ok m then Some \<lparr>oq_Model = mo, oq_Input = inp, oq_Instructions = ins, oq_MaxOutputTokens = mt, oq_Metadata = md,
       oq_Reasoning = re, oq_Stream = st, oq_Temperature = te, oq_ToolChoice = tc, oq_Tools = tl, oq_TopP = tp, oq_Logprobs = lp,
       oq_TopLogProbs = tlp, oq_ServiceTier = ti, oq_PromptCacheKey = pk\<rparr> else None }"

section \<open>From Responses to Chat Completions\<close>

record r2cInputItem =
  ri2_Type :: string
  ri2_Role :: string
  ri2_Content :: raw
  ri2_CallID :: string
  ri2_Output :: string

record r2cContentPart =
  rp_Type :: string
  rp_Text :: string
  rp_ImageURL :: string
  rp_URL :: string
  rp_Detail :: string

definition dec_r2cInputItem :: "json \<Rightarrow> r2cInputItem option" where
  "dec_r2cInputItem j = do { m \<leftarrow> dec_object j; t \<leftarrow> dec_field ''type'' dec_string [] m; ro \<leftarrow> dec_field ''role'' dec_string [] m;
     c \<leftarrow> dec_field ''content'' dec_raw None m; ci \<leftarrow> dec_field ''call_id'' dec_string [] m; ou \<leftarrow> dec_field ''output'' dec_string [] m;
     if fields_ok (strings [''text'']) m
     then Some \<lparr>ri2_Type = t, ri2_Role = ro, ri2_Content = c, ri2_CallID = ci, ri2_Output = ou\<rparr> else None }"

definition dec_r2cContentPart :: "json \<Rightarrow> r2cContentPart option" where
  "dec_r2cContentPart j = do { m \<leftarrow> dec_object j; t \<leftarrow> dec_field ''type'' dec_string [] m; tx \<leftarrow> dec_field ''text'' dec_string [] m;
     iu \<leftarrow> dec_field ''image_url'' dec_string [] m; u \<leftarrow> dec_field ''url'' dec_string [] m; d \<leftarrow> dec_field ''detail'' dec_string [] m;
     Some \<lparr>rp_Type = t, rp_Text = tx, rp_ImageURL = iu, rp_URL = u, rp_Detail = d\<rparr> }"

definition chat_message :: "string \<Rightarrow> json \<Rightarrow> json" where
  "chat_message role content = JObj [(''content'', content), (''role'', JStr role)]"

definition chat_text :: "string \<Rightarrow> json" where
  "chat_text t = JObj [(''text'', JStr t), (''type'', JStr ''text'')]"

definition chat_image :: "r2cContentPart \<Rightarrow> json option" where
  "chat_image p = (let u = (if rp_ImageURL p = [] then rp_URL p else rp_ImageURL p) in
     if u = [] then None
     else Some (JObj [(''image_url'', JObj (doc [str ''detail'' (rp_Detail p), (True, ''url'', JStr u)])), (''type'', JStr ''image_url'')]))"

definition chat_part :: "r2cContentPart \<Rightarrow> json option" where
  "chat_part p = (if rp_Type p = ''input_text'' \<or> rp_Type p = ''output_text'' then Some (chat_text (rp_Text p))
     else if rp_Type p = ''input_image'' then chat_image p else None)"

text \<open>The text of a single part of type text.\<close>

definition single_text :: "json list \<Rightarrow> json option" where
  "single_text ps = (case ps of
     [JObj m] \<Rightarrow> if jlookup ''type'' m = Some (JStr ''text'') then jlookup ''text'' m else None | _ \<Rightarrow> None)"

definition r2cConvertMessage :: "r2cInputItem \<Rightarrow> json option" where
  "r2cConvertMessage item =
     (let role = (if ri2_Role item = [] then ''user'' else ri2_Role item) in
      case ri2_Content item of None \<Rightarrow> None
      | Some c \<Rightarrow> (case dec_string c of Some textContent \<Rightarrow> Some (chat_message role (JStr textContent))
          | None \<Rightarrow> (case dec_list dec_r2cContentPart c of None \<Rightarrow> None
              | Some parts \<Rightarrow>
                  let chatParts = List.map_filter chat_part parts in
                  if chatParts = [] then None
                  else Some (chat_message role (case single_text chatParts of Some t \<Rightarrow> t | None \<Rightarrow> JArr chatParts)))))"

definition input_message :: "json \<Rightarrow> json option" where
  "input_message raw' = (case dec_r2cInputItem raw' of None \<Rightarrow> None
     | Some item \<Rightarrow>
         if ri2_Type item = ''message'' then r2cConvertMessage item
         else if ri2_Type item = ''function_call_output'' then
           Some (JObj [(''content'', JStr (ri2_Output item)), (''role'', JStr ''tool''), (''tool_call_id'', JStr (ri2_CallID item))])
         else if ri2_Role item \<noteq> [] then r2cConvertMessage item else None)"

definition r2cConvertInputToMessages :: "raw \<Rightarrow> go_err + json list" where
  "r2cConvertInputToMessages input = (case input of None \<Rightarrow> Inr []
     | Some j \<Rightarrow> (case dec_string j of Some simpleText \<Rightarrow> Inr [chat_message ''user'' (JStr simpleText)]
         | None \<Rightarrow> (case dec_array j of
              None \<Rightarrow> Inl (ErrWrap (ErrExt ''json: cannot unmarshal'') ''input must be string or array'')
            | Some items \<Rightarrow> Inr (List.map_filter input_message items))))"

text \<open>\<^verbatim>\<open>m[k]\<close> of a decoded map: nil where the key is missing.\<close>

definition any_at :: "string \<Rightarrow> (string \<times> json) list \<Rightarrow> json" where
  "any_at k m = (case jlookup k m of None \<Rightarrow> JNull | Some v \<Rightarrow> v)"

definition r2cConvertTools :: "json \<Rightarrow> json list" where
  "r2cConvertTools toolsRaw = (case dec_list dec_object toolsRaw of None \<Rightarrow> []
     | Some tools \<Rightarrow> map (\<lambda>t. JObj [(''function'', JObj [(''description'', any_at ''description'' t), (''name'', any_at ''name'' t),
           (''parameters'', any_at ''parameters'' t)]), (''type'', JStr ''function'')])
         (filter (\<lambda>t. str_or ''type'' t = ''function'') tools))"

definition function_name :: "(string \<times> json) list \<Rightarrow> string option" where
  "function_name tc = (if typed ''function'' tc then Option.bind (obj_at ''function'' tc) (str_at ''name'') else None)"

definition r2cConvertToolChoice :: "json \<Rightarrow> json" where
  "r2cConvertToolChoice tcRaw = (case dec_string tcRaw of Some strVal \<Rightarrow> JStr strVal
     | None \<Rightarrow> (case dec_object tcRaw of None \<Rightarrow> JStr ''auto''
         | Some tc \<Rightarrow> (case function_name tc of Some name \<Rightarrow> function_choice name | None \<Rightarrow> JObj tc)))"

definition r2c_instructions :: "raw \<Rightarrow> json list" where
  "r2c_instructions ins = (case Option.bind ins dec_string of None \<Rightarrow> []
     | Some s \<Rightarrow> if s \<noteq> [] then [chat_message ''system'' (JStr s)] else [])"

definition r2c_body :: "RelayInfo \<Rightarrow> OpenAIResponsesRequest \<Rightarrow> json list \<Rightarrow> json" where
  "r2c_body info req inputMessages =
     (let lp = (case oq_Logprobs req of Some n \<Rightarrow> Some n | None \<Rightarrow> oq_TopLogProbs req);
          tools = (case oq_Tools req of None \<Rightarrow> [] | Some t \<Rightarrow> r2cConvertTools t) in
      JObj (doc [
        (True, ''model'', JStr (if cm_IsModelMapped (ri_ChannelMeta info) then cm_UpstreamModelName (ri_ChannelMeta info) else oq_Model req)),
        (True, ''messages'', JArr (r2c_instructions (oq_Instructions req) @ inputMessages)),
        opt JBool ''stream'' (oq_Stream req),
        (oq_Stream req = Some True, ''stream_options'', JObj [(''include_usage'', JBool True)]),
        opt (\<lambda>j. j) ''temperature'' (oq_Temperature req), opt (\<lambda>j. j) ''top_p'' (oq_TopP req),
        opt JNum ''max_tokens'' (oq_MaxOutputTokens req),
        (lp \<noteq> None, ''logprobs'', JBool True), opt JNum ''top_logprobs'' lp,
        lst (\<lambda>j. j) ''tools'' tools, opt r2cConvertToolChoice ''tool_choice'' (oq_ToolChoice req),
        str ''reasoning_effort'' (case oq_Reasoning req of None \<Rightarrow> [] | Some r \<Rightarrow> rz_Effort r),
        str ''service_tier'' (oq_ServiceTier req), str ''prompt_cache_key'' (oq_PromptCacheKey req),
        opt (\<lambda>j. j) ''metadata'' (oq_Metadata req)]))"

definition ConvertResponsesToOpenAI :: "raw \<Rightarrow> RelayInfo \<Rightarrow> go_err + json" where
  "ConvertResponsesToOpenAI body info = (case unmarshal ''parse responses request'' dec_OpenAIResponsesRequest body of
     Inl e \<Rightarrow> Inl e
   | Inr req \<Rightarrow> (case r2cConvertInputToMessages (oq_Input req) of
        Inl e \<Rightarrow> Inl (ErrWrap e ''convert input to messages'')
      | Inr msgs \<Rightarrow> Inr (r2c_body info req msgs)))"

text \<open>The format of the client decides; anything else is OpenAI's already.\<close>

definition ConvertToOpenAI :: "conv_env \<Rightarrow> raw \<Rightarrow> RelayInfo \<Rightarrow> go_err + raw" where
  "ConvertToOpenAI E body info =
     (if ri_InboundFormat info = RelayFormatClaude then map_sum (\<lambda>e. e) Some (ConvertClaudeToOpenAI E body info)
      else if ri_InboundFormat info = RelayFormatGemini then map_sum (\<lambda>e. e) Some (ConvertGeminiToOpenAI E body info)
      else if ri_InboundFormat info = RelayFormatResponses then map_sum (\<lambda>e. e) Some (ConvertResponsesToOpenAI body info)
      else Inr body)"

definition ConvertResponsesToClaude :: "conv_env \<Rightarrow> raw \<Rightarrow> RelayInfo \<Rightarrow> go_err + json" where
  "ConvertResponsesToClaude E body info = read_reader ''responses to openai conversion failed'' (ConvertResponsesToOpenAI body info)
     (\<lambda>b. ConvertOpenAIToClaude E b info)"

definition ConvertResponsesToGemini :: "conv_env \<Rightarrow> raw \<Rightarrow> RelayInfo \<Rightarrow> go_err + json" where
  "ConvertResponsesToGemini E body info = read_reader ''responses to openai'' (ConvertResponsesToOpenAI body info)
     (\<lambda>b. ConvertOpenAIToGemini E b info)"

section \<open>From Chat Completions to Responses\<close>

definition c2rExtractInstructions :: "Message list \<Rightarrow> string" where
  "c2rExtractInstructions messages = Join (List.map_filter (\<lambda>m. case om_Content m of
     JStr t \<Rightarrow> if (om_Role m = ''system'' \<or> om_Role m = ''developer'') \<and> t \<noteq> [] then Some t else None | _ \<Rightarrow> None) messages) ''\<newline>\<newline>''"

definition c2r_text :: "string \<Rightarrow> string \<Rightarrow> json" where
  "c2r_text role t = JObj [(''text'', JStr t), (''type'', JStr (if role = ''assistant'' then ''output_text'' else ''input_text''))]"

definition opt_str :: "string \<Rightarrow> string option \<Rightarrow> bool \<times> string \<times> json" where
  "opt_str k s = opt JStr k s"

definition c2rConvertContentPart :: "(string \<times> json) list \<Rightarrow> string \<Rightarrow> json option" where
  "c2rConvertContentPart part role =
     (let partType = str_or ''type'' part in
      if partType = ''text'' then Some (c2r_text role (str_or ''text'' part))
      else if partType = ''image_url'' then (case obj_at ''image_url'' part of None \<Rightarrow> None
        | Some imgURL \<Rightarrow> Some (JObj (doc [opt_str ''detail'' (str_at ''detail'' imgURL), opt_str ''image_url'' (str_at ''url'' imgURL),
             (True, ''type'', JStr ''input_image'')])))
      else if partType = ''input_audio'' then
        Some (JObj [(''data'', JStr (str_or ''data'' part)), (''format'', JStr (str_or ''format'' part)), (''type'', JStr ''input_audio'')])
      else if partType = ''file'' then
        Some (JObj (doc [opt_str ''file_data'' (str_at ''file_data'' part), opt_str ''filename'' (str_at ''filename'' part),
          (True, ''type'', JStr ''input_file'')]))
      else None)"

text \<open>A content that is neither text nor a list is marshalled and read as a list, which it is not.\<close>

definition c2rMakeMessageItem :: "string \<Rightarrow> json \<Rightarrow> json" where
  "c2rMakeMessageItem role content =
     (let parts = (case content of JStr v \<Rightarrow> [c2r_text role v]
          | JArr v \<Rightarrow> List.map_filter (\<lambda>p. c2rConvertContentPart p role) (items_of v) | _ \<Rightarrow> []) in
      JObj [(''content'', JArr parts), (''role'', JStr role), (''type'', JStr ''message'')])"

definition c2rContentToString :: "conv_env \<Rightarrow> json \<Rightarrow> string" where
  "c2rContentToString E content = (case content of JNull \<Rightarrow> [] | JStr s \<Rightarrow> s | _ \<Rightarrow> ce_text E content)"

definition call_item :: "ToolCall \<Rightarrow> json" where
  "call_item tc = JObj [(''arguments'', JStr (fc_Arguments (oc_Function tc))), (''call_id'', JStr (oc_ID tc)),
     (''name'', JStr (fc_Name (oc_Function tc))), (''type'', JStr ''function_call'')]"

definition input_items :: "conv_env \<Rightarrow> Message \<Rightarrow> json list" where
  "input_items E msg =
     (if om_Role msg = ''user'' then [c2rMakeMessageItem ''user'' (om_Content msg)]
      else if om_Role msg = ''assistant'' then
        (if om_ToolCalls msg = [] then [c2rMakeMessageItem ''assistant'' (om_Content msg)]
         else (case om_Content msg of JStr t \<Rightarrow> if t \<noteq> [] then [c2rMakeMessageItem ''assistant'' (JStr t)] else [] | _ \<Rightarrow> []) @
           map call_item (om_ToolCalls msg))
      else if om_Role msg = ''tool'' then
        [JObj [(''call_id'', JStr (om_ToolCallID msg)), (''output'', JStr (c2rContentToString E (om_Content msg))),
          (''type'', JStr ''function_call_output'')]]
      else [])"

definition c2rConvertMessagesToInput :: "conv_env \<Rightarrow> Message list \<Rightarrow> json list" where
  "c2rConvertMessagesToInput E messages = concat (map (input_items E) messages)"

definition c2rConvertTools :: "Tool list \<Rightarrow> json list" where
  "c2rConvertTools tools = map (\<lambda>t. JObj [(''description'', JStr (fn_Description (ot_Function t))), (''name'', JStr (fn_Name (ot_Function t))),
     (''parameters'', fn_Parameters (ot_Function t)), (''type'', JStr ''function'')]) (filter (\<lambda>t. ot_Type t = ''function'') tools)"

definition c2rConvertToolChoice :: "json \<Rightarrow> json" where
  "c2rConvertToolChoice toolChoice = (case toolChoice of
     JObj tc \<Rightarrow> (case function_name tc of Some name \<Rightarrow> JObj [(''name'', JStr name), (''type'', JStr ''function'')] | None \<Rightarrow> toolChoice)
   | _ \<Rightarrow> toolChoice)"

definition c2rGetMaxTokens :: "GeneralOpenAIRequest \<Rightarrow> int" where
  "c2rGetMaxTokens req =
     (let m = (case gr_MaxTokens req of Some n \<Rightarrow> if n > 0 then n else 0 | None \<Rightarrow> 0) in
      case gr_MaxCompletionTokens req of Some n \<Rightarrow> if n > m then n else m | None \<Rightarrow> m)"

definition c2r_body :: "conv_env \<Rightarrow> RelayInfo \<Rightarrow> GeneralOpenAIRequest \<Rightarrow> json" where
  "c2r_body E info req =
     (let maxTokens = c2rGetMaxTokens req in
      JObj (doc [
        (True, ''model'', JStr (if cm_IsModelMapped (ri_ChannelMeta info) then cm_UpstreamModelName (ri_ChannelMeta info) else gr_Model req)),
        str ''instructions'' (c2rExtractInstructions (gr_Messages req)),
        (True, ''input'', JArr (c2rConvertMessagesToInput E (gr_Messages req))),
        opt JBool ''stream'' (gr_Stream req), opt (\<lambda>j. j) ''temperature'' (gr_Temperature req), opt (\<lambda>j. j) ''top_p'' (gr_TopP req),
        (maxTokens > 0, ''max_output_tokens'', JNum maxTokens),
        opt (\<lambda>f. JObj [(''format'', format_json f)]) ''text'' (gr_ResponseFormat req),
        (gr_ReasoningEffort req \<noteq> [], ''reasoning'', JObj [(''effort'', JStr (gr_ReasoningEffort req)), (''summary'', JStr ''detailed'')]),
        lst (\<lambda>j. j) ''tools'' (c2rConvertTools (gr_Tools req)),
        iff_any ''tool_choice'' (if gr_ToolChoice req = JNull then JNull else c2rConvertToolChoice (gr_ToolChoice req)),
        str ''user'' (gr_User req), opt JBool ''parallel_tool_calls'' (gr_ParallelToolCalls req)]))"

definition ConvertOpenAIToResponses :: "conv_env \<Rightarrow> raw \<Rightarrow> RelayInfo \<Rightarrow> go_err + json" where
  "ConvertOpenAIToResponses E body info = (case unmarshal ''parse chat completions request'' (dec_request E) body of
     Inl e \<Rightarrow> Inl e | Inr req \<Rightarrow> Inr (c2r_body E info req))"

end
