(* ===== verification/ResponsesStream.thy ===== *)
theory ResponsesStream
  imports ResponsesConv ClaudeStream
begin

text \<open>
  Answers of the Responses API for clients of Chat Completions, whole and streamed
  (\<^verbatim>\<open>relay/channel/openai/converter.go\<close>, structs of \<^verbatim>\<open>relay/dto/openai_responses.go\<close>).
  The goroutines of the stream scanner are left out: a stream is the list of the data it hands to the
  callback.  Whether a write to the client works is scripted.
\<close>

section \<open>The answer\<close>

record InputTokenDetails =
  itd_CachedTokens :: int
  itd_TextTokens :: int
  itd_AudioTokens :: int
  itd_ImageTokens :: int

record OutputTokenDetails =
  otd_TextTokens :: int
  otd_AudioTokens :: int
  otd_ReasoningTokens :: int
  otd_AcceptedPredictionTokens :: int
  otd_RejectedPredictionTokens :: int

record ResponsesUsage =
  ru_InputTokens :: int
  ru_OutputTokens :: int
  ru_TotalTokens :: int
  ru_InputTokensDetails :: "InputTokenDetails option"
  ru_OutputTokenDetails :: "OutputTokenDetails option"

record ResponsesOutputContent =
  roc_Type :: string
  roc_Text :: string

record ResponsesOutput =
  ro_Type :: string
  ro_ID :: string
  ro_Role :: string
  ro_Content :: "ResponsesOutputContent list"
  ro_CallID :: string
  ro_Name :: string
  ro_Arguments :: string

record OpenAIResponsesResponse =
  or_CreatedAt :: int
  or_Error :: json
  or_Model :: string
  or_Output :: "ResponsesOutput list"
  or_Usage :: "ResponsesUsage option"

record ResponsesStreamResponse =
  rsr_Type :: string
  rsr_Response :: "OpenAIResponsesResponse option"
  rsr_Delta :: string
  rsr_Item :: "ResponsesOutput option"
  rsr_ItemID :: string

definition dec_InputTokenDetails :: "json \<Rightarrow> InputTokenDetails option" where
  "dec_InputTokenDetails j = do { m \<leftarrow> dec_object j; c \<leftarrow> dec_field ''cached_tokens'' dec_int 0 m; t \<leftarrow> dec_field ''text_tokens'' dec_int 0 m;
     a \<leftarrow> dec_field ''audio_tokens'' dec_int 0 m; i \<leftarrow> dec_field ''image_tokens'' dec_int 0 m;
     Some \<lparr>itd_CachedTokens = c, itd_TextTokens = t, itd_AudioTokens = a, itd_ImageTokens = i\<rparr> }"

definition dec_OutputTokenDetails :: "json \<Rightarrow> OutputTokenDetails option" where
  "dec_OutputTokenDetails j = do { m \<leftarrow> dec_object j; t \<leftarrow> dec_field ''text_tokens'' dec_int 0 m; a \<leftarrow> dec_field ''audio_tokens'' dec_int 0 m;
     r \<leftarrow> dec_field ''reasoning_tokens'' dec_int 0 m; ac \<leftarrow> dec_field ''accepted_prediction_tokens'' dec_int 0 m;
     re \<leftarrow> dec_field ''rejected_prediction_tokens'' dec_int 0 m;
     Some \<lparr>otd_TextTokens = t, otd_AudioTokens = a, otd_ReasoningTokens = r, otd_AcceptedPredictionTokens = ac,
       otd_RejectedPredictionTokens = re\<rparr> }"

definition dec_ResponsesUsage :: "json \<Rightarrow> ResponsesUsage option" where
  "dec_ResponsesUsage j = do { m \<leftarrow> dec_object j; i \<leftarrow> dec_field ''input_tokens'' dec_int 0 m; ou \<leftarrow> dec_field ''output_tokens'' dec_int 0 m;
     t \<leftarrow> dec_field ''total_tokens'' dec_int 0 m; d \<leftarrow> dec_field ''input_tokens_details'' (dec_ptr dec_InputTokenDetails) None m;
     e \<leftarrow> dec_field ''output_tokens_details'' (dec_ptr dec_OutputTokenDetails) None m;
     Some \<lparr>ru_InputTokens = i, ru_OutputTokens = ou, ru_TotalTokens = t, ru_InputTokensDetails = d, ru_OutputTokenDetails = e\<rparr> }"

definition annotation_ok :: "json \<Rightarrow> bool" where
  "annotation_ok = object_of (strings [''type'', ''file_id'', ''filename'', ''url'', ''title''] @ ints [''index'', ''start_index'', ''end_index''])"

definition dec_ResponsesOutputContent :: "json \<Rightarrow> ResponsesOutputContent option" where
  "dec_ResponsesOutputContent j = do { m \<leftarrow> dec_object j; t \<leftarrow> dec_field ''type'' dec_string [] m; tx \<leftarrow> dec_field ''text'' dec_string [] m;
     if fields_ok ((''annotations'', array_of annotation_ok) # strings [''refusal'']) m
     then Some \<lparr>roc_Type = t, roc_Text = tx\<rparr> else None }"

text \<open>Three fields carry the tag action, so encoding/json reads none of them.\<close>

definition output_unread_ok :: "(string \<times> json) list \<Rightarrow> bool" where
  "output_unread_ok = fields_ok (strings [''status'', ''encrypted_content'', ''result'', ''code'', ''container_id'', ''server_label'', ''output'',
       ''error'', ''approval_request_id'', ''input''] @
     [(''queries'', array_of (reads_as dec_string)),
      (''results'', array_of (object_of (strings [''file_id'', ''text''] @ floats [''score'']))),
      (''pending_safety_checks'', array_of (object_of (strings [''id'', ''code'', ''message'']))),
      (''summary'', array_of (object_of (strings [''type'', ''text'']))),
      (''outputs'', array_of (object_of (strings [''type'', ''logs'', ''url'']))),
      (''tools'', array_of (object_of (strings [''name'', ''description''])))])"

definition dec_ResponsesOutput :: "json \<Rightarrow> ResponsesOutput option" where
  "dec_ResponsesOutput j = do { m \<leftarrow> dec_object j; t \<leftarrow> dec_field ''type'' dec_string [] m; i \<leftarrow> dec_field ''id'' dec_string [] m;
     ro \<leftarrow> dec_field ''role'' dec_string [] m; c \<leftarrow> dec_field ''content'' (dec_list dec_ResponsesOutputContent) [] m;
     ci \<leftarrow> dec_field ''call_id'' dec_string [] m; n \<leftarrow> dec_field ''name'' dec_string [] m; a \<leftarrow> dec_field ''arguments'' dec_string [] m;
     if output_unread_ok m then Some \<lparr>ro_Type = t, ro_ID = i, ro_Role = ro, ro_Content = c, ro_CallID = ci, ro_Name = n, ro_Arguments = a\<rparr>
     else None }"

definition response_unread_ok :: "(string \<times> json) list \<Rightarrow> bool" where
  "response_unread_ok = fields_ok (strings [''id'', ''object'', ''output_text'', ''prompt_cache_key'', ''prompt_cache_retention'',
       ''safety_identifier'', ''service_tier''] @
     ints [''completed_at'', ''max_output_tokens'', ''max_tool_calls''] @ bools [''parallel_tool_calls'', ''store'', ''background''] @
     floats [''temperature'', ''top_p''] @
     [(''reasoning'', object_of []), (''text'', object_of [(''format'', object_of (strings [''type'']))]), (''tools'', array_of (\<lambda>j. True))])"

definition dec_OpenAIResponsesResponse :: "json \<Rightarrow> OpenAIResponsesResponse option" where
  "dec_OpenAIResponsesResponse j = do { m \<leftarrow> dec_object j; cr \<leftarrow> dec_field ''created_at'' dec_int 0 m; e \<leftarrow> dec_field ''error'' dec_any JNull m;
     mo \<leftarrow> dec_field ''model'' dec_string [] m; ou \<leftarrow> dec_field ''output'' (dec_list dec_ResponsesOutput) [] m;
     u \<leftarrow> dec_field ''usage'' (dec_ptr dec_ResponsesUsage) None m;
     if response_unread_ok m then Some \<lparr>or_CreatedAt = cr, or_Error = e, or_Model = mo, or_Output = ou, or_Usage = u\<rparr> else None }"

definition dec_ResponsesStreamResponse :: "json \<Rightarrow> ResponsesStreamResponse option" where
  "dec_ResponsesStreamResponse j = do { m \<leftarrow> dec_object j; t \<leftarrow> dec_field ''type'' dec_string [] m;
     r \<leftarrow> dec_field ''response'' (dec_ptr dec_OpenAIResponsesResponse) None m; d \<leftarrow> dec_field ''delta'' dec_string [] m;
     i \<leftarrow> dec_field ''item'' (dec_ptr dec_ResponsesOutput) None m; ii \<leftarrow> dec_field ''item_id'' dec_string [] m;
     if fields_ok (ints [''output_index'', ''content_index'', ''summary_index''] @ [(''part'', object_of (strings [''type'', ''text'']))]) m
     then Some \<lparr>rsr_Type = t, rsr_Response = r, rsr_Delta = d, rsr_Item = i, rsr_ItemID = ii\<rparr> else None }"

section \<open>Whole\<close>

definition extractOutputFromResponses :: "OpenAIResponsesResponse \<Rightarrow> string \<times> ToolCall list" where
  "extractOutputFromResponses resp =
     (concat (map (\<lambda>o'. if ro_Type o' = ''message'' \<and> ro_Role o' = ''assistant''
         then concat (map roc_Text (filter (\<lambda>c. roc_Type c = ''output_text'') (ro_Content o'))) else []) (or_Output resp)),
      map (\<lambda>o'. \<lparr>oc_Index = 0, oc_ID = ro_CallID o', oc_Type = ''function'',
           oc_Function = \<lparr>fc_Name = ro_Name o', fc_Arguments = ro_Arguments o'\<rparr>\<rparr>)
        (filter (\<lambda>o'. ro_Type o' = ''function_call'') (or_Output resp)))"

definition input_details :: "InputTokenDetails \<Rightarrow> TokenDetails" where
  "input_details d = zero_details\<lparr>td_CachedTokens := itd_CachedTokens d, td_AudioTokens := itd_AudioTokens d,
     td_TextTokens := itd_TextTokens d, td_ImageTokens := itd_ImageTokens d\<rparr>"

definition output_details :: "OutputTokenDetails \<Rightarrow> TokenDetails" where
  "output_details d = zero_details\<lparr>td_ReasoningTokens := otd_ReasoningTokens d, td_AudioTokens := otd_AudioTokens d,
     td_TextTokens := otd_TextTokens d, td_AcceptedPredictionTokens := otd_AcceptedPredictionTokens d,
     td_RejectedPredictionTokens := otd_RejectedPredictionTokens d\<rparr>"

definition total_or_sum :: "ResponsesUsage \<Rightarrow> int" where
  "total_or_sum u = (if ru_TotalTokens u = 0 then i64 (ru_InputTokens u + ru_OutputTokens u) else ru_TotalTokens u)"

definition responses_usage :: "OpenAIResponsesResponse \<Rightarrow> string \<Rightarrow> UsageWithDetails" where
  "responses_usage resp text = (case or_Usage resp of
     Some u \<Rightarrow> \<lparr>uw_PromptTokens = ru_InputTokens u, uw_CompletionTokens = ru_OutputTokens u, uw_TotalTokens = total_or_sum u,
       uw_PromptTokensDetails = map_option input_details (ru_InputTokensDetails u),
       uw_CompletionTokenDetails = map_option output_details (ru_OutputTokenDetails u)\<rparr>
   | None \<Rightarrow> if text \<noteq> [] then zero_usage\<lparr>uw_CompletionTokens := int (length text div 4), uw_TotalTokens := int (length text div 4)\<rparr>
       else zero_usage)"

definition ResponsesResponseToChatCompletions :: "int \<Rightarrow> OpenAIResponsesResponse \<Rightarrow> string \<Rightarrow> string \<Rightarrow> ChatCompletionResponse \<times> Usage" where
  "ResponsesResponseToChatCompletions now resp i model =
     (let (text, toolCalls) = extractOutputFromResponses resp; u = responses_usage resp text in
      (\<lparr>ccr_ID = i, ccr_Object = ''chat.completion'', ccr_Created = now, ccr_Model = model, ccr_SystemFingerprint = None,
        ccr_Choices = [\<lparr>cho_Index = 0, cho_Message = zero_Message\<lparr>om_Role := ''assistant'', om_Content := JStr text, om_ToolCalls := toolCalls\<rparr>,
          cho_FinishReason = (if toolCalls \<noteq> [] \<and> text = [] then ''tool_calls'' else ''stop''), cho_LogProbs = JNull\<rparr>],
        ccr_Usage = u, ccr_ServiceTier = None\<rparr>,
       zero_Usage\<lparr>us_PromptTokens := uw_PromptTokens u, us_CompletionTokens := uw_CompletionTokens u, us_TotalTokens := uw_TotalTokens u,
         us_PromptTokensDetails := uw_PromptTokensDetails u, us_CompletionTokenDetails := uw_CompletionTokenDetails u\<rparr>))"

text \<open>An error of the upstream is written through as it is: the first component.\<close>

definition HandleResponsesNonStreamToChat ::
  "conv_env \<Rightarrow> int \<Rightarrow> int \<Rightarrow> go_err + string \<Rightarrow> RelayInfo \<Rightarrow> string option \<times> answered" where
  "HandleResponsesNonStreamToChat E now status read' info = (case read' of
     Inl e \<Rightarrow> (None, [], None, Some (ErrWrap e ''read response body''))
   | Inr body \<Rightarrow>
       if status \<noteq> 200 then (Some body, [], None, Some (NewUpstreamError status body None))
       else (case Option.bind (ce_parse E body) dec_OpenAIResponsesResponse of
         None \<Rightarrow> (None, [], None, Some (ErrWrap (ErrExt ''json: cannot unmarshal'') ''parse responses response''))
       | Some r \<Rightarrow>
           let mapped = cm_IsModelMapped (ri_ChannelMeta info);
               model = (if \<not> mapped \<and> or_Model r \<noteq> [] then or_Model r else cm_UpstreamModelName (ri_ChannelMeta info));
               (chat, usage) = ResponsesResponseToChatCompletions now r (''chatcmpl-'' @ ri_RequestID info) model;
               chat' = (if mapped then chat\<lparr>ccr_Model := ri_OriginModelName info\<rparr> else chat) in
           (None, [(200, chat_response_json chat')], Some usage, None)))"

section \<open>Streamed\<close>

record responses_stream =
  rs_out :: "openai_out list"
  rs_writes :: "bool list"
  rs_result :: StreamResult
  rs_id :: string
  rs_createAt :: int
  rs_model :: string
  rs_totalUsage :: Usage
  rs_usageText :: string
  rs_outputText :: string
  rs_sentStart :: bool
  rs_sentStop :: bool
  rs_sawToolCall :: bool
  rs_indexByID :: "(string \<times> int) list"
  rs_nameByID :: "string \<rightharpoonup> string"
  rs_argsByID :: "string \<rightharpoonup> string"
  rs_nameSent :: "string set"

definition chat_chunk :: "StreamChoice list \<Rightarrow> UsageWithDetails option \<Rightarrow> responses_stream \<Rightarrow> ChatCompletionStreamResponse" where
  "chat_chunk cs u st = \<lparr>csr_ID = rs_id st, csr_Object = ''chat.completion.chunk'', csr_Created = rs_createAt st, csr_Model = rs_model st,
     csr_SystemFingerprint = None, csr_Choices = cs, csr_Usage = u\<rparr>"

definition delta_choice :: "Message \<Rightarrow> StreamChoice list" where
  "delta_choice d = [\<lparr>sch_Index = 0, sch_Delta = d, sch_FinishReason = None, sch_LogProbs = JNull\<rparr>]"

definition stop_choice :: "string \<Rightarrow> StreamChoice list" where
  "stop_choice r = [\<lparr>sch_Index = 0, sch_Delta = zero_Message, sch_FinishReason = Some r, sch_LogProbs = JNull\<rparr>]"

text \<open>The next write works unless the script says no.\<close>

definition put :: "openai_out \<Rightarrow> responses_stream \<Rightarrow> responses_stream \<times> bool" where
  "put ch st = (let ok = (rs_writes st = [] \<or> hd (rs_writes st)) in
     (st\<lparr>rs_writes := tl (rs_writes st), rs_out := (if ok then rs_out st @ [ch] else rs_out st)\<rparr>, ok))"

definition sendChatChunk :: "StreamChoice list \<Rightarrow> responses_stream \<Rightarrow> responses_stream \<times> bool" where
  "sendChatChunk cs st = put (Chunk (chat_chunk cs None st)) st"

definition sendStartIfNeeded :: "responses_stream \<Rightarrow> responses_stream \<times> bool" where
  "sendStartIfNeeded st = (if rs_sentStart st then (st, True)
     else (let (st1, ok) = sendChatChunk (delta_choice (zero_Message\<lparr>om_Role := ''assistant'', om_Content := JStr []\<rparr>)) st in
       (if ok then st1\<lparr>rs_sentStart := True\<rparr> else st1, ok)))"

definition stopped :: "string \<Rightarrow> responses_stream \<Rightarrow> responses_stream" where
  "stopped msg st = st\<lparr>rs_result := sr_Stop (Some (ErrNew msg)) (rs_result st)\<rparr>"

text \<open>Go on with \<open>k\<close> if the write worked, else stop the scanner.\<close>

definition or_stop :: "string \<Rightarrow> responses_stream \<times> bool \<Rightarrow> (responses_stream \<Rightarrow> responses_stream) \<Rightarrow> responses_stream" where
  "or_stop msg r k = (if snd r then k (fst r) else stopped msg (fst r))"

definition note_response :: "OpenAIResponsesResponse option \<Rightarrow> responses_stream \<Rightarrow> responses_stream" where
  "note_response r st = (case r of None \<Rightarrow> st
     | Some p \<Rightarrow> st\<lparr>rs_model := (if or_Model p \<noteq> [] then or_Model p else rs_model st),
         rs_createAt := (if or_CreatedAt p \<noteq> 0 then or_CreatedAt p else rs_createAt st)\<rparr>)"

definition r2cSendToolCallChunk :: "string \<Rightarrow> string \<Rightarrow> string \<Rightarrow> responses_stream \<Rightarrow> responses_stream \<times> bool" where
  "r2cSendToolCallChunk callID name argsDelta st =
     (let st1 = (if map_of (rs_indexByID st) callID = None
            then st\<lparr>rs_indexByID := (callID, int (length (rs_indexByID st))) # rs_indexByID st\<rparr> else st);
          st2 = (if name \<noteq> [] then st1\<lparr>rs_nameByID := (rs_nameByID st1)(callID \<mapsto> name)\<rparr> else st1);
          name' = (case rs_nameByID st2 callID of None \<Rightarrow> name | Some n \<Rightarrow> if n \<noteq> [] then n else name);
          send = (name' \<noteq> [] \<and> callID \<notin> rs_nameSent st2);
          st3 = (if send then st2\<lparr>rs_nameSent := insert callID (rs_nameSent st2)\<rparr> else st2) in
      sendChatChunk (delta_choice (zero_Message\<lparr>om_ToolCalls := [\<lparr>oc_Index = the (map_of (rs_indexByID st3) callID), oc_ID = callID,
        oc_Type = ''function'', oc_Function = \<lparr>fc_Name = (if send then name' else []), fc_Arguments = argsDelta\<rparr>\<rparr>]\<rparr>)) st3)"

definition reasoning_delta :: "string \<Rightarrow> responses_stream \<Rightarrow> responses_stream" where
  "reasoning_delta d st = (if d = [] then st else or_stop ''send start chunk failed'' (sendStartIfNeeded st) (\<lambda>st1.
     or_stop ''send reasoning chunk failed'' (sendChatChunk (delta_choice (zero_Message\<lparr>om_ReasoningContent := Some d\<rparr>))
       (st1\<lparr>rs_usageText := rs_usageText st1 @ d\<rparr>)) (\<lambda>st2. st2)))"

definition text_delta :: "string \<Rightarrow> responses_stream \<Rightarrow> responses_stream" where
  "text_delta d st = or_stop ''send start chunk failed'' (sendStartIfNeeded st) (\<lambda>st1. if d = [] then st1
     else or_stop ''send text chunk failed'' (sendChatChunk (delta_choice (zero_Message\<lparr>om_Content := JStr d\<rparr>))
       (st1\<lparr>rs_outputText := rs_outputText st1 @ d, rs_usageText := rs_usageText st1 @ d\<rparr>)) (\<lambda>st2. st2))"

definition item_step :: "ResponsesOutput \<Rightarrow> responses_stream \<Rightarrow> responses_stream" where
  "item_step item st =
     (let callID = (if TrimSpace (ro_CallID item) = [] then TrimSpace (ro_ID item) else TrimSpace (ro_CallID item)) in
      if ro_Type item \<noteq> ''function_call'' \<or> callID = [] then st
      else
        (let name = TrimSpace (ro_Name item); newArgs = ro_Arguments item;
             st1 = (if name \<noteq> [] then st\<lparr>rs_nameByID := (rs_nameByID st)(callID \<mapsto> name)\<rparr> else st);
             prevArgs = (case rs_argsByID st1 callID of None \<Rightarrow> [] | Some a \<Rightarrow> a);
             argsDelta = (if newArgs = [] then [] else if HasPrefix newArgs prevArgs then drop (length prevArgs) newArgs else newArgs);
             st2 = (if newArgs \<noteq> [] then st1\<lparr>rs_argsByID := (rs_argsByID st1)(callID \<mapsto> newArgs)\<rparr> else st1) in
         or_stop ''send tool call chunk failed'' (r2cSendToolCallChunk callID name argsDelta st2) (\<lambda>st3.
           st3\<lparr>rs_sawToolCall := True, rs_usageText := rs_usageText st3 @ name @ argsDelta\<rparr>)))"

text \<open>Deltas of arguments come with the id of the item, under which nothing was filed unless it is the id of the call.\<close>

definition arguments_step :: "string \<Rightarrow> string \<Rightarrow> responses_stream \<Rightarrow> responses_stream" where
  "arguments_step itemID d st = (let callID = TrimSpace itemID in if callID = [] then st
     else or_stop ''send tool call args chunk failed'' (r2cSendToolCallChunk callID [] d
        (st\<lparr>rs_argsByID := (rs_argsByID st)(callID \<mapsto> (case rs_argsByID st callID of None \<Rightarrow> [] | Some a \<Rightarrow> a) @ d)\<rparr>)) (\<lambda>st1.
          st1\<lparr>rs_sawToolCall := True, rs_usageText := rs_usageText st1 @ d\<rparr>))"

definition completed_step :: "OpenAIResponsesResponse option \<Rightarrow> responses_stream \<Rightarrow> responses_stream" where
  "completed_step r st =
     (let st1 = note_response r st;
          st2 = (case Option.bind r or_Usage of None \<Rightarrow> st1
            | Some u \<Rightarrow> st1\<lparr>rs_totalUsage := (rs_totalUsage st1)\<lparr>us_PromptTokens := ru_InputTokens u,
                us_CompletionTokens := ru_OutputTokens u, us_TotalTokens := total_or_sum u\<rparr>\<rparr>) in
      or_stop ''send start chunk failed'' (sendStartIfNeeded st2) (\<lambda>st3. if rs_sentStop st3 then st3
        else or_stop ''send stop chunk failed''
          (sendChatChunk (stop_choice (if rs_sawToolCall st3 \<and> rs_outputText st3 = [] then ''tool_calls'' else ''stop'')) st3)
          (\<lambda>st4. st4\<lparr>rs_sentStop := True\<rparr>)))"

definition responses_event :: "conv_env \<Rightarrow> ResponsesStreamResponse \<Rightarrow> responses_stream \<Rightarrow> responses_stream" where
  "responses_event E ev st =
     (let t = rsr_Type ev in
      if t = ''response.created'' then note_response (rsr_Response ev) st
      else if t = ''response.reasoning_summary_text.delta'' then reasoning_delta (rsr_Delta ev) st
      else if t = ''response.output_text.delta'' then text_delta (rsr_Delta ev) st
      else if t = ''response.output_item.added'' \<or> t = ''response.output_item.done'' then
        (case rsr_Item ev of None \<Rightarrow> st | Some item \<Rightarrow> item_step item st)
      else if t = ''response.function_call_arguments.delta'' then arguments_step (rsr_ItemID ev) (rsr_Delta ev) st
      else if t = ''response.completed'' then completed_step (rsr_Response ev) st
      else if t = ''response.error'' \<or> t = ''response.failed'' then
        stopped (t @ '': '' @ (case rsr_Response ev of None \<Rightarrow> ''responses stream error''
          | Some r \<Rightarrow> if or_Error r = JNull then ''responses stream error'' else ce_text E (or_Error r))) st
      else st)"

definition responses_data :: "conv_env \<Rightarrow> string \<Rightarrow> responses_stream \<Rightarrow> responses_stream" where
  "responses_data E dat st = (case Option.bind (ce_parse E dat) dec_ResponsesStreamResponse of
     None \<Rightarrow> st\<lparr>rs_result := sr_Error (ErrWrap (ErrExt ''json: cannot unmarshal'') ''unmarshal responses stream'') (rs_result st)\<rparr>
   | Some ev \<Rightarrow> responses_event E ev st)"

text \<open>The scanner's loop over the data.\<close>

fun scan_data :: "conv_env \<Rightarrow> string list \<Rightarrow> responses_stream \<Rightarrow> responses_stream" where
  "scan_data E [] st = st"
| "scan_data E (d # ds) st =
     (let st1 = responses_data E d (st\<lparr>rs_result := sr_reset (rs_result st)\<rparr>) in
      if sr2_stopped (rs_result st1) then st1 else scan_data E ds st1)"

definition estimated_usage :: "responses_stream \<Rightarrow> responses_stream" where
  "estimated_usage st = (let u = rs_totalUsage st; est = int (length (rs_usageText st) div 4) in
     if us_TotalTokens u = 0 \<and> rs_usageText st \<noteq> []
     then st\<lparr>rs_totalUsage := u\<lparr>us_CompletionTokens := est, us_TotalTokens := i64 (us_PromptTokens u + est)\<rparr>\<rparr> else st)"

text \<open>What follows the loop; failing writes are ignored.\<close>

definition close_responses :: "responses_stream \<Rightarrow> responses_stream" where
  "close_responses st0 =
     (let st = estimated_usage st0;
          st1 = fst (sendStartIfNeeded st);
          st2 = (if rs_sentStop st1 then st1 else fst (sendChatChunk (stop_choice ''stop'') st1));
          u = rs_totalUsage st2;
          st3 = (if us_TotalTokens u > 0 then fst (put (Chunk (chat_chunk [] (Some \<lparr>uw_PromptTokens = us_PromptTokens u,
                uw_CompletionTokens = us_CompletionTokens u, uw_TotalTokens = us_TotalTokens u,
                uw_PromptTokensDetails = us_PromptTokensDetails u, uw_CompletionTokenDetails = us_CompletionTokenDetails u\<rparr>) st2)) st2)
            else st2) in
      fst (put DoneMark st3))"

definition new_responses :: "int \<Rightarrow> bool list \<Rightarrow> RelayInfo \<Rightarrow> responses_stream" where
  "new_responses now writes info = \<lparr>rs_out = [], rs_writes = writes, rs_result = NewStreamResult (Some (ri_StreamStatus info)),
     rs_id = ''chatcmpl-'' @ ri_RequestID info, rs_createAt = now, rs_model = cm_UpstreamModelName (ri_ChannelMeta info),
     rs_totalUsage = zero_Usage, rs_usageText = [], rs_outputText = [], rs_sentStart = False, rs_sentStop = False,
     rs_sawToolCall = False, rs_indexByID = [], rs_nameByID = Map.empty, rs_argsByID = Map.empty, rs_nameSent = {}\<rparr>"

definition HandleResponsesStreamToChat :: "conv_env \<Rightarrow> int \<Rightarrow> string list \<Rightarrow> bool list \<Rightarrow> RelayInfo \<Rightarrow> responses_stream \<times> Usage" where
  "HandleResponsesStreamToChat E now datas writes info =
     (let st = close_responses (scan_data E datas (new_responses now writes info)) in (st, rs_totalUsage st))"

end
