(* ===== verification/ResponsesClaims.thy ===== *)
theory ResponsesClaims
  imports ResponsesStream StreamClaims
begin

text \<open>
  What becomes of a conversation that is turned into a request of the Responses API and back, and what a
  client of Chat Completions gets of a stream of that API.
\<close>

section \<open>There and back\<close>

definition text_only :: "Message \<Rightarrow> bool" where
  "text_only m \<longleftrightarrow> (om_Role m = ''user'' \<or> om_Role m = ''assistant'' \<and> om_ToolCalls m = [] \<longrightarrow> (\<exists>t. om_Content m = JStr t))"

text \<open>What an answer is: its string, the JSON of a content of another kind, no text where there is no content.\<close>

fun answered :: "(json \<Rightarrow> string) \<Rightarrow> json \<Rightarrow> string" where
  "answered marshal (JStr said) = said"
| "answered marshal JNull = []"
| "answered marshal c = marshal c"

lemma answered_string: "c2rContentToString E c = answered (ce_text E) c"
  by (cases c) (simp_all add: c2rContentToString_def)

definition replayed :: "conv_env \<Rightarrow> Message \<Rightarrow> json list" where
  "replayed E m =
     (if om_Role m = ''user'' \<or> om_Role m = ''assistant'' \<and> om_ToolCalls m = []
        then [JObj [(''content'', om_Content m), (''role'', JStr (om_Role m))]]
      else if om_Role m = ''assistant'' then
        (case om_Content m of JStr t \<Rightarrow> if t \<noteq> [] then [JObj [(''content'', JStr t), (''role'', JStr ''assistant'')]] else [] | _ \<Rightarrow> [])
      else if om_Role m = ''tool'' then
        [JObj [(''content'', JStr (answered (ce_text E) (om_Content m))), (''role'', JStr ''tool''), (''tool_call_id'', JStr (om_ToolCallID m))]]
      else [])"

lemma input_text_item:
  "role \<in> {''user'', ''assistant''} \<Longrightarrow> input_message (c2rMakeMessageItem role (JStr v)) = Some (chat_message role (JStr v))"
  by (auto simp: input_message_def c2rMakeMessageItem_def c2r_text_def dec_r2cInputItem_def dec_field_def jlookup_Cons dec_raw_def
      fields_ok_def strings_def r2cConvertMessage_def dec_list_def dec_r2cContentPart_def chat_part_def chat_text_def single_text_def
      chat_message_def map_filter_def)

lemma input_call_item: "input_message (call_item tc) = None"
  by (simp add: input_message_def call_item_def dec_r2cInputItem_def dec_field_def jlookup_Cons fields_ok_def strings_def)

lemma input_answer_item: "input_message (JObj [(''call_id'', JStr i), (''output'', JStr t), (''type'', JStr ''function_call_output'')]) =
    Some (JObj [(''content'', JStr t), (''role'', JStr ''tool''), (''tool_call_id'', JStr i)])"
  by (simp add: input_message_def dec_r2cInputItem_def dec_field_def jlookup_Cons fields_ok_def strings_def)

lemma map_filter_calls: "List.map_filter input_message (map call_item tcs) = []"
  by (induction tcs) (simp_all add: List.map_filter_simps input_call_item)

lemma input_items_replayed: "text_only m \<Longrightarrow> List.map_filter input_message (input_items E m) = replayed E m"
  by (auto simp: text_only_def input_items_def replayed_def List.map_filter_simps input_text_item input_answer_item map_filter_append
      map_filter_calls chat_message_def answered_string split: json.split)

text \<open>Property C37. Text and the answers of tools survive the way to the Responses API and back, but every call of a
  tool is lost: an answer comes back without the call it answers.\<close>

theorem responses_replay:
  assumes "\<forall>m \<in> set msgs. text_only m"
  shows "r2cConvertInputToMessages (Some (JArr (c2rConvertMessagesToInput E msgs))) = Inr (concat (map (replayed E) msgs))"
proof -
  have "List.map_filter input_message (concat (map (input_items E) msgs)) = concat (map (replayed E) msgs)"
    using assms by (induction msgs) (simp_all add: List.map_filter_simps map_filter_append input_items_replayed)
  then show ?thesis by (simp add: r2cConvertInputToMessages_def c2rConvertMessagesToInput_def)
qed

definition sample_chat :: "Message list" where
  "sample_chat = [zero_Message\<lparr>om_Role := ''user'', om_Content := JStr ''hi''\<rparr>,
     zero_Message\<lparr>om_Role := ''assistant'', om_ToolCalls := [\<lparr>oc_Index = 0, oc_ID = ''c'', oc_Type = ''function'',
       oc_Function = \<lparr>fc_Name = ''f'', fc_Arguments = ''{}''\<rparr>\<rparr>]\<rparr>,
     zero_Message\<lparr>om_Role := ''tool'', om_Content := JStr ''ok'', om_ToolCallID := ''c''\<rparr>]"

theorem responses_replay_witness:
  "r2cConvertInputToMessages (Some (JArr (c2rConvertMessagesToInput sample_env sample_chat))) =
    Inr [JObj [(''content'', JStr ''hi''), (''role'', JStr ''user'')],
      JObj [(''content'', JStr ''ok''), (''role'', JStr ''tool''), (''tool_call_id'', JStr ''c'')]]"
proof -
  have "\<forall>m \<in> set sample_chat. text_only m" by (simp add: sample_chat_def text_only_def zero_Message_def)
  from responses_replay [OF this, of sample_env] show ?thesis
    by (simp add: sample_chat_def replayed_def zero_Message_def)
qed

section \<open>The stream\<close>

fun choice_text :: "StreamChoice \<Rightarrow> string" where
  "choice_text ch = (case om_Content (sch_Delta ch) of JStr t \<Rightarrow> t | _ \<Rightarrow> [])"

fun out_text :: "openai_out \<Rightarrow> string" where
  "out_text DoneMark = []"
| "out_text (Chunk c) = concat (map choice_text (csr_Choices c))"

fun out_finishes :: "openai_out \<Rightarrow> nat" where
  "out_finishes DoneMark = 0"
| "out_finishes (Chunk c) = length (filter (\<lambda>ch. sch_FinishReason ch \<noteq> None) (csr_Choices c))"

definition said :: "responses_stream \<Rightarrow> string" where
  "said st = concat (map out_text (rs_out st))"

definition finishes :: "responses_stream \<Rightarrow> nat" where
  "finishes st = sum_list (map out_finishes (rs_out st))"

text \<open>The text of an event, and the events until one reports an error.\<close>

definition event_text :: "ResponsesStreamResponse \<Rightarrow> string" where
  "event_text ev = (if rsr_Type ev = ''response.output_text.delta'' then rsr_Delta ev else [])"

definition ends_stream :: "ResponsesStreamResponse \<Rightarrow> bool" where
  "ends_stream ev \<longleftrightarrow> rsr_Type ev = ''response.error'' \<or> rsr_Type ev = ''response.failed''"

fun text_upstream :: "conv_env \<Rightarrow> string list \<Rightarrow> string" where
  "text_upstream E [] = []"
| "text_upstream E (d # ds) = (case Option.bind (ce_parse E d) dec_ResponsesStreamResponse of None \<Rightarrow> text_upstream E ds
     | Some ev \<Rightarrow> if ends_stream ev then [] else event_text ev @ text_upstream E ds)"

definition faithful :: "responses_stream \<Rightarrow> bool" where
  "faithful st \<longleftrightarrow> rs_writes st = [] \<and> \<not> sr2_stopped (rs_result st) \<and> said st = rs_outputText st \<and>
     finishes st = (if rs_sentStop st then 1 else 0) \<and> DoneMark \<notin> set (rs_out st) \<and> length (rs_outputText st) \<le> length (rs_usageText st)"

text \<open>When writes work, a chunk is appended and nothing else changes.\<close>

lemma send_works:
  "rs_writes st = [] \<Longrightarrow> sendChatChunk cs st = (st\<lparr>rs_writes := [], rs_out := rs_out st @ [Chunk (chat_chunk cs None st)]\<rparr>, True)"
  by (simp add: sendChatChunk_def put_def)

lemma or_stop_works: "snd r \<Longrightarrow> or_stop msg r k = k (fst r)"
  by (simp add: or_stop_def)

lemma sent_text [simp]:
  "choice_text \<lparr>sch_Index = i, sch_Delta = d, sch_FinishReason = r, sch_LogProbs = l\<rparr> = (case om_Content d of JStr t \<Rightarrow> t | _ \<Rightarrow> [])"
  by simp

declare choice_text.simps [simp del] sum_list_eq_0_iff [simp del]

lemmas stream_defs = faithful_def said_def finishes_def chat_chunk_def delta_choice_def stop_choice_def zero_Message_def

lemma faithful_writes: "faithful st \<Longrightarrow> rs_writes st = []"
  by (simp add: faithful_def)

lemma start_faithful:
  assumes "faithful st"
  shows "snd (sendStartIfNeeded st)" and "faithful (fst (sendStartIfNeeded st))"
    and "rs_outputText (fst (sendStartIfNeeded st)) = rs_outputText st" and "rs_sentStop (fst (sendStartIfNeeded st)) = rs_sentStop st"
    and "rs_totalUsage (fst (sendStartIfNeeded st)) = rs_totalUsage st" and "rs_usageText (fst (sendStartIfNeeded st)) = rs_usageText st"
  using assms by (simp_all add: sendStartIfNeeded_def send_works stream_defs)

lemma reasoning_faithful:
  assumes "faithful st"
  shows "faithful (reasoning_delta d st) \<and> rs_outputText (reasoning_delta d st) = rs_outputText st"
proof -
  define st1 where "st1 = fst (sendStartIfNeeded st)"
  have st1: "faithful st1" "rs_outputText st1 = rs_outputText st"
    using start_faithful [OF assms] by (simp_all add: st1_def)
  have "reasoning_delta d st = (if d = [] then st else st1\<lparr>rs_usageText := rs_usageText st1 @ d, rs_writes := [], rs_out := rs_out st1 @
      [Chunk (chat_chunk (delta_choice (zero_Message\<lparr>om_ReasoningContent := Some d\<rparr>)) None st1)]\<rparr>)"
    using start_faithful(1) [OF assms] st1 by (simp add: reasoning_delta_def or_stop_works st1_def [symmetric] send_works faithful_writes chat_chunk_def)
  then show ?thesis using assms st1 by (simp add: stream_defs)
qed

lemma text_faithful:
  assumes "faithful st"
  shows "faithful (text_delta d st) \<and> rs_outputText (text_delta d st) = rs_outputText st @ d"
proof -
  define st1 where "st1 = fst (sendStartIfNeeded st)"
  have st1: "faithful st1" "rs_outputText st1 = rs_outputText st"
    using start_faithful [OF assms] by (simp_all add: st1_def)
  have "text_delta d st = (if d = [] then st1 else st1\<lparr>rs_outputText := rs_outputText st1 @ d, rs_usageText := rs_usageText st1 @ d, rs_writes := [], rs_out := rs_out st1 @
      [Chunk (chat_chunk (delta_choice (zero_Message\<lparr>om_Content := JStr d\<rparr>)) None st1)]\<rparr>)"
    using start_faithful(1) [OF assms] st1 by (simp add: text_delta_def or_stop_works st1_def [symmetric] send_works faithful_writes chat_chunk_def)
  then show ?thesis using assms st1 by (simp add: stream_defs)
qed

lemma tool_chunk_faithful:
  assumes "faithful st"
  shows "snd (r2cSendToolCallChunk i n a st)" and "faithful (fst (r2cSendToolCallChunk i n a st))"
    and "rs_outputText (fst (r2cSendToolCallChunk i n a st)) = rs_outputText st"
  using assms by (simp_all add: r2cSendToolCallChunk_def Let_def send_works stream_defs)

lemma faithful_update [simp]:
  "faithful (st\<lparr>rs_nameByID := n\<rparr>) = faithful st" "faithful (st\<lparr>rs_argsByID := x\<rparr>) = faithful st"
  "faithful (st\<lparr>rs_model := m, rs_createAt := c\<rparr>) = faithful st" "faithful (st\<lparr>rs_totalUsage := u\<rparr>) = faithful st"
  "faithful (st\<lparr>rs_sawToolCall := b\<rparr>) = faithful st"
  by (simp_all add: stream_defs)

lemma faithful_usage_text: "faithful st \<Longrightarrow> faithful (st\<lparr>rs_sawToolCall := True, rs_usageText := rs_usageText st @ t\<rparr>)"
  by (simp add: stream_defs)

lemma item_faithful: "faithful st \<Longrightarrow> faithful (item_step i st) \<and> rs_outputText (item_step i st) = rs_outputText st"
  by (simp add: item_step_def Let_def or_stop_works tool_chunk_faithful faithful_usage_text)

lemma arguments_faithful: "faithful st \<Longrightarrow> faithful (arguments_step i d st) \<and> rs_outputText (arguments_step i d st) = rs_outputText st"
  by (simp add: arguments_step_def Let_def or_stop_works tool_chunk_faithful faithful_usage_text)

lemma note_faithful: "faithful st \<Longrightarrow> faithful (note_response r st) \<and> rs_outputText (note_response r st) = rs_outputText st"
  by (simp add: note_response_def split: option.split)

lemma completed_faithful:
  assumes "faithful st"
  shows "faithful (completed_step r st) \<and> rs_outputText (completed_step r st) = rs_outputText st"
proof -
  define st2 where "st2 = (case Option.bind r or_Usage of None \<Rightarrow> note_response r st
    | Some u \<Rightarrow> (note_response r st)\<lparr>rs_totalUsage := (rs_totalUsage (note_response r st))\<lparr>us_PromptTokens := ru_InputTokens u,
        us_CompletionTokens := ru_OutputTokens u, us_TotalTokens := total_or_sum u\<rparr>\<rparr>)"
  have st2: "faithful st2" "rs_outputText st2 = rs_outputText st"
    using note_faithful [OF assms, of r] by (simp_all add: st2_def split: option.split)
  define st3 where "st3 = fst (sendStartIfNeeded st2)"
  have st3: "faithful st3" "rs_outputText st3 = rs_outputText st"
    using start_faithful [OF st2(1)] st2(2) by (simp_all add: st3_def)
  have "completed_step r st = (if rs_sentStop st3 then st3
    else st3\<lparr>rs_writes := [], rs_sentStop := True, rs_out := rs_out st3 @ [Chunk (chat_chunk (stop_choice
      (if rs_sawToolCall st3 \<and> rs_outputText st3 = [] then ''tool_calls'' else ''stop'')) None st3)]\<rparr>)"
    using start_faithful(1) [OF st2(1)] st3 unfolding completed_step_def Let_def st2_def [symmetric]
    by (simp add: or_stop_works st3_def [symmetric] send_works faithful_writes)
  then show ?thesis using st3 by (simp add: stream_defs)
qed

text \<open>Only a reported error stops the scanner.\<close>

lemma event_faithful:
  assumes "faithful st"
  shows "\<not> ends_stream ev \<Longrightarrow> faithful (responses_event E ev st) \<and> rs_outputText (responses_event E ev st) = rs_outputText st @ event_text ev"
    and "ends_stream ev \<Longrightarrow> sr2_stopped (rs_result (responses_event E ev st)) \<and> said (responses_event E ev st) = said st \<and>
      finishes (responses_event E ev st) = finishes st \<and> rs_writes (responses_event E ev st) = [] \<and>
      rs_sentStop (responses_event E ev st) = rs_sentStop st \<and> rs_out (responses_event E ev st) = rs_out st"
  using assms by (auto simp: responses_event_def Let_def ends_stream_def event_text_def note_faithful reasoning_faithful text_faithful
      item_faithful arguments_faithful completed_faithful stopped_def sr_Stop_def said_def finishes_def faithful_writes split: option.split)

lemma reset_faithful: "faithful st \<Longrightarrow> faithful (st\<lparr>rs_result := sr_reset (rs_result st)\<rparr>)"
  by (simp add: stream_defs sr_reset_def)

lemma error_faithful: "faithful st \<Longrightarrow> faithful (st\<lparr>rs_result := sr_Error e (rs_result st)\<rparr>)"
  by (simp add: stream_defs sr_Error_def)

definition delivered :: "responses_stream \<Rightarrow> string \<Rightarrow> bool" where
  "delivered st t \<longleftrightarrow> rs_writes st = [] \<and> said st = t \<and> finishes st = (if rs_sentStop st then 1 else 0) \<and>
     DoneMark \<notin> set (rs_out st)"

lemma faithful_delivered: "faithful st \<Longrightarrow> delivered st (rs_outputText st)"
  by (simp add: faithful_def delivered_def)

lemma scan_delivered: "faithful st \<Longrightarrow> delivered (scan_data E ds st) (rs_outputText st @ text_upstream E ds)"
proof (induction ds arbitrary: st)
  case Nil
  then show ?case by (simp add: faithful_delivered)
next
  case (Cons d ds)
  define st0 where "st0 = st\<lparr>rs_result := sr_reset (rs_result st)\<rparr>"
  have st0: "faithful st0" "rs_outputText st0 = rs_outputText st"
    using Cons.prems by (simp_all add: st0_def reset_faithful)
  show ?case
  proof (cases "Option.bind (ce_parse E d) dec_ResponsesStreamResponse")
    case None
    have "faithful (responses_data E d st0)" and "rs_outputText (responses_data E d st0) = rs_outputText st"
      using st0 None by (simp_all add: responses_data_def error_faithful)
    then show ?thesis
      using Cons.IH [of "responses_data E d st0"] None by (simp add: st0_def [symmetric] faithful_def)
  next
    case (Some ev)
    have step: "responses_data E d st0 = responses_event E ev st0" using Some by (simp add: responses_data_def)
    show ?thesis
    proof (cases "ends_stream ev")
      case True
      then show ?thesis
        using event_faithful(2) [OF st0(1) True, of E] st0 Some
        by (simp add: st0_def [symmetric] step delivered_def) (simp add: faithful_def)
    next
      case False
      then have "faithful (responses_event E ev st0)" and "rs_outputText (responses_event E ev st0) = rs_outputText st @ event_text ev"
        using event_faithful(1) [OF st0(1) False, of E] st0 by simp_all
      then show ?thesis
        using Cons.IH [of "responses_event E ev st0"] Some False by (simp add: st0_def [symmetric] step faithful_def)
    qed
  qed
qed

text \<open>What follows the scanner: at most a start chunk and a final one, then the usage and the mark.\<close>

lemma start_delivered:
  assumes "delivered st t"
  shows "delivered (fst (sendStartIfNeeded st)) t"
  using assms by (simp add: sendStartIfNeeded_def send_works delivered_def said_def finishes_def chat_chunk_def delta_choice_def zero_Message_def)

lemma stop_delivered:
  assumes "delivered st t" and "\<not> rs_sentStop st"
  shows "delivered ((fst (sendChatChunk (stop_choice r) st))\<lparr>rs_sentStop := True\<rparr>) t"
  using assms by (simp add: send_works delivered_def said_def finishes_def chat_chunk_def stop_choice_def zero_Message_def)

lemma stop_fields:
  "rs_out (st\<lparr>rs_sentStop := b\<rparr>) = rs_out st" "rs_writes (st\<lparr>rs_sentStop := b\<rparr>) = rs_writes st"
  "said (st\<lparr>rs_sentStop := b\<rparr>) = said st" "finishes (st\<lparr>rs_sentStop := b\<rparr>) = finishes st"
  by (simp_all add: said_def finishes_def)

definition complete :: "responses_stream \<Rightarrow> string \<Rightarrow> bool" where
  "complete st t \<longleftrightarrow> rs_writes st = [] \<and> said st = t \<and> finishes st = 1 \<and> DoneMark \<notin> set (rs_out st)"

lemma estimated_delivered: "delivered (estimated_usage st) t = delivered st t"
  by (simp add: estimated_usage_def Let_def delivered_def said_def finishes_def)

lemma put_complete:
  assumes "complete st t"
  shows "complete (fst (put (Chunk (chat_chunk [] u st)) st)) t"
  using assms by (simp add: complete_def put_def said_def finishes_def chat_chunk_def)

lemma put_done:
  assumes "complete st t"
  shows "said (fst (put DoneMark st)) = t \<and> finishes (fst (put DoneMark st)) = 1 \<and> (\<exists>cs. rs_out (fst (put DoneMark st)) = cs @ [DoneMark] \<and> DoneMark \<notin> set cs)"
  using assms by (simp add: complete_def put_def said_def finishes_def)

lemma closed_complete:
  assumes "delivered st t"
  shows "said (close_responses st) = t \<and> finishes (close_responses st) = 1 \<and>
    (\<exists>cs. rs_out (close_responses st) = cs @ [DoneMark] \<and> DoneMark \<notin> set cs)"
proof -
  define st1 where "st1 = fst (sendStartIfNeeded (estimated_usage st))"
  have st1: "delivered st1 t"
    using assms by (simp add: st1_def start_delivered estimated_delivered)
  define st2 where "st2 = (if rs_sentStop st1 then st1 else fst (sendChatChunk (stop_choice ''stop'') st1))"
  have st2: "complete st2 t"
    using st1 stop_delivered [OF st1, of "''stop''"] by (auto simp: st2_def complete_def delivered_def stop_fields)
  show ?thesis
    unfolding close_responses_def Let_def st1_def [symmetric] st2_def [symmetric]
    by (rule put_done) (simp add: st2 put_complete)
qed

lemma stream_delivers:
  "let st = fst (HandleResponsesStreamToChat E now datas [] info) in
     said st = text_upstream E datas \<and> finishes st = 1 \<and> (\<exists>cs. rs_out st = cs @ [DoneMark] \<and> DoneMark \<notin> set cs)"
proof -
  have "faithful (new_responses now [] info)"
    by (simp add: faithful_def new_responses_def said_def finishes_def NewStreamResult_def)
  from scan_delivered [OF this, of E datas] have "delivered (scan_data E datas (new_responses now [] info)) (text_upstream E datas)"
    by (simp add: new_responses_def)
  from closed_complete [OF this] show ?thesis by (simp add: HandleResponsesStreamToChat_def Let_def)
qed

text \<open>Property C38. When writes work, the client of a streamed answer gets exactly the text of the upstream up to a
  reported error, exactly one final chunk, and one mark of the end behind everything, whatever the
  upstream sent: garbage, no final event, several of them, or an error.\<close>

theorem responses_stream_complete:
  "let st = fst (HandleResponsesStreamToChat E now datas [] info) in
     said st = text_upstream E datas \<and> finishes st = 1 \<and> (\<exists>cs. rs_out st = cs @ [DoneMark] \<and> DoneMark \<notin> set cs)"
  by (rule stream_delivers)

end
