(* ===== verification/ResponsesInbound.thy ===== *)
theory ResponsesInbound
  imports ResponsesStream "HOL-Library.AList"
begin

text \<open>
  Answers of an OpenAI channel for a client of the Responses API, whole and streamed
  (\<^verbatim>\<open>relay/channel/openai/responses.go\<close>).  The events are maps in the code: documents here.
  A map of the code is iterated in an order the language does not fix; \<open>ord\<close> gives the order of a
  traversal, which depends on what was sent before.
\<close>

section \<open>Whole\<close>

text \<open>What is written: the body of the upstream as it is, or a document.\<close>

datatype written = Plain int string | Made int json

definition output_content :: "string \<Rightarrow> json" where
  "output_content t = JObj (doc [(True, ''type'', JStr ''output_text''), str ''text'' t])"

definition chat_text_of :: "conv_env \<Rightarrow> json \<Rightarrow> string" where
  "chat_text_of E c = (case c of JNull \<Rightarrow> [] | JStr s \<Rightarrow> s | _ \<Rightarrow> ce_text E c)"

definition choice_output :: "conv_env \<Rightarrow> string \<Rightarrow> Choice \<Rightarrow> json list" where
  "choice_output E i c =
     (let t = chat_text_of E (om_Content (cho_Message c)) in
      JObj (doc [(True, ''type'', JStr ''message''), (True, ''id'', JStr (''msg_'' @ i)), (True, ''status'', JStr ''completed''),
        (True, ''role'', JStr ''assistant''), lst output_content ''content'' (if t = [] then [] else [t])]) #
      map (\<lambda>tc. JObj (doc [(True, ''type'', JStr ''function_call''), (True, ''id'', JStr (oc_ID tc)), (True, ''status'', JStr ''completed''),
        str ''call_id'' (oc_ID tc), str ''name'' (fc_Name (oc_Function tc)), str ''arguments'' (fc_Arguments (oc_Function tc))]))
        (om_ToolCalls (cho_Message c)))"

definition num :: "string \<Rightarrow> int \<Rightarrow> bool \<times> string \<times> json" where
  "num k n = (n \<noteq> 0, k, JNum n)"

definition no_reasoning :: json where
  "no_reasoning = JObj [(''effort'', JNull), (''summary'', JNull)]"

definition plain_text_format :: json where
  "plain_text_format = JObj [(''format'', JObj [(''type'', JStr ''text'')])]"

text \<open>Both details of the usage are read through pointers: no result stands for the panic of a nil one.\<close>

definition chatCompletionToResponsesResponse :: "conv_env \<Rightarrow> ChatCompletionResponse \<Rightarrow> RelayInfo \<Rightarrow> json option" where
  "chatCompletionToResponsesResponse E r info = do {
     pd \<leftarrow> uw_PromptTokensDetails (ccr_Usage r);
     cd \<leftarrow> uw_CompletionTokenDetails (ccr_Usage r);
     Some (JObj (doc [(True, ''id'', JStr (''resp_'' @ ccr_ID r)), (True, ''object'', JStr ''response''),
       (True, ''created_at'', JNum (ccr_Created r)), num ''completed_at'' (i64 (ccr_Created r + 1)),
       (True, ''status'', JStr ''completed''), (True, ''error'', JNull), (True, ''incomplete_details'', JNull),
       (True, ''instructions'', JNull), (True, ''max_output_tokens'', JNull), (True, ''model'', JStr (ri_OriginModelName info)),
       (True, ''output'', JArr (concat (map (choice_output E (ccr_ID r)) (ccr_Choices r)))),
       (True, ''parallel_tool_calls'', JBool True), (True, ''previous_response_id'', JNull), (True, ''prompt'', JNull),
       (True, ''reasoning'', no_reasoning), (True, ''store'', JBool True), (True, ''conversation'', JNull),
       (True, ''temperature'', JNum 1), (True, ''text'', plain_text_format), (True, ''tool_choice'', JStr ''auto''),
       (True, ''tools'', JArr []), (True, ''top_p'', JNum 1), (True, ''truncation'', JStr ''disabled''),
       (True, ''usage'', JObj [(''input_tokens'', JNum (uw_PromptTokens (ccr_Usage r))),
          (''output_tokens'', JNum (uw_CompletionTokens (ccr_Usage r))), (''total_tokens'', JNum (uw_TotalTokens (ccr_Usage r))),
          (''input_tokens_details'', JObj (doc [(True, ''cached_tokens'', JNum (td_CachedTokens pd)), num ''audio_tokens'' (td_AudioTokens pd)])),
          (''output_tokens_details'', JObj (doc [num ''reasoning_tokens'' (td_ReasoningTokens cd),
             num ''accepted_prediction_tokens'' (td_AcceptedPredictionTokens cd),
             num ''rejected_prediction_tokens'' (td_RejectedPredictionTokens cd)]))]),
       (True, ''user'', JNull), (True, ''metadata'', JObj [])])) }"

definition handleResponsesInboundNonStream ::
  "conv_env \<Rightarrow> int \<Rightarrow> go_err + string \<Rightarrow> RelayInfo \<Rightarrow> (written list \<times> Usage option \<times> go_err option) option" where
  "handleResponsesInboundNonStream E status read' info = (case read' of
     Inl e \<Rightarrow> Some ([], None, Some (ErrWrap e ''read response body failed''))
   | Inr body \<Rightarrow>
       if status \<noteq> 200 then Some ([Plain status body], Some zero_Usage, None)
       else (case Option.bind (ce_parse E body) (dec_ChatCompletionResponse E) of
         None \<Rightarrow> Some ([Plain status body], Some zero_Usage, None)
       | Some r \<Rightarrow> (case chatCompletionToResponsesResponse E r info of None \<Rightarrow> None
           | Some j \<Rightarrow> Some ([Made 200 j], Some (zero_Usage\<lparr>us_PromptTokens := uw_PromptTokens (ccr_Usage r),
               us_CompletionTokens := uw_CompletionTokens (ccr_Usage r), us_TotalTokens := uw_TotalTokens (ccr_Usage r),
               us_CacheIncludedInPrompt := True\<rparr>), None))))"

section \<open>Streamed\<close>

record inbound =
  ib_events :: "(string \<times> json) list"
  ib_info :: RelayInfo
  ib_modelName :: string
  ib_respID :: string
  ib_msgID :: string
  ib_createdAt :: int
  ib_usage :: Usage
  ib_content :: string
  ib_sentCreated :: bool
  ib_sentTextDone :: bool
  ib_outputIndex :: int
  ib_indexByID :: "(string \<times> int) list"
  ib_argsByID :: "string \<rightharpoonup> string"
  ib_nameByID :: "string \<rightharpoonup> string"
  ib_idByIndex :: "int \<rightharpoonup> string"

type_synonym order = "nat \<Rightarrow> (string \<times> int) list \<Rightarrow> (string \<times> int) list"

definition emitResponsesSSE :: "string \<Rightarrow> (string \<times> json) list \<Rightarrow> inbound \<Rightarrow> inbound" where
  "emitResponsesSSE eventType parts st = st\<lparr>ib_events := ib_events st @ [(eventType, JObj (parts @ [(''type'', JStr eventType)]))]\<rparr>"

definition buildResponsesUsageMap :: "Usage \<Rightarrow> json" where
  "buildResponsesUsageMap u = JObj [
     (''input_tokens'', JNum (us_PromptTokens u)),
     (''input_tokens_details'', case us_PromptTokensDetails u of None \<Rightarrow> JObj [(''cached_tokens'', JNum 0)]
       | Some d \<Rightarrow> JObj [(''audio_tokens'', JNum (td_AudioTokens d)), (''cached_tokens'', JNum (td_CachedTokens d))]),
     (''output_tokens'', JNum (us_CompletionTokens u)),
     (''output_tokens_details'', case us_CompletionTokenDetails u of None \<Rightarrow> JObj [(''reasoning_tokens'', JNum 0)]
       | Some d \<Rightarrow> JObj [(''accepted_prediction_tokens'', JNum (td_AcceptedPredictionTokens d)), (''audio_tokens'', JNum (td_AudioTokens d)),
           (''reasoning_tokens'', JNum (td_ReasoningTokens d)), (''rejected_prediction_tokens'', JNum (td_RejectedPredictionTokens d))]),
     (''total_tokens'', JNum (us_TotalTokens u))]"

definition buildResponsesObjectMap :: "string \<Rightarrow> int \<Rightarrow> string \<Rightarrow> string \<Rightarrow> json list \<Rightarrow> json option \<Rightarrow> int option \<Rightarrow> json" where
  "buildResponsesObjectMap respID createdAt status model output usageObj completedAt = JObj (doc [
     opt JNum ''completed_at'' completedAt, (True, ''created_at'', JNum createdAt), (True, ''error'', JNull), (True, ''id'', JStr respID),
     (True, ''incomplete_details'', JNull), (True, ''instructions'', JNull), (True, ''max_output_tokens'', JNull),
     (True, ''metadata'', JObj []), (True, ''model'', JStr model), (True, ''object'', JStr ''response''), (True, ''output'', JArr output),
     (True, ''parallel_tool_calls'', JBool True), (True, ''previous_response_id'', JNull), (True, ''reasoning'', no_reasoning),
     (True, ''status'', JStr status), (True, ''store'', JBool True), (True, ''temperature'', JNum 1), (True, ''text'', plain_text_format),
     (True, ''tool_choice'', JStr ''auto''), (True, ''tools'', JArr []), (True, ''top_p'', JNum 1), (True, ''truncation'', JStr ''disabled''),
     opt (\<lambda>u. u) ''usage'' usageObj, (True, ''user'', JNull)])"

definition text_content :: "string \<Rightarrow> json" where
  "text_content t = JObj [(''annotations'', JArr []), (''text'', JStr t), (''type'', JStr ''output_text'')]"

definition message_item :: "string \<Rightarrow> json list \<Rightarrow> inbound \<Rightarrow> json" where
  "message_item status content st = JObj [(''content'', JArr content), (''id'', JStr (ib_msgID st)), (''role'', JStr ''assistant''),
     (''status'', JStr status), (''type'', JStr ''message'')]"

text \<open>The fields of an event about the text.\<close>

definition at_text :: "inbound \<Rightarrow> (string \<times> json) list \<Rightarrow> (string \<times> json) list" where
  "at_text st rest = [(''content_index'', JNum 0), (''item_id'', JStr (ib_msgID st)), (''output_index'', JNum (ib_outputIndex st))] @ rest"

definition created_step :: "ChatCompletionStreamResponse \<Rightarrow> inbound \<Rightarrow> inbound" where
  "created_step chunk st0 = (if ib_sentCreated st0 then st0
     else (let st = st0\<lparr>ib_respID := (if csr_ID chunk \<noteq> [] then ''resp_'' @ csr_ID chunk else ib_respID st0),
                ib_msgID := (if csr_ID chunk \<noteq> [] then ''msg_'' @ csr_ID chunk else ib_msgID st0),
                ib_createdAt := (if csr_Created chunk > 0 then csr_Created chunk else ib_createdAt st0),
                ib_modelName := (if csr_Model chunk \<noteq> [] \<and> \<not> cm_IsModelMapped (ri_ChannelMeta (ib_info st0)) then csr_Model chunk
                  else ib_modelName st0)\<rparr>;
            st1 = emitResponsesSSE ''response.created'' [(''response'', buildResponsesObjectMap (ib_respID st) (ib_createdAt st)
                ''in_progress'' (ib_modelName st) [] None None)] st;
            st2 = emitResponsesSSE ''response.output_item.added'' [(''item'', message_item ''in_progress'' [] st1),
                (''output_index'', JNum (ib_outputIndex st1))] st1;
            st3 = emitResponsesSSE ''response.content_part.added'' (at_text st2 [(''part'', text_content [])]) st2 in
        st3\<lparr>ib_sentCreated := True\<rparr>))"

definition usage_step :: "ChatCompletionStreamResponse \<Rightarrow> inbound \<Rightarrow> inbound" where
  "usage_step chunk st = (case csr_Usage chunk of None \<Rightarrow> st
     | Some u \<Rightarrow> st\<lparr>ib_usage := (ib_usage st)\<lparr>us_PromptTokens := uw_PromptTokens u, us_CompletionTokens := uw_CompletionTokens u,
         us_TotalTokens := uw_TotalTokens u\<rparr>\<rparr>)"

definition text_part :: "json \<Rightarrow> inbound \<Rightarrow> inbound" where
  "text_part content st = (case content of
     JStr t \<Rightarrow> if t = [] then st
       else emitResponsesSSE ''response.output_text.delta'' (at_text st [(''delta'', JStr t)]) (st\<lparr>ib_content := ib_content st @ t\<rparr>)
   | _ \<Rightarrow> st)"

definition reasoning_part :: "string option \<Rightarrow> inbound \<Rightarrow> inbound" where
  "reasoning_part r st = (case r of None \<Rightarrow> st
     | Some t \<Rightarrow> if t = [] then st
         else emitResponsesSSE ''response.reasoning_summary_text.delta'' [(''delta'', JStr t), (''item_id'', JStr (ib_msgID st)),
           (''output_index'', JNum (ib_outputIndex st)), (''summary_index'', JNum 0)] st)"

definition close_text :: "inbound \<Rightarrow> inbound" where
  "close_text st =
     (let t = ib_content st;
          st1 = emitResponsesSSE ''response.output_text.done'' (at_text st [(''text'', JStr t)]) st;
          st2 = emitResponsesSSE ''response.content_part.done'' (at_text st1 [(''part'', text_content t)]) st1 in
      emitResponsesSSE ''response.output_item.done'' [(''item'', message_item ''completed'' [text_content t] st2),
        (''output_index'', JNum (ib_outputIndex st2))] st2)"

definition new_call :: "ToolCall \<Rightarrow> inbound \<Rightarrow> inbound" where
  "new_call tc st0 =
     (let callID = oc_ID tc; name = fc_Name (oc_Function tc);
          st = st0\<lparr>ib_idByIndex := (ib_idByIndex st0)(oc_Index tc \<mapsto> callID)\<rparr>;
          st1 = (if ib_sentTextDone st then st
            else (close_text st)\<lparr>ib_sentTextDone := True, ib_outputIndex := i64 (ib_outputIndex st + 1)\<rparr>);
          st2 = st1\<lparr>ib_indexByID := AList.update callID (ib_outputIndex st1) (ib_indexByID st1),
            ib_nameByID := (ib_nameByID st1)(callID \<mapsto> name), ib_argsByID := (ib_argsByID st1)(callID \<mapsto> [])\<rparr>;
          st3 = emitResponsesSSE ''response.output_item.added'' [(''item'', JObj [(''call_id'', JStr callID), (''id'', JStr callID),
              (''name'', JStr name), (''status'', JStr ''in_progress''), (''type'', JStr ''function_call'')]),
            (''output_index'', JNum (ib_outputIndex st2))] st2 in
      st3\<lparr>ib_outputIndex := i64 (ib_outputIndex st3 + 1)\<rparr>)"

definition at_or :: "'v \<Rightarrow> ('k \<rightharpoonup> 'v) \<Rightarrow> 'k \<Rightarrow> 'v" where
  "at_or d m k = (case m k of None \<Rightarrow> d | Some v \<Rightarrow> v)"

definition tool_part :: "ToolCall \<Rightarrow> inbound \<Rightarrow> inbound" where
  "tool_part tc st =
     (let st1 = (if oc_ID tc \<noteq> [] \<and> fc_Name (oc_Function tc) \<noteq> [] then new_call tc st else st);
          callID = (if oc_ID tc = [] then at_or [] (ib_idByIndex st1) (oc_Index tc) else oc_ID tc);
          args = fc_Arguments (oc_Function tc) in
      if callID = [] \<or> args = [] then st1
      else emitResponsesSSE ''response.function_call_arguments.delta'' [(''delta'', JStr args), (''item_id'', JStr callID),
          (''output_index'', JNum (at_or 0 (map_of (ib_indexByID st1)) callID))]
        (st1\<lparr>ib_argsByID := (ib_argsByID st1)(callID \<mapsto> at_or [] (ib_argsByID st1) callID @ args)\<rparr>))"

definition call_output :: "string \<Rightarrow> inbound \<Rightarrow> json" where
  "call_output tcID st = JObj [(''arguments'', JStr (at_or [] (ib_argsByID st) tcID)), (''call_id'', JStr tcID), (''id'', JStr tcID),
     (''name'', JStr (at_or [] (ib_nameByID st) tcID)), (''status'', JStr ''completed''), (''type'', JStr ''function_call'')]"

definition close_call :: "string \<times> int \<Rightarrow> inbound \<Rightarrow> inbound" where
  "close_call c st =
     (let st1 = emitResponsesSSE ''response.function_call_arguments.done'' [(''arguments'', JStr (at_or [] (ib_argsByID st) (fst c))),
            (''item_id'', JStr (fst c)), (''output_index'', JNum (snd c))] st in
      emitResponsesSSE ''response.output_item.done'' [(''item'', call_output (fst c) st1), (''output_index'', JNum (snd c))] st1)"

text \<open>The flag that the text is closed is not set here.\<close>

definition finish_part :: "order \<Rightarrow> string option \<Rightarrow> inbound \<Rightarrow> inbound" where
  "finish_part ord r st = (case r of None \<Rightarrow> st
     | Some reason \<Rightarrow> if reason = [] then st
         else (let st1 = (if ib_sentTextDone st then st else close_text st) in
           fold close_call (ord (length (ib_events st1)) (ib_indexByID st1)) st1))"

definition delta_step :: "order \<Rightarrow> StreamChoice \<Rightarrow> inbound \<Rightarrow> inbound" where
  "delta_step ord c st = finish_part ord (sch_FinishReason c)
     (fold tool_part (om_ToolCalls (sch_Delta c)) (reasoning_part (om_ReasoningContent (sch_Delta c)) (text_part (om_Content (sch_Delta c)) st)))"

definition inbound_chunk :: "order \<Rightarrow> ChatCompletionStreamResponse \<Rightarrow> inbound \<Rightarrow> inbound" where
  "inbound_chunk ord chunk st = fold (delta_step ord) (csr_Choices chunk) (usage_step chunk (created_step chunk st))"

definition inbound_end :: "StreamEndReason \<Rightarrow> go_err option \<Rightarrow> inbound \<Rightarrow> inbound" where
  "inbound_end reason e st = st\<lparr>ib_info := (ib_info st)\<lparr>ri_StreamStatus := SetEndReason reason e (ri_StreamStatus (ib_info st))\<rparr>\<rparr>"

fun inbound_loop :: "conv_env \<Rightarrow> order \<Rightarrow> (bool \<times> int \<times> string) list \<Rightarrow> inbound \<Rightarrow> inbound \<times> loop_end" where
  "inbound_loop E ord [] st = (st, Ran)"
| "inbound_loop E ord ((gone, now, line) # lines) st =
     (if gone then (inbound_end StreamEndReasonClientGone (Some (ErrExt ''context canceled'')) st, ClientGone)
      else case line_data line of None \<Rightarrow> inbound_loop E ord lines st
        | Some dat \<Rightarrow> if dat = ''[DONE]'' then (st, Ran)
            else (let st1 = (if dat \<noteq> [] then st\<lparr>ib_info := SetFirstResponseTime now (ib_info st)\<rparr> else st) in
              inbound_loop E ord lines (case Option.bind (ce_parse E dat) (dec_ChatCompletionStreamResponse E) of
                None \<Rightarrow> st1 | Some chunk \<Rightarrow> inbound_chunk ord chunk st1)))"

definition estimate_inbound :: "inbound \<Rightarrow> inbound" where
  "estimate_inbound st =
     (let u = ib_usage st;
          u1 = (if us_CompletionTokens u = 0 \<and> ib_content st \<noteq> [] then u\<lparr>us_CompletionTokens := int (length (ib_content st) div 4)\<rparr> else u);
          u2 = (if us_TotalTokens u1 = 0 then u1\<lparr>us_TotalTokens := i64 (us_PromptTokens u1 + us_CompletionTokens u1)\<rparr> else u1) in
      st\<lparr>ib_usage := u2\<rparr>)"

definition final_output :: "order \<Rightarrow> inbound \<Rightarrow> json list" where
  "final_output ord st =
     (if \<not> ib_sentTextDone st \<or> ib_content st \<noteq> [] then [message_item ''completed'' [text_content (ib_content st)] st] else []) @
     map (\<lambda>c. call_output (fst c) st) (ord (length (ib_events st)) (ib_indexByID st))"

definition completed_event :: "order \<Rightarrow> int \<Rightarrow> inbound \<Rightarrow> inbound" where
  "completed_event ord later st0 =
     (let st = estimate_inbound st0;
          st1 = emitResponsesSSE ''response.completed'' [(''response'', buildResponsesObjectMap (ib_respID st) (ib_createdAt st)
              ''completed'' (ib_modelName st) (final_output ord st) (Some (buildResponsesUsageMap (ib_usage st))) (Some later))] st;
          st2 = (if ss_reason (ri_StreamStatus (ib_info st1)) = EndNone then inbound_end StreamEndReasonDone None st1 else st1) in
      st2\<lparr>ib_usage := (ib_usage st2)\<lparr>us_CacheIncludedInPrompt := True\<rparr>\<rparr>)"

text \<open>The clock is read four times: \<open>nanos\<close> for the two names, \<open>now\<close> and \<open>later\<close> in seconds.\<close>

definition new_inbound :: "int \<times> int \<Rightarrow> int \<Rightarrow> RelayInfo \<Rightarrow> inbound" where
  "new_inbound nanos now info = \<lparr>ib_events = [], ib_info = info, ib_modelName = ri_OriginModelName info,
     ib_respID = ''resp_'' @ show_int (fst nanos), ib_msgID = ''msg_'' @ show_int (snd nanos), ib_createdAt = now, ib_usage = zero_Usage,
     ib_content = [], ib_sentCreated = False, ib_sentTextDone = False, ib_outputIndex = 0, ib_indexByID = [],
     ib_argsByID = Map.empty, ib_nameByID = Map.empty, ib_idByIndex = Map.empty\<rparr>"

definition handleResponsesInboundStream ::
  "conv_env \<Rightarrow> order \<Rightarrow> int \<times> int \<Rightarrow> int \<Rightarrow> int \<Rightarrow> int \<Rightarrow> string \<Rightarrow> (bool \<times> int \<times> string) list \<Rightarrow> go_err option \<Rightarrow> RelayInfo
    \<Rightarrow> written list \<times> inbound \<times> go_err option" where
  "handleResponsesInboundStream E ord nanos now later status body lines scan info =
     (if status \<noteq> 200 then ([Plain status body], new_inbound nanos now info, None)
      else case inbound_loop E ord lines (new_inbound nanos now info) of
        (st, ClientGone) \<Rightarrow> ([], st, Some ErrStreamInterrupted)
      | (st, Ran) \<Rightarrow> (case scan of
          Some e \<Rightarrow> ([], inbound_end StreamEndReasonError (Some e) st, Some (ErrWrap e ''stream scanner error''))
        | None \<Rightarrow> ([], completed_event ord later st, None)))"

end
