(* ===== verification/InboundClaims.thy ===== *)
theory InboundClaims
  imports ResponsesInbound ResponsesClaims ConvClaims "HOL-Library.Countable"
begin

text \<open>
  What a client of the Responses API gets of a streamed answer of an OpenAI channel: its text survives a
  second gateway that turns the events back into chunks, and its items are numbered without gaps.
\<close>

section \<open>The text of the events\<close>

definition delta_text :: "string \<times> json \<Rightarrow> string" where
  "delta_text ev = (if fst ev = ''response.output_text.delta'' then (case snd ev of JObj m \<Rightarrow> str_or ''delta'' m | _ \<Rightarrow> []) else [])"

definition chunk_text :: "ChatCompletionStreamResponse \<Rightarrow> string" where
  "chunk_text r = concat (map choice_text (csr_Choices r))"

text \<open>What the bridge reads out of an event.\<close>

definition well_read :: "string \<times> json \<Rightarrow> bool" where
  "well_read ev = (case dec_ResponsesStreamResponse (snd ev) of None \<Rightarrow> delta_text ev = []
     | Some r \<Rightarrow> \<not> ends_stream r \<and> event_text r = delta_text ev)"

definition sound :: "inbound \<Rightarrow> bool" where
  "sound st \<longleftrightarrow> list_all well_read (ib_events st) \<and> is_i64 (ib_outputIndex st)"

definition sent :: "inbound \<Rightarrow> string" where
  "sent st = concat (map delta_text (ib_events st))"

lemma type_read: "dec_ResponsesStreamResponse (JObj (m @ [(''type'', JStr t)])) = Some r \<Longrightarrow> rsr_Type r = t"
  by (clarsimp simp: dec_ResponsesStreamResponse_def dec_field_def jlookup_append jlookup_Cons dest!: bind_SomeD split: if_splits)

lemma other_event:
  assumes "t \<noteq> ''response.output_text.delta''" and "t \<noteq> ''response.error''" and "t \<noteq> ''response.failed''"
  shows "sound (emitResponsesSSE t m st) = sound st" and "sent (emitResponsesSSE t m st) = sent st"
  using assms by (auto simp: sound_def sent_def emitResponsesSSE_def well_read_def delta_text_def ends_stream_def event_text_def
      dest!: type_read split: option.split)

lemma is_i64_0: "is_i64 0"
  by (simp add: is_i64_def)

lemma text_event:
  "is_i64 (ib_outputIndex st1) \<Longrightarrow> sound (emitResponsesSSE ''response.output_text.delta'' (at_text st1 [(''delta'', JStr t)]) st) = sound st"
  "sent (emitResponsesSSE ''response.output_text.delta'' (at_text st1 [(''delta'', JStr t)]) st) = sent st @ t"
  by (simp_all add: sound_def sent_def emitResponsesSSE_def well_read_def delta_text_def ends_stream_def event_text_def at_text_def is_i64_0
      dec_ResponsesStreamResponse_def dec_field_def jlookup_Cons dec_ptr_def fields_ok_def ints_def reads_as_def str_or_def str_at_def)

lemma untouched [simp]:
  "sound (st\<lparr>ib_sentCreated := b\<rparr>) = sound st" "sent (st\<lparr>ib_sentCreated := b\<rparr>) = sent st"
  "sound st \<Longrightarrow> sound (st\<lparr>ib_outputIndex := i64 i\<rparr>)" "sent (st\<lparr>ib_outputIndex := i\<rparr>) = sent st"
  "sound (st\<lparr>ib_sentTextDone := b\<rparr>) = sound st" "sent (st\<lparr>ib_sentTextDone := b\<rparr>) = sent st"
  "sound (st\<lparr>ib_content := c\<rparr>) = sound st" "sent (st\<lparr>ib_content := c\<rparr>) = sent st"
  "sound (st\<lparr>ib_usage := u\<rparr>) = sound st" "sent (st\<lparr>ib_usage := u\<rparr>) = sent st"
  "sound (st\<lparr>ib_info := x\<rparr>) = sound st" "sent (st\<lparr>ib_info := x\<rparr>) = sent st"
  "sound (st\<lparr>ib_argsByID := a\<rparr>) = sound st" "sent (st\<lparr>ib_argsByID := a\<rparr>) = sent st"
  "sound (st\<lparr>ib_idByIndex := d\<rparr>) = sound st" "sent (st\<lparr>ib_idByIndex := d\<rparr>) = sent st"
  "sound (st\<lparr>ib_indexByID := e\<rparr>) = sound st" "sent (st\<lparr>ib_indexByID := e\<rparr>) = sent st"
  "sound (st\<lparr>ib_nameByID := n\<rparr>) = sound st" "sent (st\<lparr>ib_nameByID := n\<rparr>) = sent st"
  "sound (st\<lparr>ib_respID := p\<rparr>) = sound st" "sent (st\<lparr>ib_respID := p\<rparr>) = sent st"
  "sound (st\<lparr>ib_msgID := p\<rparr>) = sound st" "sent (st\<lparr>ib_msgID := p\<rparr>) = sent st"
  "sound (st\<lparr>ib_createdAt := r\<rparr>) = sound st" "sent (st\<lparr>ib_createdAt := r\<rparr>) = sent st"
  "sound (st\<lparr>ib_modelName := v\<rparr>) = sound st" "sent (st\<lparr>ib_modelName := v\<rparr>) = sent st"
  by (simp_all add: sound_def sent_def is_i64_i64)

lemma sound_index: "sound st \<Longrightarrow> is_i64 (ib_outputIndex st)"
  by (simp add: sound_def)

lemmas events_read = other_event text_event

lemma created_sent: "sound st \<Longrightarrow> sound (created_step c st)" "sent (created_step c st) = sent st"
  by (simp_all add: created_step_def Let_def events_read)

lemma usage_sent: "sound st \<Longrightarrow> sound (usage_step c st)" "sent (usage_step c st) = sent st"
  by (simp_all add: usage_step_def split: option.split)

lemma text_sent: "sound st \<Longrightarrow> sound (text_part c st)" "sent (text_part c st) = sent st @ (case c of JStr t \<Rightarrow> t | _ \<Rightarrow> [])"
  by (simp_all add: text_part_def events_read sound_index split: json.split)

lemma reasoning_sent: "sound st \<Longrightarrow> sound (reasoning_part r st)" "sent (reasoning_part r st) = sent st"
  by (simp_all add: reasoning_part_def events_read split: option.split)

lemma close_text_sent: "sound st \<Longrightarrow> sound (close_text st)" "sent (close_text st) = sent st"
  by (simp_all add: close_text_def Let_def events_read)

lemma call_sent: "sound st \<Longrightarrow> sound (new_call tc st)" "sent (new_call tc st) = sent st"
  by (simp_all add: new_call_def Let_def events_read close_text_sent)

lemma tool_sent: "sound st \<Longrightarrow> sound (tool_part tc st)" "sent (tool_part tc st) = sent st"
  by (simp_all add: tool_part_def Let_def events_read call_sent)

lemma tools_sent: "sound st \<Longrightarrow> sound (fold tool_part tcs st)" "sent (fold tool_part tcs st) = sent st"
  by (induction tcs arbitrary: st) (simp_all add: tool_sent)

lemma calls_sent: "sound st \<Longrightarrow> sound (fold close_call cs st)" "sent (fold close_call cs st) = sent st"
  by (induction cs arbitrary: st) (simp_all add: close_call_def Let_def events_read)

lemma finish_sent: "sound st \<Longrightarrow> sound (finish_part ord r st)" "sent (finish_part ord r st) = sent st"
  by (simp_all add: finish_part_def Let_def calls_sent close_text_sent split: option.split)

lemma delta_sent: "sound st \<Longrightarrow> sound (delta_step ord c st)" "sent (delta_step ord c st) = sent st @ choice_text c"
  by (simp_all add: delta_step_def finish_sent tools_sent reasoning_sent text_sent choice_text.simps)

lemma deltas_sent: "sound st \<Longrightarrow> sound (fold (delta_step ord) cs st)" "sent (fold (delta_step ord) cs st) = sent st @ concat (map choice_text cs)"
  by (induction cs arbitrary: st) (simp_all add: delta_sent)

lemma chunk_sent: "sound st \<Longrightarrow> sound (inbound_chunk ord c st)" "sent (inbound_chunk ord c st) = sent st @ chunk_text c"
  by (simp_all add: inbound_chunk_def chunk_text_def deltas_sent usage_sent created_sent)

lemma loop_sent:
  "(sound st \<longrightarrow> sound (fst (inbound_loop E ord lines st))) \<and>
   sent (fst (inbound_loop E ord lines st)) = sent st @ concat (map chunk_text (chunks_read E lines))"
  by (induction E ord lines st rule: inbound_loop.induct) (simp_all add: Let_def chunk_sent inbound_end_def split: option.split)

lemma loop_stays: "snd (inbound_loop E ord lines st) = (if client_left lines then ClientGone else Ran)"
  by (induction E ord lines st rule: inbound_loop.induct) (simp_all add: Let_def split: option.split)

lemma completed_sent: "sound st \<Longrightarrow> sound (completed_event ord later st)" "sent (completed_event ord later st) = sent st"
  by (simp_all add: completed_event_def estimate_inbound_def inbound_end_def Let_def events_read)

lemma stream_sent:
  assumes "handleResponsesInboundStream E ord nanos now later 200 body lines scan info = (answer, st, err)"
  shows "sound st" and "sent st = concat (map chunk_text (chunks_read E lines))"
proof -
  define st0 where "st0 = fst (inbound_loop E ord lines (new_inbound nanos now info))"
  have "sound (new_inbound nanos now info)" and "sent (new_inbound nanos now info) = []"
    by (simp_all add: sound_def sent_def new_inbound_def is_i64_0)
  then have st0: "sound st0" "sent st0 = concat (map chunk_text (chunks_read E lines))"
    using loop_sent [where E = E and ord = ord and lines = lines and st = "new_inbound nanos now info"] by (simp_all add: st0_def)
  have "sound st \<and> sent st = sent st0"
    using assms st0(1) by (cases "inbound_loop E ord lines (new_inbound nanos now info)")
      (auto simp: handleResponsesInboundStream_def st0_def completed_sent inbound_end_def split: loop_end.splits option.splits)
  then show "sound st" and "sent st = concat (map chunk_text (chunks_read E lines))" using st0(2) by simp_all
qed

lemma bridge_reads:
  assumes "list_all well_read evs" and "\<forall>ev \<in> set evs. ce_parse E' (ce_text E (snd ev)) = Some (snd ev)"
  shows "text_upstream E' (map (ce_text E \<circ> snd) evs) = concat (map delta_text evs)"
  using assms by (induction evs) (auto simp: well_read_def split: option.splits)

lemma client_reads: "said (fst (HandleResponsesStreamToChat E now datas [] info)) = text_upstream E datas"
  using stream_delivers [of E now datas info] by (simp add: Let_def)

text \<open>Property C39. Two gateways in a row keep the text: an OpenAI answer that the first one sends as events of the
  Responses API, and the second one turns back into chunks, has the text of the chunks the first one read, if
  the second reads the documents the first one wrote.\<close>

theorem responses_bridge:
  assumes "handleResponsesInboundStream E ord nanos now later 200 body lines scan info = (answer, st, err)"
    and "\<forall>ev \<in> set (ib_events st). ce_parse E' (ce_text E (snd ev)) = Some (snd ev)"
  shows "said (fst (HandleResponsesStreamToChat E' now' (map (ce_text E \<circ> snd) (ib_events st)) [] info')) =
    concat (map chunk_text (chunks_read E lines))"
  using stream_sent [OF assms(1)] bridge_reads [OF _ assms(2)] by (simp add: client_reads sound_def sent_def)

text \<open>A printer that writes the number of a document in unary, and the parser for it.\<close>

instance json :: countable
  by countable_datatype

definition print_env :: conv_env where
  "print_env = sample_env\<lparr>ce_text := \<lambda>j. replicate (to_nat j) CHR ''x''\<rparr>"

definition read_env :: conv_env where
  "read_env = sample_env\<lparr>ce_parse := \<lambda>s. Some (from_nat (length s))\<rparr>"

lemma sample_datas: "line_data ''data: hi'' = Some ''hi''" "line_data [] = None" "line_data ''data: [DONE]'' = Some ''[DONE]''"
  by code_simp+

lemma sample_chunk: "map_option chunk_text (Option.bind (ce_parse print_env ''hi'') (dec_ChatCompletionStreamResponse print_env)) = Some ''hi''"
  by (simp add: print_env_def sample_env_def dec_ChatCompletionStreamResponse_def dec_field_def jlookup_Cons dec_list_def
      dec_StreamChoice_def dec_Message_def dec_any_def chunk_text_def choice_text.simps)

lemma sample_chunks: "concat (map chunk_text (chunks_read print_env sample_lines)) = ''hihi''"
  using sample_chunk by (auto simp: sample_lines_def sample_datas)

theorem responses_bridge_witness:
  "\<exists>st. handleResponsesInboundStream print_env (\<lambda>n xs. xs) (1, 2) 0 9 200 [] sample_lines None sample_info = ([], st, None) \<and>
     said (fst (HandleResponsesStreamToChat read_env 0 (map (ce_text print_env \<circ> snd) (ib_events st)) [] sample_info)) = ''hihi''"
proof -
  define r where "r = handleResponsesInboundStream print_env (\<lambda>n xs. xs) (1, 2) 0 9 200 [] sample_lines None sample_info"
  have "\<not> client_left sample_lines" by (simp add: sample_lines_def sample_datas)
  then obtain st where st: "r = ([], st, None)"
    using loop_stays [of print_env "\<lambda>n xs. xs" sample_lines "new_inbound (1, 2) 0 sample_info"]
    by (cases "inbound_loop print_env (\<lambda>n xs. xs) sample_lines (new_inbound (1, 2) 0 sample_info)")
      (auto simp: r_def handleResponsesInboundStream_def)
  have "\<forall>ev \<in> set (ib_events st). ce_parse read_env (ce_text print_env (snd ev)) = Some (snd ev)"
    by (simp add: read_env_def print_env_def)
  then show ?thesis using responses_bridge [OF st [unfolded r_def]] st by (simp add: r_def sample_chunks)
qed

section \<open>The items\<close>

definition item_number :: "string \<times> json \<Rightarrow> json list" where
  "item_number ev = (if fst ev = ''response.output_item.added'' then (case snd ev of JObj m \<Rightarrow> [any_at ''output_index'' m] | _ \<Rightarrow> []) else [])"

definition numbers :: "inbound \<Rightarrow> json list" where
  "numbers st = concat (map item_number (ib_events st))"

definition numbered :: "nat \<Rightarrow> inbound \<Rightarrow> bool" where
  "numbered n st \<longleftrightarrow> numbers st = map (\<lambda>k. JNum (i64 (int k))) [0..<n] \<and> ib_sentCreated st \<and>
     (if ib_sentTextDone st then ib_outputIndex st = i64 (int n) else n = 1 \<and> ib_outputIndex st = 0)"

definition untold :: "inbound \<Rightarrow> bool" where
  "untold st \<longleftrightarrow> numbers st = [] \<and> \<not> ib_sentCreated st \<and> \<not> ib_sentTextDone st \<and> ib_outputIndex st = 0"

lemma numbers_emit: "numbers (emitResponsesSSE t m st) = numbers st @
    (if t = ''response.output_item.added'' then [any_at ''output_index'' (m @ [(''type'', JStr t)])] else [])"
  by (simp add: numbers_def emitResponsesSSE_def item_number_def)

lemma emitted [simp]:
  "ib_sentCreated (emitResponsesSSE t m st) = ib_sentCreated st" "ib_sentTextDone (emitResponsesSSE t m st) = ib_sentTextDone st"
  "ib_outputIndex (emitResponsesSSE t m st) = ib_outputIndex st"
  by (simp_all add: emitResponsesSSE_def)

lemma numbered_emit: "t \<noteq> ''response.output_item.added'' \<Longrightarrow> numbered n (emitResponsesSSE t m st) = numbered n st"
  by (simp add: numbered_def numbers_emit)

lemma numbers_keep [simp]:
  "numbers (st\<lparr>ib_sentCreated := b\<rparr>) = numbers st" "numbers (st\<lparr>ib_outputIndex := i\<rparr>) = numbers st"
  "numbers (st\<lparr>ib_sentTextDone := b\<rparr>) = numbers st" "numbers (st\<lparr>ib_content := c\<rparr>) = numbers st"
  "numbers (st\<lparr>ib_usage := u\<rparr>) = numbers st" "numbers (st\<lparr>ib_info := x\<rparr>) = numbers st"
  "numbers (st\<lparr>ib_argsByID := a\<rparr>) = numbers st" "numbers (st\<lparr>ib_idByIndex := d\<rparr>) = numbers st"
  "numbers (st\<lparr>ib_indexByID := e\<rparr>) = numbers st" "numbers (st\<lparr>ib_nameByID := q\<rparr>) = numbers st"
  "numbers (st\<lparr>ib_respID := p\<rparr>) = numbers st" "numbers (st\<lparr>ib_msgID := p\<rparr>) = numbers st"
  "numbers (st\<lparr>ib_createdAt := r\<rparr>) = numbers st" "numbers (st\<lparr>ib_modelName := v\<rparr>) = numbers st"
  by (simp_all add: numbers_def)

lemma numbered_keep [simp]:
  "numbered n (st\<lparr>ib_content := c\<rparr>) = numbered n st" "numbered n (st\<lparr>ib_usage := u\<rparr>) = numbered n st"
  "numbered n (st\<lparr>ib_info := x\<rparr>) = numbered n st" "numbered n (st\<lparr>ib_argsByID := a\<rparr>) = numbered n st"
  by (simp_all add: numbered_def)

lemma created_numbered: "untold st \<Longrightarrow> numbered 1 (created_step c st)" "numbered n st \<Longrightarrow> created_step c st = st"
  by (simp_all add: untold_def numbered_def created_step_def Let_def numbers_emit any_at_def jlookup_append jlookup_Cons at_text_def i64_0)

lemma pieces_numbered:
  "numbered n (usage_step c st) = numbered n st" "numbered n (text_part content st) = numbered n st"
  "numbered n (reasoning_part r st) = numbered n st" "numbered n (close_text st) = numbered n st"
  by (simp_all add: usage_step_def text_part_def reasoning_part_def close_text_def Let_def numbered_emit split: option.split json.split)

lemma text_closed [simp]:
  "numbers (close_text st) = numbers st" "ib_sentCreated (close_text st) = ib_sentCreated st"
  "ib_sentTextDone (close_text st) = ib_sentTextDone st" "ib_outputIndex (close_text st) = ib_outputIndex st"
  by (simp_all add: close_text_def Let_def numbers_emit)

lemma call_numbered: "numbered n st \<Longrightarrow> numbered (Suc n) (new_call tc st)"
  by (auto simp: numbered_def new_call_def Let_def numbers_emit any_at_def jlookup_append jlookup_Cons i64_add_left add.commute)

lemma tool_numbered: "\<exists>k. numbered n st \<longrightarrow> numbered k (tool_part tc st)"
  using call_numbered [of n st tc] by (auto simp: tool_part_def Let_def numbered_emit)

lemma tools_numbered: "numbered n st \<Longrightarrow> \<exists>k. numbered k (fold tool_part tcs st)"
proof (induction tcs arbitrary: n st)
  case (Cons tc tcs)
  then obtain k where "numbered k (tool_part tc st)" using tool_numbered by blast
  then show ?case by (simp add: Cons.IH)
qed auto

lemma calls_numbered: "numbered n (fold close_call cs st) = numbered n st"
  by (induction cs arbitrary: st) (simp_all add: close_call_def Let_def numbered_emit)

lemma delta_numbered: "numbered n st \<Longrightarrow> \<exists>k. numbered k (delta_step ord c st)"
  using tools_numbered [of n "reasoning_part (om_ReasoningContent (sch_Delta c)) (text_part (om_Content (sch_Delta c)) st)"]
  by (simp add: delta_step_def finish_part_def Let_def calls_numbered pieces_numbered split: option.split)

lemma deltas_numbered: "numbered n st \<Longrightarrow> \<exists>k. numbered k (fold (delta_step ord) cs st)"
proof (induction cs arbitrary: n st)
  case (Cons c cs)
  show ?case using Cons.IH delta_numbered [OF Cons.prems, of ord c] by auto
qed auto

definition in_order :: "inbound \<Rightarrow> bool" where
  "in_order st \<longleftrightarrow> untold st \<or> (\<exists>n. numbered n st)"

lemma chunk_in_order:
  assumes "in_order st"
  shows "in_order (inbound_chunk ord c st)"
proof -
  obtain n where "numbered n (usage_step c (created_step c st))"
    using assms created_numbered(1) [of st c] created_numbered(2) [where st = st and c = c] by (auto simp: in_order_def pieces_numbered)
  then show ?thesis using deltas_numbered by (auto simp: inbound_chunk_def in_order_def)
qed

lemma in_order_keep [simp]: "in_order (st\<lparr>ib_info := x\<rparr>) = in_order st" "in_order (st\<lparr>ib_usage := u\<rparr>) = in_order st"
  by (simp_all add: in_order_def untold_def)

lemma loop_in_order: "in_order st \<Longrightarrow> in_order (fst (inbound_loop E ord lines st))"
  by (induction E ord lines st rule: inbound_loop.induct) (simp_all add: Let_def chunk_in_order inbound_end_def split: option.split)

lemma completed_in_order: "in_order st \<Longrightarrow> in_order (completed_event ord later st)"
  by (auto simp: completed_event_def estimate_inbound_def inbound_end_def Let_def in_order_def untold_def numbers_emit numbered_emit)

text \<open>The items of a streamed answer are announced with the numbers 0, 1, 2 and so on, whatever the
  upstream sends.\<close>

theorem responses_items_are_numbered:
  "\<exists>n. numbers (fst (snd (handleResponsesInboundStream E ord nanos now later status body lines scan info))) =
     map (\<lambda>k. JNum (i64 (int k))) [0..<n]"
proof -
  have new: "in_order (new_inbound nanos now info)"
    by (simp add: in_order_def untold_def new_inbound_def numbers_def)
  from loop_in_order [OF new, of E ord lines]
  have "in_order (fst (snd (handleResponsesInboundStream E ord nanos now later status body lines scan info)))"
    by (auto simp: handleResponsesInboundStream_def new completed_in_order inbound_end_def split: prod.split loop_end.split option.split)
  then show ?thesis by (auto simp: in_order_def numbered_def untold_def intro: exI [of _ 0])
qed

section \<open>Whole answers\<close>

definition upstream_answer :: "conv_env \<Rightarrow> int \<Rightarrow> go_err + string \<Rightarrow> ChatCompletionResponse option" where
  "upstream_answer E status read' = (case read' of Inl e \<Rightarrow> None
     | Inr body \<Rightarrow> if status = 200 then Option.bind (ce_parse E body) (dec_ChatCompletionResponse E) else None)"

text \<open>The handler of a whole answer crashes exactly when the upstream sent one that leaves out details of its
  usage: those of the prompt for a Claude client, either of them for a client of the Responses API.\<close>

theorem missing_details_crash:
  "(handleClaudeInboundNonStream E status read' info = None \<longleftrightarrow>
      (\<exists>r. upstream_answer E status read' = Some r \<and> uw_PromptTokensDetails (ccr_Usage r) = None)) \<and>
   (handleResponsesInboundNonStream E status read' info = None \<longleftrightarrow>
      (\<exists>r. upstream_answer E status read' = Some r \<and>
        (uw_PromptTokensDetails (ccr_Usage r) = None \<or> uw_CompletionTokenDetails (ccr_Usage r) = None)))"
  by (cases read'; cases "uw_PromptTokensDetails (ccr_Usage (the (upstream_answer E status read')))";
      cases "uw_CompletionTokenDetails (ccr_Usage (the (upstream_answer E status read')))")
    (auto simp: upstream_answer_def handleClaudeInboundNonStream_def openAIToClaudeResponse_def handleResponsesInboundNonStream_def
      chatCompletionToResponsesResponse_def Let_def split: option.splits if_splits)

end
