(* ===== verification/GeminiAnswers.thy ===== *)
theory GeminiAnswers
  imports ResponsesInbound GeminiTypes
begin

text \<open>
  Answers between OpenAI's Chat Completions and Gemini, whole and streamed:
  \<^verbatim>\<open>relay/channel/openai/gemini_response.go\<close> (a Gemini client of an OpenAI channel) and
  \<^verbatim>\<open>relay/channel/gemini/response.go\<close> (an OpenAI client, or a Gemini client, of a Gemini
  channel), with the structs of an answer of \<^verbatim>\<open>relay/dto/gemini.go\<close>.
\<close>

section \<open>The answer\<close>

record GeminiModalityTokenCount =
  mtc_Modality :: string
  mtc_TokenCount :: int

record GeminiUsageMetadata =
  um_PromptTokenCount :: int
  um_CandidatesTokenCount :: int
  um_TotalTokenCount :: int
  um_CachedContentTokenCount :: int
  um_ThoughtsTokenCount :: int
  um_ToolUsePromptTokenCount :: int
  um_PromptTokensDetails :: "GeminiModalityTokenCount list"
  um_CandidatesTokensDetails :: "GeminiModalityTokenCount list"

text \<open>Of a candidate the fields that are read or written.\<close>

record GeminiCandidate =
  ca_Content :: "GeminiContent option"
  ca_FinishReason :: string
  ca_Index :: int

record GeminiChatResponse =
  gcr_Candidates :: "GeminiCandidate list"
  gcr_BlockReason :: string
  gcr_UsageMetadata :: "GeminiUsageMetadata option"
  gcr_ModelName :: string

definition dec_Modality :: "json \<Rightarrow> GeminiModalityTokenCount option" where
  "dec_Modality j = do { m \<leftarrow> dec_object j; a \<leftarrow> dec_field ''modality'' dec_string [] m; n \<leftarrow> dec_field ''tokenCount'' dec_int 0 m;
     Some \<lparr>mtc_Modality = a, mtc_TokenCount = n\<rparr> }"

definition dec_GeminiUsageMetadata :: "json \<Rightarrow> GeminiUsageMetadata option" where
  "dec_GeminiUsageMetadata j = do { m \<leftarrow> dec_object j; p \<leftarrow> dec_field ''promptTokenCount'' dec_int 0 m;
     c \<leftarrow> dec_field ''candidatesTokenCount'' dec_int 0 m; t \<leftarrow> dec_field ''totalTokenCount'' dec_int 0 m;
     ca \<leftarrow> dec_field ''cachedContentTokenCount'' dec_int 0 m; th \<leftarrow> dec_field ''thoughtsTokenCount'' dec_int 0 m;
     tu \<leftarrow> dec_field ''toolUsePromptTokenCount'' dec_int 0 m; pd \<leftarrow> dec_field ''promptTokensDetails'' (dec_list dec_Modality) [] m;
     cd \<leftarrow> dec_field ''candidatesTokensDetails'' (dec_list dec_Modality) [] m;
     if fields_ok (map (\<lambda>k. (k, reads_as (dec_list dec_Modality))) [''toolUsePromptTokensDetails'', ''cacheTokensDetails'']) m
     then Some \<lparr>um_PromptTokenCount = p, um_CandidatesTokenCount = c, um_TotalTokenCount = t, um_CachedContentTokenCount = ca,
       um_ThoughtsTokenCount = th, um_ToolUsePromptTokenCount = tu, um_PromptTokensDetails = pd, um_CandidatesTokensDetails = cd\<rparr>
     else None }"

definition dec_GeminiCandidate :: "json \<Rightarrow> GeminiCandidate option" where
  "dec_GeminiCandidate j = do { m \<leftarrow> dec_object j; c \<leftarrow> dec_field ''content'' (dec_ptr dec_GeminiContent) None m;
     r \<leftarrow> dec_field ''finishReason'' dec_string [] m; i \<leftarrow> dec_field ''index'' dec_int 0 m;
     if fields_ok (strings [''finishMessage''] @ ints [''tokenCount''] @ floats [''avgLogprobs''] @
       [(''safetyRatings'', array_of (\<lambda>j. True))]) m
     then Some \<lparr>ca_Content = c, ca_FinishReason = r, ca_Index = i\<rparr> else None }"

definition dec_block_reason :: "json \<Rightarrow> string option" where
  "dec_block_reason j = do { m \<leftarrow> dec_object j; b \<leftarrow> dec_field ''blockReason'' dec_string [] m;
     if fields_ok [(''safetyRatings'', array_of (\<lambda>j. True))] m then Some b else None }"

definition dec_GeminiChatResponse :: "json \<Rightarrow> GeminiChatResponse option" where
  "dec_GeminiChatResponse j = do { m \<leftarrow> dec_object j; c \<leftarrow> dec_field ''candidates'' (dec_list dec_GeminiCandidate) [] m;
     b \<leftarrow> dec_field ''promptFeedback'' (dec_ptr dec_block_reason) None m;
     u \<leftarrow> dec_field ''usageMetadata'' (dec_ptr dec_GeminiUsageMetadata) None m; v \<leftarrow> dec_field ''modelVersion'' dec_string [] m;
     if fields_ok (strings [''responseId'']) m
     then Some \<lparr>gcr_Candidates = c, gcr_BlockReason = (case b of None \<Rightarrow> [] | Some r \<Rightarrow> r), gcr_UsageMetadata = u, gcr_ModelName = v\<rparr>
     else None }"

text \<open>A list of parts that was never made is written null.\<close>

definition candidate_json :: "GeminiCandidate \<Rightarrow> json" where
  "candidate_json c = JObj (doc [
     opt (\<lambda>ct. JObj [(''role'', JStr (gc_Role ct)), (''parts'', if gc_Parts ct = [] then JNull else JArr (map gpart_json (gc_Parts ct)))])
       ''content'' (ca_Content c),
     str ''finishReason'' (ca_FinishReason c), num ''index'' (ca_Index c)])"

definition modality_json :: "GeminiModalityTokenCount \<Rightarrow> json" where
  "modality_json d = JObj [(''modality'', JStr (mtc_Modality d)), (''tokenCount'', JNum (mtc_TokenCount d))]"

definition metadata_json :: "GeminiUsageMetadata \<Rightarrow> json" where
  "metadata_json u = JObj (doc [(True, ''promptTokenCount'', JNum (um_PromptTokenCount u)),
     (True, ''candidatesTokenCount'', JNum (um_CandidatesTokenCount u)), (True, ''totalTokenCount'', JNum (um_TotalTokenCount u)),
     num ''cachedContentTokenCount'' (um_CachedContentTokenCount u), num ''thoughtsTokenCount'' (um_ThoughtsTokenCount u),
     num ''toolUsePromptTokenCount'' (um_ToolUsePromptTokenCount u), lst modality_json ''promptTokensDetails'' (um_PromptTokensDetails u),
     lst modality_json ''candidatesTokensDetails'' (um_CandidatesTokensDetails u)])"

definition gemini_response_json :: "GeminiChatResponse \<Rightarrow> json" where
  "gemini_response_json r = JObj (doc [lst candidate_json ''candidates'' (gcr_Candidates r),
     opt metadata_json ''usageMetadata'' (gcr_UsageMetadata r), str ''modelVersion'' (gcr_ModelName r)])"

definition no_answer :: GeminiChatResponse where
  "no_answer = \<lparr>gcr_Candidates = [], gcr_BlockReason = [], gcr_UsageMetadata = None, gcr_ModelName = []\<rparr>"

definition empty_part :: GeminiPart where
  "empty_part = \<lparr>gp_Text = [], gp_InlineData = None, gp_FileData = None, gp_FunctionCall = None, gp_FunctionResponse = None,
     gp_Thought = None, gp_ThoughtSignature = [], gp_ExecutableCode = None, gp_CodeExecutionResult = None, gp_VideoMetadata = None\<rparr>"

definition zero_metadata :: GeminiUsageMetadata where
  "zero_metadata = \<lparr>um_PromptTokenCount = 0, um_CandidatesTokenCount = 0, um_TotalTokenCount = 0, um_CachedContentTokenCount = 0,
     um_ThoughtsTokenCount = 0, um_ToolUsePromptTokenCount = 0, um_PromptTokensDetails = [], um_CandidatesTokensDetails = []\<rparr>"

section \<open>From OpenAI to Gemini\<close>

definition thought_parts :: "string option \<Rightarrow> GeminiPart list" where
  "thought_parts r = (case r of None \<Rightarrow> [] | Some t \<Rightarrow> if t = [] then [] else [empty_part\<lparr>gp_Text := t, gp_Thought := Some True\<rparr>])"

definition text_parts :: "json \<Rightarrow> GeminiPart list" where
  "text_parts c = (case c of JStr t \<Rightarrow> if t = [] then [] else [empty_part\<lparr>gp_Text := t\<rparr>] | _ \<Rightarrow> [])"

definition gcall_part :: "ToolCall \<Rightarrow> json option \<Rightarrow> GeminiPart" where
  "gcall_part tc args = empty_part\<lparr>gp_FunctionCall := Some \<lparr>gfc_ID = oc_ID tc, gfc_FunctionName = fc_Name (oc_Function tc),
     gfc_Arguments = args\<rparr>\<rparr>"

definition nil_of :: "json \<Rightarrow> json option" where
  "nil_of j = (if j = JNull then None else Some j)"

text \<open>Arguments that are not a document become an empty object.\<close>

definition parsed_args :: "conv_env \<Rightarrow> string \<Rightarrow> json option" where
  "parsed_args E a = (case ce_parse E a of None \<Rightarrow> Some (JObj []) | Some j \<Rightarrow> nil_of j)"

definition buildGeminiPartsFromMessage :: "conv_env \<Rightarrow> Message \<Rightarrow> GeminiPart list" where
  "buildGeminiPartsFromMessage E m =
     (let parts = thought_parts (om_ReasoningContent m) @ text_parts (om_Content m) @
        map (\<lambda>tc. gcall_part tc (parsed_args E (fc_Arguments (oc_Function tc)))) (om_ToolCalls m) in
      if parts = [] then [empty_part] else parts)"

definition buildGeminiPartsFromDelta :: "conv_env \<Rightarrow> Message \<Rightarrow> GeminiPart list" where
  "buildGeminiPartsFromDelta E d = thought_parts (om_ReasoningContent d) @ text_parts (om_Content d) @
     map (\<lambda>tc. gcall_part tc (if fc_Arguments (oc_Function tc) = [] then None else parsed_args E (fc_Arguments (oc_Function tc))))
       (om_ToolCalls d)"

definition metadata_of :: "int \<Rightarrow> int \<Rightarrow> int \<Rightarrow> TokenDetails option \<Rightarrow> TokenDetails option \<Rightarrow> GeminiUsageMetadata" where
  "metadata_of p c t pd cd = zero_metadata\<lparr>um_PromptTokenCount := p, um_CandidatesTokenCount := c, um_TotalTokenCount := t,
     um_CachedContentTokenCount := (case pd of None \<Rightarrow> 0 | Some d \<Rightarrow> td_CachedTokens d),
     um_ThoughtsTokenCount := (case cd of None \<Rightarrow> 0 | Some d \<Rightarrow> td_ReasoningTokens d)\<rparr>"

definition openAIToGeminiResponse :: "conv_env \<Rightarrow> ChatCompletionResponse \<Rightarrow> GeminiChatResponse" where
  "openAIToGeminiResponse E r = (case ccr_Choices r of [] \<Rightarrow> no_answer
     | c # cs \<Rightarrow> no_answer\<lparr>gcr_Candidates := [\<lparr>ca_Content = Some \<lparr>gc_Role = ''model'', gc_Parts = buildGeminiPartsFromMessage E (cho_Message c)\<rparr>,
           ca_FinishReason = OpenAIFinishReasonToGemini (cho_FinishReason c), ca_Index = cho_Index c\<rparr>],
         gcr_UsageMetadata := Some (metadata_of (uw_PromptTokens (ccr_Usage r)) (uw_CompletionTokens (ccr_Usage r)) (uw_TotalTokens (ccr_Usage r))
           (uw_PromptTokensDetails (ccr_Usage r)) (uw_CompletionTokenDetails (ccr_Usage r)))\<rparr>)"

definition openAIErrorTypeToHTTPStatus :: "string \<Rightarrow> int \<Rightarrow> int" where
  "openAIErrorTypeToHTTPStatus t defaultCode =
     (if t = ''authentication_error'' then 401 else if t = ''permission_error'' then 403 else if t = ''invalid_request_error'' then 400
      else if t = ''rate_limit_error'' then 429 else if t \<in> {''server_error'', ''internal_error''} then 500
      else if t = ''timeout_error'' then 504 else defaultCode)"

definition openAIErrorTypeToGeminiStatus :: "string \<Rightarrow> string" where
  "openAIErrorTypeToGeminiStatus t =
     (if t = ''authentication_error'' then ''UNAUTHENTICATED'' else if t = ''permission_error'' then ''PERMISSION_DENIED''
      else if t = ''invalid_request_error'' then ''INVALID_ARGUMENT'' else if t = ''rate_limit_error'' then ''RESOURCE_EXHAUSTED''
      else if t \<in> {''server_error'', ''internal_error''} then ''INTERNAL'' else if t = ''timeout_error'' then ''DEADLINE_EXCEEDED''
      else ''INTERNAL'')"

text \<open>The message of an error document.  Its type is there even when another field has the wrong type.\<close>

definition dec_error_message :: "json \<Rightarrow> string option" where
  "dec_error_message j = do { m \<leftarrow> dec_object j;
     dec_field ''error'' (\<lambda>e. do { o' \<leftarrow> dec_object e; ms \<leftarrow> dec_field ''message'' dec_string [] o';
       t \<leftarrow> dec_field ''type'' dec_string [] o'; Some ms }) [] m }"

definition error_type :: "json \<Rightarrow> string" where
  "error_type j = (case j of JObj m \<Rightarrow> (case obj_at ''error'' m of None \<Rightarrow> [] | Some o' \<Rightarrow> str_or ''type'' o') | _ \<Rightarrow> [])"

definition writeOpenAIErrorAsGemini :: "conv_env \<Rightarrow> string \<Rightarrow> int \<Rightarrow> written" where
  "writeOpenAIErrorAsGemini E body defaultStatusCode =
     (let ms = (case Option.bind (ce_parse E body) dec_error_message of None \<Rightarrow> [] | Some e \<Rightarrow> e);
          t = (case ce_parse E body of None \<Rightarrow> [] | Some j \<Rightarrow> error_type j);
          statusCode = (if ms \<noteq> [] then openAIErrorTypeToHTTPStatus t defaultStatusCode else defaultStatusCode) in
      Made statusCode (JObj [(''error'', JObj [(''code'', JNum statusCode), (''message'', JStr (if ms \<noteq> [] then ms else body)),
        (''status'', JStr (openAIErrorTypeToGeminiStatus t))])]))"

definition handleGeminiInboundNonStream ::
  "conv_env \<Rightarrow> int \<Rightarrow> go_err + string \<Rightarrow> written list \<times> Usage option \<times> go_err option" where
  "handleGeminiInboundNonStream E status read' = (case read' of
     Inl e \<Rightarrow> ([], None, Some (ErrWrap e ''read response body failed''))
   | Inr body \<Rightarrow>
       if status \<noteq> 200 then ([writeOpenAIErrorAsGemini E body status], Some zero_Usage, Some (NewUpstreamError status body None))
       else (case Option.bind (ce_parse E body) (dec_ChatCompletionResponse E) of
         None \<Rightarrow> ([], None, Some (ErrWrap (ErrExt ''json: cannot unmarshal'') ''invalid response body''))
       | Some r \<Rightarrow> let u = ccr_Usage r in ([Made 200 (gemini_response_json (openAIToGeminiResponse E r))],
           Some (zero_Usage\<lparr>us_PromptTokens := uw_PromptTokens u, us_CompletionTokens := uw_CompletionTokens u, us_TotalTokens := uw_TotalTokens u,
             us_PromptTokensDetails := uw_PromptTokensDetails u, us_CompletionTokenDetails := uw_CompletionTokenDetails u,
             us_CacheIncludedInPrompt := True\<rparr>), None)))"

text \<open>What is sent, and [DONE].\<close>

record gemini_stream =
  gst_out :: "GeminiChatResponse list"
  gst_done :: bool
  gst_info :: RelayInfo
  gst_usage :: Usage
  gst_finishReason :: string

definition gst_candidate :: "conv_env \<Rightarrow> StreamChoice \<Rightarrow> GeminiCandidate option" where
  "gst_candidate E c =
     (let parts = buildGeminiPartsFromDelta E (sch_Delta c) in
      if parts = [] \<and> sch_FinishReason c = None then None
      else Some \<lparr>ca_Content = Some \<lparr>gc_Role = ''model'', gc_Parts = parts\<rparr>, ca_FinishReason = [], ca_Index = sch_Index c\<rparr>)"

definition last_reason :: "StreamChoice list \<Rightarrow> string \<Rightarrow> string" where
  "last_reason cs r0 = fold (\<lambda>c r. case sch_FinishReason c of None \<Rightarrow> r | Some x \<Rightarrow> if x = [] then r else x) cs r0"

definition gst_chunk :: "conv_env \<Rightarrow> ChatCompletionStreamResponse \<Rightarrow> gemini_stream \<Rightarrow> gemini_stream" where
  "gst_chunk E chunk st =
     (let st1 = (case csr_Usage chunk of None \<Rightarrow> st
            | Some u \<Rightarrow> st\<lparr>gst_usage := (gst_usage st)\<lparr>us_PromptTokens := uw_PromptTokens u, us_CompletionTokens := uw_CompletionTokens u,
                us_TotalTokens := uw_TotalTokens u, us_PromptTokensDetails := uw_PromptTokensDetails u,
                us_CompletionTokenDetails := uw_CompletionTokenDetails u, us_CacheIncludedInPrompt := True\<rparr>\<rparr>);
          candidates = List.map_filter (gst_candidate E) (csr_Choices chunk) in
      st1\<lparr>gst_finishReason := last_reason (csr_Choices chunk) (gst_finishReason st1),
        gst_out := gst_out st1 @ (if candidates = [] then [] else [no_answer\<lparr>gcr_Candidates := candidates\<rparr>])\<rparr>)"

definition gst_end :: "StreamEndReason \<Rightarrow> go_err option \<Rightarrow> gemini_stream \<Rightarrow> gemini_stream" where
  "gst_end reason e st = st\<lparr>gst_info := (gst_info st)\<lparr>ri_StreamStatus := SetEndReason reason e (ri_StreamStatus (gst_info st))\<rparr>\<rparr>"

text \<open>The data of a line; lines of events are skipped with all others.\<close>

definition sse_line :: "string \<Rightarrow> string option" where
  "sse_line line = (if line = [] \<or> \<not> HasPrefix line ''data:'' then None
     else Some (case ExtractSSEData line of None \<Rightarrow> [] | Some d \<Rightarrow> d))"

fun gst_loop :: "conv_env \<Rightarrow> (bool \<times> int \<times> string) list \<Rightarrow> gemini_stream \<Rightarrow> gemini_stream \<times> loop_end" where
  "gst_loop E [] st = (st, Ran)"
| "gst_loop E ((gone, now, line) # lines) st =
     (if gone then (gst_end StreamEndReasonClientGone (Some (ErrExt ''context canceled'')) st, ClientGone)
      else case sse_line line of None \<Rightarrow> gst_loop E lines st
        | Some dat \<Rightarrow> if dat = ''[DONE]'' then (st, Ran)
            else (let st1 = (if dat \<noteq> [] then st\<lparr>gst_info := SetFirstResponseTime now (gst_info st)\<rparr> else st) in
              gst_loop E lines (case Option.bind (ce_parse E dat) (dec_ChatCompletionStreamResponse E) of
                None \<Rightarrow> st1 | Some chunk \<Rightarrow> gst_chunk E chunk st1)))"

definition gst_final :: "gemini_stream \<Rightarrow> GeminiChatResponse" where
  "gst_final st = (let u = gst_usage st in no_answer\<lparr>
     gcr_Candidates := [\<lparr>ca_Content = Some \<lparr>gc_Role = ''model'', gc_Parts = []\<rparr>,
       ca_FinishReason = OpenAIFinishReasonToGemini (gst_finishReason st), ca_Index = 0\<rparr>],
     gcr_UsageMetadata := (if us_PromptTokens u > 0 \<or> us_CompletionTokens u > 0
       then Some (metadata_of (us_PromptTokens u) (us_CompletionTokens u) (us_TotalTokens u) (us_PromptTokensDetails u) (us_CompletionTokenDetails u))
       else None)\<rparr>)"

definition new_gst :: "RelayInfo \<Rightarrow> gemini_stream" where
  "new_gst info = \<lparr>gst_out = [], gst_done = False, gst_info = info, gst_usage = zero_Usage, gst_finishReason = []\<rparr>"

definition handleGeminiInboundStream ::
  "conv_env \<Rightarrow> int \<Rightarrow> string \<Rightarrow> (bool \<times> int \<times> string) list \<Rightarrow> go_err option \<Rightarrow> RelayInfo
    \<Rightarrow> written list \<times> gemini_stream \<times> go_err option" where
  "handleGeminiInboundStream E status body lines scan info =
     (if status \<noteq> 200 then ([writeOpenAIErrorAsGemini E body status], new_gst info, Some (NewUpstreamError status body None))
      else case gst_loop E lines (new_gst info) of
        (st, ClientGone) \<Rightarrow> ([], st, Some ErrStreamInterrupted)
      | (st, Ran) \<Rightarrow>
          let st1 = gst_end StreamEndReasonDone None (st\<lparr>gst_out := gst_out st @ [gst_final st], gst_done := True\<rparr>) in
          (case scan of None \<Rightarrow> ([], st1, None)
           | Some e \<Rightarrow> ([], gst_end StreamEndReasonError (Some e) st1, Some (ErrWrap e ''stream scanner error''))))"

end
