(* ===== verification/GeminiChannel.thy ===== *)
theory GeminiChannel
  imports GeminiAnswers
begin

text \<open>
  Answers of a Gemini channel (\<^verbatim>\<open>relay/channel/gemini/response.go\<close>): for clients of Chat
  Completions, whole and streamed, and for Gemini clients, whose answers are handed through.
\<close>

section \<open>Usage and errors\<close>

definition geminiModalityToTokenDetails :: "GeminiModalityTokenCount \<Rightarrow> TokenDetails \<Rightarrow> TokenDetails" where
  "geminiModalityToTokenDetails mtc td =
     (if mtc_Modality mtc = ''TEXT'' then td\<lparr>td_TextTokens := i64 (td_TextTokens td + mtc_TokenCount mtc)\<rparr>
      else if mtc_Modality mtc = ''IMAGE'' then td\<lparr>td_ImageTokens := i64 (td_ImageTokens td + mtc_TokenCount mtc)\<rparr>
      else if mtc_Modality mtc = ''AUDIO'' then td\<lparr>td_AudioTokens := i64 (td_AudioTokens td + mtc_TokenCount mtc)\<rparr>
      else td)"

definition geminiUsageToCommon :: "GeminiUsageMetadata \<Rightarrow> Usage" where
  "geminiUsageToCommon um = zero_Usage\<lparr>us_PromptTokens := um_PromptTokenCount um, us_CompletionTokens := um_CandidatesTokenCount um,
     us_TotalTokens := um_TotalTokenCount um,
     us_PromptTokensDetails := Some (fold geminiModalityToTokenDetails (um_PromptTokensDetails um)
       (zero_details\<lparr>td_CachedTokens := um_CachedContentTokenCount um\<rparr>)),
     us_CompletionTokenDetails := Some (fold geminiModalityToTokenDetails (um_CandidatesTokensDetails um)
       (zero_details\<lparr>td_ReasoningTokens := um_ThoughtsTokenCount um\<rparr>))\<rparr>"

record rpc_status =
  rpc_Code :: int
  rpc_Message :: string
  rpc_Status :: string

definition dec_rpc_status :: "json \<Rightarrow> rpc_status option" where
  "dec_rpc_status j = do { m \<leftarrow> dec_object j;
     dec_field ''error'' (\<lambda>e. do { o' \<leftarrow> dec_object e; c \<leftarrow> dec_field ''code'' dec_int 0 o'; ms \<leftarrow> dec_field ''message'' dec_string [] o';
       s \<leftarrow> dec_field ''status'' dec_string [] o'; Some \<lparr>rpc_Code = c, rpc_Message = ms, rpc_Status = s\<rparr> })
       \<lparr>rpc_Code = 0, rpc_Message = [], rpc_Status = []\<rparr> m }"

definition parseGeminiError :: "conv_env \<Rightarrow> string \<Rightarrow> int \<times> string \<times> string" where
  "parseGeminiError E body = (case Option.bind (ce_parse E body) dec_rpc_status of
     None \<Rightarrow> (0, [], body)
   | Some e \<Rightarrow> if rpc_Code e \<noteq> 0 then (rpc_Code e, rpc_Status e, rpc_Message e) else (0, [], body))"

definition geminiStatusToOpenAIType :: "string \<Rightarrow> string" where
  "geminiStatusToOpenAIType s =
     (if s = ''UNAUTHENTICATED'' then ''authentication_error'' else if s = ''PERMISSION_DENIED'' then ''permission_error''
      else if s \<in> {''INVALID_ARGUMENT'', ''NOT_FOUND''} then ''invalid_request_error''
      else if s \<in> {''RESOURCE_EXHAUSTED'', ''RATE_LIMIT_EXCEEDED''} then ''rate_limit_error''
      else if s = ''INTERNAL'' then ''internal_error'' else if s = ''UNAVAILABLE'' then ''server_error''
      else if s = ''DEADLINE_EXCEEDED'' then ''timeout_error'' else ''api_error'')"

definition writeGeminiErrorAsOpenAI :: "conv_env \<Rightarrow> string \<Rightarrow> int \<Rightarrow> written" where
  "writeGeminiErrorAsOpenAI E body defaultStatusCode =
     (let (code, status, message) = parseGeminiError E body;
          code1 = (if code = 0 then defaultStatusCode else code);
          code2 = (if code1 < 100 \<or> code1 > 599 then 500 else code1) in
      Made code2 (JObj [(''error'', JObj [(''code'', JNull), (''message'', JStr message), (''param'', JNull),
        (''type'', JStr (geminiStatusToOpenAIType status))])]))"

section \<open>For OpenAI clients, whole\<close>

definition is_thought :: "GeminiPart \<Rightarrow> bool" where
  "is_thought p \<longleftrightarrow> gp_Thought p = Some True"

definition inline_text :: "GeminiInlineData \<Rightarrow> string" where
  "inline_text d = ''![image](data:'' @ gi_MimeType d @ '';base64,'' @ gi_Data d @ '')''"

definition file_text :: "GeminiFileData \<Rightarrow> string" where
  "file_text f = ''[file]('' @ gf_FileURI f @ '')''"

definition code_text :: "GeminiExecutableCode \<Rightarrow> string" where
  "code_text c = ''```'' @ gx_Language c @ ''\<newline>'' @ gx_Code c @ ''\<newline>```''"

definition result_text :: "GeminiCodeExecutionResult \<Rightarrow> string" where
  "result_text r = ''Execution '' @ ge_Outcome r @ '':\<newline>'' @ ge_Output r"

definition texts :: "('a \<Rightarrow> string) \<Rightarrow> 'a option \<Rightarrow> string list" where
  "texts f a = (case a of None \<Rightarrow> [] | Some x \<Rightarrow> [f x])"

text \<open>Texts of a part, in the order of the whole answer.\<close>

definition part_texts :: "GeminiPart \<Rightarrow> string list" where
  "part_texts p = (if gp_Text p \<noteq> [] \<and> \<not> is_thought p then [gp_Text p] else []) @ texts inline_text (gp_InlineData p) @
     texts file_text (gp_FileData p) @ texts code_text (gp_ExecutableCode p) @ texts result_text (gp_CodeExecutionResult p)"

definition numbered_call :: "conv_env \<Rightarrow> string \<Rightarrow> int \<Rightarrow> GeminiFunctionCall \<Rightarrow> ToolCall" where
  "numbered_call E requestID n c = \<lparr>oc_Index = 0, oc_ID = ''call_'' @ requestID @ ''_'' @ show_int n, oc_Type = ''function'',
     oc_Function = \<lparr>fc_Name = gfc_FunctionName c,
       fc_Arguments = ce_text E (case gfc_Arguments c of None \<Rightarrow> JNull | Some j \<Rightarrow> j)\<rparr>\<rparr>"

definition gemini_message :: "conv_env \<Rightarrow> string \<Rightarrow> GeminiPart list \<Rightarrow> Message" where
  "gemini_message E requestID ps =
     (let thinking = map gp_Text (filter (\<lambda>p. gp_Text p \<noteq> [] \<and> is_thought p) ps); calls = List.map_filter gp_FunctionCall ps in
      zero_Message\<lparr>om_Role := ''assistant'', om_Content := JStr (concat (concat (map part_texts ps))),
        om_ReasoningContent := (if thinking = [] then None else Some (Join thinking ''\<newline>'')),
        om_ToolCalls := map (\<lambda>(n, c). numbered_call E requestID (int n) c) (enumerate 0 calls)\<rparr>)"

definition gemini_choice :: "conv_env \<Rightarrow> string \<Rightarrow> GeminiCandidate \<Rightarrow> Choice" where
  "gemini_choice E requestID c =
     (let m = (case ca_Content c of None \<Rightarrow> zero_Message | Some ct \<Rightarrow> gemini_message E requestID (gc_Parts ct)) in
      \<lparr>cho_Index = ca_Index c, cho_Message = m,
       cho_FinishReason = (if om_ToolCalls m \<noteq> [] then ''tool_calls'' else GeminiFinishReasonToOpenAI (ca_FinishReason c)),
       cho_LogProbs = JNull\<rparr>)"

definition geminiToOpenAIResponse :: "conv_env \<Rightarrow> GeminiChatResponse \<Rightarrow> RelayInfo \<Rightarrow> ChatCompletionResponse" where
  "geminiToOpenAIResponse E r info =
     (let resp = \<lparr>ccr_ID = ''chatcmpl-'' @ ri_RequestID info, ccr_Object = ''chat.completion'', ccr_Created = 0,
        ccr_Model = ri_OriginModelName info, ccr_SystemFingerprint = None, ccr_Choices = [], ccr_Usage = zero_usage, ccr_ServiceTier = None\<rparr> in
      case gcr_Candidates r of [] \<Rightarrow> resp
      | c # cs \<Rightarrow> resp\<lparr>ccr_Choices := [gemini_choice E (ri_RequestID info) c],
          ccr_Usage := (case gcr_UsageMetadata r of None \<Rightarrow> zero_usage
            | Some u \<Rightarrow> zero_usage\<lparr>uw_PromptTokens := um_PromptTokenCount u, uw_CompletionTokens := um_CandidatesTokenCount u,
                uw_TotalTokens := um_TotalTokenCount u\<rparr>)\<rparr>)"

definition blocked :: "string \<Rightarrow> go_err" where
  "blocked reason = NewRequestError (''request blocked by Gemini safety filter: '' @ reason) None"

definition gemini_handleNonStreamToOpenAI ::
  "conv_env \<Rightarrow> int \<Rightarrow> go_err + string \<Rightarrow> RelayInfo \<Rightarrow> written list \<times> Usage option \<times> go_err option" where
  "gemini_handleNonStreamToOpenAI E status read' info = (case read' of
     Inl e \<Rightarrow> ([], None, Some (NewUpstreamError status ''read response body failed'' (Some e)))
   | Inr body \<Rightarrow>
       if status \<noteq> 200 then ([writeGeminiErrorAsOpenAI E body status], None, Some (NewUpstreamError status body None))
       else (case Option.bind (ce_parse E body) dec_GeminiChatResponse of
         None \<Rightarrow> ([], None, Some (NewUpstreamError status ''invalid response body'' (Some (ErrExt ''json: cannot unmarshal''))))
       | Some r \<Rightarrow> if gcr_BlockReason r \<noteq> [] then ([], None, Some (blocked (gcr_BlockReason r)))
           else ([Made 200 (chat_response_json (geminiToOpenAIResponse E r info))],
             Some (case gcr_UsageMetadata r of None \<Rightarrow> zero_Usage | Some u \<Rightarrow> geminiUsageToCommon u), None)))"

section \<open>For OpenAI clients, streamed\<close>

record gemini_chat =
  gch_out :: "openai_out list"
  gch_info :: RelayInfo
  gch_usage :: GeminiUsageMetadata
  gch_finishReason :: string
  gch_toolCallIdx :: int
  gch_modelName :: string

definition gch_chunk :: "Message \<Rightarrow> string option \<Rightarrow> UsageWithDetails option \<Rightarrow> gemini_chat \<Rightarrow> ChatCompletionStreamResponse" where
  "gch_chunk delta reason u st = \<lparr>csr_ID = ''chatcmpl-'' @ ri_RequestID (gch_info st), csr_Object = ''chat.completion.chunk'', csr_Created = 0,
     csr_Model = (if gch_modelName st = [] then ri_OriginModelName (gch_info st) else gch_modelName st), csr_SystemFingerprint = None,
     csr_Choices = [\<lparr>sch_Index = 0, sch_Delta = delta, sch_FinishReason = reason, sch_LogProbs = JNull\<rparr>], csr_Usage = u\<rparr>"

definition gch_send :: "Message \<Rightarrow> gemini_chat \<Rightarrow> gemini_chat" where
  "gch_send delta st = st\<lparr>gch_out := gch_out st @ [Chunk (gch_chunk delta None None st)]\<rparr>"

definition said_text :: "string \<Rightarrow> Message" where
  "said_text t = zero_Message\<lparr>om_Role := ''assistant'', om_Content := JStr t\<rparr>"

text \<open>Messages of a part, in the order of the stream.\<close>

definition part_deltas :: "GeminiPart \<Rightarrow> Message list" where
  "part_deltas p = (if gp_Text p = [] then []
       else if is_thought p then [zero_Message\<lparr>om_Role := ''assistant'', om_ReasoningContent := Some (gp_Text p)\<rparr>] else [said_text (gp_Text p)]) @
     map said_text (texts inline_text (gp_InlineData p) @ texts code_text (gp_ExecutableCode p) @
       texts result_text (gp_CodeExecutionResult p) @ texts file_text (gp_FileData p))"

definition gch_part :: "conv_env \<Rightarrow> GeminiPart \<Rightarrow> gemini_chat \<Rightarrow> gemini_chat" where
  "gch_part E p st =
     (let st1 = fold gch_send (part_deltas p) st in
      case gp_FunctionCall p of None \<Rightarrow> st1
      | Some c \<Rightarrow> (gch_send (zero_Message\<lparr>om_ToolCalls := [numbered_call E (ri_RequestID (gch_info st1)) (gch_toolCallIdx st1) c]\<rparr>) st1)
          \<lparr>gch_toolCallIdx := gch_toolCallIdx st1 + 1\<rparr>)"

definition gch_candidate :: "conv_env \<Rightarrow> GeminiCandidate \<Rightarrow> gemini_chat \<Rightarrow> gemini_chat" where
  "gch_candidate E c st =
     (let st1 = (if ca_FinishReason c \<noteq> [] then st\<lparr>gch_finishReason := GeminiFinishReasonToOpenAI (ca_FinishReason c)\<rparr> else st) in
      case ca_Content c of None \<Rightarrow> st1 | Some ct \<Rightarrow> fold (gch_part E) (gc_Parts ct) st1)"

definition gch_meter :: "GeminiChatResponse \<Rightarrow> gemini_chat \<Rightarrow> gemini_chat" where
  "gch_meter r st = (case gcr_UsageMetadata r of None \<Rightarrow> st | Some u \<Rightarrow> st\<lparr>gch_usage := u\<rparr>)"

definition gch_response :: "conv_env \<Rightarrow> GeminiChatResponse \<Rightarrow> gemini_chat \<Rightarrow> gemini_chat" where
  "gch_response E r st = fold (gch_candidate E) (gcr_Candidates r)
     (if gcr_ModelName r \<noteq> [] then st\<lparr>gch_modelName := gcr_ModelName r\<rparr> else st)"

definition gch_end :: "StreamEndReason \<Rightarrow> go_err option \<Rightarrow> gemini_chat \<Rightarrow> gemini_chat" where
  "gch_end reason e st = st\<lparr>gch_info := (gch_info st)\<lparr>ri_StreamStatus := SetEndReason reason e (ri_StreamStatus (gch_info st))\<rparr>\<rparr>"

datatype gemini_end = Left | Blocked string | Through

fun gch_loop :: "conv_env \<Rightarrow> (bool \<times> int \<times> string) list \<Rightarrow> gemini_chat \<Rightarrow> gemini_chat \<times> gemini_end" where
  "gch_loop E [] st = (st, Through)"
| "gch_loop E ((gone, now, line) # lines) st =
     (if gone then (gch_end StreamEndReasonClientGone (Some (ErrExt ''context canceled'')) st, Left)
      else case sse_line line of None \<Rightarrow> gch_loop E lines st
        | Some dat \<Rightarrow> if dat = ''[DONE]'' then (st, Through)
            else (let st1 = (if dat \<noteq> [] then st\<lparr>gch_info := SetFirstResponseTime now (gch_info st)\<rparr> else st) in
              case Option.bind (ce_parse E dat) dec_GeminiChatResponse of None \<Rightarrow> gch_loop E lines st1
              | Some r \<Rightarrow> if gcr_BlockReason r \<noteq> [] then (gch_meter r st1, Blocked (gcr_BlockReason r))
                  else gch_loop E lines (gch_response E r (gch_meter r st1))))"

definition gch_finish :: "gemini_chat \<Rightarrow> gemini_chat" where
  "gch_finish st =
     (let u = gch_usage st; reason = (if gch_finishReason st = [] then ''stop'' else gch_finishReason st) in
      st\<lparr>gch_out := gch_out st @ [Chunk (gch_chunk zero_Message (Some reason)
          (if um_PromptTokenCount u > 0 \<or> um_CandidatesTokenCount u > 0
           then Some (zero_usage\<lparr>uw_PromptTokens := um_PromptTokenCount u, uw_CompletionTokens := um_CandidatesTokenCount u,
             uw_TotalTokens := um_TotalTokenCount u\<rparr>) else None) st), DoneMark]\<rparr>)"

definition new_gch :: "RelayInfo \<Rightarrow> gemini_chat" where
  "new_gch info = \<lparr>gch_out = [], gch_info = info, gch_usage = zero_metadata, gch_finishReason = [], gch_toolCallIdx = 0, gch_modelName = []\<rparr>"

definition gemini_handleStreamToOpenAI ::
  "conv_env \<Rightarrow> int \<Rightarrow> string \<Rightarrow> (bool \<times> int \<times> string) list \<Rightarrow> go_err option \<Rightarrow> RelayInfo
    \<Rightarrow> written list \<times> gemini_chat \<times> Usage option \<times> go_err option" where
  "gemini_handleStreamToOpenAI E status body lines scan info =
     (if status \<noteq> 200 then ([writeGeminiErrorAsOpenAI E body status], new_gch info, None, Some (NewUpstreamError status body None))
      else case gch_loop E lines (new_gch info) of
        (st, Left) \<Rightarrow> ([], st, Some zero_Usage, Some ErrStreamInterrupted)
      | (st, Blocked reason) \<Rightarrow> ([], st, None, Some (blocked reason))
      | (st, Through) \<Rightarrow>
          let st1 = gch_end StreamEndReasonDone None (gch_finish st) in
          (case scan of None \<Rightarrow> ([], st1, Some (geminiUsageToCommon (gch_usage st1)), None)
           | Some e \<Rightarrow> ([], gch_end StreamEndReasonError (Some e) st1, Some zero_Usage, Some (ErrWrap e ''stream scanner error''))))"

section \<open>For Gemini clients\<close>

definition handleGeminiNativeNonStream ::
  "conv_env \<Rightarrow> int \<Rightarrow> go_err + string \<Rightarrow> written list \<times> Usage option \<times> go_err option" where
  "handleGeminiNativeNonStream E status read' = (case read' of
     Inl e \<Rightarrow> ([], None, Some (NewUpstreamError status ''read response body failed'' (Some e)))
   | Inr body \<Rightarrow>
       if status \<noteq> 200 then ([Plain status body], None, Some (NewUpstreamError status body None))
       else ([Plain 200 body], Some (case Option.bind (Option.bind (ce_parse E body) dec_GeminiChatResponse) gcr_UsageMetadata of
          None \<Rightarrow> zero_Usage | Some u \<Rightarrow> geminiUsageToCommon u), None))"

text \<open>A line with its newline, as far as it was read; the reader then says EOF or an error.\<close>

record gemini_native =
  gn_written :: string
  gn_info :: RelayInfo
  gn_usage :: GeminiUsageMetadata

definition gn_end :: "StreamEndReason \<Rightarrow> go_err option \<Rightarrow> gemini_native \<Rightarrow> gemini_native" where
  "gn_end reason e st = st\<lparr>gn_info := (gn_info st)\<lparr>ri_StreamStatus := SetEndReason reason e (ri_StreamStatus (gn_info st))\<rparr>\<rparr>"

definition gn_data :: "string \<Rightarrow> string option" where
  "gn_data line = (let trimmed = TrimRight line (CHR 0x0D # ''\<newline>'') in
     if HasPrefix trimmed ''data:'' then Some (TrimSpace (TrimPrefix trimmed ''data:'')) else None)"

definition gn_note :: "conv_env \<Rightarrow> int \<Rightarrow> string \<Rightarrow> gemini_native \<Rightarrow> gemini_native" where
  "gn_note E now dat st =
     (if dat = [] then st
      else (let st1 = st\<lparr>gn_info := SetFirstResponseTime now (gn_info st)\<rparr> in
        case Option.bind (Option.bind (ce_parse E dat) dec_GeminiChatResponse) gcr_UsageMetadata of
          None \<Rightarrow> st1 | Some u \<Rightarrow> st1\<lparr>gn_usage := u\<rparr>))"

fun gn_loop :: "conv_env \<Rightarrow> (bool \<times> int \<times> string) list \<Rightarrow> go_err option \<Rightarrow> gemini_native \<Rightarrow> gemini_native \<times> loop_end" where
  "gn_loop E [] rerr st = (case rerr of None \<Rightarrow> (st, Ran) | Some e \<Rightarrow> (gn_end StreamEndReasonError (Some e) st, Ran))"
| "gn_loop E ((gone, now, line) # lines) rerr st =
     (if gone then (gn_end StreamEndReasonClientGone (Some (ErrExt ''context canceled'')) st, ClientGone)
      else let out = st\<lparr>gn_written := gn_written st @ line\<rparr> in
        case gn_data line of None \<Rightarrow> gn_loop E lines rerr out
        | Some dat \<Rightarrow> if dat = ''[DONE]'' then (out, Ran) else gn_loop E lines rerr (gn_note E now dat out))"

definition handleGeminiNativeStream ::
  "conv_env \<Rightarrow> int \<Rightarrow> string \<Rightarrow> (bool \<times> int \<times> string) list \<Rightarrow> go_err option \<Rightarrow> RelayInfo
    \<Rightarrow> written list \<times> gemini_native \<times> Usage option \<times> go_err option" where
  "handleGeminiNativeStream E status body lines rerr info =
     (let st0 = \<lparr>gn_written = [], gn_info = info, gn_usage = zero_metadata\<rparr> in
      if status \<noteq> 200 then ([Plain status body], st0, None, Some (NewUpstreamError status body None))
      else case gn_loop E lines rerr st0 of
        (st, ClientGone) \<Rightarrow> ([], st, Some zero_Usage, Some ErrStreamInterrupted)
      | (st, Ran) \<Rightarrow> ([], gn_end StreamEndReasonDone None st, Some (geminiUsageToCommon (gn_usage st)), None))"

end
