(* ===== verification/GeminiStreams.thy ===== *)
theory GeminiStreams
  imports GeminiChannel StreamClaims
begin

text \<open>What is relayed between OpenAI and Gemini while streaming.\<close>

section \<open>A Gemini channel\<close>

text \<open>The responses the loop acts upon: up to [DONE], a safety block or the moment the client is gone.\<close>

fun responses_read :: "conv_env \<Rightarrow> (bool \<times> int \<times> string) list \<Rightarrow> GeminiChatResponse list" where
  "responses_read E [] = []"
| "responses_read E ((gone, now, line) # lines) =
     (if gone then [] else case sse_line line of None \<Rightarrow> responses_read E lines
      | Some dat \<Rightarrow> if dat = ''[DONE]'' then []
          else (case Option.bind (ce_parse E dat) dec_GeminiChatResponse of None \<Rightarrow> responses_read E lines
            | Some r \<Rightarrow> if gcr_BlockReason r \<noteq> [] then [] else r # responses_read E lines))"

text \<open>What a chunk tells an OpenAI client: words, thoughts, and calls with the index, name and arguments they have.\<close>

datatype relayed_piece = Said string | Thinking string | Calls int string string

definition choice_relays :: "StreamChoice \<Rightarrow> relayed_piece list" where
  "choice_relays c =
     (case om_Content (sch_Delta c) of JStr t \<Rightarrow> if t = [] then [] else [Said t] | _ \<Rightarrow> []) @
     (case om_ReasoningContent (sch_Delta c) of None \<Rightarrow> [] | Some t \<Rightarrow> [Thinking t]) @
     map (\<lambda>tc. Calls (oc_Index tc) (fc_Name (oc_Function tc)) (fc_Arguments (oc_Function tc))) (om_ToolCalls (sch_Delta c))"

fun out_pieces :: "openai_out \<Rightarrow> relayed_piece list" where
  "out_pieces DoneMark = []"
| "out_pieces (Chunk c) = concat (map choice_relays (csr_Choices c))"

definition relayed :: "gemini_chat \<Rightarrow> relayed_piece list" where
  "relayed st = concat (map out_pieces (gch_out st))"

text \<open>The ids of the calls sent.\<close>

fun out_ids :: "openai_out \<Rightarrow> string list" where
  "out_ids DoneMark = []"
| "out_ids (Chunk c) = concat (map (\<lambda>ch. map oc_ID (om_ToolCalls (sch_Delta ch))) (csr_Choices c))"

definition call_ids :: "gemini_chat \<Rightarrow> string list" where
  "call_ids st = concat (map out_ids (gch_out st))"

text \<open>What a part of a Gemini answer says, in the order of the stream.  All that is no text is shown as Markdown; the
  index of every call is 0.\<close>

definition part_pieces :: "conv_env \<Rightarrow> GeminiPart \<Rightarrow> relayed_piece list" where
  "part_pieces E p =
     (if gp_Text p = [] then [] else if gp_Thought p = Some True then [Thinking (gp_Text p)] else [Said (gp_Text p)]) @
     (case gp_InlineData p of None \<Rightarrow> []
      | Some d \<Rightarrow> [Said (''![image](data:'' @ gi_MimeType d @ '';base64,'' @ gi_Data d @ '')'')]) @
     (case gp_ExecutableCode p of None \<Rightarrow> []
      | Some c \<Rightarrow> [Said (''```'' @ gx_Language c @ [CHR 0x0A] @ gx_Code c @ CHR 0x0A # ''```'')]) @
     (case gp_CodeExecutionResult p of None \<Rightarrow> []
      | Some r \<Rightarrow> [Said (''Execution '' @ ge_Outcome r @ '':'' @ [CHR 0x0A] @ ge_Output r)]) @
     (case gp_FileData p of None \<Rightarrow> [] | Some f \<Rightarrow> [Said (''[file]('' @ gf_FileURI f @ '')'')]) @
     (case gp_FunctionCall p of None \<Rightarrow> []
      | Some c \<Rightarrow> [Calls 0 (gfc_FunctionName c) (ce_text E (case gfc_Arguments c of None \<Rightarrow> JNull | Some j \<Rightarrow> j))])"

definition response_pieces :: "conv_env \<Rightarrow> GeminiChatResponse \<Rightarrow> relayed_piece list" where
  "response_pieces E r = concat (map (\<lambda>c. case ca_Content c of None \<Rightarrow> [] | Some ct \<Rightarrow> concat (map (part_pieces E) (gc_Parts ct))) (gcr_Candidates r))"

lemma relayed_keep [simp]:
  "relayed (st\<lparr>gch_finishReason := r\<rparr>) = relayed st" "relayed (st\<lparr>gch_toolCallIdx := n\<rparr>) = relayed st"
  "relayed (st\<lparr>gch_info := x\<rparr>) = relayed st" "relayed (st\<lparr>gch_modelName := m\<rparr>) = relayed st" "relayed (st\<lparr>gch_usage := u\<rparr>) = relayed st"
  by (simp_all add: relayed_def)

lemma relayed_send: "relayed (gch_send d st) = relayed st @
    choice_relays \<lparr>sch_Index = 0, sch_Delta = d, sch_FinishReason = None, sch_LogProbs = JNull\<rparr>"
  by (simp add: relayed_def gch_send_def gch_chunk_def)

lemma relayed_sends: "relayed (fold gch_send ds st) = relayed st @
    concat (map (\<lambda>d. choice_relays \<lparr>sch_Index = 0, sch_Delta = d, sch_FinishReason = None, sch_LogProbs = JNull\<rparr>) ds)"
  by (induction ds arbitrary: st) (simp_all add: relayed_send)

lemma said_relays: "choice_relays \<lparr>sch_Index = i, sch_Delta = said_text t, sch_FinishReason = r, sch_LogProbs = l\<rparr> =
    (if t = [] then [] else [Said t])"
  by (simp add: choice_relays_def said_text_def zero_Message_def)

lemma part_relayed: "relayed (gch_part E p st) = relayed st @ part_pieces E p"
proof -
  have thought: "choice_relays \<lparr>sch_Index = 0, sch_Delta = zero_Message\<lparr>om_Role := ''assistant'', om_ReasoningContent := Some t\<rparr>,
      sch_FinishReason = None, sch_LogProbs = JNull\<rparr> = [Thinking t]" for t
    by (simp add: choice_relays_def zero_Message_def)
  have call: "choice_relays \<lparr>sch_Index = 0, sch_Delta = zero_Message\<lparr>om_ToolCalls := [tc]\<rparr>, sch_FinishReason = None, sch_LogProbs = JNull\<rparr> =
      [Calls (oc_Index tc) (fc_Name (oc_Function tc)) (fc_Arguments (oc_Function tc))]" for tc
    by (simp add: choice_relays_def zero_Message_def)
  have shown: "inline_text d = ''![image](data:'' @ gi_MimeType d @ '';base64,'' @ gi_Data d @ '')''"
    "code_text c = ''```'' @ gx_Language c @ [CHR 0x0A] @ gx_Code c @ CHR 0x0A # ''```''"
    "result_text r = ''Execution '' @ ge_Outcome r @ '':'' @ [CHR 0x0A] @ ge_Output r"
    "file_text f = ''[file]('' @ gf_FileURI f @ '')''" for d c r f
    by (simp_all add: inline_text_def code_text_def result_text_def file_text_def)
  have "relayed (fold gch_send (part_deltas p) st) @ (case gp_FunctionCall p of None \<Rightarrow> []
      | Some c \<Rightarrow> [Calls 0 (gfc_FunctionName c) (ce_text E (case gfc_Arguments c of None \<Rightarrow> JNull | Some j \<Rightarrow> j))]) =
    relayed st @ part_pieces E p"
    by (simp add: relayed_sends part_deltas_def part_pieces_def texts_def shown said_relays thought is_thought_def split: option.split)
  then show ?thesis
    by (cases "gp_FunctionCall p") (simp_all add: gch_part_def Let_def relayed_send call numbered_call_def)
qed

lemma parts_relayed: "relayed (fold (gch_part E) ps st) = relayed st @ concat (map (part_pieces E) ps)"
  by (induction ps arbitrary: st) (simp_all add: part_relayed)

lemma candidates_relayed: "relayed (fold (gch_candidate E) cs st) = relayed st @
    concat (map (\<lambda>c. case ca_Content c of None \<Rightarrow> [] | Some ct \<Rightarrow> concat (map (part_pieces E) (gc_Parts ct))) cs)"
  by (induction cs arbitrary: st) (simp_all add: gch_candidate_def Let_def parts_relayed split: option.split)

lemma response_relayed: "relayed (gch_response E r st) = relayed st @ response_pieces E r"
  by (simp add: gch_response_def response_pieces_def candidates_relayed)

lemma meter_relayed: "relayed (gch_meter r st) = relayed st"
  by (simp add: gch_meter_def split: option.split)

lemma loop_relayed: "relayed (fst (gch_loop E lines st)) = relayed st @ concat (map (response_pieces E) (responses_read E lines))"
proof (induction lines arbitrary: st)
  case (Cons l lines)
  obtain gone now line where l: "l = (gone, now, line)" by (cases l)
  show ?case
  proof (cases "sse_line line")
    case None
    then show ?thesis by (simp add: l gch_end_def Cons.IH)
  next
    case (Some dat)
    then show ?thesis
      by (cases "Option.bind (ce_parse E dat) dec_GeminiChatResponse")
        (simp_all add: l Let_def gch_end_def Cons.IH meter_relayed response_relayed)
  qed
qed simp

lemma finish_relayed: "relayed (gch_finish st) = relayed st"
  by (simp add: relayed_def gch_finish_def Let_def gch_chunk_def choice_relays_def zero_Message_def)

lemma finish_marked: "DoneMark \<in> set (gch_out (gch_finish st))"
  by (simp add: gch_finish_def Let_def)

text \<open>Nobody left and nothing was blocked before the end.\<close>

fun undisturbed :: "conv_env \<Rightarrow> (bool \<times> int \<times> string) list \<Rightarrow> bool" where
  "undisturbed E [] \<longleftrightarrow> True"
| "undisturbed E ((gone, now, line) # lines) \<longleftrightarrow>
     \<not> gone \<and> (case sse_line line of None \<Rightarrow> undisturbed E lines
      | Some dat \<Rightarrow> dat = ''[DONE]'' \<or>
          (case Option.bind (ce_parse E dat) dec_GeminiChatResponse of None \<Rightarrow> undisturbed E lines
            | Some r \<Rightarrow> gcr_BlockReason r = [] \<and> undisturbed E lines))"

lemma loop_through: "snd (gch_loop E lines st) = Through \<longleftrightarrow> undisturbed E lines"
proof (induction lines arbitrary: st)
  case (Cons l lines)
  obtain gone now line where l: "l = (gone, now, line)" by (cases l)
  show ?case
    by (cases "sse_line line"; cases "Option.bind (ce_parse E (the (sse_line line))) dec_GeminiChatResponse")
      (simp_all add: l Let_def Cons.IH)
qed simp

definition unmarked :: "gemini_chat \<Rightarrow> bool" where
  "unmarked st \<longleftrightarrow> DoneMark \<notin> set (gch_out st)"

lemma unmarked_keep [simp]:
  "unmarked (st\<lparr>gch_finishReason := r\<rparr>) = unmarked st" "unmarked (st\<lparr>gch_toolCallIdx := n\<rparr>) = unmarked st"
  "unmarked (st\<lparr>gch_info := x\<rparr>) = unmarked st" "unmarked (st\<lparr>gch_modelName := m\<rparr>) = unmarked st" "unmarked (st\<lparr>gch_usage := u\<rparr>) = unmarked st"
  by (simp_all add: unmarked_def)

lemma send_unmarked: "unmarked (gch_send d st) = unmarked st" "unmarked (fold gch_send ds st) = unmarked st"
proof -
  show "unmarked (gch_send d st) = unmarked st" for d st by (simp add: gch_send_def unmarked_def)
  then show "unmarked (fold gch_send ds st) = unmarked st" by (induction ds arbitrary: st) simp_all
qed

lemma parts_unmarked: "unmarked (fold (gch_part E) ps st) = unmarked st"
  by (induction ps arbitrary: st) (simp_all add: gch_part_def Let_def send_unmarked split: option.split)

lemma candidate_unmarked: "unmarked (gch_candidate E c st) = unmarked st"
  by (simp add: gch_candidate_def Let_def parts_unmarked split: option.split)

lemma response_unmarked: "unmarked (gch_response E r st) = unmarked st" "unmarked (gch_meter r st) = unmarked st"
proof -
  have "unmarked (fold (gch_candidate E) cs s) = unmarked s" for cs s
    by (induction cs arbitrary: s) (simp_all add: candidate_unmarked)
  then show "unmarked (gch_response E r st) = unmarked st" by (simp add: gch_response_def)
qed (simp add: gch_meter_def split: option.split)

lemma loop_unmarked: "unmarked (fst (gch_loop E lines st)) = unmarked st"
proof (induction lines arbitrary: st)
  case (Cons l lines)
  obtain gone now line where l: "l = (gone, now, line)" by (cases l)
  show ?case
  proof (cases "sse_line line")
    case None
    then show ?thesis by (simp add: l gch_end_def Cons.IH)
  next
    case (Some dat)
    then show ?thesis
      by (cases "Option.bind (ce_parse E dat) dec_GeminiChatResponse")
        (simp_all add: l Let_def gch_end_def Cons.IH response_unmarked)
  qed
qed simp

text \<open>The calls are numbered by their ids.\<close>

definition numbered :: "gemini_chat \<Rightarrow> bool" where
  "numbered st \<longleftrightarrow> 0 \<le> gch_toolCallIdx st \<and>
     call_ids st = map (\<lambda>n. ''call_'' @ ri_RequestID (gch_info st) @ ''_'' @ show_int (int n)) [0..<nat (gch_toolCallIdx st)]"

lemma call_ids_keep [simp]:
  "call_ids (st\<lparr>gch_finishReason := r\<rparr>) = call_ids st" "call_ids (st\<lparr>gch_toolCallIdx := n\<rparr>) = call_ids st"
  "call_ids (st\<lparr>gch_info := x\<rparr>) = call_ids st" "call_ids (st\<lparr>gch_modelName := m\<rparr>) = call_ids st" "call_ids (st\<lparr>gch_usage := u\<rparr>) = call_ids st"
  by (simp_all add: call_ids_def)

lemma call_ids_send: "call_ids (gch_send d st) = call_ids st @ map oc_ID (om_ToolCalls d)"
  by (simp add: call_ids_def gch_send_def gch_chunk_def)

lemma send_keeps [simp]: "gch_toolCallIdx (gch_send d st) = gch_toolCallIdx st" "gch_info (gch_send d st) = gch_info st"
  by (simp_all add: gch_send_def)

lemma numbered_part: "numbered st \<Longrightarrow> numbered (gch_part E p st) \<and> ri_RequestID (gch_info (gch_part E p st)) = ri_RequestID (gch_info st)"
proof -
  have sends: "\<forall>d \<in> set ds. om_ToolCalls d = [] \<Longrightarrow> call_ids (fold gch_send ds s) = call_ids s \<and>
      gch_toolCallIdx (fold gch_send ds s) = gch_toolCallIdx s \<and> gch_info (fold gch_send ds s) = gch_info s" for ds s
    by (induction ds arbitrary: s) (simp_all add: call_ids_send)
  have "\<forall>d \<in> set (part_deltas p). om_ToolCalls d = []"
    by (auto simp: part_deltas_def said_text_def zero_Message_def)
  note deltas = sends [OF this, of st]
  assume "numbered st"
  then show ?thesis
    using deltas by (simp add: gch_part_def Let_def numbered_def call_ids_send numbered_call_def zero_Message_def nat_add_distrib
      split: option.split)
qed

lemma numbered_response:
  "numbered st \<Longrightarrow> numbered (gch_response E r st) \<and> ri_RequestID (gch_info (gch_response E r st)) = ri_RequestID (gch_info st)"
proof -
  have parts: "numbered s \<Longrightarrow> numbered (fold (gch_part E) ps s) \<and> ri_RequestID (gch_info (fold (gch_part E) ps s)) = ri_RequestID (gch_info s)" for ps s
    by (induction ps arbitrary: s) (simp_all add: numbered_part)
  have reason: "numbered (s\<lparr>gch_finishReason := x\<rparr>) = numbered s" "numbered (s\<lparr>gch_modelName := x\<rparr>) = numbered s" for s x
    by (simp_all add: numbered_def)
  have candidate: "numbered s \<Longrightarrow> numbered (gch_candidate E c s) \<and> ri_RequestID (gch_info (gch_candidate E c s)) = ri_RequestID (gch_info s)" for c s
    by (simp add: gch_candidate_def Let_def parts reason split: option.split)
  have "numbered s \<Longrightarrow> numbered (fold (gch_candidate E) cs s) \<and> ri_RequestID (gch_info (fold (gch_candidate E) cs s)) = ri_RequestID (gch_info s)" for cs s
    by (induction cs arbitrary: s) (simp_all add: candidate)
  then show "numbered st \<Longrightarrow> ?thesis" by (simp add: gch_response_def reason)
qed

lemma numbered_meter: "numbered (gch_meter r st) = numbered st" "gch_info (gch_meter r st) = gch_info st"
  by (simp_all add: gch_meter_def numbered_def split: option.split)

lemma numbered_loop:
  "numbered st \<Longrightarrow> numbered (fst (gch_loop E lines st)) \<and> ri_RequestID (gch_info (fst (gch_loop E lines st))) = ri_RequestID (gch_info st)"
proof (induction lines arbitrary: st)
  case (Cons l lines)
  obtain gone now line where l: "l = (gone, now, line)" by (cases l)
  have end': "numbered (gch_end r e st)" "ri_RequestID (gch_info (gch_end r e st)) = ri_RequestID (gch_info st)" for r e
    using Cons.prems by (simp_all add: gch_end_def numbered_def)
  have timed: "numbered (st\<lparr>gch_info := SetFirstResponseTime now (gch_info st)\<rparr>)"
    "ri_RequestID (SetFirstResponseTime now (gch_info st)) = ri_RequestID (gch_info st)"
    using Cons.prems by (simp_all add: numbered_def SetFirstResponseTime_def)
  show ?case
  proof (cases "sse_line line")
    case None
    then show ?thesis using Cons.prems by (simp add: l end' Cons.IH)
  next
    case (Some dat)
    define st1 where "st1 = (if dat \<noteq> [] then st\<lparr>gch_info := SetFirstResponseTime now (gch_info st)\<rparr> else st)"
    have st1: "numbered st1" "ri_RequestID (gch_info st1) = ri_RequestID (gch_info st)"
      using Cons.prems timed by (simp_all add: st1_def)
    then have "numbered (gch_response E r (gch_meter r st1)) \<and>
        ri_RequestID (gch_info (gch_response E r (gch_meter r st1))) = ri_RequestID (gch_info st)" for r
      using numbered_response [of "gch_meter r st1" E r] by (simp add: numbered_meter)
    then show ?thesis
      using Cons.prems Some st1 Cons.IH
      by (cases "Option.bind (ce_parse E dat) dec_GeminiChatResponse") (simp_all add: l end' st1_def [symmetric] numbered_meter Let_def)
  qed
qed simp

lemma call_ids_finish: "call_ids (gch_finish st) = call_ids st"
  by (simp add: call_ids_def gch_finish_def Let_def gch_chunk_def zero_Message_def)

text \<open>Property C40. Every text, thought, image, file, piece of code and call in the answers of a Gemini channel reaches the
  OpenAI client once, in order, and nothing else does.  Every call has the index 0, so that only its id, made of the
  number of the call, tells it from another one.  An error is reported exactly when the client left, Gemini blocked the
  prompt or the scanner failed.\<close>

theorem gemini_stream_is_relayed:
  "let (answer, st, usage, err) = gemini_handleStreamToOpenAI E 200 body lines scan info in
     relayed st = concat (map (response_pieces E) (responses_read E lines)) \<and>
     call_ids st = map (\<lambda>n. ''call_'' @ ri_RequestID info @ ''_'' @ show_int (int n)) [0..<length (call_ids st)] \<and>
     (err = None \<longleftrightarrow> undisturbed E lines \<and> scan = None) \<and>
     (undisturbed E lines \<longleftrightarrow> DoneMark \<in> set (gch_out st))"
proof -
  obtain st0 e where loop: "gch_loop E lines (new_gch info) = (st0, e)" by fastforce
  have st0: "relayed st0 = concat (map (response_pieces E) (responses_read E lines))"
    using loop_relayed [of E lines "new_gch info"] loop by (simp add: relayed_def new_gch_def)
  have "numbered st0 \<and> ri_RequestID (gch_info st0) = ri_RequestID info"
    using numbered_loop [of "new_gch info" E lines] loop by (simp add: numbered_def new_gch_def call_ids_def)
  then have ids: "call_ids st0 = map (\<lambda>n. ''call_'' @ ri_RequestID info @ ''_'' @ show_int (int n)) [0..<length (call_ids st0)]"
    by (simp add: numbered_def)
  have out: "DoneMark \<notin> set (gch_out st0)"
    using loop_unmarked [of E lines "new_gch info"] loop by (simp add: new_gch_def unmarked_def)
  have through: "undisturbed E lines \<longleftrightarrow> e = Through"
    using loop_through [of E lines "new_gch info"] loop by simp
  show ?thesis
    using st0 out loop ids through
    by (cases e) (simp_all add: gemini_handleStreamToOpenAI_def Let_def finish_relayed finish_marked call_ids_finish gch_end_def split: option.split)
qed

section \<open>A Gemini client of an OpenAI channel\<close>

definition answer_parts :: "GeminiChatResponse \<Rightarrow> GeminiPart list" where
  "answer_parts r = concat (map (\<lambda>c. case ca_Content c of None \<Rightarrow> [] | Some ct \<Rightarrow> gc_Parts ct) (gcr_Candidates r))"

definition sent_parts :: "gemini_stream \<Rightarrow> GeminiPart list" where
  "sent_parts st = concat (map answer_parts (gst_out st))"

definition chunk_parts :: "conv_env \<Rightarrow> ChatCompletionStreamResponse \<Rightarrow> GeminiPart list" where
  "chunk_parts E chunk = concat (map (\<lambda>c. buildGeminiPartsFromDelta E (sch_Delta c)) (csr_Choices chunk))"

lemma sse_line_eq: "sse_line line = line_data line"
  by (cases line) (auto simp: sse_line_def line_data_def HasPrefix_def)

lemma sent_parts_keep [simp]:
  "sent_parts (st\<lparr>gst_usage := u\<rparr>) = sent_parts st" "sent_parts (st\<lparr>gst_info := x\<rparr>) = sent_parts st"
  "sent_parts (st\<lparr>gst_finishReason := r, gst_out := os\<rparr>) = concat (map answer_parts os)"
  by (simp_all add: sent_parts_def)

lemma candidate_parts: "concat (map (\<lambda>c. case ca_Content c of None \<Rightarrow> [] | Some ct \<Rightarrow> gc_Parts ct) (List.map_filter (gst_candidate E) cs)) =
    concat (map (\<lambda>c. buildGeminiPartsFromDelta E (sch_Delta c)) cs)"
  by (induction cs) (simp_all add: List.map_filter_simps gst_candidate_def Let_def)

lemma chunk_sent_parts: "sent_parts (gst_chunk E chunk st) = sent_parts st @ chunk_parts E chunk"
proof -
  define cs where "cs = List.map_filter (gst_candidate E) (csr_Choices chunk)"
  have "answer_parts (no_answer\<lparr>gcr_Candidates := cs\<rparr>) = chunk_parts E chunk"
    using candidate_parts [of E "csr_Choices chunk"] by (simp add: answer_parts_def chunk_parts_def cs_def)
  moreover have "chunk_parts E chunk = []" if "cs = []"
    using candidate_parts [of E "csr_Choices chunk"] that by (simp add: chunk_parts_def cs_def)
  ultimately show ?thesis
    unfolding gst_chunk_def Let_def cs_def [symmetric] by (simp split: option.split) (simp add: sent_parts_def)
qed

lemma gst_loop_parts: "sent_parts (fst (gst_loop E lines st)) = sent_parts st @ concat (map (chunk_parts E) (chunks_read E lines))"
proof (induction lines arbitrary: st)
  case (Cons l lines)
  obtain gone now line where l: "l = (gone, now, line)" by (cases l)
  show ?case
  proof (cases "line_data line")
    case None
    then show ?thesis by (simp add: l gst_end_def sse_line_eq Cons.IH)
  next
    case (Some dat)
    then show ?thesis
      by (cases "Option.bind (ce_parse E dat) (dec_ChatCompletionStreamResponse E)")
        (simp_all add: l Let_def gst_end_def sse_line_eq Cons.IH chunk_sent_parts)
  qed
qed simp

lemma final_parts: "answer_parts (gst_final st) = []"
  by (simp add: answer_parts_def gst_final_def Let_def)

lemma stream_parts:
  assumes "handleGeminiInboundStream E 200 body lines scan info = (answer, st, err)"
  shows "sent_parts st = concat (map (chunk_parts E) (chunks_read E lines))"
proof -
  obtain st0 e where loop: "gst_loop E lines (new_gst info) = (st0, e)" by (cases "gst_loop E lines (new_gst info)")
  then have "sent_parts st0 = concat (map (chunk_parts E) (chunks_read E lines))"
    using gst_loop_parts [of E lines "new_gst info"] by (simp add: sent_parts_def new_gst_def)
  then show ?thesis
    using assms loop
    by (cases e; cases scan) (auto simp: handleGeminiInboundStream_def Let_def gst_end_def sent_parts_def final_parts)
qed

definition stream_calls :: "ChatCompletionStreamResponse list \<Rightarrow> ToolCall list" where
  "stream_calls chunks = concat (map (\<lambda>r. concat (map (\<lambda>c. om_ToolCalls (sch_Delta c)) (csr_Choices r))) chunks)"

lemma callless: "p \<in> set (thought_parts r) \<Longrightarrow> gp_FunctionCall p = None" "p \<in> set (text_parts j) \<Longrightarrow> gp_FunctionCall p = None"
  by (auto simp: thought_parts_def text_parts_def empty_part_def split: option.splits json.splits if_splits)

lemma call_from: "p \<in> set (buildGeminiPartsFromDelta E d) \<Longrightarrow> gp_FunctionCall p = Some c \<Longrightarrow>
    gfc_Arguments c \<in> (\<lambda>tc. if fc_Arguments (oc_Function tc) = [] then None else parsed_args E (fc_Arguments (oc_Function tc))) ` set (om_ToolCalls d)"
  by (auto simp: buildGeminiPartsFromDelta_def gcall_part_def callless)

text \<open>A Gemini client of an OpenAI channel is sent one call for every piece of a call, and where the
  arguments come in pieces that are no documents of their own, none of these calls has arguments.\<close>

theorem gemini_client_gets_no_split_arguments:
  assumes "handleGeminiInboundStream E 200 body lines scan info = (answer, st, err)"
    and "\<forall>tc \<in> set (stream_calls (chunks_read E lines)). ce_parse E (fc_Arguments (oc_Function tc)) = None"
  shows "\<forall>p \<in> set (sent_parts st). \<forall>c. gp_FunctionCall p = Some c \<longrightarrow> gfc_Arguments c = None \<or> gfc_Arguments c = Some (JObj [])"
proof (intro ballI allI impI)
  fix p c
  assume p: "p \<in> set (sent_parts st)" and c: "gp_FunctionCall p = Some c"
  then obtain r ch where rc: "r \<in> set (chunks_read E lines)" "ch \<in> set (csr_Choices r)" "p \<in> set (buildGeminiPartsFromDelta E (sch_Delta ch))"
    by (auto simp: stream_parts [OF assms(1)] chunk_parts_def)
  from call_from [OF rc(3) c] obtain tc where tc: "tc \<in> set (om_ToolCalls (sch_Delta ch))"
    and args: "gfc_Arguments c = (if fc_Arguments (oc_Function tc) = [] then None else parsed_args E (fc_Arguments (oc_Function tc)))"
    by blast
  have "tc \<in> set (stream_calls (chunks_read E lines))" using rc tc by (auto simp: stream_calls_def)
  then show "gfc_Arguments c = None \<or> gfc_Arguments c = Some (JObj [])" using assms(2) args by (simp add: parsed_args_def)
qed

text \<open>A call whose arguments come in two pieces.\<close>

definition halves_env :: conv_env where
  "halves_env = sample_env\<lparr>ce_parse := \<lambda>s.
     if s = ''1'' then Some (JObj [(''choices'', JArr [JObj [(''delta'', JObj [(''tool_calls'', JArr [JObj [(''id'', JStr ''c''),
       (''function'', JObj [(''name'', JStr ''f''), (''arguments'', JStr ''{x'')])]])])]])])
     else if s = ''2'' then Some (JObj [(''choices'', JArr [JObj [(''delta'', JObj [(''tool_calls'', JArr [JObj [
       (''function'', JObj [(''arguments'', JStr ''y}'')])]])])]])])
     else None\<rparr>"

definition halves_lines :: "(bool \<times> int \<times> string) list" where
  "halves_lines = [(False, 1, ''data: 1''), (False, 2, ''data: 2''), (False, 3, ''data: [DONE]'')]"

theorem gemini_client_gets_no_split_arguments_witness:
  "let st = fst (snd (handleGeminiInboundStream halves_env 200 [] halves_lines None sample_info)) in
     length (sent_parts st) = 2 \<and>
     (\<forall>p \<in> set (sent_parts st). \<forall>c. gp_FunctionCall p = Some c \<longrightarrow> gfc_Arguments c = None \<or> gfc_Arguments c = Some (JObj []))"
proof -
  obtain answer st err where h: "handleGeminiInboundStream halves_env 200 [] halves_lines None sample_info = (answer, st, err)"
    by (rule prod_cases3)
  have "map (\<lambda>tc. fc_Arguments (oc_Function tc)) (stream_calls (chunks_read halves_env halves_lines)) = [''{x'', ''y}'']"
    by code_simp
  then have "\<forall>tc \<in> set (stream_calls (chunks_read halves_env halves_lines)). ce_parse halves_env (fc_Arguments (oc_Function tc)) = None"
    by (auto simp: halves_env_def map_eq_Cons_conv)
  moreover have "length (sent_parts (fst (snd (handleGeminiInboundStream halves_env 200 [] halves_lines None sample_info)))) = 2"
    by code_simp
  ultimately show ?thesis using gemini_client_gets_no_split_arguments [OF h] h by simp
qed

end
