(* ===== verification/Upstream.thy ===== *)
theory Upstream
  imports Handler Override GeminiChannel GeminiConv
begin

text \<open>
  What the adaptors share: the request they build and the transport that sends it, the fields they set
  in a body, and the scanner of streams (\<^verbatim>\<open>relay/helper/stream_scanner.go\<close>) up to its concurrency.
  The transport is a parameter: it gives the whole answer, or the lines of a stream with what happens
  around them.
\<close>

section \<open>Requests and answers\<close>

record http_request =
  hr_URL :: string
  hr_Header :: http_header
  hr_Body :: payload
  hr_Timeout :: int
  hr_UseProxy :: bool
  hr_IsStream :: bool

text \<open>A line comes with whether the client is gone when it is read, and the time.  \<open>up_Cut\<close> is the number of
  data the handler of a scanned stream gets to see before something else (an idle timeout, a failed ping, the
  client leaving) ends it; \<open>up_Ahead\<close> says that the end of the stream was noted before the handler was done.\<close>

record upstream =
  up_StatusCode :: int
  up_Header :: http_header
  up_Body :: "go_err + string"
  up_Lines :: "(bool \<times> int \<times> string) list"
  up_Scan :: "go_err option"
  up_Cut :: "(nat \<times> StreamEndReason \<times> go_err option) option"
  up_Ahead :: bool
  up_Writes :: "bool list"
  up_Nanos :: "int \<times> int"
  up_Now :: int
  up_Later :: int
  up_Order :: order

record http_lib =
  hl_NewRequest :: "string \<Rightarrow> go_err option"
  hl_Do :: "http_request \<Rightarrow> go_err + upstream"

text \<open>The body of a stream that is not one; an error while reading it is ignored.\<close>

definition body_text :: "upstream \<Rightarrow> string" where
  "body_text r = (case up_Body r of Inl e \<Rightarrow> [] | Inr b \<Rightarrow> b)"

definition header_Get :: "http_header option \<Rightarrow> string \<Rightarrow> string" where
  "header_Get h k = (case header_Values h k of [] \<Rightarrow> [] | v # vs \<Rightarrow> v)"

text \<open>Copy the named headers the client sent.\<close>

definition copy_headers :: "string list \<Rightarrow> RelayInfo \<Rightarrow> http_header \<Rightarrow> http_header" where
  "copy_headers ks info h = fold (\<lambda>k h. let v = header_Get (ri_RequestHeaders info) k in if v \<noteq> [] then header_Set h k v else h) ks h"

text \<open>The overrides of the channel: no result where they do not return.\<close>

definition override_headers :: "'d ov_lib \<Rightarrow> RelayInfo \<Rightarrow> http_header \<Rightarrow> http_header option" where
  "override_headers L info h = (case ApplyHeaderOverride L info of None \<Rightarrow> None
     | Some None \<Rightarrow> Some h | Some (Some hs) \<Rightarrow> Some (MergeHeaderOverrides h hs))"

definition request_timeout :: "int \<Rightarrow> RelayInfo \<Rightarrow> int" where
  "request_timeout seconds info = (let t = cs_TimeoutSeconds (cm_Settings (ri_ChannelMeta info)) in if t \<le> 0 then seconds else t)"

definition send_failed :: "go_err \<Rightarrow> go_err" where
  "send_failed e = ErrWrap e ''send request failed''"

text \<open>\<open>wrap'\<close> is what an adaptor makes of an error of the transport, \<open>seconds\<close> its timeout where the channel has none,
  and \<open>fixup\<close> what it does to the headers after the overrides.\<close>

definition send_request :: "'d ov_lib \<Rightarrow> http_lib \<Rightarrow> (go_err \<Rightarrow> go_err) \<Rightarrow> int \<Rightarrow> go_err + string \<Rightarrow> http_header \<Rightarrow>
    (http_header \<Rightarrow> http_header) \<Rightarrow> RelayInfo \<Rightarrow> payload \<Rightarrow> (go_err + upstream) option" where
  "send_request L H wrap' seconds url header fixup info body = (case url of Inl e \<Rightarrow> Some (Inl e)
     | Inr reqURL \<Rightarrow> (case hl_NewRequest H reqURL of Some e \<Rightarrow> Some (Inl (ErrWrap e ''create request failed''))
         | None \<Rightarrow> (case override_headers L info header of None \<Rightarrow> None
             | Some h \<Rightarrow> (case hl_Do H \<lparr>hr_URL = reqURL, hr_Header = fixup h, hr_Body = body, hr_Timeout = request_timeout seconds info,
                   hr_UseProxy = cs_UseProxy (cm_Settings (ri_ChannelMeta info)), hr_IsStream = ri_IsStream info\<rparr> of
                 Inl e \<Rightarrow> Some (Inl (wrap' e)) | Inr r \<Rightarrow> Some (Inr r)))))"

section \<open>Fields of a body\<close>

text \<open>A body that is no object stays as it is.  A null body, on which the code panics, is not passed: the relay has
  read the model out of the body before.\<close>

definition put_field :: "string \<Rightarrow> json \<Rightarrow> (string \<times> json) list \<Rightarrow> (string \<times> json) list" where
  "put_field k v m = filter (\<lambda>x. fst x \<noteq> k) m @ [(k, v)]"

lemma jlookup_filter_other: "k \<noteq> k' \<Longrightarrow> jlookup k (filter (\<lambda>x. fst x \<noteq> k') m) = jlookup k m"
  by (induction m) (auto simp: jlookup_Cons split: option.split)

lemma jlookup_put_field [simp]: "jlookup k (put_field k' v m) = (if k = k' then Some v else jlookup k m)"
  by (auto simp: put_field_def jlookup_append jlookup_Cons jlookup_filter_other)

definition in_object :: "((string \<times> json) list \<Rightarrow> (string \<times> json) list) \<Rightarrow> json \<Rightarrow> json" where
  "in_object f j = (case j of JObj m \<Rightarrow> JObj (f m) | _ \<Rightarrow> j)"

definition has_key :: "string \<Rightarrow> (string \<times> json) list \<Rightarrow> bool" where
  "has_key k m \<longleftrightarrow> jlookup k m \<noteq> None"

text \<open>The name is put between quotes; a text that is then no document leaves the body as it is.\<close>

definition raw_name :: "conv_env \<Rightarrow> string \<Rightarrow> raw" where
  "raw_name E name = ce_parse E (CHR 0x22 # name @ [CHR 0x22])"

definition replaceModelIfNeeded :: "conv_env \<Rightarrow> RelayInfo \<Rightarrow> json \<Rightarrow> json" where
  "replaceModelIfNeeded E info j =
     (if cm_IsModelMapped (ri_ChannelMeta info)
      then (case raw_name E (cm_UpstreamModelName (ri_ChannelMeta info)) of
          None \<Rightarrow> j | Some v \<Rightarrow> in_object (put_field ''model'' v) j)
      else j)"

definition put_missing :: "string \<Rightarrow> json \<Rightarrow> json \<Rightarrow> json" where
  "put_missing k v = in_object (\<lambda>m. if has_key k m then m else put_field k v m)"

definition injectStreamOptions :: "RelayInfo \<Rightarrow> json \<Rightarrow> json" where
  "injectStreamOptions info j =
     (if ri_IsStream info then put_missing ''stream_options'' (JObj [(''include_usage'', JBool True)]) j else j)"

section \<open>The scanner\<close>

text \<open>The data the scanner hands on, and the end it notes.\<close>

fun scan_lines :: "string list \<Rightarrow> go_err option \<Rightarrow> string list \<times> StreamEndReason \<times> go_err option" where
  "scan_lines [] e = (case e of None \<Rightarrow> ([], StreamEndReasonEOF, None) | Some x \<Rightarrow> ([], StreamEndReasonScannerErr, Some x))"
| "scan_lines (line # lines) e =
     (if length line < 6 then scan_lines lines e
      else if line = ''[DONE]'' then ([], StreamEndReasonDone, None)
      else case ExtractSSEData line of None \<Rightarrow> scan_lines lines e
        | Some dat \<Rightarrow> if dat = [] then scan_lines lines e
            else if dat = ''[DONE]'' then ([], StreamEndReasonDone, None)
            else (dat # fst (scan_lines lines e), snd (scan_lines lines e)))"

definition scanned :: "upstream \<Rightarrow> string list \<times> StreamEndReason \<times> go_err option" where
  "scanned r = (let (datas, reason, e) = scan_lines (map (snd \<circ> snd) (up_Lines r)) (up_Scan r) in
     case up_Cut r of None \<Rightarrow> (datas, reason, e) | Some (n, reason', e') \<Rightarrow> (take n datas, reason', e'))"

text \<open>The status after the stream: what the handler stopped with, and the end noted by the others.\<close>

definition settle_status :: "upstream \<Rightarrow> (StreamEndReason \<times> go_err option) option \<Rightarrow> StreamStatus \<Rightarrow> StreamStatus" where
  "settle_status r stop s =
     (let (datas, reason, e) = scanned r; note = SetEndReason reason e;
          halt = (case stop of None \<Rightarrow> (\<lambda>s. s) | Some (why, err) \<Rightarrow> SetEndReason why err) in
      if up_Ahead r then halt (note s) else note (halt s))"

section \<open>Answers\<close>

definition payload_of :: "conv_env \<Rightarrow> string \<Rightarrow> payload" where
  "payload_of E s = (case ce_parse E s of None \<Rightarrow> Text s | Some j \<Rightarrow> Doc j)"

definition no_writes :: "Usage option \<Rightarrow> go_err option \<Rightarrow> answer" where
  "no_writes u e = \<lparr>aw_Usage = u, aw_Err = e, aw_Code = 0, aw_Body = Text [], aw_Headers = [], aw_ResponseText = []\<rparr>"

fun write_out :: "conv_env \<Rightarrow> written \<Rightarrow> answer \<Rightarrow> answer" where
  "write_out E (Plain c s) a = a\<lparr>aw_Code := c, aw_Body := payload_of E s, aw_Headers := [(''Content-Type'', ''application/json'')]\<rparr>"
| "write_out E (Made c j) a = a\<lparr>aw_Code := c, aw_Body := Doc j, aw_Headers := [(''Content-Type'', ''application/json'')]\<rparr>"

definition answer_of :: "conv_env \<Rightarrow> written list \<Rightarrow> Usage option \<Rightarrow> go_err option \<Rightarrow> answer" where
  "answer_of E ws u e = fold (write_out E) ws (no_writes u e)"

text \<open>A stream: its headers are sent first, its text is that of the events.\<close>

definition sse_data :: "string \<Rightarrow> string" where
  "sse_data s = ''data: '' @ s @ ''\<newline>\<newline>''"

definition sse_event :: "string \<Rightarrow> string \<Rightarrow> string" where
  "sse_event t s = ''event: '' @ t @ ''\<newline>'' @ sse_data s"

definition event_stream_headers :: "(string \<times> string) list" where
  "event_stream_headers = [(''Content-Type'', ''text/event-stream''), (''Cache-Control'', ''no-cache''), (''Connection'', ''keep-alive''),
     (''X-Accel-Buffering'', ''no'')]"

definition stream_of :: "string list \<Rightarrow> Usage option \<Rightarrow> go_err option \<Rightarrow> string \<Rightarrow> answer" where
  "stream_of events u e text = \<lparr>aw_Usage = u, aw_Err = e, aw_Code = 200, aw_Body = Text (concat events), aw_Headers = event_stream_headers,
     aw_ResponseText = text\<rparr>"

fun out_event :: "conv_env \<Rightarrow> openai_out \<Rightarrow> string" where
  "out_event E (Chunk c) = sse_data (ce_text E (chunk_json c))"
| "out_event E DoneMark = sse_data ''[DONE]''"

primrec mode_number :: "RelayMode \<Rightarrow> int" where
  "mode_number RelayModeUnknown = 0"
| "mode_number RelayModeChatCompletions = 1"
| "mode_number RelayModeCompletions = 2"
| "mode_number RelayModeEmbeddings = 3"
| "mode_number RelayModeImagesGenerations = 4"
| "mode_number RelayModeAudioSpeech = 5"
| "mode_number RelayModeAudioTranscription = 6"
| "mode_number RelayModeRerank = 7"
| "mode_number RelayModeResponses = 8"
| "mode_number RelayModeRealtime = 9"
| "mode_number RelayModeClaudeMessages = 10"
| "mode_number RelayModeGeminiChat = 11"
| "mode_number RelayModeAudioTranslation = 12"
| "mode_number RelayModeVideoGenerations = 13"
| "mode_number RelayModeVideoFetch = 14"
| "mode_number RelayModeSunoSubmit = 15"
| "mode_number RelayModeSunoFetch = 16"
| "mode_number RelayModeModerations = 17"
| "mode_number RelayModeImagesEdits = 18"
| "mode_number RelayModeMjSubmit = 19"
| "mode_number RelayModeMjFetch = 20"
| "mode_number RelayModeMjImage = 21"
| "mode_number RelayModeResponsesCompact = 22"

end
