(* ===== verification/OpenAIAdaptor.thy ===== *)
theory OpenAIAdaptor
  imports Upstream
begin

text \<open>
  The adaptor of OpenAI channels: \<^verbatim>\<open>relay/channel/openai/adaptor.go\<close> with the handlers of
  \<^verbatim>\<open>stream.go\<close>, \<^verbatim>\<open>completion.go\<close>, \<^verbatim>\<open>embedding.go\<close>,
  \<^verbatim>\<open>image.go\<close>, \<^verbatim>\<open>audio.go\<close>, \<^verbatim>\<open>rerank.go\<close> and
  \<^verbatim>\<open>chat_via_responses.go\<close>, put together as the adaptor the relay calls.
\<close>

section \<open>The request\<close>

definition GetRequestURL :: "RelayInfo \<Rightarrow> go_err + string" where
  "GetRequestURL info =
     (let baseURL = TrimSuffix (cm_BaseURL (ri_ChannelMeta info)) ''/''; m = ri_RelayMode info; at' = \<lambda>p. Inr (baseURL @ p) in
      if m \<in> {RelayModeChatCompletions, RelayModeClaudeMessages}
        then at' (if ri_UseResponsesAPI info then ''/v1/responses'' else ''/v1/chat/completions'')
      else if m = RelayModeCompletions then at' ''/v1/completions''
      else if m = RelayModeEmbeddings then at' ''/v1/embeddings''
      else if m = RelayModeImagesGenerations then at' ''/v1/images/generations''
      else if m = RelayModeImagesEdits then at' ''/v1/images/edits''
      else if m = RelayModeModerations then at' ''/v1/moderations''
      else if m = RelayModeAudioSpeech then at' ''/v1/audio/speech''
      else if m = RelayModeAudioTranscription then at' ''/v1/audio/transcriptions''
      else if m = RelayModeAudioTranslation then at' ''/v1/audio/translations''
      else if m = RelayModeRerank then at' ''/v1/rerank''
      else if m \<in> {RelayModeResponses, RelayModeResponsesCompact} then at' ''/v1/chat/completions''
      else Inl (ErrNewf ''unsupported relay mode: %d'' [AInt (mode_number m)]))"

definition transcribes :: "RelayInfo \<Rightarrow> bool" where
  "transcribes info \<longleftrightarrow> ri_RelayMode info \<in> {RelayModeAudioTranscription, RelayModeAudioTranslation}"

definition SetupRequestHeader :: "RelayInfo \<Rightarrow> http_header" where
  "SetupRequestHeader info =
     (let h = header_Set [] ''Authorization'' (''Bearer '' @ cm_ApiKey (ri_ChannelMeta info));
          ct = header_Get (ri_RequestHeaders info) ''Content-Type'';
          h1 = (if transcribes info then h else header_Set h ''Content-Type'' (if ct \<noteq> [] then ct else ''application/json''));
          accept = header_Get (ri_RequestHeaders info) ''Accept'';
          h2 = header_Set h1 ''Accept'' (if accept \<noteq> [] then accept
            else if ri_IsStream info then ''text/event-stream'' else ''application/json'') in
      copy_headers [''X-Request-Id''] info h2)"

definition injectReasoningEffort :: "string \<Rightarrow> json \<Rightarrow> json" where
  "injectReasoningEffort effort = put_missing ''reasoning_effort'' (JStr effort)"

definition audio_or_rerank :: "RelayMode set" where
  "audio_or_rerank = {RelayModeAudioSpeech, RelayModeAudioTranscription, RelayModeAudioTranslation, RelayModeRerank}"

definition to_openai :: "conv_env \<Rightarrow> RelayInfo \<Rightarrow> json \<Rightarrow> go_err + json" where
  "to_openai E info body =
     (if ri_InboundFormat info = RelayFormatClaude then ConvertClaudeToOpenAI E (Some body) info
      else if ri_InboundFormat info = RelayFormatGemini then ConvertGeminiToOpenAI E (Some body) info
      else if ri_InboundFormat info = RelayFormatResponses then ConvertResponsesToOpenAI (Some body) info
      else Inr body)"

definition openai_ConvertRequest :: "conv_env \<Rightarrow> RelayInfo \<Rightarrow> json \<Rightarrow> go_err + reader" where
  "openai_ConvertRequest E info body =
     (if ri_RelayMode info \<in> audio_or_rerank then Inr (BytesReader (Doc body))
      else (case to_openai E info body of Inl e \<Rightarrow> Inl e
        | Inr converted \<Rightarrow>
            let r1 = replaceModelIfNeeded E info converted;
                r2 = (if ri_IsStream info \<and> ri_RelayMode info \<noteq> RelayModeImagesGenerations \<and> ri_RelayMode info \<noteq> RelayModeImagesEdits
                  then injectStreamOptions info r1 else r1);
                r3 = (if ri_ReasoningEffort info \<noteq> [] then injectReasoningEffort (ri_ReasoningEffort info) r2 else r2) in
            Inr (BytesReader (Doc r3))))"

text \<open>After the overrides, a missing content type is filled in, and that of a form is the client's.\<close>

definition content_type_fixup :: "RelayInfo \<Rightarrow> http_header \<Rightarrow> http_header" where
  "content_type_fixup info h =
     (let h1 = (if header_Get (Some h) ''Content-Type'' = [] \<and> \<not> transcribes info then header_Set h ''Content-Type'' ''application/json'' else h);
          ct = header_Get (ri_RequestHeaders info) ''Content-Type'' in
      if transcribes info \<and> ct \<noteq> [] then header_Set h1 ''Content-Type'' ct else h1)"

definition openai_DoRequest :: "'d ov_lib \<Rightarrow> http_lib \<Rightarrow> RelayInfo \<Rightarrow> payload \<Rightarrow> (go_err + upstream) option" where
  "openai_DoRequest L H info body = send_request L H send_failed 60 (GetRequestURL info) (SetupRequestHeader info) (content_type_fixup info) info body"

section \<open>Names in the answer\<close>

text \<open>The value of every field \<^verbatim>\<open>"model":"\<close> becomes \<open>replacement\<close>, which ends with the quote.\<close>

function replaceModelNameInJSON :: "string \<Rightarrow> string \<Rightarrow> string" where
  "replaceModelNameInJSON replacement body = (case Index body model_prefix of None \<Rightarrow> body
     | Some idx \<Rightarrow>
         let rest = drop (idx + length model_prefix) body in
         take (idx + length model_prefix) body @
         (case Index rest [CHR 0x22] of None \<Rightarrow> rest
          | Some endQuote \<Rightarrow> replacement @ replaceModelNameInJSON replacement (drop (endQuote + 1) rest)))"
  by pat_completeness auto
termination by (relation "measure (length \<circ> snd)") (auto simp: model_prefix_def dest!: Index_le)

declare replaceModelNameInJSON.simps [simp del]

definition openai_replaceModelName :: "string \<Rightarrow> string \<Rightarrow> string" where
  "openai_replaceModelName modelName body = replaceModelNameInJSON (modelName @ [CHR 0x22]) body"

definition renamed :: "RelayInfo \<Rightarrow> string \<Rightarrow> string" where
  "renamed info body = (if cm_IsModelMapped (ri_ChannelMeta info) then openai_replaceModelName (ri_OriginModelName info) body else body)"

section \<open>Whole answers\<close>

definition isUpstreamOpenAIError :: "conv_env \<Rightarrow> string \<Rightarrow> bool" where
  "isUpstreamOpenAIError E body = (case Option.bind (ce_parse E body) dec_object of None \<Rightarrow> False | Some m \<Rightarrow> has_key ''error'' m)"

text \<open>An error of the upstream is handed through when it has OpenAI's form.\<close>

definition upstream_refused :: "conv_env \<Rightarrow> int \<Rightarrow> string \<Rightarrow> answer" where
  "upstream_refused E status body =
     (let e = NewUpstreamError status body None in
      if isUpstreamOpenAIError E body then answer_of E [Plain status body] (Some zero_Usage) (Some e) else no_writes None (Some e))"

definition read_failed :: "int \<Rightarrow> string \<Rightarrow> go_err \<Rightarrow> answer" where
  "read_failed status msg e = no_writes None (Some (NewUpstreamError status msg (Some e)))"

definition usage_of :: "UsageWithDetails \<Rightarrow> bool \<Rightarrow> Usage" where
  "usage_of u cached = zero_Usage\<lparr>us_PromptTokens := uw_PromptTokens u, us_CompletionTokens := uw_CompletionTokens u,
     us_TotalTokens := uw_TotalTokens u, us_PromptTokensDetails := uw_PromptTokensDetails u,
     us_CompletionTokenDetails := uw_CompletionTokenDetails u, us_CacheIncludedInPrompt := cached\<rparr>"

text \<open>A whole answer of OpenAI's form, renamed; \<open>tally\<close> reads its usage.\<close>

definition whole_answer :: "conv_env \<Rightarrow> (string \<Rightarrow> Usage) \<Rightarrow> string \<Rightarrow> upstream \<Rightarrow> RelayInfo \<Rightarrow> answer" where
  "whole_answer E tally msg r info = (case up_Body r of
     Inl e \<Rightarrow> read_failed (up_StatusCode r) msg e
   | Inr body0 \<Rightarrow> if up_StatusCode r \<noteq> 200 then upstream_refused E (up_StatusCode r) body0
       else (let body = renamed info body0 in answer_of E [Plain 200 body] (Some (tally body)) None))"

definition handleChatNonStreamResponse :: "conv_env \<Rightarrow> upstream \<Rightarrow> RelayInfo \<Rightarrow> answer" where
  "handleChatNonStreamResponse E = whole_answer E (\<lambda>body. case ExtractUsage (ce_parse E body) of None \<Rightarrow> zero_Usage | Some u \<Rightarrow> usage_of u True)
     ''read response body failed''"

text \<open>The usage in an answer whose other fields have the types of the struct.\<close>

definition dec_with_usage :: "(string \<times> (json \<Rightarrow> bool)) list \<Rightarrow> json \<Rightarrow> UsageWithDetails option" where
  "dec_with_usage ps j = do { m \<leftarrow> dec_object j; u \<leftarrow> dec_field ''usage'' usage_details_of_json zero_usage m; if fields_ok ps m then Some u else None }"

definition dec_CompletionsResponse :: "json \<Rightarrow> UsageWithDetails option" where
  "dec_CompletionsResponse = dec_with_usage (strings [''id'', ''object'', ''model'', ''system_fingerprint''] @ ints [''created''] @
     [(''choices'', array_of (object_of (strings [''text'', ''finish_reason''] @ ints [''index''])))])"

definition handleCompletionNonStreamResponse :: "conv_env \<Rightarrow> upstream \<Rightarrow> RelayInfo \<Rightarrow> answer" where
  "handleCompletionNonStreamResponse E = whole_answer E (\<lambda>body. case Option.bind (ce_parse E body) dec_CompletionsResponse of
     None \<Rightarrow> zero_Usage | Some u \<Rightarrow> usage_of u False) ''read response body failed''"

definition dec_EmbeddingResponse :: "json \<Rightarrow> UsageWithDetails option" where
  "dec_EmbeddingResponse = dec_with_usage (strings [''object'', ''model''] @
     [(''data'', array_of (object_of (strings [''object''] @ ints [''index''] @ [(''embedding'', array_of (reads_as dec_float))])))])"

text \<open>An answer that can be read is not written.\<close>

definition handleEmbeddingResponse :: "conv_env \<Rightarrow> upstream \<Rightarrow> RelayInfo \<Rightarrow> answer" where
  "handleEmbeddingResponse E r info = (case up_Body r of
     Inl e \<Rightarrow> read_failed (up_StatusCode r) ''read response body failed'' e
   | Inr body0 \<Rightarrow> if up_StatusCode r \<noteq> 200 then no_writes None (Some (NewUpstreamError (up_StatusCode r) body0 None))
       else (let body = renamed info body0 in
         case Option.bind (ce_parse E body) dec_EmbeddingResponse of
           Some u \<Rightarrow> no_writes (Some (usage_of u False)) None
         | None \<Rightarrow> answer_of E [Plain (up_StatusCode r) body] (Some zero_Usage) None))"

definition handleModerationResponse :: "conv_env \<Rightarrow> upstream \<Rightarrow> answer" where
  "handleModerationResponse E r = (case up_Body r of
     Inl e \<Rightarrow> read_failed (up_StatusCode r) ''read response body failed'' e
   | Inr body \<Rightarrow> if up_StatusCode r \<noteq> 200
       then answer_of E [Plain (up_StatusCode r) body] (Some zero_Usage) (Some (NewUpstreamError (up_StatusCode r) body None))
       else answer_of E [Plain 200 body] (Some zero_Usage) None)"

record RerankUsage =
  rru_PromptTokens :: int
  rru_TotalTokens :: int

definition dec_RerankUsage :: "json \<Rightarrow> RerankUsage option" where
  "dec_RerankUsage j = do { m \<leftarrow> dec_object j; p \<leftarrow> dec_field ''prompt_tokens'' dec_int 0 m; t \<leftarrow> dec_field ''total_tokens'' dec_int 0 m;
     if fields_ok (ints [''search_units'']) m then Some \<lparr>rru_PromptTokens = p, rru_TotalTokens = t\<rparr> else None }"

definition dec_RerankResponse :: "json \<Rightarrow> RerankUsage option" where
  "dec_RerankResponse j = do { m \<leftarrow> dec_object j;
     u \<leftarrow> dec_field ''usage'' dec_RerankUsage \<lparr>rru_PromptTokens = 0, rru_TotalTokens = 0\<rparr> m;
     if fields_ok ([(''results'', array_of (object_of (ints [''index''] @ floats [''relevance_score''])))] @ strings [''id''] @
       [(''meta'', object_of [(''billed_units'', object_of (ints [''search_documents'', ''total_tokens'']))])]) m then Some u else None }"

definition extractRerankUsage :: "conv_env \<Rightarrow> string \<Rightarrow> Usage" where
  "extractRerankUsage E body = (case Option.bind (ce_parse E body) dec_RerankResponse of None \<Rightarrow> zero_Usage
     | Some u \<Rightarrow> zero_Usage\<lparr>us_PromptTokens := (if rru_PromptTokens u = 0 then rru_TotalTokens u else rru_PromptTokens u),
         us_TotalTokens := rru_TotalTokens u\<rparr>)"

definition handleRerankResponse :: "conv_env \<Rightarrow> upstream \<Rightarrow> RelayInfo \<Rightarrow> answer" where
  "handleRerankResponse E = whole_answer E (extractRerankUsage E) ''read rerank response failed''"

section \<open>Sound\<close>

definition at_least_one :: "int \<Rightarrow> int" where
  "at_least_one n = (if n = 0 then 1 else n)"

text \<open>The headers of the upstream are handed through, and sent before the sound is read.\<close>

definition handleAudioSpeechResponse :: "conv_env \<Rightarrow> upstream \<Rightarrow> answer" where
  "handleAudioSpeechResponse E r =
     (if up_StatusCode r \<noteq> 200 then upstream_refused E (up_StatusCode r) (body_text r)
      else (let sent = (no_writes None None)\<lparr>aw_Code := 200, aw_Headers := concat (map (\<lambda>(k, vs). map (Pair k) vs) (up_Header r))\<rparr> in
        case up_Body r of
          Inl e \<Rightarrow> sent\<lparr>aw_Err := Some (NewUpstreamError (up_StatusCode r) ''read audio response failed'' (Some e))\<rparr>
        | Inr body \<Rightarrow> let n = at_least_one (int (length body div 1000)) in
            sent\<lparr>aw_Body := payload_of E body, aw_Usage := Some (zero_Usage\<lparr>us_CompletionTokens := n, us_TotalTokens := n\<rparr>)\<rparr>))"

definition segment_ok :: "json \<Rightarrow> bool" where
  "segment_ok = object_of (ints [''id'', ''seek''] @ floats [''start'', ''end''] @ strings [''text''])"

definition word_ok :: "json \<Rightarrow> bool" where
  "word_ok = object_of (strings [''word''] @ floats [''start'', ''end''])"

definition dec_AudioResponse :: "(string \<times> (json \<Rightarrow> bool)) list \<Rightarrow> json \<Rightarrow> (string \<times> json) option" where
  "dec_AudioResponse more' j = do { m \<leftarrow> dec_object j; t \<leftarrow> dec_field ''text'' dec_string [] m; d \<leftarrow> dec_field ''duration'' dec_float (JNum 0) m;
     if fields_ok (strings [''language''] @ [(''segments'', array_of segment_ok), (''words'', array_of word_ok)] @ more') m then Some (t, d) else None }"

text \<open>\<open>minutes\<close> is the whole minutes of a duration in seconds, if it is positive.\<close>

definition extractAudioUsage :: "conv_env \<Rightarrow> (json \<Rightarrow> int option) \<Rightarrow> string \<Rightarrow> Usage" where
  "extractAudioUsage E minutes body =
     (let count = \<lambda>n. zero_Usage\<lparr>us_PromptTokens := at_least_one n, us_TotalTokens := at_least_one n\<rparr> in
      case Option.bind (Option.bind (ce_parse E body) (dec_AudioResponse (strings [''task'']))) (\<lambda>(t, d). minutes d) of
        Some n \<Rightarrow> count (i64 (n * 150))
      | None \<Rightarrow> (case Option.bind (ce_parse E body) (dec_AudioResponse []) of
          None \<Rightarrow> zero_Usage | Some (t, d) \<Rightarrow> count (int (length t div 4))))"

definition handleAudioTranscriptionResponse :: "conv_env \<Rightarrow> (json \<Rightarrow> int option) \<Rightarrow> upstream \<Rightarrow> answer" where
  "handleAudioTranscriptionResponse E minutes r = (case up_Body r of
     Inl e \<Rightarrow> read_failed (up_StatusCode r) ''read transcription response failed'' e
   | Inr body \<Rightarrow> if up_StatusCode r \<noteq> 200 then upstream_refused E (up_StatusCode r) body
       else answer_of E [Plain 200 body] (Some (extractAudioUsage E minutes body)) None)"

section \<open>Pictures\<close>

record ImageUsage =
  img_TotalTokens :: int
  img_InputTokens :: int
  img_OutputTokens :: int
  img_InputTokensDetails :: "(int \<times> int) option"

definition dec_ImageUsage :: "json \<Rightarrow> ImageUsage option" where
  "dec_ImageUsage j = do { m \<leftarrow> dec_object j; t \<leftarrow> dec_field ''total_tokens'' dec_int 0 m; i \<leftarrow> dec_field ''input_tokens'' dec_int 0 m;
     ou \<leftarrow> dec_field ''output_tokens'' dec_int 0 m;
     d \<leftarrow> dec_field ''input_tokens_details'' (dec_ptr (\<lambda>j. do { o' \<leftarrow> dec_object j; a \<leftarrow> dec_field ''text_tokens'' dec_int 0 o';
       b \<leftarrow> dec_field ''image_tokens'' dec_int 0 o'; Some (a, b) })) None m;
     Some \<lparr>img_TotalTokens = t, img_InputTokens = i, img_OutputTokens = ou, img_InputTokensDetails = d\<rparr> }"

definition image_data_ok :: "json \<Rightarrow> bool" where
  "image_data_ok = object_of (strings [''url'', ''b64_json'', ''revised_prompt'', ''content_type''])"

definition dec_image_usage :: "(string \<times> (json \<Rightarrow> bool)) list \<Rightarrow> json \<Rightarrow> ImageUsage option" where
  "dec_image_usage ps j = do { m \<leftarrow> dec_object j; u \<leftarrow> dec_field ''usage'' (dec_ptr dec_ImageUsage) None m;
     if fields_ok ((''data'', array_of image_data_ok) # ps) m then u else None }"

definition dec_ImageResponse :: "json \<Rightarrow> ImageUsage option" where
  "dec_ImageResponse = dec_image_usage (ints [''created''] @ strings [''background'', ''output_format'', ''size'', ''quality''])"

definition imageStreamEvent :: "json \<Rightarrow> ImageUsage option" where
  "imageStreamEvent = dec_image_usage (strings [''type''])"

definition imageUsageToCommon :: "ImageUsage \<Rightarrow> Usage" where
  "imageUsageToCommon u = zero_Usage\<lparr>us_PromptTokens := img_InputTokens u, us_CompletionTokens := img_OutputTokens u,
     us_TotalTokens := img_TotalTokens u, us_PromptTokensDetails := (case img_InputTokensDetails u of None \<Rightarrow> None
       | Some (t, i) \<Rightarrow> Some (zero_details\<lparr>td_TextTokens := t, td_ImageTokens := i\<rparr>))\<rparr>"

definition handleImageResponse_whole :: "conv_env \<Rightarrow> upstream \<Rightarrow> answer" where
  "handleImageResponse_whole E r = (case up_Body r of
     Inl e \<Rightarrow> read_failed (up_StatusCode r) ''read response body failed'' e
   | Inr body \<Rightarrow> if up_StatusCode r \<noteq> 200 then no_writes None (Some (NewUpstreamError (up_StatusCode r) body None))
       else answer_of E [Plain (up_StatusCode r) body] (Some (case Option.bind (ce_parse E body) dec_ImageResponse of
         None \<Rightarrow> zero_Usage | Some u \<Rightarrow> imageUsageToCommon u)) None)"

section \<open>Streams\<close>

text \<open>Data that was written, the writes still to come, why the handler stopped, and what it counted.\<close>

record sse_state =
  sh_out :: "string list"
  sh_writes :: "bool list"
  sh_stop :: "(StreamEndReason \<times> go_err option) option"
  sh_usage :: UsageWithDetails
  sh_text :: string

definition new_sse :: "bool list \<Rightarrow> sse_state" where
  "new_sse writes = \<lparr>sh_out = [], sh_writes = writes, sh_stop = None, sh_usage = zero_usage, sh_text = []\<rparr>"

definition write_data :: "(go_err \<Rightarrow> go_err) \<Rightarrow> string \<Rightarrow> sse_state \<Rightarrow> sse_state" where
  "write_data wrap' dat st =
     (if sh_writes st = [] \<or> hd (sh_writes st) then st\<lparr>sh_out := sh_out st @ [dat], sh_writes := tl (sh_writes st)\<rparr>
      else st\<lparr>sh_writes := tl (sh_writes st), sh_stop := Some (StreamEndReasonHandlerStop, Some (wrap' (ErrNet ''write'')))\<rparr>)"

fun sse_run :: "(string \<Rightarrow> sse_state \<Rightarrow> sse_state) \<Rightarrow> string list \<Rightarrow> sse_state \<Rightarrow> sse_state" where
  "sse_run f [] st = st"
| "sse_run f (d # ds) st = (let st1 = f d st in if sh_stop st1 = None then sse_run f ds st1 else st1)"

definition count_usage :: "UsageWithDetails option \<Rightarrow> sse_state \<Rightarrow> sse_state" where
  "count_usage u' st = (case u' of None \<Rightarrow> st
     | Some u \<Rightarrow> st\<lparr>sh_usage := \<lparr>uw_PromptTokens = uw_PromptTokens u, uw_CompletionTokens = uw_CompletionTokens u,
         uw_TotalTokens = uw_TotalTokens u,
         uw_PromptTokensDetails = (if uw_PromptTokensDetails u \<noteq> None then uw_PromptTokensDetails u else uw_PromptTokensDetails (sh_usage st)),
         uw_CompletionTokenDetails = (if uw_CompletionTokenDetails u \<noteq> None then uw_CompletionTokenDetails u
           else uw_CompletionTokenDetails (sh_usage st))\<rparr>\<rparr>)"

definition choice_said :: "StreamChoice \<Rightarrow> string" where
  "choice_said c = (case om_Content (sch_Delta c) of JStr t \<Rightarrow> t | _ \<Rightarrow> []) @
     (case om_ReasoningContent (sch_Delta c) of None \<Rightarrow> [] | Some t \<Rightarrow> t)"

definition note_chunk :: "conv_env \<Rightarrow> string \<Rightarrow> sse_state \<Rightarrow> sse_state" where
  "note_chunk E dat st = (case Option.bind (ce_parse E dat) (dec_ChatCompletionStreamResponse E) of None \<Rightarrow> st
     | Some r \<Rightarrow> (count_usage (csr_Usage r) st)\<lparr>sh_text := sh_text st @ concat (map choice_said (csr_Choices r))\<rparr>)"

definition dec_completion_choice :: "json \<Rightarrow> string option" where
  "dec_completion_choice j = do { m \<leftarrow> dec_object j; t \<leftarrow> dec_field ''text'' dec_string [] m;
     if fields_ok (ints [''index''] @ strings [''finish_reason'']) m then Some t else None }"

definition dec_CompletionsStreamResponse :: "json \<Rightarrow> (string list \<times> UsageWithDetails option) option" where
  "dec_CompletionsStreamResponse j = do { m \<leftarrow> dec_object j; cs \<leftarrow> dec_field ''choices'' (dec_list dec_completion_choice) [] m;
     u \<leftarrow> dec_field ''usage'' (dec_ptr usage_details_of_json) None m;
     if fields_ok (strings [''id'', ''object'', ''model'', ''system_fingerprint''] @ ints [''created'']) m then Some (cs, u) else None }"

definition note_completion :: "conv_env \<Rightarrow> string \<Rightarrow> sse_state \<Rightarrow> sse_state" where
  "note_completion E dat st = (case Option.bind (ce_parse E dat) dec_CompletionsStreamResponse of None \<Rightarrow> st
     | Some (ts, u) \<Rightarrow> (count_usage u st)\<lparr>sh_text := sh_text st @ concat ts\<rparr>)"

definition write_failed :: "go_err \<Rightarrow> go_err" where
  "write_failed e = ErrWrap e ''write sse data failed''"

text \<open>The last mark is written unless the stream broke off; whether that works is ignored.\<close>

definition scanned_stream :: "upstream \<Rightarrow> RelayInfo \<Rightarrow> sse_state \<Rightarrow> Usage \<Rightarrow> string \<Rightarrow> answer" where
  "scanned_stream r info st u text =
     (let partial = IsPartialStreamEnd (settle_status r (sh_stop st) (ri_StreamStatus info));
          out = (if partial then sh_out st else sh_out (write_data (\<lambda>e. e) ''[DONE]'' st)) in
      stream_of (map sse_data out) (Some u) (if partial then Some ErrStreamInterrupted else None) text)"

definition StreamHandler :: "conv_env \<Rightarrow> upstream \<Rightarrow> RelayInfo \<Rightarrow> answer" where
  "StreamHandler E r info =
     (let step = (\<lambda>d st. let dat = renamed info d in write_data write_failed dat (note_chunk E dat st));
          st = sse_run step (fst (scanned r)) (new_sse (up_Writes r)) in
      scanned_stream r info st (NormalizeUsage (Some (usage_of (sh_usage st) True))) (sh_text st))"

definition StreamHandlerForCompletions :: "conv_env \<Rightarrow> upstream \<Rightarrow> RelayInfo \<Rightarrow> answer" where
  "StreamHandlerForCompletions E r info =
     (let step = (\<lambda>d st. let dat = renamed info d in write_data write_failed dat (note_completion E dat st));
          st = sse_run step (fst (scanned r)) (new_sse (up_Writes r)) in
      scanned_stream r info st (NormalizeUsage (Some (usage_of (sh_usage st) True))) (sh_text st))"

text \<open>Pictures are written before they are counted, and any status is scanned.\<close>

definition note_image :: "conv_env \<Rightarrow> string \<Rightarrow> sse_state \<Rightarrow> sse_state" where
  "note_image E dat st = (case Option.bind (ce_parse E dat) imageStreamEvent of None \<Rightarrow> st
     | Some u \<Rightarrow> let c = imageUsageToCommon u in st\<lparr>sh_usage := \<lparr>uw_PromptTokens = us_PromptTokens c, uw_CompletionTokens = us_CompletionTokens c,
         uw_TotalTokens = us_TotalTokens c, uw_PromptTokensDetails = us_PromptTokensDetails c, uw_CompletionTokenDetails = None\<rparr>\<rparr>)"

definition handleImageStreamResponse :: "conv_env \<Rightarrow> upstream \<Rightarrow> RelayInfo \<Rightarrow> answer" where
  "handleImageStreamResponse E r info =
     (let step = (\<lambda>d st. let st1 = write_data (\<lambda>e. e) d st in if sh_stop st1 = None then note_image E d st1 else st1);
          st = sse_run step (fst (scanned r)) (new_sse (up_Writes r)) in
      scanned_stream r info st (usage_of (sh_usage st) False) [])"

definition handleImageResponse :: "conv_env \<Rightarrow> upstream \<Rightarrow> RelayInfo \<Rightarrow> answer" where
  "handleImageResponse E r info = (if ri_IsStream info then handleImageStreamResponse E r info else handleImageResponse_whole E r)"

definition handleChatStreamResponse :: "conv_env \<Rightarrow> upstream \<Rightarrow> RelayInfo \<Rightarrow> answer" where
  "handleChatStreamResponse E r info =
     (if up_StatusCode r \<noteq> 200 then upstream_refused E (up_StatusCode r) (body_text r) else StreamHandler E r info)"

definition handleCompletionStreamResponse :: "conv_env \<Rightarrow> upstream \<Rightarrow> RelayInfo \<Rightarrow> answer" where
  "handleCompletionStreamResponse E r info =
     (if up_StatusCode r \<noteq> 200 then no_writes None (Some (NewUpstreamError (up_StatusCode r) (body_text r) None))
      else StreamHandlerForCompletions E r info)"

section \<open>The client's format\<close>

text \<open>A panic leaves nothing.\<close>

definition panicked :: answer where
  "panicked = no_writes None (Some (ErrExt ''invalid memory address or nil pointer dereference''))"

definition claude_client :: "conv_env \<Rightarrow> upstream \<Rightarrow> RelayInfo \<Rightarrow> answer" where
  "claude_client E r info =
     (if ri_IsStream info then
        (let (ws, st, u, e) = handleClaudeInboundStream E (up_StatusCode r) (body_text r) (up_Lines r) (up_Scan r) info in
         if up_StatusCode r \<noteq> 200 then answer_of E (map (\<lambda>(c, j). Made c j) ws) (Some u) e
         else stream_of (map (\<lambda>ev. sse_event (cre_Type ev) (ce_text E (claude_response_json ev))) (st_events st)) (Some u) e [])
      else (case handleClaudeInboundNonStream E (up_StatusCode r) (up_Body r) info of None \<Rightarrow> panicked
        | Some (ws, u, e) \<Rightarrow> answer_of E (map (\<lambda>(c, j). Made c j) ws) u e))"

definition gemini_client :: "conv_env \<Rightarrow> upstream \<Rightarrow> RelayInfo \<Rightarrow> answer" where
  "gemini_client E r info =
     (if ri_IsStream info then
        (let (ws, st, e) = handleGeminiInboundStream E (up_StatusCode r) (body_text r) (up_Lines r) (up_Scan r) info in
         if up_StatusCode r \<noteq> 200 then answer_of E ws (Some (gst_usage st)) e
         else stream_of (map (\<lambda>c. sse_data (ce_text E (gemini_response_json c))) (gst_out st) @ (if gst_done st then [sse_data ''[DONE]''] else []))
           (Some (gst_usage st)) e [])
      else (let (ws, u, e) = handleGeminiInboundNonStream E (up_StatusCode r) (up_Body r) in answer_of E ws u e))"

definition responses_client :: "conv_env \<Rightarrow> upstream \<Rightarrow> RelayInfo \<Rightarrow> answer" where
  "responses_client E r info =
     (if ri_IsStream info then
        (let (ws, st, e) = handleResponsesInboundStream E (up_Order r) (up_Nanos r) (up_Now r) (up_Later r) (up_StatusCode r) (body_text r)
             (up_Lines r) (up_Scan r) info in
         if up_StatusCode r \<noteq> 200 then answer_of E ws (Some (ib_usage st)) e
         else stream_of (map (\<lambda>(t, j). sse_event t (ce_text E j)) (ib_events st)) (Some (ib_usage st)) e [])
      else (case handleResponsesInboundNonStream E (up_StatusCode r) (up_Body r) info of None \<Rightarrow> panicked
        | Some (ws, u, e) \<Rightarrow> answer_of E ws u e))"

definition chat_via_responses :: "conv_env \<Rightarrow> upstream \<Rightarrow> RelayInfo \<Rightarrow> answer" where
  "chat_via_responses E r info =
     (if ri_IsStream info then
        (let (st, u) = HandleResponsesStreamToChat E (up_Now r) (fst (scanned r)) (up_Writes r) info in
         stream_of (map (out_event E) (rs_out st)) (Some u) None [])
      else (let (raw', ws, u, e) = HandleResponsesNonStreamToChat E (up_Now r) (up_StatusCode r) (up_Body r) info in
        answer_of E ((case raw' of None \<Rightarrow> [] | Some b \<Rightarrow> [Plain (up_StatusCode r) b]) @ map (\<lambda>(c, j). Made c j) ws) u e))"

definition chat_client :: "conv_env \<Rightarrow> (json \<Rightarrow> int option) \<Rightarrow> upstream \<Rightarrow> RelayInfo \<Rightarrow> answer" where
  "chat_client E minutes r info =
     (let m = ri_RelayMode info in
      if m = RelayModeChatCompletions then (if ri_IsStream info then handleChatStreamResponse E r info else handleChatNonStreamResponse E r info)
      else if m = RelayModeCompletions then
        (if ri_IsStream info then handleCompletionStreamResponse E r info else handleCompletionNonStreamResponse E r info)
      else if m = RelayModeEmbeddings then handleEmbeddingResponse E r info
      else if m \<in> {RelayModeImagesGenerations, RelayModeImagesEdits} then handleImageResponse E r info
      else if m = RelayModeModerations then handleModerationResponse E r
      else if m = RelayModeAudioSpeech then handleAudioSpeechResponse E r
      else if m \<in> {RelayModeAudioTranscription, RelayModeAudioTranslation} then handleAudioTranscriptionResponse E minutes r
      else if m = RelayModeRerank then handleRerankResponse E r info
      else handleChatNonStreamResponse E r info)"

definition openai_DoResponse :: "conv_env \<Rightarrow> (json \<Rightarrow> int option) \<Rightarrow> RelayInfo \<Rightarrow> upstream \<Rightarrow> answer" where
  "openai_DoResponse E minutes info r =
     (let f = GetOriginalClientFormat info in
      if f = RelayFormatClaude then claude_client E r info
      else if f = RelayFormatGemini then gemini_client E r info
      else if f = RelayFormatResponses then responses_client E r info
      else if ri_UseResponsesAPI info then chat_via_responses E r info
      else chat_client E minutes r info)"

text \<open>A request whose header overrides do not return is never answered; the error stands for that.\<close>

definition or_hang :: "(go_err + upstream) option \<Rightarrow> go_err + upstream" where
  "or_hang x = (case x of None \<Rightarrow> Inl (ErrNew ''no answer'') | Some r \<Rightarrow> r)"

definition openai_adaptor :: "conv_env \<Rightarrow> 'd ov_lib \<Rightarrow> http_lib \<Rightarrow> (json \<Rightarrow> int option) \<Rightarrow> upstream adaptor" where
  "openai_adaptor E L H minutes = \<lparr>ad_ConvertRequest = openai_ConvertRequest E,
     ad_DoRequest = (\<lambda>info body. or_hang (openai_DoRequest L H info body)), ad_DoResponse = openai_DoResponse E minutes\<rparr>"

end
