(* ===== verification/Compatible.thy ===== *)
theory Compatible
  imports OpenAIAdaptor
begin

text \<open>
  The providers whose interface is close to OpenAI's: tables of paths, headers, and the fields each one
  changes in the body (\<^verbatim>\<open>relay/channel/*/adaptor.go\<close>).  Their answers go through the
  adaptor of OpenAI; those with an endpoint for Anthropic's Messages hand Claude clients to the adaptor of
  Claude, which \<open>Adaptors\<close> adds.  The state of an adaptor is set from the key of the channel before each
  request, so it is computed from it here.
\<close>

section \<open>What they share\<close>

text \<open>A switch over the mode of the relay: paths behind the base URL, and what happens to any other mode.\<close>

definition by_mode :: "RelayInfo \<Rightarrow> (RelayMode \<times> string) list \<Rightarrow> go_err + string \<Rightarrow> go_err + string" where
  "by_mode info paths other =
     (let baseURL = TrimSuffix (cm_BaseURL (ri_ChannelMeta info)) ''/'' in
      case (case map_of paths (ri_RelayMode info) of Some p \<Rightarrow> Inr p | None \<Rightarrow> other) of Inl e \<Rightarrow> Inl e | Inr p \<Rightarrow> Inr (baseURL @ p))"

definition unsupported :: "string \<Rightarrow> RelayInfo \<Rightarrow> go_err + string" where
  "unsupported fmt info = Inl (ErrNewf fmt [AInt (mode_number (ri_RelayMode info))])"

definition bearer_json :: "string \<Rightarrow> http_header" where
  "bearer_json key = header_Set (header_Set (header_Set [] ''Authorization'' (''Bearer '' @ key)) ''Content-Type'' ''application/json'')
     ''Accept'' ''application/json''"

definition channel_key :: "RelayInfo \<Rightarrow> string" where
  "channel_key info = cm_ApiKey (ri_ChannelMeta info)"

text \<open>\<^verbatim>\<open>strings.SplitN(key, "|", 2)\<close>, when it gives two parts.\<close>

definition split_key :: "string \<Rightarrow> (string \<times> string) option" where
  "split_key key = (case Index key ''|'' of None \<Rightarrow> None | Some i \<Rightarrow> Some (take i key, drop (i + 1) key))"

text \<open>Requests of other formats are converted first.\<close>

definition openai_body :: "conv_env \<Rightarrow> RelayInfo \<Rightarrow> json \<Rightarrow> go_err + json" where
  "openai_body E info body =
     (if ri_InboundFormat info \<noteq> [] \<and> ri_InboundFormat info \<noteq> RelayFormatOpenAI
      then map_sum (\<lambda>e. e) (case_option body (\<lambda>j. j)) (ConvertToOpenAI E (Some body) info) else Inr body)"

text \<open>Setting the name: a body that is no object stays, and a name that is no JSON between quotes fails.\<close>

definition marshal_failed :: "string \<Rightarrow> go_err" where
  "marshal_failed msg = ErrWrap (ErrExt ''json: error calling MarshalJSON'') msg"

definition set_model :: "conv_env \<Rightarrow> string \<Rightarrow> string \<Rightarrow> json \<Rightarrow> go_err + json" where
  "set_model E msg name j = (case j of
     JObj m \<Rightarrow> (case raw_name E name of None \<Rightarrow> Inl (marshal_failed msg) | Some v \<Rightarrow> Inr (JObj (put_field ''model'' v m)))
   | _ \<Rightarrow> Inr j)"

definition map_model :: "conv_env \<Rightarrow> string \<Rightarrow> RelayInfo \<Rightarrow> json \<Rightarrow> go_err + json" where
  "map_model E msg info j = (if cm_IsModelMapped (ri_ChannelMeta info)
     then set_model E msg (cm_UpstreamModelName (ri_ChannelMeta info)) j else Inr j)"

definition marshal_converted :: string where
  "marshal_converted = ''marshal converted request failed''"

definition sum_bind :: "'e + 'a \<Rightarrow> ('a \<Rightarrow> 'e + 'b) \<Rightarrow> 'e + 'b" where
  "sum_bind x f = (case x of Inl e \<Rightarrow> Inl e | Inr a \<Rightarrow> f a)"

definition as_bytes :: "go_err + json \<Rightarrow> go_err + reader" where
  "as_bytes x = map_sum (\<lambda>e. e) (\<lambda>j. BytesReader (Doc j)) x"

text \<open>The plainest conversion, and the transport, whose error is not wrapped.\<close>

definition renaming_ConvertRequest :: "conv_env \<Rightarrow> RelayInfo \<Rightarrow> json \<Rightarrow> go_err + reader" where
  "renaming_ConvertRequest E info body = as_bytes (sum_bind (openai_body E info body) (map_model E marshal_converted info))"

definition plain_DoRequest :: "'d ov_lib \<Rightarrow> http_lib \<Rightarrow> int \<Rightarrow> go_err + string \<Rightarrow> http_header \<Rightarrow> RelayInfo \<Rightarrow> payload
    \<Rightarrow> (go_err + upstream) option" where
  "plain_DoRequest L H seconds url header info body = send_request L H (\<lambda>e. e) seconds url header (\<lambda>h. h) info body"

text \<open>Claude clients of providers with an Anthropic endpoint: the body goes through, with the name of the channel.\<close>

definition convertClaudeRequest :: "conv_env \<Rightarrow> RelayInfo \<Rightarrow> json \<Rightarrow> reader" where
  "convertClaudeRequest E info body = BytesReader (Doc (replaceModelIfNeeded E info body))"

definition anthropic_ConvertRequest :: "conv_env \<Rightarrow> RelayInfo \<Rightarrow> json \<Rightarrow> go_err + reader" where
  "anthropic_ConvertRequest E info body =
     (if ri_InboundFormat info = RelayFormatClaude then Inr (convertClaudeRequest E info body) else renaming_ConvertRequest E info body)"

section \<open>Mistral, xAI, Xunfei, AWS, Cloudflare, SiliconFlow\<close>

definition mistral_GetRequestURL :: "RelayInfo \<Rightarrow> go_err + string" where
  "mistral_GetRequestURL info = by_mode info
     [(RelayModeChatCompletions, ''/v1/chat/completions''), (RelayModeClaudeMessages, ''/v1/chat/completions''),
      (RelayModeCompletions, ''/v1/completions''), (RelayModeEmbeddings, ''/v1/embeddings''),
      (RelayModeImagesGenerations, ''/v1/images/generations'')] (Inr ''/v1/chat/completions'')"

definition xai_GetRequestURL :: "RelayInfo \<Rightarrow> go_err + string" where
  "xai_GetRequestURL info = by_mode info
     [(RelayModeChatCompletions, ''/v1/chat/completions''), (RelayModeClaudeMessages, ''/v1/chat/completions''),
      (RelayModeCompletions, ''/v1/completions''), (RelayModeEmbeddings, ''/v1/embeddings''),
      (RelayModeImagesGenerations, ''/v1/images/generations'')] (Inr ''/v1/chat/completions'')"

text \<open>Endings of the name of the model switch features on; they are taken off one after the other.\<close>

definition xai_suffix :: "string \<Rightarrow> string \<Rightarrow> json \<Rightarrow> string \<times> (string \<times> json) list \<Rightarrow> string \<times> (string \<times> json) list" where
  "xai_suffix ending k v nm = (let (name, m) = nm in
     if HasSuffix name ending then (TrimSuffix name ending, put_field k v m) else (name, m))"

definition xai_fields :: "RelayInfo \<Rightarrow> (string \<times> json) list \<Rightarrow> string \<times> (string \<times> json) list" where
  "xai_fields info m = xai_suffix ''-low'' ''reasoning_effort'' (JStr ''low'')
     (xai_suffix ''-high'' ''reasoning_effort'' (JStr ''high'')
       (xai_suffix ''-search'' ''search_parameters'' (JObj [(''mode'', JStr ''on'')]) (ri_OriginModelName info, m)))"

definition xai_ConvertRequest :: "conv_env \<Rightarrow> RelayInfo \<Rightarrow> json \<Rightarrow> go_err + reader" where
  "xai_ConvertRequest E info body = as_bytes (sum_bind (openai_body E info body) (\<lambda>j. case j of
     JObj m \<Rightarrow> let (name, m1) = xai_fields info m in set_model E marshal_converted
         (if cm_IsModelMapped (ri_ChannelMeta info) then cm_UpstreamModelName (ri_ChannelMeta info) else name) (JObj m1)
   | _ \<Rightarrow> Inr j))"

definition xunfei_GetRequestURL :: "RelayInfo \<Rightarrow> go_err + string" where
  "xunfei_GetRequestURL info = by_mode info
     [(RelayModeChatCompletions, ''/v1/chat/completions''), (RelayModeClaudeMessages, ''/v1/chat/completions'')]
     (Inr ''/v1/chat/completions'')"

definition aws_GetRequestURL :: "RelayInfo \<Rightarrow> go_err + string" where
  "aws_GetRequestURL info = by_mode info
     [(RelayModeChatCompletions, ''/v1/chat/completions''), (RelayModeClaudeMessages, ''/v1/chat/completions''),
      (RelayModeEmbeddings, ''/v1/embeddings'')] (unsupported ''aws: unsupported relay mode: %d'' info)"

definition aws_key :: "RelayInfo \<Rightarrow> string" where
  "aws_key info = (case split_key (channel_key info) of None \<Rightarrow> channel_key info | Some (k, region) \<Rightarrow> TrimSpace k)"

definition cloudflare_token :: "RelayInfo \<Rightarrow> string \<times> string" where
  "cloudflare_token info = (case split_key (channel_key info) of None \<Rightarrow> (channel_key info, []) | Some p \<Rightarrow> p)"

definition cloudflare_GetRequestURL :: "RelayInfo \<Rightarrow> go_err + string" where
  "cloudflare_GetRequestURL info =
     (let account = snd (cloudflare_token info); front = ''/client/v4/accounts/'' @ account @ ''/ai/v1'' in
      if account = [] then Inl (ErrNew (''cloudflare: account ID not found, ApiKey must be in '' @ [CHR 0x27] @ ''token|accountid'' @ [CHR 0x27] @ '' format''))
      else by_mode info (map (\<lambda>(m, p). (m, front @ p))
        [(RelayModeChatCompletions, ''/chat/completions''), (RelayModeCompletions, ''/completions''), (RelayModeEmbeddings, ''/embeddings''),
         (RelayModeImagesGenerations, ''/images/generations'')]) (unsupported ''cloudflare: unsupported relay mode: %d'' info))"

definition cloudflare_ConvertRequest :: "conv_env \<Rightarrow> RelayInfo \<Rightarrow> json \<Rightarrow> go_err + reader" where
  "cloudflare_ConvertRequest E info body =
     as_bytes (sum_bind (openai_body E info body) (map_model E ''cloudflare: marshal converted request failed'' info))"

definition siliconflow_GetRequestURL :: "RelayInfo \<Rightarrow> go_err + string" where
  "siliconflow_GetRequestURL info = by_mode info
     [(RelayModeChatCompletions, ''/v1/chat/completions''), (RelayModeCompletions, ''/v1/completions''),
      (RelayModeEmbeddings, ''/v1/embeddings''), (RelayModeImagesGenerations, ''/v1/images/generations'')]
     (unsupported ''siliconflow: unsupported relay mode: %d'' info)"

definition move_field :: "string \<Rightarrow> string \<Rightarrow> (string \<times> json) list \<Rightarrow> (string \<times> json) list" where
  "move_field k k' m = (case jlookup k m of None \<Rightarrow> m | Some v \<Rightarrow> filter (\<lambda>x. fst x \<noteq> k) (put_field k' v m))"

definition siliconflow_ConvertRequest :: "conv_env \<Rightarrow> RelayInfo \<Rightarrow> json \<Rightarrow> go_err + reader" where
  "siliconflow_ConvertRequest E info body = as_bytes (sum_bind (openai_body E info body) (\<lambda>j.
     sum_bind (map_model E ''siliconflow: marshal converted request failed'' info j) (\<lambda>j.
       Inr (if ri_RelayMode info = RelayModeImagesGenerations
         then in_object (\<lambda>m. move_field ''n'' ''batch_size'' (move_field ''size'' ''image_size'' m)) j else j))))"

section \<open>Baidu, Submodel, Codex, Jimeng\<close>

definition baidu_token :: "RelayInfo \<Rightarrow> string \<times> string" where
  "baidu_token info = (case split_key (channel_key info) of None \<Rightarrow> (channel_key info, []) | Some p \<Rightarrow> p)"

definition baidu_GetRequestURL :: "RelayInfo \<Rightarrow> go_err + string" where
  "baidu_GetRequestURL info = by_mode info
     [(RelayModeChatCompletions, ''/v2/chat/completions''), (RelayModeClaudeMessages, ''/v2/chat/completions''),
      (RelayModeEmbeddings, ''/v2/embeddings''), (RelayModeImagesGenerations, ''/v2/images/generations'')]
     (unsupported ''baidu_v2: unsupported relay mode: %d'' info)"

definition baidu_SetupRequestHeader :: "RelayInfo \<Rightarrow> http_header" where
  "baidu_SetupRequestHeader info = (let (token, appID) = baidu_token info; h = bearer_json token in
     if appID \<noteq> [] then header_Set h ''appid'' appID else h)"

definition web_search :: json where
  "web_search = JObj [(''enable'', JBool True), (''enable_citation'', JBool True), (''enable_trace'', JBool True)]"

text \<open>The format of the client is not looked at.\<close>

definition baidu_ConvertRequest :: "conv_env \<Rightarrow> RelayInfo \<Rightarrow> json \<Rightarrow> go_err + reader" where
  "baidu_ConvertRequest E info body = as_bytes (case body of
     JObj m \<Rightarrow>
       let name = (if cm_IsModelMapped (ri_ChannelMeta info) then cm_UpstreamModelName (ri_ChannelMeta info) else ri_OriginModelName info);
           search = HasSuffix name ''-search'' in
       set_model E marshal_converted (if search then TrimSuffix name ''-search'' else name)
         (JObj (if search then put_field ''web_search'' web_search m else m))
   | _ \<Rightarrow> Inr body)"

definition submodel_GetRequestURL :: "RelayInfo \<Rightarrow> go_err + string" where
  "submodel_GetRequestURL info = by_mode info [] (Inr ''/v1/chat/completions'')"

definition submodel_ConvertRequest :: "conv_env \<Rightarrow> RelayInfo \<Rightarrow> json \<Rightarrow> go_err + reader" where
  "submodel_ConvertRequest E info body = as_bytes (sum_bind (openai_body E info body) (\<lambda>j.
     if ri_RelayMode info \<noteq> RelayModeChatCompletions then Inl (ErrNew ''submodel: endpoint not supported'')
     else map_model E marshal_converted info j))"

text \<open>The key is a document; what cannot be read stays empty.\<close>

definition codex_creds :: "conv_env \<Rightarrow> RelayInfo \<Rightarrow> string \<times> string" where
  "codex_creds E info = (case Option.bind (ce_parse E (channel_key info)) dec_object of None \<Rightarrow> ([], [])
     | Some m \<Rightarrow> (str_or ''access_token'' m, str_or ''account_id'' m))"

definition codex_only :: "RelayInfo \<Rightarrow> go_err + 'a" where
  "codex_only info = Inl (ErrNewf ''codex only supports Responses mode, got relay mode: %d'' [AInt (mode_number (ri_RelayMode info))])"

definition codex_GetRequestURL :: "RelayInfo \<Rightarrow> go_err + string" where
  "codex_GetRequestURL info = by_mode info [(RelayModeResponses, ''/v1/responses'')] (codex_only info)"

definition codex_SetupRequestHeader :: "conv_env \<Rightarrow> RelayInfo \<Rightarrow> http_header" where
  "codex_SetupRequestHeader E info = (let (token, account) = codex_creds E info in
     header_Set (header_Set (header_Set [] ''Authorization'' (''Bearer '' @ token)) ''chatgpt-account-id'' account)
       ''Content-Type'' ''application/json'')"

definition codex_ConvertRequest :: "conv_env \<Rightarrow> RelayInfo \<Rightarrow> json \<Rightarrow> go_err + reader" where
  "codex_ConvertRequest E info body = as_bytes (sum_bind (openai_body E info body) (\<lambda>j.
     if ri_RelayMode info \<noteq> RelayModeResponses then codex_only info else map_model E marshal_converted info j))"

definition jimeng_key :: "RelayInfo \<Rightarrow> string" where
  "jimeng_key info = (case split_key (channel_key info) of None \<Rightarrow> channel_key info | Some (k, secret) \<Rightarrow> k)"

definition jimeng_GetRequestURL :: "RelayInfo \<Rightarrow> go_err + string" where
  "jimeng_GetRequestURL info = by_mode info [(RelayModeImagesGenerations, ''/v2/images/generations'')]
     (unsupported ''unsupported relay mode for Jimeng: %d (only image generation is supported)'' info)"

definition jimeng_ConvertRequest :: "conv_env \<Rightarrow> RelayInfo \<Rightarrow> json \<Rightarrow> go_err + reader" where
  "jimeng_ConvertRequest E info body = as_bytes (sum_bind (openai_body E info body) (\<lambda>j.
     if ri_RelayMode info \<noteq> RelayModeImagesGenerations then Inl (ErrNew ''Jimeng only supports image generation mode'')
     else map_model E marshal_converted info j))"

section \<open>Moonshot, Volcengine, Ali\<close>

definition moonshot_GetRequestURL :: "RelayInfo \<Rightarrow> go_err + string" where
  "moonshot_GetRequestURL info = by_mode info
     [(RelayModeClaudeMessages, ''/anthropic/v1/messages''), (RelayModeChatCompletions, ''/v1/chat/completions''),
      (RelayModeCompletions, ''/v1/completions''), (RelayModeEmbeddings, ''/v1/embeddings'')] (Inr ''/v1/chat/completions'')"

definition volcengine_GetRequestURL :: "RelayInfo \<Rightarrow> go_err + string" where
  "volcengine_GetRequestURL info =
     (let name = (if cm_IsModelMapped (ri_ChannelMeta info) then cm_UpstreamModelName (ri_ChannelMeta info) else ri_OriginModelName info) in
      by_mode info
        [(RelayModeClaudeMessages, ''/api/coding/v1/messages''),
         (RelayModeChatCompletions, if HasPrefix name ''bot-'' then ''/api/v3/bots/chat/completions'' else ''/api/v3/chat/completions''),
         (RelayModeEmbeddings, ''/api/v3/embeddings''), (RelayModeImagesGenerations, ''/api/v3/images/generations'')]
        (unsupported ''volcengine: unsupported relay mode: %d'' info))"

definition ali_GetRequestURL :: "RelayInfo \<Rightarrow> go_err + string" where
  "ali_GetRequestURL info = by_mode info
     [(RelayModeClaudeMessages, ''/apps/anthropic/v1/messages''), (RelayModeChatCompletions, ''/compatible-mode/v1/chat/completions''),
      (RelayModeCompletions, ''/compatible-mode/v1/completions''), (RelayModeEmbeddings, ''/compatible-mode/v1/embeddings''),
      (RelayModeImagesGenerations, ''/api/v1/services/aigc/text2image/image-synthesis'')] (unsupported ''unsupported relay mode: %d'' info)"

definition ali_SetupRequestHeader :: "RelayInfo \<Rightarrow> http_header" where
  "ali_SetupRequestHeader info = (let h = bearer_json (channel_key info) in
     if ri_IsStream info then header_Set h ''X-DashScope-SSE'' ''enable'' else h)"

text \<open>The value of a number's text, as a float64; none where it is too large.\<close>

definition digits_value :: "string \<Rightarrow> nat" where
  "digits_value = foldl (\<lambda>n c. 10 * n + digit c) 0"

definition split_once :: "char \<Rightarrow> string \<Rightarrow> string \<times> string" where
  "split_once c s = (case Index s [c] of None \<Rightarrow> (s, []) | Some i \<Rightarrow> (take i s, drop (i + 1) s))"

definition signed :: "string \<Rightarrow> int \<times> string" where
  "signed s = (if HasPrefix s ''-'' then (-1, drop 1 s) else if HasPrefix s ''+'' then (1, drop 1 s) else (1, s))"

definition literal :: "string \<Rightarrow> rat" where
  "literal s =
     (let (sign, s1) = signed s; (mant, ex) = split_once CHR ''e'' (ToLower s1); (i, f) = split_once CHR ''.'' mant; (esign, e) = signed ex in
      of_int sign * of_nat (digits_value (i @ f)) / 10 ^ length f *
        (if esign < 0 then 1 / 10 ^ digits_value e else 10 ^ digits_value e))"

definition float_of :: "json \<Rightarrow> rat option" where
  "float_of j = (case dec_float j of None \<Rightarrow> None
     | Some v \<Rightarrow> let q = (case v of JNum n \<Rightarrow> of_int n | JFloat s \<Rightarrow> literal s | _ \<Rightarrow> 0); x = (if q < 0 then - fl64 (- q) else fl64 q) in
         if x < 2 ^ 1024 \<and> - (2 ^ 1024) < x then Some x else None)"

text \<open>DashScope wants \<^verbatim>\<open>top_p\<close> between zero and one.\<close>

definition ali_top_p :: "(string \<times> json) list \<Rightarrow> (string \<times> json) list" where
  "ali_top_p m = (case jlookup ''top_p'' m of None \<Rightarrow> m
     | Some v \<Rightarrow> (case float_of v of None \<Rightarrow> m
         | Some x \<Rightarrow> put_field ''top_p'' (if x \<ge> 1 then JFloat ''0.999'' else if x \<le> 0 then JFloat ''0.001'' else v) m))"

definition ali_convertRequest :: "json \<Rightarrow> go_err + json" where
  "ali_convertRequest j = (case j of JObj m \<Rightarrow> Inr (JObj (ali_top_p m)) | JNull \<Rightarrow> Inr JNull
     | _ \<Rightarrow> Inl (ErrWrap (ErrExt ''json: cannot unmarshal'') ''unmarshal request failed''))"

definition ali_ConvertRequest :: "conv_env \<Rightarrow> RelayInfo \<Rightarrow> json \<Rightarrow> go_err + reader" where
  "ali_ConvertRequest E info body =
     (if ri_InboundFormat info = RelayFormatClaude then Inr (convertClaudeRequest E info body)
      else as_bytes (sum_bind (openai_body E info body) (\<lambda>j. sum_bind (ali_convertRequest j) (map_model E ''marshal mapped request failed'' info))))"

section \<open>DeepSeek\<close>

definition deepseek_GetRequestURL :: "RelayInfo \<Rightarrow> go_err + string" where
  "deepseek_GetRequestURL info =
     (let baseURL = TrimSuffix (cm_BaseURL (ri_ChannelMeta info)) ''/'' in
      by_mode info
        [(RelayModeCompletions, (if HasSuffix baseURL ''/beta'' then [] else ''/beta'') @ ''/completions''),
         (RelayModeChatCompletions, ''/v1/chat/completions''), (RelayModeClaudeMessages, ''/anthropic/v1/messages''),
         (RelayModeEmbeddings, ''/v1/embeddings'')] (Inr ''/v1/chat/completions''))"

definition isDeepSeekV4Model :: "string \<Rightarrow> bool" where
  "isDeepSeekV4Model name \<longleftrightarrow> HasPrefix name ''deepseek-v4'' \<or> HasPrefix name ''deepseek_v4''"

definition deepseek_injectReasoningEffort :: "RelayInfo \<Rightarrow> (string \<times> json) list \<Rightarrow> (string \<times> json) list" where
  "deepseek_injectReasoningEffort info m =
     (let e = ri_ReasoningEffort info in
      if e = [] \<or> has_key ''reasoning_effort'' m then m
      else put_field ''reasoning_effort'' (JStr (if isDeepSeekV4Model (cm_UpstreamModelName (ri_ChannelMeta info)) then ''max''
        else if e \<in> {''xhigh'', ''max''} then ''max'' else ''high'')) m)"

definition thinking_type :: "string \<Rightarrow> json" where
  "thinking_type t = JObj [(''type'', JStr t)]"

definition deepseek_injectThinkingParams :: "RelayInfo \<Rightarrow> (string \<times> json) list \<Rightarrow> (string \<times> json) list" where
  "deepseek_injectThinkingParams info m =
     (if has_key ''thinking'' m then m
      else if ri_ThinkingDisabled info
        then filter (\<lambda>x. fst x \<noteq> ''reasoning_effort'') (put_field ''thinking'' (thinking_type ''disabled'') m)
      else if ri_ThinkingEnabled info \<or> ri_ReasoningEffort info \<noteq> []
        then deepseek_injectReasoningEffort info (put_field ''thinking'' (thinking_type ''enabled'') m)
      else m)"

definition convertClaudeRequestForDeepSeek :: "conv_env \<Rightarrow> RelayInfo \<Rightarrow> json \<Rightarrow> json" where
  "convertClaudeRequestForDeepSeek E info body = (case map_model E [] info body of Inl e \<Rightarrow> body
     | Inr j \<Rightarrow> in_object (deepseek_injectThinkingParams info) j)"

definition deepseek_ConvertRequest :: "conv_env \<Rightarrow> RelayInfo \<Rightarrow> json \<Rightarrow> go_err + reader" where
  "deepseek_ConvertRequest E info body =
     (if ri_InboundFormat info = RelayFormatClaude then Inr (BytesReader (Doc (convertClaudeRequestForDeepSeek E info body)))
      else as_bytes (sum_bind (openai_body E info body) (\<lambda>j. sum_bind (map_model E marshal_converted info j) (\<lambda>j.
        Inr (in_object (deepseek_injectThinkingParams info) (injectStreamOptions info j))))))"

section \<open>Zhipu\<close>

definition zhipu_GetRequestURL :: "RelayInfo \<Rightarrow> go_err + string" where
  "zhipu_GetRequestURL info = by_mode info
     [(RelayModeClaudeMessages, ''/api/anthropic/v1/messages''), (RelayModeChatCompletions, ''/api/paas/v4/chat/completions''),
      (RelayModeResponses, ''/api/paas/v4/chat/completions''), (RelayModeEmbeddings, ''/api/paas/v4/embeddings''),
      (RelayModeImagesGenerations, ''/api/paas/v4/images/generations'')] (Inr ''/api/paas/v4/chat/completions'')"

definition zhipu_SetupRequestHeader :: "RelayInfo \<Rightarrow> http_header" where
  "zhipu_SetupRequestHeader info =
     (let h = header_Set [] ''Authorization'' (''Bearer '' @ channel_key info); ct = header_Get (ri_RequestHeaders info) ''Content-Type'';
          accept = header_Get (ri_RequestHeaders info) ''Accept'';
          h1 = header_Set h ''Content-Type'' (if ct \<noteq> [] then ct else ''application/json'') in
      header_Set h1 ''Accept'' (if accept \<noteq> [] then accept else if ri_IsStream info then ''text/event-stream'' else ''application/json''))"

text \<open>A picture inside the body loses what stands before its data.\<close>

definition strip_url :: "(string \<times> json) list \<Rightarrow> (string \<times> json) list" where
  "strip_url part = (if jlookup ''type'' part \<noteq> Some (JStr ''image_url'') then part
     else case Option.bind (jlookup ''image_url'' part) dec_object of None \<Rightarrow> part
       | Some img \<Rightarrow> (case jlookup ''url'' img of
           Some (JStr url) \<Rightarrow> if HasPrefix url ''data:image/'' then (case Index url '','' of None \<Rightarrow> part
               | Some i \<Rightarrow> put_field ''image_url'' (JObj (put_field ''url'' (JStr (drop (i + 1) url)) img)) part) else part
         | _ \<Rightarrow> part))"

definition strip_message :: "json \<Rightarrow> json" where
  "strip_message = in_object (\<lambda>m. case jlookup ''content'' m of
     Some (JArr parts) \<Rightarrow> if list_all (\<lambda>p. dec_object p \<noteq> None) parts then put_field ''content'' (JArr (map (in_object strip_url) parts)) m else m
   | _ \<Rightarrow> m)"

definition stripImageURLPrefixes :: "json \<Rightarrow> json" where
  "stripImageURLPrefixes messages = (case messages of JArr ms \<Rightarrow> JArr (map strip_message ms) | _ \<Rightarrow> messages)"

definition applyGLMCompatibility :: "(string \<times> json) list \<Rightarrow> (string \<times> json) list" where
  "applyGLMCompatibility m =
     (let m1 = (case Option.bind (jlookup ''top_p'' m) float_of of None \<Rightarrow> m
            | Some x \<Rightarrow> if x \<ge> 1 then put_field ''top_p'' (JFloat ''0.99'') m else m) in
      case jlookup ''messages'' m1 of None \<Rightarrow> m1 | Some ms \<Rightarrow> put_field ''messages'' (stripImageURLPrefixes ms) m1)"

definition zhipu_injectThinkingParams :: "RelayInfo \<Rightarrow> (string \<times> json) list \<Rightarrow> (string \<times> json) list" where
  "zhipu_injectThinkingParams info m =
     (if has_key ''thinking'' m then m
      else if ri_ThinkingDisabled info then put_field ''thinking'' (thinking_type ''disabled'') m
      else if ri_ThinkingEnabled info then put_field ''thinking'' (thinking_type ''enabled'') m else m)"

definition zhipu_ConvertRequest :: "conv_env \<Rightarrow> RelayInfo \<Rightarrow> json \<Rightarrow> go_err + reader" where
  "zhipu_ConvertRequest E info body =
     (if ri_InboundFormat info = RelayFormatClaude then Inr (convertClaudeRequest E info body)
      else as_bytes (sum_bind (openai_body E info body) (\<lambda>j.
        map_model E marshal_converted info
          (in_object (zhipu_injectThinkingParams info) (injectStreamOptions info (in_object applyGLMCompatibility j))))))"

definition zhipu_DoRequest :: "'d ov_lib \<Rightarrow> http_lib \<Rightarrow> RelayInfo \<Rightarrow> payload \<Rightarrow> (go_err + upstream) option" where
  "zhipu_DoRequest L H info body = send_request L H send_failed (if ri_RelayMode info = RelayModeImagesGenerations then 300 else 60)
     (zhipu_GetRequestURL info) (zhipu_SetupRequestHeader info) (\<lambda>h. h) info body"

section \<open>Tencent\<close>

text \<open>The digests and the calendar are those of the library.\<close>

record tc3_lib =
  tc_sha256 :: "string \<Rightarrow> string"
  tc_hmac :: "string \<Rightarrow> string \<Rightarrow> string"
  tc_date :: "int \<Rightarrow> string"

definition sha256Hex :: "tc3_lib \<Rightarrow> string \<Rightarrow> string" where
  "sha256Hex C s = hex_encode (tc_sha256 C s)"

definition tc3_sign :: "tc3_lib \<Rightarrow> string \<Rightarrow> string \<Rightarrow> string \<Rightarrow> string \<Rightarrow> string \<Rightarrow> string \<Rightarrow> int \<Rightarrow> string" where
  "tc3_sign C secretID secretKey service host contentType body timestamp =
     (let date = tc_date C timestamp; signedHeaders = ''content-type;host'';
          canonicalHeaders = ''content-type:'' @ contentType @ ''\<newline>host:'' @ host @ ''\<newline>'';
          canonicalRequest = Join [''POST'', ''/'', [], canonicalHeaders, signedHeaders, sha256Hex C body] ''\<newline>'';
          algorithm = ''TC3-HMAC-SHA256''; scope = date @ ''/'' @ service @ ''/tc3_request'';
          stringToSign = Join [algorithm, show_int timestamp, scope, sha256Hex C canonicalRequest] ''\<newline>'';
          secretSigning = tc_hmac C (tc_hmac C (tc_hmac C (''TC3'' @ secretKey) date) service) ''tc3_request'' in
      algorithm @ '' Credential='' @ secretID @ ''/'' @ scope @ '', SignedHeaders='' @ signedHeaders @ '', Signature='' @
        hex_encode (tc_hmac C secretSigning stringToSign))"

definition tencent_secrets :: "RelayInfo \<Rightarrow> string \<times> string" where
  "tencent_secrets info = (case split_key (channel_key info) of None \<Rightarrow> (channel_key info, [])
     | Some (i, k) \<Rightarrow> (TrimSpace i, TrimSpace k))"

definition tencent_GetRequestURL :: "RelayInfo \<Rightarrow> go_err + string" where
  "tencent_GetRequestURL info = (let u = cm_BaseURL (ri_ChannelMeta info) in
     Inr (if u \<noteq> [] then TrimSuffix u ''/'' @ ''/'' else ''https://hunyuan.tencentcloudapi.com/''))"

definition tencent_host :: "RelayInfo \<Rightarrow> string" where
  "tencent_host info =
     (let trimmed = TrimSuffix (TrimPrefix (TrimPrefix (cm_BaseURL (ri_ChannelMeta info)) ''https://'') ''http://'') ''/'' in
      if trimmed \<noteq> [] then trimmed else ''hunyuan.tencentcloudapi.com'')"

definition tencent_SetupRequestHeader :: "int \<Rightarrow> RelayInfo \<Rightarrow> http_header" where
  "tencent_SetupRequestHeader now info = fold (\<lambda>(k, v) h. header_Set h k v)
     [(''Content-Type'', ''application/json''), (''Accept'', ''application/json''), (''Host'', tencent_host info),
      (''X-TC-Action'', if ri_RelayMode info = RelayModeEmbeddings then ''GetEmbedding'' else ''ChatCompletions''),
      (''X-TC-Version'', ''2023-09-01''), (''X-TC-Timestamp'', show_int now)] []"

text \<open>The signature is made after the overrides, from the headers as they are then; \<open>txt\<close> is the text of the body.\<close>

definition tencent_signature :: "tc3_lib \<Rightarrow> int \<Rightarrow> RelayInfo \<Rightarrow> string \<Rightarrow> http_header \<Rightarrow> http_header" where
  "tencent_signature C now info body h =
     (let (secretID, secretKey) = tencent_secrets info in
      if secretKey = [] then h
      else header_Set (header_Set h ''X-TC-Timestamp'' (show_int now)) ''Authorization''
        (tc3_sign C secretID secretKey ''hunyuan'' (header_Get (Some h) ''Host'') (header_Get (Some h) ''Content-Type'') body now))"

definition payload_text :: "conv_env \<Rightarrow> payload \<Rightarrow> string" where
  "payload_text E p = (case p of Doc j \<Rightarrow> ce_text E j | Text s \<Rightarrow> s)"

definition tencent_DoRequest :: "conv_env \<Rightarrow> tc3_lib \<Rightarrow> 'd ov_lib \<Rightarrow> http_lib \<Rightarrow> int \<times> int \<Rightarrow> RelayInfo \<Rightarrow> payload
    \<Rightarrow> (go_err + upstream) option" where
  "tencent_DoRequest E C L H now info body = send_request L H (\<lambda>e. e) 60 (tencent_GetRequestURL info)
     (tencent_SetupRequestHeader (fst now) info) (tencent_signature C (snd now) info (payload_text E body)) info body"

end
