(* ===== verification/Pictures.thy ===== *)
theory Pictures
  imports Compatible
begin

text \<open>
  Pictures from providers that do not speak OpenAI's image API: Gemini (Imagen and the chat models that
  draw, \<^verbatim>\<open>relay/channel/gemini/image.go\<close>) and MiniMax
  (\<^verbatim>\<open>relay/channel/minimax/image.go\<close>).
\<close>

section \<open>Requests and answers of OpenAI\<close>

text \<open>Of a request the fields that are read; the others decide whether it is accepted.\<close>

record ImageRequest =
  ir_Prompt :: string
  ir_N :: "int option"
  ir_Size :: string
  ir_Quality :: string
  ir_ResponseFormat :: string

definition dec_ImageRequest :: "json \<Rightarrow> ImageRequest option" where
  "dec_ImageRequest j = do { m \<leftarrow> dec_object j; p \<leftarrow> dec_field ''prompt'' dec_string [] m; n \<leftarrow> dec_field ''n'' (dec_ptr dec_int) None m;
     s \<leftarrow> dec_field ''size'' dec_string [] m; q \<leftarrow> dec_field ''quality'' dec_string [] m;
     f \<leftarrow> dec_field ''response_format'' dec_string [] m;
     if fields_ok (strings [''model'', ''style'', ''user'', ''output_format'', ''background'', ''moderation''] @
       ints [''output_compression'', ''partial_images''] @ bools [''stream'', ''watermark'']) m
     then Some \<lparr>ir_Prompt = p, ir_N = n, ir_Size = s, ir_Quality = q, ir_ResponseFormat = f\<rparr> else None }"

definition picture_count :: "ImageRequest \<Rightarrow> int" where
  "picture_count r = (case ir_N r of None \<Rightarrow> 1 | Some n \<Rightarrow> if n > 0 then n else 1)"

record ImageData =
  id_URL :: string
  id_B64JSON :: string
  id_ContentType :: string

definition image_data_json :: "ImageData \<Rightarrow> json" where
  "image_data_json d = JObj (doc [str ''url'' (id_URL d), str ''b64_json'' (id_B64JSON d), str ''content_type'' (id_ContentType d)])"

text \<open>No picture at all is a nil slice.\<close>

definition image_response_json :: "int \<Rightarrow> ImageData list \<Rightarrow> json" where
  "image_response_json created ds = JObj [(''created'', JNum created), (''data'', if ds = [] then JNull else JArr (map image_data_json ds))]"

definition parse_image_request :: "json \<Rightarrow> (ImageRequest \<Rightarrow> json) \<Rightarrow> go_err + reader" where
  "parse_image_request body f = (case dec_ImageRequest body of
     None \<Rightarrow> Inl (ErrWrap (ErrExt ''json: cannot unmarshal'') ''parse image request'')
   | Some r \<Rightarrow> Inr (OtherReader (Doc (f r))))"

definition image_error :: "string \<Rightarrow> string \<Rightarrow> json" where
  "image_error t msg = JObj [(''error'', JObj [(''message'', JStr msg), (''type'', JStr t)])]"

section \<open>Gemini\<close>

definition convertImageRequestToChat :: "json \<Rightarrow> go_err + reader" where
  "convertImageRequestToChat body = parse_image_request body (\<lambda>r. gemini_request_json
     \<lparr>gq_Contents = [\<lparr>gc_Role = ''user'', gc_Parts = [zero_gpart\<lparr>gp_Text := ir_Prompt r\<rparr>]\<rparr>], gq_SafetySettings = [],
      gq_GenerationConfig = Some (zero_gconfig\<lparr>gg_ResponseModalities := [''TEXT'', ''IMAGE'']\<rparr>), gq_Tools = None, gq_ToolConfig = JNull,
      gq_SystemInstruction = None, gq_CachedContent = [], gq_ServiceTier = [], gq_Store = None\<rparr>)"

definition drawn :: "GeminiChatResponse \<Rightarrow> ImageData list" where
  "drawn r = concat (map (\<lambda>c. case ca_Content c of None \<Rightarrow> []
     | Some ct \<Rightarrow> List.map_filter (\<lambda>p. map_option (\<lambda>d. \<lparr>id_URL = [], id_B64JSON = gi_Data d, id_ContentType = gi_MimeType d\<rparr>)
         (gp_InlineData p)) (gc_Parts ct)) (gcr_Candidates r))"

definition handleBananaImageResponse :: "conv_env \<Rightarrow> upstream \<Rightarrow> answer" where
  "handleBananaImageResponse E r = (case up_Body r of
     Inl e \<Rightarrow> no_writes None (Some (ErrWrap e ''read banana response''))
   | Inr body \<Rightarrow>
       if up_StatusCode r \<noteq> 200 then answer_of E [Plain (up_StatusCode r) body] (Some zero_Usage)
         (Some (ErrNewf ''banana API error: %d, body: %s'' [AInt (up_StatusCode r), AStr body]))
       else (case Option.bind (ce_parse E body) dec_GeminiChatResponse of
           None \<Rightarrow> no_writes None (Some (ErrWrap (ErrExt ''json: cannot unmarshal'') ''parse banana response''))
         | Some g \<Rightarrow>
             if drawn g = [] then answer_of E [Made 400 (image_error ''banana_no_image'' ''model did not return any image data'')]
               (Some zero_Usage) (Some (ErrNew ''banana response contained no image data''))
             else answer_of E [Made 200 (image_response_json 0 (drawn g))] (Some (case gcr_UsageMetadata g of None \<Rightarrow> zero_Usage
               | Some u \<Rightarrow> zero_Usage\<lparr>us_PromptTokens := um_PromptTokenCount u, us_CompletionTokens := um_CandidatesTokenCount u,
                   us_TotalTokens := um_TotalTokenCount u\<rparr>)) None))"

definition imageSizeToAspectRatio :: "string \<Rightarrow> string" where
  "imageSizeToAspectRatio s =
     (case map_of [(''1024x1024'', ''1:1''), (''1792x1024'', ''16:9''), (''1280x720'', ''16:9''), (''1024x1792'', ''9:16''), (''720x1280'', ''9:16''),
        (''1536x1024'', ''3:2''), (''1024x1536'', ''2:3''), (''1152x864'', ''4:3''), (''864x1152'', ''3:4''), (''1344x576'', ''21:9'')] s of
       Some r \<Rightarrow> r | None \<Rightarrow> if Contains s '':'' then s else ''1:1'')"

definition qualityToImageSize :: "string \<Rightarrow> string" where
  "qualityToImageSize q = (if ToLower q \<in> {''hd'', ''high''} then ''2K'' else ''1K'')"

definition gemini_convertImageRequest :: "json \<Rightarrow> go_err + reader" where
  "gemini_convertImageRequest body = parse_image_request body (\<lambda>r. JObj
     [(''instances'', JArr [JObj [(''prompt'', JStr (ir_Prompt r))]]),
      (''parameters'', JObj (doc [num ''sampleCount'' (picture_count r), str ''aspectRatio'' (imageSizeToAspectRatio (ir_Size r)),
         str ''personGeneration'' ''allow_adult'', str ''imageSize'' (qualityToImageSize (ir_Quality r))]))])"

text \<open>The data of a prediction, unless it was filtered out.\<close>

definition dec_prediction :: "json \<Rightarrow> ImageData option option" where
  "dec_prediction j = do { m \<leftarrow> dec_object j; t \<leftarrow> dec_field ''mimeType'' dec_string [] m; b \<leftarrow> dec_field ''bytesBase64Encoded'' dec_string [] m;
     f \<leftarrow> dec_field ''raiFilteredReason'' dec_string [] m;
     Some (if f \<noteq> [] then None else Some \<lparr>id_URL = [], id_B64JSON = b, id_ContentType = t\<rparr>) }"

definition dec_GeminiImageResponse :: "json \<Rightarrow> ImageData option list option" where
  "dec_GeminiImageResponse j = do { m \<leftarrow> dec_object j; dec_field ''predictions'' (dec_list dec_prediction) [] m }"

definition handleImagenResponse :: "conv_env \<Rightarrow> RelayInfo \<Rightarrow> upstream \<Rightarrow> answer" where
  "handleImagenResponse E info r = (case up_Body r of
     Inl e \<Rightarrow> no_writes None (Some (ErrWrap e ''read imagen response''))
   | Inr body \<Rightarrow>
       if up_StatusCode r \<noteq> 200 then answer_of E [Plain (up_StatusCode r) body] (Some zero_Usage)
         (Some (ErrNewf ''imagen API error: %d'' [AInt (up_StatusCode r)]))
       else (case Option.bind (ce_parse E body) dec_GeminiImageResponse of
           None \<Rightarrow> no_writes None (Some (ErrWrap (ErrExt ''json: cannot unmarshal'') ''parse imagen response''))
         | Some preds \<Rightarrow> let ds = List.map_filter (\<lambda>p. p) preds in
             if ds = [] then answer_of E [Made 400 (image_error ''imagen_filtered'' ''all images were filtered by safety filters'')]
               (Some zero_Usage) (Some (ErrNew ''all images filtered by safety''))
             else answer_of E [Made 200 (image_response_json (ri_StartTime info) ds)] (Some zero_Usage) None))"

section \<open>MiniMax\<close>

fun go_gcd :: "nat \<Rightarrow> nat \<Rightarrow> nat" where
  "go_gcd a b = (if b = 0 then (if a = 0 then 1 else a) else go_gcd b (a mod b))"

declare go_gcd.simps [simp del]

definition valid_ratios :: "string list" where
  "valid_ratios = [''1:1'', ''16:9'', ''4:3'', ''3:2'', ''2:3'', ''3:4'', ''9:16'', ''21:9'']"

definition ratio_of :: "nat \<Rightarrow> nat \<Rightarrow> string" where
  "ratio_of w h = (let d = go_gcd w h in show_int (int (w div d)) @ '':'' @ show_int (int (h div d)))"

definition aspectRatioFromSize :: "string \<Rightarrow> string" where
  "aspectRatioFromSize s =
     (case map_of [(''1024x1024'', ''1:1''), (''1792x1024'', ''16:9''), (''1024x1792'', ''9:16''), (''1536x1024'', ''3:2''), (''1248x832'', ''3:2''),
        (''1024x1536'', ''2:3''), (''832x1248'', ''2:3''), (''1152x864'', ''4:3''), (''864x1152'', ''3:4''), (''1344x576'', ''21:9'')] s of
       Some r \<Rightarrow> r
     | None \<Rightarrow> (case SplitByte CHR ''x'' s of
         [a, b] \<Rightarrow> (case (ParseInt a, ParseInt b) of
             (Some w, Some h) \<Rightarrow> if w \<le> 0 \<or> h \<le> 0 then []
               else if ratio_of (nat w) (nat h) \<in> set valid_ratios then ratio_of (nat w) (nat h) else []
           | _ \<Rightarrow> [])
       | _ \<Rightarrow> []))"

definition normalizeResponseFormat :: "string \<Rightarrow> string" where
  "normalizeResponseFormat f = (if ToLower f \<in> {[], ''url''} then ''url'' else if ToLower f \<in> {''b64_json'', ''base64''} then ''base64'' else f)"

definition minimax_convertImageRequest :: "RelayInfo \<Rightarrow> json \<Rightarrow> go_err + reader" where
  "minimax_convertImageRequest info body = parse_image_request body (\<lambda>r. JObj (doc
     [(True, ''model'', JStr (let n = cm_UpstreamModelName (ri_ChannelMeta info) in if n = [] then ''image-01'' else n)),
      (True, ''prompt'', JStr (ir_Prompt r)), str ''aspect_ratio'' (aspectRatioFromSize (ir_Size r)),
      str ''response_format'' (normalizeResponseFormat (ir_ResponseFormat r)), num ''n'' (picture_count r)]))"

record miniMaxImageResponse =
  mm_ImageURLs :: "string list"
  mm_ImageBase64 :: "string list"
  mm_StatusCode :: int
  mm_StatusMsg :: string

definition dec_miniMaxImageResponse :: "json \<Rightarrow> miniMaxImageResponse option" where
  "dec_miniMaxImageResponse j = do { m \<leftarrow> dec_object j;
     d \<leftarrow> dec_field ''data'' (\<lambda>j. do { o' \<leftarrow> dec_object j; u \<leftarrow> dec_field ''image_urls'' (dec_list dec_string) [] o';
       b \<leftarrow> dec_field ''image_base64'' (dec_list dec_string) [] o'; Some (u, b) }) ([], []) m;
     s \<leftarrow> dec_field ''base_resp'' (\<lambda>j. do { o' \<leftarrow> dec_object j; c \<leftarrow> dec_field ''status_code'' dec_int 0 o';
       ms \<leftarrow> dec_field ''status_msg'' dec_string [] o'; Some (c, ms) }) (0, []) m;
     if fields_ok (strings [''id''] @ [(''metadata'', reads_as dec_object)]) m
     then Some \<lparr>mm_ImageURLs = fst d, mm_ImageBase64 = snd d, mm_StatusCode = fst s, mm_StatusMsg = snd s\<rparr> else None }"

definition no_data :: ImageData where
  "no_data = \<lparr>id_URL = [], id_B64JSON = [], id_ContentType = []\<rparr>"

text \<open>The status of the answer is not looked at.\<close>

definition minimax_handleImageResponse :: "conv_env \<Rightarrow> RelayInfo \<Rightarrow> upstream \<Rightarrow> answer" where
  "minimax_handleImageResponse E info r = (case up_Body r of
     Inl e \<Rightarrow> no_writes None (Some (ErrWrap e ''read image response body''))
   | Inr body \<Rightarrow> (case Option.bind (ce_parse E body) dec_miniMaxImageResponse of
       None \<Rightarrow> no_writes None (Some (ErrWrap (ErrExt ''json: cannot unmarshal'') ''parse minimax image response''))
     | Some m \<Rightarrow>
         if mm_StatusCode m \<noteq> 0 then answer_of E [Made (up_StatusCode r) (JObj [(''error'', JObj [(''code'', JStr (show_int (mm_StatusCode m))),
             (''message'', JStr (mm_StatusMsg m)), (''type'', JStr ''minimax_image_error'')])])] (Some zero_Usage)
           (Some (ErrNewf ''minimax image error: %s (code %d)'' [AStr (mm_StatusMsg m), AInt (mm_StatusCode m)]))
         else answer_of E [Made 200 (image_response_json (ri_StartTime info)
             (map (\<lambda>u. no_data\<lparr>id_URL := u\<rparr>) (mm_ImageURLs m) @ map (\<lambda>b. no_data\<lparr>id_B64JSON := b\<rparr>) (mm_ImageBase64 m)))]
           (Some zero_Usage) None))"

end
