(* ===== verification/Adaptors.thy ===== *)
theory Adaptors
  imports Pictures
begin

text \<open>
  The adaptors of Claude (\<^verbatim>\<open>relay/channel/claude/adaptor.go\<close>), Gemini
  (\<^verbatim>\<open>relay/channel/gemini/adaptor.go\<close>), MiniMax and Vertex
  (\<^verbatim>\<open>relay/channel/vertex\<close>), and the providers of \<open>Compatible\<close> put together with
  them as the implementations the relay chooses from.
\<close>

section \<open>Claude\<close>

definition claude_GetRequestURL :: "RelayInfo \<Rightarrow> go_err + string" where
  "claude_GetRequestURL info = by_mode info [(RelayModeChatCompletions, ''/v1/messages''), (RelayModeClaudeMessages, ''/v1/messages'')]
     (unsupported ''unsupported relay mode for Claude: %d'' info)"

definition claude_SetupRequestHeader :: "RelayInfo \<Rightarrow> http_header" where
  "claude_SetupRequestHeader info = copy_headers [''X-Request-Id'', ''anthropic-beta''] info
     (fold (\<lambda>(k, v) h. header_Set h k v) [(''x-api-key'', channel_key info), (''anthropic-version'', ''2023-06-01''),
        (''Content-Type'', ''application/json''), (''Accept'', ''application/json'')] [])"

definition int_at :: "string \<Rightarrow> (string \<times> json) list \<Rightarrow> int" where
  "int_at k m = (case Option.bind (jlookup k m) dec_int of None \<Rightarrow> 0 | Some n \<Rightarrow> n)"

text \<open>Four fifths of the tokens, between bounds.\<close>

definition budget_of :: "int \<Rightarrow> int \<Rightarrow> int \<Rightarrow> int" where
  "budget_of least usual n0 = (let n = (if n0 < least then usual else n0); b = go_div (i64 (n * 80)) 100 in if b < least then least else b)"

definition injectClaudeThinking :: "json \<Rightarrow> json" where
  "injectClaudeThinking = in_object (\<lambda>m. put_field ''temperature'' (JNum 1) (put_field ''thinking''
     (JObj [(''type'', JStr ''enabled''), (''budget_tokens'', JNum (budget_of 1280 16384 (int_at ''max_tokens'' m)))]) m))"

definition injectClaudeEffort :: "json \<Rightarrow> json" where
  "injectClaudeEffort = put_missing ''thinking'' (thinking_type ''adaptive'')"

definition to_claude :: "conv_env \<Rightarrow> RelayInfo \<Rightarrow> json \<Rightarrow> go_err + json" where
  "to_claude E info body =
     (if ri_InboundFormat info = RelayFormatClaude then Inr body
      else if ri_InboundFormat info = RelayFormatOpenAI then ConvertOpenAIToClaude E (Some body) info
      else if ri_InboundFormat info = RelayFormatGemini then ConvertGeminiToClaude E (Some body) info
      else if ri_InboundFormat info = RelayFormatResponses then ConvertResponsesToClaude E (Some body) info
      else Inr body)"

definition claude_ConvertRequest :: "conv_env \<Rightarrow> RelayInfo \<Rightarrow> json \<Rightarrow> go_err + reader" where
  "claude_ConvertRequest E info body = as_bytes (sum_bind (to_claude E info body) (\<lambda>j.
     let j1 = replaceModelIfNeeded E info j in
     Inr (if ri_ThinkingEnabled info then injectClaudeThinking j1
       else if ri_ReasoningEffort info \<noteq> [] then injectClaudeEffort j1 else j1)))"

definition claude_DoRequest :: "'d ov_lib \<Rightarrow> http_lib \<Rightarrow> RelayInfo \<Rightarrow> payload \<Rightarrow> (go_err + upstream) option" where
  "claude_DoRequest L H info body =
     send_request L H send_failed 60 (claude_GetRequestURL info) (claude_SetupRequestHeader info) (\<lambda>h. h) info body"

text \<open>A reader that keeps the ends of lines, and the writes that follow its lines.\<close>

definition whole_lines :: "upstream \<Rightarrow> (bool \<times> int \<times> string) list" where
  "whole_lines r = map (\<lambda>(gone, now, line). (gone, now, line @ ''\<newline>'')) (up_Lines r)"

definition with_writes :: "bool list \<Rightarrow> (bool \<times> int \<times> string) list \<Rightarrow> (bool \<times> int \<times> string \<times> bool) list" where
  "with_writes ws lines = map (\<lambda>((gone, now, line), wok). (gone, now, line, wok)) (zip lines (ws @ replicate (length lines) True))"

definition handleClaudeNativeResponse :: "conv_env \<Rightarrow> RelayInfo \<Rightarrow> upstream \<Rightarrow> answer" where
  "handleClaudeNativeResponse E info r =
     (if ri_IsStream info then
        (let (st, u, e) = handleClaudeNativeStream E (up_StatusCode r) (body_text r) (with_writes (up_Writes r) (whole_lines r)) (up_Scan r) info in
         if up_StatusCode r \<noteq> 200 then no_writes u e else stream_of [ns_written st] u e [])
      else (let (ws, u, e) = handleClaudeNativeNonStream E (up_StatusCode r) (up_Body r) info in
        answer_of E (map (\<lambda>(c, b). Plain c b) ws) u e))"

definition claude_to_client :: "conv_env \<Rightarrow> RelayInfo \<Rightarrow> upstream \<Rightarrow> answer" where
  "claude_to_client E info r =
     (if ri_IsStream info then
        (let (st, u, e) = handleStreamToOpenAI E (up_Now r) (up_StatusCode r) (body_text r) (up_Lines r) (up_Scan r) info in
         if up_StatusCode r \<noteq> 200 then no_writes u e else stream_of (map (out_event E) (so_out st)) u e [])
      else (let (ws, u, e) = handleNonStreamToOpenAI E (up_Now r) (up_StatusCode r) (up_Body r) info in
        answer_of E (map (\<lambda>(c, j). Made c j) ws) u e))"

text \<open>Clients of Gemini and of the Responses API get OpenAI's format too.\<close>

definition claude_DoResponse :: "conv_env \<Rightarrow> RelayInfo \<Rightarrow> upstream \<Rightarrow> answer" where
  "claude_DoResponse E info r =
     (if GetOriginalClientFormat info = RelayFormatClaude then handleClaudeNativeResponse E info r else claude_to_client E info r)"

section \<open>Gemini\<close>

definition imagen :: "RelayInfo \<Rightarrow> bool" where
  "imagen info \<longleftrightarrow> HasPrefix (cm_UpstreamModelName (ri_ChannelMeta info)) ''imagen''"

definition gemini_GetRequestURL :: "RelayInfo \<Rightarrow> go_err + string" where
  "gemini_GetRequestURL info =
     (let act = \<lambda>a. ''/v1beta/models/'' @ cm_UpstreamModelName (ri_ChannelMeta info) @ a;
          chat = (if ri_IsStream info then act '':streamGenerateContent?alt=sse'' else act '':generateContent'') in
      by_mode info [(RelayModeChatCompletions, chat), (RelayModeGeminiChat, chat), (RelayModeEmbeddings, act '':embedContent''),
        (RelayModeImagesGenerations, if imagen info then act '':predict'' else act '':generateContent'')]
        (unsupported ''unsupported relay mode for Gemini: %d'' info))"

definition gemini_SetupRequestHeader :: "RelayInfo \<Rightarrow> http_header" where
  "gemini_SetupRequestHeader info = copy_headers [''X-Request-Id''] info
     (fold (\<lambda>(k, v) h. header_Set h k v) [(''x-goog-api-key'', channel_key info), (''Content-Type'', ''application/json''),
        (''Accept'', ''application/json'')] [])"

definition StripStreamField :: "json \<Rightarrow> json" where
  "StripStreamField = in_object (\<lambda>m. if has_key ''stream'' m then filter (\<lambda>x. fst x \<noteq> ''stream'') m else m)"

text \<open>Limit and configuration are looked for and put at the top of the body, not into generationConfig.\<close>

definition injectGeminiThinking :: "conv_env \<Rightarrow> RelayInfo \<Rightarrow> json \<Rightarrow> json" where
  "injectGeminiThinking E info = in_object (\<lambda>m.
     if ri_ThinkingEnabled info then put_field ''thinkingConfig'' (JObj
       [(''thoughtBudget'', JNum (budget_of 128 8192 (int_at ''maxOutputTokens'' m))), (''includeThoughts'', JBool True)]) m
     else if ri_ReasoningEffort info \<noteq> [] then (case raw_name E (ToUpper (ri_ReasoningEffort info)) of None \<Rightarrow> m
       | Some v \<Rightarrow> put_field ''thinkingConfig'' (JObj [(''thinkingLevel'', v), (''includeThoughts'', JBool True)]) m)
     else m)"

definition to_gemini :: "conv_env \<Rightarrow> RelayInfo \<Rightarrow> json \<Rightarrow> go_err + json" where
  "to_gemini E info body =
     (if ri_InboundFormat info = RelayFormatGemini then Inr (StripStreamField body)
      else if ri_InboundFormat info = RelayFormatOpenAI then ConvertOpenAIToGemini E (Some body) info
      else if ri_InboundFormat info = RelayFormatClaude then ConvertClaudeToGemini E (Some body) info
      else if ri_InboundFormat info = RelayFormatResponses then ConvertResponsesToGemini E (Some body) info
      else ConvertOpenAIToGemini E (Some body) info)"

definition gemini_ConvertRequest :: "conv_env \<Rightarrow> RelayInfo \<Rightarrow> json \<Rightarrow> go_err + reader" where
  "gemini_ConvertRequest E info body =
     (if ri_RelayMode info = RelayModeImagesGenerations
      then (if imagen info then gemini_convertImageRequest body else convertImageRequestToChat body)
      else as_bytes (sum_bind (to_gemini E info body) (\<lambda>j.
        Inr (if ri_ThinkingEnabled info \<or> ri_ReasoningEffort info \<noteq> [] then injectGeminiThinking E info j else j))))"

definition gemini_DoRequest :: "'d ov_lib \<Rightarrow> http_lib \<Rightarrow> RelayInfo \<Rightarrow> payload \<Rightarrow> (go_err + upstream) option" where
  "gemini_DoRequest L H info body =
     send_request L H send_failed 60 (gemini_GetRequestURL info) (gemini_SetupRequestHeader info) (\<lambda>h. h) info body"

definition handleGeminiNativeResponse :: "conv_env \<Rightarrow> RelayInfo \<Rightarrow> upstream \<Rightarrow> answer" where
  "handleGeminiNativeResponse E info r =
     (if ri_IsStream info then
        (let (ws, st, u, e) = handleGeminiNativeStream E (up_StatusCode r) (body_text r) (whole_lines r) (up_Scan r) info in
         if up_StatusCode r \<noteq> 200 then answer_of E ws u e else stream_of [gn_written st] u e [])
      else (let (ws, u, e) = handleGeminiNativeNonStream E (up_StatusCode r) (up_Body r) in answer_of E ws u e))"

definition gemini_to_client :: "conv_env \<Rightarrow> RelayInfo \<Rightarrow> upstream \<Rightarrow> answer" where
  "gemini_to_client E info r =
     (if ri_IsStream info then
        (let (ws, st, u, e) = gemini_handleStreamToOpenAI E (up_StatusCode r) (body_text r) (up_Lines r) (up_Scan r) info in
         if up_StatusCode r \<noteq> 200 then answer_of E ws u e else stream_of (map (out_event E) (gch_out st)) u e [])
      else (let (ws, u, e) = gemini_handleNonStreamToOpenAI E (up_StatusCode r) (up_Body r) info in answer_of E ws u e))"

text \<open>Clients of Claude and of the Responses API get OpenAI's format too.\<close>

definition gemini_DoResponse :: "conv_env \<Rightarrow> RelayInfo \<Rightarrow> upstream \<Rightarrow> answer" where
  "gemini_DoResponse E info r =
     (if ri_RelayMode info = RelayModeImagesGenerations
      then (if imagen info then handleImagenResponse E info r else handleBananaImageResponse E r)
      else if GetOriginalClientFormat info = RelayFormatGemini then handleGeminiNativeResponse E info r
      else gemini_to_client E info r)"

section \<open>Claude's format at other providers\<close>

definition claude_or_openai :: "conv_env \<Rightarrow> (json \<Rightarrow> int option) \<Rightarrow> RelayInfo \<Rightarrow> upstream \<Rightarrow> answer" where
  "claude_or_openai E minutes info r =
     (if GetOriginalClientFormat info = RelayFormatClaude then claude_DoResponse E info r else openai_DoResponse E minutes info r)"

definition minimax_GetRequestURL :: "RelayInfo \<Rightarrow> go_err + string" where
  "minimax_GetRequestURL info = by_mode info
     [(RelayModeClaudeMessages, ''/anthropic/v1/messages''), (RelayModeChatCompletions, ''/v1/text/chatcompletion_v2''),
      (RelayModeImagesGenerations, ''/v1/image/generation'')] (unsupported ''minimax does not support relay mode: %d'' info)"

definition minimax_ConvertRequest :: "conv_env \<Rightarrow> RelayInfo \<Rightarrow> json \<Rightarrow> go_err + reader" where
  "minimax_ConvertRequest E info body = (if ri_RelayMode info = RelayModeImagesGenerations then minimax_convertImageRequest info body
     else anthropic_ConvertRequest E info body)"

definition minimax_DoResponse :: "conv_env \<Rightarrow> (json \<Rightarrow> int option) \<Rightarrow> RelayInfo \<Rightarrow> upstream \<Rightarrow> answer" where
  "minimax_DoResponse E minutes info r = (if ri_RelayMode info = RelayModeImagesGenerations then minimax_handleImageResponse E info r
     else claude_or_openai E minutes info r)"

section \<open>Vertex\<close>

text \<open>Keys, signatures, encodings and the exchange are those of the library and of Google.\<close>

record 'k vertex_lib =
  vx_parseKey :: "string \<Rightarrow> go_err + 'k"
  vx_signature :: "'k \<Rightarrow> string \<Rightarrow> go_err + string"
  vx_base64url :: "string \<Rightarrow> string"
  vx_escape :: "string \<Rightarrow> string"
  vx_post :: "string \<Rightarrow> string \<Rightarrow> go_err + (int \<times> (go_err + string))"

record serviceAccountKey =
  sa_ProjectID :: string
  sa_PrivateKey :: string
  sa_ClientEmail :: string

definition dec_serviceAccountKey :: "json \<Rightarrow> serviceAccountKey option" where
  "dec_serviceAccountKey j = do { m \<leftarrow> dec_object j; p \<leftarrow> dec_field ''project_id'' dec_string [] m;
     k \<leftarrow> dec_field ''private_key'' dec_string [] m; e \<leftarrow> dec_field ''client_email'' dec_string [] m;
     if fields_ok (strings [''type'', ''private_key_id'', ''client_id'', ''auth_uri'', ''token_uri'', ''auth_provider_x509_cert_url'',
       ''client_x509_cert_url'']) m
     then Some \<lparr>sa_ProjectID = p, sa_PrivateKey = k, sa_ClientEmail = e\<rparr> else None }"

definition isServiceAccountJSON :: "conv_env \<Rightarrow> string \<Rightarrow> bool" where
  "isServiceAccountJSON E s = (let t = TrimSpace s in HasPrefix t ''{'' \<and>
     (case Option.bind (Option.bind (ce_parse E t) dec_object) (dec_field ''type'' dec_string []) of None \<Rightarrow> False
      | Some ty \<Rightarrow> ty = ''service_account''))"

definition parseServiceAccountProjectID :: "conv_env \<Rightarrow> string \<Rightarrow> string" where
  "parseServiceAccountProjectID E s = (case Option.bind (ce_parse E s) dec_serviceAccountKey of None \<Rightarrow> [] | Some k \<Rightarrow> sa_ProjectID k)"

definition createSignedJWT :: "conv_env \<Rightarrow> 'k vertex_lib \<Rightarrow> string \<Rightarrow> 'k \<Rightarrow> int \<Rightarrow> go_err + string" where
  "createSignedJWT E V email key now =
     (let head = JObj [(''alg'', JStr ''RS256''), (''typ'', JStr ''JWT'')];
          claims = JObj [(''aud'', JStr ''https://www.googleapis.com/oauth2/v4/token''), (''exp'', JNum (now + 3600)), (''iat'', JNum now),
            (''iss'', JStr email), (''scope'', JStr ''https://www.googleapis.com/auth/cloud-platform'')];
          input = vx_base64url V (ce_text E head) @ ''.'' @ vx_base64url V (ce_text E claims) in
      case vx_signature V key input of Inl e \<Rightarrow> Inl (ErrWrap e ''sign JWT failed'') | Inr s \<Rightarrow> Inr (input @ ''.'' @ vx_base64url V s))"

definition dec_token_response :: "json \<Rightarrow> (string \<times> int) option" where
  "dec_token_response j = do { m \<leftarrow> dec_object j; t \<leftarrow> dec_field ''access_token'' dec_string [] m; n \<leftarrow> dec_field ''expires_in'' dec_int 0 m;
     if fields_ok (strings [''token_type'']) m then Some (t, n) else None }"

definition exchangeJWTForToken :: "conv_env \<Rightarrow> 'k vertex_lib \<Rightarrow> string \<Rightarrow> go_err + (string \<times> int)" where
  "exchangeJWTForToken E V jwt = (case vx_post V ''https://www.googleapis.com/oauth2/v4/token''
       (''assertion='' @ vx_escape V jwt @ ''&grant_type='' @ vx_escape V ''urn:ietf:params:oauth:grant-type:jwt-bearer'') of
     Inl e \<Rightarrow> Inl (ErrWrap e ''token request failed'')
   | Inr (status, Inl e) \<Rightarrow> Inl (ErrWrap e ''read token response failed'')
   | Inr (status, Inr body) \<Rightarrow>
       if status \<noteq> 200 then Inl (ErrNewf ''token exchange failed (HTTP %d): %s'' [AInt status, AStr body])
       else (case Option.bind (ce_parse E body) dec_token_response of
           None \<Rightarrow> Inl (ErrWrap (ErrExt ''json: cannot unmarshal'') ''parse token response failed'')
         | Some (t, n) \<Rightarrow> if t = [] then Inl (ErrNew ''empty access token in response'') else Inr (t, n)))"

text \<open>The cache holds a token and the second it expires in, by the address of the account.  \<open>now\<close> is the clock
  when the cache is looked at, \<open>later\<close> when the request is signed.\<close>

type_synonym token_cache = "string \<rightharpoonup> string \<times> int"

definition fetch_token :: "conv_env \<Rightarrow> 'k vertex_lib \<Rightarrow> int \<Rightarrow> serviceAccountKey \<Rightarrow> go_err + (string \<times> int)" where
  "fetch_token E V later k =
     sum_bind (map_sum (\<lambda>e. ErrWrap e ''parse private key failed'') (\<lambda>x. x) (vx_parseKey V (sa_PrivateKey k))) (\<lambda>key.
       sum_bind (map_sum (\<lambda>e. ErrWrap e ''create JWT failed'') (\<lambda>x. x) (createSignedJWT E V (sa_ClientEmail k) key later)) (\<lambda>jwt.
         map_sum (\<lambda>e. ErrWrap e ''exchange token failed'') (\<lambda>x. x) (exchangeJWTForToken E V jwt)))"

definition getVertexAccessToken :: "conv_env \<Rightarrow> 'k vertex_lib \<Rightarrow> int \<Rightarrow> int \<Rightarrow> string \<Rightarrow> token_cache \<Rightarrow> (go_err + string) \<times> token_cache" where
  "getVertexAccessToken E V now later account cache = (case Option.bind (ce_parse E account) dec_serviceAccountKey of
     None \<Rightarrow> (Inl (ErrWrap (ErrExt ''json: cannot unmarshal'') ''parse service account JSON failed''), cache)
   | Some k \<Rightarrow>
       let fetch = (case fetch_token E V later k of Inl e \<Rightarrow> (Inl e, cache)
         | Inr (t, n) \<Rightarrow> (Inr t, cache(sa_ClientEmail k \<mapsto> (t, later + n)))) in
       case cache (sa_ClientEmail k) of None \<Rightarrow> fetch | Some (t, expiry) \<Rightarrow> if now < expiry - 60 then (Inr t, cache) else fetch)"

text \<open>The kind of the model is read off its name; without a service account the key is also taken for the project.\<close>

definition vertex_claude :: "RelayInfo \<Rightarrow> bool" where
  "vertex_claude info \<longleftrightarrow> Contains (ToLower (cm_UpstreamModelName (ri_ChannelMeta info))) ''claude''"

definition vertex_project :: "conv_env \<Rightarrow> RelayInfo \<Rightarrow> string" where
  "vertex_project E info = (let key = channel_key info in if isServiceAccountJSON E key then parseServiceAccountProjectID E key else key)"

definition vertex_GetRequestURL :: "conv_env \<Rightarrow> RelayInfo \<Rightarrow> go_err + string" where
  "vertex_GetRequestURL E info =
     (let act = (if vertex_claude info then (if ri_IsStream info then '':streamRawPredict'' else '':rawPredict'')
            else if ri_IsStream info then '':streamGenerateContent?alt=sse'' else '':generateContent'') in
      by_mode info [] (Inr (''/v1/projects/'' @ vertex_project E info @ ''/locations/us-central1/publishers/'' @
        (if vertex_claude info then ''anthropic'' else ''google'') @ ''/models/'' @ cm_UpstreamModelName (ri_ChannelMeta info) @ act)))"

text \<open>\<open>token\<close> gets an access token for the key of a service account.\<close>

definition vertex_SetupRequestHeader :: "conv_env \<Rightarrow> (string \<Rightarrow> go_err + string) \<Rightarrow> RelayInfo \<Rightarrow> go_err + http_header" where
  "vertex_SetupRequestHeader E token info =
     (let key = channel_key info; ready = \<lambda>t. copy_headers [''X-Request-Id''] info
            (header_Set (header_Set [] ''Content-Type'' ''application/json'') ''Authorization'' (''Bearer '' @ t)) in
      if isServiceAccountJSON E key
      then map_sum (\<lambda>e. ErrWrap e ''get Vertex access token failed'') ready (token key) else Inr (ready key))"

definition vertex_ConvertRequest :: "conv_env \<Rightarrow> RelayInfo \<Rightarrow> json \<Rightarrow> go_err + reader" where
  "vertex_ConvertRequest E info body = (if vertex_claude info then claude_ConvertRequest E info body else gemini_ConvertRequest E info body)"

text \<open>The request is created before its headers: an error of either ends it.\<close>

definition vertex_DoRequest :: "conv_env \<Rightarrow> (string \<Rightarrow> go_err + string) \<Rightarrow> 'd ov_lib \<Rightarrow> http_lib \<Rightarrow> RelayInfo \<Rightarrow> payload
    \<Rightarrow> (go_err + upstream) option" where
  "vertex_DoRequest E token L H info body = (case vertex_SetupRequestHeader E token info of
     Inr h \<Rightarrow> send_request L H send_failed 60 (vertex_GetRequestURL E info) h (\<lambda>h. h) info body
   | Inl e \<Rightarrow> Some (Inl (case vertex_GetRequestURL E info of Inl e' \<Rightarrow> e'
       | Inr url \<Rightarrow> (case hl_NewRequest H url of Some e' \<Rightarrow> ErrWrap e' ''create request failed''
           | None \<Rightarrow> ErrWrap e ''setup request header failed''))))"

definition vertex_DoResponse :: "conv_env \<Rightarrow> RelayInfo \<Rightarrow> upstream \<Rightarrow> answer" where
  "vertex_DoResponse E info r = (if vertex_claude info then claude_DoResponse E info r else gemini_DoResponse E info r)"

end
