(* ===== verification/Dialects.thy ===== *)
theory Dialects
  imports Compatible
begin

text \<open>
  The providers with an interface of their own: Ollama (\<^verbatim>\<open>relay/channel/ollama\<close>), Coze
  (\<^verbatim>\<open>relay/channel/coze\<close>) and Dify (\<^verbatim>\<open>relay/channel/dify\<close>).
  Requests are converted from OpenAI's format, and answers into it, whatever the client speaks.
\<close>

section \<open>Ollama\<close>

definition ollama_GetRequestURL :: "RelayInfo \<Rightarrow> go_err + string" where
  "ollama_GetRequestURL info = by_mode info [(RelayModeEmbeddings, ''/api/embed''), (RelayModeCompletions, ''/api/generate''),
     (RelayModeChatCompletions, ''/api/chat'')] (Inr ''/api/chat'')"

definition ollama_SetupRequestHeader :: "RelayInfo \<Rightarrow> http_header" where
  "ollama_SetupRequestHeader info = (let h = header_Set [] ''Content-Type'' ''application/json'' in
     if channel_key info \<noteq> [] then header_Set h ''Authorization'' (''Bearer '' @ channel_key info) else h)"

definition upstream_model :: "RelayInfo \<Rightarrow> string" where
  "upstream_model info = (if cm_IsModelMapped (ri_ChannelMeta info) then cm_UpstreamModelName (ri_ChannelMeta info) else ri_OriginModelName info)"

definition float_option :: "string \<Rightarrow> (string \<times> json) list \<Rightarrow> (string \<times> json) list" where
  "float_option k m = (case Option.bind (jlookup k m) dec_float of None \<Rightarrow> [] | Some v \<Rightarrow> [(k, v)])"

definition num_predict :: "(string \<times> json) list \<Rightarrow> (string \<times> json) list" where
  "num_predict m = (case (if has_key ''max_tokens'' m then jlookup ''max_tokens'' m else jlookup ''max_completion_tokens'' m) of None \<Rightarrow> []
     | Some v \<Rightarrow> (case dec_int v of None \<Rightarrow> [] | Some n \<Rightarrow> [(''num_predict'', JNum n)]))"

definition buildOptions :: "(string \<times> json) list \<Rightarrow> (string \<times> json) list" where
  "buildOptions m = float_option ''temperature'' m @ num_predict m @ float_option ''top_p'' m @
     (case jlookup ''stop'' m of None \<Rightarrow> [] | Some v \<Rightarrow> if v = JNull then [] else [(''stop'', v)]) @
     float_option ''frequency_penalty'' m @ float_option ''presence_penalty'' m"

definition text_of_part :: "json \<Rightarrow> string option" where
  "text_of_part p = (case p of JObj m \<Rightarrow> if str_or ''type'' m = ''text'' then str_at ''text'' m else None | _ \<Rightarrow> None)"

definition ollama_content :: "conv_env \<Rightarrow> json \<Rightarrow> string" where
  "ollama_content E c = (case c of JStr s \<Rightarrow> s | JArr ps \<Rightarrow> concat (List.map_filter text_of_part ps) | JNull \<Rightarrow> [] | _ \<Rightarrow> ce_text E c)"

definition ollama_message :: "conv_env \<Rightarrow> json \<Rightarrow> json option" where
  "ollama_message E j = do { m \<leftarrow> dec_object j; r \<leftarrow> dec_field ''role'' dec_string [] m;
     Some (JObj [(''role'', JStr r), (''content'', JStr (ollama_content E (case jlookup ''content'' m of None \<Rightarrow> JNull | Some c \<Rightarrow> c)))]) }"

definition with_options :: "(string \<times> json) list \<Rightarrow> (string \<times> json) list" where
  "with_options m = (if buildOptions m = [] then [] else [(''options'', JObj (buildOptions m))])"

definition cannot_unmarshal :: "string \<Rightarrow> go_err" where
  "cannot_unmarshal msg = ErrWrap (ErrExt ''json: cannot unmarshal'') msg"

definition convertChatRequest :: "conv_env \<Rightarrow> RelayInfo \<Rightarrow> (string \<times> json) list \<Rightarrow> go_err + json" where
  "convertChatRequest E info m = (case (case jlookup ''messages'' m of None \<Rightarrow> Some [] | Some j \<Rightarrow> dec_list (ollama_message E) j) of
     None \<Rightarrow> Inl (cannot_unmarshal ''parse messages failed'')
   | Some ms \<Rightarrow> Inr (JObj ([(''model'', JStr (upstream_model info)), (''messages'', JArr ms), (''stream'', JBool (ri_IsStream info))] @ with_options m)))"

definition prompt_of :: "(string \<times> json) list \<Rightarrow> string" where
  "prompt_of m = (case jlookup ''prompt'' m of None \<Rightarrow> []
     | Some j \<Rightarrow> (case dec_string j of Some s \<Rightarrow> s
         | None \<Rightarrow> (case dec_list dec_string j of Some (s # ss) \<Rightarrow> s | _ \<Rightarrow> [])))"

definition convertCompletionsRequest :: "RelayInfo \<Rightarrow> (string \<times> json) list \<Rightarrow> go_err + json" where
  "convertCompletionsRequest info m = Inr (JObj ([(''model'', JStr (upstream_model info)), (''prompt'', JStr (prompt_of m)),
     (''stream'', JBool (ri_IsStream info))] @ with_options m))"

definition convertEmbeddingRequest :: "RelayInfo \<Rightarrow> (string \<times> json) list \<Rightarrow> go_err + json" where
  "convertEmbeddingRequest info m =
     (let made = \<lambda>input. Inr (JObj [(''model'', JStr (upstream_model info)), (''input'', input)]) in
      case jlookup ''input'' m of None \<Rightarrow> made JNull
      | Some j \<Rightarrow> (case dec_string j of Some s \<Rightarrow> made (JArr [JStr s])
          | None \<Rightarrow> (case dec_list dec_string j of None \<Rightarrow> Inl (cannot_unmarshal ''parse input failed'')
              | Some ss \<Rightarrow> made (JArr (map JStr ss)))))"

definition ollama_ConvertRequest :: "conv_env \<Rightarrow> RelayInfo \<Rightarrow> json \<Rightarrow> go_err + reader" where
  "ollama_ConvertRequest E info body = as_bytes (sum_bind (openai_body E info body) (\<lambda>j.
     map_sum (\<lambda>e. ErrWrap e ''convert request failed'') (\<lambda>x. x) (case dec_object j of
       None \<Rightarrow> Inl (cannot_unmarshal ''parse request body failed'')
     | Some m \<Rightarrow> if ri_RelayMode info = RelayModeCompletions then convertCompletionsRequest info m
         else if ri_RelayMode info = RelayModeEmbeddings then convertEmbeddingRequest info m else convertChatRequest E info m)))"

definition ollama_DoRequest :: "'d ov_lib \<Rightarrow> http_lib \<Rightarrow> RelayInfo \<Rightarrow> payload \<Rightarrow> (go_err + upstream) option" where
  "ollama_DoRequest L H info body =
     send_request L H send_failed 300 (ollama_GetRequestURL info) (ollama_SetupRequestHeader info) (\<lambda>h. h) info body"

text \<open>One answer, whole or a line of a stream, of either endpoint.\<close>

record ollama_answer =
  ol_Role :: string
  ol_Text :: string
  ol_Done :: bool
  ol_PromptEvalCount :: int
  ol_EvalCount :: int

definition dec_ollama :: "((string \<times> json) list \<Rightarrow> (string \<times> string) option) \<Rightarrow> json \<Rightarrow> ollama_answer option" where
  "dec_ollama said j = do { m \<leftarrow> dec_object j; s \<leftarrow> said m; d \<leftarrow> dec_field ''done'' dec_bool False m;
     p \<leftarrow> dec_field ''prompt_eval_count'' dec_int 0 m; c \<leftarrow> dec_field ''eval_count'' dec_int 0 m;
     if fields_ok (strings [''model'', ''created_at''] @ ints [''total_duration'']) m
     then Some \<lparr>ol_Role = fst s, ol_Text = snd s, ol_Done = d, ol_PromptEvalCount = p, ol_EvalCount = c\<rparr> else None }"

definition dec_OllamaMessage :: "json \<Rightarrow> (string \<times> string) option" where
  "dec_OllamaMessage j = do { m \<leftarrow> dec_object j; r \<leftarrow> dec_field ''role'' dec_string [] m; c \<leftarrow> dec_field ''content'' dec_string [] m;
     if fields_ok [(''images'', array_of (reads_as dec_string))] m then Some (r, c) else None }"

definition dec_OllamaChatResponse :: "json \<Rightarrow> ollama_answer option" where
  "dec_OllamaChatResponse = dec_ollama (dec_field ''message'' dec_OllamaMessage ([], []))"

definition dec_OllamaGenerateResponse :: "json \<Rightarrow> ollama_answer option" where
  "dec_OllamaGenerateResponse = dec_ollama (\<lambda>m. map_option (Pair []) (dec_field ''response'' dec_string [] m))"

definition ollama_usage :: "ollama_answer \<Rightarrow> UsageWithDetails" where
  "ollama_usage a = zero_usage\<lparr>uw_PromptTokens := ol_PromptEvalCount a, uw_CompletionTokens := ol_EvalCount a,
     uw_TotalTokens := i64 (ol_PromptEvalCount a + ol_EvalCount a)\<rparr>"

definition ollama_chat_json :: "int \<Rightarrow> RelayInfo \<Rightarrow> ollama_answer \<Rightarrow> json" where
  "ollama_chat_json now info a = chat_response_json
     \<lparr>ccr_ID = ''chatcmpl-'' @ ri_RequestID info, ccr_Object = ''chat.completion'', ccr_Created = now, ccr_Model = ri_OriginModelName info,
      ccr_SystemFingerprint = None, ccr_Choices = [\<lparr>cho_Index = 0, cho_Message = zero_Message\<lparr>om_Role := ol_Role a, om_Content := JStr (ol_Text a)\<rparr>,
        cho_FinishReason = ''stop'', cho_LogProbs = JNull\<rparr>], ccr_Usage = ollama_usage a, ccr_ServiceTier = None\<rparr>"

definition completion_fields :: "int \<Rightarrow> RelayInfo \<Rightarrow> (string \<times> json) list" where
  "completion_fields now info = [(''id'', JStr (''cmpl-'' @ ri_RequestID info)), (''object'', JStr ''text_completion''), (''created'', JNum now),
     (''model'', JStr (ri_OriginModelName info))]"

definition ollama_completion_json :: "int \<Rightarrow> RelayInfo \<Rightarrow> ollama_answer \<Rightarrow> json" where
  "ollama_completion_json now info a = JObj (completion_fields now info @
     [(''choices'', JArr [JObj [(''index'', JNum 0), (''text'', JStr (ol_Text a)), (''finish_reason'', JStr ''stop'')]]),
      (''usage'', usage_details_json (ollama_usage a))])"

text \<open>A whole answer: \<open>written\<close> is what becomes of it.\<close>

definition ollama_whole :: "conv_env \<Rightarrow> (json \<Rightarrow> 'a option) \<Rightarrow> ('a \<Rightarrow> json) \<Rightarrow> ('a \<Rightarrow> Usage) \<Rightarrow> upstream \<Rightarrow> answer" where
  "ollama_whole E decode written' tally r = (case read_body (up_StatusCode r) (up_Body r) of
     Inl e \<Rightarrow> no_writes None (Some e)
   | Inr body \<Rightarrow> (case Option.bind (ce_parse E body) decode of
       None \<Rightarrow> no_writes None (Some (NewUpstreamError (up_StatusCode r) ''invalid response body'' (Some (ErrExt ''json: cannot unmarshal''))))
     | Some a \<Rightarrow> answer_of E [Made 200 (written' a)] (Some (tally a)) None))"

definition ollama_handleChatNonStreamResponse :: "conv_env \<Rightarrow> RelayInfo \<Rightarrow> upstream \<Rightarrow> answer" where
  "ollama_handleChatNonStreamResponse E info r = ollama_whole E dec_OllamaChatResponse (ollama_chat_json (up_Now r) info)
     (\<lambda>a. usage_of (ollama_usage a) False) r"

definition handleGenerateNonStreamResponse :: "conv_env \<Rightarrow> RelayInfo \<Rightarrow> upstream \<Rightarrow> answer" where
  "handleGenerateNonStreamResponse E info r = ollama_whole E dec_OllamaGenerateResponse (ollama_completion_json (up_Now r) info)
     (\<lambda>a. usage_of (ollama_usage a) False) r"

definition dec_vector :: "json \<Rightarrow> json option" where
  "dec_vector j = (if j = JNull then Some JNull else map_option JArr (dec_list dec_float j))"

definition dec_OllamaEmbeddingResponse :: "json \<Rightarrow> json list option" where
  "dec_OllamaEmbeddingResponse j = do { m \<leftarrow> dec_object j; es \<leftarrow> dec_field ''embeddings'' (dec_list dec_vector) [] m;
     if fields_ok (strings [''model'']) m then Some es else None }"

definition ollama_embedding_json :: "RelayInfo \<Rightarrow> json list \<Rightarrow> json" where
  "ollama_embedding_json info es = JObj [(''object'', JStr ''list''),
     (''data'', JArr (map (\<lambda>(i, e). JObj [(''object'', JStr ''embedding''), (''index'', JNum (int i)), (''embedding'', e)]) (enumerate 0 es))),
     (''model'', JStr (ri_OriginModelName info)), (''usage'', usage_details_json zero_usage)]"

definition ollama_handleEmbeddingResponse :: "conv_env \<Rightarrow> RelayInfo \<Rightarrow> upstream \<Rightarrow> answer" where
  "ollama_handleEmbeddingResponse E info r = ollama_whole E dec_OllamaEmbeddingResponse (ollama_embedding_json info) (\<lambda>es. zero_Usage) r"

text \<open>Streams: a document per line becomes a chunk, the last one with the usage.\<close>

record ollama_stream =
  os_out :: "json list"
  os_info :: RelayInfo
  os_usage :: UsageWithDetails

definition os_end :: "StreamEndReason \<Rightarrow> go_err option \<Rightarrow> ollama_stream \<Rightarrow> ollama_stream" where
  "os_end reason e st = st\<lparr>os_info := (os_info st)\<lparr>ri_StreamStatus := SetEndReason reason e (ri_StreamStatus (os_info st))\<rparr>\<rparr>"

definition ollama_chat_chunk :: "RelayInfo \<Rightarrow> ollama_answer \<Rightarrow> json" where
  "ollama_chat_chunk info a = chunk_json
     \<lparr>csr_ID = ''chatcmpl-'' @ ri_RequestID info, csr_Object = ''chat.completion.chunk'', csr_Created = 0, csr_Model = ri_OriginModelName info,
      csr_SystemFingerprint = None, csr_Choices = [\<lparr>sch_Index = 0,
        sch_Delta = (if ol_Done a then zero_Message else zero_Message\<lparr>om_Role := ol_Role a, om_Content := JStr (ol_Text a)\<rparr>),
        sch_FinishReason = (if ol_Done a then Some ''stop'' else None), sch_LogProbs = JNull\<rparr>],
      csr_Usage = (if ol_Done a then Some (ollama_usage a) else None)\<rparr>"

definition ollama_completion_chunk :: "RelayInfo \<Rightarrow> ollama_answer \<Rightarrow> json" where
  "ollama_completion_chunk info a = JObj (completion_fields 0 info @
     [(''choices'', JArr [JObj [(''index'', JNum 0), (''text'', JStr (if ol_Done a then [] else ol_Text a)),
        (''finish_reason'', if ol_Done a then JStr ''stop'' else JNull)]]),
      (''usage'', if ol_Done a then usage_details_json (ollama_usage a) else JNull)])"

fun ollama_loop :: "conv_env \<Rightarrow> (json \<Rightarrow> ollama_answer option) \<Rightarrow> (RelayInfo \<Rightarrow> ollama_answer \<Rightarrow> json) \<Rightarrow> (bool \<times> int \<times> string) list \<Rightarrow>
    ollama_stream \<Rightarrow> ollama_stream \<times> loop_end" where
  "ollama_loop E decode chunk [] st = (st, Ran)"
| "ollama_loop E decode chunk ((gone, now, line) # lines) st =
     (if gone then (os_end StreamEndReasonClientGone (Some (ErrExt ''context canceled'')) st, ClientGone)
      else case (if line = [] then None else Option.bind (ce_parse E line) decode) of None \<Rightarrow> ollama_loop E decode chunk lines st
        | Some a \<Rightarrow>
            let st1 = st\<lparr>os_info := SetFirstResponseTime now (os_info st)\<rparr>; st2 = st1\<lparr>os_out := os_out st1 @ [chunk (os_info st1) a]\<rparr> in
            if ol_Done a then (st2\<lparr>os_usage := ollama_usage a\<rparr>, Ran) else ollama_loop E decode chunk lines st2)"

definition ollama_streamed :: "conv_env \<Rightarrow> (json \<Rightarrow> ollama_answer option) \<Rightarrow> (RelayInfo \<Rightarrow> ollama_answer \<Rightarrow> json) \<Rightarrow> RelayInfo \<Rightarrow> upstream \<Rightarrow>
    answer" where
  "ollama_streamed E decode chunk info r =
     (if up_StatusCode r \<noteq> 200 then no_writes None (Some (NewUpstreamError (up_StatusCode r) (body_text r) None))
      else (let (st, fin) = ollama_loop E decode chunk (up_Lines r) \<lparr>os_out = [], os_info = info, os_usage = zero_usage\<rparr>;
                events = map (\<lambda>j. sse_data (ce_text E j)) (os_out st); u = Some (usage_of (os_usage st) False) in
        case fin of ClientGone \<Rightarrow> stream_of events u (Some ErrStreamInterrupted) []
        | Ran \<Rightarrow> stream_of (events @ [sse_data ''[DONE]'']) u
            (case up_Scan r of None \<Rightarrow> None | Some e \<Rightarrow> Some (ErrWrap e ''stream scanner error'')) []))"

definition ollama_handleChatStreamResponse :: "conv_env \<Rightarrow> RelayInfo \<Rightarrow> upstream \<Rightarrow> answer" where
  "ollama_handleChatStreamResponse E = ollama_streamed E dec_OllamaChatResponse ollama_chat_chunk"

definition handleGenerateStreamResponse :: "conv_env \<Rightarrow> RelayInfo \<Rightarrow> upstream \<Rightarrow> answer" where
  "handleGenerateStreamResponse E = ollama_streamed E dec_OllamaGenerateResponse ollama_completion_chunk"

definition ollama_DoResponse :: "conv_env \<Rightarrow> RelayInfo \<Rightarrow> upstream \<Rightarrow> answer" where
  "ollama_DoResponse E info r =
     (if ri_RelayMode info = RelayModeEmbeddings then ollama_handleEmbeddingResponse E info r
      else if ri_RelayMode info = RelayModeCompletions
        then (if ri_IsStream info then handleGenerateStreamResponse E info r else handleGenerateNonStreamResponse E info r)
      else if ri_IsStream info then ollama_handleChatStreamResponse E info r else ollama_handleChatNonStreamResponse E info r)"

section \<open>What Coze and Dify share\<close>

definition buildOpenAIStreamChunk :: "string \<Rightarrow> int \<Rightarrow> string \<Rightarrow> string \<Rightarrow> string option \<Rightarrow> ChatCompletionStreamResponse" where
  "buildOpenAIStreamChunk i created model content reason =
     \<lparr>csr_ID = i, csr_Object = ''chat.completion.chunk'', csr_Created = created, csr_Model = model, csr_SystemFingerprint = None,
      csr_Choices = [\<lparr>sch_Index = 0, sch_Delta = zero_Message\<lparr>om_Content := (if content \<noteq> [] then JStr content else JNull),
        om_Role := (if reason = None then ''assistant'' else [])\<rparr>, sch_FinishReason = reason, sch_LogProbs = JNull\<rparr>],
      csr_Usage = None\<rparr>"

definition estimateTokens :: "string \<Rightarrow> int" where
  "estimateTokens t = (if t = [] then 0 else int ((length t + 3) div 4))"

definition plain_chat_json :: "string \<Rightarrow> int \<Rightarrow> RelayInfo \<Rightarrow> string \<Rightarrow> UsageWithDetails \<Rightarrow> json" where
  "plain_chat_json i now info content u = chat_response_json
     \<lparr>ccr_ID = i @ ri_RequestID info, ccr_Object = ''chat.completion'', ccr_Created = now, ccr_Model = ri_OriginModelName info,
      ccr_SystemFingerprint = None, ccr_Choices = [\<lparr>cho_Index = 0,
        cho_Message = zero_Message\<lparr>om_Role := ''assistant'', om_Content := JStr content\<rparr>, cho_FinishReason = ''stop'', cho_LogProbs = JNull\<rparr>],
      ccr_Usage = u, ccr_ServiceTier = None\<rparr>"

text \<open>What is sent, the writes still to come, and how the loop ended.\<close>

record bot_stream =
  bs_out :: "openai_out list"
  bs_writes :: "bool list"
  bs_info :: RelayInfo
  bs_event :: string
  bs_usage :: UsageWithDetails

datatype bot_end = BotLeft | BotFailed go_err | BotDone | BotThrough

definition new_bot :: "bool list \<Rightarrow> RelayInfo \<Rightarrow> bot_stream" where
  "new_bot ws info = \<lparr>bs_out = [], bs_writes = ws, bs_info = info, bs_event = [], bs_usage = zero_usage\<rparr>"

definition bs_end :: "StreamEndReason \<Rightarrow> go_err option \<Rightarrow> bot_stream \<Rightarrow> bot_stream" where
  "bs_end reason e st = st\<lparr>bs_info := (bs_info st)\<lparr>ri_StreamStatus := SetEndReason reason e (ri_StreamStatus (bs_info st))\<rparr>\<rparr>"

definition bs_put :: "openai_out \<Rightarrow> bot_stream \<Rightarrow> bot_stream \<times> bool" where
  "bs_put c st = (if bs_writes st = [] \<or> hd (bs_writes st) then (st\<lparr>bs_out := bs_out st @ [c], bs_writes := tl (bs_writes st)\<rparr>, True)
     else (st\<lparr>bs_writes := tl (bs_writes st)\<rparr>, False))"

definition bs_gone :: "bot_stream \<Rightarrow> bot_stream" where
  "bs_gone st = bs_end StreamEndReasonClientGone (Some ErrStreamInterrupted) st"

definition bs_chunk :: "string \<Rightarrow> int \<Rightarrow> string \<Rightarrow> string option \<Rightarrow> bot_stream \<Rightarrow> openai_out" where
  "bs_chunk i now content reason st =
     Chunk (buildOpenAIStreamChunk (i @ ri_RequestID (bs_info st)) now (ri_OriginModelName (bs_info st)) content reason)"

text \<open>A client that leaves is no error here; \<open>final\<close> is the usage of a stream that came through.\<close>

definition bot_answer :: "conv_env \<Rightarrow> (UsageWithDetails \<Rightarrow> Usage) \<Rightarrow> string \<Rightarrow> upstream \<Rightarrow> bot_stream \<times> bot_end \<Rightarrow> answer" where
  "bot_answer E final msg r x =
     (let (st, fin) = x; sent = stream_of (map (out_event E) (bs_out st)); u = Some (usage_of (bs_usage st) False) in
      case fin of BotLeft \<Rightarrow> sent u None []
      | BotFailed e \<Rightarrow> sent u (Some e) []
      | BotDone \<Rightarrow> sent (Some (final (bs_usage st))) None []
      | BotThrough \<Rightarrow> (case up_Scan r of None \<Rightarrow> sent (Some (final (bs_usage st))) None [] | Some e \<Rightarrow> sent u (Some (ErrWrap e msg)) []))"

section \<open>Coze\<close>

definition coze_GetRequestURL :: "RelayInfo \<Rightarrow> go_err + string" where
  "coze_GetRequestURL info = by_mode info [] (Inr ''/v3/chat'')"

fun extractLastUser :: "Message list \<Rightarrow> string" where
  "extractLastUser [] = []"
| "extractLastUser (m # ms) =
     (if om_Role m \<noteq> ''user'' then extractLastUser ms
      else case om_Content m of JStr s \<Rightarrow> s
        | JArr ps \<Rightarrow> (case List.map_filter text_of_part ps of t # ts \<Rightarrow> t | [] \<Rightarrow> extractLastUser ms)
        | _ \<Rightarrow> extractLastUser ms)"

definition extractLastUserMessage :: "Message list \<Rightarrow> string" where
  "extractLastUserMessage ms = extractLastUser (rev ms)"

text \<open>Nothing sets the tenant, which is 0.  The stream that is asked for is read again and switched on.\<close>

definition convertOpenAIToCoze :: "conv_env \<Rightarrow> RelayInfo \<Rightarrow> json \<Rightarrow> go_err + json" where
  "convertOpenAIToCoze E info body = (case dec_request E body of
     None \<Rightarrow> Inl (cannot_unmarshal ''parse OpenAI request failed'')
   | Some req \<Rightarrow>
       let query = extractLastUserMessage (gr_Messages req);
           mapped = cm_IsModelMapped (ri_ChannelMeta info) \<and> cm_UpstreamModelName (ri_ChannelMeta info) \<noteq> [];
           user = (if gr_User req \<noteq> [] then gr_User req else ''tenant_0_user_'' @ show_int (ri_UserID info)) in
       if query = [] then Inl (ErrNew ''no user message found in request'')
       else Inr (JObj [(''bot_id'', JStr (if mapped then cm_UpstreamModelName (ri_ChannelMeta info) else gr_Model req)), (''user'', JStr user),
         (''query'', JStr query), (''stream'', JBool True)]))"

definition coze_ConvertRequest :: "conv_env \<Rightarrow> RelayInfo \<Rightarrow> json \<Rightarrow> go_err + reader" where
  "coze_ConvertRequest E info body = as_bytes (sum_bind (openai_body E info body) (\<lambda>j.
     map_sum (\<lambda>e. ErrWrap e ''convert to Coze request failed'') (\<lambda>x. x) (convertOpenAIToCoze E info j)))"

definition dec_CozeMessage :: "json \<Rightarrow> (string \<times> string) option" where
  "dec_CozeMessage j = do { m \<leftarrow> dec_object j; t \<leftarrow> dec_field ''type'' dec_string [] m; c \<leftarrow> dec_field ''content'' dec_string [] m;
     if fields_ok (strings [''role'', ''content_type'']) m then Some (t, c) else None }"

definition event_name :: "string \<Rightarrow> string" where
  "event_name line = TrimSpace (TrimPrefix line ''event:'')"

definition data_of :: "string \<Rightarrow> string" where
  "data_of line = (case ExtractSSEData line of None \<Rightarrow> [] | Some d \<Rightarrow> d)"

text \<open>An event whose message is not forwarded keeps its name for the data that follows.\<close>

fun coze_loop :: "conv_env \<Rightarrow> int \<Rightarrow> (bool \<times> int \<times> string) list \<Rightarrow> bot_stream \<Rightarrow> bot_stream \<times> bot_end" where
  "coze_loop E created [] st = (st, BotThrough)"
| "coze_loop E created ((gone, now, line) # lines) st =
     (if gone then (bs_gone st, BotLeft)
      else if HasPrefix line ''event:'' then coze_loop E created lines (st\<lparr>bs_event := event_name line\<rparr>)
      else if \<not> HasPrefix line ''data:'' then coze_loop E created lines st
      else let dat = data_of line; ev = bs_event st; st1 = st\<lparr>bs_info := SetFirstResponseTime now (bs_info st)\<rparr> in
        if ev = ''conversation.message.delta'' then (case Option.bind (ce_parse E dat) dec_CozeMessage of
            None \<Rightarrow> coze_loop E created lines st1
          | Some (t, c) \<Rightarrow> if t \<noteq> ''answer'' then coze_loop E created lines st1
              else (case bs_put (bs_chunk ''chatcmpl-coze-'' created c None st1) st1 of
                (st2, True) \<Rightarrow> coze_loop E created lines (st2\<lparr>bs_event := []\<rparr>)
              | (st2, False) \<Rightarrow> (bs_gone st2, BotLeft)))
        else if ev = ''conversation.message.completed''
          then coze_loop E created lines ((fst (bs_put (bs_chunk ''chatcmpl-coze-'' created [] (Some ''stop'') st1) st1))\<lparr>bs_event := []\<rparr>)
        else if ev = ''done'' then (bs_end StreamEndReasonDone None (fst (bs_put DoneMark st1)), BotDone)
        else if ev = ''error'' then (bs_end StreamEndReasonError (Some (ErrNewf ''coze error: %s'' [AStr dat])) st1,
          BotFailed (ErrNewf ''coze stream error: %s'' [AStr dat]))
        else coze_loop E created lines (st1\<lparr>bs_event := []\<rparr>))"

definition coze_handleStreamResponse :: "conv_env \<Rightarrow> RelayInfo \<Rightarrow> upstream \<Rightarrow> answer" where
  "coze_handleStreamResponse E info r = bot_answer E (\<lambda>u. NormalizeUsage (Some zero_Usage)) ''read coze stream failed'' r
     (coze_loop E (up_Now r) (up_Lines r) (new_bot (up_Writes r) info))"

text \<open>A whole answer is collected from the same events.\<close>

fun coze_collect :: "conv_env \<Rightarrow> (bool \<times> int \<times> string) list \<Rightarrow> string \<Rightarrow> string \<Rightarrow> go_err + string" where
  "coze_collect E [] ev full = Inr full"
| "coze_collect E ((gone, now, line) # lines) ev full =
     (if gone then Inl (ErrNew ''context cancelled while reading coze response'')
      else if HasPrefix line ''event:'' then coze_collect E lines (event_name line) full
      else if \<not> HasPrefix line ''data:'' then coze_collect E lines ev full
      else let dat = data_of line; msg = Option.bind (ce_parse E dat) dec_CozeMessage in
        if ev = ''conversation.message.delta'' then (case msg of None \<Rightarrow> coze_collect E lines ev full
          | Some (t, c) \<Rightarrow> coze_collect E lines [] (if t = ''answer'' then full @ c else full))
        else if ev = ''conversation.message.completed'' then coze_collect E lines [] (case msg of None \<Rightarrow> full
          | Some (t, c) \<Rightarrow> if t = ''answer'' then c else full)
        else if ev = ''error'' then Inl (ErrNewf ''coze error: %s'' [AStr dat])
        else coze_collect E lines [] full)"

definition coze_handleNonStreamResponse :: "conv_env \<Rightarrow> RelayInfo \<Rightarrow> upstream \<Rightarrow> answer" where
  "coze_handleNonStreamResponse E info r = (case coze_collect E (up_Lines r) [] [] of
     Inl e \<Rightarrow> no_writes None (Some e)
   | Inr full \<Rightarrow> (case up_Scan r of
       Some e \<Rightarrow> no_writes None (Some (ErrWrap e ''read coze response failed''))
     | None \<Rightarrow> answer_of E [Made 200 (plain_chat_json ''chatcmpl-coze-'' (up_Now r) info full zero_usage)]
         (Some (NormalizeUsage (Some zero_Usage))) None))"

definition bot_DoResponse :: "(conv_env \<Rightarrow> RelayInfo \<Rightarrow> upstream \<Rightarrow> answer) \<Rightarrow> (conv_env \<Rightarrow> RelayInfo \<Rightarrow> upstream \<Rightarrow> answer) \<Rightarrow>
    conv_env \<Rightarrow> RelayInfo \<Rightarrow> upstream \<Rightarrow> answer" where
  "bot_DoResponse streamed whole E info r =
     (if up_StatusCode r \<noteq> 200 then no_writes None (Some (NewUpstreamError (up_StatusCode r) (body_text r) None))
      else if ri_IsStream info then streamed E info r else whole E info r)"

definition coze_DoResponse :: "conv_env \<Rightarrow> RelayInfo \<Rightarrow> upstream \<Rightarrow> answer" where
  "coze_DoResponse = bot_DoResponse coze_handleStreamResponse coze_handleNonStreamResponse"

section \<open>Dify\<close>

definition dify_GetRequestURL :: "RelayInfo \<Rightarrow> go_err + string" where
  "dify_GetRequestURL info = by_mode info [(RelayModeChatCompletions, ''/v1/chat-messages'')]
     (unsupported ''unsupported relay mode for Dify: %d'' info)"

text \<open>\<^verbatim>\<open>strings.Title\<close>: a letter after anything but letters, digits and underscores is made upper case.\<close>

definition word_char :: "char \<Rightarrow> bool" where
  "word_char c \<longleftrightarrow> (CHR ''a'' \<le> c \<and> c \<le> CHR ''z'') \<or> (CHR ''A'' \<le> c \<and> c \<le> CHR ''Z'') \<or> (CHR ''0'' \<le> c \<and> c \<le> CHR ''9'') \<or>
     c = CHR ''_'' \<or> 128 \<le> (of_char c :: nat)"

fun Title :: "bool \<Rightarrow> string \<Rightarrow> string" where
  "Title inside [] = []"
| "Title inside (c # cs) = (if inside then c else ToUpperC c) # Title (word_char c) cs"

definition extractTextContent :: "json \<Rightarrow> string" where
  "extractTextContent c = (case c of JStr s \<Rightarrow> s | JArr ps \<Rightarrow> Join (List.map_filter text_of_part ps) '' '' | _ \<Rightarrow> [])"

definition flattenMessages :: "Message list \<Rightarrow> string" where
  "flattenMessages ms = Join (List.map_filter (\<lambda>m. let t = extractTextContent (om_Content m) in
     if t = [] then None else Some (Title False (om_Role m) @ '': '' @ t)) ms) ''\<newline>''"

definition convertOpenAIToDify :: "conv_env \<Rightarrow> RelayInfo \<Rightarrow> json \<Rightarrow> go_err + json" where
  "convertOpenAIToDify E info body = (case dec_request E body of
     None \<Rightarrow> Inl (cannot_unmarshal ''parse OpenAI request failed'')
   | Some req \<Rightarrow> let query = flattenMessages (gr_Messages req) in
       if query = [] then Inl (ErrNew ''no messages found in request'')
       else Inr (JObj [(''inputs'', JObj []), (''query'', JStr query),
         (''response_mode'', JStr (if ri_IsStream info then ''streaming'' else ''blocking'')),
         (''user'', JStr (if gr_User req \<noteq> [] then gr_User req else ''relay-user''))]))"

definition dify_ConvertRequest :: "conv_env \<Rightarrow> RelayInfo \<Rightarrow> json \<Rightarrow> go_err + reader" where
  "dify_ConvertRequest E info body = as_bytes (sum_bind (openai_body E info body) (\<lambda>j.
     map_sum (\<lambda>e. ErrWrap e ''convert to Dify request failed'') (\<lambda>x. x) (convertOpenAIToDify E info j)))"

definition dec_dify_usage :: "json \<Rightarrow> UsageWithDetails option" where
  "dec_dify_usage j = do { m \<leftarrow> dec_object j;
     dec_field ''usage'' (\<lambda>j. do { o' \<leftarrow> dec_object j; t \<leftarrow> dec_field ''total_tokens'' dec_int 0 o';
       p \<leftarrow> dec_field ''prompt_tokens'' dec_int 0 o'; c \<leftarrow> dec_field ''completion_tokens'' dec_int 0 o';
       Some (zero_usage\<lparr>uw_PromptTokens := p, uw_CompletionTokens := c, uw_TotalTokens := t\<rparr>) }) zero_usage m }"

text \<open>The event (none in a whole answer), the text, the usage.\<close>

definition dec_dify :: "string list \<Rightarrow> json \<Rightarrow> (string \<times> string \<times> UsageWithDetails) option" where
  "dec_dify ks j = do { m \<leftarrow> dec_object j; a \<leftarrow> dec_field ''answer'' dec_string [] m; u \<leftarrow> dec_field ''metadata'' dec_dify_usage zero_usage m;
     if fields_ok (strings ([''conversation_id'', ''message_id''] @ ks)) m then Some (str_or ''event'' m, a, u) else None }"

definition dify_handleNonStreamResponse :: "conv_env \<Rightarrow> RelayInfo \<Rightarrow> upstream \<Rightarrow> answer" where
  "dify_handleNonStreamResponse E info r = (case up_Body r of
     Inl e \<Rightarrow> no_writes None (Some (ErrWrap e ''read Dify response body failed''))
   | Inr body \<Rightarrow> (case Option.bind (ce_parse E body) (dec_dify []) of
       None \<Rightarrow> no_writes None (Some (cannot_unmarshal ''parse Dify response failed''))
     | Some (ev, a, u) \<Rightarrow>
         let u1 = (if uw_TotalTokens u = 0 then u\<lparr>uw_CompletionTokens := estimateTokens a, uw_TotalTokens := estimateTokens a\<rparr> else u) in
         answer_of E [Made 200 (plain_chat_json ''chatcmpl-dify-'' (up_Now r) info a u1)] (Some (usage_of u1 False)) None))"

fun dify_loop :: "conv_env \<Rightarrow> int \<Rightarrow> (bool \<times> int \<times> string) list \<Rightarrow> bot_stream \<Rightarrow> bot_stream \<times> bot_end" where
  "dify_loop E created [] st = (st, BotThrough)"
| "dify_loop E created ((gone, now, line) # lines) st =
     (if gone then (bs_gone st, BotLeft)
      else if \<not> HasPrefix line ''data:'' \<or> data_of line = [] then dify_loop E created lines st
      else let st1 = st\<lparr>bs_info := SetFirstResponseTime now (bs_info st)\<rparr> in
        case Option.bind (ce_parse E (data_of line)) (dec_dify [''event'']) of None \<Rightarrow> dify_loop E created lines st1
        | Some (ev, a, u) \<Rightarrow>
            if ev = ''message'' then (if a = [] then dify_loop E created lines st1
              else case bs_put (bs_chunk ''chatcmpl-dify-'' created a None st1) st1 of
                (st2, True) \<Rightarrow> dify_loop E created lines st2 | (st2, False) \<Rightarrow> (bs_gone st2, BotLeft))
            else if ev = ''message_end'' then
              (bs_end StreamEndReasonDone None (fst (bs_put DoneMark (fst (bs_put (bs_chunk ''chatcmpl-dify-'' created [] (Some ''stop'') st1)
                (st1\<lparr>bs_usage := u\<rparr>))))), BotDone)
            else if ev = ''error'' then (bs_end StreamEndReasonError (Some (ErrNewf ''dify error: %s'' [AStr (data_of line)])) st1,
              BotFailed (ErrNewf ''dify stream error: %s'' [AStr (data_of line)]))
            else dify_loop E created lines st1)"

definition dify_handleStreamResponse :: "conv_env \<Rightarrow> RelayInfo \<Rightarrow> upstream \<Rightarrow> answer" where
  "dify_handleStreamResponse E info r = bot_answer E (\<lambda>u. usage_of u False) ''read dify stream failed'' r
     (dify_loop E (up_Now r) (up_Lines r) (new_bot (up_Writes r) info))"

definition dify_DoResponse :: "conv_env \<Rightarrow> RelayInfo \<Rightarrow> upstream \<Rightarrow> answer" where
  "dify_DoResponse = bot_DoResponse dify_handleStreamResponse dify_handleNonStreamResponse"

end
