(* ===== verification/Providers.thy ===== *)
theory Providers
  imports Adaptors Dialects
begin

text \<open>
  All adaptors behind the interface the relay calls (\<^verbatim>\<open>relay/channel/*/adaptor.go\<close>):
  what each converts, sends and makes of the answer, and the implementation the registry hands out for a
  kind.  The libraries, the transport, the clock and the access token of a service account are given
  in one record.
\<close>

section \<open>What the adaptors need\<close>

text \<open>\<open>pv_now\<close> is the clock when the headers are set and when a request is signed; \<open>pv_token\<close> is
  \<open>getVertexAccessToken\<close> at the cache of the moment.\<close>

record 'd providers =
  pv_conv :: conv_env
  pv_ov :: "'d ov_lib"
  pv_http :: http_lib
  pv_minutes :: "json \<Rightarrow> int option"
  pv_tc3 :: tc3_lib
  pv_now :: "int \<times> int"
  pv_token :: "string \<Rightarrow> go_err + string"

section \<open>The adaptors\<close>

text \<open>A request that hangs is an error of the transport here, as in \<open>or_hang\<close>.\<close>

definition made_adaptor :: "(RelayInfo \<Rightarrow> json \<Rightarrow> go_err + reader) \<Rightarrow> (RelayInfo \<Rightarrow> payload \<Rightarrow> (go_err + upstream) option) \<Rightarrow>
    (RelayInfo \<Rightarrow> upstream \<Rightarrow> answer) \<Rightarrow> upstream adaptor" where
  "made_adaptor convert request respond =
     \<lparr>ad_ConvertRequest = convert, ad_DoRequest = (\<lambda>info body. or_hang (request info body)), ad_DoResponse = respond\<rparr>"

text \<open>A request with a timeout and headers of its own, and one with the usual headers for a key.\<close>

definition headed_request :: "'d providers \<Rightarrow> int \<Rightarrow> (RelayInfo \<Rightarrow> go_err + string) \<Rightarrow> (RelayInfo \<Rightarrow> http_header) \<Rightarrow> RelayInfo \<Rightarrow> payload
    \<Rightarrow> (go_err + upstream) option" where
  "headed_request P seconds url header info body = plain_DoRequest (pv_ov P) (pv_http P) seconds (url info) (header info) info body"

definition bearer_request :: "'d providers \<Rightarrow> int \<Rightarrow> (RelayInfo \<Rightarrow> go_err + string) \<Rightarrow> (RelayInfo \<Rightarrow> string) \<Rightarrow> RelayInfo \<Rightarrow> payload
    \<Rightarrow> (go_err + upstream) option" where
  "bearer_request P seconds url key = headed_request P seconds url (\<lambda>info. bearer_json (key info))"

definition claude_adaptor :: "'d providers \<Rightarrow> upstream adaptor" where
  "claude_adaptor P = made_adaptor (claude_ConvertRequest (pv_conv P))
     (claude_DoRequest (pv_ov P) (pv_http P))
     (claude_DoResponse (pv_conv P))"

definition gemini_adaptor :: "'d providers \<Rightarrow> upstream adaptor" where
  "gemini_adaptor P = made_adaptor (gemini_ConvertRequest (pv_conv P))
     (gemini_DoRequest (pv_ov P) (pv_http P))
     (gemini_DoResponse (pv_conv P))"

definition ali_adaptor :: "'d providers \<Rightarrow> upstream adaptor" where
  "ali_adaptor P = made_adaptor (ali_ConvertRequest (pv_conv P))
     (headed_request P 60 ali_GetRequestURL ali_SetupRequestHeader)
     (claude_or_openai (pv_conv P) (pv_minutes P))"

definition deepseek_adaptor :: "'d providers \<Rightarrow> upstream adaptor" where
  "deepseek_adaptor P = made_adaptor (deepseek_ConvertRequest (pv_conv P))
     (bearer_request P 300 deepseek_GetRequestURL channel_key)
     (claude_or_openai (pv_conv P) (pv_minutes P))"

definition zhipu_adaptor :: "'d providers \<Rightarrow> upstream adaptor" where
  "zhipu_adaptor P = made_adaptor (zhipu_ConvertRequest (pv_conv P))
     (zhipu_DoRequest (pv_ov P) (pv_http P))
     (claude_or_openai (pv_conv P) (pv_minutes P))"

definition moonshot_adaptor :: "'d providers \<Rightarrow> upstream adaptor" where
  "moonshot_adaptor P = made_adaptor (anthropic_ConvertRequest (pv_conv P))
     (bearer_request P 60 moonshot_GetRequestURL channel_key)
     (claude_or_openai (pv_conv P) (pv_minutes P))"

definition mistral_adaptor :: "'d providers \<Rightarrow> upstream adaptor" where
  "mistral_adaptor P = made_adaptor (renaming_ConvertRequest (pv_conv P))
     (bearer_request P 60 mistral_GetRequestURL channel_key)
     (openai_DoResponse (pv_conv P) (pv_minutes P))"

definition xai_adaptor :: "'d providers \<Rightarrow> upstream adaptor" where
  "xai_adaptor P = made_adaptor (xai_ConvertRequest (pv_conv P))
     (bearer_request P 60 xai_GetRequestURL channel_key)
     (openai_DoResponse (pv_conv P) (pv_minutes P))"

definition siliconflow_adaptor :: "'d providers \<Rightarrow> upstream adaptor" where
  "siliconflow_adaptor P = made_adaptor (siliconflow_ConvertRequest (pv_conv P))
     (bearer_request P 60 siliconflow_GetRequestURL channel_key)
     (openai_DoResponse (pv_conv P) (pv_minutes P))"

definition cloudflare_adaptor :: "'d providers \<Rightarrow> upstream adaptor" where
  "cloudflare_adaptor P = made_adaptor (cloudflare_ConvertRequest (pv_conv P))
     (bearer_request P 60 cloudflare_GetRequestURL (\<lambda>info. fst (cloudflare_token info)))
     (openai_DoResponse (pv_conv P) (pv_minutes P))"

definition submodel_adaptor :: "'d providers \<Rightarrow> upstream adaptor" where
  "submodel_adaptor P = made_adaptor (submodel_ConvertRequest (pv_conv P))
     (bearer_request P 60 submodel_GetRequestURL channel_key)
     (openai_DoResponse (pv_conv P) (pv_minutes P))"

definition baidu_adaptor :: "'d providers \<Rightarrow> upstream adaptor" where
  "baidu_adaptor P = made_adaptor (baidu_ConvertRequest (pv_conv P))
     (headed_request P 60 baidu_GetRequestURL baidu_SetupRequestHeader)
     (openai_DoResponse (pv_conv P) (pv_minutes P))"

definition volcengine_adaptor :: "'d providers \<Rightarrow> upstream adaptor" where
  "volcengine_adaptor P = made_adaptor (anthropic_ConvertRequest (pv_conv P))
     (bearer_request P 60 volcengine_GetRequestURL channel_key)
     (claude_or_openai (pv_conv P) (pv_minutes P))"

definition minimax_adaptor :: "'d providers \<Rightarrow> upstream adaptor" where
  "minimax_adaptor P = made_adaptor (minimax_ConvertRequest (pv_conv P))
     (bearer_request P 60 minimax_GetRequestURL channel_key)
     (minimax_DoResponse (pv_conv P) (pv_minutes P))"

definition ollama_adaptor :: "'d providers \<Rightarrow> upstream adaptor" where
  "ollama_adaptor P = made_adaptor (ollama_ConvertRequest (pv_conv P))
     (ollama_DoRequest (pv_ov P) (pv_http P))
     (ollama_DoResponse (pv_conv P))"

definition vertex_adaptor :: "'d providers \<Rightarrow> upstream adaptor" where
  "vertex_adaptor P = made_adaptor (vertex_ConvertRequest (pv_conv P))
     (vertex_DoRequest (pv_conv P) (pv_token P) (pv_ov P) (pv_http P))
     (vertex_DoResponse (pv_conv P))"

definition tencent_adaptor :: "'d providers \<Rightarrow> upstream adaptor" where
  "tencent_adaptor P = made_adaptor (renaming_ConvertRequest (pv_conv P))
     (tencent_DoRequest (pv_conv P) (pv_tc3 P) (pv_ov P) (pv_http P) (pv_now P))
     (openai_DoResponse (pv_conv P) (pv_minutes P))"

definition xunfei_adaptor :: "'d providers \<Rightarrow> upstream adaptor" where
  "xunfei_adaptor P = made_adaptor (renaming_ConvertRequest (pv_conv P))
     (bearer_request P 60 xunfei_GetRequestURL channel_key)
     (openai_DoResponse (pv_conv P) (pv_minutes P))"

definition coze_adaptor :: "'d providers \<Rightarrow> upstream adaptor" where
  "coze_adaptor P = made_adaptor (coze_ConvertRequest (pv_conv P))
     (bearer_request P 120 coze_GetRequestURL channel_key)
     (coze_DoResponse (pv_conv P))"

definition dify_adaptor :: "'d providers \<Rightarrow> upstream adaptor" where
  "dify_adaptor P = made_adaptor (dify_ConvertRequest (pv_conv P))
     (bearer_request P 120 dify_GetRequestURL channel_key)
     (dify_DoResponse (pv_conv P))"

definition jimeng_adaptor :: "'d providers \<Rightarrow> upstream adaptor" where
  "jimeng_adaptor P = made_adaptor (jimeng_ConvertRequest (pv_conv P))
     (bearer_request P 120 jimeng_GetRequestURL jimeng_key)
     (openai_DoResponse (pv_conv P) (pv_minutes P))"

definition codex_adaptor :: "'d providers \<Rightarrow> upstream adaptor" where
  "codex_adaptor P = made_adaptor (codex_ConvertRequest (pv_conv P))
     (headed_request P 60 codex_GetRequestURL (codex_SetupRequestHeader (pv_conv P)))
     (openai_DoResponse (pv_conv P) (pv_minutes P))"

definition aws_adaptor :: "'d providers \<Rightarrow> upstream adaptor" where
  "aws_adaptor P = made_adaptor (renaming_ConvertRequest (pv_conv P))
     (bearer_request P 60 aws_GetRequestURL aws_key)
     (openai_DoResponse (pv_conv P) (pv_minutes P))"

section \<open>The interface\<close>

text \<open>The implementation the registry makes for a kind.\<close>

fun adaptor_impl :: "'d providers \<Rightarrow> adaptor_kind \<Rightarrow> upstream adaptor" where
  "adaptor_impl P AdOpenAI = openai_adaptor (pv_conv P) (pv_ov P) (pv_http P) (pv_minutes P)"
| "adaptor_impl P AdClaude = claude_adaptor P"
| "adaptor_impl P AdGemini = gemini_adaptor P"
| "adaptor_impl P AdAli = ali_adaptor P"
| "adaptor_impl P AdDeepSeek = deepseek_adaptor P"
| "adaptor_impl P AdZhipu = zhipu_adaptor P"
| "adaptor_impl P AdMoonshot = moonshot_adaptor P"
| "adaptor_impl P AdMistral = mistral_adaptor P"
| "adaptor_impl P AdXAI = xai_adaptor P"
| "adaptor_impl P AdSiliconFlow = siliconflow_adaptor P"
| "adaptor_impl P AdCloudflare = cloudflare_adaptor P"
| "adaptor_impl P AdSubmodel = submodel_adaptor P"
| "adaptor_impl P AdBaiduV2 = baidu_adaptor P"
| "adaptor_impl P AdVolcengine = volcengine_adaptor P"
| "adaptor_impl P AdMiniMax = minimax_adaptor P"
| "adaptor_impl P AdOllama = ollama_adaptor P"
| "adaptor_impl P AdVertex = vertex_adaptor P"
| "adaptor_impl P AdTencent = tencent_adaptor P"
| "adaptor_impl P AdXunfei = xunfei_adaptor P"
| "adaptor_impl P AdCoze = coze_adaptor P"
| "adaptor_impl P AdDify = dify_adaptor P"
| "adaptor_impl P AdJimeng = jimeng_adaptor P"
| "adaptor_impl P AdCodex = codex_adaptor P"
| "adaptor_impl P AdAWS = aws_adaptor P"

text \<open>Where each adaptor sends a request.\<close>

fun provider_GetRequestURL :: "'d providers \<Rightarrow> adaptor_kind \<Rightarrow> RelayInfo \<Rightarrow> go_err + string" where
  "provider_GetRequestURL P AdOpenAI info = GetRequestURL info"
| "provider_GetRequestURL P AdClaude info = claude_GetRequestURL info"
| "provider_GetRequestURL P AdGemini info = gemini_GetRequestURL info"
| "provider_GetRequestURL P AdAli info = ali_GetRequestURL info"
| "provider_GetRequestURL P AdDeepSeek info = deepseek_GetRequestURL info"
| "provider_GetRequestURL P AdZhipu info = zhipu_GetRequestURL info"
| "provider_GetRequestURL P AdMoonshot info = moonshot_GetRequestURL info"
| "provider_GetRequestURL P AdMistral info = mistral_GetRequestURL info"
| "provider_GetRequestURL P AdXAI info = xai_GetRequestURL info"
| "provider_GetRequestURL P AdSiliconFlow info = siliconflow_GetRequestURL info"
| "provider_GetRequestURL P AdCloudflare info = cloudflare_GetRequestURL info"
| "provider_GetRequestURL P AdSubmodel info = submodel_GetRequestURL info"
| "provider_GetRequestURL P AdBaiduV2 info = baidu_GetRequestURL info"
| "provider_GetRequestURL P AdVolcengine info = volcengine_GetRequestURL info"
| "provider_GetRequestURL P AdMiniMax info = minimax_GetRequestURL info"
| "provider_GetRequestURL P AdOllama info = ollama_GetRequestURL info"
| "provider_GetRequestURL P AdVertex info = vertex_GetRequestURL (pv_conv P) info"
| "provider_GetRequestURL P AdTencent info = tencent_GetRequestURL info"
| "provider_GetRequestURL P AdXunfei info = xunfei_GetRequestURL info"
| "provider_GetRequestURL P AdCoze info = coze_GetRequestURL info"
| "provider_GetRequestURL P AdDify info = dify_GetRequestURL info"
| "provider_GetRequestURL P AdJimeng info = jimeng_GetRequestURL info"
| "provider_GetRequestURL P AdCodex info = codex_GetRequestURL info"
| "provider_GetRequestURL P AdAWS info = aws_GetRequestURL info"

text \<open>The environment of the relay with these adaptors.\<close>

definition with_providers :: "'d providers \<Rightarrow> upstream relay_env \<Rightarrow> upstream relay_env" where
  "with_providers P R = R\<lparr>en_impl := adaptor_impl P\<rparr>"

end
