(* ===== verification/Anonymity.thy ===== *)
theory Anonymity
  imports Providers
begin

text \<open>
  What an adaptor converts depends on the caller in one place only: Coze's body names the user.  A request whose user,
  key, id, path, clock and attempt are replaced is converted to the same body by every other adaptor.
\<close>

definition anonymous :: "int \<Rightarrow> RelayInfo \<Rightarrow> RelayInfo" where
  "anonymous u i = i\<lparr>ri_UserID := u, ri_ApiKeyID := 0, ri_RequestID := [], ri_RequestURLPath := [], ri_StartTime := 0, ri_RetryIndex := 0\<rparr>"

lemma anonymous_fields [simp]:
  "ri_UserID (anonymous u i) = u" "ri_RelayMode (anonymous u i) = ri_RelayMode i" "ri_IsStream (anonymous u i) = ri_IsStream i"
  "ri_OriginModelName (anonymous u i) = ri_OriginModelName i" "ri_ChannelMeta (anonymous u i) = ri_ChannelMeta i"
  "ri_InboundFormat (anonymous u i) = ri_InboundFormat i" "ri_ClientFormat (anonymous u i) = ri_ClientFormat i"
  "ri_UseResponsesAPI (anonymous u i) = ri_UseResponsesAPI i" "ri_ThinkingEnabled (anonymous u i) = ri_ThinkingEnabled i"
  "ri_ThinkingDisabled (anonymous u i) = ri_ThinkingDisabled i" "ri_ReasoningEffort (anonymous u i) = ri_ReasoningEffort i"
  "ri_BaseModelName (anonymous u i) = ri_BaseModelName i" "ri_RequestHeaders (anonymous u i) = ri_RequestHeaders i"
  by (simp_all add: anonymous_def)

text \<open>Layer by layer, each function with those it calls below it: whatever is computed from the converted requests, branches included.\<close>

lemmas case_congs = sum.case_cong option.case_cong json.case_cong prod.case_cong if_cong

lemma anonymous_parts [simp]:
  "c2o_request E (anonymous u i) = c2o_request E i"
  "o2g_config (anonymous u i) = o2g_config i"
  "g2o_request E (anonymous u i) = g2o_request E i"
  "o2c_request E (anonymous u i) = o2c_request E i"
  "r2c_body (anonymous u i) = r2c_body i"
  "replaceModelIfNeeded E (anonymous u i) = replaceModelIfNeeded E i"
  "map_model E n (anonymous u i) = map_model E n i"
  "baidu_ConvertRequest E (anonymous u i) = baidu_ConvertRequest E i"
  "codex_only (anonymous u i) = codex_only i"
  "upstream_model (anonymous u i) = upstream_model i"
  "deepseek_injectReasoningEffort (anonymous u i) = deepseek_injectReasoningEffort i"
  "convertOpenAIToDify E (anonymous u i) = convertOpenAIToDify E i"
  "injectStreamOptions (anonymous u i) = injectStreamOptions i"
  "imagen (anonymous u i) = imagen i"
  "injectGeminiThinking E (anonymous u i) = injectGeminiThinking E i"
  "minimax_convertImageRequest (anonymous u i) = minimax_convertImageRequest i"
  "vertex_claude (anonymous u i) = vertex_claude i"
  "xai_fields (anonymous u i) = xai_fields i"
  "zhipu_injectThinkingParams (anonymous u i) = zhipu_injectThinkingParams i"
  by (simp_all add: fun_eq_iff c2o_request_def o2g_config_def g2o_request_def o2c_request_def r2c_body_def replaceModelIfNeeded_def map_model_def
      baidu_ConvertRequest_def codex_only_def upstream_model_def deepseek_injectReasoningEffort_def convertOpenAIToDify_def
      injectStreamOptions_def imagen_def injectGeminiThinking_def minimax_convertImageRequest_def vertex_claude_def
      xai_fields_def zhipu_injectThinkingParams_def
      cong: case_congs)

lemma anonymous_conversions [simp]:
  "ConvertClaudeToOpenAI E r (anonymous u i) = ConvertClaudeToOpenAI E r i"
  "o2g_request E (anonymous u i) = o2g_request E i"
  "ConvertGeminiToOpenAI E r (anonymous u i) = ConvertGeminiToOpenAI E r i"
  "ConvertOpenAIToClaude E r (anonymous u i) = ConvertOpenAIToClaude E r i"
  "ConvertResponsesToOpenAI r (anonymous u i) = ConvertResponsesToOpenAI r i"
  "convertClaudeRequest E (anonymous u i) = convertClaudeRequest E i"
  "convertChatRequest E (anonymous u i) = convertChatRequest E i"
  "deepseek_injectThinkingParams (anonymous u i) = deepseek_injectThinkingParams i"
  "convertCompletionsRequest (anonymous u i) = convertCompletionsRequest i"
  "convertEmbeddingRequest (anonymous u i) = convertEmbeddingRequest i"
  by (simp_all add: fun_eq_iff ConvertClaudeToOpenAI_def o2g_request_def ConvertGeminiToOpenAI_def ConvertOpenAIToClaude_def
      ConvertResponsesToOpenAI_def convertClaudeRequest_def convertChatRequest_def deepseek_injectThinkingParams_def
      convertCompletionsRequest_def convertEmbeddingRequest_def
      cong: case_congs)

lemma anonymous_bodies [simp]:
  "ConvertOpenAIToGemini E r (anonymous u i) = ConvertOpenAIToGemini E r i"
  "ConvertGeminiToClaude E r (anonymous u i) = ConvertGeminiToClaude E r i"
  "ConvertResponsesToClaude E r (anonymous u i) = ConvertResponsesToClaude E r i"
  "ConvertToOpenAI E r (anonymous u i) = ConvertToOpenAI E r i"
  "convertClaudeRequestForDeepSeek E (anonymous u i) = convertClaudeRequestForDeepSeek E i"
  "to_openai E (anonymous u i) = to_openai E i"
  by (simp_all add: fun_eq_iff ConvertOpenAIToGemini_def ConvertGeminiToClaude_def ConvertResponsesToClaude_def ConvertToOpenAI_def
      convertClaudeRequestForDeepSeek_def to_openai_def
      cong: case_congs)

lemma anonymous_requests [simp]:
  "ConvertClaudeToGemini E r (anonymous u i) = ConvertClaudeToGemini E r i"
  "ConvertResponsesToGemini E r (anonymous u i) = ConvertResponsesToGemini E r i"
  "openai_body E (anonymous u i) = openai_body E i"
  "to_claude E (anonymous u i) = to_claude E i"
  "openai_ConvertRequest E (anonymous u i) = openai_ConvertRequest E i"
  by (simp_all add: fun_eq_iff ConvertClaudeToGemini_def ConvertResponsesToGemini_def openai_body_def to_claude_def openai_ConvertRequest_def
      cong: case_congs)

lemma anonymous_adaptors [simp]:
  "ali_ConvertRequest E (anonymous u i) = ali_ConvertRequest E i"
  "renaming_ConvertRequest E (anonymous u i) = renaming_ConvertRequest E i"
  "claude_ConvertRequest E (anonymous u i) = claude_ConvertRequest E i"
  "cloudflare_ConvertRequest E (anonymous u i) = cloudflare_ConvertRequest E i"
  "codex_ConvertRequest E (anonymous u i) = codex_ConvertRequest E i"
  "deepseek_ConvertRequest E (anonymous u i) = deepseek_ConvertRequest E i"
  "dify_ConvertRequest E (anonymous u i) = dify_ConvertRequest E i"
  "to_gemini E (anonymous u i) = to_gemini E i"
  "jimeng_ConvertRequest E (anonymous u i) = jimeng_ConvertRequest E i"
  "ollama_ConvertRequest E (anonymous u i) = ollama_ConvertRequest E i"
  "siliconflow_ConvertRequest E (anonymous u i) = siliconflow_ConvertRequest E i"
  "submodel_ConvertRequest E (anonymous u i) = submodel_ConvertRequest E i"
  "xai_ConvertRequest E (anonymous u i) = xai_ConvertRequest E i"
  "zhipu_ConvertRequest E (anonymous u i) = zhipu_ConvertRequest E i"
  by (simp_all add: fun_eq_iff ali_ConvertRequest_def renaming_ConvertRequest_def claude_ConvertRequest_def cloudflare_ConvertRequest_def
      codex_ConvertRequest_def deepseek_ConvertRequest_def dify_ConvertRequest_def to_gemini_def jimeng_ConvertRequest_def
      ollama_ConvertRequest_def siliconflow_ConvertRequest_def submodel_ConvertRequest_def xai_ConvertRequest_def
      zhipu_ConvertRequest_def
      cong: case_congs)

lemma anonymous_channels [simp]:
  "anthropic_ConvertRequest E (anonymous u i) = anthropic_ConvertRequest E i"
  "gemini_ConvertRequest E (anonymous u i) = gemini_ConvertRequest E i"
  by (simp_all add: fun_eq_iff anthropic_ConvertRequest_def gemini_ConvertRequest_def
      cong: case_congs)

lemma anonymous_outer [simp]:
  "minimax_ConvertRequest E (anonymous u i) = minimax_ConvertRequest E i"
  "vertex_ConvertRequest E (anonymous u i) = vertex_ConvertRequest E i"
  by (simp_all add: fun_eq_iff minimax_ConvertRequest_def vertex_ConvertRequest_def
      cong: case_congs)

text \<open>Coze is told who asks.\<close>

lemma anonymous_coze: "coze_ConvertRequest E (anonymous (ri_UserID i) i) = coze_ConvertRequest E i"
  by (simp add: coze_ConvertRequest_def convertOpenAIToCoze_def fun_eq_iff cong: case_congs)

lemma anonymous_convert:
  "k \<noteq> AdCoze \<or> u = ri_UserID i \<Longrightarrow> ad_ConvertRequest (adaptor_impl P k) (anonymous u i) = ad_ConvertRequest (adaptor_impl P k) i"
  by (cases k) (auto simp: made_adaptor_def openai_adaptor_def claude_adaptor_def gemini_adaptor_def ali_adaptor_def
    deepseek_adaptor_def zhipu_adaptor_def moonshot_adaptor_def mistral_adaptor_def xai_adaptor_def siliconflow_adaptor_def
    cloudflare_adaptor_def submodel_adaptor_def baidu_adaptor_def volcengine_adaptor_def minimax_adaptor_def
    ollama_adaptor_def vertex_adaptor_def tencent_adaptor_def xunfei_adaptor_def coze_adaptor_def dify_adaptor_def
    jimeng_adaptor_def codex_adaptor_def aws_adaptor_def anonymous_coze)

end
