(* ===== verification/AdaptorClaims.thy ===== *)
theory AdaptorClaims
  imports Anonymity OverrideClaims
begin

text \<open>
  What holds for all adaptors: what of a client's request goes upstream, under which name the model is asked
  for, and where clients of Claude end up when the relay of \<open>Handler\<close> calls them.
\<close>

section \<open>What goes upstream\<close>

text \<open>Two requests that look the same to every adaptor.\<close>

definition forwarded :: "string set" where
  "forwarded = {''Content-Type'', ''Accept'', ''X-Request-Id'', ''anthropic-beta''}"

definition same_call :: "RelayInfo \<Rightarrow> RelayInfo \<Rightarrow> bool" where
  "same_call i j \<longleftrightarrow> ri_RelayMode i = ri_RelayMode j \<and> ri_IsStream i = ri_IsStream j \<and> ri_OriginModelName i = ri_OriginModelName j \<and>
     ri_UseResponsesAPI i = ri_UseResponsesAPI j \<and> ri_ChannelMeta i = ri_ChannelMeta j \<and>
     (\<forall>h \<in> forwarded. header_Get (ri_RequestHeaders i) h = header_Get (ri_RequestHeaders j) h)"

definition no_overrides :: "RelayInfo \<Rightarrow> bool" where
  "no_overrides i \<longleftrightarrow> cs_HeaderOverride (cm_Settings (ri_ChannelMeta i)) = [] \<and> ri_RuntimeHeadersOverride i = None"

lemma no_overrides_headers: "no_overrides i \<Longrightarrow> override_headers L i h = Some h"
  by (simp add: no_overrides_def override_headers_def ApplyHeaderOverride_def)

lemma same_call_copy: "\<lbrakk>same_call i j; set ks \<subseteq> forwarded\<rbrakk> \<Longrightarrow> copy_headers ks i h = copy_headers ks j h"
  unfolding copy_headers_def by (rule fold_cong) (auto simp: same_call_def)

lemma same_call_fields:
  assumes "same_call i j"
  shows "ri_RelayMode i = ri_RelayMode j" "ri_IsStream i = ri_IsStream j" "ri_OriginModelName i = ri_OriginModelName j"
    "ri_UseResponsesAPI i = ri_UseResponsesAPI j" "ri_ChannelMeta i = ri_ChannelMeta j"
    "header_Get (ri_RequestHeaders i) ''Content-Type'' = header_Get (ri_RequestHeaders j) ''Content-Type''"
    "header_Get (ri_RequestHeaders i) ''Accept'' = header_Get (ri_RequestHeaders j) ''Accept''"
    "copy_headers [''X-Request-Id''] i = copy_headers [''X-Request-Id''] j"
    "copy_headers [''X-Request-Id'', ''anthropic-beta''] i = copy_headers [''X-Request-Id'', ''anthropic-beta''] j"
  using assms by (auto simp: same_call_def forwarded_def fun_eq_iff intro!: same_call_copy)

lemma same_call_send:
  assumes "same_call i j" "no_overrides i" "no_overrides j"
  shows "send_request L H wr n url h fx i b = send_request L H wr n url h fx j b"
  by (simp add: send_request_def request_timeout_def no_overrides_headers [OF assms(2)] no_overrides_headers [OF assms(3)]
      same_call_fields [OF assms(1)] split: sum.split option.split)

lemmas request_urls = GetRequestURL_def claude_GetRequestURL_def gemini_GetRequestURL_def ali_GetRequestURL_def deepseek_GetRequestURL_def
  zhipu_GetRequestURL_def moonshot_GetRequestURL_def mistral_GetRequestURL_def xai_GetRequestURL_def siliconflow_GetRequestURL_def
  cloudflare_GetRequestURL_def submodel_GetRequestURL_def baidu_GetRequestURL_def volcengine_GetRequestURL_def minimax_GetRequestURL_def
  ollama_GetRequestURL_def vertex_GetRequestURL_def tencent_GetRequestURL_def xunfei_GetRequestURL_def coze_GetRequestURL_def
  dify_GetRequestURL_def jimeng_GetRequestURL_def codex_GetRequestURL_def aws_GetRequestURL_def

lemmas url_parts = by_mode_def unsupported_def imagen_def vertex_claude_def vertex_project_def channel_key_def cloudflare_token_def codex_only_def

lemma same_call_urls:
  assumes "same_call i j"
  shows "GetRequestURL i = GetRequestURL j" "claude_GetRequestURL i = claude_GetRequestURL j"
    "gemini_GetRequestURL i = gemini_GetRequestURL j" "ali_GetRequestURL i = ali_GetRequestURL j"
    "deepseek_GetRequestURL i = deepseek_GetRequestURL j" "zhipu_GetRequestURL i = zhipu_GetRequestURL j"
    "moonshot_GetRequestURL i = moonshot_GetRequestURL j" "mistral_GetRequestURL i = mistral_GetRequestURL j"
    "xai_GetRequestURL i = xai_GetRequestURL j" "siliconflow_GetRequestURL i = siliconflow_GetRequestURL j"
    "cloudflare_GetRequestURL i = cloudflare_GetRequestURL j" "submodel_GetRequestURL i = submodel_GetRequestURL j"
    "baidu_GetRequestURL i = baidu_GetRequestURL j" "volcengine_GetRequestURL i = volcengine_GetRequestURL j"
    "minimax_GetRequestURL i = minimax_GetRequestURL j" "ollama_GetRequestURL i = ollama_GetRequestURL j"
    "tencent_GetRequestURL i = tencent_GetRequestURL j" "xunfei_GetRequestURL i = xunfei_GetRequestURL j"
    "coze_GetRequestURL i = coze_GetRequestURL j" "dify_GetRequestURL i = dify_GetRequestURL j"
    "jimeng_GetRequestURL i = jimeng_GetRequestURL j" "codex_GetRequestURL i = codex_GetRequestURL j"
    "aws_GetRequestURL i = aws_GetRequestURL j" "vertex_GetRequestURL E i = vertex_GetRequestURL E j"
  by (simp_all only: request_urls url_parts same_call_fields [OF assms])

lemmas request_headers = SetupRequestHeader_def claude_SetupRequestHeader_def gemini_SetupRequestHeader_def ali_SetupRequestHeader_def
  zhipu_SetupRequestHeader_def baidu_SetupRequestHeader_def ollama_SetupRequestHeader_def vertex_SetupRequestHeader_def
  tencent_SetupRequestHeader_def codex_SetupRequestHeader_def tencent_signature_def content_type_fixup_def

lemmas header_parts = transcribes_def channel_key_def cloudflare_token_def baidu_token_def codex_creds_def aws_key_def jimeng_key_def
  tencent_host_def tencent_secrets_def

lemma same_call_headers:
  assumes "same_call i j"
  shows "SetupRequestHeader i = SetupRequestHeader j" "content_type_fixup i = content_type_fixup j"
    "claude_SetupRequestHeader i = claude_SetupRequestHeader j" "gemini_SetupRequestHeader i = gemini_SetupRequestHeader j"
    "ali_SetupRequestHeader i = ali_SetupRequestHeader j" "zhipu_SetupRequestHeader i = zhipu_SetupRequestHeader j"
    "baidu_SetupRequestHeader i = baidu_SetupRequestHeader j" "ollama_SetupRequestHeader i = ollama_SetupRequestHeader j"
    "vertex_SetupRequestHeader E t i = vertex_SetupRequestHeader E t j" "tencent_SetupRequestHeader n i = tencent_SetupRequestHeader n j"
    "tencent_signature C n i = tencent_signature C n j" "codex_SetupRequestHeader E i = codex_SetupRequestHeader E j"
    "channel_key i = channel_key j" "fst (cloudflare_token i) = fst (cloudflare_token j)" "jimeng_key i = jimeng_key j" "aws_key i = aws_key j"
  by (simp_all only: fun_eq_iff request_headers header_parts same_call_fields [OF assms] simp_thms)

lemmas provider_requests = openai_DoRequest_def claude_DoRequest_def gemini_DoRequest_def zhipu_DoRequest_def ollama_DoRequest_def
  vertex_DoRequest_def tencent_DoRequest_def headed_request_def bearer_request_def plain_DoRequest_def

lemmas adaptor_defs = made_adaptor_def openai_adaptor_def claude_adaptor_def gemini_adaptor_def ali_adaptor_def
  deepseek_adaptor_def zhipu_adaptor_def moonshot_adaptor_def mistral_adaptor_def xai_adaptor_def siliconflow_adaptor_def
  cloudflare_adaptor_def submodel_adaptor_def baidu_adaptor_def volcengine_adaptor_def minimax_adaptor_def
  ollama_adaptor_def vertex_adaptor_def tencent_adaptor_def xunfei_adaptor_def coze_adaptor_def dify_adaptor_def
  jimeng_adaptor_def codex_adaptor_def aws_adaptor_def

text \<open>A channel without overrides sends the same for two requests that differ elsewhere: in the headers of the client, too,
  but for four of them.\<close>

lemma same_call_DoRequest:
  assumes "same_call i j" "no_overrides i" "no_overrides j"
  shows "ad_DoRequest (adaptor_impl P k) i body = ad_DoRequest (adaptor_impl P k) j body"
  by (cases k) (simp_all add: adaptor_defs provider_requests same_call_headers [OF assms(1)] same_call_send [OF assms] same_call_urls [OF assms(1)]
    same_call_fields(1) [OF assms(1)] split: sum.split)

text \<open>What goes upstream of a body: converted, then sent, for the \<open>n\<close>th time.\<close>

definition sent_upstream :: "'d providers \<Rightarrow> adaptor_kind \<Rightarrow> RelayInfo \<Rightarrow> int \<Rightarrow> json \<Rightarrow> go_err + upstream" where
  "sent_upstream P k info n body = (case ad_ConvertRequest (adaptor_impl P k) info body of Inl e \<Rightarrow> Inl e
     | Inr r \<Rightarrow> ad_DoRequest (adaptor_impl P k) (info\<lparr>ri_RetryIndex := n\<rparr>) (case r of BytesReader b \<Rightarrow> b | OtherReader b \<Rightarrow> Doc body))"

lemma anonymous_relay_info: "anonymous u (relay_info req stream code fmt now picked key) =
    anonymous u (relay_info req' stream code fmt now' picked key)"
  by (simp add: anonymous_def relay_info_def)

lemma same_conversion:
  assumes "k = AdCoze \<Longrightarrow> rq_UserID req = rq_UserID req'"
  shows "ad_ConvertRequest (adaptor_impl P k) (relay_info req stream code fmt now picked key) =
    ad_ConvertRequest (adaptor_impl P k) (relay_info req' stream code fmt now' picked key)"
proof -
  have user: "ri_UserID (relay_info r stream code fmt t picked key) = rq_UserID r" for r t by (simp add: relay_info_def)
  have "ad_ConvertRequest (adaptor_impl P k) (relay_info req stream code fmt now picked key) =
      ad_ConvertRequest (adaptor_impl P k) (anonymous (rq_UserID req) (relay_info req stream code fmt now picked key))"
    by (rule anonymous_convert [symmetric]) (simp add: user)
  also have "\<dots> = ad_ConvertRequest (adaptor_impl P k) (anonymous (rq_UserID req) (relay_info req' stream code fmt now' picked key))"
    by (subst anonymous_relay_info [of _ req _ _ _ _ _ _ req' now']) (rule HOL.refl)
  also have "\<dots> = ad_ConvertRequest (adaptor_impl P k) (relay_info req' stream code fmt now' picked key)"
    by (rule anonymous_convert) (use assms user in auto)
  finally show ?thesis .
qed

text \<open>Property C28.  What the relay sends upstream of a client's body depends on the body, its format, the resolved model,
  the channel with its key and the stream flag only: not on the user's key, the id or the path of his request, the time
  or the number of the attempt, and not on the user either, but for Coze, whose body names him.  Requests of embeddings,
  completions and responses in the same format go where chats go.\<close>

theorem upstream_request_is_anonymous:
  assumes "k = AdCoze \<Longrightarrow> rq_UserID req = rq_UserID req'"
  shows "sent_upstream P k (relay_info req stream code fmt now picked key) n body =
    sent_upstream P k (relay_info req' stream code fmt now' picked key) n' body"
proof -
  have "ad_DoRequest (adaptor_impl P k) ((relay_info req stream code fmt now picked key)\<lparr>ri_RetryIndex := n\<rparr>) b =
      ad_DoRequest (adaptor_impl P k) ((relay_info req' stream code fmt now' picked key)\<lparr>ri_RetryIndex := n'\<rparr>) b" for b
    by (rule same_call_DoRequest) (simp_all add: same_call_def no_overrides_def relay_info_def zero_settings_def)
  moreover have "ad_ConvertRequest (adaptor_impl P k) (relay_info req stream code fmt now picked key) body =
      ad_ConvertRequest (adaptor_impl P k) (relay_info req' stream code fmt now' picked key) body"
    by (rule fun_cong [OF same_conversion]) (rule assms)
  ultimately show ?thesis by (simp add: sent_upstream_def split: sum.split)
qed

section \<open>The name of the model\<close>

text \<open>A body asks for a model when it is no object or its field says so.\<close>

definition asks_for :: "json \<Rightarrow> json \<Rightarrow> bool" where
  "asks_for v j \<longleftrightarrow> (\<forall>m. j = JObj m \<longrightarrow> jlookup ''model'' m = Some v)"

definition reader_payload :: "reader \<Rightarrow> payload" where
  "reader_payload r = (case r of BytesReader b \<Rightarrow> b | OtherReader b \<Rightarrow> b)"

definition reader_asks :: "json \<Rightarrow> go_err + reader \<Rightarrow> bool" where
  "reader_asks v x \<longleftrightarrow> (\<forall>r j. x = Inr r \<longrightarrow> reader_payload r = Doc j \<longrightarrow> asks_for v j)"

lemma asks_for_JObj [simp]: "asks_for v (JObj m) \<longleftrightarrow> jlookup ''model'' m = Some v"
  by (simp add: asks_for_def)

lemma asks_for_in_object: "\<lbrakk>asks_for v j; \<And>m. jlookup ''model'' (f m) = jlookup ''model'' m\<rbrakk> \<Longrightarrow> asks_for v (in_object f j)"
  by (cases j) (auto simp: in_object_def)

lemma asks_for_put_missing: "\<lbrakk>asks_for v j; k \<noteq> ''model''\<rbrakk> \<Longrightarrow> asks_for v (put_missing k w j)"
  unfolding put_missing_def by (rule asks_for_in_object) auto

lemma reader_asks_bytes: "reader_asks v (as_bytes x) \<longleftrightarrow> (\<forall>j. x = Inr j \<longrightarrow> asks_for v j)"
  by (cases x) (auto simp: reader_asks_def as_bytes_def reader_payload_def)

lemma reader_asks_Inr [simp]: "reader_asks v (Inr (BytesReader (Doc j))) \<longleftrightarrow> asks_for v j"
  by (simp add: reader_asks_def reader_payload_def)

lemma sum_bind_Inr: "sum_bind x f = Inr y \<longleftrightarrow> (\<exists>a. x = Inr a \<and> f a = Inr y)"
  by (cases x) (auto simp: sum_bind_def)

text \<open>The adaptors that name a model in the body at all.  Baidu takes an ending off, which switches a search on.\<close>

fun names_model :: "adaptor_kind \<Rightarrow> RelayInfo \<Rightarrow> bool" where
  "names_model AdGemini info = False"
| "names_model AdVertex info = vertex_claude info"
| "names_model AdCoze info = False"
| "names_model AdDify info = False"
| "names_model AdOpenAI info = (ri_RelayMode info \<notin> audio_or_rerank)"
| "names_model k info = True"

fun sent_name :: "adaptor_kind \<Rightarrow> string \<Rightarrow> string" where
  "sent_name AdBaiduV2 name = TrimSuffix name ''-search''"
| "sent_name k name = name"

text \<open>A channel with a name of its own for the model, whose text is a document between quotes.\<close>

definition mapped_to :: "conv_env \<Rightarrow> string \<Rightarrow> RelayInfo \<Rightarrow> bool" where
  "mapped_to E name info \<longleftrightarrow> cm_IsModelMapped (ri_ChannelMeta info) \<and> cm_UpstreamModelName (ri_ChannelMeta info) = name \<and>
     raw_name E name = Some (JStr name)"

lemma replaceModelIfNeeded_asks: "mapped_to E n info \<Longrightarrow> asks_for (JStr n) (replaceModelIfNeeded E info j)"
  by (cases j) (auto simp: mapped_to_def replaceModelIfNeeded_def in_object_def asks_for_def)

lemma set_model_asks: "\<lbrakk>raw_name E n = Some v; set_model E msg n j = Inr j'\<rbrakk> \<Longrightarrow> asks_for v j'"
  by (cases j) (auto simp: set_model_def asks_for_def)

lemma map_model_asks: "\<lbrakk>mapped_to E n info; map_model E msg info j = Inr j'\<rbrakk> \<Longrightarrow> asks_for (JStr n) j'"
  by (auto simp: map_model_def mapped_to_def intro: set_model_asks)

lemma injectStreamOptions_asks: "asks_for v j \<Longrightarrow> asks_for v (injectStreamOptions info j)"
  by (simp add: injectStreamOptions_def asks_for_put_missing)

lemma openai_asks:
  "\<lbrakk>mapped_to E n info; ri_RelayMode info \<notin> audio_or_rerank\<rbrakk> \<Longrightarrow> reader_asks (JStr n) (openai_ConvertRequest E info body)"
  by (cases "to_openai E info body")
    (auto simp: openai_ConvertRequest_def Let_def injectReasoningEffort_def reader_asks_def [of _ "Inl _"]
      intro!: asks_for_put_missing injectStreamOptions_asks replaceModelIfNeeded_asks)

lemma claude_asks: "mapped_to E n info \<Longrightarrow> reader_asks (JStr n) (claude_ConvertRequest E info body)"
  by (auto simp: claude_ConvertRequest_def reader_asks_bytes sum_bind_Inr Let_def injectClaudeThinking_def injectClaudeEffort_def
      intro!: asks_for_put_missing asks_for_in_object replaceModelIfNeeded_asks)

lemma renaming_asks: "mapped_to E n info \<Longrightarrow> reader_asks (JStr n) (renaming_ConvertRequest E info body)"
  by (auto simp: renaming_ConvertRequest_def reader_asks_bytes sum_bind_Inr intro: map_model_asks)

lemma convertClaudeRequest_asks: "mapped_to E n info \<Longrightarrow> reader_asks (JStr n) (Inr (convertClaudeRequest E info body))"
  by (simp add: convertClaudeRequest_def replaceModelIfNeeded_asks)

lemma anthropic_asks: "mapped_to E n info \<Longrightarrow> reader_asks (JStr n) (anthropic_ConvertRequest E info body)"
  by (simp add: anthropic_ConvertRequest_def convertClaudeRequest_asks renaming_asks)

lemma ali_asks: "mapped_to E n info \<Longrightarrow> reader_asks (JStr n) (ali_ConvertRequest E info body)"
  by (auto simp: ali_ConvertRequest_def convertClaudeRequest_asks reader_asks_bytes sum_bind_Inr intro: map_model_asks)

lemma zhipu_asks: "mapped_to E n info \<Longrightarrow> reader_asks (JStr n) (zhipu_ConvertRequest E info body)"
  by (auto simp: zhipu_ConvertRequest_def convertClaudeRequest_asks reader_asks_bytes sum_bind_Inr intro: map_model_asks)

lemma deepseek_params_model: "jlookup ''model'' (deepseek_injectThinkingParams info m) = jlookup ''model'' m"
  by (simp add: deepseek_injectThinkingParams_def deepseek_injectReasoningEffort_def jlookup_filter_other Let_def)

lemma map_model_works: "mapped_to E n info \<Longrightarrow> map_model E msg info j \<noteq> Inl e"
  by (cases j) (auto simp: map_model_def set_model_def mapped_to_def)

lemma deepseek_claude_asks: "mapped_to E n info \<Longrightarrow> asks_for (JStr n) (convertClaudeRequestForDeepSeek E info body)"
  by (cases "map_model E [] info body")
    (auto simp: convertClaudeRequestForDeepSeek_def map_model_works deepseek_params_model intro!: asks_for_in_object dest: map_model_asks)

lemma deepseek_asks: "mapped_to E n info \<Longrightarrow> reader_asks (JStr n) (deepseek_ConvertRequest E info body)"
  by (auto simp: deepseek_ConvertRequest_def deepseek_claude_asks reader_asks_bytes sum_bind_Inr deepseek_params_model
      intro!: asks_for_in_object injectStreamOptions_asks dest: map_model_asks)

lemma xai_asks:
  assumes "mapped_to E n info"
  shows "reader_asks (JStr n) (xai_ConvertRequest E info body)"
proof -
  have "asks_for (JStr n) j" if "(case a of JObj m \<Rightarrow> let (name, m1) = xai_fields info m in set_model E marshal_converted
      (if cm_IsModelMapped (ri_ChannelMeta info) then cm_UpstreamModelName (ri_ChannelMeta info) else name) (JObj m1)
    | _ \<Rightarrow> Inr a) = Inr j" for a j
    using that assms by (cases a) (auto simp: mapped_to_def asks_for_def set_model_def split: prod.splits)
  then show ?thesis by (auto simp: xai_ConvertRequest_def reader_asks_bytes sum_bind_Inr)
qed

lemma siliconflow_moves: "jlookup ''model'' (move_field ''n'' ''batch_size'' (move_field ''size'' ''image_size'' m)) = jlookup ''model'' m"
  by (simp add: move_field_def jlookup_filter_other split: option.split)

lemma siliconflow_asks: "mapped_to E n info \<Longrightarrow> reader_asks (JStr n) (siliconflow_ConvertRequest E info body)"
  by (auto simp: siliconflow_ConvertRequest_def reader_asks_bytes sum_bind_Inr siliconflow_moves
      intro!: asks_for_in_object dest: map_model_asks)

lemma plain_asks:
  assumes "mapped_to E n info"
  shows "reader_asks (JStr n) (cloudflare_ConvertRequest E info body)" "reader_asks (JStr n) (submodel_ConvertRequest E info body)"
    "reader_asks (JStr n) (codex_ConvertRequest E info body)" "reader_asks (JStr n) (jimeng_ConvertRequest E info body)"
  using assms by (auto simp: cloudflare_ConvertRequest_def submodel_ConvertRequest_def codex_ConvertRequest_def codex_only_def jimeng_ConvertRequest_def
      reader_asks_bytes sum_bind_Inr intro: map_model_asks split: if_splits)

lemma baidu_asks:
  assumes "mapped_to E n info" "raw_name E (TrimSuffix n ''-search'') = Some v"
  shows "reader_asks v (baidu_ConvertRequest E info body)"
  using assms by (cases body) (auto simp: baidu_ConvertRequest_def reader_asks_bytes mapped_to_def Let_def TrimSuffix_def set_model_def
      asks_for_def split: if_splits)

lemma with_options_model: "jlookup ''model'' (with_options m) = None"
  by (simp add: with_options_def jlookup_Cons)

lemma ollama_made:
  assumes "mapped_to E n info"
  shows "convertChatRequest E info m = Inr j \<Longrightarrow> asks_for (JStr n) j"
    "convertCompletionsRequest info m = Inr j \<Longrightarrow> asks_for (JStr n) j"
    "convertEmbeddingRequest info m = Inr j \<Longrightarrow> asks_for (JStr n) j"
  using assms by (auto simp: convertChatRequest_def convertCompletionsRequest_def convertEmbeddingRequest_def upstream_model_def
      mapped_to_def with_options_model jlookup_Cons split: option.splits)

lemma ollama_asks:
  assumes "mapped_to E n info"
  shows "reader_asks (JStr n) (ollama_ConvertRequest E info body)"
proof -
  have "asks_for (JStr n) j" if "map_sum f (\<lambda>x. x) (case dec_object a of None \<Rightarrow> Inl e
     | Some m \<Rightarrow> if ri_RelayMode info = RelayModeCompletions then convertCompletionsRequest info m
         else if ri_RelayMode info = RelayModeEmbeddings then convertEmbeddingRequest info m else convertChatRequest E info m) = Inr j" for a f e j
  proof -
    have *: "map_sum f (\<lambda>x. x) x = Inr y \<longleftrightarrow> x = Inr y" for x :: "go_err + json" and y by (cases x) auto
    show ?thesis using that unfolding * by (cases "dec_object a") (auto dest: ollama_made [OF assms] split: if_splits)
  qed
  then show ?thesis by (auto simp: ollama_ConvertRequest_def reader_asks_bytes sum_bind_Inr)
qed

lemma minimax_asks:
  assumes "mapped_to E n info" "n \<noteq> []"
  shows "reader_asks (JStr n) (minimax_ConvertRequest E info body)"
proof (cases "ri_RelayMode info = RelayModeImagesGenerations")
  case True
  have "jlookup ''model'' (doc [(True, ''model'', JStr n), (True, ''prompt'', a), str ''aspect_ratio'' b, str ''response_format'' c,
    num ''n'' d]) = Some (JStr n)" for a b c d
    by (subst jlookup_doc) (simp_all add: str_def num_def)
  then show ?thesis using assms True
    by (auto simp: minimax_ConvertRequest_def minimax_convertImageRequest_def parse_image_request_def reader_asks_def reader_payload_def
        mapped_to_def split: option.splits)
qed (simp add: minimax_ConvertRequest_def anthropic_asks assms)

lemma vertex_asks: "\<lbrakk>mapped_to E n info; vertex_claude info\<rbrakk> \<Longrightarrow> reader_asks (JStr n) (vertex_ConvertRequest E info body)"
  by (simp add: vertex_ConvertRequest_def claude_asks)

lemmas adaptors_ask = openai_asks claude_asks renaming_asks anthropic_asks ali_asks zhipu_asks deepseek_asks xai_asks siliconflow_asks
  plain_asks ollama_asks minimax_asks vertex_asks

text \<open>Property C29.  On a channel with its own name for the model, every adaptor whose request names a model asks for
  that name, whatever the body of the client says and whatever format it is converted from.  Requests of speech and of
  rankings at OpenAI channels are the exception.\<close>

theorem mapped_name_is_sent:
  assumes "mapped_to (pv_conv P) name info" "name \<noteq> []" "names_model k info"
    "raw_name (pv_conv P) (sent_name k name) = Some (JStr (sent_name k name))"
    "ad_ConvertRequest (adaptor_impl P k) info body = Inr r" "reader_payload r = Doc (JObj m)"
  shows "jlookup ''model'' m = Some (JStr (sent_name k name))"
proof -
  have "reader_asks (JStr (sent_name k name)) (ad_ConvertRequest (adaptor_impl P k) info body)"
    using assms(1-4) by (cases k) (simp_all add: adaptor_defs adaptors_ask baidu_asks)
  then show ?thesis using assms(5,6) by (simp add: reader_asks_def)
qed

section \<open>Clients of Claude at providers with an endpoint of their own\<close>

definition anthropic_kinds :: "adaptor_kind set" where
  "anthropic_kinds = {AdMoonshot, AdVolcengine, AdAli, AdDeepSeek, AdZhipu, AdMiniMax}"

text \<open>What the relay hands an adaptor for a client of Claude.\<close>

definition claude_call :: "RelayRequest \<Rightarrow> bool \<Rightarrow> string \<Rightarrow> int \<Rightarrow> ChannelCandidate \<Rightarrow> string \<Rightarrow> RelayInfo" where
  "claude_call req stream code now picked key = relay_info req stream code RelayFormatClaude now picked key"

lemma claude_call_fields:
  "ri_RelayMode (claude_call req stream code now picked key) = RelayModeChatCompletions"
  "ri_OriginModelName (claude_call req stream code now picked key) = code"
  "cm_BaseURL (ri_ChannelMeta (claude_call req stream code now picked key)) = cc_BaseURL picked"
  "cm_UpstreamModelName (ri_ChannelMeta (claude_call req stream code now picked key)) = cc_UpstreamModelName picked"
  "cm_IsModelMapped (ri_ChannelMeta (claude_call req stream code now picked key)) \<longleftrightarrow> cc_UpstreamModelName picked \<noteq> []"
  by (simp_all add: claude_call_def relay_info_def)

text \<open>The endpoint of Claude's messages at a provider, and that of its chats.\<close>

fun messages_path :: "adaptor_kind \<Rightarrow> string" where
  "messages_path AdVolcengine = ''/api/coding/v1/messages''"
| "messages_path AdAli = ''/apps/anthropic/v1/messages''"
| "messages_path AdZhipu = ''/api/anthropic/v1/messages''"
| "messages_path k = ''/anthropic/v1/messages''"

fun chat_path :: "adaptor_kind \<Rightarrow> string \<Rightarrow> string" where
  "chat_path AdVolcengine name = (if HasPrefix name ''bot-'' then ''/api/v3/bots/chat/completions'' else ''/api/v3/chat/completions'')"
| "chat_path AdAli name = ''/compatible-mode/v1/chat/completions''"
| "chat_path AdZhipu name = ''/api/paas/v4/chat/completions''"
| "chat_path AdMiniMax name = ''/v1/text/chatcompletion_v2''"
| "chat_path k name = ''/v1/chat/completions''"

lemma in_object_id: "in_object (\<lambda>m. m) j = j"
  by (cases j) (simp_all add: in_object_def)

lemma map_or_keep: "(case map_model E msg info j of Inl e \<Rightarrow> j | Inr j' \<Rightarrow> j') = replaceModelIfNeeded E info j"
  by (cases j) (auto simp: map_model_def set_model_def replaceModelIfNeeded_def in_object_def split: option.split)

lemma deepseek_keeps_claude:
  assumes "\<not> ri_ThinkingDisabled info" "\<not> ri_ThinkingEnabled info" "ri_ReasoningEffort info = []"
  shows "convertClaudeRequestForDeepSeek E info body = replaceModelIfNeeded E info body"
proof -
  have "deepseek_injectThinkingParams info = (\<lambda>m. m)" using assms by (simp add: deepseek_injectThinkingParams_def fun_eq_iff)
  then show ?thesis
    using map_or_keep [of body E "[]" info]
    by (cases "map_model E [] info body") (simp_all add: convertClaudeRequestForDeepSeek_def in_object_id)
qed

lemmas anthropic_urls = moonshot_GetRequestURL_def volcengine_GetRequestURL_def ali_GetRequestURL_def deepseek_GetRequestURL_def
  zhipu_GetRequestURL_def minimax_GetRequestURL_def

lemma anthropic_converts:
  assumes "k \<in> anthropic_kinds"
  shows "ad_ConvertRequest (adaptor_impl P k) (claude_call req stream code now picked key) body =
    Inr (BytesReader (Doc (replaceModelIfNeeded (pv_conv P) (claude_call req stream code now picked key) body)))"
  using assms by (auto simp: anthropic_kinds_def adaptor_defs anthropic_ConvertRequest_def convertClaudeRequest_def ali_ConvertRequest_def
      deepseek_ConvertRequest_def zhipu_ConvertRequest_def minimax_ConvertRequest_def claude_call_def relay_info_def deepseek_keeps_claude)

lemma anthropic_answers:
  assumes "k \<in> anthropic_kinds"
  shows "ad_DoResponse (adaptor_impl P k) (claude_call req stream code now picked key) r =
    claude_DoResponse (pv_conv P) (claude_call req stream code now picked key) r"
  using assms by (auto simp: anthropic_kinds_def adaptor_defs claude_or_openai_def minimax_DoResponse_def claude_call_def relay_info_def GetOriginalClientFormat_def
      RelayFormatClaude_def)

lemma anthropic_endpoint:
  assumes "k \<in> anthropic_kinds" "ri_RelayMode info = RelayModeClaudeMessages"
  shows "provider_GetRequestURL P k info = Inr (TrimSuffix (cm_BaseURL (ri_ChannelMeta info)) ''/'' @ messages_path k)"
  using assms by (auto simp: anthropic_kinds_def anthropic_urls by_mode_def)

lemma chat_endpoint:
  assumes "k \<in> anthropic_kinds" "ri_RelayMode info = RelayModeChatCompletions"
  shows "provider_GetRequestURL P k info = Inr (TrimSuffix (cm_BaseURL (ri_ChannelMeta info)) ''/'' @ chat_path k
    (if cm_IsModelMapped (ri_ChannelMeta info) then cm_UpstreamModelName (ri_ChannelMeta info) else ri_OriginModelName info))"
  using assms by (auto simp: anthropic_kinds_def anthropic_urls by_mode_def)

text \<open>Property C30.  Six providers have an endpoint for Claude's messages, and their adaptors hand the body of a Claude
  client on untranslated and read the answer as one of Claude's.  But the relay calls every adaptor for a chat, so
  the body goes to the endpoint of OpenAI's chats.\<close>

theorem claude_clients_are_misrouted:
  assumes "k \<in> anthropic_kinds"
  shows "ad_ConvertRequest (adaptor_impl P k) (claude_call req stream code now picked key) body =
      Inr (BytesReader (Doc (replaceModelIfNeeded (pv_conv P) (claude_call req stream code now picked key) body))) \<and>
    ad_DoResponse (adaptor_impl P k) (claude_call req stream code now picked key) r =
      claude_DoResponse (pv_conv P) (claude_call req stream code now picked key) r \<and>
    provider_GetRequestURL P k (claude_call req stream code now picked key) = Inr (TrimSuffix (cc_BaseURL picked) ''/'' @
      chat_path k (if cc_UpstreamModelName picked = [] then code else cc_UpstreamModelName picked)) \<and>
    provider_GetRequestURL P k ((claude_call req stream code now picked key)\<lparr>ri_RelayMode := RelayModeClaudeMessages\<rparr>) =
      Inr (TrimSuffix (cc_BaseURL picked) ''/'' @ messages_path k)"
  using chat_endpoint [OF assms(1), of "claude_call req stream code now picked key" P]
    anthropic_endpoint [OF assms(1), of "(claude_call req stream code now picked key)\<lparr>ri_RelayMode := RelayModeClaudeMessages\<rparr>" P]
  by (simp add: claude_call_fields anthropic_converts [OF assms(1)] anthropic_answers [OF assms(1)])

section \<open>Witnesses\<close>

definition demo_conv :: conv_env where
  "demo_conv = \<lparr>ce_text = (\<lambda>j. []), ce_parse = (\<lambda>s. if s = CHR 0x22 # ''um'' @ [CHR 0x22] then Some (JStr ''um'') else None),
     ce_show = (\<lambda>j. []), ce_addr = (\<lambda>s. []), ce_trunc = (\<lambda>j. 0)\<rparr>"

definition demo_providers :: "json providers" where
  "demo_providers = \<lparr>pv_conv = demo_conv, pv_ov = flat_lib,
     pv_http = \<lparr>hl_NewRequest = (\<lambda>url. None), hl_Do = (\<lambda>q. Inl (ErrExt ''connection refused''))\<rparr>, pv_minutes = (\<lambda>j. None),
     pv_tc3 = \<lparr>tc_sha256 = (\<lambda>s. s), tc_hmac = (\<lambda>k s. s), tc_date = (\<lambda>n. ''2026-01-01'')\<rparr>, pv_now = (0, 0),
     pv_token = (\<lambda>k. Inl (ErrNew ''no account''))\<rparr>"

definition demo_request :: RelayRequest where
  "demo_request = \<lparr>rq_UserID = 1, rq_ApiKeyID = 1, rq_RequestID = ''r'', rq_Path = ''/v1/messages'', rq_RawBody = Some (JObj []),
     rq_IsStream = False, rq_Capability = ''chat''\<rparr>"

theorem mapped_name_is_sent_witness:
  "ad_ConvertRequest (adaptor_impl demo_providers AdMistral) (demo_info [] []) (JObj [(''model'', JStr ''m'')]) =
     Inr (BytesReader (Doc (JObj [(''model'', JStr ''um'')]))) \<and>
   jlookup ''model'' [(''model'', JStr ''um'')] = Some (JStr ''um'')"
proof -
  have m: "mapped_to demo_conv ''um'' (demo_info [] [])" by (simp add: mapped_to_def demo_info_def raw_name_def demo_conv_def)
  have c: "ad_ConvertRequest (adaptor_impl demo_providers AdMistral) (demo_info [] []) (JObj [(''model'', JStr ''m'')]) =
     Inr (BytesReader (Doc (JObj [(''model'', JStr ''um'')])))"
    by (simp add: adaptor_defs renaming_ConvertRequest_def openai_body_def demo_info_def RelayFormatOpenAI_def sum_bind_def map_model_def
        set_model_def raw_name_def demo_providers_def demo_conv_def as_bytes_def put_field_def)
  show ?thesis
    using mapped_name_is_sent [of demo_providers "''um''" "demo_info [] []" AdMistral "JObj [(''model'', JStr ''m'')]"] m c
    by (simp add: demo_providers_def mapped_to_def reader_payload_def)
qed

definition demo_candidate :: ChannelCandidate where
  "demo_candidate = \<lparr>cc_ChannelID = 1, cc_ChannelName = ''c'', cc_BaseURL = ''https://api.moonshot.cn/'', cc_Priority = 0, cc_Weight = 1,
     cc_HealthScore = 100, cc_ModelKeyID = 1, cc_KeyModelID = 1, cc_UpstreamModelName = [], cc_IsModelMapped = False, cc_ApiKey = ''k'',
     cc_ProviderUserID = 1, cc_ModelSpecID = 1, cc_ProtocolKey = ''moonshot'', cc_ProtocolsJSON = None, cc_ChannelType = 0,
     cc_ProviderShareBps = 0, cc_CacheHitPricePer1K = 0, cc_CacheMissPricePer1K = 0, cc_OutputPricePer1K = 0\<rparr>"

text \<open>The embeddings of one user and the chat of another at an OpenAI channel, and two requests of the same user at Coze's.\<close>

definition other_request :: RelayRequest where
  "other_request = demo_request\<lparr>rq_UserID := 2, rq_ApiKeyID := 7, rq_RequestID := ''s'', rq_Path := ''/v1/embeddings''\<rparr>"

theorem upstream_request_is_anonymous_witness:
  "rq_UserID demo_request \<noteq> rq_UserID other_request \<and>
   sent_upstream demo_providers AdOpenAI (relay_info demo_request False ''m'' ''openai'' 1 demo_candidate ''k'') 0 (JObj []) =
     sent_upstream demo_providers AdOpenAI (relay_info other_request False ''m'' ''openai'' 5 demo_candidate ''k'') 2 (JObj []) \<and>
   sent_upstream demo_providers AdCoze (relay_info demo_request False ''m'' ''openai'' 1 demo_candidate ''k'') 0 (JObj []) =
     sent_upstream demo_providers AdCoze (relay_info (other_request\<lparr>rq_UserID := 1\<rparr>) False ''m'' ''openai'' 5 demo_candidate ''k'') 2 (JObj [])"
  using upstream_request_is_anonymous [of AdOpenAI demo_request other_request demo_providers False "''m''" "''openai''" 1 demo_candidate "''k''" 0 "JObj []" 5 2]
    upstream_request_is_anonymous [of AdCoze demo_request "other_request\<lparr>rq_UserID := 1\<rparr>" demo_providers False "''m''" "''openai''" 1 demo_candidate "''k''" 0 "JObj []" 5 2]
  by (simp add: demo_request_def other_request_def)

theorem claude_clients_are_misrouted_witness:
  "provider_GetRequestURL demo_providers AdMoonshot (claude_call demo_request False ''kimi'' 0 demo_candidate ''k'') =
    Inr ''https://api.moonshot.cn/v1/chat/completions''"
  using claude_clients_are_misrouted [of AdMoonshot demo_providers demo_request False "''kimi''" 0 demo_candidate "''k''"]
  by (simp add: anthropic_kinds_def demo_candidate_def TrimSuffix_def HasSuffix_def)

end
