(* ===== verification/RequestHelpers.thy ===== *)
theory RequestHelpers
  imports Compatible
begin

text \<open>
  Helpers on the body of a request: the fields a channel does not let through
  (\<^verbatim>\<open>relay/helper/sanitize.go\<close>), the system prompt of a channel
  (\<^verbatim>\<open>relay/helper/system_prompt.go\<close>) and the hash of a request
  (\<^verbatim>\<open>relay/common/cache_hash.go\<close>).  Nothing but tests calls them at this commit.  A null body,
  on which setting a field panics, is left alone.
\<close>

section \<open>Fields that are not let through\<close>

definition drop_field :: "bool \<Rightarrow> string \<Rightarrow> (string \<times> json) list \<Rightarrow> (string \<times> json) list" where
  "drop_field c k m = (if c then filter (\<lambda>x. fst x \<noteq> k) m else m)"

definition SanitizeFields :: "ChannelSettings \<Rightarrow> json \<Rightarrow> json" where
  "SanitizeFields s body =
     (if cs_PassThroughBodyEnabled s then body
      else in_object (\<lambda>m. drop_field (\<not> cs_AllowSafetyIdentifier s) ''safety_identifier'' (drop_field (cs_DisableStore s) ''store''
        (drop_field (\<not> cs_AllowSpeed s) ''speed'' (drop_field (\<not> cs_AllowInferenceGeo s) ''inference_geo''
          (drop_field (\<not> cs_AllowServiceTier s) ''service_tier'' m))))) body)"

section \<open>The system prompt of a channel\<close>

definition system_message :: "string \<Rightarrow> json" where
  "system_message prompt = JObj [(''content'', JStr prompt), (''role'', JStr ''system'')]"

definition joined :: "string \<Rightarrow> string \<Rightarrow> string" where
  "joined prompt s = prompt @ ''\<newline>'' @ s"

text \<open>Of a system message that is kept, content that is no text is replaced.\<close>

definition with_prompt :: "bool \<Rightarrow> string \<Rightarrow> json list \<Rightarrow> json list" where
  "with_prompt override prompt ms = (case ms of [] \<Rightarrow> [system_message prompt]
     | JObj first # rest \<Rightarrow>
         if jlookup ''role'' first \<noteq> Some (JStr ''system'') then system_message prompt # ms
         else if override then system_message prompt # rest
         else JObj (put_field ''content'' (JStr (case jlookup ''content'' first of Some (JStr c) \<Rightarrow> joined prompt c | _ \<Rightarrow> prompt)) first) # rest
     | _ # _ \<Rightarrow> system_message prompt # ms)"

definition injectSystemPromptOpenAI :: "string \<Rightarrow> bool \<Rightarrow> json \<Rightarrow> json" where
  "injectSystemPromptOpenAI prompt override = in_object (\<lambda>m. case jlookup ''messages'' m of
     Some JNull \<Rightarrow> put_field ''messages'' (JArr (with_prompt override prompt [])) m
   | Some (JArr ms) \<Rightarrow> put_field ''messages'' (JArr (with_prompt override prompt ms)) m
   | _ \<Rightarrow> m)"

definition text_block :: "string \<Rightarrow> json" where
  "text_block s = JObj [(''text'', JStr s), (''type'', JStr ''text'')]"

definition prependClaudeSystem :: "json \<Rightarrow> string \<Rightarrow> json" where
  "prependClaudeSystem system prompt = (case system of JStr s \<Rightarrow> JStr (joined prompt s) | JNull \<Rightarrow> JStr (joined prompt [])
     | JArr bs \<Rightarrow> if list_all (\<lambda>b. dec_object b \<noteq> None) bs then JArr (text_block (joined prompt []) # bs) else JStr prompt
     | _ \<Rightarrow> JStr prompt)"

definition injectSystemPromptClaude :: "string \<Rightarrow> bool \<Rightarrow> json \<Rightarrow> json" where
  "injectSystemPromptClaude prompt override = in_object (\<lambda>m. put_field ''system'' (case jlookup ''system'' m of
     None \<Rightarrow> JStr prompt | Some s \<Rightarrow> if override then JStr prompt else prependClaudeSystem s prompt) m)"

definition marshalGeminiSystemInstruction :: "string \<Rightarrow> json" where
  "marshalGeminiSystemInstruction prompt = JObj [(''parts'', JArr [JObj [(''text'', JStr prompt)]])]"

definition prependGeminiSystemInstruction :: "json \<Rightarrow> string \<Rightarrow> json" where
  "prependGeminiSystemInstruction instr prompt =
     (let fresh = marshalGeminiSystemInstruction prompt; front = JObj [(''text'', JStr (joined prompt []))] in
      case instr of JObj m \<Rightarrow> (case jlookup ''parts'' m of
          Some JNull \<Rightarrow> JObj (put_field ''parts'' (JArr [front]) m)
        | Some (JArr ps) \<Rightarrow> if list_all (\<lambda>p. dec_object p \<noteq> None) ps then JObj (put_field ''parts'' (JArr (front # ps)) m) else fresh
        | _ \<Rightarrow> fresh)
      | _ \<Rightarrow> fresh)"

definition injectSystemPromptGemini :: "string \<Rightarrow> bool \<Rightarrow> json \<Rightarrow> json" where
  "injectSystemPromptGemini prompt override = in_object (\<lambda>m. put_field ''systemInstruction'' (case jlookup ''systemInstruction'' m of
     None \<Rightarrow> marshalGeminiSystemInstruction prompt
   | Some i \<Rightarrow> if override then marshalGeminiSystemInstruction prompt else prependGeminiSystemInstruction i prompt) m)"

definition providerNativeFormat :: "int \<Rightarrow> string" where
  "providerNativeFormat providerType = (if providerType = provider_code ProviderClaude then RelayFormatClaude
     else if providerType = provider_code ProviderGemini then RelayFormatGemini else RelayFormatOpenAI)"

definition InjectSystemPrompt :: "RelayInfo \<Rightarrow> json \<Rightarrow> json" where
  "InjectSystemPrompt info body =
     (let s = cm_Settings (ri_ChannelMeta info); prompt = cs_SystemPrompt s; override = cs_SystemPromptOverride s;
          native = providerNativeFormat (cm_ChannelType (ri_ChannelMeta info)) in
      if prompt = [] then body
      else if native = RelayFormatClaude then injectSystemPromptClaude prompt override body
      else if native = RelayFormatGemini then injectSystemPromptGemini prompt override body
      else injectSystemPromptOpenAI prompt override body)"

section \<open>The hash of a request\<close>

text \<open>All keys of the map are deleted, those marked to be kept as well.\<close>

definition excludeCacheFields :: "(string \<times> bool) list" where
  "excludeCacheFields = [(''stream'', True), (''seed'', True), (''user'', True), (''request_id'', True), (''top_logprobs'', True),
     (''logprobs'', True), (''n'', True), (''frequency_penalty'', False), (''presence_penalty'', False), (''temperature'', False),
     (''max_tokens'', False), (''max_completion_tokens'', False)]"

definition hashed_fields :: "(string \<times> json) list \<Rightarrow> (string \<times> json) list" where
  "hashed_fields m = filter (\<lambda>x. fst x \<notin> fst ` set excludeCacheFields) m"

definition sorted_body :: "conv_env \<Rightarrow> (string \<times> json) list \<Rightarrow> string" where
  "sorted_body E m = Join (map (\<lambda>k. ce_text E (JStr k) @ '':'' @ (case jlookup k m of None \<Rightarrow> [] | Some v \<Rightarrow> ce_text E v))
     (sort (remdups (map fst m)))) '',''"

text \<open>\<open>sha\<close> is SHA-256, \<open>body\<close> the bytes of the request.\<close>

definition ComputeCacheHash :: "conv_env \<Rightarrow> (string \<Rightarrow> string) \<Rightarrow> string \<Rightarrow> string \<Rightarrow> string" where
  "ComputeCacheHash E sha body modelName = (case Option.bind (ce_parse E body) dec_object of
     None \<Rightarrow> hex_encode (sha (modelName @ body))
   | Some m \<Rightarrow> hex_encode (sha (modelName @ sorted_body E (hashed_fields m))))"

section \<open>What they do\<close>

lemma jlookup_filter_same: "jlookup k (filter (\<lambda>x. fst x \<noteq> k) m) = None"
  by (induction m) (auto simp: jlookup_Cons)

lemma jlookup_drop_field: "jlookup k (drop_field c k' m) = (if c \<and> k = k' then None else jlookup k m)"
  by (auto simp: drop_field_def jlookup_filter_same jlookup_filter_other)

text \<open>What is not allowed is gone, everything else stays.\<close>

lemma SanitizeFields_removes:
  assumes "SanitizeFields s (JObj m) = JObj m'" "\<not> cs_PassThroughBodyEnabled s"
  shows "jlookup k m' = (if (k = ''service_tier'' \<and> \<not> cs_AllowServiceTier s) \<or> (k = ''inference_geo'' \<and> \<not> cs_AllowInferenceGeo s) \<or>
      (k = ''speed'' \<and> \<not> cs_AllowSpeed s) \<or> (k = ''store'' \<and> cs_DisableStore s) \<or>
      (k = ''safety_identifier'' \<and> \<not> cs_AllowSafetyIdentifier s) then None else jlookup k m)"
  using assms by (auto simp: SanitizeFields_def in_object_def jlookup_drop_field)

lemma SanitizeFields_idem: "SanitizeFields s (SanitizeFields s body) = SanitizeFields s body"
  by (cases body) (auto simp: SanitizeFields_def in_object_def drop_field_def intro!: filter_cong)

text \<open>The conversation begins with the prompt of the channel, and no message is lost but the system message it replaces.\<close>

lemma with_prompt_first:
  "\<exists>first rest. with_prompt override prompt ms = JObj first # rest \<and> jlookup ''role'' first = Some (JStr ''system'') \<and>
     (\<exists>s. jlookup ''content'' first = Some (JStr (prompt @ s))) \<and> (rest = ms \<or> rest = tl ms)"
proof -
  have new: "\<exists>first. system_message prompt = JObj first \<and> jlookup ''role'' first = Some (JStr ''system'') \<and>
      (\<exists>s. jlookup ''content'' first = Some (JStr (prompt @ s)))"
    by (auto simp: system_message_def jlookup_Cons)
  have kept: "\<exists>s. (case c of Some (JStr t) \<Rightarrow> joined prompt t | _ \<Rightarrow> prompt) = prompt @ s" for c
    by (auto simp: joined_def split: option.split json.split)
  show ?thesis
  proof (cases ms)
    case (Cons a rest)
    then show ?thesis using new kept by (cases a) (auto simp: with_prompt_def)
  qed (use new in \<open>auto simp: with_prompt_def\<close>)
qed

text \<open>Requests that differ in the temperature, the limits or the penalties have one hash: the fields marked to be kept
  are left out, too.\<close>

lemma hash_ignores_sampling:
  assumes "ce_parse E b = Some (JObj m)" "ce_parse E b' = Some (JObj m')"
    "filter (\<lambda>x. fst x \<noteq> ''temperature'') m = filter (\<lambda>x. fst x \<noteq> ''temperature'') m'"
  shows "ComputeCacheHash E sha b name = ComputeCacheHash E sha b' name"
proof -
  have "hashed_fields m = hashed_fields (filter (\<lambda>x. fst x \<noteq> ''temperature'') m)" for m
    unfolding hashed_fields_def filter_filter by (rule filter_cong) (auto simp: excludeCacheFields_def)
  then have "hashed_fields m = hashed_fields m'" using assms(3) by metis
  then show ?thesis using assms(1,2) by (simp add: ComputeCacheHash_def)
qed

end
