(* ===== verification/Spec2Isabelle.thy ===== *)
theory Spec2Isabelle
  imports RelayCommon Scheduler OverrideClaims SettlementClaims AccessClaims AdminApi GeminiClaims ResponsesClaims
    InboundClaims GeminiStreams AdaptorClaims RequestHelpers
begin

text \<open>
  \<^bold>\<open>The TokenFlux server, modelled and verified.\<close>

  The server sells calls to large language models.  A client's request enters the gateway with an API
  key; the relay (\<^verbatim>\<open>server/internal/relay/handler\<close>) finds a channel (a provider's key bound
  to a model), an adaptor turns the request into the provider's format and sends it, and turns the answer
  into the client's; the tokens used are priced and one settlement task goes on a Redis queue.  Workers
  take tasks off the queue, record the usage, charge the consumer and note what the provider is owed.  A
  payout job pays the matured notes.  Money comes in through payment orders, which the notifications of
  the payment providers confirm.  Every movement of credits ends as balanced entries of a double-entry
  journal.  Users, providers and administrators work through controllers behind sessions.

  \<^bold>\<open>Theories and source files\<close> (paths under \<^verbatim>\<open>server/internal\<close>).

  \<^item> Prelude: int64, error values, the effect type (state to error or value, and new state), and the
    calculi over it (\<open>ok_simps\<close>, \<open>pres\<close>, \<open>frame\<close>, \<open>reads\<close>, \<open>keep\<close>, \<open>run\<close>).  Store: tables as lists of
    rows, the ORM's select, insert, update, transactions.  GoStrings: package strings.  Json: JSON
    documents and decoding.
  \<^item> Money.  SysConfig: \<^verbatim>\<open>logic/systemconfig/config.go\<close>.
    Ledger: \<^verbatim>\<open>logic/settlement/ledger.go\<close>; Settlement: \<^verbatim>\<open>logic/settlement/settlement.go\<close>;
    SettlementFacts, SettlementProps and SettlementClaims hold its journal invariant, the
    exactly-once invariant and the properties.
    Billing, BillingClaims: \<^verbatim>\<open>logic/billing/billing.go\<close>.  Payment, PaymentProps, PaymentClaims:
    \<^verbatim>\<open>logic/payment/payment.go\<close>.  Backoffice: \<^verbatim>\<open>logic/wallet\<close>, \<^verbatim>\<open>logic/invoice\<close>,
    \<^verbatim>\<open>logic/developer\<close>.
  \<^item> The relay.  RelayConst: \<^verbatim>\<open>relay/constant\<close>.  RelayCommon, RelayData: \<^verbatim>\<open>relay/common\<close> and
    parts of \<^verbatim>\<open>relay/helper\<close>.  Scheduler: \<^verbatim>\<open>relay/scheduler\<close>.  Formats: detection of request
    formats and token usage.  LlmTables: the tables of \<^verbatim>\<open>migrations/0004_llm.sql\<close>.
    Handler, HandlerClaims: \<^verbatim>\<open>relay/handler/handler.go\<close>.  Queue, QueueProps, QueueClaims,
    QueueBooks: \<^verbatim>\<open>relay/handler/queue.go\<close>, \<^verbatim>\<open>queue_redis.go\<close>.  Override, OverrideClaims:
    \<^verbatim>\<open>relay/override\<close>.
  \<^item> Administration and access.  LlmAdmin, LlmRuntime: \<^verbatim>\<open>logic/llm\<close>; GatewayClaims and
    GatewayBooks put administration, traffic, workers and payouts together as the steps of one system.
    Identity: \<^verbatim>\<open>logic/identity\<close>; Access: \<^verbatim>\<open>middleware\<close> and
    \<^verbatim>\<open>controller/gateway\<close>; Api, AdminApi, Catalog: \<^verbatim>\<open>controller/api\<close>;
    AccessClaims: who gets in, and what they can do.
  \<^item> Formats of requests.  ChatTypes, ClaudeTypes, GeminiTypes, ResponseTypes: \<^verbatim>\<open>relay/dto\<close>.
    ClaudeConv, GeminiConv, ResponsesConv: the converters of \<^verbatim>\<open>relay/channel/openai\<close>,
    \<^verbatim>\<open>claude\<close> and \<^verbatim>\<open>gemini\<close> (\<^verbatim>\<open>converter.go\<close>); ChatRoundtrip: what is
    written is read back; ConvClaims, GeminiClaims, ResponsesClaims: what of a conversation arrives.
  \<^item> Answers, whole and streamed.  ClaudeStream (\<^verbatim>\<open>openai/claude_response.go\<close>,
    \<^verbatim>\<open>claude/response.go\<close>), ResponsesStream (\<^verbatim>\<open>openai/converter.go\<close>), ResponsesInbound
    (\<^verbatim>\<open>openai/responses.go\<close>), GeminiAnswers (\<^verbatim>\<open>openai/gemini_response.go\<close>), GeminiChannel
    (\<^verbatim>\<open>gemini/response.go\<close>), with the properties in StreamClaims, ResponsesClaims, InboundClaims
    and GeminiStreams.
  \<^item> Adaptors (\<^verbatim>\<open>relay/channel\<close>).  Upstream: what they share, and the data a scanned stream hands
    on.  OpenAIAdaptor; Compatible: the providers close to OpenAI's interface, each a table of paths,
    headers and fields (Mistral, xAI, Xunfei, AWS, Cloudflare, SiliconFlow, Baidu, Submodel, Codex, Jimeng,
    Moonshot, Volcengine, Ali, DeepSeek, Zhipu, Tencent); Pictures: images of Gemini and MiniMax; Adaptors:
    Claude, Gemini, MiniMax, Vertex; Dialects: Ollama, Coze, Dify.  Providers makes of each the
    implementation the registry hands to the relay; Anonymity and AdaptorClaims state what holds for all of them.  RequestHelpers:
    fields that are not let through, system prompts and the hash of a request.

  \<^bold>\<open>State.\<close>  A database is a record of tables, extended from service to service (\<open>store\<close> by
  \<open>ledger_db\<close>, then \<open>settle_db\<close>, \<open>llm_db\<close>, \<open>gateway_db\<close> and so on), so that an operation of the ledger
  runs unchanged inside the queue's worker.  A row is a record with the columns of its migration.
  UNIQUE constraints make an insert fail.  A statement may also fail because of the driver: the field
  of scripted faults says which of the coming statements do, and every theorem holds for every
  script.  A transaction restores the tables when its body fails.  An operation runs to its end before
  the next one begins: what holds of every sequence of operations is stated of the reachable databases
  (PaymentProps, QueueBooks and GatewayClaims, whose steps are all writers of accounts, journal and settlement
  records, so that \<open>settled_exactly_once\<close> speaks of the whole gateway).  Two sessions at the same time are looked at
  where the code defends itself, with the optimistic lock of the accounts (\<open>no_lost_update\<close>), and where it does not:
  Settle is its reading of the record followed by \<open>settle_read\<close>, and a session put in between posts the record a
  second time (\<open>settle_race_posts_twice\<close>).  CreateRecharge is kept whole; its unique reference makes the second
  insert fail.  The handler of a stream is a loop over the lines read, each with whether the
  client is gone by then and the time; its state is a record with what was written so far.

  \<^bold>\<open>Numbers and text.\<close>  Go's int64 is an \<open>int\<close> wrapped by \<open>i64\<close> after every operation that can
  overflow; division truncates.  Strings are byte strings; ToLower and TrimSpace act on ASCII.
  A JSON document is its value, or \<open>None\<close> when the bytes are not JSON: the order of keys, repeated keys
  and the rounding of numbers are left out.  Where the code looks at the text of a document, prints
  a value with \<^verbatim>\<open>%v\<close> or prints a pointer, the texts are those of the parameter \<open>conv_env\<close>.
  Offsets of pages are taken as non-negative, as the controllers pass them.

  \<^bold>\<open>What is a parameter.\<close>  Code outside the repository is an argument of the definitions that use
  it: what upstream providers answer and the HTTP transport (\<open>http_lib\<close>, \<open>upstream\<close>), the payment
  SDKs, JSON paths and regular expressions, ciphers, digests, signatures and tokens, random numbers, sort.Slice,
  the clock, and the order in which Go walks a map.  Nothing is assumed of them except where a property
  names it.  The relay of Handler is parametric in the adaptors; Providers gives it the modelled ones.

  \<^bold>\<open>Lemmas.\<close>  The locales \<open>journal\<close>, \<open>settlement_broker\<close>, \<open>stickiness\<close> and \<open>unstable_sort\<close> state what
  a client relies on and are interpreted on the model's own operations.  For each service the development
  shows what every operation does on success and on failure, that it keeps the invariant of its
  tables, and that the tables of others are left alone; for the converters, which parts of a conversation
  arrive, in which order; for the streams, when the events keep to the protocol and when they break it, and that they
  carry exactly what was read; for the adaptors, what of a request goes upstream.  Anonymity shows function by
  function that a conversion does not look at the caller.  What a property says a text, an answer or a posting is
  is spelt out beside it, not taken from the functions it is about.

  \<^bold>\<open>Bounds.\<close>  Loops over lists are structural.  The worker's loop is bounded by the retries left in
  the queue (\<open>workers_drain_the_queue\<close> shows the bound is enough), the relay's retry loop by the
  configured number of attempts.  A search that may run for ever has no result then
  (\<open>replaceAllStr_returns\<close> says when).

  \<^bold>\<open>Not modelled.\<close>  Boot, migrations and configuration files; the node program (\<^verbatim>\<open>cmd/node\<close>);
  sockets, connection pools, the goroutines of the stream scanner (what they do to a stream, an idle timeout,
  a failed ping or a client that leaves, is part of the parameter \<open>upstream\<close>) and logging; the third-party
  tokenizer; the realtime WebSocket proxy; automatic timestamps and soft deletion of the ORM
  where no query reads them; StatsByModel, whose query PostgreSQL refuses.  A last line of a native stream
  without an end is taken as ended.  A panic of an adaptor is a value of the handler that panics, but no effect
  of the relay; that of a handler of notifications, which uses the client of the payment SDK without looking
  whether there is one, is an error of the notification and the answer 500.  The rules on the fields of an
  input (the \<^verbatim>\<open>v\<close> tags of \<^verbatim>\<open>model/dto\<close>) are modelled for the handlers of money (\<open>checked\<close> in Api); elsewhere
  the decoded input is any input or any error.
\<close>

end
